(* ===== verification/Prelude.thy ===== *)
theory Prelude
  imports Complex_Main "HOL-Library.Word"
begin

text \<open>
  What every component of the model shares.

  \<^item> The Go idioms: "scan a slice, change the first element that matches, break"
    (\<open>update_first\<close>), "scan a slice, cut the first element that matches" (\<open>remove_first\<close>), a map
    with the zero value for an absent key (\<open>map_get\<close>), truncating integer division
    (\<open>go_div\<close>), \<open>time.Time.Sub\<close> with its saturation (\<open>time_sub\<close>), and the outcome of one
    SQL statement (\<open>exec_result\<close>), which the model takes as an argument because the
    database engine is not part of the repository.
  \<^item> The named collections the component proofs pass to the simplifier.
  \<^item> The generic lemmas on lists and words the components share.

  Instants and durations are \<open>int\<close> counts of nanoseconds; the zero \<open>time.Time\<close> is 0.
\<close>

named_theorems frame_simps "fields an operation leaves alone"
named_theorems op_defs "definitions of operations, unfolded together"

type_synonym instant = int
type_synonym duration = int

datatype exec_result = DbErr string | DbOk nat

definition zero_time :: instant where
  "zero_time = 0"

definition time_sub :: "instant \<Rightarrow> instant \<Rightarrow> duration" where
  "time_sub a b = max (- (2 ^ 63)) (min (2 ^ 63 - 1) (a - b))"

abbreviation nano_second :: duration where
  "nano_second \<equiv> 1000000000"

definition go_div :: "int \<Rightarrow> int \<Rightarrow> int" where
  "go_div a b = sgn a * sgn b * (\<bar>a\<bar> div \<bar>b\<bar>)"

definition map_get :: "'v \<Rightarrow> ('k \<rightharpoonup> 'v) \<Rightarrow> 'k \<Rightarrow> 'v" where
  "map_get d m k = (case m k of None \<Rightarrow> d | Some v \<Rightarrow> v)"

fun update_first :: "('a \<Rightarrow> bool) \<Rightarrow> ('a \<Rightarrow> 'a) \<Rightarrow> 'a list \<Rightarrow> 'a list" where
  "update_first P f [] = []"
| "update_first P f (x # xs) = (if P x then f x # xs else x # update_first P f xs)"

fun remove_first :: "('a \<Rightarrow> bool) \<Rightarrow> 'a list \<Rightarrow> 'a list" where
  "remove_first P [] = []"
| "remove_first P (x # xs) = (if P x then xs else x # remove_first P xs)"

subsection \<open>Integers and time\<close>

lemma go_div_nonneg [simp]: "0 \<le> a \<Longrightarrow> 0 < b \<Longrightarrow> go_div a b = a div b"
  by (cases "a = 0") (auto simp: go_div_def sgn_if)

lemma time_sub_small: "- (2 ^ 63) \<le> a - b \<Longrightarrow> a - b < 2 ^ 63 \<Longrightarrow> time_sub a b = a - b"
  by (simp add: time_sub_def)

lemma time_sub_less: "c < 2 ^ 63 \<Longrightarrow> - (2 ^ 63) < c \<Longrightarrow> time_sub a b < c \<longleftrightarrow> a - b < c"
  by (auto simp: time_sub_def max_def min_def)

lemma map_get_upd [simp]: "map_get d (m(k \<mapsto> v)) k' = (if k' = k then v else map_get d m k')"
  by (simp add: map_get_def)

lemma map_get_del [simp]: "map_get d (m(k := None)) k' = (if k' = k then d else map_get d m k')"
  by (simp add: map_get_def)

lemma map_get_empty [simp]: "map_get d Map.empty k = d"
  by (simp add: map_get_def)

subsection \<open>Slices\<close>

lemma update_first_map:
  "(\<And>x. x \<in> set xs \<Longrightarrow> P x \<Longrightarrow> g (f x) = g x) \<Longrightarrow> map g (update_first P f xs) = map g xs"
  by (induction xs) auto

lemma length_update_first [simp]: "length (update_first P f xs) = length xs"
  by (induction xs) auto

lemma update_first_none: "\<forall>x \<in> set xs. \<not> P x \<Longrightarrow> update_first P f xs = xs"
  by (induction xs) auto

lemma remove_first_none: "\<forall>x \<in> set xs. \<not> P x \<Longrightarrow> remove_first P xs = xs"
  by (induction xs) auto

lemma set_remove_first_subset: "set (remove_first P xs) \<subseteq> set xs"
  by (induction xs) auto

lemma remove_first_distinct_key:
  "distinct (map g xs) \<Longrightarrow> remove_first (\<lambda>x. g x = k) xs = filter (\<lambda>x. g x \<noteq> k) xs"
proof (induction xs)
  case (Cons x xs)
  then show ?case
    by (auto simp: filter_id_conv intro!: sym[OF filter_True]) (metis image_eqI)+
qed simp

lemma find_Some_mem: "find P xs = Some x \<Longrightarrow> x \<in> set xs \<and> P x"
  by (induction xs) (auto split: if_splits)

lemma find_cong_set: "(\<And>x. x \<in> set xs \<Longrightarrow> P x = Q x) \<Longrightarrow> find P xs = find Q xs"
  by (induction xs) auto

lemma find_distinct_key:
  "distinct (map g xs) \<Longrightarrow> x \<in> set xs \<Longrightarrow> g x = k \<Longrightarrow> find (\<lambda>y. g y = k) xs = Some x"
  by (induction xs) (auto simp: image_iff)

lemma find_map_conv: "find P (map f xs) = map_option f (find (P \<circ> f) xs)"
  by (induction xs) auto

lemma filter_filter_comm: "filter P (filter Q xs) = filter Q (filter P xs)"
  by (simp add: conj_commute)

lemma nth_mod_mem: "xs \<noteq> [] \<Longrightarrow> xs ! (i mod length xs) \<in> set xs"
  by simp

lemma sum_list_map_if_distinct:
  "distinct (map g xs) \<Longrightarrow> x \<in> set xs \<Longrightarrow>
   sum_list (map (\<lambda>y. h y + (if g y = g x then c else (0::int))) xs) = sum_list (map h xs) + c"
proof (induction xs)
  case (Cons y ys)
  show ?case
  proof (cases "x = y")
    case True
    then have "\<forall>z \<in> set ys. g z \<noteq> g x"
      using Cons.prems(1) by (metis distinct.simps(2) image_eqI list.set_map list.simps(9))
    then have "sum_list (map (\<lambda>z. h z + (if g z = g x then c else 0)) ys) = sum_list (map h ys)"
      by (intro arg_cong[where f = sum_list] map_cong) auto
    then show ?thesis using True by simp
  next
    case False
    then have "x \<in> set ys" "g y \<noteq> g x"
      using Cons.prems by auto
    then show ?thesis using Cons by simp
  qed
qed simp

end
