(* ===== verification/GoText.thy ===== *)
theory GoText
  imports Prelude
begin

text \<open>
  The functions of Go's \<open>strings\<close> package the code uses, on byte strings (\<open>string\<close>,
  one \<open>char\<close> per byte, as a Go string). \<open>TrimSpace\<close>, \<open>ToUpper\<close> and \<open>ToLower\<close> are
  their ASCII behaviour: the bytes of a non-ASCII letter or space are left alone.
  The text of the code's Chinese messages is given by its UTF-8 bytes (\<open>utf8\<close>).
  The lemmas are the split/join round trip and what a trimmed field looks like.
\<close>

definition utf8 :: "nat list \<Rightarrow> string" where
  "utf8 ns = map char_of ns"

definition is_space :: "char \<Rightarrow> bool" where
  "is_space c \<longleftrightarrow> of_char c \<in> {9, 10, 11, 12, 13, 32 :: nat}"

definition trim_left :: "string \<Rightarrow> string" where
  "trim_left s = dropWhile is_space s"

definition trim_space :: "string \<Rightarrow> string" where
  "trim_space s = rev (dropWhile is_space (rev (trim_left s)))"

definition upper_char :: "char \<Rightarrow> char" where
  "upper_char c = (let n = of_char c :: nat in if 97 \<le> n \<and> n \<le> 122 then char_of (n - 32) else c)"

definition lower_char :: "char \<Rightarrow> char" where
  "lower_char c = (let n = of_char c :: nat in if 65 \<le> n \<and> n \<le> 90 then char_of (n + 32) else c)"

definition to_upper :: "string \<Rightarrow> string" where
  "to_upper s = map upper_char s"

definition to_lower :: "string \<Rightarrow> string" where
  "to_lower s = map lower_char s"

definition has_prefix :: "string \<Rightarrow> string \<Rightarrow> bool" where
  "has_prefix s p \<longleftrightarrow> take (length p) s = p"

definition has_suffix :: "string \<Rightarrow> string \<Rightarrow> bool" where
  "has_suffix s p \<longleftrightarrow> length p \<le> length s \<and> drop (length s - length p) s = p"

fun str_contains :: "string \<Rightarrow> string \<Rightarrow> bool" where
  "str_contains [] p = (p = [])"
| "str_contains (c # s) p = (has_prefix (c # s) p \<or> str_contains s p)"

fun split_char :: "char \<Rightarrow> string \<Rightarrow> string list" where
  "split_char c [] = [[]]"
| "split_char c (x # xs) =
     (if x = c then [] # split_char c xs
      else case split_char c xs of [] \<Rightarrow> [[x]] | p # ps \<Rightarrow> (x # p) # ps)"

fun join_with :: "string \<Rightarrow> string list \<Rightarrow> string" where
  "join_with sep [] = []"
| "join_with sep [s] = s"
| "join_with sep (s # t # ss) = s @ sep @ join_with sep (t # ss)"

subsection \<open>Splitting and joining\<close>

lemma split_char_ne [simp]: "split_char c s \<noteq> []"
  by (induction s) (auto split: list.splits)

lemma split_char_no_sep: "c \<notin> set s \<Longrightarrow> split_char c s = [s]"
  by (induction s) auto

lemma split_char_append:
  "c \<notin> set s \<Longrightarrow> split_char c (s @ c # t) = s # split_char c t"
  by (induction s) auto

lemma split_join:
  "ss \<noteq> [] \<Longrightarrow> \<forall>s \<in> set ss. c \<notin> set s \<Longrightarrow> split_char c (join_with [c] ss) = ss"
  by (induction "[c]" ss rule: join_with.induct) (auto simp: split_char_no_sep split_char_append)

lemma join_split: "join_with [c] (split_char c s) = s"
proof (induction s)
  case (Cons x xs)
  obtain p ps where sp: "split_char c xs = p # ps"
    by (meson neq_Nil_conv split_char_ne)
  show ?case
  proof (cases "x = c")
    case True
    then show ?thesis using Cons sp by simp
  next
    case False
    then show ?thesis using Cons sp by (cases ps) auto
  qed
qed simp

lemma split_char_fields: "s \<in> set (split_char c t) \<Longrightarrow> c \<notin> set s"
proof (induction t arbitrary: s)
  case (Cons x xs)
  then show ?case by (cases "split_char c xs") (auto split: if_splits)
qed simp

lemma split_char_set: "s \<in> set (split_char c t) \<Longrightarrow> set s \<subseteq> set t"
proof (induction t arbitrary: s)
  case (Cons x xs)
  then show ?case by (cases "split_char c xs") (fastforce split: if_splits)+
qed simp

subsection \<open>Trimming, prefixes, substrings\<close>

lemma set_trim_space: "set (trim_space s) \<subseteq> set s"
proof -
  have "set (trim_space s) \<subseteq> set (dropWhile is_space s)"
    by (auto simp: trim_space_def trim_left_def dest: set_dropWhileD)
  then show ?thesis by (auto dest: set_dropWhileD)
qed

lemma dropWhile_hd: "s = [] \<or> \<not> P (hd s) \<Longrightarrow> dropWhile P s = s"
  by (cases s) auto

lemma trim_space_id:
  "s = [] \<or> (\<not> is_space (hd s) \<and> \<not> is_space (last s)) \<Longrightarrow> trim_space s = s"
  by (cases "s = []") (auto simp: trim_space_def trim_left_def dropWhile_hd hd_rev)

lemma dropWhile_idem': "dropWhile P (dropWhile P s) = dropWhile P s"
  by (induction s) auto

lemma trim_space_ends:
  "trim_space s \<noteq> [] \<Longrightarrow> \<not> is_space (hd (trim_space s)) \<and> \<not> is_space (last (trim_space s))"
proof -
  let ?l = "dropWhile is_space s"
  assume ne: "trim_space s \<noteq> []"
  then have d: "dropWhile is_space (rev ?l) \<noteq> []"
    by (simp add: trim_space_def trim_left_def)
  then have l: "\<not> is_space (last (trim_space s))"
    using hd_dropWhile[OF d] by (simp add: trim_space_def trim_left_def last_rev)
  obtain t where t: "rev ?l = t @ dropWhile is_space (rev ?l)"
    by (metis takeWhile_dropWhile_id)
  have "?l = rev (dropWhile is_space (rev ?l)) @ rev t"
    by (metis t rev_append rev_rev_ident)
  then have "hd ?l = hd (trim_space s)"
    using ne by (metis hd_append2 trim_left_def trim_space_def)
  moreover have "?l \<noteq> []"
    using d by (metis dropWhile.simps(1) rev.simps(1))
  ultimately have "hd ?l = hd (trim_space s)" "?l \<noteq> []"
    by blast+
  then have "\<not> is_space (hd (trim_space s))"
    using hd_dropWhile[of is_space s] by simp
  with l show ?thesis by simp
qed

lemma trim_space_idem [simp]: "trim_space (trim_space s) = trim_space s"
  using trim_space_ends[of s] trim_space_id[of "trim_space s"] by blast

lemma has_prefix_iff: "has_prefix s p \<longleftrightarrow> (\<exists>t. s = p @ t)"
  unfolding has_prefix_def by (metis append_eq_conv_conj append_take_drop_id)

lemma has_suffix_iff: "has_suffix s p \<longleftrightarrow> (\<exists>t. s = t @ p)"
  unfolding has_suffix_def
  by (metis add_diff_cancel_right' append_eq_conv_conj append_take_drop_id le_add2 length_append)

lemma str_contains_iff: "str_contains s p \<longleftrightarrow> (\<exists>a b. s = a @ p @ b)"
proof (induction s)
  case (Cons c s)
  note Cons_IH = Cons
  show ?case
  proof
    assume "str_contains (c # s) p"
    then consider "has_prefix (c # s) p" | "str_contains s p" by auto
    then show "\<exists>a b. c # s = a @ p @ b"
    proof cases
      case 1
      then obtain t where "c # s = p @ t" by (auto simp: has_prefix_iff)
      then show ?thesis by (metis append_Nil)
    next
      case 2
      then show ?thesis using Cons by (metis append_Cons)
    qed
  next
    assume "\<exists>a b. c # s = a @ p @ b"
    then obtain a b where ab: "c # s = a @ p @ b" by blast
    show "str_contains (c # s) p"
    proof (cases a)
      case Nil
      then have "has_prefix (c # s) p"
        using ab by (simp only: has_prefix_iff append_Nil) blast
      then show ?thesis by simp
    next
      case (Cons d a')
      then have "str_contains s p"
        using ab Cons_IH by auto
      then show ?thesis by simp
    qed
  qed
qed auto

lemma upper_char_idem [simp]: "upper_char (upper_char c) = upper_char c"
  by (auto simp: upper_char_def Let_def)

lemma to_upper_idem [simp]: "to_upper (to_upper s) = to_upper s"
  by (simp add: to_upper_def)

subsection \<open>Counting, replacing, finding\<close>

text \<open>\<open>Count\<close> and \<open>ReplaceAll\<close> for a non-empty substring: occurrences that do not overlap.\<close>

function str_count :: "string \<Rightarrow> string \<Rightarrow> nat" where
  "str_count [] p = 0"
| "str_count (c # s) p =
     (if p \<noteq> [] \<and> has_prefix (c # s) p then Suc (str_count (drop (length p) (c # s)) p)
      else str_count s p)"
  by pat_completeness auto

termination str_count
  by (relation "measure (\<lambda>(s, p). length s)") (auto simp: has_prefix_def)

function replace_all :: "string \<Rightarrow> string \<Rightarrow> string \<Rightarrow> string" where
  "replace_all [] old new = []"
| "replace_all (c # s) old new =
     (if old \<noteq> [] \<and> has_prefix (c # s) old
      then new @ replace_all (drop (length old) (c # s)) old new
      else c # replace_all s old new)"
  by pat_completeness auto

termination replace_all
  by (relation "measure (\<lambda>(s, old, new). length s)") (auto simp: has_prefix_def)

fun str_index :: "string \<Rightarrow> string \<Rightarrow> nat option" where
  "str_index [] p = (if p = [] then Some 0 else None)"
| "str_index (c # s) p =
     (if has_prefix (c # s) p then Some 0 else map_option Suc (str_index s p))"

definition contains_any :: "string \<Rightarrow> string \<Rightarrow> bool" where
  "contains_any s chars = list_ex (\<lambda>c. c \<in> set chars) s"

lemma str_contains_append:
  "str_contains t p \<Longrightarrow> str_contains (s @ t) p" "str_contains s p \<Longrightarrow> str_contains (s @ t) p"
  unfolding str_contains_iff by (metis append.assoc)+

lemma str_contains_set: "str_contains s p \<Longrightarrow> set p \<subseteq> set s"
  by (auto simp: str_contains_iff)

end
