(* ===== verification/BackendState.thy ===== *)
theory BackendState
  imports GoText
begin

text \<open>
  \<open>internal/backend\<close>: the data of the backend manager.

  \<^item> \<open>backend\<close>, \<open>backend_group\<close>, \<open>group_member_item\<close>, \<open>route_entry\<close> are the structs
    \<open>Backend\<close>, \<open>BackendGroup\<close>, \<open>GroupMemberItem\<close> and \<open>groupRouteEntry\<close>.
  \<^item> The slices \<open>Manager.backends\<close> and \<open>Manager.availableBackends\<close> hold pointers to the same
    structs: the model has a store \<open>heap\<close> from addresses to structs, and both slices are
    lists of addresses, so a write through one is seen through the other. The group route
    cache holds copies of the structs, as the code's \<open>bc := *b\<close> makes them.
  \<^item> A Go map is a partial map; \<open>failCount\<close>, \<open>recoverCount\<close> and \<open>groupMembers\<close>, whose absent
    keys read as the zero value and which the modelled code never ranges over for their
    keys alone, are total functions.
  \<^item> The scheme functions of \<open>Backend\<close>, the available list and the rebuild of the route
    cache, with the invariant \<open>mgr_inv\<close> the operations keep.
\<close>

record backend =
  b_ID :: string
  b_Name :: string
  b_Address :: string
  b_Scheme :: string
  b_parsedSchemes :: "string list option"
  b_Weight :: int
  b_Enabled :: bool
  b_Healthy :: bool
  b_LastCheck :: string
  b_TotalReqs :: int
  b_ActiveConns :: int
  b_HealthCheck :: bool
  b_CheckInterval :: int
  b_CheckPath :: string
  b_CheckTimeout :: int
  b_FailThreshold :: int
  b_RecoverThreshold :: int

subsection \<open>Schemes\<close>

definition parse_scheme_str :: "string \<Rightarrow> string list" where
  "parse_scheme_str s =
     (if s = '''' then [''http'']
      else let result = filter (\<lambda>p. p \<noteq> '''') (map trim_space (split_char CHR '','' s))
           in if result = [] then [''http''] else result)"

definition parse_scheme :: "backend \<Rightarrow> backend" where
  "parse_scheme b = b\<lparr>b_parsedSchemes := Some (parse_scheme_str (b_Scheme b))\<rparr>"

definition get_schemes :: "backend \<Rightarrow> string list" where
  "get_schemes b =
     (case b_parsedSchemes b of Some ss \<Rightarrow> ss | None \<Rightarrow> parse_scheme_str (b_Scheme b))"

definition known_scheme :: "string \<Rightarrow> bool" where
  "known_scheme s \<longleftrightarrow> s = ''http'' \<or> s = ''https'' \<or> s = ''ws'' \<or> s = ''wss''"

definition get_scheme :: "backend \<Rightarrow> string" where
  "get_scheme b =
     (if known_scheme (b_Scheme b) then b_Scheme b
      else case get_schemes b of
             [] \<Rightarrow> ''http''
           | s # _ \<Rightarrow> if known_scheme s then s else ''http'')"

definition get_scheme_for_request :: "backend \<Rightarrow> bool \<Rightarrow> string" where
  "get_scheme_for_request b is_websocket =
     (let schemes = get_schemes b in
      if is_websocket then
        (case find (\<lambda>s. s = ''wss'' \<or> s = ''ws'') schemes of Some s \<Rightarrow> s | None \<Rightarrow> ''ws'')
      else
        (case find (\<lambda>s. s = ''https'' \<or> s = ''http'') schemes of
           Some s \<Rightarrow> s
         | None \<Rightarrow>
             (case schemes of
                [] \<Rightarrow> ''http''
              | s0 # _ \<Rightarrow>
                  (case find (\<lambda>s. s = ''wss'' \<or> s = ''ws'') schemes of
                     Some s \<Rightarrow> if s = ''wss'' then ''https'' else ''http''
                   | None \<Rightarrow> s0))))"

definition set_schemes :: "string list \<Rightarrow> backend \<Rightarrow> backend" where
  "set_schemes schemes b =
     (let trimmed = filter (\<lambda>s. s \<noteq> '''') (map trim_space schemes) in
      if trimmed = [] then b\<lparr>b_Scheme := ''http'', b_parsedSchemes := Some [''http'']\<rparr>
      else b\<lparr>b_Scheme := join_with '','' trimmed, b_parsedSchemes := Some trimmed\<rparr>)"

subsection \<open>The manager's state\<close>

type_synonym lb_policy = string
type_synonym ptr = nat

definition LBRoundRobin :: lb_policy where "LBRoundRobin = ''round_robin''"
definition LBWeightedRR :: lb_policy where "LBWeightedRR = ''weighted_round_robin''"
definition LBLeastConns :: lb_policy where "LBLeastConns = ''least_connections''"
definition LBIPHash :: lb_policy where "LBIPHash = ''ip_hash''"
definition LBURLHash :: lb_policy where "LBURLHash = ''url_hash''"
definition LBRandom :: lb_policy where "LBRandom = ''random''"

lemmas lb_policy_defs =
  LBRoundRobin_def LBWeightedRR_def LBLeastConns_def LBIPHash_def LBURLHash_def LBRandom_def

record wrr_entry =
  currentWeight :: int
  effectiveWeight :: int

record backend_group =
  g_ID :: string
  g_Name :: string
  g_LbPolicy :: lb_policy
  g_Enabled :: bool
  g_MemberCnt :: int
  g_CreatedAt :: int

record group_member_item =
  mi_GroupID :: string
  mi_BackendID :: string
  mi_Weight :: int
  mi_Enabled :: bool

record route_entry =
  re_lbPolicy :: lb_policy
  re_allAvailable :: "backend list"
  re_tlsBackends :: "backend list"
  re_nonTLSBackends :: "backend list"
  re_openAttempts :: "64 word"
  re_lastOpenAttempt :: instant

record manager =
  heap :: "ptr \<Rightarrow> backend"
  next_ptr :: ptr
  backends :: "ptr list"
  availableBackends :: "ptr list"
  groups :: "string \<rightharpoonup> backend_group"
  groupMembers :: "string \<Rightarrow> group_member_item list"
  roundIdx :: "64 word"
  failCount :: "string \<Rightarrow> int"
  recoverCount :: "string \<Rightarrow> int"
  wrrState :: "string \<rightharpoonup> wrr_entry"
  groupCache :: "(string \<rightharpoonup> route_entry) option"
  rebuildGroupCacheResult :: "(string \<rightharpoonup> route_entry) option"

definition is_valid_lb_policy :: "lb_policy \<Rightarrow> bool" where
  "is_valid_lb_policy p \<longleftrightarrow>
     p = LBRoundRobin \<or> p = LBWeightedRR \<or> p = LBLeastConns \<or>
     p = LBIPHash \<or> p = LBURLHash \<or> p = LBRandom"

definition usable :: "backend \<Rightarrow> bool" where
  "usable b \<longleftrightarrow> b_Enabled b \<and> b_Healthy b"

definition refresh_available :: "manager \<Rightarrow> manager" where
  "refresh_available m =
     m\<lparr>availableBackends := filter (\<lambda>p. usable (heap m p)) (backends m)\<rparr>"

text \<open>The loop \<open>for _, b := range m.backends { if b.ID == id { ...; break } }\<close>.\<close>

definition ptr_of :: "manager \<Rightarrow> string \<Rightarrow> ptr option" where
  "ptr_of m bid = find (\<lambda>p. b_ID (heap m p) = bid) (backends m)"

definition modify_backend :: "string \<Rightarrow> (backend \<Rightarrow> backend) \<Rightarrow> manager \<Rightarrow> manager" where
  "modify_backend bid f m =
     (case ptr_of m bid of
        None \<Rightarrow> m
      | Some p \<Rightarrow> m\<lparr>heap := (heap m)(p := f (heap m p))\<rparr>)"

subsection \<open>The group route cache\<close>

text \<open>
  The backend a group member stands for: the first registered backend with its ID that is
  enabled and healthy, copied, with the member's weight where it is positive. The loop is
  the same in \<open>doRebuildGroupCache\<close> and in \<open>selectBackendForGroupSlow\<close>.
\<close>

definition member_backend :: "manager \<Rightarrow> group_member_item \<Rightarrow> backend option" where
  "member_backend m mi =
     (if \<not> mi_Enabled mi then None
      else case find (\<lambda>p. b_ID (heap m p) = mi_BackendID mi \<and> usable (heap m p)) (backends m) of
             None \<Rightarrow> None
           | Some p \<Rightarrow>
               Some (if mi_Weight mi > 0 then (heap m p)\<lparr>b_Weight := mi_Weight mi\<rparr>
                     else heap m p))"

definition group_available :: "manager \<Rightarrow> string \<Rightarrow> backend list" where
  "group_available m gid = List.map_filter (member_backend m) (groupMembers m gid)"

definition has_tls :: "backend \<Rightarrow> bool" where
  "has_tls b \<longleftrightarrow> list_ex (\<lambda>s. s = ''https'' \<or> s = ''wss'') (get_schemes b)"

definition has_non_tls :: "backend \<Rightarrow> bool" where
  "has_non_tls b \<longleftrightarrow> list_ex (\<lambda>s. s = ''http'' \<or> s = ''ws'') (get_schemes b)"

definition valid_policy :: "lb_policy \<Rightarrow> lb_policy" where
  "valid_policy p = (if is_valid_lb_policy p then p else LBRoundRobin)"

definition build_entry :: "manager \<Rightarrow> string \<Rightarrow> backend_group \<Rightarrow> route_entry option \<Rightarrow> route_entry" where
  "build_entry m gid g old =
     (let all = group_available m gid;
          entry = \<lparr>re_lbPolicy = valid_policy (g_LbPolicy g),
                   re_allAvailable = all,
                   re_tlsBackends = filter has_tls all,
                   re_nonTLSBackends = filter has_non_tls all,
                   re_openAttempts = 0,
                   re_lastOpenAttempt = zero_time\<rparr>
      in case old of
           None \<Rightarrow> entry
         | Some o' \<Rightarrow>
             if all = [] then
               entry\<lparr>re_lastOpenAttempt := re_lastOpenAttempt o',
                     re_openAttempts := re_openAttempts o' + 1\<rparr>
             else entry)"

definition do_rebuild_group_cache :: "manager \<Rightarrow> manager" where
  "do_rebuild_group_cache m =
     m\<lparr>rebuildGroupCacheResult := Some (\<lambda>gid.
         case groups m gid of
           None \<Rightarrow> None
         | Some g \<Rightarrow>
             if \<not> g_Enabled g then None
             else Some (build_entry m gid g
                    (case groupCache m of None \<Rightarrow> None | Some c \<Rightarrow> c gid)))\<rparr>"

text \<open>
  Building and storing in one go, as \<open>rebuildGroupCacheLocked\<close> does under the lock. \<open>rebuildGroupCache\<close>, which the group
  operations call after giving the lock back, does the same in two steps (theory \<open>GroupRace\<close>).
\<close>

definition rebuild_group_cache :: "manager \<Rightarrow> manager" where
  "rebuild_group_cache m =
     (let m = do_rebuild_group_cache m in m\<lparr>groupCache := rebuildGroupCacheResult m\<rparr>)"

lemma rebuild_group_cache_eq:
  "rebuild_group_cache m =
     (let c = Some (\<lambda>gid.
         case groups m gid of
           None \<Rightarrow> None
         | Some g \<Rightarrow>
             if \<not> g_Enabled g then None
             else Some (build_entry m gid g
                    (case groupCache m of None \<Rightarrow> None | Some c \<Rightarrow> c gid)))
      in m\<lparr>groupCache := c, rebuildGroupCacheResult := c\<rparr>)"
  by (simp add: rebuild_group_cache_def do_rebuild_group_cache_def Let_def)

subsection \<open>Lemmas: schemes\<close>

lemma parse_scheme_str_ne: "parse_scheme_str s \<noteq> []"
  by (simp add: parse_scheme_str_def Let_def)

lemma parse_scheme_str_join:
  assumes "ss \<noteq> []" and "\<forall>s \<in> set ss. CHR '','' \<notin> set s \<and> trim_space s = s \<and> s \<noteq> ''''"
  shows "parse_scheme_str (join_with '','' ss) = ss"
proof -
  have sp: "split_char CHR '','' (join_with '','' ss) = ss"
    using assms by (intro split_join) auto
  have "map trim_space ss = ss" and "filter (\<lambda>p. p \<noteq> '''') ss = ss"
    using assms(2) by (auto intro: map_idI)
  moreover have "join_with '','' ss \<noteq> ''''"
    using assms by (induction "'',''" ss rule: join_with.induct) auto
  ultimately show ?thesis
    using sp assms(1) by (simp add: parse_scheme_str_def Let_def)
qed

lemma known_scheme_get_scheme: "known_scheme (get_scheme b)"
  by (auto simp: get_scheme_def known_scheme_def split: list.splits)

subsection \<open>Lemmas: the pointer slices\<close>

lemma ptr_of_SomeD: "ptr_of m bid = Some p \<Longrightarrow> p \<in> set (backends m) \<and> b_ID (heap m p) = bid"
  unfolding ptr_of_def by (drule find_Some_mem) simp

lemma ptr_of_None_iff: "ptr_of m bid = None \<longleftrightarrow> bid \<notin> (\<lambda>p. b_ID (heap m p)) ` set (backends m)"
  by (auto simp: ptr_of_def find_None_iff)

lemma modify_backend_frame [frame_simps, simp]:
  "next_ptr (modify_backend bid f m) = next_ptr m"
  "backends (modify_backend bid f m) = backends m"
  "availableBackends (modify_backend bid f m) = availableBackends m"
  "groups (modify_backend bid f m) = groups m"
  "groupMembers (modify_backend bid f m) = groupMembers m"
  "roundIdx (modify_backend bid f m) = roundIdx m"
  "failCount (modify_backend bid f m) = failCount m"
  "recoverCount (modify_backend bid f m) = recoverCount m"
  "wrrState (modify_backend bid f m) = wrrState m"
  "groupCache (modify_backend bid f m) = groupCache m"
  by (simp_all add: modify_backend_def split: option.splits)

lemma refresh_available_frame [frame_simps, simp]:
  "heap (refresh_available m) = heap m"
  "next_ptr (refresh_available m) = next_ptr m"
  "backends (refresh_available m) = backends m"
  "groups (refresh_available m) = groups m"
  "groupMembers (refresh_available m) = groupMembers m"
  "roundIdx (refresh_available m) = roundIdx m"
  "failCount (refresh_available m) = failCount m"
  "recoverCount (refresh_available m) = recoverCount m"
  "wrrState (refresh_available m) = wrrState m"
  "groupCache (refresh_available m) = groupCache m"
  by (simp_all add: refresh_available_def)

lemma rebuild_group_cache_frame [frame_simps, simp]:
  "heap (rebuild_group_cache m) = heap m"
  "next_ptr (rebuild_group_cache m) = next_ptr m"
  "backends (rebuild_group_cache m) = backends m"
  "availableBackends (rebuild_group_cache m) = availableBackends m"
  "groups (rebuild_group_cache m) = groups m"
  "groupMembers (rebuild_group_cache m) = groupMembers m"
  "roundIdx (rebuild_group_cache m) = roundIdx m"
  "failCount (rebuild_group_cache m) = failCount m"
  "recoverCount (rebuild_group_cache m) = recoverCount m"
  "wrrState (rebuild_group_cache m) = wrrState m"
  by (simp_all add: rebuild_group_cache_eq Let_def)

subsection \<open>The invariant\<close>

text \<open>
  \<open>mgr_wf\<close>: the addresses in use are allocated and pairwise different, and no two backends
  have the same ID. \<open>avail_ok\<close>: the available list is exactly the enabled, healthy
  backends, in order. \<open>cache_ok\<close>: the cache holds one entry per enabled group, and the
  entry is what a rebuild would store now, up to the connection counters of the copies
  (which \<open>IncConn\<close> and \<open>DecConn\<close> do not refresh) and the breaker's own fields.
\<close>

definition sans_conns :: "backend \<Rightarrow> backend" where
  "sans_conns b = b\<lparr>b_ActiveConns := 0, b_TotalReqs := 0\<rparr>"

definition entry_view :: "route_entry \<Rightarrow> lb_policy \<times> backend list \<times> backend list \<times> backend list" where
  "entry_view e =
     (re_lbPolicy e, map sans_conns (re_allAvailable e),
      map sans_conns (re_tlsBackends e), map sans_conns (re_nonTLSBackends e))"

definition mgr_wf :: "manager \<Rightarrow> bool" where
  "mgr_wf m \<longleftrightarrow>
     distinct (backends m) \<and> (\<forall>p \<in> set (backends m). p < next_ptr m) \<and>
     distinct (map (\<lambda>p. b_ID (heap m p)) (backends m))"

definition avail_ok :: "manager \<Rightarrow> bool" where
  "avail_ok m \<longleftrightarrow> availableBackends m = filter (\<lambda>p. usable (heap m p)) (backends m)"

definition cache_ok :: "manager \<Rightarrow> bool" where
  "cache_ok m \<longleftrightarrow>
     (case groupCache m of
        None \<Rightarrow> False
      | Some c \<Rightarrow> \<forall>gid.
          map_option entry_view (c gid) =
          (case groups m gid of
             None \<Rightarrow> None
           | Some g \<Rightarrow>
               if g_Enabled g then Some (entry_view (build_entry m gid g None)) else None))"

definition mgr_inv :: "manager \<Rightarrow> bool" where
  "mgr_inv m \<longleftrightarrow> mgr_wf m \<and> avail_ok m \<and> cache_ok m"

lemma mgr_wf_refresh [simp]: "mgr_wf (refresh_available m) = mgr_wf m"
  by (simp add: mgr_wf_def)

lemma mgr_wf_rebuild [simp]: "mgr_wf (rebuild_group_cache m) = mgr_wf m"
  by (simp add: mgr_wf_def)

lemma avail_ok_refresh [simp]: "avail_ok (refresh_available m)"
  by (simp add: avail_ok_def refresh_available_def)

lemma avail_ok_rebuild [simp]: "avail_ok (rebuild_group_cache m) = avail_ok m"
  by (simp add: avail_ok_def)

lemma sans_conns_eqD:
  "sans_conns a = sans_conns b \<Longrightarrow>
   b_ID a = b_ID b \<and> usable a = usable b \<and> sans_conns (a\<lparr>b_Weight := w\<rparr>) = sans_conns (b\<lparr>b_Weight := w\<rparr>)"
  by (cases a; cases b) (simp add: sans_conns_def usable_def)

lemma schemes_sans_conns [simp]:
  "get_schemes (sans_conns b) = get_schemes b"
  "has_tls (sans_conns b) = has_tls b"
  "has_non_tls (sans_conns b) = has_non_tls b"
  by (simp_all add: get_schemes_def has_tls_def has_non_tls_def sans_conns_def split: option.split)

lemma entry_view_build:
  "entry_view (build_entry m gid g old) =
   (let a = map sans_conns (group_available m gid)
    in (valid_policy (g_LbPolicy g), a, filter has_tls a, filter has_non_tls a))"
  by (auto simp: build_entry_def entry_view_def Let_def filter_map comp_def split: option.splits)

lemma map_map_filter: "map f (List.map_filter g xs) = List.map_filter (\<lambda>x. map_option f (g x)) xs"
  by (auto simp: List.map_filter_def filter_map comp_def intro!: map_cong)

lemma group_available_cong:
  assumes "backends m = backends m'" "groupMembers m = groupMembers m'"
    and h: "\<And>p. p \<in> set (backends m) \<Longrightarrow> sans_conns (heap m p) = sans_conns (heap m' p)"
  shows "map sans_conns (group_available m gid) = map sans_conns (group_available m' gid)"
proof -
  have "map_option sans_conns (member_backend m mi) = map_option sans_conns (member_backend m' mi)" for mi
  proof -
    have "find (\<lambda>p. b_ID (heap m p) = mi_BackendID mi \<and> usable (heap m p)) (backends m) =
          find (\<lambda>p. b_ID (heap m' p) = mi_BackendID mi \<and> usable (heap m' p)) (backends m')"
      unfolding assms(1)[symmetric] by (rule find_cong_set) (use sans_conns_eqD[OF h] in auto)
    then show ?thesis
      using h sans_conns_eqD[OF h] assms(1)
      by (auto simp: member_backend_def split: option.splits dest!: find_Some_mem)
  qed
  then show ?thesis
    by (simp add: group_available_def map_map_filter assms)
qed

lemma cache_ok_cong:
  assumes "backends m = backends m'" "groupMembers m = groupMembers m'" "groups m = groups m'"
    "groupCache m = groupCache m'"
    and "\<And>p. p \<in> set (backends m) \<Longrightarrow> sans_conns (heap m p) = sans_conns (heap m' p)"
  shows "cache_ok m = cache_ok m'"
  using group_available_cong[OF assms(1,2,5)]
  by (simp add: cache_ok_def entry_view_build assms(3,4) cong: option.case_cong if_cong)

lemma cache_ok_rebuild [simp]: "cache_ok (rebuild_group_cache m)"
proof -
  have "map sans_conns (group_available (rebuild_group_cache m) gid) =
        map sans_conns (group_available m gid)" for gid
    by (rule group_available_cong) simp_all
  then show ?thesis
    by (auto simp: cache_ok_def entry_view_build Let_def split: option.split)
      (auto simp: rebuild_group_cache_eq entry_view_build Let_def split: option.split)
qed

lemma mgr_inv_refresh_rebuild: "mgr_wf m \<Longrightarrow> mgr_inv (rebuild_group_cache (refresh_available m))"
  by (simp add: mgr_inv_def)

lemma heap_modify_backend:
  "heap (modify_backend bid f m) p =
     (if ptr_of m bid = Some p then f (heap m p) else heap m p)"
  by (auto simp: modify_backend_def split: option.splits)

lemma modify_backend_wf:
  assumes "mgr_wf m" and "\<And>b. b_ID (f b) = b_ID b"
  shows "mgr_wf (modify_backend bid f m)"
proof -
  have "(\<lambda>p. b_ID (heap (modify_backend bid f m) p)) = (\<lambda>p. b_ID (heap m p))"
    by (rule ext) (simp add: heap_modify_backend assms(2))
  then show ?thesis using assms(1) by (simp add: mgr_wf_def)
qed

lemma member_backend_SomeD:
  "member_backend m mi = Some b \<Longrightarrow> usable b \<and> b_ID b = mi_BackendID mi \<and> mi_Enabled mi"
  by (auto simp: member_backend_def usable_def split: if_splits option.splits dest!: find_Some_mem)

lemma group_available_mem:
  "b \<in> set (group_available m gid) \<longleftrightarrow>
   (\<exists>mi \<in> set (groupMembers m gid). member_backend m mi = Some b)"
  by (force simp: group_available_def List.map_filter_def image_iff)

lemma group_available_usable: "b \<in> set (group_available m gid) \<Longrightarrow> usable b"
  using group_available_mem member_backend_SomeD by blast

subsection \<open>Sample values for the witnesses\<close>

definition sample_backend :: "string \<Rightarrow> int \<Rightarrow> backend" where
  "sample_backend bid w =
     \<lparr>b_ID = bid, b_Name = bid, b_Address = ''8.8.8.8:80'', b_Scheme = ''http'',
      b_parsedSchemes = Some [''http''], b_Weight = w, b_Enabled = True, b_Healthy = True,
      b_LastCheck = '''', b_TotalReqs = 0, b_ActiveConns = 0, b_HealthCheck = True,
      b_CheckInterval = 10, b_CheckPath = ''/health'', b_CheckTimeout = 5,
      b_FailThreshold = 3, b_RecoverThreshold = 2\<rparr>"

definition sample_manager :: manager where
  "sample_manager =
     \<lparr>heap = (\<lambda>p. sample_backend (if p = 0 then ''a'' else ''b'') 1), next_ptr = 2,
      backends = [0, 1], availableBackends = [0, 1],
      groups = Map.empty, groupMembers = (\<lambda>_. []), roundIdx = 0,
      failCount = (\<lambda>_. 0), recoverCount = (\<lambda>_. 0), wrrState = Map.empty,
      groupCache = Some Map.empty, rebuildGroupCacheResult = None\<rparr>"

lemma sample_backend_simps [simp]:
  "b_ID (sample_backend i w) = i" "b_Weight (sample_backend i w) = w"
  "b_ActiveConns (sample_backend i w) = 0" "b_Enabled (sample_backend i w)"
  "b_Healthy (sample_backend i w)" "usable (sample_backend i w)"
  "b_FailThreshold (sample_backend i w) = 3" "b_RecoverThreshold (sample_backend i w) = 2"
  "get_schemes (sample_backend i w) = [''http'']"
  by (simp_all add: sample_backend_def usable_def get_schemes_def)

lemma sample_manager_simps [simp]:
  "heap sample_manager p = sample_backend (if p = 0 then ''a'' else ''b'') 1"
  "next_ptr sample_manager = 2" "backends sample_manager = [0, 1]"
  "availableBackends sample_manager = [0, 1]" "groups sample_manager = Map.empty"
  "groupMembers sample_manager g = []" "roundIdx sample_manager = 0"
  "failCount sample_manager i = 0" "recoverCount sample_manager i = 0"
  "wrrState sample_manager = Map.empty" "groupCache sample_manager = Some Map.empty"
  by (simp_all add: sample_manager_def)

lemma sample_manager_inv: "mgr_inv sample_manager"
  by (simp add: mgr_inv_def mgr_wf_def avail_ok_def cache_ok_def)

end
