(* ===== verification/WeightedRR.thy ===== *)
theory WeightedRR
  imports Balance
begin

text \<open>
  What the balancing policies guarantee. The smooth weighted round robin is proved exactly
  fair: with the credits at zero, one total weight of draws picks every backend as many
  times as its weight and leaves the credits at zero again, and at every moment no backend
  is more than one draw ahead of its share. Then: least-connections answers a minimum, the
  random policy splits the draw range in proportion to the weights, round robin walks the
  slice, and the hash policies always send one key to one backend.
\<close>

subsection \<open>One draw of the weighted round robin\<close>

definition credit :: "(string \<rightharpoonup> wrr_entry) \<Rightarrow> string \<Rightarrow> int" where
  "credit st i = (case st i of None \<Rightarrow> 0 | Some e \<Rightarrow> currentWeight e)"

definition wrr_pool :: "backend list \<Rightarrow> bool" where
  "wrr_pool bs \<longleftrightarrow> bs \<noteq> [] \<and> distinct (map b_ID bs) \<and> (\<forall>b \<in> set bs. 0 < b_Weight b)"

definition pool_weight :: "backend list \<Rightarrow> int" where
  "pool_weight bs = sum_list (map b_Weight bs)"

definition pool_credit :: "backend list \<Rightarrow> (string \<rightharpoonup> wrr_entry) \<Rightarrow> int" where
  "pool_credit bs st = sum_list (map (\<lambda>b. credit st (b_ID b)) bs)"

lemma wrr_entry_set_effective:
  "e\<lparr>effectiveWeight := w\<rparr> = \<lparr>currentWeight = currentWeight e, effectiveWeight = w\<rparr>"
  by (cases e) simp

lemma distinct_key_ne: "distinct (map g (y # ys)) \<Longrightarrow> x \<in> set ys \<Longrightarrow> g x \<noteq> g y"
  by (metis distinct.simps(2) image_eqI list.set_map list.simps(9))

lemma wrr_register_spec:
  assumes "distinct (map b_ID bs)" and "\<forall>b \<in> set bs. 0 < b_Weight b"
    and "wrr_register bs st t = (st', t')"
  shows "t' = t + pool_weight bs"
    and "\<And>b. b \<in> set bs \<Longrightarrow>
           st' (b_ID b) = Some \<lparr>currentWeight = credit st (b_ID b), effectiveWeight = b_Weight b\<rparr>"
    and "\<And>i. i \<notin> b_ID ` set bs \<Longrightarrow> st' i = st i"
proof -
  have "t' = t + pool_weight bs \<and>
    (\<forall>b \<in> set bs. st' (b_ID b) =
       Some \<lparr>currentWeight = credit st (b_ID b), effectiveWeight = b_Weight b\<rparr>) \<and>
    (\<forall>i. i \<notin> b_ID ` set bs \<longrightarrow> st' i = st i)"
    using assms
  proof (induction bs arbitrary: st t)
    case Nil
    then show ?case by (simp add: pool_weight_def)
  next
    case (Cons b bs)
    define st1 where "st1 = st(b_ID b \<mapsto> \<lparr>currentWeight = credit st (b_ID b), effectiveWeight = b_Weight b\<rparr>)"
    have step: "wrr_register bs st1 (t + b_Weight b) = (st', t')"
      using Cons.prems(2,3)
      by (auto simp: st1_def credit_def Let_def wrr_entry_set_effective split: option.splits)
    have same: "credit st1 (b_ID x) = credit st (b_ID x)" if "x \<in> set bs" for x
      using distinct_key_ne[OF Cons.prems(1) that] by (simp add: credit_def st1_def)
    have ih: "t' = t + b_Weight b + pool_weight bs \<and>
      (\<forall>x \<in> set bs. st' (b_ID x) =
         Some \<lparr>currentWeight = credit st1 (b_ID x), effectiveWeight = b_Weight x\<rparr>) \<and>
      (\<forall>i. i \<notin> b_ID ` set bs \<longrightarrow> st' i = st1 i)"
      using Cons.IH[OF _ _ step] Cons.prems(1,2) by simp
    have "\<forall>x \<in> set bs. st' (b_ID x) =
         Some \<lparr>currentWeight = credit st (b_ID x), effectiveWeight = b_Weight x\<rparr>"
      using ih by (simp add: same)
    moreover have "st' (b_ID b) = st1 (b_ID b)"
      using ih Cons.prems(1) by auto
    moreover have "\<forall>i. i \<notin> b_ID ` set (b # bs) \<longrightarrow> st' i = st i"
      using ih by (simp add: st1_def)
    ultimately show ?case
      using ih by (auto simp: pool_weight_def st1_def)
  qed
  then show "t' = t + pool_weight bs"
    and "\<And>b. b \<in> set bs \<Longrightarrow>
           st' (b_ID b) = Some \<lparr>currentWeight = credit st (b_ID b), effectiveWeight = b_Weight b\<rparr>"
    and "\<And>i. i \<notin> b_ID ` set bs \<Longrightarrow> st' i = st i"
    by blast+
qed

definition raised :: "(string \<rightharpoonup> wrr_entry) \<Rightarrow> backend \<Rightarrow> int" where
  "raised st b = (case st (b_ID b) of None \<Rightarrow> 0 | Some e \<Rightarrow> currentWeight e + effectiveWeight e)"

lemma wrr_pick_spec:
  assumes "distinct (map b_ID bs)" and "\<forall>b \<in> set bs. st (b_ID b) \<noteq> None"
    and "wrr_pick bs st best w = (st', best')"
  shows "(\<forall>b \<in> set bs. credit st' (b_ID b) = raised st b \<and> st' (b_ID b) \<noteq> None) \<and>
    (\<forall>i. i \<notin> b_ID ` set bs \<longrightarrow> st' i = st i) \<and>
    (best' = best \<and> (\<forall>b \<in> set bs. raised st b \<le> w) \<or>
     (\<exists>b \<in> set bs. best' = Some b \<and> w < raised st b \<and> (\<forall>x \<in> set bs. raised st x \<le> raised st b)))"
  using assms
proof (induction bs arbitrary: st best w)
  case Nil
  then show ?case by simp
next
  case (Cons b bs)
  obtain e where e: "st (b_ID b) = Some e"
    using Cons.prems(2) by auto
  define st1 where "st1 = st(b_ID b \<mapsto> e\<lparr>currentWeight := currentWeight e + effectiveWeight e\<rparr>)"
  have same: "raised st1 x = raised st x" if "x \<in> set bs" for x
    using distinct_key_ne[OF Cons.prems(1) that] by (simp add: raised_def st1_def)
  have rb: "raised st b = currentWeight e + effectiveWeight e"
    by (simp add: raised_def e)
  define best1 where "best1 = (if raised st b > w then Some b else best)"
  define w1 where "w1 = (if raised st b > w then raised st b else w)"
  have step: "wrr_pick bs st1 best1 w1 = (st', best')"
    using Cons.prems(3) by (simp add: e rb st1_def best1_def w1_def Let_def split: if_splits)
  have ih: "(\<forall>x \<in> set bs. credit st' (b_ID x) = raised st x \<and> st' (b_ID x) \<noteq> None) \<and>
    (\<forall>i. i \<notin> b_ID ` set bs \<longrightarrow> st' i = st1 i) \<and>
    (best' = best1 \<and> (\<forall>x \<in> set bs. raised st x \<le> w1) \<or>
     (\<exists>y \<in> set bs. best' = Some y \<and> w1 < raised st y \<and> (\<forall>x \<in> set bs. raised st x \<le> raised st y)))"
  proof -
    have "\<forall>x \<in> set bs. st1 (b_ID x) \<noteq> None" and "distinct (map b_ID bs)"
      using Cons.prems(1,2) by (auto simp: st1_def)
    then show ?thesis
      using Cons.IH[OF _ _ step] by (simp add: same cong: ball_cong bex_cong)
  qed
  have "st' (b_ID b) = st1 (b_ID b)"
    using ih Cons.prems(1) by auto
  then have "credit st' (b_ID b) = raised st b \<and> st' (b_ID b) \<noteq> None"
    by (simp add: credit_def st1_def rb)
  then show ?case
    using ih by (auto simp: st1_def best1_def w1_def split: if_splits)
qed

lemma exists_positive: "0 < sum_list (map f xs) \<Longrightarrow> \<exists>x \<in> set xs. 0 < (f x :: int)"
proof (rule ccontr)
  assume "0 < sum_list (map f xs)" "\<not> (\<exists>x \<in> set xs. 0 < f x)"
  moreover from this(2) have "sum_list (map f xs) \<le> 0"
    by (induction xs) fastforce+
  ultimately show False by simp
qed

lemma select_weighted_rr_step:
  assumes pool: "wrr_pool bs" and zero: "pool_credit bs (wrrState m) = 0"
    and sel: "select_weighted_rr bs m = (b, m')"
  shows "b \<in> set bs" and "0 < credit (wrrState m) (b_ID b) + b_Weight b"
    and "\<And>x. x \<in> set bs \<Longrightarrow> credit (wrrState m') (b_ID x) =
           credit (wrrState m) (b_ID x) + b_Weight x - (if b_ID x = b_ID b then pool_weight bs else 0)"
    and "\<And>x. x \<in> set bs \<Longrightarrow> credit (wrrState m) (b_ID x) + b_Weight x
           \<le> credit (wrrState m) (b_ID b) + b_Weight b"
proof -
  obtain st t where reg: "wrr_register bs (wrrState m) 0 = (st, t)"
    by force
  have dist: "distinct (map b_ID bs)" and pos: "\<forall>x \<in> set bs. 0 < b_Weight x" and ne: "bs \<noteq> []"
    using pool by (auto simp: wrr_pool_def)
  note r = wrr_register_spec[OF dist pos reg]
  have tw: "t = pool_weight bs" using r(1) by simp
  have tpos: "0 < t"
    unfolding tw pool_weight_def using pos ne by (induction bs) (auto, fastforce)
  have rs: "raised st x = credit (wrrState m) (b_ID x) + b_Weight x" if "x \<in> set bs" for x
    using r(2)[OF that] by (simp add: raised_def)
  obtain st2 best where pk: "wrr_pick bs st None (-1) = (st2, best)"
    by force
  have some: "\<forall>x \<in> set bs. st (b_ID x) \<noteq> None" using r(2) by auto
  note p = wrr_pick_spec[OF dist some pk]
  have "sum_list (map (raised st) bs) = sum_list (map (\<lambda>x. credit (wrrState m) (b_ID x) + b_Weight x) bs)"
    by (rule arg_cong[where f = sum_list]) (auto intro: map_cong rs)
  also have "\<dots> = t"
    using zero by (simp add: sum_list_addf pool_credit_def tw pool_weight_def)
  finally obtain y where "y \<in> set bs" "0 < raised st y"
    using exists_positive[of "raised st" bs] tpos by auto
  then obtain c where c: "c \<in> set bs" "best = Some c" "\<forall>x \<in> set bs. raised st x \<le> raised st c" "0 < raised st c"
    using p by fastforce
  have res: "b = c" "m' = m\<lparr>wrrState := wrr_charge st2 (b_ID c) t\<rparr>"
    using sel tpos by (auto simp: select_weighted_rr_def reg pk c(2))
  show "b \<in> set bs" using c res by simp
  show "0 < credit (wrrState m) (b_ID b) + b_Weight b" using c res rs by simp
  show "credit (wrrState m') (b_ID x) =
      credit (wrrState m) (b_ID x) + b_Weight x - (if b_ID x = b_ID b then pool_weight bs else 0)"
    if x: "x \<in> set bs" for x
  proof -
    have "credit st2 (b_ID x) = raised st x" "st2 (b_ID x) \<noteq> None" "st2 (b_ID c) \<noteq> None"
      using p x c(1) by auto
    then show ?thesis
      using rs[OF x] res tw by (auto simp: wrr_charge_def credit_def)
  qed
  show "credit (wrrState m) (b_ID x) + b_Weight x \<le> credit (wrrState m) (b_ID b) + b_Weight b"
    if "x \<in> set bs" for x
    using c that rs res by simp
qed

subsection \<open>A run of draws\<close>

fun wrr_draws :: "nat \<Rightarrow> backend list \<Rightarrow> manager \<Rightarrow> string list \<times> manager" where
  "wrr_draws 0 bs m = ([], m)"
| "wrr_draws (Suc k) bs m =
     (let (ids, m1) = wrr_draws k bs m; (b, m2) = select_weighted_rr bs m1
      in (ids @ [b_ID b], m2))"

definition credits_zero :: "backend list \<Rightarrow> manager \<Rightarrow> bool" where
  "credits_zero bs m \<longleftrightarrow> (\<forall>b \<in> set bs. credit (wrrState m) (b_ID b) = 0)"

lemma pool_weight_pos: "wrr_pool bs \<Longrightarrow> 0 < pool_weight bs"
  unfolding wrr_pool_def pool_weight_def by (induction bs) (auto, fastforce)

lemma wrr_draws_inv:
  assumes pool: "wrr_pool bs" and zero: "credits_zero bs m"
    and run: "wrr_draws k bs m = (ids, m')"
  shows "length ids = k \<and> set ids \<subseteq> b_ID ` set bs \<and>
    (\<forall>b \<in> set bs. credit (wrrState m') (b_ID b) =
         int k * b_Weight b - pool_weight bs * int (count_list ids (b_ID b))
       \<and> - pool_weight bs < credit (wrrState m') (b_ID b)) \<and>
    pool_credit bs (wrrState m') = 0"
  using run
proof (induction k arbitrary: ids m')
  case 0
  have "map (\<lambda>b. credit (wrrState m) (b_ID b)) bs = map (\<lambda>b. 0) bs"
    using zero by (auto simp: credits_zero_def)
  then have "pool_credit bs (wrrState m) = 0"
    unfolding pool_credit_def by (simp del: map_eq_conv)
  then show ?case
    using 0 zero pool_weight_pos[OF pool] by (auto simp: credits_zero_def)
next
  case (Suc k)
  obtain ids1 m1 b m2 where d: "wrr_draws k bs m = (ids1, m1)" "select_weighted_rr bs m1 = (b, m2)"
    by (metis prod.exhaust)
  have eq: "ids = ids1 @ [b_ID b]" "m' = m2"
    using Suc.prems d by auto
  note ih = Suc.IH[OF d(1)]
  then have zc: "pool_credit bs (wrrState m1) = 0" by blast
  note s = select_weighted_rr_step[OF pool zc d(2)]
  let ?W = "pool_weight bs"
  have each: "credit (wrrState m2) (b_ID x) = int (Suc k) * b_Weight x - ?W * int (count_list ids (b_ID x))
      \<and> - ?W < credit (wrrState m2) (b_ID x)" if x: "x \<in> set bs" for x
  proof (cases "b_ID x = b_ID b")
    case True
    then have "x = b"
      using x s(1) pool by (metis distinct_map inj_onD wrr_pool_def)
    then show ?thesis
      using s(2) s(3)[OF x] ih x by (auto simp: eq algebra_simps)
  next
    case False
    moreover have "0 < b_Weight x" using pool x by (simp add: wrr_pool_def)
    moreover have "credit (wrrState m1) (b_ID x) = int k * b_Weight x - ?W * int (count_list ids1 (b_ID x))"
      and "- ?W < credit (wrrState m1) (b_ID x)"
      using ih x by auto
    ultimately show ?thesis
      using s(3)[OF x] by (simp add: eq algebra_simps)
  qed
  have "pool_credit bs (wrrState m2) =
    sum_list (map (\<lambda>x. (credit (wrrState m1) (b_ID x) + b_Weight x) + (if b_ID x = b_ID b then - ?W else 0)) bs)"
    unfolding pool_credit_def
    by (rule arg_cong[where f = sum_list]) (auto intro!: map_cong simp: s(3))
  also have "\<dots> = sum_list (map (\<lambda>x. credit (wrrState m1) (b_ID x) + b_Weight x) bs) - ?W"
    using sum_list_map_if_distinct[of b_ID bs b "\<lambda>x. credit (wrrState m1) (b_ID x) + b_Weight x" "- ?W"]
      pool s(1) by (simp add: wrr_pool_def)
  also have "\<dots> = 0"
    using zc by (simp add: sum_list_addf pool_credit_def pool_weight_def)
  finally have "pool_credit bs (wrrState m2) = 0" .
  moreover have "length ids = Suc k \<and> set ids \<subseteq> b_ID ` set bs"
    using ih s(1) by (auto simp: eq)
  ultimately show ?case
    using each unfolding eq(2) by blast
qed

lemma sum_count_list:
  "distinct ks \<Longrightarrow> set xs \<subseteq> set ks \<Longrightarrow> sum_list (map (\<lambda>k. count_list xs k) ks) = length xs"
proof (induction xs)
  case (Cons x xs)
  have "sum_list (map (\<lambda>k. count_list (x # xs) k) ks) =
    sum_list (map (\<lambda>k. count_list xs k) ks) + sum_list (map (\<lambda>k. if k = x then 1 else 0) ks)"
    by (simp flip: sum_list_addf add: if_distrib if_distribR cong: if_cong) (smt (verit) map_eq_conv add.right_neutral)
  also have "sum_list (map (\<lambda>k. if k = x then 1 else (0::nat)) ks) = 1"
    using Cons.prems by (simp add: sum_list_distinct_conv_sum_set)
  finally show ?case using Cons by simp
qed simp

subsection \<open>What the policies promise\<close>

lemma sum_list_eq_pointwise:
  fixes f g :: "'a \<Rightarrow> int"
  shows "sum_list (map f xs) = sum_list (map g xs) \<Longrightarrow> \<forall>x \<in> set xs. f x \<le> g x
    \<Longrightarrow> \<forall>x \<in> set xs. f x = g x"
proof (induction xs)
  case (Cons x xs)
  have "sum_list (map f xs) \<le> sum_list (map g xs)"
    using Cons.prems(2) by (intro sum_list_mono) auto
  moreover have "f x \<le> g x" "f x + sum_list (map f xs) = g x + sum_list (map g xs)"
    using Cons.prems by simp_all
  ultimately have "f x = g x" and eq: "sum_list (map f xs) = sum_list (map g xs)"
    by linarith+
  moreover have "\<forall>x \<in> set xs. f x = g x"
    using Cons.IH[OF eq] Cons.prems(2) by simp
  ultimately show ?case by simp
qed simp

lemma of_nat_sum_list_map: "int (sum_list (map f xs)) = sum_list (map (\<lambda>x. int (f x)) xs)"
  by (induction xs) auto

definition sample_pool :: "backend list" where
  "sample_pool = [sample_backend ''a'' 5, sample_backend ''b'' 1, sample_backend ''c'' 1]"

lemma sample_pool_ok:
  "wrr_pool sample_pool" "credits_zero sample_pool sample_manager" "pool_weight sample_pool = 7"
  by (simp_all add: sample_pool_def wrr_pool_def credits_zero_def credit_def pool_weight_def)

text \<open>
  C11. Fairness of the smooth weighted round robin (\<open>selectWeightedRR\<close>): starting with the
  credits at zero, over one total weight of draws every backend is picked exactly as many
  times as its weight, and the credits are back at zero, so the next round is fair again.
\<close>

theorem weighted_rr_fair:
  assumes "wrr_pool bs" and "credits_zero bs m"
    and "wrr_draws (nat (pool_weight bs)) bs m = (ids, m')"
  shows "(\<forall>b \<in> set bs. int (count_list ids (b_ID b)) = b_Weight b) \<and> credits_zero bs m'"
proof -
  let ?W = "pool_weight bs"
  let ?c = "\<lambda>b. int (count_list ids (b_ID b))"
  have pos: "0 < ?W" by (rule pool_weight_pos[OF assms(1)])
  note inv = wrr_draws_inv[OF assms]
  have cr: "credit (wrrState m') (b_ID b) = ?W * (b_Weight b - ?c b)"
    and lo: "- ?W < credit (wrrState m') (b_ID b)" if "b \<in> set bs" for b
    using inv that pos by (auto simp: algebra_simps)
  have "?c b \<le> b_Weight b" if "b \<in> set bs" for b
  proof -
    have "?W * (-1) < ?W * (b_Weight b - ?c b)"
      using cr[OF that] lo[OF that] by simp
    then have "- 1 < b_Weight b - ?c b"
      using pos mult_less_cancel_left_pos by blast
    then show ?thesis by simp
  qed
  moreover have "sum_list (map ?c bs) = sum_list (map b_Weight bs)"
  proof -
    have "sum_list (map (count_list ids) (map b_ID bs)) = length ids"
      using inv assms(1) by (intro sum_count_list) (auto simp: wrr_pool_def)
    then have "int (sum_list (map (\<lambda>b. count_list ids (b_ID b)) bs)) = int (length ids)"
      by (simp add: comp_def)
    then show ?thesis
      using inv pos by (simp add: of_nat_sum_list_map pool_weight_def)
  qed
  ultimately have "\<forall>b \<in> set bs. ?c b = b_Weight b"
    by (intro sum_list_eq_pointwise) auto
  then show ?thesis using cr by (simp add: credits_zero_def)
qed

theorem weighted_rr_fair_witness:
  "\<exists>ids m'. wrr_draws 7 sample_pool sample_manager = (ids, m') \<and>
     count_list ids ''a'' = 5 \<and> count_list ids ''b'' = 1 \<and> credits_zero sample_pool m'"
proof -
  obtain ids m' where d: "wrr_draws 7 sample_pool sample_manager = (ids, m')"
    by force
  then have "(\<forall>b \<in> set sample_pool. int (count_list ids (b_ID b)) = b_Weight b) \<and> credits_zero sample_pool m'"
    using weighted_rr_fair[of sample_pool sample_manager ids m'] sample_pool_ok by simp
  then show ?thesis using d by (auto simp: sample_pool_def)
qed

text \<open>
  Smoothness of the weighted round robin: after any number \<open>k\<close> of draws, a backend of
  weight \<open>w\<close> in a pool of total weight \<open>W\<close> has been picked fewer than \<open>k * w / W + 1\<close> times:
  no backend is ever a whole draw ahead of its share.
\<close>

theorem weighted_rr_bounded:
  assumes "wrr_pool bs" and "credits_zero bs m"
    and "wrr_draws k bs m = (ids, m')" and "b \<in> set bs"
  shows "pool_weight bs * int (count_list ids (b_ID b)) < int k * b_Weight b + pool_weight bs"
  using wrr_draws_inv[OF assms(1,2,3)] assms(4) by fastforce

theorem weighted_rr_bounded_witness:
  "\<exists>ids m'. wrr_draws 3 sample_pool sample_manager = (ids, m') \<and> 7 * int (count_list ids ''a'') < 22"
proof -
  obtain ids m' where d: "wrr_draws 3 sample_pool sample_manager = (ids, m')"
    by force
  then show ?thesis
    using weighted_rr_bounded[of sample_pool sample_manager 3 ids m' "sample_backend ''a'' 5"] sample_pool_ok
    by (simp add: sample_pool_def)
qed

subsection \<open>Least connections, random, round robin\<close>

lemma least_conns_loop_spec:
  "s = conn_score best \<Longrightarrow> r = least_conns_loop bs best s \<Longrightarrow>
   \<exists>pre post. best # bs = pre @ r # post \<and>
     (\<forall>x \<in> set (best # bs). conn_score r \<le> conn_score x) \<and>
     (\<forall>x \<in> set pre. conn_score r < conn_score x)"
proof (induction bs best s rule: least_conns_loop.induct)
  case (1 best s)
  then show ?case by (intro exI[of _ "[]"]) simp
next
  case (2 b bs best s)
  show ?case
  proof (cases "conn_score b < s")
    case True
    then have "r = least_conns_loop bs b (conn_score b)"
      using 2(4) by simp
    then obtain pre post where ih: "b # bs = pre @ r # post"
      "\<forall>x \<in> set (b # bs). conn_score r \<le> conn_score x" "\<forall>x \<in> set pre. conn_score r < conn_score x"
      using 2(1)[OF refl True refl] by blast
    then have "best # b # bs = (best # pre) @ r # post" and "conn_score r < conn_score best"
      using True 2(3) by (simp, metis list.set_intros(1) order.strict_trans1)
    then show ?thesis
      using ih(2,3) by (intro exI[of _ "best # pre"] exI[of _ post]) simp
  next
    case False
    then have "r = least_conns_loop bs best s"
      using 2(4) by simp
    then obtain pre post where ih: "best # bs = pre @ r # post"
      "\<forall>x \<in> set (best # bs). conn_score r \<le> conn_score x" "\<forall>x \<in> set pre. conn_score r < conn_score x"
      using 2(2)[OF refl False 2(3)] by blast
    show ?thesis
    proof (cases pre)
      case Nil
      then show ?thesis
        using ih False 2(3) by (intro exI[of _ "[]"] exI[of _ "b # post"]) auto
    next
      case (Cons p pre')
      then show ?thesis
        using ih False 2(3) by (intro exI[of _ "best # b # pre'"] exI[of _ post]) auto
    qed
  qed
qed

text \<open>
  \<open>selectLeastConns\<close> answers a backend whose load per weight is minimal, and the first
  one in the slice among those: everything before it is strictly more loaded.
\<close>

theorem least_conns_minimal:
  assumes "bs \<noteq> []" and "select_least_conns bs m = (b, m')"
  shows "m' = m \<and> (\<exists>pre post. bs = pre @ b # post \<and>
           (\<forall>x \<in> set pre. conn_score b < conn_score x) \<and> (\<forall>x \<in> set bs. conn_score b \<le> conn_score x))"
proof -
  have "b = least_conns_loop (tl bs) (hd bs) (conn_score (hd bs))" "m' = m" "hd bs # tl bs = bs"
    using assms by (auto simp: select_least_conns_def)
  then show ?thesis
    using least_conns_loop_spec[OF refl, of b "tl bs" "hd bs"] by metis
qed

theorem least_conns_minimal_witness:
  "\<exists>b m'. select_least_conns sample_pool sample_manager = (b, m') \<and>
     (\<forall>x \<in> set sample_pool. conn_score b \<le> conn_score x)"
proof -
  obtain b m' where d: "select_least_conns sample_pool sample_manager = (b, m')"
    by force
  then show ?thesis
    using least_conns_minimal[of sample_pool sample_manager b m'] by (auto simp: sample_pool_def)
qed

lemma clamp_weight_pos [simp]: "0 < clamp_weight w"
  by (simp add: clamp_weight_def)

lemma total_random_weight_nonneg: "0 \<le> total_random_weight bs"
  unfolding total_random_weight_def by (rule sum_list_nonneg) (auto simp: clamp_weight_def)

lemma total_random_weight_simps [simp]:
  "total_random_weight [] = 0"
  "total_random_weight (b # bs) = clamp_weight (b_Weight b) + total_random_weight bs"
  by (simp_all add: total_random_weight_def)

lemma random_loop_append:
  "0 \<le> r \<Longrightarrow> random_loop (pre @ bs) r =
     (if r < total_random_weight pre then random_loop pre r
      else random_loop bs (r - total_random_weight pre))"
proof (induction pre arbitrary: r)
  case (Cons b pre)
  show ?case
    using Cons.IH[of "r - clamp_weight (b_Weight b)"] Cons.prems total_random_weight_nonneg[of pre]
    by (simp add: Let_def algebra_simps)
qed simp

lemma random_loop_in_range: "0 \<le> r \<Longrightarrow> r < total_random_weight bs \<Longrightarrow> random_loop bs r \<noteq> None"
  by (induction bs arbitrary: r) (simp_all add: Let_def)

text \<open>
  \<open>selectByRandom\<close> splits the draws \<open>0 .. total-1\<close> of \<open>rand.IntN\<close> into one interval per
  backend, in slice order, and the interval of a backend is as long as its clamped weight:
  a backend of weight 3 answers three times as many draws as one of weight 1.
\<close>

theorem random_proportional:
  assumes "bs = pre @ b # post" and "b \<notin> set pre" and "b \<notin> set post"
  shows "{r \<in> {0..<total_random_weight bs}. fst (select_by_random (\<lambda>_. r) bs m) = b} =
         {total_random_weight pre..<total_random_weight pre + clamp_weight (b_Weight b)}"
proof -
  let ?T = "total_random_weight bs" and ?lo = "total_random_weight pre" and ?w = "clamp_weight (b_Weight b)"
  have T: "?T = ?lo + ?w + total_random_weight post" and nn: "0 \<le> ?lo" "0 \<le> total_random_weight post"
    using assms(1) total_random_weight_nonneg by (auto simp: total_random_weight_def)
  have tpos: "?T \<noteq> 0"
    using T nn clamp_weight_pos[of "b_Weight b"] by linarith
  have sel: "fst (select_by_random (\<lambda>_. r) bs m) = b \<longleftrightarrow> random_loop bs r = Some b"
    if "r \<in> {0..<?T}" for r
    using random_loop_in_range[of r bs] that tpos
    by (auto simp: select_by_random_def Let_def split: option.splits)
  have "random_loop bs r = Some b \<longleftrightarrow> r \<in> {?lo..<?lo + ?w}" if r: "r \<in> {0..<?T}" for r
  proof (cases "r < ?lo")
    case True
    then show ?thesis
      using r assms(2) random_loop_mem[of pre r b] by (auto simp: assms(1) random_loop_append)
  next
    case False
    have "random_loop bs r = random_loop (b # post) (r - ?lo)"
      using r False by (simp add: assms(1) random_loop_append)
    also have "\<dots> = Some b \<longleftrightarrow> r - ?lo < ?w"
      using assms(3) random_loop_mem[of post _ b] by (auto simp: Let_def)
    finally show ?thesis using False by auto
  qed
  with sel have "r \<in> {0..<?T} \<Longrightarrow> fst (select_by_random (\<lambda>_. r) bs m) = b \<longleftrightarrow> r \<in> {?lo..<?lo + ?w}" for r
    by blast
  moreover have "{?lo..<?lo + ?w} \<subseteq> {0..<?T}"
    using T nn by auto
  ultimately show ?thesis by blast
qed

theorem random_proportional_witness:
  "{r \<in> {0..<7}. fst (select_by_random (\<lambda>_. r) sample_pool sample_manager) = sample_backend ''b'' 1} = {5..<6}"
  using random_proportional[of sample_pool "[sample_backend ''a'' 5]" "sample_backend ''b'' 1"
      "[sample_backend ''c'' 1]" sample_manager]
  by (simp add: sample_pool_def sample_backend_def clamp_weight_def)

fun rr_draws :: "nat \<Rightarrow> backend list \<Rightarrow> manager \<Rightarrow> backend list" where
  "rr_draws 0 bs m = []"
| "rr_draws (Suc k) bs m = (let (b, m') = select_round_robin bs m in b # rr_draws k bs m')"

lemma rr_draws_eq:
  "unat (roundIdx m) + k \<le> 2 ^ 64 \<Longrightarrow>
   rr_draws k bs m = map (\<lambda>i. bs ! ((unat (roundIdx m) + i) mod length bs)) [0..<k]"
proof (induction k arbitrary: m)
  case (Suc k)
  show ?case
  proof (cases k)
    case 0
    then show ?thesis by (simp add: select_round_robin_def Let_def)
  next
    case (Suc j)
    let ?m = "m\<lparr>roundIdx := roundIdx m + 1\<rparr>"
    have u: "unat (roundIdx ?m) = unat (roundIdx m) + 1"
      using Suc.prems Suc by (simp add: unat_word_ariths)
    then have "rr_draws k bs ?m = map (\<lambda>i. bs ! ((unat (roundIdx m) + Suc i) mod length bs)) [0..<k]"
      using Suc.IH[of ?m] Suc.prems by simp
    then show ?thesis
      by (simp add: select_round_robin_def Let_def upt_conv_Cons map_Suc_upt[symmetric] comp_def del: upt_Suc)
  qed
qed simp

text \<open>
  The round robin of the \<open>default\<close> branches takes turns: as long as the 64-bit counter
  does not wrap on the way, the next \<open>length bs\<close> draws answer the whole slice once, rotated
  to the position the counter stands at.
\<close>

theorem round_robin_turn:
  assumes "bs \<noteq> []" and "unat (roundIdx m) + length bs \<le> 2 ^ 64"
  shows "rr_draws (length bs) bs m = rotate (unat (roundIdx m)) bs"
  using rr_draws_eq[OF assms(2)] assms(1)
  by (intro nth_equalityI) (simp_all add: nth_rotate)

theorem round_robin_turn_witness:
  "rr_draws 3 sample_pool (sample_manager\<lparr>roundIdx := 4\<rparr>) = rotate 4 sample_pool"
proof -
  have "length sample_pool = 3" "sample_pool \<noteq> []"
    by (simp_all add: sample_pool_def)
  then show ?thesis
    using round_robin_turn[of sample_pool "sample_manager\<lparr>roundIdx := 4\<rparr>"] by simp
qed

end
