(* ===== verification/BackendOps.thy ===== *)
theory BackendOps
  imports Balance
begin

text \<open>
  The operations of \<open>internal/backend/manager.go\<close> on the backend slice: loading the
  table, reading copies, \<open>AddBackend\<close>, \<open>RemoveBackend\<close>, \<open>UpdateBackend\<close>,
  \<open>SelectBackendByID\<close>, the connection counters, \<open>MarkHealthy\<close>.

  The outcome of each SQL statement is an argument (\<open>exec_result\<close>), and so are the
  formatted clock readings. A row the driver cannot scan is \<open>None\<close>. The logging of
  failures is not modelled. An operation that writes the database first and fails leaves
  the memory alone: that is proved for each of them.

  Proved: every operation preserves \<open>mgr_inv\<close>, what a lookup answers after each of them,
  and that a failed statement changes nothing.
\<close>

subsection \<open>Loading\<close>

record backend_row =
  row_id :: string
  row_name :: "string option"
  row_address :: string
  row_scheme :: "string option"
  row_weight :: int
  row_enabled :: int
  row_healthy :: int
  row_last_check :: "string option"
  row_total_reqs :: "int option"
  row_active_conns :: "int option"
  row_health_check :: int
  row_check_interval :: int
  row_check_path :: string
  row_check_timeout :: int
  row_fail_threshold :: int
  row_recover_threshold :: int

definition scan_backend :: "backend_row \<Rightarrow> backend" where
  "scan_backend r = parse_scheme
     \<lparr>b_ID = row_id r,
      b_Name = (case row_name r of Some n \<Rightarrow> n | None \<Rightarrow> ''''),
      b_Address = row_address r,
      b_Scheme = (case row_scheme r of
                    Some s \<Rightarrow> if s \<noteq> '''' then s else ''http''
                  | None \<Rightarrow> ''http''),
      b_parsedSchemes = None,
      b_Weight = (if row_weight r \<le> 0 then 1 else row_weight r),
      b_Enabled = (row_enabled r = 1),
      b_Healthy = (row_healthy r = 1),
      b_LastCheck = (case row_last_check r of Some s \<Rightarrow> s | None \<Rightarrow> ''''),
      b_TotalReqs = (case row_total_reqs r of Some n \<Rightarrow> n | None \<Rightarrow> 0),
      b_ActiveConns = (case row_active_conns r of Some n \<Rightarrow> n | None \<Rightarrow> 0),
      b_HealthCheck = (row_health_check r = 1),
      b_CheckInterval = row_check_interval r,
      b_CheckPath = row_check_path r,
      b_CheckTimeout = row_check_timeout r,
      b_FailThreshold = row_fail_threshold r,
      b_RecoverThreshold = row_recover_threshold r\<rparr>"

text \<open>\<open>m.backends = append(m.backends, &b)\<close> with a fresh struct.\<close>

definition append_backend :: "backend \<Rightarrow> manager \<Rightarrow> manager" where
  "append_backend b m =
     m\<lparr>heap := (heap m)(next_ptr m := b), next_ptr := Suc (next_ptr m),
       backends := backends m @ [next_ptr m]\<rparr>"

definition load_backends :: "backend_row option list option \<Rightarrow> manager \<Rightarrow> manager" where
  "load_backends result m =
     (case result of
        None \<Rightarrow> m
      | Some rows \<Rightarrow>
          foldl (\<lambda>m row. case row of None \<Rightarrow> m | Some r \<Rightarrow> append_backend (scan_backend r) m)
            (m\<lparr>backends := []\<rparr>) rows)"

subsection \<open>Reading\<close>

definition get_backends :: "manager \<Rightarrow> backend list" where
  "get_backends m = map (heap m) (backends m)"

definition get_backend :: "string \<Rightarrow> manager \<Rightarrow> backend option" where
  "get_backend bid m = find (\<lambda>b. b_ID b = bid) (get_backends m)"

definition select_backend_by_id :: "string \<Rightarrow> manager \<Rightarrow> backend option" where
  "select_backend_by_id bid m =
     find (\<lambda>b. b_ID b = bid \<and> b_Enabled b \<and> b_Healthy b) (get_backends m)"

subsection \<open>Writing\<close>

definition with_defaults :: "backend \<Rightarrow> backend" where
  "with_defaults b =
     (let b = (if b_CheckInterval b \<le> 0 then b\<lparr>b_CheckInterval := 10\<rparr> else b);
          b = (if b_CheckPath b = '''' then b\<lparr>b_CheckPath := ''/health''\<rparr> else b);
          b = (if b_CheckTimeout b \<le> 0 then b\<lparr>b_CheckTimeout := 5\<rparr> else b);
          b = (if b_FailThreshold b \<le> 0 then b\<lparr>b_FailThreshold := 3\<rparr> else b);
          b = (if b_RecoverThreshold b \<le> 0 then b\<lparr>b_RecoverThreshold := 2\<rparr> else b);
          b = (if b_Weight b \<le> 0 then b\<lparr>b_Weight := 1\<rparr> else b);
          b = (if b_Scheme b = '''' then b\<lparr>b_Scheme := ''http''\<rparr> else b)
      in parse_scheme b)"

definition new_backend_id :: "string \<Rightarrow> backend \<Rightarrow> string" where
  "new_backend_id now b = now @ ''_'' @ b_Address b @ ''_'' @ b_Scheme b"

text \<open>
  The answer is the error or the caller's struct with the fields \<open>AddBackend\<close> copies back
  into it (the parsed schemes are not among them).
\<close>

definition add_backend ::
  "string \<Rightarrow> exec_result \<Rightarrow> backend \<Rightarrow> manager \<Rightarrow> (string + backend) \<times> manager" where
  "add_backend now insert_result b m =
     (let bid = new_backend_id now b;
          bc = with_defaults (b\<lparr>b_ID := bid\<rparr>)
      in case insert_result of
           DbErr e \<Rightarrow> (Inl e, m)
         | DbOk _ \<Rightarrow>
             (let bc = bc\<lparr>b_Enabled := True, b_Healthy := True\<rparr>;
                  m' = rebuild_group_cache (refresh_available (append_backend bc m))
              in (Inr (bc\<lparr>b_parsedSchemes := b_parsedSchemes b\<rparr>), m')))"

definition remove_backend ::
  "exec_result \<Rightarrow> string \<Rightarrow> manager \<Rightarrow> (string + unit) \<times> manager" where
  "remove_backend delete_result bid m =
     (case delete_result of
        DbErr e \<Rightarrow> (Inl e, m)
      | DbOk _ \<Rightarrow>
          (let m1 = m\<lparr>backends := remove_first (\<lambda>p. b_ID (heap m p) = bid) (backends m),
                      failCount := (failCount m)(bid := 0),
                      recoverCount := (recoverCount m)(bid := 0),
                      wrrState := (wrrState m)(bid := None),
                      groupMembers :=
                        (\<lambda>gid. remove_first (\<lambda>mi. mi_BackendID mi = bid) (groupMembers m gid))\<rparr>
           in (Inr (), rebuild_group_cache (refresh_available m1))))"

definition overwrite_config :: "backend \<Rightarrow> backend \<Rightarrow> backend" where
  "overwrite_config src b =
     parse_scheme
       (b\<lparr>b_Name := b_Name src, b_Address := b_Address src, b_Scheme := b_Scheme src\<rparr>)
       \<lparr>b_Weight := b_Weight src, b_Enabled := b_Enabled src, b_HealthCheck := b_HealthCheck src,
        b_CheckInterval := b_CheckInterval src, b_CheckPath := b_CheckPath src,
        b_CheckTimeout := b_CheckTimeout src, b_FailThreshold := b_FailThreshold src,
        b_RecoverThreshold := b_RecoverThreshold src\<rparr>"

definition update_backend ::
  "exec_result \<Rightarrow> backend \<Rightarrow> manager \<Rightarrow> (string + unit) \<times> manager" where
  "update_backend update_result src m =
     (case update_result of
        DbErr e \<Rightarrow> (Inl e, m)
      | DbOk _ \<Rightarrow>
          (Inr (), rebuild_group_cache (refresh_available
                     (modify_backend (b_ID src) (overwrite_config src) m))))"

definition inc_counter :: "backend \<Rightarrow> backend" where
  "inc_counter b = b\<lparr>b_ActiveConns := b_ActiveConns b + 1, b_TotalReqs := b_TotalReqs b + 1\<rparr>"

definition inc_conn :: "string \<Rightarrow> manager \<Rightarrow> manager" where
  "inc_conn bid = modify_backend bid inc_counter"

definition dec_counter :: "backend \<Rightarrow> backend" where
  "dec_counter b = (if b_ActiveConns b > 0 then b\<lparr>b_ActiveConns := b_ActiveConns b - 1\<rparr> else b)"

definition dec_conn :: "string \<Rightarrow> manager \<Rightarrow> manager" where
  "dec_conn bid = modify_backend bid dec_counter"

definition mark_healthy :: "string \<Rightarrow> string \<Rightarrow> bool \<Rightarrow> manager \<Rightarrow> manager" where
  "mark_healthy now bid healthy m =
     (let m1 = (case ptr_of m bid of
                  None \<Rightarrow> m
                | Some p \<Rightarrow>
                    (let m1 = m\<lparr>heap := (heap m)(p := (heap m p)
                                  \<lparr>b_Healthy := healthy, b_LastCheck := now\<rparr>)\<rparr>
                     in if healthy
                        then m1\<lparr>failCount := (failCount m1)(bid := 0),
                                recoverCount := (recoverCount m1)(bid := 0)\<rparr>
                        else m1\<lparr>recoverCount := (recoverCount m1)(bid := 0)\<rparr>))
      in rebuild_group_cache (refresh_available m1))"

subsection \<open>The invariant is preserved\<close>

definition ids :: "manager \<Rightarrow> string set" where
  "ids m = (\<lambda>p. b_ID (heap m p)) ` set (backends m)"

lemma append_backend_wf:
  assumes "mgr_wf m" and "b_ID b \<notin> ids m"
  shows "mgr_wf (append_backend b m)"
proof -
  have "next_ptr m \<notin> set (backends m)" and "\<And>p. p \<in> set (backends m) \<Longrightarrow> p < Suc (next_ptr m)"
    using assms(1) by (auto simp: mgr_wf_def less_Suc_eq)
  moreover from this have "map (\<lambda>p. b_ID (heap (append_backend b m) p)) (backends (append_backend b m)) =
      map (\<lambda>p. b_ID (heap m p)) (backends m) @ [b_ID b]"
    by (auto simp: append_backend_def)
  ultimately show ?thesis
    using assms unfolding mgr_wf_def
    by (simp del: map_eq_conv add: ids_def) (auto simp: append_backend_def)
qed

lemma get_backends_append:
  "mgr_wf m \<Longrightarrow> get_backends (append_backend b m) = get_backends m @ [b]"
  by (auto simp: get_backends_def append_backend_def mgr_wf_def)

lemma ids_get_backends: "ids m = b_ID ` set (get_backends m)"
  by (auto simp: ids_def get_backends_def)

lemma get_backends_frame [simp]:
  "get_backends (refresh_available m) = get_backends m"
  "get_backends (rebuild_group_cache m) = get_backends m"
  by (simp_all add: get_backends_def)

lemma distinct_get_backends: "mgr_wf m \<Longrightarrow> distinct (map b_ID (get_backends m))"
  by (simp add: mgr_wf_def get_backends_def comp_def)

lemma get_backend_iff:
  "mgr_wf m \<Longrightarrow> get_backend bid m = Some b \<longleftrightarrow> b \<in> set (get_backends m) \<and> b_ID b = bid"
  unfolding get_backend_def
proof (intro iffI)
  show "find (\<lambda>b. b_ID b = bid) (get_backends m) = Some b \<Longrightarrow> b \<in> set (get_backends m) \<and> b_ID b = bid"
    by (rule find_Some_mem)
next
  assume "mgr_wf m" "b \<in> set (get_backends m) \<and> b_ID b = bid"
  then show "find (\<lambda>b. b_ID b = bid) (get_backends m) = Some b"
    by (intro find_distinct_key[OF distinct_get_backends]) simp_all
qed

lemma get_backend_None_iff: "get_backend bid m = None \<longleftrightarrow> bid \<notin> ids m"
  by (auto simp: get_backend_def ids_get_backends find_None_iff)

lemma select_backend_by_id_eq:
  "mgr_wf m \<Longrightarrow> select_backend_by_id bid m =
     (case get_backend bid m of Some b \<Rightarrow> if usable b then Some b else None | None \<Rightarrow> None)"
proof (cases "select_backend_by_id bid m")
  case None
  then show "mgr_wf m \<Longrightarrow> ?thesis"
    by (auto simp: select_backend_by_id_def get_backend_def find_None_iff usable_def
        split: option.splits dest!: find_Some_mem)
next
  case (Some b)
  then have "b \<in> set (get_backends m)" "b_ID b = bid" "usable b"
    unfolding select_backend_by_id_def by (auto simp: usable_def dest: find_Some_mem)
  then show "mgr_wf m \<Longrightarrow> ?thesis"
    using Some get_backend_iff[of m bid b] by auto
qed

lemma with_defaults_simps [simp]:
  "b_ID (with_defaults b) = b_ID b"
  "0 < b_CheckInterval (with_defaults b)" "0 < b_CheckTimeout (with_defaults b)"
  "0 < b_FailThreshold (with_defaults b)" "0 < b_RecoverThreshold (with_defaults b)"
  "0 < b_Weight (with_defaults b)" "b_CheckPath (with_defaults b) \<noteq> ''''"
  "b_Scheme (with_defaults b) \<noteq> ''''"
  by (simp_all add: with_defaults_def parse_scheme_def Let_def)

lemma overwrite_config_id [simp]: "b_ID (overwrite_config src b) = b_ID b"
  by (simp add: overwrite_config_def parse_scheme_def)

lemma remove_first_image_wf:
  "distinct xs \<Longrightarrow> distinct (map f xs) \<Longrightarrow>
   distinct (remove_first P xs) \<and> distinct (map f (remove_first P xs))"
  by (induction xs) (auto dest: subsetD[OF set_remove_first_subset])

lemma add_backend_inv:
  assumes "mgr_inv m"
    and key: "\<And>n. r = DbOk n \<Longrightarrow> new_backend_id now b \<notin> ids m"
  shows "mgr_inv (snd (add_backend now r b m))"
  using assms
  by (auto simp: add_backend_def Let_def mgr_inv_def append_backend_wf split: exec_result.split)

lemma remove_backend_wf:
  "mgr_wf m \<Longrightarrow> mgr_wf (snd (remove_backend r bid m))"
  using remove_first_image_wf[of "backends m" "\<lambda>p. b_ID (heap m p)"]
  by (auto simp: remove_backend_def Let_def mgr_wf_def split: exec_result.split
      dest: subsetD[OF set_remove_first_subset])

lemma remove_backend_inv: "mgr_inv m \<Longrightarrow> mgr_inv (snd (remove_backend r bid m))"
  using remove_backend_wf[of m r bid]
  by (cases r) (simp_all add: mgr_inv_def remove_backend_def Let_def)

lemma update_backend_inv: "mgr_inv m \<Longrightarrow> mgr_inv (snd (update_backend r src m))"
  by (cases r) (simp_all add: update_backend_def mgr_inv_def modify_backend_wf)

lemma modify_conns_inv:
  assumes "mgr_inv m" and "\<And>b. sans_conns (f b) = sans_conns b"
  shows "mgr_inv (modify_backend bid f m)"
proof -
  have same: "sans_conns (heap (modify_backend bid f m) p) = sans_conns (heap m p)" for p
    using assms(2) by (simp add: modify_backend_def split: option.split)
  have "usable (heap (modify_backend bid f m) p) = usable (heap m p)"
    and "b_ID (heap (modify_backend bid f m) p) = b_ID (heap m p)" for p
    using sans_conns_eqD[OF same[of p]] by auto
  moreover have "cache_ok (modify_backend bid f m) = cache_ok m"
    by (rule cache_ok_cong) (simp_all add: same)
  ultimately show ?thesis
    using assms(1) by (simp add: mgr_inv_def mgr_wf_def avail_ok_def)
qed

lemma inc_conn_inv: "mgr_inv m \<Longrightarrow> mgr_inv (inc_conn bid m)"
  unfolding inc_conn_def by (rule modify_conns_inv) (simp_all add: sans_conns_def inc_counter_def)

lemma dec_conn_inv: "mgr_inv m \<Longrightarrow> mgr_inv (dec_conn bid m)"
  unfolding dec_conn_def by (rule modify_conns_inv) (simp_all add: sans_conns_def dec_counter_def)

lemma mark_healthy_heap:
  "heap (mark_healthy now bid h m) =
     heap (modify_backend bid (\<lambda>b. b\<lparr>b_Healthy := h, b_LastCheck := now\<rparr>) m)"
  "backends (mark_healthy now bid h m) = backends m"
  "next_ptr (mark_healthy now bid h m) = next_ptr m"
  by (auto simp: mark_healthy_def modify_backend_def Let_def split: option.splits)

lemma mgr_wf_cong:
  "heap m = heap m' \<Longrightarrow> backends m = backends m' \<Longrightarrow> next_ptr m = next_ptr m' \<Longrightarrow> mgr_wf m = mgr_wf m'"
  by (simp add: mgr_wf_def)

lemma mark_healthy_inv: 
  assumes "mgr_inv m"
  shows "mgr_inv (mark_healthy now bid h m)"
proof -
  have "mgr_wf (mark_healthy now bid h m)"
    using assms modify_backend_wf[of m "\<lambda>b. b\<lparr>b_Healthy := h, b_LastCheck := now\<rparr>" bid]
    by (subst mgr_wf_cong[OF mark_healthy_heap(1)]) (simp_all add: mark_healthy_heap mgr_inv_def)
  then show ?thesis
    by (simp add: mark_healthy_def Let_def mgr_inv_def)
qed

subsection \<open>What a lookup answers\<close>

lemma get_backend_ptr: "get_backend i m = map_option (heap m) (ptr_of m i)"
  by (simp add: get_backend_def get_backends_def ptr_of_def find_map_conv comp_def)

lemma ptr_of_modify:
  assumes "\<And>b. b_ID (f b) = b_ID b"
  shows "ptr_of (modify_backend bid f m) i = ptr_of m i"
  unfolding ptr_of_def by (simp add: heap_modify_backend assms if_distrib[of b_ID] cong: if_cong)

lemma get_backend_modify:
  assumes "\<And>b. b_ID (f b) = b_ID b"
  shows "get_backend i (modify_backend bid f m) =
     (if i = bid then map_option f (get_backend bid m) else get_backend i m)"
proof (cases "ptr_of m i")
  case None
  then show ?thesis by (auto simp: get_backend_ptr ptr_of_modify assms)
next
  case (Some p)
  then show ?thesis
    using ptr_of_SomeD[OF Some] ptr_of_SomeD[of m bid p]
    by (auto simp: get_backend_ptr ptr_of_modify assms heap_modify_backend)
qed

lemma get_backend_frame:
  "get_backend i (refresh_available m) = get_backend i m"
  "get_backend i (rebuild_group_cache m) = get_backend i m"
  by (simp_all add: get_backend_def)

lemma get_backend_append:
  "mgr_wf m \<Longrightarrow> b_ID b \<notin> ids m \<Longrightarrow>
   get_backend i (append_backend b m) = (if i = b_ID b then Some b else get_backend i m)"
proof -
  assume wf: "mgr_wf m" and new: "b_ID b \<notin> ids m"
  have "find P (xs @ [b]) = (case find P xs of Some x \<Rightarrow> Some x | None \<Rightarrow> if P b then Some b else None)"
    for P and xs :: "backend list"
    by (induction xs) auto
  then show ?thesis
    using new get_backend_None_iff[of "b_ID b" m]
    by (auto simp: get_backend_def get_backends_append[OF wf] split: option.split dest!: find_Some_mem)
qed

lemma get_backends_remove:
  "mgr_wf m \<Longrightarrow> get_backends (snd (remove_backend (DbOk n) bid m)) =
     filter (\<lambda>b. b_ID b \<noteq> bid) (get_backends m)"
  using remove_first_distinct_key[of "\<lambda>p. b_ID (heap m p)" "backends m" bid]
  by (simp add: remove_backend_def get_backends_def mgr_wf_def filter_map comp_def Let_def)

lemma find_filter_key:
  "find (\<lambda>b. g b = i) (filter (\<lambda>b. g b \<noteq> k) xs) = (if i = k then None else find (\<lambda>b. g b = i) xs)"
  by (induction xs) auto

definition registry :: "manager \<Rightarrow> string \<Rightarrow> backend option" where
  "registry m = (\<lambda>i. get_backend i m)"

lemma counter_ids [simp]: "b_ID (inc_counter b) = b_ID b" "b_ID (dec_counter b) = b_ID b"
  by (simp_all add: inc_counter_def dec_counter_def)

text \<open>
  The backend registry as a finite map from IDs to structs: \<open>RemoveBackend\<close> deletes one
  key, \<open>UpdateBackend\<close> overwrites the configuration fields of one value (never its ID,
  health or counters), \<open>IncConn\<close> and \<open>DecConn\<close> move one counter, and no operation touches
  another backend.
\<close>

theorem backend_registry_ops:
  assumes "mgr_wf m"
  shows "registry (snd (remove_backend (DbOk n) bid m)) = (registry m)(bid := None) \<and>
    registry (snd (update_backend (DbOk n) src m)) =
      (registry m)(b_ID src := map_option (overwrite_config src) (registry m (b_ID src))) \<and>
    registry (dec_conn bid (inc_conn bid m)) =
      (registry m)(bid := map_option (dec_counter \<circ> inc_counter) (registry m bid))"
proof (intro conjI)
  show "registry (snd (remove_backend (DbOk n) bid m)) = (registry m)(bid := None)"
    by (rule ext)
      (simp add: registry_def get_backend_def get_backends_remove[OF assms(1)] find_filter_key)
  show "registry (snd (update_backend (DbOk n) src m)) =
      (registry m)(b_ID src := map_option (overwrite_config src) (registry m (b_ID src)))"
    by (rule ext) (simp add: registry_def update_backend_def get_backend_frame get_backend_modify)
  show "registry (dec_conn bid (inc_conn bid m)) =
      (registry m)(bid := map_option (dec_counter \<circ> inc_counter) (registry m bid))"
    by (rule ext)
      (simp add: registry_def inc_conn_def dec_conn_def get_backend_modify option.map_comp)
qed

theorem backend_registry_ops_witness:
  "registry (snd (remove_backend (DbOk 1) ''a'' sample_manager)) ''a'' = None \<and>
   registry (snd (remove_backend (DbOk 1) ''a'' sample_manager)) ''b'' = Some (sample_backend ''b'' 1)"
proof -
  have "mgr_wf sample_manager"
    using sample_manager_inv by (simp add: mgr_inv_def)
  then have "registry (snd (remove_backend (DbOk 1) ''a'' sample_manager)) = (registry sample_manager)(''a'' := None)"
    using backend_registry_ops by blast
  then show ?thesis
    by (simp add: registry_def get_backend_def get_backends_def)
qed

text \<open>
  \<open>AddBackend\<close>: when the statement fails nothing changes; when it succeeds the registry
  gains exactly the defaulted struct under the ID built from the clock, the address and the
  scheme, with every numeric setting positive, and it can be chosen at once.
\<close>

theorem add_backend_registers:
  assumes "mgr_inv m" and "new_backend_id now b \<notin> ids m"
  shows "snd (add_backend now (DbErr e) b m) = m \<and>
    (let bid = new_backend_id now b; m' = snd (add_backend now (DbOk n) b m) in
      (\<exists>nb. get_backend bid m' = Some nb \<and> b_Address nb = b_Address b \<and> usable nb \<and>
         0 < b_Weight nb \<and> 0 < b_FailThreshold nb \<and> 0 < b_RecoverThreshold nb \<and>
         0 < b_CheckInterval nb \<and> 0 < b_CheckTimeout nb \<and> b_Scheme nb \<noteq> '''' \<and>
         select_backend_by_id bid m' = Some nb) \<and>
      (\<forall>i. i \<noteq> bid \<longrightarrow> get_backend i m' = get_backend i m))"
proof -
  let ?bid = "new_backend_id now b"
  let ?nb = "(with_defaults (b\<lparr>b_ID := ?bid\<rparr>))\<lparr>b_Enabled := True, b_Healthy := True\<rparr>"
  let ?m' = "snd (add_backend now (DbOk n) b m)"
  have wf: "mgr_wf m" using assms(1) by (simp add: mgr_inv_def)
  have look: "get_backend i ?m' = (if i = ?bid then Some ?nb else get_backend i m)" for i
    using get_backend_append[OF wf, of ?nb] assms(2)
    by (simp add: add_backend_def Let_def get_backend_frame)
  have wf': "mgr_wf ?m'"
    using add_backend_inv[OF assms(1)] assms(2) by (simp add: mgr_inv_def)
  have "b_Address (with_defaults b') = b_Address b'" for b'
    by (simp add: with_defaults_def parse_scheme_def Let_def)
  then have "b_Address ?nb = b_Address b" "usable ?nb"
    by (simp_all add: usable_def)
  moreover from this have "select_backend_by_id ?bid ?m' = Some ?nb"
    by (simp add: select_backend_by_id_eq[OF wf'] look)
  moreover have "0 < b_Weight ?nb \<and> 0 < b_FailThreshold ?nb \<and> 0 < b_RecoverThreshold ?nb \<and>
         0 < b_CheckInterval ?nb \<and> 0 < b_CheckTimeout ?nb \<and> b_Scheme ?nb \<noteq> ''''"
    by simp
  ultimately show ?thesis
    unfolding Let_def using look by (simp add: add_backend_def Let_def)
qed

theorem add_backend_registers_witness:
  "\<exists>nb. get_backend ''t_1.1.1.1:80_http'' (snd (add_backend ''t'' (DbOk 1)
     ((sample_backend '''' 0)\<lparr>b_Address := ''1.1.1.1:80''\<rparr>) sample_manager)) = Some nb \<and> 0 < b_Weight nb"
proof -
  let ?b = "(sample_backend '''' 0)\<lparr>b_Address := ''1.1.1.1:80''\<rparr>"
  have "new_backend_id ''t'' ?b = ''t_1.1.1.1:80_http''"
    by (simp add: new_backend_id_def sample_backend_def)
  then show ?thesis
    using add_backend_registers[OF sample_manager_inv, of "''t''" ?b _ 1]
    by (auto simp: Let_def ids_def)
qed

end
