(* ===== verification/GroupRoute.thy ===== *)
theory GroupRoute
  imports BackendOps
begin

text \<open>
  \<open>internal/backend/group.go\<close>: the backend groups, their members, and the choice of a
  backend for a group, with the lock-free route cache (\<open>SelectBackendForGroup\<close>) in front of
  the locked scan (\<open>selectBackendForGroupSlow\<close>).

  The clock, the random source and the SQL outcomes are arguments. \<open>groupMembers\<close> is total:
  a group with no entry has no members, which is how the code reads the Go map. The two
  read-only reports that iterate over a whole Go map (\<open>GetGroupedBackendIDs\<close>,
  \<open>GetBackendGroupsMap\<close>) are not modelled.

  Proved: the operations preserve \<open>mgr_inv\<close>; the cached path answers what the locked scan
  answers, up to the connection counters of the copy, for every policy but
  least-connections (locale \<open>conn_blind\<close>); what may be chosen; and that the cached path of
  least-connections reads counters nobody refreshes.
\<close>

subsection \<open>Loading and reading\<close>

record group_row =
  gr_id :: string
  gr_name :: string
  gr_lb_policy :: string
  gr_enabled :: int
  gr_created_at :: int

record member_row =
  mr_group_id :: string
  mr_backend_id :: string
  mr_weight :: int
  mr_enabled :: int

definition scan_group :: "group_row \<Rightarrow> backend_group" where
  "scan_group r = \<lparr>g_ID = gr_id r, g_Name = gr_name r, g_LbPolicy = gr_lb_policy r,
                   g_Enabled = (gr_enabled r = 1), g_MemberCnt = 0, g_CreatedAt = gr_created_at r\<rparr>"

definition scan_member :: "member_row \<Rightarrow> group_member_item" where
  "scan_member r = \<lparr>mi_GroupID = mr_group_id r, mi_BackendID = mr_backend_id r,
                    mi_Weight = mr_weight r, mi_Enabled = (mr_enabled r = 1)\<rparr>"

definition load_group_rows :: "group_row option list \<Rightarrow> (string \<rightharpoonup> backend_group)" where
  "load_group_rows rows =
     foldl (\<lambda>gs row. case row of None \<Rightarrow> gs | Some r \<Rightarrow> gs(gr_id r \<mapsto> scan_group r)) Map.empty rows"

definition load_member_rows :: "member_row option list \<Rightarrow> string \<Rightarrow> group_member_item list" where
  "load_member_rows rows =
     foldl (\<lambda>ms row. case row of
                None \<Rightarrow> ms
              | Some r \<Rightarrow> ms(mr_group_id r := ms (mr_group_id r) @ [scan_member r])) (\<lambda>_. []) rows"

definition load_groups ::
  "group_row option list option \<Rightarrow> member_row option list option \<Rightarrow> manager \<Rightarrow> manager" where
  "load_groups group_rows member_rows m =
     (case group_rows of
        None \<Rightarrow> m
      | Some grs \<Rightarrow>
          let m1 = m\<lparr>groups := load_group_rows grs, groupMembers := (\<lambda>_. [])\<rparr>
          in case member_rows of
               None \<Rightarrow> m1
             | Some mrs \<Rightarrow>
                 let ms = load_member_rows mrs
                 in m1\<lparr>groupMembers := ms,
                       groups := (\<lambda>gid. map_option
                          (\<lambda>g. g\<lparr>g_MemberCnt := int (length (ms gid))\<rparr>) (groups m1 gid))\<rparr>)"

definition empty_manager :: manager where
  "empty_manager =
     \<lparr>heap = (\<lambda>_. \<lparr>b_ID = '''', b_Name = '''', b_Address = '''', b_Scheme = '''',
        b_parsedSchemes = None, b_Weight = 0, b_Enabled = False, b_Healthy = False,
        b_LastCheck = '''', b_TotalReqs = 0, b_ActiveConns = 0, b_HealthCheck = False,
        b_CheckInterval = 0, b_CheckPath = '''', b_CheckTimeout = 0, b_FailThreshold = 0,
        b_RecoverThreshold = 0\<rparr>),
      next_ptr = 0, backends = [], availableBackends = [], groups = Map.empty,
      groupMembers = (\<lambda>_. []), roundIdx = 0, failCount = (\<lambda>_. 0), recoverCount = (\<lambda>_. 0),
      wrrState = Map.empty, groupCache = None, rebuildGroupCacheResult = None\<rparr>"

text \<open>
  \<open>NewManager\<close>, after the schema statements have succeeded (each of them only returns its
  error otherwise).
\<close>

definition new_manager ::
  "backend_row option list option \<Rightarrow> group_row option list option \<Rightarrow> member_row option list option
   \<Rightarrow> manager" where
  "new_manager brows grows mrows =
     rebuild_group_cache (load_groups grows mrows (refresh_available (load_backends brows empty_manager)))"

definition get_group :: "string \<Rightarrow> manager \<Rightarrow> backend_group option" where
  "get_group gid m =
     (case groups m gid of
        None \<Rightarrow> None
      | Some g \<Rightarrow> Some (g\<lparr>g_MemberCnt := int (length (groupMembers m gid))\<rparr>))"

record group_member =
  gm_BackendID :: string
  gm_Address :: string
  gm_Name :: string
  gm_Scheme :: string
  gm_Weight :: int
  gm_Healthy :: bool
  gm_Enabled :: bool
  gm_HealthCheck :: bool

definition full_member :: "manager \<Rightarrow> group_member_item \<Rightarrow> group_member option" where
  "full_member m mi =
     (case ptr_of m (mi_BackendID mi) of
        None \<Rightarrow> None
      | Some p \<Rightarrow>
          let b = heap m p in
          Some \<lparr>gm_BackendID = mi_BackendID mi, gm_Address = b_Address b, gm_Name = b_Name b,
                gm_Scheme = b_Scheme b,
                gm_Weight = (if mi_Weight mi \<le> 0 then 1 else mi_Weight mi),
                gm_Healthy = b_Healthy b, gm_Enabled = mi_Enabled mi,
                gm_HealthCheck = b_HealthCheck b\<rparr>)"

definition get_group_members_full :: "string \<Rightarrow> manager \<Rightarrow> group_member list" where
  "get_group_members_full gid m = List.map_filter (full_member m) (groupMembers m gid)"

subsection \<open>Writing\<close>

text \<open>
  Each of the six operations runs its statement, changes the maps under the lock (\<open>put_group\<close>, \<open>edit_group\<close>,
  \<open>switch_group\<close>, \<open>drop_group\<close>, \<open>put_member\<close>, \<open>drop_member\<close>), gives the lock back and calls
  \<open>rebuildGroupCache\<close>. The definitions are the operation without another in between; \<open>GroupRace\<close> has the steps.
\<close>

definition put_group :: "backend_group \<Rightarrow> manager \<Rightarrow> manager" where
  "put_group g m = m\<lparr>groups := (groups m)(g_ID g \<mapsto> g)\<rparr>"

definition add_group ::
  "string \<Rightarrow> int \<Rightarrow> exec_result \<Rightarrow> string \<Rightarrow> lb_policy \<Rightarrow> manager
   \<Rightarrow> (string + backend_group) \<times> manager" where
  "add_group gid now insert_result name policy m =
     (let policy = valid_policy policy in
      case insert_result of
        DbErr e \<Rightarrow> (Inl e, m)
      | DbOk _ \<Rightarrow>
          let g = \<lparr>g_ID = gid, g_Name = name, g_LbPolicy = policy, g_Enabled = True,
                   g_MemberCnt = 0, g_CreatedAt = now\<rparr>
          in (Inr g, rebuild_group_cache (put_group g m)))"

definition group_not_found :: "string \<Rightarrow> string" where
  "group_not_found gid = ''group not found: '' @ gid"

definition modify_group :: "string \<Rightarrow> (backend_group \<Rightarrow> backend_group) \<Rightarrow> manager \<Rightarrow> manager" where
  "modify_group gid f m =
     (case groups m gid of None \<Rightarrow> m | Some g \<Rightarrow> m\<lparr>groups := (groups m)(gid \<mapsto> f g)\<rparr>)"

definition edit_group :: "string \<Rightarrow> string \<Rightarrow> lb_policy \<Rightarrow> manager \<Rightarrow> manager" where
  "edit_group gid name policy =
     modify_group gid (\<lambda>g. (if name \<noteq> '''' then g\<lparr>g_Name := name\<rparr> else g)\<lparr>g_LbPolicy := policy\<rparr>)"

definition switch_group :: "string \<Rightarrow> bool \<Rightarrow> manager \<Rightarrow> manager" where
  "switch_group gid enabled = modify_group gid (\<lambda>g. g\<lparr>g_Enabled := enabled\<rparr>)"

definition drop_group :: "string \<Rightarrow> manager \<Rightarrow> manager" where
  "drop_group gid m = m\<lparr>groups := (groups m)(gid := None), groupMembers := (groupMembers m)(gid := [])\<rparr>"

definition update_group ::
  "exec_result \<Rightarrow> string \<Rightarrow> string \<Rightarrow> lb_policy \<Rightarrow> manager \<Rightarrow> (string + unit) \<times> manager" where
  "update_group update_result gid name policy m =
     (let policy = valid_policy policy in
      case update_result of
        DbErr e \<Rightarrow> (Inl e, m)
      | DbOk n \<Rightarrow>
          if n = 0 then (Inl (group_not_found gid), m)
          else (Inr (), rebuild_group_cache (edit_group gid name policy m)))"

definition set_group_enabled ::
  "exec_result \<Rightarrow> string \<Rightarrow> bool \<Rightarrow> manager \<Rightarrow> (string + unit) \<times> manager" where
  "set_group_enabled update_result gid enabled m =
     (case update_result of
        DbErr e \<Rightarrow> (Inl (utf8 [230, 155, 180, 230, 150, 176, 231, 187, 132, 229, 144, 175, 231, 148, 168, 231, 138, 182, 230, 128, 129, 229, 164, 177, 232, 180, 165] @ '': '' @ e), m)
      | DbOk n \<Rightarrow>
          if n = 0 then (Inl (group_not_found gid), m)
          else (Inr (), rebuild_group_cache (switch_group gid enabled m)))"

text \<open>The four statements of the transaction, in order; the first that fails ends it.\<close>

fun first_error :: "(string \<times> exec_result) list \<Rightarrow> string option" where
  "first_error [] = None"
| "first_error ((msg, DbErr e) # rs) = Some (msg @ e)"
| "first_error ((msg, DbOk n) # rs) = first_error rs"

definition delete_group ::
  "exec_result \<Rightarrow> exec_result \<Rightarrow> exec_result \<Rightarrow> exec_result \<Rightarrow> string \<Rightarrow> manager
   \<Rightarrow> (string + unit) \<times> manager" where
  "delete_group tx_begin del_members del_group commit gid m =
     (case first_error
         [(utf8 [229, 144, 175, 229, 138, 168, 228, 186, 139, 229, 138, 161, 229, 164, 177, 232, 180, 165] @ '': '', tx_begin),
          (utf8 [229, 136, 160, 233, 153, 164, 231, 187, 132, 230, 136, 144, 229, 145, 152, 229, 164, 177, 232, 180, 165] @ '': '', del_members),
          (utf8 [229, 136, 160, 233, 153, 164, 229, 144, 142, 231, 171, 175, 231, 187, 132, 229, 164, 177, 232, 180, 165] @ '': '', del_group),
          (utf8 [230, 143, 144, 228, 186, 164, 228, 186, 139, 229, 138, 161, 229, 164, 177, 232, 180, 165] @ '': '', commit)] of
        Some e \<Rightarrow> (Inl e, m)
      | None \<Rightarrow>
          (Inr (), rebuild_group_cache (drop_group gid m)))"

text \<open>The messages of \<open>fmt.Errorf\<close>, as the bytes the source has.\<close>

definition group_missing_text :: string where
  "group_missing_text = utf8 [229, 144, 142, 231, 171, 175, 231, 187, 132, 228, 184, 141, 229, 173, 152, 229, 156, 168] @ '': ''"

definition backend_missing_text :: string where
  "backend_missing_text = utf8 [229, 144, 142, 231, 171, 175, 228, 184, 141, 229, 173, 152, 229, 156, 168] @ '': ''"

definition put_member :: "string \<Rightarrow> string \<Rightarrow> int \<Rightarrow> manager \<Rightarrow> manager" where
  "put_member gid bid weight m =
     (let members = groupMembers m gid;
          members' =
            (if list_ex (\<lambda>mi. mi_BackendID mi = bid) members
             then update_first (\<lambda>mi. mi_BackendID mi = bid)
                    (\<lambda>mi. mi\<lparr>mi_Weight := weight, mi_Enabled := True\<rparr>) members
             else members @ [\<lparr>mi_GroupID = gid, mi_BackendID = bid,
                              mi_Weight = weight, mi_Enabled = True\<rparr>])
      in m\<lparr>groupMembers := (groupMembers m)(gid := members')\<rparr>)"

text \<open>The check of the group and the backend takes the lock for reading and gives it back before the statement.\<close>

definition add_group_member ::
  "exec_result \<Rightarrow> string \<Rightarrow> string \<Rightarrow> int \<Rightarrow> manager \<Rightarrow> (string + unit) \<times> manager" where
  "add_group_member insert_result gid bid weight m =
     (let weight = (if weight \<le> 0 then 1 else weight) in
      if groups m gid = None then (Inl (group_missing_text @ gid), m)
      else if ptr_of m bid = None then (Inl (backend_missing_text @ bid), m)
      else case insert_result of
             DbErr e \<Rightarrow> (Inl e, m)
           | DbOk _ \<Rightarrow> (Inr (), rebuild_group_cache (put_member gid bid weight m)))"

definition drop_member :: "string \<Rightarrow> string \<Rightarrow> manager \<Rightarrow> manager" where
  "drop_member gid bid m =
     m\<lparr>groupMembers := (groupMembers m)
         (gid := remove_first (\<lambda>mi. mi_BackendID mi = bid) (groupMembers m gid))\<rparr>"

definition forget_wrr :: "string \<Rightarrow> manager \<Rightarrow> manager" where
  "forget_wrr bid m = m\<lparr>wrrState := (wrrState m)(bid := None)\<rparr>"

definition remove_group_member ::
  "exec_result \<Rightarrow> string \<Rightarrow> string \<Rightarrow> manager \<Rightarrow> (string + unit) \<times> manager" where
  "remove_group_member delete_result gid bid m =
     (case delete_result of
        DbErr e \<Rightarrow> (Inl e, m)
      | DbOk _ \<Rightarrow>
          (Inr (), rebuild_group_cache (forget_wrr bid (drop_member gid bid m))))"

subsection \<open>Choosing a backend\<close>

definition circuit_closed_retry_interval :: duration where
  "circuit_closed_retry_interval = 10 * nano_second"

definition select_backend_for_group_slow ::
  "(string \<Rightarrow> string option) \<Rightarrow> (int \<Rightarrow> int) \<Rightarrow> string \<Rightarrow> selection_info \<Rightarrow> manager
   \<Rightarrow> backend option \<times> manager" where
  "select_backend_for_group_slow split_host draw gid info m =
     (case groups m gid of
        None \<Rightarrow> (None, m)
      | Some g \<Rightarrow>
          if \<not> g_Enabled g then (None, m)
          else
            let allAvailable = group_available m gid in
            if allAvailable = [] then (None, m)
            else
              let matching = filter (if si_IsTLS info then has_tls else has_non_tls) allAvailable;
                  available = (if matching = [] then allAvailable else matching);
                  policy = valid_policy (g_LbPolicy g);
                  (b, m') = select_backend_from_list split_host draw available policy info m
              in (Some b, m'))"

definition select_backend_for_group ::
  "(string \<Rightarrow> string option) \<Rightarrow> (int \<Rightarrow> int) \<Rightarrow> instant \<Rightarrow> string \<Rightarrow> selection_info \<Rightarrow> manager
   \<Rightarrow> backend option \<times> manager" where
  "select_backend_for_group split_host draw now gid info m =
     (case (case groupCache m of None \<Rightarrow> None | Some c \<Rightarrow> c gid) of
        None \<Rightarrow> select_backend_for_group_slow split_host draw gid info m
      | Some e \<Rightarrow>
          if re_allAvailable e = [] then
            (if time_sub now (re_lastOpenAttempt e) < circuit_closed_retry_interval then (None, m)
             else select_backend_for_group_slow split_host draw gid info m)
          else
            let matching = (if si_IsTLS info then re_tlsBackends e else re_nonTLSBackends e);
                available = (if matching = [] then re_allAvailable e else matching);
                (b, m') = select_backend_from_list split_host draw available (re_lbPolicy e) info m
            in (Some b, m'))"

subsection \<open>The invariant is preserved\<close>

lemma mgr_inv_rebuild:
  "mgr_wf m \<Longrightarrow> avail_ok m \<Longrightarrow> mgr_inv (rebuild_group_cache m)"
  by (simp add: mgr_inv_def)

lemma mgr_inv_same_slices:
  assumes "mgr_inv m" and "heap m' = heap m" "next_ptr m' = next_ptr m" "backends m' = backends m"
    "availableBackends m' = availableBackends m"
  shows "mgr_inv (rebuild_group_cache m')"
  using assms by (intro mgr_inv_rebuild) (simp_all add: mgr_inv_def mgr_wf_def avail_ok_def)

lemma modify_group_frame [simp]:
  "heap (modify_group gid f m) = heap m" "next_ptr (modify_group gid f m) = next_ptr m"
  "backends (modify_group gid f m) = backends m"
  "availableBackends (modify_group gid f m) = availableBackends m"
  "groupMembers (modify_group gid f m) = groupMembers m"
  by (simp_all add: modify_group_def split: option.split)

text \<open>What the changes of the group operations leave alone.\<close>

lemmas group_changes = put_group_def edit_group_def switch_group_def drop_group_def put_member_def drop_member_def
  forget_wrr_def

lemma modify_group_cache [simp]:
  "groupCache (modify_group gid f m) = groupCache m"
  "rebuildGroupCacheResult (modify_group gid f m) = rebuildGroupCacheResult m"
  by (simp_all add: modify_group_def split: option.split)

lemma group_change_frame [simp]:
  "heap (put_group g m) = heap m" "next_ptr (put_group g m) = next_ptr m" "backends (put_group g m) = backends m"
  "availableBackends (put_group g m) = availableBackends m" "groupCache (put_group g m) = groupCache m"
  "heap (edit_group gid name policy m) = heap m" "next_ptr (edit_group gid name policy m) = next_ptr m"
  "backends (edit_group gid name policy m) = backends m"
  "availableBackends (edit_group gid name policy m) = availableBackends m"
  "groupCache (edit_group gid name policy m) = groupCache m"
  "heap (switch_group gid en m) = heap m" "next_ptr (switch_group gid en m) = next_ptr m"
  "backends (switch_group gid en m) = backends m"
  "availableBackends (switch_group gid en m) = availableBackends m" "groupCache (switch_group gid en m) = groupCache m"
  "heap (drop_group gid m) = heap m" "next_ptr (drop_group gid m) = next_ptr m"
  "backends (drop_group gid m) = backends m"
  "availableBackends (drop_group gid m) = availableBackends m" "groupCache (drop_group gid m) = groupCache m"
  "heap (put_member gid bid w m) = heap m" "next_ptr (put_member gid bid w m) = next_ptr m"
  "backends (put_member gid bid w m) = backends m"
  "availableBackends (put_member gid bid w m) = availableBackends m" "groupCache (put_member gid bid w m) = groupCache m"
  "heap (drop_member gid bid m) = heap m" "next_ptr (drop_member gid bid m) = next_ptr m"
  "backends (drop_member gid bid m) = backends m"
  "availableBackends (drop_member gid bid m) = availableBackends m" "groupCache (drop_member gid bid m) = groupCache m"
  "heap (forget_wrr bid m) = heap m" "next_ptr (forget_wrr bid m) = next_ptr m"
  "backends (forget_wrr bid m) = backends m"
  "availableBackends (forget_wrr bid m) = availableBackends m" "groupCache (forget_wrr bid m) = groupCache m"
  by (simp_all add: group_changes Let_def)

lemma add_group_inv: "mgr_inv m \<Longrightarrow> mgr_inv (snd (add_group gid now r name policy m))"
  by (cases r) (simp_all add: add_group_def Let_def mgr_inv_same_slices)

lemma update_group_inv: "mgr_inv m \<Longrightarrow> mgr_inv (snd (update_group r gid name policy m))"
  by (cases r) (simp_all add: update_group_def Let_def mgr_inv_same_slices)

lemma set_group_enabled_inv: "mgr_inv m \<Longrightarrow> mgr_inv (snd (set_group_enabled r gid en m))"
  by (cases r) (simp_all add: set_group_enabled_def mgr_inv_same_slices)

lemma delete_group_inv: "mgr_inv m \<Longrightarrow> mgr_inv (snd (delete_group r1 r2 r3 r4 gid m))"
  by (simp add: delete_group_def mgr_inv_same_slices split: option.split)

lemma add_group_member_inv: "mgr_inv m \<Longrightarrow> mgr_inv (snd (add_group_member r gid bid w m))"
  by (cases r) (simp_all add: add_group_member_def Let_def mgr_inv_same_slices)

lemma remove_group_member_inv: "mgr_inv m \<Longrightarrow> mgr_inv (snd (remove_group_member r gid bid m))"
  by (cases r) (simp_all add: remove_group_member_def mgr_inv_same_slices)

lemma load_groups_frame [simp]:
  "heap (load_groups g r m) = heap m" "next_ptr (load_groups g r m) = next_ptr m"
  "backends (load_groups g r m) = backends m"
  "availableBackends (load_groups g r m) = availableBackends m"
  by (simp_all add: load_groups_def Let_def split: option.split)

lemma load_backends_wf:
  assumes "mgr_wf m" and "distinct (map row_id (List.map_filter (\<lambda>r. r) rows))"
  shows "mgr_wf (load_backends (Some rows) m)"
proof -
  let ?step = "\<lambda>m row. case row of None \<Rightarrow> m | Some r \<Rightarrow> append_backend (scan_backend r) m"
  have "mgr_wf m \<Longrightarrow> distinct (map row_id (List.map_filter (\<lambda>r. r) rows)) \<Longrightarrow>
        ids m \<inter> row_id ` set (List.map_filter (\<lambda>r. r) rows) = {} \<Longrightarrow> mgr_wf (foldl ?step m rows)" for m
  proof (induction rows arbitrary: m)
    case (Cons row rows)
    show ?case
    proof (cases row)
      case None
      then show ?thesis using Cons by (simp add: List.map_filter_def)
    next
      case (Some r)
      have i: "b_ID (scan_backend r) = row_id r"
        by (simp add: scan_backend_def parse_scheme_def)
      have new: "row_id r \<notin> ids m"
        using Cons.prems(3) Some by (auto simp: List.map_filter_def)
      then have wf: "mgr_wf (append_backend (scan_backend r) m)"
        using append_backend_wf Cons.prems(1) i by simp
      moreover have "ids (append_backend (scan_backend r) m) = insert (row_id r) (ids m)"
        using get_backends_append[OF Cons.prems(1)] i by (simp add: ids_get_backends)
      ultimately show ?thesis
        using Cons.IH[OF wf] Cons.prems(2,3) Some by (auto simp: List.map_filter_def)
    qed
  qed simp
  moreover have "mgr_wf (m\<lparr>backends := []\<rparr>)" "ids (m\<lparr>backends := []\<rparr>) = {}"
    by (simp_all add: mgr_wf_def ids_def)
  ultimately show ?thesis
    using assms(2) by (simp add: load_backends_def)
qed

lemma empty_manager_wf: "mgr_wf empty_manager"
  by (simp add: mgr_wf_def empty_manager_def)

lemma new_manager_inv:
  assumes "\<And>rows. brows = Some rows \<Longrightarrow> distinct (map row_id (List.map_filter (\<lambda>r. r) rows))"
  shows "mgr_inv (new_manager brows grows mrows)"
proof -
  have "mgr_wf (load_backends brows empty_manager)"
    using assms empty_manager_wf
    by (cases brows) (simp_all add: load_backends_wf, simp add: load_backends_def)
  then have "mgr_wf (load_groups grows mrows (refresh_available (load_backends brows empty_manager)))"
    by (simp add: mgr_wf_def)
  moreover have "avail_ok (load_groups grows mrows (refresh_available (load_backends brows empty_manager)))"
    using avail_ok_refresh[of "load_backends brows empty_manager"] by (simp add: avail_ok_def)
  ultimately show ?thesis
    unfolding new_manager_def by (rule mgr_inv_rebuild)
qed

subsection \<open>Policies that do not read the connection counters\<close>

definition sans_result :: "backend \<times> manager \<Rightarrow> backend \<times> manager" where
  "sans_result r = (sans_conns (fst r), snd r)"

locale conn_blind = backend_selector +
  assumes sel_blind: "bs \<noteq> [] \<Longrightarrow> sel (map sans_conns bs) m = sans_result (sel bs m)"
begin

lemma sel_view:
  assumes "map sans_conns as = map sans_conns bs" and "bs \<noteq> []"
  shows "sans_result (sel as m) = sans_result (sel bs m)"
proof -
  have "as \<noteq> []" using assms by auto
  then show ?thesis using sel_blind[of as m] sel_blind[of bs m] assms by simp
qed

end

lemma sans_conns_simps [simp]:
  "b_ID (sans_conns b) = b_ID b" "b_Weight (sans_conns b) = b_Weight b"
  "usable (sans_conns b) = usable b"
  by (simp_all add: sans_conns_def usable_def)

lemma round_robin_blind:
  "bs \<noteq> [] \<Longrightarrow> select_round_robin (map sans_conns bs) m = sans_result (select_round_robin bs m)"
  by (simp add: select_round_robin_def Let_def sans_result_def)

lemma wrr_register_map: "wrr_register (map sans_conns bs) st t = wrr_register bs st t"
  by (induction bs arbitrary: st t) (simp_all add: Let_def cong: option.case_cong)

lemma wrr_pick_map:
  "wrr_pick (map sans_conns bs) st (map_option sans_conns best) w =
     map_prod (\<lambda>s. s) (map_option sans_conns) (wrr_pick bs st best w)"
proof (induction bs arbitrary: st best w)
  case (Cons b bs)
  show ?case
  proof (cases "st (b_ID b)")
    case None
    then show ?thesis using Cons by simp
  next
    case (Some e)
    let ?st = "st(b_ID b \<mapsto> e\<lparr>currentWeight := currentWeight e + effectiveWeight e\<rparr>)"
    show ?thesis
      using Cons[of ?st best w] Cons[of ?st "Some b" "currentWeight e + effectiveWeight e"]
      by (simp add: Some Let_def del: fun_upd_apply)
  qed
qed simp

lemma weighted_rr_blind:
  assumes "bs \<noteq> []"
  shows "select_weighted_rr (map sans_conns bs) m = sans_result (select_weighted_rr bs m)"
proof -
  obtain st t where reg: "wrr_register bs (wrrState m) 0 = (st, t)"
    by force
  obtain st' best where pk: "wrr_pick bs st None (-1) = (st', best)"
    by force
  have pm: "wrr_pick (map sans_conns bs) st None (-1) = (st', map_option sans_conns best)"
    using wrr_pick_map[of bs st None "-1"] by (simp add: pk)
  have "select_weighted_rr (map sans_conns bs) m =
    (if t = 0 then select_round_robin (map sans_conns bs) (m\<lparr>wrrState := st\<rparr>)
     else case best of None \<Rightarrow> select_round_robin (map sans_conns bs) (m\<lparr>wrrState := st'\<rparr>)
          | Some b \<Rightarrow> (sans_conns b, m\<lparr>wrrState := wrr_charge st' (b_ID b) t\<rparr>))"
    by (cases best) (simp_all add: select_weighted_rr_def wrr_register_map reg pm)
  also have "\<dots> = sans_result (select_weighted_rr bs m)"
    by (cases best)
      (simp_all add: select_weighted_rr_def reg pk round_robin_blind[OF assms], simp_all add: sans_result_def)
  finally show ?thesis .
qed

lemma random_loop_map: "random_loop (map sans_conns bs) r = map_option sans_conns (random_loop bs r)"
  by (induction bs r rule: random_loop.induct) (simp_all add: Let_def)

lemma random_blind:
  "bs \<noteq> [] \<Longrightarrow> select_by_random d (map sans_conns bs) m = sans_result (select_by_random d bs m)"
proof -
  have "total_random_weight (map sans_conns bs) = total_random_weight bs"
    by (simp add: total_random_weight_def comp_def)
  then show "bs \<noteq> [] \<Longrightarrow> ?thesis"
    by (cases "random_loop bs (d (total_random_weight bs))")
      (simp_all add: select_by_random_def Let_def random_loop_map sans_result_def hd_map last_map)
qed

interpretation rrb: conn_blind select_round_robin
  by unfold_locales (rule round_robin_blind)

interpretation wrrb: conn_blind select_weighted_rr
  by unfold_locales (rule weighted_rr_blind)

interpretation iphashb: conn_blind "select_by_ip_hash sh ip" for sh ip
  by unfold_locales (simp add: select_by_ip_hash_def Let_def hash_index_def sans_result_def)

interpretation urlhashb: conn_blind "select_by_url_hash u" for u
  by unfold_locales (simp add: select_by_url_hash_def hash_index_def sans_result_def)

interpretation rndb: conn_blind "select_by_random draw" for draw
  by unfold_locales (rule random_blind)

lemma from_list_view:
  assumes "map sans_conns as = map sans_conns bs" and "bs \<noteq> []" and "policy \<noteq> LBLeastConns"
  shows "sans_result (select_backend_from_list sh draw as policy info m) =
         sans_result (select_backend_from_list sh draw bs policy info m)"
  using assms(3) rrb.sel_view[OF assms(1,2)] wrrb.sel_view[OF assms(1,2)] iphashb.sel_view[OF assms(1,2)]
    urlhashb.sel_view[OF assms(1,2)] rndb.sel_view[OF assms(1,2)]
  by (simp add: select_backend_from_list_def)

subsection \<open>The cached path against the locked scan\<close>

definition eligible :: "manager \<Rightarrow> string \<Rightarrow> bool \<Rightarrow> backend list" where
  "eligible m gid is_tls =
     (let all = group_available m gid; matching = filter (if is_tls then has_tls else has_non_tls) all
      in if matching = [] then all else matching)"

lemma filter_map_sans:
  "filter has_tls (map sans_conns bs) = map sans_conns (filter has_tls bs)"
  "filter has_non_tls (map sans_conns bs) = map sans_conns (filter has_non_tls bs)"
  by (simp_all add: filter_map comp_def)

lemma cache_entryD:
  assumes "cache_ok m" and "groupCache m = Some c" and "c gid = Some e"
  obtains g where "groups m gid = Some g" "g_Enabled g" "re_lbPolicy e = valid_policy (g_LbPolicy g)"
    "map sans_conns (re_allAvailable e) = map sans_conns (group_available m gid)"
    "map sans_conns (re_tlsBackends e) = map sans_conns (filter has_tls (group_available m gid))"
    "map sans_conns (re_nonTLSBackends e) = map sans_conns (filter has_non_tls (group_available m gid))"
proof -
  have "map_option entry_view (c gid) =
    (case groups m gid of None \<Rightarrow> None
     | Some g \<Rightarrow> if g_Enabled g then Some (entry_view (build_entry m gid g None)) else None)"
    using assms(1,2) unfolding cache_ok_def by (simp del: option.case_eq_if)
  then obtain g where "groups m gid = Some g" "g_Enabled g"
    "entry_view e = entry_view (build_entry m gid g None)"
    using assms(3) by (auto split: option.splits if_splits)
  then show ?thesis
    using that by (simp add: entry_view_build Let_def filter_map_sans) (simp add: entry_view_def)
qed

lemma slow_cases:
  "select_backend_for_group_slow sh draw gid info m =
     (case groups m gid of
        None \<Rightarrow> (None, m)
      | Some g \<Rightarrow>
          if \<not> g_Enabled g \<or> group_available m gid = [] then (None, m)
          else map_prod Some (\<lambda>m. m)
                 (select_backend_from_list sh draw (eligible m gid (si_IsTLS info))
                    (valid_policy (g_LbPolicy g)) info m))"
  by (auto simp: select_backend_for_group_slow_def eligible_def Let_def split: option.split prod.split)

lemma eligible_ne: "group_available m gid \<noteq> [] \<Longrightarrow> eligible m gid tls \<noteq> []"
  by (simp add: eligible_def Let_def)

definition sans_answer :: "backend option \<times> manager \<Rightarrow> backend option \<times> manager" where
  "sans_answer r = (map_option sans_conns (fst r), snd r)"

lemma sans_answer_Some:
  "sans_answer (map_prod Some (\<lambda>m. m) r) = map_prod Some (\<lambda>m. m) (sans_result r)"
  by (cases r) (simp add: sans_answer_def sans_result_def)

text \<open>
  C6. The lock-free path agrees with the locked scan: in every state that satisfies the
  manager's invariant, \<open>SelectBackendForGroup\<close> answers the same backend (its connection
  counters apart) and moves the balancing state the same way as \<open>selectBackendForGroupSlow\<close>,
  for a group under any policy but least-connections, whatever the clock says. In
  particular the breaker never hides a backend.
\<close>

theorem group_fast_path_agrees:
  assumes "mgr_inv m"
    and "\<And>g. groups m gid = Some g \<Longrightarrow> g_LbPolicy g \<noteq> LBLeastConns"
  shows "sans_answer (select_backend_for_group sh draw now gid info m) =
         sans_answer (select_backend_for_group_slow sh draw gid info m)"
proof (cases "case groupCache m of None \<Rightarrow> None | Some c \<Rightarrow> c gid")
  case None
  then show ?thesis by (simp add: select_backend_for_group_def)
next
  case (Some e)
  then obtain c where c: "groupCache m = Some c" "c gid = Some e"
    by (auto split: option.splits)
  obtain g where g: "groups m gid = Some g" "g_Enabled g" "re_lbPolicy e = valid_policy (g_LbPolicy g)"
    and views: "map sans_conns (re_allAvailable e) = map sans_conns (group_available m gid)"
    "map sans_conns (re_tlsBackends e) = map sans_conns (filter has_tls (group_available m gid))"
    "map sans_conns (re_nonTLSBackends e) = map sans_conns (filter has_non_tls (group_available m gid))"
    using cache_entryD[OF _ c] assms(1) by (metis mgr_inv_def)
  have pol: "valid_policy (g_LbPolicy g) \<noteq> LBLeastConns"
    using assms(2)[OF g(1)] by (auto simp: valid_policy_def lb_policy_defs)
  show ?thesis
  proof (cases "group_available m gid = []")
    case True
    then have "re_allAvailable e = []" using views(1) by simp
    then show ?thesis
      using g True Some by (simp add: select_backend_for_group_def slow_cases)
  next
    case False
    then have ne: "re_allAvailable e \<noteq> []" using views(1) by auto
    let ?match = "if si_IsTLS info then re_tlsBackends e else re_nonTLSBackends e"
    let ?av = "if ?match = [] then re_allAvailable e else ?match"
    have "map sans_conns ?av = map sans_conns (eligible m gid (si_IsTLS info))"
      using views unfolding eligible_def Let_def by (cases "si_IsTLS info") auto
    then have "sans_result (select_backend_from_list sh draw ?av (re_lbPolicy e) info m) =
      sans_result (select_backend_from_list sh draw (eligible m gid (si_IsTLS info))
        (valid_policy (g_LbPolicy g)) info m)"
      unfolding g(3) by (rule from_list_view[OF _ eligible_ne[OF False] pol])
    moreover have "select_backend_for_group sh draw now gid info m =
      map_prod Some (\<lambda>m. m) (select_backend_from_list sh draw ?av (re_lbPolicy e) info m)"
      using Some ne by (simp add: select_backend_for_group_def Let_def split: prod.split)
    ultimately show ?thesis
      using g False by (simp add: slow_cases sans_answer_Some)
  qed
qed

definition sample_grouped :: manager where
  "sample_grouped =
     snd (add_group_member (DbOk 1) ''g'' ''b'' 3
       (snd (add_group_member (DbOk 1) ''g'' ''a'' 0
         (snd (add_group ''g'' 0 (DbOk 1) ''web'' LBIPHash sample_manager)))))"

definition sample_info :: selection_info where
  "sample_info = \<lparr>si_ClientIP = ''9.9.9.9'', si_URLPath = ''/'', si_IsWS = False, si_IsTLS = False\<rparr>"

lemma sample_grouped_inv: "mgr_inv sample_grouped"
  by (simp add: sample_grouped_def add_group_member_inv add_group_inv sample_manager_inv)

lemma sample_grouped_simps:
  "groups sample_grouped ''g'' = Some \<lparr>g_ID = ''g'', g_Name = ''web'', g_LbPolicy = LBIPHash,
     g_Enabled = True, g_MemberCnt = 0, g_CreatedAt = 0\<rparr>"
  "groupMembers sample_grouped ''g'' =
     [\<lparr>mi_GroupID = ''g'', mi_BackendID = ''a'', mi_Weight = 1, mi_Enabled = True\<rparr>,
      \<lparr>mi_GroupID = ''g'', mi_BackendID = ''b'', mi_Weight = 3, mi_Enabled = True\<rparr>]"
  "backends sample_grouped = [0, 1]" "heap sample_grouped = heap sample_manager"
  by (simp_all add: sample_grouped_def add_group_member_def group_changes add_group_def valid_policy_def
      is_valid_lb_policy_def ptr_of_def Let_def)

lemma sample_grouped_available:
  "group_available sample_grouped ''g'' = [sample_backend ''a'' 1, sample_backend ''b'' 3]"
  by (simp add: group_available_def sample_grouped_simps List.map_filter_def member_backend_def)
    (simp add: sample_backend_def)

theorem group_fast_path_agrees_witness:
  "sans_answer (select_backend_for_group Some (\<lambda>n. 0) 100 ''g'' sample_info sample_grouped) =
     sans_answer (select_backend_for_group_slow Some (\<lambda>n. 0) ''g'' sample_info sample_grouped) \<and>
   group_available sample_grouped ''g'' \<noteq> []"
proof -
  have "g_LbPolicy g \<noteq> LBLeastConns" if "groups sample_grouped ''g'' = Some g" for g
    using that by (auto simp: sample_grouped_simps lb_policy_defs)
  then show ?thesis
    using group_fast_path_agrees[OF sample_grouped_inv, of "''g''"] by (simp add: sample_grouped_available)
qed

lemma fast_cases:
  assumes "mgr_inv m"
  obtains "select_backend_for_group sh draw now gid info m = (None, m)"
      "\<And>g. groups m gid = Some g \<Longrightarrow> g_Enabled g \<Longrightarrow> group_available m gid = []"
  | g bs where "groups m gid = Some g" "g_Enabled g" "group_available m gid \<noteq> []"
      "map sans_conns bs = map sans_conns (eligible m gid (si_IsTLS info))"
      "select_backend_for_group sh draw now gid info m =
         map_prod Some (\<lambda>m. m)
           (select_backend_from_list sh draw bs (valid_policy (g_LbPolicy g)) info m)"
proof (cases "case groupCache m of None \<Rightarrow> None | Some c \<Rightarrow> c gid")
  case None
  then have "select_backend_for_group sh draw now gid info m =
      select_backend_for_group_slow sh draw gid info m"
    by (simp add: select_backend_for_group_def)
  then show ?thesis
    using that(1) that(2)[OF _ _ _ refl] by (fastforce simp: slow_cases split: option.splits if_splits)
next
  case (Some e)
  then obtain c where c: "groupCache m = Some c" "c gid = Some e"
    by (auto split: option.splits)
  obtain g where g: "groups m gid = Some g" "g_Enabled g" "re_lbPolicy e = valid_policy (g_LbPolicy g)"
    and views: "map sans_conns (re_allAvailable e) = map sans_conns (group_available m gid)"
    "map sans_conns (re_tlsBackends e) = map sans_conns (filter has_tls (group_available m gid))"
    "map sans_conns (re_nonTLSBackends e) = map sans_conns (filter has_non_tls (group_available m gid))"
    using cache_entryD[OF _ c] assms by (metis mgr_inv_def)
  show ?thesis
  proof (cases "group_available m gid = []")
    case True
    moreover have "select_backend_for_group sh draw now gid info m = (None, m)"
      using g True Some views(1) by (simp add: select_backend_for_group_def slow_cases)
    ultimately show ?thesis using that(1) by blast
  next
    case False
    then have ne: "re_allAvailable e \<noteq> []" using views(1) by auto
    let ?match = "if si_IsTLS info then re_tlsBackends e else re_nonTLSBackends e"
    let ?av = "if ?match = [] then re_allAvailable e else ?match"
    have "map sans_conns ?av = map sans_conns (eligible m gid (si_IsTLS info))"
      using views unfolding eligible_def Let_def by (cases "si_IsTLS info") auto
    moreover have "select_backend_for_group sh draw now gid info m =
      map_prod Some (\<lambda>m. m) (select_backend_from_list sh draw ?av (valid_policy (g_LbPolicy g)) info m)"
      using Some ne g(3) by (simp add: select_backend_for_group_def Let_def split: prod.split)
    ultimately show ?thesis using that(2)[OF g(1,2) False] by blast
  qed
qed

lemma eligible_subset: "set (eligible m gid tls) \<subseteq> set (group_available m gid)"
  by (auto simp: eligible_def Let_def)

lemma group_available_registered:
  assumes "b \<in> set (group_available m gid)"
  shows "\<exists>p \<in> set (backends m). \<exists>mi \<in> set (groupMembers m gid).
    usable (heap m p) \<and> mi_Enabled mi \<and> b_ID (heap m p) = mi_BackendID mi \<and>
    b = (heap m p)\<lparr>b_Weight := (if mi_Weight mi > 0 then mi_Weight mi else b_Weight (heap m p))\<rparr>"
  using assms unfolding group_available_mem
  by (fastforce simp: member_backend_def split: if_splits option.splits dest!: find_Some_mem)

text \<open>
  What a group may answer, under every policy: only an enabled member of an enabled
  group, standing for a registered, enabled and healthy backend and carrying the member's
  weight; and when some eligible backend speaks the protocol of the request (TLS or not),
  the answer does.
\<close>

theorem group_selection_sound:
  assumes "mgr_inv m" and "select_backend_for_group sh draw now gid info m = (Some b, m')"
  shows "lb_frame m m' \<and> (\<exists>g. groups m gid = Some g \<and> g_Enabled g) \<and>
    (\<exists>p \<in> set (backends m). \<exists>mi \<in> set (groupMembers m gid).
       usable (heap m p) \<and> mi_Enabled mi \<and> b_ID (heap m p) = mi_BackendID mi \<and>
       sans_conns b = sans_conns ((heap m p)\<lparr>b_Weight :=
         (if mi_Weight mi > 0 then mi_Weight mi else b_Weight (heap m p))\<rparr>)) \<and>
    (\<forall>has. has = (if si_IsTLS info then has_tls else has_non_tls) \<longrightarrow>
       (\<exists>x \<in> set (group_available m gid). has x) \<longrightarrow> has b)"
proof (rule fast_cases[OF assms(1), of sh draw now gid info])
  assume "select_backend_for_group sh draw now gid info m = (None, m)"
  then show ?thesis using assms(2) by simp
next
  fix g bs
  assume g: "groups m gid = Some g" "g_Enabled g" and ne: "group_available m gid \<noteq> []"
    and bs: "map sans_conns bs = map sans_conns (eligible m gid (si_IsTLS info))"
    and sel: "select_backend_for_group sh draw now gid info m =
         map_prod Some (\<lambda>m. m)
           (select_backend_from_list sh draw bs (valid_policy (g_LbPolicy g)) info m)"
  let ?r = "select_backend_from_list sh draw bs (valid_policy (g_LbPolicy g)) info m"
  have r: "b = fst ?r" "m' = snd ?r"
    using sel assms(2) by (auto simp: map_prod_def split: prod.splits)
  have "bs \<noteq> []" using bs eligible_ne[OF ne] by auto
  then have "b \<in> set bs" using r from_list.sel_mem by simp
  then have "sans_conns b \<in> set (map sans_conns (eligible m gid (si_IsTLS info)))"
    unfolding bs[symmetric] by simp
  then obtain x where x: "x \<in> set (eligible m gid (si_IsTLS info))" "sans_conns b = sans_conns x"
    by auto
  obtain p mi where "p \<in> set (backends m)" "mi \<in> set (groupMembers m gid)"
    "usable (heap m p)" "mi_Enabled mi" "b_ID (heap m p) = mi_BackendID mi"
    "x = (heap m p)\<lparr>b_Weight := (if mi_Weight mi > 0 then mi_Weight mi else b_Weight (heap m p))\<rparr>"
    using group_available_registered x(1) eligible_subset by blast
  moreover have "has_tls b = has_tls x" "has_non_tls b = has_non_tls x"
    by (metis schemes_sans_conns(2) x(2), metis schemes_sans_conns(3) x(2))
  then have "has b" if "has = (if si_IsTLS info then has_tls else has_non_tls)"
    and "\<exists>x \<in> set (group_available m gid). has x" for has
    using x(1) that by (auto simp: eligible_def Let_def filter_empty_conv split: if_splits)
  moreover have "lb_frame m m'"
    using r from_list.sel_frame by simp
  ultimately show ?thesis using g x(2) by blast
qed

theorem group_selection_sound_witness:
  "\<exists>b m'. select_backend_for_group Some (\<lambda>n. 0) 100 ''g'' sample_info sample_grouped = (Some b, m') \<and>
     lb_frame sample_grouped m'"
proof (rule fast_cases[OF sample_grouped_inv, of Some "\<lambda>n. 0" 100 "''g''" sample_info])
  assume "\<And>g. groups sample_grouped ''g'' = Some g \<Longrightarrow> g_Enabled g \<Longrightarrow> group_available sample_grouped ''g'' = []"
  then show ?thesis by (simp add: sample_grouped_available sample_grouped_simps)
next
  fix g bs
  assume "select_backend_for_group Some (\<lambda>n. 0) 100 ''g'' sample_info sample_grouped =
    map_prod Some (\<lambda>m. m)
      (select_backend_from_list Some (\<lambda>n. 0) bs (valid_policy (g_LbPolicy g)) sample_info sample_grouped)"
  then obtain b m' where s: "select_backend_for_group Some (\<lambda>n. 0) 100 ''g'' sample_info sample_grouped = (Some b, m')"
    by (simp add: map_prod_def split: prod.splits)
  then show ?thesis
    using group_selection_sound[OF sample_grouped_inv s] by blast
qed

text \<open>
  C24. A group is refused exactly when it is unknown or disabled or none of its enabled
  members stands for an enabled, healthy backend: with one usable member the request is
  always served, whatever the breaker's clock says.
\<close>

theorem group_selection_complete:
  assumes "mgr_inv m"
  shows "fst (select_backend_for_group sh draw now gid info m) = None \<longleftrightarrow>
    (\<forall>g. groups m gid = Some g \<longrightarrow> g_Enabled g \<longrightarrow>
       (\<forall>mi \<in> set (groupMembers m gid). mi_Enabled mi \<longrightarrow>
          (\<forall>p \<in> set (backends m). b_ID (heap m p) = mi_BackendID mi \<longrightarrow> \<not> usable (heap m p))))"
proof -
  have "group_available m gid = [] \<longleftrightarrow>
    (\<forall>mi \<in> set (groupMembers m gid). mi_Enabled mi \<longrightarrow>
       (\<forall>p \<in> set (backends m). b_ID (heap m p) = mi_BackendID mi \<longrightarrow> \<not> usable (heap m p)))"
    by (auto simp: group_available_def List.map_filter_def filter_empty_conv member_backend_def
        find_None_iff split: option.splits dest!: find_Some_mem)
  moreover have "fst (select_backend_for_group sh draw now gid info m) = None \<longleftrightarrow>
    (\<forall>g. groups m gid = Some g \<longrightarrow> g_Enabled g \<longrightarrow> group_available m gid = [])"
    by (rule fast_cases[OF assms, of sh draw now gid info]) auto
  ultimately show ?thesis by blast
qed

theorem group_selection_complete_witness:
  "fst (select_backend_for_group Some (\<lambda>n. 0) 100 ''g'' sample_info sample_grouped) \<noteq> None"
  unfolding group_selection_complete[OF sample_grouped_inv]
  by (simp add: sample_grouped_simps)

text \<open>
  Under least-connections the cached path does not see the load: however many
  connections are opened to a backend after the cache was built, a group with a cache entry
  keeps answering the same backend, because the entry holds copies whose counters only a
  rebuild refreshes.
\<close>

theorem group_least_conns_stale:
  assumes "groupCache m = Some c" and "c gid = Some e" and "re_allAvailable e \<noteq> []"
    and "re_lbPolicy e = LBLeastConns"
  shows "fst (select_backend_for_group sh draw now gid info ((inc_conn bid ^^ n) m)) =
         fst (select_backend_for_group sh draw now gid info m)"
proof -
  have "groupCache ((inc_conn bid ^^ n) m) = groupCache m"
    by (induction n) (simp_all add: inc_conn_def)
  then show ?thesis
    using assms
    by (simp add: select_backend_for_group_def select_backend_from_list_def select_least_conns_def Let_def)
qed

definition sample_lc_manager :: manager where
  "sample_lc_manager = sample_manager\<lparr>groupCache := Some [''g'' \<mapsto>
     \<lparr>re_lbPolicy = LBLeastConns, re_allAvailable = [sample_backend ''a'' 1, sample_backend ''b'' 1],
      re_tlsBackends = [], re_nonTLSBackends = [], re_openAttempts = 0, re_lastOpenAttempt = 0\<rparr>]\<rparr>"

theorem group_least_conns_stale_witness:
  "fst (select_backend_for_group Some (\<lambda>n. 0) 100 ''g'' sample_info
     ((inc_conn ''a'' ^^ 1000) sample_lc_manager)) =
   fst (select_backend_for_group Some (\<lambda>n. 0) 100 ''g'' sample_info sample_lc_manager)"
proof -
  obtain c where "groupCache sample_lc_manager = Some c"
    "c ''g'' = Some \<lparr>re_lbPolicy = LBLeastConns,
      re_allAvailable = [sample_backend ''a'' 1, sample_backend ''b'' 1],
      re_tlsBackends = [], re_nonTLSBackends = [], re_openAttempts = 0, re_lastOpenAttempt = 0\<rparr>"
    by (simp add: sample_lc_manager_def)
  then show ?thesis
    by (rule group_least_conns_stale) simp_all
qed

end
