(* ===== verification/NetAddr.thy ===== *)
theory NetAddr
  imports GoText "HOL-Library.Char_ord"
begin

text \<open>
  What the program uses of Go's \<open>net\<close> package: \<open>ParseIP\<close>, \<open>ParseCIDR\<close>,
  \<open>IPNet.Contains\<close>, the printing of IPv4 addresses and networks, and the address classes
  that \<open>internal/pkg/xutil/net.go\<close> tests (\<open>IsPrivateIP\<close>).

  An address is a 32-bit or a 128-bit word. As in \<open>net.IP\<close>, an IPv4-mapped IPv6 address
  (\<open>::ffff:a.b.c.d\<close>) is the IPv4 address: the parsers normalise it. A network keeps the
  masked address and the prefix length.

  Proved: printing an IPv4 address or network and parsing it again gives it back, what
  \<open>Contains\<close> means as an interval, and which IPv4 addresses are private.
\<close>

datatype ip_addr = V4 "32 word" | V6 "128 word"
datatype ip_net = Net4 "32 word" nat | Net6 "128 word" nat

unbundle bit_operations_syntax

subsection \<open>Decimal fields and IPv4\<close>

definition is_digit :: "char \<Rightarrow> bool" where
  "is_digit c \<longleftrightarrow> CHR ''0'' \<le> c \<and> c \<le> CHR ''9''"

definition digit_val :: "char \<Rightarrow> nat" where
  "digit_val c = of_char c - 48"

definition dec_val :: "string \<Rightarrow> nat" where
  "dec_val s = foldl (\<lambda>acc c. acc * 10 + digit_val c) 0 s"

fun dec_string :: "nat \<Rightarrow> string" where
  "dec_string n = (if n < 10 then [char_of (48 + n)] else dec_string (n div 10) @ [char_of (48 + n mod 10)])"

declare dec_string.simps [simp del]

definition parse_octet :: "string \<Rightarrow> nat option" where
  "parse_octet s =
     (if s = [] \<or> \<not> list_all is_digit s \<or> (length s > 1 \<and> hd s = CHR ''0'') \<or> dec_val s > 255
      then None else Some (dec_val s))"

definition word_of_octets :: "nat \<Rightarrow> nat \<Rightarrow> nat \<Rightarrow> nat \<Rightarrow> 32 word" where
  "word_of_octets a b c d = word_of_nat (((a * 256 + b) * 256 + c) * 256 + d)"

definition parse_ipv4 :: "string \<Rightarrow> 32 word option" where
  "parse_ipv4 s =
     (case map parse_octet (split_char CHR ''.'' s) of
        [Some a, Some b, Some c, Some d] \<Rightarrow> Some (word_of_octets a b c d)
      | _ \<Rightarrow> None)"

definition ipv4_string :: "32 word \<Rightarrow> string" where
  "ipv4_string w =
     (let n = unat w in
      join_with ''.'' (map dec_string
        [n div 16777216, n div 65536 mod 256, n div 256 mod 256, n mod 256]))"

subsection \<open>IPv6\<close>

definition hex_val :: "char \<Rightarrow> nat option" where
  "hex_val c =
     (if is_digit c then Some (digit_val c)
      else if CHR ''a'' \<le> c \<and> c \<le> CHR ''f'' then Some (of_char c - 87)
      else if CHR ''A'' \<le> c \<and> c \<le> CHR ''F'' then Some (of_char c - 55)
      else None)"

definition is_hex :: "char \<Rightarrow> bool" where
  "is_hex c \<longleftrightarrow> hex_val c \<noteq> None"

definition hex_group :: "string \<Rightarrow> nat" where
  "hex_group s = foldl (\<lambda>acc c. acc * 16 + (case hex_val c of None \<Rightarrow> 0 | Some v \<Rightarrow> v)) 0 s"

text \<open>
  The loop of the standard parser: \<open>k\<close> groups of 16 bits may still come, \<open>gs\<close> are the
  groups read, \<open>ell\<close> is the position of the \<open>::\<close>. The answer is the groups and the
  position.
\<close>

fun ipv6_groups :: "nat \<Rightarrow> string \<Rightarrow> nat list \<Rightarrow> nat option \<Rightarrow> (nat list \<times> nat option) option" where
  "ipv6_groups 0 s gs ell = (if s = [] then Some (gs, ell) else None)"
| "ipv6_groups (Suc k) s gs ell =
     (let g = takeWhile is_hex s; rest = dropWhile is_hex s in
      if g = [] \<or> length g > 4 then None
      else case rest of
        [] \<Rightarrow> Some (gs @ [hex_group g], ell)
      | c # rest' \<Rightarrow>
          if c = CHR ''.'' then
            (if (ell = None \<and> length gs \<noteq> 6) \<or> length gs + 2 > 8 then None
             else case parse_ipv4 s of
                    None \<Rightarrow> None
                  | Some w \<Rightarrow> Some (gs @ [unat w div 65536, unat w mod 65536], ell))
          else if c \<noteq> CHR '':'' \<or> rest' = [] then None
          else if hd rest' = CHR '':'' then
            (if ell \<noteq> None then None
             else if tl rest' = [] then Some (gs @ [hex_group g], Some (length gs + 1))
             else ipv6_groups k (tl rest') (gs @ [hex_group g]) (Some (length gs + 1)))
          else ipv6_groups k rest' (gs @ [hex_group g]) ell)"

definition expand_groups :: "nat list \<times> nat option \<Rightarrow> nat list option" where
  "expand_groups r =
     (case r of
        (gs, None) \<Rightarrow> if length gs = 8 then Some gs else None
      | (gs, Some e) \<Rightarrow>
          if length gs < 8 then Some (take e gs @ replicate (8 - length gs) 0 @ drop e gs) else None)"

definition word_of_groups :: "nat list \<Rightarrow> 128 word" where
  "word_of_groups gs = word_of_nat (foldl (\<lambda>acc g. acc * 65536 + g) 0 gs)"

definition parse_ipv6 :: "string \<Rightarrow> 128 word option" where
  "parse_ipv6 s =
     map_option word_of_groups
       (if s = ''::'' then Some (replicate 8 0)
        else Option.bind
          (if take 2 s = ''::'' then ipv6_groups 8 (drop 2 s) [] (Some 0) else ipv6_groups 8 s [] None)
          expand_groups)"

definition normalise_v6 :: "128 word \<Rightarrow> ip_addr" where
  "normalise_v6 w =
     (if drop_bit 32 w = 0xFFFF then V4 (ucast w) else V6 w)"

text \<open>\<open>net.ParseIP\<close>: the first of \<open>.\<close>, \<open>:\<close> and \<open>%\<close> decides; a zone is refused.\<close>

definition parse_ip :: "string \<Rightarrow> ip_addr option" where
  "parse_ip s =
     (case find (\<lambda>c. c = CHR ''.'' \<or> c = CHR '':'' \<or> c = CHR ''%'') s of
        None \<Rightarrow> None
      | Some c \<Rightarrow>
          if c = CHR ''.'' then map_option V4 (parse_ipv4 s)
          else if c = CHR '':'' \<and> CHR ''%'' \<notin> set s then map_option normalise_v6 (parse_ipv6 s)
          else None)"

subsection \<open>Networks\<close>

definition mask32 :: "nat \<Rightarrow> 32 word" where
  "mask32 n = push_bit (32 - n) (- 1)"

definition mask128 :: "nat \<Rightarrow> 128 word" where
  "mask128 n = push_bit (128 - n) (- 1)"

definition parse_prefix_len :: "string \<Rightarrow> nat option" where
  "parse_prefix_len s = (if s = [] \<or> \<not> list_all is_digit s then None else Some (dec_val s))"

definition is_mapped :: "string \<Rightarrow> bool" where
  "is_mapped s \<longleftrightarrow> CHR '':'' \<in> set s"

text \<open>
  \<open>net.ParseCIDR\<close>, answering the network. A prefix of an IPv4-mapped IPv6 address counts
  its 96 leading bits; when it is shorter than those the network is an IPv6 one.
\<close>

definition parse_cidr :: "string \<Rightarrow> ip_net option" where
  "parse_cidr s =
     (if CHR ''/'' \<notin> set s then None
      else
        let addr = takeWhile (\<lambda>c. c \<noteq> CHR ''/'') s; len = tl (dropWhile (\<lambda>c. c \<noteq> CHR ''/'') s)
        in case (parse_ip addr, parse_prefix_len len) of
             (Some (V4 w), Some n) \<Rightarrow>
               if is_mapped addr then
                 (if n > 128 then None
                  else if n \<ge> 96 then Some (Net4 (w AND mask32 (n - 96)) (n - 96))
                  else Some (Net6 ((push_bit 32 0xFFFF OR ucast w) AND mask128 n) n))
               else if n > 32 then None
               else Some (Net4 (w AND mask32 n) n)
           | (Some (V6 w), Some n) \<Rightarrow>
               if n > 128 then None else Some (Net6 (w AND mask128 n) n)
           | _ \<Rightarrow> None)"

definition contains :: "ip_net \<Rightarrow> ip_addr \<Rightarrow> bool" where
  "contains net ip =
     (case (net, ip) of
        (Net4 a n, V4 w) \<Rightarrow> w AND mask32 n = a AND mask32 n
      | (Net6 a n, V6 w) \<Rightarrow> w AND mask128 n = a AND mask128 n
      | _ \<Rightarrow> False)"

definition cidr4_string :: "32 word \<Rightarrow> nat \<Rightarrow> string" where
  "cidr4_string w n = ipv4_string w @ ''/'' @ dec_string n"

subsection \<open>Private addresses\<close>

definition is_loopback :: "ip_addr \<Rightarrow> bool" where
  "is_loopback ip = (case ip of V4 w \<Rightarrow> drop_bit 24 w = 127 | V6 w \<Rightarrow> w = 1)"

definition is_link_local_unicast :: "ip_addr \<Rightarrow> bool" where
  "is_link_local_unicast ip =
     (case ip of V4 w \<Rightarrow> drop_bit 16 w = 169 * 256 + 254 | V6 w \<Rightarrow> drop_bit 118 w = 0x3FA)"

definition is_link_local_multicast :: "ip_addr \<Rightarrow> bool" where
  "is_link_local_multicast ip =
     (case ip of V4 w \<Rightarrow> drop_bit 8 w = 224 * 65536 | V6 w \<Rightarrow> drop_bit 112 w AND 0xFF0F = 0xFF02)"

definition is_unspecified :: "ip_addr \<Rightarrow> bool" where
  "is_unspecified ip = (case ip of V4 w \<Rightarrow> w = 0 | V6 w \<Rightarrow> w = 0)"

definition private_ranges :: "string list" where
  "private_ranges =
     [''10.0.0.0/8'', ''172.16.0.0/12'', ''192.168.0.0/16'', ''169.254.0.0/16'', ''fc00::/7'']"

definition is_private_ip :: "string \<Rightarrow> bool" where
  "is_private_ip host =
     (case parse_ip host of
        None \<Rightarrow> False
      | Some ip \<Rightarrow>
          if is_loopback ip \<or> is_link_local_unicast ip \<or> is_link_local_multicast ip \<or> is_unspecified ip
          then True
          else list_ex (\<lambda>r. case parse_cidr r of None \<Rightarrow> False | Some cidr \<Rightarrow> contains cidr ip)
                 private_ranges)"

subsection \<open>Lemmas: decimal fields\<close>

lemma dec_val_append: "dec_val (s @ [c]) = dec_val s * 10 + digit_val c"
  by (simp add: dec_val_def)

lemma is_digit_iff: "is_digit c \<longleftrightarrow> 48 \<le> (of_char c :: nat) \<and> of_char c \<le> (57 :: nat)"
  by (simp add: is_digit_def less_eq_char_def)

lemma digit_char:
  assumes "d < 10"
  shows "is_digit (char_of (48 + d))" "digit_val (char_of (48 + d)) = d"
    "char_of (48 + d) = CHR ''0'' \<longleftrightarrow> d = 0"
proof -
  have o: "of_char (char_of (48 + d)) = 48 + d"
    using assms by simp
  then show "digit_val (char_of (48 + d)) = d" by (simp add: digit_val_def)
  show "is_digit (char_of (48 + d))"
    using assms o by (simp add: is_digit_iff)
  have "of_char CHR ''0'' = (48 :: nat)" by simp
  then show "char_of (48 + d) = CHR ''0'' \<longleftrightarrow> d = 0"
    using o by (metis add.right_neutral add_left_cancel of_char_eq_iff)
qed

lemma dec_string_spec:
  "dec_val (dec_string n) = n \<and> list_all is_digit (dec_string n) \<and> dec_string n \<noteq> [] \<and>
   (hd (dec_string n) = CHR ''0'' \<longrightarrow> n = 0) \<and> (n < 10 \<longrightarrow> length (dec_string n) = 1)"
proof (induction n rule: dec_string.induct)
  case (1 n)
  show ?case
  proof (cases "n < 10")
    case True
    then show ?thesis
      using digit_char[of n] by (simp add: dec_string.simps[of n] dec_val_def)
  next
    case False
    then have "n div 10 \<noteq> 0" by simp
    then show ?thesis
      using 1[OF False] False digit_char[of "n mod 10"]
      by (simp add: dec_string.simps[of n] dec_val_append)
  qed
qed

lemma parse_octet_dec_string: "n < 256 \<Longrightarrow> parse_octet (dec_string n) = Some n"
  using dec_string_spec[of n] by (auto simp: parse_octet_def)

lemma digit_not_sep: "is_digit c \<Longrightarrow> c \<noteq> CHR ''.'' \<and> c \<noteq> CHR ''/'' \<and> c \<noteq> CHR '':'' \<and> c \<noteq> CHR ''%''"
  by (auto simp: is_digit_iff)

lemma dec_string_sep:
  "CHR ''.'' \<notin> set (dec_string n)" "CHR ''/'' \<notin> set (dec_string n)"
  "CHR '':'' \<notin> set (dec_string n)" "CHR ''%'' \<notin> set (dec_string n)"
  using dec_string_spec[of n] digit_not_sep by (auto simp: list_all_iff)

lemma word_of_octets_digits:
  assumes "n < 2 ^ 32"
  shows "((n div 16777216 * 256 + n div 65536 mod 256) * 256 + n div 256 mod 256) * 256 + n mod 256 = (n::nat)"
proof -
  have "n div 65536 = n div 16777216 * 256 + n div 65536 mod 256"
    using div_mult_mod_eq[of "n div 65536" 256] by (simp add: div_mult2_eq[symmetric])
  moreover have "n div 256 = n div 65536 * 256 + n div 256 mod 256"
    using div_mult_mod_eq[of "n div 256" 256] by (simp add: div_mult2_eq[symmetric])
  ultimately show ?thesis
    by (metis div_mult_mod_eq)
qed

lemma parse_ipv4_string: "parse_ipv4 (ipv4_string w) = Some w"
proof -
  let ?n = "unat w"
  let ?ds = "[?n div 16777216, ?n div 65536 mod 256, ?n div 256 mod 256, ?n mod 256]"
  have "?n < 2 ^ 32"
    using unsigned_less[of w] by simp
  then have "?n div 16777216 < 256" by simp
  then have oct: "map parse_octet (map dec_string ?ds) = map Some ?ds"
    using parse_octet_dec_string by simp
  have "split_char CHR ''.'' (join_with ''.'' (map dec_string ?ds)) = map dec_string ?ds"
    by (rule split_join) (auto simp: dec_string_sep)
  then show ?thesis
    unfolding parse_ipv4_def ipv4_string_def Let_def
    using oct word_of_octets_digits[OF \<open>?n < 2 ^ 32\<close>] by (simp add: word_of_octets_def)
qed

lemma ipv4_string_chars:
  "CHR ''/'' \<notin> set (ipv4_string w)" "CHR '':'' \<notin> set (ipv4_string w)" "CHR ''%'' \<notin> set (ipv4_string w)"
  "CHR ''.'' \<in> set (ipv4_string w)"
  by (simp_all add: ipv4_string_def Let_def dec_string_sep)

lemma find_dot:
  assumes "CHR ''.'' \<in> set s" "CHR '':'' \<notin> set s" "CHR ''%'' \<notin> set s"
  shows "find (\<lambda>c. c = CHR ''.'' \<or> c = CHR '':'' \<or> c = CHR ''%'') s = Some CHR ''.''"
  using assms by (induction s) auto

lemma parse_ip_string: "parse_ip (ipv4_string w) = Some (V4 w)"
  using find_dot[of "ipv4_string w"] by (simp add: parse_ip_def ipv4_string_chars parse_ipv4_string)

lemma parse_prefix_len_string: "parse_prefix_len (dec_string n) = Some n"
  using dec_string_spec[of n] by (simp add: parse_prefix_len_def)

lemma takeWhile_sep: "c \<notin> set xs \<Longrightarrow> takeWhile (\<lambda>x. x \<noteq> c) (xs @ c # ys) = xs"
  by (induction xs) auto

lemma dropWhile_sep: "c \<notin> set xs \<Longrightarrow> dropWhile (\<lambda>x. x \<noteq> c) (xs @ c # ys) = c # ys"
  by (induction xs) auto

lemma parse_cidr_string:
  "n \<le> 32 \<Longrightarrow> parse_cidr (cidr4_string w n) = Some (Net4 (w AND mask32 n) n)"
  by (simp add: parse_cidr_def cidr4_string_def takeWhile_sep dropWhile_sep ipv4_string_chars
      parse_ip_string parse_prefix_len_string is_mapped_def Let_def)

lemma parse_cidr_plain: "CHR ''/'' \<notin> set s \<Longrightarrow> parse_cidr s = None"
  by (simp add: parse_cidr_def)

subsection \<open>Evaluating the IPv6 parser\<close>

lemma ipv6_groups_step:
  "ipv6_groups k s gs ell = (if k = 0 then (if s = [] then Some (gs, ell) else None) else
     (let g = takeWhile is_hex s; rest = dropWhile is_hex s in
      if g = [] \<or> length g > 4 then None
      else case rest of
        [] \<Rightarrow> Some (gs @ [hex_group g], ell)
      | c # rest' \<Rightarrow>
          if c = CHR ''.'' then
            (if (ell = None \<and> length gs \<noteq> 6) \<or> length gs + 2 > 8 then None
             else case parse_ipv4 s of
                    None \<Rightarrow> None
                  | Some w \<Rightarrow> Some (gs @ [unat w div 65536, unat w mod 65536], ell))
          else if c \<noteq> CHR '':'' \<or> rest' = [] then None
          else if hd rest' = CHR '':'' then
            (if ell \<noteq> None then None
             else if tl rest' = [] then Some (gs @ [hex_group g], Some (length gs + 1))
             else ipv6_groups (k-1) (tl rest') (gs @ [hex_group g]) (Some (length gs + 1)))
          else ipv6_groups (k-1) rest' (gs @ [hex_group g]) ell))"
  by (cases k) (simp_all only: ipv6_groups.simps diff_Suc_1 nat.distinct if_False if_True simp_thms)

lemma ipv6_example: "parse_ip ''2001:db8::1'' = Some (V6 0x20010db8000000000000000000000001)"
proof -
  have r: "replicate 5 0 = [0, 0, 0, 0, 0 :: nat]" by (simp add: numeral_eq_Suc)
  have "ipv6_groups 8 ''2001:db8::1'' [] None = Some ([0x2001, 0xdb8, 1], Some 2)"
    by (simp add: ipv6_groups_step is_hex_def hex_val_def is_digit_iff digit_val_def less_eq_char_def
        hex_group_def)
  then show ?thesis
    by (simp add: parse_ip_def parse_ipv6_def expand_groups_def word_of_groups_def normalise_v6_def r)
qed

subsection \<open>Lemmas: what a network contains\<close>

lemma and_mask32_eq_iff:
  "w AND mask32 n = a AND mask32 n \<longleftrightarrow> unat w div 2 ^ (32 - n) = unat a div 2 ^ (32 - n)"
proof -
  let ?k = "32 - n"
  have "w AND mask32 n = a AND mask32 n \<longleftrightarrow> (\<forall>i. i < 32 \<and> ?k \<le> i \<longrightarrow> bit w i = bit a i)"
    unfolding bit_eq_iff by (auto simp: mask32_def bit_and_iff bit_push_bit_iff bit_not_iff bit_mask_iff)
  also have "\<dots> \<longleftrightarrow> drop_bit ?k w = drop_bit ?k a"
  proof
    assume l: "\<forall>i. i < 32 \<and> ?k \<le> i \<longrightarrow> bit w i = bit a i"
    have "bit w (?k + i) = bit a (?k + i)" for i
      using l[rule_format, of "?k + i"] bit_imp_le_length[of w "?k + i"] bit_imp_le_length[of a "?k + i"]
      by auto
    then show "drop_bit ?k w = drop_bit ?k a"
      by (simp add: bit_eq_iff bit_drop_bit_eq)
  next
    assume "drop_bit ?k w = drop_bit ?k a"
    then have r: "bit w (?k + i) = bit a (?k + i)" for i
      using bit_drop_bit_eq[of ?k w] bit_drop_bit_eq[of ?k a] by (simp add: fun_eq_iff)
    then show "\<forall>i. i < 32 \<and> ?k \<le> i \<longrightarrow> bit w i = bit a i"
    proof (intro allI impI)
      fix i assume "i < 32 \<and> ?k \<le> i"
      then show "bit w i = bit a i" using r[of "i - ?k"] by simp
    qed
  qed
  also have "\<dots> \<longleftrightarrow> unat w div 2 ^ ?k = unat a div 2 ^ ?k"
    using word_unat_eq_iff[of "drop_bit ?k w" "drop_bit ?k a"] unat_drop_bit_eq[of ?k w]
      unat_drop_bit_eq[of ?k a]
    by (simp only: drop_bit_nat_def)
  finally show ?thesis .
qed

lemma contains_net4:
  "contains (Net4 a n) (V4 w) \<longleftrightarrow> unat w div 2 ^ (32 - n) = unat a div 2 ^ (32 - n)"
  by (simp add: contains_def and_mask32_eq_iff)

end
