(* ===== verification/Health.thy ===== *)
theory Health
  imports GroupRoute NetAddr
begin

text \<open>
  \<open>internal/backend/health.go\<close>: the health checker. One check of one backend
  (\<open>checkBackend\<close>) asks the HTTP client, a parameter, and hands the result to
  \<open>handleSuccess\<close> or \<open>handleFail\<close>, which run under the manager's lock and so are one atomic
  step each. \<open>checkAll\<close> starts one goroutine per backend; the model applies the checks one
  after another in any order it is given, which is what the lock makes of them.

  Proved: a check preserves \<open>mgr_inv\<close> and touches one backend only; the two handlers refine
  a small state machine (\<open>health_step\<close>); recovery after exactly \<open>RecoverThreshold\<close>
  successes in a row; failure exactly when the leaky counter of failures reaches
  \<open>FailThreshold\<close>, so a failing backend need not fail that many times in a row.
\<close>

subsection \<open>The handlers\<close>

definition threshold :: "int \<Rightarrow> int \<Rightarrow> int" where
  "threshold configured default_value = (if configured \<le> 0 then default_value else configured)"

definition set_health :: "string \<Rightarrow> string \<Rightarrow> bool \<Rightarrow> manager \<Rightarrow> manager" where
  "set_health now bid h = modify_backend bid (\<lambda>b. b\<lparr>b_Healthy := h, b_LastCheck := now\<rparr>)"

definition handle_success :: "string \<Rightarrow> string \<Rightarrow> manager \<Rightarrow> manager" where
  "handle_success now bid m =
     (let (recoverThreshold, isHealthy) =
        (case get_backend bid m of
           None \<Rightarrow> (0, False)
         | Some mb \<Rightarrow> (threshold (b_RecoverThreshold mb) 2, b_Healthy mb))
      in if \<not> isHealthy then
           let rc = recoverCount m bid + 1;
               fc = (if failCount m bid > 0 then failCount m bid - 1 else failCount m bid);
               m1 = m\<lparr>recoverCount := (recoverCount m)(bid := rc),
                      failCount := (failCount m)(bid := fc)\<rparr>
           in if rc \<ge> recoverThreshold then
                let m2 = set_health now bid True m1;
                    m3 = m2\<lparr>failCount := (failCount m2)(bid := 0),
                            recoverCount := (recoverCount m2)(bid := 0)\<rparr>
                in rebuild_group_cache (refresh_available m3)
              else m1
         else
           let fc = failCount m bid - 1
           in m\<lparr>failCount := (failCount m)(bid := (if fc < 0 then 0 else fc)),
                recoverCount := (recoverCount m)(bid := 0)\<rparr>)"

definition handle_fail :: "string \<Rightarrow> string \<Rightarrow> manager \<Rightarrow> manager" where
  "handle_fail now bid m =
     (let count = failCount m bid + 1;
          m1 = m\<lparr>failCount := (failCount m)(bid := count),
                 recoverCount := (recoverCount m)(bid := 0)\<rparr>;
          (failThreshold, isHealthy) =
            (case get_backend bid m of
               None \<Rightarrow> (0, False)
             | Some mb \<Rightarrow> (threshold (b_FailThreshold mb) 3, b_Healthy mb))
      in if count \<ge> failThreshold \<and> isHealthy then
           let m2 = set_health now bid False m1;
               m3 = m2\<lparr>failCount := (failCount m2)(bid := 0)\<rparr>
           in rebuild_group_cache (refresh_available m3)
         else m1)"

subsection \<open>One check, and a round of checks\<close>

datatype probe_result = RequestError | TransportError | Status int

definition check_scheme :: "backend \<Rightarrow> string" where
  "check_scheme b =
     (let s = get_scheme b in
      if s = ''wss'' then ''https'' else if s = ''ws'' then ''http'' else s)"

definition check_timeout :: "backend \<Rightarrow> duration" where
  "check_timeout b =
     (let t = b_CheckTimeout b * nano_second in if t < nano_second then 5 * nano_second else t)"

text \<open>
  \<open>probe url timeout\<close> stands for \<open>http.NewRequestWithContext\<close> and \<open>client.Do\<close>;
  \<open>split_host\<close> for \<open>net.SplitHostPort\<close>.
\<close>

definition check_backend ::
  "(string \<Rightarrow> string option) \<Rightarrow> (string \<Rightarrow> duration \<Rightarrow> probe_result) \<Rightarrow> string \<Rightarrow> backend
   \<Rightarrow> manager \<Rightarrow> manager" where
  "check_backend split_host probe now b m =
     (let url = check_scheme b @ ''://'' @ b_Address b @ b_CheckPath b;
          host = (case split_host (b_Address b) of None \<Rightarrow> b_Address b | Some h \<Rightarrow> h)
      in if is_private_ip host then m
         else case probe url (check_timeout b) of
                RequestError \<Rightarrow> handle_fail now (b_ID b) m
              | TransportError \<Rightarrow> handle_fail now (b_ID b) m
              | Status code \<Rightarrow>
                  if code \<ge> 200 \<and> code < 300 then handle_success now (b_ID b) m
                  else handle_fail now (b_ID b) m)"

definition check_all ::
  "(string \<Rightarrow> string option) \<Rightarrow> (string \<Rightarrow> duration \<Rightarrow> probe_result) \<Rightarrow> string \<Rightarrow> manager \<Rightarrow> manager" where
  "check_all split_host probe now m =
     foldl (\<lambda>m' b. check_backend split_host probe now b m') m
       (filter (\<lambda>b. b_Enabled b \<and> b_HealthCheck b) (get_backends m))"

subsection \<open>Frame and invariant\<close>

lemma get_backend_counters [simp]:
  "get_backend i (m\<lparr>failCount := f\<rparr>) = get_backend i m"
  "get_backend i (m\<lparr>recoverCount := f\<rparr>) = get_backend i m"
  by (simp_all add: get_backend_def get_backends_def)

lemma mgr_inv_counters [simp]:
  "mgr_inv (m\<lparr>failCount := f\<rparr>) = mgr_inv m" "mgr_inv (m\<lparr>recoverCount := f\<rparr>) = mgr_inv m"
proof -
  have "cache_ok (m\<lparr>failCount := f\<rparr>) = cache_ok m" "cache_ok (m\<lparr>recoverCount := f\<rparr>) = cache_ok m"
    by (rule cache_ok_cong; simp)+
  then show "mgr_inv (m\<lparr>failCount := f\<rparr>) = mgr_inv m" "mgr_inv (m\<lparr>recoverCount := f\<rparr>) = mgr_inv m"
    by (simp_all add: mgr_inv_def mgr_wf_def avail_ok_def)
qed

lemma mgr_wf_counters [simp]:
  "mgr_wf (m\<lparr>failCount := f\<rparr>) = mgr_wf m" "mgr_wf (m\<lparr>recoverCount := f\<rparr>) = mgr_wf m"
  by (simp_all add: mgr_wf_def)

lemma set_health_wf: "mgr_wf m \<Longrightarrow> mgr_wf (set_health now bid h m)"
  unfolding set_health_def by (rule modify_backend_wf) simp_all

lemma mgr_inv_wf: "mgr_inv m \<Longrightarrow> mgr_wf m"
  by (simp add: mgr_inv_def)

lemma handle_success_inv: "mgr_inv m \<Longrightarrow> mgr_inv (handle_success now bid m)"
  by (simp add: handle_success_def Let_def mgr_inv_refresh_rebuild set_health_wf mgr_inv_wf
      split: option.split prod.split)

lemma handle_fail_inv: "mgr_inv m \<Longrightarrow> mgr_inv (handle_fail now bid m)"
  by (simp add: handle_fail_def Let_def mgr_inv_refresh_rebuild set_health_wf mgr_inv_wf
      split: option.split prod.split)

lemma check_backend_inv: "mgr_inv m \<Longrightarrow> mgr_inv (check_backend sh probe now b m)"
  by (simp add: check_backend_def Let_def handle_success_inv handle_fail_inv split: probe_result.split)

lemma check_all_inv: "mgr_inv m \<Longrightarrow> mgr_inv (check_all sh probe now m)"
proof -
  have "mgr_inv m \<Longrightarrow> mgr_inv (foldl (\<lambda>m' b. check_backend sh probe now b m') m bs)" for bs
    by (induction bs arbitrary: m) (simp_all add: check_backend_inv)
  then show "mgr_inv m \<Longrightarrow> ?thesis" by (simp add: check_all_def)
qed

lemma get_backend_set_health:
  "get_backend i (set_health now bid h m) =
     (if i = bid then map_option (\<lambda>b. b\<lparr>b_Healthy := h, b_LastCheck := now\<rparr>) (get_backend bid m)
      else get_backend i m)"
  unfolding set_health_def by (rule get_backend_modify) simp

lemma set_health_frame [simp]:
  "failCount (set_health now bid h m) = failCount m"
  "recoverCount (set_health now bid h m) = recoverCount m"
  by (simp_all add: set_health_def)

subsection \<open>The state machine of one backend\<close>

datatype health = Up int | Down int

definition health_of :: "string \<Rightarrow> manager \<Rightarrow> health option" where
  "health_of bid m =
     map_option (\<lambda>b. if b_Healthy b then Up (failCount m bid) else Down (recoverCount m bid))
       (get_backend bid m)"

fun health_step :: "int \<Rightarrow> int \<Rightarrow> bool \<Rightarrow> health \<Rightarrow> health" where
  "health_step ft rt True (Up c) = Up (max 0 (c - 1))"
| "health_step ft rt False (Up c) = (if c + 1 \<ge> ft then Down 0 else Up (c + 1))"
| "health_step ft rt True (Down c) = (if c + 1 \<ge> rt then Up 0 else Down (c + 1))"
| "health_step ft rt False (Down c) = Down 0"

definition handle :: "string \<Rightarrow> string \<Rightarrow> bool \<Rightarrow> manager \<Rightarrow> manager" where
  "handle now bid ok m = (if ok then handle_success now bid m else handle_fail now bid m)"

definition same_config :: "backend \<Rightarrow> backend \<Rightarrow> bool" where
  "same_config a b \<longleftrightarrow>
     a = b\<lparr>b_Healthy := b_Healthy a, b_LastCheck := b_LastCheck a\<rparr>"

lemma handle_refines:
  assumes "get_backend bid m = Some b"
  shows "health_of bid (handle now bid ok m) =
    map_option (health_step (threshold (b_FailThreshold b) 3) (threshold (b_RecoverThreshold b) 2) ok)
      (health_of bid m)"
    and "\<exists>b'. get_backend bid (handle now bid ok m) = Some b' \<and> same_config b' b"
    and "i \<noteq> bid \<Longrightarrow> get_backend i (handle now bid ok m) = get_backend i m \<and>
      failCount (handle now bid ok m) i = failCount m i \<and> recoverCount (handle now bid ok m) i = recoverCount m i"
  using assms
  by (auto simp: handle_def handle_success_def handle_fail_def Let_def health_of_def
      get_backend_frame get_backend_set_health same_config_def max_def)

definition handle_all :: "string \<Rightarrow> string \<Rightarrow> bool list \<Rightarrow> manager \<Rightarrow> manager" where
  "handle_all now bid oks m = foldl (\<lambda>m ok. handle now bid ok m) m oks"

lemma same_config_trans: "same_config a b \<Longrightarrow> same_config b c \<Longrightarrow> same_config a c"
  by (cases a; cases b; cases c) (simp add: same_config_def)

lemma health_runs:
  assumes "mgr_inv m" and "get_backend bid m = Some b"
  shows "mgr_inv (handle_all now bid oks m) \<and>
    health_of bid (handle_all now bid oks m) =
      map_option (\<lambda>h. foldl (\<lambda>h ok. health_step (threshold (b_FailThreshold b) 3)
        (threshold (b_RecoverThreshold b) 2) ok h) h oks) (health_of bid m) \<and>
    (\<exists>b'. get_backend bid (handle_all now bid oks m) = Some b' \<and> same_config b' b) \<and>
    (\<forall>i. i \<noteq> bid \<longrightarrow> get_backend i (handle_all now bid oks m) = get_backend i m)"
proof (induction oks rule: rev_induct)
  case Nil
  then show ?case
    using assms by (simp add: handle_all_def same_config_def option.map_ident)
next
  case (snoc ok oks)
  let ?m = "handle_all now bid oks m"
  obtain b' where b': "get_backend bid ?m = Some b'" "same_config b' b"
    using snoc by blast
  have step: "handle_all now bid (oks @ [ok]) m = handle now bid ok ?m"
    by (simp add: handle_all_def)
  have "b_FailThreshold b' = b_FailThreshold b" "b_RecoverThreshold b' = b_RecoverThreshold b"
    using b'(2) by (cases b; cases b'; simp add: same_config_def)+
  then show ?case
    unfolding step
    using snoc handle_refines[OF b'(1), where now = now and ok = ok] same_config_trans[OF _ b'(2)]
      handle_success_inv[of ?m] handle_fail_inv[of ?m]
    by (auto simp: option.map_comp comp_def handle_def)
qed

text \<open>
  C25. The checker refines a small state machine: over any sequence of outcomes, the health
  of the backend and the counter that matters in its state (failures while up, successes
  while down) go through \<open>health_step\<close>; its configuration is untouched, and so are every
  other backend and its counters, and the manager's invariant holds throughout.
\<close>

theorem health_refinement:
  assumes "mgr_inv m" and "get_backend bid m = Some b"
  shows "mgr_inv (handle_all now bid oks m) \<and>
    health_of bid (handle_all now bid oks m) =
      map_option (\<lambda>h. foldl (\<lambda>h ok. health_step (threshold (b_FailThreshold b) 3)
        (threshold (b_RecoverThreshold b) 2) ok h) h oks) (health_of bid m) \<and>
    (\<exists>b'. get_backend bid (handle_all now bid oks m) = Some b' \<and> same_config b' b) \<and>
    (\<forall>i. i \<noteq> bid \<longrightarrow> get_backend i (handle_all now bid oks m) = get_backend i m)"
  using assms by (rule health_runs)

theorem health_refinement_witness:
  "health_of ''a'' (handle_all ''t'' ''a'' [False, False, True] sample_manager) = Some (Up 1)"
proof -
  have g: "get_backend ''a'' sample_manager = Some (sample_backend ''a'' 1)"
    by (simp add: get_backend_def get_backends_def)
  then have "health_of ''a'' sample_manager = Some (Up 0)"
    by (simp add: health_of_def)
  then show ?thesis
    using health_refinement[OF sample_manager_inv g, of "''t''" "[False, False, True]"]
    by (simp add: threshold_def)
qed

lemma walk_down:
  "c + int (length oks) < rt \<Longrightarrow> list_all (\<lambda>ok. ok) oks \<Longrightarrow>
   foldl (\<lambda>h ok. health_step ft rt ok h) (Down c) oks = Down (c + int (length oks))"
  by (induction oks arbitrary: c) auto

lemma replicate_snoc: "0 < n \<Longrightarrow> replicate n x = replicate (n - 1) x @ [x]"
  by (cases n) (simp_all add: replicate_append_same)

text \<open>
  Recovery: an unhealthy backend whose success counter stands at zero is still unhealthy
  after any shorter run of successful checks and healthy again, selectable by its ID when it
  is enabled and with both counters cleared, after exactly \<open>RecoverThreshold\<close> of them (2 when
  the setting is not positive); a failed check sends the count back to zero.
\<close>

theorem recovers_after_threshold:
  assumes "mgr_inv m" and "get_backend bid m = Some b" and "\<not> b_Healthy b"
    and "recoverCount m bid = 0" and "rt = nat (threshold (b_RecoverThreshold b) 2)"
  shows "(\<forall>k < rt. health_of bid (handle_all now bid (replicate k True) m) = Some (Down (int k))) \<and>
    health_of bid (handle_all now bid (replicate rt True) m) = Some (Up 0) \<and>
    (\<forall>k < rt. health_of bid (handle_all now bid (replicate k True @ [False]) m) = Some (Down 0)) \<and>
    (b_Enabled b \<longrightarrow> select_backend_by_id bid (handle_all now bid (replicate rt True) m) \<noteq> None)"
proof -
  let ?ft = "threshold (b_FailThreshold b) 3" and ?rt = "threshold (b_RecoverThreshold b) 2"
  have pos: "0 < ?rt" by (simp add: threshold_def)
  then have rt: "int rt = ?rt" "0 < rt" using assms(5) by simp_all
  have h0: "health_of bid m = Some (Down 0)"
    using assms by (simp add: health_of_def)
  note ref = health_runs[OF assms(1,2), of now]
  have run: "health_of bid (handle_all now bid oks m) =
      Some (foldl (\<lambda>h ok. health_step ?ft ?rt ok h) (Down 0) oks)" for oks
    using ref[of oks] h0 by simp
  have low: "health_of bid (handle_all now bid (replicate k True) m) = Some (Down (int k))" if "k < rt" for k
    using run[of "replicate k True"] walk_down[of 0 "replicate k True" ?rt ?ft] that rt
    by (simp add: list_all_iff)
  moreover have reset: "health_of bid (handle_all now bid (replicate k True @ [False]) m) = Some (Down 0)"
    if "k < rt" for k
    using run[of "replicate k True @ [False]"] walk_down[of 0 "replicate k True" ?rt ?ft] that rt
    by (simp add: list_all_iff)
  moreover have top: "health_of bid (handle_all now bid (replicate rt True) m) = Some (Up 0)"
    using run[of "replicate rt True"] walk_down[of 0 "replicate (rt - 1) True" ?rt ?ft] rt
      replicate_snoc[OF rt(2), of True]
    by (simp add: list_all_iff of_nat_diff)
  moreover have "select_backend_by_id bid (handle_all now bid (replicate rt True) m) \<noteq> None" if "b_Enabled b"
  proof -
    let ?m = "handle_all now bid (replicate rt True) m"
    obtain b' where b': "get_backend bid ?m = Some b'" "same_config b' b"
      using ref[of "replicate rt True"] by blast
    then have "b_Enabled b'" using that by (cases b; cases b'; simp add: same_config_def)
    moreover have "b_Healthy b'" using top b'(1) by (simp add: health_of_def split: if_splits)
    ultimately show ?thesis
      using ref[of "replicate rt True"] b'(1)
      by (simp add: select_backend_by_id_eq mgr_inv_wf usable_def)
  qed
  ultimately show ?thesis by blast
qed

definition sample_down_manager :: manager where
  "sample_down_manager = mark_healthy ''t'' ''a'' False sample_manager"

lemma sample_down: "mgr_inv sample_down_manager"
  "get_backend ''a'' sample_down_manager =
     Some ((sample_backend ''a'' 1)\<lparr>b_Healthy := False, b_LastCheck := ''t''\<rparr>)"
  "recoverCount sample_down_manager ''a'' = 0"
  by (simp_all add: sample_down_manager_def mark_healthy_inv sample_manager_inv)
    (simp_all add: mark_healthy_def get_backend_def get_backends_def ptr_of_def Let_def)

theorem recovers_after_threshold_witness:
  "health_of ''a'' (handle_all ''t'' ''a'' [True] sample_down_manager) = Some (Down 1) \<and>
   health_of ''a'' (handle_all ''t'' ''a'' [True, True] sample_down_manager) = Some (Up 0)"
proof -
  have "(\<forall>k < 2. health_of ''a'' (handle_all ''t'' ''a'' (replicate k True) sample_down_manager) = Some (Down (int k))) \<and>
    health_of ''a'' (handle_all ''t'' ''a'' (replicate 2 True) sample_down_manager) = Some (Up 0)"
    using recovers_after_threshold[OF sample_down(1,2) _ sample_down(3), of 2 "''t''"]
    by (simp add: threshold_def)
  then show ?thesis
    by (auto simp: numeral_2_eq_2 dest: spec[of _ 1])
qed

subsection \<open>The leaky counter of failures\<close>

text \<open>
  \<open>bucket c oks\<close> is the failure counter after the outcomes \<open>oks\<close>: one more for a failure,
  one less, but never below zero, for a success.
\<close>

fun bucket :: "int \<Rightarrow> bool list \<Rightarrow> int" where
  "bucket c [] = c"
| "bucket c (ok # oks) = bucket (if ok then max 0 (c - 1) else c + 1) oks"

fun bucket_below :: "int \<Rightarrow> int \<Rightarrow> bool list \<Rightarrow> bool" where
  "bucket_below ft c [] = (c < ft)"
| "bucket_below ft c (ok # oks) \<longleftrightarrow>
     c < ft \<and> bucket_below ft (if ok then max 0 (c - 1) else c + 1) oks"

lemma walk_up:
  "bucket_below ft c oks \<Longrightarrow>
   foldl (\<lambda>h ok. health_step ft rt ok h) (Up c) oks = Up (bucket c oks)"
proof (induction oks arbitrary: c)
  case (Cons ok oks)
  then have "(if ok then max 0 (c - 1) else c + 1) < ft"
    by (cases oks) simp_all
  then show ?case using Cons by (cases ok) auto
qed simp

lemma bucket_below_last: "bucket_below ft c oks \<Longrightarrow> bucket c oks < ft"
  by (induction oks arbitrary: c) auto

text \<open>
  Failure is a leaky bucket, not a run of consecutive failures: an enabled, healthy
  backend stays healthy as long as its counter (one up for each failed check, one down for
  each successful one) stays below \<open>FailThreshold\<close>, and the first failure that lifts it to the
  threshold takes the backend down.
\<close>

theorem fails_by_leaky_bucket:
  assumes "mgr_inv m" and "get_backend bid m = Some b" and "b_Healthy b"
    and "ft = threshold (b_FailThreshold b) 3" and "bucket_below ft (failCount m bid) oks"
  shows "health_of bid (handle_all now bid oks m) = Some (Up (bucket (failCount m bid) oks)) \<and>
    (bucket (failCount m bid) oks + 1 = ft \<longrightarrow>
       health_of bid (handle_all now bid (oks @ [False]) m) = Some (Down 0) \<and>
       select_backend_by_id bid (handle_all now bid (oks @ [False]) m) = None)"
proof -
  have h0: "health_of bid m = Some (Up (failCount m bid))"
    using assms by (simp add: health_of_def)
  note ref = health_runs[OF assms(1,2), of now]
  note w = walk_up[OF assms(5), of "threshold (b_RecoverThreshold b) 2"]
  have up: "health_of bid (handle_all now bid oks m) = Some (Up (bucket (failCount m bid) oks))"
    using ref[of oks] h0 w by (simp add: assms(4))
  have down: "health_of bid (handle_all now bid (oks @ [False]) m) = Some (Down 0)"
    if "bucket (failCount m bid) oks + 1 = ft"
    using ref[of "oks @ [False]"] h0 w that by (simp add: assms(4))
  moreover have "select_backend_by_id bid (handle_all now bid (oks @ [False]) m) = None"
    if "bucket (failCount m bid) oks + 1 = ft"
    using down[OF that] ref[of "oks @ [False]"]
    by (auto simp: select_backend_by_id_eq mgr_inv_wf health_of_def usable_def split: option.split if_splits)
  ultimately show ?thesis using up by blast
qed

theorem fails_by_leaky_bucket_witness:
  "health_of ''a'' (handle_all ''t'' ''a'' [False, False, True, False, False] sample_manager) = Some (Down 0)"
proof -
  have g: "get_backend ''a'' sample_manager = Some (sample_backend ''a'' 1)"
    by (simp add: get_backend_def get_backends_def)
  show ?thesis
    using fails_by_leaky_bucket[OF sample_manager_inv g, of 3 "[False, False, True, False]" "''t''"]
    by (simp add: threshold_def)
qed

end
