(* ===== verification/BackendSystem.thy ===== *)
theory BackendSystem
  imports Health
begin

text \<open>
  The backend manager as a transition system: the states \<open>NewManager\<close> can load and every
  operation of \<open>manager.go\<close>, \<open>group.go\<close> and \<open>health.go\<close> as one step. The group operations give the lock back
  before they rebuild the route cache; here they run without another in between, and \<open>GroupRace\<close> takes them
  apart. The only thing asked of the database is what its primary keys promise:
  the rows it returns have different IDs, and an insert that succeeds did not find the ID.

  Proved by rule induction: \<open>mgr_inv\<close> holds in every reachable state, so the theorems of the
  component theories apply to every run; what \<open>SelectBackend\<close> may answer; and that the
  breaker's clock is never set, so its waiting branch is never taken.
\<close>

inductive reachable :: "manager \<Rightarrow> bool" where
  start: "(\<And>rows. brows = Some rows \<Longrightarrow> distinct (map row_id (List.map_filter (\<lambda>r. r) rows)))
    \<Longrightarrow> reachable (new_manager brows grows mrows)"
| add: "reachable m \<Longrightarrow> (\<And>n. r = DbOk n \<Longrightarrow> new_backend_id now b \<notin> ids m)
    \<Longrightarrow> reachable (snd (add_backend now r b m))"
| remove: "reachable m \<Longrightarrow> reachable (snd (remove_backend r bid m))"
| update: "reachable m \<Longrightarrow> reachable (snd (update_backend r src m))"
| inc: "reachable m \<Longrightarrow> reachable (inc_conn bid m)"
| dec: "reachable m \<Longrightarrow> reachable (dec_conn bid m)"
| mark: "reachable m \<Longrightarrow> reachable (mark_healthy now bid h m)"
| addg: "reachable m \<Longrightarrow> reachable (snd (add_group gid t r name policy m))"
| updg: "reachable m \<Longrightarrow> reachable (snd (update_group r gid name policy m))"
| enableg: "reachable m \<Longrightarrow> reachable (snd (set_group_enabled r gid en m))"
| delg: "reachable m \<Longrightarrow> reachable (snd (delete_group r1 r2 r3 r4 gid m))"
| addm: "reachable m \<Longrightarrow> reachable (snd (add_group_member r gid bid w m))"
| remm: "reachable m \<Longrightarrow> reachable (snd (remove_group_member r gid bid m))"
| sel: "reachable m \<Longrightarrow> reachable (snd (select_backend policy m))"
| selg: "reachable m \<Longrightarrow> reachable (snd (select_backend_for_group sh draw now2 gid info m))"
| check: "reachable m \<Longrightarrow> reachable (check_backend sh probe now b m)"

definition by_policy :: "lb_policy \<Rightarrow> backend list \<Rightarrow> manager \<Rightarrow> backend \<times> manager" where
  "by_policy policy bs m =
     (if policy = LBLeastConns then select_least_conns bs m
      else if policy = LBWeightedRR then select_weighted_rr bs m
      else select_round_robin bs m)"

interpretation global_policy: backend_selector "by_policy policy" for policy
  by unfold_locales
    (simp_all add: by_policy_def rr.sel_mem lc.sel_mem wrr.sel_mem rr.sel_frame lc.sel_frame wrr.sel_frame)

lemma select_backend_by_policy:
  "select_backend policy m =
     (if availableBackends m = [] then (None, m)
      else map_prod Some (\<lambda>m. m) (by_policy policy (map (heap m) (availableBackends m)) m))"
  by (simp add: select_backend_def by_policy_def Let_def split: prod.split)

lemma map_prod_snd_eq: "snd (map_prod f (\<lambda>m. m) r) = snd r"
  by (cases r) simp

lemma map_prod_fst_eq: "fst (map_prod f (\<lambda>m. m) r) = f (fst r)"
  by (cases r) simp

lemma select_backend_frame: "lb_frame m (snd (select_backend policy m))"
  by (simp add: select_backend_by_policy map_prod_snd_eq global_policy.sel_frame)

lemma lb_frame_inv: "lb_frame m m' \<Longrightarrow> mgr_inv m \<Longrightarrow> mgr_inv m'"
  using cache_ok_cong[of m m'] lb_frameD[of m m']
  by (simp add: mgr_inv_def mgr_wf_def avail_ok_def)

lemma select_group_frame:
  assumes "mgr_inv m"
  shows "lb_frame m (snd (select_backend_for_group sh draw now gid info m))"
  by (rule fast_cases[OF assms, of sh draw now gid info])
    (simp_all add: map_prod_snd_eq from_list.sel_frame)

lemma reachable_mgr_inv:
  assumes "reachable m"
  shows "mgr_inv m"
  using assms
proof induction
  case (start brows grows mrows)
  then show ?case by (rule new_manager_inv)
next
  case (sel m policy)
  then show ?case using lb_frame_inv select_backend_frame by blast
next
  case (selg m sh draw now2 gid info)
  then show ?case using lb_frame_inv select_group_frame by blast
qed (simp_all add: add_backend_inv remove_backend_inv update_backend_inv inc_conn_inv dec_conn_inv
      mark_healthy_inv add_group_inv update_group_inv set_group_enabled_inv delete_group_inv
      add_group_member_inv remove_group_member_inv check_backend_inv)

text \<open>
  In every state the backend manager can reach, from loading the tables on, through any
  sequence of operations, health checks and choices, one after another: the backend IDs are unique, the
  available list is exactly the enabled and healthy backends in order, and the route cache
  holds, for exactly the enabled groups, what a rebuild would store now (the connection
  counters of its copies and the breaker's fields apart).
\<close>

theorem reachable_inv:
  assumes "reachable m"
  shows "mgr_inv m"
  using assms by (rule reachable_mgr_inv)

lemma reachable_empty: "reachable (new_manager None None None)"
  by (rule start) simp

theorem reachable_inv_witness: "mgr_inv (mark_healthy ''t'' ''x'' False (new_manager None None None))"
  using reachable_inv[OF mark[OF reachable_empty]] .

text \<open>
  \<open>SelectBackend\<close> under any process-wide policy: it answers nothing exactly when no
  backend is enabled and healthy, and otherwise a registered backend that is; it changes
  nothing but the balancing state.
\<close>

theorem select_backend_sound:
  assumes "reachable m"
  shows "lb_frame m (snd (select_backend policy m)) \<and>
    (case fst (select_backend policy m) of
       None \<Rightarrow> \<forall>p \<in> set (backends m). \<not> usable (heap m p)
     | Some b \<Rightarrow> b \<in> set (get_backends m) \<and> usable b)"
proof (cases "availableBackends m = []")
  case True
  then show ?thesis
    using reachable_mgr_inv[OF assms]
    by (auto simp: select_backend_def mgr_inv_def avail_ok_def filter_empty_conv
        dest!: sym[of "[]"])
next
  case False
  then obtain p where "p \<in> set (backends m)" "usable (heap m p)"
    "fst (by_policy policy (map (heap m) (availableBackends m)) m) = heap m p"
    using global_policy.sel_pool[of m policy] reachable_mgr_inv[OF assms] by (auto simp: mgr_inv_def)
  then show ?thesis
    using False select_backend_frame[of m policy]
    by (simp add: select_backend_by_policy map_prod_fst_eq get_backends_def)
qed

theorem select_backend_sound_witness:
  "fst (select_backend LBRandom (new_manager None None None)) = None"
proof -
  have "get_backends (new_manager None None None) = []"
    by (simp add: new_manager_def load_backends_def empty_manager_def get_backends_def)
  then show ?thesis
    using select_backend_sound[OF reachable_empty, of LBRandom] by (auto split: option.splits)
qed

subsection \<open>The breaker's clock\<close>

definition breaker_unset :: "manager \<Rightarrow> bool" where
  "breaker_unset m \<longleftrightarrow>
     (\<forall>c gid e. groupCache m = Some c \<longrightarrow> c gid = Some e \<longrightarrow> re_lastOpenAttempt e = zero_time)"

lemma breaker_unset_rebuild:
  "(\<And>c. groupCache m' = Some c \<Longrightarrow> groupCache m = Some c) \<Longrightarrow> breaker_unset m
   \<Longrightarrow> breaker_unset (rebuild_group_cache m')"
  unfolding breaker_unset_def rebuild_group_cache_eq
  by (auto simp: build_entry_def Let_def split: option.splits if_splits)

lemma breaker_unset_same: "groupCache m' = groupCache m \<Longrightarrow> breaker_unset m' = breaker_unset m"
  by (simp add: breaker_unset_def)

lemma load_cache [simp]:
  "groupCache (load_groups g r m) = groupCache m"
  by (simp add: load_groups_def Let_def split: option.split)

lemma load_backends_cache: "groupCache (load_backends b m) = groupCache m"
proof -
  have "groupCache (foldl (\<lambda>m row. case row of None \<Rightarrow> m | Some r \<Rightarrow> append_backend (scan_backend r) m) m rows)
      = groupCache m" for rows m
    by (induction rows arbitrary: m) (simp_all add: append_backend_def split: option.split)
  then show ?thesis by (simp add: load_backends_def split: option.split)
qed

lemma lb_frame_cache: "lb_frame m m' \<Longrightarrow> groupCache m' = groupCache m"
  by (rule lb_frameD)

lemma handle_breaker_unset:
  assumes "breaker_unset m"
  shows "breaker_unset (handle_success now bid m)" and "breaker_unset (handle_fail now bid m)"
proof -
  have same: "breaker_unset (m\<lparr>recoverCount := r, failCount := f\<rparr>)" for r f
    using assms by (simp add: breaker_unset_def)
  have same1: "breaker_unset (m\<lparr>recoverCount := r\<rparr>)" for r
    using assms by (simp add: breaker_unset_def)
  have same2: "breaker_unset (m\<lparr>failCount := f, recoverCount := r\<rparr>)" for r f
    using assms by (simp add: breaker_unset_def)
  have rb: "groupCache m' = groupCache m \<Longrightarrow> breaker_unset (rebuild_group_cache (refresh_available m'))" for m'
    by (rule breaker_unset_rebuild[OF _ assms]) simp
  show "breaker_unset (handle_success now bid m)"
    unfolding handle_success_def Let_def
    by (auto simp: set_health_def same same1 same2 intro!: rb split: option.split prod.split)
  show "breaker_unset (handle_fail now bid m)"
    unfolding handle_fail_def Let_def
    by (auto simp: set_health_def same same1 same2 intro!: rb split: option.split prod.split)
qed

lemma reachable_breaker_unset: "reachable m \<Longrightarrow> breaker_unset m"
proof (induction rule: reachable.induct)
  case (start brows grows mrows)
  have "breaker_unset empty_manager"
    by (simp add: breaker_unset_def empty_manager_def)
  then show ?case
    unfolding new_manager_def
    by (rule breaker_unset_rebuild[rotated]) (simp add: load_backends_cache)
next
  case (sel m policy)
  then show ?case using breaker_unset_same lb_frame_cache[OF select_backend_frame] by blast
next
  case (selg m sh draw now2 gid info)
  then show ?case
    using breaker_unset_same lb_frame_cache[OF select_group_frame[OF reachable_mgr_inv[OF selg(1)]]] by blast
next
  case (add m r now b)
  then show ?case
    by (cases r)
      (auto simp: add_backend_def Let_def append_backend_def intro: breaker_unset_rebuild[of _ m])
next
  case (remove m r bid)
  then show ?case
    by (cases r) (auto simp: remove_backend_def Let_def intro: breaker_unset_rebuild[of _ m])
next
  case (update m r src)
  then show ?case
    by (cases r) (auto simp: update_backend_def intro: breaker_unset_rebuild[of _ m])
next
  case (mark m now bid h)
  then show ?case
    by (auto simp: mark_healthy_def Let_def intro!: breaker_unset_rebuild[of _ m] split: option.splits if_splits)
next
  case (addg m gid t r name policy)
  then show ?case
    by (cases r) (auto simp: add_group_def Let_def intro: breaker_unset_rebuild[of _ m])
next
  case (updg m r gid name policy)
  then show ?case
    by (cases r) (auto simp: update_group_def Let_def intro: breaker_unset_rebuild[of _ m])
next
  case (enableg m r gid en)
  then show ?case
    by (cases r) (auto simp: set_group_enabled_def intro: breaker_unset_rebuild[of _ m])
next
  case (delg m r1 r2 r3 r4 gid)
  then show ?case
    by (auto simp: delete_group_def intro: breaker_unset_rebuild[of _ m] split: option.splits)
next
  case (addm m r gid bid w)
  then show ?case
    by (cases r) (auto simp: add_group_member_def Let_def intro: breaker_unset_rebuild[of _ m])
next
  case (remm m r gid bid)
  then show ?case
    by (cases r) (auto simp: remove_group_member_def intro: breaker_unset_rebuild[of _ m])
next
  case (check m sh probe now b)
  show ?case
    using check(2) by (simp add: check_backend_def Let_def handle_breaker_unset split: probe_result.split)
qed (auto simp: inc_conn_def dec_conn_def breaker_unset_def)

text \<open>
  The retry interval of the group breaker never takes effect: in every reachable state the
  time of the last attempt is the zero time, so from ten seconds after it on (any real clock)
  a request to a group with no usable member goes straight to the locked scan instead of
  being refused by the cached entry.
\<close>

theorem breaker_never_waits:
  assumes "reachable m" and "10 * nano_second \<le> now"
    and "groupCache m = Some c" and "c gid = Some e" and "re_allAvailable e = []"
  shows "select_backend_for_group sh draw now gid info m =
         select_backend_for_group_slow sh draw gid info m"
proof -
  have "re_lastOpenAttempt e = 0"
    using reachable_breaker_unset[OF assms(1)] assms(3,4)
    by (simp add: breaker_unset_def zero_time_def)
  moreover have "\<not> time_sub now 0 < circuit_closed_retry_interval"
    using assms(2) by (simp add: time_sub_def circuit_closed_retry_interval_def)
  ultimately show ?thesis
    using assms by (simp add: select_backend_for_group_def)
qed

definition sample_empty_group :: manager where
  "sample_empty_group = snd (add_group ''g'' 0 (DbOk 1) ''web'' LBRandom (new_manager None None None))"

theorem breaker_never_waits_witness:
  "select_backend_for_group Some (\<lambda>n. 0) (63 * 10 ^ 18) ''g'' sample_info sample_empty_group =
   select_backend_for_group_slow Some (\<lambda>n. 0) ''g'' sample_info sample_empty_group"
proof -
  have r: "reachable sample_empty_group"
    unfolding sample_empty_group_def by (rule addg[OF reachable_empty])
  obtain c where c: "groupCache sample_empty_group = Some c"
    "\<exists>e. c ''g'' = Some e \<and> re_allAvailable e = []"
    by (simp add: sample_empty_group_def add_group_def put_group_def Let_def rebuild_group_cache_eq build_entry_def
        group_available_def new_manager_def load_groups_def load_backends_def empty_manager_def
        List.map_filter_def split: option.split)
  then show ?thesis
    using breaker_never_waits[OF r] by auto
qed

end
