(* ===== verification/GroupRace.thy ===== *)
theory GroupRace
  imports BackendSystem
begin

text \<open>
  The backend manager under concurrency. Backend operations, health checks and choices hold the manager's lock
  for all they do and are one step each. The six group operations of \<open>group.go\<close> are not: they change the maps under the
  lock, give it back, and call \<open>rebuildGroupCache\<close>, which builds the cache under the lock for reading and leaves it in
  the field \<open>rebuildGroupCacheResult\<close>, gives that lock back too, and then reads the field and stores what it read. Each of
  these is a step here, and the steps of all goroutines interleave.

  Proved: the backend IDs stay unique and the available list exact under every interleaving; when no group operation is
  under way the route cache is current, unless a rebuild came between the moment some other one read the field and
  the moment it stored. That can happen, and then the cache stays stale: a group that was deleted keeps being served.
\<close>

section \<open>The steps\<close>

text \<open>Where a goroutine is in a group operation.\<close>

datatype group_pc = Idle | Changed | Built | Loaded "(string \<rightharpoonup> route_entry) option"

record group_system =
  gs_manager :: manager
  gs_pc :: "nat \<Rightarrow> group_pc"

text \<open>The operations that hold a lock from beginning to end, and the change of \<open>wrrState\<close> under its own lock.\<close>

inductive locked_op :: "manager \<Rightarrow> manager \<Rightarrow> bool" where
  add: "(\<And>n. r = DbOk n \<Longrightarrow> new_backend_id now b \<notin> ids m) \<Longrightarrow> locked_op m (snd (add_backend now r b m))"
| remove: "locked_op m (snd (remove_backend r bid m))"
| update: "locked_op m (snd (update_backend r src m))"
| inc: "locked_op m (inc_conn bid m)"
| dec: "locked_op m (dec_conn bid m)"
| mark: "locked_op m (mark_healthy now bid h m)"
| check: "locked_op m (check_backend sh probe now b m)"
| sel: "locked_op m (snd (select_backend policy m))"
| selg: "locked_op m (snd (select_backend_for_group sh draw now2 gid info m))"
| forget: "locked_op m (forget_wrr bid m)"

text \<open>What the group operations do under the lock, once their statement has succeeded.\<close>

inductive group_change :: "manager \<Rightarrow> manager \<Rightarrow> bool" where
  put: "group_change m (put_group g m)"
| edit: "group_change m (edit_group gid name policy m)"
| switch: "group_change m (switch_group gid en m)"
| drop: "group_change m (drop_group gid m)"
| put_member: "group_change m (put_member gid bid w m)"
| drop_member: "group_change m (drop_member gid bid m)"

inductive group_step :: "group_system \<Rightarrow> group_system \<Rightarrow> bool" where
  locked: "locked_op (gs_manager s) m \<Longrightarrow> group_step s (s\<lparr>gs_manager := m\<rparr>)"
| change: "gs_pc s t = Idle \<Longrightarrow> group_change (gs_manager s) m
    \<Longrightarrow> group_step s (s\<lparr>gs_manager := m, gs_pc := (gs_pc s)(t := Changed)\<rparr>)"
| build: "gs_pc s t = Changed
    \<Longrightarrow> group_step s (s\<lparr>gs_manager := do_rebuild_group_cache (gs_manager s), gs_pc := (gs_pc s)(t := Built)\<rparr>)"
| load: "gs_pc s t = Built
    \<Longrightarrow> group_step s (s\<lparr>gs_pc := (gs_pc s)(t := Loaded (rebuildGroupCacheResult (gs_manager s)))\<rparr>)"
| store: "gs_pc s t = Loaded c
    \<Longrightarrow> group_step s (s\<lparr>gs_manager := (gs_manager s)\<lparr>groupCache := c\<rparr>, gs_pc := (gs_pc s)(t := Idle)\<rparr>)"

text \<open>
  The states a manager reaches from what \<open>NewManager\<close> loads. The flag is true as long as no rebuild has come between
  another goroutine's reading of \<open>rebuildGroupCacheResult\<close> and its store.
\<close>

definition storing :: "group_system \<Rightarrow> bool" where
  "storing s \<longleftrightarrow> (\<exists>t c. gs_pc s t = Loaded c)"

inductive group_reachable :: "bool \<Rightarrow> group_system \<Rightarrow> bool" where
  start: "(\<And>rows. brows = Some rows \<Longrightarrow> distinct (map row_id (List.map_filter (\<lambda>r. r) rows)))
    \<Longrightarrow> group_reachable True \<lparr>gs_manager = new_manager brows grows mrows, gs_pc = (\<lambda>_. Idle)\<rparr>"
| step: "group_reachable apart s \<Longrightarrow> group_step s s' \<Longrightarrow>
    group_reachable (apart \<and> (\<not> storing s \<or>
      rebuildGroupCacheResult (gs_manager s') = rebuildGroupCacheResult (gs_manager s))) s'"

section \<open>The operations are these steps in a row\<close>

lemma rebuild_in_steps:
  "rebuild_group_cache m =
   (let built = do_rebuild_group_cache m; c = rebuildGroupCacheResult built in built\<lparr>groupCache := c\<rparr>)"
  by (simp add: rebuild_group_cache_def Let_def)

lemma group_op_in_steps:
  assumes "gs_pc s t = Idle" "group_change (gs_manager s) m"
  shows "group_step\<^sup>*\<^sup>* s (s\<lparr>gs_manager := rebuild_group_cache m\<rparr>)"
proof -
  let ?s1 = "s\<lparr>gs_manager := m, gs_pc := (gs_pc s)(t := Changed)\<rparr>"
  let ?s2 = "?s1\<lparr>gs_manager := do_rebuild_group_cache m, gs_pc := (gs_pc ?s1)(t := Built)\<rparr>"
  let ?c = "rebuildGroupCacheResult (do_rebuild_group_cache m)"
  let ?s3 = "?s2\<lparr>gs_pc := (gs_pc ?s2)(t := Loaded ?c)\<rparr>"
  let ?s4 = "?s3\<lparr>gs_manager := (gs_manager ?s3)\<lparr>groupCache := ?c\<rparr>, gs_pc := (gs_pc ?s3)(t := Idle)\<rparr>"
  have "group_step s ?s1" using assms by (rule change)
  moreover have "group_step ?s1 ?s2" using build[of ?s1 t] by simp
  moreover have "group_step ?s2 ?s3" using load[of ?s2 t] by simp
  moreover have "group_step ?s3 ?s4" by (rule store) simp
  moreover have "?s4 = s\<lparr>gs_manager := rebuild_group_cache m\<rparr>"
    using assms(1) by (simp add: rebuild_group_cache_def Let_def fun_upd_idem)
  ultimately show ?thesis by (metis (no_types, lifting) rtranclp.simps)
qed

section \<open>Every step keeps the slices right\<close>

lemma group_change_slices:
  assumes "group_change m m'"
  shows "heap m' = heap m" "next_ptr m' = next_ptr m" "backends m' = backends m"
    "availableBackends m' = availableBackends m" "groupCache m' = groupCache m"
    "rebuildGroupCacheResult m' = rebuildGroupCacheResult m"
  using assms by (induction; simp add: group_changes Let_def)+

lemma do_rebuild_slices [simp]:
  "heap (do_rebuild_group_cache m) = heap m" "next_ptr (do_rebuild_group_cache m) = next_ptr m"
  "backends (do_rebuild_group_cache m) = backends m" "groups (do_rebuild_group_cache m) = groups m"
  "groupMembers (do_rebuild_group_cache m) = groupMembers m"
  "availableBackends (do_rebuild_group_cache m) = availableBackends m"
  "groupCache (do_rebuild_group_cache m) = groupCache m"
  by (simp_all add: do_rebuild_group_cache_def)

definition slices_ok :: "manager \<Rightarrow> bool" where
  "slices_ok m \<longleftrightarrow> mgr_wf m \<and> avail_ok m"

lemma slices_ok_same:
  "heap m' = heap m \<Longrightarrow> next_ptr m' = next_ptr m \<Longrightarrow> backends m' = backends m \<Longrightarrow>
   availableBackends m' = availableBackends m \<Longrightarrow> slices_ok m \<Longrightarrow> slices_ok m'"
  by (simp add: slices_ok_def mgr_wf_def avail_ok_def)

text \<open>A cache as of a state: what \<open>cache_ok\<close> would say if it were the one stored.\<close>

definition current :: "manager \<Rightarrow> (string \<rightharpoonup> route_entry) option \<Rightarrow> bool" where
  "current m c \<longleftrightarrow> cache_ok (m\<lparr>groupCache := c\<rparr>)"

lemma current_stored: "current m (groupCache m) = cache_ok m"
  by (simp add: current_def)

lemma current_cong:
  assumes "backends m = backends m'" "groupMembers m = groupMembers m'" "groups m = groups m'"
    and "\<And>p. p \<in> set (backends m) \<Longrightarrow> sans_conns (heap m p) = sans_conns (heap m' p)"
  shows "current m c = current m' c"
  unfolding current_def using assms by (intro cache_ok_cong) simp_all

lemma current_built: "current (do_rebuild_group_cache m) (rebuildGroupCacheResult (do_rebuild_group_cache m))"
proof -
  have "(do_rebuild_group_cache m)\<lparr>groupCache := rebuildGroupCacheResult (do_rebuild_group_cache m)\<rparr> =
      rebuild_group_cache m"
    by (simp add: rebuild_group_cache_def Let_def)
  then show ?thesis by (simp add: current_def)
qed

text \<open>A locked operation either rebuilds, or leaves everything the cache depends on alone.\<close>

definition quiet :: "manager \<Rightarrow> manager \<Rightarrow> bool" where
  "quiet m m' \<longleftrightarrow> backends m' = backends m \<and> groupMembers m' = groupMembers m \<and> groups m' = groups m \<and>
     groupCache m' = groupCache m \<and> rebuildGroupCacheResult m' = rebuildGroupCacheResult m \<and>
     next_ptr m' = next_ptr m \<and> availableBackends m' = availableBackends m \<and>
     (\<forall>p. sans_conns (heap m' p) = sans_conns (heap m p))"

definition rebuilt :: "manager \<Rightarrow> bool" where
  "rebuilt m \<longleftrightarrow> (\<exists>m0. mgr_wf m0 \<and> m = rebuild_group_cache (refresh_available m0))"

lemma quiet_refl [simp]: "quiet m m"
  by (simp add: quiet_def)

lemma quiet_slices:
  assumes "quiet m m'" "slices_ok m"
  shows "slices_ok m'"
proof -
  have h: "sans_conns (heap m' p) = sans_conns (heap m p)" for p
    using assms(1) by (simp add: quiet_def)
  have "b_ID (heap m' p) = b_ID (heap m p)" "usable (heap m' p) = usable (heap m p)" for p
    using sans_conns_eqD[OF h[of p]] by auto
  then show ?thesis using assms by (simp add: slices_ok_def mgr_wf_def avail_ok_def quiet_def)
qed

lemma lb_frame_quiet: "lb_frame m m' \<Longrightarrow> quiet m m'"
  using lb_frameD[of m m'] by (simp add: quiet_def)

lemma modify_conns_quiet: "(\<And>b. sans_conns (f b) = sans_conns b) \<Longrightarrow> quiet m (modify_backend bid f m)"
  by (simp add: quiet_def modify_backend_def split: option.split)

lemma rebuilt_slices: "rebuilt m \<Longrightarrow> slices_ok m \<and> current m (rebuildGroupCacheResult m) \<and> groupCache m = rebuildGroupCacheResult m"
proof -
  assume "rebuilt m"
  then obtain m0 where m0: "mgr_wf m0" "m = rebuild_group_cache (refresh_available m0)"
    by (auto simp: rebuilt_def)
  have stored: "groupCache m = rebuildGroupCacheResult m"
    by (simp add: m0(2) rebuild_group_cache_def Let_def)
  moreover have "cache_ok m" by (simp add: m0(2))
  ultimately have "current m (rebuildGroupCacheResult m)" by (metis current_stored)
  then show ?thesis using stored m0 by (simp add: slices_ok_def)
qed

lemma rebuiltI: "mgr_wf m0 \<Longrightarrow> rebuilt (rebuild_group_cache (refresh_available m0))"
  by (auto simp: rebuilt_def)

lemma mgr_wf_both_counters [simp]:
  "mgr_wf (m\<lparr>failCount := f\<rparr>) = mgr_wf m" "mgr_wf (m\<lparr>recoverCount := f\<rparr>) = mgr_wf m"
  "mgr_wf (m\<lparr>failCount := f, recoverCount := r\<rparr>) = mgr_wf m" "mgr_wf (m\<lparr>recoverCount := r, failCount := f\<rparr>) = mgr_wf m"
  by (simp_all add: mgr_wf_def)

lemma select_group_quiet: "quiet m (snd (select_backend_for_group sh draw now gid info m))"
proof -
  have slow: "quiet m (snd (select_backend_for_group_slow sh draw gid info m))"
    by (auto simp: select_backend_for_group_slow_def Let_def intro!: lb_frame_quiet
        split: option.split prod.split dest!: arg_cong[where f = snd]) (metis from_list.sel_frame snd_conv)+
  have "quiet m (snd (select_backend_from_list sh draw bs p info m))" for bs p
    by (rule lb_frame_quiet) (rule from_list.sel_frame)
  then show ?thesis
    using slow by (auto simp: select_backend_for_group_def Let_def split: option.split prod.split) (metis snd_conv)+
qed

lemma handle_cases:
  assumes "mgr_wf m"
  shows "rebuilt (handle_success now bid m) \<or> quiet m (handle_success now bid m)"
    and "rebuilt (handle_fail now bid m) \<or> quiet m (handle_fail now bid m)"
  unfolding handle_success_def handle_fail_def Let_def
  using assms by (simp_all add: rebuiltI set_health_wf split: prod.split option.split) (auto simp: quiet_def)

lemma locked_cases:
  assumes "locked_op m m'" "slices_ok m"
  shows "rebuilt m' \<or> quiet m m'"
  using assms
proof induction
  case (add r now b m)
  then show ?case
    by (cases r) (auto simp: add_backend_def Let_def slices_ok_def intro!: rebuiltI append_backend_wf)
next
  case (remove m r bid)
  then have wf: "mgr_wf (snd (remove_backend r bid m))" by (simp add: remove_backend_wf slices_ok_def)
  show ?case
  proof (cases r)
    case (DbOk n)
    with wf show ?thesis
      unfolding remove_backend_def DbOk exec_result.case Let_def snd_conv by (intro disjI1 rebuiltI) simp
  qed (simp add: remove_backend_def)
next
  case (update m r src)
  then show ?case
    by (cases r) (auto simp: update_backend_def slices_ok_def intro!: rebuiltI modify_backend_wf)
next
  case (inc m bid)
  show ?case unfolding inc_conn_def by (intro disjI2 modify_conns_quiet) (simp add: sans_conns_def inc_counter_def)
next
  case (dec m bid)
  show ?case unfolding dec_conn_def by (intro disjI2 modify_conns_quiet) (simp add: sans_conns_def dec_counter_def)
next
  case (mark m now bid h)
  have "mgr_wf (mark_healthy now bid h m)"
    using mark modify_backend_wf[of m "\<lambda>b. b\<lparr>b_Healthy := h, b_LastCheck := now\<rparr>" bid]
    by (subst mgr_wf_cong[OF mark_healthy_heap(1)]) (simp_all add: mark_healthy_heap slices_ok_def)
  then show ?case unfolding mark_healthy_def Let_def by (intro disjI1 rebuiltI) simp
next
  case (check m sh probe now b)
  then show ?case
    by (auto simp: check_backend_def Let_def slices_ok_def handle_cases split: probe_result.split)
next
  case (sel m policy)
  show ?case using lb_frame_quiet[OF select_backend_frame] by blast
next
  case (selg m sh draw now2 gid info)
  show ?case using select_group_quiet by blast
next
  case (forget m bid)
  show ?case by (simp add: quiet_def forget_wrr_def)
qed

section \<open>The invariant\<close>

text \<open>
  Outside the lock, the cache built last is current unless somebody has changed the maps and not rebuilt yet. As
  long as no store was overtaken, whatever waits to be stored is the cache built last, and so is the one stored, unless
  somebody is on the way to store it.
\<close>

definition race_inv :: "bool \<Rightarrow> group_system \<Rightarrow> bool" where
  "race_inv apart s \<longleftrightarrow>
     (let m = gs_manager s; built = rebuildGroupCacheResult m in
      slices_ok m \<and>
      (current m built \<or> (\<exists>t. gs_pc s t = Changed)) \<and>
      (apart \<longrightarrow> (\<forall>t c. gs_pc s t = Loaded c \<longrightarrow> c = built) \<and>
         (groupCache m = built \<or> (\<exists>t. gs_pc s t = Built) \<or> storing s)))"

lemma race_inv_step:
  assumes "race_inv apart s" and "group_step s s'"
  shows "race_inv (apart \<and> (\<not> storing s \<or>
    rebuildGroupCacheResult (gs_manager s') = rebuildGroupCacheResult (gs_manager s))) s'"
proof -
  let ?m = "gs_manager s" and ?built = "rebuildGroupCacheResult (gs_manager s)"
  have sl: "slices_ok ?m" and cur: "current ?m ?built \<or> (\<exists>t. gs_pc s t = Changed)"
    and ap: "apart \<Longrightarrow> (\<forall>t c. gs_pc s t = Loaded c \<longrightarrow> c = ?built)"
      "apart \<Longrightarrow> groupCache ?m = ?built \<or> (\<exists>t. gs_pc s t = Built) \<or> storing s"
    using assms(1) by (auto simp: race_inv_def Let_def)
  from assms(2) show ?thesis
  proof cases
    case (locked m)
    from locked_cases[OF locked(2) sl] show ?thesis
    proof
      assume "rebuilt m"
      from rebuilt_slices[OF this] show ?thesis
        using locked(1) ap by (auto simp: race_inv_def Let_def storing_def)
    next
      assume q: "quiet ?m m"
      then have "current m c = current ?m c" for c
        by (intro current_cong) (simp_all add: quiet_def)
      then show ?thesis
        using locked(1) q quiet_slices[OF q sl] cur ap by (auto simp: race_inv_def Let_def quiet_def storing_def)
    qed
  next
    case (change t m)
    note same = group_change_slices[OF change(3)]
    have "slices_ok m" using slices_ok_same[OF same(1-4) sl] .
    moreover have "\<exists>u. ((gs_pc s)(t := Changed)) u = Changed" by (rule exI[of _ t]) simp
    moreover have "(\<exists>u. ((gs_pc s)(t := Changed)) u = Built) \<longleftrightarrow> (\<exists>u. gs_pc s u = Built)"
      "(\<exists>u c. ((gs_pc s)(t := Changed)) u = Loaded c) \<longleftrightarrow> (\<exists>u c. gs_pc s u = Loaded c)"
      using change(2) by (metis fun_upd_apply group_pc.distinct)+
    ultimately show ?thesis
      using change(1) same ap by (auto simp: race_inv_def Let_def storing_def split: if_splits)
  next
    case (build t)
    have sl': "slices_ok (do_rebuild_group_cache ?m)" by (rule slices_ok_same[OF _ _ _ _ sl]) simp_all
    have "\<exists>u. ((gs_pc s)(t := Built)) u = Built" by (rule exI[of _ t]) simp
    then show ?thesis
      using build(1) sl' current_built[of ?m] ap
      by (auto simp: race_inv_def Let_def storing_def split: if_splits)
  next
    case (load t)
    let ?pc = "(gs_pc s)(t := Loaded ?built)"
    have "(\<exists>u. ?pc u = Changed) \<longleftrightarrow> (\<exists>u. gs_pc s u = Changed)"
      using load(2) by (metis fun_upd_apply group_pc.distinct)
    moreover have "\<exists>u c. ?pc u = Loaded c" by (intro exI[of _ t] exI) simp
    ultimately show ?thesis
      using load(1) sl cur ap by (auto simp: race_inv_def Let_def storing_def split: if_splits)
  next
    case (store t c)
    let ?pc = "(gs_pc s)(t := Idle)"
    have "(\<exists>u. ?pc u = Changed) \<longleftrightarrow> (\<exists>u. gs_pc s u = Changed)"
      using store(2) by (metis fun_upd_apply group_pc.distinct)
    moreover have "slices_ok (?m\<lparr>groupCache := c\<rparr>)" by (rule slices_ok_same[OF _ _ _ _ sl]) simp_all
    moreover have "current (?m\<lparr>groupCache := c\<rparr>) d = current ?m d" for d by (simp add: current_def)
    moreover have "c = ?built \<and> (\<forall>u d. ?pc u = Loaded d \<longrightarrow> d = ?built)" if apart
      using ap(1)[OF that] store(2) by (metis fun_upd_apply group_pc.distinct(5))
    ultimately show ?thesis
      using store(1) cur by (simp add: race_inv_def Let_def)
  qed
qed

lemma race_inv_reachable: "group_reachable apart s \<Longrightarrow> race_inv apart s"
proof (induction rule: group_reachable.induct)
  case (start brows grows mrows)
  then have "mgr_inv (new_manager brows grows mrows)" by (rule new_manager_inv)
  moreover have "groupCache (new_manager brows grows mrows) = rebuildGroupCacheResult (new_manager brows grows mrows)"
    by (simp add: new_manager_def rebuild_group_cache_def Let_def)
  ultimately show ?case
    by (simp add: race_inv_def Let_def slices_ok_def mgr_inv_def) (metis current_stored)
qed (rule race_inv_step)

definition at_rest :: "group_system \<Rightarrow> bool" where
  "at_rest s \<longleftrightarrow> (\<forall>t. gs_pc s t = Idle)"

text \<open>
  C3. Under every interleaving of the backend manager's operations, from loading the tables on: the
  backend IDs are unique and the available list is exactly the enabled and healthy backends, in order. And whenever
  no group operation is under way, the route cache has, for exactly the enabled groups, what a rebuild would
  store now, up to the connection counters of its copies and the breaker's fields, unless a rebuild once
  came between the moment another goroutine read the rebuilt cache and the moment it stored it; also then the cache
  is right again as soon as the one stored is the one built last.
\<close>

theorem manager_consistent:
  assumes "group_reachable apart s"
  shows "mgr_wf (gs_manager s) \<and> avail_ok (gs_manager s) \<and>
    (at_rest s \<and> (apart \<or> groupCache (gs_manager s) = rebuildGroupCacheResult (gs_manager s)) \<longrightarrow>
       cache_ok (gs_manager s))"
  using race_inv_reachable[OF assms] current_stored[of "gs_manager s"]
  by (auto simp: race_inv_def Let_def slices_ok_def at_rest_def storing_def)

section \<open>A store that is overtaken\<close>

definition race_group :: backend_group where
  "race_group = \<lparr>g_ID = ''g'', g_Name = ''web'', g_LbPolicy = LBRandom, g_Enabled = True, g_MemberCnt = 0, g_CreatedAt = 0\<rparr>"

text \<open>Goroutine 1 adds a group and reads the cache it built; goroutine 2 deletes the group; goroutine 1 stores.\<close>

definition race_start :: group_system where
  "race_start = \<lparr>gs_manager = new_manager None None None, gs_pc = (\<lambda>_. Idle)\<rparr>"

lemma race_start_reachable: "group_reachable True race_start"
  unfolding race_start_def by (rule group_reachable.start) simp

text \<open>
  A deleted group comes back: from a manager without groups the steps of an addition and of the deletion of the
  same group can interleave so that, with both finished, the table of groups is empty and the cache
  still has an entry for the group. Nothing but the next rebuild takes it away.
\<close>

theorem deleted_group_still_cached:
  "\<exists>s c e. group_step\<^sup>*\<^sup>* race_start s \<and> at_rest s \<and> groups (gs_manager s) = Map.empty \<and>
     groupCache (gs_manager s) = Some c \<and> c ''g'' = Some e \<and> \<not> cache_ok (gs_manager s)"
proof -
  let ?m0 = "new_manager None None None"
  let ?m1 = "do_rebuild_group_cache (put_group race_group ?m0)"
  let ?c = "rebuildGroupCacheResult ?m1"
  let ?pc1 = "(\<lambda>_. Idle)(1 := Loaded ?c)"
  let ?m2 = "rebuild_group_cache (drop_group ''g'' ?m1)"
  let ?s1 = "\<lparr>gs_manager = ?m1, gs_pc = ?pc1\<rparr>"
  let ?s2 = "\<lparr>gs_manager = ?m2, gs_pc = ?pc1\<rparr>"
  let ?s3 = "\<lparr>gs_manager = ?m2\<lparr>groupCache := ?c\<rparr>, gs_pc = (\<lambda>_. Idle)\<rparr>"
  have "group_step race_start (race_start\<lparr>gs_manager := put_group race_group ?m0, gs_pc := (gs_pc race_start)(1 := Changed)\<rparr>)"
    by (rule change) (simp_all add: race_start_def group_change.put)
  moreover have "group_step \<dots> \<lparr>gs_manager = ?m1, gs_pc = (\<lambda>_. Idle)(1 := Built)\<rparr>"
    using build[of "race_start\<lparr>gs_manager := put_group race_group ?m0, gs_pc := (gs_pc race_start)(1 := Changed)\<rparr>" 1]
    by (simp add: race_start_def)
  moreover have "group_step \<dots> ?s1"
    using load[of "\<lparr>gs_manager = ?m1, gs_pc = (\<lambda>_. Idle)(1 := Built)\<rparr>" 1] by simp
  ultimately have "group_step\<^sup>*\<^sup>* race_start ?s1" by (meson converse_rtranclp_into_rtranclp rtranclp.rtrancl_refl)
  also have "group_step\<^sup>*\<^sup>* ?s1 ?s2"
    using group_op_in_steps[of ?s1 2 "drop_group ''g'' ?m1"] by (simp add: group_change.drop)
  also have "group_step ?s2 ?s3"
    using store[of ?s2 1 ?c] by (simp add: fun_upd_idem)
  finally have run: "group_step\<^sup>*\<^sup>* race_start ?s3" .
  have none: "groups ?m0 = Map.empty"
    by (simp add: new_manager_def load_groups_def load_backends_def empty_manager_def)
  then have "groups ?m2 = Map.empty"
    by (simp add: drop_group_def put_group_def race_group_def)
  moreover obtain c e where c: "?c = Some c" "c ''g'' = Some e"
    by (simp add: do_rebuild_group_cache_def put_group_def race_group_def)
  moreover have "\<not> cache_ok (?m2\<lparr>groupCache := ?c\<rparr>)"
    using c \<open>groups ?m2 = Map.empty\<close> by (auto simp: cache_ok_def dest!: spec[of _ "''g''"])
  ultimately show ?thesis
    using run by (intro exI[of _ ?s3] exI[of _ c] exI[of _ e]) (simp add: at_rest_def)
qed

text \<open>An operation that runs alone keeps the flag.\<close>

lemma group_op_apart:
  assumes "group_reachable True s" "at_rest s" "group_change (gs_manager s) m"
  shows "group_reachable True (s\<lparr>gs_manager := rebuild_group_cache m\<rparr>)"
proof -
  have idle: "gs_pc s t = Idle" for t using assms(2) by (simp add: at_rest_def)
  let ?s1 = "s\<lparr>gs_manager := m, gs_pc := (gs_pc s)(0 := Changed)\<rparr>"
  let ?s2 = "?s1\<lparr>gs_manager := do_rebuild_group_cache m, gs_pc := (gs_pc ?s1)(0 := Built)\<rparr>"
  let ?c = "rebuildGroupCacheResult (do_rebuild_group_cache m)"
  let ?s3 = "?s2\<lparr>gs_pc := (gs_pc ?s2)(0 := Loaded ?c)\<rparr>"
  let ?s4 = "?s3\<lparr>gs_manager := (gs_manager ?s3)\<lparr>groupCache := ?c\<rparr>, gs_pc := (gs_pc ?s3)(0 := Idle)\<rparr>"
  have quiet: "\<not> storing s" "\<not> storing ?s1" "\<not> storing ?s2" by (simp_all add: storing_def idle)
  have next_one: "group_reachable True u" if "group_reachable True x" "group_step x u" "\<not> storing x" for x u
    using group_reachable.step[OF that(1,2)] that(3) by simp
  have "group_reachable True ?s1"
    by (rule next_one[OF assms(1) _ quiet(1)]) (rule change[OF idle assms(3)])
  then have "group_reachable True ?s2"
    by (rule next_one[OF _ _ quiet(2)]) (use build[of ?s1 0] in simp)
  then have "group_reachable True ?s3"
    by (rule next_one[OF _ _ quiet(3)]) (use load[of ?s2 0] in simp)
  from group_reachable.step[OF this, of ?s4] have "group_reachable True ?s4"
    using store[of ?s3 0 ?c] by simp
  moreover have "?s4 = s\<lparr>gs_manager := rebuild_group_cache m\<rparr>"
    using idle by (simp add: rebuild_group_cache_def Let_def fun_upd_idem)
  ultimately show ?thesis by simp
qed

theorem manager_consistent_witness:
  "cache_ok (rebuild_group_cache (put_group race_group (new_manager None None None)))"
  using manager_consistent[OF group_op_apart[OF race_start_reachable _ group_change.put, of race_group]]
  by (simp add: at_rest_def race_start_def)

end
