(* ===== verification/CidrMerge.thy ===== *)
theory CidrMerge
  imports NetAddr
begin

text \<open>
  \<open>internal/domain/security/rules/cidr_merge.go\<close>: the merging of adjacent IP rules into
  networks. Addresses are 32-bit words, with Go's wrap-around; \<open>sort.Slice\<close> is modelled by
  the library's stable sort (the order of ranges with equal starts does not change which
  addresses the result covers).

  Proved: \<open>rangeToCIDRs\<close> terminates and covers exactly the range, merging a list of IPv4
  rules keeps the set of addresses they cover, also where \<open>last.end + 1\<close> wraps around; and
  what the merge loses: every rule that is not an IPv4 address or network.
\<close>

unbundle bit_operations_syntax

subsection \<open>The code\<close>

definition ip_to_uint32 :: "ip_net \<Rightarrow> 32 word" where
  "ip_to_uint32 net = (case net of Net4 a _ \<Rightarrow> a | Net6 _ _ \<Rightarrow> 0)"

fun max_bits_from :: "nat \<Rightarrow> nat \<Rightarrow> nat \<Rightarrow> 32 word \<Rightarrow> 32 word \<Rightarrow> nat" where
  "max_bits_from 0 i best start_ip end_ip = best"
| "max_bits_from (Suc k) i best start_ip end_ip =
     (let size = push_bit i 1 in
      if start_ip AND (size - 1) \<noteq> 0 then best
      else if size - 1 > end_ip - start_ip then best
      else max_bits_from k (Suc i) i start_ip end_ip)"

definition max_bits :: "32 word \<Rightarrow> 32 word \<Rightarrow> nat" where
  "max_bits start_ip end_ip = max_bits_from 32 0 0 start_ip end_ip"

function range_to_cidrs :: "32 word \<Rightarrow> 32 word \<Rightarrow> string list" where
  "range_to_cidrs start_ip end_ip =
     (if start_ip \<le> end_ip then
        let bits = max_bits start_ip end_ip;
            cidr = cidr4_string start_ip (32 - bits);
            next_ip = start_ip + push_bit bits 1
        in if next_ip \<le> start_ip then [cidr] else cidr # range_to_cidrs next_ip end_ip
      else [])"
  by pat_completeness auto

termination
  by (relation "measure (\<lambda>(s, e). 2 ^ 32 - unat s)")
    (auto simp: word_less_nat_alt not_le intro!: diff_less_mono2 order.strict_trans2[OF unsigned_less])

declare range_to_cidrs.simps [simp del]

type_synonym ip_range = "32 word \<times> 32 word"

text \<open>The prefix length as it is written: \<open>cidr.Mask.Size()\<close>.\<close>

definition cidr_ones :: "string \<Rightarrow> nat" where
  "cidr_ones s = dec_val (tl (dropWhile (\<lambda>c. c \<noteq> CHR ''/'') s))"

definition rule_range :: "string \<Rightarrow> ip_range option" where
  "rule_range ip_str =
     (case parse_cidr ip_str of
        Some cidr \<Rightarrow>
          let ones = cidr_ones ip_str; start_ip = ip_to_uint32 cidr in
          if ones = 32 then Some (start_ip, start_ip)
          else
            let size = (if ones = 0 \<or> ones > 32 then 0 else push_bit (32 - ones) 1 :: 32 word)
            in if size > 0 then Some (start_ip, start_ip + size - 1) else None
      | None \<Rightarrow>
          (case parse_ip ip_str of
             Some (V4 n) \<Rightarrow> Some (n, n)
           | _ \<Rightarrow> None))"

fun merge_ranges :: "ip_range \<Rightarrow> ip_range list \<Rightarrow> ip_range list" where
  "merge_ranges last_r [] = [last_r]"
| "merge_ranges last_r (r # rs) =
     (if fst r \<le> snd last_r + 1 then
        merge_ranges (fst last_r, if snd r > snd last_r then snd r else snd last_r) rs
      else last_r # merge_ranges r rs)"

definition range_strings :: "ip_range \<Rightarrow> string list" where
  "range_strings r =
     (if fst r = snd r then [ipv4_string (fst r)] else range_to_cidrs (fst r) (snd r))"

definition merge_ips_to_cidrs :: "string list \<Rightarrow> string list" where
  "merge_ips_to_cidrs ips =
     (if length ips \<le> 1 then ips
      else
        let ranges = List.map_filter rule_range ips in
        if length ranges \<le> 1 then ips
        else case sort_key fst ranges of
               [] \<Rightarrow> ips
             | r # rs \<Rightarrow> concat (map range_strings (merge_ranges r rs)))"

subsection \<open>One block\<close>

lemma unat_push_bit_1: "i < 32 \<Longrightarrow> unat (push_bit i 1 :: 32 word) = 2 ^ i"
proof -
  assume "i < 32"
  then have "(2 :: nat) ^ i < 2 ^ 32"
    by (intro power_strict_increasing) simp_all
  then have "(2 :: nat) ^ i mod 2 ^ 32 = 2 ^ i"
    by (rule mod_less)
  moreover have "unat (word_of_nat (2 ^ i) :: 32 word) = 2 ^ i mod 2 ^ 32"
    by (simp only: unsigned_of_nat take_bit_eq_mod) simp
  ultimately show ?thesis by simp
qed

lemma max_bits_from_inv:
  assumes "i + k = 32" "best \<le> 31" "2 ^ best dvd unat s" "unat s + 2 ^ best - 1 \<le> unat e" "s \<le> e"
  shows "max_bits_from k i best s e \<le> 31 \<and> 2 ^ max_bits_from k i best s e dvd unat s \<and>
    unat s + 2 ^ max_bits_from k i best s e - 1 \<le> unat e"
  using assms
proof (induction k i best s e rule: max_bits_from.induct)
  case (2 k i best s e)
  let ?size = "push_bit i 1 :: 32 word"
  have i: "i < 32" using 2(2) by simp
  have sz: "unat ?size = 2 ^ i"
    by (rule unat_push_bit_1[OF i])
  have sz1: "unat (?size - 1) = 2 ^ i - 1"
    using sz i by (subst unat_minus_one) auto
  have mask: "?size - 1 = mask i"
    by (simp add: mask_eq_exp_minus_1 push_bit_eq_mult)
  show ?case
  proof (cases "s AND (?size - 1) \<noteq> 0 \<or> ?size - 1 > e - s")
    case True
    then show ?thesis using 2(3-5) by (auto simp: Let_def)
  next
    case False
    moreover have "take_bit i s = s AND (?size - 1)"
      unfolding mask take_bit_eq_mask ..
    ultimately have "take_bit i s = 0" by argo
    then have "take_bit i (unat s) = 0"
      using unsigned_take_bit_eq[of i s, where 'a = nat] by (simp del: take_bit_of_0) 
    then have "2 ^ i dvd unat s"
      by (simp only: take_bit_eq_mod mod_eq_0_iff_dvd)
    moreover have "unat s + 2 ^ i - 1 \<le> unat e"
    proof -
      have "unat (?size - 1) \<le> unat (e - s)"
        using False by (simp add: word_le_nat_alt not_less)
      also have "unat (e - s) = unat e - unat s"
        using 2(6) by (simp add: unat_sub)
      finally show ?thesis using sz1 2(6) by (simp add: word_le_nat_alt) 
    qed
    ultimately have "max_bits_from k (Suc i) i s e \<le> 31 \<and> 2 ^ max_bits_from k (Suc i) i s e dvd unat s \<and>
      unat s + 2 ^ max_bits_from k (Suc i) i s e - 1 \<le> unat e"
      using 2(1)[OF refl] False 2(2,6) i by simp
    then show ?thesis using False by (simp add: Let_def)
  qed
qed simp

lemma max_bits_spec:
  assumes "s \<le> e"
  shows "max_bits s e \<le> 31" "2 ^ max_bits s e dvd unat s" "unat s + 2 ^ max_bits s e - 1 \<le> unat e"
  using max_bits_from_inv[of 0 32 0 s e] assms by (simp_all add: max_bits_def word_le_nat_alt)

subsection \<open>A range as networks\<close>

text \<open>The addresses a list of rule strings stands for.\<close>

definition covers :: "string list \<Rightarrow> ip_addr \<Rightarrow> bool" where
  "covers rules ip \<longleftrightarrow>
     (\<exists>s \<in> set rules. case parse_cidr s of
        Some net \<Rightarrow> contains net ip
      | None \<Rightarrow> parse_ip s = Some ip)"

lemma covers_simps [simp]:
  "\<not> covers [] ip" "covers (xs @ ys) ip \<longleftrightarrow> covers xs ip \<or> covers ys ip"
  by (auto simp: covers_def)

lemma covers_Cons: "covers (s # xs) ip \<longleftrightarrow> covers [s] ip \<or> covers xs ip"
  by (auto simp: covers_def)

lemma div_block: "2 ^ k dvd (s :: nat) \<Longrightarrow> x div 2 ^ k = s div 2 ^ k \<longleftrightarrow> s \<le> x \<and> x \<le> s + 2 ^ k - 1"
proof -
  assume "2 ^ k dvd s"
  then obtain q where q: "s = 2 ^ k * q" by blast
  have "x div 2 ^ k = q \<longleftrightarrow> 2 ^ k * q \<le> x \<and> x < 2 ^ k * q + 2 ^ k"
    by (metis add.commute div_nat_eqI dividend_less_times_div mult.commute mult_Suc_right
        pos2 times_div_less_eq_dividend zero_less_power)
  moreover have "(0 :: nat) < 2 ^ k" by simp
  then have "x < 2 ^ k * q + 2 ^ k \<longleftrightarrow> x \<le> 2 ^ k * q + 2 ^ k - 1" by linarith
  moreover have "s div 2 ^ k = q" unfolding q by simp
  ultimately show ?thesis unfolding q by simp
qed

lemma covers_block:
  assumes "k \<le> 32" and "2 ^ k dvd unat s"
  shows "covers [cidr4_string s (32 - k)] (V4 x) \<longleftrightarrow> unat s \<le> unat x \<and> unat x \<le> unat s + 2 ^ k - 1"
proof -
  have "contains (Net4 (s AND mask32 (32 - k)) (32 - k)) (V4 x) \<longleftrightarrow> contains (Net4 s (32 - k)) (V4 x)"
    by (simp add: contains_def and.assoc)
  also have "\<dots> \<longleftrightarrow> unat x div 2 ^ k = unat s div 2 ^ k"
    using assms(1) by (simp add: contains_net4)
  finally show ?thesis
    using assms(2) by (simp add: covers_def parse_cidr_string div_block)
qed

lemma covers_single: "covers [ipv4_string s] (V4 x) \<longleftrightarrow> x = s"
  by (auto simp: covers_def parse_cidr_plain ipv4_string_chars parse_ip_string)

lemma range_to_cidrs_covers:
  "covers (range_to_cidrs s e) (V4 x) \<longleftrightarrow> s \<le> x \<and> x \<le> e"
proof (induction s e rule: range_to_cidrs.induct)
  case (1 s e)
  show ?case
  proof (cases "s \<le> e")
    case False
    then show ?thesis by (auto simp: range_to_cidrs.simps[of s e])
  next
    case True
    let ?k = "max_bits s e" and ?next = "s + push_bit (max_bits s e) 1"
    note k = max_bits_spec[OF True]
    have blk: "covers [cidr4_string s (32 - ?k)] (V4 x) \<longleftrightarrow> unat s \<le> unat x \<and> unat x \<le> unat s + 2 ^ ?k - 1"
      using k by (intro covers_block) simp_all
    have p: "unat (push_bit ?k 1 :: 32 word) = 2 ^ ?k"
      using k(1) by (intro unat_push_bit_1) simp
    have nx: "unat ?next = (unat s + 2 ^ ?k) mod 2 ^ 32"
      using p by (simp add: unat_word_ariths)
    have e: "unat e < 2 ^ 32" and x: "unat x < 2 ^ 32"
      using unsigned_less[of e] unsigned_less[of x] by simp_all
    have pos: "(0 :: nat) < 2 ^ ?k" by simp
    show ?thesis
    proof (cases "unat s + 2 ^ ?k = 2 ^ 32")
      case wrap: True
      then have "?next \<le> s" using nx by (simp add: word_le_nat_alt)
      then have "range_to_cidrs s e = [cidr4_string s (32 - ?k)]"
        using True by (simp add: range_to_cidrs.simps[of s e] Let_def)
      moreover have "unat s + 2 ^ ?k - 1 = unat e"
        using wrap k(3) e by linarith
      ultimately show ?thesis
        using blk by (simp only: word_le_nat_alt)
    next
      case False
      then have lt: "unat s + 2 ^ ?k < 2 ^ 32" using k(3) e pos by linarith
      then have nx': "unat ?next = unat s + 2 ^ ?k" using nx by simp
      then have nle: "\<not> ?next \<le> s" using pos by (simp add: word_le_nat_alt)
      then have "range_to_cidrs s e = cidr4_string s (32 - ?k) # range_to_cidrs ?next e"
        using True by (simp add: range_to_cidrs.simps[of s e] Let_def)
      moreover have "covers (range_to_cidrs ?next e) (V4 x) \<longleftrightarrow> ?next \<le> x \<and> x \<le> e"
        by (rule 1[OF True refl refl refl nle])
      moreover have "?next \<le> x \<longleftrightarrow> unat s + 2 ^ ?k \<le> unat x"
        by (simp only: word_le_nat_alt nx')
      ultimately have "covers (range_to_cidrs s e) (V4 x) \<longleftrightarrow>
          unat s \<le> unat x \<and> unat x \<le> unat s + 2 ^ ?k - 1 \<or> unat s + 2 ^ ?k \<le> unat x \<and> unat x \<le> unat e"
        using covers_Cons[of "cidr4_string s (32 - ?k)" "range_to_cidrs ?next e" "V4 x"] blk
        by (simp only: word_le_nat_alt)
      then show ?thesis
        unfolding word_le_nat_alt using k(3) pos by linarith
    qed
  qed
qed

text \<open>
  \<open>rangeToCIDRs\<close> covers exactly the range: the networks it prints, read back by
  \<open>net.ParseCIDR\<close>, contain an IPv4 address exactly when it lies between \<open>start\<close> and \<open>end\<close>,
  up to and including the last address of the 32-bit space.
\<close>

theorem range_to_cidrs_exact:
  "covers (range_to_cidrs s e) (V4 x) \<longleftrightarrow> s \<le> x \<and> x \<le> e"
  by (rule range_to_cidrs_covers)

subsection \<open>Merging\<close>

definition in_range :: "32 word \<Rightarrow> ip_range \<Rightarrow> bool" where
  "in_range x r \<longleftrightarrow> fst r \<le> x \<and> x \<le> snd r"

definition range_ok :: "ip_range \<Rightarrow> bool" where
  "range_ok r \<longleftrightarrow> fst r \<le> snd r"

lemma range_strings_covers: "covers (range_strings r) (V4 x) \<longleftrightarrow> in_range x r"
  by (auto simp: range_strings_def in_range_def covers_single range_to_cidrs_covers)

lemma unat32_less: "unat (w :: 32 word) < 2 ^ 32"
  using unsigned_less[where 'b = 32 and 'a = nat, of w] by simp

lemma join_adjacent:
  fixes ls le s e x :: "32 word"
  assumes "ls \<le> s" "ls \<le> le" "s \<le> e" "s \<le> le + 1"
  shows "ls \<le> x \<and> x \<le> (if e > le then e else le) \<longleftrightarrow> (ls \<le> x \<and> x \<le> le) \<or> (s \<le> x \<and> x \<le> e)"
proof (cases "unat le + 1 < 2 ^ 32")
  case True
  then have "unat (le + 1) = unat le + 1" by (simp add: unat_word_ariths)
  then have "unat s \<le> unat le + 1" using assms(4) by (simp add: word_le_nat_alt)
  then show ?thesis
    using assms(1,2,3) unfolding word_le_nat_alt word_less_nat_alt by (auto split: if_splits)
next
  case False
  then have m: "unat le = 2 ^ 32 - 1" using unat32_less[of le] by simp
  then have "\<not> unat le < unat e" "unat x \<le> unat le" for x :: "32 word"
    using unat32_less[of e] unat32_less[of x] by simp_all
  then have "\<not> e > le" "x \<le> le" "e \<le> le"
    by (simp_all add: word_le_nat_alt word_less_nat_alt)
  then show ?thesis using assms(1) by (auto intro: order_trans)
qed

lemma merge_ranges_covers:
  "sorted (map fst (r # rs)) \<Longrightarrow> \<forall>q \<in> set (r # rs). range_ok q \<Longrightarrow>
   (\<exists>q \<in> set (merge_ranges r rs). in_range x q) \<longleftrightarrow> (\<exists>q \<in> set (r # rs). in_range x q)"
proof (induction r rs rule: merge_ranges.induct)
  case (2 l r rs)
  let ?l = "(fst l, if snd r > snd l then snd r else snd l)"
  show ?case
  proof (cases "fst r \<le> snd l + 1")
    case True
    have "sorted (map fst (?l # rs))" and "\<forall>q \<in> set (?l # rs). range_ok q"
      using 2(3,4) by (auto simp: range_ok_def)
    then have "(\<exists>q \<in> set (merge_ranges ?l rs). in_range x q) \<longleftrightarrow> (\<exists>q \<in> set (?l # rs). in_range x q)"
      by (rule 2(1)[OF True])
    moreover have "in_range x ?l \<longleftrightarrow> in_range x l \<or> in_range x r"
      using join_adjacent[of "fst l" "fst r" "snd l" "snd r" x] True 2(3,4)
      by (simp add: in_range_def range_ok_def)
    ultimately show ?thesis using True by simp
  next
    case False
    have "sorted (map fst (r # rs))" and "\<forall>q \<in> set (r # rs). range_ok q"
      using 2(3,4) by simp_all
    then have "(\<exists>q \<in> set (merge_ranges r rs). in_range x q) \<longleftrightarrow> (\<exists>q \<in> set (r # rs). in_range x q)"
      by (rule 2(2)[OF False])
    then show ?thesis using False by simp
  qed
qed simp

text \<open>
  A rule the merge understands: an IPv4 address, or an IPv4 network written with its own
  prefix length of 1 to 32.
\<close>

definition plain_rule :: "string \<Rightarrow> bool" where
  "plain_rule s \<longleftrightarrow>
     (case parse_cidr s of
        Some (Net4 a n) \<Rightarrow> cidr_ones s = n \<and> 1 \<le> n \<and> n \<le> 32 \<and> a AND mask32 n = a
      | Some (Net6 a n) \<Rightarrow> False
      | None \<Rightarrow> (case parse_ip s of Some (V4 w) \<Rightarrow> True | _ \<Rightarrow> False))"

lemma masked_dvd: "a AND mask32 n = a \<Longrightarrow> 2 ^ (32 - n) dvd unat a"
proof -
  assume a: "a AND mask32 n = a"
  have "take_bit (32 - n) a = 0"
    unfolding bit_eq_iff
  proof (intro allI impI)
    fix i
    have "bit a i \<Longrightarrow> bit (mask32 n) i" using a by (metis bit_and_iff)
    then show "bit (take_bit (32 - n) a) i = bit 0 i"
      by (auto simp: bit_take_bit_iff mask32_def bit_push_bit_iff bit_not_iff bit_mask_iff)
  qed
  then have "take_bit (32 - n) (unat a) = 0"
    using unsigned_take_bit_eq[of "32 - n" a, where 'a = nat] by (simp del: take_bit_of_0)
  then show ?thesis by (simp only: take_bit_eq_mod mod_eq_0_iff_dvd)
qed

lemma rule_range_plain:
  assumes "plain_rule s"
  shows "\<exists>r. rule_range s = Some r \<and> range_ok r \<and> (\<forall>x. in_range x r \<longleftrightarrow> covers [s] (V4 x))"
proof (cases "parse_cidr s")
  case None
  then obtain w where "parse_ip s = Some (V4 w)"
    using assms by (auto simp: plain_rule_def split: option.splits ip_addr.splits)
  then show ?thesis
    using None by (auto simp: rule_range_def covers_def in_range_def range_ok_def)
next
  case (Some net)
  then obtain a n where net: "net = Net4 a n" and n: "cidr_ones s = n" "1 \<le> n" "n \<le> 32" and a: "a AND mask32 n = a"
    using assms by (auto simp: plain_rule_def split: ip_net.splits)
  let ?k = "32 - n"
  have d: "2 ^ ?k dvd unat a" by (rule masked_dvd[OF a])
  have k: "?k < 32" using n by simp
  have p: "unat (push_bit ?k 1 :: 32 word) = 2 ^ ?k" by (rule unat_push_bit_1[OF k])
  have lt: "unat a + 2 ^ ?k \<le> 2 ^ 32"
  proof -
    obtain q where q: "unat a = 2 ^ ?k * q" using d by blast
    have e: "(2 :: nat) ^ 32 = 2 ^ ?k * 2 ^ n" using n by (simp flip: power_add)
    have "2 ^ ?k * q < 2 ^ ?k * 2 ^ n"
      using unat32_less[of a] unfolding q e .
    then have "2 ^ ?k * (q + 1) \<le> 2 ^ ?k * 2 ^ n"
      by (intro mult_le_mono2) simp
    moreover have "unat a + 2 ^ ?k = 2 ^ ?k * (q + 1)" unfolding q by simp
    ultimately show ?thesis unfolding e by (simp only:)
  qed
  have last_eq: "unat (a + push_bit ?k 1 - 1) = unat a + 2 ^ ?k - 1"
  proof -
    have "unat (push_bit ?k 1 - 1 :: 32 word) = 2 ^ ?k - 1"
      using p k by (subst unat_minus_one) auto
    moreover have "a + push_bit ?k 1 - 1 = a + (push_bit ?k 1 - 1)" by simp
    moreover have "unat a + (2 ^ ?k - 1) < 2 ^ 32"
      using lt zero_less_power[of "2 :: nat" ?k] by linarith
    ultimately show ?thesis
      using zero_less_power[of "2 :: nat" ?k]
      by (simp only: unat_word_ariths) simp
  qed
  have cov: "covers [s] (V4 x) \<longleftrightarrow> unat a \<le> unat x \<and> unat x \<le> unat a + 2 ^ ?k - 1" for x
    using Some d by (simp add: covers_def net contains_net4 div_block)
  have pos: "(push_bit ?k 1 :: 32 word) > 0"
    using p by (simp add: word_less_nat_alt)
  show ?thesis
  proof (cases "n = 32")
    case True
    then have "rule_range s = Some (a, a)"
      by (simp add: rule_range_def Some net n ip_to_uint32_def Let_def)
    then show ?thesis
      using True cov by (auto simp: range_ok_def in_range_def word_le_nat_alt)
  next
    case False
    then have "rule_range s = Some (a, a + push_bit ?k 1 - 1)"
      using n pos by (simp add: rule_range_def Some net ip_to_uint32_def Let_def)
    moreover have "a \<le> a + push_bit ?k 1 - 1"
      unfolding word_le_nat_alt last_eq using zero_less_power[of "2 :: nat" ?k] by linarith
    moreover have "in_range x (a, a + push_bit ?k 1 - 1) \<longleftrightarrow> covers [s] (V4 x)" for x
      unfolding in_range_def fst_conv snd_conv word_le_nat_alt last_eq cov ..
    ultimately show ?thesis
      unfolding range_ok_def by (intro exI[of _ "(a, a + push_bit ?k 1 - 1)"] conjI allI) simp_all
  qed
qed

lemma covers_concat: "covers (concat xss) ip \<longleftrightarrow> (\<exists>xs \<in> set xss. covers xs ip)"
  by (induction xss) simp_all

lemma covers_member: "covers rules ip \<longleftrightarrow> (\<exists>s \<in> set rules. covers [s] ip)"
  unfolding covers_def by auto

lemma in_map_filter: "y \<in> set (List.map_filter f xs) \<longleftrightarrow> (\<exists>x \<in> set xs. f x = Some y)"
  by (force simp: List.map_filter_def)

lemma merge_preserves_aux:
  assumes "\<forall>s \<in> set ips. plain_rule s"
  shows "covers (merge_ips_to_cidrs ips) (V4 x) \<longleftrightarrow> covers ips (V4 x)"
proof -
  let ?ranges = "List.map_filter rule_range ips"
  have ok: "\<forall>r \<in> set ?ranges. range_ok r"
    using assms rule_range_plain by (fastforce simp: in_map_filter)
  have cov: "(\<exists>r \<in> set ?ranges. in_range x r) \<longleftrightarrow> covers ips (V4 x)"
    unfolding covers_member[of ips] in_map_filter Bex_def
    using assms rule_range_plain by (metis option.inject)
  show ?thesis
  proof (cases "length ips \<le> 1 \<or> length ?ranges \<le> 1")
    case True
    then show ?thesis by (auto simp: merge_ips_to_cidrs_def Let_def)
  next
    case False
    have "sort_key fst ?ranges \<noteq> []"
      using False by (metis length_sort list.size(3) zero_le_one)
    then obtain r rs where srt: "sort_key fst ?ranges = r # rs"
      by (meson neq_Nil_conv)
    have set_eq: "set (r # rs) = set ?ranges"
      using srt by (metis set_sort)
    have "sorted (map fst (r # rs))"
      using srt by (metis sorted_sort_key)
    then have "(\<exists>q \<in> set (merge_ranges r rs). in_range x q) \<longleftrightarrow> (\<exists>q \<in> set (r # rs). in_range x q)"
      by (rule merge_ranges_covers) (use ok set_eq in blast)
    moreover have "covers (merge_ips_to_cidrs ips) (V4 x) \<longleftrightarrow>
        (\<exists>q \<in> set (merge_ranges r rs). in_range x q)"
      using False srt
      by (simp add: merge_ips_to_cidrs_def Let_def covers_concat range_strings_covers)
    ultimately show ?thesis using cov unfolding set_eq by simp
  qed
qed

text \<open>
  C8. Merging keeps what IPv4 rules cover: when every rule is an IPv4 address or an IPv4
  network (prefix length 1 to 32), the merged list blocks exactly the addresses the original
  list blocked, also at the ends of the address space where \<open>last.end + 1\<close> wraps to zero.
\<close>

theorem merge_preserves_ipv4:
  assumes "\<forall>s \<in> set ips. plain_rule s"
  shows "covers (merge_ips_to_cidrs ips) (V4 x) \<longleftrightarrow> covers ips (V4 x)"
  by (rule merge_preserves_aux[OF assms])

definition sample_rules :: "string list" where
  "sample_rules = map ipv4_string [0x0A000000, 0x0A000001, 0x0A000002, 0x0A000003]"

lemma plain_rule_address: "plain_rule (ipv4_string w)"
  by (simp add: plain_rule_def parse_cidr_plain ipv4_string_chars parse_ip_string)

theorem merge_preserves_ipv4_witness:
  "covers (merge_ips_to_cidrs sample_rules) (V4 0x0A000003) \<and>
   \<not> covers (merge_ips_to_cidrs sample_rules) (V4 0x0A000004)"
proof -
  have plain: "\<forall>s \<in> set sample_rules. plain_rule s"
    by (simp add: sample_rules_def plain_rule_address)
  have "covers sample_rules (V4 0x0A000003)" "\<not> covers sample_rules (V4 0x0A000004)"
    unfolding covers_member[of sample_rules] by (simp_all add: sample_rules_def covers_single)
  then show ?thesis
    unfolding merge_preserves_ipv4[OF plain] ..
qed

lemma cidr4_len_exists: "\<exists>w n. n \<le> 32 \<and> cidr4_string b (32 - k) = cidr4_string w n"
  using diff_le_self by blast

lemma range_to_cidrs_v4: "s \<in> set (range_to_cidrs b e) \<Longrightarrow> \<exists>w n. n \<le> 32 \<and> s = cidr4_string w n"
proof (induction b e rule: range_to_cidrs.induct)
  case (1 b e)
  then show ?case
    by (subst (asm) (2) range_to_cidrs.simps)
      (auto simp: Let_def split: if_splits intro: cidr4_len_exists)
qed

lemma range_strings_no_v6: "\<not> covers (range_strings r) (V6 w)"
proof
  assume "covers (range_strings r) (V6 w)"
  then obtain s where s: "s \<in> set (range_strings r)" "covers [s] (V6 w)"
    using covers_member by blast
  then consider v where "s = ipv4_string v" | v n where "n \<le> 32" "s = cidr4_string v n"
    using range_to_cidrs_v4[of s "fst r" "snd r"]
    by (auto simp: range_strings_def split: if_splits)
  then show False
  proof cases
    case 1
    then show ?thesis
      using s(2) by (simp add: covers_def parse_cidr_plain ipv4_string_chars parse_ip_string)
  next
    case 2
    then show ?thesis
      using s(2) by (simp add: covers_def parse_cidr_string contains_def)
  qed
qed

text \<open>
  What merging loses: as soon as two rules of the list are read as IPv4 ranges and the
  merge goes ahead, no IPv6 address is covered any more, whatever IPv6 rules the list held.
\<close>

theorem merge_drops_ipv6:
  assumes "2 \<le> length (List.map_filter rule_range ips)"
  shows "\<not> covers (merge_ips_to_cidrs ips) (V6 w)"
proof -
  have "length (List.map_filter rule_range ips) \<le> length ips"
    by (simp add: List.map_filter_def)
  then have "2 \<le> length ips"
    using assms by (rule order_trans[rotated])
  moreover have "sort_key fst (List.map_filter rule_range ips) \<noteq> []"
    using assms by (metis length_sort list.size(3) not_numeral_le_zero)
  then obtain r rs where "sort_key fst (List.map_filter rule_range ips) = r # rs"
    by (meson neq_Nil_conv)
  ultimately show ?thesis
    using assms by (simp add: merge_ips_to_cidrs_def Let_def covers_concat range_strings_no_v6)
qed

definition sample_mixed_rules :: "string list" where
  "sample_mixed_rules = ''2001:db8::1'' # sample_rules"

theorem merge_drops_ipv6_witness:
  "covers sample_mixed_rules (V6 0x20010db8000000000000000000000001) \<and>
   \<not> covers (merge_ips_to_cidrs sample_mixed_rules) (V6 0x20010db8000000000000000000000001)"
proof
  have "covers [''2001:db8::1''] (V6 0x20010db8000000000000000000000001)"
    by (simp add: covers_def ipv6_example parse_cidr_plain)
  then show "covers sample_mixed_rules (V6 0x20010db8000000000000000000000001)"
    unfolding sample_mixed_rules_def covers_Cons[of "''2001:db8::1''" sample_rules] ..
next
  have "length (List.map_filter rule_range sample_rules) = 4"
    by (simp add: sample_rules_def List.map_filter_def rule_range_def parse_cidr_plain
        ipv4_string_chars parse_ip_string)
  then have "2 \<le> length (List.map_filter rule_range sample_mixed_rules)"
    by (simp add: sample_mixed_rules_def List.map_filter_simps split: option.split)
  then show "\<not> covers (merge_ips_to_cidrs sample_mixed_rules) (V6 0x20010db8000000000000000000000001)"
    by (rule merge_drops_ipv6)
qed

end
