(* ===== verification/PathDecode.thy ===== *)
theory PathDecode
  imports NetAddr
begin

text \<open>
  \<open>internal/domain/security/rules/path_decode.go\<close>: the decoding and normalisation of a
  request path before the path rules see it. \<open>path_unescape\<close> is \<open>url.PathUnescape\<close> of the
  standard library. The log lines are not modelled.

  Proved: a normalised path has no empty, \<open>.\<close> or \<open>..\<close> segment, is no longer than the
  limit and normalises to itself; and a path of which any bytes were percent-encoded, in as many layers as
  the decoder has rounds, decodes to the normal form of the original.
\<close>

subsection \<open>The code\<close>

definition max_path_length :: nat where
  "max_path_length = 4096"

record path_decoder =
  pd_enabled :: bool
  pd_maxDecodeRounds :: int

definition new_path_decoder :: "bool \<Rightarrow> int \<Rightarrow> path_decoder" where
  "new_path_decoder enabled maxRounds =
     (let maxRounds = (if maxRounds \<le> 0 then 2 else maxRounds);
          maxRounds = (if maxRounds > 3 then 3 else maxRounds)
      in \<lparr>pd_enabled = enabled, pd_maxDecodeRounds = maxRounds\<rparr>)"

fun path_unescape :: "string \<Rightarrow> string option" where
  "path_unescape [] = Some []"
| "path_unescape (c # s) =
     (if c = CHR ''%'' then
        (case s of
           a # b # rest \<Rightarrow>
             (case (hex_val a, hex_val b) of
                (Some x, Some y) \<Rightarrow> map_option ((#) (char_of (16 * x + y))) (path_unescape rest)
              | _ \<Rightarrow> None)
         | _ \<Rightarrow> None)
      else map_option ((#) c) (path_unescape s))"

definition norm_step :: "string list \<Rightarrow> string \<Rightarrow> string list" where
  "norm_step stack part =
     (if part = '''' \<or> part = ''.'' then stack
      else if part = ''..'' then (if stack \<noteq> [] then butlast stack else stack)
      else stack @ [part])"

definition normalize_path :: "string \<Rightarrow> string" where
  "normalize_path p =
     (if p = '''' then p
      else
        let p = (if length p > max_path_length then take max_path_length p else p);
            stack = foldl norm_step [] (split_char CHR ''/'' p)
        in if has_prefix p ''/'' then ''/'' @ join_with ''/'' stack else join_with ''/'' stack)"

text \<open>The loop of \<open>Decode\<close>; the flag says that \<open>PathUnescape\<close> returned an error.\<close>

fun decode_rounds :: "nat \<Rightarrow> string \<Rightarrow> string \<times> bool" where
  "decode_rounds 0 decoded = (decoded, False)"
| "decode_rounds (Suc k) decoded =
     (if \<not> str_contains decoded ''%'' then (decoded, False)
      else case path_unescape decoded of
             None \<Rightarrow> (decoded, True)
           | Some newDecoded \<Rightarrow>
               if newDecoded = decoded then (decoded, False) else decode_rounds k newDecoded)"

definition decode :: "path_decoder \<Rightarrow> string \<Rightarrow> string \<times> bool" where
  "decode d p =
     (if \<not> pd_enabled d then (normalize_path p, False)
      else let (decoded, err) = decode_rounds (nat (pd_maxDecodeRounds d)) p
           in (normalize_path decoded, err))"

subsection \<open>The stack\<close>

definition good_part :: "string \<Rightarrow> bool" where
  "good_part s \<longleftrightarrow> s \<noteq> '''' \<and> s \<noteq> ''.'' \<and> s \<noteq> ''..'' \<and> CHR ''/'' \<notin> set s"

lemma norm_step_good:
  "\<forall>s \<in> set stack. good_part s \<Longrightarrow> CHR ''/'' \<notin> set part \<Longrightarrow> \<forall>s \<in> set (norm_step stack part). good_part s"
  by (auto simp: norm_step_def good_part_def dest: in_set_butlastD)

lemma foldl_norm_good:
  "\<forall>s \<in> set stack. good_part s \<Longrightarrow> \<forall>p \<in> set parts. CHR ''/'' \<notin> set p \<Longrightarrow>
   \<forall>s \<in> set (foldl norm_step stack parts). good_part s"
proof (induction parts arbitrary: stack)
  case (Cons p ps)
  then have "\<forall>s \<in> set (norm_step stack p). good_part s"
    by (intro norm_step_good) simp_all
  then show ?case using Cons by simp
qed simp

lemma stack_good: "\<forall>s \<in> set (foldl norm_step [] (split_char CHR ''/'' p)). good_part s"
  by (rule foldl_norm_good) (auto dest: split_char_fields)

lemma foldl_norm_id: "\<forall>s \<in> set parts. good_part s \<Longrightarrow> foldl norm_step stack parts = stack @ parts"
  by (induction parts arbitrary: stack) (simp_all add: norm_step_def good_part_def)

definition parts_weight :: "string list \<Rightarrow> nat" where
  "parts_weight ss = sum_list (map (\<lambda>s. length s + 1) ss)"

lemma parts_weight_simps [simp]:
  "parts_weight [] = 0" "parts_weight (s # ss) = length s + 1 + parts_weight ss"
  "parts_weight (xs @ ys) = parts_weight xs + parts_weight ys"
  by (simp_all add: parts_weight_def)

lemma parts_weight_butlast: "parts_weight (butlast xs) \<le> parts_weight xs"
  by (cases xs rule: rev_cases) simp_all

lemma norm_step_weight: "parts_weight (norm_step stack part) \<le> parts_weight stack + length part + 1"
  using parts_weight_butlast[of stack] by (auto simp: norm_step_def)

lemma foldl_norm_weight: "parts_weight (foldl norm_step stack parts) \<le> parts_weight stack + parts_weight parts"
proof (induction parts arbitrary: stack)
  case (Cons p ps)
  have "parts_weight (foldl norm_step stack (p # ps)) \<le> parts_weight (norm_step stack p) + parts_weight ps"
    using Cons by simp
  then show ?case using norm_step_weight[of stack p] by simp
qed simp

lemma length_join: "ss \<noteq> [] \<Longrightarrow> length (join_with [c] ss) + 1 = parts_weight ss"
  by (induction "[c]" ss rule: join_with.induct) simp_all

lemma split_weight: "parts_weight (split_char c p) = length p + 1"
  using length_join[of "split_char c p" c] join_split[of c p] by simp

lemma split_leading: "split_char c (c # p) = [] # split_char c p"
  by simp

lemma join_stack_length:
  assumes "stack = foldl norm_step [] (split_char CHR ''/'' p)"
  shows "length (if has_prefix p ''/'' then ''/'' @ join_with ''/'' stack else join_with ''/'' stack) \<le> length p"
proof (cases "has_prefix p ''/''")
  case True
  then obtain q where q: "p = CHR ''/'' # q"
    by (cases p) (auto simp: has_prefix_def)
  have "stack = foldl norm_step [] (split_char CHR ''/'' q)"
    using assms by (simp add: q norm_step_def)
  then have "parts_weight stack \<le> length q + 1"
    using foldl_norm_weight[of "[]" "split_char CHR ''/'' q"] by (simp add: split_weight)
  then show ?thesis
    using True length_join[of stack "CHR ''/''"] q by (cases "stack = []") simp_all
next
  case False
  have "parts_weight stack \<le> length p + 1"
    using foldl_norm_weight[of "[]" "split_char CHR ''/'' p"] assms by (simp add: split_weight)
  then show ?thesis
    using False length_join[of stack "CHR ''/''"] by (cases "stack = []") simp_all
qed

text \<open>
  The form a normalised path has: the segments are good and joined by single slashes, with
  at most one slash in front.
\<close>

lemma normalize_path_form:
  "\<exists>stack. (\<forall>s \<in> set stack. good_part s) \<and>
     (normalize_path p = join_with ''/'' stack \<or> normalize_path p = ''/'' @ join_with ''/'' stack) \<and>
     length (normalize_path p) \<le> min (length p) max_path_length"
proof (cases "p = ''''")
  case True
  then show ?thesis by (intro exI[of _ "[]"]) (simp add: normalize_path_def)
next
  case False
  let ?p = "if length p > max_path_length then take max_path_length p else p"
  let ?stack = "foldl norm_step [] (split_char CHR ''/'' ?p)"
  have "length ?p \<le> min (length p) max_path_length" by simp
  then have "length (normalize_path p) \<le> min (length p) max_path_length"
    using join_stack_length[OF refl, of ?p] False by (simp add: normalize_path_def Let_def)
  then show ?thesis
    using stack_good[of ?p] False by (intro exI[of _ ?stack]) (simp add: normalize_path_def Let_def)
qed

lemma join_with_no_lead:
  "\<forall>s \<in> set stack. good_part s \<Longrightarrow> \<not> has_prefix (join_with ''/'' stack) ''/''"
proof (cases stack)
  case (Cons s ss)
  assume "\<forall>s \<in> set stack. good_part s"
  then obtain c s' where "s = c # s'" "c \<noteq> CHR ''/''"
    using Cons by (cases s) (auto simp: good_part_def)
  then show ?thesis using Cons by (cases ss) (auto simp: has_prefix_def)
qed (simp add: has_prefix_def)

lemma split_join_good:
  "\<forall>s \<in> set stack. good_part s \<Longrightarrow> foldl norm_step [] (split_char CHR ''/'' (join_with ''/'' stack)) = stack"
proof (cases "stack = []")
  case True
  then show ?thesis by (simp add: norm_step_def)
next
  case False
  assume g: "\<forall>s \<in> set stack. good_part s"
  then have "split_char CHR ''/'' (join_with ''/'' stack) = stack"
    using False by (intro split_join) (auto simp: good_part_def)
  then show ?thesis using foldl_norm_id[of stack "[]"] g by simp
qed

text \<open>
  C22. \<open>normalizePath\<close> gives a canonical form: every segment of the answer is non-empty and
  neither \<open>.\<close> nor \<open>..\<close>, so no traversal is left in it; it is never longer than the input or
  than 4096 bytes; and normalising it again changes nothing.
\<close>

theorem normalize_path_canonical:
  "(\<exists>stack. (\<forall>s \<in> set stack. good_part s) \<and>
      normalize_path p \<in> {join_with ''/'' stack, ''/'' @ join_with ''/'' stack}) \<and>
   length (normalize_path p) \<le> min (length p) max_path_length \<and>
   normalize_path (normalize_path p) = normalize_path p"
proof -
  obtain stack where g: "\<forall>s \<in> set stack. good_part s"
    and form: "normalize_path p = join_with ''/'' stack \<or> normalize_path p = ''/'' @ join_with ''/'' stack"
    and len: "length (normalize_path p) \<le> min (length p) max_path_length"
    using normalize_path_form[of p] by blast
  have "normalize_path (normalize_path p) = normalize_path p"
  proof (cases "normalize_path p = ''''")
    case True
    then show ?thesis by (simp add: normalize_path_def)
  next
    case ne: False
    have short: "\<not> length (normalize_path p) > max_path_length" using len by simp
    from form show ?thesis
    proof
      assume f: "normalize_path p = join_with ''/'' stack"
      then show ?thesis
        using ne short join_with_no_lead[OF g] split_join_good[OF g]
        by (subst normalize_path_def) (simp add: Let_def)
    next
      assume f: "normalize_path p = ''/'' @ join_with ''/'' stack"
      have "foldl norm_step [] (split_char CHR ''/'' (''/'' @ join_with ''/'' stack)) = stack"
        using split_join_good[OF g] by (simp add: norm_step_def)
      then show ?thesis
        using ne short f by (subst normalize_path_def) (simp add: Let_def has_prefix_def)
    qed
  qed
  then show ?thesis using g form len by auto
qed

theorem normalize_path_canonical_witness:
  "normalize_path ''/a/./b/..//c'' = ''/a/c'' \<and>
   normalize_path (normalize_path ''/a/./b/..//c'') = ''/a/c''"
proof -
  have "normalize_path ''/a/./b/..//c'' = ''/a/c''"
    by (simp add: normalize_path_def max_path_length_def norm_step_def has_prefix_def)
  then show ?thesis
    using normalize_path_canonical[of "''/a/./b/..//c''"] by simp
qed

subsection \<open>Decoding\<close>

definition hex_digit :: "nat \<Rightarrow> char" where
  "hex_digit n = (if n < 10 then char_of (48 + n) else char_of (55 + n))"

definition pct_encode :: "string \<Rightarrow> string" where
  "pct_encode s = concat (map (\<lambda>c. [CHR ''%'', hex_digit (of_char c div 16), hex_digit (of_char c mod 16)]) s)"

lemma hex_val_digit:
  assumes "n < 16"
  shows "hex_val (hex_digit n) = Some n"
proof (cases "n < 10")
  case True
  then show ?thesis using digit_char[of n] by (simp add: hex_digit_def hex_val_def)
next
  case False
  then have o: "of_char (char_of (55 + n)) = 55 + n" using assms by simp
  then show ?thesis
    using False assms by (simp add: hex_digit_def hex_val_def is_digit_iff less_eq_char_def)
qed

text \<open>
  One layer of encoding, as an attacker may choose it: every byte is written as it is or as its escape, with
  digits in either case. A percent sign has to be escaped.
\<close>

inductive encodes :: "string \<Rightarrow> string \<Rightarrow> bool" where
  empty: "encodes [] []"
| plain: "c \<noteq> CHR ''%'' \<Longrightarrow> encodes q p \<Longrightarrow> encodes (c # q) (c # p)"
| escaped: "hex_val a = Some x \<Longrightarrow> hex_val b = Some y \<Longrightarrow> encodes q p
    \<Longrightarrow> encodes (CHR ''%'' # a # b # q) (char_of (16 * x + y) # p)"

lemma encodes_unescape: "encodes q p \<Longrightarrow> path_unescape q = Some p"
  by (induction rule: encodes.induct) simp_all

lemma unescape_encodes: "path_unescape q = Some p \<Longrightarrow> encodes q p"
  by (induction q arbitrary: p rule: path_unescape.induct)
    (auto split: if_splits list.splits option.splits intro: encodes.intros)

text \<open>So the relation is exactly what \<open>url.PathUnescape\<close> undoes.\<close>

lemma encodes_iff: "encodes q p \<longleftrightarrow> path_unescape q = Some p"
  using encodes_unescape unescape_encodes by blast

lemma encodes_refl: "CHR ''%'' \<notin> set p \<Longrightarrow> encodes p p"
  by (induction p) (auto intro: encodes.intros)

lemma encodes_length: "encodes q p \<Longrightarrow> length p \<le> length q \<and> (length p = length q \<longrightarrow> q = p)"
  by (induction rule: encodes.induct) auto

lemma encodes_plain: "encodes q p \<Longrightarrow> CHR ''%'' \<notin> set q \<Longrightarrow> q = p"
  by (induction rule: encodes.induct) auto

lemma encodes_grows: "encodes q p \<Longrightarrow> CHR ''%'' \<in> set q \<Longrightarrow> length p < length q"
  by (induction rule: encodes.induct) (auto dest: encodes_length)

lemma pct_encode_encodes: "encodes (pct_encode s) s"
proof (induction s)
  case (Cons c s)
  have "(of_char c :: nat) < 256" using nat_of_char_less_256 by blast
  then have "(of_char c :: nat) div 16 < 16" "(of_char c :: nat) mod 16 < 16"
    using less_mult_imp_div_less[of "of_char c" 16 16] by simp_all
  then have "encodes (CHR ''%'' # hex_digit (of_char c div 16) # hex_digit (of_char c mod 16) # pct_encode s)
      (char_of (16 * (of_char c div 16) + of_char c mod 16 :: nat) # s)"
    using Cons by (intro encodes.escaped hex_val_digit)
  moreover have "16 * (of_char c div 16) + of_char c mod 16 = (of_char c :: nat)" by simp
  then have "char_of (16 * (of_char c div 16) + of_char c mod 16 :: nat) = c"
    by (simp only: char_of_char)
  ultimately show ?case by (simp add: pct_encode_def)
qed (simp add: pct_encode_def encodes.empty)

lemma contains_pct: "str_contains q ''%'' \<longleftrightarrow> CHR ''%'' \<in> set q"
  by (simp add: str_contains_iff in_set_conv_decomp)

lemma layers_plain: "(encodes ^^ k) q p \<Longrightarrow> CHR ''%'' \<notin> set q \<Longrightarrow> q = p"
proof (induction k arbitrary: q)
  case (Suc k)
  then obtain q' where "encodes q q'" "(encodes ^^ k) q' p"
    using relpowp_Suc_D2[OF Suc.prems(1)] by blast
  then show ?case using Suc.IH[of q'] encodes_plain Suc.prems(2) by blast
qed simp

text \<open>The rounds of the decoder take away as many layers.\<close>

lemma decode_rounds_layers:
  assumes "(encodes ^^ k) q p" "CHR ''%'' \<notin> set p" "k \<le> n"
  shows "decode_rounds n q = (p, False)"
  using assms
proof (induction n arbitrary: k q)
  case (Suc n)
  show ?case
  proof (cases "CHR ''%'' \<in> set q")
    case False
    then show ?thesis using layers_plain[OF Suc.prems(1)] by (simp add: contains_pct)
  next
    case True
    then obtain k' where k: "k = Suc k'"
      using Suc.prems(1,2) by (cases k) auto
    then obtain q' where q: "encodes q q'" "(encodes ^^ k') q' p"
      using relpowp_Suc_D2[OF Suc.prems(1)[unfolded k]] by blast
    then have "q' \<noteq> q" using encodes_grows[OF q(1) True] by auto
    then show ?thesis
      using True q Suc.IH[OF q(2) Suc.prems(2)] Suc.prems(3) k by (simp add: encodes_unescape contains_pct)
  qed
qed simp

lemma decode_layers:
  assumes "(encodes ^^ k) q p" "CHR ''%'' \<notin> set p" "pd_enabled d" "k \<le> nat (pd_maxDecodeRounds d)"
  shows "decode d q = (normalize_path p, False)"
  using decode_rounds_layers[OF assms(1,2,4)] assms(3) by (simp add: decode_def)

text \<open>
  Encoding does not hide a path: whichever bytes of a path are percent-encoded, in as many layers as the
  decoder has rounds, it answers, without an error, the same normal form as for
  the plain path (a plain path being one without a percent sign).
\<close>

theorem decode_sees_through_encoding:
  assumes "CHR ''%'' \<notin> set p" "(encodes ^^ k) q p" "pd_enabled d" "k \<le> nat (pd_maxDecodeRounds d)"
  shows "decode d q = (normalize_path p, False)"
  by (rule decode_layers[OF assms(2,1,3,4)])

theorem decode_sees_through_encoding_witness:
  "decode (new_path_decoder True 2) (pct_encode ''/a/../.git'') = (''/.git'', False)"
proof -
  have "normalize_path ''/a/../.git'' = ''/.git''"
    by (simp add: normalize_path_def max_path_length_def norm_step_def has_prefix_def)
  then show ?thesis
    using decode_sees_through_encoding[of "''/a/../.git''" 1 "pct_encode ''/a/../.git''" "new_path_decoder True 2"]
      pct_encode_encodes by (simp add: new_path_decoder_def eq_OO)
qed

end
