(* ===== verification/RuleEngine.thy ===== *)
theory RuleEngine
  imports CidrMerge PathDecode
begin

text \<open>
  \<open>internal/domain/security/rules\<close>: the rule engine. Its state is the rule tables and the
  immutable snapshot the request path reads (\<open>ruleSnapshot\<close>); an operation changes the tables
  and, mostly, rebuilds the snapshot.

  \<^item> A table is the list of its rows, and a SQL statement of the source is the list operation
    it denotes; rows are scanned in table order. Whether a statement succeeds is an argument:
    \<open>fail\<close> for the statement of an operation, \<open>q\<close> for the queries of a rebuild,
    \<open>merge_outcome\<close> for the transaction of the merge.
  \<^item> \<open>compile\<close> is \<open>regexp.Compile\<close>: the matcher of a pattern, or nothing when it is invalid.
    The token bucket \<open>rate.Limiter\<close> is third-party code: \<open>allow\<close> stands for its \<open>Allow\<close>.
  \<^item> A Go map used as a set is the list of its keys. The iteration order over the limiter map
    is an argument (\<open>enum\<close>).
\<close>

subsection \<open>Tables\<close>

record ip_row =
  ir_rule_type :: string
  ir_ip :: string
  ir_enabled :: int
  ir_source :: string
  ir_intel_id :: "string option"

record pattern_row =
  pr_id :: nat
  pr_rule_type :: string
  pr_match_type :: string
  pr_pattern :: string
  pr_description :: string
  pr_enabled :: int
  pr_source :: string
  pr_intel_id :: "string option"

record geo_row =
  gr_id :: nat
  gr_mode :: string
  gr_country :: string
  gr_enabled :: int

record limit_row =
  lr_id :: nat
  lr_pattern :: string
  lr_rate :: real
  lr_burst :: int
  lr_enabled :: int

record rules_db =
  ip_rules :: "ip_row list"
  ua_rules :: "pattern_row list"
  ua_next_id :: nat
  path_rules :: "pattern_row list"
  path_next_id :: nat
  geo_rules :: "geo_row list"
  geo_next_id :: nat
  path_rate_limits :: "limit_row list"
  limit_next_id :: nat
  allowed_methods :: "(string \<times> int) list"

datatype rule_table = IpRules | UaRules | PathRules | GeoRules | PathRateLimits | AllowedMethods

text \<open>\<open>INSERT OR IGNORE\<close> under a unique key; the second component is \<open>RowsAffected\<close>.\<close>

definition insert_or_ignore :: "('r \<Rightarrow> 'k) \<Rightarrow> 'r \<Rightarrow> 'r list \<Rightarrow> 'r list \<times> nat" where
  "insert_or_ignore key row rows =
     (if list_ex (\<lambda>r. key r = key row) rows then (rows, 0) else (rows @ [row], 1))"

definition ip_key :: "ip_row \<Rightarrow> string \<times> string" where
  "ip_key r = (ir_rule_type r, ir_ip r)"

definition pattern_key :: "pattern_row \<Rightarrow> string \<times> string" where
  "pattern_key r = (pr_rule_type r, pr_pattern r)"

definition local_ip_row :: "string \<Rightarrow> string \<Rightarrow> ip_row" where
  "local_ip_row rule_type ip =
     \<lparr>ir_rule_type = rule_type, ir_ip = ip, ir_enabled = 1, ir_source = ''local'', ir_intel_id = None\<rparr>"

subsection \<open>The snapshot\<close>

record ip_entry =
  ie_original :: string
  ie_cidr :: ip_net

record match_rule =
  mr_Pattern :: string
  mr_MatchType :: string
  mr_Regex :: "(string \<Rightarrow> bool) option"
  mr_Source :: string

record limiter_entry =
  le_pattern :: string
  le_regex :: "string \<Rightarrow> bool"
  le_rate :: real
  le_burst :: int

record rule_snapshot =
  blackIPs :: "ip_entry list"
  whiteIPs :: "ip_entry list"
  blackIPExact :: "string list"
  whiteIPExact :: "string list"
  uaWhitelist :: "match_rule list"
  uaBlacklist :: "match_rule list"
  pathWhitelist :: "match_rule list"
  pathBlacklist :: "match_rule list"
  geoBlockCountries :: "string list"
  geoMode :: string
  allowedMethods :: "string list"
  pathRateLimiters :: "limiter_entry list"
  pathDecoder :: "path_decoder option"

record rule_match_result =
  Matched :: bool
  RuleType :: string
  Pattern :: string
  MatchType :: string
  Detail :: string

definition no_match :: rule_match_result where
  "no_match = \<lparr>Matched = False, RuleType = '''', Pattern = '''', MatchType = '''', Detail = ''''\<rparr>"

record rule_engine =
  db :: rules_db
  snapshot :: rule_snapshot
  lastVersion :: int

subsection \<open>Building the snapshot\<close>

fun build_ip_loop ::
  "ip_row list \<Rightarrow> ip_entry list \<times> ip_entry list \<times> string list \<times> string list
   \<Rightarrow> ip_entry list \<times> ip_entry list \<times> string list \<times> string list" where
  "build_ip_loop [] acc = acc"
| "build_ip_loop (r # rs) (black, white, blackX, whiteX) =
     (case parse_cidr (ir_ip r) of
        Some cidr \<Rightarrow>
          let entry = \<lparr>ie_original = ir_ip r, ie_cidr = cidr\<rparr> in
          if ir_rule_type r = ''blacklist'' then build_ip_loop rs (black @ [entry], white, blackX, whiteX)
          else if ir_rule_type r = ''whitelist'' then build_ip_loop rs (black, white @ [entry], blackX, whiteX)
          else build_ip_loop rs (black, white, blackX, whiteX)
      | None \<Rightarrow>
          if ir_rule_type r = ''blacklist'' then build_ip_loop rs (black, white, blackX @ [ir_ip r], whiteX)
          else if ir_rule_type r = ''whitelist'' then build_ip_loop rs (black, white, blackX, whiteX @ [ir_ip r])
          else build_ip_loop rs (black, white, blackX, whiteX))"

definition build_ip_rules ::
  "bool \<Rightarrow> rules_db \<Rightarrow> ip_entry list \<times> ip_entry list \<times> string list \<times> string list" where
  "build_ip_rules ok d =
     (if \<not> ok then ([], [], [], [])
      else build_ip_loop (filter (\<lambda>r. ir_enabled r = 1) (ip_rules d)) ([], [], [], []))"

definition scan_pattern_row ::
  "(string \<Rightarrow> (string \<Rightarrow> bool) option) \<Rightarrow> (pattern_row \<Rightarrow> string) \<Rightarrow> pattern_row \<Rightarrow> match_rule option" where
  "scan_pattern_row compile source r =
     (let rule = \<lparr>mr_Pattern = pr_pattern r, mr_MatchType = pr_match_type r, mr_Regex = None,
                  mr_Source = source r\<rparr>
      in if pr_match_type r = ''regex'' then
           (case compile (pr_pattern r) of
              None \<Rightarrow> None
            | Some re \<Rightarrow> Some (rule\<lparr>mr_Regex := Some re\<rparr>))
         else Some rule)"

definition split_rules ::
  "(string \<Rightarrow> (string \<Rightarrow> bool) option) \<Rightarrow> (pattern_row \<Rightarrow> string) \<Rightarrow> pattern_row list
   \<Rightarrow> match_rule list \<times> match_rule list" where
  "split_rules compile source rows =
     (List.map_filter (scan_pattern_row compile source) (filter (\<lambda>r. pr_rule_type r = ''whitelist'') rows),
      List.map_filter (scan_pattern_row compile source) (filter (\<lambda>r. pr_rule_type r \<noteq> ''whitelist'') rows))"

definition build_ua_rules ::
  "(string \<Rightarrow> (string \<Rightarrow> bool) option) \<Rightarrow> bool \<Rightarrow> rules_db \<Rightarrow> match_rule list \<times> match_rule list" where
  "build_ua_rules compile ok d =
     (if \<not> ok then ([], [])
      else split_rules compile pr_source
             (filter (\<lambda>r. pr_enabled r = 1 \<and> pr_source r \<noteq> ''migrated'') (ua_rules d)))"

definition build_path_rules ::
  "(string \<Rightarrow> (string \<Rightarrow> bool) option) \<Rightarrow> bool \<Rightarrow> rules_db \<Rightarrow> match_rule list \<times> match_rule list" where
  "build_path_rules compile ok d =
     (if \<not> ok then ([], [])
      else split_rules compile (\<lambda>_. '''') (filter (\<lambda>r. pr_enabled r = 1) (path_rules d)))"

fun build_geo_loop :: "geo_row list \<Rightarrow> string list \<Rightarrow> string \<Rightarrow> string list \<times> string" where
  "build_geo_loop [] countries mode = (countries, mode)"
| "build_geo_loop (r # rs) countries mode =
     (let mode = (if mode = '''' then gr_mode r else mode) in
      if gr_mode r \<noteq> mode then build_geo_loop rs countries mode
      else build_geo_loop rs (countries @ [to_upper (gr_country r)]) mode)"

definition build_geo_rules :: "bool \<Rightarrow> rules_db \<Rightarrow> string list \<times> string" where
  "build_geo_rules ok d =
     (if \<not> ok then ([], ''blacklist'')
      else let (countries, mode) = build_geo_loop (filter (\<lambda>r. gr_enabled r = 1) (geo_rules d)) [] ''''
           in (countries, if mode = '''' then ''blacklist'' else mode))"

definition build_allowed_methods :: "bool \<Rightarrow> rules_db \<Rightarrow> string list" where
  "build_allowed_methods ok d =
     (if \<not> ok then []
      else map (\<lambda>r. to_upper (fst r)) (filter (\<lambda>r. snd r = 1) (allowed_methods d)))"

definition scan_limit_row ::
  "(string \<Rightarrow> (string \<Rightarrow> bool) option) \<Rightarrow> limit_row \<Rightarrow> limiter_entry option" where
  "scan_limit_row compile r =
     (case compile (lr_pattern r) of
        None \<Rightarrow> None
      | Some re \<Rightarrow>
          Some \<lparr>le_pattern = lr_pattern r, le_regex = re,
                le_rate = (if lr_rate r \<le> 0 then 10 else lr_rate r),
                le_burst = (if lr_burst r \<le> 0 then 20 else lr_burst r)\<rparr>)"

definition put_limiter :: "limiter_entry list \<Rightarrow> limiter_entry \<Rightarrow> limiter_entry list" where
  "put_limiter es e = filter (\<lambda>x. le_pattern x \<noteq> le_pattern e) es @ [e]"

definition build_path_rate_limits ::
  "(string \<Rightarrow> (string \<Rightarrow> bool) option) \<Rightarrow> bool \<Rightarrow> rules_db \<Rightarrow> limiter_entry list" where
  "build_path_rate_limits compile ok d =
     (if \<not> ok then []
      else foldl put_limiter []
             (List.map_filter (scan_limit_row compile) (filter (\<lambda>r. lr_enabled r = 1) (path_rate_limits d))))"

definition build_rule_snapshot ::
  "(string \<Rightarrow> (string \<Rightarrow> bool) option) \<Rightarrow> (rule_table \<Rightarrow> bool) \<Rightarrow> rules_db \<Rightarrow> rule_snapshot" where
  "build_rule_snapshot compile q d =
     (let (black, white, blackX, whiteX) = build_ip_rules (q IpRules) d;
          (uaW, uaB) = build_ua_rules compile (q UaRules) d;
          (pW, pB) = build_path_rules compile (q PathRules) d;
          (countries, mode) = build_geo_rules (q GeoRules) d
      in \<lparr>blackIPs = black, whiteIPs = white, blackIPExact = blackX, whiteIPExact = whiteX,
          uaWhitelist = uaW, uaBlacklist = uaB, pathWhitelist = pW, pathBlacklist = pB,
          geoBlockCountries = countries, geoMode = mode,
          allowedMethods = build_allowed_methods (q AllowedMethods) d,
          pathRateLimiters = build_path_rate_limits compile (q PathRateLimits) d,
          pathDecoder = Some (new_path_decoder True 2)\<rparr>)"

definition load_all_rules ::
  "(string \<Rightarrow> (string \<Rightarrow> bool) option) \<Rightarrow> (rule_table \<Rightarrow> bool) \<Rightarrow> rule_engine \<Rightarrow> rule_engine" where
  "load_all_rules compile q e = e\<lparr>snapshot := build_rule_snapshot compile q (db e)\<rparr>"

subsection \<open>The checks of a request\<close>

definition is_ip_blocked :: "rule_engine \<Rightarrow> string \<Rightarrow> rule_match_result" where
  "is_ip_blocked e ip_str =
     (case parse_ip ip_str of
        None \<Rightarrow> no_match
      | Some ip \<Rightarrow>
          let snap = snapshot e in
          if ip_str \<in> set (whiteIPExact snap) then no_match
          else if list_ex (\<lambda>entry. contains (ie_cidr entry) ip) (whiteIPs snap) then no_match
          else if ip_str \<in> set (blackIPExact snap) then
            \<lparr>Matched = True, RuleType = ''ip_blacklist'', Pattern = ip_str, MatchType = ''exact'',
             Detail = ''IP'' @ utf8 [233, 187, 145, 229, 144, 141, 229, 141, 149, 229, 140, 185, 233, 133, 141] @ '': '' @ ip_str\<rparr>
          else case find (\<lambda>entry. contains (ie_cidr entry) ip) (blackIPs snap) of
                 None \<Rightarrow> no_match
               | Some entry \<Rightarrow>
                   \<lparr>Matched = True, RuleType = ''ip_blacklist'', Pattern = ie_original entry,
                    MatchType = ''cidr'', Detail = ''IP'' @ utf8 [233, 187, 145, 229, 144, 141, 229, 141, 149, 229, 140, 185, 233, 133, 141] @ '': '' @ ie_original entry\<rparr>)"

definition match_path :: "string \<Rightarrow> match_rule \<Rightarrow> bool" where
  "match_path path rule =
     (let p = mr_Pattern rule; t = mr_MatchType rule in
      if t = ''prefix'' then has_prefix path p
      else if t = ''suffix'' then has_suffix path p
      else if t = ''exact'' then path = p
      else if t = ''contains'' then str_contains path p
      else if t = ''regex'' then (case mr_Regex rule of Some re \<Rightarrow> re path | None \<Rightarrow> False)
      else has_prefix path p)"

definition check_path :: "rule_engine \<Rightarrow> string \<Rightarrow> rule_match_result" where
  "check_path e path =
     (let snap = snapshot e;
          decodedPath =
            (case pathDecoder snap of
               None \<Rightarrow> path
             | Some d \<Rightarrow> (let (decoded, err) = decode d path in if err then path else decoded))
      in if list_ex (match_path decodedPath) (pathWhitelist snap) then no_match
         else case find (match_path decodedPath) (pathBlacklist snap) of
                None \<Rightarrow> no_match
              | Some rule \<Rightarrow>
                  \<lparr>Matched = True, RuleType = ''path_blacklist'', Pattern = mr_Pattern rule,
                   MatchType = mr_MatchType rule,
                   Detail = utf8 [232, 183, 175, 229, 190, 132, 233, 187, 145, 229, 144, 141, 229, 141, 149, 229, 140, 185, 233, 133, 141] @ ''['' @ mr_MatchType rule @ '']: '' @ mr_Pattern rule\<rparr>)"

definition match_ua :: "string \<Rightarrow> match_rule \<Rightarrow> bool" where
  "match_ua ua rule =
     (case mr_Regex rule of
        Some re \<Rightarrow> re ua
      | None \<Rightarrow> if mr_MatchType rule = ''contains'' then str_contains ua (mr_Pattern rule)
                else mr_Pattern rule = ua)"

definition check_ua :: "rule_engine \<Rightarrow> string \<Rightarrow> rule_match_result" where
  "check_ua e ua =
     (let snap = snapshot e in
      if list_ex (match_ua ua) (uaWhitelist snap) then no_match
      else case find (match_ua ua) (uaBlacklist snap) of
             None \<Rightarrow> no_match
           | Some rule \<Rightarrow>
               \<lparr>Matched = True, RuleType = ''ua_blacklist'', Pattern = mr_Pattern rule,
                MatchType = mr_MatchType rule,
                Detail = ''UA'' @ utf8 [233, 187, 145, 229, 144, 141, 229, 141, 149, 229, 140, 185, 233, 133, 141] @ ''['' @ mr_MatchType rule @ '']: '' @ mr_Pattern rule\<rparr>)"

definition is_geo_blocked :: "rule_engine \<Rightarrow> string \<Rightarrow> rule_match_result" where
  "is_geo_blocked e country =
     (let snap = snapshot e; code = to_upper country in
      if geoBlockCountries snap = [] then no_match
      else if geoMode snap = ''whitelist'' then
        (if code \<notin> set (geoBlockCountries snap) then
           \<lparr>Matched = True, RuleType = ''geo_whitelist'', Pattern = code, MatchType = ''whitelist'',
            Detail = ''GeoIP'' @ utf8 [231, 153, 189, 229, 144, 141, 229, 141, 149, 233, 152, 187, 230, 150, 173] @ '': '' @ code\<rparr>
         else no_match)
      else if code \<in> set (geoBlockCountries snap) then
        \<lparr>Matched = True, RuleType = ''geo_blacklist'', Pattern = code, MatchType = ''blacklist'',
         Detail = ''GeoIP'' @ utf8 [233, 187, 145, 229, 144, 141, 229, 141, 149, 233, 152, 187, 230, 150, 173] @ '': '' @ code\<rparr>
      else no_match)"

definition is_method_allowed :: "rule_engine \<Rightarrow> string \<Rightarrow> rule_match_result" where
  "is_method_allowed e method =
     (let snap = snapshot e in
      if allowedMethods snap = [] then no_match
      else if to_upper method \<in> set (allowedMethods snap) then no_match
      else \<lparr>Matched = True, RuleType = ''method_blocked'', Pattern = method, MatchType = ''exact'',
            Detail = ''HTTP'' @ utf8 [230, 150, 185, 230, 179, 149, 233, 153, 144, 229, 136, 182] @ '': '' @ to_upper method\<rparr>)"

definition set_allowed_methods :: "string list \<Rightarrow> rule_engine \<Rightarrow> rule_engine" where
  "set_allowed_methods methods e =
     e\<lparr>snapshot := (snapshot e)\<lparr>allowedMethods := map to_upper methods\<rparr>\<rparr>"

definition check_path_rate_limit ::
  "(limiter_entry list \<Rightarrow> limiter_entry list) \<Rightarrow> (limiter_entry \<Rightarrow> bool) \<Rightarrow> rule_engine \<Rightarrow> string \<Rightarrow> bool" where
  "check_path_rate_limit enum allow e path =
     (case find (\<lambda>entry. le_regex entry path) (enum (pathRateLimiters (snapshot e))) of
        None \<Rightarrow> True
      | Some entry \<Rightarrow> allow entry)"

subsection \<open>Operations on the IP rules\<close>

datatype merge_outcome = MergeQueryFailed | MergeAborted | MergeCommitFailed | MergeCommitted

type_synonym regexp = "string \<Rightarrow> (string \<Rightarrow> bool) option"
type_synonym queries = "rule_table \<Rightarrow> bool"

definition update_ip_rows :: "(ip_row list \<Rightarrow> ip_row list) \<Rightarrow> rule_engine \<Rightarrow> rule_engine" where
  "update_ip_rows f e = e\<lparr>db := (db e)\<lparr>ip_rules := f (ip_rules (db e))\<rparr>\<rparr>"

definition merged_rows :: "string \<Rightarrow> string list \<Rightarrow> ip_row list \<Rightarrow> ip_row list" where
  "merged_rows rule_type merged rows =
     foldl (\<lambda>rs ip. fst (insert_or_ignore ip_key (local_ip_row rule_type ip) rs))
       (filter (\<lambda>r. ir_rule_type r \<noteq> rule_type) rows) merged"

definition try_merge_ip_rules ::
  "regexp \<Rightarrow> queries \<Rightarrow> merge_outcome \<Rightarrow> string \<Rightarrow> rule_engine \<Rightarrow> rule_engine" where
  "try_merge_ip_rules compile q outcome rule_type e =
     (if outcome = MergeQueryFailed then e
      else
        let ips = map ir_ip (filter (\<lambda>r. ir_rule_type r = rule_type \<and> ir_enabled r = 1) (ip_rules (db e))) in
        if length ips \<le> 1 then e
        else
          let merged = merge_ips_to_cidrs ips in
          if length merged \<ge> length ips then e
          else case outcome of
                 MergeCommitted \<Rightarrow>
                   load_all_rules compile q (update_ip_rows (merged_rows rule_type merged) e)
               | MergeCommitFailed \<Rightarrow> load_all_rules compile q e
               | _ \<Rightarrow> e)"

definition set_ip_rule_enabled ::
  "regexp \<Rightarrow> queries \<Rightarrow> string option \<Rightarrow> string \<Rightarrow> string \<Rightarrow> bool \<Rightarrow> rule_engine
   \<Rightarrow> (string + unit) \<times> rule_engine" where
  "set_ip_rule_enabled compile q fail rule_type ip enabled e =
     (case fail of
        Some err \<Rightarrow> (Inl err, e)
      | None \<Rightarrow>
          (Inr (), load_all_rules compile q (update_ip_rows
             (map (\<lambda>r. if ir_rule_type r = rule_type \<and> ir_ip r = ip
                       then r\<lparr>ir_enabled := (if enabled then 1 else 0)\<rparr> else r)) e)))"

definition add_ip_rule ::
  "regexp \<Rightarrow> queries \<Rightarrow> merge_outcome \<Rightarrow> string option \<Rightarrow> string \<Rightarrow> string \<Rightarrow> rule_engine
   \<Rightarrow> (string + unit) \<times> rule_engine" where
  "add_ip_rule compile q outcome fail rule_type ip e =
     (case fail of
        Some err \<Rightarrow> (Inl err, e)
      | None \<Rightarrow>
          let (rows, affected) = insert_or_ignore ip_key (local_ip_row rule_type ip) (ip_rules (db e));
              e1 = update_ip_rows (\<lambda>_. rows) e
          in if affected = 0 then (Inr (), e1)
             else (Inr (), try_merge_ip_rules compile q outcome rule_type e1))"

definition remove_ip_rule ::
  "regexp \<Rightarrow> queries \<Rightarrow> merge_outcome \<Rightarrow> string option \<Rightarrow> string \<Rightarrow> string \<Rightarrow> rule_engine
   \<Rightarrow> (string + unit) \<times> rule_engine" where
  "remove_ip_rule compile q outcome fail rule_type ip e =
     (case fail of
        Some err \<Rightarrow> (Inl err, e)
      | None \<Rightarrow>
          (Inr (), try_merge_ip_rules compile q outcome rule_type
             (load_all_rules compile q (update_ip_rows
                (filter (\<lambda>r. \<not> (ir_rule_type r = rule_type \<and> ir_ip r = ip))) e))))"

definition add_ip_rule_with_source ::
  "regexp \<Rightarrow> queries \<Rightarrow> merge_outcome \<Rightarrow> string option \<Rightarrow> string \<Rightarrow> string \<Rightarrow> string \<Rightarrow> string \<Rightarrow> rule_engine
   \<Rightarrow> (string + unit) \<times> rule_engine" where
  "add_ip_rule_with_source compile q outcome fail rule_type ip source intel_id e =
     (case fail of
        Some err \<Rightarrow> (Inl err, e)
      | None \<Rightarrow>
          let row = (local_ip_row rule_type ip)\<lparr>ir_source := source, ir_intel_id := Some intel_id\<rparr>
          in (Inr (), try_merge_ip_rules compile q outcome rule_type
                (update_ip_rows (\<lambda>rows. fst (insert_or_ignore ip_key row rows)) e)))"

definition add_ip_rule_by_source ::
  "regexp \<Rightarrow> queries \<Rightarrow> merge_outcome \<Rightarrow> string option \<Rightarrow> string \<Rightarrow> string \<Rightarrow> string \<Rightarrow> rule_engine
   \<Rightarrow> (string + unit) \<times> rule_engine" where
  "add_ip_rule_by_source compile q outcome fail rule_type ip source =
     add_ip_rule_with_source compile q outcome fail rule_type ip source ''''"

definition remove_ip_rule_by_intel_id ::
  "regexp \<Rightarrow> queries \<Rightarrow> bool \<Rightarrow> string \<Rightarrow> rule_engine \<Rightarrow> rule_engine" where
  "remove_ip_rule_by_intel_id compile q deleted intel_id e =
     load_all_rules compile q
       (if deleted then
          update_ip_rows (filter (\<lambda>r. \<not> (ir_intel_id r = Some intel_id \<and> ir_source r = ''intel''))) e
        else e)"

definition display_source :: "string \<Rightarrow> string" where
  "display_source s =
     (if s = ''local'' then ''manual''
      else if s = ''intel-bot'' \<or> s = ''intel-sig'' then ''intel'' else s)"

text \<open>\<open>ListIPRules\<close>, in table order (the source sorts by creation time, newest first).\<close>

definition list_ip_rules :: "rule_engine \<Rightarrow> (string \<times> string \<times> bool \<times> string \<times> string) list" where
  "list_ip_rules e =
     map (\<lambda>r. (ir_rule_type r, ir_ip r, ir_enabled r = 1, display_source (ir_source r),
               case ir_intel_id r of None \<Rightarrow> '''' | Some i \<Rightarrow> i)) (ip_rules (db e))"

definition list_ips :: "rule_engine \<Rightarrow> string list" where
  "list_ips e = map (\<lambda>r. fst (snd r)) (filter (\<lambda>r. fst r = ''blacklist'') (list_ip_rules e))"

subsection \<open>Operations on the user-agent and path rules\<close>

definition new_pattern_row ::
  "nat \<Rightarrow> string \<Rightarrow> string \<Rightarrow> string \<Rightarrow> string \<Rightarrow> string \<Rightarrow> string option \<Rightarrow> pattern_row" where
  "new_pattern_row rid rule_type match_type pattern description source intel_id =
     \<lparr>pr_id = rid, pr_rule_type = rule_type, pr_match_type = match_type, pr_pattern = pattern,
      pr_description = description, pr_enabled = 1, pr_source = source, pr_intel_id = intel_id\<rparr>"

text \<open>One insert into a table with an autoincrement key: the rows and the next key.\<close>

definition insert_pattern ::
  "string \<Rightarrow> string \<Rightarrow> string \<Rightarrow> string \<Rightarrow> string \<Rightarrow> string option \<Rightarrow> pattern_row list \<times> nat
   \<Rightarrow> pattern_row list \<times> nat" where
  "insert_pattern rule_type match_type pattern description source intel_id t =
     (let (rows, affected) =
        insert_or_ignore pattern_key
          (new_pattern_row (snd t) rule_type match_type pattern description source intel_id) (fst t)
      in (rows, snd t + affected))"

definition update_pattern ::
  "nat \<Rightarrow> string \<Rightarrow> string \<Rightarrow> string \<Rightarrow> string \<Rightarrow> bool \<Rightarrow> pattern_row list \<Rightarrow> pattern_row list" where
  "update_pattern rid rule_type match_type pattern description enabled =
     map (\<lambda>r. if pr_id r = rid
              then r\<lparr>pr_rule_type := rule_type, pr_match_type := match_type, pr_pattern := pattern,
                     pr_description := description, pr_enabled := (if enabled then 1 else 0)\<rparr>
              else r)"

definition toggle_pattern :: "nat \<Rightarrow> pattern_row list \<Rightarrow> pattern_row list" where
  "toggle_pattern rid =
     map (\<lambda>r. if pr_id r = rid then r\<lparr>pr_enabled := (if pr_enabled r = 1 then 0 else 1)\<rparr> else r)"

definition delete_pattern :: "string \<Rightarrow> string \<Rightarrow> pattern_row list \<Rightarrow> pattern_row list" where
  "delete_pattern rule_type pattern =
     filter (\<lambda>r. \<not> (pr_rule_type r = rule_type \<and> pr_pattern r = pattern))"

definition delete_by_intel :: "string \<Rightarrow> pattern_row list \<Rightarrow> pattern_row list" where
  "delete_by_intel intel_id =
     filter (\<lambda>r. \<not> (pr_intel_id r = Some intel_id \<and> pr_source r = ''intel''))"

definition ua_table :: "rule_engine \<Rightarrow> pattern_row list \<times> nat" where
  "ua_table e = (ua_rules (db e), ua_next_id (db e))"

definition with_ua_table :: "(pattern_row list \<times> nat \<Rightarrow> pattern_row list \<times> nat) \<Rightarrow> rule_engine \<Rightarrow> rule_engine" where
  "with_ua_table f e =
     (let t = f (ua_table e) in e\<lparr>db := (db e)\<lparr>ua_rules := fst t, ua_next_id := snd t\<rparr>\<rparr>)"

definition path_table :: "rule_engine \<Rightarrow> pattern_row list \<times> nat" where
  "path_table e = (path_rules (db e), path_next_id (db e))"

definition with_path_table :: "(pattern_row list \<times> nat \<Rightarrow> pattern_row list \<times> nat) \<Rightarrow> rule_engine \<Rightarrow> rule_engine" where
  "with_path_table f e =
     (let t = f (path_table e) in e\<lparr>db := (db e)\<lparr>path_rules := fst t, path_next_id := snd t\<rparr>\<rparr>)"

text \<open>The shape most operations share: the statement, its error, then \<open>loadAllRules\<close>.\<close>

definition exec_then_load ::
  "regexp \<Rightarrow> queries \<Rightarrow> string option \<Rightarrow> (rule_engine \<Rightarrow> rule_engine) \<Rightarrow> rule_engine
   \<Rightarrow> (string + unit) \<times> rule_engine" where
  "exec_then_load compile q fail f e =
     (case fail of
        Some err \<Rightarrow> (Inl err, e)
      | None \<Rightarrow> (Inr (), load_all_rules compile q (f e)))"

definition exec_only ::
  "string option \<Rightarrow> (rule_engine \<Rightarrow> rule_engine) \<Rightarrow> rule_engine \<Rightarrow> (string + unit) \<times> rule_engine" where
  "exec_only fail f e = (case fail of Some err \<Rightarrow> (Inl err, e) | None \<Rightarrow> (Inr (), f e))"

definition add_ua_rule where
  "add_ua_rule compile q fail rule_type match_type pattern description =
     exec_then_load compile q fail
       (with_ua_table (insert_pattern rule_type match_type pattern description ''local'' None))"

definition remove_ua_rule where
  "remove_ua_rule compile q fail rule_type pattern =
     exec_then_load compile q fail
       (with_ua_table (\<lambda>t. (delete_pattern rule_type pattern (fst t), snd t)))"

text \<open>
  An \<open>UPDATE\<close> that would break the unique key fails: the caller passes the error then.
\<close>

definition update_ua_rule where
  "update_ua_rule compile q fail rid rule_type match_type pattern description enabled =
     exec_then_load compile q fail
       (with_ua_table (\<lambda>t. (update_pattern rid rule_type match_type pattern description enabled (fst t), snd t)))"

definition toggle_ua_rule where
  "toggle_ua_rule compile q fail rid =
     exec_then_load compile q fail (with_ua_table (\<lambda>t. (toggle_pattern rid (fst t), snd t)))"

definition add_ua_rule_with_source where
  "add_ua_rule_with_source compile q fail rule_type match_type pattern source intel_id =
     exec_then_load compile q fail
       (with_ua_table (insert_pattern rule_type match_type pattern '''' source (Some intel_id)))"

definition remove_ua_rule_by_intel_id where
  "remove_ua_rule_by_intel_id compile q deleted intel_id e =
     load_all_rules compile q
       (if deleted then with_ua_table (\<lambda>t. (delete_by_intel intel_id (fst t), snd t)) e else e)"

definition add_path_rule where
  "add_path_rule compile q fail rule_type match_type pattern description =
     exec_then_load compile q fail
       (with_path_table (insert_pattern rule_type match_type pattern description ''local'' None))"

definition remove_path_rule where
  "remove_path_rule compile q fail rule_type pattern =
     exec_then_load compile q fail
       (with_path_table (\<lambda>t. (delete_pattern rule_type pattern (fst t), snd t)))"

definition update_path_rule where
  "update_path_rule compile q fail rid rule_type match_type pattern description enabled =
     exec_then_load compile q fail
       (with_path_table (\<lambda>t. (update_pattern rid rule_type match_type pattern description enabled (fst t), snd t)))"

definition toggle_path_rule where
  "toggle_path_rule compile q fail rid =
     exec_then_load compile q fail (with_path_table (\<lambda>t. (toggle_pattern rid (fst t), snd t)))"

definition add_path_rule_with_source where
  "add_path_rule_with_source compile q fail rule_type match_type pattern source intel_id =
     exec_then_load compile q fail
       (with_path_table (insert_pattern rule_type match_type pattern '''' source (Some intel_id)))"

definition remove_path_rule_by_intel_id where
  "remove_path_rule_by_intel_id compile q deleted intel_id e =
     load_all_rules compile q
       (if deleted then with_path_table (\<lambda>t. (delete_by_intel intel_id (fst t), snd t)) e else e)"

definition list_pattern_rules ::
  "pattern_row list \<Rightarrow> (nat \<times> string \<times> string \<times> string \<times> string \<times> bool \<times> string \<times> string) list" where
  "list_pattern_rules rows =
     map (\<lambda>r. (pr_id r, pr_rule_type r, pr_match_type r, pr_pattern r, pr_description r,
               pr_enabled r = 1, display_source (pr_source r),
               case pr_intel_id r of None \<Rightarrow> '''' | Some i \<Rightarrow> i)) rows"

subsection \<open>Operations on the other tables\<close>

definition geo_key :: "geo_row \<Rightarrow> string \<times> string" where
  "geo_key r = (gr_mode r, gr_country r)"

definition add_geo_rule where
  "add_geo_rule compile q fail mode country enabled =
     exec_then_load compile q fail
       (\<lambda>e. let (rows, affected) =
              insert_or_ignore geo_key
                \<lparr>gr_id = geo_next_id (db e), gr_mode = mode, gr_country = to_upper country,
                 gr_enabled = (if enabled then 1 else 0)\<rparr> (geo_rules (db e))
            in e\<lparr>db := (db e)\<lparr>geo_rules := rows, geo_next_id := geo_next_id (db e) + affected\<rparr>\<rparr>)"

definition update_geo_rule where
  "update_geo_rule compile q fail rid mode country enabled =
     exec_then_load compile q fail
       (\<lambda>e. e\<lparr>db := (db e)\<lparr>geo_rules :=
          map (\<lambda>r. if gr_id r = rid
                   then r\<lparr>gr_mode := mode, gr_country := to_upper country,
                          gr_enabled := (if enabled then 1 else 0)\<rparr>
                   else r) (geo_rules (db e))\<rparr>\<rparr>)"

definition remove_geo_rule where
  "remove_geo_rule compile q fail rid =
     exec_then_load compile q fail
       (\<lambda>e. e\<lparr>db := (db e)\<lparr>geo_rules := filter (\<lambda>r. gr_id r \<noteq> rid) (geo_rules (db e))\<rparr>\<rparr>)"

text \<open>The rate limits and the allowed methods are written without a reload.\<close>

definition add_path_rate_limit where
  "add_path_rate_limit fail pattern rate burst enabled =
     exec_only fail
       (\<lambda>e. e\<lparr>db := (db e)\<lparr>path_rate_limits := path_rate_limits (db e) @
               [\<lparr>lr_id = limit_next_id (db e), lr_pattern = pattern, lr_rate = rate, lr_burst = burst,
                 lr_enabled = (if enabled then 1 else 0)\<rparr>],
             limit_next_id := limit_next_id (db e) + 1\<rparr>\<rparr>)"

definition update_path_rate_limit where
  "update_path_rate_limit fail rid pattern rate burst enabled =
     exec_only fail
       (\<lambda>e. e\<lparr>db := (db e)\<lparr>path_rate_limits :=
          map (\<lambda>r. if lr_id r = rid
                   then r\<lparr>lr_pattern := pattern, lr_rate := rate, lr_burst := burst,
                          lr_enabled := (if enabled then 1 else 0)\<rparr>
                   else r) (path_rate_limits (db e))\<rparr>\<rparr>)"

definition remove_path_rate_limit where
  "remove_path_rate_limit fail rid =
     exec_only fail
       (\<lambda>e. e\<lparr>db := (db e)\<lparr>path_rate_limits :=
          filter (\<lambda>r. lr_id r \<noteq> rid) (path_rate_limits (db e))\<rparr>\<rparr>)"

definition set_allowed_method_db where
  "set_allowed_method_db fail method enabled =
     exec_only fail
       (\<lambda>e. e\<lparr>db := (db e)\<lparr>allowed_methods :=
          filter (\<lambda>r. fst r \<noteq> to_upper method) (allowed_methods (db e))
            @ [(to_upper method, if enabled then 1 else 0)]\<rparr>\<rparr>)"

definition remove_allowed_method_db where
  "remove_allowed_method_db fail method =
     exec_only fail
       (\<lambda>e. e\<lparr>db := (db e)\<lparr>allowed_methods :=
          filter (\<lambda>r. fst r \<noteq> to_upper method) (allowed_methods (db e))\<rparr>\<rparr>)"

subsection \<open>Built-in rules, migration, change detection, start\<close>

definition builtin_ua :: "(string \<times> string \<times> string \<times> string) list" where
  "builtin_ua =
    [(''blacklist'', ''regex'', ''(?i)(sqlmap|nikto|nmap|masscan|dirbuster|gobuster|wfuzz|ffuf|hydra|burpsuite|zap)'', utf8 [229, 184, 184, 232, 167, 129, 230, 148, 187, 229, 135, 187, 230, 137, 171, 230, 143, 143, 229, 183, 165, 229, 133, 183] @ ''User-Agent''),
     (''blacklist'', ''regex'', ''(?i)(python-requests|python-urllib|curl|wget|httpclient|okhttp|java/|go-http)'', utf8 [229, 184, 184, 232, 167, 129, 232, 135, 170, 229, 138, 168, 229, 140, 150, 232, 132, 154, 230, 156, 172] @ ''/'' @ utf8 [231, 136, 172, 232, 153, 171] @ ''User-Agent''),
     (''blacklist'', ''regex'', ''(?i)('' @ utf8 [92] @ ''bruby'' @ utf8 [92] @ ''b|'' @ utf8 [92] @ ''bperl'' @ utf8 [92] @ ''b|'' @ utf8 [92] @ ''bphp'' @ utf8 [92] @ ''b)'' @ utf8 [92] @ ''s*['' @ utf8 [92, 92] @ ''/]?'', utf8 [232, 132, 154, 230, 156, 172, 232, 175, 173, 232, 168, 128] @ ''HTTP'' @ utf8 [229, 174, 162, 230, 136, 183, 231, 171, 175] @ ''(Ruby/Perl/PHP)''),
     (''blacklist'', ''contains'', ''Mozilla/4.0'', utf8 [232, 191, 135, 230, 151, 182, 230, 181, 143, 232, 167, 136, 229, 153, 168] @ ''UA'' @ utf8 [239, 188, 140, 229, 184, 184, 231, 148, 168, 228, 186, 142, 228, 188, 170, 233, 128, 160, 232, 175, 183, 230, 177, 130]),
     (''blacklist'', ''regex'', ''(?i)(googlebot|bingbot|baiduspider|yandexbot|duckduckbot|slurp|sogou|360spider|bytespider)'', utf8 [230, 144, 156, 231, 180, 162, 229, 188, 149, 230, 147, 142, 231, 136, 172, 232, 153, 171, 230, 160, 135, 232, 175, 134])]"

definition builtin_path :: "(string \<times> string \<times> string \<times> string) list" where
  "builtin_path =
    [(''blacklist'', ''prefix'', ''/.git'', ''Git'' @ utf8 [231, 137, 136, 230, 156, 172, 230, 142, 167, 229, 136, 182, 231, 155, 174, 229, 189, 149, 230, 179, 132, 233, 156, 178]),
     (''blacklist'', ''prefix'', ''/.svn'', ''SVN'' @ utf8 [231, 137, 136, 230, 156, 172, 230, 142, 167, 229, 136, 182, 231, 155, 174, 229, 189, 149, 230, 179, 132, 233, 156, 178]),
     (''blacklist'', ''prefix'', ''/.env'', utf8 [231, 142, 175, 229, 162, 131, 229, 143, 152, 233, 135, 143, 233, 133, 141, 231, 189, 174, 230, 150, 135, 228, 187, 182, 230, 179, 132, 233, 156, 178]),
     (''blacklist'', ''exact'', ''/.htaccess'', ''Apache'' @ utf8 [233, 133, 141, 231, 189, 174, 230, 150, 135, 228, 187, 182, 230, 179, 132, 233, 156, 178]),
     (''blacklist'', ''exact'', ''/.DS_Store'', ''macOS'' @ utf8 [231, 155, 174, 229, 189, 149, 229, 133, 131, 230, 149, 176, 230, 141, 174, 230, 179, 132, 233, 156, 178]),
     (''blacklist'', ''prefix'', ''/wp-admin'', ''WordPress'' @ utf8 [229, 144, 142, 229, 143, 176, 232, 183, 175, 229, 190, 132, 230, 142, 162, 230, 181, 139]),
     (''blacklist'', ''prefix'', ''/wp-login.php'', ''WordPress'' @ utf8 [231, 153, 187, 229, 189, 149, 233, 161, 181, 233, 157, 162, 230, 142, 162, 230, 181, 139]),
     (''blacklist'', ''prefix'', ''/phpmyadmin'', ''phpMyAdmin'' @ utf8 [230, 149, 176, 230, 141, 174, 229, 186, 147, 231, 174, 161, 231, 144, 134, 229, 133, 165, 229, 143, 163]),
     (''blacklist'', ''prefix'', ''/adminer'', ''Adminer'' @ utf8 [230, 149, 176, 230, 141, 174, 229, 186, 147, 231, 174, 161, 231, 144, 134, 229, 133, 165, 229, 143, 163]),
     (''blacklist'', ''suffix'', ''.sql'', ''SQL'' @ utf8 [230, 149, 176, 230, 141, 174, 229, 186, 147, 230, 150, 135, 228, 187, 182, 230, 179, 132, 233, 156, 178]),
     (''blacklist'', ''suffix'', ''.bak'', utf8 [229, 164, 135, 228, 187, 189, 230, 150, 135, 228, 187, 182, 230, 179, 132, 233, 156, 178]),
     (''blacklist'', ''suffix'', ''.log'', utf8 [230, 151, 165, 229, 191, 151, 230, 150, 135, 228, 187, 182, 230, 179, 132, 233, 156, 178]),
     (''blacklist'', ''suffix'', ''.conf'', utf8 [233, 133, 141, 231, 189, 174, 230, 150, 135, 228, 187, 182, 230, 179, 132, 233, 156, 178]),
     (''blacklist'', ''suffix'', ''.ini'', ''INI'' @ utf8 [233, 133, 141, 231, 189, 174, 230, 150, 135, 228, 187, 182, 230, 179, 132, 233, 156, 178]),
     (''blacklist'', ''regex'', ''(?i)'' @ utf8 [92] @ ''.(php|jsp|asp|aspx)$'', utf8 [230, 156, 141, 229, 138, 161, 231, 171, 175, 232, 132, 154, 230, 156, 172, 230, 150, 135, 228, 187, 182, 231, 155, 180, 230, 142, 165, 232, 174, 191, 233, 151, 174])]"

definition insert_builtin ::
  "(string \<times> string \<times> string \<times> string) list \<Rightarrow> pattern_row list \<times> nat \<Rightarrow> pattern_row list \<times> nat" where
  "insert_builtin rules t =
     (let t1 = foldl (\<lambda>t (rt, mt, p, d). insert_pattern rt mt p d ''builtin'' None t) t rules
      in (map (\<lambda>r. if list_ex (\<lambda>(rt, mt, p, d). pr_rule_type r = rt \<and> pr_pattern r = p) rules
                      \<and> pr_source r = ''local''
                   then r\<lparr>pr_source := ''builtin''\<rparr> else r) (fst t1), snd t1))"

definition init_builtin_rules :: "rule_engine \<Rightarrow> rule_engine" where
  "init_builtin_rules e = with_path_table (insert_builtin builtin_path) (with_ua_table (insert_builtin builtin_ua) e)"

definition disable_covered :: "pattern_row list \<Rightarrow> pattern_row list" where
  "disable_covered rows =
     map (\<lambda>r. if pr_source r = ''builtin'' \<and>
                 list_ex (\<lambda>x. pr_source x = ''intel'' \<and> pr_pattern x = pr_pattern r) rows
              then r\<lparr>pr_enabled := 0\<rparr> else r) rows"

definition enable_builtin :: "pattern_row list \<Rightarrow> pattern_row list" where
  "enable_builtin rows = map (\<lambda>r. if pr_source r = ''builtin'' then r\<lparr>pr_enabled := 1\<rparr> else r) rows"

definition auto_manage_builtin_rules :: "regexp \<Rightarrow> queries \<Rightarrow> bool \<Rightarrow> rule_engine \<Rightarrow> rule_engine" where
  "auto_manage_builtin_rules compile q is_connected e =
     (let f = (if is_connected then disable_covered else enable_builtin)
      in load_all_rules compile q
           (with_path_table (\<lambda>t. (f (fst t), snd t)) (with_ua_table (\<lambda>t. (f (fst t), snd t)) e)))"

definition malicious_ua_keywords :: "string list" where
  "malicious_ua_keywords =
     [''nikto'', ''nmap'', ''sqlmap'', ''dirbuster'', ''gobuster'', ''wpscan'', ''masscan'', ''zap'', ''burp'',
      ''hydra'', ''wfuzz'', ''ffuf'', ''dirb'']"

text \<open>\<open>pattern LIKE '%keyword%'\<close> ignores the case of ASCII letters.\<close>

definition to_migrate :: "string \<Rightarrow> pattern_row \<Rightarrow> bool" where
  "to_migrate keyword r \<longleftrightarrow>
     pr_rule_type r = ''blacklist'' \<and> pr_enabled r = 1 \<and> pr_source r \<noteq> ''migrated'' \<and>
     str_contains (to_lower (pr_pattern r)) keyword"

definition migrate_row :: "pattern_row \<Rightarrow> pattern_row" where
  "migrate_row r = r\<lparr>pr_source := ''migrated'', pr_enabled := 0\<rparr>"

definition migrate_keyword :: "pattern_row list \<Rightarrow> string \<Rightarrow> pattern_row list" where
  "migrate_keyword rows keyword = map (\<lambda>r. if to_migrate keyword r then migrate_row r else r) rows"

definition migrate_ua_blacklist_to_bot :: "regexp \<Rightarrow> queries \<Rightarrow> rule_engine \<Rightarrow> rule_engine" where
  "migrate_ua_blacklist_to_bot compile q e =
     (let rows = foldl migrate_keyword (ua_rules (db e)) malicious_ua_keywords
      in if rows = ua_rules (db e) then e
         else load_all_rules compile q (with_ua_table (\<lambda>t. (rows, snd t)) e))"

text \<open>\<open>max_version\<close> is what the query on \<open>config_versions\<close> returns, nothing when it fails.\<close>

definition has_rule_changed :: "int option \<Rightarrow> rule_engine \<Rightarrow> bool \<times> rule_engine" where
  "has_rule_changed max_version e =
     (case max_version of
        None \<Rightarrow> (True, e)
      | Some v \<Rightarrow> if v \<noteq> lastVersion e then (True, e\<lparr>lastVersion := v\<rparr>) else (False, e))"

definition refresh_tick :: "regexp \<Rightarrow> queries \<Rightarrow> int option \<Rightarrow> rule_engine \<Rightarrow> rule_engine" where
  "refresh_tick compile q max_version e =
     (let (changed, e1) = has_rule_changed max_version e
      in if changed then load_all_rules compile q e1 else e1)"

definition empty_snapshot :: rule_snapshot where
  "empty_snapshot =
     \<lparr>blackIPs = [], whiteIPs = [], blackIPExact = [], whiteIPExact = [], uaWhitelist = [],
      uaBlacklist = [], pathWhitelist = [], pathBlacklist = [], geoBlockCountries = [],
      geoMode = ''blacklist'', allowedMethods = [], pathRateLimiters = [], pathDecoder = None\<rparr>"

definition new_engine :: "regexp \<Rightarrow> queries \<Rightarrow> rules_db \<Rightarrow> rule_engine" where
  "new_engine compile q d =
     migrate_ua_blacklist_to_bot compile q
       (init_builtin_rules
          (load_all_rules compile q \<lparr>db = d, snapshot = empty_snapshot, lastVersion = 0\<rparr>))"

end
