(* ===== verification/RuleProps.thy ===== *)
theory RuleProps
  imports RuleEngine
begin

text \<open>
  What the rule engine guarantees: the verdict on an address as a function of the tables, the
  merge of IP rules as a refinement that keeps the verdict, which operations leave the
  snapshot up to date and which do not, what happens when a query of the rebuild fails, and
  how decoding protects the path rules and where it does not.
\<close>

subsection \<open>Lemmas\<close>

lemma load_db [simp]: "db (load_all_rules c q e) = db e"
  by (simp add: load_all_rules_def)

lemma snapshot_load: "snapshot (load_all_rules c q e) = build_rule_snapshot c q (db e)"
  by (simp add: load_all_rules_def)

lemma is_ip_blocked_snapshot: "snapshot e = snapshot e' \<Longrightarrow> is_ip_blocked e = is_ip_blocked e'"
  by (rule ext) (simp only: is_ip_blocked_def)

lemma snapshot_ip_parts:
  "build_ip_rules (q IpRules) d = (black, white, blackX, whiteX) \<Longrightarrow>
   blackIPs (build_rule_snapshot c q d) = black \<and> whiteIPs (build_rule_snapshot c q d) = white \<and>
   blackIPExact (build_rule_snapshot c q d) = blackX \<and> whiteIPExact (build_rule_snapshot c q d) = whiteX"
  by (simp add: build_rule_snapshot_def Let_def split: prod.split)

definition exact_of :: "string \<Rightarrow> ip_row list \<Rightarrow> string list" where
  "exact_of rt rows = map ir_ip (filter (\<lambda>r. ir_rule_type r = rt \<and> parse_cidr (ir_ip r) = None) rows)"

definition nets_of :: "string \<Rightarrow> ip_row list \<Rightarrow> ip_entry list" where
  "nets_of rt rows = List.map_filter (\<lambda>r. if ir_rule_type r = rt
     then map_option (\<lambda>n. \<lparr>ie_original = ir_ip r, ie_cidr = n\<rparr>) (parse_cidr (ir_ip r)) else None) rows"

lemma build_ip_loop_eq:
  "build_ip_loop rows (b, w, bx, wx) =
     (b @ nets_of ''blacklist'' rows, w @ nets_of ''whitelist'' rows,
      bx @ exact_of ''blacklist'' rows, wx @ exact_of ''whitelist'' rows)"
proof (induction rows arbitrary: b w bx wx)
  case Nil
  then show ?case by (simp add: nets_of_def exact_of_def List.map_filter_def)
next
  case (Cons r rows)
  show ?case
    by (cases "parse_cidr (ir_ip r)")
      (simp_all add: Cons Let_def nets_of_def exact_of_def List.map_filter_simps)
qed

text \<open>A row applies to a request address: textually, or as a network.\<close>

definition row_applies :: "string \<Rightarrow> ip_addr \<Rightarrow> ip_row \<Rightarrow> bool" where
  "row_applies s ip r \<longleftrightarrow>
     (case parse_cidr (ir_ip r) of Some net \<Rightarrow> contains net ip | None \<Rightarrow> ir_ip r = s)"

definition listed :: "string \<Rightarrow> string \<Rightarrow> ip_addr \<Rightarrow> ip_row list \<Rightarrow> bool" where
  "listed rt s ip rows \<longleftrightarrow> (\<exists>r \<in> set rows. ir_rule_type r = rt \<and> ir_enabled r = 1 \<and> row_applies s ip r)"

lemma listed_split:
  "listed rt s ip rows \<longleftrightarrow>
     s \<in> set (exact_of rt (filter (\<lambda>r. ir_enabled r = 1) rows)) \<or>
     list_ex (\<lambda>entry. contains (ie_cidr entry) ip) (nets_of rt (filter (\<lambda>r. ir_enabled r = 1) rows))"
proof -
  have "list_ex (\<lambda>entry. contains (ie_cidr entry) ip) (nets_of rt xs) \<longleftrightarrow>
     (\<exists>r \<in> set xs. ir_rule_type r = rt \<and> (\<exists>n. parse_cidr (ir_ip r) = Some n \<and> contains n ip))" for xs
    by (induction xs) (auto simp: nets_of_def List.map_filter_simps split: option.split)
  moreover have "s \<in> set (exact_of rt xs) \<longleftrightarrow>
     (\<exists>r \<in> set xs. ir_rule_type r = rt \<and> parse_cidr (ir_ip r) = None \<and> ir_ip r = s)" for xs
    by (auto simp: exact_of_def)
  ultimately show ?thesis
    by (fastforce simp: listed_def row_applies_def split: option.splits)
qed

lemma list_ex_find: "list_ex P xs \<longleftrightarrow> find P xs \<noteq> None"
  by (induction xs) auto

lemma is_ip_blocked_rows:
  assumes "build_ip_rules True (db e) = (blackIPs (snapshot e), whiteIPs (snapshot e),
      blackIPExact (snapshot e), whiteIPExact (snapshot e))"
  shows "Matched (is_ip_blocked e s) \<longleftrightarrow>
    (\<exists>ip. parse_ip s = Some ip \<and> \<not> listed ''whitelist'' s ip (ip_rules (db e)) \<and>
          listed ''blacklist'' s ip (ip_rules (db e)))"
proof (cases "parse_ip s")
  case None
  then show ?thesis by (simp add: is_ip_blocked_def no_match_def)
next
  case (Some ip)
  have parts: "blackIPs (snapshot e) = nets_of ''blacklist'' (filter (\<lambda>r. ir_enabled r = 1) (ip_rules (db e)))"
    "whiteIPs (snapshot e) = nets_of ''whitelist'' (filter (\<lambda>r. ir_enabled r = 1) (ip_rules (db e)))"
    "blackIPExact (snapshot e) = exact_of ''blacklist'' (filter (\<lambda>r. ir_enabled r = 1) (ip_rules (db e)))"
    "whiteIPExact (snapshot e) = exact_of ''whitelist'' (filter (\<lambda>r. ir_enabled r = 1) (ip_rules (db e)))"
    using assms by (simp_all add: build_ip_rules_def build_ip_loop_eq)
  show ?thesis
    unfolding is_ip_blocked_def Some option.case Let_def listed_split parts[symmetric]
    by (auto simp: no_match_def list_ex_find split: option.split)
qed

lemma build_ip_rules_parts:
  "q IpRules \<Longrightarrow> build_ip_rules True d =
     (blackIPs (build_rule_snapshot c q d), whiteIPs (build_rule_snapshot c q d),
      blackIPExact (build_rule_snapshot c q d), whiteIPExact (build_rule_snapshot c q d))"
  by (cases "build_ip_rules True d") (simp add: snapshot_ip_parts)

subsection \<open>The verdict on an address\<close>

text \<open>
  C7. The verdict of \<open>IsIPBlocked\<close> after a load: an address is blocked exactly when it parses,
  no enabled whitelist row applies to it and some enabled blacklist row does, where a row
  applies when its network contains the address or, for a row that is not a network, when
  the texts are equal. The whitelist always wins, whatever the order of the rows.
\<close>

theorem ip_verdict:
  assumes "q IpRules"
  shows "Matched (is_ip_blocked (load_all_rules c q e) s) \<longleftrightarrow>
    (\<exists>ip. parse_ip s = Some ip \<and> \<not> listed ''whitelist'' s ip (ip_rules (db e)) \<and>
          listed ''blacklist'' s ip (ip_rules (db e)))"
  using is_ip_blocked_rows[of "load_all_rules c q e"] build_ip_rules_parts[where q = q, OF assms]
  by (simp add: snapshot_load)

definition empty_db :: rules_db where
  "empty_db =
     \<lparr>ip_rules = [], ua_rules = [], ua_next_id = 1, path_rules = [], path_next_id = 1, geo_rules = [],
      geo_next_id = 1, path_rate_limits = [], limit_next_id = 1, allowed_methods = []\<rparr>"

definition sample_engine :: rule_engine where
  "sample_engine =
     \<lparr>db = empty_db\<lparr>ip_rules := [local_ip_row ''blacklist'' (ipv4_string 0x01020304)]\<rparr>,
      snapshot = empty_snapshot, lastVersion = 0\<rparr>"

theorem ip_verdict_witness:
  "Matched (is_ip_blocked (load_all_rules (\<lambda>_. None) (\<lambda>_. True) sample_engine) (ipv4_string 0x01020304))"
  unfolding ip_verdict[of "\<lambda>_. True", OF TrueI]
  by (simp add: parse_ip_string sample_engine_def empty_db_def local_ip_row_def listed_def
      row_applies_def parse_cidr_plain ipv4_string_chars)

text \<open>
  A rebuild whose query fails opens the gate: when the query on \<open>ip_rules\<close> returns an error,
  the new snapshot blocks no address at all, whatever the tables hold, until the next rebuild.
\<close>

theorem failed_query_unblocks:
  assumes "\<not> q IpRules"
  shows "is_ip_blocked (load_all_rules c q e) s = no_match"
  using snapshot_ip_parts[of q "db e" "[]" "[]" "[]" "[]" c] assms
  by (simp add: is_ip_blocked_def snapshot_load build_ip_rules_def Let_def split: option.split)

theorem failed_query_unblocks_witness:
  "is_ip_blocked (load_all_rules (\<lambda>_. None) (\<lambda>t. t \<noteq> IpRules) sample_engine) (ipv4_string 0x01020304) = no_match"
  by (rule failed_query_unblocks) simp

subsection \<open>Adding a rule\<close>

definition merge_shrinks :: "string \<Rightarrow> rule_engine \<Rightarrow> bool" where
  "merge_shrinks rt e \<longleftrightarrow>
     (let ips = map ir_ip (filter (\<lambda>r. ir_rule_type r = rt \<and> ir_enabled r = 1) (ip_rules (db e)))
      in length ips > 1 \<and> length (merge_ips_to_cidrs ips) < length ips)"

lemma try_merge_no_shrink:
  "\<not> merge_shrinks rt e \<Longrightarrow> try_merge_ip_rules c q outcome rt e = e"
  by (auto simp: try_merge_ip_rules_def merge_shrinks_def Let_def)

lemma update_ip_rows_simps [simp]:
  "snapshot (update_ip_rows f e) = snapshot e" "lastVersion (update_ip_rows f e) = lastVersion e"
  "ip_rules (db (update_ip_rows f e)) = f (ip_rules (db e))"
  by (simp_all add: update_ip_rows_def)

text \<open>
  A rule added with \<open>AddIPRule\<close> or \<open>AddIPRuleWithSource\<close> does not take effect when no merge
  follows: the row is in the table, but the snapshot is the old one, so every address gets
  the verdict it got before, and the periodic refresh changes nothing either as long as the
  configuration version is the same.
\<close>

theorem added_ip_rule_not_effective:
  assumes "ip_key (local_ip_row rt ip) \<notin> ip_key ` set (ip_rules (db e))"
    and "\<not> merge_shrinks rt (update_ip_rows (\<lambda>rows. rows @ [local_ip_row rt ip]) e)"
    and "\<not> merge_shrinks rt (update_ip_rows (\<lambda>rows. rows @
             [(local_ip_row rt ip)\<lparr>ir_source := source, ir_intel_id := Some intel\<rparr>]) e)"
    and "v = lastVersion e"
  shows "(let e1 = snd (add_ip_rule c q outcome None rt ip e) in
      local_ip_row rt ip \<in> set (ip_rules (db e1)) \<and>
      is_ip_blocked (refresh_tick c q (Some v) e1) s = is_ip_blocked e s) \<and>
    (let e2 = snd (add_ip_rule_with_source c q outcome None rt ip source intel e) in
      ip \<in> ir_ip ` set (ip_rules (db e2)) \<and>
      is_ip_blocked (refresh_tick c q (Some v) e2) s = is_ip_blocked e s)"
proof -
  let ?row = "local_ip_row rt ip"
  let ?row2 = "?row\<lparr>ir_source := source, ir_intel_id := Some intel\<rparr>"
  have new: "\<not> list_ex (\<lambda>r. ip_key r = ip_key ?row) (ip_rules (db e))"
    using assms(1) unfolding list_ex_iff by (metis imageI)
  have key2: "ip_key ?row2 = ip_key ?row"
    by (simp add: ip_key_def)
  have e1: "snd (add_ip_rule c q outcome None rt ip e) = update_ip_rows (\<lambda>rows. rows @ [?row]) e"
    using new try_merge_no_shrink[OF assms(2)]
    by (simp add: add_ip_rule_def insert_or_ignore_def update_ip_rows_def)
  have "update_ip_rows (\<lambda>rows. fst (insert_or_ignore ip_key ?row2 rows)) e =
      update_ip_rows (\<lambda>rows. rows @ [?row2]) e"
    using new unfolding update_ip_rows_def insert_or_ignore_def key2 by simp
  then have e2: "snd (add_ip_rule_with_source c q outcome None rt ip source intel e) =
      update_ip_rows (\<lambda>rows. rows @ [?row2]) e"
    using try_merge_no_shrink[OF assms(3)] by (simp add: add_ip_rule_with_source_def Let_def)
  have tick: "refresh_tick c q (Some v) (update_ip_rows f e) = update_ip_rows f e" for f
    by (simp add: refresh_tick_def has_rule_changed_def assms(4))
  have "ir_ip ?row2 = ip" by (simp add: local_ip_row_def)
  then show ?thesis
    unfolding Let_def e1 e2 tick
    using is_ip_blocked_snapshot[of "update_ip_rows (\<lambda>rows. rows @ [?row]) e" e]
      is_ip_blocked_snapshot[of "update_ip_rows (\<lambda>rows. rows @ [?row2]) e" e]
    by force
qed

theorem added_ip_rule_not_effective_witness:
  "(let e0 = \<lparr>db = empty_db, snapshot = empty_snapshot, lastVersion = 7\<rparr>;
        e1 = snd (add_ip_rule (\<lambda>_. None) (\<lambda>_. True) MergeCommitted None ''blacklist'' (ipv4_string 0x01020304) e0)
    in local_ip_row ''blacklist'' (ipv4_string 0x01020304) \<in> set (ip_rules (db e1)) \<and>
       \<not> Matched (is_ip_blocked (refresh_tick (\<lambda>_. None) (\<lambda>_. True) (Some 7) e1) (ipv4_string 0x01020304)))"
proof -
  let ?e0 = "\<lparr>db = empty_db, snapshot = empty_snapshot, lastVersion = 7\<rparr>"
  have "\<not> Matched (is_ip_blocked ?e0 (ipv4_string 0x01020304))"
    by (simp add: is_ip_blocked_def empty_snapshot_def no_match_def split: option.split)
  moreover have "\<not> merge_shrinks rt (update_ip_rows (\<lambda>rows. rows @ [row]) ?e0)" for rt row
    by (simp add: merge_shrinks_def empty_db_def Let_def)
  ultimately show ?thesis
    using added_ip_rule_not_effective[of "''blacklist''" "ipv4_string 0x01020304" ?e0]
    unfolding Let_def by (simp add: empty_db_def)
qed

subsection \<open>The merge of the table\<close>

lemma local_ip_row_simps [simp]:
  "ir_rule_type (local_ip_row rt i) = rt" "ir_ip (local_ip_row rt i) = i"
  "ir_enabled (local_ip_row rt i) = 1" "ir_source (local_ip_row rt i) = ''local''"
  by (simp_all add: local_ip_row_def)

lemma insert_local_set:
  assumes "\<forall>r \<in> set rs. ir_rule_type r = rt \<longrightarrow> r = local_ip_row rt (ir_ip r)"
  shows "set (fst (insert_or_ignore ip_key (local_ip_row rt ip) rs)) = insert (local_ip_row rt ip) (set rs)"
proof (cases "list_ex (\<lambda>r. ip_key r = ip_key (local_ip_row rt ip)) rs")
  case True
  then obtain r where "r \<in> set rs" "ip_key r = ip_key (local_ip_row rt ip)"
    unfolding list_ex_iff by blast
  moreover from this have "r = local_ip_row rt ip"
    using assms by (auto simp: ip_key_def local_ip_row_def)
  ultimately show ?thesis using True by (auto simp: insert_or_ignore_def)
next
  case False
  then show ?thesis by (auto simp: insert_or_ignore_def)
qed

lemma merged_rows_set:
  "set (merged_rows rt merged rows) =
     {r \<in> set rows. ir_rule_type r \<noteq> rt} \<union> local_ip_row rt ` set merged"
proof -
  have "\<forall>r \<in> set rs. ir_rule_type r = rt \<longrightarrow> r = local_ip_row rt (ir_ip r) \<Longrightarrow>
    set (foldl (\<lambda>rs ip. fst (insert_or_ignore ip_key (local_ip_row rt ip) rs)) rs merged) =
    set rs \<union> local_ip_row rt ` set merged" for rs
  proof (induction merged arbitrary: rs)
    case (Cons ip merged)
    let ?rs = "fst (insert_or_ignore ip_key (local_ip_row rt ip) rs)"
    have s: "set ?rs = insert (local_ip_row rt ip) (set rs)"
      by (rule insert_local_set[OF Cons.prems])
    have "\<forall>r \<in> set ?rs. ir_rule_type r = rt \<longrightarrow> r = local_ip_row rt (ir_ip r)"
      unfolding s using Cons.prems by (auto simp: local_ip_row_def)
    then show ?case using Cons.IH[of ?rs] s by simp
  qed simp
  then show ?thesis by (simp add: merged_rows_def)
qed

lemma try_merge_committed:
  assumes "merge_shrinks rt e"
  shows "try_merge_ip_rules c q MergeCommitted rt e =
    load_all_rules c q (update_ip_rows (merged_rows rt (merge_ips_to_cidrs
      (map ir_ip (filter (\<lambda>r. ir_rule_type r = rt \<and> ir_enabled r = 1) (ip_rules (db e)))))) e)"
  using assms by (simp add: try_merge_ip_rules_def merge_shrinks_def Let_def)

text \<open>
  A committed merge rewrites every row of its list: afterwards all rows of the rule type
  are enabled, of source \<open>local\<close> and without an intelligence ID. Rows an administrator had
  disabled are gone, and \<open>RemoveIPRuleByIntelID\<close> finds nothing of that type to remove.
\<close>

theorem merge_rewrites_rows:
  assumes "merge_shrinks rt e"
  shows "\<forall>r \<in> set (ip_rules (db (try_merge_ip_rules c q MergeCommitted rt e))).
    ir_rule_type r = rt \<longrightarrow> r = local_ip_row rt (ir_ip r)"
proof (intro ballI impI)
  fix r
  assume "r \<in> set (ip_rules (db (try_merge_ip_rules c q MergeCommitted rt e)))" "ir_rule_type r = rt"
  then obtain i where "r = local_ip_row rt i"
    unfolding try_merge_committed[OF assms] by (auto simp: merged_rows_set)
  then show "r = local_ip_row rt (ir_ip r)" by simp
qed

definition rule_rows :: "string list \<Rightarrow> ip_row list" where
  "rule_rows = map (local_ip_row ''blacklist'')"

definition merge_engine :: rule_engine where
  "merge_engine = \<lparr>db = empty_db\<lparr>ip_rules := rule_rows sample_rules @
       [(local_ip_row ''blacklist'' (ipv4_string 0x08080808))\<lparr>ir_enabled := 0\<rparr>]\<rparr>,
     snapshot = empty_snapshot, lastVersion = 0\<rparr>"

lemma merge_engine_ips:
  "map ir_ip (filter (\<lambda>r. ir_rule_type r = ''blacklist'' \<and> ir_enabled r = 1) (ip_rules (db merge_engine)))
     = sample_rules"
  by (simp add: merge_engine_def empty_db_def rule_rows_def sample_rules_def local_ip_row_def)

lemma sample_merge: "merge_ips_to_cidrs sample_rules = [cidr4_string 0x0A000000 30]"
proof -
  have r: "List.map_filter rule_range sample_rules =
      [(0x0A000000, 0x0A000000), (0x0A000001, 0x0A000001), (0x0A000002, 0x0A000002), (0x0A000003, 0x0A000003)]"
    by (simp add: sample_rules_def List.map_filter_def rule_range_def parse_cidr_plain
        ipv4_string_chars parse_ip_string)
  have step: "max_bits_from k i best s e = (if k = 0 then best else let size = push_bit i 1 in
      if s AND (size - 1) \<noteq> 0 then best else if size - 1 > e - s then best
      else max_bits_from (k - 1) (Suc i) i s e)" for k i best s e
    by (cases k) (simp_all add: Let_def)
  have "max_bits_from 32 0 0 0x0A000000 0x0A000003 = 2"
    by (subst step, simp add: Let_def, subst step, simp add: Let_def, subst step, simp add: Let_def,
        subst step, simp add: Let_def)
  then have m: "max_bits 0x0A000000 0x0A000003 = 2"
    by (simp add: max_bits_def)
  have "range_to_cidrs 0x0A000000 0x0A000003 = [cidr4_string 0x0A000000 30]"
    by (subst range_to_cidrs.simps, simp add: m Let_def, subst range_to_cidrs.simps, simp)
  then show ?thesis
    unfolding merge_ips_to_cidrs_def Let_def r
    by (simp add: range_strings_def) (simp add: sample_rules_def)
qed

lemma merge_engine_shrinks: "merge_shrinks ''blacklist'' merge_engine"
  unfolding merge_shrinks_def merge_engine_ips Let_def sample_merge by (simp add: sample_rules_def)

theorem merge_rewrites_rows_witness:
  "\<exists>r \<in> set (ip_rules (db merge_engine)). ir_enabled r = 0 \<and>
     (\<forall>x \<in> set (ip_rules (db (try_merge_ip_rules (\<lambda>_. None) (\<lambda>_. True) MergeCommitted ''blacklist'' merge_engine))).
        ir_rule_type x = ''blacklist'' \<longrightarrow> x \<noteq> r)"
proof -
  let ?r = "(local_ip_row ''blacklist'' (ipv4_string 0x08080808))\<lparr>ir_enabled := 0\<rparr>"
  have "?r \<in> set (ip_rules (db merge_engine))" "ir_enabled ?r = 0"
    by (simp_all add: merge_engine_def)
  moreover have "x \<noteq> ?r" if "x = local_ip_row ''blacklist'' (ir_ip x)" for x
  proof
    assume "x = ?r"
    then have "ir_enabled x = 0" by simp
    moreover have "ir_enabled x = 1" by (subst that) (simp add: local_ip_row_def)
    ultimately show False by simp
  qed
  ultimately show ?thesis
    using merge_rewrites_rows[OF merge_engine_shrinks, of "\<lambda>_. None" "\<lambda>_. True"] by blast
qed

text \<open>A rule text whose reading and spelling agree: a network, or an address as Go prints it.\<close>

definition canonical_rule :: "string \<Rightarrow> bool" where
  "canonical_rule t \<longleftrightarrow> parse_cidr t \<noteq> None \<or> (case parse_ip t of Some (V4 w) \<Rightarrow> t = ipv4_string w | _ \<Rightarrow> False)"

lemma row_applies_covers:
  assumes "canonical_rule (ir_ip r)"
  shows "row_applies (ipv4_string x) (V4 x) r \<longleftrightarrow> covers [ir_ip r] (V4 x)"
proof (cases "parse_cidr (ir_ip r)")
  case None
  then obtain w where "ir_ip r = ipv4_string w"
    using assms by (auto simp: canonical_rule_def split: option.splits ip_addr.splits)
  then show ?thesis
    by (simp add: row_applies_def parse_cidr_plain ipv4_string_chars covers_single)
      (metis ip_addr.inject(1) option.inject parse_ip_string)
qed (simp add: row_applies_def covers_def)

lemma range_strings_canonical: "t \<in> set (range_strings r) \<Longrightarrow> canonical_rule t"
  by (auto simp: range_strings_def canonical_rule_def parse_ip_string parse_cidr_string
      dest!: range_to_cidrs_v4 split: if_splits)

lemma merged_canonical:
  "\<forall>s \<in> set ips. canonical_rule s \<Longrightarrow> t \<in> set (merge_ips_to_cidrs ips) \<Longrightarrow> canonical_rule t"
  by (auto simp: merge_ips_to_cidrs_def Let_def split: if_splits list.splits dest: range_strings_canonical)

lemma listed_covers:
  assumes "\<forall>r \<in> set rows. ir_rule_type r = rt \<and> ir_enabled r = 1 \<longrightarrow> canonical_rule (ir_ip r)"
  shows "listed rt (ipv4_string x) (V4 x) rows \<longleftrightarrow>
    covers (map ir_ip (filter (\<lambda>r. ir_rule_type r = rt \<and> ir_enabled r = 1) rows)) (V4 x)"
  unfolding listed_def covers_member[of "map ir_ip (filter (\<lambda>r. ir_rule_type r = rt \<and> ir_enabled r = 1) rows)"]
  using assms row_applies_covers by auto

text \<open>What the lists of the snapshot cover is what they covered before the merge.\<close>

lemma merged_listed:
  assumes "\<forall>r \<in> set rows. ir_rule_type r = rt \<and> ir_enabled r = 1 \<longrightarrow>
             plain_rule (ir_ip r) \<and> canonical_rule (ir_ip r)"
  shows "listed t (ipv4_string x) (V4 x) (merged_rows rt (merge_ips_to_cidrs
      (map ir_ip (filter (\<lambda>r. ir_rule_type r = rt \<and> ir_enabled r = 1) rows))) rows) \<longleftrightarrow>
    listed t (ipv4_string x) (V4 x) rows"
proof (cases "t = rt")
  case False
  have "ir_rule_type (local_ip_row rt i) = rt" for i by (simp add: local_ip_row_def)
  then show ?thesis using False by (auto simp: listed_def merged_rows_set)
next
  case True
  let ?s = "ipv4_string x"
  let ?ips = "map ir_ip (filter (\<lambda>r. ir_rule_type r = rt \<and> ir_enabled r = 1) rows)"
  have can: "\<forall>i \<in> set ?ips. canonical_rule i" using assms by auto
  have "listed rt ?s (V4 x) (merged_rows rt (merge_ips_to_cidrs ?ips) rows) \<longleftrightarrow>
      (\<exists>i \<in> set (merge_ips_to_cidrs ?ips). row_applies ?s (V4 x) (local_ip_row rt i))"
    unfolding listed_def merged_rows_set bex_Un by auto
  also have "\<dots> \<longleftrightarrow> (\<exists>i \<in> set (merge_ips_to_cidrs ?ips). covers [i] (V4 x))"
    by (rule bex_cong[OF refl])
      (metis merged_canonical[OF can] local_ip_row_simps(2) row_applies_covers)
  also have "\<dots> \<longleftrightarrow> covers (merge_ips_to_cidrs ?ips) (V4 x)"
    by (rule covers_member[symmetric])
  also have "\<dots> \<longleftrightarrow> covers ?ips (V4 x)"
    by (rule merge_preserves_aux) (use assms in auto)
  also have "\<dots> \<longleftrightarrow> listed rt ?s (V4 x) rows"
    by (rule listed_covers[symmetric]) (use assms in auto)
  finally show ?thesis using True by simp
qed

text \<open>The verdict after a rebuild, from the table.\<close>

lemma loaded_verdict:
  assumes "q IpRules"
  shows "Matched (is_ip_blocked (load_all_rules c q e) (ipv4_string x)) \<longleftrightarrow>
    \<not> listed ''whitelist'' (ipv4_string x) (V4 x) (ip_rules (db e)) \<and>
    listed ''blacklist'' (ipv4_string x) (V4 x) (ip_rules (db e))"
  using is_ip_blocked_rows[of "load_all_rules c q e" "ipv4_string x"]
    build_ip_rules_parts[where q = q, OF assms]
  by (simp add: snapshot_load parse_ip_string)

text \<open>
  The merge of the table keeps the verdicts: when the enabled rules of a type are IPv4
  addresses and networks in Go's spelling, a committed merge (with the rebuild it ends in)
  changes the verdict on no IPv4 address compared with loading the table as it was.
\<close>

theorem merge_keeps_verdict:
  assumes "q IpRules" and "merge_shrinks rt e"
    and "\<forall>r \<in> set (ip_rules (db e)). ir_rule_type r = rt \<and> ir_enabled r = 1 \<longrightarrow>
           plain_rule (ir_ip r) \<and> canonical_rule (ir_ip r)"
  shows "Matched (is_ip_blocked (try_merge_ip_rules c q MergeCommitted rt e) (ipv4_string x)) =
         Matched (is_ip_blocked (load_all_rules c q e) (ipv4_string x))"
  unfolding try_merge_committed[OF assms(2)] loaded_verdict[where q = q, OF assms(1)] update_ip_rows_simps
    merged_listed[OF assms(3)] ..

theorem merge_keeps_verdict_witness:
  "Matched (is_ip_blocked (try_merge_ip_rules (\<lambda>_. None) (\<lambda>_. True) MergeCommitted ''blacklist'' merge_engine)
     (ipv4_string 0x0A000002)) =
   Matched (is_ip_blocked (load_all_rules (\<lambda>_. None) (\<lambda>_. True) merge_engine) (ipv4_string 0x0A000002))"
proof (rule merge_keeps_verdict[OF _ merge_engine_shrinks])
  show "\<forall>r \<in> set (ip_rules (db merge_engine)). ir_rule_type r = ''blacklist'' \<and> ir_enabled r = 1 \<longrightarrow>
      plain_rule (ir_ip r) \<and> canonical_rule (ir_ip r)"
    by (simp add: merge_engine_def rule_rows_def sample_rules_def local_ip_row_def plain_rule_address
        canonical_rule_def parse_ip_string parse_cidr_plain ipv4_string_chars)
qed simp

subsection \<open>Operations that keep the snapshot current\<close>

definition current :: "regexp \<Rightarrow> rule_engine \<Rightarrow> bool" where
  "current c e \<longleftrightarrow> snapshot e = build_rule_snapshot c (\<lambda>_. True) (db e)"

lemma current_load: "current c (load_all_rules c (\<lambda>_. True) e)"
  by (simp add: current_def snapshot_load)

lemma current_exec: "current c e \<Longrightarrow> current c (snd (exec_then_load c (\<lambda>_. True) fail f e))"
  by (simp add: exec_then_load_def current_load split: option.split)

lemma rules_exec_error: "exec_then_load c q (Some err) f e = (Inl err, e)"
  by (simp add: exec_then_load_def)

inductive reload_step :: "regexp \<Rightarrow> rule_engine \<Rightarrow> rule_engine \<Rightarrow> bool" for c where
  add_ua: "reload_step c e (snd (add_ua_rule c (\<lambda>_. True) fail rt mt p d e))"
| remove_ua: "reload_step c e (snd (remove_ua_rule c (\<lambda>_. True) fail rt p e))"
| update_ua: "reload_step c e (snd (update_ua_rule c (\<lambda>_. True) fail i rt mt p d en e))"
| toggle_ua: "reload_step c e (snd (toggle_ua_rule c (\<lambda>_. True) fail i e))"
| source_ua: "reload_step c e (snd (add_ua_rule_with_source c (\<lambda>_. True) fail rt mt p s intel e))"
| intel_ua: "reload_step c e (remove_ua_rule_by_intel_id c (\<lambda>_. True) ok intel e)"
| add_path: "reload_step c e (snd (add_path_rule c (\<lambda>_. True) fail rt mt p d e))"
| remove_path: "reload_step c e (snd (remove_path_rule c (\<lambda>_. True) fail rt p e))"
| update_path: "reload_step c e (snd (update_path_rule c (\<lambda>_. True) fail i rt mt p d en e))"
| toggle_path: "reload_step c e (snd (toggle_path_rule c (\<lambda>_. True) fail i e))"
| source_path: "reload_step c e (snd (add_path_rule_with_source c (\<lambda>_. True) fail rt mt p s intel e))"
| intel_path: "reload_step c e (remove_path_rule_by_intel_id c (\<lambda>_. True) ok intel e)"
| add_geo: "reload_step c e (snd (add_geo_rule c (\<lambda>_. True) fail mode country en e))"
| update_geo: "reload_step c e (snd (update_geo_rule c (\<lambda>_. True) fail i mode country en e))"
| remove_geo: "reload_step c e (snd (remove_geo_rule c (\<lambda>_. True) fail i e))"
| enable_ip: "reload_step c e (snd (set_ip_rule_enabled c (\<lambda>_. True) fail rt ip en e))"
| remove_ip: "reload_step c e (snd (remove_ip_rule c (\<lambda>_. True) outcome fail rt ip e))"
| intel_ip: "reload_step c e (remove_ip_rule_by_intel_id c (\<lambda>_. True) ok intel e)"
| builtin: "reload_step c e (auto_manage_builtin_rules c (\<lambda>_. True) conn e)"
| migrate: "reload_step c e (migrate_ua_blacklist_to_bot c (\<lambda>_. True) e)"
| tick: "reload_step c e (refresh_tick c (\<lambda>_. True) v e)"

lemma current_merge: "current c e \<Longrightarrow> current c (try_merge_ip_rules c (\<lambda>_. True) outcome rt e)"
  by (simp add: try_merge_ip_rules_def Let_def current_load split: merge_outcome.split)

lemma current_migrate: "current c e \<Longrightarrow> current c (migrate_ua_blacklist_to_bot c (\<lambda>_. True) e)"
  unfolding migrate_ua_blacklist_to_bot_def Let_def by (simp only: current_load if_split) blast

lemma current_version: "current c (e\<lparr>lastVersion := v\<rparr>) = current c e"
  by (simp add: current_def)

lemma current_tick: "current c e \<Longrightarrow> current c (refresh_tick c (\<lambda>_. True) v e)"
  by (auto simp: refresh_tick_def has_rule_changed_def current_load current_version split: option.split)

lemmas pattern_ops =
  add_ua_rule_def remove_ua_rule_def update_ua_rule_def toggle_ua_rule_def add_ua_rule_with_source_def
  add_path_rule_def remove_path_rule_def update_path_rule_def toggle_path_rule_def
  add_path_rule_with_source_def add_geo_rule_def update_geo_rule_def remove_geo_rule_def

text \<open>
  One after another, the operations that reload keep the snapshot current: when the queries succeed, every
  sequence of user-agent, path and geo operations, of removals, enabling and intelligence
  clean-ups of IP rules, of built-in rule management, migration and refreshes, each ending
  in success or in an error, leaves the snapshot equal to what the tables say.
\<close>

theorem reload_keeps_current:
  assumes "(reload_step c)\<^sup>*\<^sup>* e e'" and "current c e"
  shows "current c e'"
  using assms
proof (induction rule: rtranclp_induct)
  case (step y z)
  from step(2) step(3)[OF step(4)] show ?case
  proof cases
    case (remove_ip outcome fail rt ip)
    then show ?thesis
      using step(3)[OF step(4)]
      by (simp add: remove_ip_rule_def current_merge current_load split: option.split)
  next
    case (enable_ip fail rt ip en)
    then show ?thesis
      using step(3)[OF step(4)] by (simp add: set_ip_rule_enabled_def current_load split: option.split)
  qed (simp_all add: pattern_ops current_exec current_load current_migrate current_tick
      remove_ua_rule_by_intel_id_def remove_path_rule_by_intel_id_def remove_ip_rule_by_intel_id_def
      auto_manage_builtin_rules_def Let_def)
qed

lemma sample_current: "current (\<lambda>_. None) (load_all_rules (\<lambda>_. None) (\<lambda>_. True) sample_engine)"
  by (rule current_load)

theorem reload_keeps_current_witness:
  "current (\<lambda>_. None) (snd (toggle_path_rule (\<lambda>_. None) (\<lambda>_. True) None 1
     (load_all_rules (\<lambda>_. None) (\<lambda>_. True) sample_engine)))"
  by (rule reload_keeps_current[OF r_into_rtranclp sample_current]) (rule toggle_path)

subsection \<open>Path rules\<close>

text \<open>
  C21. Percent-encoding does not evade the path rules: whichever bytes of a path without percent signs are
  encoded, in at most as many layers as the snapshot's decoder has rounds (two in the program), \<open>CheckPath\<close>
  gives the encoded path the verdict of the plain one, namely that of its normal form. A third layer and an
  escape that cannot be decoded are outside it.
\<close>

theorem encoding_does_not_evade:
  assumes "CHR ''%'' \<notin> set p" and "(encodes ^^ k) q p"
    and "pathDecoder (snapshot e) = Some d" "pd_enabled d" "k \<le> nat (pd_maxDecodeRounds d)"
  shows "check_path e q = check_path e p \<and>
    (Matched (check_path e q) \<longleftrightarrow>
       \<not> list_ex (match_path (normalize_path p)) (pathWhitelist (snapshot e)) \<and>
       list_ex (match_path (normalize_path p)) (pathBlacklist (snapshot e)))"
proof -
  have "decode d q = (normalize_path p, False)" "decode d p = (normalize_path p, False)"
    using decode_layers[OF assms(2,1,4,5)] decode_layers[of 0 p p d] assms(1,4) by simp_all
  then show ?thesis
    using assms(3) by (simp add: check_path_def Let_def no_match_def list_ex_find split: option.split)
qed

definition git_engine :: rule_engine where
  "git_engine =
     \<lparr>db = empty_db,
      snapshot = empty_snapshot
        \<lparr>pathDecoder := Some (new_path_decoder True 2),
         pathBlacklist := [\<lparr>mr_Pattern = ''/.git'', mr_MatchType = ''prefix'', mr_Regex = None, mr_Source = ''''\<rparr>]\<rparr>,
      lastVersion = 0\<rparr>"

theorem encoding_does_not_evade_witness:
  "Matched (check_path git_engine ''/x/%2e./.gi%74/c%6Fnfig'')"
proof -
  have "normalize_path ''/x/../.git/config'' = ''/.git/config''"
    by (simp add: normalize_path_def max_path_length_def norm_step_def has_prefix_def)
  moreover have "(encodes ^^ 1) ''/x/%2e./.gi%74/c%6Fnfig'' ''/x/../.git/config''"
    unfolding relpowp_1 encodes_iff by code_simp
  note conjunct2[OF encoding_does_not_evade[OF _ this, of git_engine "new_path_decoder True 2"]]
  ultimately show ?thesis
    by (simp add: git_engine_def empty_snapshot_def match_path_def has_prefix_def Let_def new_path_decoder_def)
qed

text \<open>
  An undecodable escape evades the path rules: when the decoder reports an error,
  \<open>CheckPath\<close> throws its answer away, normalisation included, and matches the raw path. A
  path with a dot segment and one broken escape passes a rule on \<open>/.git\<close> that stops the same
  path without the escape.
\<close>

theorem broken_escape_evades:
  "check_path git_engine ''/./.git/%zz/../config'' = no_match \<and>
   Matched (check_path git_engine ''/./.git/x/../config'') \<and>
   fst (decode (new_path_decoder True 2) ''/./.git/%zz/../config'') = ''/.git/config''"
proof -
  have d1: "decode (new_path_decoder True 2) ''/./.git/%zz/../config'' = (''/.git/config'', True)"
    by (simp add: decode_def new_path_decoder_def numeral_2_eq_2 has_prefix_def hex_val_def is_digit_iff
        less_eq_char_def normalize_path_def max_path_length_def norm_step_def)
  have d2: "decode (new_path_decoder True 2) ''/./.git/x/../config'' = (''/.git/config'', False)"
    by (simp add: decode_def new_path_decoder_def numeral_2_eq_2 has_prefix_def
        normalize_path_def max_path_length_def norm_step_def)
  show ?thesis
    by (simp add: check_path_def git_engine_def empty_snapshot_def d1 d2 match_path_def has_prefix_def
        no_match_def Let_def)
qed

subsection \<open>Built-in rules and the migration\<close>

text \<open>
  Losing the connection to the intelligence centre switches every built-in rule back on,
  also those an administrator had switched off; the regained connection switches off those
  an intelligence rule has the pattern of, and no others.
\<close>

theorem builtin_rules_follow_connection:
  "(\<forall>r \<in> set (ua_rules (db (auto_manage_builtin_rules c q False e))).
      pr_source r = ''builtin'' \<longrightarrow> pr_enabled r = 1) \<and>
   (\<forall>r \<in> set (ua_rules (db (auto_manage_builtin_rules c q True e))).
      pr_source r = ''builtin'' \<longrightarrow>
      (\<exists>x \<in> set (ua_rules (db e)). pr_source x = ''intel'' \<and> pr_pattern x = pr_pattern r) \<longrightarrow>
      pr_enabled r = 0) \<and>
   map pr_id (ua_rules (db (auto_manage_builtin_rules c q conn e))) = map pr_id (ua_rules (db e))"
proof -
  have db: "ua_rules (db (auto_manage_builtin_rules c q b e)) =
      (if b then disable_covered else enable_builtin) (ua_rules (db e))" for b
    by (simp add: auto_manage_builtin_rules_def with_path_table_def with_ua_table_def ua_table_def
        path_table_def Let_def)
  have "map pr_id (disable_covered rows) = map pr_id rows" "map pr_id (enable_builtin rows) = map pr_id rows" for rows
    by (simp_all add: disable_covered_def enable_builtin_def)
  then have "map pr_id (ua_rules (db (auto_manage_builtin_rules c q conn e))) = map pr_id (ua_rules (db e))"
    unfolding db by simp
  then show ?thesis
    unfolding db by (auto simp: disable_covered_def enable_builtin_def list_ex_iff)
qed

definition builtin_engine :: rule_engine where
  "builtin_engine =
     \<lparr>db = empty_db\<lparr>ua_rules := [\<lparr>pr_id = 7, pr_rule_type = ''blacklist'', pr_match_type = ''contains'',
        pr_pattern = ''sqlmap'', pr_description = '''', pr_enabled = 0, pr_source = ''builtin'',
        pr_intel_id = None\<rparr>]\<rparr>,
      snapshot = empty_snapshot, lastVersion = 0\<rparr>"

theorem builtin_rules_follow_connection_witness:
  "map pr_id (ua_rules (db (auto_manage_builtin_rules (\<lambda>_. None) (\<lambda>_. True) False builtin_engine))) = [7]"
  using builtin_rules_follow_connection[of "\<lambda>_. None" "\<lambda>_. True" builtin_engine True]
    builtin_rules_follow_connection[of "\<lambda>_. None" "\<lambda>_. True" builtin_engine False]
  by (simp add: builtin_engine_def empty_db_def)

definition migrated :: "pattern_row list \<Rightarrow> bool" where
  "migrated rows \<longleftrightarrow> (\<forall>r \<in> set rows. \<forall>k \<in> set malicious_ua_keywords. \<not> to_migrate k r)"

lemma migrate_row_done: "\<not> to_migrate k (migrate_row r)"
  by (simp add: to_migrate_def migrate_row_def)

lemma migrate_keyword_keeps:
  "\<forall>r \<in> set rows. \<not> to_migrate k r \<Longrightarrow> \<forall>r \<in> set (migrate_keyword rows k'). \<not> to_migrate k r"
  by (auto simp: migrate_keyword_def migrate_row_done)

lemma migrate_keyword_done: "\<forall>r \<in> set (migrate_keyword rows k). \<not> to_migrate k r"
  by (auto simp: migrate_keyword_def migrate_row_done)

lemma foldl_migrate_keeps:
  "\<forall>r \<in> set rows. \<not> to_migrate k r \<Longrightarrow> \<forall>r \<in> set (foldl migrate_keyword rows ks). \<not> to_migrate k r"
proof (induction ks arbitrary: rows)
  case (Cons k' ks)
  then show ?case using migrate_keyword_keeps[OF Cons.prems, of k'] by simp
qed simp

lemma foldl_migrate_done:
  "k \<in> set ks \<Longrightarrow> \<forall>r \<in> set (foldl migrate_keyword rows ks). \<not> to_migrate k r"
proof (induction ks arbitrary: rows)
  case (Cons k' ks)
  show ?case
  proof (cases "k = k'")
    case True
    then show ?thesis
      using foldl_migrate_keeps[OF migrate_keyword_done, of rows k ks] by simp
  next
    case False
    then show ?thesis using Cons by simp
  qed
qed simp

lemma migrate_fixpoint:
  assumes "migrated rows"
  shows "set ks \<subseteq> set malicious_ua_keywords \<Longrightarrow> foldl migrate_keyword rows ks = rows"
proof (induction ks)
  case (Cons k ks)
  have "migrate_keyword rows k = rows"
    using assms Cons.prems unfolding migrate_keyword_def migrated_def
    by (intro map_idI) auto
  then show ?case using Cons by simp
qed simp

text \<open>
  The migration of the scanner rules is complete and idempotent: afterwards no enabled
  blacklist row names one of the tools, whatever the letter case, so \<open>CheckUA\<close> never fires on
  one; running it again changes nothing; and rows that name no tool are untouched.
\<close>

theorem ua_migration:
  "migrated (ua_rules (db (migrate_ua_blacklist_to_bot c q e))) \<and>
   migrate_ua_blacklist_to_bot c q (migrate_ua_blacklist_to_bot c q e) = migrate_ua_blacklist_to_bot c q e"
proof -
  let ?rows = "foldl migrate_keyword (ua_rules (db e)) malicious_ua_keywords"
  have rows: "ua_rules (db (migrate_ua_blacklist_to_bot c q e)) = ?rows"
    by (simp add: migrate_ua_blacklist_to_bot_def Let_def with_ua_table_def ua_table_def)
  have all: "migrated ?rows"
    unfolding migrated_def using foldl_migrate_done by blast
  then have "foldl migrate_keyword ?rows malicious_ua_keywords = ?rows"
    by (rule migrate_fixpoint) simp
  then have "migrate_ua_blacklist_to_bot c q (migrate_ua_blacklist_to_bot c q e) = migrate_ua_blacklist_to_bot c q e"
    unfolding migrate_ua_blacklist_to_bot_def[of c q "migrate_ua_blacklist_to_bot c q e"] rows Let_def by simp
  then show ?thesis using all rows by simp
qed

end
