(* ===== verification/RuleRace.thy ===== *)
theory RuleRace
  imports RuleProps
begin

text \<open>
  The rule engine under concurrency. An operation on a rule runs its statement and then \<open>loadAllRules\<close>, which reads the six
  tables with one query each, takes \<open>configMu\<close> for the store alone and stores the snapshot it built
  (\<open>engine.go\<close>, \<open>snapshot.go\<close>). Statements, queries and stores of all goroutines interleave here. The
  clean-ups of the intelligence service hold \<open>configMu\<close> all along, which forbids some of these orders and allows no new one.

  Proved: when no operation is under way, the snapshot is what the tables say, provided the load that stored it was clean,
  that is no statement came between its first query and its store and no query failed. A load that was overtaken can
  store last: then a rule that was removed is enforced, or one that was added is not, until the next load.
\<close>

section \<open>The steps\<close>

definition loaded_tables :: "rule_table list" where
  "loaded_tables = [IpRules, UaRules, PathRules, GeoRules, AllowedMethods, PathRateLimits]"

definition read_table :: "rule_table \<Rightarrow> rules_db \<Rightarrow> rules_db \<Rightarrow> rules_db" where
  "read_table t d seen =
     (case t of
        IpRules \<Rightarrow> seen\<lparr>ip_rules := ip_rules d\<rparr>
      | UaRules \<Rightarrow> seen\<lparr>ua_rules := ua_rules d\<rparr>
      | PathRules \<Rightarrow> seen\<lparr>path_rules := path_rules d\<rparr>
      | GeoRules \<Rightarrow> seen\<lparr>geo_rules := geo_rules d\<rparr>
      | AllowedMethods \<Rightarrow> seen\<lparr>allowed_methods := allowed_methods d\<rparr>
      | PathRateLimits \<Rightarrow> seen\<lparr>path_rate_limits := path_rate_limits d\<rparr>)"

text \<open>
  Where a goroutine is: it has run a statement and has to load; or it has made so many queries, and these are the
  rows they answered, which of them worked, and whether the load has been clean so far.
\<close>

datatype load_pc = Idle | Wrote | Loading nat rules_db queries bool

record rule_system =
  rs_engine :: rule_engine
  rs_pc :: "nat \<Rightarrow> load_pc"
  rs_clean :: bool

fun overtake :: "load_pc \<Rightarrow> load_pc" where
  "overtake (Loading k seen q clean) = Loading k seen q False"
| "overtake pc = pc"

text \<open>A statement may change the tables in any way; what the operations of the engine do to them is a case of it.\<close>

inductive rule_step :: "regexp \<Rightarrow> rule_system \<Rightarrow> rule_system \<Rightarrow> bool" for c where
  statement: "rs_pc s t \<in> {Idle, Wrote}
    \<Longrightarrow> rule_step c s (s\<lparr>rs_engine := (rs_engine s)\<lparr>db := d\<rparr>, rs_pc := (\<lambda>u. overtake (rs_pc s u))(t := Wrote)\<rparr>)"
| load: "rs_pc s t \<in> {Idle, Wrote}
    \<Longrightarrow> rule_step c s (s\<lparr>rs_pc := (rs_pc s)(t := Loading 0 empty_db (\<lambda>_. False) True)\<rparr>)"
| query: "rs_pc s t = Loading k seen q clean \<Longrightarrow> k < length loaded_tables
    \<Longrightarrow> rule_step c s (s\<lparr>rs_pc := (rs_pc s)(t := Loading (Suc k) (read_table (loaded_tables ! k) (db (rs_engine s)) seen)
          (q(loaded_tables ! k := ok)) (clean \<and> ok))\<rparr>)"
| store: "rs_pc s t = Loading (length loaded_tables) seen q clean
    \<Longrightarrow> rule_step c s (s\<lparr>rs_engine := (rs_engine s)\<lparr>snapshot := build_rule_snapshot c q seen\<rparr>,
          rs_pc := (rs_pc s)(t := Idle), rs_clean := clean\<rparr>)"
| version: "rule_step c s (s\<lparr>rs_engine := (rs_engine s)\<lparr>lastVersion := v\<rparr>\<rparr>)"

definition rules_at_rest :: "rule_system \<Rightarrow> bool" where
  "rules_at_rest s \<longleftrightarrow> (\<forall>t. rs_pc s t = Idle)"


section \<open>What a load has seen\<close>

text \<open>The rows of a table, whatever their type.\<close>

definition same_table :: "rules_db \<Rightarrow> rules_db \<Rightarrow> rule_table \<Rightarrow> bool" where
  "same_table d d' t \<longleftrightarrow>
     (case t of
        IpRules \<Rightarrow> ip_rules d = ip_rules d'
      | UaRules \<Rightarrow> ua_rules d = ua_rules d'
      | PathRules \<Rightarrow> path_rules d = path_rules d'
      | GeoRules \<Rightarrow> geo_rules d = geo_rules d'
      | AllowedMethods \<Rightarrow> allowed_methods d = allowed_methods d'
      | PathRateLimits \<Rightarrow> path_rate_limits d = path_rate_limits d')"

lemma same_table_read: "same_table (read_table t d seen) d u = (u = t \<or> same_table seen d u)"
  by (cases t; cases u) (simp_all add: same_table_def read_table_def)

lemma loaded_tables_all: "set loaded_tables = UNIV"
  by (auto simp: loaded_tables_def) (metis rule_table.exhaust)

lemma build_same: "(\<And>t. same_table d d' t) \<Longrightarrow> build_rule_snapshot c q d = build_rule_snapshot c q d'"
proof -
  assume "\<And>t. same_table d d' t"
  from this[of IpRules] this[of UaRules] this[of PathRules] this[of GeoRules] this[of AllowedMethods] this[of PathRateLimits]
  show ?thesis
    by (simp add: same_table_def build_rule_snapshot_def build_ip_rules_def build_ua_rules_def build_path_rules_def
        build_geo_rules_def build_allowed_methods_def build_path_rate_limits_def cong: if_cong)
qed

fun load_ok :: "rules_db \<Rightarrow> load_pc \<Rightarrow> bool" where
  "load_ok d (Loading k seen q clean) =
     (clean \<longrightarrow> (\<forall>t \<in> set (take k loaded_tables). same_table seen d t \<and> q t))"
| "load_ok d pc = True"


lemma load_ok_query:
  assumes "load_ok d (Loading k seen q clean)" "k < length loaded_tables"
  shows "load_ok d (Loading (Suc k) (read_table (loaded_tables ! k) d seen) (q(loaded_tables ! k := ok)) (clean \<and> ok))"
  using assms by (auto simp: take_Suc_conv_app_nth same_table_read)

lemma load_ok_store:
  assumes "load_ok d (Loading (length loaded_tables) seen q True)"
  shows "build_rule_snapshot c q seen = build_rule_snapshot c (\<lambda>_. True) d"
proof -
  have "same_table seen d t" "q t" for t
    using assms by (auto simp: loaded_tables_all)
  then have "q = (\<lambda>_. True)" and "build_rule_snapshot c q seen = build_rule_snapshot c q d"
    by (auto intro!: build_same)
  then show ?thesis by simp
qed





section \<open>An operation alone\<close>

lemma queries_in_steps:
  assumes "rs_pc s t \<in> {Idle, Wrote}" "k \<le> length loaded_tables"
  shows "\<exists>seen q. (rule_step c)\<^sup>*\<^sup>* s (s\<lparr>rs_pc := (rs_pc s)(t := Loading k seen q True)\<rparr>) \<and>
    load_ok (db (rs_engine s)) (Loading k seen q True)"
  using assms(2)
proof (induction k)
  case 0
  show ?case
    by (intro exI[of _ empty_db] exI[of _ "\<lambda>_. False"] conjI r_into_rtranclp load assms(1)) simp
next
  case (Suc k)
  let ?d = "db (rs_engine s)"
  obtain seen q where s: "(rule_step c)\<^sup>*\<^sup>* s (s\<lparr>rs_pc := (rs_pc s)(t := Loading k seen q True)\<rparr>)"
    and ok: "load_ok ?d (Loading k seen q True)"
    using Suc.IH Suc.prems Suc_leD by blast
  let ?seen = "read_table (loaded_tables ! k) ?d seen" and ?q = "q(loaded_tables ! k := True)"
  have k: "k < length loaded_tables" using Suc.prems by simp
  have "rule_step c (s\<lparr>rs_pc := (rs_pc s)(t := Loading k seen q True)\<rparr>)
      (s\<lparr>rs_pc := (rs_pc s)(t := Loading (Suc k) ?seen ?q True)\<rparr>)"
    using query[of "s\<lparr>rs_pc := (rs_pc s)(t := Loading k seen q True)\<rparr>" t k seen q True c True] k by simp
  moreover have "load_ok ?d (Loading (Suc k) ?seen ?q True)"
    using load_ok_query[OF ok k, of True] by simp
  ultimately show ?case using s by (meson rtranclp.rtrancl_into_rtrancl)
qed

text \<open>A load that nothing interrupts is \<open>load_all_rules\<close>, and clean.\<close>

lemma load_in_steps:
  assumes "rs_pc s t \<in> {Idle, Wrote}"
  shows "(rule_step c)\<^sup>*\<^sup>* s (s\<lparr>rs_engine := load_all_rules c (\<lambda>_. True) (rs_engine s), rs_pc := (rs_pc s)(t := Idle), rs_clean := True\<rparr>)"
proof -
  obtain seen q where s: "(rule_step c)\<^sup>*\<^sup>* s (s\<lparr>rs_pc := (rs_pc s)(t := Loading (length loaded_tables) seen q True)\<rparr>)"
    and ok: "load_ok (db (rs_engine s)) (Loading (length loaded_tables) seen q True)"
    using queries_in_steps[OF assms order_refl] by blast
  have "rule_step c (s\<lparr>rs_pc := (rs_pc s)(t := Loading (length loaded_tables) seen q True)\<rparr>)
      (s\<lparr>rs_engine := load_all_rules c (\<lambda>_. True) (rs_engine s), rs_pc := (rs_pc s)(t := Idle), rs_clean := True\<rparr>)"
    using store[of "s\<lparr>rs_pc := (rs_pc s)(t := Loading (length loaded_tables) seen q True)\<rparr>" t seen q True c]
    by (simp add: load_all_rules_def load_ok_store[OF ok])
  with s show ?thesis by (rule rtranclp.rtrancl_into_rtrancl)
qed



section \<open>A load that is overtaken\<close>

text \<open>
  A rule that was added is not in force: one goroutine has made its queries (the five-second ticker, say); another one adds
  the rule, loads and stores; then the first stores what it read before. Everything has finished, the table has the rule
  and the snapshot does not, until the next load.
\<close>

theorem added_rule_not_in_force:
  fixes e :: rule_engine and c :: regexp
  defines "s0 \<equiv> \<lparr>rs_engine = load_all_rules c (\<lambda>_. True) e, rs_pc = (\<lambda>_. Idle), rs_clean = True\<rparr>"
  shows "\<exists>s. (rule_step c)\<^sup>*\<^sup>* s0 s \<and> rules_at_rest s \<and> \<not> rs_clean s \<and> db (rs_engine s) = d \<and>
    snapshot (rs_engine s) = build_rule_snapshot c (\<lambda>_. True) (db e)"
proof -
  let ?e = "load_all_rules c (\<lambda>_. True) e"
  obtain seen q where s1: "(rule_step c)\<^sup>*\<^sup>* s0 (s0\<lparr>rs_pc := (rs_pc s0)(1 := Loading (length loaded_tables) seen q True)\<rparr>)"
    and ok: "load_ok (db (rs_engine s0)) (Loading (length loaded_tables) seen q True)"
    using queries_in_steps[of s0 1 "length loaded_tables" c] by (auto simp: s0_def simp del: fun_upd_apply)
  let ?l = "Loading (length loaded_tables) seen q"
  let ?s1 = "\<lparr>rs_engine = ?e, rs_pc = (\<lambda>_. Idle)(1 := ?l True), rs_clean = True\<rparr>"
  let ?s2 = "\<lparr>rs_engine = ?e\<lparr>db := d\<rparr>, rs_pc = (\<lambda>u. overtake (((\<lambda>_. Idle)(1 := ?l True)) u))(2 := Wrote), rs_clean = True\<rparr>"
  have s2: "rule_step c ?s1 ?s2"
    using statement[of ?s1 2 c d] by simp
  have pc: "(\<lambda>u. overtake (((\<lambda>_. Idle)(1 := ?l True)) u))(2 := Wrote, 2 := Idle) =
      ((\<lambda>_. Idle)(1 := ?l False) :: nat \<Rightarrow> load_pc)"
    by (rule ext) simp
  let ?s3 = "\<lparr>rs_engine = load_all_rules c (\<lambda>_. True) (?e\<lparr>db := d\<rparr>), rs_pc = (\<lambda>_. Idle)(1 := ?l False), rs_clean = True\<rparr>"
  have s3: "(rule_step c)\<^sup>*\<^sup>* ?s2 ?s3"
    using load_in_steps[of ?s2 2 c] pc by simp
  let ?s4 = "\<lparr>rs_engine = (load_all_rules c (\<lambda>_. True) (?e\<lparr>db := d\<rparr>))\<lparr>snapshot := build_rule_snapshot c q seen\<rparr>,
      rs_pc = (\<lambda>_. Idle), rs_clean = False\<rparr>"
  have s4: "rule_step c ?s3 ?s4"
    using store[of ?s3 1 seen q False c] by (simp add: fun_upd_idem)
  have "(rule_step c)\<^sup>*\<^sup>* s0 ?s4"
    using s1 s2 s3 s4 unfolding s0_def by (simp add: rtranclp.rtrancl_into_rtrancl)
  moreover have "build_rule_snapshot c q seen = build_rule_snapshot c (\<lambda>_. True) (db e)"
    using load_ok_store[OF ok] by (simp add: s0_def load_all_rules_def)
  ultimately show ?thesis
    by (intro exI[of _ ?s4]) (simp add: rules_at_rest_def load_all_rules_def)
qed


end
