(* ===== verification/Http.thy ===== *)
theory Http
  imports PathDecode
begin

text \<open>
  What the program uses of Go's \<open>net/http\<close>, \<open>net/textproto\<close> and \<open>net/url\<close>: headers under
  canonical keys, the header map a server hands to its handler, and query strings.

  A header map is a function from keys to the values under that key, in order; a key that is
  absent has none. \<open>server_headers\<close> is the map \<open>net/http\<close> builds from the header lines of a
  request: every key in canonical form, \<open>Host\<close> moved to \<open>Request.Host\<close> and
  \<open>Transfer-Encoding\<close> consumed by the transport.

  A parsed query is the list of its keys, in the order of their first appearance, with their
  values; Go's map has no order, so code that ranges over it takes the order as an argument.
\<close>

subsection \<open>Headers\<close>

type_synonym headers = "string \<Rightarrow> string list"

definition is_token_char :: "char \<Rightarrow> bool" where
  "is_token_char c =
     (is_digit c \<or> (CHR ''a'' \<le> c \<and> c \<le> CHR ''z'') \<or> (CHR ''A'' \<le> c \<and> c \<le> CHR ''Z'') \<or>
      c \<in> set ''!#$%&*+-.^_|'' \<or> c \<in> {CHR 0x27, CHR 0x60, CHR 0x7E})"

fun canonical_from :: "bool \<Rightarrow> string \<Rightarrow> string" where
  "canonical_from up [] = []"
| "canonical_from up (c # s) =
     (if up then upper_char c else lower_char c) # canonical_from (c = CHR ''-'') s"

definition canonical_key :: "string \<Rightarrow> string" where
  "canonical_key k = (if list_all is_token_char k then canonical_from True k else k)"

definition header_values :: "headers \<Rightarrow> string \<Rightarrow> string list" where
  "header_values h k = h (canonical_key k)"

definition header_get :: "headers \<Rightarrow> string \<Rightarrow> string" where
  "header_get h k = (case header_values h k of [] \<Rightarrow> '''' | v # _ \<Rightarrow> v)"

text \<open>\<open>Header.Set\<close>, \<open>Header.Add\<close> and \<open>Header.Del\<close>.\<close>

definition header_set :: "string \<Rightarrow> string \<Rightarrow> headers \<Rightarrow> headers" where
  "header_set k v h = h(canonical_key k := [v])"

definition header_add :: "string \<Rightarrow> string \<Rightarrow> headers \<Rightarrow> headers" where
  "header_add k v h = h(canonical_key k := h (canonical_key k) @ [v])"

definition header_del :: "string \<Rightarrow> headers \<Rightarrow> headers" where
  "header_del k h = h(canonical_key k := [])"

definition no_headers :: headers where
  "no_headers k = []"

definition server_headers :: "(string \<times> string) list \<Rightarrow> headers" where
  "server_headers lines k =
     (if k = ''Host'' \<or> k = ''Transfer-Encoding'' then []
      else map snd (filter (\<lambda>(name, v). canonical_key name = k) lines))"

lemma upper_lower_char [simp]:
  "upper_char (lower_char c) = upper_char c" "lower_char (upper_char c) = lower_char c"
  "lower_char (lower_char c) = lower_char c"
  by (auto simp: upper_char_def lower_char_def Let_def)

lemma of_char_upper:
  "(of_char (upper_char c) :: nat) = (if 97 \<le> (of_char c :: nat) \<and> of_char c \<le> (122 :: nat) then of_char c - 32 else of_char c)"
  by (auto simp: upper_char_def Let_def)

lemma of_char_lower:
  "(of_char (lower_char c) :: nat) = (if 65 \<le> (of_char c :: nat) \<and> of_char c \<le> (90 :: nat) then of_char c + 32 else of_char c)"
  by (auto simp: lower_char_def Let_def)

lemma is_dash: "c = CHR ''-'' \<longleftrightarrow> (of_char c :: nat) = 45"
  using of_char_eq_iff [of c "CHR ''-''", where ?'a = nat] by simp

lemma dash_case [simp]:
  "upper_char c = CHR ''-'' \<longleftrightarrow> c = CHR ''-''" "lower_char c = CHR ''-'' \<longleftrightarrow> c = CHR ''-''"
  unfolding is_dash of_char_upper of_char_lower by auto

lemma canonical_from_idem: "canonical_from up (canonical_from up s) = canonical_from up s"
  by (induction s arbitrary: up) auto

lemma upper_char_cases:
  "upper_char c = c \<or> (CHR ''A'' \<le> upper_char c \<and> upper_char c \<le> CHR ''Z'')"
  "lower_char c = c \<or> (CHR ''a'' \<le> lower_char c \<and> lower_char c \<le> CHR ''z'')"
  by (auto simp: upper_char_def lower_char_def Let_def less_eq_char_def)

lemma is_token_case [simp]:
  "is_token_char c \<Longrightarrow> is_token_char (upper_char c)" "is_token_char c \<Longrightarrow> is_token_char (lower_char c)"
  using upper_char_cases[of c] by (auto simp: is_token_char_def)

lemma canonical_from_token: "list_all is_token_char s \<Longrightarrow> list_all is_token_char (canonical_from up s)"
  by (induction s arbitrary: up) auto

lemma canonical_key_idem [simp]: "canonical_key (canonical_key k) = canonical_key k"
  by (simp add: canonical_key_def canonical_from_token canonical_from_idem)

lemma header_get_set [simp]:
  "header_get (header_set k v h) k' = (if canonical_key k' = canonical_key k then v else header_get h k')"
  by (simp add: header_get_def header_values_def header_set_def)

lemma header_get_del [simp]:
  "header_get (header_del k h) k' = (if canonical_key k' = canonical_key k then '''' else header_get h k')"
  by (simp add: header_get_def header_values_def header_del_def)

text \<open>A key that is not in canonical form is never found by indexing the map directly.\<close>

lemma server_headers_non_canonical [simp]:
  "canonical_key k \<noteq> k \<Longrightarrow> server_headers lines k = []"
  by (auto simp: server_headers_def filter_empty_conv)

lemma server_headers_consumed [simp]:
  "server_headers lines ''Host'' = []" "server_headers lines ''Transfer-Encoding'' = []"
  by (simp_all add: server_headers_def)

subsection \<open>Query strings\<close>

fun query_unescape :: "string \<Rightarrow> string option" where
  "query_unescape [] = Some []"
| "query_unescape (c # s) =
     (if c = CHR ''%'' then
        (case s of
           a # b # rest \<Rightarrow>
             (case (hex_val a, hex_val b) of
                (Some x, Some y) \<Rightarrow> map_option ((#) (char_of (16 * x + y))) (query_unescape rest)
              | _ \<Rightarrow> None)
         | _ \<Rightarrow> None)
      else if c = CHR ''+'' then map_option ((#) (CHR '' '')) (query_unescape s)
      else map_option ((#) c) (query_unescape s))"

type_synonym query_values = "(string \<times> string list) list"

fun add_value :: "string \<Rightarrow> string \<Rightarrow> query_values \<Rightarrow> query_values" where
  "add_value k v [] = [(k, [v])]"
| "add_value k v ((k', vs) # m) = (if k = k' then (k', vs @ [v]) # m else (k', vs) # add_value k v m)"

definition cut_at :: "char \<Rightarrow> string \<Rightarrow> string \<times> string" where
  "cut_at c s = (takeWhile (\<lambda>x. x \<noteq> c) s, drop 1 (dropWhile (\<lambda>x. x \<noteq> c) s))"

text \<open>
  One part between ampersands: an error, nothing (an empty part), or a key and a value. The
  error is remembered and the loop goes on.
\<close>

definition query_pair :: "string \<Rightarrow> (string \<times> string) option option" where
  "query_pair part =
     (if CHR '';'' \<in> set part then None
      else if part = '''' then Some None
      else let (key, val) = cut_at CHR ''='' part in
           case (query_unescape key, query_unescape val) of
             (Some k, Some v) \<Rightarrow> Some (Some (k, v))
           | _ \<Rightarrow> None)"

definition parse_query_part :: "query_values \<times> bool \<Rightarrow> string \<Rightarrow> query_values \<times> bool" where
  "parse_query_part acc part =
     (case query_pair part of
        None \<Rightarrow> (fst acc, True)
      | Some None \<Rightarrow> acc
      | Some (Some (k, v)) \<Rightarrow> (add_value k v (fst acc), snd acc))"

text \<open>The values and whether \<open>ParseQuery\<close> returned an error.\<close>

definition parse_query :: "string \<Rightarrow> query_values \<times> bool" where
  "parse_query q = foldl parse_query_part ([], False) (split_char CHR ''&'' q)"

text \<open>\<open>ParseQuery\<close> reports an error exactly when some part is malformed.\<close>

lemma parse_query_part_err: "snd (parse_query_part acc p) \<longleftrightarrow> snd acc \<or> query_pair p = None"
  by (simp add: parse_query_part_def split: option.split)

lemma parse_query_fold_err:
  "snd (foldl parse_query_part acc ps) \<longleftrightarrow> snd acc \<or> (\<exists>p \<in> set ps. query_pair p = None)"
  by (induction ps arbitrary: acc) (auto simp: parse_query_part_err)

lemma parse_query_error_iff:
  "snd (parse_query q) \<longleftrightarrow> (\<exists>p \<in> set (split_char CHR ''&'' q). query_pair p = None)"
  by (simp add: parse_query_def parse_query_fold_err)

subsection \<open>Host and port\<close>

definition last_index :: "char \<Rightarrow> string \<Rightarrow> nat option" where
  "last_index c s =
     (if c \<in> set s then Some (length s - 1 - length (takeWhile (\<lambda>x. x \<noteq> c) (rev s))) else None)"

text \<open>\<open>net.SplitHostPort\<close>; \<open>None\<close> stands for any of its errors.\<close>

definition split_host_port :: "string \<Rightarrow> (string \<times> string) option" where
  "split_host_port hp =
     (case last_index CHR '':'' hp of
        None \<Rightarrow> None
      | Some i \<Rightarrow>
          if has_prefix hp ''['' then
            (case str_index hp '']'' of
               None \<Rightarrow> None
             | Some e \<Rightarrow>
                 if e + 1 \<noteq> i then None
                 else if CHR ''['' \<in> set (drop 1 hp) \<or> CHR '']'' \<in> set (drop (e + 1) hp) then None
                 else Some (drop 1 (take e hp), drop (i + 1) hp))
          else if CHR '':'' \<in> set (take i hp) then None
          else if CHR ''['' \<in> set hp \<or> CHR '']'' \<in> set hp then None
          else Some (take i hp, drop (i + 1) hp))"

subsection \<open>Cookies\<close>

definition trim_blank :: "string \<Rightarrow> string" where
  "trim_blank s =
     rev (dropWhile (\<lambda>c. c = CHR '' '' \<or> c = CHR 0x09)
       (rev (dropWhile (\<lambda>c. c = CHR '' '' \<or> c = CHR 0x09) s)))"

definition cookie_value_char :: "char \<Rightarrow> bool" where
  "cookie_value_char c \<longleftrightarrow>
     (32 :: nat) \<le> of_char c \<and> of_char c < (127 :: nat) \<and> c \<noteq> CHR 0x22 \<and> c \<noteq> CHR '';'' \<and> c \<noteq> CHR 0x5C"

definition parse_cookie_value :: "string \<Rightarrow> string option" where
  "parse_cookie_value raw =
     (let v = (if length raw > 1 \<and> hd raw = CHR 0x22 \<and> last raw = CHR 0x22 then butlast (tl raw) else raw)
      in if list_all cookie_value_char v then Some v else None)"

definition cookie_part :: "string \<Rightarrow> string \<Rightarrow> string option" where
  "cookie_part name part =
     (let (n, v) = cut_at CHR ''='' (trim_blank part); n = trim_blank n in
      if n \<noteq> '''' \<and> list_all is_token_char n \<and> n = name then parse_cookie_value v else None)"

text \<open>\<open>Request.Cookie\<close>: the first cookie of that name with a well-formed value.\<close>

definition request_cookie :: "headers \<Rightarrow> string \<Rightarrow> string option" where
  "request_cookie h name =
     (case List.map_filter (cookie_part name) (concat (map (split_char CHR '';'') (h ''Cookie''))) of
        [] \<Rightarrow> None
      | v # _ \<Rightarrow> Some v)"

subsection \<open>Requests\<close>

text \<open>
  What the program reads of an \<open>http.Request\<close>. \<open>rq_Body\<close> is what reading the body yields,
  \<open>None\<close> for an error; \<open>rq_ContentLength\<close> is -1 when unknown.
\<close>

record http_request =
  rq_Method :: string
  rq_Path :: string
  rq_RawQuery :: string
  rq_Proto :: string
  rq_Host :: string
  rq_RemoteAddr :: string
  rq_TLS :: bool
  rq_ContentLength :: int
  rq_Header :: headers
  rq_Body :: "string option"

end
