(* ===== verification/ProxyUtil.thy ===== *)
theory ProxyUtil
  imports NetAddr Http
begin

unbundle bit_operations_syntax

text \<open>
  The helpers of the proxy (\<open>proxy/utils.go\<close>, \<open>proxy/fastuuid.go\<close>, the challenges of
  \<open>proxy/proxy.go\<close>): the request body that is read once and replayed, the address of the
  client behind trusted proxies, the response writer that remembers the status, the request ID, and
  the proof-of-work and script challenges with their two tables.

  \<^item> The random bytes and the SHA-256 digest (in hexadecimal) are arguments.
  \<^item> The request context only carries values the caller put there; \<open>readRequestBody\<close> and
    \<open>getClientIP\<close> take the cached value as an argument.
\<close>

subsection \<open>The request body\<close>

text \<open>
  The body read, whether it is over the limit, the request with its body replayed, and the body
  the new context carries. The first two fields are mutated in the request the caller holds; the
  context is that of the returned request only.
\<close>

definition read_request_body ::
  "string option \<Rightarrow> int \<Rightarrow> http_request \<Rightarrow> string \<times> bool \<times> http_request \<times> string option" where
  "read_request_body cached maxBytes r =
     (case cached of
        Some b \<Rightarrow> (b, int (length b) > maxBytes, r, cached)
      | None \<Rightarrow>
          (case rq_Body r of
             None \<Rightarrow> ('''', False, r\<lparr>rq_Body := Some '''', rq_ContentLength := 0\<rparr>, None)
           | Some full \<Rightarrow>
               let body = take (nat (maxBytes + 1)) full;
                   over = int (length body) > maxBytes
               in (body, over,
                   r\<lparr>rq_Body := Some body,
                     rq_ContentLength := (if over then rq_ContentLength r else int (length body))\<rparr>,
                   Some body)))"

lemma read_request_body_within:
  "rq_Body r = Some full \<Longrightarrow> int (length full) \<le> maxBytes \<Longrightarrow>
   read_request_body None maxBytes r =
     (full, False, r\<lparr>rq_Body := Some full, rq_ContentLength := int (length full)\<rparr>, Some full)"
  by (simp add: read_request_body_def Let_def)

lemma read_request_body_over:
  "rq_Body r = Some full \<Longrightarrow> 0 \<le> maxBytes \<Longrightarrow> int (length full) > maxBytes \<Longrightarrow>
   fst (snd (read_request_body None maxBytes r))"
  by (simp add: read_request_body_def Let_def)

subsection \<open>Trusted proxies\<close>

record trusted_proxy_matcher =
  tp_exact :: "string list"
  tp_cidrs :: "ip_net list"

definition new_trusted_proxy_matcher :: "string list \<Rightarrow> trusted_proxy_matcher" where
  "new_trusted_proxy_matcher trusted =
     \<lparr>tp_exact = filter (\<lambda>tp. \<not> str_contains tp ''/'' \<and> parse_ip tp \<noteq> None) trusted,
      tp_cidrs = List.map_filter (\<lambda>tp. if str_contains tp ''/'' then parse_cidr tp else None) trusted\<rparr>"

definition matcher_match :: "trusted_proxy_matcher \<Rightarrow> string \<Rightarrow> ip_addr \<Rightarrow> bool" where
  "matcher_match m s ip \<longleftrightarrow> s \<in> set (tp_exact m) \<or> list_ex (\<lambda>net. contains net ip) (tp_cidrs m)"

definition is_trusted_proxy :: "trusted_proxy_matcher option \<Rightarrow> string \<Rightarrow> bool" where
  "is_trusted_proxy matcher s =
     (case matcher of
        None \<Rightarrow> s = ''127.0.0.1'' \<or> s = ''::1''
      | Some m \<Rightarrow>
          if tp_exact m = [] \<and> tp_cidrs m = [] then s = ''127.0.0.1'' \<or> s = ''::1''
          else (case parse_ip s of None \<Rightarrow> False | Some ip \<Rightarrow> matcher_match m s ip))"

definition remote_host :: "http_request \<Rightarrow> string" where
  "remote_host r = (case split_host_port (rq_RemoteAddr r) of Some (ip, _) \<Rightarrow> ip | None \<Rightarrow> rq_RemoteAddr r)"

definition get_client_ip :: "trusted_proxy_matcher option \<Rightarrow> string option \<Rightarrow> http_request \<Rightarrow> string" where
  "get_client_ip matcher cached r =
     (case cached of
        Some ip \<Rightarrow> ip
      | None \<Rightarrow>
          if is_trusted_proxy matcher (remote_host r) then
            if header_get (rq_Header r) ''X-Real-IP'' \<noteq> '''' then header_get (rq_Header r) ''X-Real-IP''
            else if header_get (rq_Header r) ''X-Forwarded-For'' \<noteq> ''''
            then trim_space (hd (split_char (CHR '','') (header_get (rq_Header r) ''X-Forwarded-For'')))
            else remote_host r
          else remote_host r)"

definition get_scheme :: "http_request \<Rightarrow> string" where
  "get_scheme r = (if rq_TLS r then ''https'' else ''http'')"

subsection \<open>The response writer\<close>

record response_writer =
  rw_statusCode :: int
  rw_bytesWritten :: int
  rw_wroteHeader :: bool

definition write_header :: "int \<Rightarrow> response_writer \<Rightarrow> response_writer" where
  "write_header code w =
     (if rw_wroteHeader w then w else w\<lparr>rw_statusCode := code, rw_wroteHeader := True\<rparr>)"

text \<open>\<open>Write\<close>; \<open>n\<close> is the number of bytes the underlying writer took.\<close>

definition write_bytes :: "int \<Rightarrow> response_writer \<Rightarrow> response_writer" where
  "write_bytes n w =
     (let w = (if rw_wroteHeader w then w else w\<lparr>rw_statusCode := 200, rw_wroteHeader := True\<rparr>)
      in w\<lparr>rw_bytesWritten := rw_bytesWritten w + n\<rparr>)"

subsection \<open>Request IDs\<close>

definition hex_table :: string where
  "hex_table = ''0123456789abcdef''"

definition hex_byte :: "8 word \<Rightarrow> string" where
  "hex_byte b = [hex_table ! unat (drop_bit 4 b), hex_table ! unat (b AND 0x0F)]"

definition hex_encode :: "8 word list \<Rightarrow> string" where
  "hex_encode b =
     concat (map hex_byte (take 4 b)) @ ''-'' @ concat (map hex_byte (take 2 (drop 4 b))) @ ''-'' @
     concat (map hex_byte (take 2 (drop 6 b))) @ ''-'' @ concat (map hex_byte (take 2 (drop 8 b))) @ ''-'' @
     concat (map hex_byte (take 6 (drop 10 b)))"

definition fast_uuid :: "8 word list \<Rightarrow> string" where
  "fast_uuid b =
     hex_encode (b[6 := (b ! 6 AND 0x0F) OR 0x40, 8 := (b ! 8 AND 0x3F) OR 0x80])"

lemma length_hex_byte [simp]: "length (hex_byte b) = 2"
  by (simp add: hex_byte_def)

lemma low_nibble: "unat ((b :: 8 word) AND 0x0F) < 16"
proof -
  have "(b AND 0x0F) = take_bit 4 b"
    by (simp add: take_bit_eq_mask mask_eq_exp_minus_1)
  then show ?thesis by (simp add: take_bit_eq_mod unat_mod)
qed

lemma high_nibble: "unat (drop_bit 4 (b :: 8 word)) < 16"
  using unsigned_less[where 'b = 8 and 'a = nat, of b] by (simp add: drop_bit_eq_div unat_div)

lemma hex_digit: "n < 16 \<Longrightarrow> hex_table ! n \<in> set hex_table"
  by (rule nth_mem) (simp add: hex_table_def)

lemma hex_byte_chars: "c \<in> set (hex_byte b) \<Longrightarrow> c \<in> set hex_table"
  using hex_digit[OF low_nibble[of b]] hex_digit[OF high_nibble[of b]] by (auto simp: hex_byte_def)

lemma version_nibble: "drop_bit 4 (((b :: 8 word) AND 0x0F) OR 0x40) = 4"
  by (auto intro!: bit_word_eqI simp: bit_simps)

lemma variant_nibble: "unat (drop_bit 4 (((b :: 8 word) AND 0x3F) OR 0x80)) \<in> {8, 9, 10, 11}"
proof -
  let ?x = "drop_bit 4 ((b AND 0x3F) OR 0x80)"
  have masks: "(0x3F :: 8 word) = mask 6" "(0x80 :: 8 word) = push_bit 7 1" "(8 :: 8 word) = push_bit 3 1"
    by (simp_all add: mask_eq_exp_minus_1 push_bit_eq_mult)
  have x: "?x = 8 OR take_bit 2 (drop_bit 4 b)"
    unfolding masks by (rule bit_word_eqI) (auto simp: bit_simps)
  have "unat (take_bit 2 (drop_bit 4 b)) < 4"
    by (simp add: take_bit_eq_mod unat_mod)
  then consider "unat (take_bit 2 (drop_bit 4 b)) = 0" | "unat (take_bit 2 (drop_bit 4 b)) = 1" |
    "unat (take_bit 2 (drop_bit 4 b)) = 2" | "unat (take_bit 2 (drop_bit 4 b)) = 3"
    by linarith
  then show ?thesis
  proof cases
    case 1 then have "take_bit 2 (drop_bit 4 b) = 0" by (simp only: unat_eq_zero)
    then show ?thesis unfolding x by simp
  next
    case 2 then have "take_bit 2 (drop_bit 4 b) = 1" by (simp add: word_unat_eq_iff)
    then show ?thesis unfolding x by simp
  next
    case 3 then have "take_bit 2 (drop_bit 4 b) = 2" by (simp add: word_unat_eq_iff)
    then show ?thesis unfolding x by simp
  next
    case 4 then have "take_bit 2 (drop_bit 4 b) = 3" by (simp add: word_unat_eq_iff)
    then show ?thesis unfolding x by simp
  qed
qed

text \<open>
  C35. Request IDs are version-4 UUIDs: from any 16 random bytes, five groups of 8, 4, 4, 4 and 12 lower
  case hexadecimal digits joined by dashes, the third starting with the version 4 and the fourth
  with the variant 8, 9, a or b.
\<close>

theorem fast_uuid_version4:
  assumes "length b = 16"
  shows "\<exists>g1 g2 g3 g4 g5.
    fast_uuid b = g1 @ ''-'' @ g2 @ ''-'' @ g3 @ ''-'' @ g4 @ ''-'' @ g5 \<and>
    map length [g1, g2, g3, g4, g5] = [8, 4, 4, 4, 12] \<and>
    set (g1 @ g2 @ g3 @ g4 @ g5) \<subseteq> set hex_table \<and>
    hd g3 = CHR ''4'' \<and> hd g4 \<in> set ''89ab''"
proof -
  let ?b = "b[6 := (b ! 6 AND 0x0F) OR 0x40, 8 := (b ! 8 AND 0x3F) OR 0x80]"
  have len: "length (concat (map hex_byte xs)) = 2 * length xs" for xs
    by (induction xs) auto
  have hex: "set (concat (map hex_byte xs)) \<subseteq> set hex_table" for xs
    using hex_byte_chars by auto
  have "drop 6 ?b = ?b ! 6 # drop 7 ?b" "drop 8 ?b = ?b ! 8 # drop 9 ?b"
    using assms by (simp_all add: Cons_nth_drop_Suc [symmetric])
  then have "hd (concat (map hex_byte (take 2 (drop 6 ?b)))) = hex_table ! 4"
    "hd (concat (map hex_byte (take 2 (drop 8 ?b)))) =
       hex_table ! unat (drop_bit 4 ((b ! 8 AND 0x3F) OR 0x80))"
    using assms by (simp_all add: hex_byte_def version_nibble)
  moreover have "hex_table ! 4 = CHR ''4''" "n \<in> {8, 9, 10, 11} \<Longrightarrow> hex_table ! n \<in> set ''89ab''" for n
    by (auto simp: hex_table_def)
  ultimately have "hd (concat (map hex_byte (take 2 (drop 6 ?b)))) = CHR ''4''"
    "hd (concat (map hex_byte (take 2 (drop 8 ?b)))) \<in> set ''89ab''"
    using variant_nibble[of "b ! 8"] by metis+
  note heads = this
  have lengths: "map length [concat (map hex_byte (take 4 ?b)), concat (map hex_byte (take 2 (drop 4 ?b))),
      concat (map hex_byte (take 2 (drop 6 ?b))), concat (map hex_byte (take 2 (drop 8 ?b))),
      concat (map hex_byte (take 6 (drop 10 ?b)))] = [8, 4, 4, 4, 12]"
    using assms unfolding list.map len by simp
  have digits: "set (concat (map hex_byte (take 4 ?b)) @ concat (map hex_byte (take 2 (drop 4 ?b))) @
      concat (map hex_byte (take 2 (drop 6 ?b))) @ concat (map hex_byte (take 2 (drop 8 ?b))) @
      concat (map hex_byte (take 6 (drop 10 ?b)))) \<subseteq> set hex_table"
    unfolding set_append using hex by blast
  show ?thesis
    unfolding fast_uuid_def hex_encode_def
    by (intro exI conjI) (rule refl, fact lengths, fact digits, fact heads(1), fact heads(2))
qed

lemma fast_uuid_version4_witness:
  "\<exists>g1 g2 g3 g4 g5. fast_uuid (replicate 16 255) = g1 @ ''-'' @ g2 @ ''-'' @ g3 @ ''-'' @ g4 @ ''-'' @ g5 \<and>
     map length [g1, g2, g3, g4, g5] = [8, 4, 4, 4, 12] \<and>
     set (g1 @ g2 @ g3 @ g4 @ g5) \<subseteq> set hex_table \<and> hd g3 = CHR ''4'' \<and> hd g4 \<in> set ''89ab''"
  using fast_uuid_version4[of "replicate 16 255"] by simp

section \<open>Challenges\<close>

text \<open>\<open>strconv.ParseInt(s, 10, 64)\<close> and \<open>strconv.FormatInt(n, 10)\<close>.\<close>

definition parse_int64 :: "string \<Rightarrow> int option" where
  "parse_int64 s =
     (let neg = has_prefix s ''-'';
          digits = (if neg \<or> has_prefix s ''+'' then drop 1 s else s);
          n = (if neg then - int (dec_val digits) else int (dec_val digits))
      in if digits = '''' \<or> \<not> list_all is_digit digits \<or> n < - (2 ^ 63) \<or> n \<ge> 2 ^ 63 then None else Some n)"

definition format_int :: "int \<Rightarrow> string" where
  "format_int n = (if n < 0 then ''-'' @ dec_string (nat (- n)) else dec_string (nat n))"

record challenge_store =
  cs_pow :: "string \<rightharpoonup> int"
  cs_js :: "string \<rightharpoonup> instant"
  cs_difficulty :: int

definition set_pow_difficulty :: "int \<Rightarrow> challenge_store \<Rightarrow> challenge_store" where
  "set_pow_difficulty d cs = (if d > 0 \<and> d \<le> 6 then cs\<lparr>cs_difficulty := d\<rparr> else cs)"

definition initial_challenges :: challenge_store where
  "initial_challenges = \<lparr>cs_pow = Map.empty, cs_js = Map.empty, cs_difficulty = 4\<rparr>"

definition store_pow_challenge :: "string \<Rightarrow> int \<Rightarrow> challenge_store \<Rightarrow> challenge_store" where
  "store_pow_challenge c d cs = cs\<lparr>cs_pow := (cs_pow cs)(c \<mapsto> d)\<rparr>"

definition get_pow_difficulty :: "string \<Rightarrow> challenge_store \<Rightarrow> int option" where
  "get_pow_difficulty c cs = cs_pow cs c"

text \<open>\<open>strings.SplitN(v, ":", 2)\<close> with two parts.\<close>

definition pow_parts :: "string \<Rightarrow> (string \<times> string) option" where
  "pow_parts v = (if CHR '':'' \<in> set v then Some (cut_at CHR '':'' v) else None)"

definition verify_pow :: "(string \<Rightarrow> string) \<Rightarrow> headers \<Rightarrow> challenge_store \<Rightarrow> bool \<times> challenge_store" where
  "verify_pow sha256 h cs =
     (case request_cookie h ''gowaf_pow'' of
        None \<Rightarrow> (False, cs)
      | Some v \<Rightarrow>
          (case pow_parts v of
             None \<Rightarrow> (False, cs)
           | Some (challenge, nonceStr) \<Rightarrow>
               (case get_pow_difficulty challenge cs of
                  None \<Rightarrow> (False, cs)
                | Some difficulty \<Rightarrow>
                    if difficulty \<le> 0 \<or> difficulty > 6 then (False, cs)
                    else
                      (case parse_int64 nonceStr of
                         None \<Rightarrow> (False, cs)
                       | Some nonce \<Rightarrow>
                           if \<not> has_prefix (sha256 (challenge @ format_int nonce)) (replicate (nat difficulty) CHR ''0'')
                           then (False, cs)
                           else (True, cs\<lparr>cs_pow := (cs_pow cs)(challenge := None)\<rparr>)))))"

definition verify_js_challenge :: "headers \<Rightarrow> challenge_store \<Rightarrow> bool \<times> challenge_store" where
  "verify_js_challenge h cs =
     (case request_cookie h ''gowaf_js_challenge'' of
        None \<Rightarrow> (False, cs)
      | Some v \<Rightarrow>
          if v = '''' then (False, cs)
          else if cs_js cs v \<noteq> None then (True, cs\<lparr>cs_js := (cs_js cs)(v := None)\<rparr>)
          else (False, cs))"

text \<open>\<open>generatePoWChallenge\<close> stores both and writes both, with the difficulty, into the page.\<close>

definition generate_pow_challenge ::
  "string \<Rightarrow> string \<Rightarrow> instant \<Rightarrow> challenge_store \<Rightarrow> (string \<times> int \<times> string) \<times> challenge_store" where
  "generate_pow_challenge challenge token now cs =
     (let cs1 = store_pow_challenge challenge (cs_difficulty cs) cs
      in ((challenge, cs_difficulty cs, token), cs1\<lparr>cs_js := (cs_js cs1)(token \<mapsto> now)\<rparr>))"

text \<open>The condition under which \<open>checkRateLimits\<close> lets a challenged request pass.\<close>

definition verify_challenge :: "(string \<Rightarrow> string) \<Rightarrow> headers \<Rightarrow> challenge_store \<Rightarrow> bool \<times> challenge_store" where
  "verify_challenge sha256 h cs =
     (let (ok, cs1) = verify_pow sha256 h cs in if ok then (True, cs1) else verify_js_challenge h cs1)"

subsection \<open>A challenge is used once\<close>

definition presented :: "headers \<Rightarrow> string" where
  "presented h = (case request_cookie h ''gowaf_pow'' of None \<Rightarrow> '''' | Some v \<Rightarrow> fst (cut_at CHR '':'' v))"

fun pow_accepted :: "(string \<Rightarrow> string) \<Rightarrow> headers list \<Rightarrow> challenge_store \<Rightarrow> string list" where
  "pow_accepted sha256 [] cs = []"
| "pow_accepted sha256 (h # hs) cs =
     (let (ok, cs') = verify_pow sha256 h cs
      in (if ok then [presented h] else []) @ pow_accepted sha256 hs cs')"

lemma verify_pow_cases:
  "(verify_pow sha h cs = (False, cs)) \<or>
   (presented h \<in> dom (cs_pow cs) \<and> verify_pow sha h cs = (True, cs\<lparr>cs_pow := (cs_pow cs)(presented h := None)\<rparr>))"
proof (cases "request_cookie h ''gowaf_pow''")
  case (Some v)
  obtain c n where "cut_at CHR '':'' v = (c, n)" by (cases "cut_at CHR '':'' v")
  then show ?thesis
    using Some by (auto simp: verify_pow_def presented_def pow_parts_def get_pow_difficulty_def split: option.split)
qed (simp add: verify_pow_def)

text \<open>
  No proof of work is accepted twice: whatever cookies a sequence of requests presents, the
  challenges that are accepted are distinct, and all were issued.
\<close>

theorem pow_single_use:
  "distinct (pow_accepted sha256 hs cs) \<and> set (pow_accepted sha256 hs cs) \<subseteq> dom (cs_pow cs)"
proof (induction hs arbitrary: cs)
  case (Cons h hs)
  let ?cs = "cs\<lparr>cs_pow := (cs_pow cs)(presented h := None)\<rparr>"
  from verify_pow_cases[of sha256 h cs] show ?case
  proof (elim disjE conjE)
    assume "verify_pow sha256 h cs = (False, cs)"
    then show ?thesis using Cons.IH[of cs] by simp
  next
    assume h: "presented h \<in> dom (cs_pow cs)" and ok: "verify_pow sha256 h cs = (True, ?cs)"
    have "pow_accepted sha256 (h # hs) cs = presented h # pow_accepted sha256 hs ?cs"
      by (simp only: pow_accepted.simps ok Let_def prod.case if_True append_Cons append_Nil)
    note run = this
    have "dom (cs_pow ?cs) = dom (cs_pow cs) - {presented h}" by simp
    then have IH: "distinct (pow_accepted sha256 hs ?cs)"
      "set (pow_accepted sha256 hs ?cs) \<subseteq> dom (cs_pow cs) - {presented h}"
      using Cons.IH[of ?cs] by (simp_all only:)
    show ?thesis
      unfolding run distinct.simps list.set using IH h by blast
  qed
qed simp

subsection \<open>The token of the page is enough\<close>

datatype challenge_event = Issue string string instant | Attempt headers | Difficulty int

definition challenge_do :: "(string \<Rightarrow> string) \<Rightarrow> challenge_event \<Rightarrow> challenge_store \<Rightarrow> challenge_store" where
  "challenge_do sha256 ev cs =
     (case ev of
        Issue c tok now \<Rightarrow> snd (generate_pow_challenge c tok now cs)
      | Attempt h \<Rightarrow> snd (verify_challenge sha256 h cs)
      | Difficulty d \<Rightarrow> set_pow_difficulty d cs)"

lemma challenge_do_keeps_token:
  assumes "cs_js cs tok \<noteq> None"
    and "\<And>h. ev = Attempt h \<Longrightarrow> request_cookie h ''gowaf_js_challenge'' \<noteq> Some tok"
  shows "cs_js (challenge_do sha ev cs) tok \<noteq> None"
proof (cases ev)
  case (Attempt h)
  have "cs_js (snd (verify_js_challenge h cs')) tok = cs_js cs' tok" for cs'
    using assms(2)[OF Attempt] by (auto simp: verify_js_challenge_def split: option.split)
  then show ?thesis
    using Attempt assms(1) verify_pow_cases[of sha h cs]
    by (elim disjE conjE) (auto simp: challenge_do_def verify_challenge_def)
qed (use assms(1) in \<open>auto simp: challenge_do_def generate_pow_challenge_def store_pow_challenge_def
      set_pow_difficulty_def Let_def\<close>)

text \<open>
  The script token is enough, for ever: once a challenge page has been served, a request that
  presents the token written in that page is let through, without any proof of work, at any later
  time and whatever else happens in between, as long as nobody presented the token before.
  Nothing expires the tokens of the table.
\<close>

theorem page_token_suffices:
  assumes "tok \<noteq> ''''" and "request_cookie h ''gowaf_js_challenge'' = Some tok"
    and "\<forall>h'. Attempt h' \<in> set evs \<longrightarrow> request_cookie h' ''gowaf_js_challenge'' \<noteq> Some tok"
  shows "fst (verify_challenge sha256 h (fold (challenge_do sha256) evs
    (snd (generate_pow_challenge challenge tok now cs))))"
proof -
  have "cs_js cs tok \<noteq> None \<Longrightarrow> cs_js (fold (challenge_do sha256) evs cs) tok \<noteq> None" for cs
    using assms(3)
  proof (induction evs arbitrary: cs)
    case (Cons ev evs)
    have "cs_js (challenge_do sha256 ev cs) tok \<noteq> None"
      by (rule challenge_do_keeps_token) (use Cons.prems in auto)
    then show ?case using Cons.IH Cons.prems(2) by simp
  qed simp
  then have "cs_js (fold (challenge_do sha256) evs (snd (generate_pow_challenge challenge tok now cs))) tok \<noteq> None"
    by (simp add: generate_pow_challenge_def store_pow_challenge_def Let_def)
  then show ?thesis
    using assms(1,2) verify_pow_cases[of sha256 h
        "fold (challenge_do sha256) evs (snd (generate_pow_challenge challenge tok now cs))"]
    by (elim disjE conjE) (simp_all add: verify_challenge_def verify_js_challenge_def)
qed

definition cookie_header :: "string \<Rightarrow> headers" where
  "cookie_header v = no_headers(''Cookie'' := [v])"

lemma page_token_suffices_witness:
  "fst (verify_challenge (\<lambda>_. '''') (cookie_header ''gowaf_js_challenge=ab12'')
     (fold (challenge_do (\<lambda>_. '''')) [Difficulty 6, Attempt no_headers]
        (snd (generate_pow_challenge ''c0'' ''ab12'' 7 initial_challenges))))"
proof (rule page_token_suffices[of "''ab12''"])
  show "request_cookie (cookie_header ''gowaf_js_challenge=ab12'') ''gowaf_js_challenge'' = Some ''ab12''"
    by code_simp
  show "\<forall>h'. Attempt h' \<in> set [Difficulty 6, Attempt no_headers] \<longrightarrow>
      request_cookie h' ''gowaf_js_challenge'' \<noteq> Some ''ab12''"
    by (simp add: request_cookie_def no_headers_def List.map_filter_simps)
qed simp

end
