(* ===== verification/Regexp.thy ===== *)
theory Regexp
  imports NetAddr
begin

text \<open>
  Go's \<open>regexp\<close> package, as far as the code uses it: \<open>Compile\<close> (a parser for the RE2 syntax),
  \<open>MatchString\<close>, \<open>FindString\<close> and \<open>String\<close>.

  \<^item> A text is matched rune by rune: \<open>runes\<close> decodes UTF-8 the way Go's \<open>range\<close> does, with
    U+FFFD for an invalid byte.
  \<^item> \<open>ends r ctx i\<close> lists the positions where a match of \<open>r\<close> starting at \<open>i\<close> can end, the
    preferred one first, so the first end at the leftmost position is Go's leftmost-first match.
  \<^item> The syntax: literals, classes with the Perl escapes and POSIX names, groups, flags
    \<open>imsU\<close>, alternation, greedy and lazy repetition up to 1000, anchors and word boundaries.
    Unicode classes other than \<open>\p{Han}\<close>, \<open>\Q..\E\<close> and the folding of non-ASCII letters are
    not covered (such a class does not compile here).

  A component that compiles patterns takes the compiler as an argument, of type
  \<open>compiler\<close>; \<open>go_compile\<close> is the one of this theory. The list \<open>ends\<close> is proved to be
  exactly the denotation \<open>rmatch\<close> of the expression.
\<close>

subsection \<open>Runes\<close>

abbreviation code :: "char \<Rightarrow> int" where
  "code c \<equiv> of_char c"

definition cont_bits :: "char \<Rightarrow> int option" where
  "cont_bits c = (let b = code c in if 128 \<le> b \<and> b < 192 then Some (b - 128) else None)"

text \<open>The rune that starts with the byte \<open>b\<close>, and how many bytes follow it.\<close>

definition multi_byte :: "int \<Rightarrow> string \<Rightarrow> (int \<times> nat) option" where
  "multi_byte b s =
     (case map cont_bits (take 3 s) of
        Some x # rest \<Rightarrow>
          if 194 \<le> b \<and> b < 224 then Some ((b - 192) * 64 + x, 1)
          else if 224 \<le> b \<and> b < 240 then
            (case rest of
               Some y # _ \<Rightarrow>
                 let r = (b - 224) * 4096 + x * 64 + y in
                 if 2048 \<le> r \<and> \<not> (55296 \<le> r \<and> r < 57344) then Some (r, 2) else None
             | _ \<Rightarrow> None)
          else if 240 \<le> b \<and> b < 245 then
            (case rest of
               [Some y, Some z] \<Rightarrow>
                 let r = (b - 240) * 262144 + x * 4096 + y * 64 + z in
                 if 65536 \<le> r \<and> r < 1114112 then Some (r, 3) else None
             | _ \<Rightarrow> None)
          else None
      | _ \<Rightarrow> None)"

function runes :: "string \<Rightarrow> (int \<times> string) list" where
  "runes [] = []"
| "runes (c # s) =
     (if code c < 128 then (code c, [c]) # runes s
      else case multi_byte (code c) s of
             None \<Rightarrow> (65533, [c]) # runes s
           | Some (r, n) \<Rightarrow> (r, c # take n s) # runes (drop n s))"
  by pat_completeness auto

termination runes
  by (relation "measure length") auto

lemma runes_chunks: "concat (map snd (runes s)) = s"
  by (induction s rule: runes.induct) (auto split: option.splits)

subsection \<open>Expressions and their matches\<close>

datatype regex =
    REmpty
  | RSet bool "(int \<times> int) list"
  | RSeq regex regex
  | RAlt regex regex
  | RStar bool regex
  | RBegin
  | REnd
  | RBeginLine
  | REndLine
  | RWordB
  | RNoWordB

definition in_ranges :: "(int \<times> int) list \<Rightarrow> int \<Rightarrow> bool" where
  "in_ranges rs c = list_ex (\<lambda>(lo, hi). lo \<le> c \<and> c \<le> hi) rs"

definition word_ranges :: "(int \<times> int) list" where
  "word_ranges = [(48, 57), (65, 90), (95, 95), (97, 122)]"

definition word_at :: "int list \<Rightarrow> nat \<Rightarrow> bool" where
  "word_at t i = (i < length t \<and> in_ranges word_ranges (t ! i))"

definition at_word_boundary :: "int list \<Rightarrow> nat \<Rightarrow> bool" where
  "at_word_boundary t i = ((0 < i \<and> word_at t (i - 1)) \<noteq> word_at t i)"

definition line_begins :: "int list \<Rightarrow> nat \<Rightarrow> bool" where
  "line_begins t i = (i = 0 \<or> i \<le> length t \<and> t ! (i - 1) = 10)"

definition line_ends :: "int list \<Rightarrow> nat \<Rightarrow> bool" where
  "line_ends t i = (i = length t \<or> i < length t \<and> t ! i = 10)"

text \<open>
  The iterations of a star: each one must consume something; the greedy star prefers to go
  on, the lazy one to stop. The fuel is what is left of the text.
\<close>

fun star_ends :: "nat \<Rightarrow> bool \<Rightarrow> (nat \<Rightarrow> nat list) \<Rightarrow> nat \<Rightarrow> nat list" where
  "star_ends 0 greedy f i = [i]"
| "star_ends (Suc n) greedy f i =
     (let more = concat (map (star_ends n greedy f) (filter (\<lambda>j. i < j) (f i)))
      in remdups (if greedy then more @ [i] else i # more))"

primrec ends :: "regex \<Rightarrow> int list \<Rightarrow> nat \<Rightarrow> nat list" where
  "ends REmpty t i = [i]"
| "ends (RSet neg rs) t i =
     (if i < length t \<and> in_ranges rs (t ! i) \<noteq> neg then [Suc i] else [])"
| "ends (RSeq r s) t i = remdups (concat (map (ends s t) (ends r t i)))"
| "ends (RAlt r s) t i = remdups (ends r t i @ ends s t i)"
| "ends (RStar greedy r) t i = star_ends (length t - i) greedy (ends r t) i"
| "ends RBegin t i = (if i = 0 then [i] else [])"
| "ends REnd t i = (if i = length t then [i] else [])"
| "ends RBeginLine t i = (if line_begins t i then [i] else [])"
| "ends REndLine t i = (if line_ends t i then [i] else [])"
| "ends RWordB t i = (if at_word_boundary t i then [i] else [])"
| "ends RNoWordB t i = (if at_word_boundary t i then [] else [i])"

fun find_from :: "regex \<Rightarrow> int list \<Rightarrow> nat list \<Rightarrow> (nat \<times> nat) option" where
  "find_from r t [] = None"
| "find_from r t (i # is) =
     (case ends r t i of [] \<Rightarrow> find_from r t is | j # _ \<Rightarrow> Some (i, j))"

definition find_index :: "regex \<Rightarrow> int list \<Rightarrow> (nat \<times> nat) option" where
  "find_index r t = find_from r t [0..<Suc (length t)]"

definition match_string :: "regex \<Rightarrow> string \<Rightarrow> bool" where
  "match_string r s = (find_index r (map fst (runes s)) \<noteq> None)"

definition find_string :: "regex \<Rightarrow> string \<Rightarrow> string" where
  "find_string r s =
     (case find_index r (map fst (runes s)) of
        None \<Rightarrow> ''''
      | Some (i, j) \<Rightarrow> concat (map snd (take (j - i) (drop i (runes s)))))"

subsection \<open>The list of ends is the denotation\<close>

inductive rmatch :: "int list \<Rightarrow> regex \<Rightarrow> nat \<Rightarrow> nat \<Rightarrow> bool" for t where
  rm_empty: "rmatch t REmpty i i"
| rm_set: "i < length t \<Longrightarrow> in_ranges rs (t ! i) \<noteq> neg \<Longrightarrow> rmatch t (RSet neg rs) i (Suc i)"
| rm_seq: "rmatch t r i j \<Longrightarrow> rmatch t s j k \<Longrightarrow> rmatch t (RSeq r s) i k"
| rm_left: "rmatch t r i j \<Longrightarrow> rmatch t (RAlt r s) i j"
| rm_right: "rmatch t s i j \<Longrightarrow> rmatch t (RAlt r s) i j"
| rm_stop: "rmatch t (RStar g r) i i"
| rm_more: "rmatch t r i j \<Longrightarrow> rmatch t (RStar g r) j k \<Longrightarrow> rmatch t (RStar g r) i k"
| rm_begin: "rmatch t RBegin 0 0"
| rm_end: "rmatch t REnd (length t) (length t)"
| rm_begin_line: "line_begins t i \<Longrightarrow> rmatch t RBeginLine i i"
| rm_end_line: "line_ends t i \<Longrightarrow> rmatch t REndLine i i"
| rm_wordb: "at_word_boundary t i \<Longrightarrow> rmatch t RWordB i i"
| rm_no_wordb: "\<not> at_word_boundary t i \<Longrightarrow> rmatch t RNoWordB i i"

inductive_cases rmE [elim!]:
  "rmatch t REmpty i j" "rmatch t (RSet neg rs) i j" "rmatch t (RSeq r s) i j"
  "rmatch t (RAlt r s) i j" "rmatch t RBegin i j" "rmatch t REnd i j" "rmatch t RBeginLine i j"
  "rmatch t REndLine i j" "rmatch t RWordB i j" "rmatch t RNoWordB i j"

lemma rmatch_bounds: "rmatch t r i j \<Longrightarrow> i \<le> j \<and> (i < j \<longrightarrow> j \<le> length t)"
  by (induction rule: rmatch.induct) auto

text \<open>A star unrolls to an iteration that consumes something.\<close>

lemma star_unroll:
  "rmatch t q i k \<Longrightarrow> q = RStar g r \<Longrightarrow> i = k \<or> (\<exists>j. i < j \<and> rmatch t r i j \<and> rmatch t (RStar g r) j k)"
proof (induction rule: rmatch.induct)
  case (rm_more r' i j g' k)
  then show ?case
    using rmatch_bounds[of t r i j] by (cases "i = j") auto
qed auto

lemma star_cases:
  "rmatch t (RStar g r) i k \<longleftrightarrow> i = k \<or> (\<exists>j. i < j \<and> rmatch t r i j \<and> rmatch t (RStar g r) j k)"
  using star_unroll rm_more rm_stop by blast

lemma set_star_ends:
  assumes f: "\<And>i. set (f i) = {j. rmatch t r i j}"
  shows "length t - i \<le> n \<Longrightarrow> set (star_ends n g f i) = {k. rmatch t (RStar g r) i k}"
proof (induction n arbitrary: i)
  case 0
  then have "\<not> (i < j \<and> rmatch t r i j)" for j
    using rmatch_bounds[of t r i j] by auto
  then show ?case by (subst star_cases) auto
next
  case (Suc n)
  have IH: "set (star_ends n g f j) = {k. rmatch t (RStar g r) j k}" if "i < j" for j
    using Suc.IH[of j] Suc.prems that by simp
  have "set (star_ends (Suc n) g f i) =
    insert i (\<Union>j \<in> {j. i < j \<and> rmatch t r i j}. set (star_ends n g f j))"
    by (auto simp: Let_def f)
  also have "\<dots> = {k. rmatch t (RStar g r) i k}"
    using IH by (subst star_cases) auto
  finally show ?case .
qed

theorem set_ends: "set (ends r t i) = {j. rmatch t r i j}"
proof (induction r arbitrary: i)
  case (RSeq r s)
  then show ?case by (auto intro: rm_seq)
next
  case (RStar g r)
  then show ?case
    using set_star_ends[of "ends r t" t r i "length t - i" g] by simp
qed (auto intro: rmatch.intros)

lemma find_from_Some:
  "find_from r t is = Some (i, j) \<Longrightarrow> i \<in> set is \<and> rmatch t r i j"
proof (induction "is")
  case IH: (Cons a "is")
  show ?case
  proof (cases "ends r t a")
    case Nil
    then show ?thesis using IH by simp
  next
    case (Cons b bs)
    then have "rmatch t r a b"
      using set_ends[of r t a] by auto
    then show ?thesis
      using IH.prems Cons by simp
  qed
qed simp

lemma find_from_None:
  "find_from r t is = None \<longleftrightarrow> (\<forall>i \<in> set is. \<forall>j. \<not> rmatch t r i j)"
proof (induction "is")
  case (Cons a "is")
  have "ends r t a = [] \<longleftrightarrow> (\<forall>j. \<not> rmatch t r a j)"
    using set_ends[of r t a] by (metis empty_Collect_eq set_empty)
  then show ?case
    using Cons by (auto split: list.split)
qed simp

lemma find_index_None:
  "find_index r t = None \<longleftrightarrow> (\<forall>i j. i \<le> length t \<longrightarrow> \<not> rmatch t r i j)"
  by (auto simp: find_index_def find_from_None less_Suc_eq_le simp del: upt_Suc)

text \<open>\<open>MatchString\<close> decides whether some substring is in the language of the expression.\<close>

theorem match_string_iff:
  "match_string r s \<longleftrightarrow> (\<exists>i j. i \<le> length (runes s) \<and> rmatch (map fst (runes s)) r i j)"
  unfolding match_string_def find_index_None by simp

subsection \<open>Character classes\<close>

record flags =
  fl_i :: bool
  fl_m :: bool
  fl_s :: bool
  fl_u :: bool

definition no_flags :: flags where
  "no_flags = \<lparr>fl_i = False, fl_m = False, fl_s = False, fl_u = False\<rparr>"

definition clip :: "int \<times> int \<Rightarrow> int \<Rightarrow> int \<Rightarrow> (int \<Rightarrow> int) \<Rightarrow> (int \<times> int) list" where
  "clip r a b f =
     (let lo = max (fst r) a; hi = min (snd r) b in if lo \<le> hi then [(f lo, f hi)] else [])"

text \<open>
  The simple folding of the ASCII letters: with their other case, and \<open>k\<close>, \<open>s\<close> with the
  Kelvin sign and the long s.
\<close>

definition fold_range :: "int \<times> int \<Rightarrow> (int \<times> int) list" where
  "fold_range r =
     clip r 97 122 (\<lambda>c. c - 32) @ clip r 65 90 (\<lambda>c. c + 32) @
     clip r 107 107 (\<lambda>_. 8490) @ clip r 75 75 (\<lambda>_. 8490) @
     clip r 115 115 (\<lambda>_. 383) @ clip r 83 83 (\<lambda>_. 383) @
     clip r 8490 8490 (\<lambda>_. 75) @ clip r 8490 8490 (\<lambda>_. 107) @
     clip r 383 383 (\<lambda>_. 83) @ clip r 383 383 (\<lambda>_. 115)"

definition mk_ranges :: "flags \<Rightarrow> (int \<times> int) list \<Rightarrow> (int \<times> int) list" where
  "mk_ranges fl rs = (if fl_i fl then rs @ concat (map fold_range rs) else rs)"

fun complement :: "int \<Rightarrow> (int \<times> int) list \<Rightarrow> (int \<times> int) list" where
  "complement lo [] = [(lo, 1114111)]"
| "complement lo ((a, b) # rs) = (if lo < a then [(lo, a - 1)] else []) @ complement (b + 1) rs"

definition digit_ranges :: "(int \<times> int) list" where
  "digit_ranges = [(48, 57)]"

definition space_ranges :: "(int \<times> int) list" where
  "space_ranges = [(9, 10), (12, 13), (32, 32)]"

definition han_ranges :: "(int \<times> int) list" where
  "han_ranges =
     [(11904, 11929), (11931, 12019), (12032, 12245), (12293, 12293), (12295, 12295),
      (12321, 12329), (12344, 12347), (13312, 19903), (19968, 40959), (63744, 64109),
      (64112, 64217), (94178, 94179), (94192, 94193), (131072, 173791), (173824, 177977),
      (177984, 178205), (178208, 183969), (183984, 191456), (194560, 195101),
      (196608, 201546), (201552, 205743)]"

text \<open>\<open>\d\<close>, \<open>\w\<close>, \<open>\s\<close> and their complements.\<close>

definition perl_class :: "flags \<Rightarrow> char \<Rightarrow> (int \<times> int) list option" where
  "perl_class fl c =
     (let word = (if fl_i fl then word_ranges @ [(383, 383), (8490, 8490)] else word_ranges) in
      if c = CHR ''d'' then Some digit_ranges
      else if c = CHR ''w'' then Some word
      else if c = CHR ''s'' then Some space_ranges
      else if c = CHR ''D'' then Some (complement 0 digit_ranges)
      else if c = CHR ''W'' then Some (complement 0 word)
      else if c = CHR ''S'' then Some (complement 0 space_ranges)
      else None)"

definition posix_class :: "string \<Rightarrow> (int \<times> int) list option" where
  "posix_class name =
     (if name = ''alnum'' then Some [(48, 57), (65, 90), (97, 122)]
      else if name = ''alpha'' then Some [(65, 90), (97, 122)]
      else if name = ''ascii'' then Some [(0, 127)]
      else if name = ''blank'' then Some [(9, 9), (32, 32)]
      else if name = ''cntrl'' then Some [(0, 31), (127, 127)]
      else if name = ''digit'' then Some [(48, 57)]
      else if name = ''graph'' then Some [(33, 126)]
      else if name = ''lower'' then Some [(97, 122)]
      else if name = ''print'' then Some [(32, 126)]
      else if name = ''punct'' then Some [(33, 47), (58, 64), (91, 96), (123, 126)]
      else if name = ''space'' then Some [(9, 13), (32, 32)]
      else if name = ''upper'' then Some [(65, 90)]
      else if name = ''word'' then Some word_ranges
      else if name = ''xdigit'' then Some [(48, 57), (65, 70), (97, 102)]
      else None)"

subsection \<open>The parser\<close>

abbreviation bslash :: char where
  "bslash \<equiv> CHR 0x5C"

definition next_rune :: "string \<Rightarrow> (int \<times> string) option" where
  "next_rune s =
     (case s of
        [] \<Rightarrow> None
      | c # t \<Rightarrow>
          if code c < 128 then Some (code c, t)
          else map_option (\<lambda>(r, n). (r, drop n t)) (multi_byte (code c) t))"

fun hex_run :: "string \<Rightarrow> int \<Rightarrow> int \<times> string" where
  "hex_run [] n = (n, [])"
| "hex_run (c # s) n = (case hex_val c of None \<Rightarrow> (n, c # s) | Some d \<Rightarrow> hex_run s (16 * n + int d))"

definition is_alnum :: "char \<Rightarrow> bool" where
  "is_alnum c = in_ranges [(48, 57), (65, 90), (97, 122)] (code c)"

text \<open>The rune after a backslash.\<close>

definition p_escape :: "string \<Rightarrow> (int \<times> string) option" where
  "p_escape s =
     (case s of
        [] \<Rightarrow> None
      | c # t \<Rightarrow>
          if c = CHR ''n'' then Some (10, t)
          else if c = CHR ''t'' then Some (9, t)
          else if c = CHR ''r'' then Some (13, t)
          else if c = CHR ''f'' then Some (12, t)
          else if c = CHR ''v'' then Some (11, t)
          else if c = CHR ''a'' then Some (7, t)
          else if c = CHR ''x'' then
            (case t of
               a # b # t' \<Rightarrow>
                 if a = CHR ''{'' then
                   (case hex_run (b # t') 0 of
                      (n, c # u) \<Rightarrow> if c = CHR ''}'' \<and> b \<noteq> CHR ''}'' \<and> n < 1114112 then Some (n, u) else None
                    | _ \<Rightarrow> None)
                 else (case (hex_val a, hex_val b) of
                         (Some x, Some y) \<Rightarrow> Some (16 * int x + int y, t')
                       | _ \<Rightarrow> None)
             | _ \<Rightarrow> None)
          else if code c < 128 \<and> \<not> is_alnum c then Some (code c, t)
          else None)"

definition class_rune :: "string \<Rightarrow> (int \<times> string) option" where
  "class_rune s =
     (case s of [] \<Rightarrow> None | c # t \<Rightarrow> if c = bslash then p_escape t else next_rune s)"

text \<open>One item of a bracket class: a named class, an escape class, or a rune or range.\<close>

definition class_item :: "flags \<Rightarrow> string \<Rightarrow> ((int \<times> int) list \<times> string) option" where
  "class_item fl s =
     (if has_prefix s ''[:'' then
        (let name = takeWhile (\<lambda>c. c \<noteq> CHR '':'') (drop 2 s); rest = drop (2 + length name) s in
         if has_prefix rest '':]'' then
           map_option (\<lambda>rs. (mk_ranges fl rs, drop 2 rest)) (posix_class name)
         else None)
      else if has_prefix s (bslash # ''p{Han}'') then Some (han_ranges, drop 7 s)
      else
        case (if has_prefix s [bslash] then perl_class fl (hd (drop 1 s @ [CHR 0x00])) else None) of
          Some rs \<Rightarrow> Some (rs, drop 2 s)
        | None \<Rightarrow>
            (case class_rune s of
               None \<Rightarrow> None
             | Some (lo, rest) \<Rightarrow>
                 if has_prefix rest ''-'' \<and> \<not> has_prefix rest ''-]'' then
                   (case class_rune (drop 1 rest) of
                      Some (hi, rest') \<Rightarrow> if lo \<le> hi then Some (mk_ranges fl [(lo, hi)], rest') else None
                    | None \<Rightarrow> None)
                 else Some (mk_ranges fl [(lo, lo)], rest)))"

fun class_items ::
  "nat \<Rightarrow> flags \<Rightarrow> bool \<Rightarrow> string \<Rightarrow> (int \<times> int) list \<Rightarrow> ((int \<times> int) list \<times> string) option" where
  "class_items 0 fl first s acc = None"
| "class_items (Suc n) fl first s acc =
     (if has_prefix s '']'' \<and> \<not> first then Some (acc, drop 1 s)
      else case class_item fl s of
             None \<Rightarrow> None
           | Some (rs, rest) \<Rightarrow> class_items n fl False rest (acc @ rs))"

definition p_class :: "flags \<Rightarrow> string \<Rightarrow> (regex \<times> string) option" where
  "p_class fl s =
     (let neg = has_prefix s ''^''; s' = (if neg then drop 1 s else s) in
      map_option (\<lambda>(rs, rest). (RSet neg rs, rest)) (class_items (Suc (length s')) fl True s' []))"

fun digits_run :: "string \<Rightarrow> string \<times> string" where
  "digits_run [] = ([], [])"
| "digits_run (c # s) =
     (if is_digit c then (let (ds, r) = digits_run s in (c # ds, r)) else ([], c # s))"

text \<open>\<open>{n}\<close>, \<open>{n,}\<close>, \<open>{n,m}\<close>, after the brace; anything else is a literal brace.\<close>

definition p_braces :: "string \<Rightarrow> ((nat \<times> nat option) \<times> string) option" where
  "p_braces s =
     (let (ds, rest) = digits_run s in
      if ds = [] then None
      else if has_prefix rest ''}'' then Some ((dec_val ds, Some (dec_val ds)), drop 1 rest)
      else if has_prefix rest '','' then
        (let (es, rest') = digits_run (drop 1 rest) in
         if has_prefix rest' ''}'' then
           Some ((dec_val ds, if es = [] then None else Some (dec_val es)), drop 1 rest')
         else None)
      else None)"

text \<open>A repetition operator: its bounds, whether it is greedy, and the rest.\<close>

definition p_op :: "flags \<Rightarrow> string \<Rightarrow> (((nat \<times> nat option) \<times> bool) \<times> string) option" where
  "p_op fl s =
     (let lazy = (\<lambda>b rest. if has_prefix rest ''?'' then Some ((b, fl_u fl), drop 1 rest)
                           else Some ((b, \<not> fl_u fl), rest)) in
      if has_prefix s ''*'' then lazy (0, None) (drop 1 s)
      else if has_prefix s ''+'' then lazy (1, None) (drop 1 s)
      else if has_prefix s ''?'' then lazy (0, Some 1) (drop 1 s)
      else if has_prefix s ''{'' then
        (case p_braces (drop 1 s) of None \<Rightarrow> None | Some (b, rest) \<Rightarrow> lazy b rest)
      else None)"

definition ROpt :: "bool \<Rightarrow> regex \<Rightarrow> regex" where
  "ROpt greedy r = (if greedy then RAlt r REmpty else RAlt REmpty r)"

fun rep_times :: "nat \<Rightarrow> regex \<Rightarrow> regex \<Rightarrow> regex" where
  "rep_times 0 r r' = r'"
| "rep_times (Suc n) r r' = RSeq r (rep_times n r r')"

fun rep_upto :: "nat \<Rightarrow> bool \<Rightarrow> regex \<Rightarrow> regex" where
  "rep_upto 0 greedy r = REmpty"
| "rep_upto (Suc n) greedy r = ROpt greedy (RSeq r (rep_upto n greedy r))"

definition repeat_regex :: "(nat \<times> nat option) \<times> bool \<Rightarrow> regex \<Rightarrow> regex option" where
  "repeat_regex op r =
     (let ((lo, hi), greedy) = op in
      case hi of
        None \<Rightarrow> if lo > 1000 then None else Some (rep_times lo r (RStar greedy r))
      | Some h \<Rightarrow>
          if lo > 1000 \<or> h > 1000 \<or> h < lo then None
          else Some (rep_times lo r (rep_upto (h - lo) greedy r)))"

fun set_flags :: "bool \<Rightarrow> flags \<Rightarrow> string \<Rightarrow> flags option" where
  "set_flags on fl [] = Some fl"
| "set_flags on fl (c # s) =
     (if c = CHR ''-'' \<and> on then set_flags False fl s
      else if c = CHR ''i'' then set_flags on (fl\<lparr>fl_i := on\<rparr>) s
      else if c = CHR ''m'' then set_flags on (fl\<lparr>fl_m := on\<rparr>) s
      else if c = CHR ''s'' then set_flags on (fl\<lparr>fl_s := on\<rparr>) s
      else if c = CHR ''U'' then set_flags on (fl\<lparr>fl_u := on\<rparr>) s
      else None)"

text \<open>The atoms that are no group.\<close>

definition p_simple :: "flags \<Rightarrow> string \<Rightarrow> (regex \<times> string) option" where
  "p_simple fl s =
     (case s of
        [] \<Rightarrow> None
      | c # t \<Rightarrow>
          if c = CHR ''['' then p_class fl t
          else if c = CHR ''.'' then Some (RSet True (if fl_s fl then [] else [(10, 10)]), t)
          else if c = CHR ''^'' then Some (if fl_m fl then RBeginLine else RBegin, t)
          else if c = CHR ''$'' then Some (if fl_m fl then REndLine else REnd, t)
          else if c = bslash then
            (case t of
               [] \<Rightarrow> None
             | d # u \<Rightarrow>
                 if d = CHR ''A'' then Some (RBegin, u)
                 else if d = CHR ''z'' then Some (REnd, u)
                 else if d = CHR ''b'' then Some (RWordB, u)
                 else if d = CHR ''B'' then Some (RNoWordB, u)
                 else if has_prefix t ''p{Han}'' then Some (RSet False han_ranges, drop 6 t)
                 else (case perl_class fl d of
                         Some rs \<Rightarrow> Some (RSet False rs, u)
                       | None \<Rightarrow> map_option (\<lambda>(r, rest). (RSet False (mk_ranges fl [(r, r)]), rest))
                                   (p_escape t)))
          else if p_op fl s \<noteq> None then None
          else map_option (\<lambda>(r, rest). (RSet False (mk_ranges fl [(r, r)]), rest)) (next_rune s))"

text \<open>
  Alternatives up to a closing parenthesis or the end; a sequence with the flags in force; one
  group. The fuel is the length of the pattern, every call consumes some of it or of the fuel.
\<close>

fun p_alt :: "nat \<Rightarrow> flags \<Rightarrow> string \<Rightarrow> (regex \<times> string) option"
and p_seq :: "nat \<Rightarrow> flags \<Rightarrow> regex \<Rightarrow> string \<Rightarrow> (regex \<times> flags \<times> string) option"
and p_group :: "nat \<Rightarrow> flags \<Rightarrow> string \<Rightarrow> (regex \<times> string) option" where
  "p_alt 0 fl s = None"
| "p_alt (Suc n) fl s =
     (case p_seq n fl REmpty s of
        None \<Rightarrow> None
      | Some (r, fl', rest) \<Rightarrow>
          if has_prefix rest ''|'' then
            map_option (\<lambda>(r', rest'). (RAlt r r', rest')) (p_alt n fl' (drop 1 rest))
          else Some (r, rest))"
| "p_seq 0 fl acc s = None"
| "p_seq (Suc n) fl acc s =
     (if s = [] \<or> has_prefix s ''|'' \<or> has_prefix s '')'' then Some (acc, fl, s)
      else
        let letters = takeWhile (\<lambda>c. c \<noteq> CHR '')'' \<and> c \<noteq> CHR '':'') (drop 2 s);
            after = drop (2 + length letters) s
        in if has_prefix s ''(?'' \<and> letters \<noteq> [] \<and> has_prefix after '')'' then
             (case set_flags True fl letters of
                None \<Rightarrow> None
              | Some fl' \<Rightarrow> p_seq n fl' acc (drop 1 after))
           else
             (case (if has_prefix s ''('' then p_group n fl (drop 1 s) else p_simple fl s) of
                None \<Rightarrow> None
              | Some (r, rest) \<Rightarrow>
                  (case p_op fl rest of
                     None \<Rightarrow> p_seq n fl (RSeq acc r) rest
                   | Some (op, rest') \<Rightarrow>
                       if p_op fl rest' \<noteq> None then None
                       else case repeat_regex op r of
                              None \<Rightarrow> None
                            | Some r' \<Rightarrow> p_seq n fl (RSeq acc r') rest')))"
| "p_group 0 fl s = None"
| "p_group (Suc n) fl s =
     (let letters = takeWhile (\<lambda>c. c \<noteq> CHR '':'') (drop 1 s);
          inner =
            (if has_prefix s ''?P<'' \<or> has_prefix s ''?<'' then
               Some (fl, drop 1 (dropWhile (\<lambda>c. c \<noteq> CHR ''>'') s))
             else if has_prefix s ''?'' then
               map_option (\<lambda>fl'. (fl', drop (2 + length letters) s)) (set_flags True fl letters)
             else Some (fl, s))
      in case inner of
           None \<Rightarrow> None
         | Some (fl', s') \<Rightarrow>
             (case p_alt n fl' s' of
                None \<Rightarrow> None
              | Some (r, rest) \<Rightarrow> if has_prefix rest '')'' then Some (r, drop 1 rest) else None))"

definition parse_regex :: "string \<Rightarrow> regex option" where
  "parse_regex s =
     (case p_alt (3 * length s + 3) no_flags s of
        Some (r, []) \<Rightarrow> Some r
      | _ \<Rightarrow> None)"

subsection \<open>The compiler\<close>

record go_regexp =
  re_string :: string
  re_match :: "string \<Rightarrow> bool"
  re_find :: "string \<Rightarrow> string"

type_synonym compiler = "string \<Rightarrow> go_regexp option"

definition go_compile :: compiler where
  "go_compile p =
     map_option (\<lambda>r. \<lparr>re_string = p, re_match = match_string r, re_find = find_string r\<rparr>)
       (parse_regex p)"

text \<open>Patterns are written with \<open>~\<close> for the backslash, which no pattern of the code contains.\<close>

definition rx :: "string \<Rightarrow> string" where
  "rx s = map (\<lambda>c. if c = CHR 0x7E then bslash else c) s"

end
