(* ===== verification/SqlTable.thy ===== *)
theory SqlTable
  imports Regexp
begin

text \<open>
  The shape most managers of the program share: a table of the database and, in memory, what
  was last built from it. An operation executes one statement and, when it succeeded, loads the
  table again; a load whose query fails leaves the memory as it is.

  \<^item> A table is the list of its rows with the next \<open>AUTOINCREMENT\<close> key; the statements are
    the list operations they denote, with \<open>RowsAffected\<close>.
  \<^item> Whether a statement or a query fails for a reason outside the model (I/O, locking) is an
    argument of the operation.
  \<^item> The locale \<open>cached_table\<close> states the contract of such a manager, and proves once that its
    operations keep the memory equal to what the table gives. Each manager interprets it.
\<close>

record 'r sql_table =
  t_rows :: "'r list"
  t_next :: nat

definition empty_table :: "'r sql_table" where
  "empty_table = \<lparr>t_rows = [], t_next = 1\<rparr>"

text \<open>How a flag is stored.\<close>

definition sql_bool :: "bool \<Rightarrow> int" where
  "sql_bool b = (if b then 1 else 0)"

lemma sql_bool_1 [simp]: "sql_bool b = 1 \<longleftrightarrow> b"
  by (simp add: sql_bool_def)

text \<open>\<open>INSERT\<close> under a unique key (a violation is an error), and \<open>INSERT OR IGNORE\<close>.\<close>

definition sql_insert ::
  "('r \<Rightarrow> 'k) \<Rightarrow> (nat \<Rightarrow> 'r) \<Rightarrow> 'r sql_table \<Rightarrow> string + 'r sql_table" where
  "sql_insert key mk t =
     (let row = mk (t_next t) in
      if list_ex (\<lambda>r. key r = key row) (t_rows t) then Inl ''UNIQUE constraint failed''
      else Inr \<lparr>t_rows = t_rows t @ [row], t_next = t_next t + 1\<rparr>)"

definition sql_insert_ignore ::
  "('r \<Rightarrow> 'k) \<Rightarrow> (nat \<Rightarrow> 'r) \<Rightarrow> 'r sql_table \<Rightarrow> 'r sql_table" where
  "sql_insert_ignore key mk t = (case sql_insert key mk t of Inl _ \<Rightarrow> t | Inr t' \<Rightarrow> t')"

definition sql_update :: "('r \<Rightarrow> bool) \<Rightarrow> ('r \<Rightarrow> 'r) \<Rightarrow> 'r sql_table \<Rightarrow> 'r sql_table \<times> nat" where
  "sql_update P f t =
     (t\<lparr>t_rows := map (\<lambda>r. if P r then f r else r) (t_rows t)\<rparr>, length (filter P (t_rows t)))"

definition sql_delete :: "('r \<Rightarrow> bool) \<Rightarrow> 'r sql_table \<Rightarrow> 'r sql_table \<times> nat" where
  "sql_delete P t =
     (t\<lparr>t_rows := filter (\<lambda>r. \<not> P r) (t_rows t)\<rparr>, length (filter P (t_rows t)))"

text \<open>An \<open>UPDATE\<close> on a table with a unique key fails when the result would violate it.\<close>

definition sql_update_unique ::
  "('r \<Rightarrow> 'k) \<Rightarrow> ('r \<Rightarrow> bool) \<Rightarrow> ('r \<Rightarrow> 'r) \<Rightarrow> 'r sql_table \<Rightarrow> string + ('r sql_table \<times> nat)" where
  "sql_update_unique key P f t =
     (let (t', n) = sql_update P f t in
      if distinct (map key (t_rows t')) then Inr (t', n) else Inl ''UNIQUE constraint failed'')"

lemma sql_delete_none: "(snd (sql_delete P t) = 0) = (\<forall>r \<in> set (t_rows t). \<not> P r)"
  by (simp add: sql_delete_def filter_empty_conv)

lemma sql_insert_distinct:
  "distinct (map key (t_rows t)) \<Longrightarrow> sql_insert key mk t = Inr t' \<Longrightarrow> distinct (map key (t_rows t'))"
  by (fastforce simp: sql_insert_def Let_def list_ex_iff split: if_splits)

lemma sql_insert_ignore_distinct:
  "distinct (map key (t_rows t)) \<Longrightarrow> distinct (map key (t_rows (sql_insert_ignore key mk t)))"
  by (auto simp: sql_insert_ignore_def intro: sql_insert_distinct split: sum.split)

lemma sql_delete_distinct:
  "distinct (map key (t_rows t)) \<Longrightarrow> distinct (map key (t_rows (fst (sql_delete P t))))"
  by (simp add: sql_delete_def distinct_map_filter)

lemma sql_insert_ignore_mem:
  "r \<in> set (t_rows t) \<Longrightarrow> r \<in> set (t_rows (sql_insert_ignore key mk t))"
  by (auto simp: sql_insert_ignore_def sql_insert_def Let_def split: sum.split)

subsection \<open>Managers that cache a table\<close>

definition exec_reload ::
  "('m \<Rightarrow> 't) \<Rightarrow> ('t \<Rightarrow> 'm \<Rightarrow> 'm) \<Rightarrow> (bool \<Rightarrow> 'm \<Rightarrow> 'm) \<Rightarrow> bool \<Rightarrow> ('t \<Rightarrow> string + 't) \<Rightarrow> 'm
   \<Rightarrow> (string + unit) \<times> 'm" where
  "exec_reload table put load ok stmt m =
     (case stmt (table m) of
        Inl err \<Rightarrow> (Inl err, m)
      | Inr t \<Rightarrow> (Inr (), load ok (put t m)))"

text \<open>A statement that may fail for outside reasons.\<close>

definition try_stmt :: "string option \<Rightarrow> ('t \<Rightarrow> string + 't) \<Rightarrow> 't \<Rightarrow> string + 't" where
  "try_stmt fail stmt t = (case fail of Some err \<Rightarrow> Inl err | None \<Rightarrow> stmt t)"

text \<open>A statement whose operation reports an error when no row was affected.\<close>

definition affecting :: "string \<Rightarrow> ('t \<Rightarrow> 't \<times> nat) \<Rightarrow> 't \<Rightarrow> string + 't" where
  "affecting err stmt t = (let (t', n) = stmt t in if n = 0 then Inl err else Inr t')"

locale cached_table =
  fixes table :: "'m \<Rightarrow> 't"
    and cache :: "'m \<Rightarrow> 'c"
    and build :: "'t \<Rightarrow> 'c"
    and put :: "'t \<Rightarrow> 'm \<Rightarrow> 'm"
    and load :: "bool \<Rightarrow> 'm \<Rightarrow> 'm"
  assumes load_table: "table (load ok m) = table m"
    and load_ok: "cache (load True m) = build (table m)"
    and load_failed: "load False m = m"
    and put_table: "table (put t m) = t"
    and put_cache: "cache (put t m) = cache m"
begin

definition fresh :: "'m \<Rightarrow> bool" where
  "fresh m \<longleftrightarrow> cache m = build (table m)"

lemma load_fresh: "fresh (load True m)"
  by (simp add: fresh_def load_ok load_table)

lemma exec_ok:
  "stmt (table m) = Inr t \<Longrightarrow>
   fst (exec_reload table put load ok stmt m) = Inr () \<and>
   table (snd (exec_reload table put load ok stmt m)) = t \<and>
   cache (snd (exec_reload table put load True stmt m)) = build t"
  by (simp add: exec_reload_def load_table load_ok put_table)

lemma exec_error:
  "stmt (table m) = Inl err \<Longrightarrow> exec_reload table put load ok stmt m = (Inl err, m)"
  by (simp add: exec_reload_def)

text \<open>An operation whose reload works leaves the cache fresh, whether it succeeds or not.\<close>

lemma exec_fresh: "fresh m \<Longrightarrow> fresh (snd (exec_reload table put load True stmt m))"
  by (auto simp: exec_reload_def load_fresh split: sum.split)

text \<open>A failed reload keeps what was enforced before.\<close>

lemma exec_stale: "cache (snd (exec_reload table put load False stmt m)) = cache m"
  by (auto simp: exec_reload_def load_failed put_cache split: sum.split)

text \<open>Any sequence of operations and reloads ends in the state its table gives.\<close>

lemma exec_all_fresh:
  "fresh m \<Longrightarrow> fresh (foldl (\<lambda>m stmt. snd (exec_reload table put load True stmt m)) m stmts)"
  by (induction stmts arbitrary: m) (auto simp: exec_fresh)

end

end
