(* ===== verification/ProxyConfigProps.thy ===== *)
theory ProxyConfigProps
  imports ProxyConfig
begin

text \<open>
  Properties of the proxy configuration: which protocol lists are valid; the cache of domains as a view of the table
  (the state machine of its operations, its invariant by rule induction) and what a renaming does to it; the settings
  as a store; the life of an API key against the list of the keys issued.
\<close>

subsection \<open>Protocol lists\<close>

definition protocols_in :: "string \<Rightarrow> string list" where
  "protocols_in protocol = filter (\<lambda>p. p \<noteq> '''') (map trim_space (split_char (CHR '','') protocol))"

lemma collect_protocols_parts:
  "(\<forall>p \<in> set (filter (\<lambda>p. p \<noteq> '''') (map trim_space parts)). known_protocol p) \<Longrightarrow>
     collect_protocols parts = Inr (filter (\<lambda>p. p \<noteq> '''') (map trim_space parts))"
  by (induction parts) (auto simp: Let_def)

lemma collect_protocols_known:
  "collect_protocols parts = Inr ps \<Longrightarrow> \<forall>p \<in> set (filter (\<lambda>p. p \<noteq> '''') (map trim_space parts)). known_protocol p"
proof (induction parts arbitrary: ps)
  case (Cons part parts)
  then show ?case
    by (cases "collect_protocols parts") (auto simp: Let_def split: if_splits)
qed simp

lemma four_sets: "S \<in> {{a}, {b}, {a, c}, {b, d}} \<Longrightarrow> S \<subseteq> {a, b, c, d}"
  by auto

lemma protocol_sets:
  assumes "S \<subseteq> {''http'', ''https'', ''ws'', ''wss''}"
  shows "S = {} \<longleftrightarrow> ''http'' \<notin> S \<and> ''https'' \<notin> S \<and> ''ws'' \<notin> S \<and> ''wss'' \<notin> S"
    and "S = {''http''} \<longleftrightarrow> ''http'' \<in> S \<and> ''https'' \<notin> S \<and> ''ws'' \<notin> S \<and> ''wss'' \<notin> S"
    and "S = {''https''} \<longleftrightarrow> ''http'' \<notin> S \<and> ''https'' \<in> S \<and> ''ws'' \<notin> S \<and> ''wss'' \<notin> S"
    and "S = {''http'', ''ws''} \<longleftrightarrow> ''http'' \<in> S \<and> ''https'' \<notin> S \<and> ''ws'' \<in> S \<and> ''wss'' \<notin> S"
    and "S = {''https'', ''wss''} \<longleftrightarrow> ''http'' \<notin> S \<and> ''https'' \<in> S \<and> ''ws'' \<notin> S \<and> ''wss'' \<in> S"
  using assms by auto

text \<open>
  The protocol list of a listener is accepted exactly when its entries, trimmed and without the blank ones, are
  \<open>http\<close> or \<open>https\<close>, alone or with their own web-socket variant, in any order and with repetitions.
  \<open>ws\<close> or \<open>wss\<close> alone, which the comment of the function lists as legal, is refused.
\<close>

theorem valid_protocol_lists:
  "validate_protocol_list protocol = None \<longleftrightarrow>
     set (protocols_in protocol) \<in> {{''http''}, {''https''}, {''http'', ''ws''}, {''https'', ''wss''}}"
proof (cases "\<forall>p \<in> set (protocols_in protocol). known_protocol p")
  case True
  then have c: "collect_protocols (split_char (CHR '','') protocol) = Inr (protocols_in protocol)"
    unfolding protocols_in_def by (rule collect_protocols_parts)
  have sub: "set (protocols_in protocol) \<subseteq> {''http'', ''https'', ''ws'', ''wss''}"
    using True by (auto simp: known_protocol_def)
  show ?thesis
    unfolding validate_protocol_list_def c sum.case insert_iff empty_iff protocol_sets[OF sub]
    using protocol_sets(1)[OF sub] by (simp add: conflict_of_def Let_def)
next
  case False
  obtain err where "collect_protocols (split_char (CHR '','') protocol) = Inl err"
  proof (cases "collect_protocols (split_char (CHR '','') protocol)")
    case (Inr ps)
    from collect_protocols_known[OF this] False show thesis by (simp only: protocols_in_def not_True_eq_False)
  qed (rule that)
  moreover have "\<not> set (protocols_in protocol) \<subseteq> {''http'', ''https'', ''ws'', ''wss''}"
    using False unfolding known_protocol_def by blast
  ultimately show ?thesis using four_sets by (simp only: validate_protocol_list_def sum.case option.distinct) blast
qed

subsection \<open>The cache of domains\<close>

text \<open>What a list of IDs must look like to survive the comma-separated column.\<close>

definition clean_ids :: "string list \<Rightarrow> bool" where
  "clean_ids ids \<longleftrightarrow> (\<forall>i \<in> set ids. i \<noteq> '''' \<and> CHR '','' \<notin> set i \<and> trim_space i = i)"

lemma ids_roundtrip: "clean_ids ids \<Longrightarrow> split_backend_ids (join_backend_ids ids) = ids"
proof (cases "ids = []")
  case False
  assume clean: "clean_ids ids"
  have split: "split_char (CHR '','') (join_with '','' ids) = ids"
    using clean False by (intro split_join) (auto simp: clean_ids_def)
  then have "join_with '','' ids \<noteq> ''''"
    using clean False by (cases ids) (auto simp: clean_ids_def)
  moreover have "filter (\<lambda>i. i \<noteq> '''') (map trim_space ids) = ids"
    using clean by (auto simp: clean_ids_def intro!: map_idI filter_True[THEN trans])
  ultimately show ?thesis
    using False split by (simp add: split_backend_ids_def join_backend_ids_def)
qed (simp add: split_backend_ids_def join_backend_ids_def)

definition clean_domain :: "domain_config \<Rightarrow> bool" where
  "clean_domain cfg \<longleftrightarrow> dc_Domain cfg \<noteq> '''' \<and> clean_ids (dc_ProxyIDs cfg) \<and> clean_ids (dc_BackendIDs cfg)"

lemma scan_written [simp]:
  assumes "clean_domain cfg"
  shows "scan_domain (domain_row_of cfg) = Some cfg"
    and "dw_id r = dc_ID cfg \<Longrightarrow> scan_domain (rewrite_domain_row cfg r) = Some cfg"
  using assms
  by (simp_all add: scan_domain_def scan_domain_with_def domain_row_of_def rewrite_domain_row_def ids_of_def
      ids_roundtrip clean_domain_def)

datatype domain_op =
  AddDomain "string option" domain_config
| UpdateDomain "string option" domain_config
| DeleteDomain "string option" string
| SetGroup "string option" string string
| Lookup string

definition domain_do :: "domain_op \<Rightarrow> pc_manager \<Rightarrow> pc_manager" where
  "domain_do op m =
     (case op of
        AddDomain fail cfg \<Rightarrow> snd (add_domain fail cfg m)
      | UpdateDomain fail cfg \<Rightarrow> snd (update_domain fail cfg m)
      | DeleteDomain fail i \<Rightarrow> snd (delete_domain fail i m)
      | SetGroup fail i g \<Rightarrow> snd (set_domain_group_id fail i g m)
      | Lookup d \<Rightarrow> snd (get_domain_by_name d m))"

text \<open>Operations that write clean configurations and rename no domain.\<close>

definition tame :: "pc_manager \<Rightarrow> domain_op \<Rightarrow> bool" where
  "tame m op =
     (case op of
        AddDomain _ cfg \<Rightarrow> clean_domain cfg
      | UpdateDomain _ cfg \<Rightarrow>
          clean_domain cfg \<and> (\<forall>r \<in> set (pm_domains m). dw_id r = dc_ID cfg \<longrightarrow> dw_domain r = dc_Domain cfg)
      | _ \<Rightarrow> True)"

definition domain_tables_ok :: "pc_manager \<Rightarrow> bool" where
  "domain_tables_ok m \<longleftrightarrow>
     distinct (map dw_id (pm_domains m)) \<and> distinct (map dw_domain (pm_domains m)) \<and> '''' \<notin> dw_domain ` set (pm_domains m)"

definition coherent :: "pc_manager \<Rightarrow> bool" where
  "coherent m \<longleftrightarrow> (\<forall>d cfg. pm_cache m d = Some cfg \<longrightarrow> lookup_domain d (pm_domains m) = Some cfg)"

inductive domains_reachable :: "pc_manager \<Rightarrow> bool" where
  start: "domain_tables_ok db \<Longrightarrow> domains_reachable (new_pc_manager ok db)"
| op: "domains_reachable m \<Longrightarrow> tame m op \<Longrightarrow> domains_reachable (domain_do op m)"

lemma lookup_iff:
  "distinct (map dw_domain rows) \<Longrightarrow>
   lookup_domain d rows = Some cfg \<longleftrightarrow> (\<exists>r \<in> set rows. dw_domain r = d \<and> scan_domain r = Some cfg)"
proof (induction rows)
  case (Cons r rows)
  show ?case
  proof (cases "dw_domain r = d")
    case True
    moreover have "\<forall>r' \<in> set rows. dw_domain r' \<noteq> d" using Cons.prems True by (auto simp: image_iff)
    ultimately show ?thesis by (auto simp: lookup_domain_def)
  next
    case False
    then show ?thesis using Cons by (simp add: lookup_domain_def)
  qed
qed (simp add: lookup_domain_def)

lemma scan_domain_name: "scan_domain r = Some cfg \<Longrightarrow> dc_Domain cfg = dw_domain r"
  by (auto simp: scan_domain_def scan_domain_with_def)

lemma warm_entries:
  "fold (\<lambda>cfg c. c(dc_Domain cfg \<mapsto> cfg)) cfgs c d = Some cfg \<Longrightarrow> c d = Some cfg \<or> cfg \<in> set cfgs \<and> dc_Domain cfg = d"
proof (induction cfgs arbitrary: c)
  case (Cons a cfgs)
  then show ?case using Cons.IH[of "c(dc_Domain a \<mapsto> a)"] by (auto split: if_splits)
qed simp

lemma start_coherent: "domain_tables_ok db \<Longrightarrow> coherent (new_pc_manager ok db)"
  using scan_domain_name
  by (fastforce simp: coherent_def new_pc_manager_def warm_domain_cache_def domain_tables_ok_def lookup_iff map_filter_def
      dest!: warm_entries)

definition served :: "pc_manager \<Rightarrow> bool" where
  "served m \<longleftrightarrow> domain_tables_ok m \<and> coherent m"

lemma served_iff:
  "served m \<longleftrightarrow> domain_tables_ok m \<and>
     (\<forall>d cfg. pm_cache m d = Some cfg \<longrightarrow> (\<exists>r \<in> set (pm_domains m). dw_domain r = d \<and> scan_domain r = Some cfg))"
  by (auto simp: served_def coherent_def domain_tables_ok_def lookup_iff)

lemma servedI:
  assumes "domain_tables_ok m"
    and "\<And>d cfg. pm_cache m d = Some cfg \<Longrightarrow> \<exists>r \<in> set (pm_domains m). dw_domain r = d \<and> scan_domain r = Some cfg"
  shows "served m"
  using assms by (simp add: served_iff)

lemma served_add:
  assumes "served m" and "clean_domain cfg"
  shows "served (snd (add_domain fail cfg m))"
proof (cases "fail = None \<and> \<not> list_ex (\<lambda>r. dw_id r = dc_ID cfg \<or> dw_domain r = dc_Domain cfg) (pm_domains m)")
  case True
  then have new: "\<forall>r \<in> set (pm_domains m). dw_id r \<noteq> dc_ID cfg \<and> dw_domain r \<noteq> dc_Domain cfg"
    by (auto simp: list_ex_iff)
  have row: "dw_id (domain_row_of cfg) = dc_ID cfg" "dw_domain (domain_row_of cfg) = dc_Domain cfg" "dc_Domain cfg \<noteq> ''''"
    using assms(2) by (simp_all add: domain_row_of_def clean_domain_def)
  show ?thesis
    using True assms new row
    by (auto simp: add_domain_def served_iff domain_tables_ok_def split: if_splits)
next
  case False
  then have "snd (add_domain fail cfg m) = m" by (cases fail) (auto simp: add_domain_def)
  then show ?thesis using assms by simp
qed

lemma domain_tables_ok_cong:
  assumes "map dw_id (pm_domains m') = map dw_id (pm_domains m)"
    and "map dw_domain (pm_domains m') = map dw_domain (pm_domains m)"
  shows "domain_tables_ok m' = domain_tables_ok m"
  unfolding domain_tables_ok_def image_set assms ..

lemma served_update:
  assumes "served m" and "tame m (UpdateDomain fail cfg)"
  shows "served (snd (update_domain fail cfg m))"
proof (cases "snd (update_domain fail cfg m) = m")
  case False
  let ?up = "\<lambda>r. if dw_id r = dc_ID cfg then rewrite_domain_row cfg r else r"
  have m': "snd (update_domain fail cfg m) = m\<lparr>pm_domains := map ?up (pm_domains m), pm_cache := (pm_cache m)(dc_Domain cfg \<mapsto> cfg)\<rparr>"
    and ex: "\<exists>r \<in> set (pm_domains m). dw_id r = dc_ID cfg"
    using False by (auto simp: update_domain_def list_ex_iff split: option.splits if_splits)
  have clean: "clean_domain cfg" and same: "r \<in> set (pm_domains m) \<Longrightarrow> dw_id r = dc_ID cfg \<Longrightarrow> dw_domain r = dc_Domain cfg" for r
    using assms(2) by (auto simp: tame_def)
  have names: "map dw_domain (map ?up (pm_domains m)) = map dw_domain (pm_domains m)"
    "map dw_id (map ?up (pm_domains m)) = map dw_id (pm_domains m)"
    using same by (auto simp: rewrite_domain_row_def)
  have tables: "domain_tables_ok (snd (update_domain fail cfg m))"
    using assms(1) names unfolding served_def m' by (subst domain_tables_ok_cong[of _ m]) simp_all
  show ?thesis
  proof (rule servedI[OF tables])
    fix d c assume c: "pm_cache (snd (update_domain fail cfg m)) d = Some c"
    show "\<exists>r \<in> set (pm_domains (snd (update_domain fail cfg m))). dw_domain r = d \<and> scan_domain r = Some c"
    proof (cases "d = dc_Domain cfg")
      case True
      obtain r where r: "r \<in> set (pm_domains m)" "dw_id r = dc_ID cfg" using ex by blast
      then have "rewrite_domain_row cfg r \<in> set (pm_domains (snd (update_domain fail cfg m)))" by (force simp: m')
      moreover have "dw_domain (rewrite_domain_row cfg r) = dc_Domain cfg" by (simp add: rewrite_domain_row_def)
      moreover have "c = cfg" using c True by (simp add: m')
      ultimately show ?thesis using True scan_written(2)[OF clean r(2)] by metis
    next
      case False
      then obtain r where r: "r \<in> set (pm_domains m)" "dw_domain r = d" "scan_domain r = Some c"
        using c assms(1) by (auto simp: m' served_iff)
      then have "dw_id r \<noteq> dc_ID cfg" using same False by blast
      then show ?thesis using r by (force simp: m')
    qed
  qed
qed (use assms in simp)

lemma served_forget:
  assumes "domain_tables_ok m'" and "served m" and "pm_cache m' = pm_cache m"
    and "\<And>r. r \<in> set (pm_domains m) \<Longrightarrow> dw_domain r \<noteq> name \<Longrightarrow> r \<in> set (pm_domains m')"
    and "name = '''' \<Longrightarrow> pm_domains m' = pm_domains m"
  shows "served (forget_domain name m')"
proof (rule servedI)
  show "domain_tables_ok (forget_domain name m')" using assms(1) by (simp add: forget_domain_def domain_tables_ok_def)
  fix d c assume "pm_cache (forget_domain name m') d = Some c"
  then have c: "pm_cache m d = Some c" "name \<noteq> '''' \<Longrightarrow> d \<noteq> name"
    using assms(3) by (auto simp: forget_domain_def split: if_splits)
  then obtain r where r: "r \<in> set (pm_domains m)" "dw_domain r = d" "scan_domain r = Some c"
    using assms(2) by (auto simp: served_iff)
  then have "r \<in> set (pm_domains m')" using assms(4,5) c(2) by (cases "name = ''''") auto
  then show "\<exists>r \<in> set (pm_domains (forget_domain name m')). dw_domain r = d \<and> scan_domain r = Some c"
    using r by (auto simp: forget_domain_def)
qed

lemma domain_name_of_some:
  "r \<in> set (pm_domains m) \<Longrightarrow> dw_id r = i \<Longrightarrow> distinct (map dw_id (pm_domains m)) \<Longrightarrow> domain_name_of i m = dw_domain r"
proof -
  assume r: "r \<in> set (pm_domains m)" "dw_id r = i" and d: "distinct (map dw_id (pm_domains m))"
  then obtain r' where r': "find (\<lambda>r. dw_id r = i) (pm_domains m) = Some r'" "r' \<in> set (pm_domains m)" "dw_id r' = i"
    by (metis (mono_tags, lifting) find_None_iff find_Some_iff nth_mem option.exhaust)
  then have "r' = r" using r d by (auto simp: distinct_map inj_on_def)
  then show ?thesis using r' by (simp add: domain_name_of_def)
qed

lemma served_delete:
  assumes "served m"
  shows "served (snd (delete_domain fail i m))"
proof (cases fail)
  case None
  let ?m' = "m\<lparr>pm_domains := filter (\<lambda>r. dw_id r \<noteq> i) (pm_domains m)\<rparr>"
  have ok: "domain_tables_ok m" using assms by (simp add: served_def)
  then have "domain_tables_ok ?m'" by (auto simp: domain_tables_ok_def distinct_map_filter)
  moreover have "r \<in> set (pm_domains ?m')" if "r \<in> set (pm_domains m)" "dw_domain r \<noteq> domain_name_of i m" for r
    using that domain_name_of_some[of r m i] ok by (auto simp: domain_tables_ok_def)
  moreover have "pm_domains ?m' = pm_domains m" if "domain_name_of i m = ''''"
    using that domain_name_of_some[of _ m i] ok by (auto simp: domain_tables_ok_def intro!: filter_True)
  ultimately show ?thesis
    using None assms by (simp add: delete_domain_def served_forget)
qed (simp add: delete_domain_def assms)

lemma served_group:
  assumes "served m"
  shows "served (snd (set_domain_group_id fail i g m))"
proof (cases fail)
  case None
  let ?m' = "m\<lparr>pm_domains := map (\<lambda>r. if dw_id r = i then r\<lparr>dw_group_id := Some g\<rparr> else r) (pm_domains m)\<rparr>"
  have ok: "domain_tables_ok m" using assms by (simp add: served_def)
  have ok': "domain_tables_ok ?m'"
    using ok by (subst domain_tables_ok_cong[of _ m]) (auto simp: comp_def intro!: map_cong)
  have name: "domain_name_of i ?m' = dw_domain r" if "r \<in> set (pm_domains m)" "dw_id r = i" for r
    using domain_name_of_some[of "r\<lparr>dw_group_id := Some g\<rparr>" ?m' i] that ok'
    by (force simp: domain_tables_ok_def)
  have "r \<in> set (pm_domains ?m')" if "r \<in> set (pm_domains m)" "dw_domain r \<noteq> domain_name_of i ?m'" for r
    using that name[of r] by force
  moreover have "pm_domains ?m' = pm_domains m" if "domain_name_of i ?m' = ''''"
    using that name ok by (force simp: domain_tables_ok_def intro!: map_idI)
  ultimately have "served (forget_domain (domain_name_of i ?m') ?m')"
    using ok' assms by (intro served_forget[of ?m' m]) simp_all
  then show ?thesis using None by (simp add: set_domain_group_id_def Let_def)
qed (simp add: set_domain_group_id_def assms)

lemma served_lookup:
  assumes "served m"
  shows "served (snd (get_domain_by_name d m))"
  using assms by (auto simp: get_domain_by_name_def served_def coherent_def domain_tables_ok_def split: option.splits)

lemma reachable_served: "domains_reachable m \<Longrightarrow> served m"
proof (induction rule: domains_reachable.induct)
  case (start db ok)
  then show ?case
    using start_coherent[OF start]
    by (simp add: served_def) (simp add: domain_tables_ok_def new_pc_manager_def warm_domain_cache_def)
next
  case (op m op)
  then show ?case
    by (cases op) (auto simp: domain_do_def tame_def served_add served_delete served_group served_lookup
        intro: served_update)
qed

text \<open>
  One after another: as long as clean configurations are written and no domain is renamed, looking up a
  name answers exactly the row of the table with that name, after any sequence of additions, updates, deletions,
  group changes and look-ups, failed statements included.
\<close>

theorem domain_cache_transparent:
  assumes "domains_reachable m"
  shows "fst (get_domain_by_name d m) = lookup_domain d (pm_domains m)"
  using reachable_served[OF assms]
  by (auto simp: get_domain_by_name_def served_def coherent_def split: option.split)

definition sample_domain :: "string \<Rightarrow> domain_config" where
  "sample_domain name =
     \<lparr>dc_ID = ''d1'', dc_Domain = name, dc_ProxyIDs = [], dc_BackendIDs = [''b1''], dc_GroupID = '''', dc_CertID = '''',
      dc_Enabled = True, dc_ForceHTTPS = False\<rparr>"

definition empty_pc :: pc_manager where
  "empty_pc = \<lparr>pm_proxies = [], pm_domains = [], pm_config = Map.empty, pm_keys = [], pm_cache = Map.empty\<rparr>"

lemma sample_clean: "clean_domain (sample_domain ''a.org'')"
proof -
  have "trim_space ''b1'' = ''b1''" by code_simp
  then show ?thesis by (simp add: sample_domain_def clean_domain_def clean_ids_def)
qed

lemma domain_cache_transparent_witness:
  "fst (get_domain_by_name ''a.org'' (domain_do (DeleteDomain None ''d1'')
     (domain_do (AddDomain None (sample_domain ''a.org'')) (new_pc_manager True empty_pc)))) = None"
proof -
  have "domains_reachable (domain_do (DeleteDomain None ''d1'')
     (domain_do (AddDomain None (sample_domain ''a.org'')) (new_pc_manager True empty_pc)))"
    by (intro domains_reachable.intros) (simp_all add: empty_pc_def domain_tables_ok_def tame_def sample_clean)
  from domain_cache_transparent[OF this] show ?thesis
    by (simp add: domain_do_def add_domain_def delete_domain_def new_pc_manager_def warm_domain_cache_def empty_pc_def
        domain_row_of_def sample_domain_def lookup_domain_def forget_domain_def)
qed

text \<open>
  A renamed domain keeps being served under its old name: \<open>UpdateDomain\<close> stores the new name in the cache and
  leaves the old one there, and \<open>DeleteDomain\<close> forgets the new name only. Even after the domain is deleted, a request for
  the old name is routed by the configuration that no table holds any more.
\<close>

theorem renamed_domain_still_served:
  assumes "pm_cache m old = Some cfg" and "dc_Domain cfg' \<noteq> old"
    and "fst (update_domain fail cfg' m) = None" and "distinct (map dw_id (pm_domains m))"
  shows "let m' = snd (delete_domain fail' (dc_ID cfg') (snd (update_domain fail cfg' m)))
    in fst (get_domain_by_name old m') = Some cfg \<and>
       (fail' = None \<longrightarrow> (\<forall>r \<in> set (pm_domains m'). dw_id r \<noteq> dc_ID cfg'))"
proof -
  let ?up = "\<lambda>r. if dw_id r = dc_ID cfg' then rewrite_domain_row cfg' r else r"
  define m1 where "m1 = snd (update_domain fail cfg' m)"
  have m1: "m1 = m\<lparr>pm_domains := map ?up (pm_domains m), pm_cache := (pm_cache m)(dc_Domain cfg' \<mapsto> cfg')\<rparr>"
    and ex: "\<exists>r \<in> set (pm_domains m). dw_id r = dc_ID cfg'"
    using assms(3) by (auto simp: update_domain_def m1_def list_ex_iff split: option.splits if_splits)
  obtain r where r: "r \<in> set (pm_domains m)" "dw_id r = dc_ID cfg'" using ex by blast
  have ids: "map dw_id (pm_domains m1) = map dw_id (pm_domains m)" by (auto simp: m1 rewrite_domain_row_def)
  have "rewrite_domain_row cfg' r \<in> set (pm_domains m1)" using r by (force simp: m1)
  moreover have "dw_id (rewrite_domain_row cfg' r) = dc_ID cfg'" "dw_domain (rewrite_domain_row cfg' r) = dc_Domain cfg'"
    using r by (simp_all add: rewrite_domain_row_def)
  ultimately have name: "domain_name_of (dc_ID cfg') m1 = dc_Domain cfg'"
    using domain_name_of_some[of "rewrite_domain_row cfg' r" m1 "dc_ID cfg'"] ids assms(4) by simp
  have "pm_cache (snd (delete_domain fail' (dc_ID cfg') m1)) old = Some cfg"
    using assms(1,2) name by (auto simp: delete_domain_def forget_domain_def m1 split: option.split)
  then show ?thesis
    by (auto simp: Let_def m1_def[symmetric] get_domain_by_name_def delete_domain_def forget_domain_def)
qed

lemma renamed_domain_still_served_witness:
  "let m = snd (add_domain None (sample_domain ''old.org'') empty_pc);
       m' = snd (delete_domain None ''d1'' (snd (update_domain None (sample_domain ''new.org'') m)))
   in pm_domains m' = [] \<and> fst (get_domain_by_name ''old.org'' m') = Some (sample_domain ''old.org'')"
proof -
  let ?m = "snd (add_domain None (sample_domain ''old.org'') empty_pc)"
  have m: "pm_cache ?m ''old.org'' = Some (sample_domain ''old.org'')"
    "fst (update_domain None (sample_domain ''new.org'') ?m) = None" "distinct (map dw_id (pm_domains ?m))"
    by (simp_all add: add_domain_def empty_pc_def update_domain_def domain_row_of_def sample_domain_def)
  have "dc_ID (sample_domain ''new.org'') = ''d1''" "dc_Domain (sample_domain ''new.org'') \<noteq> ''old.org''"
    by (simp_all add: sample_domain_def)
  then show ?thesis
    using renamed_domain_still_served[OF m(1) _ m(2,3), of None]
    by (simp add: Let_def)
      (simp add: add_domain_def empty_pc_def update_domain_def domain_row_of_def rewrite_domain_row_def sample_domain_def
        delete_domain_def forget_domain_def)
qed

subsection \<open>Settings\<close>

lemma get_set_config [simp]:
  "get_system_config (\<lambda>_. True) key (snd (set_system_config None now key value m)) = Inr value"
  "key' \<noteq> key \<Longrightarrow> get_system_config ok key' (snd (set_system_config None now key value m)) = get_system_config ok key' m"
  by (auto simp: get_system_config_def set_system_config_def)

lemma digits_head:
  assumes "list_all is_digit ds" and "ds \<noteq> ''''"
  shows "dropWhile (\<lambda>c. c = CHR '' '') ds = ds" "\<not> has_prefix ds ''-''" "\<not> has_prefix ds ''+''" "takeWhile is_digit ds = ds"
proof -
  obtain d rest where ds: "ds = d # rest" using assms(2) by (cases ds) auto
  have "is_digit d" using assms(1) ds by simp
  moreover have "\<not> is_digit (CHR '' '')" "\<not> is_digit (CHR ''-'')" "\<not> is_digit (CHR ''+'')" by code_simp+
  ultimately show "dropWhile (\<lambda>c. c = CHR '' '') ds = ds" "\<not> has_prefix ds ''-''" "\<not> has_prefix ds ''+''"
    by (auto simp: ds has_prefix_def)
  show "takeWhile is_digit ds = ds" using assms(1) by (simp add: takeWhile_eq_all_conv list_all_iff)
qed

lemma scan_format_int:
  assumes "- (2 ^ 63) \<le> n" and "n < 2 ^ 63"
  shows "scan_int (format_int n) = Some n"
proof (cases "n < 0")
  case True
  obtain ds where ds: "dec_string (nat (- n)) = ds" by blast
  then have spec: "dec_val ds = nat (- n)" "list_all is_digit ds" "ds \<noteq> ''''"
    using dec_string_spec[of "nat (- n)"] by auto
  have "takeWhile is_digit ds = ds" using digits_head(4) spec(2,3) by blast
  then show ?thesis
    using True assms spec by (simp add: scan_int_def format_int_def has_prefix_def ds Let_def del: takeWhile_eq_all_conv)
next
  case False
  note d = digits_head[of "dec_string (nat n)"]
  show ?thesis
    using False assms dec_string_spec[of "nat n"] d
    by (simp add: scan_int_def format_int_def Let_def del: takeWhile_eq_all_conv)
qed

lemma format_int_ne [simp]: "format_int n \<noteq> ''''"
  using dec_string_spec by (auto simp: format_int_def)

text \<open>
  Settings read back as written: the rate-limit settings for every value of an \<open>int\<close>, and the list of trusted proxies
  when it is not empty and no entry holds a comma. The empty list does not: it reads back as the two loopback networks,
  so the trust in them cannot be withdrawn.
\<close>

theorem settings_read_back:
  assumes "- (2 ^ 63) \<le> qps" "qps < 2 ^ 63" "- (2 ^ 63) \<le> burst" "burst < 2 ^ 63"
    and "ps \<noteq> []" "ps \<noteq> ['''']" "\<forall>s \<in> set ps. CHR '','' \<notin> set s"
  shows "get_rate_limit_config (\<lambda>_. True) (snd (set_rate_limit_config (\<lambda>_. None) now e qps burst m)) =
      (None, \<lparr>rc_enabled = e, rc_qps = qps, rc_burst = burst\<rparr>) \<and>
    get_trusted_proxies (\<lambda>_. True) (snd (set_trusted_proxies None now ps m)) = Inr ps \<and>
    get_trusted_proxies (\<lambda>_. True) (snd (set_trusted_proxies None now [] m)) = Inr [''127.0.0.1/32'', ''::1/128'']"
proof (intro conjI)
  have enabled: "((if e then ''true'' else ''false'') = ''true'') = e" by simp
  show "get_rate_limit_config (\<lambda>_. True) (snd (set_rate_limit_config (\<lambda>_. None) now e qps burst m)) =
      (None, \<lparr>rc_enabled = e, rc_qps = qps, rc_burst = burst\<rparr>)"
    using assms(1-4) enabled
    by (simp add: get_rate_limit_config_def set_rate_limit_config_def set_system_config_def get_system_config_def
        int_setting_def scan_format_int Let_def)
  have "join_with '','' ps \<noteq> ''''" using assms(5,6) by (cases ps rule: remdups_adj.cases) auto
  moreover have "split_char (CHR '','') (join_with '','' ps) = ps" using assms(5,7) by (rule split_join)
  ultimately show "get_trusted_proxies (\<lambda>_. True) (snd (set_trusted_proxies None now ps m)) = Inr ps"
    by (simp add: get_trusted_proxies_def set_trusted_proxies_def)
qed (simp add: get_trusted_proxies_def set_trusted_proxies_def)

lemma settings_read_back_witness:
  "snd (get_rate_limit_config (\<lambda>_. True) (snd (set_rate_limit_config (\<lambda>_. None) 7 True (-3) 250 empty_pc))) =
   \<lparr>rc_enabled = True, rc_qps = -3, rc_burst = 250\<rparr>"
  using settings_read_back[of "-3" 250 "[''10.0.0.1'']" 7 True empty_pc] by simp

subsection \<open>API keys\<close>

text \<open>\<open>live\<close>: the keys issued and not revoked, by ID, with whether they are enabled. \<open>K\<close>: the keys in play.\<close>

inductive keys_reachable :: "(string \<Rightarrow> string) \<Rightarrow> string set \<Rightarrow> pc_manager \<Rightarrow> (string \<rightharpoonup> string \<times> bool) \<Rightarrow> bool"
  for sha256 K where
  none: "pm_keys m = [] \<Longrightarrow> keys_reachable sha256 K m Map.empty"
| issue: "keys_reachable sha256 K m live \<Longrightarrow> key \<in> K \<Longrightarrow> 12 < length key \<Longrightarrow> \<forall>i b. live i \<noteq> Some (key, b) \<Longrightarrow>
     fst (add_api_key sha256 fail i now name key m) = Inr k \<Longrightarrow>
     keys_reachable sha256 K (snd (add_api_key sha256 fail i now name key m)) (live(i \<mapsto> (key, True)))"
| revoke: "keys_reachable sha256 K m live \<Longrightarrow> fst (delete_api_key fail i m) = None \<Longrightarrow>
     keys_reachable sha256 K (snd (delete_api_key fail i m)) (live(i := None))"
| toggle: "keys_reachable sha256 K m live \<Longrightarrow> fst (toggle_api_key fail i b m) = None \<Longrightarrow>
     keys_reachable sha256 K (snd (toggle_api_key fail i b m)) (live(i := map_option (\<lambda>(k, _). (k, b)) (live i)))"

definition issued_row :: "(string \<Rightarrow> string) \<Rightarrow> string set \<Rightarrow> (string \<rightharpoonup> string \<times> bool) \<Rightarrow> api_key_row \<Rightarrow> bool" where
  "issued_row sha256 K live r \<longleftrightarrow>
     (\<exists>key. live (ak_id r) = Some (key, ak_enabled r = 1) \<and> key \<in> K \<and> 12 < length key \<and>
            ak_key r = take 12 key \<and> ak_key_hash r = sha256 key \<and> ak_expires_at r = 0)"

definition keys_ok :: "(string \<Rightarrow> string) \<Rightarrow> string set \<Rightarrow> pc_manager \<Rightarrow> (string \<rightharpoonup> string \<times> bool) \<Rightarrow> bool" where
  "keys_ok sha256 K m live \<longleftrightarrow>
     dom live = ak_id ` set (pm_keys m) \<and> (\<forall>r \<in> set (pm_keys m). issued_row sha256 K live r) \<and>
     (\<forall>i j key b c. live i = Some (key, b) \<and> live j = Some (key, c) \<longrightarrow> i = j)"

lemma keys_reachable_ok: "keys_reachable sha256 K m live \<Longrightarrow> keys_ok sha256 K m live"
proof (induction rule: keys_reachable.induct)
  case (none m)
  then show ?case by (simp add: keys_ok_def)
next
  case (issue m live key fail i now name k)
  let ?row = "\<lparr>ak_id = i, ak_name = name, ak_key = take 12 key, ak_key_hash = sha256 key,
     ak_created_at = now, ak_expires_at = 0, ak_enabled = 1, ak_scopes = default_scopes\<rparr>"
  have m': "snd (add_api_key sha256 fail i now name key m) = m\<lparr>pm_keys := pm_keys m @ [?row]\<rparr>"
    and new: "i \<notin> ak_id ` set (pm_keys m)"
    using issue(5) by (auto simp: add_api_key_def list_ex_iff split: if_splits option.splits)
  then have "live i = None" using issue.IH by (auto simp: keys_ok_def dom_def)
  have old: "dom live = ak_id ` set (pm_keys m)" "\<forall>r \<in> set (pm_keys m). issued_row sha256 K live r"
    "\<forall>i j key b c. live i = Some (key, b) \<and> live j = Some (key, c) \<longrightarrow> i = j"
    using issue.IH by (auto simp: keys_ok_def)
  show ?case
    unfolding keys_ok_def
  proof (intro conjI)
    show "dom (live(i \<mapsto> (key, True))) = ak_id ` set (pm_keys (snd (add_api_key sha256 fail i now name key m)))"
      using old(1) by (simp add: m')
    show "\<forall>r \<in> set (pm_keys (snd (add_api_key sha256 fail i now name key m))). issued_row sha256 K (live(i \<mapsto> (key, True))) r"
      using old(2) new issue.hyps by (auto simp: m' issued_row_def image_iff)
    show "\<forall>i' j k b c. (live(i \<mapsto> (key, True))) i' = Some (k, b) \<and> (live(i \<mapsto> (key, True))) j = Some (k, c) \<longrightarrow> i' = j"
      using old(3) issue.hyps(4) by (auto split: if_splits)
  qed
next
  case (revoke m live fail i)
  then have m': "snd (delete_api_key fail i m) = m\<lparr>pm_keys := filter (\<lambda>r. ak_id r \<noteq> i) (pm_keys m)\<rparr>"
    by (auto simp: delete_api_key_def split: option.splits)
  have ids: "ak_id ` set (pm_keys (snd (delete_api_key fail i m))) = ak_id ` set (pm_keys m) - {i}" by (auto simp: m')
  have dom: "dom (live(i := None)) = dom live - {i}" by auto
  show ?case using revoke.IH unfolding keys_ok_def ids dom by (auto simp: m' issued_row_def split: if_splits)
next
  case (toggle m live fail i b)
  then have m': "snd (toggle_api_key fail i b m) =
      m\<lparr>pm_keys := map (\<lambda>r. if ak_id r = i then r\<lparr>ak_enabled := sql_bool b\<rparr> else r) (pm_keys m)\<rparr>"
    by (auto simp: toggle_api_key_def split: option.splits)
  have ids: "ak_id ` set (pm_keys (snd (toggle_api_key fail i b m))) = ak_id ` set (pm_keys m)"
  proof -
    have "map ak_id (pm_keys (snd (toggle_api_key fail i b m))) = map ak_id (pm_keys m)" by (simp add: m')
    then show ?thesis unfolding image_set by (rule arg_cong)
  qed
  show ?case
    using toggle.IH unfolding keys_ok_def ids
    by (auto simp: m' issued_row_def split: if_splits)
qed

lemma validate_row:
  assumes row: "issued_row sha256 K live r" and "ak_key_hash r = sha256 key \<or> ak_key r = key"
    and "key \<in> K" "inj_on sha256 K" "\<forall>k \<in> K. sha256 k \<noteq> ''''"
    and unique: "\<forall>i j key b c. live i = Some (key, b) \<and> live j = Some (key, c) \<longrightarrow> i = j"
    and long: "\<forall>i k b. live i = Some (k, b) \<longrightarrow> 12 < length k"
  shows "(ak_enabled r = 1 \<and> \<not> (ak_key_hash r \<noteq> '''' \<and> sha256 key \<noteq> ak_key_hash r) \<and> \<not> (ak_key_hash r = '''' \<and> key \<noteq> ak_key r))
     \<longleftrightarrow> (\<exists>i. live i = Some (key, True))"
proof -
  obtain full where full: "live (ak_id r) = Some (full, ak_enabled r = 1)" "full \<in> K" "12 < length full"
    "ak_key r = take 12 full" "ak_key_hash r = sha256 full"
    using row by (auto simp: issued_row_def)
  show ?thesis
  proof (cases "full = key")
    case True
    have "ak_enabled r = 1" if "live i = Some (key, True)" for i
    proof -
      have "i = ak_id r" using unique that full(1) True by blast
      then show ?thesis using that full(1) by simp
    qed
    moreover have "\<exists>i. live i = Some (key, True)" if "ak_enabled r = 1" using that full(1) True by auto
    ultimately show ?thesis using full(5) assms(3,5) True by auto
  next
    case False
    then have h: "sha256 full \<noteq> sha256 key" using assms(3,4) full(2) by (auto dest: inj_onD)
    then have "key = take 12 full" using assms(2) full by auto
    then have "length key = 12" using full(3) by simp
    then have "\<not> (\<exists>i. live i = Some (key, True))" using long by fastforce
    then show ?thesis using h full(2,5) assms(5) by auto
  qed
qed

text \<open>
  A key is accepted exactly while it is live: issued, not revoked, enabled. In particular the prefix kept in clear in the
  table is not accepted, and revoking or disabling a key takes effect at once. \<open>K\<close> are the keys in play, on which the digest
  must not collide; the proxy issues keys longer than the twelve bytes it keeps.
\<close>

theorem api_key_accepted_iff_live:
  assumes "keys_reachable sha256 K m live" and "key \<in> K" and "inj_on sha256 K" and "\<forall>k \<in> K. sha256 k \<noteq> ''''"
  shows "validate_api_key sha256 True now key m \<longleftrightarrow> (\<exists>i. live i = Some (key, True))"
proof -
  have ok: "keys_ok sha256 K m live" using assms(1) by (rule keys_reachable_ok)
  then have unique: "\<forall>i j key b c. live i = Some (key, b) \<and> live j = Some (key, c) \<longrightarrow> i = j"
    and rows: "\<And>r. r \<in> set (pm_keys m) \<Longrightarrow> issued_row sha256 K live r" and dom: "dom live = ak_id ` set (pm_keys m)"
    by (auto simp: keys_ok_def)
  have row_of: "\<exists>r \<in> set (pm_keys m). ak_key_hash r = sha256 k \<and> 12 < length k" if "live i = Some (k, b)" for i k b
  proof -
    have "i \<in> ak_id ` set (pm_keys m)" unfolding dom[symmetric] using that by (rule domI)
    then obtain r where r: "r \<in> set (pm_keys m)" "ak_id r = i" by blast
    then show ?thesis using rows[OF r(1)] that by (auto simp: issued_row_def)
  qed
  then have long: "\<forall>i k b. live i = Some (k, b) \<longrightarrow> 12 < length k" by blast
  show ?thesis
  proof (cases "find (\<lambda>r. ak_key_hash r = sha256 key \<or> ak_key r = key) (pm_keys m)")
    case None
    then have "\<not> (\<exists>i. live i = Some (key, True))" using row_of by (fastforce simp: find_None_iff)
    then show ?thesis using None by (simp add: validate_api_key_def validate_api_key_with_scopes_def)
  next
    case (Some r)
    then have r: "r \<in> set (pm_keys m)" "ak_key_hash r = sha256 key \<or> ak_key r = key"
      by (auto simp: find_Some_iff)
    have expiry: "ak_expires_at r = 0" using rows[OF r(1)] by (auto simp: issued_row_def)
    show ?thesis
      using validate_row[OF rows[OF r(1)] r(2) assms(2-4) unique long] Some expiry
      by (auto simp: validate_api_key_def validate_api_key_with_scopes_def)
  qed
qed

lemma api_key_accepted_iff_live_witness:
  "let m = snd (add_api_key (\<lambda>k. ''h'' @ k) None ''ak_1'' 7 ''n'' ''gwak_0123456789'' empty_pc)
   in validate_api_key (\<lambda>k. ''h'' @ k) True 9 ''gwak_0123456789'' m \<and>
      \<not> validate_api_key (\<lambda>k. ''h'' @ k) True 9 ''gwak_0123456'' m"
proof -
  let ?K = "{''gwak_0123456789'', ''gwak_0123456''}" and ?sha = "\<lambda>k. ''h'' @ k"
  let ?m = "snd (add_api_key ?sha None ''ak_1'' 7 ''n'' ''gwak_0123456789'' empty_pc)"
  have reach: "keys_reachable ?sha ?K ?m [''ak_1'' \<mapsto> (''gwak_0123456789'', True)]"
    by (rule keys_reachable.issue[OF keys_reachable.none]) (simp_all add: empty_pc_def add_api_key_def)
  have inj: "inj_on ?sha ?K" by (simp add: inj_on_def)
  show ?thesis
    using api_key_accepted_iff_live[OF reach _ inj, of "''gwak_0123456789''" 9] api_key_accepted_iff_live[OF reach _ inj, of "''gwak_0123456''" 9]
    by (simp add: Let_def split: if_splits)
qed

end
