(* ===== verification/Shards.thy ===== *)
theory Shards
  imports Balance "HOL-Library.AList"
begin

text \<open>
  The sharded maps of the two rate limiters: 64 locked maps, the shard of a key chosen by the
  FNV-1a hash of its bytes (\<open>getShard\<close> of \<open>ratelimit/profile.go\<close> and of
  \<open>limiter/limiter.go\<close>). A Go map is an association list with distinct keys.

  \<open>shards_ok\<close> is the invariant that makes the 64 maps one map: every key lies in the shard of
  its hash. The locale \<open>keyed_store\<close> is what the users of a store rely on; its lemmas are the
  patterns they use, "look up or create" and "update in place".
\<close>

type_synonym 'v shards = "(string \<times> 'v) list list"

definition profile_shard_count :: nat where
  "profile_shard_count = 64"

definition shard_index :: "string \<Rightarrow> nat" where
  "shard_index k = hash_index k profile_shard_count"

definition empty_shards :: "'v shards" where
  "empty_shards = replicate profile_shard_count []"

definition shard_lookup :: "'v shards \<Rightarrow> string \<Rightarrow> 'v option" where
  "shard_lookup ss k = map_of (ss ! shard_index k) k"

definition shard_put :: "string \<Rightarrow> 'v \<Rightarrow> 'v shards \<Rightarrow> 'v shards" where
  "shard_put k v ss = ss[shard_index k := AList.update k v (ss ! shard_index k)]"

definition shards_ok :: "'v shards \<Rightarrow> bool" where
  "shards_ok ss \<longleftrightarrow>
     length ss = profile_shard_count \<and>
     (\<forall>i < profile_shard_count. distinct (map fst (ss ! i)) \<and> (\<forall>e \<in> set (ss ! i). shard_index (fst e) = i))"

lemma shard_index_less [simp]: "shard_index k < profile_shard_count"
  by (simp add: shard_index_def hash_index_def profile_shard_count_def)

lemma shards_okD:
  assumes "shards_ok ss"
  shows "length ss = profile_shard_count"
    "i < profile_shard_count \<Longrightarrow> distinct (map fst (ss ! i))"
    "i < profile_shard_count \<Longrightarrow> e \<in> set (ss ! i) \<Longrightarrow> shard_index (fst e) = i"
  using assms by (auto simp: shards_ok_def)

lemma shards_ok_empty: "shards_ok empty_shards"
  by (simp add: shards_ok_def empty_shards_def)

lemma lookup_empty: "shard_lookup empty_shards k = None"
  by (simp add: shard_lookup_def empty_shards_def)

lemma shards_ok_put:
  assumes ok: "shards_ok ss"
  shows "shards_ok (shard_put k v ss)"
  unfolding shards_ok_def
proof (intro conjI allI impI)
  show "length (shard_put k v ss) = profile_shard_count"
    using shards_okD(1)[OF ok] by (simp add: shard_put_def)
next
  fix i
  assume i: "i < profile_shard_count"
  have at: "shard_put k v ss ! i = (if i = shard_index k then AList.update k v (ss ! i) else ss ! i)"
    using i shards_okD(1)[OF ok] by (simp add: shard_put_def)
  show "distinct (map fst (shard_put k v ss ! i))"
    using shards_okD(2)[OF ok i] by (auto simp: at intro: distinct_update)
  show "\<forall>e \<in> set (shard_put k v ss ! i). shard_index (fst e) = i"
  proof
    fix e
    assume "e \<in> set (shard_put k v ss ! i)"
    then have "fst e \<in> fst ` set (shard_put k v ss ! i)" by (rule imageI)
    then have "fst e = k \<and> i = shard_index k \<or> fst e \<in> fst ` set (ss ! i)"
      by (simp add: at dom_update split: if_splits)
    then show "shard_index (fst e) = i" using shards_okD(3)[OF ok i] by auto
  qed
qed

lemma lookup_put:
  assumes ok: "shards_ok ss"
  shows "shard_lookup (shard_put k v ss) k' = (if k' = k then Some v else shard_lookup ss k')"
  using shards_okD(1)[OF ok]
  by (cases "shard_index k' = shard_index k") (auto simp: shard_lookup_def shard_put_def update_conv')

lemma lookup_mem:
  assumes "shards_ok ss" "i < profile_shard_count" "e \<in> set (ss ! i)"
  shows "shard_lookup ss (fst e) = Some (snd e)"
  using shards_okD(2,3)[OF assms(1) assms(2)] assms(3) by (simp add: shard_lookup_def)

lemma lookup_some:
  "shard_lookup ss k = Some v \<Longrightarrow> (k, v) \<in> set (ss ! shard_index k)"
  by (simp add: shard_lookup_def map_of_SomeD)

lemma shards_entries:
  assumes ok: "shards_ok ss"
  shows "distinct (map fst (concat ss))" "set (concat ss) = {(k, v). shard_lookup ss k = Some v}"
proof -
  have len: "length ss = profile_shard_count" by (rule shards_okD(1)[OF ok])
  have disj: "set (map fst (ss ! i)) \<inter> set (map fst (ss ! j)) = {}"
    if "i < profile_shard_count" "j < profile_shard_count" "i \<noteq> j" for i j
    using shards_okD(3)[OF ok that(1)] shards_okD(3)[OF ok that(2)] that(3) by fastforce
  have "distinct (concat (map (map fst) ss))" if "length ss \<le> profile_shard_count"
      "\<And>i j. i < length ss \<Longrightarrow> j < length ss \<Longrightarrow> i \<noteq> j \<Longrightarrow>
         set (map fst (ss ! i)) \<inter> set (map fst (ss ! j)) = {}"
      "\<And>i. i < length ss \<Longrightarrow> distinct (map fst (ss ! i))" for ss :: "'a shards"
    using that
  proof (induction ss)
    case (Cons s ss)
    have "set (map fst s) \<inter> set (map fst (ss ! j)) = {}" if "j < length ss" for j
      using Cons.prems(2)[of 0 "Suc j"] that by simp
    then have "set (map fst s) \<inter> set (map fst t) = {}" if "t \<in> set ss" for t
      using that by (auto simp: in_set_conv_nth[of t])
    then have "set (map fst s) \<inter> (\<Union>t \<in> set ss. set (map fst t)) = {}" by blast
    moreover have "distinct (concat (map (map fst) ss))"
      using Cons.prems(1) Cons.prems(2)[of "Suc _" "Suc _"] Cons.prems(3)[of "Suc _"]
      by (intro Cons.IH) auto
    moreover have "distinct (map fst s)" using Cons.prems(3)[of 0] by simp
    ultimately show ?case by auto
  qed simp
  then show "distinct (map fst (concat ss))"
    using disj len shards_okD(2)[OF ok] by (simp add: map_concat)
  show "set (concat ss) = {(k, v). shard_lookup ss k = Some v}"
  proof (intro equalityI subsetI)
    fix e
    assume "e \<in> set (concat ss)"
    then obtain es where "es \<in> set ss" and e: "e \<in> set es" by auto
    then obtain i where "i < profile_shard_count" "e \<in> set (ss ! i)"
      using len by (metis in_set_conv_nth)
    then show "e \<in> {(k, v). shard_lookup ss k = Some v}" using lookup_mem[OF ok] by (cases e) auto
  next
    fix e
    assume "e \<in> {(k, v). shard_lookup ss k = Some v}"
    then obtain k v where "e = (k, v)" "(k, v) \<in> set (ss ! shard_index k)" by (auto dest: lookup_some)
    then show "e \<in> set (concat ss)" using len by (auto intro!: bexI[of _ "ss ! shard_index k"])
  qed
qed

subsection \<open>Rebuilding every shard\<close>

text \<open>A sweep: every entry is dropped (\<open>None\<close>) or replaced.\<close>

definition sweep_shard ::
  "(string \<Rightarrow> 'v \<Rightarrow> 'v option) \<Rightarrow> (string \<times> 'v) list \<Rightarrow> (string \<times> 'v) list" where
  "sweep_shard f es = List.map_filter (\<lambda>(k, v). map_option (Pair k) (f k v)) es"

lemma sweep_shard_Cons:
  "sweep_shard f ((k, v) # es) = (case f k v of None \<Rightarrow> sweep_shard f es | Some w \<Rightarrow> (k, w) # sweep_shard f es)"
  by (simp add: sweep_shard_def map_filter_simps split: option.split)

lemma sweep_shard_Nil [simp]: "sweep_shard f [] = []"
  by (simp add: sweep_shard_def map_filter_simps)

lemma sweep_shard_keys: "fst ` set (sweep_shard f es) \<subseteq> fst ` set es"
proof (induction es)
  case (Cons e es)
  then show ?case by (cases e; cases "f (fst e) (snd e)") (auto simp: sweep_shard_Cons)
qed simp

lemma sweep_shard_distinct: "distinct (map fst es) \<Longrightarrow> distinct (map fst (sweep_shard f es))"
proof (induction es)
  case (Cons e es)
  then have "fst e \<notin> fst ` set (sweep_shard f es)" using sweep_shard_keys[of f es] by auto
  then show ?case using Cons by (cases e) (simp add: sweep_shard_Cons split: option.split)
qed simp

lemma map_of_sweep_shard:
  "distinct (map fst es) \<Longrightarrow> map_of (sweep_shard f es) k = Option.bind (map_of es k) (f k)"
proof (induction es)
  case (Cons e es)
  obtain k' v where e: "e = (k', v)" by (cases e)
  show ?case
  proof (cases "k' = k")
    case True
    then have "map_of es k = None" using Cons.prems by (auto simp: e map_of_eq_None_iff)
    then show ?thesis using Cons True by (cases "f k v") (simp_all add: e sweep_shard_Cons)
  next
    case False
    then show ?thesis using Cons by (cases "f k' v") (simp_all add: e sweep_shard_Cons)
  qed
qed simp

lemma shards_ok_map:
  assumes ok: "shards_ok ss"
    and f: "\<And>es. distinct (map fst es) \<Longrightarrow> distinct (map fst (f es))"
    and sub: "\<And>es. fst ` set (f es) \<subseteq> fst ` set es"
  shows "shards_ok (map f ss)"
  unfolding shards_ok_def
proof (intro conjI allI impI ballI)
  fix i e
  assume i: "i < profile_shard_count" and e: "e \<in> set (map f ss ! i)"
  then have "fst e \<in> fst ` set (ss ! i)" using sub[of "ss ! i"] shards_okD(1)[OF ok] by auto
  then show "shard_index (fst e) = i" using shards_okD(3)[OF ok i] by auto
qed (use shards_okD[OF ok] f in auto)

lemma lookup_map:
  "shards_ok ss \<Longrightarrow> shard_lookup (map f ss) k = map_of (f (ss ! shard_index k)) k"
  using shards_okD(1)[of ss] by (simp add: shard_lookup_def)

lemma lookup_sweep:
  assumes "shards_ok ss"
  shows "shards_ok (map (sweep_shard f) ss)"
    "shard_lookup (map (sweep_shard f) ss) k = Option.bind (shard_lookup ss k) (f k)"
  subgoal by (rule shards_ok_map[OF assms sweep_shard_distinct sweep_shard_keys])
  subgoal
    unfolding lookup_map[OF assms]
    by (simp add: map_of_sweep_shard[OF shards_okD(2)[OF assms shard_index_less]] shard_lookup_def)
  done

subsection \<open>The interface of a store\<close>

locale keyed_store =
  fixes ok :: "'s \<Rightarrow> bool"
    and lookup :: "'s \<Rightarrow> string \<Rightarrow> 'v option"
    and put :: "string \<Rightarrow> 'v \<Rightarrow> 's \<Rightarrow> 's"
  assumes ok_put: "ok s \<Longrightarrow> ok (put k v s)"
    and lookup_put: "ok s \<Longrightarrow> lookup (put k v s) k' = (if k' = k then Some v else lookup s k')"
begin

lemma put_other: "ok s \<Longrightarrow> k' \<noteq> k \<Longrightarrow> lookup (put k v s) k' = lookup s k'"
  by (simp add: lookup_put)

lemma touch:
  fixes k :: string and v0 :: 'v
  assumes "ok s"
  defines "s' \<equiv> (case lookup s k of Some v \<Rightarrow> s | None \<Rightarrow> put k v0 s)"
  shows "ok s'" "lookup s' k = Some (case lookup s k of Some v \<Rightarrow> v | None \<Rightarrow> v0)"
    "k' \<noteq> k \<Longrightarrow> lookup s' k' = lookup s k'"
  using assms by (auto simp: ok_put lookup_put split: option.split)

lemma change:
  fixes k :: string and f :: "'v \<Rightarrow> 'v"
  assumes "ok s"
  defines "s' \<equiv> (case lookup s k of Some v \<Rightarrow> put k (f v) s | None \<Rightarrow> s)"
  shows "ok s'" "lookup s' k' = (if k' = k then map_option f (lookup s k) else lookup s k')"
  using assms by (auto simp: ok_put lookup_put split: option.split)

lemma put_put_dom: "ok s \<Longrightarrow> dom (lookup (put k v s)) = insert k (dom (lookup s))"
  by (auto simp: lookup_put split: if_splits)

end

end
