(* ===== verification/RateLimiter.thy ===== *)
theory RateLimiter
  imports Shards Http
begin

text \<open>
  \<open>internal/domain/security/limiter\<close>: the limiter with one token bucket per address
  (\<open>limiter.go\<close>), the key a request is counted under (\<open>key.go\<close>), and the limiter that adapts
  its rate to the share of blocked requests (\<open>adaptive.go\<close>).

  The token bucket is \<open>golang.org/x/time/rate\<close>, which is not part of the repository: its state
  is a type variable, and \<open>rate.NewLimiter\<close>, \<open>Allow\<close> and \<open>Tokens\<close> are arguments of the
  definitions that use them. A \<open>rate.Limit\<close> is a real number. Requests, headers
  and cookies are those of \<open>Http\<close>.

  Proved: the verdicts an address gets are those of its own bucket alone; the clean-up spares
  every address of the last seconds; headers choose the key only behind a loopback proxy; the
  adapted rate stays between the base rate and four times it.
\<close>

subsection \<open>limiter.go\<close>

record 'l ip_entry =
  en_limiter :: 'l
  en_lastAccess :: int

record 'l limiter_shard =
  sh_ips :: "(string \<times> 'l ip_entry) list"
  sh_r :: real
  sh_b :: int

record 'l ip_rate_limiter =
  lm_shards :: "'l limiter_shard list"
  lm_enabled :: bool

definition new_ip_rate_limiter :: "real \<Rightarrow> int \<Rightarrow> 'l ip_rate_limiter" where
  "new_ip_rate_limiter r b =
     \<lparr>lm_shards = replicate 64 \<lparr>sh_ips = [], sh_r = r, sh_b = b\<rparr>, lm_enabled = True\<rparr>"

definition get_shard :: "string \<Rightarrow> nat" where
  "get_shard ip = unat (fnv1a_hash32 ip mod 64)"

definition unix :: "instant \<Rightarrow> int" where
  "unix now = now div nano_second"

definition limiter_put :: "string \<Rightarrow> 'l ip_entry \<Rightarrow> 'l ip_rate_limiter \<Rightarrow> 'l ip_rate_limiter" where
  "limiter_put ip e i =
     (let k = get_shard ip; s = lm_shards i ! k
      in i\<lparr>lm_shards := (lm_shards i)[k := s\<lparr>sh_ips := AList.update ip e (sh_ips s)\<rparr>]\<rparr>)"

definition limiter_lookup :: "'l ip_rate_limiter \<Rightarrow> string \<Rightarrow> 'l ip_entry option" where
  "limiter_lookup i ip = map_of (sh_ips (lm_shards i ! get_shard ip)) ip"

definition limiter_allow ::
  "(real \<Rightarrow> int \<Rightarrow> 'l) \<Rightarrow> (instant \<Rightarrow> 'l \<Rightarrow> bool \<times> 'l) \<Rightarrow> instant \<Rightarrow> string \<Rightarrow>
   'l ip_rate_limiter \<Rightarrow> bool \<times> 'l ip_rate_limiter" where
  "limiter_allow new_limiter allow now ip i =
     (if \<not> lm_enabled i then (True, i)
      else
        let s = lm_shards i ! get_shard ip;
            entry = (case limiter_lookup i ip of
                       None \<Rightarrow> \<lparr>en_limiter = new_limiter (sh_r s) (sh_b s), en_lastAccess = unix now\<rparr>
                     | Some e \<Rightarrow> e\<lparr>en_lastAccess := unix now\<rparr>);
            (verdict, bucket) = allow now (en_limiter entry)
        in (verdict, limiter_put ip (entry\<lparr>en_limiter := bucket\<rparr>) i))"

definition limiter_update_config :: "real \<Rightarrow> int \<Rightarrow> 'l ip_rate_limiter \<Rightarrow> 'l ip_rate_limiter" where
  "limiter_update_config r b i =
     i\<lparr>lm_shards := map (\<lambda>s. s\<lparr>sh_r := r, sh_b := b, sh_ips := []\<rparr>) (lm_shards i)\<rparr>"

definition limiter_set_enabled :: "bool \<Rightarrow> 'l ip_rate_limiter \<Rightarrow> 'l ip_rate_limiter" where
  "limiter_set_enabled e i = i\<lparr>lm_enabled := e\<rparr>"

definition limiter_get_config :: "'l ip_rate_limiter \<Rightarrow> real \<times> int" where
  "limiter_get_config i = (sh_r (lm_shards i ! 0), sh_b (lm_shards i ! 0))"

text \<open>
  One tick of \<open>CleanupWithIdle\<close> on one shard: the idle entries with a full bucket go; when more
  than 50000 remain, the older half of those that were not used for 30 seconds goes too.
  \<open>sort.Slice\<close> is the library's stable sort.
\<close>

definition drop_idle ::
  "(instant \<Rightarrow> 'l \<Rightarrow> real) \<Rightarrow> instant \<Rightarrow> int \<Rightarrow> 'l limiter_shard \<Rightarrow> 'l limiter_shard" where
  "drop_idle tokens now idleSeconds s =
     s\<lparr>sh_ips := filter (\<lambda>(ip, e). \<not> (unix now - en_lastAccess e > idleSeconds \<and>
                          tokens now (en_limiter e) \<ge> real_of_int (sh_b s))) (sh_ips s)\<rparr>"

definition evict_oldest :: "instant \<Rightarrow> 'l limiter_shard \<Rightarrow> 'l limiter_shard" where
  "evict_oldest now s =
     (if length (sh_ips s) > 50000 then
        let minAge = 30;
            entries = filter (\<lambda>(ip, e). unix now - en_lastAccess e > minAge) (sh_ips s);
            oldest = sort_key (\<lambda>(ip, e). en_lastAccess e) entries;
            target = length entries div 2;
            gone = map fst (take target oldest)
        in s\<lparr>sh_ips := filter (\<lambda>(ip, e). ip \<notin> set gone) (sh_ips s)\<rparr>
      else s)"

definition cleanup_tick ::
  "(instant \<Rightarrow> 'l \<Rightarrow> real) \<Rightarrow> instant \<Rightarrow> int \<Rightarrow> 'l ip_rate_limiter \<Rightarrow> 'l ip_rate_limiter" where
  "cleanup_tick tokens now idleSeconds i =
     i\<lparr>lm_shards := map (\<lambda>s. evict_oldest now (drop_idle tokens now idleSeconds s)) (lm_shards i)\<rparr>"

subsection \<open>key.go\<close>

datatype key_type = KeyTypeIP | KeyTypeSession | KeyTypeAPIKey | KeyTypeCookie | KeyTypeHeader |
  KeyTypeCombined | KeyTypeOther string

record key_config =
  kc_KeyType :: key_type
  kc_HeaderName :: string
  kc_CookieName :: string
  kc_SessionKey :: string

definition get_client_ip_from_request :: "http_request \<Rightarrow> string" where
  "get_client_ip_from_request r =
     (let remoteAddr = (case split_host_port (rq_RemoteAddr r) of Some (ip, _) \<Rightarrow> ip | None \<Rightarrow> rq_RemoteAddr r) in
      if remoteAddr = ''127.0.0.1'' \<or> remoteAddr = ''::1'' then
        if header_get (rq_Header r) ''X-Real-IP'' \<noteq> '''' then header_get (rq_Header r) ''X-Real-IP''
        else if header_get (rq_Header r) ''X-Forwarded-For'' \<noteq> ''''
        then trim_space (split_char (CHR '','') (header_get (rq_Header r) ''X-Forwarded-For'') ! 0)
        else remoteAddr
      else remoteAddr)"

definition extract_session_key :: "http_request \<Rightarrow> key_config \<Rightarrow> string" where
  "extract_session_key r cfg =
     (let by_ip = ''session:'' @ get_client_ip_from_request r in
      if kc_SessionKey cfg \<noteq> '''' then
        (case request_cookie (rq_Header r) (kc_SessionKey cfg) of
           Some v \<Rightarrow> ''session:'' @ v
         | None \<Rightarrow>
             if header_get (rq_Header r) (kc_SessionKey cfg) \<noteq> '''' then ''session:'' @ header_get (rq_Header r) (kc_SessionKey cfg)
             else by_ip)
      else by_ip)"

definition extract_api_key :: "http_request \<Rightarrow> key_config \<Rightarrow> string" where
  "extract_api_key r cfg =
     (let headerName = (if kc_HeaderName cfg = '''' then ''X-API-Key'' else kc_HeaderName cfg);
          auth = header_get (rq_Header r) ''Authorization''
      in if header_get (rq_Header r) headerName \<noteq> '''' then ''apikey:'' @ header_get (rq_Header r) headerName
         else if has_prefix auth ''Bearer '' then ''apikey:'' @ drop 7 auth
         else ''apikey:'' @ get_client_ip_from_request r)"

definition extract_cookie_key :: "http_request \<Rightarrow> key_config \<Rightarrow> string" where
  "extract_cookie_key r cfg =
     (let cookieName = (if kc_CookieName cfg = '''' then ''session_id'' else kc_CookieName cfg)
      in case request_cookie (rq_Header r) cookieName of
           Some v \<Rightarrow> ''cookie:'' @ v
         | None \<Rightarrow> ''cookie:'' @ get_client_ip_from_request r)"

definition extract_header_key :: "http_request \<Rightarrow> key_config \<Rightarrow> string" where
  "extract_header_key r cfg =
     (if kc_HeaderName cfg = '''' then ''header:'' @ get_client_ip_from_request r
      else if header_get (rq_Header r) (kc_HeaderName cfg) \<noteq> '''' then ''header:'' @ header_get (rq_Header r) (kc_HeaderName cfg)
      else ''header:'' @ get_client_ip_from_request r)"

definition extract_key :: "http_request \<Rightarrow> key_config \<Rightarrow> string" where
  "extract_key r cfg =
     (case kc_KeyType cfg of
        KeyTypeSession \<Rightarrow> extract_session_key r cfg
      | KeyTypeAPIKey \<Rightarrow> extract_api_key r cfg
      | KeyTypeCookie \<Rightarrow> extract_cookie_key r cfg
      | KeyTypeHeader \<Rightarrow> extract_header_key r cfg
      | KeyTypeCombined \<Rightarrow>
          get_client_ip_from_request r @ ''|'' @ extract_session_key r cfg
      | _ \<Rightarrow> get_client_ip_from_request r)"

subsection \<open>adaptive.go\<close>

record 'l adaptive_limiter =
  al_limiter :: 'l
  al_baseRate :: real
  al_baseBurst :: int
  al_currentRate :: real
  al_window :: duration
  al_totalRequests :: int
  al_blockedRequests :: int
  al_lastReset :: instant
  al_threshold :: real
  al_maxMultiplier :: real

definition float_epsilon :: real where
  "float_epsilon = 1 / 1000000000"

definition new_adaptive_limiter ::
  "(real \<Rightarrow> int \<Rightarrow> 'l) \<Rightarrow> instant \<Rightarrow> real \<Rightarrow> int \<Rightarrow> duration \<Rightarrow> real \<Rightarrow> 'l adaptive_limiter" where
  "new_adaptive_limiter new_limiter now r burst window threshold =
     \<lparr>al_limiter = new_limiter r burst, al_baseRate = r, al_baseBurst = burst, al_currentRate = r,
      al_window = window, al_totalRequests = 0, al_blockedRequests = 0, al_lastReset = now,
      al_threshold = threshold, al_maxMultiplier = 4\<rparr>"

definition adaptive_allow ::
  "(instant \<Rightarrow> 'l \<Rightarrow> bool \<times> 'l) \<Rightarrow> instant \<Rightarrow> 'l adaptive_limiter \<Rightarrow> bool \<times> 'l adaptive_limiter" where
  "adaptive_allow allow now a =
     (let (ok, l) = allow now (al_limiter a) in (ok, a\<lparr>al_limiter := l\<rparr>))"

definition adjusted_rate :: "'l adaptive_limiter \<Rightarrow> real" where
  "adjusted_rate a =
     (let blockRate = real_of_int (al_blockedRequests a) / real_of_int (al_totalRequests a) in
      if blockRate > al_threshold a then
        let multiplier = 1 + (blockRate - al_threshold a) * 2;
            multiplier = (if multiplier > al_maxMultiplier a then al_maxMultiplier a else multiplier)
        in al_baseRate a * multiplier
      else al_baseRate a)"

definition check_and_adjust ::
  "(real \<Rightarrow> int \<Rightarrow> 'l) \<Rightarrow> instant \<Rightarrow> 'l adaptive_limiter \<Rightarrow> 'l adaptive_limiter" where
  "check_and_adjust new_limiter now a =
     (if time_sub now (al_lastReset a) < al_window a then a
      else if al_totalRequests a = 0 then a\<lparr>al_lastReset := now\<rparr>
      else
        let newRate = adjusted_rate a;
            a = (if \<bar>newRate - al_currentRate a\<bar> > float_epsilon
                 then a\<lparr>al_currentRate := newRate, al_limiter := new_limiter newRate (al_baseBurst a)\<rparr>
                 else a)
        in a\<lparr>al_totalRequests := 0, al_blockedRequests := 0, al_lastReset := now\<rparr>)"

definition record_request ::
  "(real \<Rightarrow> int \<Rightarrow> 'l) \<Rightarrow> instant \<Rightarrow> 'l adaptive_limiter \<Rightarrow> 'l adaptive_limiter" where
  "record_request new_limiter now a =
     check_and_adjust new_limiter now (a\<lparr>al_totalRequests := al_totalRequests a + 1\<rparr>)"

definition record_block ::
  "(real \<Rightarrow> int \<Rightarrow> 'l) \<Rightarrow> instant \<Rightarrow> 'l adaptive_limiter \<Rightarrow> 'l adaptive_limiter" where
  "record_block new_limiter now a =
     check_and_adjust new_limiter now (a\<lparr>al_blockedRequests := al_blockedRequests a + 1\<rparr>)"

subsection \<open>The limiter is one map of buckets\<close>

definition limiter_maps :: "'l ip_rate_limiter \<Rightarrow> 'l ip_entry shards" where
  "limiter_maps i = map sh_ips (lm_shards i)"

definition limiter_valid :: "'l ip_rate_limiter \<Rightarrow> bool" where
  "limiter_valid i \<longleftrightarrow> shards_ok (limiter_maps i)"

definition uniform :: "real \<Rightarrow> int \<Rightarrow> 'l ip_rate_limiter \<Rightarrow> bool" where
  "uniform r b i \<longleftrightarrow> (\<forall>s \<in> set (lm_shards i). sh_r s = r \<and> sh_b s = b)"

lemma get_shard_eq: "get_shard ip = shard_index ip"
  by (simp add: get_shard_def shard_index_def hash_index_def profile_shard_count_def unat_mod)

lemma get_shard_less [simp]: "get_shard ip < profile_shard_count"
  by (simp add: get_shard_eq)

lemma limiter_length: "limiter_valid i \<Longrightarrow> length (lm_shards i) = profile_shard_count"
  using shards_okD(1)[of "limiter_maps i"] by (simp add: limiter_valid_def limiter_maps_def)

lemma limiter_lookup_eq:
  "limiter_valid i \<Longrightarrow> limiter_lookup i ip = shard_lookup (limiter_maps i) ip"
  using limiter_length[of i] shard_index_less[of ip]
  by (simp add: limiter_lookup_def shard_lookup_def limiter_maps_def get_shard_eq)

lemma limiter_maps_put:
  "limiter_valid i \<Longrightarrow> limiter_maps (limiter_put ip e i) = shard_put ip e (limiter_maps i)"
  using limiter_length[of i] shard_index_less[of ip]
  by (simp add: limiter_put_def limiter_maps_def shard_put_def get_shard_eq Let_def map_update)

interpretation lm: keyed_store limiter_valid limiter_lookup limiter_put
proof
  show ok: "limiter_valid (limiter_put k v i)" if "limiter_valid i" for i :: "'l ip_rate_limiter" and k v
    using that by (simp add: limiter_valid_def limiter_maps_put shards_ok_put)
  show "limiter_lookup (limiter_put k v i) k' = (if k' = k then Some v else limiter_lookup i k')"
    if "limiter_valid i" for i :: "'l ip_rate_limiter" and k v k'
    using that ok[OF that]
    by (simp add: limiter_lookup_eq limiter_maps_put lookup_put limiter_valid_def)
qed

lemma limiter_valid_new: "limiter_valid (new_ip_rate_limiter r b)"
  using shards_ok_empty
  by (simp add: limiter_valid_def limiter_maps_def new_ip_rate_limiter_def empty_shards_def
      profile_shard_count_def)

lemma limiter_lookup_new: "limiter_lookup (new_ip_rate_limiter r b) ip = None"
  using get_shard_less[of ip]
  by (simp add: limiter_lookup_def new_ip_rate_limiter_def profile_shard_count_def)

lemma uniform_new: "uniform r b (new_ip_rate_limiter r b)"
  by (simp add: uniform_def new_ip_rate_limiter_def)

lemma uniform_put: "limiter_valid i \<Longrightarrow> uniform r b i \<Longrightarrow> uniform r b (limiter_put ip e i)"
  using limiter_length[of i] get_shard_less[of ip]
  by (auto simp: uniform_def limiter_put_def Let_def dest!: set_update_subset_insert[THEN subsetD])

lemma uniform_shard:
  "limiter_valid i \<Longrightarrow> uniform r b i \<Longrightarrow> sh_r (lm_shards i ! get_shard ip) = r \<and> sh_b (lm_shards i ! get_shard ip) = b"
  using limiter_length[of i] get_shard_less[of ip] by (simp add: uniform_def)

subsection \<open>Every address has its own bucket\<close>

definition bucket_of :: "'l \<Rightarrow> 'l ip_rate_limiter \<Rightarrow> string \<Rightarrow> 'l" where
  "bucket_of l0 i ip = (case limiter_lookup i ip of Some e \<Rightarrow> en_limiter e | None \<Rightarrow> l0)"

fun limiter_run ::
  "(real \<Rightarrow> int \<Rightarrow> 'l) \<Rightarrow> (instant \<Rightarrow> 'l \<Rightarrow> bool \<times> 'l) \<Rightarrow> (instant \<times> string) list \<Rightarrow>
   'l ip_rate_limiter \<Rightarrow> (string \<times> bool) list" where
  "limiter_run new_limiter allow [] i = []"
| "limiter_run new_limiter allow ((now, ip) # calls) i =
     (let (verdict, i') = limiter_allow new_limiter allow now ip i
      in (ip, verdict) # limiter_run new_limiter allow calls i')"

fun bucket_run :: "(instant \<Rightarrow> 'l \<Rightarrow> bool \<times> 'l) \<Rightarrow> instant list \<Rightarrow> 'l \<Rightarrow> bool list" where
  "bucket_run allow [] l = []"
| "bucket_run allow (now # ts) l = (let (verdict, l') = allow now l in verdict # bucket_run allow ts l')"

lemma limiter_allow_step:
  assumes v: "limiter_valid i" and u: "uniform r b i" and on: "lm_enabled i"
    and i'_def: "i' = snd (limiter_allow new_limiter allow now ip i)"
    and l0_def: "l0 = new_limiter r b"
  shows "limiter_valid i'" "uniform r b i'" "lm_enabled i'"
    "fst (limiter_allow new_limiter allow now ip i) = fst (allow now (bucket_of l0 i ip))"
    "bucket_of l0 i' ip' = (if ip' = ip then snd (allow now (bucket_of l0 i ip)) else bucket_of l0 i ip')"
proof -
  let ?e = "case limiter_lookup i ip of
      None \<Rightarrow> \<lparr>en_limiter = l0, en_lastAccess = unix now\<rparr> | Some e \<Rightarrow> e\<lparr>en_lastAccess := unix now\<rparr>"
  have b: "en_limiter ?e = bucket_of l0 i ip" by (simp add: bucket_of_def split: option.split)
  have step: "limiter_allow new_limiter allow now ip i =
      (fst (allow now (bucket_of l0 i ip)),
       limiter_put ip (?e\<lparr>en_limiter := snd (allow now (bucket_of l0 i ip))\<rparr>) i)"
    using on
    unfolding b[symmetric] limiter_allow_def Let_def split_beta l0_def
      uniform_shard[OF v u, THEN conjunct1] uniform_shard[OF v u, THEN conjunct2]
    by (simp add: b[unfolded l0_def])
  show "limiter_valid i'" "uniform r b i'" using v u by (simp_all add: i'_def step lm.ok_put uniform_put)
  show "lm_enabled i'" using on by (simp add: i'_def step limiter_put_def Let_def)
  show "fst (limiter_allow new_limiter allow now ip i) = fst (allow now (bucket_of l0 i ip))"
    by (simp add: step)
  show "bucket_of l0 i' ip' = (if ip' = ip then snd (allow now (bucket_of l0 i ip)) else bucket_of l0 i ip')"
    by (simp add: i'_def step bucket_of_def lm.lookup_put[OF v])
qed

lemma limiter_run_own:
  assumes "limiter_valid i" "uniform r b i" "lm_enabled i"
  shows "map snd (filter (\<lambda>(ip', v). ip' = ip) (limiter_run new_limiter allow calls i)) =
    bucket_run allow (map fst (filter (\<lambda>(t, ip'). ip' = ip) calls)) (bucket_of (new_limiter r b) i ip)"
  using assms
proof (induction calls arbitrary: i)
  case (Cons call calls)
  obtain now ip0 where c: "call = (now, ip0)" by (cases call)
  note st = limiter_allow_step[OF Cons.prems refl refl, of new_limiter allow now ip0]
  have run: "limiter_run new_limiter allow (call # calls) i =
      (ip0, fst (limiter_allow new_limiter allow now ip0 i)) #
      limiter_run new_limiter allow calls (snd (limiter_allow new_limiter allow now ip0 i))"
    by (simp add: c split_beta Let_def)
  show ?case
    unfolding run using Cons.IH[OF st(1-3)] st(4) st(5)[of ip]
    by (cases "ip0 = ip") (simp_all add: c split_beta Let_def)
qed simp

text \<open>
  C27. In any sequence of requests, the verdicts an address gets are those of a bucket of its own,
  asked at the times of its own requests: no other address, and no sharing of a shard, changes
  them.
\<close>

theorem limiter_verdicts_independent:
  "map snd (filter (\<lambda>(ip', v). ip' = ip)
     (limiter_run new_limiter allow calls (new_ip_rate_limiter r b))) =
   bucket_run allow (map fst (filter (\<lambda>(t, ip'). ip' = ip) calls)) (new_limiter r b)"
  using limiter_run_own[OF limiter_valid_new uniform_new, of r b ip new_limiter allow calls]
  by (simp add: bucket_of_def limiter_lookup_new) (simp add: new_ip_rate_limiter_def)

subsection \<open>The clean-up\<close>

lemma sort_take_mem: "x \<in> set (take n (sort_key f xs)) \<Longrightarrow> x \<in> set xs"
  using set_take_subset by fastforce

definition tick_shard ::
  "(instant \<Rightarrow> 'l \<Rightarrow> real) \<Rightarrow> instant \<Rightarrow> int \<Rightarrow> 'l limiter_shard \<Rightarrow> 'l limiter_shard" where
  "tick_shard tokens now idleSeconds s = evict_oldest now (drop_idle tokens now idleSeconds s)"

lemma tick_shard_subset: "set (sh_ips (tick_shard tokens now idle s)) \<subseteq> set (sh_ips s)"
  by (auto simp: tick_shard_def evict_oldest_def drop_idle_def Let_def)

lemma tick_shard_distinct:
  "distinct (map fst (sh_ips s)) \<Longrightarrow> distinct (map fst (sh_ips (tick_shard tokens now idle s)))"
  by (simp add: tick_shard_def evict_oldest_def drop_idle_def Let_def distinct_map_filter)

lemma tick_shard_keeps:
  assumes mem: "(ip, e) \<in> set (sh_ips s)" and d: "distinct (map fst (sh_ips s))"
    and recent: "unix now - en_lastAccess e \<le> idle" "unix now - en_lastAccess e \<le> 30"
  shows "(ip, e) \<in> set (sh_ips (tick_shard tokens now idle s))"
proof -
  let ?s = "drop_idle tokens now idle s"
  let ?old = "filter (\<lambda>(ip, e). unix now - en_lastAccess e > 30) (sh_ips ?s)"
  have kept: "(ip, e) \<in> set (sh_ips ?s)" using mem recent by (simp add: drop_idle_def)
  have d': "distinct (map fst (sh_ips ?s))" using d by (simp add: drop_idle_def distinct_map_filter)
  have "ip \<notin> fst ` set (take n (sort_key (\<lambda>(ip, e). en_lastAccess e) ?old))" for n
  proof
    assume "ip \<in> fst ` set (take n (sort_key (\<lambda>(ip, e). en_lastAccess e) ?old))"
    then obtain x where x: "x \<in> set (take n (sort_key (\<lambda>(ip, e). en_lastAccess e) ?old))" "ip = fst x"
      by (rule imageE) blast
    have "x \<in> set ?old" by (rule sort_take_mem[OF x(1)])
    then have e': "(ip, snd x) \<in> set (sh_ips ?s)" "unix now - en_lastAccess (snd x) > 30"
      by (simp_all add: x(2) split_beta)
    have "snd x = e" by (rule eq_key_imp_eq_value[OF d' e'(1) kept])
    then show False using e'(2) recent(2) by simp
  qed
  then show ?thesis using kept by (simp add: tick_shard_def evict_oldest_def Let_def)
qed

lemma limiter_maps_tick:
  "lm_shards (cleanup_tick tokens now idle i) = map (tick_shard tokens now idle) (lm_shards i)"
  by (simp add: cleanup_tick_def tick_shard_def)

text \<open>
  The clean-up never changes a bucket it keeps, and it keeps every address whose last request
  is at most 30 seconds and at most \<open>idleSeconds\<close> old, however full the shard is.
\<close>

theorem cleanup_spares_active:
  assumes "limiter_valid i"
  shows "limiter_lookup (cleanup_tick tokens now idleSeconds i) ip \<in> {None, limiter_lookup i ip} \<and>
    (\<forall>e. limiter_lookup i ip = Some e \<and> unix now - en_lastAccess e \<le> min idleSeconds 30 \<longrightarrow>
       limiter_lookup (cleanup_tick tokens now idleSeconds i) ip = Some e)"
proof -
  let ?s = "lm_shards i ! get_shard ip"
  let ?t = "tick_shard tokens now idleSeconds ?s"
  have len: "get_shard ip < length (lm_shards i)"
    using limiter_length[OF assms] get_shard_less[of ip] by simp
  have d: "distinct (map fst (sh_ips ?s))"
    using shards_okD(2)[of "limiter_maps i" "get_shard ip"] assms len get_shard_less[of ip]
    by (simp add: limiter_valid_def limiter_maps_def)
  have look: "limiter_lookup (cleanup_tick tokens now idleSeconds i) ip = map_of (sh_ips ?t) ip"
    using len by (simp add: limiter_lookup_def limiter_maps_tick)
  note d' = tick_shard_distinct[OF d, of tokens now idleSeconds]
  have "map_of (sh_ips ?t) ip \<in> {None, limiter_lookup i ip}"
  proof (cases "map_of (sh_ips ?t) ip")
    case (Some e)
    then have "(ip, e) \<in> set (sh_ips ?s)" using tick_shard_subset by (fastforce dest: map_of_SomeD)
    then show ?thesis using Some d by (simp add: limiter_lookup_def)
  qed simp
  moreover have "map_of (sh_ips ?t) ip = Some e"
    if "limiter_lookup i ip = Some e" "unix now - en_lastAccess e \<le> min idleSeconds 30" for e
  proof -
    have "(ip, e) \<in> set (sh_ips ?s)" using that by (simp add: limiter_lookup_def map_of_SomeD)
    then have "(ip, e) \<in> set (sh_ips ?t)" using that by (intro tick_shard_keeps[OF _ d]) auto
    then show ?thesis using d' by simp
  qed
  ultimately show ?thesis unfolding look by blast
qed

text \<open>A bucket that counts its requests, to run the limiter on a concrete input.\<close>

definition toy_allow :: "instant \<Rightarrow> int \<Rightarrow> bool \<times> int" where
  "toy_allow now l = (0 < l, l - 1)"

lemma cleanup_spares_active_witness:
  defines "e \<equiv> \<lparr>en_limiter = 0 :: int, en_lastAccess = 100\<rparr>"
  defines "i \<equiv> limiter_put ''10.0.0.1'' e (new_ip_rate_limiter 5 10)"
  shows "limiter_lookup (cleanup_tick (\<lambda>now l. 10) (120 * nano_second) 600 i) ''10.0.0.1'' = Some e"
proof -
  have v: "limiter_valid (new_ip_rate_limiter 5 10 :: int ip_rate_limiter)" by (rule limiter_valid_new)
  have iv: "limiter_valid i" unfolding i_def by (rule lm.ok_put[OF v])
  have "limiter_lookup i ''10.0.0.1'' = Some e" by (simp add: i_def lm.lookup_put[OF v])
  then show ?thesis
    using cleanup_spares_active[OF iv, of "\<lambda>now l. 10" "120 * nano_second" 600 "''10.0.0.1''"]
    by (simp add: unix_def e_def)
qed

subsection \<open>Keys\<close>

text \<open>
  A client cannot choose the address it is counted under: when the connection does not come
  from a loopback address, the address is that of the connection, whatever the headers say.
\<close>

theorem client_ip_not_spoofable:
  assumes "split_host_port (rq_RemoteAddr r) = Some (host, port)" "host \<noteq> ''127.0.0.1''" "host \<noteq> ''::1''"
  shows "get_client_ip_from_request r = host \<and>
    extract_key r \<lparr>kc_KeyType = KeyTypeIP, kc_HeaderName = h, kc_CookieName = c, kc_SessionKey = s\<rparr> = host"
  using assms by (simp add: get_client_ip_from_request_def extract_key_def Let_def)

definition spoofing_request :: http_request where
  "spoofing_request =
     \<lparr>rq_Method = ''GET'', rq_Path = ''/'', rq_RawQuery = '''', rq_Proto = ''HTTP/1.1'', rq_Host = ''h'',
      rq_RemoteAddr = ''203.0.113.9:1234'', rq_TLS = False, rq_ContentLength = 0,
      rq_Header = (\<lambda>_. [''10.0.0.1'']), rq_Body = None\<rparr>"

lemma client_ip_not_spoofable_witness:
  "get_client_ip_from_request spoofing_request = ''203.0.113.9''"
proof -
  have "split_host_port (rq_RemoteAddr spoofing_request) = Some (''203.0.113.9'', ''1234'')"
    unfolding spoofing_request_def http_request.simps by code_simp
  then show ?thesis using client_ip_not_spoofable by fastforce
qed

subsection \<open>The adapted rate\<close>

datatype adaptive_event = Recorded instant | Blocked instant | Asked instant

fun adaptive_step ::
  "(real \<Rightarrow> int \<Rightarrow> 'l) \<Rightarrow> (instant \<Rightarrow> 'l \<Rightarrow> bool \<times> 'l) \<Rightarrow> adaptive_event \<Rightarrow>
   'l adaptive_limiter \<Rightarrow> 'l adaptive_limiter" where
  "adaptive_step new_limiter allow (Recorded now) a = record_request new_limiter now a"
| "adaptive_step new_limiter allow (Blocked now) a = record_block new_limiter now a"
| "adaptive_step new_limiter allow (Asked now) a = snd (adaptive_allow allow now a)"

definition rate_in_bounds :: "real \<Rightarrow> 'l adaptive_limiter \<Rightarrow> bool" where
  "rate_in_bounds r a \<longleftrightarrow>
     al_baseRate a = r \<and> al_maxMultiplier a = 4 \<and> r \<le> al_currentRate a \<and> al_currentRate a \<le> 4 * r"

lemma adjusted_rate_bounds:
  assumes "0 \<le> al_baseRate a" "al_maxMultiplier a = 4"
  shows "al_baseRate a \<le> adjusted_rate a" "adjusted_rate a \<le> 4 * al_baseRate a"
proof -
  define q where "q = real_of_int (al_blockedRequests a) / real_of_int (al_totalRequests a)"
  define m where "m = (if q > al_threshold a then min 4 (1 + (q - al_threshold a) * 2) else 1)"
  have "1 \<le> m" "m \<le> 4" by (simp_all add: m_def)
  moreover have "adjusted_rate a = al_baseRate a * m"
    using assms(2) by (simp add: adjusted_rate_def Let_def m_def min_def flip: q_def)
  ultimately show "al_baseRate a \<le> adjusted_rate a" "adjusted_rate a \<le> 4 * al_baseRate a"
    using mult_left_mono[of 1 m "al_baseRate a"] mult_left_mono[of m 4 "al_baseRate a"] assms(1)
    by simp_all
qed

lemma rate_in_bounds_adjust:
  "0 \<le> r \<Longrightarrow> rate_in_bounds r a \<Longrightarrow> rate_in_bounds r (check_and_adjust new_limiter now a)"
  using adjusted_rate_bounds[of a] by (simp add: rate_in_bounds_def check_and_adjust_def Let_def)

lemma rate_in_bounds_step:
  "0 \<le> r \<Longrightarrow> rate_in_bounds r a \<Longrightarrow> rate_in_bounds r (adaptive_step new_limiter allow e a)"
  by (cases e)
    (auto simp: record_request_def record_block_def adaptive_allow_def split_beta Let_def
      intro!: rate_in_bounds_adjust, auto simp: rate_in_bounds_def)

text \<open>
  Whatever is recorded, the adapted rate is at least the base rate and at most four times it.
\<close>

theorem adaptive_rate_bounded:
  assumes "0 \<le> r"
  shows "let a = fold (adaptive_step new_limiter allow) events
        (new_adaptive_limiter new_limiter now r burst window threshold)
    in r \<le> al_currentRate a \<and> al_currentRate a \<le> 4 * r"
proof -
  have "rate_in_bounds r (fold (adaptive_step new_limiter allow) events a0)" if "rate_in_bounds r a0" for a0
    using that by (induction events arbitrary: a0) (simp_all add: rate_in_bounds_step assms(1))
  then show ?thesis
    using assms(1) by (simp add: rate_in_bounds_def new_adaptive_limiter_def Let_def)
qed

lemma adaptive_rate_bounded_witness:
  "al_currentRate (fold (adaptive_step (\<lambda>r b. b) toy_allow) [Recorded 1, Blocked 2, Recorded 11]
     (new_adaptive_limiter (\<lambda>r b. b) 0 100 5 10 (1 / 4))) \<le> 400"
  using adaptive_rate_bounded[of 100 "\<lambda>r b. b" toy_allow "[Recorded 1, Blocked 2, Recorded 11]"
      0 5 10 "1 / 4"] by (simp only: Let_def) simp

end
