(* ===== verification/Window.thy ===== *)
theory Window
  imports Prelude "HOL-Library.AList" "HOL-Library.Multiset"
begin

text \<open>
  \<open>internal/domain/security/ratelimit/window.go\<close>: the sliding window counter, the ratio of
  two of them, the counter of different items and the tracker of request intervals.

  The clock is an argument. Counters are unbounded integers and Go's \<open>float64\<close> is a real
  number: overflow and rounding are not modelled. A window is created with a positive size
  and interval (\<open>win_ok\<close>); Go panics on the division and the indexing otherwise.

  Proved: the ring buffer refines a plain list of slots ordered by age, the counter is the
  number of events of the last \<open>size\<close> intervals up to one interval, and the statistics of the
  interval tracker are the mean and the population variance of the samples it holds.
\<close>

subsection \<open>The sliding window\<close>

record sliding_window =
  slots :: "int list"
  win_size :: nat
  interval :: duration
  cursor :: nat
  lastTime :: instant
  win_threshold :: int
  win_total :: int

definition new_sliding_window :: "instant \<Rightarrow> nat \<Rightarrow> duration \<Rightarrow> int \<Rightarrow> sliding_window" where
  "new_sliding_window now n ivl thr =
     \<lparr>slots = replicate n 0, win_size = n, interval = ivl, cursor = 0, lastTime = now,
      win_threshold = thr, win_total = 0\<rparr>"

fun advance_loop :: "nat \<Rightarrow> sliding_window \<Rightarrow> sliding_window" where
  "advance_loop 0 sw = sw"
| "advance_loop (Suc k) sw =
     (let c = (cursor sw + 1) mod win_size sw;
          t = win_total sw - slots sw ! c;
          t = (if t < 0 then 0 else t)
      in advance_loop k (sw\<lparr>cursor := c, win_total := t, slots := (slots sw)[c := 0]\<rparr>))"

definition advance :: "instant \<Rightarrow> sliding_window \<Rightarrow> sliding_window" where
  "advance now sw =
     (let elapsed = time_sub now (lastTime sw) in
      if elapsed < interval sw then sw
      else
        let slotsToAdvance = go_div elapsed (interval sw) in
        if slotsToAdvance \<ge> int (win_size sw) then
          sw\<lparr>slots := replicate (win_size sw) 0, win_total := 0, cursor := 0, lastTime := now\<rparr>
        else
          let remainder = elapsed - slotsToAdvance * interval sw
          in (advance_loop (nat slotsToAdvance) sw)\<lparr>lastTime := now - remainder\<rparr>)"

definition add_current :: "int \<Rightarrow> sliding_window \<Rightarrow> sliding_window" where
  "add_current n sw =
     sw\<lparr>slots := (slots sw)[cursor sw := slots sw ! cursor sw + n], win_total := win_total sw + n\<rparr>"

definition win_allow :: "instant \<Rightarrow> int \<Rightarrow> sliding_window \<Rightarrow> bool \<times> sliding_window" where
  "win_allow now n sw =
     (let sw' = add_current n (advance now sw) in (win_total sw' \<le> win_threshold sw', sw'))"

definition win_incr :: "instant \<Rightarrow> sliding_window \<Rightarrow> int \<times> sliding_window" where
  "win_incr now sw = (let sw' = add_current 1 (advance now sw) in (win_total sw', sw'))"

definition win_sum :: "sliding_window \<Rightarrow> int" where
  "win_sum sw = win_total sw"

definition win_set_threshold :: "int \<Rightarrow> sliding_window \<Rightarrow> sliding_window" where
  "win_set_threshold thr sw = sw\<lparr>win_threshold := thr\<rparr>"

definition win_reset :: "instant \<Rightarrow> sliding_window \<Rightarrow> sliding_window" where
  "win_reset now sw =
     sw\<lparr>slots := map (\<lambda>_. 0) (slots sw), win_total := 0, cursor := 0, lastTime := now\<rparr>"

subsection \<open>Ratio, different items, intervals\<close>

record ratio_window =
  rw_total :: sliding_window
  rw_error :: sliding_window

definition new_ratio_window :: "instant \<Rightarrow> nat \<Rightarrow> duration \<Rightarrow> ratio_window" where
  "new_ratio_window now n ivl =
     \<lparr>rw_total = new_sliding_window now n ivl (int n * 1000),
      rw_error = new_sliding_window now n ivl (int n * 1000)\<rparr>"

definition rw_record :: "instant \<Rightarrow> bool \<Rightarrow> ratio_window \<Rightarrow> ratio_window" where
  "rw_record now is_error rw =
     (let rw = rw\<lparr>rw_total := snd (win_incr now (rw_total rw))\<rparr>
      in if is_error then rw\<lparr>rw_error := snd (win_incr now (rw_error rw))\<rparr> else rw)"

definition rw_ratio :: "ratio_window \<Rightarrow> real" where
  "rw_ratio rw =
     (let t = win_sum (rw_total rw) in
      if t = 0 then 0 else real_of_int (win_sum (rw_error rw)) / real_of_int t)"

record unique_counter =
  uc_items :: "(string \<times> instant) list"
  uc_window :: sliding_window
  uc_max :: int

definition new_unique_counter :: "instant \<Rightarrow> nat \<Rightarrow> duration \<Rightarrow> int \<Rightarrow> unique_counter" where
  "new_unique_counter now n ivl max_unique =
     \<lparr>uc_items = [], uc_window = new_sliding_window now n ivl max_unique, uc_max = max_unique\<rparr>"

definition uc_add :: "instant \<Rightarrow> string \<Rightarrow> unique_counter \<Rightarrow> int \<times> unique_counter" where
  "uc_add now item uc =
     (let uc1 = uc\<lparr>uc_items := AList.update item now (uc_items uc)\<rparr>;
          uc2 = (if map_of (uc_items uc) item = None
                 then uc1\<lparr>uc_window := snd (win_incr now (uc_window uc))\<rparr> else uc1)
      in (win_sum (uc_window uc2), uc2))"

definition uc_count :: "unique_counter \<Rightarrow> nat" where
  "uc_count uc = length (uc_items uc)"

definition uc_expire :: "instant \<Rightarrow> duration \<Rightarrow> unique_counter \<Rightarrow> nat \<times> unique_counter" where
  "uc_expire now maxAge uc =
     (let kept = filter (\<lambda>(k, t). \<not> time_sub now t > maxAge) (uc_items uc)
      in (length (uc_items uc) - length kept, uc\<lparr>uc_items := kept\<rparr>))"

definition uc_reset :: "instant \<Rightarrow> unique_counter \<Rightarrow> unique_counter" where
  "uc_reset now uc = uc\<lparr>uc_items := [], uc_window := win_reset now (uc_window uc)\<rparr>"

record interval_tracker =
  it_lastTime :: instant
  it_variance :: real
  it_mean :: real
  it_samples :: "real list"
  it_maxSample :: nat
  it_writeIdx :: nat
  it_full :: bool

definition new_interval_tracker :: "nat \<Rightarrow> interval_tracker" where
  "new_interval_tracker maxSample =
     \<lparr>it_lastTime = zero_time, it_variance = 0, it_mean = 0, it_samples = replicate maxSample 0,
      it_maxSample = maxSample, it_writeIdx = 0, it_full = False\<rparr>"

definition it_sample_count :: "interval_tracker \<Rightarrow> nat" where
  "it_sample_count it = (if it_full it then it_maxSample it else it_writeIdx it)"

definition compute_stats :: "interval_tracker \<Rightarrow> interval_tracker" where
  "compute_stats it =
     (let count = it_sample_count it in
      if count = 0 then it
      else
        let s = sum_list (take count (it_samples it));
            sq = sum_list (map (\<lambda>x. x * x) (take count (it_samples it)));
            mean = s / real count;
            variance = sq / real count - mean * mean
        in it\<lparr>it_mean := mean, it_variance := (if variance < 0 then 0 else variance)\<rparr>)"

definition seconds :: "duration \<Rightarrow> real" where
  "seconds d = real_of_int d / real_of_int nano_second"

definition it_record :: "instant \<Rightarrow> interval_tracker \<Rightarrow> interval_tracker" where
  "it_record now it =
     (if it_lastTime it = zero_time then it\<lparr>it_lastTime := now\<rparr>
      else
        let x = seconds (time_sub now (it_lastTime it));
            it1 = it\<lparr>it_lastTime := now, it_samples := (it_samples it)[it_writeIdx it := x],
                     it_writeIdx := it_writeIdx it + 1\<rparr>;
            it2 = (if it_writeIdx it1 \<ge> it_maxSample it1
                   then it1\<lparr>it_writeIdx := 0, it_full := True\<rparr> else it1)
        in compute_stats it2)"

subsection \<open>The slots by age\<close>

text \<open>
  \<open>by_age sw ! a\<close> is the slot that was current \<open>a\<close> intervals ago. Advancing by \<open>k\<close> intervals
  shifts the list: \<open>k\<close> empty slots come in at the front, the \<open>k\<close> oldest fall out.
\<close>

definition by_age :: "sliding_window \<Rightarrow> int list" where
  "by_age sw = map (\<lambda>a. slots sw ! ((cursor sw + win_size sw - a) mod win_size sw)) [0..<win_size sw]"

definition win_ok :: "sliding_window \<Rightarrow> bool" where
  "win_ok sw \<longleftrightarrow>
     0 < win_size sw \<and> 0 < interval sw \<and> length (slots sw) = win_size sw \<and> cursor sw < win_size sw \<and>
     win_total sw = sum_list (slots sw) \<and> (\<forall>x \<in> set (slots sw). 0 \<le> x)"

lemma sum_list_set_nth: "i < length xs \<Longrightarrow> sum_list (xs[i := x]) = sum_list xs - xs ! i + (x::int)"
  by (induction xs arbitrary: i) (auto split: nat.split)

lemma length_by_age [simp]: "length (by_age sw) = win_size sw"
  by (simp add: by_age_def)

lemma nth_by_age:
  "a < win_size sw \<Longrightarrow> by_age sw ! a = slots sw ! ((cursor sw + win_size sw - a) mod win_size sw)"
  by (simp add: by_age_def)

lemma by_age_zero: "win_ok sw \<Longrightarrow> by_age sw ! 0 = slots sw ! cursor sw"
  by (simp add: nth_by_age win_ok_def)

lemma age_index:
  assumes "c < n" "a < (n::nat)"
  shows "(c + n - a) mod n = (if a \<le> c then c - a else c + n - a)"
proof (cases "a \<le> c")
  case True
  then have "c + n - a = (c - a) + n" by simp
  then have "(c + n - a) mod n = (c - a + n) mod n" by (rule arg_cong)
  also have "\<dots> = c - a" using assms by simp
  finally show ?thesis using True by simp
qed (use assms in simp)

lemma age_index_inj:
  assumes "c < (n::nat)"
  shows "inj_on (\<lambda>a. (c + n - a) mod n) {..<n}"
proof (rule inj_onI)
  fix x y
  assume "x \<in> {..<n}" "y \<in> {..<n}" "(c + n - x) mod n = (c + n - y) mod n"
  then show "x = y"
    using age_index[OF assms, of x] age_index[OF assms, of y] assms by (auto split: if_splits)
qed

lemma sum_by_age: "win_ok sw \<Longrightarrow> sum_list (by_age sw) = sum_list (slots sw)"
proof -
  assume ok: "win_ok sw"
  let ?n = "win_size sw" and ?i = "\<lambda>a. (cursor sw + win_size sw - a) mod win_size sw"
  have inj: "inj_on ?i {..<?n}" using ok by (intro age_index_inj) (simp add: win_ok_def)
  have img: "?i ` {..<?n} = {..<?n}"
    by (rule endo_inj_surj[OF _ _ inj]) (use ok in \<open>auto simp: win_ok_def\<close>)
  have "sum_list (by_age sw) = (\<Sum>a<?n. slots sw ! ?i a)"
    by (simp add: by_age_def interv_sum_list_conv_sum_set_nat atLeast0LessThan)
  also have "\<dots> = (\<Sum>j \<in> ?i ` {..<?n}. slots sw ! j)"
    by (simp add: sum.reindex[OF inj])
  also have "\<dots> = sum_list (slots sw)"
    using ok by (simp add: img sum_list_sum_nth win_ok_def atLeast0LessThan)
  finally show ?thesis .
qed

definition shift :: "nat \<Rightarrow> int list \<Rightarrow> int list" where
  "shift k xs = replicate (min k (length xs)) 0 @ take (length xs - k) xs"

lemma length_shift [simp]: "length (shift k xs) = length xs"
  by (simp add: shift_def)

lemma nth_shift: "a < length xs \<Longrightarrow> shift k xs ! a = (if a < k then 0 else xs ! (a - k))"
  by (auto simp: shift_def nth_append)

lemma shift_Suc: "shift (Suc k) xs = shift k (shift 1 xs)"
  by (rule nth_equalityI) (auto simp: nth_shift)

lemma shift_all: "length xs \<le> k \<Longrightarrow> shift k xs = replicate (length xs) 0"
  by (simp add: shift_def)

definition one_step :: "sliding_window \<Rightarrow> sliding_window" where
  "one_step sw =
     (let c = (cursor sw + 1) mod win_size sw; t = win_total sw - slots sw ! c
      in sw\<lparr>cursor := c, win_total := (if t < 0 then 0 else t), slots := (slots sw)[c := 0]\<rparr>)"

lemma advance_loop_Suc: "advance_loop (Suc k) sw = advance_loop k (one_step sw)"
  by (simp add: one_step_def Let_def)

lemma one_step_spec:
  assumes ok: "win_ok sw"
  shows "win_ok (one_step sw)" "by_age (one_step sw) = shift 1 (by_age sw)"
    "win_size (one_step sw) = win_size sw" "interval (one_step sw) = interval sw"
    "win_threshold (one_step sw) = win_threshold sw"
proof -
  let ?n = "win_size sw" and ?c = "(cursor sw + 1) mod win_size sw"
  have c: "?c < ?n" and len: "length (slots sw) = ?n" using ok by (auto simp: win_ok_def)
  have le: "slots sw ! ?c \<le> sum_list (slots sw)"
    using ok c len member_le_sum_list[of "slots sw ! ?c" "slots sw"]
    by (auto simp: win_ok_def intro: elem_le_sum_list sum_list_nonneg_eq_0_iff)
  have sum: "sum_list ((slots sw)[?c := 0]) = sum_list (slots sw) - slots sw ! ?c"
    using c len by (simp add: sum_list_set_nth)
  show "win_ok (one_step sw)"
    using ok c len le sum by (auto simp: win_ok_def one_step_def Let_def dest: set_update_subset_insert[THEN subsetD])
  show "by_age (one_step sw) = shift 1 (by_age sw)"
  proof (rule nth_equalityI)
    fix a
    assume "a < length (by_age (one_step sw))"
    then have a: "a < ?n" by (simp add: one_step_def Let_def)
    have "by_age (one_step sw) ! a = (slots sw)[?c := 0] ! ((?c + ?n - a) mod ?n)"
      using a by (subst nth_by_age) (simp_all add: one_step_def Let_def)
    also have "\<dots> = shift 1 (by_age sw) ! a"
    proof (cases a)
      case 0
      then show ?thesis using a c len by (simp add: nth_shift)
    next
      case (Suc b)
      have "(?c + ?n - a) mod ?n = (cursor sw + ?n - b) mod ?n"
        using a Suc ok by (auto simp: age_index win_ok_def mod_Suc split: if_splits)
      moreover have "(?c + ?n - a) mod ?n \<noteq> ?c"
        using a Suc c by (auto simp: age_index)
      ultimately show ?thesis
        using a Suc len by (simp add: nth_shift nth_by_age)
    qed
    finally show "by_age (one_step sw) ! a = shift 1 (by_age sw) ! a" .
  qed (simp add: one_step_def Let_def)
qed (simp_all add: one_step_def Let_def)

lemma advance_loop_spec:
  "win_ok sw \<Longrightarrow> win_ok (advance_loop k sw) \<and> by_age (advance_loop k sw) = shift k (by_age sw) \<and>
   win_size (advance_loop k sw) = win_size sw \<and> interval (advance_loop k sw) = interval sw \<and>
   win_threshold (advance_loop k sw) = win_threshold sw"
proof (induction k arbitrary: sw)
  case 0
  then show ?case by (simp add: shift_def)
next
  case (Suc k)
  then show ?case
    unfolding advance_loop_Suc
    using one_step_spec[OF Suc.prems] Suc.IH[of "one_step sw"] shift_Suc[of k "by_age sw"] by simp
qed

lemma shift_0 [simp]: "shift 0 xs = xs"
  by (simp add: shift_def)

lemma win_ok_cleared:
  "win_ok sw \<Longrightarrow> win_ok (sw\<lparr>slots := replicate (win_size sw) 0, win_total := 0, cursor := 0, lastTime := t\<rparr>)"
  by (simp add: win_ok_def sum_list_replicate)

lemma by_age_cleared:
  "by_age (sw\<lparr>slots := replicate (win_size sw) 0, win_total := v, cursor := 0\<rparr>) =
   replicate (win_size sw) 0"
  by (rule nth_equalityI) (auto simp: by_age_def)

lemma by_age_lastTime [simp]: "by_age (sw\<lparr>lastTime := t\<rparr>) = by_age sw"
  by (simp add: by_age_def)

lemma win_ok_lastTime [simp]: "win_ok (sw\<lparr>lastTime := t\<rparr>) = win_ok sw"
  by (simp add: win_ok_def)

lemma advance_spec:
  assumes ok: "win_ok sw" and now: "lastTime sw \<le> now" "now - lastTime sw < 2 ^ 63"
  defines "k \<equiv> (now - lastTime sw) div interval sw"
  shows "win_ok (advance now sw)" "by_age (advance now sw) = shift (nat k) (by_age sw)"
    "lastTime (advance now sw) = (if k \<ge> int (win_size sw) then now else lastTime sw + k * interval sw)"
    "win_size (advance now sw) = win_size sw" "interval (advance now sw) = interval sw"
    "win_threshold (advance now sw) = win_threshold sw"
proof -
  have pos: "0 < interval sw" "0 < win_size sw" using ok by (auto simp: win_ok_def)
  have el: "time_sub now (lastTime sw) = now - lastTime sw" using now by (intro time_sub_small) auto
  have k0: "now - lastTime sw < interval sw \<Longrightarrow> k = 0" using now by (simp add: k_def)
  have q: "go_div (now - lastTime sw) (interval sw) = k" using now pos by (simp add: k_def)
  note adv = advance_def[of now sw, unfolded Let_def el q]
  note loop = advance_loop_spec[OF ok, of "nat k"]
  have clear: "nat k \<ge> win_size sw \<Longrightarrow> shift (nat k) (by_age sw) = replicate (win_size sw) 0"
    using shift_all[of "by_age sw" "nat k"] by simp
  show "win_ok (advance now sw)"
    using ok loop win_ok_cleared[OF ok] by (simp add: adv)
  show "by_age (advance now sw) = shift (nat k) (by_age sw)"
    using loop clear k0 by (simp add: adv by_age_cleared)
  show "lastTime (advance now sw) =
      (if k \<ge> int (win_size sw) then now else lastTime sw + k * interval sw)"
    using k0 pos by (simp add: adv)
  show "win_size (advance now sw) = win_size sw" "interval (advance now sw) = interval sw"
    "win_threshold (advance now sw) = win_threshold sw"
    using loop by (simp_all add: adv)
qed

lemma add_current_spec:
  assumes ok: "win_ok sw" and n: "0 \<le> n"
  shows "win_ok (add_current n sw)" "by_age (add_current n sw) = (by_age sw)[0 := by_age sw ! 0 + n]"
proof -
  have len: "cursor sw < length (slots sw)" using ok by (simp add: win_ok_def)
  show "win_ok (add_current n sw)"
    using ok n len
    by (auto simp: win_ok_def add_current_def sum_list_set_nth dest: set_update_subset_insert[THEN subsetD])
  show "by_age (add_current n sw) = (by_age sw)[0 := by_age sw ! 0 + n]"
  proof (rule nth_equalityI)
    fix a
    assume "a < length (by_age (add_current n sw))"
    then have a: "a < win_size sw" by (simp add: add_current_def)
    then have ix: "(cursor sw + win_size sw - a) mod win_size sw = cursor sw \<longleftrightarrow> a = 0"
      using ok by (auto simp: age_index win_ok_def)
    then show "by_age (add_current n sw) ! a = (by_age sw)[0 := by_age sw ! 0 + n] ! a"
      using a len by (auto simp: add_current_def nth_by_age nth_list_update)
  qed (simp add: add_current_def)
qed

lemma add_current_frame [simp]:
  "win_size (add_current n sw) = win_size sw" "interval (add_current n sw) = interval sw"
  "lastTime (add_current n sw) = lastTime sw" "win_threshold (add_current n sw) = win_threshold sw"
  by (simp_all add: add_current_def)

lemma win_ok_new: "0 < n \<Longrightarrow> 0 < ivl \<Longrightarrow> win_ok (new_sliding_window now n ivl thr)"
  by (simp add: win_ok_def new_sliding_window_def sum_list_replicate)

subsection \<open>What the counter counts\<close>

text \<open>
  \<open>weight P evs\<close> adds up the amounts of the events whose time satisfies \<open>P\<close>. A window
  \<open>tracks\<close> a list of events when its slot of age \<open>a\<close> holds the weight of the events of the
  interval that began \<open>a\<close> intervals before \<open>lastTime\<close>.
\<close>

type_synonym event = "instant \<times> int"

definition weight :: "(instant \<Rightarrow> bool) \<Rightarrow> event list \<Rightarrow> int" where
  "weight P evs = sum_list (map snd (filter (\<lambda>e. P (fst e)) evs))"

definition allow_all :: "event list \<Rightarrow> sliding_window \<Rightarrow> sliding_window" where
  "allow_all evs sw = fold (\<lambda>(t, c) s. snd (win_allow t c s)) evs sw"

definition tracks :: "event list \<Rightarrow> sliding_window \<Rightarrow> bool" where
  "tracks evs sw \<longleftrightarrow>
     win_ok sw \<and> (\<forall>e \<in> set evs. fst e < lastTime sw + interval sw) \<and>
     (\<forall>a < win_size sw. by_age sw ! a =
        weight (\<lambda>t. lastTime sw - int a * interval sw \<le> t \<and> t < lastTime sw - (int a - 1) * interval sw) evs)"

lemma weight_Nil [simp]: "weight P [] = 0"
  by (simp add: weight_def)

lemma weight_snoc [simp]: "weight P (evs @ [(t, c)]) = weight P evs + (if P t then c else 0)"
  by (simp add: weight_def)

lemma weight_none: "\<forall>e \<in> set evs. \<not> P (fst e) \<Longrightarrow> weight P evs = 0"
  by (simp add: weight_def)

lemma weight_cong: "(\<And>e. e \<in> set evs \<Longrightarrow> P (fst e) = Q (fst e)) \<Longrightarrow> weight P evs = weight Q evs"
  by (simp add: weight_def cong: filter_cong)

lemma weight_mono:
  "\<forall>e \<in> set evs. 0 \<le> snd e \<Longrightarrow> (\<And>e. e \<in> set evs \<Longrightarrow> P (fst e) \<Longrightarrow> Q (fst e)) \<Longrightarrow> weight P evs \<le> weight Q evs"
  by (induction evs) (auto simp: weight_def)

lemma weight_disjoint:
  "(\<And>t. \<not> (P t \<and> Q t)) \<Longrightarrow> weight (\<lambda>t. P t \<or> Q t) evs = weight P evs + weight Q evs"
  by (induction evs) (auto simp: weight_def)

lemma snd_win_allow: "snd (win_allow now c sw) = add_current c (advance now sw)"
  by (simp add: win_allow_def Let_def)

lemma tracks_allow:
  assumes tr: "tracks evs sw" and c: "0 \<le> c"
    and now: "lastTime sw \<le> now" "now - lastTime sw < 2 ^ 63"
  shows "tracks (evs @ [(now, c)]) (snd (win_allow now c sw))"
    "lastTime (snd (win_allow now c sw)) \<le> now"
    "now < lastTime (snd (win_allow now c sw)) + interval sw"
    "lastTime sw \<le> lastTime (snd (win_allow now c sw))"
proof -
  let ?I = "interval sw" and ?n = "win_size sw" and ?L = "lastTime sw"
  define k where "k = (now - ?L) div ?I"
  define s where "s = advance now sw"
  have ok: "win_ok sw" and I: "0 < ?I" and n: "0 < ?n"
    and old: "\<And>e. e \<in> set evs \<Longrightarrow> fst e < ?L + ?I"
    and cnt: "\<And>a. a < ?n \<Longrightarrow> by_age sw ! a =
      weight (\<lambda>t. ?L - int a * ?I \<le> t \<and> t < ?L - (int a - 1) * ?I) evs"
    using tr by (auto simp: tracks_def win_ok_def)
  note adv = advance_spec[OF ok now, folded k_def s_def]
  have k0: "0 \<le> k" using now I by (simp add: k_def pos_imp_zdiv_nonneg_iff)
  have kI: "k * ?I \<le> now - ?L" "now - ?L < k * ?I + ?I"
    using I pos_mod_bound[OF I, of "now - ?L"] pos_mod_sign[OF I, of "now - ?L"]
      div_mult_mod_eq[of "now - ?L" ?I] unfolding k_def by linarith+
  let ?L' = "lastTime s"
  have L': "?L' \<le> now" "now < ?L' + ?I" "?L \<le> ?L'" using adv(3) kI I now k0 by (auto split: if_splits)
  have gap: "?L + k * ?I \<le> ?L'" using adv(3) kI by (simp split: if_splits)
  have slot: "by_age s ! a = weight (\<lambda>t. ?L' - int a * ?I \<le> t \<and> t < ?L' - (int a - 1) * ?I) evs"
    if a: "a < ?n" for a
  proof (cases "int a < k")
    case True
    then have "(int a + 1) * ?I \<le> k * ?I" using I by (intro mult_right_mono) auto
    then have "?L + ?I \<le> ?L' - int a * ?I" using gap by (simp add: algebra_simps)
    then have "\<forall>e \<in> set evs. \<not> (?L' - int a * ?I \<le> fst e \<and> fst e < ?L' - (int a - 1) * ?I)"
      using old by force
    then have "weight (\<lambda>t. ?L' - int a * ?I \<le> t \<and> t < ?L' - (int a - 1) * ?I) evs = 0"
      by (rule weight_none)
    then show ?thesis using True a by (simp add: adv(2) nth_shift zless_nat_eq_int_zless)
  next
    case False
    then have lt: "k < int ?n" using a by simp
    have a': "int (a - nat k) = int a - k" using False k0 by simp
    have L'eq: "?L' = ?L + k * ?I" using adv(3) lt by simp
    have "by_age s ! a = by_age sw ! (a - nat k)" using False a k0 by (simp add: adv(2) nth_shift zless_nat_eq_int_zless)
    also have "\<dots> = weight (\<lambda>t. ?L - (int a - k) * ?I \<le> t \<and> t < ?L - ((int a - k) - 1) * ?I) evs"
      using cnt[of "a - nat k"] a a' by simp
    finally show ?thesis unfolding L'eq by (simp add: algebra_simps)
  qed
  show "lastTime (snd (win_allow now c sw)) \<le> now" "now < lastTime (snd (win_allow now c sw)) + ?I"
    "?L \<le> lastTime (snd (win_allow now c sw))"
    using L' by (simp_all add: snd_win_allow s_def)
  note add = add_current_spec[OF adv(1) c]
  show "tracks (evs @ [(now, c)]) (snd (win_allow now c sw))"
    unfolding tracks_def snd_win_allow s_def[symmetric]
  proof (intro conjI allI impI ballI)
    show "win_ok (add_current c s)" by (rule add(1))
  next
    fix e
    assume "e \<in> set (evs @ [(now, c)])"
    then show "fst e < lastTime (add_current c s) + interval (add_current c s)"
      using old[of e] L' by (auto simp: adv(5))
  next
    fix a
    assume "a < win_size (add_current c s)"
    then have a: "a < ?n" by (simp add: adv(4))
    have here: "?L' - int a * ?I \<le> now \<and> now < ?L' - (int a - 1) * ?I \<longleftrightarrow> a = 0"
    proof (cases a)
      case (Suc b)
      then have "?L' - (int a - 1) * ?I \<le> ?L'" using I by simp
      then have "\<not> now < ?L' - (int a - 1) * ?I" using L' by linarith
      then show ?thesis using Suc by simp
    qed (use L' in simp)
    have "by_age (add_current c s) ! a = by_age s ! a + (if a = 0 then c else 0)"
      using a n by (auto simp: add(2) nth_list_update adv(4))
    then show "by_age (add_current c s) ! a =
        weight (\<lambda>t. lastTime (add_current c s) - int a * interval (add_current c s) \<le> t \<and>
          t < lastTime (add_current c s) - (int a - 1) * interval (add_current c s)) (evs @ [(now, c)])"
      using slot[OF a] here by (simp add: adv(5))
  qed
qed

lemma slots_sum_weight:
  fixes L I :: int
  assumes "0 < I"
  shows "(\<Sum>a<m. weight (\<lambda>t. L - int a * I \<le> t \<and> t < L - (int a - 1) * I) evs) =
    weight (\<lambda>t. L - (int m - 1) * I \<le> t \<and> t < L + I) evs"
proof (induction m)
  case 0
  then show ?case using assms by (subst weight_none) auto
next
  case (Suc m)
  let ?P = "\<lambda>t. L - (int m - 1) * I \<le> t \<and> t < L + I"
    and ?Q = "\<lambda>t. L - int m * I \<le> t \<and> t < L - (int m - 1) * I"
  define J where "J = int m * I"
  have J: "0 \<le> J" "(int m - 1) * I = J - I" using assms by (simp_all add: J_def algebra_simps)
  have "(\<lambda>t. L - int m * I \<le> t \<and> t < L + I) = (\<lambda>t. ?P t \<or> ?Q t)"
    using assms J(1) unfolding J(2) J_def[symmetric] by (intro ext) auto
  moreover have "weight (\<lambda>t. ?P t \<or> ?Q t) evs = weight ?P evs + weight ?Q evs"
    by (rule weight_disjoint) auto
  ultimately show ?case using Suc.IH by simp
qed

lemma tracks_total:
  assumes tr: "tracks evs sw"
  shows "win_total sw = weight (\<lambda>t. lastTime sw - (int (win_size sw) - 1) * interval sw \<le> t) evs"
proof -
  let ?I = "interval sw" and ?L = "lastTime sw" and ?n = "win_size sw"
  have ok: "win_ok sw" and I: "0 < ?I" using tr by (auto simp: tracks_def win_ok_def)
  have "win_total sw = sum_list (by_age sw)" using sum_by_age[OF ok] ok by (simp add: win_ok_def)
  also have "\<dots> = (\<Sum>a<?n. by_age sw ! a)" by (simp add: sum_list_sum_nth atLeast0LessThan)
  also have "\<dots> = (\<Sum>a<?n. weight (\<lambda>t. ?L - int a * ?I \<le> t \<and> t < ?L - (int a - 1) * ?I) evs)"
    using tr by (intro sum.cong) (auto simp: tracks_def)
  also have "\<dots> = weight (\<lambda>t. ?L - (int ?n - 1) * ?I \<le> t \<and> t < ?L + ?I) evs"
    by (rule slots_sum_weight[OF I])
  also have "\<dots> = weight (\<lambda>t. ?L - (int ?n - 1) * ?I \<le> t) evs"
    using tr by (intro weight_cong) (auto simp: tracks_def)
  finally show ?thesis .
qed

text \<open>A window that recorded events at the times of \<open>evs\<close>, none earlier than the one before.\<close>

definition timely :: "instant \<Rightarrow> event list \<Rightarrow> bool" where
  "timely t0 evs \<longleftrightarrow>
     sorted (t0 # map fst evs) \<and> (\<forall>e \<in> set evs. fst e - t0 < 2 ^ 63 \<and> 0 \<le> snd e)"

lemma timely_snoc:
  "timely t0 (evs @ [(t, c)]) \<longleftrightarrow>
     timely t0 evs \<and> t0 \<le> t \<and> (\<forall>e \<in> set evs. fst e \<le> t) \<and> t - t0 < 2 ^ 63 \<and> 0 \<le> c"
  by (auto simp: timely_def sorted_append)

lemma tracks_new: "0 < n \<Longrightarrow> 0 < ivl \<Longrightarrow> tracks [] (new_sliding_window t0 n ivl thr)"
  using win_ok_new[of n ivl t0 thr]
  by (simp add: tracks_def by_age_def new_sliding_window_def)

lemma allow_all_snoc:
  "allow_all (evs @ [(now, c)]) sw = snd (win_allow now c (allow_all evs sw))"
  by (simp add: allow_all_def)

lemma allow_all_tracks:
  fixes thr :: int
  assumes n: "0 < n" "0 < ivl" and "timely t0 evs"
  defines "sw \<equiv> allow_all evs (new_sliding_window t0 n ivl thr)"
  shows "tracks evs sw \<and> win_size sw = n \<and> interval sw = ivl \<and> win_threshold sw = thr \<and>
    t0 \<le> lastTime sw \<and> lastTime sw \<le> (if evs = [] then t0 else fst (last evs)) \<and>
    (if evs = [] then t0 else fst (last evs)) < lastTime sw + ivl"
  using assms(3) unfolding sw_def
proof (induction evs rule: rev_induct)
  case Nil
  then show ?case using tracks_new[OF n, of t0 thr] n by (simp add: allow_all_def new_sliding_window_def)
next
  case (snoc e evs)
  obtain t c where e: "e = (t, c)" by (cases e)
  let ?s = "allow_all evs (new_sliding_window t0 n ivl thr)"
  have tm: "timely t0 evs" "t0 \<le> t" "\<forall>e \<in> set evs. fst e \<le> t" "t - t0 < 2 ^ 63" "0 \<le> c"
    using snoc.prems by (auto simp: e timely_snoc)
  note IH = snoc.IH[OF tm(1)]
  have le: "lastTime ?s \<le> t" using IH tm(2,3) by (cases evs rule: rev_cases) auto
  have lt: "t - lastTime ?s < 2 ^ 63" using IH tm(4) by linarith
  have frame: "win_size (snd (win_allow t c ?s)) = n" "interval (snd (win_allow t c ?s)) = ivl"
    "win_threshold (snd (win_allow t c ?s)) = thr"
    using IH advance_spec(4-6)[OF _ le lt] by (auto simp: snd_win_allow tracks_def)
  show ?case
    using tracks_allow[OF conjunct1[OF IH] tm(5) le lt] IH frame
    by (simp add: e allow_all_snoc)
qed

lemma allow_all_counts:
  fixes thr :: int
  assumes "0 < n" "0 < ivl" "timely t0 (evs @ [(now, c)])"
  defines "sw \<equiv> allow_all (evs @ [(now, c)]) (new_sliding_window t0 n ivl thr)"
  shows "weight (\<lambda>t. now - t \<le> (int n - 1) * ivl) (evs @ [(now, c)]) \<le> win_sum sw"
    "win_sum sw \<le> weight (\<lambda>t. now - t < int n * ivl) (evs @ [(now, c)])"
    "win_threshold sw = thr"
proof -
  note run = allow_all_tracks[OF assms(1-3), of thr, folded sw_def]
  have nn: "\<forall>e \<in> set (evs @ [(now, c)]). 0 \<le> snd e" using assms(3) unfolding timely_def by blast
  have L: "lastTime sw \<le> now" "now < lastTime sw + ivl" using run by auto
  have tot: "win_sum sw = weight (\<lambda>t. lastTime sw - (int n - 1) * ivl \<le> t) (evs @ [(now, c)])"
    using tracks_total[of "evs @ [(now, c)]" sw] run by (simp add: win_sum_def)
  show "weight (\<lambda>t. now - t \<le> (int n - 1) * ivl) (evs @ [(now, c)]) \<le> win_sum sw"
    "win_sum sw \<le> weight (\<lambda>t. now - t < int n * ivl) (evs @ [(now, c)])"
    unfolding tot using L by (rule_tac [!] weight_mono[OF nn]) (simp_all add: algebra_simps)
  show "win_threshold sw = thr" using run by simp
qed

lemma fst_win_allow: "fst (win_allow now c sw) \<longleftrightarrow>
    win_sum (snd (win_allow now c sw)) \<le> win_threshold (snd (win_allow now c sw))"
  by (simp add: win_allow_def win_sum_def Let_def)

text \<open>
  After any sequence of events the counter is exact up to one interval: it includes every
  event of the last \<open>size - 1\<close> intervals and none that is \<open>size\<close> intervals old.
\<close>

theorem window_counts_recent:
  fixes thr :: int
  assumes "0 < n" "0 < ivl" "timely t0 (evs @ [(now, c)])"
  defines "sw \<equiv> allow_all (evs @ [(now, c)]) (new_sliding_window t0 n ivl thr)"
  shows "weight (\<lambda>t. now - t \<le> (int n - 1) * ivl) (evs @ [(now, c)]) \<le> win_sum sw \<and>
    win_sum sw \<le> weight (\<lambda>t. now - t < int n * ivl) (evs @ [(now, c)])"
  unfolding sw_def using allow_all_counts(1,2)[OF assms(1-3)] by blast

lemma window_counts_recent_witness:
  "weight (\<lambda>t. 45 - t \<le> (int 3 - 1) * 10) ([(0, 1), (12, 2), (31, 1)] @ [(45, 4)]) = 5 \<and>
   weight (\<lambda>t. 45 - t < int 3 * 10) ([(0, 1), (12, 2), (31, 1)] @ [(45, 4)]) = 5 \<and>
   win_sum (allow_all ([(0, 1), (12, 2), (31, 1)] @ [(45, 4)]) (new_sliding_window 0 3 10 7)) = 5"
proof -
  have w: "weight (\<lambda>t. 45 - t \<le> (int 3 - 1) * 10) ([(0, 1), (12, 2), (31, 1)] @ [(45, 4)]) = 5"
    "weight (\<lambda>t. 45 - t < int 3 * 10) ([(0, 1), (12, 2), (31, 1)] @ [(45, 4)]) = 5"
    by (simp_all add: weight_def)
  then show ?thesis
    using window_counts_recent[of 3 10 0 "[(0, 1), (12, 2), (31, 1)]" 45 4 7] by (simp add: timely_def)
qed

text \<open>
  C14. The verdict of \<open>Allow\<close>: a request is let through only when the amount of the last
  \<open>size - 1\<close> intervals, itself included, is within the threshold; and it is let through
  whenever the amount of the last \<open>size\<close> intervals is.
\<close>

theorem window_limit_contract:
  fixes thr :: int
  assumes "0 < n" "0 < ivl" "timely t0 (evs @ [(now, c)])"
  defines "verdict \<equiv> fst (win_allow now c (allow_all evs (new_sliding_window t0 n ivl thr)))"
  shows "(verdict \<longrightarrow> weight (\<lambda>t. now - t \<le> (int n - 1) * ivl) (evs @ [(now, c)]) \<le> thr) \<and>
    (weight (\<lambda>t. now - t < int n * ivl) (evs @ [(now, c)]) \<le> thr \<longrightarrow> verdict)"
  using allow_all_counts[OF assms(1-3), of thr]
  unfolding verdict_def fst_win_allow allow_all_snoc by auto

lemma window_limit_contract_witness:
  "fst (win_allow 45 4 (allow_all [(0, 1), (12, 2), (31, 1)] (new_sliding_window 0 3 10 5))) \<and>
   \<not> fst (win_allow 45 4 (allow_all [(0, 1), (12, 2), (31, 1)] (new_sliding_window 0 3 10 4)))"
proof -
  have w: "weight (\<lambda>t. 45 - t \<le> (int 3 - 1) * 10) ([(0, 1), (12, 2), (31, 1)] @ [(45, 4)]) = 5"
    "weight (\<lambda>t. 45 - t < int 3 * 10) ([(0, 1), (12, 2), (31, 1)] @ [(45, 4)]) = 5"
    by (simp_all add: weight_def)
  have "fst (win_allow 45 4 (allow_all [(0, 1), (12, 2), (31, 1)] (new_sliding_window 0 3 10 5)))"
    using window_limit_contract[of 3 10 0 "[(0, 1), (12, 2), (31, 1)]" 45 4 5] w
    by (simp add: timely_def)
  moreover have
    "\<not> fst (win_allow 45 4 (allow_all [(0, 1), (12, 2), (31, 1)] (new_sliding_window 0 3 10 4)))"
    using window_limit_contract[of 3 10 0 "[(0, 1), (12, 2), (31, 1)]" 45 4 4] w
    by (simp add: timely_def)
  ultimately show ?thesis by blast
qed

subsection \<open>The interval statistics\<close>

definition recent :: "nat \<Rightarrow> real list \<Rightarrow> real list" where
  "recent m xs = drop (length xs - m) xs"

definition mean :: "real list \<Rightarrow> real" where
  "mean xs = sum_list xs / real (length xs)"

definition population_variance :: "real list \<Rightarrow> real" where
  "population_variance xs = sum_list (map (\<lambda>x. (x - mean xs)\<^sup>2) xs) / real (length xs)"

fun gaps :: "instant list \<Rightarrow> real list" where
  "gaps (s # t # ts) = seconds (time_sub t s) # gaps (t # ts)"
| "gaps _ = []"

definition it_ring :: "nat \<Rightarrow> real list \<Rightarrow> interval_tracker \<Rightarrow> bool" where
  "it_ring m gs it \<longleftrightarrow>
     it_maxSample it = m \<and> length (it_samples it) = m \<and> it_writeIdx it = length gs mod m \<and>
     (it_full it \<longleftrightarrow> m \<le> length gs) \<and>
     (\<forall>i < length gs. length gs \<le> i + m \<longrightarrow> it_samples it ! (i mod m) = gs ! i)"

lemma gaps_snoc: "ts \<noteq> [] \<Longrightarrow> gaps (ts @ [t]) = gaps ts @ [seconds (time_sub t (last ts))]"
  by (induction ts rule: gaps.induct) auto

lemma sum_squares_shift:
  "sum_list (map (\<lambda>x. (x - c)\<^sup>2) xs) =
   sum_list (map (\<lambda>x. x * x) xs) - 2 * c * sum_list xs + real (length xs) * (c * c)"
  by (induction xs) (auto simp: algebra_simps power2_eq_square)

lemma population_variance_alt:
  "xs \<noteq> [] \<Longrightarrow>
   population_variance xs = sum_list (map (\<lambda>x. x * x) xs) / real (length xs) - mean xs * mean xs"
  unfolding population_variance_def sum_squares_shift by (simp add: mean_def field_simps)

lemma population_variance_nonneg: "0 \<le> population_variance xs"
  unfolding population_variance_def by (intro divide_nonneg_nonneg sum_list_nonneg) auto

lemma mset_rotated: "mset (rotate k xs) = mset xs"
proof (induction k)
  case (Suc k)
  have "mset (rotate1 ys) = mset ys" for ys :: "'a list" by (cases ys) auto
  then show ?case using Suc by simp
qed simp

lemma ring_samples:
  assumes ring: "it_ring m gs it" and m: "0 < m"
  shows "mset (take (it_sample_count it) (it_samples it)) = mset (recent m gs)"
    "it_sample_count it = length (recent m gs)"
proof -
  have "mset (take (it_sample_count it) (it_samples it)) = mset (recent m gs) \<and>
      it_sample_count it = length (recent m gs)"
  proof (cases "m \<le> length gs")
    case True
    let ?d = "length gs - m"
    have "recent m gs = rotate (length gs) (it_samples it)"
    proof (rule nth_equalityI)
      fix i
      assume "i < length (recent m gs)"
      then have i: "i < m" using True by (simp add: recent_def)
      then have "gs ! (?d + i) = it_samples it ! ((?d + i) mod m)"
        using ring True by (auto simp: it_ring_def)
      also have "(?d + i) mod m = (?d + i + m) mod m" by simp
      also have "?d + i + m = i + length gs" using True by simp
      finally show "recent m gs ! i = rotate (length gs) (it_samples it) ! i"
        using i True ring by (simp add: recent_def nth_rotate it_ring_def add.commute)
    qed (use ring True in \<open>simp add: recent_def it_ring_def\<close>)
    then show ?thesis using ring True by (simp add: it_ring_def it_sample_count_def mset_rotated)
  next
    case False
    then have "take (length gs) (it_samples it) = gs"
      using ring by (intro nth_equalityI) (auto simp: it_ring_def)
    then show ?thesis using ring False by (simp add: it_ring_def it_sample_count_def recent_def)
  qed
  then show "mset (take (it_sample_count it) (it_samples it)) = mset (recent m gs)"
    "it_sample_count it = length (recent m gs)" by auto
qed

lemma compute_stats_spec:
  assumes ring: "it_ring m gs it" and m: "0 < m" "gs \<noteq> []"
  shows "it_ring m gs (compute_stats it)"
    "it_mean (compute_stats it) = mean (recent m gs)"
    "it_variance (compute_stats it) = population_variance (recent m gs)"
proof -
  note ms = ring_samples[OF ring m(1)]
  have ne: "recent m gs \<noteq> []" using m by (cases "m \<le> length gs") (auto simp: recent_def)
  then have cnt: "it_sample_count it \<noteq> 0" using ms(2) by simp
  have sum: "sum_list (take (it_sample_count it) (it_samples it)) = sum_list (recent m gs)"
    by (simp only: sum_mset_sum_list[symmetric] ms(1))
  have sq: "sum_list (map (\<lambda>x. x * x) (take (it_sample_count it) (it_samples it))) =
      sum_list (map (\<lambda>x. x * x) (recent m gs))"
    by (simp only: sum_mset_sum_list[symmetric] mset_map ms(1))
  have v: "sum_list (map (\<lambda>x. x * x) (recent m gs)) / real (length (recent m gs)) -
      sum_list (recent m gs) / real (length (recent m gs)) *
      (sum_list (recent m gs) / real (length (recent m gs))) = population_variance (recent m gs)"
    using population_variance_alt[OF ne] by (simp add: mean_def)
  show "it_mean (compute_stats it) = mean (recent m gs)"
    using cnt unfolding compute_stats_def Let_def sum unfolding ms(2) by (simp add: mean_def)
  show "it_variance (compute_stats it) = population_variance (recent m gs)"
    using cnt population_variance_nonneg[of "recent m gs"]
    unfolding compute_stats_def Let_def sum sq unfolding ms(2) v by simp
  show "it_ring m gs (compute_stats it)"
    using ring by (simp add: compute_stats_def Let_def it_ring_def)
qed

lemma it_record_first:
  "it_lastTime it = zero_time \<Longrightarrow> it_record t it = it\<lparr>it_lastTime := t\<rparr>"
  by (simp add: it_record_def)

definition put_sample :: "instant \<Rightarrow> real \<Rightarrow> interval_tracker \<Rightarrow> interval_tracker" where
  "put_sample t x it =
     it\<lparr>it_lastTime := t, it_samples := (it_samples it)[it_writeIdx it := x],
       it_writeIdx := (if it_maxSample it \<le> it_writeIdx it + 1 then 0 else it_writeIdx it + 1),
       it_full := (it_full it \<or> it_maxSample it \<le> it_writeIdx it + 1)\<rparr>"

lemma it_record_put:
  "it_lastTime it \<noteq> zero_time \<Longrightarrow>
   it_record t it = compute_stats (put_sample t (seconds (time_sub t (it_lastTime it))) it)"
  by (simp add: it_record_def put_sample_def Let_def)

lemma put_sample_ring:
  assumes ring: "it_ring m gs it" and m: "0 < m"
  shows "it_ring m (gs @ [x]) (put_sample t x it)"
proof -
  have w: "it_writeIdx it = length gs mod m" "it_maxSample it = m" "length (it_samples it) = m"
    and full: "it_full it \<longleftrightarrow> m \<le> length gs"
    and at: "\<And>i. i < length gs \<Longrightarrow> length gs \<le> i + m \<Longrightarrow> it_samples it ! (i mod m) = gs ! i"
    using ring by (auto simp: it_ring_def)
  have step: "(if m \<le> length gs mod m + 1 then 0 else length gs mod m + 1) = Suc (length gs) mod m"
    using m mod_less_divisor[OF m, of "length gs"] by (auto simp: mod_Suc)
  have wrap: "m \<le> length gs mod m + 1 \<Longrightarrow> m \<le> Suc (length gs)"
    using mod_less_eq_dividend[of "length gs" m] by linarith
  have fullx: "m \<le> length gs \<or> m \<le> length gs mod m + 1 \<longleftrightarrow> m \<le> Suc (length gs)"
    using wrap by (auto simp: le_Suc_eq)
  have slot: "(it_samples it)[length gs mod m := x] ! (i mod m) = (gs @ [x]) ! i"
    if i: "i < Suc (length gs)" "Suc (length gs) \<le> i + m" for i
  proof (cases "i = length gs")
    case False
    have "i mod m \<noteq> length gs mod m"
    proof
      assume "i mod m = length gs mod m"
      then have "m dvd length gs - i" using i by (metis less_Suc_eq_le mod_eq_dvd_iff_nat)
      then show False using i False m by (auto dest: dvd_imp_le)
    qed
    then show ?thesis using i False at[of i] by (simp add: nth_append)
  qed (use w m in simp)
  show ?thesis
    using w slot step fullx by (simp add: it_ring_def put_sample_def full split: if_splits)
qed

lemma it_record_all:
  assumes m: "0 < m" and ts: "ts \<noteq> []" "zero_time \<notin> set ts"
  defines "it \<equiv> fold it_record ts (new_interval_tracker m)"
  shows "it_ring m (gaps ts) it \<and> it_lastTime it = last ts \<and>
    (gaps ts \<noteq> [] \<longrightarrow> it_mean it = mean (recent m (gaps ts)) \<and>
      it_variance it = population_variance (recent m (gaps ts)))"
  using ts unfolding it_def
proof (induction ts rule: rev_nonempty_induct)
  case (single t)
  then show ?case
    using m by (simp add: it_record_first new_interval_tracker_def it_ring_def)
next
  case (snoc t ts)
  let ?it = "fold it_record ts (new_interval_tracker m)"
  have ne: "zero_time \<notin> set ts" using snoc.prems by simp
  have last: "it_lastTime ?it = last ts" and ring: "it_ring m (gaps ts) ?it" using snoc.IH[OF ne] by auto
  have nz: "it_lastTime ?it \<noteq> zero_time" using last ne last_in_set[OF snoc.hyps(1)] by metis
  let ?x = "seconds (time_sub t (last ts))"
  have put: "it_ring m (gaps ts @ [?x]) (put_sample t ?x ?it)" by (rule put_sample_ring[OF ring m])
  note stats = compute_stats_spec[OF put m]
  have rec: "it_record t ?it = compute_stats (put_sample t ?x ?it)" using it_record_put[OF nz] last by simp
  have "it_lastTime (compute_stats (put_sample t ?x ?it)) = t"
    by (simp add: compute_stats_def put_sample_def Let_def)
  then show ?case using stats snoc.hyps(1) by (simp add: gaps_snoc rec)
qed

text \<open>
  After at least two requests the tracker's mean and variance are the mean and the
  population variance of the last \<open>maxSample\<close> intervals between requests.
\<close>

theorem interval_statistics:
  assumes "0 < m" "zero_time \<notin> set ts" "2 \<le> length ts"
  defines "it \<equiv> fold it_record ts (new_interval_tracker m)"
  shows "it_mean it = mean (recent m (gaps ts)) \<and>
    it_variance it = population_variance (recent m (gaps ts)) \<and>
    it_sample_count it = min m (length ts - 1)"
proof -
  have ne: "ts \<noteq> []" using assms(3) by auto
  have len: "length (gaps ts) = length ts - 1" by (induction ts rule: gaps.induct) auto
  then have g: "gaps ts \<noteq> []" using assms(3) by auto
  have ring: "it_ring m (gaps ts) it" using it_record_all[OF assms(1) ne assms(2)] by (simp add: it_def)
  have "it_sample_count it = min m (length ts - 1)"
    using ring_samples(2)[OF ring assms(1)] len by (simp add: recent_def)
  then show ?thesis using it_record_all[OF assms(1) ne assms(2)] g by (simp add: it_def)
qed

lemma interval_statistics_witness:
  defines "ts \<equiv> [1000000000, 3000000000, 4000000000, 8000000000]"
  shows "it_mean (fold it_record ts (new_interval_tracker 2)) = 5 / 2 \<and>
    it_variance (fold it_record ts (new_interval_tracker 2)) = 9 / 4"
proof -
  have g: "recent 2 (gaps ts) = [1, 4]"
    by (simp add: ts_def seconds_def time_sub_def recent_def)
  show ?thesis
    using interval_statistics[of 2 ts]
    by (simp add: g mean_def population_variance_def power2_eq_square) (simp add: ts_def zero_time_def)
qed

end
