(* ===== verification/Config.thy ===== *)
theory Config
  imports Prelude
begin

text \<open>
  \<open>internal/domain/security/ratelimit/config.go\<close>: the settings of the adaptive rate limiter.

  A \<open>float64\<close> setting is a real number, an \<open>int\<close> or \<open>int64\<close> an unbounded integer; a
  duration in seconds or milliseconds is turned into nanoseconds as the code does. Of the
  saver callback the configuration knows only whether one is set (\<open>c_persistSaver\<close>); what it
  answers, and what encoding and writing the file answer, are arguments of \<open>save_to_file\<close>.
\<close>

record config =
  c_Enabled :: bool
  c_Mode :: string
  c_WindowSize :: int
  c_SubIntervalMs :: int
  c_MaxSamples :: int
  c_ProfileMaxAgeSec :: int
  c_CleanupIntervalSec :: int
  c_IPRequestThreshold :: int
  c_IPBlockThreshold :: int
  c_PathDivMax :: int
  c_UADivMax :: int
  c_RuleDivMax :: int
  c_SensitivePathThreshold :: int
  c_GlobalQPSThreshold :: int
  c_W_RequestRate :: real
  c_W_BlockRate :: real
  c_W_ErrorRatio :: real
  c_W_PathDiv :: real
  c_W_RuleDiv :: real
  c_W_UADiv :: real
  c_W_IntervalVar :: real
  c_W_SensitivePath :: real
  c_W_GeoAnomaly :: real
  c_W_CookieAnomaly :: real
  c_W_MethodAnomaly :: real
  c_W_RefererAnomaly :: real
  c_W_BodyAnomaly :: real
  c_BlockThreshold :: real
  c_ChallengeThreshold :: real
  c_ThrottleThreshold :: real
  c_ErrorRatioThreshold :: real
  c_PathDivThreshold :: int
  c_UADivThreshold :: int
  c_RuleDivThreshold :: int
  c_IntervalVarMin :: real
  c_SensitivePathHitLimit :: int
  c_MethodDivThreshold :: int
  c_NoCookieRatioThreshold :: real
  c_NoRefererRatioThreshold :: real
  c_BodySizeThreshold :: int
  c_ASNChangeThreshold :: int
  c_AdaptiveEnabled :: bool
  c_Sensitivity :: real
  c_BaselineWindow :: int
  c_AutoWeightEnabled :: bool
  c_WeightLearningRate :: real
  c_DynamicBaselinePct :: real
  c_FingerprintEnabled :: bool
  c_FingerprintSuspectThreshold :: int
  c_AttackChainEnabled :: bool
  c_AttackChainWeight :: real
  c_FalsePositiveRepair :: bool
  c_AutoPardonEnabled :: bool
  c_HourProfileEnabled :: bool
  c_HourAnomalyWeight :: real
  c_AutoBlockEnabled :: bool
  c_AutoBlockThreshold :: int
  c_AutoBlockDurationSec :: int
  c_WhitelistIPs :: "string list"
  c_PersistPath :: string
  c_persistSaver :: bool

definition sub_interval :: "config \<Rightarrow> duration" where
  "sub_interval c = c_SubIntervalMs c * 1000000"

definition profile_max_age :: "config \<Rightarrow> duration" where
  "profile_max_age c = c_ProfileMaxAgeSec c * nano_second"

definition cleanup_interval :: "config \<Rightarrow> duration" where
  "cleanup_interval c = c_CleanupIntervalSec c * nano_second"

definition auto_block_duration :: "config \<Rightarrow> duration" where
  "auto_block_duration c = c_AutoBlockDurationSec c * nano_second"

definition default_config :: config where
  "default_config =
     \<lparr>c_Enabled = True, c_Mode = ''intercept'', c_WindowSize = 60, c_SubIntervalMs = 1000,
      c_MaxSamples = 100, c_ProfileMaxAgeSec = 1800, c_CleanupIntervalSec = 300,
      c_IPRequestThreshold = 100, c_IPBlockThreshold = 10, c_PathDivMax = 100, c_UADivMax = 20,
      c_RuleDivMax = 30, c_SensitivePathThreshold = 5, c_GlobalQPSThreshold = 5000,
      c_W_RequestRate = 1 / 5, c_W_BlockRate = 3 / 20, c_W_ErrorRatio = 3 / 25,
      c_W_PathDiv = 3 / 25, c_W_RuleDiv = 2 / 25, c_W_UADiv = 3 / 50, c_W_IntervalVar = 3 / 100,
      c_W_SensitivePath = 1 / 25, c_W_GeoAnomaly = 1 / 20, c_W_CookieAnomaly = 1 / 25,
      c_W_MethodAnomaly = 3 / 100, c_W_RefererAnomaly = 3 / 100, c_W_BodyAnomaly = 1 / 20,
      c_BlockThreshold = 4 / 5, c_ChallengeThreshold = 1 / 2, c_ThrottleThreshold = 3 / 10,
      c_ErrorRatioThreshold = 1 / 2, c_PathDivThreshold = 50, c_UADivThreshold = 3,
      c_RuleDivThreshold = 5, c_IntervalVarMin = 1 / 1000, c_SensitivePathHitLimit = 3,
      c_MethodDivThreshold = 4, c_NoCookieRatioThreshold = 4 / 5,
      c_NoRefererRatioThreshold = 4 / 5, c_BodySizeThreshold = 1048576, c_ASNChangeThreshold = 2,
      c_AdaptiveEnabled = True, c_Sensitivity = 2, c_BaselineWindow = 7,
      c_AutoWeightEnabled = True, c_WeightLearningRate = 1 / 20, c_DynamicBaselinePct = 95,
      c_FingerprintEnabled = True, c_FingerprintSuspectThreshold = 20,
      c_AttackChainEnabled = True, c_AttackChainWeight = 2 / 25, c_FalsePositiveRepair = True,
      c_AutoPardonEnabled = True, c_HourProfileEnabled = True, c_HourAnomalyWeight = 1 / 25,
      c_AutoBlockEnabled = True, c_AutoBlockThreshold = 3, c_AutoBlockDurationSec = 600,
      c_WhitelistIPs = [], c_PersistPath = '''', c_persistSaver = False\<rparr>"

definition get_enabled :: "config \<Rightarrow> bool" where
  "get_enabled c = c_Enabled c"

definition get_mode :: "config \<Rightarrow> string" where
  "get_mode c = (if c_Mode c = '''' then ''intercept'' else c_Mode c)"

text \<open>The copy every reader gets: all fields but the saver callback.\<close>

definition clone :: "config \<Rightarrow> config" where
  "clone c =
     \<lparr>c_Enabled = c_Enabled c, c_Mode = c_Mode c, c_WindowSize = c_WindowSize c,
      c_SubIntervalMs = c_SubIntervalMs c, c_MaxSamples = c_MaxSamples c,
      c_ProfileMaxAgeSec = c_ProfileMaxAgeSec c, c_CleanupIntervalSec = c_CleanupIntervalSec c,
      c_IPRequestThreshold = c_IPRequestThreshold c, c_IPBlockThreshold = c_IPBlockThreshold c,
      c_PathDivMax = c_PathDivMax c, c_UADivMax = c_UADivMax c, c_RuleDivMax = c_RuleDivMax c,
      c_SensitivePathThreshold = c_SensitivePathThreshold c,
      c_GlobalQPSThreshold = c_GlobalQPSThreshold c, c_W_RequestRate = c_W_RequestRate c,
      c_W_BlockRate = c_W_BlockRate c, c_W_ErrorRatio = c_W_ErrorRatio c,
      c_W_PathDiv = c_W_PathDiv c, c_W_RuleDiv = c_W_RuleDiv c, c_W_UADiv = c_W_UADiv c,
      c_W_IntervalVar = c_W_IntervalVar c, c_W_SensitivePath = c_W_SensitivePath c,
      c_W_GeoAnomaly = c_W_GeoAnomaly c, c_W_CookieAnomaly = c_W_CookieAnomaly c,
      c_W_MethodAnomaly = c_W_MethodAnomaly c, c_W_RefererAnomaly = c_W_RefererAnomaly c,
      c_W_BodyAnomaly = c_W_BodyAnomaly c, c_BlockThreshold = c_BlockThreshold c,
      c_ChallengeThreshold = c_ChallengeThreshold c, c_ThrottleThreshold = c_ThrottleThreshold c,
      c_ErrorRatioThreshold = c_ErrorRatioThreshold c, c_PathDivThreshold = c_PathDivThreshold c,
      c_UADivThreshold = c_UADivThreshold c, c_RuleDivThreshold = c_RuleDivThreshold c,
      c_IntervalVarMin = c_IntervalVarMin c, c_SensitivePathHitLimit = c_SensitivePathHitLimit c,
      c_MethodDivThreshold = c_MethodDivThreshold c,
      c_NoCookieRatioThreshold = c_NoCookieRatioThreshold c,
      c_NoRefererRatioThreshold = c_NoRefererRatioThreshold c,
      c_BodySizeThreshold = c_BodySizeThreshold c, c_ASNChangeThreshold = c_ASNChangeThreshold c,
      c_AdaptiveEnabled = c_AdaptiveEnabled c, c_Sensitivity = c_Sensitivity c,
      c_BaselineWindow = c_BaselineWindow c, c_AutoWeightEnabled = c_AutoWeightEnabled c,
      c_WeightLearningRate = c_WeightLearningRate c,
      c_DynamicBaselinePct = c_DynamicBaselinePct c,
      c_FingerprintEnabled = c_FingerprintEnabled c,
      c_FingerprintSuspectThreshold = c_FingerprintSuspectThreshold c,
      c_AttackChainEnabled = c_AttackChainEnabled c, c_AttackChainWeight = c_AttackChainWeight c,
      c_FalsePositiveRepair = c_FalsePositiveRepair c,
      c_AutoPardonEnabled = c_AutoPardonEnabled c, c_HourProfileEnabled = c_HourProfileEnabled c,
      c_HourAnomalyWeight = c_HourAnomalyWeight c, c_AutoBlockEnabled = c_AutoBlockEnabled c,
      c_AutoBlockThreshold = c_AutoBlockThreshold c,
      c_AutoBlockDurationSec = c_AutoBlockDurationSec c, c_WhitelistIPs = c_WhitelistIPs c,
      c_PersistPath = c_PersistPath c, c_persistSaver = False\<rparr>"

text \<open>
  \<open>SaveToFile\<close>: the saver runs first, when one is set, and its error is returned before the
  file is touched; with no path nothing is written. The second component of the answer tells
  whether the file was written.
\<close>

definition save_to_file ::
  "string option \<Rightarrow> string option \<Rightarrow> string option \<Rightarrow> config \<Rightarrow> string option \<times> bool" where
  "save_to_file saver_err encode_err write_err c =
     (case (if c_persistSaver c then saver_err else None) of
        Some e \<Rightarrow> (Some e, False)
      | None \<Rightarrow>
          if c_PersistPath c = '''' then (None, False)
          else (case encode_err of
              Some e \<Rightarrow> (Some e, False)
            | None \<Rightarrow> (write_err, write_err = None)))"

datatype read_result = Not_Exist | Read_Err string | Read_Ok string

text \<open>\<open>encoding/json\<close> is a parameter: \<open>decode\<close> answers an error or the configuration.\<close>

definition load_config_from_file ::
  "(string \<Rightarrow> string + config) \<Rightarrow> string \<Rightarrow> read_result \<Rightarrow> string + config option" where
  "load_config_from_file decode path r =
     (case r of
        Not_Exist \<Rightarrow> Inr None
      | Read_Err e \<Rightarrow> Inl e
      | Read_Ok data \<Rightarrow>
          (case decode data of Inl e \<Rightarrow> Inl e | Inr c \<Rightarrow> Inr (Some (c\<lparr>c_PersistPath := path\<rparr>))))"

definition set_persist_saver :: "bool \<Rightarrow> config \<Rightarrow> config" where
  "set_persist_saver saver c = c\<lparr>c_persistSaver := saver\<rparr>"

lemma clone_eq: "clone c = c\<lparr>c_persistSaver := False\<rparr>"
  by (simp add: clone_def)

text \<open>What the rest of the limiter needs of its settings: windows with room and a clock step.\<close>

definition config_ok :: "config \<Rightarrow> bool" where
  "config_ok c \<longleftrightarrow> 0 < c_WindowSize c \<and> 0 < c_SubIntervalMs c \<and> 0 < c_MaxSamples c"

lemma default_config_ok: "config_ok default_config"
  by (simp add: config_ok_def default_config_def)

lemma config_ok_clone [simp]: "config_ok (clone c) = config_ok c"
  by (simp add: clone_eq config_ok_def)

lemma sub_interval_pos: "config_ok c \<Longrightarrow> 0 < sub_interval c"
  by (simp add: config_ok_def sub_interval_def)

end
