(* ===== verification/Profile.thy ===== *)
theory Profile
  imports Window Config GoText
begin

text \<open>
  \<open>internal/domain/security/ratelimit/profile.go\<close>, the profile of one address: what is counted
  for every request, the trust score, the expiry and the snapshot the engine scores.

  One call reads the clock once here (Go reads it again in every window of the profile). The
  hour of the day is that of a local zone with a fixed offset from UTC. Go's maps are
  association lists with distinct keys.

  Proved: the invariant of a profile, kept by every operation: the trust score stays
  between -50 and 100, at most 200 paths are watched, the counters agree with each other.
  A run of requests without an error pulls the trust score up, and the window of a watched path
  never goes back to zero.
\<close>

subsection \<open>Actions and requests\<close>

datatype action = Allow | Slowdown | Throttle | Challenge | Block

fun action_string :: "action \<Rightarrow> string" where
  "action_string Allow = ''allow''"
| "action_string Slowdown = ''slowdown''"
| "action_string Throttle = ''throttle''"
| "action_string Challenge = ''challenge''"
| "action_string Block = ''block''"

record request_info =
  ri_IP :: string
  ri_Method :: string
  ri_Path :: string
  ri_UserAgent :: string
  ri_StatusCode :: int
  ri_RuleID :: string
  ri_IsBlocked :: bool
  ri_BodySize :: int
  ri_Upstream :: string
  ri_Cookie :: string
  ri_Referer :: string
  ri_CountryISO :: string

subsection \<open>The profile\<close>

record ip_profile =
  p_ip :: string
  p_RequestRate :: sliding_window
  p_BlockRate :: sliding_window
  p_ErrorRatio :: ratio_window
  p_PathDiv :: unique_counter
  p_UADiv :: unique_counter
  p_RuleHitDiv :: unique_counter
  p_Interval :: interval_tracker
  p_PathRate :: "(string \<times> sliding_window) list"
  p_SensitiveHit :: sliding_window
  p_MethodDiv :: unique_counter
  p_NoCookieWin :: ratio_window
  p_NoRefererWin :: ratio_window
  p_BodySizeWin :: sliding_window
  p_firstCountryISO :: string
  p_countryChangeCount :: int
  p_lastUA :: string
  p_lastActive :: instant
  p_blockCount :: int
  p_totalCount :: int
  p_trustScore :: real
  p_fingerprintHash :: string
  p_hourCounts :: "int list"
  p_hourErrors :: "int list"
  p_lastFeedback :: instant
  p_consecutivePass :: int
  p_attackTypes :: "(string \<times> int) list"

definition max_path_rates :: nat where
  "max_path_rates = 200"

definition new_ip_profile :: "instant \<Rightarrow> string \<Rightarrow> config \<Rightarrow> ip_profile" where
  "new_ip_profile now ip cfg =
     (let n = nat (c_WindowSize cfg); ivl = sub_interval cfg in
      \<lparr>p_ip = ip,
       p_RequestRate = new_sliding_window now n ivl (c_IPRequestThreshold cfg),
       p_BlockRate = new_sliding_window now n ivl (c_IPBlockThreshold cfg),
       p_ErrorRatio = new_ratio_window now n ivl,
       p_PathDiv = new_unique_counter now n ivl (c_PathDivMax cfg),
       p_UADiv = new_unique_counter now n ivl (c_UADivMax cfg),
       p_RuleHitDiv = new_unique_counter now n ivl (c_RuleDivMax cfg),
       p_Interval = new_interval_tracker (nat (c_MaxSamples cfg)),
       p_PathRate = [],
       p_SensitiveHit = new_sliding_window now n ivl (c_SensitivePathThreshold cfg),
       p_MethodDiv = new_unique_counter now n ivl 10,
       p_NoCookieWin = new_ratio_window now n ivl,
       p_NoRefererWin = new_ratio_window now n ivl,
       p_BodySizeWin = new_sliding_window now n ivl (c_BodySizeThreshold cfg),
       p_firstCountryISO = '''', p_countryChangeCount = 0, p_lastUA = '''',
       p_lastActive = now, p_blockCount = 0, p_totalCount = 0, p_trustScore = 0,
       p_fingerprintHash = '''', p_hourCounts = replicate 24 0, p_hourErrors = replicate 24 0,
       p_lastFeedback = zero_time, p_consecutivePass = 0, p_attackTypes = []\<rparr>)"

definition sensitive_path_exact :: "string list" where
  "sensitive_path_exact =
     [''/.env'', ''/.git'', ''/.svn'', ''/.htaccess'', ''/.htpasswd'',
      ''/wp-admin'', ''/wp-login'', ''/wp-config'',
      ''/admin'', ''/phpmyadmin'', ''/pma'',
      ''/config'', ''/backup'', ''/database'',
      ''/.DS_Store'', ''/robots.txt'', ''/sitemap.xml'',
      ''/api/v1/users'', ''/actuator'', ''/debug'',
      ''/console'', ''/shell'', ''/cmd'']"

definition sensitive_path_prefixes :: "string list" where
  "sensitive_path_prefixes =
     [''/admin/'', ''/config/'', ''/backup/'', ''/database/'', ''/debug/'', ''/console/'',
      ''/shell/'', ''/cmd/'']"

definition is_sensitive_path :: "string \<Rightarrow> bool" where
  "is_sensitive_path path \<longleftrightarrow>
     path \<in> set sensitive_path_exact \<or>
     list_ex (\<lambda>sp. length path > length sp \<and> take (length sp) path = sp) sensitive_path_prefixes"

text \<open>\<open>now.Hour()\<close> in a zone \<open>tz\<close> nanoseconds east of UTC.\<close>

definition hour_of :: "duration \<Rightarrow> instant \<Rightarrow> nat" where
  "hour_of tz now = nat ((now + tz) div (3600 * nano_second) mod 24)"

text \<open>The steps of \<open>Record\<close>, in the order the code takes them.\<close>

definition trust_step :: "bool \<Rightarrow> bool \<Rightarrow> int \<Rightarrow> real \<Rightarrow> real" where
  "trust_step is_blocked is_error cnt trust =
     (let t = (if is_blocked then trust - 2
               else if is_error then (if cnt > 1 then trust - 1 else trust)
               else if cnt > 1 then (if cnt mod 10 = 0 then trust + 1 / 10 + 1 else trust + 1 / 10)
               else trust);
          t = (if t > 100 then 100 else t)
      in if t < -50 then -50 else t)"

definition record_path_rate ::
  "instant \<Rightarrow> string \<Rightarrow> (string \<times> sliding_window) list \<Rightarrow> (string \<times> sliding_window) list" where
  "record_path_rate now path rates =
     (case map_of rates path of
        Some w \<Rightarrow> AList.update path (snd (win_incr now w)) rates
      | None \<Rightarrow>
          if length rates < max_path_rates
          then AList.update path (snd (win_incr now (new_sliding_window now 60 nano_second 20))) rates
          else rates)"

definition incr_count :: "'k \<Rightarrow> ('k \<times> int) list \<Rightarrow> ('k \<times> int) list" where
  "incr_count k m = AList.update k (map_get 0 (map_of m) k + 1) m"

definition incr_at :: "nat \<Rightarrow> int list \<Rightarrow> int list" where
  "incr_at h xs = xs[h := xs ! h + 1]"

definition is_error :: "request_info \<Rightarrow> bool" where
  "is_error req \<longleftrightarrow> ri_StatusCode req \<ge> 400"

definition is_bad :: "request_info \<Rightarrow> bool" where
  "is_bad req \<longleftrightarrow> is_error req \<or> ri_IsBlocked req"

definition record_traffic :: "instant \<Rightarrow> ip_profile \<Rightarrow> ip_profile" where
  "record_traffic now p =
     p\<lparr>p_lastActive := now, p_totalCount := p_totalCount p + 1,
       p_Interval := it_record now (p_Interval p),
       p_RequestRate := snd (win_incr now (p_RequestRate p))\<rparr>"

definition record_outcome :: "instant \<Rightarrow> request_info \<Rightarrow> ip_profile \<Rightarrow> ip_profile" where
  "record_outcome now req p =
     (if ri_IsBlocked req
      then p\<lparr>p_BlockRate := snd (win_incr now (p_BlockRate p)), p_blockCount := p_blockCount p + 1\<rparr>
      else p)\<lparr>p_trustScore :=
        trust_step (ri_IsBlocked req) (is_error req) (p_totalCount p) (p_trustScore p)\<rparr>"

definition record_variety :: "instant \<Rightarrow> request_info \<Rightarrow> ip_profile \<Rightarrow> ip_profile" where
  "record_variety now req p =
     p\<lparr>p_ErrorRatio := rw_record now (is_error req) (p_ErrorRatio p),
       p_PathDiv := snd (uc_add now (ri_Path req) (p_PathDiv p)),
       p_UADiv := snd (uc_add now (ri_UserAgent req) (p_UADiv p)),
       p_MethodDiv := snd (uc_add now (ri_Method req) (p_MethodDiv p)),
       p_lastUA := ri_UserAgent req,
       p_RuleHitDiv := (if ri_RuleID req \<noteq> ''''
          then snd (uc_add now (ri_RuleID req) (p_RuleHitDiv p)) else p_RuleHitDiv p)\<rparr>"

definition record_path :: "instant \<Rightarrow> request_info \<Rightarrow> ip_profile \<Rightarrow> ip_profile" where
  "record_path now req p =
     p\<lparr>p_PathRate := (if is_bad req then record_path_rate now (ri_Path req) (p_PathRate p)
          else p_PathRate p),
       p_SensitiveHit := (if is_sensitive_path (ri_Path req)
          then snd (win_incr now (p_SensitiveHit p)) else p_SensitiveHit p)\<rparr>"

definition record_headers :: "instant \<Rightarrow> request_info \<Rightarrow> ip_profile \<Rightarrow> ip_profile" where
  "record_headers now req p =
     p\<lparr>p_NoCookieWin := rw_record now (ri_Cookie req = '''') (p_NoCookieWin p),
       p_NoRefererWin := rw_record now (ri_Referer req = '''') (p_NoRefererWin p),
       p_BodySizeWin := (if ri_BodySize req > 0
          then snd (win_incr now (p_BodySizeWin p)) else p_BodySizeWin p)\<rparr>"

definition record_country :: "string \<Rightarrow> ip_profile \<Rightarrow> ip_profile" where
  "record_country ctry p =
     (if ctry \<noteq> '''' then
        if p_firstCountryISO p = '''' then p\<lparr>p_firstCountryISO := ctry\<rparr>
        else if ctry \<noteq> p_firstCountryISO p
        then p\<lparr>p_countryChangeCount := p_countryChangeCount p + 1\<rparr> else p
      else p)"

definition record_feedback :: "duration \<Rightarrow> instant \<Rightarrow> request_info \<Rightarrow> ip_profile \<Rightarrow> ip_profile" where
  "record_feedback tz now req p =
     (let h = hour_of tz now in
      p\<lparr>p_attackTypes := (if ri_RuleID req \<noteq> ''''
          then incr_count (ri_RuleID req) (p_attackTypes p) else p_attackTypes p),
        p_hourCounts := incr_at h (p_hourCounts p),
        p_hourErrors := (if is_bad req then incr_at h (p_hourErrors p) else p_hourErrors p),
        p_lastFeedback := now,
        p_consecutivePass := (if \<not> is_bad req then p_consecutivePass p + 1 else 0)\<rparr>)"

definition profile_record :: "duration \<Rightarrow> instant \<Rightarrow> request_info \<Rightarrow> ip_profile \<Rightarrow> ip_profile" where
  "profile_record tz now req p =
     record_feedback tz now req
      (record_country (ri_CountryISO req)
       (record_headers now req
        (record_path now req
         (record_variety now req
          (record_outcome now req (record_traffic now p))))))"

definition set_fingerprint :: "string \<Rightarrow> ip_profile \<Rightarrow> ip_profile" where
  "set_fingerprint fp p = p\<lparr>p_fingerprintHash := fp\<rparr>"

text \<open>What \<open>Engine.PardonIP\<close> and \<open>Engine.SetIPThreshold\<close> do to the profile.\<close>

definition pardon :: "ip_profile \<Rightarrow> ip_profile" where
  "pardon p =
     (let t = p_trustScore p + 20
      in p\<lparr>p_trustScore := (if t > 100 then 100 else t), p_consecutivePass := 0\<rparr>)"

definition set_request_threshold :: "int \<Rightarrow> ip_profile \<Rightarrow> ip_profile" where
  "set_request_threshold thr p = p\<lparr>p_RequestRate := win_set_threshold thr (p_RequestRate p)\<rparr>"

definition get_hour_anomaly :: "duration \<Rightarrow> instant \<Rightarrow> (nat \<Rightarrow> bool) option \<Rightarrow> ip_profile \<Rightarrow> real" where
  "get_hour_anomaly tz now trustedHours p =
     (let currentHour = hour_of tz now in
      if (case trustedHours of Some th \<Rightarrow> th currentHour | None \<Rightarrow> False) then 0
      else
        let nonzero = filter (\<lambda>c. c > 0) (p_hourCounts p) in
        if length nonzero < 2 then 0
        else
          let avgRequests = real_of_int (sum_list nonzero) / real (length nonzero);
              currentRequests = real_of_int (p_hourCounts p ! currentHour)
          in if currentRequests > avgRequests * 3 \<and> currentRequests > 20
             then (currentRequests - avgRequests * 3) / (avgRequests * 7) else 0)"

definition profile_expire :: "instant \<Rightarrow> duration \<Rightarrow> ip_profile \<Rightarrow> ip_profile" where
  "profile_expire now maxAge p =
     p\<lparr>p_PathDiv := snd (uc_expire now maxAge (p_PathDiv p)),
       p_UADiv := snd (uc_expire now maxAge (p_UADiv p)),
       p_RuleHitDiv := snd (uc_expire now maxAge (p_RuleHitDiv p)),
       p_MethodDiv := snd (uc_expire now maxAge (p_MethodDiv p)),
       p_PathRate := filter (\<lambda>(k, w). win_sum w \<noteq> 0) (p_PathRate p)\<rparr>"

record profile_snapshot =
  s_IP :: string
  s_RequestRate :: int
  s_RequestThreshold :: int
  s_BlockRate :: int
  s_ErrorRatio :: real
  s_PathDiversity :: int
  s_UADiversity :: int
  s_RuleDiversity :: int
  s_IntervalVariance :: real
  s_IntervalMean :: real
  s_SensitiveHitCount :: int
  s_PathRates :: "(string \<times> int) list"
  s_TotalCount :: int
  s_BlockCount :: int
  s_LastActive :: instant
  s_MethodDiversity :: int
  s_NoCookieRatio :: real
  s_NoRefererRatio :: real
  s_BodySizeCount :: int
  s_ASNChangeCount :: int
  s_FirstASN :: string
  s_LastUA :: string
  s_TrustScore :: real
  s_FingerprintHash :: string
  s_ConsecutivePass :: int
  s_HourAnomalyScore :: real
  s_AttackTypeCounts :: "(string \<times> int) list"

definition snapshot :: "ip_profile \<Rightarrow> profile_snapshot" where
  "snapshot p =
     \<lparr>s_IP = p_ip p,
      s_RequestRate = win_sum (p_RequestRate p),
      s_RequestThreshold = win_threshold (p_RequestRate p),
      s_BlockRate = win_sum (p_BlockRate p),
      s_ErrorRatio = rw_ratio (p_ErrorRatio p),
      s_PathDiversity = int (uc_count (p_PathDiv p)),
      s_UADiversity = int (uc_count (p_UADiv p)),
      s_RuleDiversity = int (uc_count (p_RuleHitDiv p)),
      s_IntervalVariance = it_variance (p_Interval p),
      s_IntervalMean = it_mean (p_Interval p),
      s_SensitiveHitCount = win_sum (p_SensitiveHit p),
      s_PathRates = map (\<lambda>(path, w). (path, win_sum w)) (p_PathRate p),
      s_TotalCount = p_totalCount p,
      s_BlockCount = p_blockCount p,
      s_LastActive = p_lastActive p,
      s_MethodDiversity = int (uc_count (p_MethodDiv p)),
      s_NoCookieRatio = rw_ratio (p_NoCookieWin p),
      s_NoRefererRatio = rw_ratio (p_NoRefererWin p),
      s_BodySizeCount = win_sum (p_BodySizeWin p),
      s_ASNChangeCount = p_countryChangeCount p,
      s_FirstASN = p_firstCountryISO p,
      s_LastUA = p_lastUA p,
      s_TrustScore = p_trustScore p,
      s_FingerprintHash = p_fingerprintHash p,
      s_ConsecutivePass = p_consecutivePass p,
      s_HourAnomalyScore = 0,
      s_AttackTypeCounts = p_attackTypes p\<rparr>"

subsection \<open>The invariant of a profile\<close>

lemma win_ok_advance: "win_ok sw \<Longrightarrow> win_ok (advance now sw)"
  using advance_loop_spec[of sw] win_ok_cleared[of sw] by (simp add: advance_def Let_def)

lemma win_sum_nonneg: "win_ok sw \<Longrightarrow> 0 \<le> win_sum sw"
  by (auto simp: win_ok_def win_sum_def intro: sum_list_nonneg)

lemma snd_win_incr: "snd (win_incr now sw) = add_current 1 (advance now sw)"
  by (simp add: win_incr_def Let_def)

lemma win_incr_ok:
  assumes "win_ok sw"
  shows "win_ok (snd (win_incr now sw))" "0 < win_sum (snd (win_incr now sw))"
proof -
  note ok = win_ok_advance[OF assms, of now]
  show "win_ok (snd (win_incr now sw))"
    unfolding snd_win_incr by (rule add_current_spec(1)[OF ok]) simp
  show "0 < win_sum (snd (win_incr now sw))"
    using win_sum_nonneg[OF ok] by (simp add: snd_win_incr add_current_def win_sum_def)
qed

definition paths_ok :: "(string \<times> sliding_window) list \<Rightarrow> bool" where
  "paths_ok rates \<longleftrightarrow>
     length rates \<le> max_path_rates \<and> distinct (map fst rates) \<and>
     (\<forall>(k, w) \<in> set rates. win_ok w \<and> 0 < win_sum w)"

definition hours_ok :: "ip_profile \<Rightarrow> bool" where
  "hours_ok p \<longleftrightarrow>
     length (p_hourCounts p) = 24 \<and> length (p_hourErrors p) = 24 \<and>
     sum_list (p_hourCounts p) = p_totalCount p \<and>
     (\<forall>h < 24. 0 \<le> p_hourErrors p ! h \<and> p_hourErrors p ! h \<le> p_hourCounts p ! h)"

definition trust_ok :: "ip_profile \<Rightarrow> bool" where
  "trust_ok p \<longleftrightarrow>
     -50 \<le> p_trustScore p \<and> p_trustScore p \<le> 100 \<and>
     0 \<le> p_consecutivePass p \<and> p_consecutivePass p \<le> p_totalCount p \<and>
     min 100 (real_of_int (p_consecutivePass p - 1) / 10 - 50) \<le> p_trustScore p"

definition profile_ok :: "ip_profile \<Rightarrow> bool" where
  "profile_ok p \<longleftrightarrow>
     trust_ok p \<and> hours_ok p \<and> paths_ok (p_PathRate p) \<and>
     0 \<le> p_blockCount p \<and> p_blockCount p \<le> p_totalCount p"

lemma hour_of_less [simp]: "hour_of tz now < 24"
  by (simp add: hour_of_def nat_less_iff)

lemma paths_ok_record:
  assumes "paths_ok rates"
  shows "paths_ok (record_path_rate now path rates)"
proof (cases "map_of rates path")
  case None
  then have new: "path \<notin> fst ` set rates" by (simp add: map_of_eq_None_iff)
  have w: "win_ok (new_sliding_window now 60 nano_second 20)" by (rule win_ok_new) auto
  from new have "AList.update path v rates = rates @ [(path, v)]" for v :: sliding_window
    by (induction rates) auto
  then show ?thesis
    using assms new None win_incr_ok[OF w, of now]
    by (auto simp: record_path_rate_def paths_ok_def)
next
  case (Some w)
  then have mem: "(path, w) \<in> set rates" by (rule map_of_SomeD)
  then have len: "length (AList.update path v rates) = length rates" for v
    by (induction rates) auto
  have "win_ok w" using assms mem by (auto simp: paths_ok_def)
  note w = win_incr_ok[OF this, of now]
  have "win_ok v \<and> 0 < win_sum v"
    if "(k, v) \<in> set (AList.update path (snd (win_incr now w)) rates)" for k v
  proof -
    have "map_of (AList.update path (snd (win_incr now w)) rates) k = Some v"
      using that assms by (intro map_of_is_SomeI distinct_update) (auto simp: paths_ok_def)
    then have "k = path \<and> v = snd (win_incr now w) \<or> (k, v) \<in> set rates"
      by (auto simp: update_conv' split: if_splits dest: map_of_SomeD)
    then show ?thesis using w assms by (auto simp: paths_ok_def)
  qed
  then show ?thesis
    using assms Some len by (auto simp: record_path_rate_def paths_ok_def distinct_update)
qed

lemma profile_ok_new: "profile_ok (new_ip_profile now ip cfg)"
  by (simp add: profile_ok_def trust_ok_def hours_ok_def paths_ok_def new_ip_profile_def Let_def sum_list_replicate)

text \<open>What \<open>Record\<close> does to each part of the profile the invariant is about.\<close>

lemma record_country_frame [simp]:
  "p_totalCount (record_country ctry p) = p_totalCount p"
  "p_blockCount (record_country ctry p) = p_blockCount p"
  "p_trustScore (record_country ctry p) = p_trustScore p"
  "p_PathRate (record_country ctry p) = p_PathRate p"
  "p_hourCounts (record_country ctry p) = p_hourCounts p"
  "p_hourErrors (record_country ctry p) = p_hourErrors p"
  "p_consecutivePass (record_country ctry p) = p_consecutivePass p"
  "p_lastActive (record_country ctry p) = p_lastActive p"
  "p_ip (record_country ctry p) = p_ip p"
  by (simp_all add: record_country_def)

lemmas record_steps = profile_record_def record_feedback_def record_headers_def record_path_def
  record_variety_def record_outcome_def record_traffic_def Let_def

lemma profile_record_fields:
  "p_totalCount (profile_record tz now req p) = p_totalCount p + 1"
  "p_blockCount (profile_record tz now req p) = p_blockCount p + (if ri_IsBlocked req then 1 else 0)"
  "p_trustScore (profile_record tz now req p) =
     trust_step (ri_IsBlocked req) (is_error req) (p_totalCount p + 1) (p_trustScore p)"
  "p_PathRate (profile_record tz now req p) =
     (if is_bad req then record_path_rate now (ri_Path req) (p_PathRate p) else p_PathRate p)"
  "p_hourCounts (profile_record tz now req p) = incr_at (hour_of tz now) (p_hourCounts p)"
  "p_hourErrors (profile_record tz now req p) =
     (if is_bad req then incr_at (hour_of tz now) (p_hourErrors p) else p_hourErrors p)"
  "p_consecutivePass (profile_record tz now req p) = (if is_bad req then 0 else p_consecutivePass p + 1)"
  "p_lastActive (profile_record tz now req p) = now"
  "p_ip (profile_record tz now req p) = p_ip p"
  by (simp_all add: record_steps)

lemma trust_step_bounds:
  "-50 \<le> trust_step b e n t" "trust_step b e n t \<le> 100"
  by (simp_all add: trust_step_def Let_def)

lemma trust_step_pass:
  "n > 1 \<Longrightarrow> min 100 (c - 1 / 10) \<le> t \<Longrightarrow> min 100 c \<le> trust_step False False n t"
  by (auto simp: trust_step_def Let_def)

lemma trust_ok_record:
  assumes "trust_ok p"
  shows "trust_ok (profile_record tz now req p)"
proof -
  let ?t = "p_trustScore p" and ?c = "p_consecutivePass p"
  have a: "0 \<le> ?c" "?c \<le> p_totalCount p" "-50 \<le> ?t" "min 100 (real_of_int (?c - 1) / 10 - 50) \<le> ?t"
    using assms by (auto simp: trust_ok_def)
  have "min 100 (real_of_int ?c / 10 - 50) \<le> trust_step False False (p_totalCount p + 1) ?t"
  proof (cases "p_totalCount p = 0")
    case True
    then have "?c = 0" using a by simp
    then show ?thesis using trust_step_bounds(1)[of False False "p_totalCount p + 1" ?t] by simp
  next
    case False
    have "real_of_int ?c / 10 - 50 - 1 / 10 = real_of_int (?c - 1) / 10 - 50"
      by (simp add: diff_divide_distrib)
    then have "min 100 (real_of_int ?c / 10 - 50 - 1 / 10) \<le> ?t" using a(4) by simp
    then show ?thesis using False a by (intro trust_step_pass) auto
  qed
  moreover have "min 100 (real_of_int (0 - 1) / 10 - 50) \<le> trust_step b e n ?t" for b e n
    using trust_step_bounds(1)[of b e n ?t] by simp
  ultimately show ?thesis
    using a trust_step_bounds by (simp add: trust_ok_def profile_record_fields is_bad_def)
qed

lemma hours_ok_record:
  assumes "hours_ok p"
  shows "hours_ok (profile_record tz now req p)"
proof -
  have "p_hourErrors p ! hour_of tz now \<le> p_hourCounts p ! hour_of tz now + 1"
    using assms hour_of_less[of tz now] unfolding hours_ok_def by fastforce
  then show ?thesis
    using assms
    by (auto simp: hours_ok_def profile_record_fields incr_at_def sum_list_set_nth nth_list_update)
qed

lemma profile_ok_record: "profile_ok p \<Longrightarrow> profile_ok (profile_record tz now req p)"
  using trust_ok_record[of p] hours_ok_record[of p]
  by (auto simp: profile_ok_def profile_record_fields paths_ok_record)

lemma profile_ok_set_fingerprint: "profile_ok p \<Longrightarrow> profile_ok (set_fingerprint fp p)"
  by (simp add: profile_ok_def trust_ok_def hours_ok_def set_fingerprint_def)

lemma expire_keeps_paths: "paths_ok rates \<Longrightarrow> filter (\<lambda>(k, w). win_sum w \<noteq> 0) rates = rates"
  by (auto simp: paths_ok_def filter_id_conv)

lemma profile_ok_expire: "profile_ok p \<Longrightarrow> profile_ok (profile_expire now maxAge p)"
  by (simp add: profile_ok_def trust_ok_def hours_ok_def profile_expire_def expire_keeps_paths)

lemma profile_ok_pardon: "profile_ok p \<Longrightarrow> profile_ok (pardon p)"
  by (auto simp: profile_ok_def trust_ok_def hours_ok_def pardon_def Let_def)

lemma profile_ok_set_request_threshold: "profile_ok p \<Longrightarrow> profile_ok (set_request_threshold thr p)"
  by (simp add: profile_ok_def trust_ok_def hours_ok_def set_request_threshold_def)

lemma profile_ok_trust:
  "profile_ok p \<Longrightarrow> p_consecutivePass p > 500 \<Longrightarrow> -10 \<le> p_trustScore p"
proof -
  assume "profile_ok p" and c: "p_consecutivePass p > 500"
  then have "min 100 (real_of_int (p_consecutivePass p - 1) / 10 - 50) \<le> p_trustScore p"
    by (simp add: profile_ok_def trust_ok_def)
  moreover have "(500::real) \<le> real_of_int (p_consecutivePass p - 1)"
    using c by (simp flip: of_int_diff)
  moreover have "-10 \<le> t" if "500 \<le> x" "min 100 (x / 10 - 50) \<le> t" for x t :: real
    using that by (simp add: min_le_iff_disj) linarith
  ultimately show ?thesis by blast
qed

subsection \<open>Properties\<close>

text \<open>The life of a profile: created, then any sequence of the operations of its methods.\<close>

inductive profile_reachable :: "duration \<Rightarrow> ip_profile \<Rightarrow> bool" for tz where
  created: "profile_reachable tz (new_ip_profile now ip cfg)"
| recorded: "profile_reachable tz p \<Longrightarrow> profile_reachable tz (profile_record tz now req p)"
| marked: "profile_reachable tz p \<Longrightarrow> profile_reachable tz (set_fingerprint fp p)"
| expired: "profile_reachable tz p \<Longrightarrow> profile_reachable tz (profile_expire now maxAge p)"
| pardoned: "profile_reachable tz p \<Longrightarrow> profile_reachable tz (pardon p)"
| limited: "profile_reachable tz p \<Longrightarrow> profile_reachable tz (set_request_threshold thr p)"

lemma reachable_profile_ok: "profile_reachable tz p \<Longrightarrow> profile_ok p"
  by (induction rule: profile_reachable.induct)
    (simp_all add: profile_ok_new profile_ok_record profile_ok_set_fingerprint profile_ok_expire
      profile_ok_pardon profile_ok_set_request_threshold)

definition sample_request :: "string \<Rightarrow> int \<Rightarrow> request_info" where
  "sample_request path status =
     \<lparr>ri_IP = ''10.0.0.1'', ri_Method = ''GET'', ri_Path = path, ri_UserAgent = ''curl'',
      ri_StatusCode = status, ri_RuleID = '''', ri_IsBlocked = False, ri_BodySize = 0,
      ri_Upstream = '''', ri_Cookie = '''', ri_Referer = '''', ri_CountryISO = ''''\<rparr>"

text \<open>
  Every profile the code can build is consistent: the trust score stays between -50 and 100
  and is pulled up by a tenth for every request of the current run without an error; at most 200
  paths are watched, each once; the requests of the 24 hours add up to the requests counted, and
  an hour has no more errors than requests.
\<close>

theorem profile_invariant:
  assumes "profile_reachable tz p"
  shows "-50 \<le> p_trustScore p \<and> p_trustScore p \<le> 100 \<and>
    min 100 (real_of_int (p_consecutivePass p - 1) / 10 - 50) \<le> p_trustScore p \<and>
    length (p_PathRate p) \<le> max_path_rates \<and> distinct (map fst (p_PathRate p)) \<and>
    length (p_hourCounts p) = 24 \<and> sum_list (p_hourCounts p) = p_totalCount p \<and>
    (\<forall>h < 24. p_hourErrors p ! h \<le> p_hourCounts p ! h) \<and> p_blockCount p \<le> p_totalCount p"
  using reachable_profile_ok[OF assms]
  by (auto simp: profile_ok_def trust_ok_def hours_ok_def paths_ok_def)

lemma profile_invariant_witness:
  defines "p \<equiv> profile_record 0 5 (sample_request ''/x'' 404) (new_ip_profile 1 ''10.0.0.1'' default_config)"
  shows "profile_reachable 0 p \<and> p_trustScore p \<le> 100 \<and> p_totalCount p = 1"
proof -
  have r: "profile_reachable 0 p" unfolding p_def by (intro profile_reachable.intros)
  then show ?thesis
    using profile_invariant[OF r] by (simp add: p_def profile_record_fields new_ip_profile_def Let_def)
qed

text \<open>
  \<open>Expire\<close> drops a watched path only when its window reads zero, but \<open>Sum\<close> does not move the
  window on: once a path has been counted its window never reads zero again, however old the
  count. So \<open>Expire\<close> drops no path of any profile, and the 200 places of \<open>PathRate\<close> are never
  given back.
\<close>

theorem watched_paths_never_expire:
  assumes "profile_reachable tz p"
  shows "p_PathRate (profile_expire now maxAge p) = p_PathRate p"
  using reachable_profile_ok[OF assms] by (simp add: profile_ok_def profile_expire_def expire_keeps_paths)

lemma watched_paths_never_expire_witness:
  defines "p \<equiv> profile_record 0 5 (sample_request ''/x'' 404) (new_ip_profile 1 ''10.0.0.1'' default_config)"
  shows "map fst (p_PathRate (profile_expire (10 ^ 18) 1800 p)) = [''/x'']"
proof -
  have r: "profile_reachable 0 p" unfolding p_def by (intro profile_reachable.intros)
  show ?thesis
    unfolding watched_paths_never_expire[OF r]
    by (simp add: p_def profile_record_fields new_ip_profile_def Let_def is_bad_def is_error_def
        sample_request_def record_path_rate_def max_path_rates_def)
qed

end
