(* ===== verification/ProfileStore.thy ===== *)
theory ProfileStore
  imports Profile Shards
begin

text \<open>
  \<open>internal/domain/security/ratelimit/profile.go\<close>, the store of the profiles: 64 locked maps
  from addresses to profiles. A pointer to a stored profile that the code changes in place is
  an update of the store under its address. The order in which Go visits a map is that of the
  association list; what the store answers does not depend on it.

  Proved: the store behaves as one map from addresses to profiles (\<open>profile_store_refines_map\<close>),
  every stored profile satisfies the invariant of profiles and lies under its own address.
\<close>

record profile_store =
  ps_shards :: "ip_profile shards"
  ps_cfg :: config

definition new_profile_store :: "config \<Rightarrow> profile_store" where
  "new_profile_store cfg = \<lparr>ps_shards = empty_shards, ps_cfg = cfg\<rparr>"

definition store_get :: "profile_store \<Rightarrow> string \<Rightarrow> ip_profile option" where
  "store_get s ip = shard_lookup (ps_shards s) ip"

definition store_put :: "string \<Rightarrow> ip_profile \<Rightarrow> profile_store \<Rightarrow> profile_store" where
  "store_put ip p s = s\<lparr>ps_shards := shard_put ip p (ps_shards s)\<rparr>"

definition get_or_create :: "instant \<Rightarrow> string \<Rightarrow> profile_store \<Rightarrow> ip_profile \<times> profile_store" where
  "get_or_create now ip s =
     (case store_get s ip of
        Some p \<Rightarrow> (p, s)
      | None \<Rightarrow> let p = new_ip_profile now ip (ps_cfg s) in (p, store_put ip p s))"

definition store_record :: "duration \<Rightarrow> instant \<Rightarrow> request_info \<Rightarrow> profile_store \<Rightarrow> profile_store" where
  "store_record tz now req s =
     (let (p, s') = get_or_create now (ri_IP req) s
      in store_put (ri_IP req) (profile_record tz now req p) s')"

definition store_modify :: "string \<Rightarrow> (ip_profile \<Rightarrow> ip_profile) \<Rightarrow> profile_store \<Rightarrow> profile_store" where
  "store_modify ip f s =
     (case store_get s ip of Some p \<Rightarrow> store_put ip (f p) s | None \<Rightarrow> s)"

definition get_or_create_snapshot ::
  "instant \<Rightarrow> string \<Rightarrow> profile_store \<Rightarrow> profile_snapshot \<times> profile_store" where
  "get_or_create_snapshot now ip s =
     (let (p, s') = get_or_create now ip s in (snapshot p, s'))"

definition store_snapshot :: "string \<Rightarrow> profile_store \<Rightarrow> profile_snapshot option" where
  "store_snapshot ip s = map_option snapshot (store_get s ip)"

definition all_snapshots :: "profile_store \<Rightarrow> profile_snapshot list" where
  "all_snapshots s =
     List.map_filter (\<lambda>ip. store_snapshot ip s) (map fst (concat (ps_shards s)))"

definition store_cleanup :: "instant \<Rightarrow> duration \<Rightarrow> profile_store \<Rightarrow> nat \<times> profile_store" where
  "store_cleanup now maxAge s =
     (let old = ps_shards s;
          stale = (\<lambda>(ip, p). time_sub now (p_lastActive p) > maxAge);
          new = map (sweep_shard (\<lambda>ip p. if time_sub now (p_lastActive p) > maxAge then None
                                       else Some (profile_expire now maxAge p))) old
      in (length (filter stale (concat old)), s\<lparr>ps_shards := new\<rparr>))"

definition store_count :: "profile_store \<Rightarrow> nat" where
  "store_count s = sum_list (map length (ps_shards s))"

definition store_update_config :: "config \<Rightarrow> profile_store \<Rightarrow> profile_store" where
  "store_update_config cfg s = s\<lparr>ps_cfg := cfg\<rparr>"

subsection \<open>The store is one map\<close>

definition store_ok :: "profile_store \<Rightarrow> bool" where
  "store_ok s \<longleftrightarrow>
     shards_ok (ps_shards s) \<and> (\<forall>ip p. store_get s ip = Some p \<longrightarrow> profile_ok p \<and> p_ip p = ip)"

definition shards_valid :: "profile_store \<Rightarrow> bool" where
  "shards_valid s \<longleftrightarrow> shards_ok (ps_shards s)"

lemma store_get_put:
  "shards_valid s \<Longrightarrow> store_get (store_put ip p s) ip' = (if ip' = ip then Some p else store_get s ip')"
  by (simp add: store_get_def store_put_def lookup_put shards_valid_def)

interpretation ps: keyed_store shards_valid store_get store_put
  by unfold_locales (auto simp: store_get_put, simp add: shards_valid_def store_put_def shards_ok_put)

lemma store_ok_valid: "store_ok s \<Longrightarrow> shards_valid s"
  by (simp add: store_ok_def shards_valid_def)

lemma store_ok_new: "store_ok (new_profile_store cfg)"
  by (simp add: store_ok_def new_profile_store_def store_get_def shards_ok_empty lookup_empty)

lemma store_ok_put:
  "store_ok s \<Longrightarrow> profile_ok p \<Longrightarrow> p_ip p = ip \<Longrightarrow> store_ok (store_put ip p s)"
  using ps.ok_put[OF store_ok_valid, of s ip p]
  by (auto simp: store_ok_def store_get_put[OF store_ok_valid] shards_valid_def)

lemma p_ip_new [simp]: "p_ip (new_ip_profile now ip cfg) = ip"
  by (simp add: new_ip_profile_def Let_def)

lemma get_or_create_state:
  "snd (get_or_create now ip s) =
     (case store_get s ip of Some v \<Rightarrow> s | None \<Rightarrow> store_put ip (new_ip_profile now ip (ps_cfg s)) s)"
  by (simp add: get_or_create_def Let_def split: option.split)

lemma get_or_create_profile:
  "fst (get_or_create now ip s) =
     (case store_get s ip of Some p \<Rightarrow> p | None \<Rightarrow> new_ip_profile now ip (ps_cfg s))"
  by (simp add: get_or_create_def Let_def split: option.split)

lemma store_ok_get_or_create: "store_ok s \<Longrightarrow> store_ok (snd (get_or_create now ip s))"
  by (auto simp: get_or_create_state store_ok_put profile_ok_new split: option.split)

lemma get_or_create_ok:
  assumes "store_ok s"
  shows "profile_ok (fst (get_or_create now ip s))" "p_ip (fst (get_or_create now ip s)) = ip"
  using assms by (auto simp: get_or_create_profile store_ok_def profile_ok_new split: option.split)

lemma get_after_create:
  assumes "store_ok s"
  shows "store_get (snd (get_or_create now ip s)) = (store_get s)(ip \<mapsto> fst (get_or_create now ip s))"
proof
  fix k
  show "store_get (snd (get_or_create now ip s)) k = ((store_get s)(ip \<mapsto> fst (get_or_create now ip s))) k"
    using ps.touch(2,3)[OF store_ok_valid[OF assms]]
    by (cases "k = ip") (simp_all add: get_or_create_state get_or_create_profile)
qed

lemma store_ok_record: "store_ok s \<Longrightarrow> store_ok (store_record tz now req s)"
  by (simp add: store_record_def split_beta Let_def store_ok_put store_ok_get_or_create
      profile_ok_record profile_record_fields get_or_create_ok)

lemma store_get_record:
  assumes ok: "store_ok s"
  shows "store_get (store_record tz now req s) =
    (store_get s)(ri_IP req \<mapsto> profile_record tz now req (fst (get_or_create now (ri_IP req) s)))"
  using get_after_create[OF ok]
  by (intro ext) (simp add: store_record_def split_beta Let_def
      store_get_put[OF store_ok_valid[OF store_ok_get_or_create[OF ok]]])

lemma store_ok_modify:
  assumes "store_ok s" "\<And>p. profile_ok p \<Longrightarrow> profile_ok (f p) \<and> p_ip (f p) = p_ip p"
  shows "store_ok (store_modify ip f s)"
proof (cases "store_get s ip")
  case (Some p)
  then have "profile_ok p" "p_ip p = ip" using assms(1) by (auto simp: store_ok_def)
  then show ?thesis using Some assms by (simp add: store_modify_def store_ok_put)
qed (use assms in \<open>simp add: store_modify_def\<close>)

lemma store_get_modify:
  "store_ok s \<Longrightarrow>
   store_get (store_modify ip f s) = (store_get s)(ip := map_option f (store_get s ip))"
  using ps.change(2)[OF store_ok_valid, of s ip f] by (intro ext) (simp add: store_modify_def)

lemma p_ip_expire [simp]: "p_ip (profile_expire now maxAge p) = p_ip p"
  by (simp add: profile_expire_def)

lemma store_get_cleanup:
  assumes ok: "store_ok s"
  shows "store_get (snd (store_cleanup now maxAge s)) ip =
    Option.bind (store_get s ip) (\<lambda>p. if time_sub now (p_lastActive p) > maxAge then None
      else Some (profile_expire now maxAge p))"
  using lookup_sweep(2)[of "ps_shards s"] ok
  by (simp add: store_cleanup_def store_get_def Let_def store_ok_def)

lemma store_ok_cleanup:
  assumes ok: "store_ok s"
  shows "store_ok (snd (store_cleanup now maxAge s))"
proof -
  have "shards_ok (ps_shards (snd (store_cleanup now maxAge s)))"
    using lookup_sweep(1)[of "ps_shards s"] ok by (simp add: store_cleanup_def Let_def store_ok_def)
  moreover have "profile_ok p \<and> p_ip p = ip"
    if "store_get (snd (store_cleanup now maxAge s)) ip = Some p" for ip p
    using that ok unfolding store_get_cleanup[OF ok]
    by (auto simp: store_ok_def bind_eq_Some_conv profile_ok_expire split: if_splits)
  ultimately show ?thesis by (simp add: store_ok_def)
qed

lemma length_sweep_shard:
  "length (sweep_shard f es) = length (filter (\<lambda>(k, v). f k v \<noteq> None) es)"
proof (induction es)
  case (Cons e es)
  then show ?case by (cases e; cases "f (fst e) (snd e)") (auto simp: sweep_shard_Cons)
qed simp

lemma sum_length_concat: "sum_list (map length xss) = length (concat xss)"
  by (induction xss) auto

lemma store_cleanup_count:
  "fst (store_cleanup now maxAge s) + store_count (snd (store_cleanup now maxAge s)) = store_count s"
proof -
  let ?f = "\<lambda>ip p. if time_sub now (p_lastActive p) > maxAge then None else Some (profile_expire now maxAge p)"
  let ?stale = "\<lambda>(ip, p). time_sub now (p_lastActive p) > maxAge"
  have "length (concat (map (sweep_shard ?f) ss)) = length (filter (\<lambda>e. \<not> ?stale e) (concat ss))" for ss
    by (induction ss) (auto simp: length_sweep_shard intro!: arg_cong[where f = length] filter_cong)
  then show ?thesis
    using sum_length_filter_compl[of ?stale "concat (ps_shards s)"]
    by (simp add: store_cleanup_def store_count_def Let_def sum_length_concat flip: map_map)
qed

lemma all_snapshots_set:
  assumes "store_ok s"
  shows "set (all_snapshots s) = {snapshot p | ip p. store_get s ip = Some p}"
proof -
  have "fst ` set (concat (ps_shards s)) = dom (store_get s)"
    using shards_entries(2)[of "ps_shards s"] assms
    by (force simp: store_ok_def store_get_def image_iff)
  moreover have "set (List.map_filter f xs) = {y. \<exists>x \<in> set xs. f x = Some y}"
    for f :: "string \<Rightarrow> profile_snapshot option" and xs
    by (induction xs) (auto simp: map_filter_simps split: option.split)
  ultimately have "set (all_snapshots s) = {x. \<exists>ip \<in> dom (store_get s). store_snapshot ip s = Some x}"
    by (simp only: all_snapshots_def set_map)
  then show ?thesis by (auto simp: store_snapshot_def)
qed

text \<open>
  C16. The 64 shards are one map from addresses to profiles. \<open>Record\<close> replaces the profile of the
  request's address, a new one when there was none, and no other; reading a snapshot creates a
  missing profile and changes nothing else; \<open>Cleanup\<close> drops exactly the profiles that were
  inactive for more than the given age and answers how many; \<open>AllSnapshots\<close> reports every
  profile.
\<close>

theorem profile_store_refines_map:
  assumes "store_ok s"
  shows
    "store_get (store_record tz now req s) = (store_get s)(ri_IP req \<mapsto> profile_record tz now req
       (case store_get s (ri_IP req) of Some p \<Rightarrow> p | None \<Rightarrow> new_ip_profile now (ri_IP req) (ps_cfg s))) \<and>
     store_get (snd (get_or_create_snapshot now ip s)) = (store_get s)(ip \<mapsto>
       (case store_get s ip of Some p \<Rightarrow> p | None \<Rightarrow> new_ip_profile now ip (ps_cfg s))) \<and>
     store_get (snd (store_cleanup now maxAge s)) =
       (\<lambda>ip. case store_get s ip of
          Some p \<Rightarrow> if time_sub now (p_lastActive p) > maxAge then None else Some (profile_expire now maxAge p)
        | None \<Rightarrow> None) \<and>
     fst (store_cleanup now maxAge s) + store_count (snd (store_cleanup now maxAge s)) = store_count s \<and>
     set (all_snapshots s) = {snapshot p | ip p. store_get s ip = Some p}"
proof (intro conjI)
  show "store_get (snd (get_or_create_snapshot now ip s)) = (store_get s)(ip \<mapsto>
       (case store_get s ip of Some p \<Rightarrow> p | None \<Rightarrow> new_ip_profile now ip (ps_cfg s)))"
    by (simp add: get_or_create_snapshot_def split_beta get_after_create[OF assms] get_or_create_profile)
  show "store_get (snd (store_cleanup now maxAge s)) =
       (\<lambda>ip. case store_get s ip of
          Some p \<Rightarrow> if time_sub now (p_lastActive p) > maxAge then None else Some (profile_expire now maxAge p)
        | None \<Rightarrow> None)"
    by (rule ext) (simp add: store_get_cleanup[OF assms] split: option.split)
qed (simp_all add: store_get_record[OF assms] get_or_create_profile store_cleanup_count
    all_snapshots_set[OF assms])

lemma profile_store_refines_map_witness:
  defines "s \<equiv> new_profile_store default_config"
  shows "store_get (store_record 0 5 (sample_request ''/x'' 200) s) ''10.0.0.1'' =
    Some (profile_record 0 5 (sample_request ''/x'' 200) (new_ip_profile 5 ''10.0.0.1'' default_config))"
proof -
  have ok: "store_ok s" by (simp add: s_def store_ok_new)
  have none: "store_get s ''10.0.0.1'' = None" by (simp add: s_def store_get_def new_profile_store_def lookup_empty)
  have ip: "ri_IP (sample_request ''/x'' 200) = ''10.0.0.1''" by (simp add: sample_request_def)
  have cfg: "ps_cfg s = default_config" by (simp add: s_def new_profile_store_def)
  show ?thesis
    using profile_store_refines_map[OF ok, of 0 5 "sample_request ''/x'' 200"]
    by (simp add: ip none cfg)
qed

end
