(* ===== verification/Intel.thy ===== *)
theory Intel
  imports Prelude GoText "HOL-Library.AList"
begin

text \<open>
  What the adaptive limiter remembers beside the profiles: which addresses share a browser
  fingerprint (\<open>internal/domain/security/ratelimit/fingerprint.go\<close>), how far an address is along
  an attack chain and which attack types are hot (\<open>intelligence.go\<close>).

  Go's maps are association lists; a \<open>map[string]bool\<close> in which the code only ever stores
  \<open>true\<close> is a set. The fingerprint itself (SHA-256 of the headers) is not modelled: it is a string.

  Proved: the two directions of the fingerprint index agree in every reachable state; the chain
  score lies between 0 and 1 and is positive exactly when two stages of one pattern are recent;
  the weights of attack types are shares.
\<close>

subsection \<open>Fingerprints\<close>

type_synonym seen = "(string \<times> instant) list"

record fingerprint_tracker =
  ft_fpToIPs :: "(string \<times> seen) list"
  ft_ipToFP :: "(string \<times> string) list"
  ft_blockedFPs :: "string set"
  ft_suspectFPs :: "string set"
  ft_fpTransitions :: "(string \<times> seen) list"
  ft_lastCleanup :: instant

definition new_fingerprint_tracker :: "instant \<Rightarrow> fingerprint_tracker" where
  "new_fingerprint_tracker now =
     \<lparr>ft_fpToIPs = [], ft_ipToFP = [], ft_blockedFPs = {}, ft_suspectFPs = {}, ft_fpTransitions = [],
      ft_lastCleanup = now\<rparr>"

text \<open>\<open>m[k1][k2] = v\<close>, the inner map made when it is missing.\<close>

definition put_nested :: "'k \<Rightarrow> 'j \<Rightarrow> 'v \<Rightarrow> ('k \<times> ('j \<times> 'v) list) list \<Rightarrow> ('k \<times> ('j \<times> 'v) list) list" where
  "put_nested k j v m = AList.update k (AList.update j v (map_get [] (map_of m) k)) m"

definition fp_record :: "instant \<Rightarrow> string \<Rightarrow> string \<Rightarrow> fingerprint_tracker \<Rightarrow> fingerprint_tracker" where
  "fp_record now ip fp t =
     (case map_of (ft_ipToFP t) ip of
        Some oldFP \<Rightarrow>
          if oldFP = fp then
            (case map_of (ft_fpToIPs t) oldFP of
               Some ips \<Rightarrow> t\<lparr>ft_fpToIPs := AList.update oldFP (AList.update ip now ips) (ft_fpToIPs t)\<rparr>
             | None \<Rightarrow> t)
          else
            let left = (case map_of (ft_fpToIPs t) oldFP of
                          Some ips \<Rightarrow> AList.update oldFP (AList.delete ip ips) (ft_fpToIPs t)
                        | None \<Rightarrow> ft_fpToIPs t)
            in t\<lparr>ft_fpTransitions := put_nested oldFP fp now (ft_fpTransitions t),
                 ft_ipToFP := AList.update ip fp (ft_ipToFP t),
                 ft_fpToIPs := put_nested fp ip now left\<rparr>
      | None \<Rightarrow>
          t\<lparr>ft_ipToFP := AList.update ip fp (ft_ipToFP t),
            ft_fpToIPs := put_nested fp ip now (ft_fpToIPs t)\<rparr>)"

definition get_shared_ips :: "string \<Rightarrow> fingerprint_tracker \<Rightarrow> string list" where
  "get_shared_ips ip t =
     (case map_of (ft_ipToFP t) ip of
        None \<Rightarrow> []
      | Some fp \<Rightarrow>
          (case map_of (ft_fpToIPs t) fp of
             None \<Rightarrow> []
           | Some ips \<Rightarrow> filter (\<lambda>other. other \<noteq> ip) (map fst ips)))"

definition is_fingerprint_blocked :: "string \<Rightarrow> fingerprint_tracker \<Rightarrow> bool" where
  "is_fingerprint_blocked fp t \<longleftrightarrow> fp \<in> ft_blockedFPs t"

definition mark_fingerprint_blocked :: "string \<Rightarrow> fingerprint_tracker \<Rightarrow> fingerprint_tracker" where
  "mark_fingerprint_blocked fp t = t\<lparr>ft_blockedFPs := insert fp (ft_blockedFPs t)\<rparr>"

definition unmark_fingerprint :: "string \<Rightarrow> fingerprint_tracker \<Rightarrow> fingerprint_tracker" where
  "unmark_fingerprint fp t = t\<lparr>ft_blockedFPs := ft_blockedFPs t - {fp}\<rparr>"

definition get_fingerprint :: "string \<Rightarrow> fingerprint_tracker \<Rightarrow> string" where
  "get_fingerprint ip t = map_get '''' (map_of (ft_ipToFP t)) ip"

definition is_suspect :: "string \<Rightarrow> fingerprint_tracker \<Rightarrow> bool" where
  "is_suspect fp t \<longleftrightarrow> fp \<in> ft_suspectFPs t"

definition mark_suspect :: "string \<Rightarrow> fingerprint_tracker \<Rightarrow> fingerprint_tracker" where
  "mark_suspect fp t = t\<lparr>ft_suspectFPs := insert fp (ft_suspectFPs t)\<rparr>"

definition get_fingerprint_ip_count :: "string \<Rightarrow> fingerprint_tracker \<Rightarrow> nat" where
  "get_fingerprint_ip_count fp t = length (map_get [] (map_of (ft_fpToIPs t)) fp)"

definition get_shared_risk_score :: "instant \<Rightarrow> string \<Rightarrow> fingerprint_tracker \<Rightarrow> real" where
  "get_shared_risk_score now ip t =
     (case map_of (ft_ipToFP t) ip of
        None \<Rightarrow> 0
      | Some fp \<Rightarrow>
          if fp \<in> ft_blockedFPs t then 6 / 10
          else if fp \<in> ft_suspectFPs t then 4 / 10
          else if list_ex (\<lambda>(srcFP, dsts). srcFP \<in> ft_blockedFPs t \<and>
                    (case map_of dsts fp of
                       Some dst \<Rightarrow> time_sub now dst < 30 * 60 * nano_second
                     | None \<Rightarrow> False)) (ft_fpTransitions t)
          then 45 / 100
          else
            let count = get_fingerprint_ip_count fp t
            in if count > 3 then min (real (count - 3) * (5 / 100)) 1 else 0)"

text \<open>
  One fingerprint of \<open>Cleanup\<close>: its stale addresses go, here and in the other direction; a
  fingerprint that is left without an address is forgotten, with its marks.
\<close>

definition drop_stale_ips ::
  "instant \<Rightarrow> duration \<Rightarrow> string \<Rightarrow> seen \<Rightarrow> (string \<times> string) list \<Rightarrow> (string \<times> string) list" where
  "drop_stale_ips now maxAge fp ips ipToFP =
     foldl (\<lambda>m (ip, lastSeen).
         if time_sub now lastSeen > maxAge \<and> map_of m ip = Some fp then AList.delete ip m else m)
       ipToFP ips"

definition cleanup_fp ::
  "instant \<Rightarrow> duration \<Rightarrow> fingerprint_tracker \<Rightarrow> string \<times> seen \<Rightarrow> fingerprint_tracker" where
  "cleanup_fp now maxAge t e =
     (let (fp, ips) = e;
          kept = filter (\<lambda>(ip, lastSeen). \<not> time_sub now lastSeen > maxAge) ips;
          t = t\<lparr>ft_ipToFP := drop_stale_ips now maxAge fp ips (ft_ipToFP t)\<rparr>
      in if kept = [] then
           t\<lparr>ft_fpToIPs := AList.delete fp (ft_fpToIPs t), ft_blockedFPs := ft_blockedFPs t - {fp},
             ft_suspectFPs := ft_suspectFPs t - {fp}\<rparr>
         else t\<lparr>ft_fpToIPs := AList.update fp kept (ft_fpToIPs t)\<rparr>)"

definition fp_cleanup :: "instant \<Rightarrow> duration \<Rightarrow> fingerprint_tracker \<Rightarrow> fingerprint_tracker" where
  "fp_cleanup now maxAge t =
     (if time_sub now (ft_lastCleanup t) < go_div maxAge 2 then t
      else
        let t = t\<lparr>ft_lastCleanup := now\<rparr>;
            t = foldl (cleanup_fp now maxAge) t (ft_fpToIPs t)
        in t\<lparr>ft_ipToFP := filter (\<lambda>(ip, fp). map_get [] (map_of (ft_fpToIPs t)) fp \<noteq> []) (ft_ipToFP t)\<rparr>)"

subsection \<open>Attack chains\<close>

datatype stage = StageNone | StageRecon | StageScan | StageExploit | StageExfil

definition attack_chain_patterns :: "(string \<times> stage list) list" where
  "attack_chain_patterns =
     [(''recon_to_sqli'', [StageRecon, StageExploit]),
      (''recon_to_scan'', [StageRecon, StageScan]),
      (''scan_to_exploit'', [StageScan, StageExploit]),
      (''full_kill_chain'', [StageRecon, StageScan, StageExploit, StageExfil])]"

definition recon_paths :: "string list" where
  "recon_paths = [''/.env'', ''/.git'', ''/robots.txt'', ''/admin'', ''/wp-admin'', ''/phpinfo.php'', ''/.DS_Store'']"

definition scan_paths :: "string list" where
  "scan_paths = [''/api/'', ''/v1/'', ''/v2/'', ''/actuator'', ''/swagger'', ''/graphql'', ''/debug'', ''/console'']"

definition exploit_indicators :: "string list" where
  "exploit_indicators =
     [''sql_injection'', ''xss'', ''command_injection'', ''path_traversal'', ''ssrf'', ''file_upload'']"

definition exfil_indicators :: "string list" where
  "exfil_indicators = [''sensitive_data'', ''outbound_connection'']"

record attack_chain_tracker =
  ac_ipStages :: "(string \<times> (stage \<times> instant) list) list"
  ac_ipAttacks :: "(string \<times> string list) list"

definition new_attack_chain_tracker :: attack_chain_tracker where
  "new_attack_chain_tracker = \<lparr>ac_ipStages = [], ac_ipAttacks = []\<rparr>"

definition detect_stage :: "string \<Rightarrow> string \<Rightarrow> stage" where
  "detect_stage path attackType =
     (if list_ex (str_contains path) recon_paths then StageRecon
      else if list_ex (str_contains path) scan_paths then StageScan
      else if list_ex (str_contains attackType) exploit_indicators then StageExploit
      else if list_ex (str_contains attackType) exfil_indicators then StageExfil
      else StageNone)"

definition last_50 :: "'a list \<Rightarrow> 'a list" where
  "last_50 xs = (if length xs > 50 then drop (length xs - 50) xs else xs)"

definition chain_record ::
  "instant \<Rightarrow> string \<Rightarrow> string \<Rightarrow> string \<Rightarrow> attack_chain_tracker \<Rightarrow> attack_chain_tracker" where
  "chain_record now ip path attackType a =
     (let a = (if map_of (ac_ipStages a) ip = None
               then a\<lparr>ac_ipStages := AList.update ip [] (ac_ipStages a)\<rparr> else a);
          s = detect_stage path attackType;
          a = (if s \<noteq> StageNone then a\<lparr>ac_ipStages := put_nested ip s now (ac_ipStages a)\<rparr> else a)
      in if attackType \<noteq> ''''
         then a\<lparr>ac_ipAttacks := AList.update ip
                (last_50 (map_get [] (map_of (ac_ipAttacks a)) ip @ [attackType])) (ac_ipAttacks a)\<rparr>
         else a)"

fun match_stages ::
  "instant \<Rightarrow> (stage \<times> instant) list \<Rightarrow> stage list \<Rightarrow> nat \<Rightarrow> instant \<Rightarrow> bool \<Rightarrow> nat \<times> bool" where
  "match_stages now stages [] matched lastTime inOrder = (matched, inOrder)"
| "match_stages now stages (s # pattern) matched lastTime inOrder =
     (case map_of stages s of
        Some t \<Rightarrow>
          if time_sub now t < 10 * 60 * nano_second
          then match_stages now stages pattern (matched + 1) t
                 (if lastTime \<noteq> zero_time \<and> t < lastTime then False else inOrder)
          else match_stages now stages pattern matched lastTime inOrder
      | None \<Rightarrow> match_stages now stages pattern matched lastTime inOrder)"

definition pattern_score :: "instant \<Rightarrow> (stage \<times> instant) list \<Rightarrow> stage list \<Rightarrow> real" where
  "pattern_score now stages pattern =
     (let (matched, inOrder) = match_stages now stages pattern 0 zero_time True in
      if matched \<ge> 2 then
        let score = real matched / real (length pattern) in if \<not> inOrder then score * (1 / 2) else score
      else 0)"

definition get_chain_score :: "instant \<Rightarrow> string \<Rightarrow> attack_chain_tracker \<Rightarrow> real" where
  "get_chain_score now ip a =
     (let stages = map_get [] (map_of (ac_ipStages a)) ip in
      if length stages < 2 then 0
      else foldl (\<lambda>best (name, pattern).
             let score = pattern_score now stages pattern in if score > best then score else best)
           0 attack_chain_patterns)"

definition get_recent_attack_types :: "string \<Rightarrow> attack_chain_tracker \<Rightarrow> string list" where
  "get_recent_attack_types ip a = map_get [] (map_of (ac_ipAttacks a)) ip"

subsection \<open>Attack statistics\<close>

record global_attack_stats =
  gs_typeCounts :: "(string \<times> int) list"
  gs_totalAttacks :: int
  gs_lastReset :: instant

definition new_global_attack_stats :: "instant \<Rightarrow> global_attack_stats" where
  "new_global_attack_stats now = \<lparr>gs_typeCounts = [], gs_totalAttacks = 0, gs_lastReset = now\<rparr>"

definition stats_record :: "string \<Rightarrow> global_attack_stats \<Rightarrow> global_attack_stats" where
  "stats_record attackType g =
     (if attackType = '''' then g
      else g\<lparr>gs_typeCounts := AList.update attackType
               (map_get 0 (map_of (gs_typeCounts g)) attackType + 1) (gs_typeCounts g),
             gs_totalAttacks := gs_totalAttacks g + 1\<rparr>)"

definition get_weights :: "string list \<Rightarrow> global_attack_stats \<Rightarrow> string \<Rightarrow> real" where
  "get_weights allTypes g = (\<lambda>t.
     if t \<notin> set allTypes \<or> gs_totalAttacks g < 10 then 0
     else foldl (\<lambda>w (atk, count).
            let ratio = real_of_int count / real_of_int (gs_totalAttacks g)
            in if str_contains atk t \<and> ratio > w then ratio else w) 0 (gs_typeCounts g))"

definition reset_if_needed :: "instant \<Rightarrow> global_attack_stats \<Rightarrow> global_attack_stats" where
  "reset_if_needed now g =
     (if time_sub now (gs_lastReset g) > 3600 * nano_second
      then g\<lparr>gs_typeCounts := [], gs_totalAttacks := 0, gs_lastReset := now\<rparr> else g)"

subsection \<open>The fingerprint index\<close>

definition ips_of :: "fingerprint_tracker \<Rightarrow> string \<Rightarrow> seen" where
  "ips_of t fp = map_get [] (map_of (ft_fpToIPs t)) fp"

definition index_ok :: "fingerprint_tracker \<Rightarrow> bool" where
  "index_ok t \<longleftrightarrow>
     distinct (map fst (ft_ipToFP t)) \<and> distinct (map fst (ft_fpToIPs t)) \<and>
     (\<forall>fp. distinct (map fst (ips_of t fp))) \<and>
     (\<forall>ip fp. map_of (ft_ipToFP t) ip = Some fp \<longleftrightarrow> ip \<in> fst ` set (ips_of t fp))"

lemma map_get_put_nested:
  "map_get [] (map_of (put_nested k j v m)) k' =
     (if k' = k then AList.update j v (map_get [] (map_of m) k) else map_get [] (map_of m) k')"
  by (simp add: put_nested_def update_conv')

lemma keys_update [simp]: "fst ` set (AList.update k v m) = insert k (fst ` set m)"
  by (simp add: dom_update)

lemma keys_delete [simp]: "fst ` set (AList.delete k m) = fst ` set m - {k}"
  by (auto simp: AList.delete_eq)

lemma distinct_put_nested: "distinct (map fst m) \<Longrightarrow> distinct (map fst (put_nested k j v m))"
  by (simp add: put_nested_def distinct_update)

lemma index_okD:
  assumes "index_ok t"
  shows "distinct (map fst (ft_ipToFP t))" "distinct (map fst (ft_fpToIPs t))"
    "distinct (map fst (ips_of t fp))"
    "map_of (ft_ipToFP t) ip = Some fp \<longleftrightarrow> ip \<in> fst ` set (ips_of t fp)"
  using assms unfolding index_ok_def by blast+

lemma index_okI:
  assumes "distinct (map fst (ft_ipToFP t))" "distinct (map fst (ft_fpToIPs t))"
    "\<And>fp. distinct (map fst (ips_of t fp))"
    "\<And>ip fp. map_of (ft_ipToFP t) ip = Some fp \<longleftrightarrow> ip \<in> fst ` set (ips_of t fp)"
  shows "index_ok t"
  using assms unfolding index_ok_def by blast

lemma index_ok_change:
  assumes ok: "index_ok t"
    and m: "map_of (ft_ipToFP u) = (map_of (ft_ipToFP t))(ip \<mapsto> fp)"
    and ips: "\<And>fp'. ips_of u fp' = (if fp' = fp then AList.update ip now (ips_of t fp)
        else AList.delete ip (ips_of t fp'))"
    and d: "distinct (map fst (ft_ipToFP u))" "distinct (map fst (ft_fpToIPs u))"
  shows "index_ok u"
proof (rule index_okI[OF d])
  show "distinct (map fst (ips_of u fp'))" for fp'
    unfolding ips using index_okD(3)[OF ok] by (simp add: distinct_update distinct_delete)
  show "map_of (ft_ipToFP u) ip' = Some fp' \<longleftrightarrow> ip' \<in> fst ` set (ips_of u fp')" for ip' fp'
    unfolding ips m using index_okD(4)[OF ok, of ip' fp'] by (cases "ip' = ip") (auto simp del: map_of_eq_Some_iff)
qed

lemma index_ok_record:
  assumes ok: "index_ok t"
  shows "index_ok (fp_record now ip fp t)"
proof (cases "map_of (ft_ipToFP t) ip")
  case None
  then have absent: "AList.delete ip (ips_of t fp') = ips_of t fp'" for fp'
    using index_okD(4)[OF ok, of ip fp'] by (intro delete_id) auto
  show ?thesis
  proof (rule index_ok_change[OF ok])
    show "ips_of (fp_record now ip fp t) fp' = (if fp' = fp then AList.update ip now (ips_of t fp)
        else AList.delete ip (ips_of t fp'))" for fp'
      using None absent by (simp add: fp_record_def ips_of_def map_get_put_nested)
  qed (use None index_okD(1,2)[OF ok] in
      \<open>simp_all add: fp_record_def distinct_update distinct_put_nested update_conv'\<close>)
next
  case (Some old)
  then have mem: "ip \<in> fst ` set (ips_of t fp') \<longleftrightarrow> fp' = old" for fp'
    using index_okD(4)[OF ok, of ip fp'] by auto
  then have absent: "fp' \<noteq> old \<Longrightarrow> AList.delete ip (ips_of t fp') = ips_of t fp'" for fp'
    by (intro delete_id) simp
  have ne: "map_of (ft_fpToIPs t) old = Some (ips_of t old)"
    using mem[of old] by (cases "map_of (ft_fpToIPs t) old") (auto simp: ips_of_def map_get_def)
  show ?thesis
  proof (rule index_ok_change[OF ok])
    show "ips_of (fp_record now ip fp t) fp' = (if fp' = fp then AList.update ip now (ips_of t fp)
        else AList.delete ip (ips_of t fp'))" for fp'
    proof (cases "old = fp")
      case True
      then show ?thesis using Some ne absent[of fp'] by (simp add: fp_record_def ips_of_def update_conv')
    next
      case False
      then show ?thesis
        using Some ne absent[of fp']
        by (simp add: fp_record_def ips_of_def map_get_put_nested update_conv' Let_def)
    qed
    show "map_of (ft_ipToFP (fp_record now ip fp t)) = (map_of (ft_ipToFP t))(ip \<mapsto> fp)"
    proof (cases "old = fp")
      case True
      then show ?thesis using Some ne by (simp add: fp_record_def fun_upd_idem)
    qed (use Some ne in \<open>simp add: fp_record_def update_conv' Let_def\<close>)
  qed (use Some ne index_okD(1,2)[OF ok] in
      \<open>auto simp: fp_record_def Let_def distinct_update distinct_put_nested split: option.split\<close>)
qed

lemma map_of_drop_stale:
  assumes "distinct (map fst ips)"
  shows "map_of (drop_stale_ips now maxAge fp ips m) ip =
    (if map_of m ip = Some fp \<and> (\<exists>seen. (ip, seen) \<in> set ips \<and> time_sub now seen > maxAge)
     then None else map_of m ip)"
  using assms unfolding drop_stale_ips_def
proof (induction ips arbitrary: m)
  case (Cons e ips)
  obtain ip0 s0 where e: "e = (ip0, s0)" by (cases e)
  let ?m = "if time_sub now s0 > maxAge \<and> map_of m ip0 = Some fp then AList.delete ip0 m else m"
  have d: "distinct (map fst ips)" and new: "ip0 \<notin> fst ` set ips" using Cons.prems by (auto simp: e)
  note IH = Cons.IH[OF d, of ?m]
  show ?case
  proof (cases "ip = ip0")
    case True
    then have "(ip, seen) \<notin> set ips" for seen using new by (metis fst_conv image_eqI)
    then show ?thesis using IH True by (simp add: e delete_conv')
  next
    case False
    then have "map_of ?m ip = map_of m ip" by (simp add: delete_conv')
    then show ?thesis using IH False by (simp add: e)
  qed
qed simp

lemma distinct_drop_stale:
  "distinct (map fst m) \<Longrightarrow> distinct (map fst (drop_stale_ips now maxAge fp ips m))"
  unfolding drop_stale_ips_def
  by (induction ips arbitrary: m) (auto simp: distinct_delete)

lemma cleanup_fp_spec:
  assumes ok: "index_ok t" and here: "ips_of t fp = ips"
    and t'_def: "t' = cleanup_fp now maxAge t (fp, ips)"
  shows "index_ok t'" "fp' \<noteq> fp \<Longrightarrow> ips_of t' fp' = ips_of t fp'"
proof -
  let ?kept = "filter (\<lambda>(ip, seen). \<not> time_sub now seen > maxAge) ips"
  have d: "distinct (map fst ips)" using ok here by (auto simp: index_ok_def)
  have ips: "ips_of t' fp' = (if fp' = fp then ?kept else ips_of t fp')" for fp'
    by (simp add: t'_def cleanup_fp_def ips_of_def Let_def delete_conv' update_conv' map_get_def)
  then show "fp' \<noteq> fp \<Longrightarrow> ips_of t' fp' = ips_of t fp'" by simp
  have m: "ft_ipToFP t' = drop_stale_ips now maxAge fp ips (ft_ipToFP t)"
    by (simp add: t'_def cleanup_fp_def Let_def)
  have outer: "distinct (map fst (ft_fpToIPs t'))"
    using ok by (simp add: t'_def cleanup_fp_def Let_def index_ok_def distinct_delete distinct_update)
  have keep: "ip \<in> fst ` set ?kept \<longleftrightarrow>
      ip \<in> fst ` set ips \<and> \<not> (\<exists>seen. (ip, seen) \<in> set ips \<and> time_sub now seen > maxAge)" for ip
  proof
    assume "ip \<in> fst ` set ?kept"
    then obtain seen where s: "(ip, seen) \<in> set ips" "\<not> time_sub now seen > maxAge" by auto
    then show "ip \<in> fst ` set ips \<and> \<not> (\<exists>seen. (ip, seen) \<in> set ips \<and> time_sub now seen > maxAge)"
      using eq_key_imp_eq_value[OF d, of ip] by (metis fst_conv image_eqI)
  next
    assume a: "ip \<in> fst ` set ips \<and> \<not> (\<exists>seen. (ip, seen) \<in> set ips \<and> time_sub now seen > maxAge)"
    then obtain seen where "(ip, seen) \<in> set ?kept" by fastforce
    then show "ip \<in> fst ` set ?kept" by (metis fst_conv image_eqI)
  qed
  show "index_ok t'"
  proof (rule index_okI[OF _ outer])
    show "distinct (map fst (ft_ipToFP t'))" unfolding m by (rule distinct_drop_stale[OF index_okD(1)[OF ok]])
    show "distinct (map fst (ips_of t' fp'))" for fp'
      unfolding ips using d index_okD(3)[OF ok] by (simp add: distinct_map_filter)
    show "map_of (ft_ipToFP t') ip = Some fp' \<longleftrightarrow> ip \<in> fst ` set (ips_of t' fp')" for ip fp'
    proof (cases "fp' = fp")
      case True
      have none_iff: "(if x = Some y \<and> P then None else x) = Some y \<longleftrightarrow> x = Some y \<and> \<not> P"
        for x :: "string option" and y P by auto
      have "map_of (ft_ipToFP t') ip = Some fp \<longleftrightarrow> map_of (ft_ipToFP t) ip = Some fp \<and>
          \<not> (\<exists>seen. (ip, seen) \<in> set ips \<and> time_sub now seen > maxAge)"
        unfolding m map_of_drop_stale[OF d] by (rule none_iff)
      also have "\<dots> \<longleftrightarrow> ip \<in> fst ` set ?kept"
        unfolding keep using index_okD(4)[OF ok, of ip fp] here by (simp only: here)
      finally show ?thesis unfolding ips using True by simp
    next
      case False
      then show ?thesis
        unfolding ips m map_of_drop_stale[OF d] using index_okD(4)[OF ok, of ip fp'] by auto
    qed
  qed
qed

lemma cleanup_all:
  assumes "index_ok t" "distinct (map fst es)" "\<forall>(fp, ips) \<in> set es. ips_of t fp = ips"
  shows "index_ok (foldl (cleanup_fp now maxAge) t es)"
  using assms
proof (induction es arbitrary: t)
  case (Cons e es)
  obtain fp ips where e: "e = (fp, ips)" by (cases e)
  have here: "ips_of t fp = ips" using Cons.prems by (simp add: e)
  have "ips_of (cleanup_fp now maxAge t (fp, ips)) fp' = ips'" if "(fp', ips') \<in> set es" for fp' ips'
  proof -
    have "fp \<notin> fst ` set es" using Cons.prems(2) by (simp add: e)
    then have "fp' \<noteq> fp" using that by (metis fst_conv image_eqI)
    moreover have "ips_of t fp' = ips'" using Cons.prems(3) that by (auto simp: e)
    ultimately show ?thesis using cleanup_fp_spec(2)[OF Cons.prems(1) here refl] by metis
  qed
  then show ?case
    using Cons.IH[OF cleanup_fp_spec(1)[OF Cons.prems(1) here refl, of now maxAge]] Cons.prems(2) by (auto simp: e)
qed simp

lemma index_ok_cleanup:
  assumes ok: "index_ok t"
  shows "index_ok (fp_cleanup now maxAge t)"
proof (cases "time_sub now (ft_lastCleanup t) < go_div maxAge 2")
  case False
  let ?t = "t\<lparr>ft_lastCleanup := now\<rparr>"
  let ?u = "foldl (cleanup_fp now maxAge) ?t (ft_fpToIPs t)"
  have t: "index_ok ?t" using ok by (simp add: index_ok_def ips_of_def)
  have "\<forall>(fp, ips) \<in> set (ft_fpToIPs t). ips_of ?t fp = ips"
    using ok by (auto simp: index_ok_def ips_of_def map_get_def)
  then have u: "index_ok ?u"
    using ok by (intro cleanup_all[OF t]) (simp_all add: index_ok_def)
  have "filter (\<lambda>(ip, fp). ips_of ?u fp \<noteq> []) (ft_ipToFP ?u) = ft_ipToFP ?u"
  proof (rule filter_True, rule ballI, clarify)
    fix ip fp
    assume "(ip, fp) \<in> set (ft_ipToFP ?u)" "ips_of ?u fp = []"
    then show False
      using index_okD(4)[OF u, of ip fp] map_of_is_SomeI[OF index_okD(1)[OF u], of ip fp] by simp
  qed
  then have "fp_cleanup now maxAge t = ?u"
    using False by (simp add: fp_cleanup_def Let_def ips_of_def)
  then show ?thesis using u by simp
qed (use ok in \<open>simp add: fp_cleanup_def\<close>)

inductive tracker_reachable :: "fingerprint_tracker \<Rightarrow> bool" where
  tracker_new: "tracker_reachable (new_fingerprint_tracker now)"
| tracker_record: "tracker_reachable t \<Longrightarrow> tracker_reachable (fp_record now ip fp t)"
| tracker_cleanup: "tracker_reachable t \<Longrightarrow> tracker_reachable (fp_cleanup now maxAge t)"
| tracker_block: "tracker_reachable t \<Longrightarrow> tracker_reachable (mark_fingerprint_blocked fp t)"
| tracker_unblock: "tracker_reachable t \<Longrightarrow> tracker_reachable (unmark_fingerprint fp t)"
| tracker_suspect: "tracker_reachable t \<Longrightarrow> tracker_reachable (mark_suspect fp t)"

lemma index_ok_frame:
  "ft_ipToFP u = ft_ipToFP t \<Longrightarrow> ft_fpToIPs u = ft_fpToIPs t \<Longrightarrow> index_ok u = index_ok t"
  by (simp add: index_ok_def ips_of_def)

lemma index_ok_new: "index_ok (new_fingerprint_tracker now)"
  by (simp add: index_ok_def ips_of_def new_fingerprint_tracker_def)

lemma reachable_index_ok: "tracker_reachable t \<Longrightarrow> index_ok t"
proof (induction rule: tracker_reachable.induct)
  case (tracker_block t fp)
  then show ?case using index_ok_frame[of "mark_fingerprint_blocked fp t" t] by (simp add: mark_fingerprint_blocked_def)
next
  case (tracker_unblock t fp)
  then show ?case using index_ok_frame[of "unmark_fingerprint fp t" t] by (simp add: unmark_fingerprint_def)
next
  case (tracker_suspect t fp)
  then show ?case using index_ok_frame[of "mark_suspect fp t" t] by (simp add: mark_suspect_def)
qed (simp_all add: index_ok_new index_ok_record index_ok_cleanup)

text \<open>
  The two directions of the fingerprint index always agree: an address is listed under a
  fingerprint exactly when that is its current fingerprint. So every address counts for one
  fingerprint only, and \<open>GetSharedIPs\<close> answers exactly the other addresses with the same one.
\<close>

theorem fingerprint_index_consistent:
  assumes "tracker_reachable t"
  shows "(map_of (ft_ipToFP t) ip = Some fp \<longleftrightarrow> ip \<in> fst ` set (ips_of t fp)) \<and>
    set (get_shared_ips ip t) =
      {other. other \<noteq> ip \<and> map_of (ft_ipToFP t) ip \<noteq> None \<and>
         map_of (ft_ipToFP t) other = map_of (ft_ipToFP t) ip}"
proof -
  note ok = reachable_index_ok[OF assms]
  have "set (get_shared_ips ip t) = {other. other \<noteq> ip \<and> other \<in> fst ` set (ips_of t f)}"
    if "map_of (ft_ipToFP t) ip = Some f" for f
    using that by (cases "map_of (ft_fpToIPs t) f") (auto simp: get_shared_ips_def ips_of_def map_get_def)
  moreover have "get_shared_ips ip t = []" if "map_of (ft_ipToFP t) ip = None"
    using that by (simp add: get_shared_ips_def)
  ultimately have "set (get_shared_ips ip t) =
      {other. other \<noteq> ip \<and> map_of (ft_ipToFP t) ip \<noteq> None \<and>
         map_of (ft_ipToFP t) other = map_of (ft_ipToFP t) ip}"
    unfolding index_okD(4)[OF ok, symmetric] by (cases "map_of (ft_ipToFP t) ip") auto
  then show ?thesis using index_okD(4)[OF ok, of ip fp] by simp
qed

lemma fingerprint_index_consistent_witness:
  defines "t \<equiv> fp_record 2 ''b'' ''f'' (fp_record 1 ''a'' ''f'' (new_fingerprint_tracker 0))"
  shows "set (get_shared_ips ''a'' t) = {''b''}"
proof -
  have r: "tracker_reachable t" unfolding t_def by (intro tracker_reachable.intros)
  have "map_of (ft_ipToFP t) ip = (if ip = ''a'' \<or> ip = ''b'' then Some ''f'' else None)" for ip
    by (simp add: t_def fp_record_def new_fingerprint_tracker_def update_conv' put_nested_def)
  then show ?thesis using fingerprint_index_consistent[OF r, of "''a''"] by auto
qed

subsection \<open>The chain score\<close>

definition recent_stage :: "instant \<Rightarrow> (stage \<times> instant) list \<Rightarrow> stage \<Rightarrow> bool" where
  "recent_stage now stages s \<longleftrightarrow>
     (case map_of stages s of Some t \<Rightarrow> time_sub now t < 10 * 60 * nano_second | None \<Rightarrow> False)"

lemma match_stages_count:
  "fst (match_stages now stages pattern k l b) = k + length (filter (recent_stage now stages) pattern)"
  by (induction now stages pattern k l b rule: match_stages.induct)
    (auto simp: recent_stage_def split: option.split)

lemma pattern_score_bounds:
  assumes "pattern \<noteq> []"
  shows "0 \<le> pattern_score now stages pattern" "pattern_score now stages pattern \<le> 1"
    "0 < pattern_score now stages pattern \<longleftrightarrow> 2 \<le> length (filter (recent_stage now stages) pattern)"
proof -
  let ?k = "length (filter (recent_stage now stages) pattern)"
  obtain b where m: "match_stages now stages pattern 0 zero_time True = (?k, b)"
    using match_stages_count[of now stages pattern 0 zero_time True] by (metis add_0 prod.collapse)
  have "real ?k / real (length pattern) \<le> 1" using assms by (simp add: divide_le_eq)
  then show "0 \<le> pattern_score now stages pattern" "pattern_score now stages pattern \<le> 1"
    by (auto simp: pattern_score_def m Let_def)
  show "0 < pattern_score now stages pattern \<longleftrightarrow> 2 \<le> ?k"
    using assms by (auto simp: pattern_score_def m Let_def intro!: divide_pos_pos)
qed

lemma foldl_max_spec:
  fixes f :: "'a \<Rightarrow> real"
  defines "step \<equiv> \<lambda>best x. if f x > best then f x else best"
  shows "b \<le> foldl step b xs" "(\<exists>x \<in> set xs. f x > b) \<longleftrightarrow> b < foldl step b xs"
    "(\<And>x. x \<in> set xs \<Longrightarrow> f x \<le> c) \<Longrightarrow> b \<le> c \<Longrightarrow> foldl step b xs \<le> c"
proof -
  have mono: "b \<le> foldl step b xs" for b xs
    by (induction xs arbitrary: b) (auto simp: step_def intro: order.trans less_imp_le)
  show "b \<le> foldl step b xs" by (rule mono)
  show "(\<exists>x \<in> set xs. f x > b) \<longleftrightarrow> b < foldl step b xs"
  proof (induction xs arbitrary: b)
    case (Cons x xs)
    then show ?case
      using mono[of "f x" xs] by (cases "f x > b") (auto simp: step_def)
  qed simp
  show "foldl step b xs \<le> c" if "\<And>x. x \<in> set xs \<Longrightarrow> f x \<le> c" "b \<le> c"
    using that by (induction xs arbitrary: b) (auto simp: step_def)
qed

lemma recent_needs_entries:
  assumes "distinct pattern"
  shows "length (filter (recent_stage now stages) pattern) \<le> length stages"
proof -
  have "set (filter (recent_stage now stages) pattern) \<subseteq> fst ` set stages"
    by (auto simp: recent_stage_def dest!: map_of_SomeD split: option.splits) force
  then have "card (set (filter (recent_stage now stages) pattern)) \<le> card (fst ` set stages)"
    by (intro card_mono) auto
  also have "\<dots> \<le> length stages"
    using card_length[of "map fst stages"] by simp
  finally show ?thesis using assms by (simp add: distinct_card[symmetric] del: set_filter)
qed

lemma patterns_distinct: "p \<in> set attack_chain_patterns \<Longrightarrow> distinct (snd p) \<and> snd p \<noteq> []"
  by (auto simp: attack_chain_patterns_def)

text \<open>
  The attack chain score lies between 0 and 1, and it is positive exactly when at least two
  stages of one of the known patterns were seen in the last ten minutes.
\<close>

theorem chain_score_spec:
  "0 \<le> get_chain_score now ip a \<and> get_chain_score now ip a \<le> 1 \<and>
   (0 < get_chain_score now ip a \<longleftrightarrow>
     list_ex (\<lambda>(name, pattern).
       2 \<le> length (filter (recent_stage now (map_get [] (map_of (ac_ipStages a)) ip)) pattern))
       attack_chain_patterns)"
proof -
  define stages where "stages = map_get [] (map_of (ac_ipStages a)) ip"
  let ?f = "\<lambda>e. pattern_score now stages (snd e)"
  let ?step = "\<lambda>best e. if ?f e > best then ?f e else best"
  have pos: "(\<exists>e \<in> set attack_chain_patterns. 0 < ?f e) \<longleftrightarrow>
      list_ex (\<lambda>(name, pattern). 2 \<le> length (filter (recent_stage now stages) pattern)) attack_chain_patterns"
    using patterns_distinct pattern_score_bounds(3)[of _ now stages]
    by (simp add: list_ex_iff split_beta cong: bex_cong)
  have none: "\<not> (\<exists>e \<in> set attack_chain_patterns. 0 < ?f e)" if "length stages < 2"
    using that patterns_distinct pattern_score_bounds(3)[of _ now stages] recent_needs_entries[of _ now stages]
    by (meson le_trans not_le)
  have score: "get_chain_score now ip a =
      (if length stages < 2 then 0 else foldl ?step 0 attack_chain_patterns)"
    unfolding get_chain_score_def Let_def stages_def[symmetric] by (simp add: case_prod_unfold)
  have le1: "foldl ?step 0 attack_chain_patterns \<le> 1"
    using patterns_distinct pattern_score_bounds(2)[of _ now stages] by (intro foldl_max_spec(3)) auto
  show ?thesis
    unfolding score stages_def[symmetric] pos[symmetric]
    using none foldl_max_spec(1,2)[where b = 0 and f = ?f and xs = attack_chain_patterns] le1 by auto
qed

subsection \<open>The weights of attack types\<close>

definition stats_ok :: "global_attack_stats \<Rightarrow> bool" where
  "stats_ok g \<longleftrightarrow> (\<forall>(k, n) \<in> set (gs_typeCounts g). 0 \<le> n) \<and>
     sum_list (map snd (gs_typeCounts g)) = gs_totalAttacks g"

lemma sum_counts_update:
  "sum_list (map snd (AList.update k (map_get 0 (map_of m) k + 1) m)) = sum_list (map snd m) + (1 :: int)"
  by (induction m) (auto simp: map_get_def split: option.splits)

lemma nonneg_counts_update:
  "\<forall>(k, n) \<in> set m. 0 \<le> n \<Longrightarrow> \<forall>(k, n) \<in> set (AList.update k0 (map_get 0 (map_of m) k0 + 1) m). (0::int) \<le> n"
  by (induction m) (auto simp: map_get_def split: option.splits dest: map_of_SomeD)

lemma stats_ok_new: "stats_ok (new_global_attack_stats now)"
  by (simp add: stats_ok_def new_global_attack_stats_def)

lemma stats_ok_record: "stats_ok g \<Longrightarrow> stats_ok (stats_record atk g)"
  using nonneg_counts_update[of "gs_typeCounts g" atk]
  by (simp add: stats_ok_def stats_record_def sum_counts_update)

lemma stats_ok_reset: "stats_ok g \<Longrightarrow> stats_ok (reset_if_needed now g)"
  by (simp add: stats_ok_def reset_if_needed_def)

lemma get_weights_bounds:
  assumes ok: "stats_ok g"
  shows "0 \<le> get_weights types g k" "get_weights types g k \<le> 1"
proof -
  let ?f = "\<lambda>e. if str_contains (fst e) k
      then real_of_int (snd e) / real_of_int (gs_totalAttacks g) else 0"
  have n: "0 \<le> snd e \<and> snd e \<le> gs_totalAttacks g" if "e \<in> set (gs_typeCounts g)" for e
    using ok that member_le_sum_list[of "snd e" "map snd (gs_typeCounts g)"]
    by (force simp: stats_ok_def)
  have le: "?f e \<le> 1" if "e \<in> set (gs_typeCounts g)" for e
    using n[OF that] by (auto simp: divide_le_eq_1)
  have w: "get_weights types g k = (if k \<notin> set types \<or> gs_totalAttacks g < 10 then 0
      else foldl (\<lambda>w e. if ?f e > w then ?f e else w) 0 (gs_typeCounts g))"
  proof -
    have "foldl (\<lambda>w e. if str_contains (fst e) k \<and> real_of_int (snd e) / T > w
          then real_of_int (snd e) / T else w) w es =
        foldl (\<lambda>w e. if (if str_contains (fst e) k then real_of_int (snd e) / T else 0) > w
          then (if str_contains (fst e) k then real_of_int (snd e) / T else 0) else w) w es"
      if "0 \<le> w" for w T :: real and es :: "(string \<times> int) list"
      using that by (induction es arbitrary: w) auto
    then show ?thesis by (simp add: get_weights_def Let_def case_prod_unfold)
  qed
  show "0 \<le> get_weights types g k" unfolding w using foldl_max_spec(1)[where b = 0 and f = ?f] by simp
  show "get_weights types g k \<le> 1"
    unfolding w using foldl_max_spec(3)[where xs = "gs_typeCounts g" and f = ?f and c = 1 and b = 0] le by simp
qed

end
