(* ===== verification/SmartLimit.thy ===== *)
theory SmartLimit
  imports ProfileStore Intel NetAddr
begin

text \<open>
  \<open>internal/domain/security/ratelimit/engine.go\<close>: the engine that scores every request and
  decides what to do with it, learns from the outcome, and adapts its weights.

  The state is a record; \<open>Config\<close> is shared by the engine and the profile store through one
  pointer, so an in-place change of it updates both copies here. One call reads the clock once.
  \<open>float64\<close> is a real number; where the code divides a positive number by a setting that may be
  zero, Go's \<open>+Inf\<close> and the \<open>math.Min\<close> after it are written out (\<open>excess\<close>). The auto blocker is a
  component of its own and not part of this state.
\<close>

subsection \<open>Printing a number\<close>

definition round_half_even :: "real \<Rightarrow> int" where
  "round_half_even x =
     (let f = \<lfloor>x\<rfloor>; r = x - of_int f in
      if r < 1 / 2 then f else if r > 1 / 2 then f + 1 else if even f then f else f + 1)"

definition go_fixed :: "nat \<Rightarrow> real \<Rightarrow> string" where
  "go_fixed k x =
     (let n = nat (round_half_even (\<bar>x\<bar> * 10 ^ k));
          frac = dec_string (n mod 10 ^ k)
      in (if x < 0 then ''-'' else '''') @ dec_string (n div 10 ^ k) @
         (if k = 0 then '''' else ''.'' @ replicate (k - length frac) (CHR ''0'') @ frac))"

subsection \<open>State\<close>

record score_detail =
  sd_RequestRate :: real
  sd_BlockRate :: real
  sd_ErrorRatio :: real
  sd_PathDiv :: real
  sd_RuleDiv :: real
  sd_UADiv :: real
  sd_IntervalVar :: real
  sd_SensitivePath :: real
  sd_GeoAnomaly :: real
  sd_CookieAnomaly :: real
  sd_MethodAnomaly :: real
  sd_RefererAnomaly :: real
  sd_BodyAnomaly :: real
  sd_Fingerprint :: real
  sd_AttackChain :: real
  sd_HourAnomaly :: real
  sd_Total :: real
  sd_Action :: string

record decision =
  d_Action :: action
  d_Score :: real
  d_ScoreDetail :: score_detail
  d_Reason :: string
  d_IP :: string
  d_Timestamp :: instant
  d_Observe :: bool

definition browser_ua_hints :: "string list" where
  "browser_ua_hints = [''Mozilla'', ''Chrome'', ''Safari'', ''Edge'', ''Firefox'', ''Opera'']"

record smart_engine =
  e_config :: config
  e_profiles :: profile_store
  e_globalQPS :: sliding_window
  e_baselines :: "string \<rightharpoonup> real"
  e_fingerprints :: fingerprint_tracker
  e_attackChains :: attack_chain_tracker
  e_attackStats :: global_attack_stats
  e_hourTrusted :: "string \<rightharpoonup> (nat \<Rightarrow> bool)"
  e_lastWeightUpdate :: instant
  e_whitelistNets :: "ip_net list"
  e_cachedConfig :: "config option"
  e_cachedConfigAt :: instant

definition whitelist_nets :: "config \<Rightarrow> ip_net list" where
  "whitelist_nets cfg =
     List.map_filter parse_cidr (filter (\<lambda>ip. str_contains ip ''/'') (c_WhitelistIPs cfg))"

definition rebuild_whitelist_nets :: "smart_engine \<Rightarrow> smart_engine" where
  "rebuild_whitelist_nets e = e\<lparr>e_whitelistNets := whitelist_nets (e_config e)\<rparr>"

definition new_smart_engine :: "instant \<Rightarrow> config \<Rightarrow> smart_engine" where
  "new_smart_engine now cfg =
     rebuild_whitelist_nets
      \<lparr>e_config = cfg, e_profiles = new_profile_store cfg,
       e_globalQPS = new_sliding_window now 10 nano_second (c_GlobalQPSThreshold cfg),
       e_baselines = Map.empty, e_fingerprints = new_fingerprint_tracker now,
       e_attackChains = new_attack_chain_tracker, e_attackStats = new_global_attack_stats now,
       e_hourTrusted = Map.empty, e_lastWeightUpdate = zero_time, e_whitelistNets = [],
       e_cachedConfig = None, e_cachedConfigAt = zero_time\<rparr>"

definition get_config_cached :: "instant \<Rightarrow> smart_engine \<Rightarrow> config \<times> smart_engine" where
  "get_config_cached now e =
     (case e_cachedConfig e of
        Some c \<Rightarrow>
          if time_sub now (e_cachedConfigAt e) < nano_second then (c, e)
          else (clone (e_config e), e\<lparr>e_cachedConfig := Some (clone (e_config e)), e_cachedConfigAt := now\<rparr>)
      | None \<Rightarrow>
          (clone (e_config e), e\<lparr>e_cachedConfig := Some (clone (e_config e)), e_cachedConfigAt := now\<rparr>))"

subsection \<open>The scores\<close>

definition zero_detail :: score_detail where
  "zero_detail =
     \<lparr>sd_RequestRate = 0, sd_BlockRate = 0, sd_ErrorRatio = 0, sd_PathDiv = 0, sd_RuleDiv = 0,
      sd_UADiv = 0, sd_IntervalVar = 0, sd_SensitivePath = 0, sd_GeoAnomaly = 0,
      sd_CookieAnomaly = 0, sd_MethodAnomaly = 0, sd_RefererAnomaly = 0, sd_BodyAnomaly = 0,
      sd_Fingerprint = 0, sd_AttackChain = 0, sd_HourAnomaly = 0, sd_Total = 0, sd_Action = ''''\<rparr>"

definition trust_multiplier :: "real \<Rightarrow> real" where
  "trust_multiplier trust =
     (let m = (if trust > 0 then 1 + trust * (2 / 100)
               else if trust < 0 then 1 / (1 + \<bar>trust\<bar> * (5 / 100)) else 1);
          m = (if m < 2 / 10 then 2 / 10 else m)
      in if m > 5 then 5 else m)"

text \<open>\<open>math.Min(x / y - 1.0, 1.0)\<close> for a positive \<open>x\<close>.\<close>

definition excess :: "real \<Rightarrow> real \<Rightarrow> real" where
  "excess x y = (if y = 0 then 1 else min (x / y - 1) 1)"

definition above :: "real \<Rightarrow> real \<Rightarrow> real" where
  "above x threshold =
     (let denom = 1 - threshold in if denom > 0 then min ((x - threshold) / denom) 1 else 1)"

definition diversity_score :: "int \<Rightarrow> int \<Rightarrow> real" where
  "diversity_score n threshold =
     (if threshold > 0 \<and> n > threshold then excess (real_of_int n) (real_of_int threshold) else 0)"

definition request_rate_score :: "config \<Rightarrow> real \<Rightarrow> real \<Rightarrow> profile_snapshot \<Rightarrow> real" where
  "request_rate_score cfg effectiveReqThreshold baseline s =
     (let rate = real_of_int (s_RequestRate s) in
      if effectiveReqThreshold > 0 \<and> rate > effectiveReqThreshold then excess rate effectiveReqThreshold
      else if c_AdaptiveEnabled cfg \<and> baseline > 0 \<and> rate > baseline * c_Sensitivity cfg
      then excess rate (baseline * c_Sensitivity cfg) else 0)"

definition block_rate_score :: "real \<Rightarrow> profile_snapshot \<Rightarrow> real" where
  "block_rate_score effectiveBlockThreshold s =
     (let rate = real_of_int (s_BlockRate s) in
      if effectiveBlockThreshold > 0 \<and> rate > effectiveBlockThreshold
      then excess rate effectiveBlockThreshold else 0)"

definition interval_var_score :: "config \<Rightarrow> profile_snapshot \<Rightarrow> real" where
  "interval_var_score cfg s =
     (if s_IntervalVariance s < c_IntervalVarMin cfg \<and> s_IntervalMean s > 0 \<and> s_TotalCount s > 20
      then min (1 - c_IntervalVarMin cfg / max (s_IntervalVariance s) (1 / 10000)) 1 else 0)"

definition is_browser_ua :: "profile_snapshot \<Rightarrow> bool" where
  "is_browser_ua s \<longleftrightarrow> s_TotalCount s > 10 \<and> list_ex (str_contains (s_LastUA s)) browser_ua_hints"

definition base_detail :: "config \<Rightarrow> real \<Rightarrow> real \<Rightarrow> real \<Rightarrow> profile_snapshot \<Rightarrow> score_detail" where
  "base_detail cfg effectiveReqThreshold effectiveBlockThreshold baseline s =
     zero_detail
      \<lparr>sd_RequestRate := request_rate_score cfg effectiveReqThreshold baseline s,
       sd_BlockRate := block_rate_score effectiveBlockThreshold s,
       sd_ErrorRatio := (if s_ErrorRatio s > c_ErrorRatioThreshold cfg
          then above (s_ErrorRatio s) (c_ErrorRatioThreshold cfg) else 0),
       sd_PathDiv := diversity_score (s_PathDiversity s) (c_PathDivThreshold cfg),
       sd_RuleDiv := diversity_score (s_RuleDiversity s) (c_RuleDivThreshold cfg),
       sd_UADiv := diversity_score (s_UADiversity s) (c_UADivThreshold cfg),
       sd_IntervalVar := interval_var_score cfg s,
       sd_SensitivePath := (if s_SensitiveHitCount s > c_SensitivePathHitLimit cfg
          then excess (real_of_int (s_SensitiveHitCount s)) (real_of_int (c_SensitivePathHitLimit cfg)) else 0),
       sd_GeoAnomaly := (if c_ASNChangeThreshold cfg > 0 \<and> s_ASNChangeCount s \<ge> c_ASNChangeThreshold cfg
          then min (real_of_int (s_ASNChangeCount s) / real_of_int (c_ASNChangeThreshold cfg)) 1 else 0),
       sd_CookieAnomaly :=
         (if is_browser_ua s \<and> s_NoCookieRatio s > c_NoCookieRatioThreshold cfg \<and> s_TotalCount s > 10
          then above (s_NoCookieRatio s) (c_NoCookieRatioThreshold cfg) else 0),
       sd_MethodAnomaly := diversity_score (s_MethodDiversity s) (c_MethodDivThreshold cfg),
       sd_RefererAnomaly :=
         (if is_browser_ua s \<and> s_NoRefererRatio s > c_NoRefererRatioThreshold cfg \<and> s_TotalCount s > 10
          then above (s_NoRefererRatio s) (c_NoRefererRatioThreshold cfg) else 0),
       sd_BodyAnomaly := diversity_score (s_BodySizeCount s) (c_BodySizeThreshold cfg)\<rparr>"

definition weighted_total :: "config \<Rightarrow> score_detail \<Rightarrow> real" where
  "weighted_total cfg d =
     c_W_RequestRate cfg * sd_RequestRate d + c_W_BlockRate cfg * sd_BlockRate d +
     c_W_ErrorRatio cfg * sd_ErrorRatio d + c_W_PathDiv cfg * sd_PathDiv d +
     c_W_RuleDiv cfg * sd_RuleDiv d + c_W_UADiv cfg * sd_UADiv d +
     c_W_IntervalVar cfg * sd_IntervalVar d + c_W_SensitivePath cfg * sd_SensitivePath d +
     c_W_GeoAnomaly cfg * sd_GeoAnomaly d + c_W_CookieAnomaly cfg * sd_CookieAnomaly d +
     c_W_MethodAnomaly cfg * sd_MethodAnomaly d + c_W_RefererAnomaly cfg * sd_RefererAnomaly d +
     c_W_BodyAnomaly cfg * sd_BodyAnomaly d"

text \<open>The thresholds, the observe mode and the slowdown: the tail of \<open>Evaluate\<close>.\<close>

definition final_action :: "config \<Rightarrow> bool \<Rightarrow> real \<Rightarrow> action \<times> string" where
  "final_action cfg observeOnly totalScore =
     (let (a, reason) =
        (if totalScore \<ge> c_BlockThreshold cfg then (Block, ''threat score exceeded block threshold'')
         else if totalScore \<ge> c_ChallengeThreshold cfg
         then (Challenge, ''threat score exceeded challenge threshold'')
         else if totalScore \<ge> c_ThrottleThreshold cfg
         then (Throttle, ''threat score exceeded throttle threshold'')
         else (Allow, ''normal''));
        (a, reason) = (if observeOnly \<and> a \<noteq> Allow then (Allow, ''[OBSERVE] '' @ reason) else (a, reason))
      in if a = Allow \<and> totalScore > 0 \<and> totalScore \<ge> c_ChallengeThreshold cfg * (6 / 10) then
           let reason = ''approaching threshold, applying progressive slowdown''
           in if observeOnly then (Allow, ''[OBSERVE] '' @ reason) else (Slowdown, reason)
         else (a, reason))"

subsection \<open>Evaluate\<close>

definition get_baseline :: "string \<Rightarrow> smart_engine \<Rightarrow> real" where
  "get_baseline ip e = map_get 0 (e_baselines e) ip"

definition get_trusted_hours :: "string \<Rightarrow> smart_engine \<Rightarrow> (nat \<Rightarrow> bool) option" where
  "get_trusted_hours ip e = e_hourTrusted e ip"

definition whitelisted :: "config \<Rightarrow> ip_net list \<Rightarrow> string \<Rightarrow> string option" where
  "whitelisted cfg nets ip =
     (if ip \<in> set (c_WhitelistIPs cfg) then Some ''whitelisted IP''
      else case parse_ip ip of
             Some a \<Rightarrow> if list_ex (\<lambda>cidr. contains cidr a) nets then Some ''whitelisted IP (CIDR)'' else None
           | None \<Rightarrow> None)"

definition plain_decision :: "action \<Rightarrow> string \<Rightarrow> instant \<Rightarrow> request_info \<Rightarrow> decision" where
  "plain_decision a reason now req =
     \<lparr>d_Action = a, d_Score = 0, d_ScoreDetail = zero_detail, d_Reason = reason, d_IP = ri_IP req,
      d_Timestamp = now, d_Observe = False\<rparr>"

text \<open>The two hard limits; the first one that is exceeded decides.\<close>

definition request_hard_limit :: "config \<Rightarrow> real \<Rightarrow> profile_snapshot \<Rightarrow> real option" where
  "request_hard_limit cfg effectiveReqThreshold s =
     (if c_IPRequestThreshold cfg > 0 \<and> s_RequestRate s > c_IPRequestThreshold cfg \<and>
         real_of_int (s_RequestRate s) / effectiveReqThreshold \<ge> 3
      then Some (real_of_int (s_RequestRate s) / effectiveReqThreshold) else None)"

definition block_hard_limit :: "config \<Rightarrow> real \<Rightarrow> profile_snapshot \<Rightarrow> real option" where
  "block_hard_limit cfg effectiveBlockThreshold s =
     (if c_IPBlockThreshold cfg > 0 \<and> s_BlockRate s > c_IPBlockThreshold cfg \<and>
         real_of_int (s_BlockRate s) / effectiveBlockThreshold \<ge> 2
      then Some (real_of_int (s_BlockRate s) / effectiveBlockThreshold) else None)"

definition request_limit_decision ::
  "bool \<Rightarrow> real \<Rightarrow> profile_snapshot \<Rightarrow> instant \<Rightarrow> request_info \<Rightarrow> decision" where
  "request_limit_decision observeOnly ratio s now req =
     (let score = min (ratio - 1) 1 in
      \<lparr>d_Action = (if observeOnly then Allow else Throttle), d_Score = score,
       d_ScoreDetail = zero_detail\<lparr>sd_RequestRate := score, sd_Total := score\<rparr>,
       d_Reason = ''request rate '' @ go_fixed 1 ratio @
         ''x exceeded effective threshold (hard limit, trust='' @ go_fixed 0 (s_TrustScore s) @ '')'',
       d_IP = ri_IP req, d_Timestamp = now, d_Observe = observeOnly\<rparr>)"

definition block_limit_decision ::
  "bool \<Rightarrow> real \<Rightarrow> profile_snapshot \<Rightarrow> instant \<Rightarrow> request_info \<Rightarrow> decision" where
  "block_limit_decision observeOnly ratio s now req =
     (let score = min (ratio - 1) 1 in
      \<lparr>d_Action = (if observeOnly then Allow else Block), d_Score = score,
       d_ScoreDetail = zero_detail\<lparr>sd_BlockRate := score, sd_Total := score\<rparr>,
       d_Reason = ''block rate '' @ go_fixed 0 ratio @
         ''x exceeded effective threshold (hard limit, trust='' @ go_fixed 0 (s_TrustScore s) @ '')'',
       d_IP = ri_IP req, d_Timestamp = now, d_Observe = observeOnly\<rparr>)"

text \<open>The dimensions beside the profile: fingerprint, attack chain, hour of the day.\<close>

definition fingerprint_risk :: "config \<Rightarrow> instant \<Rightarrow> string \<Rightarrow> fingerprint_tracker \<Rightarrow> real" where
  "fingerprint_risk cfg now ip t = (if c_FingerprintEnabled cfg then get_shared_risk_score now ip t else 0)"

definition auto_mark_suspect :: "config \<Rightarrow> string \<Rightarrow> fingerprint_tracker \<Rightarrow> fingerprint_tracker" where
  "auto_mark_suspect cfg ip t =
     (if c_FingerprintEnabled cfg then
        let fp = get_fingerprint ip t in
        if fp \<noteq> '''' \<and> int (get_fingerprint_ip_count fp t) \<ge> c_FingerprintSuspectThreshold cfg
        then mark_suspect fp t else t
      else t)"

definition chain_risk :: "config \<Rightarrow> instant \<Rightarrow> string \<Rightarrow> attack_chain_tracker \<Rightarrow> real" where
  "chain_risk cfg now ip a = (if c_AttackChainEnabled cfg then get_chain_score now ip a else 0)"

definition hour_risk :: "config \<Rightarrow> duration \<Rightarrow> instant \<Rightarrow> string \<Rightarrow> smart_engine \<Rightarrow> real" where
  "hour_risk cfg tz now ip e =
     (if c_HourProfileEnabled cfg then
        (case store_get (e_profiles e) ip of
           Some p \<Rightarrow> max 0 (get_hour_anomaly tz now (get_trusted_hours ip e) p)
         | None \<Rightarrow> 0)
      else 0)"

definition full_detail ::
  "config \<Rightarrow> duration \<Rightarrow> instant \<Rightarrow> request_info \<Rightarrow> profile_snapshot \<Rightarrow> smart_engine \<Rightarrow> score_detail" where
  "full_detail cfg tz now req s e =
     (let mult = trust_multiplier (s_TrustScore s);
          d = base_detail cfg (real_of_int (c_IPRequestThreshold cfg) * mult)
                (real_of_int (c_IPBlockThreshold cfg) * mult) (get_baseline (ri_IP req) e) s;
          d = d\<lparr>sd_Fingerprint := fingerprint_risk cfg now (ri_IP req) (e_fingerprints e),
                sd_AttackChain := chain_risk cfg now (ri_IP req) (e_attackChains e),
                sd_HourAnomaly := hour_risk cfg tz now (ri_IP req) e\<rparr>
      in d\<lparr>sd_Total := weighted_total cfg d + sd_Fingerprint d +
                       c_AttackChainWeight cfg * sd_AttackChain d +
                       c_HourAnomalyWeight cfg * sd_HourAnomaly d\<rparr>)"

definition scored_decision ::
  "config \<Rightarrow> bool \<Rightarrow> duration \<Rightarrow> instant \<Rightarrow> request_info \<Rightarrow> profile_snapshot \<Rightarrow> smart_engine \<Rightarrow> decision" where
  "scored_decision cfg observeOnly tz now req s e =
     (let d = full_detail cfg tz now req s e;
          (a, reason) = final_action cfg observeOnly (sd_Total d)
      in \<lparr>d_Action = a, d_Score = sd_Total d, d_ScoreDetail = d\<lparr>sd_Action := action_string a\<rparr>,
          d_Reason = reason, d_IP = ri_IP req, d_Timestamp = now, d_Observe = observeOnly\<rparr>)"

definition suspect_fingerprint :: "config \<Rightarrow> string \<Rightarrow> fingerprint_tracker \<Rightarrow> bool" where
  "suspect_fingerprint cfg ip t \<longleftrightarrow>
     c_FingerprintEnabled cfg \<and> get_fingerprint ip t \<noteq> '''' \<and> is_suspect (get_fingerprint ip t) t"

definition qps_exceeded :: "config \<Rightarrow> smart_engine \<Rightarrow> bool" where
  "qps_exceeded cfg e \<longleftrightarrow> c_GlobalQPSThreshold cfg > 0 \<and> win_sum (e_globalQPS e) > c_GlobalQPSThreshold cfg"

definition judge ::
  "config \<Rightarrow> bool \<Rightarrow> duration \<Rightarrow> instant \<Rightarrow> request_info \<Rightarrow> profile_snapshot \<Rightarrow> smart_engine
   \<Rightarrow> decision \<times> smart_engine" where
  "judge cfg observeOnly tz now req s e =
     (if suspect_fingerprint cfg (ri_IP req) (e_fingerprints e) then
        ((plain_decision Challenge ''IP from suspicious fingerprint group'' now req)
           \<lparr>d_Score := 5 / 10, d_Observe := observeOnly\<rparr>, e)
      else if qps_exceeded cfg e then
        ((plain_decision Throttle ''global QPS exceeded'' now req)\<lparr>d_Score := 1\<rparr>, e)
      else
        let mult = trust_multiplier (s_TrustScore s) in
        case request_hard_limit cfg (real_of_int (c_IPRequestThreshold cfg) * mult) s of
          Some ratio \<Rightarrow> (request_limit_decision observeOnly ratio s now req, e)
        | None \<Rightarrow>
            (case block_hard_limit cfg (real_of_int (c_IPBlockThreshold cfg) * mult) s of
               Some ratio \<Rightarrow> (block_limit_decision observeOnly ratio s now req, e)
             | None \<Rightarrow>
                 (scored_decision cfg observeOnly tz now req s e,
                  e\<lparr>e_fingerprints := auto_mark_suspect cfg (ri_IP req) (e_fingerprints e)\<rparr>)))"

definition evaluate :: "duration \<Rightarrow> instant \<Rightarrow> request_info \<Rightarrow> smart_engine \<Rightarrow> decision \<times> smart_engine" where
  "evaluate tz now req e =
     (let enabled = get_enabled (e_config e);
          observeOnly = (get_mode (e_config e) = ''observe'');
          (cfg, e) = get_config_cached now e
      in if \<not> enabled then (plain_decision Allow ''engine disabled'' now req, e)
         else
           case whitelisted cfg (e_whitelistNets e) (ri_IP req) of
             Some reason \<Rightarrow> (plain_decision Allow reason now req, e)
           | None \<Rightarrow>
               let e = e\<lparr>e_globalQPS := snd (win_incr now (e_globalQPS e))\<rparr>;
                   (s, store) = get_or_create_snapshot now (ri_IP req) (e_profiles e)
               in judge cfg observeOnly tz now req s (e\<lparr>e_profiles := store\<rparr>))"

subsection \<open>The other operations\<close>

definition engine_record_feedback ::
  "duration \<Rightarrow> instant \<Rightarrow> request_info \<Rightarrow> smart_engine \<Rightarrow> smart_engine" where
  "engine_record_feedback tz now req e =
     (if \<not> get_enabled (e_config e) then e
      else
        let e = e\<lparr>e_profiles := store_record tz now req (e_profiles e)\<rparr>
        in if ri_RuleID req \<noteq> ''''
           then e\<lparr>e_attackStats := stats_record (ri_RuleID req) (e_attackStats e),
                  e_attackChains := chain_record now (ri_IP req) (ri_Path req) (ri_RuleID req) (e_attackChains e)\<rparr>
           else e)"

definition engine_update_config :: "config \<Rightarrow> smart_engine \<Rightarrow> smart_engine" where
  "engine_update_config cfg e =
     (let cfg = set_persist_saver (c_persistSaver (e_config e)) cfg
      in rebuild_whitelist_nets
           (e\<lparr>e_config := cfg, e_cachedConfig := None,
              e_globalQPS := win_set_threshold (c_GlobalQPSThreshold cfg) (e_globalQPS e),
              e_profiles := store_update_config cfg (e_profiles e)\<rparr>))"

definition engine_get_config :: "smart_engine \<Rightarrow> config" where
  "engine_get_config e = clone (e_config e)"

definition set_ip_threshold :: "string \<Rightarrow> int \<Rightarrow> smart_engine \<Rightarrow> smart_engine" where
  "set_ip_threshold ip thr e =
     e\<lparr>e_profiles := store_modify ip (set_request_threshold thr) (e_profiles e)\<rparr>"

definition update_baseline :: "string \<Rightarrow> real \<Rightarrow> smart_engine \<Rightarrow> smart_engine" where
  "update_baseline ip b e = e\<lparr>e_baselines := (e_baselines e)(ip \<mapsto> b)\<rparr>"

definition set_fingerprint_for_ip :: "instant \<Rightarrow> string \<Rightarrow> string \<Rightarrow> smart_engine \<Rightarrow> smart_engine" where
  "set_fingerprint_for_ip now ip fp e =
     e\<lparr>e_profiles := store_modify ip (set_fingerprint fp) (e_profiles e),
       e_fingerprints := fp_record now ip fp (e_fingerprints e)\<rparr>"

definition pardon_ip :: "string \<Rightarrow> smart_engine \<Rightarrow> smart_engine" where
  "pardon_ip ip e =
     (case store_get (e_profiles e) ip of
        Some p \<Rightarrow> e\<lparr>e_profiles := store_modify ip pardon (e_profiles e),
                    e_fingerprints := unmark_fingerprint (p_fingerprintHash p) (e_fingerprints e)\<rparr>
      | None \<Rightarrow> e)"

definition deserves_pardon :: "profile_snapshot \<Rightarrow> bool" where
  "deserves_pardon s \<longleftrightarrow> s_ConsecutivePass s > 500 \<and> s_TrustScore s < -10"

definition auto_pardon :: "duration \<Rightarrow> instant \<Rightarrow> smart_engine \<Rightarrow> profile_snapshot \<Rightarrow> smart_engine" where
  "auto_pardon tz now e s =
     (if deserves_pardon s then
        let e = pardon_ip (s_IP s) e;
            hours = (case e_hourTrusted e (s_IP s) of Some h \<Rightarrow> h | None \<Rightarrow> (\<lambda>_. False))
        in e\<lparr>e_hourTrusted := (e_hourTrusted e)(s_IP s \<mapsto> hours(hour_of tz now := True))\<rparr>
      else e)"

definition auto_false_positive_repair :: "duration \<Rightarrow> instant \<Rightarrow> smart_engine \<Rightarrow> smart_engine" where
  "auto_false_positive_repair tz now e =
     (if c_FalsePositiveRepair (e_config e) \<and> c_AutoPardonEnabled (e_config e)
      then foldl (auto_pardon tz now) e (all_snapshots (e_profiles e)) else e)"

definition learn :: "real \<Rightarrow> real \<Rightarrow> real \<Rightarrow> real" where
  "learn rate hot w =
     (if hot > 3 / 100 then
        let w = w + rate * (hot - w);
            w = (if w > 35 / 100 then 35 / 100 else w)
        in if w < 2 / 100 then 2 / 100 else w
      else w)"

definition attack_types :: "string list" where
  "attack_types = [''sql_injection'', ''xss'', ''command_injection'', ''path_traversal'',
     ''ssrf'', ''file_upload'', ''header_injection'', ''sensitive_data'']"

definition learn_weights :: "(string \<Rightarrow> real) \<Rightarrow> config \<Rightarrow> config" where
  "learn_weights hot cfg =
     (let r = c_WeightLearningRate cfg;
          cfg = cfg\<lparr>c_W_PathDiv := learn r (hot ''path_traversal'') (c_W_PathDiv cfg)\<rparr>;
          cfg = cfg\<lparr>c_W_PathDiv := learn r (hot ''ssrf'') (c_W_PathDiv cfg)\<rparr>;
          cfg = cfg\<lparr>c_W_RequestRate := learn r (hot ''sql_injection'') (c_W_RequestRate cfg)\<rparr>;
          cfg = cfg\<lparr>c_W_RequestRate := learn r (hot ''command_injection'') (c_W_RequestRate cfg)\<rparr>;
          cfg = cfg\<lparr>c_W_BodyAnomaly := learn r (hot ''xss'') (c_W_BodyAnomaly cfg)\<rparr>;
          cfg = cfg\<lparr>c_W_SensitivePath := learn r (hot ''sensitive_data'') (c_W_SensitivePath cfg)\<rparr>
      in cfg\<lparr>c_W_BodyAnomaly := learn r (hot ''file_upload'') (c_W_BodyAnomaly cfg)\<rparr>)"

definition weight_sum :: "config \<Rightarrow> real" where
  "weight_sum c =
     c_W_RequestRate c + c_W_BlockRate c + c_W_ErrorRatio c + c_W_PathDiv c + c_W_RuleDiv c +
     c_W_UADiv c + c_W_IntervalVar c + c_W_SensitivePath c + c_W_GeoAnomaly c + c_W_CookieAnomaly c +
     c_W_MethodAnomaly c + c_W_RefererAnomaly c + c_W_BodyAnomaly c"

definition scale_weights :: "real \<Rightarrow> config \<Rightarrow> config" where
  "scale_weights k c =
     c\<lparr>c_W_RequestRate := c_W_RequestRate c * k, c_W_BlockRate := c_W_BlockRate c * k,
       c_W_ErrorRatio := c_W_ErrorRatio c * k, c_W_PathDiv := c_W_PathDiv c * k,
       c_W_RuleDiv := c_W_RuleDiv c * k, c_W_UADiv := c_W_UADiv c * k,
       c_W_IntervalVar := c_W_IntervalVar c * k, c_W_SensitivePath := c_W_SensitivePath c * k,
       c_W_GeoAnomaly := c_W_GeoAnomaly c * k, c_W_CookieAnomaly := c_W_CookieAnomaly c * k,
       c_W_MethodAnomaly := c_W_MethodAnomaly c * k, c_W_RefererAnomaly := c_W_RefererAnomaly c * k,
       c_W_BodyAnomaly := c_W_BodyAnomaly c * k\<rparr>"

definition normalize_weights :: "config \<Rightarrow> config" where
  "normalize_weights c =
     (let s = weight_sum c in
      if s \<le> 0 \<or> \<bar>s - 1\<bar> < 1 / 1000 then c else scale_weights (1 / s) c)"

definition set_shared_config :: "config \<Rightarrow> smart_engine \<Rightarrow> smart_engine" where
  "set_shared_config cfg e = e\<lparr>e_config := cfg, e_profiles := store_update_config cfg (e_profiles e)\<rparr>"

definition adjust_weights :: "instant \<Rightarrow> smart_engine \<Rightarrow> smart_engine" where
  "adjust_weights now e =
     (if \<not> c_AutoWeightEnabled (e_config e) then e
      else if time_sub now (e_lastWeightUpdate e) < 60 * nano_second then e
      else
        let e = e\<lparr>e_lastWeightUpdate := now, e_attackStats := reset_if_needed now (e_attackStats e)\<rparr>;
            hot = get_weights attack_types (e_attackStats e);
            maxW = foldl (\<lambda>m t. if hot t > m then hot t else m) 0 attack_types;
            cfg = (if maxW > 5 / 100 then learn_weights hot (e_config e) else e_config e)
        in set_shared_config (normalize_weights cfg) e)"

definition run_cleanup :: "duration \<Rightarrow> instant \<Rightarrow> smart_engine \<Rightarrow> smart_engine" where
  "run_cleanup tz now e =
     (let (cfg, e) = get_config_cached now e;
          e = e\<lparr>e_profiles := snd (store_cleanup now (profile_max_age cfg) (e_profiles e))\<rparr>;
          e = e\<lparr>e_baselines := (\<lambda>ip. if store_get (e_profiles e) ip = None then None else e_baselines e ip)\<rparr>;
          e = e\<lparr>e_fingerprints := fp_cleanup now (profile_max_age cfg) (e_fingerprints e)\<rparr>
      in adjust_weights now (auto_false_positive_repair tz now e))"

definition get_profile :: "string \<Rightarrow> smart_engine \<Rightarrow> profile_snapshot option" where
  "get_profile ip e = store_snapshot ip (e_profiles e)"

definition get_all_profiles :: "smart_engine \<Rightarrow> profile_snapshot list" where
  "get_all_profiles e = all_snapshots (e_profiles e)"

definition get_global_qps :: "smart_engine \<Rightarrow> int" where
  "get_global_qps e = win_sum (e_globalQPS e)"

definition profile_count :: "smart_engine \<Rightarrow> nat" where
  "profile_count e = store_count (e_profiles e)"

subsection \<open>The invariant of the engine\<close>

definition engine_ok :: "smart_engine \<Rightarrow> bool" where
  "engine_ok e \<longleftrightarrow>
     store_ok (e_profiles e) \<and> ps_cfg (e_profiles e) = e_config e \<and>
     index_ok (e_fingerprints e) \<and> stats_ok (e_attackStats e) \<and>
     e_whitelistNets e = whitelist_nets (e_config e)"

text \<open>What an operation leaves alone: the parts of the state the invariant is about.\<close>

definition same_core :: "smart_engine \<Rightarrow> smart_engine \<Rightarrow> bool" where
  "same_core e e' \<longleftrightarrow>
     e_profiles e' = e_profiles e \<and> e_config e' = e_config e \<and> e_fingerprints e' = e_fingerprints e \<and>
     e_attackStats e' = e_attackStats e \<and> e_whitelistNets e' = e_whitelistNets e"

lemma engine_ok_core: "same_core e e' \<Longrightarrow> engine_ok e \<Longrightarrow> engine_ok e'"
  by (simp add: engine_ok_def same_core_def)

lemma ps_cfg_frame [simp]:
  "ps_cfg (store_put ip p s) = ps_cfg s"
  "ps_cfg (snd (get_or_create now ip s)) = ps_cfg s"
  "ps_cfg (store_record tz now req s) = ps_cfg s"
  "ps_cfg (store_modify ip f s) = ps_cfg s"
  "ps_cfg (snd (get_or_create_snapshot now ip s)) = ps_cfg s"
  "ps_cfg (snd (store_cleanup now maxAge s)) = ps_cfg s"
proof -
  show put: "ps_cfg (store_put ip p s) = ps_cfg s" for ip p s by (simp add: store_put_def)
  show goc: "ps_cfg (snd (get_or_create now ip s)) = ps_cfg s"
    by (simp add: get_or_create_def put Let_def split: option.split)
  show "ps_cfg (store_record tz now req s) = ps_cfg s"
    by (simp add: store_record_def get_or_create_def put Let_def split: option.split)
  show "ps_cfg (store_modify ip f s) = ps_cfg s"
    by (simp add: store_modify_def put split: option.split)
  show "ps_cfg (snd (get_or_create_snapshot now ip s)) = ps_cfg s"
    by (simp add: get_or_create_snapshot_def split_beta goc)
  show "ps_cfg (snd (store_cleanup now maxAge s)) = ps_cfg s"
    by (simp add: store_cleanup_def Let_def)
qed

lemma store_ok_shared [simp]: "store_ok (store_update_config cfg s) = store_ok s"
  "ps_cfg (store_update_config cfg s) = cfg"
  by (simp_all add: store_update_config_def store_ok_def store_get_def)

lemma snd_get_or_create_snapshot:
  "snd (get_or_create_snapshot now ip s) = snd (get_or_create now ip s)"
  by (simp add: get_or_create_snapshot_def split_beta)

lemma get_config_cached_core: "same_core e (snd (get_config_cached now e))"
  by (simp add: same_core_def get_config_cached_def split: option.split)

lemma engine_ok_new: "engine_ok (new_smart_engine now cfg)"
  by (simp add: engine_ok_def new_smart_engine_def rebuild_whitelist_nets_def store_ok_new
      index_ok_new stats_ok_new) (simp add: new_profile_store_def)

lemma judge_state:
  "\<exists>t. (t = e_fingerprints e \<or> t = auto_mark_suspect cfg (ri_IP req) (e_fingerprints e)) \<and>
     snd (judge cfg obs tz now req s e) = e\<lparr>e_fingerprints := t\<rparr>"
  by (auto simp: judge_def Let_def split: option.split)

lemma index_ok_auto_mark: "index_ok t \<Longrightarrow> index_ok (auto_mark_suspect cfg ip t)"
  using index_ok_frame[of "mark_suspect (get_fingerprint ip t) t" t]
  by (simp add: auto_mark_suspect_def mark_suspect_def Let_def)

lemma engine_ok_judge: "engine_ok e \<Longrightarrow> engine_ok (snd (judge cfg obs tz now req s e))"
  using judge_state[of e cfg req obs tz now s] index_ok_auto_mark[of "e_fingerprints e" cfg "ri_IP req"]
  by (auto simp: engine_ok_def)

lemma engine_ok_evaluate:
  assumes "engine_ok e"
  shows "engine_ok (snd (evaluate tz now req e))"
proof -
  let ?e = "snd (get_config_cached now e)"
  have ok: "engine_ok ?e" by (rule engine_ok_core[OF get_config_cached_core assms])
  have "engine_ok (?e\<lparr>e_globalQPS := q, e_profiles := snd (get_or_create_snapshot now ip (e_profiles ?e))\<rparr>)" for q ip
    using ok by (simp add: engine_ok_def snd_get_or_create_snapshot store_ok_get_or_create)
  then show ?thesis
    using ok by (auto simp: evaluate_def Let_def split_beta engine_ok_judge split: option.split)
qed

lemma engine_ok_modify:
  assumes "engine_ok e" "\<And>p. profile_ok p \<Longrightarrow> profile_ok (f p) \<and> p_ip (f p) = p_ip p" "index_ok t"
  shows "engine_ok (e\<lparr>e_profiles := store_modify ip f (e_profiles e), e_fingerprints := t\<rparr>)"
  using assms by (simp add: engine_ok_def store_ok_modify)

lemma engine_ok_feedback: "engine_ok e \<Longrightarrow> engine_ok (engine_record_feedback tz now req e)"
  by (simp add: engine_ok_def engine_record_feedback_def Let_def store_ok_record stats_ok_record)

lemma engine_ok_update_config: "engine_ok e \<Longrightarrow> engine_ok (engine_update_config cfg e)"
  by (simp add: engine_ok_def engine_update_config_def rebuild_whitelist_nets_def Let_def)

lemma engine_ok_set_ip_threshold: "engine_ok e \<Longrightarrow> engine_ok (set_ip_threshold ip thr e)"
  using engine_ok_modify[of e "set_request_threshold thr" "e_fingerprints e" ip]
  by (simp add: set_ip_threshold_def profile_ok_set_request_threshold engine_ok_def)
    (simp add: set_request_threshold_def)

lemma engine_ok_set_fingerprint: "engine_ok e \<Longrightarrow> engine_ok (set_fingerprint_for_ip now ip fp e)"
  unfolding set_fingerprint_for_ip_def
  by (rule engine_ok_modify)
    (auto simp: profile_ok_set_fingerprint engine_ok_def index_ok_record, simp add: set_fingerprint_def)

lemma index_ok_unmark: "index_ok t \<Longrightarrow> index_ok (unmark_fingerprint fp t)"
  using index_ok_frame[of "unmark_fingerprint fp t" t] by (simp add: unmark_fingerprint_def)

lemma p_ip_pardon [simp]: "p_ip (pardon p) = p_ip p"
  by (simp add: pardon_def Let_def)

lemma engine_ok_pardon:
  assumes ok: "engine_ok e"
  shows "engine_ok (pardon_ip ip e)"
proof (cases "store_get (e_profiles e) ip")
  case (Some p)
  have "index_ok (unmark_fingerprint (p_fingerprintHash p) (e_fingerprints e))"
    using ok by (simp add: engine_ok_def index_ok_unmark)
  then show ?thesis
    using Some engine_ok_modify[OF ok, of pardon] by (simp add: pardon_ip_def profile_ok_pardon)
qed (use ok in \<open>simp add: pardon_ip_def\<close>)

subsection \<open>The automatic pardon\<close>

lemma no_pardon_deserved:
  assumes "engine_ok e" "s \<in> set (all_snapshots (e_profiles e))"
  shows "\<not> deserves_pardon s"
proof -
  have st: "store_ok (e_profiles e)" using assms(1) by (simp add: engine_ok_def)
  obtain ip p where p: "s = snapshot p" "store_get (e_profiles e) ip = Some p"
    using assms(2) all_snapshots_set[OF st] by auto
  then have "profile_ok p" using st by (simp add: store_ok_def)
  then show ?thesis
    using profile_ok_trust[of p] by (auto simp: deserves_pardon_def p(1) snapshot_def)
qed

lemma repair_does_nothing:
  assumes "engine_ok e"
  shows "auto_false_positive_repair tz now e = e"
proof -
  have "foldl (auto_pardon tz now) e ss = e" if "\<forall>s \<in> set ss. \<not> deserves_pardon s" for ss
    using that by (induction ss) (auto simp: auto_pardon_def)
  then show ?thesis
    using no_pardon_deserved[OF assms] by (simp add: auto_false_positive_repair_def)
qed

subsection \<open>The weights\<close>

lemma weight_sum_scale: "weight_sum (scale_weights k c) = weight_sum c * k"
  by (simp add: weight_sum_def scale_weights_def algebra_simps)

lemma whitelist_nets_frame [simp]:
  "whitelist_nets (scale_weights k c) = whitelist_nets c"
  "whitelist_nets (normalize_weights c) = whitelist_nets c"
  "whitelist_nets (learn_weights hot c) = whitelist_nets c"
proof -
  show s: "whitelist_nets (scale_weights k c) = whitelist_nets c" for k c
    by (simp add: whitelist_nets_def scale_weights_def)
  show "whitelist_nets (normalize_weights c) = whitelist_nets c"
    by (simp add: normalize_weights_def Let_def s)
  show "whitelist_nets (learn_weights hot c) = whitelist_nets c"
    by (simp add: whitelist_nets_def learn_weights_def Let_def)
qed

lemma engine_ok_adjust: "engine_ok e \<Longrightarrow> engine_ok (adjust_weights now e)"
  by (simp add: engine_ok_def adjust_weights_def set_shared_config_def Let_def stats_ok_reset)

lemma engine_ok_cleanup:
  assumes "engine_ok e"
  shows "engine_ok (run_cleanup tz now e)"
proof -
  let ?e = "snd (get_config_cached now e)" and ?age = "profile_max_age (fst (get_config_cached now e))"
  have ok: "engine_ok ?e" by (rule engine_ok_core[OF get_config_cached_core assms])
  have "engine_ok (?e\<lparr>e_profiles := snd (store_cleanup now ?age (e_profiles ?e)), e_baselines := b,
      e_fingerprints := fp_cleanup now ?age (e_fingerprints ?e)\<rparr>)" for b
    using ok by (simp add: engine_ok_def store_ok_cleanup index_ok_cleanup)
  then show ?thesis
    by (simp add: run_cleanup_def split_beta Let_def repair_does_nothing engine_ok_adjust)
qed

text \<open>Every operation of the engine, with any clock and any input.\<close>

inductive engine_reachable :: "duration \<Rightarrow> smart_engine \<Rightarrow> bool" for tz where
  started: "engine_reachable tz (new_smart_engine now cfg)"
| evaluated: "engine_reachable tz e \<Longrightarrow> engine_reachable tz (snd (evaluate tz now req e))"
| fed_back: "engine_reachable tz e \<Longrightarrow> engine_reachable tz (engine_record_feedback tz now req e)"
| configured: "engine_reachable tz e \<Longrightarrow> engine_reachable tz (engine_update_config cfg e)"
| threshold_set: "engine_reachable tz e \<Longrightarrow> engine_reachable tz (set_ip_threshold ip thr e)"
| baseline_set: "engine_reachable tz e \<Longrightarrow> engine_reachable tz (update_baseline ip b e)"
| fingerprint_set: "engine_reachable tz e \<Longrightarrow> engine_reachable tz (set_fingerprint_for_ip now ip fp e)"
| pardoned_ip: "engine_reachable tz e \<Longrightarrow> engine_reachable tz (pardon_ip ip e)"
| cleaned: "engine_reachable tz e \<Longrightarrow> engine_reachable tz (run_cleanup tz now e)"

lemma reachable_engine_ok: "engine_reachable tz e \<Longrightarrow> engine_ok e"
proof (induction rule: engine_reachable.induct)
  case (baseline_set e ip b)
  then show ?case by (simp add: engine_ok_def update_baseline_def)
qed (simp_all add: engine_ok_new engine_ok_evaluate engine_ok_feedback engine_ok_update_config
    engine_ok_set_ip_threshold engine_ok_set_fingerprint engine_ok_pardon engine_ok_cleanup)

end
