(* ===== verification/SmartLimitProps.thy ===== *)
theory SmartLimitProps
  imports SmartLimit
begin

text \<open>
  What the decisions of \<open>SmartLimit\<close> amount to: who is never limited, what the observe mode still
  does, when the engine slows a client down, what a regular interval does to the score, what the
  automatic repair repairs, and where the learned weights end up.
\<close>

definition sample_engine_cfg :: "config \<Rightarrow> smart_engine" where
  "sample_engine_cfg cfg = new_smart_engine 1 cfg"

lemma sample_reachable: "engine_reachable tz (sample_engine_cfg cfg)"
  unfolding sample_engine_cfg_def by (rule started)

text \<open>
  C32. Every state the engine can reach is consistent: every stored profile satisfies its invariant
  and lies under its own address, the profile store and the engine read one configuration, the
  networks of the whitelist are those of the current configuration, the fingerprint index agrees
  in both directions and the attack counts add up.
\<close>

theorem engine_invariant:
  assumes "engine_reachable tz e"
  shows "engine_ok e"
  by (rule reachable_engine_ok[OF assms])

lemma engine_invariant_witness:
  "engine_ok (engine_update_config default_config
     (engine_record_feedback 0 5 (sample_request ''/x'' 404) (sample_engine_cfg default_config)))"
  by (rule engine_invariant[of 0]) (intro configured fed_back sample_reachable)

subsection \<open>Who is never limited\<close>

text \<open>
  A disabled engine and a whitelisted address: the answer is \<open>Allow\<close> with a score of zero, and
  nothing is counted, neither in the profiles nor in the global rate; only the cached copy of the
  settings may have been renewed.
\<close>

theorem whitelisted_never_limited:
  assumes "\<not> c_Enabled (e_config e) \<or>
    whitelisted (fst (get_config_cached now e)) (e_whitelistNets e) (ri_IP req) \<noteq> None"
  shows "d_Action (fst (evaluate tz now req e)) = Allow \<and> d_Score (fst (evaluate tz now req e)) = 0 \<and>
    snd (evaluate tz now req e) = snd (get_config_cached now e)"
proof -
  have nets: "e_whitelistNets (snd (get_config_cached now e)) = e_whitelistNets e"
    using get_config_cached_core[of e now] by (simp add: same_core_def)
  show ?thesis
    using assms nets
    by (auto simp: evaluate_def Let_def split_beta get_enabled_def plain_decision_def)
qed

lemma whitelisted_never_limited_witness:
  defines "e \<equiv> sample_engine_cfg (default_config\<lparr>c_WhitelistIPs := [''10.0.0.1'']\<rparr>)"
  shows "d_Action (fst (evaluate 0 5 (sample_request ''/.env'' 200) e)) = Allow"
proof -
  have "fst (get_config_cached 5 e) = clone (default_config\<lparr>c_WhitelistIPs := [''10.0.0.1'']\<rparr>)"
    by (simp add: e_def sample_engine_cfg_def new_smart_engine_def get_config_cached_def rebuild_whitelist_nets_def)
  then have "whitelisted (fst (get_config_cached 5 e)) (e_whitelistNets e)
      (ri_IP (sample_request ''/.env'' 200)) \<noteq> None"
    by (simp add: whitelisted_def clone_eq sample_request_def)
  then show ?thesis
    using whitelisted_never_limited[of e 5 "sample_request ''/.env'' 200" 0] by blast
qed

subsection \<open>The observe mode\<close>

lemma final_action_observe: "fst (final_action cfg True total_score) = Allow"
  by (simp add: final_action_def Let_def split: if_split)

lemma judge_observe:
  "d_Action (fst (judge cfg True tz now req s e)) =
     (if suspect_fingerprint cfg (ri_IP req) (e_fingerprints e) then Challenge
      else if qps_exceeded cfg e then Throttle else Allow)"
  by (auto simp: judge_def plain_decision_def Let_def request_limit_decision_def
      block_limit_decision_def scored_decision_def split_beta final_action_observe split: option.split)

definition counted :: "instant \<Rightarrow> smart_engine \<Rightarrow> smart_engine" where
  "counted now e = (let e = snd (get_config_cached now e) in e\<lparr>e_globalQPS := snd (win_incr now (e_globalQPS e))\<rparr>)"

text \<open>
  In observe mode the engine still acts: an address with a suspicious fingerprint is
  challenged and, when the global rate is exceeded, every request is throttled. All other
  requests are let through.
\<close>

theorem observe_mode_verdict:
  assumes "c_Mode (e_config e) = ''observe''" "c_Enabled (e_config e)"
    "whitelisted (fst (get_config_cached now e)) (e_whitelistNets e) (ri_IP req) = None"
  shows "d_Action (fst (evaluate tz now req e)) =
    (if suspect_fingerprint (fst (get_config_cached now e)) (ri_IP req) (e_fingerprints e) then Challenge
     else if qps_exceeded (fst (get_config_cached now e)) (counted now e) then Throttle else Allow)"
proof -
  have core: "e_whitelistNets (snd (get_config_cached now e)) = e_whitelistNets e"
    "e_fingerprints (snd (get_config_cached now e)) = e_fingerprints e"
    using get_config_cached_core[of e now] by (simp_all add: same_core_def)
  show ?thesis
    using assms core
    by (simp add: evaluate_def Let_def split_beta get_enabled_def get_mode_def judge_observe
        counted_def qps_exceeded_def)
qed

lemma observe_mode_verdict_witness:
  defines "cfg \<equiv> default_config\<lparr>c_Mode := ''observe''\<rparr>"
    and "t \<equiv> mark_suspect ''f'' (fp_record 2 ''10.0.0.1'' ''f'' (new_fingerprint_tracker 1))"
  shows "d_Action (fst (evaluate 0 5 (sample_request ''/x'' 200)
    ((sample_engine_cfg cfg)\<lparr>e_fingerprints := t\<rparr>))) = Challenge"
proof -
  let ?e = "(sample_engine_cfg cfg)\<lparr>e_fingerprints := t\<rparr>"
  have cfg: "c_Mode cfg = ''observe''" "c_Enabled cfg" "c_WhitelistIPs cfg = []" "c_FingerprintEnabled cfg"
    by (simp_all add: cfg_def default_config_def)
  have c: "fst (get_config_cached 5 ?e) = clone cfg" "e_fingerprints ?e = t"
    "e_config ?e = cfg" "e_whitelistNets ?e = []"
    by (simp_all add: sample_engine_cfg_def new_smart_engine_def get_config_cached_def
        rebuild_whitelist_nets_def whitelist_nets_def List.map_filter_def cfg(3))
  have ip: "ri_IP (sample_request ''/x'' 200) = ''10.0.0.1''" by (simp add: sample_request_def)
  have w: "whitelisted (clone cfg) [] (ri_IP (sample_request ''/x'' 200)) = None"
    by (simp add: whitelisted_def clone_eq cfg(3) split: option.split)
  have "suspect_fingerprint (clone cfg) ''10.0.0.1'' t"
    by (simp add: suspect_fingerprint_def get_fingerprint_def is_suspect_def t_def mark_suspect_def
        fp_record_def new_fingerprint_tracker_def clone_eq cfg(4))
  then show ?thesis
    using observe_mode_verdict[of ?e 5 "sample_request ''/x'' 200" 0] w by (simp add: c cfg(1,2) ip)
qed

subsection \<open>The slowdown\<close>

lemma final_action_slowdown:
  "fst (final_action cfg obs total_score) = Slowdown \<longleftrightarrow>
     \<not> obs \<and> 0 < total_score \<and> c_ChallengeThreshold cfg * (6 / 10) \<le> total_score \<and>
     total_score < c_ThrottleThreshold cfg \<and> total_score < c_ChallengeThreshold cfg \<and>
     total_score < c_BlockThreshold cfg"
  by (auto simp: final_action_def Let_def)

text \<open>
  The progressive slowdown has room only below the throttle threshold and from 0.6 of the
  challenge threshold on. With the default settings (0.3 and 0.5) there is no such score: the
  engine never answers \<open>Slowdown\<close>.
\<close>

theorem slowdown_unreachable:
  assumes "c_ThrottleThreshold (fst (get_config_cached now e)) \<le>
    c_ChallengeThreshold (fst (get_config_cached now e)) * (6 / 10)"
  shows "d_Action (fst (evaluate tz now req e)) \<noteq> Slowdown"
proof -
  let ?cfg = "fst (get_config_cached now e)"
  have "fst (final_action ?cfg obs t) \<noteq> Slowdown" for obs t
    using assms by (auto simp: final_action_slowdown)
  then have "d_Action (fst (judge ?cfg obs tz now req s e')) \<noteq> Slowdown" for obs s e'
    by (auto simp: judge_def plain_decision_def Let_def request_limit_decision_def
        block_limit_decision_def scored_decision_def split_beta split: option.split)
  then show ?thesis
    by (simp add: evaluate_def Let_def split_beta plain_decision_def split: option.split)
qed

lemma slowdown_unreachable_witness:
  "d_Action (fst (evaluate 0 5 (sample_request ''/x'' 404) (sample_engine_cfg default_config))) \<noteq> Slowdown"
  by (rule slowdown_unreachable)
    (simp add: sample_engine_cfg_def new_smart_engine_def get_config_cached_def
      rebuild_whitelist_nets_def clone_eq default_config_def)

subsection \<open>Regular intervals\<close>

text \<open>
  The score for regular request intervals has the wrong sign. With \<open>IntervalVarMin\<close> at least
  0.0001 it is never positive, and it is negative exactly for the traffic it is meant to catch:
  intervals that vary less than \<open>IntervalVarMin\<close>. The more regular the intervals, the lower the
  threat score of the client.
\<close>

theorem regular_intervals_score:
  assumes "1 / 10000 < c_IntervalVarMin cfg"
  shows "interval_var_score cfg s \<le> 0 \<and>
    (interval_var_score cfg s < 0 \<longleftrightarrow>
       s_IntervalVariance s < c_IntervalVarMin cfg \<and> s_IntervalMean s > 0 \<and> s_TotalCount s > 20)"
proof -
  have "1 < c_IntervalVarMin cfg / max (s_IntervalVariance s) (1 / 10000)"
    if "s_IntervalVariance s < c_IntervalVarMin cfg"
    using assms that by (simp add: less_divide_eq max_def)
  then show ?thesis by (auto simp: interval_var_score_def min_def)
qed

lemma regular_intervals_score_witness:
  "interval_var_score default_config
     (snapshot (new_ip_profile 0 ''10.0.0.1'' default_config)
        \<lparr>s_IntervalVariance := 0, s_IntervalMean := 1, s_TotalCount := 30\<rparr>) < 0"
  using regular_intervals_score[of default_config "snapshot (new_ip_profile 0 ''10.0.0.1'' default_config)
      \<lparr>s_IntervalVariance := 0, s_IntervalMean := 1, s_TotalCount := 30\<rparr>"]
  by (simp add: default_config_def)

subsection \<open>The automatic repair\<close>

text \<open>
  The automatic repair of false positives never repairs anything: it asks for more than 500
  passed requests in a row and a trust score below -10, but every passed request adds to the trust
  score, so that after 500 of them it is above that. In every reachable state the repair leaves the
  engine as it is.
\<close>

theorem auto_pardon_never:
  assumes "engine_reachable tz e"
  shows "auto_false_positive_repair tz now e = e"
  by (rule repair_does_nothing[OF reachable_engine_ok[OF assms]])

lemma auto_pardon_never_witness:
  "auto_false_positive_repair 0 9
     (engine_record_feedback 0 5 (sample_request ''/x'' 404) (sample_engine_cfg default_config)) =
   engine_record_feedback 0 5 (sample_request ''/x'' 404) (sample_engine_cfg default_config)"
  by (rule auto_pardon_never) (intro fed_back sample_reachable)

subsection \<open>The learned weights\<close>

definition weights_nonneg :: "config \<Rightarrow> bool" where
  "weights_nonneg c \<longleftrightarrow>
     0 \<le> c_W_RequestRate c \<and> 0 \<le> c_W_BlockRate c \<and> 0 \<le> c_W_ErrorRatio c \<and> 0 \<le> c_W_PathDiv c \<and>
     0 \<le> c_W_RuleDiv c \<and> 0 \<le> c_W_UADiv c \<and> 0 \<le> c_W_IntervalVar c \<and> 0 \<le> c_W_SensitivePath c \<and>
     0 \<le> c_W_GeoAnomaly c \<and> 0 \<le> c_W_CookieAnomaly c \<and> 0 \<le> c_W_MethodAnomaly c \<and>
     0 \<le> c_W_RefererAnomaly c \<and> 0 \<le> c_W_BodyAnomaly c"

lemma learn_nonneg: "0 \<le> w \<Longrightarrow> 0 \<le> learn r hot w"
  by (auto simp: learn_def Let_def)

lemma learn_bounds: "3 / 100 < hot \<Longrightarrow> 2 / 100 \<le> learn r hot w \<and> learn r hot w \<le> 35 / 100"
  by (auto simp: learn_def Let_def)

lemma learn_weights_nonneg: "weights_nonneg c \<Longrightarrow> weights_nonneg (learn_weights hot c)"
  by (simp add: weights_nonneg_def learn_weights_def Let_def learn_nonneg)

lemma scale_weights_nonneg: "0 \<le> k \<Longrightarrow> weights_nonneg c \<Longrightarrow> weights_nonneg (scale_weights k c)"
  by (simp add: weights_nonneg_def scale_weights_def)

lemma normalize_weights_spec:
  "weights_nonneg c \<Longrightarrow> weights_nonneg (normalize_weights c) \<and>
   (0 < weight_sum c \<longrightarrow> \<bar>weight_sum (normalize_weights c) - 1\<bar> < 1 / 1000)"
  by (simp add: normalize_weights_def Let_def scale_weights_nonneg weight_sum_scale)

lemma learn_weights_blockrate: "c_W_BlockRate (learn_weights hot c) = c_W_BlockRate c"
  by (simp add: learn_weights_def Let_def)

lemma weight_sum_pos: "weights_nonneg c \<Longrightarrow> 0 < c_W_BlockRate c \<Longrightarrow> 0 < weight_sum c"
  by (simp add: weights_nonneg_def weight_sum_def)

text \<open>
  A run of the weight adjustment keeps every weight non-negative and, when one is due, leaves
  weights that add up to 1 within 0.001, whatever the attack statistics say (for weights of which
  the block rate, which is not learned, has a positive share).
\<close>

theorem adjusted_weights_normalised:
  assumes "weights_nonneg (e_config e)" "0 < c_W_BlockRate (e_config e)"
    "c_AutoWeightEnabled (e_config e)" "60 * nano_second \<le> time_sub now (e_lastWeightUpdate e)"
  shows "weights_nonneg (e_config (adjust_weights now e)) \<and>
    \<bar>weight_sum (e_config (adjust_weights now e)) - 1\<bar> < 1 / 1000"
proof -
  obtain hot b where c: "e_config (adjust_weights now e) =
      normalize_weights (if b then learn_weights hot (e_config e) else e_config e)"
  proof -
    let ?hot = "get_weights attack_types (reset_if_needed now (e_attackStats e))"
    let ?b = "foldl (\<lambda>m t. if ?hot t > m then ?hot t else m) 0 attack_types > 5 / 100"
    have "e_config (adjust_weights now e) =
        normalize_weights (if ?b then learn_weights ?hot (e_config e) else e_config e)"
      using assms(3,4) unfolding adjust_weights_def set_shared_config_def Let_def by (simp cong: if_cong)
    then show thesis by (rule that)
  qed
  let ?c = "if b then learn_weights hot (e_config e) else e_config e"
  have "weights_nonneg ?c" "0 < weight_sum ?c"
    using assms(1,2) learn_weights_nonneg[OF assms(1), of hot]
    by (simp_all add: weight_sum_pos learn_weights_blockrate)
  then show ?thesis unfolding c using normalize_weights_spec[of ?c] by blast
qed

lemma adjusted_weights_normalised_witness:
  "\<bar>weight_sum (e_config (adjust_weights (100 * nano_second) (sample_engine_cfg default_config))) - 1\<bar> < 1 / 1000"
  using adjusted_weights_normalised[of "sample_engine_cfg default_config" "100 * nano_second"]
  by (simp add: sample_engine_cfg_def new_smart_engine_def rebuild_whitelist_nets_def weights_nonneg_def
      default_config_def zero_time_def time_sub_def)

end
