(* ===== verification/DetectorRules.thy ===== *)
theory DetectorRules
  imports Regexp
begin

text \<open>
  The built-in pattern tables of \<open>internal/domain/security/detector\<close>, row by row: the
  \<open>patternEntries\<close> (pattern and description) each detector compiles when it is created, and
  the tables \<open>config.go\<close> inserts into \<open>detection_rules\<close> (\<open>builtin_*\<close>). A pattern is written
  with \<open>~\<close> for its backslashes (\<open>rx\<close>), a Chinese description by its UTF-8 bytes.
\<close>

subsection \<open>Tables of the detectors\<close>

definition sql_patterns :: "(string \<times> string) list" where
  \<open>sql_patterns =
     [(rx ''(?i)~bunion~b.*~bselect~b'', ''UNION'' @ utf8 [230, 179, 168, 229, 133, 165]),
      (rx ''(?i)~bunion~b.*~ball~b.*~bselect~b'', ''UNION ALL'' @ utf8 [230, 179, 168, 229, 133, 165]),
      (rx ''(?i)~bselect~b.*~bfrom~b'', ''SELECT'' @ utf8 [230, 179, 168, 229, 133, 165]),
      (rx ''(?i)~bselect~b.*~*.*~bfrom~b'', ''SELECT * '' @ utf8 [230, 179, 168, 229, 133, 165]),
      (rx ''(?i)/~*.*~*/'', utf8 [230, 179, 168, 233, 135, 138, 230, 179, 168, 229, 133, 165]),
      (rx ''(?i)--~s*$'', ''SQL'' @ utf8 [230, 179, 168, 233, 135, 138]),
      (rx ''(?i);~s*--'', utf8 [229, 136, 134, 229, 143, 183, 230, 179, 168, 233, 135, 138]),
      (rx ''(?i);~s*select~b'', utf8 [229, 160, 134, 229, 143, 160, 230, 159, 165, 232, 175, 162] @ ''SELECT''),
      (rx ''(?i);~s*insert~b'', utf8 [229, 160, 134, 229, 143, 160, 230, 159, 165, 232, 175, 162] @ ''INSERT''),
      (rx ''(?i);~s*update~b'', utf8 [229, 160, 134, 229, 143, 160, 230, 159, 165, 232, 175, 162] @ ''UPDATE''),
      (rx ''(?i);~s*delete~b'', utf8 [229, 160, 134, 229, 143, 160, 230, 159, 165, 232, 175, 162] @ ''DELETE''),
      (rx ''(?i);~s*drop~b'', utf8 [229, 160, 134, 229, 143, 160, 230, 159, 165, 232, 175, 162] @ ''DROP''),
      (rx ''(?i);~s*exec~b'', utf8 [229, 160, 134, 229, 143, 160, 230, 159, 165, 232, 175, 162] @ ''EXEC''),
      (rx ''(?i);~s*execute~b'', utf8 [229, 160, 134, 229, 143, 160, 230, 159, 165, 232, 175, 162] @ ''EXECUTE''),
      (rx ''(?i)~bor~b~s+[\'"]?~d+[\'"]?~s*=~s*[\'"]?~d+'', utf8 [229, 184, 131, 229, 176, 148, 230, 179, 168, 229, 133, 165] @ ''OR''),
      (rx ''(?i)~band~b~s+[\'"]?~d+[\'"]?~s*=~s*[\'"]?~d+'', utf8 [229, 184, 131, 229, 176, 148, 230, 179, 168, 229, 133, 165] @ ''AND''),
      (rx ''(?i)~bor~b~s+[\'"]?[\'"]?~s*=~s*[\'"]?[\'"]?'', utf8 [229, 184, 131, 229, 176, 148, 230, 179, 168, 229, 133, 165, 231, 174, 128, 229, 140, 150]),
      (rx ''(?i)~bsleep~b~s*~('', utf8 [230, 151, 182, 233, 151, 180, 231, 155, 178, 230, 179, 168] @ ''SLEEP''),
      (rx ''(?i)~bwaitfor~b.*~bdelay~b'', utf8 [230, 151, 182, 233, 151, 180, 231, 155, 178, 230, 179, 168] @ ''WAITFOR''),
      (rx ''(?i)~bbenchmark~b~s*~('', utf8 [230, 151, 182, 233, 151, 180, 231, 155, 178, 230, 179, 168] @ ''BENCHMARK''),
      (rx ''(?i)~bextractvalue~b~s*~('', utf8 [230, 138, 165, 233, 148, 153, 230, 179, 168, 229, 133, 165] @ ''EXTRACTVALUE''),
      (rx ''(?i)~bupdatexml~b~s*~('', utf8 [230, 138, 165, 233, 148, 153, 230, 179, 168, 229, 133, 165] @ ''UPDATEXML''),
      (rx ''(?i)~bfloor~b~s*~('', utf8 [230, 138, 165, 233, 148, 153, 230, 179, 168, 229, 133, 165] @ ''FLOOR''),
      (rx ''(?i)~bload_file~b~s*~('', utf8 [230, 150, 135, 228, 187, 182, 232, 175, 187, 229, 143, 150]),
      (rx ''(?i)~binto~b~s+~boutfile~b'', utf8 [230, 150, 135, 228, 187, 182, 229, 134, 153, 229, 133, 165] @ ''OUTFILE''),
      (rx ''(?i)~binto~b~s+~bdumpfile~b'', utf8 [230, 150, 135, 228, 187, 182, 229, 134, 153, 229, 133, 165] @ ''DUMPFILE''),
      (rx ''(?i)~bversion~b~s*~('', utf8 [228, 191, 161, 230, 129, 175, 230, 179, 132, 233, 156, 178] @ ''VERSION''),
      (rx ''(?i)~bdatabase~b~s*~('', utf8 [228, 191, 161, 230, 129, 175, 230, 179, 132, 233, 156, 178] @ ''DATABASE''),
      (rx ''(?i)~buser~b~s*~('', utf8 [228, 191, 161, 230, 129, 175, 230, 179, 132, 233, 156, 178] @ ''USER''),
      (rx ''(?i)~bschema~b'', utf8 [228, 191, 161, 230, 129, 175, 230, 179, 132, 233, 156, 178] @ ''SCHEMA''),
      (rx ''(?i)~bexec~b~s*~('', utf8 [229, 141, 177, 233, 153, 169, 229, 135, 189, 230, 149, 176] @ ''EXEC''),
      (rx ''(?i)~bexecute~b~s*~('', utf8 [229, 141, 177, 233, 153, 169, 229, 135, 189, 230, 149, 176] @ ''EXECUTE''),
      (rx ''(?i)~bsp_executesql~b'', utf8 [229, 141, 177, 233, 153, 169, 229, 135, 189, 230, 149, 176] @ ''SP_EXECUTESQL''),
      (''(?i)0x[0-9a-f]+'', utf8 [231, 188, 150, 231, 160, 129, 231, 187, 149, 232, 191, 135, 229, 141, 129, 229, 133, 173, 232, 191, 155, 229, 136, 182]),
      (rx ''(?i)char~s*~('', utf8 [231, 188, 150, 231, 160, 129, 231, 187, 149, 232, 191, 135] @ ''CHAR''),
      (rx ''(?i)chr~s*~('', utf8 [231, 188, 150, 231, 160, 129, 231, 187, 149, 232, 191, 135] @ ''CHR''),
      (rx ''(?i)concat~s*~('', utf8 [231, 188, 150, 231, 160, 129, 231, 187, 149, 232, 191, 135] @ ''CONCAT''),
      (rx ''(?i)\'~s*or~s*'' @ [CHR 0x27], utf8 [233, 128, 187, 232, 190, 145, 230, 179, 168, 229, 133, 165] @ ''OR''),
      (rx ''(?i)"~s*or~s*"'', utf8 [233, 128, 187, 232, 190, 145, 230, 179, 168, 229, 133, 165] @ ''OR'' @ utf8 [229, 143, 140, 229, 188, 149, 229, 143, 183]),
      (rx ''(?i)\'~s*and~s*'' @ [CHR 0x27], utf8 [233, 128, 187, 232, 190, 145, 230, 179, 168, 229, 133, 165] @ ''AND''),
      (rx ''(?i)"~s*and~s*"'', utf8 [233, 128, 187, 232, 190, 145, 230, 179, 168, 229, 133, 165] @ ''AND'' @ utf8 [229, 143, 140, 229, 188, 149, 229, 143, 183]),
      (rx ''(?i)\'~s*;'', utf8 [231, 137, 185, 230, 174, 138, 229, 173, 151, 231, 172, 166, 229, 141, 149, 229, 188, 149, 229, 143, 183, 229, 136, 134, 229, 143, 183]),
      (rx ''(?i)"~s*;'', utf8 [231, 137, 185, 230, 174, 138, 229, 173, 151, 231, 172, 166, 229, 143, 140, 229, 188, 149, 229, 143, 183, 229, 136, 134, 229, 143, 183]),
      (rx ''(?i)\'~s*~)'', utf8 [231, 137, 185, 230, 174, 138, 229, 173, 151, 231, 172, 166, 229, 141, 149, 229, 188, 149, 229, 143, 183, 230, 139, 172, 229, 143, 183]),
      (rx ''(?i)"~s*~)'', utf8 [231, 137, 185, 230, 174, 138, 229, 173, 151, 231, 172, 166, 229, 143, 140, 229, 188, 149, 229, 143, 183, 230, 139, 172, 229, 143, 183])]\<close>

definition xss_patterns :: "(string \<times> string) list" where
  \<open>xss_patterns =
     [(''(?i)<script[^>]*>.*?</script>'', ''Script'' @ utf8 [230, 160, 135, 231, 173, 190]),
      (''(?i)<script[^>]*>'', ''Script'' @ utf8 [230, 160, 135, 231, 173, 190, 229, 188, 128, 229, 167, 139]),
      (''(?i)</script>'', ''Script'' @ utf8 [230, 160, 135, 231, 173, 190, 231, 187, 147, 230, 157, 159]),
      (rx ''(?i)~bon~w+~s*='', utf8 [228, 186, 139, 228, 187, 182, 229, 164, 132, 231, 144, 134, 229, 153, 168, 233, 128, 154, 231, 148, 168]),
      (rx ''(?i)onclick~s*='', utf8 [228, 186, 139, 228, 187, 182] @ ''onclick''),
      (rx ''(?i)onerror~s*='', utf8 [228, 186, 139, 228, 187, 182] @ ''onerror''),
      (rx ''(?i)onload~s*='', utf8 [228, 186, 139, 228, 187, 182] @ ''onload''),
      (rx ''(?i)onmouseover~s*='', utf8 [228, 186, 139, 228, 187, 182] @ ''onmouseover''),
      (rx ''(?i)onfocus~s*='', utf8 [228, 186, 139, 228, 187, 182] @ ''onfocus''),
      (rx ''(?i)onblur~s*='', utf8 [228, 186, 139, 228, 187, 182] @ ''onblur''),
      (rx ''(?i)onsubmit~s*='', utf8 [228, 186, 139, 228, 187, 182] @ ''onsubmit''),
      (rx ''(?i)onkeyup~s*='', utf8 [228, 186, 139, 228, 187, 182] @ ''onkeyup''),
      (rx ''(?i)onkeydown~s*='', utf8 [228, 186, 139, 228, 187, 182] @ ''onkeydown''),
      (rx ''(?i)onkeypress~s*='', utf8 [228, 186, 139, 228, 187, 182] @ ''onkeypress''),
      (rx ''(?i)javascript~s*:'', ''JavaScript'' @ utf8 [229, 141, 143, 232, 174, 174]),
      (rx ''(?i)vbscript~s*:'', ''VBScript'' @ utf8 [229, 141, 143, 232, 174, 174]),
      (rx ''(?i)data~s*:'', ''Data'' @ utf8 [229, 141, 143, 232, 174, 174]),
      (''(?i)<form[^>]*>'', ''Form'' @ utf8 [232, 161, 168, 229, 141, 149]),
      (''(?i)<input[^>]*>'', ''Input'' @ utf8 [232, 190, 147, 229, 133, 165, 230, 161, 134]),
      (''(?i)<button[^>]*>'', ''Button'' @ utf8 [230, 140, 137, 233, 146, 174]),
      (''(?i)<iframe[^>]*>'', ''Iframe'' @ utf8 [230, 161, 134, 230, 158, 182]),
      (''(?i)<frame[^>]*>'', ''Frame'' @ utf8 [230, 161, 134, 230, 158, 182]),
      (''(?i)<object[^>]*>'', ''Object'' @ utf8 [229, 175, 185, 232, 177, 161]),
      (''(?i)<embed[^>]*>'', ''Embed'' @ utf8 [229, 181, 140, 229, 133, 165]),
      (''(?i)<applet[^>]*>'', ''Applet'' @ utf8 [229, 176, 143, 231, 168, 139, 229, 186, 143]),
      (''(?i)<svg[^>]*>'', ''SVG'' @ utf8 [231, 159, 162, 233, 135, 143, 229, 155, 190]),
      (''(?i)<math[^>]*>'', ''Math'' @ utf8 [230, 149, 176, 229, 173, 166]),
      (''(?i)<style[^>]*>'', ''Style'' @ utf8 [230, 160, 183, 229, 188, 143]),
      (rx ''(?i)expression~s*~('', ''CSS'' @ utf8 [232, 161, 168, 232, 190, 190, 229, 188, 143]),
      (rx ''(?i)behavior~s*:'', ''CSS'' @ utf8 [232, 161, 140, 228, 184, 186]),
      (rx ''(?i)-moz-binding~s*:'', ''Mozilla'' @ utf8 [231, 187, 145, 229, 174, 154]),
      (rx ''(?i)&#~d+;'', ''HTML'' @ utf8 [229, 174, 158, 228, 189, 147, 230, 149, 176, 229, 173, 151]),
      (''(?i)&#x[0-9a-f]+;'', ''HTML'' @ utf8 [229, 174, 158, 228, 189, 147, 229, 141, 129, 229, 133, 173, 232, 191, 155, 229, 136, 182]),
      (rx ''(?i)src~s*=~s*["\']?javascript:'', ''Src JavaScript''),
      (rx ''(?i)href~s*=~s*["\']?javascript:'', ''Href JavaScript''),
      (rx ''(?i)action~s*=~s*["\']?javascript:'', ''Action JavaScript''),
      (rx ''(?i)document~s*~.~s*cookie'', ''Document Cookie''),
      (rx ''(?i)document~s*~.~s*location'', ''Document Location''),
      (rx ''(?i)document~s*~.~s*write'', ''Document Write''),
      (rx ''(?i)window~s*~.~s*location'', ''Window Location''),
      (rx ''(?i)eval~s*~('', ''Eval'' @ utf8 [229, 135, 189, 230, 149, 176]),
      (rx ''(?i)setTimeout~s*~('', ''SetTimeout''),
      (rx ''(?i)setInterval~s*~('', ''SetInterval''),
      (rx ''(?i)String~s*~.~s*fromCharCode'', ''FromCharCode''),
      (rx ''(?i)atob~s*~('', ''Atob'' @ utf8 [232, 167, 163, 231, 160, 129]),
      (rx ''(?i)btoa~s*~('', ''Btoa'' @ utf8 [231, 188, 150, 231, 160, 129]),
      (rx ''(?i)unescape~s*~('', ''Unescape''),
      (rx ''(?i)decodeURI~s*~('', ''DecodeURI''),
      (rx ''(?i)decodeURIComponent~s*~('', ''DecodeURIComponent'')]\<close>

definition path_patterns :: "(string \<times> string) list" where
  \<open>path_patterns =
     [(rx ''(?i)~.~./'', utf8 [231, 155, 174, 229, 189, 149, 233, 129, 141, 229, 142, 134] @ ''../''),
      (rx ''(?i)~.~.~~'', utf8 [231, 155, 174, 229, 189, 149, 233, 129, 141, 229, 142, 134] @ rx ''..~''),
      (rx ''(?i)/~.~./'', utf8 [232, 183, 175, 229, 190, 132, 233, 129, 141, 229, 142, 134] @ ''/../../''),
      (rx ''(?i)~~~.~.~~'', utf8 [232, 183, 175, 229, 190, 132, 233, 129, 141, 229, 142, 134] @ rx ''~..~~''),
      (rx ''(?i)~.~./~.~./'', utf8 [229, 143, 140, 233, 135, 141, 233, 129, 141, 229, 142, 134] @ ''../../''),
      (rx ''(?i)~.~.%2f'', utf8 [231, 188, 150, 231, 160, 129, 233, 129, 141, 229, 142, 134] @ ''..%2f''),
      (rx ''(?i)~.~.%5c'', utf8 [231, 188, 150, 231, 160, 129, 233, 129, 141, 229, 142, 134] @ ''..%5c''),
      (''(?i)%2e%2e/'', utf8 [231, 188, 150, 231, 160, 129, 233, 129, 141, 229, 142, 134] @ ''%2e%2e/''),
      (''(?i)%2e%2e%2f'', utf8 [231, 188, 150, 231, 160, 129, 233, 129, 141, 229, 142, 134] @ ''%2e%2e%2f''),
      (rx ''(?i)%2e%2e~~'', utf8 [231, 188, 150, 231, 160, 129, 233, 129, 141, 229, 142, 134] @ rx ''%2e%2e~''),
      (''(?i)%2e%2e%5c'', utf8 [231, 188, 150, 231, 160, 129, 233, 129, 141, 229, 142, 134] @ ''%2e%2e%5c''),
      (''(?i)%252e%252e%252f'', utf8 [229, 143, 140, 233, 135, 141, 231, 188, 150, 231, 160, 129, 233, 129, 141, 229, 142, 134]),
      (''(?i)%252e%252e/'', utf8 [229, 143, 140, 233, 135, 141, 231, 188, 150, 231, 160, 129, 233, 129, 141, 229, 142, 134] @ ''2''),
      (''(?i)%c0%ae%c0%ae/'', ''Unicode'' @ utf8 [231, 188, 150, 231, 160, 129, 233, 129, 141, 229, 142, 134]),
      (''(?i)%c0%ae%c0%ae%c0%af'', ''Unicode'' @ utf8 [231, 188, 150, 231, 160, 129, 233, 129, 141, 229, 142, 134] @ ''2''),
      (rx ''(?i)~.~./~.~./~.~./'', utf8 [228, 184, 137, 229, 177, 130, 233, 129, 141, 229, 142, 134]),
      (rx ''(?i)~.~.~~~.~.~~~.~.~~'', utf8 [228, 184, 137, 229, 177, 130, 233, 129, 141, 229, 142, 134] @ ''Windows''),
      (''(?i)/etc/passwd'', ''Linux'' @ utf8 [229, 175, 134, 231, 160, 129, 230, 150, 135, 228, 187, 182]),
      (''(?i)/etc/shadow'', ''Linux'' @ utf8 [229, 189, 177, 229, 173, 144, 229, 175, 134, 231, 160, 129]),
      (''(?i)/etc/hosts'', ''Hosts'' @ utf8 [230, 150, 135, 228, 187, 182]),
      (''(?i)/etc/group'', utf8 [231, 148, 168, 230, 136, 183, 231, 187, 132, 230, 150, 135, 228, 187, 182]),
      (''(?i)/proc/self/'', ''Proc'' @ utf8 [230, 150, 135, 228, 187, 182, 231, 179, 187, 231, 187, 159]),
      (''(?i)/proc/version'', ''Proc'' @ utf8 [231, 137, 136, 230, 156, 172, 228, 191, 161, 230, 129, 175]),
      (rx ''(?i)~~windows~~'', ''Windows'' @ utf8 [231, 155, 174, 229, 189, 149]),
      (rx ''(?i)~~winnt~~'', ''Winnt'' @ utf8 [231, 155, 174, 229, 189, 149]),
      (rx ''(?i)~~system32~~'', ''System32'' @ utf8 [231, 155, 174, 229, 189, 149]),
      (rx ''(?i)~~boot~.ini'', ''Boot.ini'' @ utf8 [230, 150, 135, 228, 187, 182]),
      (rx ''(?i)~~inetpub~~'', ''IIS'' @ utf8 [231, 155, 174, 229, 189, 149]),
      (rx ''(?i)~.~./~.~./~.~./~.~./'', utf8 [229, 155, 155, 229, 177, 130, 233, 129, 141, 229, 142, 134]),
      (rx ''(?i)~.~./~.~./~.~./~.~./~.~./'', utf8 [228, 186, 148, 229, 177, 130, 233, 129, 141, 229, 142, 134]),
      (''(?i)%00'', utf8 [231, 169, 186, 229, 173, 151, 232, 138, 130, 230, 179, 168, 229, 133, 165]),
      (rx ''(?i)~.~.%00'', utf8 [233, 129, 141, 229, 142, 134, 231, 169, 186, 229, 173, 151, 232, 138, 130]),
      (''(?i)/%00'', utf8 [232, 183, 175, 229, 190, 132, 231, 169, 186, 229, 173, 151, 232, 138, 130]),
      (rx ''(?i)~.~./%00'', utf8 [233, 129, 141, 229, 142, 134, 231, 169, 186, 229, 173, 151, 232, 138, 130] @ ''2''),
      (''(?i).....///'', utf8 [231, 137, 185, 230, 174, 138, 233, 129, 141, 229, 142, 134, 230, 168, 161, 229, 188, 143]),
      (rx ''(?i)~.~.;/'', utf8 [229, 136, 134, 229, 143, 183, 233, 129, 141, 229, 142, 134]),
      (rx ''(?i)~.~.~.~./'', utf8 [229, 164, 154, 231, 130, 185, 233, 129, 141, 229, 142, 134])]\<close>

definition header_patterns :: "(string \<times> string) list" where
  \<open>header_patterns =
     [(''(?i)%0d%0a'', ''CRLF'' @ utf8 [231, 188, 150, 231, 160, 129, 230, 179, 168, 229, 133, 165]),
      (''(?i)%0d'', ''CR'' @ utf8 [231, 188, 150, 231, 160, 129, 230, 179, 168, 229, 133, 165]),
      (''(?i)%0a'', ''LF'' @ utf8 [231, 188, 150, 231, 160, 129, 230, 179, 168, 229, 133, 165]),
      (utf8 [13, 10], ''CRLF'' @ utf8 [230, 179, 168, 229, 133, 165]),
      (utf8 [13], ''CR'' @ utf8 [230, 179, 168, 229, 133, 165]),
      (utf8 [10], ''LF'' @ utf8 [230, 179, 168, 229, 133, 165]),
      (''(?i)%0d%0a%0d%0a'', utf8 [229, 143, 140, 233, 135, 141] @ ''CRLF'' @ utf8 [231, 188, 150, 231, 160, 129]),
      (''(?i)%0d%0acontent-type:'', ''CRLF'' @ utf8 [230, 179, 168, 229, 133, 165] @ ''Content-Type''),
      (''(?i)%0d%0aset-cookie:'', ''CRLF'' @ utf8 [230, 179, 168, 229, 133, 165] @ ''Set-Cookie''),
      (''(?i)%0d%0alocation:'', ''CRLF'' @ utf8 [230, 179, 168, 229, 133, 165] @ ''Location''),
      (''(?i)'' @ utf8 [13, 10] @ ''content-type:'', ''CRLF'' @ utf8 [230, 179, 168, 229, 133, 165] @ ''Content-Type2''),
      (''(?i)'' @ utf8 [13, 10] @ ''set-cookie:'', ''CRLF'' @ utf8 [230, 179, 168, 229, 133, 165] @ ''Set-Cookie2''),
      (''(?i)'' @ utf8 [13, 10] @ ''location:'', ''CRLF'' @ utf8 [230, 179, 168, 229, 133, 165] @ ''Location2''),
      (''(?i)%0d%0aHTTP/'', ''CRLF'' @ utf8 [230, 179, 168, 229, 133, 165] @ ''HTTP'' @ utf8 [229, 147, 141, 229, 186, 148]),
      (''(?i)'' @ utf8 [13, 10] @ ''HTTP/'', ''CRLF'' @ utf8 [230, 179, 168, 229, 133, 165] @ ''HTTP'' @ utf8 [229, 147, 141, 229, 186, 148] @ ''2'')]\<close>

definition ssrf_patterns :: "(string \<times> string) list" where
  \<open>ssrf_patterns =
     [(rx ''(?i)~bhttp://localhost~b'', ''Localhost'' @ utf8 [232, 174, 191, 233, 151, 174]),
      (rx ''(?i)~bhttp://127~.0~.0~.1~b'', ''127.0.0.1'' @ utf8 [232, 174, 191, 233, 151, 174]),
      (rx ''(?i)~bhttp://0~.0~.0~.0~b'', ''0.0.0.0'' @ utf8 [232, 174, 191, 233, 151, 174]),
      (rx ''(?i)~bhttp://10~.~d+~.~d+~.~d+~b'', ''A'' @ utf8 [231, 177, 187, 229, 134, 133, 231, 189, 145] @ ''IP'' @ utf8 [232, 174, 191, 233, 151, 174]),
      (rx ''(?i)~bhttp://172~.(1[6-9]|2~d|3[01])~.~d+~.~d+~b'', ''B'' @ utf8 [231, 177, 187, 229, 134, 133, 231, 189, 145] @ ''IP'' @ utf8 [232, 174, 191, 233, 151, 174]),
      (rx ''(?i)~bhttp://192~.168~.~d+~.~d+~b'', ''C'' @ utf8 [231, 177, 187, 229, 134, 133, 231, 189, 145] @ ''IP'' @ utf8 [232, 174, 191, 233, 151, 174]),
      (rx ''(?i)~bhttp://169~.254~.~d+~.~d+~b'', utf8 [233, 147, 190, 232, 183, 175, 230, 156, 172, 229, 156, 176] @ ''IP'' @ utf8 [232, 174, 191, 233, 151, 174]),
      (rx ''(?i)~bhttp://~[::1~]~b'', ''IPv6'' @ utf8 [229, 155, 158, 231, 142, 175, 232, 174, 191, 233, 151, 174]),
      (rx ''(?i)~bhttp://~[f[ec][0-9a-f]'', ''IPv6'' @ utf8 [233, 147, 190, 232, 183, 175, 230, 156, 172, 229, 156, 176, 232, 174, 191, 233, 151, 174]),
      (rx ''(?i)~bhttp://~[f[ecd]'', ''IPv6'' @ utf8 [231, 167, 129, 230, 156, 137, 229, 156, 176, 229, 157, 128, 232, 174, 191, 233, 151, 174]),
      (rx ''(?i)~b(?:file|gopher|dict|ftp)://'', utf8 [229, 141, 177, 233, 153, 169, 229, 141, 143, 232, 174, 174] @ ''(file/gopher/dict/ftp)''),
      (rx ''(?i)~b(url|uri)=http://'', ''URL'' @ utf8 [229, 143, 130, 230, 149, 176] @ ''SSRF''),
      (rx ''(?i)~b(url|uri)=file://'', utf8 [230, 150, 135, 228, 187, 182, 229, 141, 143, 232, 174, 174] @ ''SSRF''),
      (rx ''(?i)~b(url|uri)=gopher://'', ''Gopher'' @ utf8 [229, 141, 143, 232, 174, 174] @ ''SSRF''),
      (rx ''(?i)~b(url|uri)=dict://'', ''Dict'' @ utf8 [229, 141, 143, 232, 174, 174] @ ''SSRF''),
      (rx ''(?i)~.metadata~.google~.internal'', ''GCP'' @ utf8 [229, 133, 131, 230, 149, 176, 230, 141, 174, 232, 174, 191, 233, 151, 174]),
      (rx ''(?i)~b169~.254~.169~.254~b'', ''AWS/'' @ utf8 [228, 186, 145, 229, 133, 131, 230, 149, 176, 230, 141, 174] @ ''IP''),
      (''(?i)/latest/meta-data/'', ''AWS'' @ utf8 [229, 133, 131, 230, 149, 176, 230, 141, 174, 232, 183, 175, 229, 190, 132]),
      (''(?i)/metadata/instance'', ''Azure'' @ utf8 [229, 133, 131, 230, 149, 176, 230, 141, 174, 232, 183, 175, 229, 190, 132]),
      (rx ''(?i)~.amazonaws~.com/'', ''AWS'' @ utf8 [230, 156, 141, 229, 138, 161, 231, 171, 175, 231, 130, 185]),
      (rx ''(?i)%0[ad].*Host:~s*~S+'', ''CRLF'' @ utf8 [228, 184, 187, 230, 156, 186, 229, 164, 180, 230, 179, 168, 229, 133, 165] @ ''(SSRF)''),
      (rx ''(?i)~.nip~.io~b'', ''nip.io'' @ utf8 [233, 135, 141, 229, 174, 154, 229, 144, 145] @ ''SSRF''),
      (rx ''(?i)~.xip~.io~b'', ''xip.io'' @ utf8 [233, 135, 141, 229, 174, 154, 229, 144, 145] @ ''SSRF''),
      (rx ''(?i)@~d+~.~d+~.~d+~.~d+'', ''URL'' @ utf8 [228, 184, 173] @ ''@'' @ utf8 [229, 134, 133, 231, 189, 145] @ ''IP''),
      (rx ''(?i)~b~.internal~b'', ''Docker'' @ utf8 [229, 134, 133, 233, 131, 168, 229, 159, 159, 229, 144, 141])]\<close>

definition file_patterns :: "(string \<times> string) list" where
  \<open>file_patterns =
     [(rx ''(?i)~.(php|phtml|php[3-7]|phar|shtml|cgi|pl|py|jsp|jspx|asp|aspx|asa|cer|cfm|swf|war|jsp)'', utf8 [229, 143, 175, 230, 137, 167, 232, 161, 140, 230, 150, 135, 228, 187, 182, 230, 137, 169, 229, 177, 149, 229, 144, 141, 228, 184, 138, 228, 188, 160]),
      (rx ''(?i)~.(exe|dll|so|sh|bat|cmd|com|msi|vbs|ps1|js|jar)'', utf8 [228, 186, 140, 232, 191, 155, 229, 136, 182] @ ''/'' @ utf8 [232, 132, 154, 230, 156, 172, 230, 150, 135, 228, 187, 182, 228, 184, 138, 228, 188, 160]),
      (rx ''(?i)<~?php'', ''PHP'' @ utf8 [228, 187, 163, 231, 160, 129, 230, 160, 135, 231, 173, 190]),
      (''(?i)<%[^>]*%>'', ''ASP'' @ utf8 [228, 187, 163, 231, 160, 129, 230, 160, 135, 231, 173, 190]),
      (''(?i)<script[^>]*>'', ''Script'' @ utf8 [230, 160, 135, 231, 173, 190, 230, 179, 168, 229, 133, 165]),
      (rx ''(?i)Content-Type:~s*application/x-httpd-php'', utf8 [228, 188, 170, 232, 163, 133] @ ''PHP Content-Type''),
      (rx ''(?i)Content-Type:~s*application/octet-stream'', utf8 [229, 143, 175, 231, 150, 145, 228, 186, 140, 232, 191, 155, 229, 136, 182] @ ''Content-Type''),
      (rx ''(?i)~.htaccess'', ''.htaccess'' @ utf8 [230, 150, 135, 228, 187, 182, 228, 184, 138, 228, 188, 160]),
      (rx ''(?i)~.user~.ini'', ''.user.ini'' @ utf8 [230, 150, 135, 228, 187, 182, 228, 184, 138, 228, 188, 160]),
      (rx ''(?i)~.(config|conf|ini|yaml|yml|json|xml)'', utf8 [233, 133, 141, 231, 189, 174, 230, 150, 135, 228, 187, 182, 228, 184, 138, 228, 188, 160]),
      (rx ''(?i)~.(bak|backup|old|orig|swp|tmp|temp)'', utf8 [229, 164, 135, 228, 187, 189] @ ''/'' @ utf8 [228, 184, 180, 230, 151, 182, 230, 150, 135, 228, 187, 182, 228, 184, 138, 228, 188, 160]),
      (''(?i)%00'', utf8 [231, 169, 186, 229, 173, 151, 232, 138, 130, 230, 179, 168, 229, 133, 165] @ ''('' @ utf8 [230, 136, 170, 230, 150, 173] @ '')''),
      (rx ''(?i)~.~./'', utf8 [232, 183, 175, 229, 190, 132, 233, 129, 141, 229, 142, 134, 228, 184, 138, 228, 188, 160]),
      (rx ''(?i)~.~.~~'', utf8 [232, 183, 175, 229, 190, 132, 233, 129, 141, 229, 142, 134, 228, 184, 138, 228, 188, 160] @ ''Windows''),
      (rx ''(?i)~.jpg~.php'', utf8 [229, 143, 140, 230, 137, 169, 229, 177, 149, 229, 144, 141, 228, 188, 170, 232, 163, 133]),
      (rx ''(?i)~.gif~.'', ''GIF'' @ utf8 [229, 164, 180, 233, 131, 168, 228, 188, 170, 232, 163, 133] @ ''+'' @ utf8 [232, 132, 154, 230, 156, 172]),
      (rx ''(?i)GIF89a.*<~?php'', ''GIF89a'' @ utf8 [228, 188, 170, 232, 163, 133] @ ''PHP''),
      (rx ''(?i)~bexec~b~s*~('', utf8 [228, 187, 163, 231, 160, 129, 230, 137, 167, 232, 161, 140, 229, 135, 189, 230, 149, 176] @ ''EXEC''),
      (rx ''(?i)~bpassthru~b~s*~('', utf8 [228, 187, 163, 231, 160, 129, 230, 137, 167, 232, 161, 140, 229, 135, 189, 230, 149, 176] @ ''PASSTHRU''),
      (rx ''(?i)~bshell_exec~b~s*~('', utf8 [228, 187, 163, 231, 160, 129, 230, 137, 167, 232, 161, 140, 229, 135, 189, 230, 149, 176] @ ''SHELL_EXEC''),
      (rx ''(?i)~bsystem~b~s*~('', utf8 [228, 187, 163, 231, 160, 129, 230, 137, 167, 232, 161, 140, 229, 135, 189, 230, 149, 176] @ ''SYSTEM''),
      (rx ''(?i)~bpopen~b~s*~('', utf8 [228, 187, 163, 231, 160, 129, 230, 137, 167, 232, 161, 140, 229, 135, 189, 230, 149, 176] @ ''POPEN''),
      (rx ''(?i)~bproc_open~b~s*~('', utf8 [228, 187, 163, 231, 160, 129, 230, 137, 167, 232, 161, 140, 229, 135, 189, 230, 149, 176] @ ''PROC_OPEN''),
      (rx ''(?i)~beval~b~s*~('', utf8 [228, 187, 163, 231, 160, 129, 230, 137, 167, 232, 161, 140, 229, 135, 189, 230, 149, 176] @ ''EVAL''),
      (rx ''(?i)~bassert~b~s*~('', utf8 [228, 187, 163, 231, 160, 129, 230, 137, 167, 232, 161, 140, 229, 135, 189, 230, 149, 176] @ ''ASSERT'')]\<close>

definition error_patterns :: "(string \<times> string) list" where
  \<open>error_patterns =
     [(rx ''(?i)Traceback~s*~(most recent call last~)'', ''Python'' @ utf8 [229, 160, 134, 230, 160, 136, 232, 183, 159, 232, 184, 170]),
      (rx ''(?i)Exception~s+in~s+thread~s+"main"'', ''Java'' @ utf8 [229, 188, 130, 229, 184, 184, 229, 160, 134, 230, 160, 136]),
      (rx ''(?i)java~.lang~.~w+Exception'', ''Java'' @ utf8 [229, 188, 130, 229, 184, 184, 231, 177, 187, 229, 144, 141]),
      (rx ''(?i)at~s+[a-zA-Z_][~w.$]+~([~w]+~.java:~d+~)'', ''Java'' @ utf8 [229, 160, 134, 230, 160, 136, 232, 161, 140]),
      (rx ''(?i)Fatal error:~s*Uncaught~s+Error'', ''PHP'' @ utf8 [232, 135, 180, 229, 145, 189, 233, 148, 153, 232, 175, 175]),
      (rx ''(?i)PHP~s+Fatal~s+error'', ''PHP Fatal''),
      (rx ''(?i)PHP~s+Warning:~s+'', ''PHP Warning''),
      (rx ''(?i)PHP~s+Notice:~s+'', ''PHP Notice''),
      (rx ''(?i)Stack~s+overflow'', utf8 [230, 160, 136, 230, 186, 162, 229, 135, 186]),
      (rx ''(?i)Microsoft~s+OLE~s+DB~s+Provider'', ''OLE DB'' @ utf8 [233, 148, 153, 232, 175, 175]),
      (rx ''(?i)ORA-~d{5}'', ''Oracle'' @ utf8 [233, 148, 153, 232, 175, 175, 231, 160, 129]),
      (rx ''(?i)Microsoft~s+SQL~s+Server~s+error~s+~d+'', ''MSSQL'' @ utf8 [233, 148, 153, 232, 175, 175]),
      (rx ''(?i)MySQL~s+Error~s*~(?~d{4}~)?'', ''MySQL'' @ utf8 [233, 148, 153, 232, 175, 175]),
      (rx ''(?i)PostgreSQL~s+query~s+failed'', ''PostgreSQL'' @ utf8 [233, 148, 153, 232, 175, 175]),
      (rx ''(?i)SQLSTATE~[~w+~]'', ''PDO SQLSTATE''),
      (rx ''(?i)sqlite3~.OperationalError'', ''SQLite'' @ utf8 [233, 148, 153, 232, 175, 175]),
      (rx ''(?i)(?:/usr/local/bin/|/var/www/|C:~~Inetpub~~)'', utf8 [230, 156, 141, 229, 138, 161, 229, 153, 168, 232, 183, 175, 229, 190, 132, 230, 179, 132, 233, 156, 178]),
      (rx ''(?i)Apache/[~d.]+~s*~(.*~)'', ''Apache'' @ utf8 [231, 137, 136, 230, 156, 172, 228, 191, 161, 230, 129, 175]),
      (rx ''(?i)nginx/[~d.]+'', ''Nginx'' @ utf8 [231, 137, 136, 230, 156, 172, 228, 191, 161, 230, 129, 175]),
      (rx ''(?i)Server:~s*(?:Apache|nginx|lighttpd|IIS)/[~d.]+'', ''Server'' @ utf8 [229, 164, 180, 231, 137, 136, 230, 156, 172]),
      (rx ''(?i)X-Powered-By:~s*PHP/[~d.]+'', ''PHP'' @ utf8 [231, 137, 136, 230, 156, 172, 228, 191, 161, 230, 129, 175]),
      (rx ''(?i)ASP~.NET~s+Version:~s*[~d.]+'', ''ASP.NET'' @ utf8 [231, 137, 136, 230, 156, 172]),
      (rx ''(?i)Debug~s+Trace.*?---~s+End~s+Trace'', ''Django Debug'' @ utf8 [233, 161, 181, 233, 157, 162]),
      (rx ''(?i)<title>404~s*.*?(?:nginx|Apache|IIS)'', utf8 [233, 187, 152, 232, 174, 164] @ ''404'' @ utf8 [233, 161, 181, 233, 157, 162]),
      (rx ''(?i)config~.php|wp-config~.php|database~.yml'', utf8 [233, 133, 141, 231, 189, 174, 230, 150, 135, 228, 187, 182, 229, 188, 149, 231, 148, 168]),
      (''(?i)SECRETE_KEY|DATABASE_URL|API_KEY'', utf8 [231, 142, 175, 229, 162, 131, 229, 143, 152, 233, 135, 143, 229, 144, 141, 230, 179, 132, 233, 156, 178]),
      (rx ''(?i)errno:~s*~d+'', ''C/Go'' @ utf8 [233, 148, 153, 232, 175, 175, 231, 160, 129]),
      (rx ''(?i)panic:~s*runtime~s+error'', ''Go panic''),
      (rx ''(?i)goroutine~s+~d+~s+~['', ''Go goroutine'' @ utf8 [229, 160, 134, 230, 160, 136])]\<close>

definition smuggling_patterns :: "(string \<times> string) list" where
  \<open>smuggling_patterns =
     [(''(?i)^chunked'', ''Transfer-Encoding: chunked'' @ utf8 [229, 143, 152, 229, 189, 162]),
      (rx ''(?i)^~s*chunked'', ''Transfer-Encoding'' @ utf8 [229, 137, 141, 229, 175, 188, 231, 169, 186, 231, 153, 189] @ ''chunked''),
      (rx ''(?i)^identity~s*,~s*chunked'', ''TE: identity, chunked''),
      (rx ''(?i)^compress~s*,~s*chunked'', ''TE: compress, chunked''),
      (rx ''(?i)^gzip~s*,~s*chunked'', ''TE: gzip, chunked''),
      (rx ''(?i)^deflate~s*,~s*chunked'', ''TE: deflate, chunked''),
      (rx ''(?i)^x-gzip~s*,~s*chunked'', ''TE: x-gzip, chunked''),
      (rx ''(?i)^x-deflate~s*,~s*chunked'', ''TE: x-deflate, chunked''),
      (rx ''~b0x[0-9a-fA-F]+~b'', utf8 [229, 141, 129, 229, 133, 173, 232, 191, 155, 229, 136, 182] @ ''Content-Length''),
      (rx ''^~s*[+-]?~d+'', utf8 [229, 184, 166, 231, 172, 166, 229, 143, 183] @ ''Content-Length''),
      (rx ''^~s*~d+~s*,~s*~d+'', utf8 [229, 164, 154, 228, 184, 170] @ ''Content-Length'' @ utf8 [229, 128, 188])]\<close>

definition xxe_patterns :: "(string \<times> string) list" where
  \<open>xxe_patterns =
     [(rx ''(?i)<~s*!~s*ENTITY~b'', ''XML'' @ utf8 [229, 174, 158, 228, 189, 147, 229, 163, 176, 230, 152, 142]),
      (rx ''(?i)<~s*!~s*DOCTYPE~b'', ''XML DOCTYPE'' @ utf8 [229, 163, 176, 230, 152, 142]),
      (rx ''(?i)SYSTEM~s+["\']'', ''SYSTEM'' @ utf8 [229, 174, 158, 228, 189, 147]),
      (rx ''(?i)PUBLIC~s+["\']'', ''PUBLIC'' @ utf8 [229, 174, 158, 228, 189, 147]),
      (rx ''(?i)<~s*!~s*ELEMENT~b'', ''XML ELEMENT'' @ utf8 [229, 163, 176, 230, 152, 142]),
      (rx ''(?i)<~s*!~s*ATTLIST~b'', ''XML ATTLIST'' @ utf8 [229, 163, 176, 230, 152, 142]),
      (rx ''(?i)%~s*[a-zA-Z_]+~s*;'', ''XML'' @ utf8 [229, 143, 130, 230, 149, 176, 229, 174, 158, 228, 189, 147]),
      (rx ''(?i)&[a-zA-Z_]+~s*;'', ''XML'' @ utf8 [229, 174, 158, 228, 189, 147, 229, 188, 149, 231, 148, 168]),
      (rx ''(?i)file~s*:~s*/'', utf8 [230, 150, 135, 228, 187, 182, 229, 141, 143, 232, 174, 174, 232, 174, 191, 233, 151, 174]),
      (rx ''(?i)php~s*:~s*/'', ''PHP'' @ utf8 [229, 141, 143, 232, 174, 174, 229, 140, 133, 232, 163, 133, 229, 153, 168]),
      (rx ''(?i)expect~s*:~s*/'', ''Expect'' @ utf8 [229, 141, 143, 232, 174, 174, 229, 140, 133, 232, 163, 133, 229, 153, 168]),
      (rx ''(?i)gopher~s*:~s*/'', ''Gopher'' @ utf8 [229, 141, 143, 232, 174, 174] @ ''(XXE)''),
      (rx ''(?i)dict~s*:~s*/'', ''Dict'' @ utf8 [229, 141, 143, 232, 174, 174] @ ''(XXE)''),
      (rx ''(?i)ldap~s*:~s*/'', ''LDAP'' @ utf8 [229, 141, 143, 232, 174, 174] @ ''(XXE)''),
      (rx ''(?i)ftp~s*:~s*/'', ''FTP'' @ utf8 [229, 141, 143, 232, 174, 174] @ ''(XXE)''),
      (rx ''(?i)netdoc~s*:~s*/'', ''Oracle NetDoc(XXE)''),
      (rx ''(?i)jar~s*:~s*/'', ''Jar'' @ utf8 [229, 141, 143, 232, 174, 174] @ ''(XXE)''),
      (rx ''(?i)~[~s*CDATA~b'', ''CDATA'' @ utf8 [228, 189, 147]),
      (rx ''(?i)<~s*xml~b'', ''XML'' @ utf8 [230, 160, 135, 231, 173, 190]),
      (rx ''(?i)<~s*soap~b'', ''SOAP'' @ utf8 [228, 189, 147] @ ''(XXE)''),
      (rx ''(?i)~~x[0-9a-f]{2}'', utf8 [229, 141, 129, 229, 133, 173, 232, 191, 155, 229, 136, 182, 231, 187, 149, 232, 191, 135] @ ''(XXE)''),
      (''(?i)&#x[0-9a-f]{2,};'', ''HTML'' @ utf8 [229, 174, 158, 228, 189, 147, 231, 187, 149, 232, 191, 135] @ ''(XXE)''),
      (''(?i)/etc/passwd'', ''Unix'' @ utf8 [229, 175, 134, 231, 160, 129, 230, 150, 135, 228, 187, 182] @ ''(XXE)''),
      (rx ''(?i)/windows/win~.ini'', ''Windows'' @ utf8 [231, 179, 187, 231, 187, 159, 230, 150, 135, 228, 187, 182] @ ''(XXE)''),
      (rx ''(?i)C:~~windows~~'', ''Windows'' @ utf8 [232, 183, 175, 229, 190, 132] @ ''(XXE)''),
      (''(?i)file_get_contents'', ''PHP'' @ utf8 [230, 150, 135, 228, 187, 182, 232, 175, 187, 229, 143, 150] @ ''(XXE)''),
      (''(?i)simplexml_load'', ''PHP XML'' @ utf8 [229, 135, 189, 230, 149, 176] @ ''(XXE)''),
      (''(?i)simplexml_load_string'', ''SimpleXML(XXE)''),
      (''(?i)XmlReader'', ''XmlReader(XXE)''),
      (''(?i)XmlTextReader'', ''XmlTextReader(XXE)'')]\<close>

definition nosql_patterns :: "(string \<times> string) list" where
  \<open>nosql_patterns =
     [(rx ''(?i)~$~s*where~b'', ''$where'' @ utf8 [230, 179, 168, 229, 133, 165]),
      (rx ''(?i)~$~s*regex~b'', ''$regex'' @ utf8 [230, 179, 168, 229, 133, 165]),
      (rx ''(?i)~$~s*ne~b'', ''$ne'' @ utf8 [230, 179, 168, 229, 133, 165]),
      (rx ''(?i)~$~s*gt~b'', ''$gt'' @ utf8 [230, 179, 168, 229, 133, 165]),
      (rx ''(?i)~$~s*gte~b'', ''$gte'' @ utf8 [230, 179, 168, 229, 133, 165]),
      (rx ''(?i)~$~s*lt~b'', ''$lt'' @ utf8 [230, 179, 168, 229, 133, 165]),
      (rx ''(?i)~$~s*lte~b'', ''$lte'' @ utf8 [230, 179, 168, 229, 133, 165]),
      (rx ''(?i)~$~s*in~b'', ''$in'' @ utf8 [230, 179, 168, 229, 133, 165]),
      (rx ''(?i)~$~s*nin~b'', ''$nin'' @ utf8 [230, 179, 168, 229, 133, 165]),
      (rx ''(?i)~$~s*or~b'', ''$or'' @ utf8 [230, 179, 168, 229, 133, 165]),
      (rx ''(?i)~$~s*and~b'', ''$and'' @ utf8 [230, 179, 168, 229, 133, 165]),
      (rx ''(?i)~$~s*exists~b'', ''$exists'' @ utf8 [230, 179, 168, 229, 133, 165]),
      (rx ''(?i)~$~s*type~b'', ''$type'' @ utf8 [230, 179, 168, 229, 133, 165]),
      (rx ''(?i)~$~s*mod~b'', ''$mod'' @ utf8 [230, 179, 168, 229, 133, 165]),
      (rx ''(?i)~$~s*eval~b'', ''$eval'' @ utf8 [230, 179, 168, 229, 133, 165] @ ''(MongoDB)''),
      (rx ''(?i)~$~s*where~s*:~s*function'', ''$where'' @ utf8 [229, 135, 189, 230, 149, 176, 230, 179, 168, 229, 133, 165]),
      (rx ''(?i)~$~s*set~b'', ''$set'' @ utf8 [230, 147, 141, 228, 189, 156]),
      (rx ''(?i)db~.~w+~.(?:find|insert|update|remove|aggregate)'', ''MongoDB'' @ utf8 [230, 140, 135, 228, 187, 164]),
      (rx ''(?i)db~.~w+~.(?:drop|deleteMany|updateMany)'', ''MongoDB'' @ utf8 [229, 141, 177, 233, 153, 169, 230, 147, 141, 228, 189, 156]),
      (rx ''(?i)~{~s*~$where~s*:'', ''JSON $where''),
      (rx ''(?i)~{~s*~$~w+~s*:'', ''JSON MongoDB'' @ utf8 [230, 147, 141, 228, 189, 156, 231, 172, 166]),
      (rx ''(?i);~s*return~s+'', ''JavaScript return'' @ utf8 [230, 179, 168, 229, 133, 165]),
      (rx ''(?i)while~s*~(~s*true~s*~)'', utf8 [230, 173, 187, 229, 190, 170, 231, 142, 175, 230, 179, 168, 229, 133, 165]),
      (rx ''(?i)~bvar~s+~w+~s*=~s*~w+~b'', utf8 [229, 143, 152, 233, 135, 143, 229, 163, 176, 230, 152, 142, 230, 179, 168, 229, 133, 165]),
      (rx ''(?i)R~.~w+~.(?:get|sadd|hset|zadd|setex)'', ''Redis'' @ utf8 [230, 140, 135, 228, 187, 164]),
      (rx ''(?i)R~.~w+~.(?:del|flushall|flushdb)'', ''Redis'' @ utf8 [229, 141, 177, 233, 153, 169, 230, 140, 135, 228, 187, 164]),
      (rx ''(?i)HSET~b.*~bHGETALL'', ''Redis'' @ utf8 [229, 147, 136, 229, 184, 140, 230, 179, 168, 229, 133, 165]),
      (rx ''(?i)(?:redis|R~.~w+)~.(?:call|pcall)'', ''Redis Lua'' @ utf8 [230, 179, 168, 229, 133, 165]),
      (rx ''(?i)EVAL~s+["\']'', ''Redis EVAL'' @ utf8 [230, 179, 168, 229, 133, 165])]\<close>

definition ssti_patterns :: "(string \<times> string) list" where
  \<open>ssti_patterns =
     [(rx ''~{~{~s*~w+'', ''Jinja2/Twig/Mustache {{''),
      (rx ''~{~%~s*~w+'', ''Jinja2/Twig {%''),
      (rx ''~{~#~s*~w+'', ''Jinja2/Twig {#''),
      (rx ''~$~{.*?~}'', ''Freemarker/Velocity ${}''),
      (rx ''~#~{.*?~}'', ''Pug/Jade #{}''),
      (rx ''~{~{=~s*~w+'', ''Vue/Delims {{=''),
      (rx ''<~%='', ''ERB <%= '' @ utf8 [230, 168, 161, 230, 157, 191]),
      (rx ''<~%~s'', ''ERB <% '' @ utf8 [230, 168, 161, 230, 157, 191]),
      (rx ''~{~{~.'', ''Go template {{.''),
      (rx ''~bconfig~s*~.'', ''Jinja2 config'' @ utf8 [229, 175, 185, 232, 177, 161]),
      (rx ''~bself~b~s*~.'', ''Jinja2 self'' @ utf8 [229, 175, 185, 232, 177, 161]),
      (rx ''~b__class__~b'', ''Python __class__''),
      (rx ''~b__bases__~b'', ''Python __bases__''),
      (rx ''~b__mro__~b'', ''Python __mro__''),
      (rx ''~b__subclasses__~b'', ''Python __subclasses__''),
      (rx ''~b__init__~b'', ''Python __init__''),
      (rx ''~b__globals__~b'', ''Python __globals__''),
      (rx ''~b__builtins__~b'', ''Python __builtins__''),
      (rx ''(?i)subprocess~b'', ''Python subprocess'' @ utf8 [230, 168, 161, 229, 157, 151]),
      (rx ''(?i)~bos~s*~.'', ''Python os'' @ utf8 [230, 168, 161, 229, 157, 151]),
      (rx ''(?i)~bexec~s*~('', ''Python exec'' @ utf8 [229, 135, 189, 230, 149, 176]),
      (rx ''(?i)~beval~s*~('', ''Python eval'' @ utf8 [229, 135, 189, 230, 149, 176]),
      (rx ''(?i)__import__~s*~('', ''Python __import__''),
      (rx ''(?i)open~s*~('', ''Python open'' @ utf8 [229, 135, 189, 230, 149, 176]),
      (rx ''(?i)~bobject~s*~('', ''Python object()''),
      (rx ''(?i)~.~s*pop~s*~('', ''Python list pop''),
      (rx ''(?i)~.~s*mro~s*~('', ''Python mro()''),
      (rx ''(?i)~|attr~b'', ''Jinja2 |attr'' @ utf8 [232, 191, 135, 230, 187, 164, 229, 153, 168]),
      (rx ''(?i)~|safe~b'', ''Jinja2 |safe'' @ utf8 [232, 191, 135, 230, 187, 164, 229, 153, 168]),
      (rx ''(?i)~|selectattr~b'', ''Jinja2 |selectattr''),
      (rx ''(?i)~|map~b'', ''Jinja2 |map'' @ utf8 [232, 191, 135, 230, 187, 164, 229, 153, 168]),
      (rx ''(?i)~|int~b'', ''Jinja2 |int'' @ utf8 [232, 191, 135, 230, 187, 164, 229, 153, 168]),
      (rx ''(?i)~{~{.*~|.*~}~}'', ''Jinja2'' @ utf8 [232, 191, 135, 230, 187, 164, 229, 153, 168, 233, 147, 190]),
      (rx ''(?i)request~.'', ''Jinja2 request'' @ utf8 [229, 175, 185, 232, 177, 161]),
      (rx ''(?i)lipsum~s*~('', ''Jinja2 lipsum'' @ utf8 [229, 135, 189, 230, 149, 176]),
      (rx ''(?i)cycler~s*~('', ''Jinja2 cycler'' @ utf8 [229, 135, 189, 230, 149, 176]),
      (rx ''(?i)joiner~s*~('', ''Jinja2 joiner'' @ utf8 [229, 135, 189, 230, 149, 176]),
      (rx ''(?i)namespace~s*~('', ''Jinja2 namespace'' @ utf8 [229, 135, 189, 230, 149, 176])]\<close>

definition cmd_pattern_strs :: "string list" where
  \<open>cmd_pattern_strs =
     [rx ''~|.*~|'',
      rx ''~|~s*~w+'',
      rx '';~s*~w+'',
      rx '';~s*/'',
      ''`.*`'',
      rx ''~$~([^)]+~)'',
      rx ''>~s*/'',
      rx ''>>~s*/'',
      rx ''<~s*/'',
      rx ''(?i)~bcat~s+'',
      rx ''(?i)~bls~s+'',
      rx ''(?i)~bdir~s+'',
      rx ''(?i)~btype~s+'',
      rx ''(?i)~bmore~s+'',
      rx ''(?i)~bless~s+'',
      rx ''(?i)~bhead~s+'',
      rx ''(?i)~btail~s+'',
      rx ''(?i)~bwget~s+'',
      rx ''(?i)~bcurl~s+'',
      rx ''(?i)~bnc~s+'',
      rx ''(?i)~bnetcat~s+'',
      rx ''(?i)~btelnet~s+'',
      rx ''(?i)~bftp~s+'',
      rx ''(?i)~btftp~s+'',
      rx ''(?i)~brsh~s+'',
      rx ''(?i)~bssh~s+'',
      rx ''(?i)~bscp~s+'',
      rx ''(?i)~brsync~s+'',
      rx ''(?i)~bfind~s+'',
      rx ''(?i)~bgrep~s+'',
      rx ''(?i)~bsed~s+'',
      rx ''(?i)~bawk~s+'',
      rx ''(?i)~bcut~s+'',
      rx ''(?i)~bsort~s+'',
      rx ''(?i)~buniq~s+'',
      rx ''(?i)~bwc~s+'',
      rx ''(?i)~bxargs~s+'',
      rx ''(?i)~bchmod~s+'',
      rx ''(?i)~bchown~s+'',
      rx ''(?i)~brm~s+'',
      rx ''(?i)~bmv~s+'',
      rx ''(?i)~bcp~s+'',
      rx ''(?i)~btar~s+'',
      rx ''(?i)~bgzip~s+'',
      rx ''(?i)~bzip~s+'',
      rx ''(?i)~bunzip~s+'',
      rx ''(?i)~bkill~s+'',
      rx ''(?i)~bkillall~s+'',
      rx ''(?i)~bps~s+'',
      rx ''(?i)~btop~s+'',
      rx ''(?i)~bfree~s+'',
      rx ''(?i)~bdf~s+'',
      rx ''(?i)~bdu~s+'',
      rx ''(?i)~bmount~s+'',
      rx ''(?i)~bumount~s+'',
      rx ''(?i)~bfdisk~s+'',
      rx ''(?i)~bmkfs~s+'',
      rx ''(?i)~bcrontab~s+'',
      rx ''(?i)~bat~s+'',
      rx ''(?i)~bnohup~s+'',
      rx ''(?i)~bscreen~s+'',
      rx ''(?i)~btmux~s+'',
      rx ''(?i)~benv~s+'',
      rx ''(?i)~bexport~s+'',
      rx ''(?i)~bset~s+'',
      rx ''(?i)~bunset~s+'',
      rx ''(?i)~becho~s+'',
      rx ''(?i)~bprintf~s+'',
      rx ''(?i)~bsource~s+'',
      rx ''(?i)~bexec~s+'',
      rx ''(?i)~beval~s+'',
      rx ''(?i)~bcmd~.exe'',
      rx ''(?i)~bpowershell~.exe'',
      rx ''(?i)~bpowershell~s+'',
      rx ''(?i)~bwscript~.exe'',
      rx ''(?i)~bcscript~.exe'',
      rx ''(?i)~bmshta~.exe'',
      rx ''(?i)~bregsvr32~.exe'',
      rx ''(?i)~brundll32~.exe'',
      rx ''(?i)~bnet~.exe'',
      rx ''(?i)~bnetsh~.exe'',
      rx ''(?i)~bipconfig~.exe'',
      rx ''(?i)~bwhoami~.exe'',
      rx ''(?i)~btasklist~.exe'',
      rx ''(?i)~btaskkill~.exe'',
      rx ''(?i)~bschtasks~.exe'',
      rx ''(?i)~bat~.exe'',
      rx ''(?i)~bwmic~.exe'',
      rx ''(?i)~btypeperf~.exe'',
      rx ''(?i)~bquery~.exe'',
      rx ''(?i)~baddusers~.exe'',
      rx ''(?i)~bcacls~.exe'',
      rx ''(?i)~bicacls~.exe'',
      rx ''(?i)~bcd~.exe'',
      rx ''(?i)~bcopy~.exe'',
      rx ''(?i)~bxcopy~.exe'',
      rx ''(?i)~bmove~.exe'',
      rx ''(?i)~bdel~.exe'',
      rx ''(?i)~berase~.exe'',
      rx ''(?i)~bformat~.exe'',
      rx ''(?i)~bfsutil~.exe'',
      rx ''(?i)~bassoc~.exe'',
      rx ''(?i)~bftype~.exe'',
      rx ''(?i)~bfind~.exe'',
      rx ''(?i)~bfindstr~.exe'',
      rx ''(?i)~bmore~.exe'',
      rx ''(?i)~bsort~.exe'',
      rx ''(?i)~bcomp~.exe'',
      rx ''(?i)~bfc~.exe'',
      rx ''(?i)~btree~.exe'',
      rx ''(?i)~bver~.exe'',
      rx ''(?i)~bvol~.exe'',
      rx ''(?i)~blabel~.exe'',
      rx ''(?i)~bmd~.exe'',
      rx ''(?i)~bmkdir~.exe'',
      rx ''(?i)~brd~.exe'',
      rx ''(?i)~brmdir~.exe'',
      rx ''(?i)~bren~.exe'',
      rx ''(?i)~brename~.exe'',
      rx ''(?i)~breplace~.exe'',
      rx ''(?i)~battrib~.exe'',
      rx ''(?i)~btime~.exe'',
      rx ''(?i)~bdate~.exe'',
      rx ''(?i)~bhostname~.exe'',
      rx ''(?i)~bnslookup~.exe'',
      rx ''(?i)~bping~.exe'',
      rx ''(?i)~btracert~.exe'',
      rx ''(?i)~bpathping~.exe'',
      rx ''(?i)~broute~.exe'',
      rx ''(?i)~barp~.exe'',
      rx ''(?i)~bnbtstat~.exe'',
      rx ''(?i)~bnetstat~.exe'',
      rx ''(?i)~bgetmac~.exe'',
      rx ''(?i)~bsysteminfo~.exe'',
      rx ''(?i)~bdriverquery~.exe'',
      rx ''(?i)~bpnputil~.exe'',
      rx ''(?i)~bsc~.exe'',
      rx ''(?i)~breg~.exe'',
      rx ''(?i)~bregedit~.exe'',
      rx ''(?i)~bregini~.exe'',
      rx ''(?i)~bsetx~.exe'',
      rx ''(?i)~bset~.exe'',
      rx ''(?i)~bshutdown~.exe'',
      rx ''(?i)~brestart~.exe'',
      rx ''(?i)~blogoff~.exe'',
      rx ''(?i)~bmsg~.exe'',
      rx ''(?i)~bstart~.exe'',
      rx ''(?i)~brunas~.exe'',
      rx ''(?i)~bsu~.exe'',
      rx ''(?i)~bprint~.exe'',
      rx ''(?i)~bmode~.exe'',
      rx ''(?i)~bcolor~.exe'',
      rx ''(?i)~btitle~.exe'',
      rx ''(?i)~bprompt~.exe'',
      rx ''(?i)~bpushd~.exe'',
      rx ''(?i)~bpopd~.exe'',
      rx ''(?i)~bfor~.exe'',
      rx ''(?i)~bif~.exe'',
      rx ''(?i)~bgoto~.exe'',
      rx ''(?i)~bcall~.exe'',
      rx ''(?i)~bexit~.exe'',
      rx ''(?i)~bbreak~.exe'',
      rx ''(?i)~bcls~.exe'',
      rx ''(?i)~bhelp~.exe'']\<close>

definition cmd_desc_map :: "(string \<times> string) list" where
  \<open>cmd_desc_map =
     [(rx ''~|.*~|'', utf8 [231, 174, 161, 233, 129, 147, 231, 172, 166, 230, 179, 168, 229, 133, 165]),
      (rx ''~|~s*~w+'', utf8 [231, 174, 161, 233, 129, 147, 231, 172, 166, 229, 145, 189, 228, 187, 164]),
      (rx '';~s*~w+'', utf8 [229, 136, 134, 229, 143, 183, 229, 145, 189, 228, 187, 164]),
      (rx '';~s*/'', utf8 [229, 136, 134, 229, 143, 183, 232, 183, 175, 229, 190, 132]),
      (''`.*`'', utf8 [229, 143, 141, 229, 188, 149, 229, 143, 183, 230, 137, 167, 232, 161, 140]),
      (rx ''~$~([^)]+~)'', utf8 [231, 190, 142, 229, 133, 131, 230, 139, 172, 229, 143, 183, 230, 137, 167, 232, 161, 140]),
      (rx ''>~s*/'', utf8 [233, 135, 141, 229, 174, 154, 229, 144, 145, 229, 134, 153, 229, 133, 165]),
      (rx ''>>~s*/'', utf8 [233, 135, 141, 229, 174, 154, 229, 144, 145, 232, 191, 189, 229, 138, 160]),
      (rx ''<~s*/'', utf8 [233, 135, 141, 229, 174, 154, 229, 144, 145, 232, 175, 187, 229, 143, 150]),
      (rx ''(?i)~bcmd~.exe'', ''Windows CMD''),
      (rx ''(?i)~bpowershell~.exe'', ''Windows PowerShell''),
      (rx ''(?i)~bpowershell~s+'', ''PowerShell'' @ utf8 [229, 145, 189, 228, 187, 164])]\<close>

definition sensitive_entries :: "(string \<times> string \<times> bool) list" where
  \<open>sensitive_entries =
     [(''credit_card'', rx ''~b(?:~d[ -]*?){13,16}~b'', True),
      (''ssn'', rx ''~b~d{3}[-~s]?~d{2}[-~s]~d{4}~b'', True),
      (''email'', rx ''~b[A-Za-z0-9._%+-]+@[A-Za-z0-9.-]+~.[A-Za-z]{2,}~b'', False),
      (''phone_cn'', rx ''~b1[3-9]~d{9}~b'', True),
      (''id_card_cn'', rx ''~b[1-9]~d{5}(?:19|20)~d{2}(?:0[1-9]|1[0-2])(?:0[1-9]|[12]~d|3[01])~d{3}[~dXx]~b'', True),
      (''api_key'', rx ''(?i)(?:api[_-]?key|apikey|access[_-]?token|secret[_-]?key)~s*[:=]~s*[\'"]?[A-Za-z0-9_-]{16,}[\'"]?'', True),
      (''private_key'', ''-----BEGIN (?:RSA |DSA |EC |OPENSSH )?PRIVATE KEY-----'', True),
      (''aws_key'', ''(?:AKIA|ABIA|ACIA|ADIA|AIIA|AIPA|ANPA|ANVA|APKA|AROA|ASCA|ASIA)[0-9A-Z]{16}'', True)]\<close>

definition dlp_reverse_mapping :: "(string \<times> string) list" where
  \<open>dlp_reverse_mapping =
     [(utf8 [233, 147, 182, 232, 161, 140, 229, 141, 161, 229, 143, 183] @ ''(16'' @ utf8 [228, 189, 141] @ '')'', ''credit_card''),
      (utf8 [233, 147, 182, 232, 161, 140, 229, 141, 161, 229, 143, 183] @ ''(19'' @ utf8 [228, 189, 141] @ '')'', ''credit_card''),
      (utf8 [228, 184, 173, 229, 155, 189, 229, 164, 167, 233, 153, 134, 230, 137, 139, 230, 156, 186, 229, 143, 183], ''phone_cn''),
      (utf8 [228, 184, 173, 229, 155, 189, 232, 186, 171, 228, 187, 189, 232, 175, 129, 229, 143, 183], ''id_card_cn''),
      (utf8 [229, 175, 134, 231, 160, 129, 229, 173, 151, 230, 174, 181] @ ''('' @ utf8 [229, 184, 184, 232, 167, 129] @ ''key)'', ''api_key''),
      (utf8 [231, 167, 129, 233, 146, 165, 230, 160, 135, 232, 175, 134], ''private_key''),
      (''AWS Access Key'', ''aws_key''),
      (utf8 [231, 148, 181, 229, 173, 144, 233, 130, 174, 231, 174, 177, 229, 156, 176, 229, 157, 128], ''email'')]\<close>

subsection \<open>Built-in rows of the database\<close>

definition builtin_sql_injection :: "(string \<times> string) list" where
  \<open>builtin_sql_injection =
     [(rx ''(?i)~bunion~b.*~bselect~b'', ''UNION'' @ utf8 [230, 179, 168, 229, 133, 165]),
      (rx ''(?i)~bunion~b.*~ball~b.*~bselect~b'', ''UNION ALL'' @ utf8 [230, 179, 168, 229, 133, 165]),
      (rx ''(?i)~bselect~b.*~bfrom~b'', ''SELECT'' @ utf8 [230, 179, 168, 229, 133, 165]),
      (rx ''(?i)~bselect~b.*~*.*~bfrom~b'', ''SELECT * '' @ utf8 [230, 179, 168, 229, 133, 165]),
      (rx ''(?i)/~*.*~*/'', utf8 [230, 179, 168, 233, 135, 138, 230, 179, 168, 229, 133, 165]),
      (rx ''(?i)--~s*$'', ''SQL'' @ utf8 [230, 179, 168, 233, 135, 138]),
      (rx ''(?i);~s*--'', utf8 [229, 136, 134, 229, 143, 183, 230, 179, 168, 233, 135, 138]),
      (rx ''(?i);~s*select~b'', utf8 [229, 160, 134, 229, 143, 160, 230, 159, 165, 232, 175, 162] @ ''SELECT''),
      (rx ''(?i);~s*insert~b'', utf8 [229, 160, 134, 229, 143, 160, 230, 159, 165, 232, 175, 162] @ ''INSERT''),
      (rx ''(?i);~s*update~b'', utf8 [229, 160, 134, 229, 143, 160, 230, 159, 165, 232, 175, 162] @ ''UPDATE''),
      (rx ''(?i);~s*delete~b'', utf8 [229, 160, 134, 229, 143, 160, 230, 159, 165, 232, 175, 162] @ ''DELETE''),
      (rx ''(?i);~s*drop~b'', utf8 [229, 160, 134, 229, 143, 160, 230, 159, 165, 232, 175, 162] @ ''DROP''),
      (rx ''(?i);~s*exec~b'', utf8 [229, 160, 134, 229, 143, 160, 230, 159, 165, 232, 175, 162] @ ''EXEC''),
      (rx ''(?i);~s*execute~b'', utf8 [229, 160, 134, 229, 143, 160, 230, 159, 165, 232, 175, 162] @ ''EXECUTE''),
      (rx ''(?i)~bor~b~s+[\'"]?~d+[\'"]?~s*=~s*[\'"]?~d+'', utf8 [229, 184, 131, 229, 176, 148, 230, 179, 168, 229, 133, 165] @ ''OR''),
      (rx ''(?i)~band~b~s+[\'"]?~d+[\'"]?~s*=~s*[\'"]?~d+'', utf8 [229, 184, 131, 229, 176, 148, 230, 179, 168, 229, 133, 165] @ ''AND''),
      (rx ''(?i)~bor~b~s+[\'"]?[\'"]?~s*=~s*[\'"]?[\'"]?'', utf8 [229, 184, 131, 229, 176, 148, 230, 179, 168, 229, 133, 165, 231, 174, 128, 229, 140, 150]),
      (rx ''(?i)~bsleep~b~s*~('', utf8 [230, 151, 182, 233, 151, 180, 231, 155, 178, 230, 179, 168] @ ''SLEEP''),
      (rx ''(?i)~bwaitfor~b.*~bdelay~b'', utf8 [230, 151, 182, 233, 151, 180, 231, 155, 178, 230, 179, 168] @ ''WAITFOR''),
      (rx ''(?i)~bbenchmark~b~s*~('', utf8 [230, 151, 182, 233, 151, 180, 231, 155, 178, 230, 179, 168] @ ''BENCHMARK''),
      (rx ''(?i)~bextractvalue~b~s*~('', utf8 [230, 138, 165, 233, 148, 153, 230, 179, 168, 229, 133, 165] @ ''EXTRACTVALUE''),
      (rx ''(?i)~bupdatexml~b~s*~('', utf8 [230, 138, 165, 233, 148, 153, 230, 179, 168, 229, 133, 165] @ ''UPDATEXML''),
      (rx ''(?i)~bfloor~b~s*~('', utf8 [230, 138, 165, 233, 148, 153, 230, 179, 168, 229, 133, 165] @ ''FLOOR''),
      (rx ''(?i)~bload_file~b~s*~('', utf8 [230, 150, 135, 228, 187, 182, 232, 175, 187, 229, 143, 150]),
      (rx ''(?i)~binto~b~s+~boutfile~b'', utf8 [230, 150, 135, 228, 187, 182, 229, 134, 153, 229, 133, 165] @ ''OUTFILE''),
      (rx ''(?i)~binto~b~s+~bdumpfile~b'', utf8 [230, 150, 135, 228, 187, 182, 229, 134, 153, 229, 133, 165] @ ''DUMPFILE''),
      (rx ''(?i)~bversion~b~s*~('', utf8 [228, 191, 161, 230, 129, 175, 230, 179, 132, 233, 156, 178] @ ''VERSION''),
      (rx ''(?i)~bdatabase~b~s*~('', utf8 [228, 191, 161, 230, 129, 175, 230, 179, 132, 233, 156, 178] @ ''DATABASE''),
      (rx ''(?i)~buser~b~s*~('', utf8 [228, 191, 161, 230, 129, 175, 230, 179, 132, 233, 156, 178] @ ''USER''),
      (rx ''(?i)~bschema~b'', utf8 [228, 191, 161, 230, 129, 175, 230, 179, 132, 233, 156, 178] @ ''SCHEMA''),
      (rx ''(?i)~bexec~b~s*~('', utf8 [229, 141, 177, 233, 153, 169, 229, 135, 189, 230, 149, 176] @ ''EXEC''),
      (rx ''(?i)~bexecute~b~s*~('', utf8 [229, 141, 177, 233, 153, 169, 229, 135, 189, 230, 149, 176] @ ''EXECUTE''),
      (rx ''(?i)~bsp_executesql~b'', utf8 [229, 141, 177, 233, 153, 169, 229, 135, 189, 230, 149, 176] @ ''SP_EXECUTESQL''),
      (''(?i)0x[0-9a-f]+'', utf8 [231, 188, 150, 231, 160, 129, 231, 187, 149, 232, 191, 135, 229, 141, 129, 229, 133, 173, 232, 191, 155, 229, 136, 182]),
      (rx ''(?i)char~s*~('', utf8 [231, 188, 150, 231, 160, 129, 231, 187, 149, 232, 191, 135] @ ''CHAR''),
      (rx ''(?i)chr~s*~('', utf8 [231, 188, 150, 231, 160, 129, 231, 187, 149, 232, 191, 135] @ ''CHR''),
      (rx ''(?i)concat~s*~('', utf8 [231, 188, 150, 231, 160, 129, 231, 187, 149, 232, 191, 135] @ ''CONCAT''),
      (rx ''(?i)\'~s*or~s*'' @ [CHR 0x27], utf8 [233, 128, 187, 232, 190, 145, 230, 179, 168, 229, 133, 165] @ ''OR''),
      (rx ''(?i)"~s*or~s*"'', utf8 [233, 128, 187, 232, 190, 145, 230, 179, 168, 229, 133, 165] @ ''OR'' @ utf8 [229, 143, 140, 229, 188, 149, 229, 143, 183]),
      (rx ''(?i)\'~s*and~s*'' @ [CHR 0x27], utf8 [233, 128, 187, 232, 190, 145, 230, 179, 168, 229, 133, 165] @ ''AND''),
      (rx ''(?i)"~s*and~s*"'', utf8 [233, 128, 187, 232, 190, 145, 230, 179, 168, 229, 133, 165] @ ''AND'' @ utf8 [229, 143, 140, 229, 188, 149, 229, 143, 183]),
      (rx ''(?i)\'~s*;'', utf8 [231, 137, 185, 230, 174, 138, 229, 173, 151, 231, 172, 166, 229, 141, 149, 229, 188, 149, 229, 143, 183, 229, 136, 134, 229, 143, 183]),
      (rx ''(?i)"~s*;'', utf8 [231, 137, 185, 230, 174, 138, 229, 173, 151, 231, 172, 166, 229, 143, 140, 229, 188, 149, 229, 143, 183, 229, 136, 134, 229, 143, 183]),
      (rx ''(?i)\'~s*~)'', utf8 [231, 137, 185, 230, 174, 138, 229, 173, 151, 231, 172, 166, 229, 141, 149, 229, 188, 149, 229, 143, 183, 230, 139, 172, 229, 143, 183]),
      (rx ''(?i)"~s*~)'', utf8 [231, 137, 185, 230, 174, 138, 229, 173, 151, 231, 172, 166, 229, 143, 140, 229, 188, 149, 229, 143, 183, 230, 139, 172, 229, 143, 183])]\<close>

definition builtin_xss :: "(string \<times> string) list" where
  \<open>builtin_xss =
     [(''(?i)<script[^>]*>.*?</script>'', ''Script'' @ utf8 [230, 160, 135, 231, 173, 190]),
      (''(?i)<script[^>]*>'', ''Script'' @ utf8 [230, 160, 135, 231, 173, 190, 229, 188, 128, 229, 167, 139]),
      (''(?i)</script>'', ''Script'' @ utf8 [230, 160, 135, 231, 173, 190, 231, 187, 147, 230, 157, 159]),
      (rx ''(?i)~bon~w+~s*='', utf8 [228, 186, 139, 228, 187, 182, 229, 164, 132, 231, 144, 134, 229, 153, 168, 233, 128, 154, 231, 148, 168]),
      (rx ''(?i)onclick~s*='', utf8 [228, 186, 139, 228, 187, 182] @ ''onclick''),
      (rx ''(?i)onerror~s*='', utf8 [228, 186, 139, 228, 187, 182] @ ''onerror''),
      (rx ''(?i)onload~s*='', utf8 [228, 186, 139, 228, 187, 182] @ ''onload''),
      (rx ''(?i)onmouseover~s*='', utf8 [228, 186, 139, 228, 187, 182] @ ''onmouseover''),
      (rx ''(?i)onfocus~s*='', utf8 [228, 186, 139, 228, 187, 182] @ ''onfocus''),
      (rx ''(?i)onblur~s*='', utf8 [228, 186, 139, 228, 187, 182] @ ''onblur''),
      (rx ''(?i)onsubmit~s*='', utf8 [228, 186, 139, 228, 187, 182] @ ''onsubmit''),
      (rx ''(?i)onkeyup~s*='', utf8 [228, 186, 139, 228, 187, 182] @ ''onkeyup''),
      (rx ''(?i)onkeydown~s*='', utf8 [228, 186, 139, 228, 187, 182] @ ''onkeydown''),
      (rx ''(?i)onkeypress~s*='', utf8 [228, 186, 139, 228, 187, 182] @ ''onkeypress''),
      (rx ''(?i)javascript~s*:'', ''JavaScript'' @ utf8 [229, 141, 143, 232, 174, 174]),
      (rx ''(?i)vbscript~s*:'', ''VBScript'' @ utf8 [229, 141, 143, 232, 174, 174]),
      (rx ''(?i)data~s*:'', ''Data'' @ utf8 [229, 141, 143, 232, 174, 174]),
      (''(?i)<form[^>]*>'', ''Form'' @ utf8 [232, 161, 168, 229, 141, 149]),
      (''(?i)<input[^>]*>'', ''Input'' @ utf8 [232, 190, 147, 229, 133, 165, 230, 161, 134]),
      (''(?i)<button[^>]*>'', ''Button'' @ utf8 [230, 140, 137, 233, 146, 174]),
      (''(?i)<iframe[^>]*>'', ''Iframe'' @ utf8 [230, 161, 134, 230, 158, 182]),
      (''(?i)<frame[^>]*>'', ''Frame'' @ utf8 [230, 161, 134, 230, 158, 182]),
      (''(?i)<object[^>]*>'', ''Object'' @ utf8 [229, 175, 185, 232, 177, 161]),
      (''(?i)<embed[^>]*>'', ''Embed'' @ utf8 [229, 181, 140, 229, 133, 165]),
      (''(?i)<applet[^>]*>'', ''Applet'' @ utf8 [229, 176, 143, 231, 168, 139, 229, 186, 143]),
      (''(?i)<svg[^>]*>'', ''SVG'' @ utf8 [231, 159, 162, 233, 135, 143, 229, 155, 190]),
      (''(?i)<math[^>]*>'', ''Math'' @ utf8 [230, 149, 176, 229, 173, 166]),
      (''(?i)<style[^>]*>'', ''Style'' @ utf8 [230, 160, 183, 229, 188, 143]),
      (rx ''(?i)expression~s*~('', ''CSS'' @ utf8 [232, 161, 168, 232, 190, 190, 229, 188, 143]),
      (rx ''(?i)behavior~s*:'', ''CSS'' @ utf8 [232, 161, 140, 228, 184, 186]),
      (rx ''(?i)-moz-binding~s*:'', ''Mozilla'' @ utf8 [231, 187, 145, 229, 174, 154]),
      (rx ''(?i)&#~d+;'', ''HTML'' @ utf8 [229, 174, 158, 228, 189, 147, 230, 149, 176, 229, 173, 151]),
      (''(?i)&#x[0-9a-f]+;'', ''HTML'' @ utf8 [229, 174, 158, 228, 189, 147, 229, 141, 129, 229, 133, 173, 232, 191, 155, 229, 136, 182]),
      (rx ''(?i)src~s*=~s*["\']?javascript:'', ''Src JavaScript''),
      (rx ''(?i)href~s*=~s*["\']?javascript:'', ''Href JavaScript''),
      (rx ''(?i)action~s*=~s*["\']?javascript:'', ''Action JavaScript''),
      (rx ''(?i)document~s*~.~s*cookie'', ''Document Cookie''),
      (rx ''(?i)document~s*~.~s*location'', ''Document Location''),
      (rx ''(?i)document~s*~.~s*write'', ''Document Write''),
      (rx ''(?i)window~s*~.~s*location'', ''Window Location''),
      (rx ''(?i)eval~s*~('', ''Eval'' @ utf8 [229, 135, 189, 230, 149, 176]),
      (rx ''(?i)setTimeout~s*~('', ''SetTimeout''),
      (rx ''(?i)setInterval~s*~('', ''SetInterval''),
      (rx ''(?i)String~s*~.~s*fromCharCode'', ''FromCharCode''),
      (rx ''(?i)atob~s*~('', ''Atob'' @ utf8 [232, 167, 163, 231, 160, 129]),
      (rx ''(?i)btoa~s*~('', ''Btoa'' @ utf8 [231, 188, 150, 231, 160, 129]),
      (rx ''(?i)unescape~s*~('', ''Unescape''),
      (rx ''(?i)decodeURI~s*~('', ''DecodeURI''),
      (rx ''(?i)decodeURIComponent~s*~('', ''DecodeURIComponent'')]\<close>

definition builtin_command_injection :: "(string \<times> string) list" where
  \<open>builtin_command_injection =
     [(rx ''~|.*~|'', utf8 [231, 174, 161, 233, 129, 147, 231, 172, 166, 230, 179, 168, 229, 133, 165]),
      (rx ''~|~s*~w+'', utf8 [231, 174, 161, 233, 129, 147, 231, 172, 166, 229, 145, 189, 228, 187, 164]),
      (rx '';~s*~w+'', utf8 [229, 136, 134, 229, 143, 183, 229, 145, 189, 228, 187, 164]),
      (rx '';~s*/'', utf8 [229, 136, 134, 229, 143, 183, 232, 183, 175, 229, 190, 132]),
      (''`.*`'', utf8 [229, 143, 141, 229, 188, 149, 229, 143, 183, 230, 137, 167, 232, 161, 140]),
      (rx ''~$~([^)]+~)'', utf8 [231, 190, 142, 229, 133, 131, 230, 139, 172, 229, 143, 183, 230, 137, 167, 232, 161, 140]),
      (rx ''>~s*/'', utf8 [233, 135, 141, 229, 174, 154, 229, 144, 145, 229, 134, 153, 229, 133, 165]),
      (rx ''>>~s*/'', utf8 [233, 135, 141, 229, 174, 154, 229, 144, 145, 232, 191, 189, 229, 138, 160]),
      (rx ''<~s*/'', utf8 [233, 135, 141, 229, 174, 154, 229, 144, 145, 232, 175, 187, 229, 143, 150]),
      (rx ''(?i)~bcat~s+'', ''Cat'' @ utf8 [229, 145, 189, 228, 187, 164]),
      (rx ''(?i)~bls~s+'', ''Ls'' @ utf8 [229, 145, 189, 228, 187, 164]),
      (rx ''(?i)~bwget~s+'', ''Wget'' @ utf8 [229, 145, 189, 228, 187, 164]),
      (rx ''(?i)~bcurl~s+'', ''Curl'' @ utf8 [229, 145, 189, 228, 187, 164]),
      (rx ''(?i)~bnc~s+'', ''Netcat'' @ utf8 [229, 145, 189, 228, 187, 164]),
      (rx ''(?i)~bcmd~.exe'', ''Windows CMD''),
      (rx ''(?i)~bpowershell~.exe'', ''Windows PowerShell''),
      (rx ''(?i)~bpowershell~s+'', ''PowerShell'' @ utf8 [229, 145, 189, 228, 187, 164])]\<close>

definition builtin_ssrf :: "(string \<times> string) list" where
  \<open>builtin_ssrf =
     [(rx ''(?i)~bhttp://localhost~b'', ''Localhost'' @ utf8 [232, 174, 191, 233, 151, 174]),
      (rx ''(?i)~bhttp://127~.0~.0~.1~b'', ''127.0.0.1'' @ utf8 [232, 174, 191, 233, 151, 174]),
      (rx ''(?i)~bhttp://10~.~d+~.~d+~.~d+~b'', ''A'' @ utf8 [231, 177, 187, 229, 134, 133, 231, 189, 145] @ ''IP''),
      (rx ''(?i)~bhttp://172~.(1[6-9]|2~d|3[01])~.~d+~.~d+~b'', ''B'' @ utf8 [231, 177, 187, 229, 134, 133, 231, 189, 145] @ ''IP''),
      (rx ''(?i)~bhttp://192~.168~.~d+~.~d+~b'', ''C'' @ utf8 [231, 177, 187, 229, 134, 133, 231, 189, 145] @ ''IP''),
      (rx ''(?i)~bhttp://169~.254~.~d+~.~d+~b'', utf8 [233, 147, 190, 232, 183, 175, 230, 156, 172, 229, 156, 176] @ ''IP''),
      (rx ''(?i)~b(?:file|gopher|dict)://'', utf8 [229, 141, 177, 233, 153, 169, 229, 141, 143, 232, 174, 174] @ ''(file/gopher/dict)''),
      (rx ''(?i)~b169~.254~.169~.254~b'', utf8 [228, 186, 145, 229, 133, 131, 230, 149, 176, 230, 141, 174] @ ''IP''),
      (''(?i)/latest/meta-data/'', ''AWS'' @ utf8 [229, 133, 131, 230, 149, 176, 230, 141, 174, 232, 183, 175, 229, 190, 132]),
      (rx ''(?i)@~d+~.~d+~.~d+~.~d+'', ''URL'' @ utf8 [228, 184, 173] @ ''@'' @ utf8 [229, 134, 133, 231, 189, 145] @ ''IP'')]\<close>

definition builtin_xxe :: "(string \<times> string) list" where
  \<open>builtin_xxe =
     [(rx ''(?i)<~s*!~s*ENTITY~b'', ''XML'' @ utf8 [229, 174, 158, 228, 189, 147, 229, 163, 176, 230, 152, 142]),
      (rx ''(?i)<~s*!~s*DOCTYPE~b'', ''XML DOCTYPE''),
      (rx ''(?i)SYSTEM~s+["\']'', ''SYSTEM'' @ utf8 [229, 174, 158, 228, 189, 147]),
      (rx ''(?i)file~s*:~s*/'', utf8 [230, 150, 135, 228, 187, 182, 229, 141, 143, 232, 174, 174] @ ''(XXE)''),
      (''(?i)/etc/passwd'', ''Unix'' @ utf8 [229, 175, 134, 231, 160, 129, 230, 150, 135, 228, 187, 182] @ ''(XXE)''),
      (rx ''(?i)C:~~windows~~'', ''Windows'' @ utf8 [232, 183, 175, 229, 190, 132] @ ''(XXE)''),
      (rx ''(?i)%~s*[a-zA-Z_]+~s*;'', ''XML'' @ utf8 [229, 143, 130, 230, 149, 176, 229, 174, 158, 228, 189, 147])]\<close>

definition builtin_nosql :: "(string \<times> string) list" where
  \<open>builtin_nosql =
     [(rx ''(?i)~$~s*where~b'', ''$where'' @ utf8 [230, 179, 168, 229, 133, 165]),
      (rx ''(?i)~$~s*regex~b'', ''$regex'' @ utf8 [230, 179, 168, 229, 133, 165]),
      (rx ''(?i)~$~s*ne~b'', ''$ne'' @ utf8 [230, 179, 168, 229, 133, 165]),
      (rx ''(?i)~$~s*gt~b'', ''$gt'' @ utf8 [230, 179, 168, 229, 133, 165]),
      (rx ''(?i)~$~s*in~b'', ''$in'' @ utf8 [230, 179, 168, 229, 133, 165]),
      (rx ''(?i)~$~s*or~b'', ''$or'' @ utf8 [230, 179, 168, 229, 133, 165]),
      (rx ''(?i)~$~s*eval~b'', ''$eval'' @ utf8 [230, 179, 168, 229, 133, 165]),
      (rx ''(?i)db~.~w+~.find'', ''MongoDB find'')]\<close>

definition builtin_ssti :: "(string \<times> string) list" where
  \<open>builtin_ssti =
     [(rx ''~{~{~s*~w+'', ''Jinja2/Twig {{''),
      (rx ''~{~%~s*~w+'', ''Jinja2/Twig {%''),
      (rx ''~$~{.*?~}'', ''Freemarker ${}''),
      (rx ''~b__class__~b'', ''Python __class__''),
      (rx ''~b__subclasses__~b'', ''Python __subclasses__''),
      (rx ''~b__globals__~b'', ''Python __globals__''),
      (rx ''~b__builtins__~b'', ''Python __builtins__'')]\<close>

definition builtin_path_traversal :: "(string \<times> string) list" where
  \<open>builtin_path_traversal =
     [(rx ''(?i)~.~./'', utf8 [231, 155, 174, 229, 189, 149, 233, 129, 141, 229, 142, 134] @ ''../''),
      (rx ''(?i)~.~.~~'', utf8 [231, 155, 174, 229, 189, 149, 233, 129, 141, 229, 142, 134] @ rx ''..~''),
      (rx ''(?i)/~.~./'', utf8 [232, 183, 175, 229, 190, 132, 233, 129, 141, 229, 142, 134] @ ''/../../''),
      (rx ''(?i)~~~.~.~~'', utf8 [232, 183, 175, 229, 190, 132, 233, 129, 141, 229, 142, 134] @ rx ''~..~~''),
      (rx ''(?i)~.~./~.~./'', utf8 [229, 143, 140, 233, 135, 141, 233, 129, 141, 229, 142, 134] @ ''../../''),
      (rx ''(?i)~.~.%2f'', utf8 [231, 188, 150, 231, 160, 129, 233, 129, 141, 229, 142, 134] @ ''..%2f''),
      (rx ''(?i)~.~.%5c'', utf8 [231, 188, 150, 231, 160, 129, 233, 129, 141, 229, 142, 134] @ ''..%5c''),
      (''(?i)%2e%2e/'', utf8 [231, 188, 150, 231, 160, 129, 233, 129, 141, 229, 142, 134] @ ''%2e%2e/''),
      (''(?i)%2e%2e%2f'', utf8 [231, 188, 150, 231, 160, 129, 233, 129, 141, 229, 142, 134] @ ''%2e%2e%2f''),
      (rx ''(?i)%2e%2e~~'', utf8 [231, 188, 150, 231, 160, 129, 233, 129, 141, 229, 142, 134] @ rx ''%2e%2e~''),
      (''(?i)%2e%2e%5c'', utf8 [231, 188, 150, 231, 160, 129, 233, 129, 141, 229, 142, 134] @ ''%2e%2e%5c''),
      (''(?i)%252e%252e%252f'', utf8 [229, 143, 140, 233, 135, 141, 231, 188, 150, 231, 160, 129, 233, 129, 141, 229, 142, 134]),
      (''(?i)%c0%ae%c0%ae/'', ''Unicode'' @ utf8 [231, 188, 150, 231, 160, 129, 233, 129, 141, 229, 142, 134]),
      (''(?i)/etc/passwd'', ''Linux'' @ utf8 [229, 175, 134, 231, 160, 129, 230, 150, 135, 228, 187, 182]),
      (''(?i)/etc/shadow'', ''Linux'' @ utf8 [229, 189, 177, 229, 173, 144, 229, 175, 134, 231, 160, 129]),
      (''(?i)/proc/self/'', ''Proc'' @ utf8 [230, 150, 135, 228, 187, 182, 231, 179, 187, 231, 187, 159]),
      (rx ''(?i)~~windows~~'', ''Windows'' @ utf8 [231, 155, 174, 229, 189, 149]),
      (rx ''(?i)~~system32~~'', ''System32'' @ utf8 [231, 155, 174, 229, 189, 149]),
      (''(?i)%00'', utf8 [231, 169, 186, 229, 173, 151, 232, 138, 130, 230, 179, 168, 229, 133, 165])]\<close>

definition builtin_header_injection :: "(string \<times> string) list" where
  \<open>builtin_header_injection =
     [(''(?i)%0d%0a'', ''CRLF'' @ utf8 [231, 188, 150, 231, 160, 129, 230, 179, 168, 229, 133, 165]),
      (''(?i)%0d'', ''CR'' @ utf8 [231, 188, 150, 231, 160, 129, 230, 179, 168, 229, 133, 165]),
      (''(?i)%0a'', ''LF'' @ utf8 [231, 188, 150, 231, 160, 129, 230, 179, 168, 229, 133, 165]),
      (''(?i)%0d%0acontent-type:'', ''CRLF'' @ utf8 [230, 179, 168, 229, 133, 165] @ ''Content-Type''),
      (''(?i)%0d%0aset-cookie:'', ''CRLF'' @ utf8 [230, 179, 168, 229, 133, 165] @ ''Set-Cookie''),
      (''(?i)%0d%0alocation:'', ''CRLF'' @ utf8 [230, 179, 168, 229, 133, 165] @ ''Location''),
      (''(?i)%0d%0aHTTP/'', ''CRLF'' @ utf8 [230, 179, 168, 229, 133, 165] @ ''HTTP'' @ utf8 [229, 147, 141, 229, 186, 148])]\<close>

definition builtin_sensitive_data :: "(string \<times> string) list" where
  \<open>builtin_sensitive_data =
     [(rx ''~b(?:~d[ -]*?){13,16}~b'', utf8 [228, 191, 161, 231, 148, 168, 229, 141, 161, 229, 143, 183]),
      (rx ''~b~d{3}[-~s]?~d{2}[-~s]?~d{4}~b'', utf8 [231, 190, 142, 229, 155, 189, 231, 164, 190, 228, 188, 154, 229, 174, 137, 229, 133, 168, 229, 143, 183]),
      (rx ''~b1[3-9]~d{9}~b'', utf8 [228, 184, 173, 229, 155, 189, 230, 137, 139, 230, 156, 186, 229, 143, 183]),
      (rx ''~b[1-9]~d{5}(?:19|20)~d{2}(?:0[1-9]|1[0-2])(?:0[1-9]|[12]~d|3[01])~d{3}[~dXx]~b'', utf8 [228, 184, 173, 229, 155, 189, 232, 186, 171, 228, 187, 189, 232, 175, 129, 229, 143, 183]),
      (rx ''(?i)(?:api[_-]?key|apikey|access[_-]?token|secret[_-]?key)~s*[:=]~s*[\'"]?[A-Za-z0-9_-]{16,}[\'"]?'', ''API'' @ utf8 [229, 175, 134, 233, 146, 165]),
      (''-----BEGIN (?:RSA |DSA |EC |OPENSSH )?PRIVATE KEY-----'', utf8 [231, 167, 129, 233, 146, 165]),
      (''(?:AKIA|ABIA|ACIA|ADIA|AIIA|AIPA|ANPA|ANVA|APKA|AROA|ASCA|ASIA)[0-9A-Z]{16}'', ''AWS'' @ utf8 [232, 174, 191, 233, 151, 174, 229, 175, 134, 233, 146, 165])]\<close>

definition builtin_file_upload :: "(string \<times> string) list" where
  \<open>builtin_file_upload =
     [(rx ''(?i)~.(php|phtml|php[3-7]|phar|shtml|cgi|pl|py|jsp|jspx|asp|aspx|asa|cer|cfm|swf|war|jsp)'', utf8 [229, 143, 175, 230, 137, 167, 232, 161, 140, 230, 150, 135, 228, 187, 182, 230, 137, 169, 229, 177, 149, 229, 144, 141]),
      (rx ''(?i)~.(exe|dll|so|sh|bat|cmd|com|msi|vbs|ps1|js|jar)'', utf8 [228, 186, 140, 232, 191, 155, 229, 136, 182] @ ''/'' @ utf8 [232, 132, 154, 230, 156, 172, 230, 150, 135, 228, 187, 182]),
      (rx ''(?i)<~?php'', ''PHP'' @ utf8 [228, 187, 163, 231, 160, 129, 230, 160, 135, 231, 173, 190]),
      (''(?i)<%[^>]*%>'', ''ASP'' @ utf8 [228, 187, 163, 231, 160, 129, 230, 160, 135, 231, 173, 190]),
      (''(?i)<script[^>]*>'', ''Script'' @ utf8 [230, 160, 135, 231, 173, 190, 230, 179, 168, 229, 133, 165]),
      (rx ''(?i)~.htaccess'', ''.htaccess'' @ utf8 [230, 150, 135, 228, 187, 182]),
      (rx ''(?i)~.user~.ini'', ''.user.ini'' @ utf8 [230, 150, 135, 228, 187, 182]),
      (''(?i)%00'', utf8 [231, 169, 186, 229, 173, 151, 232, 138, 130, 230, 179, 168, 229, 133, 165] @ ''('' @ utf8 [230, 136, 170, 230, 150, 173] @ '')''),
      (rx ''(?i)~.~./'', utf8 [232, 183, 175, 229, 190, 132, 233, 129, 141, 229, 142, 134, 228, 184, 138, 228, 188, 160]),
      (rx ''(?i)~.jpg~.php'', utf8 [229, 143, 140, 230, 137, 169, 229, 177, 149, 229, 144, 141, 228, 188, 170, 232, 163, 133])]\<close>

definition builtin_error_leak :: "(string \<times> string) list" where
  \<open>builtin_error_leak =
     [(rx ''(?i)Traceback~s*~(most recent call last~)'', ''Python'' @ utf8 [229, 160, 134, 230, 160, 136, 232, 183, 159, 232, 184, 170]),
      (rx ''(?i)Exception~s+in~s+thread~s+"main"'', ''Java'' @ utf8 [229, 188, 130, 229, 184, 184, 229, 160, 134, 230, 160, 136]),
      (rx ''(?i)java~.lang~.~w+Exception'', ''Java'' @ utf8 [229, 188, 130, 229, 184, 184, 231, 177, 187, 229, 144, 141]),
      (rx ''(?i)PHP~s+Fatal~s+error'', ''PHP Fatal''),
      (rx ''(?i)PHP~s+Warning:~s+'', ''PHP Warning''),
      (rx ''(?i)ORA-~d{5}'', ''Oracle'' @ utf8 [233, 148, 153, 232, 175, 175, 231, 160, 129]),
      (rx ''(?i)Microsoft~s+SQL~s+Server~s+error~s+~d+'', ''MSSQL'' @ utf8 [233, 148, 153, 232, 175, 175]),
      (rx ''(?i)MySQL~s+Error~s*~(?~d{4}~)?'', ''MySQL'' @ utf8 [233, 148, 153, 232, 175, 175]),
      (rx ''(?i)Apache/[~d.]+~s*~(.*~)'', ''Apache'' @ utf8 [231, 137, 136, 230, 156, 172, 228, 191, 161, 230, 129, 175]),
      (rx ''(?i)nginx/[~d.]+'', ''Nginx'' @ utf8 [231, 137, 136, 230, 156, 172, 228, 191, 161, 230, 129, 175]),
      (rx ''(?i)panic:~s*runtime~s+error'', ''Go panic'')]\<close>

definition builtin_request_smuggling :: "(string \<times> string) list" where
  \<open>builtin_request_smuggling =
     [(''(?i)^chunked'', ''Transfer-Encoding: chunked'' @ utf8 [229, 143, 152, 229, 189, 162]),
      (rx ''(?i)^~s*chunked'', ''Transfer-Encoding'' @ utf8 [229, 137, 141, 229, 175, 188, 231, 169, 186, 231, 153, 189] @ ''chunked''),
      (rx ''(?i)^identity~s*,~s*chunked'', ''TE: identity, chunked''),
      (rx ''(?i)^gzip~s*,~s*chunked'', ''TE: gzip, chunked''),
      (rx ''~b0x[0-9a-fA-F]+~b'', utf8 [229, 141, 129, 229, 133, 173, 232, 191, 155, 229, 136, 182] @ ''Content-Length''),
      (rx ''^~s*~d+~s*,~s*~d+'', utf8 [229, 164, 154, 228, 184, 170] @ ''Content-Length'' @ utf8 [229, 128, 188])]\<close>

subsection \<open>Patterns of the syntax analyser\<close>

definition break_pattern :: string where
  \<open>break_pattern =
     rx ''(?:\'|"|;|--|#|/~*)~s*(?:OR|AND|UNION|SELECT|INSERT|UPDATE|DELETE|DROP|EXEC|HAVING|FROM|WHERE)''\<close>

definition union_select_pattern :: string where
  \<open>union_select_pattern =
     rx ''(?i)UNION~s+(?:ALL~s+)?SELECT''\<close>

definition boolean_pattern :: string where
  \<open>boolean_pattern =
     rx ''(?i)(?:OR|AND)~s+(?:~d+~s*=~s*~d+|\'?1\'?~s*=~s*\'?1\'?|TRUE|FALSE|[a-zA-Z_]~w*~s*=~s*~d+)''\<close>

definition dangerous_func_pattern :: string where
  \<open>dangerous_func_pattern =
     rx ''(?i)(?:LOAD_FILE|INTO_OUTFILE|INTO_DUMPFILE|BENCHMARK|SLEEP|WAITFOR~s+DELAY|PG_SLEEP|DBMS_PIPE|INFORMATION_SCHEMA|DATABASE~(~)|USER~(~)|VERSION~(~)|CURRENT_USER|SESSION_USER|SYSTEM_USER)''\<close>

definition metachar_cmd_pattern :: string where
  \<open>metachar_cmd_pattern =
     rx ''[;|&]~s*(?:cat|ls|id|whoami|pwd|uname|wget|curl|nc|bash|sh|python|perl|ruby|php|powershell|cmd|dir|net)~b''\<close>

definition cmd_subst_pattern :: string where
  \<open>cmd_subst_pattern =
     rx ''(?:~$~([^)]+~)|`[^`]+`)''\<close>

definition redirect_sensitive_pattern :: string where
  \<open>redirect_sensitive_pattern =
     rx ''(?:>|>>)~s*(?:/etc/|/proc/|/var/log|/tmp/|C:~~Windows~~|C:~~inetpub~~)''\<close>

end
