(* ===== verification/DlpRules.thy ===== *)
theory DlpRules
  imports SqlTable
begin

text \<open>
  \<open>internal/domain/security/dlprule/rl.go\<close>: the rules for sensitive data. The manager keeps the
  compiled rules of the table \<open>dlp_rules\<close>, whose key is the name with the pattern; the built-in
  rules are inserted once and cannot be deleted or edited, only switched off.

  Proved: what \<open>Check\<close> reports is a function of the table, and the operations on custom rules
  leave the built-in ones alone.
\<close>

subsection \<open>The code\<close>

record dlp_row =
  dr_id :: nat
  dr_name :: string
  dr_pattern :: string
  dr_action :: string
  dr_category :: string
  dr_rule_type :: string
  dr_enabled :: int

record dlp_rule =
  dl_ID :: nat
  dl_Name :: string
  dl_Pattern :: string
  dl_Action :: string
  dl_Category :: string
  dl_RuleType :: string
  dl_Enabled :: bool
  dl_compiledRe :: "go_regexp option"

record dlp_match =
  dm_RuleName :: string
  dm_Category :: string
  dm_Action :: string
  dm_Match :: string

record dlp_manager =
  dlp_has_db :: bool
  dlp_table :: "dlp_row sql_table"
  dlp_rules :: "dlp_rule list"

definition builtin_dlp_rules :: "(string \<times> string \<times> string \<times> string) list" where
  \<open>builtin_dlp_rules =
     [(utf8 [228, 184, 173, 229, 155, 189, 232, 186, 171, 228, 187, 189, 232, 175, 129, 229, 143, 183], rx ''~b[1-9]~d{5}(19|20)~d{2}(0[1-9]|1[0-2])(0[1-9]|[12]~d|3[01])~d{3}[~dXx]~b'', ''detect'', ''pii''),
      (utf8 [228, 184, 173, 229, 155, 189, 229, 164, 167, 233, 153, 134, 230, 137, 139, 230, 156, 186, 229, 143, 183], rx ''~b1[3-9]~d{9}~b'', ''detect'', ''pii''),
      (utf8 [233, 147, 182, 232, 161, 140, 229, 141, 161, 229, 143, 183] @ ''(16'' @ utf8 [228, 189, 141] @ '')'', rx ''~b[3-6]~d{15}~b'', ''detect'', ''finance''),
      (utf8 [233, 147, 182, 232, 161, 140, 229, 141, 161, 229, 143, 183] @ ''(19'' @ utf8 [228, 189, 141] @ '')'', rx ''~b[3-6]~d{18}~b'', ''detect'', ''finance''),
      (utf8 [231, 148, 181, 229, 173, 144, 233, 130, 174, 231, 174, 177, 229, 156, 176, 229, 157, 128], rx ''~b[a-zA-Z0-9._%+~-]+@[a-zA-Z0-9.~-]+~.[a-zA-Z]{2,}~b'', ''detect'', ''pii''),
      (''IPv4'' @ utf8 [229, 156, 176, 229, 157, 128], rx ''~b(?:(?:25[0-5]|2[0-4]~d|[01]?~d~d?)~.){3}(?:25[0-5]|2[0-4]~d|[01]?~d~d?)~b'', ''detect'', ''pii''),
      (''AWS Access Key'', ''(?:A3T[A-Z0-9]|AKIA|AGPA|AIDA|AROA|AIPA|ANPA|ANVA|ASIA)[A-Z0-9]{16}'', ''detect'', ''credential''),
      (''AWS Secret Key'', ''[A-Za-z0-9/+=]{40}'', ''detect'', ''credential''),
      (''GitHub Token'', ''gh[pousr]_[A-Za-z0-9_]{36,}'', ''detect'', ''credential''),
      (''JWT Token'', rx ''eyJ[A-Za-z0-9~-_]+~.eyJ[A-Za-z0-9~-_]+~.[A-Za-z0-9~-_]+'', ''detect'', ''credential''),
      (utf8 [231, 167, 129, 233, 146, 165, 230, 160, 135, 232, 175, 134], ''-----BEGIN (?:RSA |DSA |EC |OPENSSH )?PRIVATE KEY-----'', ''detect'', ''credential''),
      (''Slack Token'', rx ''xox[baprs]-[A-Za-z0-9~-]{10,}'', ''detect'', ''credential''),
      (''Slack Webhook'', rx ''https://hooks~.slack~.com/services/T[A-Z0-9]+/B[A-Z0-9]+/[A-Za-z0-9]+'', ''detect'', ''credential''),
      (''Google API Key'', rx ''AIza[A-Za-z0-9~-_]{35}'', ''detect'', ''credential''),
      (''Google OAuth'', rx ''[0-9]+-[a-z0-9_]{32}~.apps~.googleusercontent~.com'', ''detect'', ''credential''),
      (''Stripe Key'', ''[sr]k_(live|test)_[A-Za-z0-9]{24,}'', ''detect'', ''credential''),
      (''Twilio Key'', ''SK[A-Za-z0-9]{32}'', ''detect'', ''credential''),
      (utf8 [229, 175, 134, 231, 160, 129, 229, 173, 151, 230, 174, 181] @ ''('' @ utf8 [229, 184, 184, 232, 167, 129] @ ''key)'', rx ''(?i)(?:password|passwd|pwd|secret|token|api[_~-]?key|access[_~-]?key|private[_~-]?key)~s*[:=]~s*["\']?[^~s"\']{4,}'', ''detect'', ''credential''),
      (utf8 [229, 167, 147, 229, 144, 141] @ ''-'' @ utf8 [230, 137, 139, 230, 156, 186, 229, 143, 183, 231, 187, 132, 229, 144, 136], rx ''[~p{Han}]{2,4}[1-9]~d{10}'', ''mask'', ''pii''),
      (utf8 [231, 164, 190, 228, 188, 154, 228, 191, 161, 231, 148, 168, 228, 187, 163, 231, 160, 129], ''[0-9A-Z]{18}'', ''detect'', ''finance''),
      (''Base64'' @ utf8 [231, 188, 150, 231, 160, 129, 233, 149, 191, 228, 184, 178] @ ''('' @ utf8 [231, 150, 145, 228, 188, 188, 229, 175, 134, 233, 146, 165] @ '')'', ''(?:[A-Za-z0-9+/]{4})*(?:[A-Za-z0-9+/]{2}==|[A-Za-z0-9+/]{3}=|[A-Za-z0-9+/]{4})'', ''detect'', ''credential''),
      (utf8 [231, 148, 181, 232, 175, 157, 229, 143, 183, 231, 160, 129] @ ''('' @ utf8 [229, 184, 166, 229, 140, 186, 229, 143, 183] @ '')'', rx ''~b(?:~+86|0086|86)~s*~-?~s*1[3-9]~d{9}~b'', ''detect'', ''pii''),
      (''URL'' @ utf8 [229, 144, 171, 230, 149, 143, 230, 132, 159, 232, 183, 175, 229, 190, 132], rx ''(?i)https?://[^~s]*/(?:admin|config|~.env|~.git|backup|debug|console|phpmyadmin)[^~s]*'', ''detect'', ''other'')]\<close>

definition dlp_key :: "dlp_row \<Rightarrow> string \<times> string" where
  "dlp_key r = (dr_name r, dr_pattern r)"

definition mk_dlp_row :: "string \<Rightarrow> string \<Rightarrow> string \<Rightarrow> string \<Rightarrow> string \<Rightarrow> bool \<Rightarrow> nat \<Rightarrow> dlp_row" where
  "mk_dlp_row name pattern action category rule_type enabled rid =
     \<lparr>dr_id = rid, dr_name = name, dr_pattern = pattern, dr_action = action,
      dr_category = category, dr_rule_type = rule_type, dr_enabled = (if enabled then 1 else 0)\<rparr>"

text \<open>The transaction of \<open>initBuiltinRules\<close>: \<open>counted\<close> and \<open>committed\<close> say whether the query and
  the commit worked.\<close>

definition init_builtin_dlp :: "bool \<Rightarrow> bool \<Rightarrow> dlp_row sql_table \<Rightarrow> dlp_row sql_table" where
  "init_builtin_dlp counted committed t =
     (if \<not> counted \<or> list_ex (\<lambda>r. dr_rule_type r = ''builtin'') (t_rows t) \<or> \<not> committed then t
      else foldl (\<lambda>t (name, pattern, action, category).
                    sql_insert_ignore dlp_key
                      (mk_dlp_row name pattern action category ''builtin'' True) t)
             t builtin_dlp_rules)"

definition scan_dlp :: "dlp_row \<Rightarrow> dlp_rule" where
  "scan_dlp r =
     \<lparr>dl_ID = dr_id r, dl_Name = dr_name r, dl_Pattern = dr_pattern r, dl_Action = dr_action r,
      dl_Category = dr_category r, dl_RuleType = dr_rule_type r, dl_Enabled = (dr_enabled r = 1),
      dl_compiledRe = None\<rparr>"

definition load_dlp_row :: "compiler \<Rightarrow> dlp_row \<Rightarrow> dlp_rule option" where
  "load_dlp_row compile r =
     (if dr_pattern r = '''' then Some (scan_dlp r)
      else map_option (\<lambda>re. (scan_dlp r)\<lparr>dl_compiledRe := Some re\<rparr>) (compile (dr_pattern r)))"

definition build_dlp :: "compiler \<Rightarrow> dlp_row sql_table \<Rightarrow> dlp_rule list" where
  "build_dlp compile t = List.map_filter (load_dlp_row compile) (t_rows t)"

definition load_dlp :: "compiler \<Rightarrow> bool \<Rightarrow> dlp_manager \<Rightarrow> dlp_manager" where
  "load_dlp compile ok m =
     (if \<not> ok then m else m\<lparr>dlp_rules := build_dlp compile (dlp_table m)\<rparr>)"

definition new_dlp_manager ::
  "compiler \<Rightarrow> bool \<Rightarrow> bool \<Rightarrow> bool \<Rightarrow> dlp_row sql_table option \<Rightarrow> dlp_manager" where
  "new_dlp_manager compile counted committed ok db =
     (case db of
        None \<Rightarrow> \<lparr>dlp_has_db = False, dlp_table = empty_table, dlp_rules = []\<rparr>
      | Some t \<Rightarrow>
          load_dlp compile ok
            \<lparr>dlp_has_db = True, dlp_table = init_builtin_dlp counted committed t, dlp_rules = []\<rparr>)"

definition dlp_match_of :: "string \<Rightarrow> dlp_rule \<Rightarrow> dlp_match option" where
  "dlp_match_of txt r =
     (case dl_compiledRe r of
        None \<Rightarrow> None
      | Some re \<Rightarrow>
          if \<not> dl_Enabled r \<or> re_find re txt = '''' then None
          else Some \<lparr>dm_RuleName = dl_Name r, dm_Category = dl_Category r, dm_Action = dl_Action r,
                     dm_Match = re_find re txt\<rparr>)"

definition dlp_check :: "dlp_manager \<Rightarrow> string \<Rightarrow> dlp_match list" where
  "dlp_check m txt =
     (if txt = '''' then [] else List.map_filter (dlp_match_of txt) (dlp_rules m))"

definition no_database :: string where
  "no_database = ''database not initialized''"

definition dlp_missing_text :: string where
  "dlp_missing_text =
     utf8 [230, 151, 160, 230, 179, 149, 229, 136, 160, 233, 153, 164, 229, 134, 133, 231, 189, 174,
           232, 167, 132, 229, 136, 153, 230, 136, 150, 232, 167, 132, 229, 136, 153, 228, 184, 141,
           229, 173, 152, 229, 156, 168]"

definition put_dlp :: "dlp_row sql_table \<Rightarrow> dlp_manager \<Rightarrow> dlp_manager" where
  "put_dlp t m = m\<lparr>dlp_table := t\<rparr>"

definition dlp_exec ::
  "compiler \<Rightarrow> bool \<Rightarrow> string option \<Rightarrow> (dlp_row sql_table \<Rightarrow> string + dlp_row sql_table) \<Rightarrow> dlp_manager
   \<Rightarrow> (string + unit) \<times> dlp_manager" where
  "dlp_exec compile ok fail stmt m =
     (if \<not> dlp_has_db m then (Inl no_database, m)
      else exec_reload dlp_table put_dlp (load_dlp compile) ok (try_stmt fail stmt) m)"

definition add_dlp_rule where
  "add_dlp_rule compile ok fail name pattern action category enabled =
     dlp_exec compile ok fail
       (sql_insert dlp_key (mk_dlp_row name pattern action category ''custom'' enabled))"

definition is_custom_dlp :: "nat \<Rightarrow> dlp_row \<Rightarrow> bool" where
  "is_custom_dlp rid r \<longleftrightarrow> dr_id r = rid \<and> dr_rule_type r = ''custom''"

definition update_dlp_rule where
  "update_dlp_rule compile ok fail rid name pattern action category enabled =
     dlp_exec compile ok fail
       (\<lambda>t. map_sum (\<lambda>e. e) fst
          (sql_update_unique dlp_key (is_custom_dlp rid)
             (\<lambda>r. r\<lparr>dr_name := name, dr_pattern := pattern, dr_action := action,
                    dr_category := category, dr_enabled := (if enabled then 1 else 0)\<rparr>) t))"

definition delete_dlp_rule where
  "delete_dlp_rule compile ok fail rid =
     dlp_exec compile ok fail (affecting dlp_missing_text (sql_delete (is_custom_dlp rid)))"

definition toggle_dlp_rule where
  "toggle_dlp_rule compile ok fail rid enabled =
     dlp_exec compile ok fail
       (\<lambda>t. Inr (fst (sql_update (\<lambda>r. dr_id r = rid)
                        (\<lambda>r. r\<lparr>dr_enabled := (if enabled then 1 else 0)\<rparr>) t)))"

text \<open>\<open>ORDER BY rule_type DESC, id\<close>: the custom rules, then the built-in ones.\<close>

definition list_dlp_rules :: "dlp_manager \<Rightarrow> dlp_rule list" where
  "list_dlp_rules m =
     (if \<not> dlp_has_db m then []
      else map scan_dlp
             (filter (\<lambda>r. dr_rule_type r \<noteq> ''builtin'') (t_rows (dlp_table m)) @
              filter (\<lambda>r. dr_rule_type r = ''builtin'') (t_rows (dlp_table m))))"

definition reload_dlp :: "compiler \<Rightarrow> bool \<Rightarrow> dlp_manager \<Rightarrow> dlp_manager" where
  "reload_dlp compile ok m = (if dlp_has_db m then load_dlp compile ok m else m)"

subsection \<open>The rules in force are those of the table\<close>

interpretation dlp: cached_table dlp_table dlp_rules "build_dlp compile" put_dlp "load_dlp compile"
  for compile
  by unfold_locales (auto simp: load_dlp_def put_dlp_def)

lemma dlp_check_fresh:
  "dlp.fresh compile m \<Longrightarrow> txt \<noteq> '''' \<Longrightarrow>
   dlp_check m txt = List.map_filter (dlp_match_of txt) (build_dlp compile (dlp_table m))"
  by (simp add: dlp_check_def dlp.fresh_def)

definition builtin_dlp_rows :: "dlp_manager \<Rightarrow> dlp_row list" where
  "builtin_dlp_rows m = filter (\<lambda>r. dr_rule_type r = ''builtin'') (t_rows (dlp_table m))"

lemma dlp_exec_table:
  "dlp_table (snd (dlp_exec compile ok fail stmt m)) =
     (case try_stmt fail stmt (dlp_table m) of
        Inl _ \<Rightarrow> dlp_table m
      | Inr t \<Rightarrow> if dlp_has_db m then t else dlp_table m)"
  by (simp add: dlp_exec_def exec_reload_def load_dlp_def put_dlp_def split: sum.split)

lemma dlp_exec_builtin:
  assumes "\<And>t t'. stmt t = Inr t' \<Longrightarrow>
    filter (\<lambda>r. dr_rule_type r = ''builtin'') (t_rows t') = filter (\<lambda>r. dr_rule_type r = ''builtin'') (t_rows t)"
  shows "builtin_dlp_rows (snd (dlp_exec compile ok fail stmt m)) = builtin_dlp_rows m"
  using assms by (auto simp: builtin_dlp_rows_def dlp_exec_table try_stmt_def split: sum.split option.split)

lemma filter_map_other:
  "(\<And>x. P x \<Longrightarrow> \<not> Q x \<and> \<not> Q (f x)) \<Longrightarrow>
   filter Q (map (\<lambda>x. if P x then f x else x) xs) = filter Q xs"
  by (induction xs) auto

lemma builtin_is_not_custom: "dr_rule_type r = ''builtin'' \<Longrightarrow> \<not> is_custom_dlp rid r"
  by (simp add: is_custom_dlp_def)

lemma builtin_not_custom_filter:
  "filter (\<lambda>x. \<not> is_custom_dlp rid x \<and> dr_rule_type x = ''builtin'') rows =
   filter (\<lambda>r. dr_rule_type r = ''builtin'') rows"
  by (rule filter_cong) (auto simp: is_custom_dlp_def)

lemma add_dlp_builtin:
  "builtin_dlp_rows (snd (add_dlp_rule compile ok fail name pattern action category enabled m)) = builtin_dlp_rows m"
  unfolding add_dlp_rule_def
  by (rule dlp_exec_builtin) (auto simp: sql_insert_def mk_dlp_row_def Let_def split: if_splits)

lemma update_dlp_builtin:
  "builtin_dlp_rows (snd (update_dlp_rule compile ok fail rid name pattern action category enabled m)) = builtin_dlp_rows m"
  unfolding update_dlp_rule_def
proof (rule dlp_exec_builtin)
  fix t t'
  assume "map_sum (\<lambda>e. e) fst (sql_update_unique dlp_key (is_custom_dlp rid)
    (\<lambda>r. r\<lparr>dr_name := name, dr_pattern := pattern, dr_action := action,
           dr_category := category, dr_enabled := (if enabled then 1 else 0)\<rparr>) t) = Inr t'"
  then show "filter (\<lambda>r. dr_rule_type r = ''builtin'') (t_rows t') =
    filter (\<lambda>r. dr_rule_type r = ''builtin'') (t_rows t)"
    by (auto simp: sql_update_unique_def sql_update_def Let_def is_custom_dlp_def
        intro!: filter_map_other split: if_splits)
qed

lemma delete_dlp_builtin:
  "builtin_dlp_rows (snd (delete_dlp_rule compile ok fail rid m)) = builtin_dlp_rows m"
  unfolding delete_dlp_rule_def
  by (rule dlp_exec_builtin)
    (auto simp: affecting_def sql_delete_def Let_def builtin_not_custom_filter
      split: if_splits)

text \<open>
  The sensitive-data rules. Every operation on the rules leaves \<open>Check\<close> reporting, for a
  non-empty text, the matches of the rules of the table in their order, provided its reload
  works; and no operation on custom rules changes a built-in row, whatever the id it is given.
\<close>

theorem dlp_rules_current:
  assumes "dlp.fresh compile m"
  shows "let ms = [snd (add_dlp_rule compile True fail name pattern action category enabled m),
                   snd (update_dlp_rule compile True fail rid name pattern action category enabled m),
                   snd (delete_dlp_rule compile True fail rid m)]
         in list_all (\<lambda>m'. builtin_dlp_rows m' = builtin_dlp_rows m) ms \<and>
            list_all (\<lambda>m'. txt = '''' \<or>
              dlp_check m' txt = List.map_filter (dlp_match_of txt) (build_dlp compile (dlp_table m')))
              (snd (toggle_dlp_rule compile True fail rid enabled m) # ms)"
proof -
  have fresh: "dlp.fresh compile (snd (dlp_exec compile True fail stmt m))" for stmt
    using assms dlp.exec_fresh by (simp add: dlp_exec_def)
  show ?thesis
    unfolding Let_def list.pred_inject
    by (intro conjI add_dlp_builtin update_dlp_builtin delete_dlp_builtin TrueI)
      (simp_all add: dlp_check_fresh fresh toggle_dlp_rule_def add_dlp_rule_def
        update_dlp_rule_def delete_dlp_rule_def disj_imp)
qed

definition sample_dlp :: dlp_manager where
  "sample_dlp =
     load_dlp go_compile True
       \<lparr>dlp_has_db = True,
        dlp_table = \<lparr>t_rows = [mk_dlp_row ''digits'' (rx ''~d+'') ''detect'' ''pii'' ''builtin'' True 1], t_next = 2\<rparr>,
        dlp_rules = []\<rparr>"

lemma dlp_rules_current_witness:
  "builtin_dlp_rows (snd (delete_dlp_rule go_compile True None 1 sample_dlp)) = builtin_dlp_rows sample_dlp"
  using dlp_rules_current[of go_compile sample_dlp None "''a''" "''b''" "''c''" "''d''" True 1 "''x''"]
  by (simp add: sample_dlp_def dlp.load_fresh Let_def)

end
