(* ===== verification/Detectors.thy ===== *)
theory Detectors
  imports DetectorRules DlpRules Http
begin

text \<open>
  The detectors of \<open>internal/domain/security/detector\<close>: for each attack type the compiled
  patterns, the heuristics and \<open>DetectRequest\<close>, which says what parts of a request the detector
  looks at and in which order.

  \<^item> A result \<open>(false, ...)\<close> is \<open>None\<close>, \<open>(true, pattern, rule, description)\<close> a \<open>hit\<close>, with the
    location a \<open>located\<close> hit. A detector is its patterns with their descriptions.
  \<^item> \<open>compile\<close> is the regular-expression compiler, \<open>html\<close> is \<open>html.UnescapeString\<close> of the
    standard library.
  \<^item> Log lines and locks are not modelled.
\<close>

subsection \<open>Patterns\<close>

type_synonym hit = "string \<times> int \<times> string"
type_synonym located = "string \<times> string \<times> int \<times> string"

record pattern_detector =
  dt_patterns :: "go_regexp list"
  dt_descs :: "string list"

definition compile_patterns :: "compiler \<Rightarrow> (string \<times> string) list \<Rightarrow> pattern_detector" where
  "compile_patterns compile entries =
     (let compiled = List.map_filter (\<lambda>(p, d). map_option (\<lambda>re. (re, d)) (compile p)) entries
      in \<lparr>dt_patterns = map fst compiled, dt_descs = map snd compiled\<rparr>)"

definition compile_cmd_patterns :: "compiler \<Rightarrow> pattern_detector" where
  "compile_cmd_patterns compile =
     compile_patterns compile
       (map (\<lambda>p. (p, case map_of cmd_desc_map p of Some d \<Rightarrow> d | None \<Rightarrow> (utf8 [229, 145, 189, 228, 187, 164, 230, 179, 168, 229, 133, 165, 232, 167, 132, 229, 136, 153])))
         cmd_pattern_strs)"

text \<open>The loop over the patterns; a description may be missing.\<close>

fun first_match :: "int \<Rightarrow> go_regexp list \<Rightarrow> string list \<Rightarrow> string \<Rightarrow> hit option" where
  "first_match i [] descs s = None"
| "first_match i (p # ps) descs s =
     (if re_match p s then Some (re_string p, i + 1, case descs of [] \<Rightarrow> '''' | d # _ \<Rightarrow> d)
      else first_match (i + 1) ps (drop 1 descs) s)"

definition match_patterns :: "pattern_detector \<Rightarrow> string \<Rightarrow> hit option" where
  "match_patterns d s = first_match 0 (dt_patterns d) (dt_descs d) s"

fun first_hit :: "'a option list \<Rightarrow> 'a option" where
  "first_hit [] = None"
| "first_hit (x # xs) = (case x of Some h \<Rightarrow> Some h | None \<Rightarrow> first_hit xs)"

definition hit_at :: "string \<Rightarrow> hit option \<Rightarrow> located option" where
  "hit_at loc = map_option (\<lambda>(p, i, d). (p, loc, i, d))"

definition has_body_method :: "string \<Rightarrow> bool" where
  "has_body_method m \<longleftrightarrow> m = ''POST'' \<or> m = ''PUT'' \<or> m = ''PATCH''"

text \<open>The parts most detectors look at, and headers looked up by the key as it is written.\<close>

definition scan_body :: "(string \<Rightarrow> hit option) \<Rightarrow> string \<Rightarrow> string \<Rightarrow> located option" where
  "scan_body detect meth body = (if has_body_method meth then hit_at ''body'' (detect body) else None)"

definition scan_headers :: "(string \<Rightarrow> hit option) \<Rightarrow> headers \<Rightarrow> string list \<Rightarrow> located option" where
  "scan_headers detect headers names =
     first_hit (concat (map (\<lambda>h. map (\<lambda>v. hit_at (''header:'' @ h) (detect v)) (headers h)) names))"

definition set_patterns :: "(go_regexp \<times> string) list \<Rightarrow> pattern_detector" where
  "set_patterns ps = \<lparr>dt_patterns = map fst ps, dt_descs = map snd ps\<rparr>"

subsection \<open>sql\_injection.go\<close>

definition sql_keywords :: "string list" where
  "sql_keywords =
     [''SELECT'', ''UNION'', ''INSERT'', ''UPDATE'', ''DELETE'', ''DROP'', ''EXEC'', ''OR'', ''AND'', ''WHERE'',
      ''FROM'', ''HAVING'', ''GROUP'', ''ORDER'', ''TABLE'', ''DATABASE'', ''INFORMATION_SCHEMA'', ''SLEEP'',
      ''BENCHMARK'']"

definition odd_quotes :: "char \<Rightarrow> string \<Rightarrow> bool" where
  "odd_quotes q s = (let n = length (filter (\<lambda>c. c = q) s) in n > 1 \<and> n mod 2 \<noteq> 0)"

definition sql_heuristic :: "string \<Rightarrow> bool" where
  "sql_heuristic input =
     (let upper = to_upper input; hasSQLKeyword = list_ex (str_contains upper) sql_keywords in
      if odd_quotes (CHR 0x27) input \<and> hasSQLKeyword then True
      else if odd_quotes (CHR 0x22) input \<and> hasSQLKeyword then True
      else (str_contains input ''())'' \<or> str_contains input ''(())'') \<and>
           list_ex (str_contains upper) [''SELECT'', ''UNION'', ''INSERT'', ''UPDATE'', ''DELETE'', ''DROP'', ''EXEC''])"

definition heuristic_hit :: "string \<Rightarrow> string \<Rightarrow> bool \<Rightarrow> hit option" where
  "heuristic_hit p d b = (if b then Some (p, 0, d) else None)"

definition sql_detect :: "pattern_detector \<Rightarrow> string \<Rightarrow> hit option" where
  "sql_detect d input =
     (if input = '''' then None
      else let normalized = trim_space input in
           first_hit [match_patterns d normalized,
             heuristic_hit ''heuristic_detection'' (utf8 [229, 144, 175, 229, 143, 145, 229, 188, 143, 230, 163, 128, 230, 181, 139]) (sql_heuristic normalized)])"

definition sql_detect_request ::
  "pattern_detector \<Rightarrow> string \<Rightarrow> string \<Rightarrow> string \<Rightarrow> string \<Rightarrow> headers \<Rightarrow> located option" where
  "sql_detect_request d meth path query body headers =
     first_hit
       [hit_at ''path'' (sql_detect d path), hit_at ''query'' (sql_detect d query),
        scan_body (sql_detect d) meth body,
        scan_headers (sql_detect d) headers [''X-Forwarded-For'', ''X-Real-IP'', ''Referer'', ''User-Agent'']]"

subsection \<open>xss.go\<close>

definition encoding_bypass :: "string \<Rightarrow> bool" where
  "encoding_bypass input =
     (let compressed = filter (\<lambda>c. c \<notin> {CHR '' '', CHR 0x09, CHR 0x0A, CHR 0x0D}) input;
          lower = to_lower compressed
      in list_ex (\<lambda>p. str_contains lower p \<and> \<not> str_contains (to_lower input) p)
           [''<script'', ''<iframe'', ''<object'', ''<embed'', ''<applet'', ''javascript:'', ''vbscript:''])"

definition xss_detect :: "(string \<Rightarrow> string) \<Rightarrow> pattern_detector \<Rightarrow> string \<Rightarrow> hit option" where
  "xss_detect html d input =
     (if input = '''' then None
      else let decoded = html input in
           first_hit
             [match_patterns d input,
              if decoded \<noteq> input
              then map_option (\<lambda>(p, i, desc). (p @ '' (decoded)'', i, desc)) (match_patterns d decoded)
              else None,
              heuristic_hit ''encoding_bypass'' (utf8 [231, 188, 150, 231, 160, 129, 231, 187, 149, 232, 191, 135, 230, 163, 128, 230, 181, 139]) (encoding_bypass input)])"

definition xss_detect_request ::
  "(string \<Rightarrow> string) \<Rightarrow> pattern_detector \<Rightarrow> string \<Rightarrow> string \<Rightarrow> string \<Rightarrow> string \<Rightarrow> headers \<Rightarrow> located option" where
  "xss_detect_request html d meth path query body headers =
     first_hit
       [hit_at ''path'' (xss_detect html d path), hit_at ''query'' (xss_detect html d query),
        scan_body (xss_detect html d) meth body,
        scan_headers (xss_detect html d) headers [''Referer'']]"

subsection \<open>command\_injection.go\<close>

definition cmd_heuristic :: "string \<Rightarrow> bool" where
  "cmd_heuristic input =
     (if str_contains input ''../'' \<or> str_contains input (''..'' @ [bslash]) then True
      else str_contains input ''${'' \<and> str_contains input ''}'' \<and>
           list_ex (\<lambda>v. str_contains (to_lower input) (to_lower v))
             [''${IFS}'', ''${PATH}'', ''${HOME}'', ''${SHELL}'', ''${USER}''])"

definition cmd_detect :: "pattern_detector \<Rightarrow> string \<Rightarrow> hit option" where
  "cmd_detect d input =
     (if input = '''' then None
      else first_hit [match_patterns d input,
             heuristic_hit ''heuristic_detection'' (utf8 [229, 144, 175, 229, 143, 145, 229, 188, 143, 230, 163, 128, 230, 181, 139]) (cmd_heuristic input)])"

definition cmd_detect_request ::
  "pattern_detector \<Rightarrow> string \<Rightarrow> string \<Rightarrow> string \<Rightarrow> string \<Rightarrow> headers \<Rightarrow> located option" where
  "cmd_detect_request d meth path query body headers =
     first_hit
       [hit_at ''path'' (cmd_detect d path), hit_at ''query'' (cmd_detect d query),
        scan_body (cmd_detect d) meth body]"

subsection \<open>path\_traversal.go\<close>

definition path_heuristic :: "string \<Rightarrow> bool" where
  "path_heuristic input =
     (let normalized = replace_all input [bslash] ''/'';
          decoded = replace_all (replace_all (replace_all (to_lower input) ''%2e'' ''.'') ''%2f'' ''/'') ''%5c'' ''/''
      in str_count normalized ''../'' \<ge> 3 \<or>
         (str_contains decoded ''../'' \<and> \<not> str_contains input ''../''))"

definition path_detect :: "pattern_detector \<Rightarrow> string \<Rightarrow> hit option" where
  "path_detect d input =
     first_hit [match_patterns d input,
       heuristic_hit ''heuristic_path_traversal'' (utf8 [229, 144, 175, 229, 143, 145, 229, 188, 143, 232, 183, 175, 229, 190, 132, 233, 129, 141, 229, 142, 134, 230, 163, 128, 230, 181, 139]) (path_heuristic input)]"

definition path_detect_request ::
  "pattern_detector \<Rightarrow> string \<Rightarrow> string \<Rightarrow> string \<Rightarrow> string \<Rightarrow> headers \<Rightarrow> located option" where
  "path_detect_request d meth path query body headers =
     first_hit
       [hit_at ''path'' (path_detect d path), hit_at ''query'' (path_detect d query),
        scan_body (path_detect d) meth body,
        scan_headers (path_detect d) headers
          [''Referer'', ''X-Forwarded-For'', ''X-Original-URL'', ''X-Rewrite-URL'']]"

subsection \<open>header\_injection.go\<close>

definition has_crlf :: "string \<Rightarrow> bool" where
  "has_crlf s =
     (str_contains s ''%0d'' \<or> str_contains s ''%0a'' \<or> CHR 0x0D \<in> set s \<or> CHR 0x0A \<in> set s)"

definition rebinding_hosts :: "string list" where
  "rebinding_hosts = [''localhost'', ''127.0.0.1'', ''0.0.0.0'', ''[::1]'', ''0177.0.0.1'']"

definition check_host :: "string \<Rightarrow> located option" where
  "check_host host =
     (if host = '''' then None
      else if has_crlf host then Some (''host_header_crlf'', ''header:Host'', 0, (''Host'' @ utf8 [229, 164, 180] @ ''CRLF'' @ utf8 [230, 179, 168, 229, 133, 165]))
      else map_option (\<lambda>s. (''host_header_rebinding:'' @ s, ''header:Host'', 0, (''Host'' @ utf8 [229, 164, 180, 233, 135, 141, 231, 187, 145, 229, 174, 154] @ '':'') @ s))
             (find (\<lambda>s. to_lower host = s \<or> has_prefix (to_lower host) (s @ '':'')) rebinding_hosts))"

definition header_detect_request ::
  "pattern_detector \<Rightarrow> string \<Rightarrow> string \<Rightarrow> string \<Rightarrow> string \<Rightarrow> headers \<Rightarrow> located option" where
  "header_detect_request d meth path query body headers =
     first_hit
       [hit_at ''query'' (match_patterns d query), scan_body (match_patterns d) meth body,
        check_host (header_get headers ''Host''),
        if header_get headers ''X-Forwarded-For'' \<noteq> '''' \<and> has_crlf (header_get headers ''X-Forwarded-For'')
        then Some (''xff_crlf'', ''header:X-Forwarded-For'', 0, (''XFF'' @ utf8 [229, 164, 180] @ ''CRLF'' @ utf8 [230, 179, 168, 229, 133, 165])) else None,
        scan_headers (match_patterns d) headers [''Referer'', ''Origin'', ''X-Original-URL'', ''X-Rewrite-URL'']]"

subsection \<open>ssrf.go\<close>

definition ip_is_private :: "ip_addr \<Rightarrow> bool" where
  "ip_is_private ip =
     (case ip of
        V4 w \<Rightarrow> drop_bit 24 w = 10 \<or> drop_bit 20 w = 172 * 16 + 1 \<or> drop_bit 16 w = 192 * 256 + 168
      | V6 w \<Rightarrow> drop_bit 121 w = 0x7E)"

definition parse_url_from_input :: "string \<Rightarrow> string" where
  "parse_url_from_input input =
     (case str_index (to_lower input) ''://'' of
        None \<Rightarrow> ''''
      | Some idx \<Rightarrow> takeWhile (\<lambda>c. c \<notin> set ''/?# &'') (drop (idx + 3) input))"

definition ssrf_heuristic :: "string \<Rightarrow> bool" where
  "ssrf_heuristic input =
     (if \<not> str_contains (to_lower input) ''://'' then False
      else
        let u = parse_url_from_input input;
            host = (case split_host_port u of Some (h, _) \<Rightarrow> h | None \<Rightarrow> u)
        in case parse_ip host of
             None \<Rightarrow> False
           | Some ip \<Rightarrow> is_loopback ip \<or> ip_is_private ip \<or> is_link_local_unicast ip \<or> is_link_local_multicast ip)"

definition ssrf_detect :: "pattern_detector \<Rightarrow> string \<Rightarrow> hit option" where
  "ssrf_detect d input =
     (if input = '''' then None
      else first_hit [match_patterns d input,
             heuristic_hit ''heuristic_detection'' (''SSRF'' @ utf8 [229, 144, 175, 229, 143, 145, 229, 188, 143, 230, 163, 128, 230, 181, 139]) (ssrf_heuristic input)])"

definition ssrf_detect_request ::
  "pattern_detector \<Rightarrow> string \<Rightarrow> string \<Rightarrow> string \<Rightarrow> string \<Rightarrow> headers \<Rightarrow> located option" where
  "ssrf_detect_request d meth path query body headers =
     first_hit
       [hit_at ''path'' (ssrf_detect d path), hit_at ''query'' (ssrf_detect d query),
        scan_body (ssrf_detect d) meth body,
        scan_headers (ssrf_detect d) headers
          [''Referer'', ''X-Forwarded-For'', ''X-Forwarded-Host'', ''X-Host'', ''X-Forwarded-Server'']]"

subsection \<open>file\_upload.go, xxe.go, nosql.go\<close>

text \<open>These detectors have patterns only.\<close>

definition plain_detect :: "pattern_detector \<Rightarrow> string \<Rightarrow> hit option" where
  "plain_detect d input = (if input = '''' then None else match_patterns d input)"

definition file_detect_request ::
  "pattern_detector \<Rightarrow> string \<Rightarrow> string \<Rightarrow> string \<Rightarrow> string \<Rightarrow> headers \<Rightarrow> located option" where
  "file_detect_request d meth path query body headers =
     first_hit
       [hit_at ''path'' (plain_detect d path),
        if has_body_method meth \<and>
           list_ex (\<lambda>v. str_contains (to_lower v) ''multipart/form-data'') (headers ''Content-Type'')
        then hit_at ''body'' (plain_detect d body) else None]"

definition xxe_detect_request ::
  "pattern_detector \<Rightarrow> string \<Rightarrow> string \<Rightarrow> string \<Rightarrow> string \<Rightarrow> headers \<Rightarrow> located option" where
  "xxe_detect_request d meth path query body headers =
     first_hit
       [hit_at ''path'' (plain_detect d path), hit_at ''query'' (plain_detect d query),
        scan_body (plain_detect d) meth body,
        if list_ex (\<lambda>v. str_contains (to_lower v) ''xml'') (headers ''Content-Type'')
        then hit_at ''body_xml'' (plain_detect d body) else None]"

definition nosql_detect_request ::
  "pattern_detector \<Rightarrow> string \<Rightarrow> string \<Rightarrow> string \<Rightarrow> string \<Rightarrow> headers \<Rightarrow> located option" where
  "nosql_detect_request d meth path query body headers =
     first_hit
       [hit_at ''path'' (plain_detect d path), hit_at ''query'' (plain_detect d query),
        scan_body (plain_detect d) meth body,
        scan_headers (plain_detect d) headers [''Cookie'']]"

subsection \<open>ssti.go\<close>

definition ssti_heuristic :: "string \<Rightarrow> bool" where
  "ssti_heuristic input =
     ((if str_contains input ''{{'' \<and> str_contains input ''}}'' then 5 else 0) +
      (if str_contains input ''{%'' \<and> str_contains input ''%}'' then 5 else 0) +
      (if str_contains input ''${'' \<and> str_contains input ''}'' then 3 else 0) +
      (if str_contains input ''__'' then 2 else 0) +
      (if str_contains input ''subclass'' \<or> str_contains input ''mro'' then 3 else 0) \<ge> (8 :: int))"

definition ssti_detect :: "pattern_detector \<Rightarrow> string \<Rightarrow> hit option" where
  "ssti_detect d input =
     (if input = '''' then None
      else first_hit [match_patterns d input,
             heuristic_hit ''heuristic_ssti'' (''SSTI'' @ utf8 [229, 144, 175, 229, 143, 145, 229, 188, 143, 230, 163, 128, 230, 181, 139]) (ssti_heuristic input)])"

definition ssti_detect_request ::
  "pattern_detector \<Rightarrow> string \<Rightarrow> string \<Rightarrow> string \<Rightarrow> string \<Rightarrow> headers \<Rightarrow> located option" where
  "ssti_detect_request d meth path query body headers =
     first_hit
       [hit_at ''path'' (ssti_detect d path), hit_at ''query'' (ssti_detect d query),
        scan_body (ssti_detect d) meth body,
        scan_headers (ssti_detect d) headers [''User-Agent'', ''Referer'', ''Cookie'']]"

subsection \<open>sensitive\_data.go\<close>

record sensitive_pattern =
  sp_name :: string
  sp_regex :: go_regexp
  sp_enabled :: bool

record sensitive_detector =
  sd_patterns :: "sensitive_pattern list"
  sd_dlpMgr :: "dlp_manager option"
  sd_localOnly :: "string list"

definition new_sensitive_detector :: "compiler \<Rightarrow> sensitive_detector" where
  "new_sensitive_detector compile =
     \<lparr>sd_patterns = List.map_filter (\<lambda>(name, p, enabled).
        map_option (\<lambda>re. \<lparr>sp_name = name, sp_regex = re, sp_enabled = enabled\<rparr>) (compile p))
        sensitive_entries,
      sd_dlpMgr = None, sd_localOnly = [''ssn'']\<rparr>"

definition set_dlp_manager :: "dlp_manager option \<Rightarrow> sensitive_detector \<Rightarrow> sensitive_detector" where
  "set_dlp_manager mgr d = d\<lparr>sd_dlpMgr := mgr\<rparr>"

definition set_local_only :: "string list \<Rightarrow> sensitive_detector \<Rightarrow> sensitive_detector" where
  "set_local_only names d = d\<lparr>sd_localOnly := names\<rparr>"

definition set_sensitive_patterns :: "sensitive_pattern list \<Rightarrow> sensitive_detector \<Rightarrow> sensitive_detector" where
  "set_sensitive_patterns ps d = d\<lparr>sd_patterns := ps\<rparr>"

definition enable_pattern :: "string \<Rightarrow> bool \<Rightarrow> sensitive_detector \<Rightarrow> sensitive_detector" where
  "enable_pattern name enabled d =
     d\<lparr>sd_patterns := update_first (\<lambda>p. sp_name p = name) (\<lambda>p. p\<lparr>sp_enabled := enabled\<rparr>) (sd_patterns d)\<rparr>"

definition list_patterns :: "sensitive_detector \<Rightarrow> (string \<times> bool) list" where
  "list_patterns d = map (\<lambda>p. (sp_name p, sp_enabled p)) (sd_patterns d)"

definition adapt_dlp_result :: "dlp_match list \<Rightarrow> hit option" where
  "adapt_dlp_result matches =
     first_hit (map (\<lambda>m. case map_of dlp_reverse_mapping (dm_RuleName m) of
        None \<Rightarrow> None
      | Some name \<Rightarrow>
          Some (name, 1, (utf8 [230, 149, 143, 230, 132, 159, 230, 149, 176, 230, 141, 174, 230, 163, 128, 230, 181, 139] @ '':'') @ name @ ''(via DLP:'' @ dm_RuleName m @ '')''))
        matches)"

fun sensitive_loop ::
  "(sensitive_pattern \<Rightarrow> bool) \<Rightarrow> int \<Rightarrow> sensitive_pattern list \<Rightarrow> string \<Rightarrow> hit option" where
  "sensitive_loop use i [] txt = None"
| "sensitive_loop use i (p # ps) txt =
     (if sp_enabled p \<and> use p \<and> re_match (sp_regex p) txt
      then Some (sp_name p, i + 1, (utf8 [230, 149, 143, 230, 132, 159, 230, 149, 176, 230, 141, 174, 230, 163, 128, 230, 181, 139] @ '':'') @ sp_name p)
      else sensitive_loop use (i + 1) ps txt)"

definition detect_local_only :: "sensitive_detector \<Rightarrow> string \<Rightarrow> hit option" where
  "detect_local_only d txt =
     sensitive_loop (\<lambda>p. sp_name p \<in> set (sd_localOnly d)) 0 (sd_patterns d) txt"

definition sensitive_detect :: "sensitive_detector \<Rightarrow> string \<Rightarrow> hit option" where
  "sensitive_detect d body =
     (case sd_dlpMgr d of
        None \<Rightarrow> sensitive_loop (\<lambda>_. True) 0 (sd_patterns d) body
      | Some mgr \<Rightarrow> first_hit [adapt_dlp_result (dlp_check mgr body), detect_local_only d body])"

definition sensitive_detect_request ::
  "sensitive_detector \<Rightarrow> string \<Rightarrow> string \<Rightarrow> string \<Rightarrow> string \<Rightarrow> headers \<Rightarrow> located option" where
  "sensitive_detect_request d meth path query body headers =
     (case sd_dlpMgr d of
        None \<Rightarrow> first_hit [hit_at ''body'' (detect_local_only d body), hit_at ''query'' (detect_local_only d query)]
      | Some mgr \<Rightarrow>
          first_hit
            [hit_at ''body'' (adapt_dlp_result (dlp_check mgr body)),
             hit_at ''query'' (adapt_dlp_result (dlp_check mgr query)),
             hit_at ''body'' (detect_local_only d body), hit_at ''query'' (detect_local_only d query)])"

subsection \<open>error\_leak.go\<close>

definition detect_error_leak :: "pattern_detector \<Rightarrow> string \<Rightarrow> int \<Rightarrow> located option" where
  "detect_error_leak d body statusCode =
     (if statusCode < 400 then None
      else hit_at ''response_body'' (match_patterns d (take (512 * 1024) body)))"

subsection \<open>request\_smuggling.go\<close>

definition te_values :: "headers \<Rightarrow> string list" where
  "te_values headers =
     (if headers ''Transfer-Encoding'' = [] then headers ''Te'' else headers ''Transfer-Encoding'')"

definition check_te_value :: "pattern_detector \<Rightarrow> string \<Rightarrow> hit option" where
  "check_te_value d te =
     (let lower = to_lower (trim_space te) in
      first_hit
        [if lower \<noteq> ''chunked'' \<and> lower \<noteq> '''' then
           map_option (\<lambda>(_, i, desc). (trim_space lower, i, desc)) (match_patterns d (trim_space lower))
         else None,
         if str_contains lower ''chunked'' \<and> lower \<noteq> ''chunked''
         then Some (te, 100, (''Transfer-Encoding'' @ utf8 [233, 157, 158, 230, 160, 135, 229, 135, 134] @ ''chunked'')) else None])"

definition check_transfer_encoding :: "pattern_detector \<Rightarrow> headers \<Rightarrow> hit option" where
  "check_transfer_encoding d headers = first_hit (map (check_te_value d) (te_values headers))"

definition check_content_length :: "headers \<Rightarrow> hit option" where
  "check_content_length headers =
     (let clValues = headers ''Content-Length'' in
      if length clValues \<le> 1 then None
      else if length (remdups (map trim_space clValues)) > 1
      then Some (join_with '','' clValues, 200, (utf8 [229, 164, 154, 228, 184, 170, 228, 184, 141, 229, 144, 140] @ ''Content-Length'' @ utf8 [229, 128, 188])) else None)"

definition check_cl_te :: "headers \<Rightarrow> hit option" where
  "check_cl_te headers =
     (if list_ex (\<lambda>te. str_contains (to_lower te) ''chunked'') (te_values headers) then
        map_option (\<lambda>cl. (''TE:chunked + CL:'' @ cl, 300,
            (''CL-TE'' @ utf8 [228, 184, 141, 228, 184, 128, 232, 135, 180] @ ''('' @ utf8 [229, 144, 140, 230, 151, 182, 229, 173, 152, 229, 156, 168] @ ''Content-Length'' @ utf8 [229, 146, 140] @ ''Transfer-Encoding:chunked)'')))
          (find (\<lambda>cl. cl \<noteq> '''' \<and> cl \<noteq> ''0'') (map trim_space (headers ''Content-Length'')))
      else None)"

definition smuggling_detect_request ::
  "pattern_detector \<Rightarrow> string \<Rightarrow> string \<Rightarrow> string \<Rightarrow> string \<Rightarrow> headers \<Rightarrow> located option" where
  "smuggling_detect_request d meth path query body headers =
     first_hit
       [hit_at ''header:Transfer-Encoding'' (check_transfer_encoding d headers),
        hit_at ''header:Content-Length'' (check_content_length headers),
        hit_at ''header:CL-TE'' (check_cl_te headers)]"

subsection \<open>syntax\_analyzer.go\<close>

record sql_analysis =
  sa_HasUnmatchedQuotes :: bool
  sa_HasKeywordAfterBreak :: bool
  sa_HasUnionSelect :: bool
  sa_HasBooleanCondition :: bool
  sa_HasNestedParens :: bool
  sa_HasDangerousFunc :: bool
  sa_IsLikelyInjection :: bool
  sa_RiskScore :: real
  sa_Reasons :: "string list"

record cmd_analysis =
  ca_HasMetacharSpacing :: bool
  ca_HasSubstitution :: bool
  ca_HasRedirection :: bool
  ca_IsLikelyInjection :: bool
  ca_RiskScore :: real
  ca_Reasons :: "string list"

text \<open>\<open>MustCompile\<close>: the program does not start when one of these patterns is invalid.\<close>

definition must_match :: "compiler \<Rightarrow> string \<Rightarrow> string \<Rightarrow> bool" where
  "must_match compile p s = (case compile p of Some re \<Rightarrow> re_match re s | None \<Rightarrow> False)"

text \<open>The loop of \<open>hasUnmatchedQuotes\<close>: both counts and whether the last rune was a backslash.\<close>

fun quote_counts :: "string \<Rightarrow> bool \<Rightarrow> nat \<times> nat \<Rightarrow> nat \<times> nat" where
  "quote_counts [] escaped counts = counts"
| "quote_counts (c # s) escaped (single, dbl) =
     (if escaped then quote_counts s False (single, dbl)
      else if c = bslash then quote_counts s True (single, dbl)
      else if c = CHR 0x27 then quote_counts s False (single + 1, dbl)
      else if c = CHR 0x22 then quote_counts s False (single, dbl + 1)
      else quote_counts s False (single, dbl))"

definition has_unmatched_quotes :: "string \<Rightarrow> bool" where
  "has_unmatched_quotes input =
     (let (single, dbl) = quote_counts input False (0, 0) in single mod 2 \<noteq> 0 \<or> dbl mod 2 \<noteq> 0)"

fun paren_loop :: "string \<Rightarrow> int \<Rightarrow> int \<Rightarrow> int" where
  "paren_loop [] depth maxDepth = maxDepth"
| "paren_loop (c # s) depth maxDepth =
     (if c = CHR ''('' then paren_loop s (depth + 1) (max maxDepth (depth + 1))
      else if c = CHR '')'' then paren_loop s (depth - 1) maxDepth
      else paren_loop s depth maxDepth)"

definition has_nested_parentheses :: "string \<Rightarrow> int" where
  "has_nested_parentheses input = paren_loop input 0 0"

text \<open>The score of the checks that hold, and their reasons, in order.\<close>

definition add_scores :: "(bool \<times> real \<times> string) list \<Rightarrow> real \<times> string list" where
  "add_scores cs =
     (min 1 (sum_list (map (\<lambda>(b, w, _). if b then w else 0) cs)),
      map (\<lambda>(_, _, r). r) (filter fst cs))"

definition analyze_sql_injection :: "compiler \<Rightarrow> string \<Rightarrow> sql_analysis" where
  "analyze_sql_injection compile input =
     (let upper = to_upper input;
          quotes = has_unmatched_quotes input;
          brk = must_match compile break_pattern upper;
          union = must_match compile union_select_pattern upper;
          boolean = must_match compile boolean_pattern upper;
          nested = has_nested_parentheses input > 3;
          func = must_match compile dangerous_func_pattern upper;
          (score, reasons) = add_scores
            [(quotes, 3 / 10, (utf8 [229, 188, 149, 229, 143, 183, 228, 184, 141, 233, 133, 141, 229, 175, 185])), (brk, 4 / 10, (utf8 [229, 136, 134, 233, 154, 148, 231, 172, 166, 229, 144, 142, 232, 183, 159, 233, 154, 143] @ ''SQL'' @ utf8 [229, 133, 179, 233, 148, 174, 229, 173, 151])),
             (union, 5 / 10, (''UNION SELECT'' @ utf8 [230, 168, 161, 229, 188, 143])), (boolean, 3 / 10, (utf8 [229, 184, 131, 229, 176, 148, 230, 157, 161, 228, 187, 182, 230, 179, 168, 229, 133, 165, 230, 168, 161, 229, 188, 143])),
             (nested, 3 / 10, (utf8 [230, 183, 177, 229, 177, 130, 229, 181, 140, 229, 165, 151, 230, 139, 172, 229, 143, 183])), (func, 5 / 10, (utf8 [229, 141, 177, 233, 153, 169] @ ''SQL'' @ utf8 [229, 135, 189, 230, 149, 176]))]
      in \<lparr>sa_HasUnmatchedQuotes = quotes, sa_HasKeywordAfterBreak = brk, sa_HasUnionSelect = union,
          sa_HasBooleanCondition = boolean, sa_HasNestedParens = nested, sa_HasDangerousFunc = func,
          sa_IsLikelyInjection = (score \<ge> 4 / 10), sa_RiskScore = score, sa_Reasons = reasons\<rparr>)"

definition analyze_command_injection :: "compiler \<Rightarrow> string \<Rightarrow> cmd_analysis" where
  "analyze_command_injection compile input =
     (let metachar = must_match compile metachar_cmd_pattern input;
          subst = must_match compile cmd_subst_pattern input;
          redirect = must_match compile redirect_sensitive_pattern input;
          (score, reasons) = add_scores
            [(metachar, 4 / 10, (''Shell'' @ utf8 [229, 133, 131, 229, 173, 151, 231, 172, 166, 232, 191, 158, 230, 142, 165, 229, 145, 189, 228, 187, 164])), (subst, 5 / 10, (utf8 [229, 145, 189, 228, 187, 164, 230, 155, 191, 230, 141, 162] @ ''$(...)'' @ utf8 [230, 136, 150] @ ''`...`'')),
             (redirect, 4 / 10, (utf8 [233, 135, 141, 229, 174, 154, 229, 144, 145, 229, 136, 176, 230, 149, 143, 230, 132, 159, 232, 183, 175, 229, 190, 132]))]
      in \<lparr>ca_HasMetacharSpacing = metachar, ca_HasSubstitution = subst, ca_HasRedirection = redirect,
          ca_IsLikelyInjection = (score \<ge> 4 / 10), ca_RiskScore = score, ca_Reasons = reasons\<rparr>)"

subsection \<open>ip\_reputation.go\<close>

record reputation_entry =
  rp_isBad :: bool
  rp_reason :: string
  rp_cachedAt :: instant

record ip_reputation =
  ic_cache :: "string \<rightharpoonup> reputation_entry"
  ic_cacheTTL :: duration
  ic_torExits :: "string list"
  ic_privateNets :: "ip_net list"

definition reputation_nets :: "string list" where
  "reputation_nets =
     [''10.0.0.0/8'', ''172.16.0.0/12'', ''192.168.0.0/16'', ''127.0.0.0/8'', ''169.254.0.0/16'',
      ''0.0.0.0/8'', ''100.64.0.0/10'', ''198.18.0.0/15'', ''192.0.0.0/24'', ''192.0.2.0/24'',
      ''198.51.100.0/24'', ''203.0.113.0/24'', ''224.0.0.0/4'', ''240.0.0.0/4'']"

definition new_ip_reputation :: ip_reputation where
  "new_ip_reputation =
     \<lparr>ic_cache = Map.empty, ic_cacheTTL = 10 * 60 * nano_second, ic_torExits = [],
      ic_privateNets = List.map_filter parse_cidr reputation_nets\<rparr>"

definition reputation_is_private :: "ip_reputation \<Rightarrow> string \<Rightarrow> bool" where
  "reputation_is_private c ipStr =
     (case parse_ip ipStr of
        None \<Rightarrow> False
      | Some ip \<Rightarrow>
          is_loopback ip \<or> is_link_local_unicast ip \<or> is_link_local_multicast ip \<or>
          list_ex (\<lambda>n. contains n ip) (ic_privateNets c))"

definition load_tor_exits :: "string list \<Rightarrow> ip_reputation \<Rightarrow> ip_reputation" where
  "load_tor_exits exits c = c\<lparr>ic_torExits := exits\<rparr>"

definition set_reputation :: "instant \<Rightarrow> string \<Rightarrow> bool \<Rightarrow> string \<Rightarrow> ip_reputation \<Rightarrow> ip_reputation" where
  "set_reputation now ip isBad reason c =
     c\<lparr>ic_cache := (ic_cache c)(ip \<mapsto> \<lparr>rp_isBad = isBad, rp_reason = reason, rp_cachedAt = now\<rparr>)\<rparr>"

definition reputation_check :: "instant \<Rightarrow> string \<Rightarrow> ip_reputation \<Rightarrow> (bool \<times> string) \<times> ip_reputation" where
  "reputation_check now ip c =
     (if reputation_is_private c ip then ((False, ''''), c)
      else case (case ic_cache c ip of
                   Some e \<Rightarrow> if time_sub now (rp_cachedAt e) < ic_cacheTTL c then Some e else None
                 | None \<Rightarrow> None) of
             Some e \<Rightarrow> ((rp_isBad e, rp_reason e), c)
           | None \<Rightarrow>
               if ip \<in> set (ic_torExits c)
               then ((True, (''Tor'' @ utf8 [229, 135, 186, 229, 143, 163, 232, 138, 130, 231, 130, 185])), set_reputation now ip True (''Tor'' @ utf8 [229, 135, 186, 229, 143, 163, 232, 138, 130, 231, 130, 185]) c)
               else ((False, ''''), c))"

end
