(* ===== verification/DetectCache.thy ===== *)
theory DetectCache
  imports Http "HOL-Library.Word"
begin

text \<open>
  \<open>internal/domain/security/detector/perf_cache.go\<close>: the cache of detection results, a map from
  the hash of a request to an entry of a doubly linked list, the entry used last at the head.

  \<^item> The entries live in a store: an entry is reached by its address, \<open>prev\<close> and \<open>next\<close> are
    addresses, and the pointer operations are those of the code.
  \<^item> \<open>now\<close> is the clock, \<open>jitter\<close> the random part of the life time.

  Proved: the linked structure refines a list of entries in order of use (\<open>lru_get\<close>,
  \<open>lru_put\<close>), so a hit is what was last put under the key, and the cache never holds more than
  its capacity; and what the hash does not look at.
\<close>

subsection \<open>The code\<close>

record 'r cache_entry =
  ce_key :: "64 word"
  ce_results :: 'r
  ce_expireAt :: int
  ce_prev :: "nat option"
  ce_next :: "nat option"

record 'r detection_cache =
  dc_heap :: "nat \<rightharpoonup> 'r cache_entry"
  dc_fresh :: nat
  dc_entries :: "(64 word \<times> nat) list"
  dc_head :: "nat option"
  dc_tail :: "nat option"
  dc_capacity :: int
  dc_ttl :: duration
  dc_keyLen :: int
  dc_hits :: "64 word"
  dc_misses :: "64 word"

definition new_detection_cache :: "int \<Rightarrow> duration \<Rightarrow> int \<Rightarrow> 'r detection_cache" where
  "new_detection_cache capacity ttl keyLen =
     \<lparr>dc_heap = Map.empty, dc_fresh = 0, dc_entries = [], dc_head = None, dc_tail = None,
      dc_capacity = (if capacity \<le> 0 then 4096 else capacity),
      dc_ttl = (if ttl \<le> 0 then 60 * nano_second else ttl),
      dc_keyLen = (if keyLen \<le> 0 then 128 else keyLen),
      dc_hits = 0, dc_misses = 0\<rparr>"

definition fnv1a64 :: "string \<Rightarrow> 64 word" where
  "fnv1a64 s = foldl (\<lambda>h c. (h XOR of_char c) * 1099511628211) 14695981039346656037 s"

definition truncate_to :: "int \<Rightarrow> string \<Rightarrow> string" where
  "truncate_to maxLen s = (if int (length s) > maxLen then take (nat maxLen) s else s)"

definition cache_key_bytes :: "int \<Rightarrow> string \<Rightarrow> string \<Rightarrow> string \<Rightarrow> string \<Rightarrow> string" where
  "cache_key_bytes keyLen meth path query body =
     meth @ [CHR 0x00] @ truncate_to keyLen path @ [CHR 0x00] @ truncate_to keyLen query @
     [CHR 0x00] @ truncate_to keyLen body"

definition compute_cache_key :: "'r detection_cache \<Rightarrow> string \<Rightarrow> string \<Rightarrow> string \<Rightarrow> string \<Rightarrow> 64 word" where
  "compute_cache_key c meth path query body =
     fnv1a64 (cache_key_bytes (dc_keyLen c) meth path query body)"

text \<open>Reading and writing through a pointer.\<close>

definition set_next :: "nat option \<Rightarrow> (nat \<rightharpoonup> 'r cache_entry) \<Rightarrow> nat \<Rightarrow> (nat \<rightharpoonup> 'r cache_entry)" where
  "set_next n h a = h(a := map_option (\<lambda>e. e\<lparr>ce_next := n\<rparr>) (h a))"

definition set_prev :: "nat option \<Rightarrow> (nat \<rightharpoonup> 'r cache_entry) \<Rightarrow> nat \<Rightarrow> (nat \<rightharpoonup> 'r cache_entry)" where
  "set_prev p h a = h(a := map_option (\<lambda>e. e\<lparr>ce_prev := p\<rparr>) (h a))"

definition ptr_prev :: "(nat \<rightharpoonup> 'r cache_entry) \<Rightarrow> nat \<Rightarrow> nat option" where
  "ptr_prev h a = (case h a of None \<Rightarrow> None | Some e \<Rightarrow> ce_prev e)"

definition ptr_next :: "(nat \<rightharpoonup> 'r cache_entry) \<Rightarrow> nat \<Rightarrow> nat option" where
  "ptr_next h a = (case h a of None \<Rightarrow> None | Some e \<Rightarrow> ce_next e)"

definition remove_entry :: "nat \<Rightarrow> 'r detection_cache \<Rightarrow> 'r detection_cache" where
  "remove_entry a c =
     (let p = ptr_prev (dc_heap c) a; n = ptr_next (dc_heap c) a;
          (h, hd') = (case p of
             Some u \<Rightarrow> (set_next n (dc_heap c) u, dc_head c)
           | None \<Rightarrow> (dc_heap c, n));
          (h, tl') = (case n of
             Some v \<Rightarrow> (set_prev p h v, dc_tail c)
           | None \<Rightarrow> (h, p))
      in c\<lparr>dc_heap := set_next None (set_prev None h a) a, dc_head := hd', dc_tail := tl'\<rparr>)"

definition add_to_head :: "nat \<Rightarrow> 'r detection_cache \<Rightarrow> 'r detection_cache" where
  "add_to_head a c =
     (let h = set_next (dc_head c) (set_prev None (dc_heap c) a) a;
          h = (case dc_head c of Some u \<Rightarrow> set_prev (Some a) h u | None \<Rightarrow> h)
      in c\<lparr>dc_heap := h, dc_head := Some a,
           dc_tail := (if dc_tail c = None then Some a else dc_tail c)\<rparr>)"

definition move_to_head :: "nat \<Rightarrow> 'r detection_cache \<Rightarrow> 'r detection_cache" where
  "move_to_head a c = (if dc_head c = Some a then c else add_to_head a (remove_entry a c))"

definition delete_key :: "64 word \<Rightarrow> 'r detection_cache \<Rightarrow> 'r detection_cache" where
  "delete_key k c = c\<lparr>dc_entries := filter (\<lambda>(k', _). k' \<noteq> k) (dc_entries c)\<rparr>"

definition cache_get :: "int \<Rightarrow> 64 word \<Rightarrow> 'r detection_cache \<Rightarrow> 'r option \<times> 'r detection_cache" where
  "cache_get now k c =
     (case map_of (dc_entries c) k of
        None \<Rightarrow> (None, c\<lparr>dc_misses := dc_misses c + 1\<rparr>)
      | Some a \<Rightarrow>
          (case dc_heap c a of
             None \<Rightarrow> (None, c)
           | Some e \<Rightarrow>
               if now > ce_expireAt e then
                 (None, (delete_key k (remove_entry a c))\<lparr>dc_misses := dc_misses c + 1\<rparr>)
               else (Some (ce_results e), (move_to_head a c)\<lparr>dc_hits := dc_hits c + 1\<rparr>)))"

definition set_entry :: "'r \<Rightarrow> int \<Rightarrow> nat \<Rightarrow> 'r detection_cache \<Rightarrow> 'r detection_cache" where
  "set_entry r expireAt a c =
     c\<lparr>dc_heap := (dc_heap c)(a := map_option (\<lambda>e. e\<lparr>ce_results := r, ce_expireAt := expireAt\<rparr>)
                                   (dc_heap c a))\<rparr>"

definition evict_tail :: "'r detection_cache \<Rightarrow> 'r detection_cache" where
  "evict_tail c =
     (case dc_tail c of
        None \<Rightarrow> c
      | Some t \<Rightarrow>
          (case dc_heap c t of
             None \<Rightarrow> c
           | Some e \<Rightarrow> remove_entry t (delete_key (ce_key e) c)))"

definition new_entry :: "64 word \<Rightarrow> 'r \<Rightarrow> int \<Rightarrow> 'r detection_cache \<Rightarrow> 'r detection_cache" where
  "new_entry k r expireAt c =
     add_to_head (dc_fresh c)
       (c\<lparr>dc_heap := (dc_heap c)(dc_fresh c \<mapsto>
            \<lparr>ce_key = k, ce_results = r, ce_expireAt = expireAt, ce_prev = None, ce_next = None\<rparr>),
          dc_fresh := dc_fresh c + 1, dc_entries := (k, dc_fresh c) # dc_entries c\<rparr>)"

definition cache_put :: "int \<Rightarrow> duration \<Rightarrow> 64 word \<Rightarrow> 'r \<Rightarrow> 'r detection_cache \<Rightarrow> 'r detection_cache" where
  "cache_put now jitter k r c =
     (let expireAt = now + (dc_ttl c + jitter) in
      case map_of (dc_entries c) k of
        Some a \<Rightarrow> move_to_head a (set_entry r expireAt a c)
      | None \<Rightarrow>
          new_entry k r expireAt
            (if int (length (dc_entries c)) \<ge> dc_capacity c then evict_tail c else c))"

definition cache_invalidate :: "'r detection_cache \<Rightarrow> 'r detection_cache" where
  "cache_invalidate c = c\<lparr>dc_entries := [], dc_head := None, dc_tail := None\<rparr>"

definition cache_stats :: "'r detection_cache \<Rightarrow> 64 word \<times> 64 word \<times> nat \<times> real" where
  "cache_stats c =
     (let hits = dc_hits c; misses = dc_misses c; all = hits + misses in
      (hits, misses, length (dc_entries c),
       if all > 0 then real (unat hits) / real (unat all) else 0))"

subsection \<open>Linked segments\<close>

definition first_of :: "nat list \<Rightarrow> nat option \<Rightarrow> nat option" where
  "first_of xs n = (case xs of [] \<Rightarrow> n | y # _ \<Rightarrow> Some y)"

definition last_of :: "nat option \<Rightarrow> nat list \<Rightarrow> nat option" where
  "last_of p xs = (if xs = [] then p else Some (last xs))"

fun dseg :: "(nat \<rightharpoonup> 'r cache_entry) \<Rightarrow> nat option \<Rightarrow> nat list \<Rightarrow> nat option \<Rightarrow> bool" where
  "dseg h p [] n = True"
| "dseg h p (x # xs) n =
     (case h x of
        None \<Rightarrow> False
      | Some e \<Rightarrow> ce_prev e = p \<and> ce_next e = first_of xs n \<and> dseg h (Some x) xs n)"

lemma first_of_simps [simp]:
  "first_of [] n = n" "first_of (x # xs) n = Some x"
  "first_of (xs @ ys) n = first_of xs (first_of ys n)"
  by (auto simp: first_of_def split: list.split)

lemma last_of_simps [simp]:
  "last_of p [] = p" "last_of p (xs @ [x]) = Some x" "last_of p (x # xs) = last_of (Some x) xs"
  by (auto simp: last_of_def)

lemma last_of_append [simp]: "last_of p (xs @ ys) = last_of (last_of p xs) ys"
  by (simp add: last_of_def)

lemma dseg_append:
  "dseg h p (xs @ ys) n \<longleftrightarrow> dseg h p xs (first_of ys n) \<and> dseg h (last_of p xs) ys n"
  by (induction xs arbitrary: p) (auto split: option.split)

lemma dseg_frame: "(\<And>x. x \<in> set xs \<Longrightarrow> h' x = h x) \<Longrightarrow> dseg h' p xs n = dseg h p xs n"
  by (induction xs arbitrary: p) (auto split: option.split)

lemma dseg_links:
  assumes "\<And>x. map_option (\<lambda>e. (ce_prev e, ce_next e)) (h' x) = map_option (\<lambda>e. (ce_prev e, ce_next e)) (h x)"
  shows "dseg h' p xs n = dseg h p xs n"
proof (induction xs arbitrary: p)
  case (Cons x xs)
  then show ?case
    using assms[of x] by (cases "h x"; cases "h' x") auto
qed simp

definition dll :: "'r detection_cache \<Rightarrow> nat list \<Rightarrow> bool" where
  "dll c xs \<longleftrightarrow> distinct xs \<and> dseg (dc_heap c) None xs None \<and>
     dc_head c = first_of xs None \<and> dc_tail c = last_of None xs"

text \<open>What an entry holds, which the pointer operations leave alone.\<close>

definition data_of :: "(nat \<rightharpoonup> 'r cache_entry) \<Rightarrow> nat \<Rightarrow> (64 word \<times> 'r \<times> int) option" where
  "data_of h x = map_option (\<lambda>e. (ce_key e, ce_results e, ce_expireAt e)) (h x)"

lemma data_of_None: "data_of h x = None \<longleftrightarrow> h x = None"
  by (simp add: data_of_def)

lemma data_of_set [simp]:
  "data_of (set_next n h a) = data_of h" "data_of (set_prev p h a) = data_of h"
  by (auto simp: data_of_def set_next_def set_prev_def fun_eq_iff option.map_comp comp_def
      split: option.split)

lemma remove_entry_frame [simp]:
  "data_of (dc_heap (remove_entry a c)) = data_of (dc_heap c)"
  "dc_entries (remove_entry a c) = dc_entries c" "dc_fresh (remove_entry a c) = dc_fresh c"
  "dc_capacity (remove_entry a c) = dc_capacity c" "dc_ttl (remove_entry a c) = dc_ttl c"
  by (auto simp: remove_entry_def Let_def split: option.split)

lemma add_to_head_frame [simp]:
  "data_of (dc_heap (add_to_head a c)) = data_of (dc_heap c)"
  "dc_entries (add_to_head a c) = dc_entries c" "dc_fresh (add_to_head a c) = dc_fresh c"
  "dc_capacity (add_to_head a c) = dc_capacity c" "dc_ttl (add_to_head a c) = dc_ttl c"
  by (auto simp: add_to_head_def Let_def split: option.split)

lemma move_to_head_frame [simp]:
  "data_of (dc_heap (move_to_head a c)) = data_of (dc_heap c)"
  "dc_entries (move_to_head a c) = dc_entries c" "dc_fresh (move_to_head a c) = dc_fresh c"
  "dc_capacity (move_to_head a c) = dc_capacity c" "dc_ttl (move_to_head a c) = dc_ttl c"
  by (auto simp: move_to_head_def)

lemma dseg_upd [simp]:
  "a \<notin> set xs \<Longrightarrow> dseg (h(a := v)) p xs n = dseg h p xs n"
  "a \<notin> set xs \<Longrightarrow> dseg (set_next n' h a) p xs n = dseg h p xs n"
  "a \<notin> set xs \<Longrightarrow> dseg (set_prev p' h a) p xs n = dseg h p xs n"
  by (auto simp: set_next_def set_prev_def intro!: dseg_frame)

lemma dseg_relink_first:
  "dseg h p (b # bs) n \<Longrightarrow> b \<notin> set bs \<Longrightarrow> dseg (set_prev p' h b) p' (b # bs) n"
  by (auto simp: set_prev_def split: option.splits)

lemma dseg_relink_last:
  "dseg h p (as @ [u]) n \<Longrightarrow> u \<notin> set as \<Longrightarrow> dseg (set_next n' h u) p (as @ [u]) n'"
  unfolding dseg_append by (auto simp: set_next_def split: option.splits)

lemma remove_entry_dll:
  assumes "dll c (as @ x # bs)"
  shows "dll (remove_entry x c) (as @ bs)"
proof -
  let ?h = "dc_heap c"
  have d: "distinct (as @ x # bs)" and s: "dseg ?h None as (Some x)" "dseg ?h (Some x) bs None"
    and x: "\<exists>e. ?h x = Some e \<and> ce_prev e = last_of None as \<and> ce_next e = first_of bs None"
    and hd: "dc_head c = first_of as (Some x)" and tl: "dc_tail c = last_of (Some x) bs"
    using assms by (auto simp: dll_def dseg_append split: option.splits)
  have pn: "ptr_prev ?h x = last_of None as" "ptr_next ?h x = first_of bs None"
    using x by (auto simp: ptr_prev_def ptr_next_def)
  define h1 where "h1 = (case last_of None as of Some u \<Rightarrow> set_next (first_of bs None) ?h u | None \<Rightarrow> ?h)"
  define h2 where "h2 = (case first_of bs None of Some v \<Rightarrow> set_prev (last_of None as) h1 v | None \<Rightarrow> h1)"
  have h1: "dseg h1 None as (first_of bs None)" "dseg h1 (Some x) bs None"
  proof -
    show "dseg h1 None as (first_of bs None)"
      using s(1) d dseg_relink_last[of ?h None _ _ "Some x" "first_of bs None"]
      by (cases as rule: rev_cases) (auto simp: h1_def)
    show "dseg h1 (Some x) bs None"
      using s(2) d by (cases as rule: rev_cases) (auto simp: h1_def)
  qed
  have h2: "dseg h2 None as (first_of bs None)" "dseg h2 (last_of None as) bs None"
  proof -
    show "dseg h2 None as (first_of bs None)"
      using h1(1) d by (cases bs) (auto simp: h2_def)
    show "dseg h2 (last_of None as) bs None"
      using h1(2) d dseg_relink_first[of h1 "Some x"]
      by (cases bs) (auto simp: h2_def simp del: dseg.simps(2))
  qed
  have r: "dc_heap (remove_entry x c) = set_next None (set_prev None h2 x) x"
    "dc_head (remove_entry x c) = first_of as (first_of bs None)"
    "dc_tail (remove_entry x c) = last_of (last_of None as) bs"
    using hd tl pn
    by (cases as rule: rev_cases; cases bs; simp add: remove_entry_def h1_def h2_def Let_def)+
  show ?thesis
    unfolding dll_def dseg_append r using h2 d by auto
qed

lemma add_to_head_dll:
  assumes "dll c xs" "x \<notin> set xs" "dc_heap c x \<noteq> None"
  shows "dll (add_to_head x c) (x # xs)"
proof -
  let ?h = "set_next (first_of xs None) (set_prev None (dc_heap c) x) x"
  obtain e where e: "dc_heap c x = Some e"
    using assms(3) by auto
  have xs: "distinct xs" "dseg (dc_heap c) None xs None" "dc_head c = first_of xs None"
    "dc_tail c = last_of None xs"
    using assms(1) by (auto simp: dll_def)
  show ?thesis
  proof (cases xs)
    case Nil
    then show ?thesis
      using xs e by (simp add: dll_def add_to_head_def set_next_def set_prev_def)
  next
    case (Cons y ys)
    have "dseg ?h None xs None"
      using xs(2) assms(2) by simp
    then have "dseg (set_prev (Some x) ?h y) (Some x) xs None"
      unfolding Cons using xs(1) Cons by (intro dseg_relink_first) auto
    moreover have "\<exists>e'. set_prev (Some x) ?h y x = Some e' \<and> ce_prev e' = None \<and> ce_next e' = first_of xs None"
      using e assms(2) Cons by (auto simp: set_next_def set_prev_def)
    ultimately show ?thesis
      using xs assms(2) Cons by (auto simp: dll_def add_to_head_def Let_def last_of_def)
  qed
qed

subsection \<open>The list of entries in order of use\<close>

type_synonym 'r lru = "(64 word \<times> 'r \<times> int) list"

definition lru_drop :: "64 word \<Rightarrow> 'r lru \<Rightarrow> 'r lru" where
  "lru_drop k l = filter (\<lambda>e. fst e \<noteq> k) l"

definition lru_get :: "int \<Rightarrow> 64 word \<Rightarrow> 'r lru \<Rightarrow> 'r option \<times> 'r lru" where
  "lru_get now k l =
     (case map_of l k of
        None \<Rightarrow> (None, l)
      | Some (r, t) \<Rightarrow> if now > t then (None, lru_drop k l) else (Some r, (k, r, t) # lru_drop k l))"

definition lru_put :: "int \<Rightarrow> int \<Rightarrow> 64 word \<Rightarrow> 'r \<Rightarrow> 'r lru \<Rightarrow> 'r lru" where
  "lru_put capacity expireAt k r l =
     (k, r, expireAt) #
       (if k \<in> fst ` set l then lru_drop k l
        else if int (length l) \<ge> capacity then butlast l else l)"

definition cache_rep :: "'r detection_cache \<Rightarrow> nat list \<Rightarrow> 'r lru \<Rightarrow> bool" where
  "cache_rep c xs l \<longleftrightarrow>
     dll c xs \<and> map (data_of (dc_heap c)) xs = map Some l \<and> distinct (map fst l) \<and>
     distinct (map fst (dc_entries c)) \<and> set (dc_entries c) = set (zip (map fst l) xs) \<and>
     (\<forall>x. data_of (dc_heap c) x \<noteq> None \<longrightarrow> x < dc_fresh c)"

lemma cache_repD:
  assumes "cache_rep c xs l"
  shows "dll c xs" "map (data_of (dc_heap c)) xs = map Some l" "distinct (map fst l)"
    "distinct (map fst (dc_entries c))" "set (dc_entries c) = set (zip (map fst l) xs)"
    "data_of (dc_heap c) x \<noteq> None \<Longrightarrow> x < dc_fresh c"
  using assms unfolding cache_rep_def by blast+

lemma cache_repI:
  assumes "dll c xs" "map (data_of (dc_heap c)) xs = map Some l" "distinct (map fst l)"
    "distinct (map fst (dc_entries c))" "set (dc_entries c) = set (zip (map fst l) xs)"
    "\<And>x. data_of (dc_heap c) x \<noteq> None \<Longrightarrow> x < dc_fresh c"
  shows "cache_rep c xs l"
  using assms unfolding cache_rep_def by blast

lemma rep_length: "cache_rep c xs l \<Longrightarrow> length xs = length l"
  by (metis cache_rep_def length_map)

lemma rep_entries_length:
  assumes "cache_rep c xs l"
  shows "length (dc_entries c) = length l"
proof -
  have "distinct (dc_entries c)" "distinct (zip (map fst l) xs)"
    using assms by (auto simp: cache_rep_def dll_def distinct_zipI2 distinct_map)
  moreover have "set (dc_entries c) = set (zip (map fst l) xs)"
    using assms by (simp only: cache_rep_def)
  ultimately have "length (dc_entries c) = length (zip (map fst l) xs)"
    using distinct_card[of "dc_entries c"] distinct_card[of "zip (map fst l) xs"] by simp
  then show ?thesis using rep_length[OF assms] by simp
qed

lemma rep_split:
  assumes rep: "cache_rep c xs l" and k: "map_of (dc_entries c) k = Some a"
  obtains as bs l1 l2 r t where "xs = as @ a # bs" "l = l1 @ (k, r, t) # l2" "length as = length l1"
    "data_of (dc_heap c) a = Some (k, r, t)"
proof -
  have "(k, a) \<in> set (zip (map fst l) xs)"
    using rep k by (metis cache_rep_def map_of_SomeD)
  then obtain i where i: "i < length l" "fst (l ! i) = k" "xs ! i = a"
    using rep_length[OF rep] by (auto simp: set_zip)
  have "data_of (dc_heap c) a = Some (l ! i)"
    using rep i rep_length[OF rep] by (metis cache_rep_def nth_map)
  then show thesis
    using that[of "take i xs" "drop (Suc i) xs" "take i l" "fst (snd (l ! i))" "snd (snd (l ! i))" "drop (Suc i) l"]
      i rep_length[OF rep] by (metis id_take_nth_drop length_take prod.collapse)
qed

lemma rep_no_key:
  assumes "cache_rep c xs l" "map_of (dc_entries c) k = None"
  shows "k \<notin> fst ` set l"
proof -
  have "fst ` set (dc_entries c) = fst ` set l"
    using assms(1) rep_length[OF assms(1)]
    by (simp add: cache_rep_def flip: set_map map_fst_zip) (metis length_map map_fst_zip)
  then show ?thesis using assms(2) by (simp add: map_of_eq_None_iff)
qed

lemma lru_split:
  assumes "distinct (map fst (l1 @ (k, r, t) # l2))"
  shows "lru_drop k (l1 @ (k, r, t) # l2) = l1 @ l2" "map_of (l1 @ (k, r, t) # l2) k = Some (r, t)"
proof -
  have "filter (\<lambda>e. fst e \<noteq> k) l1 = l1" "filter (\<lambda>e. fst e \<noteq> k) l2 = l2"
    using assms by (auto simp: filter_id_conv)
  then show "lru_drop k (l1 @ (k, r, t) # l2) = l1 @ l2"
    by (simp add: lru_drop_def)
  show "map_of (l1 @ (k, r, t) # l2) k = Some (r, t)"
    using assms by (auto simp: map_of_append map_add_Some_iff map_of_eq_None_iff)
qed

lemma rep_remove:
  assumes rep: "cache_rep c (as @ a # bs) (l1 @ (k, r, t) # l2)" and len: "length as = length l1"
  shows "cache_rep (delete_key k (remove_entry a c)) (as @ bs) (l1 @ l2)"
proof -
  have "dll (remove_entry a c) (as @ bs)"
    using rep by (auto simp: cache_rep_def intro: remove_entry_dll)
  moreover have "{p \<in> set (zip (map fst (l1 @ (k, r, t) # l2)) (as @ a # bs)). fst p \<noteq> k} =
      set (zip (map fst (l1 @ l2)) (as @ bs))"
    using rep len by (auto simp: cache_rep_def dest: set_zip_leftD)
  ultimately show ?thesis
    using rep len
    by (auto simp: cache_rep_def dll_def delete_key_def distinct_map_filter case_prod_unfold)
qed

lemma rep_at:
  assumes "cache_rep c (as @ a # bs) (l1 @ e # l2)" "length as = length l1"
  shows "data_of (dc_heap c) a = Some e" "map (data_of (dc_heap c)) as = map Some l1"
    "map (data_of (dc_heap c)) bs = map Some l2"
  using assms by (simp_all add: cache_rep_def)

lemma rep_move:
  assumes rep: "cache_rep c (as @ a # bs) (l1 @ (k, r, t) # l2)" and len: "length as = length l1"
  shows "cache_rep (move_to_head a c) (a # as @ bs) ((k, r, t) # l1 @ l2)"
proof -
  note at = rep_at[OF rep len]
  have dll: "dll c (as @ a # bs)"
    using rep by (simp only: cache_rep_def)
  have "dll (move_to_head a c) (a # as @ bs)"
  proof (cases "dc_head c = Some a")
    case True
    then have "as = []"
      using dll by (cases as) (auto simp: dll_def)
    then show ?thesis
      using dll True by (simp add: move_to_head_def)
  next
    case False
    have "dll (remove_entry a c) (as @ bs)" "a \<notin> set (as @ bs)"
      using remove_entry_dll[OF dll] dll by (auto simp: dll_def)
    moreover have "dc_heap (remove_entry a c) a \<noteq> None"
      using at(1) remove_entry_frame(1)[of a c] by (metis data_of_None option.distinct(1))
    ultimately show ?thesis
      using False add_to_head_dll[of "remove_entry a c" "as @ bs" a] by (simp add: move_to_head_def)
  qed
  then show ?thesis
  proof (rule cache_repI)
    show "map (data_of (dc_heap (move_to_head a c))) (a # as @ bs) = map Some ((k, r, t) # l1 @ l2)"
      using at by simp
    show "distinct (map fst ((k, r, t) # l1 @ l2))"
      using cache_repD(3)[OF rep] by auto
    show "distinct (map fst (dc_entries (move_to_head a c)))"
      using cache_repD(4)[OF rep] by simp
    show "set (dc_entries (move_to_head a c)) = set (zip (map fst ((k, r, t) # l1 @ l2)) (a # as @ bs))"
      using cache_repD(5)[OF rep] len by auto
    show "x < dc_fresh (move_to_head a c)" if "data_of (dc_heap (move_to_head a c)) x \<noteq> None" for x
      using cache_repD(6)[OF rep, of x] that by (simp del: not_None_eq)
  qed
qed

lemma rep_set_entry:
  assumes rep: "cache_rep c (as @ a # bs) (l1 @ (k, r, t) # l2)" and len: "length as = length l1"
  shows "cache_rep (set_entry r' t' a c) (as @ a # bs) (l1 @ (k, r', t') # l2)"
proof -
  note at = rep_at[OF rep len]
  let ?c = "set_entry r' t' a c"
  have d: "data_of (dc_heap ?c) = (data_of (dc_heap c))(a \<mapsto> (k, r', t'))"
    using at(1) by (auto simp: data_of_def set_entry_def fun_eq_iff)
  have seg: "dseg (dc_heap ?c) p xs n = dseg (dc_heap c) p xs n" for p xs n
    by (rule dseg_links) (simp add: set_entry_def option.map_comp comp_def)
  have dll: "dll c (as @ a # bs)"
    using rep by (simp only: cache_rep_def)
  then have "dll ?c (as @ a # bs)"
    unfolding dll_def seg by (simp add: set_entry_def)
  then show ?thesis
  proof (rule cache_repI)
    have "a \<notin> set as" "a \<notin> set bs"
      using dll by (auto simp: dll_def)
    then show "map (data_of (dc_heap ?c)) (as @ a # bs) = map Some (l1 @ (k, r', t') # l2)"
      unfolding d using at by simp
    show "distinct (map fst (l1 @ (k, r', t') # l2))"
      using cache_repD(3)[OF rep] by simp
    show "distinct (map fst (dc_entries ?c))"
      using cache_repD(4)[OF rep] by (simp add: set_entry_def)
    show "set (dc_entries ?c) = set (zip (map fst (l1 @ (k, r', t') # l2)) (as @ a # bs))"
      using cache_repD(5)[OF rep] by (simp add: set_entry_def)
    show "x < dc_fresh ?c" if "data_of (dc_heap ?c) x \<noteq> None" for x
      using cache_repD(6)[OF rep, of x] that at(1) unfolding d
      by (cases "x = a") (simp_all add: set_entry_def)
  qed
qed

lemma remove_delete_commute: "remove_entry a (delete_key k c) = delete_key k (remove_entry a c)"
  by (cases "ptr_prev (dc_heap c) a"; cases "ptr_next (dc_heap c) a")
    (simp_all add: remove_entry_def delete_key_def Let_def)

lemma rep_evict:
  assumes "cache_rep c xs l" "l \<noteq> []"
  shows "cache_rep (evict_tail c) (butlast xs) (butlast l)"
proof -
  obtain as a l1 k r t where s: "xs = as @ [a]" "l = l1 @ [(k, r, t)]" "length as = length l1"
    using assms rep_length[OF assms(1)]
    by (metis append_butlast_last_id length_butlast length_greater_0_conv prod_cases3)
  have "data_of (dc_heap c) a = Some (k, r, t)" "dc_tail c = Some a"
    using assms(1) by (auto simp: cache_rep_def dll_def s)
  then have "evict_tail c = delete_key k (remove_entry a c)"
    by (auto simp: evict_tail_def data_of_def remove_delete_commute)
  then show ?thesis
    using rep_remove[of c as a "[]" l1 k r t "[]"] assms(1) s by simp
qed

lemma rep_new:
  assumes rep: "cache_rep c xs l" and k: "k \<notin> fst ` set l"
  shows "cache_rep (new_entry k r t c) (dc_fresh c # xs) ((k, r, t) # l)"
proof -
  let ?a = "dc_fresh c"
  define c1 where "c1 = c\<lparr>dc_heap := (dc_heap c)(?a \<mapsto>
            \<lparr>ce_key = k, ce_results = r, ce_expireAt = t, ce_prev = None, ce_next = None\<rparr>),
          dc_fresh := ?a + 1, dc_entries := (k, ?a) # dc_entries c\<rparr>"
  have fresh: "?a \<notin> set xs"
  proof
    assume "?a \<in> set xs"
    then have "data_of (dc_heap c) ?a \<in> set (map Some l)"
      using rep by (metis cache_rep_def image_eqI list.set_map)
    then have "data_of (dc_heap c) ?a \<noteq> None"
      by auto
    then show False
      using rep unfolding cache_rep_def by (metis less_irrefl)
  qed
  have "dll c1 xs"
    using rep fresh by (simp add: cache_rep_def dll_def c1_def)
  then have "dll (new_entry k r t c) (?a # xs)"
    unfolding new_entry_def c1_def[symmetric] using fresh by (rule add_to_head_dll) (simp add: c1_def)
  then show ?thesis
  proof (rule cache_repI)
    have c1: "dc_entries (new_entry k r t c) = (k, ?a) # dc_entries c" "dc_fresh (new_entry k r t c) = Suc ?a"
      "data_of (dc_heap (new_entry k r t c)) = data_of (dc_heap c1)"
      unfolding new_entry_def c1_def[symmetric] by (simp_all add: c1_def)
    have d: "data_of (dc_heap c1) = (data_of (dc_heap c))(?a \<mapsto> (k, r, t))"
      by (auto simp: c1_def data_of_def fun_eq_iff)
    have "map ((data_of (dc_heap c))(?a \<mapsto> (k, r, t))) xs = map (data_of (dc_heap c)) xs"
      using fresh by (intro map_cong) auto
    then show "map (data_of (dc_heap (new_entry k r t c))) (?a # xs) = map Some ((k, r, t) # l)"
      unfolding c1 d using cache_repD(2)[OF rep] by simp
    show "distinct (map fst ((k, r, t) # l))"
      using cache_repD(3)[OF rep] k by simp
    have "k \<notin> fst ` set (dc_entries c)"
      unfolding cache_repD(5)[OF rep] using k by (auto dest: set_zip_leftD)
    then show "distinct (map fst (dc_entries (new_entry k r t c)))"
      unfolding c1 using cache_repD(4)[OF rep] by simp
    show "set (dc_entries (new_entry k r t c)) = set (zip (map fst ((k, r, t) # l)) (?a # xs))"
      unfolding c1 using cache_repD(5)[OF rep] by simp
    show "x < dc_fresh (new_entry k r t c)" if "data_of (dc_heap (new_entry k r t c)) x \<noteq> None" for x
      using that cache_repD(6)[OF rep, of x] unfolding c1 d by (cases "x = ?a") auto
  qed
qed

definition cache_is :: "'r detection_cache \<Rightarrow> 'r lru \<Rightarrow> bool" where
  "cache_is c l \<longleftrightarrow> (\<exists>xs. cache_rep c xs l)"

lemma cache_rep_counters [simp]:
  "cache_rep (c\<lparr>dc_misses := m\<rparr>) xs l = cache_rep c xs l"
  "cache_rep (c\<lparr>dc_hits := m\<rparr>) xs l = cache_rep c xs l"
  by (simp_all add: cache_rep_def dll_def)

lemma new_cache_fields [simp]:
  "dc_capacity (new_detection_cache capacity ttl keyLen) = (if capacity \<le> 0 then 4096 else capacity)"
  "dc_ttl (new_detection_cache capacity ttl keyLen) = (if ttl \<le> 0 then 60 * nano_second else ttl)"
  by (simp_all add: new_detection_cache_def)

lemma cache_is_new [simp]: "cache_is (new_detection_cache capacity ttl keyLen) []"
  unfolding cache_is_def
  by (intro exI[of _ "[]"]) (simp add: cache_rep_def dll_def new_detection_cache_def data_of_def)

lemma cache_is_invalidate: "cache_is c l \<Longrightarrow> cache_is (cache_invalidate c) []"
  unfolding cache_is_def
  by (intro exI[of _ "[]"]) (auto simp: cache_rep_def dll_def cache_invalidate_def)

lemma map_of_no_key: "k \<notin> fst ` set l \<Longrightarrow> map_of l k = None"
  by (simp add: map_of_eq_None_iff)

lemma cache_get_refines:
  assumes "cache_is c l"
  shows "fst (cache_get now k c) = fst (lru_get now k l) \<and>
    cache_is (snd (cache_get now k c)) (snd (lru_get now k l))"
proof -
  obtain xs where rep: "cache_rep c xs l"
    using assms by (auto simp: cache_is_def)
  show ?thesis
  proof (cases "map_of (dc_entries c) k")
    case None
    then show ?thesis
      using rep_no_key[OF rep None] rep
      by (auto simp: cache_get_def lru_get_def map_of_no_key cache_is_def)
  next
    case (Some a)
    obtain as bs l1 l2 r t where s: "xs = as @ a # bs" "l = l1 @ (k, r, t) # l2" "length as = length l1"
      "data_of (dc_heap c) a = Some (k, r, t)"
      by (rule rep_split[OF rep Some])
    obtain e where e: "dc_heap c a = Some e" "ce_results e = r" "ce_expireAt e = t"
      using s(4) by (auto simp: data_of_def)
    have lru: "lru_drop k l = l1 @ l2" "map_of l k = Some (r, t)"
      using lru_split[OF cache_repD(3)[OF rep, unfolded s(2)]] by (simp_all only: s(2))
    show ?thesis
    proof (cases "now > t")
      case True
      then show ?thesis
        using rep_remove[OF rep[unfolded s(1,2)] s(3)]
        by (auto simp: cache_get_def lru_get_def Some e lru cache_is_def)
    next
      case False
      then show ?thesis
        using rep_move[OF rep[unfolded s(1,2)] s(3)]
        by (auto simp: cache_get_def lru_get_def Some e lru cache_is_def)
    qed
  qed
qed

lemma cache_put_refines:
  assumes "cache_is c l" "0 < dc_capacity c"
  shows "cache_is (cache_put now jitter k r c) (lru_put (dc_capacity c) (now + (dc_ttl c + jitter)) k r l)"
proof -
  let ?t' = "now + (dc_ttl c + jitter)"
  obtain xs where rep: "cache_rep c xs l"
    using assms by (auto simp: cache_is_def)
  show ?thesis
  proof (cases "map_of (dc_entries c) k")
    case None
    have k: "k \<notin> fst ` set l"
      by (rule rep_no_key[OF rep None])
    show ?thesis
    proof (cases "int (length l) \<ge> dc_capacity c")
      case True
      then have "l \<noteq> []"
        using assms(2) by auto
      then have e: "cache_rep (evict_tail c) (butlast xs) (butlast l)" "k \<notin> fst ` set (butlast l)"
        using rep_evict[OF rep] k by (auto dest: in_set_butlastD)
      show ?thesis
        using rep_new[OF e] True k
        by (auto simp: cache_put_def lru_put_def None rep_entries_length[OF rep] cache_is_def)
    next
      case False
      then show ?thesis
        using rep_new[OF rep k] k
        by (auto simp: cache_put_def lru_put_def None rep_entries_length[OF rep] cache_is_def)
    qed
  next
    case (Some a)
    obtain as bs l1 l2 r0 t where s: "xs = as @ a # bs" "l = l1 @ (k, r0, t) # l2" "length as = length l1"
      by (rule rep_split[OF rep Some])
    have "cache_rep (move_to_head a (set_entry r ?t' a c)) (a # as @ bs) ((k, r, ?t') # l1 @ l2)"
      by (rule rep_move[OF rep_set_entry[OF rep[unfolded s(1,2)] s(3)] s(3)])
    moreover have "k \<in> fst ` set l"
      by (simp add: s(2))
    ultimately show ?thesis
      using lru_split(1)[OF cache_repD(3)[OF rep, unfolded s(2)]]
      by (auto simp: cache_put_def lru_put_def Some s(2) cache_is_def)
  qed
qed

lemma lru_put_length:
  "0 < capacity \<Longrightarrow> int (length l) \<le> capacity \<Longrightarrow> distinct (map fst l) \<Longrightarrow>
   int (length (lru_put capacity t k r l)) \<le> capacity"
proof -
  assume c: "0 < capacity" "int (length l) \<le> capacity" "distinct (map fst l)"
  show ?thesis
  proof (cases "k \<in> fst ` set l")
    case True
    then have "length (lru_drop k l) < length l"
      by (auto simp: lru_drop_def intro!: length_filter_less)
    then show ?thesis
      using c True by (simp add: lru_put_def)
  next
    case False
    then show ?thesis
      using c by (cases l) (auto simp: lru_put_def)
  qed
qed

text \<open>
  C15. The detection cache. The linked list and the map together behave as the list of entries in
  order of use: \<open>Get\<close> answers what is stored under the key unless it expired, and moves the
  entry to the front or drops it; \<open>Put\<close> stores under the key in front, and drops the entry used
  longest ago when the cache is full. The cache never exceeds its capacity, and what was put is
  what \<open>Get\<close> answers until it expires.
\<close>

theorem detection_cache_refines_lru:
  fixes now :: int and jitter :: duration
  assumes "cache_is c l" "0 < dc_capacity c" "int (length l) \<le> dc_capacity c"
  defines "t \<equiv> now + (dc_ttl c + jitter)"
  shows "(fst (cache_get now k c) = fst (lru_get now k l) \<and>
          cache_is (snd (cache_get now k c)) (snd (lru_get now k l))) \<and>
         cache_is (cache_put now jitter k r c) (lru_put (dc_capacity c) t k r l) \<and>
         int (length (dc_entries (cache_put now jitter k r c))) \<le> dc_capacity c \<and>
         fst (cache_get now' k (cache_put now jitter k r c)) = (if now' > t then None else Some r)"
proof -
  have put: "cache_is (cache_put now jitter k r c) (lru_put (dc_capacity c) t k r l)"
    unfolding t_def using assms(1,2) by (rule cache_put_refines)
  have "distinct (map fst l)"
    using assms(1) cache_repD(3) by (auto simp: cache_is_def)
  then have "int (length (lru_put (dc_capacity c) t k r l)) \<le> dc_capacity c"
    using assms(2,3) by (intro lru_put_length)
  moreover have "length (dc_entries (cache_put now jitter k r c)) = length (lru_put (dc_capacity c) t k r l)"
    using put rep_entries_length by (auto simp: cache_is_def)
  moreover have "fst (cache_get now' k (cache_put now jitter k r c)) =
      fst (lru_get now' k (lru_put (dc_capacity c) t k r l))"
    using cache_get_refines[OF put] by blast
  then have "fst (cache_get now' k (cache_put now jitter k r c)) = (if now' > t then None else Some r)"
    by (simp add: lru_get_def lru_put_def)
  ultimately show ?thesis
    using put cache_get_refines[OF assms(1)] by simp
qed

lemma detection_cache_refines_lru_witness:
  "fst (cache_get 5 7 (cache_put 1 0 7 ''r'' (new_detection_cache 2 10 64))) = Some ''r''"
  using detection_cache_refines_lru[of "new_detection_cache 2 10 64" "[]" 1 7 0 "''r''" 5]
  by simp

subsection \<open>What the key leaves out\<close>

lemma truncate_to_eq: "0 \<le> n \<Longrightarrow> truncate_to n s = take (nat n) s"
  by (auto simp: truncate_to_def)

text \<open>
  The key looks at the method and at the first \<open>keyLen\<close> bytes of the path, the query and the
  body: requests that differ behind that, or only in their headers, share a cache entry.
\<close>

lemma cache_key_prefix:
  assumes "0 \<le> dc_keyLen c" "take (nat (dc_keyLen c)) path = take (nat (dc_keyLen c)) path'"
    "take (nat (dc_keyLen c)) query = take (nat (dc_keyLen c)) query'"
    "take (nat (dc_keyLen c)) body = take (nat (dc_keyLen c)) body'"
  shows "compute_cache_key c meth path query body = compute_cache_key c meth path' query' body'"
  using assms by (simp add: compute_cache_key_def cache_key_bytes_def truncate_to_eq)

end
