(* ===== verification/Prescreen.thy ===== *)
theory Prescreen
  imports Http "HOL-Library.Word"
begin

text \<open>
  \<open>internal/domain/security/detector/perf_prescreen.go\<close> and \<open>perf_builder.go\<close>: the text the
  detectors are chosen by, and the single pass over it that replaced five searches for sets of
  characters. The flags are \<open>uint8\<close>.

  Proved: the pass, early break included, computes exactly the five searches
  (\<open>prescreen_exact\<close>), in the form the detection manager's theorems use.
\<close>

subsection \<open>The code\<close>

definition riskSQL :: "8 word" where "riskSQL = 1"
definition riskXSS :: "8 word" where "riskXSS = 2"
definition riskCMD :: "8 word" where "riskCMD = 4"
definition riskPath :: "8 word" where "riskPath = 8"
definition riskHeader :: "8 word" where "riskHeader = 16"

unbundle bit_operations_syntax

definition riskAll :: "8 word" where
  "riskAll = riskSQL OR riskXSS OR riskCMD OR riskPath OR riskHeader"

definition has_risk :: "8 word \<Rightarrow> 8 word \<Rightarrow> bool" where
  "has_risk f r \<longleftrightarrow> f AND r \<noteq> 0"

definition has_any_risk :: "8 word \<Rightarrow> bool" where
  "has_any_risk f \<longleftrightarrow> f \<noteq> 0"

text \<open>The cases of the \<open>switch\<close> but the dot; the default has no flag.\<close>

definition char_risk :: "char \<Rightarrow> 8 word option" where
  "char_risk c =
     (if c = CHR 0x27 \<or> c = CHR 0x22 then Some (riskSQL OR riskXSS)
      else if c = CHR '';'' then Some (riskSQL OR riskCMD)
      else if c \<in> set ''()-=*'' then Some riskSQL
      else if c = CHR ''/'' \<or> c = CHR 0x5C then Some (riskSQL OR riskPath)
      else if c = CHR ''<'' \<or> c = CHR ''>'' \<or> c = CHR ''&'' then Some (riskXSS OR riskCMD)
      else if c = CHR ''|'' \<or> c = CHR 0x60 \<or> c = CHR ''$'' then Some riskCMD
      else if c = CHR 0x0A then Some (riskCMD OR riskHeader)
      else if c = CHR 0x0D then Some riskHeader
      else None)"

fun pre_screen_loop :: "string \<Rightarrow> 8 word \<Rightarrow> bool \<Rightarrow> 8 word" where
  "pre_screen_loop [] flags prevDot = flags"
| "pre_screen_loop (c # s) flags prevDot =
     (if c = CHR ''.'' then pre_screen_loop s (if prevDot then flags OR riskPath else flags) True
      else case char_risk c of
             None \<Rightarrow> pre_screen_loop s flags False
           | Some r \<Rightarrow>
               if flags OR r = riskAll then flags OR r else pre_screen_loop s (flags OR r) False)"

definition pre_screen_risk_chars :: "string \<Rightarrow> string \<Rightarrow> 8 word" where
  "pre_screen_risk_chars combined lowerCombined =
     (let flags = pre_screen_loop combined 0 False;
          flags = (if flags AND riskPath = 0 \<and> contains_any lowerCombined ''etcwindows''
                   then flags OR riskPath else flags)
      in if flags AND riskXSS = 0 \<and> contains_any lowerCombined ''javascript:on''
         then flags OR riskXSS else flags)"

text \<open>\<open>enum\<close> is the order in which the loop ranges over the map of query values.\<close>

record detection_input =
  di_combined :: string
  di_lowerCombined :: string
  di_cookieStr :: string
  di_decodedQuery :: string

definition decoded_query :: "query_values \<Rightarrow> string" where
  "decoded_query vs = concat (map (\<lambda>(k, vals). concat (map (\<lambda>v. k @ ''='' @ v @ ''&'') vals)) vs)"

definition build_detection_input ::
  "(query_values \<Rightarrow> query_values) \<Rightarrow> string \<Rightarrow> string \<Rightarrow> string \<Rightarrow> headers \<Rightarrow> detection_input" where
  "build_detection_input enum path query body headers =
     (let cookieStr = concat (map (\<lambda>c. c @ ''; '')
            (header_values headers ''Cookie'' @ header_values headers ''Set-Cookie''));
          combined = path @ query @ body @ cookieStr;
          (vs, failed) = parse_query query
      in \<lparr>di_combined = combined, di_lowerCombined = to_lower combined, di_cookieStr = cookieStr,
          di_decodedQuery = (if query \<noteq> '''' \<and> \<not> failed \<and> vs \<noteq> [] then decoded_query (enum vs) else '''')\<rparr>)"

subsection \<open>The pass is the five searches\<close>

lemma has_risk_OR [simp]: "has_risk (a OR b) r \<longleftrightarrow> has_risk a r \<or> has_risk b r"
  by (simp add: has_risk_def bit.conj_disj_distrib2 or_eq_0_iff)

lemma has_risk_0 [simp]: "\<not> has_risk 0 r"
  by (simp add: has_risk_def)

definition dot_dot :: "bool \<Rightarrow> string \<Rightarrow> bool" where
  "dot_dot prevDot s \<longleftrightarrow> str_contains s ''..'' \<or> (prevDot \<and> has_prefix s ''.'')"

lemma dot_dot_simps:
  "dot_dot p [] = False"
  "dot_dot p (c # s) = (if c = CHR ''.'' then p \<or> dot_dot True s else dot_dot False s)"
  by (auto simp: dot_dot_def has_prefix_def)

lemma char_risk_within: "char_risk c = Some r \<Longrightarrow> r OR riskAll = riskAll"
  by (auto simp: char_risk_def riskAll_def riskSQL_def riskXSS_def riskCMD_def riskPath_def
      riskHeader_def split: if_splits)

lemma within_riskAll: "a OR riskAll = riskAll \<Longrightarrow> has_risk a r \<Longrightarrow> has_risk riskAll r"
  by (metis has_risk_OR)

lemma riskPath_within: "riskPath OR riskAll = riskAll"
  by (simp add: riskAll_def riskSQL_def riskXSS_def riskCMD_def riskPath_def riskHeader_def)

lemma pre_screen_loop_flags:
  "has_risk (pre_screen_loop s flags prevDot) r \<longleftrightarrow>
     has_risk flags r \<or> (\<exists>c \<in> set s. \<exists>k. char_risk c = Some k \<and> has_risk k r) \<or>
     (dot_dot prevDot s \<and> has_risk riskPath r)"
proof (induction s flags prevDot rule: pre_screen_loop.induct)
  case (2 c s flags prevDot)
  show ?case
  proof (cases "c = CHR ''.''")
    case True
    moreover from True have "char_risk c = None"
      by (simp add: char_risk_def)
    ultimately show ?thesis
      using 2(1) by (auto simp: dot_dot_simps)
  next
    case dot: False
    show ?thesis
    proof (cases "char_risk c")
      case None
      then show ?thesis using 2(2) dot by (auto simp: dot_dot_simps)
    next
      case (Some k)
      show ?thesis
      proof (cases "flags OR k = riskAll")
        case True
        have "has_risk riskAll r" if "(\<exists>c \<in> set s. \<exists>k. char_risk c = Some k \<and> has_risk k r) \<or> has_risk riskPath r"
          using that char_risk_within within_riskAll riskPath_within by blast
        moreover have "has_risk riskAll r \<longleftrightarrow> has_risk flags r \<or> has_risk k r"
          by (simp flip: True)
        ultimately show ?thesis
          using True Some dot by (auto simp: dot_dot_simps)
      next
        case False
        then show ?thesis using 2(3)[OF dot Some] Some dot by (auto simp: dot_dot_simps)
      qed
    qed
  qed
qed (simp add: dot_dot_simps)

lemma char_risk_cases:
  "(\<exists>k. char_risk c = Some k \<and> has_risk k riskSQL) \<longleftrightarrow> c \<in> set '';()-=*/'' \<union> {CHR 0x27, CHR 0x22, CHR 0x5C}"
  "(\<exists>k. char_risk c = Some k \<and> has_risk k riskXSS) \<longleftrightarrow> c \<in> set ''<>&'' \<union> {CHR 0x27, CHR 0x22}"
  "(\<exists>k. char_risk c = Some k \<and> has_risk k riskCMD) \<longleftrightarrow> c \<in> set '';|$&<>'' \<union> {CHR 0x60, CHR 0x0A}"
  "(\<exists>k. char_risk c = Some k \<and> has_risk k riskPath) \<longleftrightarrow> c \<in> {CHR ''/'', CHR 0x5C}"
  "(\<exists>k. char_risk c = Some k \<and> has_risk k riskHeader) \<longleftrightarrow> c \<in> {CHR 0x0D, CHR 0x0A}"
  by (auto simp: char_risk_def riskSQL_def riskXSS_def riskCMD_def riskPath_def riskHeader_def
      has_risk_def)

lemma risk_bits:
  "has_risk riskPath riskSQL = False" "has_risk riskPath riskXSS = False" "has_risk riskPath riskCMD = False"
  "has_risk riskPath riskPath = True" "has_risk riskPath riskHeader = False"
  "has_risk riskXSS riskSQL = False" "has_risk riskXSS riskXSS = True" "has_risk riskXSS riskCMD = False"
  "has_risk riskXSS riskPath = False" "has_risk riskXSS riskHeader = False"
  by (simp_all add: has_risk_def riskSQL_def riskXSS_def riskCMD_def riskPath_def riskHeader_def)

lemma pre_screen_flags:
  "has_risk (pre_screen_risk_chars s low) r \<longleftrightarrow>
     has_risk (pre_screen_loop s 0 False) r \<or>
     (contains_any low ''etcwindows'' \<and> \<not> has_risk (pre_screen_loop s 0 False) riskPath \<and> has_risk riskPath r) \<or>
     (contains_any low ''javascript:on'' \<and> \<not> has_risk (pre_screen_loop s 0 False) riskXSS \<and> has_risk riskXSS r)"
proof -
  have z: "f AND m = 0 \<longleftrightarrow> \<not> has_risk f m" for f m
    by (simp add: has_risk_def)
  show ?thesis
    unfolding pre_screen_risk_chars_def Let_def z by (auto simp: risk_bits)
qed

lemma contains_any_iff: "contains_any s cs \<longleftrightarrow> (\<exists>c \<in> set s. c \<in> set cs)"
  by (simp add: contains_any_def list_ex_iff)

text \<open>
  C26. The single pass over the request text, with its early exit, raises exactly the flags of the
  five searches it replaced: a set of characters for SQL, XSS, commands and headers, and for
  paths a slash, a backslash, two dots in a row or a letter of \<open>etcwindows\<close>; XSS also takes any
  character of \<open>javascript:on\<close>.
\<close>

theorem prescreen_exact:
  "has_risk (pre_screen_risk_chars s low) riskSQL = contains_any s ('';()-=*/'' @ [CHR 0x27, CHR 0x22, CHR 0x5C]) \<and>
   has_risk (pre_screen_risk_chars s low) riskXSS =
     (contains_any s (''<>&'' @ [CHR 0x27, CHR 0x22]) \<or> contains_any low ''javascript:on'') \<and>
   has_risk (pre_screen_risk_chars s low) riskCMD = contains_any s ('';|$&<>'' @ [CHR 0x60, CHR 0x0A]) \<and>
   has_risk (pre_screen_risk_chars s low) riskPath =
     (contains_any s [CHR ''/'', CHR 0x5C] \<or> str_contains s ''..'' \<or> contains_any low ''etcwindows'') \<and>
   has_risk (pre_screen_risk_chars s low) riskHeader = contains_any s [CHR 0x0D, CHR 0x0A]"
proof (intro conjI)
  note flags = pre_screen_flags pre_screen_loop_flags risk_bits char_risk_cases contains_any_iff dot_dot_def
  show "has_risk (pre_screen_risk_chars s low) riskSQL = contains_any s ('';()-=*/'' @ [CHR 0x27, CHR 0x22, CHR 0x5C])"
    unfolding flags by auto
  show "has_risk (pre_screen_risk_chars s low) riskXSS =
     (contains_any s (''<>&'' @ [CHR 0x27, CHR 0x22]) \<or> contains_any low ''javascript:on'')"
    unfolding flags by auto
  show "has_risk (pre_screen_risk_chars s low) riskCMD = contains_any s ('';|$&<>'' @ [CHR 0x60, CHR 0x0A])"
    unfolding flags by auto
  show "has_risk (pre_screen_risk_chars s low) riskPath =
     (contains_any s [CHR ''/'', CHR 0x5C] \<or> str_contains s ''..'' \<or> contains_any low ''etcwindows'')"
    unfolding flags by auto
  show "has_risk (pre_screen_risk_chars s low) riskHeader = contains_any s [CHR 0x0D, CHR 0x0A]"
    unfolding flags by auto
qed

end
