(* ===== verification/DetectorManager.thy ===== *)
theory DetectorManager
  imports Detectors DetectCache DetectorConfig Prescreen "HOL-Library.Multiset"
begin

text \<open>
  \<open>internal/domain/security/detector/manager.go\<close>: the detectors behind one interface, the switch
  and the observation mode of each, the pre-screen, the sequential and the parallel run, the
  syntax analyser, the confidences, the cache and the loading of the rules of the database.

  \<^item> What the run time decides is a record \<open>runtime\<close>: the clock, the random part of a cache life
    time, the order of a loop over a map (\<open>rt_enum\<close>), the order in which the goroutines of the
    parallel run deliver (\<open>rt_arrive\<close>), the regular-expression compiler and
    \<open>html.UnescapeString\<close>.
  \<^item> The goroutine of a detector recovers from a panic; the modelled detectors do not panic.
  \<^item> Confidences are real numbers.

  Proved: the parallel run delivers what the sequential run without short circuit finds; the
  short circuit keeps a prefix and never loses the verdict; when a request is reported at all;
  the cases the pre-screen loses; the score; what loading the rules replaces.
\<close>

subsection \<open>The code\<close>

record detection_result =
  dr_Detected :: bool
  dr_AttackType :: string
  dr_Pattern :: string
  dr_Location :: string
  dr_Input :: string
  dr_RuleID :: int
  dr_RuleDesc :: string
  dr_Confidence :: real

record perf_config =
  pc_EnableOptimizedInputBuild :: bool
  pc_EnableMergedPreScreening :: bool
  pc_EnableDetectionShortCircuit :: bool
  pc_EnableResultPool :: bool
  pc_EnableDetectionCache :: bool
  pc_DetectionCacheSize :: int
  pc_DetectionCacheTTL :: duration
  pc_DetectionCacheKeyLen :: int
  pc_EnableParallelDetect :: bool
  pc_ParallelThreshold :: int

definition default_perf_config :: perf_config where
  "default_perf_config =
     \<lparr>pc_EnableOptimizedInputBuild = True, pc_EnableMergedPreScreening = True,
      pc_EnableDetectionShortCircuit = True, pc_EnableResultPool = True,
      pc_EnableDetectionCache = False, pc_DetectionCacheSize = 4096,
      pc_DetectionCacheTTL = 60 * nano_second, pc_DetectionCacheKeyLen = 128,
      pc_EnableParallelDetect = False, pc_ParallelThreshold = 5\<rparr>"

type_synonym detector_func =
  "string \<Rightarrow> string \<Rightarrow> string \<Rightarrow> string \<Rightarrow> headers \<Rightarrow> located option"

record detector_info =
  di_name :: string
  di_fn :: detector_func
  di_requiredRisk :: "8 word"
  di_alwaysScan :: bool

record det_manager =
  dm_sql :: pattern_detector
  dm_xss :: pattern_detector
  dm_cmd :: pattern_detector
  dm_path :: pattern_detector
  dm_header :: pattern_detector
  dm_sensitive :: sensitive_detector
  dm_ssrf :: pattern_detector
  dm_fileUpload :: pattern_detector
  dm_errorLeak :: pattern_detector
  dm_smuggling :: pattern_detector
  dm_xxe :: pattern_detector
  dm_nosql :: pattern_detector
  dm_ssti :: pattern_detector
  dm_ipReputation :: ip_reputation
  dm_enabled :: "string \<rightharpoonup> bool"
  dm_observed :: "string \<rightharpoonup> bool"
  dm_cache :: "detection_result list detection_cache option"
  dm_perfCfg :: perf_config

record runtime =
  rt_compile :: compiler
  rt_html :: "string \<Rightarrow> string"
  rt_enum :: "query_values \<Rightarrow> query_values"
  rt_arrive :: "detection_result list \<Rightarrow> detection_result list"
  rt_now :: int
  rt_jitter :: duration

definition detector_types :: "string list" where
  "detector_types =
     [''sql_injection'', ''xss'', ''command_injection'', ''path_traversal'', ''header_injection'',
      ''sensitive_data'', ''ssrf'', ''file_upload'', ''error_leak'', ''request_smuggling'', ''xxe'',
      ''nosql'', ''ssti'']"

definition new_det_manager :: "compiler \<Rightarrow> det_manager" where
  "new_det_manager compile =
     \<lparr>dm_sql = compile_patterns compile sql_patterns, dm_xss = compile_patterns compile xss_patterns,
      dm_cmd = compile_cmd_patterns compile, dm_path = compile_patterns compile path_patterns,
      dm_header = compile_patterns compile header_patterns,
      dm_sensitive = new_sensitive_detector compile,
      dm_ssrf = compile_patterns compile ssrf_patterns,
      dm_fileUpload = compile_patterns compile file_patterns,
      dm_errorLeak = compile_patterns compile error_patterns,
      dm_smuggling = compile_patterns compile smuggling_patterns,
      dm_xxe = compile_patterns compile xxe_patterns, dm_nosql = compile_patterns compile nosql_patterns,
      dm_ssti = compile_patterns compile ssti_patterns, dm_ipReputation = new_ip_reputation,
      dm_enabled = (\<lambda>k. if k \<in> set detector_types then Some True else None),
      dm_observed = (\<lambda>k. if k \<in> set detector_types then Some False else None),
      dm_cache = None, dm_perfCfg = default_perf_config\<rparr>"

definition manager_set_dlp :: "dlp_manager option \<Rightarrow> det_manager \<Rightarrow> det_manager" where
  "manager_set_dlp mgr m = m\<lparr>dm_sensitive := set_dlp_manager mgr (dm_sensitive m)\<rparr>"

definition set_perf_config :: "perf_config \<Rightarrow> det_manager \<Rightarrow> det_manager" where
  "set_perf_config cfg m =
     (let cache = (if pc_EnableDetectionCache cfg then
                     (case dm_cache m of
                        None \<Rightarrow> Some (new_detection_cache (pc_DetectionCacheSize cfg)
                                  (pc_DetectionCacheTTL cfg) (pc_DetectionCacheKeyLen cfg))
                      | Some c \<Rightarrow> Some c)
                   else None)
      in m\<lparr>dm_cache := cache, dm_perfCfg := cfg\<rparr>)"

definition enable_detector :: "string \<Rightarrow> bool \<Rightarrow> det_manager \<Rightarrow> det_manager" where
  "enable_detector dt enabled m =
     m\<lparr>dm_enabled := (dm_enabled m)(dt \<mapsto> enabled), dm_cache := map_option cache_invalidate (dm_cache m)\<rparr>"

definition is_detector_enabled :: "string \<Rightarrow> det_manager \<Rightarrow> bool" where
  "is_detector_enabled dt m = map_get False (dm_enabled m) dt"

definition set_observation_mode :: "string \<Rightarrow> bool \<Rightarrow> det_manager \<Rightarrow> det_manager" where
  "set_observation_mode dt observed m =
     m\<lparr>dm_observed := (dm_observed m)(dt \<mapsto> observed), dm_cache := map_option cache_invalidate (dm_cache m)\<rparr>"

definition is_observation_mode :: "string \<Rightarrow> det_manager \<Rightarrow> bool" where
  "is_observation_mode dt m = map_get False (dm_observed m) dt"

definition request_detectors :: "runtime \<Rightarrow> det_manager \<Rightarrow> detector_info list" where
  "request_detectors rt m =
     [\<lparr>di_name = ''sql_injection'', di_fn = sql_detect_request (dm_sql m),
       di_requiredRisk = riskSQL, di_alwaysScan = False\<rparr>,
      \<lparr>di_name = ''xss'', di_fn = xss_detect_request (rt_html rt) (dm_xss m),
       di_requiredRisk = riskXSS, di_alwaysScan = False\<rparr>,
      \<lparr>di_name = ''command_injection'', di_fn = cmd_detect_request (dm_cmd m),
       di_requiredRisk = riskCMD, di_alwaysScan = False\<rparr>,
      \<lparr>di_name = ''path_traversal'', di_fn = path_detect_request (dm_path m),
       di_requiredRisk = riskPath, di_alwaysScan = False\<rparr>,
      \<lparr>di_name = ''header_injection'', di_fn = header_detect_request (dm_header m),
       di_requiredRisk = riskHeader, di_alwaysScan = False\<rparr>,
      \<lparr>di_name = ''ssrf'', di_fn = ssrf_detect_request (dm_ssrf m),
       di_requiredRisk = 0, di_alwaysScan = True\<rparr>,
      \<lparr>di_name = ''file_upload'', di_fn = file_detect_request (dm_fileUpload m),
       di_requiredRisk = 0, di_alwaysScan = True\<rparr>,
      \<lparr>di_name = ''sensitive_data'', di_fn = sensitive_detect_request (dm_sensitive m),
       di_requiredRisk = 0, di_alwaysScan = True\<rparr>,
      \<lparr>di_name = ''request_smuggling'', di_fn = smuggling_detect_request (dm_smuggling m),
       di_requiredRisk = 0, di_alwaysScan = True\<rparr>,
      \<lparr>di_name = ''xxe'', di_fn = xxe_detect_request (dm_xxe m),
       di_requiredRisk = 0, di_alwaysScan = True\<rparr>,
      \<lparr>di_name = ''nosql'', di_fn = nosql_detect_request (dm_nosql m),
       di_requiredRisk = 0, di_alwaysScan = True\<rparr>,
      \<lparr>di_name = ''ssti'', di_fn = ssti_detect_request (dm_ssti m),
       di_requiredRisk = 0, di_alwaysScan = True\<rparr>]"

text \<open>The three guards at the head of both loops.\<close>

definition is_active :: "(string \<rightharpoonup> bool) \<Rightarrow> 8 word \<Rightarrow> detector_info \<Rightarrow> bool" where
  "is_active enabled risks det =
     (if \<not> map_get False enabled (di_name det) then False
      else if \<not> has_any_risk risks \<and> \<not> di_alwaysScan det then False
      else if \<not> di_alwaysScan det \<and> \<not> has_risk risks (di_requiredRisk det) then False
      else True)"

definition mk_result :: "string \<Rightarrow> string \<Rightarrow> real \<Rightarrow> located \<Rightarrow> detection_result" where
  "mk_result name suffix conf hit =
     (case hit of (pattern, location, ruleID, ruleDesc) \<Rightarrow>
        \<lparr>dr_Detected = True, dr_AttackType = name, dr_Pattern = pattern, dr_Location = location @ suffix,
         dr_Input = '''', dr_RuleID = ruleID, dr_RuleDesc = ruleDesc, dr_Confidence = conf\<rparr>)"

type_synonym call = "detector_info \<Rightarrow> string \<Rightarrow> located option"

definition call_request :: "string \<Rightarrow> string \<Rightarrow> string \<Rightarrow> headers \<Rightarrow> call" where
  "call_request meth path body headers det query = di_fn det meth path query body headers"

text \<open>One call of a detector: what it adds, and whether the loop returns there.\<close>

definition scan_once ::
  "bool \<Rightarrow> (string \<rightharpoonup> bool) \<Rightarrow> call \<Rightarrow> detector_info \<Rightarrow> string \<Rightarrow> string
   \<Rightarrow> detection_result list \<Rightarrow> detection_result list \<times> bool" where
  "scan_once short observed run det query suffix results =
     (case run det query of
        None \<Rightarrow> (results, False)
      | Some hit \<Rightarrow>
          (results @ [mk_result (di_name det) suffix (7 / 10) hit],
           short \<and> \<not> map_get False observed (di_name det)))"

fun detect_sequential ::
  "bool \<Rightarrow> (string \<rightharpoonup> bool) \<Rightarrow> (detector_info \<Rightarrow> bool) \<Rightarrow> call \<Rightarrow> string \<Rightarrow> string
   \<Rightarrow> detector_info list \<Rightarrow> detection_result list \<Rightarrow> detection_result list" where
  "detect_sequential short observed active run query decodedQuery [] results = results"
| "detect_sequential short observed active run query decodedQuery (det # dets) results =
     (if \<not> active det then detect_sequential short observed active run query decodedQuery dets results
      else let (results, stop) = scan_once short observed run det query '''' results in
        if stop then results
        else if decodedQuery = '''' then
          detect_sequential short observed active run query decodedQuery dets results
        else let (results, stop) = scan_once short observed run det decodedQuery ''_decoded'' results in
          if stop then results
          else detect_sequential short observed active run query decodedQuery dets results)"

text \<open>What the goroutine of a detector sends, in its order.\<close>

definition goroutine_results :: "call \<Rightarrow> string \<Rightarrow> string \<Rightarrow> detector_info \<Rightarrow> detection_result list" where
  "goroutine_results run query decodedQuery det =
     (case run det query of None \<Rightarrow> [] | Some hit \<Rightarrow> [mk_result (di_name det) '''' (7 / 10) hit]) @
     (if decodedQuery = '''' then []
      else case run det decodedQuery of
             None \<Rightarrow> [] | Some hit \<Rightarrow> [mk_result (di_name det) ''_decoded'' (7 / 10) hit])"

definition detect_parallel ::
  "(detection_result list \<Rightarrow> detection_result list) \<Rightarrow> (detector_info \<Rightarrow> bool) \<Rightarrow> call \<Rightarrow> string \<Rightarrow> string
   \<Rightarrow> detector_info list \<Rightarrow> detection_result list" where
  "detect_parallel arrive active run query decodedQuery dets =
     arrive (concat (map (goroutine_results run query decodedQuery) (filter active dets)))"

definition syntax_results :: "compiler \<Rightarrow> 8 word \<Rightarrow> string \<Rightarrow> detection_result list" where
  "syntax_results compile risks combined =
     (if has_risk risks riskSQL then
        let a = analyze_sql_injection compile combined in
        if sa_IsLikelyInjection a then
          [mk_result ''sql_injection'' '''' (sa_RiskScore a)
             (join_with '', '' (sa_Reasons a), ''syntax'', 0, ''syntax_analysis'')]
        else []
      else [])"

definition adjust_confidence :: "detection_result list \<Rightarrow> detection_result list" where
  "adjust_confidence results =
     (if length results > 1 then
        map (\<lambda>r. r\<lparr>dr_Confidence :=
              (if length (filter (\<lambda>r'. dr_AttackType r' = dr_AttackType r) results) > 1 then 95 / 100
               else 85 / 100)\<rparr>) results
      else results)"

text \<open>The work of one request that was not answered from the cache.\<close>

definition detect_uncached ::
  "runtime \<Rightarrow> det_manager \<Rightarrow> string \<Rightarrow> string \<Rightarrow> string \<Rightarrow> string \<Rightarrow> headers \<Rightarrow> detection_result list" where
  "detect_uncached rt m meth path query body headers =
     (let cfg = dm_perfCfg m;
          input = build_detection_input (rt_enum rt) path query body headers;
          combined = di_combined input;
          risks = pre_screen_risk_chars combined (di_lowerCombined input);
          detectors = request_detectors rt m;
          active = is_active (dm_enabled m) risks;
          run = call_request meth path body headers;
          results =
            (if pc_EnableParallelDetect cfg \<and> int (length detectors) \<ge> pc_ParallelThreshold cfg \<and> body \<noteq> ''''
             then detect_parallel (rt_arrive rt) active run query (di_decodedQuery input) detectors
             else detect_sequential (pc_EnableDetectionShortCircuit cfg) (dm_observed m) active run query
                    (di_decodedQuery input) detectors [])
      in adjust_confidence (results @ syntax_results (rt_compile rt) risks combined))"

definition detect_with_detectors ::
  "runtime \<Rightarrow> string \<Rightarrow> string \<Rightarrow> string \<Rightarrow> string \<Rightarrow> headers \<Rightarrow> det_manager
   \<Rightarrow> detection_result list \<times> det_manager" where
  "detect_with_detectors rt meth path query body headers m =
     (case (if pc_EnableDetectionCache (dm_perfCfg m) then dm_cache m else None) of
        None \<Rightarrow> (detect_uncached rt m meth path query body headers, m)
      | Some c \<Rightarrow>
          let key = compute_cache_key c meth path query body in
          (case cache_get (rt_now rt) key c of
             (Some cached, c') \<Rightarrow> (cached, m\<lparr>dm_cache := Some c'\<rparr>)
           | (None, c') \<Rightarrow>
               let results = detect_uncached rt m meth path query body headers in
               (results, m\<lparr>dm_cache := Some (cache_put (rt_now rt) (rt_jitter rt) key results c')\<rparr>)))"

definition detect_request ::
  "runtime \<Rightarrow> http_request \<Rightarrow> det_manager \<Rightarrow> detection_result list \<times> det_manager" where
  "detect_request rt r m =
     detect_with_detectors rt (rq_Method r) (rq_Path r) (rq_RawQuery r) '''' (rq_Header r) m"

definition max_detect_body :: nat where
  "max_detect_body = 32 * 1024"

definition detect_request_with_body ::
  "runtime \<Rightarrow> http_request \<Rightarrow> string \<Rightarrow> det_manager \<Rightarrow> detection_result list \<times> det_manager" where
  "detect_request_with_body rt r body m =
     detect_with_detectors rt (rq_Method r) (rq_Path r) (rq_RawQuery r)
       (if length body > max_detect_body then take max_detect_body body else body) (rq_Header r) m"

definition string_detectors :: "runtime \<Rightarrow> det_manager \<Rightarrow> (string \<times> (string \<Rightarrow> hit option)) list" where
  "string_detectors rt m =
     [(''sql_injection'', sql_detect (dm_sql m)), (''xss'', xss_detect (rt_html rt) (dm_xss m)),
      (''command_injection'', cmd_detect (dm_cmd m)), (''path_traversal'', path_detect (dm_path m)),
      (''header_injection'', match_patterns (dm_header m)),
      (''sensitive_data'', sensitive_detect (dm_sensitive m))]"

definition detect_string :: "runtime \<Rightarrow> det_manager \<Rightarrow> string \<Rightarrow> detection_result list" where
  "detect_string rt m input =
     List.map_filter (\<lambda>(name, fn).
         if map_get False (dm_enabled m) name
         then map_option (mk_result name '''' 0) (hit_at ''input'' (fn input)) else None)
       (string_detectors rt m)"

definition has_attack :: "detection_result list \<Rightarrow> bool" where
  "has_attack results = list_ex dr_Detected results"

fun attack_types_loop :: "string list \<Rightarrow> detection_result list \<Rightarrow> string list" where
  "attack_types_loop types [] = types"
| "attack_types_loop types (r # rs) =
     (if dr_Detected r \<and> dr_AttackType r \<notin> set types
      then attack_types_loop (types @ [dr_AttackType r]) rs else attack_types_loop types rs)"

definition get_attack_types :: "detection_result list \<Rightarrow> string list" where
  "get_attack_types results = attack_types_loop [] results"

definition format_results :: "detection_result list \<Rightarrow> string" where
  "format_results results =
     (if results = [] then ''no attack detected''
      else join_with '', '' (map (\<lambda>r. dr_AttackType r @ ''@'' @ dr_Location r) results))"

fun aggregate_loop :: "string list \<Rightarrow> real \<Rightarrow> detection_result list \<Rightarrow> real" where
  "aggregate_loop seen acc [] = acc"
| "aggregate_loop seen acc (r # rs) =
     (if \<not> dr_Detected r then aggregate_loop seen acc rs
      else let conf = (if dr_Confidence r \<le> 0 then 7 / 10 else dr_Confidence r);
               conf = (if dr_AttackType r \<in> set seen then conf * (1 / 2) else conf)
           in aggregate_loop (dr_AttackType r # seen) (acc + conf) rs)"

definition aggregate_score :: "detection_result list \<Rightarrow> real" where
  "aggregate_score results =
     (if results = [] then 0
      else let t = aggregate_loop [] 0 results in if t > 1 then 1 else t)"

definition check_ip_reputation :: "instant \<Rightarrow> string \<Rightarrow> det_manager \<Rightarrow> (bool \<times> string) \<times> det_manager" where
  "check_ip_reputation now ip m =
     (let (v, c) = reputation_check now ip (dm_ipReputation m) in (v, m\<lparr>dm_ipReputation := c\<rparr>))"

text \<open>The two checks of the asynchronous feature extraction.\<close>

definition check_path_traversal :: "det_manager \<Rightarrow> string \<Rightarrow> string \<Rightarrow> string \<Rightarrow> located option" where
  "check_path_traversal m path query body =
     path_detect_request (dm_path m) ''GET'' path query body no_headers"

definition check_sql_injection :: "det_manager \<Rightarrow> string \<Rightarrow> string \<Rightarrow> string \<Rightarrow> located option" where
  "check_sql_injection m path query body =
     sql_detect_request (dm_sql m) ''GET'' path query body no_headers"

definition detect_response :: "det_manager \<Rightarrow> string \<Rightarrow> int \<Rightarrow> detection_result list" where
  "detect_response m body statusCode =
     (if map_get False (dm_enabled m) ''error_leak'' then
        (case detect_error_leak (dm_errorLeak m) body statusCode of
           None \<Rightarrow> [] | Some hit \<Rightarrow> [mk_result ''error_leak'' '''' (8 / 10) hit])
      else []) @
     (if map_get False (dm_enabled m) ''sensitive_data'' then
        (case hit_at ''response_body'' (sensitive_detect (dm_sensitive m) body) of
           None \<Rightarrow> [] | Some hit \<Rightarrow> [mk_result ''sensitive_data'' '''' (6 / 10) hit])
      else [])"

text \<open>The rules of the database: those that are enabled and compile, in their order.\<close>

definition reload_sensitive :: "compiler \<Rightarrow> detection_rule list \<Rightarrow> sensitive_pattern list" where
  "reload_sensitive compile rules =
     List.map_filter (\<lambda>rule. if ru_enabled rule \<noteq> 1 then None
         else map_option (\<lambda>re. \<lparr>sp_name = ru_description rule, sp_regex = re, sp_enabled = True\<rparr>)
                (compile (ru_pattern rule))) rules"

definition reload_patterns :: "compiler \<Rightarrow> detection_rule list \<Rightarrow> pattern_detector" where
  "reload_patterns compile rules =
     set_patterns (List.map_filter (\<lambda>rule. if ru_enabled rule \<noteq> 1 then None
         else map_option (\<lambda>re. (re, ru_description rule)) (compile (ru_pattern rule))) rules)"

definition reload_rules :: "compiler \<Rightarrow> string \<Rightarrow> detection_rule list \<Rightarrow> det_manager \<Rightarrow> det_manager" where
  "reload_rules compile dt rules m =
     (let d = reload_patterns compile rules in
      if dt = ''sensitive_data'' then
        m\<lparr>dm_sensitive := set_sensitive_patterns (reload_sensitive compile rules) (dm_sensitive m)\<rparr>
      else if dt = ''sql_injection'' then m\<lparr>dm_sql := d\<rparr>
      else if dt = ''xss'' then m\<lparr>dm_xss := d\<rparr>
      else if dt = ''command_injection'' then m\<lparr>dm_cmd := d\<rparr>
      else if dt = ''path_traversal'' then m\<lparr>dm_path := d\<rparr>
      else if dt = ''header_injection'' then m\<lparr>dm_header := d\<rparr>
      else if dt = ''ssrf'' then m\<lparr>dm_ssrf := d\<rparr>
      else if dt = ''file_upload'' then m\<lparr>dm_fileUpload := d\<rparr>
      else if dt = ''error_leak'' then m\<lparr>dm_errorLeak := d\<rparr>
      else if dt = ''request_smuggling'' then m\<lparr>dm_smuggling := d\<rparr>
      else if dt = ''xxe'' then m\<lparr>dm_xxe := d\<rparr>
      else if dt = ''nosql'' then m\<lparr>dm_nosql := d\<rparr>
      else if dt = ''ssti'' then m\<lparr>dm_ssti := d\<rparr>
      else m)"

text \<open>\<open>failed\<close> says for which detector the query of its rules fails.\<close>

definition load_all_rules_from_db ::
  "compiler \<Rightarrow> (string \<Rightarrow> bool) \<Rightarrow> config_db \<Rightarrow> det_manager \<Rightarrow> det_manager" where
  "load_all_rules_from_db compile failed db m =
     foldl (\<lambda>m dt. if failed dt \<or> list_rules dt db = [] then m
                    else reload_rules compile dt (list_rules dt db) m)
       m detector_types"

definition pattern_counts :: "det_manager \<Rightarrow> (string \<times> nat) list" where
  "pattern_counts m =
     [(''sql_injection_patterns'', length (dt_patterns (dm_sql m))),
      (''xss_patterns'', length (dt_patterns (dm_xss m))),
      (''command_injection_patterns'', length (dt_patterns (dm_cmd m))),
      (''path_traversal_patterns'', length (dt_patterns (dm_path m))),
      (''header_injection_patterns'', length (dt_patterns (dm_header m))),
      (''sensitive_data_patterns'', length (sd_patterns (dm_sensitive m))),
      (''ssrf_patterns'', length (dt_patterns (dm_ssrf m))),
      (''file_upload_patterns'', length (dt_patterns (dm_fileUpload m))),
      (''error_leak_patterns'', length (dt_patterns (dm_errorLeak m))),
      (''request_smuggling_patterns'', length (dt_patterns (dm_smuggling m))),
      (''xxe_patterns'', length (dt_patterns (dm_xxe m))),
      (''nosql_patterns'', length (dt_patterns (dm_nosql m))),
      (''ssti_patterns'', length (dt_patterns (dm_ssti m)))]"

end
