(* ===== verification/DetectorProps.thy ===== *)
theory DetectorProps
  imports DetectorManager
begin

text \<open>
  The theorems on the detection manager.
\<close>

subsection \<open>Sequential and parallel runs\<close>

lemma scan_once_results:
  "fst (scan_once short observed run det query suffix results) =
     results @ (case run det query of None \<Rightarrow> [] | Some hit \<Rightarrow> [mk_result (di_name det) suffix (7 / 10) hit])"
  by (simp add: scan_once_def split: option.split)

lemma scan_once_stop:
  "snd (scan_once short observed run det query suffix results) \<longleftrightarrow>
     run det query \<noteq> None \<and> short \<and> \<not> map_get False observed (di_name det)"
  by (auto simp: scan_once_def split: option.split)

text \<open>Without short circuit the loop adds what every active detector finds.\<close>

lemma sequential_full:
  "detect_sequential False observed active run query decodedQuery dets results =
     results @ concat (map (goroutine_results run query decodedQuery) (filter active dets))"
proof (induction dets arbitrary: results)
  case (Cons det dets)
  then show ?case
    by (auto simp: scan_once_def goroutine_results_def split: option.split)
qed simp

text \<open>The short circuit cuts that list, but never down to nothing when there was something.\<close>

lemma sequential_prefix:
  "\<exists>rest. results @ concat (map (goroutine_results run query decodedQuery) (filter active dets)) =
            detect_sequential short observed active run query decodedQuery dets results @ rest \<and>
          (rest \<noteq> [] \<longrightarrow> detect_sequential short observed active run query decodedQuery dets results \<noteq> [])"
proof (induction dets arbitrary: results)
  case (Cons det dets)
  let ?seq = "detect_sequential short observed active run query decodedQuery"
  let ?G = "concat (map (goroutine_results run query decodedQuery) (filter active dets))"
  define s1 where "s1 = scan_once short observed run det query '''' results"
  define s2 where "s2 = scan_once short observed run det decodedQuery ''_decoded'' (fst s1)"
  have step: "?seq (det # dets) results =
      (if \<not> active det then ?seq dets results else if snd s1 then fst s1
       else if decodedQuery = '''' then ?seq dets (fst s1)
       else if snd s2 then fst s2 else ?seq dets (fst s2))"
    by (simp add: s1_def s2_def Let_def split: prod.split)
  have g: "results @ goroutine_results run query decodedQuery det =
      (if decodedQuery = '''' then fst s1 else fst s2)"
    by (simp add: s1_def s2_def scan_once_results goroutine_results_def)
  have ne: "snd s1 \<Longrightarrow> fst s1 \<noteq> []" "snd s2 \<Longrightarrow> fst s2 \<noteq> []"
    by (auto simp: s1_def s2_def scan_once_stop scan_once_results)
  have ext: "\<exists>rest. (if decodedQuery = '''' then fst s1 else fst s2) = fst s1 @ rest"
    by (simp add: s2_def scan_once_results)
  show ?case
  proof (cases "active det")
    case True
    then have full: "results @ concat (map (goroutine_results run query decodedQuery) (filter active (det # dets))) =
        (if decodedQuery = '''' then fst s1 else fst s2) @ ?G"
      by (simp flip: g)
    show ?thesis
      unfolding full step using True ne ext Cons[of "fst s1"] Cons[of "fst s2"]
      by (cases "decodedQuery = ''''"; cases "snd s1"; cases "snd s2") (simp_all; metis append.assoc)+
  qed (use Cons[of results] in simp)
qed simp

lemma sequential_empty:
  "detect_sequential short observed active run query decodedQuery dets [] = [] \<longleftrightarrow>
     concat (map (goroutine_results run query decodedQuery) (filter active dets)) = []"
  using sequential_prefix[of "[]" run query decodedQuery active dets short observed]
  by (metis append_Nil append_is_Nil_conv)

lemma mset_empty_list: "mset xs = mset ys \<Longrightarrow> xs = [] \<longleftrightarrow> ys = []"
  by auto

text \<open>
  C10. The two ways to run the detectors agree: whatever the order in which the goroutines deliver,
  the parallel run finds exactly the results of the sequential run without short circuit; and
  the sequential run with short circuit gives a beginning of those results, and gives none only
  when there are none.
\<close>

theorem runs_agree:
  assumes "\<And>rs. mset (arrive rs) = mset rs"
  shows "let full = detect_sequential False observed active run query decodedQuery dets [];
             early = detect_sequential True observed active run query decodedQuery dets []
         in mset (detect_parallel arrive active run query decodedQuery dets) = mset full \<and>
            take (length early) full = early \<and> (early = [] \<longleftrightarrow> full = [])"
proof -
  let ?full = "detect_sequential False observed active run query decodedQuery dets []"
  let ?early = "detect_sequential True observed active run query decodedQuery dets []"
  have "mset (detect_parallel arrive active run query decodedQuery dets) = mset ?full"
    unfolding detect_parallel_def assms sequential_full by simp
  moreover have "take (length ?early) ?full = ?early"
    using sequential_prefix[of "[]" run query decodedQuery active dets True observed]
    unfolding sequential_full by (metis append_eq_conv_conj)
  moreover have "?early = [] \<longleftrightarrow> ?full = []"
    unfolding sequential_empty by (simp add: sequential_full)
  ultimately show ?thesis by (simp only: Let_def)
qed

lemma runs_agree_witness:
  "mset (detect_parallel rev (\<lambda>_. True) (\<lambda>d q. if q = ''a'' then Some (''p'', ''query'', 1, ''d'') else None) ''a'' ''''
      [\<lparr>di_name = ''x'', di_fn = \<lambda>_ _ _ _ _. None, di_requiredRisk = 0, di_alwaysScan = True\<rparr>]) =
   {#mk_result ''x'' '''' (7 / 10) (''p'', ''query'', 1, ''d'')#}"
  using runs_agree[of rev Map.empty "\<lambda>_. True" "\<lambda>d q. if q = ''a'' then Some (''p'', ''query'', 1, ''d'') else None"
      "''a''" "''''" "[\<lparr>di_name = ''x'', di_fn = \<lambda>_ _ _ _ _. None, di_requiredRisk = 0, di_alwaysScan = True\<rparr>]"]
  by (simp add: scan_once_def)

subsection \<open>When a request is reported\<close>

lemma adjust_length [simp]: "length (adjust_confidence rs) = length rs"
  by (simp add: adjust_confidence_def)

lemma adjust_empty [simp]: "adjust_confidence rs = [] \<longleftrightarrow> rs = []"
  by (simp flip: length_0_conv)

lemma adjust_fields:
  "r \<in> set (adjust_confidence rs) \<Longrightarrow>
     \<exists>r' \<in> set rs. dr_AttackType r = dr_AttackType r' \<and> dr_Location r = dr_Location r' \<and>
       dr_Detected r = dr_Detected r'"
  by (auto simp: adjust_confidence_def split: if_splits)

definition request_risks :: "runtime \<Rightarrow> string \<Rightarrow> string \<Rightarrow> string \<Rightarrow> headers \<Rightarrow> 8 word" where
  "request_risks rt path query body headers =
     (let input = build_detection_input (rt_enum rt) path query body headers
      in pre_screen_risk_chars (di_combined input) (di_lowerCombined input))"

definition request_decoded :: "runtime \<Rightarrow> string \<Rightarrow> string" where
  "request_decoded rt query = di_decodedQuery (build_detection_input (rt_enum rt) '''' query '''' no_headers)"

lemma request_decoded_eq:
  "di_decodedQuery (build_detection_input (rt_enum rt) path query body headers) = request_decoded rt query"
  by (simp add: request_decoded_def build_detection_input_def Let_def split: prod.split)

definition request_combined :: "string \<Rightarrow> string \<Rightarrow> string \<Rightarrow> headers \<Rightarrow> string" where
  "request_combined path query body headers =
     path @ query @ body @ concat (map (\<lambda>c. c @ ''; '') (headers ''Cookie'' @ headers ''Set-Cookie''))"

lemma request_combined_eq:
  "di_combined (build_detection_input enum path query body headers) = request_combined path query body headers"
proof -
  have "canonical_key ''Cookie'' = ''Cookie''" "canonical_key ''Set-Cookie'' = ''Set-Cookie''"
    by code_simp+
  then show ?thesis
    by (simp add: request_combined_def build_detection_input_def Let_def header_values_def split: prod.split)
qed

text \<open>The results of the detectors, in the order of the detectors, before the short circuit.\<close>

definition all_results ::
  "runtime \<Rightarrow> det_manager \<Rightarrow> string \<Rightarrow> string \<Rightarrow> string \<Rightarrow> string \<Rightarrow> headers \<Rightarrow> detection_result list" where
  "all_results rt m meth path query body headers =
     concat (map (goroutine_results (call_request meth path body headers) query (request_decoded rt query))
       (filter (is_active (dm_enabled m) (request_risks rt path query body headers)) (request_detectors rt m)))"

lemma uncached_shape:
  assumes "\<And>rs. mset (rt_arrive rt rs) = mset rs"
  obtains found where
    "detect_uncached rt m meth path query body headers =
       adjust_confidence (found @ syntax_results (rt_compile rt) (request_risks rt path query body headers)
         (request_combined path query body headers))"
    "set found \<subseteq> set (all_results rt m meth path query body headers)"
    "found = [] \<longleftrightarrow> all_results rt m meth path query body headers = []"
proof -
  let ?act = "is_active (dm_enabled m) (request_risks rt path query body headers)"
  let ?run = "call_request meth path body headers"
  let ?all = "all_results rt m meth path query body headers"
  define found where "found =
    (if pc_EnableParallelDetect (dm_perfCfg m) \<and>
        int (length (request_detectors rt m)) \<ge> pc_ParallelThreshold (dm_perfCfg m) \<and> body \<noteq> ''''
     then detect_parallel (rt_arrive rt) ?act ?run query (request_decoded rt query) (request_detectors rt m)
     else detect_sequential (pc_EnableDetectionShortCircuit (dm_perfCfg m)) (dm_observed m) ?act ?run query
            (request_decoded rt query) (request_detectors rt m) [])"
  have "detect_uncached rt m meth path query body headers =
      adjust_confidence (found @ syntax_results (rt_compile rt) (request_risks rt path query body headers)
        (request_combined path query body headers))"
    by (simp add: detect_uncached_def found_def Let_def request_decoded_eq request_combined_eq request_risks_def
        del: One_nat_def)
  moreover have "set found \<subseteq> set ?all \<and> (found = [] \<longleftrightarrow> ?all = [])"
  proof (cases "pc_EnableParallelDetect (dm_perfCfg m) \<and>
      int (length (request_detectors rt m)) \<ge> pc_ParallelThreshold (dm_perfCfg m) \<and> body \<noteq> ''''")
    case True
    then have "mset found = mset ?all"
      by (simp add: found_def detect_parallel_def assms all_results_def)
    then show ?thesis by (metis mset_empty_list set_mset_mset subset_refl)
  next
    case False
    then have f: "found = detect_sequential (pc_EnableDetectionShortCircuit (dm_perfCfg m)) (dm_observed m) ?act ?run
        query (request_decoded rt query) (request_detectors rt m) []"
      by (auto simp: found_def)
    have "set found \<subseteq> set ?all"
      using sequential_prefix[of "[]" ?run query "request_decoded rt query" ?act "request_detectors rt m"
          "pc_EnableDetectionShortCircuit (dm_perfCfg m)" "dm_observed m"]
      unfolding f all_results_def by (metis append_Nil set_append sup_ge1)
    then show ?thesis
      unfolding f sequential_empty by (simp add: all_results_def)
  qed
  ultimately show thesis using that by blast
qed

definition finds_something :: "runtime \<Rightarrow> det_manager \<Rightarrow> string \<Rightarrow> string \<Rightarrow> string \<Rightarrow> string \<Rightarrow> headers \<Rightarrow> bool" where
  "finds_something rt m meth path query body headers =
     (list_ex (\<lambda>det. is_active (dm_enabled m) (request_risks rt path query body headers) det \<and>
          (di_fn det meth path query body headers \<noteq> None \<or>
           (request_decoded rt query \<noteq> '''' \<and>
            di_fn det meth path (request_decoded rt query) body headers \<noteq> None)))
        (request_detectors rt m) \<or>
      (has_risk (request_risks rt path query body headers) riskSQL \<and>
       sa_IsLikelyInjection (analyze_sql_injection (rt_compile rt) (request_combined path query body headers))))"

lemma all_results_empty:
  "all_results rt m meth path query body headers = [] \<longleftrightarrow>
     \<not> list_ex (\<lambda>det. is_active (dm_enabled m) (request_risks rt path query body headers) det \<and>
          (di_fn det meth path query body headers \<noteq> None \<or>
           (request_decoded rt query \<noteq> '''' \<and>
            di_fn det meth path (request_decoded rt query) body headers \<noteq> None)))
        (request_detectors rt m)"
proof -
  have g: "goroutine_results (call_request meth path body headers) query dq det = [] \<longleftrightarrow>
      \<not> (di_fn det meth path query body headers \<noteq> None \<or>
         (dq \<noteq> '''' \<and> di_fn det meth path dq body headers \<noteq> None))" for dq det
    by (auto simp: goroutine_results_def call_request_def split: option.split)
  show ?thesis
    unfolding all_results_def concat_eq_Nil_conv list_ex_iff using g by fastforce
qed

lemma mk_result_fields [simp]:
  "dr_Detected (mk_result name suffix conf hit)" "dr_AttackType (mk_result name suffix conf hit) = name"
  "dr_Confidence (mk_result name suffix conf hit) = conf"
  "dr_Location (mk_result name suffix conf hit) = fst (snd hit) @ suffix"
  by (simp_all add: mk_result_def split: prod.split)

lemma goroutine_mem:
  assumes "r \<in> set (goroutine_results run query dq det)"
  obtains suffix hit q where "r = mk_result (di_name det) suffix (7 / 10) hit" "run det q = Some hit"
  using assms that
  by (cases "run det query"; cases "run det dq") (auto simp: goroutine_results_def split: if_splits)

lemma all_results_mem:
  assumes "r \<in> set (all_results rt m meth path query body headers)"
  obtains det suffix hit q where "det \<in> set (request_detectors rt m)"
    "is_active (dm_enabled m) (request_risks rt path query body headers) det"
    "r = mk_result (di_name det) suffix (7 / 10) hit" "di_fn det meth path q body headers = Some hit"
  using assms that unfolding all_results_def call_request_def
  by (fastforce elim: goroutine_mem)

lemma all_results_detected: "r \<in> set (all_results rt m meth path query body headers) \<Longrightarrow> dr_Detected r"
  by (metis all_results_mem mk_result_fields(1))

lemma syntax_results_fields:
  "r \<in> set (syntax_results compile risks s) \<Longrightarrow>
     dr_Detected r \<and> dr_AttackType r = ''sql_injection'' \<and> dr_Location r = ''syntax''"
  by (auto simp: syntax_results_def Let_def split: if_splits)

lemma syntax_results_empty:
  "syntax_results compile risks s = [] \<longleftrightarrow>
     \<not> (has_risk risks riskSQL \<and> sa_IsLikelyInjection (analyze_sql_injection compile s))"
  by (simp add: syntax_results_def Let_def)

text \<open>
  The verdict on a request. Whatever the settings of the short circuit and of the parallel run,
  and whatever the order of delivery, a request is reported exactly when an enabled detector
  that the pre-screen lets through finds something, in the request as it is or with its decoded
  query, or the syntax analyser does.
\<close>

theorem verdict_exact:
  assumes "\<And>rs. mset (rt_arrive rt rs) = mset rs"
  shows "has_attack (detect_uncached rt m meth path query body headers) \<longleftrightarrow>
    finds_something rt m meth path query body headers"
proof -
  obtain found where d: "detect_uncached rt m meth path query body headers =
       adjust_confidence (found @ syntax_results (rt_compile rt) (request_risks rt path query body headers)
         (request_combined path query body headers))"
    and sub: "set found \<subseteq> set (all_results rt m meth path query body headers)"
    and e: "found = [] \<longleftrightarrow> all_results rt m meth path query body headers = []"
    using uncached_shape[OF assms] by blast
  have "dr_Detected r" if "r \<in> set (detect_uncached rt m meth path query body headers)" for r
    using adjust_fields[OF that[unfolded d]] sub all_results_detected syntax_results_fields
    by (metis UnE set_append subsetD)
  then have "has_attack (detect_uncached rt m meth path query body headers) \<longleftrightarrow>
      detect_uncached rt m meth path query body headers \<noteq> []"
    by (auto simp: has_attack_def list_ex_iff) (metis hd_in_set)
  also have "\<dots> \<longleftrightarrow> finds_something rt m meth path query body headers"
    unfolding d adjust_empty append_is_Nil_conv e all_results_empty syntax_results_empty finds_something_def
    by blast
  finally show ?thesis .
qed

definition sample_runtime :: runtime where
  "sample_runtime =
     \<lparr>rt_compile = (\<lambda>p. Some \<lparr>re_string = p, re_match = \<lambda>s. str_contains s p, re_find = \<lambda>s. if str_contains s p then p else ''''\<rparr>),
      rt_html = \<lambda>s. s, rt_enum = \<lambda>vs. vs, rt_arrive = rev, rt_now = 1000, rt_jitter = 0\<rparr>"

definition sample_detectors :: det_manager where
  "sample_detectors =
     (let none = \<lparr>dt_patterns = [], dt_descs = []\<rparr>; d = (\<lambda>p. compile_patterns (rt_compile sample_runtime) [(p, ''d'')]) in
      \<lparr>dm_sql = none, dm_xss = none, dm_cmd = d ''$(id)'', dm_path = none, dm_header = d ''%0d%0a'',
       dm_sensitive = \<lparr>sd_patterns = [], sd_dlpMgr = None, sd_localOnly = [''ssn'']\<rparr>,
       dm_ssrf = none, dm_fileUpload = none, dm_errorLeak = none, dm_smuggling = none, dm_xxe = none,
       dm_nosql = d ''$ne'', dm_ssti = none, dm_ipReputation = new_ip_reputation,
       dm_enabled = (\<lambda>k. Some True), dm_observed = Map.empty, dm_cache = None,
       dm_perfCfg = default_perf_config\<rparr>)"

lemma sample_fields [simp]:
  "dm_enabled sample_detectors = (\<lambda>k. Some True)"
  "dm_nosql sample_detectors = compile_patterns (rt_compile sample_runtime) [(''$ne'', ''d'')]"
  "dm_cmd sample_detectors = compile_patterns (rt_compile sample_runtime) [(''$(id)'', ''d'')]"
  "dm_header sample_detectors = compile_patterns (rt_compile sample_runtime) [(''%0d%0a'', ''d'')]"
  by (simp_all add: sample_detectors_def Let_def)

lemma finds_somethingI:
  "det \<in> set (request_detectors rt m) \<Longrightarrow>
   is_active (dm_enabled m) (request_risks rt path query body headers) det \<Longrightarrow>
   di_fn det meth path query body headers \<noteq> None \<Longrightarrow> finds_something rt m meth path query body headers"
  by (auto simp: finds_something_def list_ex_iff)

lemma verdict_exact_witness:
  "has_attack (detect_uncached sample_runtime sample_detectors ''GET'' ''/a'' ''k[$ne]=1'' '''' no_headers)"
proof -
  let ?det = "\<lparr>di_name = ''nosql'', di_fn = nosql_detect_request (dm_nosql sample_detectors),
    di_requiredRisk = 0, di_alwaysScan = True\<rparr>"
  have "nosql_detect_request (compile_patterns (rt_compile sample_runtime) [(''$ne'', ''d'')])
      ''GET'' ''/a'' ''k[$ne]=1'' '''' no_headers \<noteq> None"
    by code_simp
  then have "finds_something sample_runtime sample_detectors ''GET'' ''/a'' ''k[$ne]=1'' '''' no_headers"
    by (intro finds_somethingI[of ?det]) (simp_all add: request_detectors_def is_active_def map_get_def)
  then show ?thesis
    using verdict_exact[of sample_runtime sample_detectors] by (simp add: sample_runtime_def)
qed

subsection \<open>What the pre-screen and the switches leave out\<close>

lemma result_origin:
  assumes "\<And>rs. mset (rt_arrive rt rs) = mset rs"
    and "r \<in> set (detect_uncached rt m meth path query body headers)"
  obtains (detector) det where "det \<in> set (request_detectors rt m)" "di_name det = dr_AttackType r"
      "is_active (dm_enabled m) (request_risks rt path query body headers) det"
  | (analyser) "dr_AttackType r = ''sql_injection''" "dr_Location r = ''syntax''"
      "has_risk (request_risks rt path query body headers) riskSQL"
      "sa_IsLikelyInjection (analyze_sql_injection (rt_compile rt) (request_combined path query body headers))"
proof -
  let ?syn = "syntax_results (rt_compile rt) (request_risks rt path query body headers)
    (request_combined path query body headers)"
  obtain found where d: "detect_uncached rt m meth path query body headers = adjust_confidence (found @ ?syn)"
    and sub: "set found \<subseteq> set (all_results rt m meth path query body headers)"
    using uncached_shape[OF assms(1)] by blast
  obtain r' where r': "r' \<in> set found \<or> r' \<in> set ?syn" "dr_AttackType r = dr_AttackType r'"
      "dr_Location r = dr_Location r'"
    using adjust_fields[OF assms(2)[unfolded d]] by auto
  then consider "r' \<in> set (all_results rt m meth path query body headers)" | "r' \<in> set ?syn"
    using sub by blast
  then show thesis
  proof cases
    case 1
    then show thesis using detector r'(2) by (metis all_results_mem mk_result_fields(2))
  next
    case 2
    moreover from 2 have "?syn \<noteq> []" by auto
    ultimately show thesis
      using analyser r' syntax_results_fields syntax_results_empty by metis
  qed
qed

lemma request_risks_eq:
  "has_risk (request_risks rt path query body headers) r \<longleftrightarrow>
   has_risk (pre_screen_risk_chars (request_combined path query body headers)
               (to_lower (request_combined path query body headers))) r"
proof -
  have "di_lowerCombined (build_detection_input enum path query body headers) =
      to_lower (di_combined (build_detection_input enum path query body headers))" for enum
    by (simp add: build_detection_input_def Let_def split: prod.split)
  then show ?thesis
    by (simp add: request_risks_def Let_def request_combined_eq)
qed

lemma risk_chars:
  "has_risk (request_risks rt path query body headers) riskCMD \<longleftrightarrow>
     contains_any (request_combined path query body headers) ('';|$&<>'' @ [CHR 0x60, CHR 0x0A])"
  "has_risk (request_risks rt path query body headers) riskHeader \<longleftrightarrow>
     contains_any (request_combined path query body headers) [CHR 0x0D, CHR 0x0A]"
  unfolding request_risks_eq pre_screen_flags pre_screen_loop_flags risk_bits char_risk_cases
    contains_any_iff dot_dot_def by auto

lemma detector_risk:
  assumes "det \<in> set (request_detectors rt m)" "is_active enabled risks det"
  shows "di_name det = ''command_injection'' \<Longrightarrow> has_risk risks riskCMD"
    "di_name det = ''header_injection'' \<Longrightarrow> has_risk risks riskHeader"
  using assms by (auto simp: request_detectors_def is_active_def split: if_splits)

definition reported_types ::
  "runtime \<Rightarrow> det_manager \<Rightarrow> string \<Rightarrow> string \<Rightarrow> string \<Rightarrow> string \<Rightarrow> headers \<Rightarrow> string set" where
  "reported_types rt m meth path query body headers =
     dr_AttackType ` set (detect_uncached rt m meth path query body headers)"

text \<open>
  The pre-screen looks at the request as it was sent, not at its decoded query. So when the
  characters of a shell command occur in the query percent-encoded only, no command injection is
  ever reported, whatever the detector finds in the decoded query; and header injection is
  reported only for a raw carriage return or line feed, although its patterns look for \<open>%0d%0a\<close>.
\<close>

theorem prescreen_loses:
  assumes "\<And>rs. mset (rt_arrive rt rs) = mset rs"
  shows "(''command_injection'' \<in> reported_types rt m meth path query body headers \<longrightarrow>
            contains_any (request_combined path query body headers) ('';|$&<>'' @ [CHR 0x60, CHR 0x0A])) \<and>
         (''header_injection'' \<in> reported_types rt m meth path query body headers \<longrightarrow>
            contains_any (request_combined path query body headers) [CHR 0x0D, CHR 0x0A])"
proof -
  have "has_risk (request_risks rt path query body headers) riskCMD"
    if r: "r \<in> set (detect_uncached rt m meth path query body headers)" "''command_injection'' = dr_AttackType r" for r
    using assms r(1)
  proof (rule result_origin)
    fix det assume "det \<in> set (request_detectors rt m)" "di_name det = dr_AttackType r"
      "is_active (dm_enabled m) (request_risks rt path query body headers) det"
    then show ?thesis using detector_risk(1) r(2) by metis
  qed (simp flip: r(2))
  moreover have "has_risk (request_risks rt path query body headers) riskHeader"
    if r: "r \<in> set (detect_uncached rt m meth path query body headers)" "''header_injection'' = dr_AttackType r" for r
    using assms r(1)
  proof (rule result_origin)
    fix det assume "det \<in> set (request_detectors rt m)" "di_name det = dr_AttackType r"
      "is_active (dm_enabled m) (request_risks rt path query body headers) det"
    then show ?thesis using detector_risk(2) r(2) by metis
  qed (simp flip: r(2))
  ultimately show ?thesis
    unfolding reported_types_def risk_chars image_iff by blast
qed

lemma prescreen_loses_witness:
  "cmd_detect_request (dm_cmd sample_detectors) ''GET'' ''/a''
     (request_decoded sample_runtime ''a=%24%28id%29'') '''' no_headers \<noteq> None \<and>
   ''command_injection'' \<notin>
     reported_types sample_runtime sample_detectors ''GET'' ''/a'' ''a=%24%28id%29'' '''' no_headers \<and>
   header_detect_request (dm_header sample_detectors) ''GET'' ''/a'' ''a=%0d%0ab'' '''' no_headers \<noteq> None \<and>
   ''header_injection'' \<notin>
     reported_types sample_runtime sample_detectors ''GET'' ''/a'' ''a=%0d%0ab'' '''' no_headers"
proof (intro conjI)
  have perm: "mset (rt_arrive sample_runtime rs) = mset rs" for rs
    by (simp add: sample_runtime_def)
  note loses = prescreen_loses[where rt = sample_runtime and m = sample_detectors, OF perm]
  have c: "\<not> contains_any (request_combined ''/a'' ''a=%24%28id%29'' '''' no_headers) ('';|$&<>'' @ [CHR 0x60, CHR 0x0A])"
    "\<not> contains_any (request_combined ''/a'' ''a=%0d%0ab'' '''' no_headers) [CHR 0x0D, CHR 0x0A]"
    by (simp_all add: request_combined_def no_headers_def contains_any_def)
  show "''command_injection'' \<notin>
     reported_types sample_runtime sample_detectors ''GET'' ''/a'' ''a=%24%28id%29'' '''' no_headers"
    using c(1) loses[of "''GET''" "''/a''" "''a=%24%28id%29''" "''''" no_headers] by (simp only: simp_thms)
  show "''header_injection'' \<notin>
     reported_types sample_runtime sample_detectors ''GET'' ''/a'' ''a=%0d%0ab'' '''' no_headers"
    using c(2) loses[of "''GET''" "''/a''" "''a=%0d%0ab''" "''''" no_headers] by (simp only: simp_thms)
  have "request_decoded sample_runtime ''a=%24%28id%29'' = ''a=$(id)&''"
    by code_simp
  moreover have "cmd_detect_request (compile_patterns (rt_compile sample_runtime) [(''$(id)'', ''d'')]) ''GET'' ''/a''
      ''a=$(id)&'' '''' no_headers \<noteq> None"
    by code_simp
  ultimately show "cmd_detect_request (dm_cmd sample_detectors) ''GET'' ''/a''
     (request_decoded sample_runtime ''a=%24%28id%29'') '''' no_headers \<noteq> None"
    by simp
  have "header_detect_request (compile_patterns (rt_compile sample_runtime) [(''%0d%0a'', ''d'')]) ''GET'' ''/a''
      ''a=%0d%0ab'' '''' no_headers \<noteq> None"
    by code_simp
  then show "header_detect_request (dm_header sample_detectors) ''GET'' ''/a'' ''a=%0d%0ab'' '''' no_headers \<noteq> None"
    by simp
qed

text \<open>
  The switch of a detector. A type whose detector is switched off is reported only by the syntax
  analyser, which no switch controls: SQL injection is still reported, exactly when the analyser
  finds it likely.
\<close>

theorem disabled_detector:
  assumes "\<And>rs. mset (rt_arrive rt rs) = mset rs"
    and "\<not> is_detector_enabled dt m"
  shows "dt \<in> reported_types rt m meth path query body headers \<longleftrightarrow>
    dt = ''sql_injection'' \<and> has_risk (request_risks rt path query body headers) riskSQL \<and>
    sa_IsLikelyInjection (analyze_sql_injection (rt_compile rt) (request_combined path query body headers))"
    (is "_ \<longleftrightarrow> ?syn")
proof
  assume "dt \<in> reported_types rt m meth path query body headers"
  then obtain r where r: "r \<in> set (detect_uncached rt m meth path query body headers)" "dt = dr_AttackType r"
    by (auto simp: reported_types_def)
  show ?syn
    using assms(1) r(1)
  proof (rule result_origin)
    fix det assume d: "di_name det = dr_AttackType r"
      "is_active (dm_enabled m) (request_risks rt path query body headers) det"
    then have "is_detector_enabled dt m"
      using r(2) by (auto simp: is_detector_enabled_def is_active_def split: if_splits)
    then show ?syn using assms(2) by simp
  qed (simp add: r(2))
next
  assume s: ?syn
  obtain found where d: "detect_uncached rt m meth path query body headers =
       adjust_confidence (found @ syntax_results (rt_compile rt) (request_risks rt path query body headers)
         (request_combined path query body headers))"
    using uncached_shape[OF assms(1)] by blast
  have "dr_AttackType ` set (adjust_confidence rs) = dr_AttackType ` set rs" for rs
    by (auto simp: adjust_confidence_def image_iff)
  moreover have "dt \<in> dr_AttackType ` set (syntax_results (rt_compile rt)
      (request_risks rt path query body headers) (request_combined path query body headers))"
    using s by (simp add: syntax_results_def Let_def)
  ultimately show "dt \<in> reported_types rt m meth path query body headers"
    by (auto simp: reported_types_def d)
qed

lemma disabled_detector_witness:
  "''ssti'' \<notin> reported_types sample_runtime (enable_detector ''ssti'' False sample_detectors)
     ''GET'' ''/a'' ''q={{7*7}}'' '''' no_headers"
proof -
  have "mset (rt_arrive sample_runtime rs) = mset rs" for rs
    by (simp add: sample_runtime_def)
  moreover have "\<not> is_detector_enabled ''ssti'' (enable_detector ''ssti'' False sample_detectors)"
    by (simp add: is_detector_enabled_def enable_detector_def)
  ultimately show ?thesis
    using disabled_detector by fastforce
qed

subsection \<open>The score\<close>

lemma aggregate_loop_mono: "acc \<le> aggregate_loop seen acc rs"
proof (induction rs arbitrary: seen acc)
  case (Cons r rs)
  have "acc \<le> acc + x" if "0 \<le> x" for x :: real using that by simp
  then show ?case
    using Cons by (auto simp: Let_def intro!: order_trans[OF _ Cons])
qed simp

lemma aggregate_loop_pos: "list_ex dr_Detected rs \<Longrightarrow> acc < aggregate_loop seen acc rs"
proof (induction rs arbitrary: seen acc)
  case (Cons r rs)
  show ?case
  proof (cases "dr_Detected r")
    case True
    then show ?thesis
      by (auto simp: Let_def intro!: less_le_trans[OF _ aggregate_loop_mono])
  next
    case False
    then show ?thesis using Cons by simp
  qed
qed simp

lemma aggregate_loop_none: "\<not> list_ex dr_Detected rs \<Longrightarrow> aggregate_loop seen acc rs = acc"
  by (induction rs arbitrary: seen acc) auto

text \<open>
  The aggregate score of a list of results lies between 0 and 1, whatever the confidences, and is
  positive exactly when there is an attack; with the confidences the manager gives, two results
  of different types already reach 1.
\<close>

theorem aggregate_score_bounds:
  "0 \<le> aggregate_score rs \<and> aggregate_score rs \<le> 1 \<and> (0 < aggregate_score rs \<longleftrightarrow> has_attack rs)"
proof (cases "list_ex dr_Detected rs")
  case True
  moreover from True have "rs \<noteq> []" by auto
  ultimately show ?thesis
    using aggregate_loop_pos[OF True, of 0 "[]"] by (simp add: aggregate_score_def has_attack_def Let_def)
next
  case False
  then show ?thesis by (simp add: aggregate_score_def aggregate_loop_none has_attack_def)
qed

subsection \<open>Headers that are never looked at\<close>

lemma non_canonical:
  "canonical_key ''X-Real-IP'' \<noteq> ''X-Real-IP''" "canonical_key ''X-Original-URL'' \<noteq> ''X-Original-URL''"
  "canonical_key ''X-Rewrite-URL'' \<noteq> ''X-Rewrite-URL''"
  by code_simp+

lemma header_get_host [simp]: "header_get (server_headers lines) ''Host'' = ''''"
proof -
  have "canonical_key ''Host'' = ''Host''" by code_simp
  then show ?thesis by (simp add: header_get_def header_values_def)
qed

lemma dead_headers [simp]:
  "server_headers lines ''X-Real-IP'' = []" "server_headers lines ''X-Original-URL'' = []"
  "server_headers lines ''X-Rewrite-URL'' = []"
  by (rule server_headers_non_canonical[OF non_canonical(1)] server_headers_non_canonical[OF non_canonical(2)]
      server_headers_non_canonical[OF non_canonical(3)])+

definition inspected_headers :: "string list" where
  "inspected_headers =
     [''X-Forwarded-For'', ''Referer'', ''User-Agent'', ''Origin'', ''Cookie'', ''Set-Cookie'',
      ''Content-Type'', ''Content-Length'', ''Te'', ''X-Forwarded-Host'', ''X-Host'', ''X-Forwarded-Server'']"

lemma canonical_inspected:
  "canonical_key ''X-Forwarded-For'' = ''X-Forwarded-For''" "canonical_key ''Cookie'' = ''Cookie''"
  "canonical_key ''Set-Cookie'' = ''Set-Cookie''"
  by code_simp+

lemma request_detectors_headers:
  assumes "\<forall>k \<in> set inspected_headers. server_headers lines k = server_headers lines' k"
    and "det \<in> set (request_detectors rt m)"
  shows "di_fn det meth path query body (server_headers lines) = di_fn det meth path query body (server_headers lines')"
proof -
  have h: "header_get (server_headers lines) ''X-Forwarded-For'' = header_get (server_headers lines') ''X-Forwarded-For''"
    using assms(1) by (simp add: header_get_def header_values_def canonical_inspected inspected_headers_def)
  have te: "te_values (server_headers lines) = te_values (server_headers lines')"
    using assms(1) by (simp add: te_values_def inspected_headers_def)
  note eqs = assms(1)[unfolded inspected_headers_def, simplified]
  have cl: "check_content_length (server_headers lines) = check_content_length (server_headers lines')"
    "check_cl_te (server_headers lines) = check_cl_te (server_headers lines')" for d
    unfolding check_content_length_def check_cl_te_def te
    by (simp_all only: eqs)
  have e1: "sql_detect_request d meth path query body (server_headers lines) = sql_detect_request d meth path query body (server_headers lines')" for d
    by (simp add: sql_detect_request_def scan_headers_def h te eqs)
  have e2: "xss_detect_request ht d meth path query body (server_headers lines) = xss_detect_request ht d meth path query body (server_headers lines')" for ht d
    by (simp add: xss_detect_request_def scan_headers_def h te eqs)
  have e3: "cmd_detect_request d meth path query body (server_headers lines) = cmd_detect_request d meth path query body (server_headers lines')" for d
    by (simp add: cmd_detect_request_def scan_headers_def h te eqs)
  have e4: "path_detect_request d meth path query body (server_headers lines) = path_detect_request d meth path query body (server_headers lines')" for d
    by (simp add: path_detect_request_def scan_headers_def h te eqs)
  have e5: "header_detect_request d meth path query body (server_headers lines) = header_detect_request d meth path query body (server_headers lines')" for d
    by (simp add: header_detect_request_def scan_headers_def h te eqs)
  have e6: "ssrf_detect_request d meth path query body (server_headers lines) = ssrf_detect_request d meth path query body (server_headers lines')" for d
    by (simp add: ssrf_detect_request_def scan_headers_def h te eqs)
  have e7: "file_detect_request d meth path query body (server_headers lines) = file_detect_request d meth path query body (server_headers lines')" for d
    by (simp add: file_detect_request_def scan_headers_def h te eqs)
  have e8: "sensitive_detect_request sd meth path query body (server_headers lines) = sensitive_detect_request sd meth path query body (server_headers lines')" for sd
    by (simp add: sensitive_detect_request_def scan_headers_def h te eqs)
  have e9: "smuggling_detect_request d meth path query body (server_headers lines) = smuggling_detect_request d meth path query body (server_headers lines')" for d
    by (simp add: smuggling_detect_request_def check_transfer_encoding_def te cl)
  have e10: "xxe_detect_request d meth path query body (server_headers lines) = xxe_detect_request d meth path query body (server_headers lines')" for d
    by (simp add: xxe_detect_request_def scan_headers_def h te eqs)
  have e11: "nosql_detect_request d meth path query body (server_headers lines) = nosql_detect_request d meth path query body (server_headers lines')" for d
    by (simp add: nosql_detect_request_def scan_headers_def h te eqs)
  have e12: "ssti_detect_request d meth path query body (server_headers lines) = ssti_detect_request d meth path query body (server_headers lines')" for d
    by (simp add: ssti_detect_request_def scan_headers_def h te eqs)
  show ?thesis
    using assms(2) unfolding request_detectors_def
    by (auto simp: e1 e2 e3 e4 e5 e6 e7 e8 e9 e10 e11 e12)
qed

text \<open>
  On the header map a Go server gives, keys are canonical (\<open>X-Real-Ip\<close>, \<open>X-Original-Url\<close>),
  \<open>Host\<close> is absent and \<open>Transfer-Encoding\<close> consumed. The detectors index the map with
  \<open>X-Real-IP\<close>, \<open>X-Original-URL\<close> and \<open>X-Rewrite-URL\<close> and look for \<open>Host\<close> and
  \<open>Transfer-Encoding\<close>, so the results depend on twelve headers only and on none of these: an attack
  in them is never seen.
\<close>

theorem headers_never_inspected:
  assumes "\<forall>k \<in> set inspected_headers. server_headers lines k = server_headers lines' k"
  shows "detect_uncached rt m meth path query body (server_headers lines) =
         detect_uncached rt m meth path query body (server_headers lines')"
proof -
  have input: "build_detection_input enum path query body (server_headers lines) =
      build_detection_input enum path query body (server_headers lines')" for enum
    using assms by (simp add: build_detection_input_def header_values_def canonical_inspected inspected_headers_def)
  have run: "call_request meth path body (server_headers lines) det q = call_request meth path body (server_headers lines') det q"
    if "det \<in> set (request_detectors rt m)" for det q
    using request_detectors_headers[OF assms that] by (simp add: call_request_def)
  have seq: "detect_sequential short observed active (call_request meth path body (server_headers lines)) query dq dets results =
      detect_sequential short observed active (call_request meth path body (server_headers lines')) query dq dets results"
    if "set dets \<subseteq> set (request_detectors rt m)" for short observed active dq dets results
    using that
  proof (induction dets arbitrary: results)
    case (Cons det dets)
    then have "scan_once short observed (call_request meth path body (server_headers lines)) det q s rs =
        scan_once short observed (call_request meth path body (server_headers lines')) det q s rs" for q s rs
      by (simp add: scan_once_def run)
    moreover have "detect_sequential short observed active (call_request meth path body (server_headers lines)) query dq dets rs =
        detect_sequential short observed active (call_request meth path body (server_headers lines')) query dq dets rs" for rs
      using Cons by simp
    ultimately show ?case by (simp only: detect_sequential.simps)
  qed simp
  have par: "detect_parallel arrive active (call_request meth path body (server_headers lines)) query dq (request_detectors rt m) =
      detect_parallel arrive active (call_request meth path body (server_headers lines')) query dq (request_detectors rt m)"
    for arrive active dq
    unfolding detect_parallel_def goroutine_results_def
    by (intro arg_cong[where f = arrive] arg_cong[where f = concat] map_cong) (auto simp: run)
  show ?thesis
    unfolding detect_uncached_def input Let_def par seq[OF subset_refl] by (rule refl)
qed

lemma headers_never_inspected_witness:
  "detect_uncached rt m ''GET'' ''/a'' '''' '''' (server_headers [(''X-Original-URL'', ''/../../etc/passwd''), (''Host'', ''localhost'')]) =
   detect_uncached rt m ''GET'' ''/a'' '''' '''' (server_headers [])"
proof -
  have "canonical_key ''X-Original-URL'' = ''X-Original-Url''" "canonical_key ''Host'' = ''Host''"
    by code_simp+
  then have "\<forall>k \<in> set inspected_headers.
      server_headers [(''X-Original-URL'', ''/../../etc/passwd''), (''Host'', ''localhost'')] k = server_headers [] k"
    by (simp add: inspected_headers_def server_headers_def)
  then show ?thesis by (rule headers_never_inspected)
qed

subsection \<open>The cache\<close>

lemma keyLen_frame [simp]:
  "dc_keyLen (remove_entry a c) = dc_keyLen c" "dc_keyLen (add_to_head a c) = dc_keyLen c"
  "dc_keyLen (move_to_head a c) = dc_keyLen c" "dc_keyLen (delete_key k c) = dc_keyLen c"
  "dc_keyLen (set_entry r t a c) = dc_keyLen c" "dc_keyLen (evict_tail c) = dc_keyLen c"
  "dc_keyLen (new_entry k r t c) = dc_keyLen c"
proof -
  show r: "dc_keyLen (remove_entry a c) = dc_keyLen c" and a: "dc_keyLen (add_to_head a c) = dc_keyLen c" for a and c :: "'a detection_cache"
    by (auto simp: remove_entry_def add_to_head_def Let_def split: option.split)
  show "dc_keyLen (delete_key k c) = dc_keyLen c" and "dc_keyLen (set_entry r t a c) = dc_keyLen c"
    by (simp_all add: delete_key_def set_entry_def)
  then show "dc_keyLen (move_to_head a c) = dc_keyLen c" "dc_keyLen (evict_tail c) = dc_keyLen c"
    "dc_keyLen (new_entry k r t c) = dc_keyLen c"
    using r a by (auto simp: move_to_head_def evict_tail_def new_entry_def delete_key_def split: option.split)
qed

lemma keyLen_get_put:
  "dc_keyLen (snd (cache_get now k c)) = dc_keyLen c" "dc_keyLen (cache_put now jitter k r c) = dc_keyLen c"
  by (auto simp: cache_get_def cache_put_def Let_def split: option.split)

lemma cache_entry_after_miss:
  assumes c: "cache_is c []" "0 < dc_capacity c" and now: "now' \<le> now + (dc_ttl c + jitter)"
  shows "fst (cache_get now key c) = None \<and>
    fst (cache_get now' key (cache_put now jitter key r (snd (cache_get now key c)))) = Some r"
proof -
  have g: "fst (cache_get now key c) = None" "cache_is (snd (cache_get now key c)) []"
    using cache_get_refines[OF c(1), of now key] by (simp_all add: lru_get_def)
  have f: "dc_capacity (snd (cache_get now key c)) = dc_capacity c" "dc_ttl (snd (cache_get now key c)) = dc_ttl c"
    by (auto simp: cache_get_def delete_key_def split: option.split)
  show ?thesis
    using g(1) cache_get_refines[OF cache_put_refines[OF g(2)], where now = now'] c(2) now f
    by (simp add: lru_put_def lru_get_def)
qed

text \<open>
  The cache of results. With a cache just set up, the answer to a request is given, until it
  expires, to every request with the same method whose path, query and body begin with the same
  \<open>keyLen\<close> bytes, whatever its headers are and whatever follows: an attack behind these bytes, or
  in a header, gets the verdict of the harmless request that came first.
\<close>

theorem cache_answers_prefix:
  fixes cfg :: perf_config and m :: det_manager
  defines "m0 \<equiv> set_perf_config cfg m"
    and "n \<equiv> (if pc_DetectionCacheKeyLen cfg \<le> 0 then 128 else nat (pc_DetectionCacheKeyLen cfg))"
    and "ttl \<equiv> (if pc_DetectionCacheTTL cfg \<le> 0 then 60 * nano_second else pc_DetectionCacheTTL cfg)"
  assumes "pc_EnableDetectionCache cfg" "dm_cache m = None"
    and "take n path' = take n path" "take n query' = take n query" "take n body' = take n body"
    and "rt_now rt' \<le> rt_now rt + (ttl + rt_jitter rt)"
  shows "fst (detect_with_detectors rt' meth path' query' body' headers'
            (snd (detect_with_detectors rt meth path query body headers m0))) =
         detect_uncached rt m0 meth path query body headers"
proof -
  define c where "c = (new_detection_cache (pc_DetectionCacheSize cfg) (pc_DetectionCacheTTL cfg)
    (pc_DetectionCacheKeyLen cfg) :: detection_result list detection_cache)"
  have c: "cache_is c []" "0 < dc_capacity c" "dc_ttl c = ttl" "nat (dc_keyLen c) = n" "0 \<le> dc_keyLen c"
    by (simp_all add: c_def ttl_def n_def) (simp_all add: new_detection_cache_def)
  have m0: "pc_EnableDetectionCache (dm_perfCfg m0)" "dm_cache m0 = Some c"
    using assms(4,5) by (simp_all add: m0_def set_perf_config_def c_def Let_def)
  let ?key = "compute_cache_key c meth path query body"
  let ?r = "detect_uncached rt m0 meth path query body headers"
  define c1 where "c1 = cache_put (rt_now rt) (rt_jitter rt) ?key ?r (snd (cache_get (rt_now rt) ?key c))"
  have e: "fst (cache_get (rt_now rt) ?key c) = None" "fst (cache_get (rt_now rt') ?key c1) = Some ?r"
    using cache_entry_after_miss[OF c(1,2)] assms(9) by (simp_all add: c(3) c1_def)
  have first: "snd (detect_with_detectors rt meth path query body headers m0) = m0\<lparr>dm_cache := Some c1\<rparr>"
    using e(1) m0
    by (cases "cache_get (rt_now rt) ?key c") (simp add: detect_with_detectors_def c1_def Let_def)
  have kl: "dc_keyLen c1 = dc_keyLen c"
    by (simp add: c1_def keyLen_get_put)
  have "compute_cache_key c1 meth path' query' body' = ?key"
    using cache_key_prefix[of c path' path query' query body' body meth] c(4,5) assms(6-8)
    by (simp add: compute_cache_key_def kl)
  then show ?thesis
    unfolding first using e(2) m0(1)
    by (cases "cache_get (rt_now rt') ?key c1") (simp add: detect_with_detectors_def Let_def)
qed

lemma cache_answers_prefix_witness:
  "let cfg = default_perf_config\<lparr>pc_EnableDetectionCache := True, pc_DetectionCacheKeyLen := 2\<rparr>;
       m0 = set_perf_config cfg sample_detectors;
       m1 = snd (detect_with_detectors sample_runtime ''GET'' ''/a'' '''' '''' no_headers m0)
   in fst (detect_with_detectors sample_runtime ''GET'' ''/a/../../etc/passwd'' '''' '''' no_headers m1) =
      detect_uncached sample_runtime m0 ''GET'' ''/a'' '''' '''' no_headers"
proof -
  have "dm_cache sample_detectors = None"
    by (simp add: sample_detectors_def Let_def)
  then show ?thesis
    unfolding Let_def
    by (intro cache_answers_prefix) (simp_all add: default_perf_config_def sample_runtime_def)
qed

end
