(* ===== verification/DetectorLoad.thy ===== *)
theory DetectorLoad
  imports DetectorManager
begin

text \<open>
  The detection rules from the tables to the detectors: what \<open>NewConfigManager\<close> leaves in the
  database (\<open>config.go\<close>) and what \<open>LoadAllRulesFromDB\<close> makes of it (\<open>manager.go\<close>).
\<close>

subsection \<open>The built-in rules\<close>

definition rule_keys :: "detection_rule sql_table \<Rightarrow> (string \<times> string) set" where
  "rule_keys t = rule_key ` set (t_rows t)"

lemma rule_key_mk [simp]: "rule_key (mk_rule dt rule_type p desc rid) = (dt, p)"
  by (simp add: rule_key_def mk_rule_def)

lemma insert_ignore_keys:
  "rule_keys (sql_insert_ignore rule_key (mk_rule dt rule_type p desc) t) = insert (dt, p) (rule_keys t)"
  by (auto simp: sql_insert_ignore_def sql_insert_def Let_def list_ex_iff rule_keys_def image_iff)
    (metis+)?

lemma insert_ignore_present:
  "(dt, p) \<in> rule_keys t \<Longrightarrow> sql_insert_ignore rule_key (mk_rule dt rule_type p desc) t = t"
  by (auto simp: sql_insert_ignore_def sql_insert_def Let_def list_ex_iff rule_keys_def)

lemma insert_builtin_simps:
  "insert_builtin_rules dt [] t = t"
  "insert_builtin_rules dt ((p, desc) # entries) t =
     insert_builtin_rules dt entries (sql_insert_ignore rule_key (mk_rule dt ''builtin'' p desc) t)"
  by (simp_all add: insert_builtin_rules_def)

lemma insert_builtin_keys:
  "rule_keys (insert_builtin_rules dt entries t) = rule_keys t \<union> Pair dt ` fst ` set entries"
proof (induction entries arbitrary: t)
  case (Cons e entries)
  then show ?case by (cases e) (simp add: insert_builtin_simps insert_ignore_keys)
qed (simp add: insert_builtin_simps)

lemma insert_builtin_noop:
  "Pair dt ` fst ` set entries \<subseteq> rule_keys t \<Longrightarrow> insert_builtin_rules dt entries t = t"
proof (induction entries)
  case (Cons e entries)
  then show ?case by (cases e) (simp add: insert_builtin_simps insert_ignore_present)
qed (simp add: insert_builtin_simps)

definition table_keys :: "(string \<times> (string \<times> string) list) list \<Rightarrow> (string \<times> string) set" where
  "table_keys tables = (\<Union>(dt, entries) \<in> set tables. Pair dt ` fst ` set entries)"

lemma insert_tables_keys:
  "rule_keys (foldl (\<lambda>t (dt, entries). insert_builtin_rules dt entries t) t tables) = rule_keys t \<union> table_keys tables"
proof (induction tables arbitrary: t)
  case (Cons e tables)
  then show ?case by (cases e) (simp add: table_keys_def insert_builtin_keys Un_assoc)
qed (simp add: table_keys_def)

lemma insert_tables_noop:
  "table_keys tables \<subseteq> rule_keys t \<Longrightarrow>
   foldl (\<lambda>t (dt, entries). insert_builtin_rules dt entries t) t tables = t"
proof (induction tables)
  case (Cons e tables)
  then show ?case by (cases e) (simp add: table_keys_def insert_builtin_noop)
qed simp

definition builtin_rules_of :: "config_db \<Rightarrow> detection_rule list" where
  "builtin_rules_of d = filter (\<lambda>r. ru_rule_type r = ''builtin'') (t_rows (cf_rules d))"

text \<open>
  The built-in detection rules. Every start puts every built-in pattern into the table, unless a
  rule of that detector with the same pattern is there, and a second start changes nothing;
  \<open>RemoveRule\<close> never removes or changes a built-in rule, and reports an error for its id.
\<close>

theorem builtin_rules_kept:
  "rule_key ` set (t_rows (cf_rules (init_builtin_detection_rules d))) =
     rule_key ` set (t_rows (cf_rules d)) \<union>
     {(dt, p). \<exists>entries desc. (dt, entries) \<in> set builtin_tables \<and> (p, desc) \<in> set entries} \<and>
   init_builtin_detection_rules (init_builtin_detection_rules d) = init_builtin_detection_rules d \<and>
   builtin_rules_of (snd (remove_rule rid d)) = builtin_rules_of d \<and>
   (\<not> list_ex (\<lambda>r. ru_id r = rid \<and> ru_rule_type r = ''custom'') (t_rows (cf_rules d)) \<longrightarrow>
      remove_rule rid d = (Inl (custom_not_found rid), d))"
proof (intro conjI impI)
  have keys: "rule_keys (cf_rules (init_builtin_detection_rules d)) = rule_keys (cf_rules d) \<union> table_keys builtin_tables"
    by (simp add: init_builtin_detection_rules_def insert_tables_keys)
  have "table_keys builtin_tables =
      {(dt, p). \<exists>entries desc. (dt, entries) \<in> set builtin_tables \<and> (p, desc) \<in> set entries}"
    unfolding table_keys_def by force
  with keys show "rule_key ` set (t_rows (cf_rules (init_builtin_detection_rules d))) =
     rule_key ` set (t_rows (cf_rules d)) \<union>
     {(dt, p). \<exists>entries desc. (dt, entries) \<in> set builtin_tables \<and> (p, desc) \<in> set entries}"
    by (simp only: rule_keys_def)
  have "foldl (\<lambda>t (dt, entries). insert_builtin_rules dt entries t)
      (cf_rules (init_builtin_detection_rules d)) builtin_tables = cf_rules (init_builtin_detection_rules d)"
    using keys by (intro insert_tables_noop) simp
  then show "init_builtin_detection_rules (init_builtin_detection_rules d) = init_builtin_detection_rules d"
    unfolding init_builtin_detection_rules_def by simp
  have "filter (\<lambda>r. \<not> is_custom_rule rid r \<and> ru_rule_type r = ''builtin'') rows =
      filter (\<lambda>r. ru_rule_type r = ''builtin'') rows" for rows
    by (rule filter_cong) (auto simp: is_custom_rule_def)
  then show "builtin_rules_of (snd (remove_rule rid d)) = builtin_rules_of d"
    by (auto simp: remove_rule_def builtin_rules_of_def affecting_def sql_delete_def Let_def
        split: option.split sum.split)
  assume "\<not> list_ex (\<lambda>r. ru_id r = rid \<and> ru_rule_type r = ''custom'') (t_rows (cf_rules d))"
  then have "find (is_custom_rule rid) (t_rows (cf_rules d)) = None"
    by (simp add: find_None_iff list_ex_iff is_custom_rule_def)
  then show "remove_rule rid d = (Inl (custom_not_found rid), d)"
    by (simp add: remove_rule_def)
qed

definition empty_config_db :: config_db where
  "empty_config_db = \<lparr>cf_configs = empty_table, cf_rules = empty_table\<rparr>"

lemma builtin_rules_kept_witness:
  "remove_rule 7 empty_config_db = (Inl (custom_not_found 7), empty_config_db)"
  using builtin_rules_kept[of empty_config_db 7] by (simp add: empty_config_db_def empty_table_def)

subsection \<open>The migration of the misspelled name\<close>

definition config_row :: "string \<Rightarrow> config_db \<Rightarrow> detector_row option" where
  "config_row dt d = find (\<lambda>r. cr_detector_type r = dt) (t_rows (cf_configs d))"

lemma has_config_row: "has_config dt d \<longleftrightarrow> config_row dt d \<noteq> None"
  by (auto simp: has_config_def config_row_def find_None_iff list_ex_iff)

lemma find_append: "find P (xs @ ys) = (case find P xs of None \<Rightarrow> find P ys | Some x \<Rightarrow> Some x)"
  by (induction xs) auto

lemma default_step_row:
  "config_row dt (if has_config dt' d then d
       else d\<lparr>cf_configs := sql_insert_ignore cr_detector_type (default_config_row dt' enabled) (cf_configs d)\<rparr>) =
   (case config_row dt d of
      Some r \<Rightarrow> Some r
    | None \<Rightarrow> if dt = dt' then Some (default_config_row dt' enabled (t_next (cf_configs d))) else None)"
proof (cases "has_config dt' d")
  case True
  then show ?thesis by (auto simp: has_config_row split: option.split)
next
  case False
  then have "t_rows (sql_insert_ignore cr_detector_type (default_config_row dt' enabled) (cf_configs d)) =
      t_rows (cf_configs d) @ [default_config_row dt' enabled (t_next (cf_configs d))]"
    by (auto simp: sql_insert_ignore_def sql_insert_def Let_def has_config_def default_config_row_def list_ex_iff)
  then show ?thesis
    using False by (auto simp: config_row_def find_append default_config_row_def split: option.split)
qed

lemma default_fold_row:
  "\<exists>rid. config_row dt (foldl (\<lambda>d (dt', enabled). if has_config dt' d then d
       else d\<lparr>cf_configs := sql_insert_ignore cr_detector_type (default_config_row dt' enabled) (cf_configs d)\<rparr>) d es) =
   (case config_row dt d of
      Some r \<Rightarrow> Some r
    | None \<Rightarrow> map_option (\<lambda>e. default_config_row dt e rid) (map_of es dt))"
proof (induction es arbitrary: d)
  case (Cons e es)
  obtain dt' en where e: "e = (dt', en)" by fastforce
  show ?case
    using Cons[of "if has_config dt' d then d
       else d\<lparr>cf_configs := sql_insert_ignore cr_detector_type (default_config_row dt' en) (cf_configs d)\<rparr>"]
    unfolding e foldl_Cons prod.case default_step_row by (cases "config_row dt d") auto
qed (simp split: option.split)

lemma init_default_row:
  "\<exists>rid. config_row dt (init_default_config d) =
   (case config_row dt d of
      Some r \<Rightarrow> Some r
    | None \<Rightarrow> map_option (\<lambda>e. default_config_row dt e rid) (map_of default_configs dt))"
  unfolding init_default_config_def by (rule default_fold_row)

text \<open>
  The migration of \<open>request_smugging\<close>. \<open>NewConfigManager\<close> inserts the default settings of
  \<open>request_smuggling\<close> before it migrates the row of the old name, so the new name is always
  there and the old row is deleted: an administrator's settings of that detector are lost, and
  it starts enabled, out of observation mode and without whitelists.
\<close>

theorem legacy_settings_lost:
  assumes "has_config old_name d" "\<not> has_config new_name d" "new_config_manager d = Inr d'"
  shows "\<not> has_config old_name d' \<and>
    (\<exists>rid. get_detector_config new_name d' = Some \<lparr>dcf_ID = rid, dcf_DetectorType = new_name,
       dcf_Enabled = True, dcf_ObservationMode = False, dcf_WhitelistIPs = '''', dcf_WhitelistPaths = '''',
       dcf_SensitivityLevel = ''medium''\<rparr>)"
proof -
  let ?d = "init_default_config d"
  have "map_of default_configs new_name = Some True"
    by (simp add: default_configs_def new_name_def)
  then have new: "\<exists>rid. config_row new_name ?d = Some (default_config_row new_name True rid)"
    using assms(2) init_default_row[of new_name d] by (simp add: has_config_row)
  have old: "has_config old_name ?d"
    using assms(1) init_default_row[of old_name d] by (auto simp: has_config_row)
  have m: "migrate_config ?d = ?d\<lparr>cf_configs := fst (sql_delete (\<lambda>r. cr_detector_type r = old_name) (cf_configs ?d))\<rparr>"
    using new old by (auto simp: migrate_config_def has_config_row)
  have ne: "old_name \<noteq> new_name"
    by (simp add: old_name_def new_name_def)
  have "find (\<lambda>r. cr_detector_type r = new_name) (filter (\<lambda>r. cr_detector_type r \<noteq> old_name) rows) =
      find (\<lambda>r. cr_detector_type r = new_name) rows" for rows
    using ne by (induction rows) auto
  then have row: "config_row new_name (migrate_config ?d) = config_row new_name ?d"
    "config_row old_name (migrate_config ?d) = None"
    by (auto simp: m config_row_def sql_delete_def find_None_iff)
  have "cf_configs d' = cf_configs (migrate_config ?d)"
    using assms(3) by (auto simp: new_config_manager_def migrate_legacy_detector_names_def Let_def
        init_builtin_detection_rules_def split: sum.splits)
  then have "config_row dt d' = config_row dt (migrate_config ?d)" for dt
    by (simp add: config_row_def)
  with row new have "config_row old_name d' = None" "\<exists>rid. config_row new_name d' = Some (default_config_row new_name True rid)"
    by simp_all
  moreover have "get_detector_config new_name d' = map_option scan_config (config_row new_name d')"
    by (simp add: get_detector_config_def config_row_def)
  ultimately show ?thesis
    by (auto simp: has_config_row scan_config_def default_config_row_def sql_bool_def)
qed

lemma migrate_keeps_rules: "cf_rules (migrate_config (init_default_config d)) = cf_rules d"
proof -
  have "cf_rules (foldl (\<lambda>d (dt', enabled). if has_config dt' d then d
      else d\<lparr>cf_configs := sql_insert_ignore cr_detector_type (default_config_row dt' enabled) (cf_configs d)\<rparr>) d es) = cf_rules d"
    for d es by (induction es arbitrary: d) auto
  then show ?thesis
    by (simp add: migrate_config_def init_default_config_def)
qed

lemma legacy_settings_lost_witness:
  "\<exists>d d'. fst (set_detector_enabled old_name False d) = Inr () \<and> new_config_manager d = Inr d' \<and>
     map_option dcf_Enabled (get_detector_config new_name d') = Some True"
proof -
  let ?row = "\<lparr>cr_id = 1, cr_detector_type = old_name, cr_enabled = 0, cr_observation_mode = 1,
    cr_whitelist_ips = '''', cr_whitelist_paths = '''', cr_sensitivity_level = ''low''\<rparr>"
  let ?d = "empty_config_db\<lparr>cf_configs := \<lparr>t_rows = [?row], t_next = 2\<rparr>\<rparr>"
  have ne: "old_name \<noteq> new_name"
    by (simp add: old_name_def new_name_def)
  have h: "has_config old_name ?d" "\<not> has_config new_name ?d"
    using ne by (simp_all add: has_config_def)
  obtain d' where d': "new_config_manager ?d = Inr d'"
    by (simp add: new_config_manager_def migrate_legacy_detector_names_def Let_def migrate_keeps_rules
        empty_config_db_def sql_update_unique_def sql_update_def empty_table_def)
  have "fst (set_detector_enabled old_name False ?d) = Inr ()"
    by (simp add: set_detector_enabled_def update_config_where_def affecting_def sql_update_def)
  then show ?thesis
    using legacy_settings_lost[OF h d'] d' by fastforce
qed

subsection \<open>Loading the rules\<close>

definition patterns_of :: "string \<Rightarrow> det_manager \<Rightarrow> pattern_detector" where
  "patterns_of dt m =
     (if dt = ''sql_injection'' then dm_sql m else if dt = ''xss'' then dm_xss m
      else if dt = ''command_injection'' then dm_cmd m else if dt = ''path_traversal'' then dm_path m
      else if dt = ''header_injection'' then dm_header m else if dt = ''ssrf'' then dm_ssrf m
      else if dt = ''file_upload'' then dm_fileUpload m else if dt = ''error_leak'' then dm_errorLeak m
      else if dt = ''request_smuggling'' then dm_smuggling m else if dt = ''xxe'' then dm_xxe m
      else if dt = ''nosql'' then dm_nosql m else dm_ssti m)"

lemma reload_fields:
  "dm_sql (reload_rules compile dt rules m) =
     (if dt = ''sql_injection'' then reload_patterns compile rules else dm_sql m)"
  "dm_xss (reload_rules compile dt rules m) =
     (if dt = ''xss'' then reload_patterns compile rules else dm_xss m)"
  "dm_cmd (reload_rules compile dt rules m) =
     (if dt = ''command_injection'' then reload_patterns compile rules else dm_cmd m)"
  "dm_path (reload_rules compile dt rules m) =
     (if dt = ''path_traversal'' then reload_patterns compile rules else dm_path m)"
  "dm_header (reload_rules compile dt rules m) =
     (if dt = ''header_injection'' then reload_patterns compile rules else dm_header m)"
  "dm_ssrf (reload_rules compile dt rules m) =
     (if dt = ''ssrf'' then reload_patterns compile rules else dm_ssrf m)"
  "dm_fileUpload (reload_rules compile dt rules m) =
     (if dt = ''file_upload'' then reload_patterns compile rules else dm_fileUpload m)"
  "dm_errorLeak (reload_rules compile dt rules m) =
     (if dt = ''error_leak'' then reload_patterns compile rules else dm_errorLeak m)"
  "dm_smuggling (reload_rules compile dt rules m) =
     (if dt = ''request_smuggling'' then reload_patterns compile rules else dm_smuggling m)"
  "dm_xxe (reload_rules compile dt rules m) =
     (if dt = ''xxe'' then reload_patterns compile rules else dm_xxe m)"
  "dm_nosql (reload_rules compile dt rules m) =
     (if dt = ''nosql'' then reload_patterns compile rules else dm_nosql m)"
  "dm_ssti (reload_rules compile dt rules m) =
     (if dt = ''ssti'' then reload_patterns compile rules else dm_ssti m)"
  by (simp_all add: reload_rules_def Let_def)

lemma reload_patterns_of:
  assumes "dt \<in> set detector_types" "dt \<noteq> ''sensitive_data''"
  shows "patterns_of dt (reload_rules compile dt' rules m) =
    (if dt = dt' then reload_patterns compile rules else patterns_of dt m)"
proof -
  have "dt \<in> {''sql_injection'', ''xss'', ''command_injection'', ''path_traversal'', ''header_injection'',
      ''ssrf'', ''file_upload'', ''error_leak'', ''request_smuggling'', ''xxe'', ''nosql'', ''ssti''}"
    using assms by (simp add: detector_types_def)
  then show ?thesis
    by (elim insertE emptyE) (simp_all only: patterns_of_def reload_fields, simp_all)
qed

lemma reload_sensitive_other:
  "dt' \<noteq> ''sensitive_data'' \<Longrightarrow> dm_sensitive (reload_rules compile dt' rules m) = dm_sensitive m"
  by (auto simp: reload_rules_def Let_def)

lemma reload_sensitive_same:
  "dm_sensitive (reload_rules compile ''sensitive_data'' rules m) =
     set_sensitive_patterns (reload_sensitive compile rules) (dm_sensitive m)"
  by (simp add: reload_rules_def)

abbreviation load_step :: "compiler \<Rightarrow> (string \<Rightarrow> bool) \<Rightarrow> config_db \<Rightarrow> det_manager \<Rightarrow> string \<Rightarrow> det_manager" where
  "load_step compile failed db m dt \<equiv>
     (if failed dt \<or> list_rules dt db = [] then m else reload_rules compile dt (list_rules dt db) m)"

lemma load_fold_patterns:
  assumes "dt \<in> set detector_types" "dt \<noteq> ''sensitive_data''"
  shows "patterns_of dt (foldl (load_step compile failed db) m dts) =
    (if dt \<in> set dts \<and> \<not> failed dt \<and> list_rules dt db \<noteq> []
     then reload_patterns compile (list_rules dt db) else patterns_of dt m)"
  by (induction dts arbitrary: m) (auto simp: reload_patterns_of[OF assms])

lemma load_fold_sensitive:
  "dm_sensitive (foldl (load_step compile failed db) m dts) =
    (if ''sensitive_data'' \<in> set dts \<and> \<not> failed ''sensitive_data'' \<and> list_rules ''sensitive_data'' db \<noteq> []
     then set_sensitive_patterns (reload_sensitive compile (list_rules ''sensitive_data'' db)) (dm_sensitive m)
     else dm_sensitive m)"
proof (induction dts arbitrary: m)
  case (Cons dt dts)
  have "dm_sensitive (load_step compile failed db m dt) =
      (if dt = ''sensitive_data'' \<and> \<not> failed dt \<and> list_rules dt db \<noteq> []
       then set_sensitive_patterns (reload_sensitive compile (list_rules dt db)) (dm_sensitive m) else dm_sensitive m)"
    using reload_sensitive_other[of dt compile "list_rules dt db" m] reload_sensitive_same by auto
  then show ?case
    using Cons by (auto simp: set_sensitive_patterns_def)
qed simp

lemma load_patterns:
  "dt \<in> set detector_types \<Longrightarrow> dt \<noteq> ''sensitive_data'' \<Longrightarrow>
   patterns_of dt (load_all_rules_from_db compile failed db m) =
    (if \<not> failed dt \<and> list_rules dt db \<noteq> []
     then reload_patterns compile (list_rules dt db) else patterns_of dt m)"
  by (simp add: load_all_rules_from_db_def load_fold_patterns)

lemma load_sensitive:
  "dm_sensitive (load_all_rules_from_db compile failed db m) =
    (if \<not> failed ''sensitive_data'' \<and> list_rules ''sensitive_data'' db \<noteq> []
     then set_sensitive_patterns (reload_sensitive compile (list_rules ''sensitive_data'' db)) (dm_sensitive m)
     else dm_sensitive m)"
  unfolding load_all_rules_from_db_def load_fold_sensitive by (simp add: detector_types_def)

lemma length_map_filter_le: "length (List.map_filter f xs) \<le> length xs"
  by (induction xs) (auto simp: List.map_filter_simps split: option.split)

lemma reload_length: "length (dt_patterns (reload_patterns compile rules)) \<le> length rules"
  by (simp add: reload_patterns_def set_patterns_def length_map_filter_le)

definition type_count :: "string \<Rightarrow> detection_rule sql_table \<Rightarrow> nat" where
  "type_count dt t = length (filter (\<lambda>r. ru_detector_type r = dt) (t_rows t))"

lemma list_rules_length: "length (list_rules dt d) = type_count dt (cf_rules d)"
  using sum_length_filter_compl[of "\<lambda>r. ru_rule_type r = ''builtin''"
      "filter (\<lambda>r. ru_detector_type r = dt) (t_rows (cf_rules d))"]
  by (simp add: list_rules_def type_count_def Let_def)

lemma insert_ignore_count:
  "type_count dt (sql_insert_ignore rule_key (mk_rule dt' rule_type p desc) t) \<le>
     type_count dt t + (if dt = dt' then 1 else 0)"
  by (auto simp: sql_insert_ignore_def sql_insert_def Let_def type_count_def mk_rule_def)

lemma insert_builtin_count:
  "type_count dt (insert_builtin_rules dt' entries t) \<le> type_count dt t + (if dt = dt' then length entries else 0)"
proof (induction entries arbitrary: t)
  case (Cons e entries)
  obtain p desc where e: "e = (p, desc)" by fastforce
  show ?case
    using Cons[of "sql_insert_ignore rule_key (mk_rule dt' ''builtin'' p desc) t"]
      insert_ignore_count[of dt dt' "''builtin''" p desc t]
    by (auto simp: e insert_builtin_simps split: if_splits)
qed (simp add: insert_builtin_simps)

lemma insert_tables_count:
  "type_count dt (foldl (\<lambda>t (dt, entries). insert_builtin_rules dt entries t) t tables) \<le>
     type_count dt t + sum_list (map (\<lambda>(dt', entries). if dt = dt' then length entries else 0) tables)"
proof (induction tables arbitrary: t)
  case (Cons e tables)
  obtain dt' entries where e: "e = (dt', entries)" by fastforce
  show ?case
    using Cons[of "insert_builtin_rules dt' entries t"] insert_builtin_count[of dt dt' entries t]
    by (simp add: e split: if_splits)
qed simp

lemma builtin_listed:
  assumes "(dt, entries) \<in> set builtin_tables" "entries \<noteq> []"
  shows "list_rules dt (init_builtin_detection_rules d) \<noteq> []"
proof -
  obtain p desc es where e: "entries = (p, desc) # es"
    using assms(2) by (cases entries) auto
  have "(dt, p) \<in> table_keys builtin_tables"
    using assms(1) e by (force simp: table_keys_def)
  then obtain r where r: "r \<in> set (t_rows (cf_rules (init_builtin_detection_rules d)))" "ru_detector_type r = dt"
    using insert_tables_keys[of "cf_rules d" builtin_tables]
    by (force simp: init_builtin_detection_rules_def rule_keys_def rule_key_def)
  then have "type_count dt (cf_rules (init_builtin_detection_rules d)) \<noteq> 0"
    by (auto simp: type_count_def filter_empty_conv)
  then show ?thesis using list_rules_length[of dt "init_builtin_detection_rules d"] by force
qed

text \<open>
  Loading the rules at start replaces the patterns compiled into the detectors by those of the
  table. On a fresh database these are far fewer: of the 164 patterns of the command injection
  detector at most 17 remain, of the 38 of SSTI 7, of the 30 of XXE 7, of the 29 of NoSQL 8.
\<close>

theorem loading_shrinks:
  assumes "t_rows (cf_rules d) = []" and "\<And>p. compile p \<noteq> None"
  defines "m \<equiv> new_det_manager compile"
  defines "m' \<equiv> load_all_rules_from_db compile (\<lambda>_. False) (init_builtin_detection_rules d) m"
  shows "length (dt_patterns (dm_cmd m)) = 164 \<and> length (dt_patterns (dm_cmd m')) \<le> 17 \<and>
         length (dt_patterns (dm_ssti m)) = 38 \<and> length (dt_patterns (dm_ssti m')) \<le> 7 \<and>
         length (dt_patterns (dm_xxe m)) = 30 \<and> length (dt_patterns (dm_xxe m')) \<le> 7 \<and>
         length (dt_patterns (dm_nosql m)) = 29 \<and> length (dt_patterns (dm_nosql m')) \<le> 8"
proof -
  have mf: "length (List.map_filter (\<lambda>(p, d). map_option (\<lambda>re. (re, d)) (compile p)) es) = length es" for es :: "(string \<times> string) list"
    using assms(2) by (induction es) (auto simp: List.map_filter_simps split: option.split)
  have new: "length (dt_patterns (compile_patterns compile es)) = length es" for es
    by (simp add: compile_patterns_def Let_def mf)
  have lens: "length cmd_pattern_strs = 164" "length ssti_patterns = 38" "length xxe_patterns = 30" "length nosql_patterns = 29"
    "length builtin_command_injection = 17" "length builtin_ssti = 7" "length builtin_xxe = 7" "length builtin_nosql = 8"
    by (simp_all add: cmd_pattern_strs_def ssti_patterns_def xxe_patterns_def nosql_patterns_def
        builtin_command_injection_def builtin_ssti_def builtin_xxe_def builtin_nosql_def)
  have bound: "length (dt_patterns (patterns_of dt m')) \<le> length entries"
    if "dt \<in> set detector_types" "dt \<noteq> ''sensitive_data''" "(dt, entries) \<in> set builtin_tables" "entries \<noteq> []"
      "sum_list (map (\<lambda>(dt', es). if dt = dt' then length es else 0) builtin_tables) = length entries" for dt entries
  proof -
    have "patterns_of dt m' = reload_patterns compile (list_rules dt (init_builtin_detection_rules d))"
      using load_patterns[OF that(1,2)] builtin_listed[OF that(3,4)] by (simp add: m'_def)
    then show ?thesis
      using reload_length[of compile "list_rules dt (init_builtin_detection_rules d)"]
        insert_tables_count[of dt "cf_rules d" builtin_tables] that(5) assms(1)
      by (simp add: list_rules_length init_builtin_detection_rules_def type_count_def)
  qed
  have ne: "builtin_command_injection \<noteq> []" "builtin_ssti \<noteq> []" "builtin_xxe \<noteq> []" "builtin_nosql \<noteq> []"
    using lens(5-8) by auto
  show ?thesis
    using bound[of "''command_injection''" builtin_command_injection] bound[of "''ssti''" builtin_ssti]
      bound[of "''xxe''" builtin_xxe] bound[of "''nosql''" builtin_nosql] ne
    by (simp add: m_def new_det_manager_def compile_cmd_patterns_def new lens detector_types_def
        builtin_tables_def patterns_of_def)
qed

lemma loading_shrinks_witness:
  "let compile = (\<lambda>p. Some \<lparr>re_string = p, re_match = \<lambda>s. False, re_find = \<lambda>s. ''''\<rparr>);
       m' = load_all_rules_from_db compile (\<lambda>_. False) (init_builtin_detection_rules empty_config_db) (new_det_manager compile)
   in length (dt_patterns (dm_cmd m')) \<le> 17"
  unfolding Let_def
  using loading_shrinks[of empty_config_db "\<lambda>p. Some \<lparr>re_string = p, re_match = \<lambda>s. False, re_find = \<lambda>s. ''''\<rparr>"]
  by (simp add: empty_config_db_def empty_table_def)

lemma sensitive_loop_none: "\<forall>p \<in> set ps. \<not> use p \<Longrightarrow> sensitive_loop use i ps txt = None"
  by (induction ps arbitrary: i) auto

lemma reload_sensitive_names:
  "p \<in> set (reload_sensitive compile rules) \<Longrightarrow> sp_name p \<in> ru_description ` set rules"
  by (induction rules) (auto simp: reload_sensitive_def List.map_filter_simps split: if_splits option.splits)

text \<open>
  The sensitive-data patterns of a request. \<open>DetectRequest\<close> runs only the patterns named in
  \<open>localOnly\<close>, which is \<open>ssn\<close>; a loaded pattern is named by its description. So once the rules
  of the table are loaded, and unless one is described as \<open>ssn\<close>, no pattern is ever tried on a
  request: without DLP rules nothing is reported, with them only what they map to.
\<close>

theorem sensitive_rules_unreachable:
  assumes "list_rules ''sensitive_data'' db \<noteq> []" "\<not> failed ''sensitive_data''"
    and "\<forall>rule \<in> set (list_rules ''sensitive_data'' db). ru_description rule \<noteq> ''ssn''"
    and "sd_localOnly (dm_sensitive m) = [''ssn'']"
  shows "sensitive_detect_request (dm_sensitive (load_all_rules_from_db compile failed db m)) meth path query body headers =
    (case sd_dlpMgr (dm_sensitive m) of
       None \<Rightarrow> None
     | Some mgr \<Rightarrow> first_hit [hit_at ''body'' (adapt_dlp_result (dlp_check mgr body)),
                              hit_at ''query'' (adapt_dlp_result (dlp_check mgr query))])"
proof -
  have d: "dm_sensitive (load_all_rules_from_db compile failed db m) =
      (dm_sensitive m)\<lparr>sd_patterns := reload_sensitive compile (list_rules ''sensitive_data'' db)\<rparr>"
    using assms(1,2) by (simp add: load_sensitive set_sensitive_patterns_def)
  have "\<forall>p \<in> set (reload_sensitive compile (list_rules ''sensitive_data'' db)). sp_name p \<noteq> ''ssn''"
    using reload_sensitive_names assms(3) by fastforce
  then have "detect_local_only (dm_sensitive (load_all_rules_from_db compile failed db m)) s = None" for s
    by (simp add: d detect_local_only_def assms(4) sensitive_loop_none)
  then show ?thesis
    by (simp add: sensitive_detect_request_def d hit_at_def split: option.split)
qed

lemma sensitive_rules_unreachable_witness:
  "sensitive_detect_request (dm_sensitive (load_all_rules_from_db go_compile (\<lambda>_. False)
       (add_custom_rule ''sensitive_data'' ''secret'' ''my secret'' empty_config_db) (new_det_manager go_compile)))
     ''POST'' ''/'' '''' ''secret'' no_headers = None"
proof -
  have "list_rules ''sensitive_data'' (add_custom_rule ''sensitive_data'' ''secret'' ''my secret'' empty_config_db) =
      [mk_rule ''sensitive_data'' ''custom'' ''secret'' ''my secret'' 1]"
    by (simp add: list_rules_def add_custom_rule_def empty_config_db_def empty_table_def sql_insert_ignore_def
        sql_insert_def mk_rule_def)
  then show ?thesis
    by (subst sensitive_rules_unreachable) (simp_all add: mk_rule_def new_det_manager_def new_sensitive_detector_def)
qed

end
