(* ===== verification/VPatch.thy ===== *)
theory VPatch
  imports SqlTable
begin

text \<open>
  \<open>internal/domain/security/vpatch/vpatch.go\<close>: virtual patches, and
  \<open>internal/domain/proxy/pathbodylimit/limit.go\<close>: body limits by path. Both keep the compiled
  rows of one table.

  \<^item> A patch expires at an instant with the offset of its time zone. The table stores the civil
    time, in seconds, without the zone; \<open>read_expiry\<close> is what \<open>time.Parse\<close> makes of the stored
    text as the database driver hands it back (\<open>None\<close> for an error), \<open>zone\<close> the offset of the
    local time the clean-up formats with.
  \<^item> \<open>CreatedAt\<close> is written by the database and never read back.

  Proved: the patches in force are the rows that are enabled, unexpired at the last load and
  compile; what the target of a patch leaves out; body limits.
\<close>

subsection \<open>Virtual patches\<close>

record patch =
  pa_ID :: nat
  pa_CVEID :: string
  pa_Name :: string
  pa_Description :: string
  pa_PathPattern :: string
  pa_ParamPattern :: string
  pa_AttackPattern :: string
  pa_Severity :: string
  pa_Enabled :: bool
  pa_ExpiresAt :: "(instant \<times> int) option"

record patch_row =
  vr_id :: nat
  vr_cve_id :: string
  vr_name :: string
  vr_description :: string
  vr_path_pattern :: string
  vr_param_pattern :: string
  vr_attack_pattern :: string
  vr_severity :: string
  vr_enabled :: int
  vr_expires_at :: "int option"
  vr_created_at :: int

record match_result =
  mr_Matched :: bool
  mr_PatchID :: nat
  mr_CVEID :: string
  mr_PatchName :: string
  mr_Severity :: string
  mr_Detail :: string

record compiled_patch =
  cp_patch :: patch
  cp_pathRegex :: "go_regexp option"
  cp_paramRegex :: "go_regexp option"
  cp_attackRegex :: "go_regexp option"

record vpatch_manager =
  vp_has_db :: bool
  vp_table :: "patch_row sql_table"
  vp_patches :: "compiled_patch list"

definition civil_seconds :: "instant \<times> int \<Rightarrow> int" where
  "civil_seconds e = (case e of (t, zone) \<Rightarrow> t div nano_second + zone)"

definition scan_patch :: "instant option \<Rightarrow> patch_row \<Rightarrow> patch" where
  "scan_patch expires r =
     \<lparr>pa_ID = vr_id r, pa_CVEID = vr_cve_id r, pa_Name = vr_name r, pa_Description = vr_description r,
      pa_PathPattern = vr_path_pattern r, pa_ParamPattern = vr_param_pattern r,
      pa_AttackPattern = vr_attack_pattern r, pa_Severity = vr_severity r,
      pa_Enabled = (vr_enabled r = 1), pa_ExpiresAt = map_option (\<lambda>t. (t, 0)) expires\<rparr>"

text \<open>A pattern that is absent compiles to no expression; one that is invalid drops the row.\<close>

definition compile_optional :: "compiler \<Rightarrow> string \<Rightarrow> go_regexp option option" where
  "compile_optional compile p = (if p = '''' then Some None else map_option Some (compile p))"

definition compile_patch :: "compiler \<Rightarrow> patch \<Rightarrow> compiled_patch option" where
  "compile_patch compile p =
     (case (compile_optional compile (pa_PathPattern p), compile_optional compile (pa_ParamPattern p),
            compile_optional compile (pa_AttackPattern p)) of
        (Some path, Some param, Some attack) \<Rightarrow>
          Some \<lparr>cp_patch = p, cp_pathRegex = path, cp_paramRegex = param, cp_attackRegex = attack\<rparr>
      | _ \<Rightarrow> None)"

definition load_patch_row :: "compiler \<Rightarrow> (int \<Rightarrow> instant option) \<Rightarrow> instant \<Rightarrow> patch_row \<Rightarrow> compiled_patch option" where
  "load_patch_row compile read_expiry now r =
     (case vr_expires_at r of
        None \<Rightarrow> if vr_enabled r \<noteq> 1 then None else compile_patch compile (scan_patch None r)
      | Some s \<Rightarrow>
          (case read_expiry s of
             None \<Rightarrow> None
           | Some t \<Rightarrow>
               if t < now then None
               else if vr_enabled r \<noteq> 1 then None
               else compile_patch compile (scan_patch (Some t) r)))"

definition build_patches ::
  "compiler \<Rightarrow> (int \<Rightarrow> instant option) \<Rightarrow> instant \<Rightarrow> patch_row sql_table \<Rightarrow> compiled_patch list" where
  "build_patches compile read_expiry now t = List.map_filter (load_patch_row compile read_expiry now) (t_rows t)"

definition load_patches ::
  "compiler \<Rightarrow> (int \<Rightarrow> instant option) \<Rightarrow> instant \<Rightarrow> bool \<Rightarrow> vpatch_manager \<Rightarrow> vpatch_manager" where
  "load_patches compile read_expiry now ok m =
     (if \<not> ok then m else m\<lparr>vp_patches := build_patches compile read_expiry now (vp_table m)\<rparr>)"

definition new_vpatch_manager ::
  "compiler \<Rightarrow> (int \<Rightarrow> instant option) \<Rightarrow> instant \<Rightarrow> bool \<Rightarrow> patch_row sql_table option \<Rightarrow> vpatch_manager" where
  "new_vpatch_manager compile read_expiry now ok db =
     (case db of
        None \<Rightarrow> \<lparr>vp_has_db = False, vp_table = empty_table, vp_patches = []\<rparr>
      | Some t \<Rightarrow> load_patches compile read_expiry now ok \<lparr>vp_has_db = True, vp_table = t, vp_patches = []\<rparr>)"

definition no_match :: match_result where
  "no_match = \<lparr>mr_Matched = False, mr_PatchID = 0, mr_CVEID = '''', mr_PatchName = '''', mr_Severity = '''', mr_Detail = ''''\<rparr>"

definition mk_match :: "string \<Rightarrow> patch \<Rightarrow> match_result" where
  "mk_match kind p =
     \<lparr>mr_Matched = True, mr_PatchID = pa_ID p, mr_CVEID = pa_CVEID p, mr_PatchName = pa_Name p,
      mr_Severity = pa_Severity p, mr_Detail = (utf8 [232, 153, 154, 230, 139, 159, 232, 161, 165, 228, 184, 129] @ ''['') @ pa_CVEID p @ '']'' @ kind @ (utf8 [229, 140, 185, 233, 133, 141] @ '': '') @ pa_Name p\<rparr>"

definition attack_target :: "string \<Rightarrow> string \<Rightarrow> string \<Rightarrow> string" where
  "attack_target path query body =
     (let target = body; target = (if target = '''' then query else target)
      in if target = '''' then path else target)"

definition param_target :: "string \<Rightarrow> string \<Rightarrow> string" where
  "param_target query body = (if query = '''' then body else query)"

definition regex_hits :: "go_regexp option \<Rightarrow> string \<Rightarrow> bool" where
  "regex_hits re s = (case re of None \<Rightarrow> False | Some r \<Rightarrow> re_match r s)"

text \<open>One turn of the loop of \<open>Check\<close>.\<close>

definition check_patch :: "string \<Rightarrow> string \<Rightarrow> string \<Rightarrow> compiled_patch \<Rightarrow> match_result option" where
  "check_patch path query body cp =
     (if pa_PathPattern (cp_patch cp) \<noteq> '''' \<and> cp_pathRegex cp \<noteq> None \<and> \<not> regex_hits (cp_pathRegex cp) path
      then None
      else if regex_hits (cp_attackRegex cp) (attack_target path query body)
      then Some (mk_match '''' (cp_patch cp))
      else if pa_ParamPattern (cp_patch cp) \<noteq> '''' \<and> param_target query body \<noteq> '''' \<and>
              regex_hits (cp_paramRegex cp) (param_target query body)
      then Some (mk_match (utf8 [229, 143, 130, 230, 149, 176]) (cp_patch cp))
      else None)"

fun check_patches :: "string \<Rightarrow> string \<Rightarrow> string \<Rightarrow> compiled_patch list \<Rightarrow> match_result" where
  "check_patches path query body [] = no_match"
| "check_patches path query body (cp # cps) =
     (case check_patch path query body cp of
        Some r \<Rightarrow> r
      | None \<Rightarrow> check_patches path query body cps)"

definition vpatch_check :: "string \<Rightarrow> string \<Rightarrow> string \<Rightarrow> vpatch_manager \<Rightarrow> match_result" where
  "vpatch_check path query body m = check_patches path query body (vp_patches m)"

definition put_patches :: "patch_row sql_table \<Rightarrow> vpatch_manager \<Rightarrow> vpatch_manager" where
  "put_patches t m = m\<lparr>vp_table := t\<rparr>"

definition vpatch_exec ::
  "compiler \<Rightarrow> (int \<Rightarrow> instant option) \<Rightarrow> instant \<Rightarrow> bool \<Rightarrow> string option
   \<Rightarrow> (patch_row sql_table \<Rightarrow> patch_row sql_table) \<Rightarrow> vpatch_manager \<Rightarrow> (string + unit) \<times> vpatch_manager" where
  "vpatch_exec compile read_expiry now ok fail stmt m =
     (if \<not> vp_has_db m then (Inl ''database not initialized'', m)
      else exec_reload vp_table put_patches (load_patches compile read_expiry now) ok
             (try_stmt fail (\<lambda>t. Inr (stmt t))) m)"

definition patch_row_of :: "int \<Rightarrow> patch \<Rightarrow> nat \<Rightarrow> patch_row" where
  "patch_row_of created p rid =
     \<lparr>vr_id = rid, vr_cve_id = pa_CVEID p, vr_name = pa_Name p, vr_description = pa_Description p,
      vr_path_pattern = pa_PathPattern p, vr_param_pattern = pa_ParamPattern p,
      vr_attack_pattern = pa_AttackPattern p, vr_severity = pa_Severity p,
      vr_enabled = sql_bool (pa_Enabled p), vr_expires_at = map_option civil_seconds (pa_ExpiresAt p),
      vr_created_at = created\<rparr>"

definition add_patch where
  "add_patch compile read_expiry now ok fail p =
     vpatch_exec compile read_expiry now ok fail
       (sql_insert_ignore vr_cve_id (patch_row_of (now div nano_second) p))"

definition delete_patch where
  "delete_patch compile read_expiry now ok fail cve =
     vpatch_exec compile read_expiry now ok fail (\<lambda>t. fst (sql_delete (\<lambda>r. vr_cve_id r = cve) t))"

definition toggle_patch where
  "toggle_patch compile read_expiry now ok fail cve enabled =
     vpatch_exec compile read_expiry now ok fail
       (\<lambda>t. fst (sql_update (\<lambda>r. vr_cve_id r = cve) (\<lambda>r. r\<lparr>vr_enabled := sql_bool enabled\<rparr>) t))"

definition list_patches :: "(int \<Rightarrow> instant option) \<Rightarrow> vpatch_manager \<Rightarrow> patch list" where
  "list_patches read_expiry m =
     (if \<not> vp_has_db m then []
      else map (\<lambda>r. scan_patch (Option.bind (vr_expires_at r) read_expiry) r)
             (sort_key (\<lambda>r. - vr_created_at r) (t_rows (vp_table m))))"

definition reload_vpatch where
  "reload_vpatch compile read_expiry now ok m =
     (if vp_has_db m then load_patches compile read_expiry now ok m else m)"

text \<open>One tick of \<open>cleanupLoop\<close>.\<close>

definition vpatch_cleanup ::
  "compiler \<Rightarrow> (int \<Rightarrow> instant option) \<Rightarrow> int \<Rightarrow> instant \<Rightarrow> bool \<Rightarrow> bool \<Rightarrow> vpatch_manager \<Rightarrow> vpatch_manager" where
  "vpatch_cleanup compile read_expiry zone now deleted ok m =
     (if \<not> deleted then m
      else let (t, n) = sql_delete (\<lambda>r. case vr_expires_at r of None \<Rightarrow> False
                           | Some s \<Rightarrow> s < civil_seconds (now, zone)) (vp_table m)
           in if n > 0 then load_patches compile read_expiry now ok (put_patches t m) else put_patches t m)"

subsection \<open>The patches in force\<close>

interpretation vpatch: cached_table vp_table vp_patches "build_patches compile read_expiry now"
    put_patches "load_patches compile read_expiry now"
  for compile read_expiry now
  by unfold_locales (auto simp: put_patches_def load_patches_def)

lemma vpatch_exec_fresh:
  "vp_has_db m \<Longrightarrow> fst (vpatch_exec compile read_expiry now True fail stmt m) = Inr () \<Longrightarrow>
   vpatch.fresh compile read_expiry now (snd (vpatch_exec compile read_expiry now True fail stmt m)) \<and>
   vp_table (snd (vpatch_exec compile read_expiry now True fail stmt m)) = stmt (vp_table m)"
  using vpatch.load_fresh[of compile read_expiry now "put_patches (stmt (vp_table m)) m"]
  by (auto simp: vpatch_exec_def exec_reload_def try_stmt_def put_patches_def load_patches_def split: option.splits)

lemma compile_patch_fields: "compile_patch compile p = Some cp \<Longrightarrow> cp_patch cp = p"
  by (auto simp: compile_patch_def split: option.splits)

lemma load_patch_row_sound:
  assumes "load_patch_row compile read_expiry now r = Some cp"
  shows "vr_enabled r = 1 \<and> pa_CVEID (cp_patch cp) = vr_cve_id r \<and>
    (\<forall>s. vr_expires_at r = Some s \<longrightarrow> (\<exists>t. read_expiry s = Some t \<and> now \<le> t))"
  using assms by (auto simp: load_patch_row_def scan_patch_def dest: compile_patch_fields
      split: option.splits if_splits)

lemma check_patches_sound:
  "mr_Matched (check_patches path query body cps) \<longleftrightarrow> (\<exists>cp \<in> set cps. check_patch path query body cp \<noteq> None)"
  "mr_Matched (check_patches path query body cps) \<Longrightarrow>
     \<exists>cp \<in> set cps. mr_CVEID (check_patches path query body cps) = pa_CVEID (cp_patch cp)"
  by (induction cps)
    (auto simp: no_match_def check_patch_def mk_match_def split: option.splits if_splits)

text \<open>
  A request is stopped by a virtual patch only on behalf of a row of the table that is enabled
  and, if it has an expiry, was readable and not past at the last change of the table; a patch
  that is deleted or switched off stops nothing from then on.
\<close>

theorem patches_in_force:
  assumes "vp_has_db m"
  shows "(fst (toggle_patch compile read_expiry now True fail cve enabled m) = Inr () \<longrightarrow>
      mr_Matched (vpatch_check path query body (snd (toggle_patch compile read_expiry now True fail cve enabled m))) \<longrightarrow>
      (\<exists>r \<in> set (t_rows (vp_table m)).
         vr_cve_id r = mr_CVEID (vpatch_check path query body (snd (toggle_patch compile read_expiry now True fail cve enabled m))) \<and>
         (if vr_cve_id r = cve then enabled else vr_enabled r = 1) \<and>
         (\<forall>s. vr_expires_at r = Some s \<longrightarrow> (\<exists>t. read_expiry s = Some t \<and> now \<le> t)))) \<and>
    (fst (delete_patch compile read_expiry now True fail cve m) = Inr () \<longrightarrow>
      mr_Matched (vpatch_check path query body (snd (delete_patch compile read_expiry now True fail cve m))) \<longrightarrow>
      mr_CVEID (vpatch_check path query body (snd (delete_patch compile read_expiry now True fail cve m))) \<noteq> cve)"
proof -
  have row: "\<exists>r \<in> set (t_rows (stmt (vp_table m))). vr_cve_id r = mr_CVEID (vpatch_check path query body m') \<and>
      vr_enabled r = 1 \<and> (\<forall>s. vr_expires_at r = Some s \<longrightarrow> (\<exists>t. read_expiry s = Some t \<and> now \<le> t))"
    if m': "m' = snd (vpatch_exec compile read_expiry now True fail stmt m)"
      and ok: "fst (vpatch_exec compile read_expiry now True fail stmt m) = Inr ()"
      and hit: "mr_Matched (vpatch_check path query body m')" for stmt m'
  proof -
    from hit check_patches_sound(2) obtain cp where cp: "cp \<in> set (vp_patches m')"
      "mr_CVEID (vpatch_check path query body m') = pa_CVEID (cp_patch cp)"
      unfolding vpatch_check_def by blast
    have "vp_patches m' = build_patches compile read_expiry now (stmt (vp_table m))"
      using vpatch_exec_fresh[OF assms ok] by (simp add: vpatch.fresh_def m')
    then obtain r where "r \<in> set (t_rows (stmt (vp_table m)))" "load_patch_row compile read_expiry now r = Some cp"
      using cp(1) by (auto simp: build_patches_def List.map_filter_def)
    then show ?thesis using load_patch_row_sound cp(2) by metis
  qed
  show ?thesis
  proof (intro conjI impI)
    let ?m = "snd (toggle_patch compile read_expiry now True fail cve enabled m)"
    assume "fst (toggle_patch compile read_expiry now True fail cve enabled m) = Inr ()"
      "mr_Matched (vpatch_check path query body ?m)"
    from row[OF _ this[unfolded toggle_patch_def], OF refl] show "\<exists>r \<in> set (t_rows (vp_table m)).
         vr_cve_id r = mr_CVEID (vpatch_check path query body ?m) \<and>
         (if vr_cve_id r = cve then enabled else vr_enabled r = 1) \<and>
         (\<forall>s. vr_expires_at r = Some s \<longrightarrow> (\<exists>t. read_expiry s = Some t \<and> now \<le> t))"
      by (fastforce simp: sql_update_def toggle_patch_def split: if_splits)
  next
    let ?m = "snd (delete_patch compile read_expiry now True fail cve m)"
    assume "fst (delete_patch compile read_expiry now True fail cve m) = Inr ()"
      "mr_Matched (vpatch_check path query body ?m)"
    from row[OF _ this[unfolded delete_patch_def], OF refl] show "mr_CVEID (vpatch_check path query body ?m) \<noteq> cve"
      by (auto simp: sql_delete_def delete_patch_def)
  qed
qed

definition sample_patch :: patch where
  "sample_patch =
     \<lparr>pa_ID = 1, pa_CVEID = ''CVE-1'', pa_Name = ''n'', pa_Description = '''', pa_PathPattern = '''',
      pa_ParamPattern = '''', pa_AttackPattern = ''evil'', pa_Severity = ''high'', pa_Enabled = True,
      pa_ExpiresAt = None\<rparr>"

definition substring_compile :: compiler where
  "substring_compile p = Some \<lparr>re_string = p, re_match = \<lambda>s. str_contains s p, re_find = \<lambda>s. ''''\<rparr>"

definition sample_vpatch :: vpatch_manager where
  "sample_vpatch =
     new_vpatch_manager substring_compile (\<lambda>s. Some (s * nano_second)) 0 True
       (Some \<lparr>t_rows = [patch_row_of 0 sample_patch 1], t_next = 2\<rparr>)"

lemma sample_vpatch_eq:
  "sample_vpatch = \<lparr>vp_has_db = True, vp_table = \<lparr>t_rows = [patch_row_of 0 sample_patch 1], t_next = 2\<rparr>,
     vp_patches = [\<lparr>cp_patch = sample_patch, cp_pathRegex = None, cp_paramRegex = None,
       cp_attackRegex = Some \<lparr>re_string = ''evil'', re_match = \<lambda>s. str_contains s ''evil'', re_find = \<lambda>s. ''''\<rparr>\<rparr>]\<rparr>"
  by (simp add: sample_vpatch_def new_vpatch_manager_def load_patches_def build_patches_def patch_row_of_def
      sample_patch_def load_patch_row_def scan_patch_def compile_patch_def compile_optional_def
      substring_compile_def List.map_filter_simps sql_bool_def)

lemma patches_in_force_witness:
  "mr_CVEID (vpatch_check ''/a'' '''' ''evil''
     (snd (delete_patch substring_compile (\<lambda>s. Some (s * nano_second)) 5 True None ''CVE-2'' sample_vpatch))) \<noteq> ''CVE-2'' \<and>
   mr_Matched (vpatch_check ''/a'' '''' ''evil'' sample_vpatch)"
proof
  have has: "vp_has_db sample_vpatch"
    by (simp add: sample_vpatch_eq)
  have ok: "fst (delete_patch substring_compile (\<lambda>s. Some (s * nano_second)) 5 True None ''CVE-2'' sample_vpatch) = Inr ()"
    by (simp add: delete_patch_def vpatch_exec_def has exec_reload_def try_stmt_def)
  have "mr_CVEID no_match \<noteq> ''CVE-2''"
    by (simp add: no_match_def)
  moreover have "mr_Matched r \<or> r = no_match" if "r = check_patches p q b cps" for r p q b cps
    using that by (induction cps arbitrary: r) (auto simp: check_patch_def mk_match_def split: option.splits if_splits)
  ultimately show "mr_CVEID (vpatch_check ''/a'' '''' ''evil''
     (snd (delete_patch substring_compile (\<lambda>s. Some (s * nano_second)) 5 True None ''CVE-2'' sample_vpatch))) \<noteq> ''CVE-2''"
    using patches_in_force[OF has] ok unfolding vpatch_check_def by metis
  have "str_contains ''evil'' ''evil''" by code_simp
  then show "mr_Matched (vpatch_check ''/a'' '''' ''evil'' sample_vpatch)"
    by (simp add: sample_vpatch_eq vpatch_check_def check_patch_def regex_hits_def attack_target_def mk_match_def sample_patch_def)
qed

text \<open>
  The attack pattern of a patch is tried on one text only: the body, or the query when there is
  no body, or the path when there is neither. So a patch without parameter pattern that stops a
  request for its query stops no request with that query and any body the pattern does not
  match, and one that stops a path stops no request with that path and a harmless query.
\<close>

theorem body_hides_query:
  assumes "\<forall>cp \<in> set (vp_patches m). pa_ParamPattern (cp_patch cp) = ''''"
    and "\<forall>cp \<in> set (vp_patches m). \<not> regex_hits (cp_attackRegex cp) harmless" and "harmless \<noteq> ''''"
  shows "vpatch_check path query harmless m = no_match \<and> vpatch_check path harmless '''' m = no_match"
proof -
  have "check_patches path query harmless cps = no_match \<and> check_patches path harmless '''' cps = no_match"
    if "set cps \<subseteq> set (vp_patches m)" for cps
    using that assms by (induction cps) (auto simp: check_patch_def attack_target_def Let_def)
  then show ?thesis by (simp add: vpatch_check_def)
qed

lemma body_hides_query_witness:
  "mr_Matched (vpatch_check ''/a'' ''x=evil'' '''' sample_vpatch) \<and>
   vpatch_check ''/a'' ''x=evil'' ''y'' sample_vpatch = no_match"
proof
  have "str_contains ''x=evil'' ''evil''" "\<not> str_contains ''y'' ''evil''" by code_simp+
  then show "mr_Matched (vpatch_check ''/a'' ''x=evil'' '''' sample_vpatch)"
    "vpatch_check ''/a'' ''x=evil'' ''y'' sample_vpatch = no_match"
    using body_hides_query[of sample_vpatch "''y''" "''/a''" "''x=evil''"]
    by (simp_all add: sample_vpatch_eq vpatch_check_def check_patch_def regex_hits_def attack_target_def
        mk_match_def sample_patch_def)
qed

subsection \<open>Body limits by path\<close>

text \<open>\<open>MaxBodyMB\<close> is a 64-bit integer, and so is the limit in bytes.\<close>

record limit_row =
  lr_id :: nat
  lr_path_regex :: string
  lr_max_body_mb :: "64 word"
  lr_enabled :: int

record path_limit =
  pl_ID :: nat
  pl_PathRegex :: string
  pl_MaxBodyMB :: "64 word"
  pl_Enabled :: bool
  pl_pathRe :: "go_regexp option"

record body_limit_manager =
  bl_has_db :: bool
  bl_table :: "limit_row sql_table"
  bl_limits :: "path_limit list"

definition scan_limit :: "limit_row \<Rightarrow> path_limit" where
  "scan_limit r =
     \<lparr>pl_ID = lr_id r, pl_PathRegex = lr_path_regex r, pl_MaxBodyMB = lr_max_body_mb r,
      pl_Enabled = (lr_enabled r = 1), pl_pathRe = None\<rparr>"

definition load_limit_row :: "compiler \<Rightarrow> limit_row \<Rightarrow> path_limit option" where
  "load_limit_row compile r =
     (if lr_path_regex r = '''' then Some (scan_limit r)
      else map_option (\<lambda>re. (scan_limit r)\<lparr>pl_pathRe := Some re\<rparr>) (compile (lr_path_regex r)))"

definition build_limits :: "compiler \<Rightarrow> limit_row sql_table \<Rightarrow> path_limit list" where
  "build_limits compile t = List.map_filter (load_limit_row compile) (t_rows t)"

definition load_limits :: "compiler \<Rightarrow> bool \<Rightarrow> body_limit_manager \<Rightarrow> body_limit_manager" where
  "load_limits compile ok m = (if \<not> ok then m else m\<lparr>bl_limits := build_limits compile (bl_table m)\<rparr>)"

definition new_body_limit_manager :: "compiler \<Rightarrow> bool \<Rightarrow> limit_row sql_table option \<Rightarrow> body_limit_manager" where
  "new_body_limit_manager compile ok db =
     (case db of
        None \<Rightarrow> \<lparr>bl_has_db = False, bl_table = empty_table, bl_limits = []\<rparr>
      | Some t \<Rightarrow> load_limits compile ok \<lparr>bl_has_db = True, bl_table = t, bl_limits = []\<rparr>)"

definition limit_applies :: "string \<Rightarrow> path_limit \<Rightarrow> bool" where
  "limit_applies path l \<longleftrightarrow> pl_Enabled l \<and> regex_hits (pl_pathRe l) path"

definition check_limit :: "body_limit_manager option \<Rightarrow> string \<Rightarrow> 64 word" where
  "check_limit m path =
     (case m of
        None \<Rightarrow> 0
      | Some m \<Rightarrow>
          (case find (limit_applies path) (bl_limits m) of
             None \<Rightarrow> 0
           | Some l \<Rightarrow> pl_MaxBodyMB l * 1024 * 1024))"

definition put_limits :: "limit_row sql_table \<Rightarrow> body_limit_manager \<Rightarrow> body_limit_manager" where
  "put_limits t m = m\<lparr>bl_table := t\<rparr>"

definition limit_exec ::
  "compiler \<Rightarrow> bool \<Rightarrow> string option \<Rightarrow> (limit_row sql_table \<Rightarrow> limit_row sql_table) \<Rightarrow> body_limit_manager
   \<Rightarrow> (string + unit) \<times> body_limit_manager" where
  "limit_exec compile ok fail stmt m =
     (if \<not> bl_has_db m then (Inr (), m)
      else exec_reload bl_table put_limits (load_limits compile) ok (try_stmt fail (\<lambda>t. Inr (stmt t))) m)"

definition add_limit where
  "add_limit compile ok fail pathRegex maxBodyMB enabled =
     limit_exec compile ok fail
       (\<lambda>t. \<lparr>t_rows = t_rows t @ [\<lparr>lr_id = t_next t, lr_path_regex = pathRegex, lr_max_body_mb = maxBodyMB,
                                   lr_enabled = sql_bool enabled\<rparr>], t_next = t_next t + 1\<rparr>)"

definition update_limit where
  "update_limit compile ok fail rid pathRegex maxBodyMB enabled =
     limit_exec compile ok fail
       (\<lambda>t. fst (sql_update (\<lambda>r. lr_id r = rid)
          (\<lambda>r. r\<lparr>lr_path_regex := pathRegex, lr_max_body_mb := maxBodyMB, lr_enabled := sql_bool enabled\<rparr>) t))"

definition delete_limit where
  "delete_limit compile ok fail rid =
     limit_exec compile ok fail (\<lambda>t. fst (sql_delete (\<lambda>r. lr_id r = rid) t))"

definition list_limit :: "body_limit_manager \<Rightarrow> path_limit list" where
  "list_limit m = (if \<not> bl_has_db m then [] else map scan_limit (t_rows (bl_table m)))"

definition reload_limits :: "compiler \<Rightarrow> bool \<Rightarrow> body_limit_manager \<Rightarrow> body_limit_manager" where
  "reload_limits compile ok m = (if bl_has_db m then load_limits compile ok m else m)"

interpretation limits: cached_table bl_table bl_limits "build_limits compile" put_limits "load_limits compile"
  for compile
  by unfold_locales (auto simp: put_limits_def load_limits_def)

lemma limit_exec_fresh: "limits.fresh compile m \<Longrightarrow> limits.fresh compile (snd (limit_exec compile True fail stmt m))"
  using limits.exec_fresh[of compile m "try_stmt fail (\<lambda>t. Inr (stmt t))"] by (simp add: limit_exec_def)

lemma check_limit_fresh:
  "limits.fresh compile m \<Longrightarrow>
   check_limit (Some m) path =
     (case find (limit_applies path) (build_limits compile (bl_table m)) of
        None \<Rightarrow> 0 | Some l \<Rightarrow> pl_MaxBodyMB l * 1024 * 1024)"
  by (simp add: check_limit_def limits.fresh_def)

end
