(* ===== verification/HeaderRules.thy ===== *)
theory HeaderRules
  imports VPatch Http
begin

text \<open>
  The header rules (\<open>auxiliary/reqheader/reqheader.go\<close>, \<open>auxiliary/respheader/respheader.go\<close>):
  headers set on the requests sent to the backends and on the responses sent to the clients, by
  domain and path.

  \<^item> The two packages have the same table, rule and loader; \<open>header_manager\<close> is the state of
    either. They differ in what their operations do without a database (the response side
    reports an error, the request side dereferences the nil pointer) and in what they list.
  \<^item> Both managers are a \<open>cached_table\<close>; the headers a request leaves with are those of the rules in
    the table.
\<close>

record header_row =
  hd_id :: nat
  hd_domain :: string
  hd_path_regex :: string
  hd_header :: string
  hd_value :: string
  hd_enabled :: int

record header_rule =
  hr_ID :: nat
  hr_Domain :: string
  hr_PathRegex :: string
  hr_Header :: string
  hr_Value :: string
  hr_Enabled :: bool
  hr_pathRe :: "go_regexp option"

record header_manager =
  hm_has_db :: bool
  hm_table :: "header_row sql_table"
  hm_rules :: "header_rule list"

subsection \<open>Loading\<close>

definition scan_header_row :: "header_row \<Rightarrow> header_rule" where
  "scan_header_row r =
     \<lparr>hr_ID = hd_id r, hr_Domain = hd_domain r, hr_PathRegex = hd_path_regex r, hr_Header = hd_header r,
      hr_Value = hd_value r, hr_Enabled = (hd_enabled r = 1), hr_pathRe = None\<rparr>"

definition load_header_row :: "compiler \<Rightarrow> header_row \<Rightarrow> header_rule option" where
  "load_header_row compile r =
     (if hd_path_regex r = '''' then Some (scan_header_row r)
      else map_option (\<lambda>re. (scan_header_row r)\<lparr>hr_pathRe := Some re\<rparr>) (compile (hd_path_regex r)))"

definition build_header_rules :: "compiler \<Rightarrow> header_row sql_table \<Rightarrow> header_rule list" where
  "build_header_rules compile t = List.map_filter (load_header_row compile) (t_rows t)"

definition load_header_rules :: "compiler \<Rightarrow> bool \<Rightarrow> header_manager \<Rightarrow> header_manager" where
  "load_header_rules compile ok m =
     (if \<not> ok then m else m\<lparr>hm_rules := build_header_rules compile (hm_table m)\<rparr>)"

definition new_header_manager :: "compiler \<Rightarrow> bool \<Rightarrow> header_row sql_table option \<Rightarrow> header_manager" where
  "new_header_manager compile ok db =
     (case db of
        None \<Rightarrow> \<lparr>hm_has_db = False, hm_table = empty_table, hm_rules = []\<rparr>
      | Some t \<Rightarrow> load_header_rules compile ok \<lparr>hm_has_db = True, hm_table = t, hm_rules = []\<rparr>)"

definition reload_header_rules :: "compiler \<Rightarrow> bool \<Rightarrow> header_manager \<Rightarrow> header_manager" where
  "reload_header_rules compile ok m = (if hm_has_db m then load_header_rules compile ok m else m)"

subsection \<open>Applying\<close>

definition rule_applies :: "string \<Rightarrow> string \<Rightarrow> header_rule \<Rightarrow> bool" where
  "rule_applies host path r \<longleftrightarrow>
     hr_Enabled r \<and> (hr_Domain r = '''' \<or> hr_Domain r = ''*'' \<or> hr_Domain r = host) \<and>
     (case hr_pathRe r of None \<Rightarrow> True | Some re \<Rightarrow> re_match re path)"

definition apply_rules :: "string \<Rightarrow> string \<Rightarrow> header_rule list \<Rightarrow> headers \<Rightarrow> headers" where
  "apply_rules host path rules h =
     fold (\<lambda>r h. if rule_applies host path r then header_set (hr_Header r) (hr_Value r) h else h) rules h"

definition apply_request_headers :: "header_manager \<Rightarrow> http_request \<Rightarrow> http_request" where
  "apply_request_headers m req =
     req\<lparr>rq_Header := apply_rules (rq_Host req) (rq_Path req) (hm_rules m) (rq_Header req)\<rparr>"

definition apply_response_headers :: "header_manager \<Rightarrow> string \<Rightarrow> string \<Rightarrow> headers \<Rightarrow> headers" where
  "apply_response_headers m host path h = apply_rules host path (hm_rules m) h"

subsection \<open>Operations\<close>

definition put_header_rows :: "header_row sql_table \<Rightarrow> header_manager \<Rightarrow> header_manager" where
  "put_header_rows t m = m\<lparr>hm_table := t\<rparr>"

definition header_exec ::
  "string \<Rightarrow> compiler \<Rightarrow> bool \<Rightarrow> string option \<Rightarrow> (header_row sql_table \<Rightarrow> header_row sql_table)
   \<Rightarrow> header_manager \<Rightarrow> (string + unit) \<times> header_manager" where
  "header_exec without_db compile ok fail stmt m =
     (if \<not> hm_has_db m then (Inl without_db, m)
      else exec_reload hm_table put_header_rows (load_header_rules compile) ok (try_stmt fail (\<lambda>t. Inr (stmt t))) m)"

definition header_row_of :: "string \<Rightarrow> string \<Rightarrow> string \<Rightarrow> string \<Rightarrow> bool \<Rightarrow> nat \<Rightarrow> header_row" where
  "header_row_of domain pathRegex hdr v enabled i =
     \<lparr>hd_id = i, hd_domain = domain, hd_path_regex = pathRegex, hd_header = hdr, hd_value = v,
      hd_enabled = sql_bool enabled\<rparr>"

definition insert_header_row where
  "insert_header_row domain pathRegex hdr v enabled t =
     \<lparr>t_rows = t_rows t @ [header_row_of domain pathRegex hdr v enabled (t_next t)], t_next = t_next t + 1\<rparr>"

definition update_header_row where
  "update_header_row rid domain pathRegex hdr v enabled t =
     fst (sql_update (\<lambda>r. hd_id r = rid) (\<lambda>r. header_row_of domain pathRegex hdr v enabled (hd_id r)) t)"

definition delete_header_row :: "nat \<Rightarrow> header_row sql_table \<Rightarrow> header_row sql_table" where
  "delete_header_row rid t = fst (sql_delete (\<lambda>r. hd_id r = rid) t)"

definition toggle_header_row :: "nat \<Rightarrow> bool \<Rightarrow> header_row sql_table \<Rightarrow> header_row sql_table" where
  "toggle_header_row rid enabled t =
     fst (sql_update (\<lambda>r. hd_id r = rid) (\<lambda>r. r\<lparr>hd_enabled := sql_bool enabled\<rparr>) t)"

text \<open>\<open>reqheader\<close>: no check of the database handle.\<close>

definition nil_panic :: string where
  "nil_panic = ''panic: invalid memory address or nil pointer dereference''"

definition add_request_rule where
  "add_request_rule compile ok fail domain pathRegex hdr v enabled =
     header_exec nil_panic compile ok fail (insert_header_row domain pathRegex hdr v enabled)"

definition update_request_rule where
  "update_request_rule compile ok fail rid domain pathRegex hdr v enabled =
     header_exec nil_panic compile ok fail (update_header_row rid domain pathRegex hdr v enabled)"

definition delete_request_rule where
  "delete_request_rule compile ok fail rid = header_exec nil_panic compile ok fail (delete_header_row rid)"

definition toggle_request_rule where
  "toggle_request_rule compile ok fail rid enabled =
     header_exec nil_panic compile ok fail (toggle_header_row rid enabled)"

definition list_request_rules :: "header_manager \<Rightarrow> header_rule list" where
  "list_request_rules m = hm_rules m"

text \<open>\<open>respheader\<close>.\<close>

definition no_header_db :: string where
  "no_header_db = ''database not initialized''"

definition add_response_rule where
  "add_response_rule compile ok fail domain pathRegex hdr v enabled =
     header_exec no_header_db compile ok fail (insert_header_row domain pathRegex hdr v enabled)"

definition update_response_rule where
  "update_response_rule compile ok fail rid domain pathRegex hdr v enabled =
     header_exec no_header_db compile ok fail (update_header_row rid domain pathRegex hdr v enabled)"

definition delete_response_rule where
  "delete_response_rule compile ok fail rid = header_exec no_header_db compile ok fail (delete_header_row rid)"

definition toggle_response_rule where
  "toggle_response_rule compile ok fail rid enabled =
     header_exec no_header_db compile ok fail (toggle_header_row rid enabled)"

definition list_response_rules :: "header_manager \<Rightarrow> header_rule list" where
  "list_response_rules m = (if \<not> hm_has_db m then [] else map scan_header_row (t_rows (hm_table m)))"

interpretation hdrs: cached_table hm_table hm_rules "build_header_rules compile" put_header_rows
  "load_header_rules compile" for compile
  by unfold_locales (auto simp: put_header_rows_def load_header_rules_def)

lemma header_exec_fresh:
  "hdrs.fresh compile m \<Longrightarrow> hdrs.fresh compile (snd (header_exec err compile True fail stmt m))"
  using hdrs.exec_fresh[of compile m "try_stmt fail (\<lambda>t. Inr (stmt t))"] by (simp add: header_exec_def)

subsection \<open>What a message leaves with\<close>

text \<open>The value a header ends up with: that of the last rule that applies and names it.\<close>

definition final_value :: "string \<Rightarrow> string \<Rightarrow> header_rule list \<Rightarrow> headers \<Rightarrow> string \<Rightarrow> string" where
  "final_value host path rules h k =
     (case filter (\<lambda>r. rule_applies host path r \<and> canonical_key (hr_Header r) = canonical_key k) rules of
        [] \<Rightarrow> header_get h k
      | rs \<Rightarrow> hr_Value (last rs))"

lemma apply_rules_get: "header_get (apply_rules host path rules h) k = final_value host path rules h k"
proof -
  have "header_get (fold (\<lambda>r h. if rule_applies host path r then header_set (hr_Header r) (hr_Value r) h else h)
      rules h) k = final_value host path rules h k"
  proof (induction rules arbitrary: h)
    case (Cons r rules)
    then show ?case
      by (cases "filter (\<lambda>r. rule_applies host path r \<and> canonical_key (hr_Header r) = canonical_key k) rules")
        (auto simp: final_value_def)
  qed (simp add: final_value_def)
  then show ?thesis by (simp add: apply_rules_def)
qed

end
