(* ===== verification/AsyncExtract.thy ===== *)
theory AsyncExtract
  imports DetectorManager
begin

text \<open>
  The asynchronous feature extraction (\<open>security/asyncextract/extractor.go\<close>): when a rule check
  stops a request before the attack detection, the request is queued and a worker notes which
  attacks it carried.

  \<^item> \<open>extractor\<close> is the struct; the channel is the list of the queued requests with its
    capacity, and a worker takes the head. \<open>ex_log\<close> holds the rows of \<open>attack_feature_log\<close>, \<open>None\<close>
    without a database.
  \<^item> \<open>extract_step\<close> is one atomic step of the concurrent system: a submission, or a worker taking
    and processing one request. A run is any interleaving of them.
\<close>

record extract_request =
  er_RequestID :: string
  er_ClientIP :: string
  er_Method :: string
  er_Path :: string
  er_Query :: string
  er_Body :: string
  er_UserAgent :: string
  er_SourceRule :: string
  er_Timestamp :: instant

record extract_result =
  ex_RequestID :: string
  ex_AttackType :: string
  ex_FeatureDetail :: string
  ex_SourceRule :: string
  ex_ClientIP :: string
  ex_Path :: string
  ex_ExtractionMode :: string
  ex_CreatedAt :: instant

record extractor =
  ae_ch :: "extract_request list"
  ae_cap :: nat
  ae_detectorMgr :: "det_manager option"
  ae_log :: "extract_result list option"
  ae_workerCount :: nat
  ae_dropCount :: int
  ae_enabled :: bool

definition extract_body_size :: nat where
  "extract_body_size = 4096"

definition new_extractor ::
  "det_manager option \<Rightarrow> extract_result list option \<Rightarrow> int \<Rightarrow> int \<Rightarrow> extractor" where
  "new_extractor mgr logdb workerCount channelSize =
     \<lparr>ae_ch = [], ae_cap = nat (if channelSize \<le> 0 then 1024 else channelSize), ae_detectorMgr = mgr,
      ae_log = logdb, ae_workerCount = nat (if workerCount \<le> 0 then 4 else workerCount), ae_dropCount = 0,
      ae_enabled = False\<rparr>"

definition start_extractor :: "extractor \<Rightarrow> extractor" where
  "start_extractor e = e\<lparr>ae_enabled := True\<rparr>"

definition stop_extractor :: "extractor \<Rightarrow> extractor" where
  "stop_extractor e = e\<lparr>ae_enabled := False\<rparr>"

text \<open>\<open>Submit\<close> never blocks: a full channel costs the request.\<close>

definition submit :: "extract_request \<Rightarrow> extractor \<Rightarrow> bool \<times> extractor" where
  "submit req e =
     (if \<not> ae_enabled e then (False, e)
      else if length (ae_ch e) < ae_cap e then (True, e\<lparr>ae_ch := ae_ch e @ [req]\<rparr>)
      else (False, e\<lparr>ae_dropCount := ae_dropCount e + 1\<rparr>))"

definition extract_result_of :: "string \<Rightarrow> instant \<Rightarrow> extract_request \<Rightarrow> string \<Rightarrow> extract_result" where
  "extract_result_of attack now req desc =
     \<lparr>ex_RequestID = er_RequestID req, ex_AttackType = attack, ex_FeatureDetail = desc,
      ex_SourceRule = er_SourceRule req, ex_ClientIP = er_ClientIP req, ex_Path = er_Path req,
      ex_ExtractionMode = ''async_extracted'', ex_CreatedAt = now\<rparr>"

definition extract_results :: "det_manager \<Rightarrow> instant \<Rightarrow> extract_request \<Rightarrow> extract_result list" where
  "extract_results mgr now req =
     (let body = (if length (er_Body req) > extract_body_size then take extract_body_size (er_Body req)
                  else er_Body req)
      in (case check_path_traversal mgr (er_Path req) (er_Query req) body of
            None \<Rightarrow> []
          | Some (_, _, _, desc) \<Rightarrow> [extract_result_of ''path_traversal'' now req desc]) @
         (case check_sql_injection mgr (er_Path req) (er_Query req) body of
            None \<Rightarrow> []
          | Some (_, _, _, desc) \<Rightarrow> [extract_result_of ''sql_injection'' now req desc]))"

definition persist_result :: "(extract_result \<Rightarrow> bool) \<Rightarrow> extract_result \<Rightarrow> extractor \<Rightarrow> extractor" where
  "persist_result exec_ok res e =
     (case ae_log e of
        None \<Rightarrow> e
      | Some rows \<Rightarrow> if exec_ok res then e\<lparr>ae_log := Some (rows @ [res])\<rparr> else e)"

definition process_request ::
  "(extract_result \<Rightarrow> bool) \<Rightarrow> instant \<Rightarrow> extract_request \<Rightarrow> extractor \<Rightarrow> extractor" where
  "process_request exec_ok now req e =
     (case ae_detectorMgr e of
        None \<Rightarrow> e
      | Some mgr \<Rightarrow> fold (persist_result exec_ok) (extract_results mgr now req) e)"

definition worker_turn :: "(extract_result \<Rightarrow> bool) \<Rightarrow> instant \<Rightarrow> extractor \<Rightarrow> extractor" where
  "worker_turn exec_ok now e =
     (case ae_ch e of
        [] \<Rightarrow> e
      | req # rest \<Rightarrow> process_request exec_ok now req (e\<lparr>ae_ch := rest\<rparr>))"

subsection \<open>Runs\<close>

datatype extract_step = Submit extract_request | Work instant

definition extract_do :: "(extract_result \<Rightarrow> bool) \<Rightarrow> extract_step \<Rightarrow> extractor \<Rightarrow> extractor" where
  "extract_do exec_ok s e =
     (case s of Submit req \<Rightarrow> snd (submit req e) | Work now \<Rightarrow> worker_turn exec_ok now e)"

text \<open>The abstract queue: what was accepted, how many of those were taken, and how many requests
  were refused.\<close>

record extract_history =
  xh_accepted :: "extract_request list"
  xh_taken :: nat
  xh_refused :: int

definition history_do :: "nat \<Rightarrow> extract_step \<Rightarrow> extract_history \<Rightarrow> extract_history" where
  "history_do cap s h =
     (case s of
        Submit req \<Rightarrow>
          if length (xh_accepted h) - xh_taken h < cap then h\<lparr>xh_accepted := xh_accepted h @ [req]\<rparr>
          else h\<lparr>xh_refused := xh_refused h + 1\<rparr>
      | Work _ \<Rightarrow> if xh_taken h < length (xh_accepted h) then h\<lparr>xh_taken := xh_taken h + 1\<rparr> else h)"

definition no_history :: extract_history where
  "no_history = \<lparr>xh_accepted = [], xh_taken = 0, xh_refused = 0\<rparr>"

definition queue_rep :: "extractor \<Rightarrow> extract_history \<Rightarrow> bool" where
  "queue_rep e h \<longleftrightarrow>
     xh_taken h \<le> length (xh_accepted h) \<and> ae_ch e = drop (xh_taken h) (xh_accepted h) \<and>
     ae_dropCount e = xh_refused h \<and> length (ae_ch e) \<le> ae_cap e"

lemma persist_frame [simp]:
  "ae_ch (persist_result ok res e) = ae_ch e" "ae_cap (persist_result ok res e) = ae_cap e"
  "ae_dropCount (persist_result ok res e) = ae_dropCount e" "ae_enabled (persist_result ok res e) = ae_enabled e"
  by (auto simp: persist_result_def split: option.split)

lemma persist_all_frame:
  "ae_ch (fold (persist_result ok) rs e) = ae_ch e \<and> ae_cap (fold (persist_result ok) rs e) = ae_cap e \<and>
   ae_dropCount (fold (persist_result ok) rs e) = ae_dropCount e \<and>
   ae_enabled (fold (persist_result ok) rs e) = ae_enabled e"
  by (induction rs arbitrary: e) auto

lemma process_frame [simp]:
  "ae_ch (process_request ok now req e) = ae_ch e" "ae_cap (process_request ok now req e) = ae_cap e"
  "ae_dropCount (process_request ok now req e) = ae_dropCount e"
  "ae_enabled (process_request ok now req e) = ae_enabled e"
  using persist_all_frame by (auto simp: process_request_def split: option.split)

lemma extract_do_frame:
  "ae_cap (extract_do ok s e) = ae_cap e \<and> ae_enabled (extract_do ok s e) = ae_enabled e"
  by (auto simp: extract_do_def submit_def worker_turn_def split: extract_step.split list.split)

lemma queue_rep_step:
  assumes "queue_rep e h" and "ae_enabled e"
  shows "queue_rep (extract_do ok s e) (history_do (ae_cap e) s h)"
proof (cases s)
  case (Submit req)
  then show ?thesis
    using assms by (auto simp: queue_rep_def extract_do_def history_do_def submit_def)
next
  case (Work now)
  show ?thesis
  proof (cases "ae_ch e")
    case Nil
    then show ?thesis
      using Work assms by (auto simp: queue_rep_def extract_do_def history_do_def worker_turn_def)
  next
    case (Cons req rest)
    then have "xh_taken h < length (xh_accepted h)" "drop (Suc (xh_taken h)) (xh_accepted h) = rest"
      using assms(1) by (auto simp: queue_rep_def drop_Suc tl_drop)
        (metis drop_eq_Nil2 list.distinct(1) not_le, metis list.sel(3) tl_drop)
    moreover have "extract_do ok s e = process_request ok now req (e\<lparr>ae_ch := rest\<rparr>)"
      by (simp add: extract_do_def worker_turn_def Work Cons)
    moreover have "length (ae_ch e) = Suc (length rest)" by (simp add: Cons)
    ultimately show ?thesis
      using Work assms(1) by (simp add: queue_rep_def history_do_def)
  qed
qed

text \<open>
  The extraction queue is a bounded first-in first-out queue: over any interleaving of
  submissions and workers, the channel of a started extractor holds exactly the accepted requests
  no worker has taken, in the order they were accepted, never more than its capacity, and the
  drop counter counts exactly the submissions that found it full.
\<close>

theorem extraction_queue_fifo:
  "let e0 = start_extractor (new_extractor mgr logdb workers channelSize)
   in queue_rep (fold (extract_do ok) steps e0) (fold (history_do (ae_cap e0)) steps no_history)"
proof -
  let ?e0 = "start_extractor (new_extractor mgr logdb workers channelSize)"
  have "queue_rep (fold (extract_do ok) steps e) (fold (history_do (ae_cap e)) steps h)"
    if "queue_rep e h" "ae_enabled e" for e h
    using that
  proof (induction steps arbitrary: e h)
    case (Cons s steps)
    have "queue_rep (extract_do ok s e) (history_do (ae_cap e) s h)"
      using queue_rep_step[OF Cons.prems] .
    then show ?case
      using Cons.IH[of "extract_do ok s e" "history_do (ae_cap e) s h"] Cons.prems(2)
      by (simp add: extract_do_frame)
  qed simp
  moreover have "queue_rep ?e0 no_history" "ae_enabled ?e0"
    by (simp_all add: queue_rep_def no_history_def start_extractor_def new_extractor_def)
  ultimately show ?thesis unfolding Let_def by blast
qed

subsection \<open>What the workers see\<close>

lemma checks_ignore_body:
  "check_path_traversal mgr path query body = check_path_traversal mgr path query ''''"
  "check_sql_injection mgr path query body = check_sql_injection mgr path query ''''"
  by (simp_all add: check_path_traversal_def check_sql_injection_def path_detect_request_def
      sql_detect_request_def scan_body_def has_body_method_def)

text \<open>
  The body of a request never matters: both checks run the detectors with the method \<open>GET\<close>, under
  which no detector looks at the body, so the results of a request are those of the same request
  without its body.
\<close>

theorem extraction_ignores_body:
  "extract_results mgr now (req\<lparr>er_Body := body\<rparr>) = extract_results mgr now (req\<lparr>er_Body := ''''\<rparr>)"
proof -
  have same: "extract_result_of a now (req\<lparr>er_Body := b\<rparr>) = extract_result_of a now req" for a b
    by (rule ext) (simp add: extract_result_of_def)
  have "extract_results mgr now (req\<lparr>er_Body := b\<rparr>) =
      (case check_path_traversal mgr (er_Path req) (er_Query req) '''' of
         None \<Rightarrow> [] | Some (_, _, _, desc) \<Rightarrow> [extract_result_of ''path_traversal'' now req desc]) @
      (case check_sql_injection mgr (er_Path req) (er_Query req) '''' of
         None \<Rightarrow> [] | Some (_, _, _, desc) \<Rightarrow> [extract_result_of ''sql_injection'' now req desc])" for b
    unfolding extract_results_def Let_def same
    by (subst checks_ignore_body(1), subst checks_ignore_body(2)) simp
  then show ?thesis by simp
qed

end
