(* ===== verification/ApiSchema.thy ===== *)
theory ApiSchema
  imports SqlTable Http
begin

text \<open>
  The API schemas (\<open>internal/apischema/validator.go\<close>): the required fields of the requests to
  the paths a schema names.

  \<^item> \<open>schema_manager\<close> is the struct; the table is a \<open>cached_table\<close>, and every row keeps its parsed
    form, the required fields by path and method.
  \<^item> \<open>encoding/json\<close> is an argument: \<open>unmarshal s\<close> is the object \<open>json.Unmarshal\<close> puts into a
    \<open>map[string]interface{}\<close>, with distinct keys in the order Go visits them, and \<open>None\<close> when the
    map stays nil (a syntax error, or a text that is not an object).
\<close>

datatype json = JNull | JBool bool | JNumber string | JString string | JArray "json list"
  | JObject "(string \<times> json) list"

type_synonym unmarshal = "string \<Rightarrow> (string \<times> json) list option"

fun as_object :: "json \<Rightarrow> (string \<times> json) list option" where
  "as_object (JObject kvs) = Some kvs"
| "as_object _ = None"

fun as_array :: "json \<Rightarrow> json list option" where
  "as_array (JArray js) = Some js"
| "as_array _ = None"

fun is_true :: "json option \<Rightarrow> bool" where
  "is_true (Some (JBool b)) = b"
| "is_true _ = False"

fun as_string :: "json option \<Rightarrow> string option" where
  "as_string (Some (JString s)) = Some s"
| "as_string _ = None"

subsection \<open>Parsing a specification\<close>

text \<open>One element of \<open>parameters\<close>: its name, when it is required.\<close>

definition required_parameter :: "json \<Rightarrow> string option" where
  "required_parameter p =
     (case as_object p of
        None \<Rightarrow> None
      | Some pm \<Rightarrow> if is_true (map_of pm ''required'') then as_string (map_of pm ''name'') else None)"

definition required_fields :: "(string \<times> json) list \<Rightarrow> string list" where
  "required_fields methodMap =
     (case map_of methodMap ''parameters'' of
        Some (JArray params) \<Rightarrow> List.map_filter required_parameter params
      | _ \<Rightarrow> []) @
     (case map_of methodMap ''requestBody'' of
        Some (JObject body) \<Rightarrow> if is_true (map_of body ''required'') then [''requestBody''] else []
      | _ \<Rightarrow> [])"

type_synonym parsed_spec = "string \<rightharpoonup> string \<rightharpoonup> string list"

definition parse_methods :: "(string \<times> json) list \<Rightarrow> string \<rightharpoonup> string list" where
  "parse_methods pathMap =
     fold (\<lambda>(meth, methodObj) ms.
         case as_object methodObj of
           None \<Rightarrow> ms
         | Some methodMap \<Rightarrow> ms(to_upper meth \<mapsto> required_fields methodMap))
       pathMap Map.empty"

definition parse_spec :: "unmarshal \<Rightarrow> string \<Rightarrow> parsed_spec" where
  "parse_spec unmarshal spec =
     (case unmarshal spec of
        None \<Rightarrow> Map.empty
      | Some raw \<Rightarrow>
          (case map_of raw ''paths'' of
             Some (JObject paths) \<Rightarrow>
               fold (\<lambda>(path, pathObj) specs.
                   case as_object pathObj of
                     None \<Rightarrow> specs
                   | Some pathMap \<Rightarrow> specs(path \<mapsto> parse_methods pathMap))
                 paths Map.empty
           | _ \<Rightarrow> Map.empty))"

subsection \<open>The manager\<close>

record schema_row =
  sr_id :: nat
  sr_name :: string
  sr_spec :: string
  sr_schema_type :: string
  sr_enabled :: int
  sr_created_at :: int

record api_schema =
  as_ID :: nat
  as_Name :: string
  as_Spec :: string
  as_SchemaType :: string
  as_Enabled :: bool
  as_CreatedAt :: int
  as_parsed :: parsed_spec

record validation_result =
  vr_Valid :: bool
  vr_Errors :: "string list"
  vr_Path :: string
  vr_Method :: string

record schema_manager =
  sm_has_db :: bool
  sm_table :: "schema_row sql_table"
  sm_schemas :: "api_schema list"

text \<open>\<open>builtinSchemas\<close>.\<close>

definition builtin_schemas :: \<open>(string \<times> string) list\<close> where
  \<open>builtin_schemas =
    [((utf8 [233, 128, 154, 231, 148, 168, 231, 148, 168, 230, 136, 183] @ ''API''),
      ''{"paths":{"/api/users":{"post":{"parameters":[{"name":"username","required":true},'' @
      ''{"name":"email","required":true},{"name":"password","required":true}]},'' @
      ''"put":{"parameters":[{"name":"id","required":true}]}},'' @
      ''"/api/users/login":{"post":{"parameters":[{"name":"username","required":true},'' @
      ''{"name":"password","required":true}]}}}}''),
     ((utf8 [233, 128, 154, 231, 148, 168, 232, 174, 162, 229, 141, 149] @ ''API''),
      ''{"paths":{"/api/orders":{"post":{"parameters":[{"name":"user_id","required":true},'' @
      ''{"name":"amount","required":true},{"name":"currency","required":true}]},'' @
      ''"put":{"parameters":[{"name":"id","required":true},{"name":"status","required":true}]}},'' @
      ''"/api/orders/{id}":{"get":{"parameters":[{"name":"id","required":true}]}}}}''),
     ((utf8 [233, 128, 154, 231, 148, 168, 230, 150, 135, 228, 187, 182, 228, 184, 138, 228, 188, 160] @ ''API''),
      ''{"paths":{"/api/upload":{"post":{"requestBody":{"required":true},'' @
      ''"parameters":[{"name":"type","required":true}]}},'' @
      ''"/api/files/{id}":{"get":{"parameters":[{"name":"id","required":true}]},'' @
      ''"delete":{"parameters":[{"name":"id","required":true}]}}}}''),
     ((utf8 [233, 128, 154, 231, 148, 168, 230, 148, 175, 228, 187, 152] @ ''API''),
      ''{"paths":{"/api/payments":{"post":{"parameters":[{"name":"order_id","required":true},'' @
      ''{"name":"amount","required":true},{"name":"method","required":true}]},'' @
      ''"get":{"parameters":[{"name":"order_id","required":true}]}},'' @
      ''"/api/payments/refund":{"post":{"parameters":[{"name":"payment_id","required":true},'' @
      ''{"name":"reason","required":true}]}}}}''),
     ((utf8 [233, 128, 154, 231, 148, 168, 229, 129, 165, 229, 186, 183, 230, 163, 128, 230, 159, 165] @ ''API''),
      ''{"paths":{"/health":{"get":{}},"/ready":{"get":{}},"/api/status":{"get":{}}}}'')]\<close>

definition schema_key :: "schema_row \<Rightarrow> string \<times> string" where
  "schema_key r = (sr_name r, sr_schema_type r)"

definition schema_row_of :: "string \<Rightarrow> string \<Rightarrow> string \<Rightarrow> bool \<Rightarrow> int \<Rightarrow> nat \<Rightarrow> schema_row" where
  "schema_row_of name spec type enabled now i =
     \<lparr>sr_id = i, sr_name = name, sr_spec = spec, sr_schema_type = type, sr_enabled = sql_bool enabled,
      sr_created_at = now\<rparr>"

text \<open>The built-in rows are inserted once, in one transaction.\<close>

definition init_builtin_schemas :: "bool \<Rightarrow> bool \<Rightarrow> int \<Rightarrow> schema_row sql_table \<Rightarrow> schema_row sql_table" where
  "init_builtin_schemas count_ok commit_ok now t =
     (if \<not> count_ok \<or> list_ex (\<lambda>r. sr_schema_type r = ''builtin'') (t_rows t) \<or> \<not> commit_ok then t
      else fold (\<lambda>(name, spec). sql_insert_ignore schema_key (schema_row_of name spec ''builtin'' True now))
             builtin_schemas t)"

definition scan_schema_row :: "schema_row \<Rightarrow> api_schema" where
  "scan_schema_row r =
     \<lparr>as_ID = sr_id r, as_Name = sr_name r, as_Spec = sr_spec r, as_SchemaType = sr_schema_type r,
      as_Enabled = (sr_enabled r = 1), as_CreatedAt = sr_created_at r, as_parsed = Map.empty\<rparr>"

definition build_schemas :: "unmarshal \<Rightarrow> schema_row sql_table \<Rightarrow> api_schema list" where
  "build_schemas unmarshal t =
     map (\<lambda>r. (scan_schema_row r)\<lparr>as_parsed := parse_spec unmarshal (sr_spec r)\<rparr>) (t_rows t)"

definition load_schemas :: "unmarshal \<Rightarrow> bool \<Rightarrow> schema_manager \<Rightarrow> schema_manager" where
  "load_schemas unmarshal ok m =
     (if \<not> ok then m else m\<lparr>sm_schemas := build_schemas unmarshal (sm_table m)\<rparr>)"

definition new_schema_manager ::
  "unmarshal \<Rightarrow> bool \<Rightarrow> bool \<Rightarrow> bool \<Rightarrow> int \<Rightarrow> schema_row sql_table option \<Rightarrow> schema_manager" where
  "new_schema_manager unmarshal count_ok commit_ok ok now db =
     (case db of
        None \<Rightarrow> \<lparr>sm_has_db = False, sm_table = empty_table, sm_schemas = []\<rparr>
      | Some t \<Rightarrow>
          load_schemas unmarshal ok
            \<lparr>sm_has_db = True, sm_table = init_builtin_schemas count_ok commit_ok now t, sm_schemas = []\<rparr>)"

definition reload_schemas :: "unmarshal \<Rightarrow> bool \<Rightarrow> schema_manager \<Rightarrow> schema_manager" where
  "reload_schemas unmarshal ok m = (if sm_has_db m then load_schemas unmarshal ok m else m)"

subsection \<open>Validation\<close>

definition missing_body :: string where
  "missing_body = (utf8 [231, 188, 186, 229, 176, 145, 229, 191, 133, 233, 156, 128, 231, 154, 132, 232, 175, 183, 230, 177, 130, 228, 189, 147] @ ''(requestBody)'')"

definition missing_field :: "string \<Rightarrow> string" where
  "missing_field f = (utf8 [231, 188, 186, 229, 176, 145, 229, 191, 133, 233, 156, 128, 229, 173, 151, 230, 174, 181] @ '': '') @ f"

definition undefined_path :: string where
  "undefined_path = (utf8 [232, 183, 175, 229, 190, 132, 230, 156, 170, 229, 156, 168] @ ''Schema'' @ utf8 [228, 184, 173, 229, 174, 154, 228, 185, 137])"

text \<open>What one required field adds to the errors.\<close>

definition field_error :: "string \<Rightarrow> (string \<times> json) list option \<Rightarrow> string \<Rightarrow> string option" where
  "field_error body bodyMap f =
     (if f = ''requestBody'' then (if body = '''' then Some missing_body else None)
      else case bodyMap of
             None \<Rightarrow> None
           | Some kvs \<Rightarrow> if map_of kvs f = None then Some (missing_field f) else None)"

definition schema_errors :: "unmarshal \<Rightarrow> string \<Rightarrow> string \<Rightarrow> string \<Rightarrow> api_schema \<Rightarrow> string list" where
  "schema_errors unmarshal meth path body s =
     (case as_parsed s path of
        None \<Rightarrow> []
      | Some methods \<Rightarrow>
          (case methods (to_upper meth) of
             None \<Rightarrow> []
           | Some req \<Rightarrow>
               let bodyMap = (if body = '''' then None else unmarshal body)
               in List.map_filter (field_error body bodyMap) req))"

definition validate_request :: "unmarshal \<Rightarrow> string \<Rightarrow> string \<Rightarrow> string \<Rightarrow> schema_manager \<Rightarrow> validation_result" where
  "validate_request unmarshal meth path body m =
     (let enabled = filter as_Enabled (sm_schemas m);
          pathFound = list_ex (\<lambda>s. as_parsed s path \<noteq> None) enabled;
          errors = concat (map (schema_errors unmarshal meth path body) enabled)
      in \<lparr>vr_Valid = (\<not> pathFound \<or> errors = []),
          vr_Errors = errors @ (if pathFound then [] else [undefined_path]), vr_Path = path, vr_Method = meth\<rparr>)"

subsection \<open>Operations\<close>

definition put_schemas :: "schema_row sql_table \<Rightarrow> schema_manager \<Rightarrow> schema_manager" where
  "put_schemas t m = m\<lparr>sm_table := t\<rparr>"

definition no_schema_db :: string where
  "no_schema_db = ''database not initialized''"

definition schema_exec ::
  "unmarshal \<Rightarrow> bool \<Rightarrow> string option \<Rightarrow> (schema_row sql_table \<Rightarrow> string + schema_row sql_table)
   \<Rightarrow> schema_manager \<Rightarrow> (string + unit) \<times> schema_manager" where
  "schema_exec unmarshal ok fail stmt m =
     (if \<not> sm_has_db m then (Inl no_schema_db, m)
      else exec_reload sm_table put_schemas (load_schemas unmarshal) ok (try_stmt fail stmt) m)"

definition add_schema where
  "add_schema unmarshal ok fail now name spec enabled =
     schema_exec unmarshal ok fail (sql_insert schema_key (schema_row_of name spec ''custom'' enabled now))"

definition update_schema where
  "update_schema unmarshal ok fail rid name spec enabled =
     schema_exec unmarshal ok fail
       (\<lambda>t. case sql_update_unique schema_key (\<lambda>r. sr_id r = rid \<and> sr_schema_type r = ''custom'')
              (\<lambda>r. r\<lparr>sr_name := name, sr_spec := spec, sr_enabled := sql_bool enabled\<rparr>) t of
              Inl err \<Rightarrow> Inl err
            | Inr (t', _) \<Rightarrow> Inr t')"

definition no_such_schema :: string where
  "no_such_schema = (utf8 [230, 151, 160, 230, 179, 149, 229, 136, 160, 233, 153, 164, 229, 134, 133, 231, 189, 174] @ ''Schema'' @ utf8 [230, 136, 150] @ ''Schema'' @ utf8 [228, 184, 141, 229, 173, 152, 229, 156, 168])"

definition delete_schema where
  "delete_schema unmarshal ok fail rid =
     schema_exec unmarshal ok fail
       (affecting no_such_schema (sql_delete (\<lambda>r. sr_id r = rid \<and> sr_schema_type r = ''custom'')))"

definition toggle_schema where
  "toggle_schema unmarshal ok fail rid enabled =
     schema_exec unmarshal ok fail
       (\<lambda>t. Inr (fst (sql_update (\<lambda>r. sr_id r = rid) (\<lambda>r. r\<lparr>sr_enabled := sql_bool enabled\<rparr>) t)))"

text \<open>\<open>ListSchemas\<close>: by schema type, the custom ones first, then by ID (the order of the table).\<close>

definition list_schemas :: "schema_manager \<Rightarrow> api_schema list" where
  "list_schemas m =
     (if \<not> sm_has_db m then []
      else map scan_schema_row (filter (\<lambda>r. sr_schema_type r \<noteq> ''builtin'') (t_rows (sm_table m)) @
                                filter (\<lambda>r. sr_schema_type r = ''builtin'') (t_rows (sm_table m))))"

interpretation schemas: cached_table sm_table sm_schemas "build_schemas unmarshal" put_schemas
  "load_schemas unmarshal" for unmarshal
  by unfold_locales (auto simp: put_schemas_def load_schemas_def)

lemma schema_exec_fresh:
  "schemas.fresh u m \<Longrightarrow> schemas.fresh u (snd (schema_exec u True fail stmt m))"
  using schemas.exec_fresh[of u m "try_stmt fail stmt"] by (simp add: schema_exec_def)

subsection \<open>What validation requires\<close>

text \<open>The fields the enabled rows of the table require of a request.\<close>

definition required_of :: "unmarshal \<Rightarrow> string \<Rightarrow> string \<Rightarrow> schema_row sql_table \<Rightarrow> string set" where
  "required_of unmarshal meth path t =
     {f. \<exists>r \<in> set (t_rows t). \<exists>methods req. sr_enabled r = 1 \<and>
           parse_spec unmarshal (sr_spec r) path = Some methods \<and> methods (to_upper meth) = Some req \<and>
           f \<in> set req}"

lemma map_filter_empty: "List.map_filter f xs = [] \<longleftrightarrow> (\<forall>x \<in> set xs. f x = None)"
  by (induction xs) (auto simp: List.map_filter_simps split: option.split)

lemma schema_errors_empty:
  "schema_errors unmarshal meth path body s = [] \<longleftrightarrow>
   (\<forall>methods req. as_parsed s path = Some methods \<longrightarrow> methods (to_upper meth) = Some req \<longrightarrow>
      (\<forall>f \<in> set req. field_error body (if body = '''' then None else unmarshal body) f = None))"
  by (auto simp: schema_errors_def map_filter_empty Let_def split: option.split)

lemma validate_valid:
  "vr_Valid (validate_request unmarshal meth path body m) \<longleftrightarrow>
   (\<forall>s \<in> set (sm_schemas m). as_Enabled s \<longrightarrow> schema_errors unmarshal meth path body s = [])"
proof -
  have "schema_errors unmarshal meth path body s = []" if "as_parsed s path = None" for s
    using that by (simp add: schema_errors_def)
  then show ?thesis
    by (auto simp: validate_request_def Let_def list_ex_iff)
qed

text \<open>
  The verdict of the schema check, from the table: a request is valid exactly when every field
  the enabled schemas require of its method and (literal) path is satisfied. A required
  request body needs a body that is not empty; any other required field needs to be a key of the
  body, but only when the body is a JSON object. A request whose body is empty or is not a JSON
  object (a form, a JSON array, a query string only) is asked for no field at all.
\<close>

theorem schema_verdict:
  assumes "schemas.fresh unmarshal m"
  shows "vr_Valid (validate_request unmarshal meth path body m) \<longleftrightarrow>
    (\<forall>f \<in> required_of unmarshal meth path (sm_table m).
       if f = ''requestBody'' then body \<noteq> ''''
       else body = '''' \<or> (\<forall>kvs. unmarshal body = Some kvs \<longrightarrow> f \<in> fst ` set kvs))"
proof -
  have m: "sm_schemas m = build_schemas unmarshal (sm_table m)"
    using assms by (simp add: schemas.fresh_def)
  have "field_error body (if body = '''' then None else unmarshal body) f = None \<longleftrightarrow>
      (if f = ''requestBody'' then body \<noteq> ''''
       else body = '''' \<or> (\<forall>kvs. unmarshal body = Some kvs \<longrightarrow> f \<in> fst ` set kvs))" for f
    by (auto simp: field_error_def map_of_eq_None_iff split: option.split)
  then show ?thesis
    unfolding validate_valid m build_schemas_def schema_errors_empty required_of_def
    by (fastforce simp: scan_schema_row_def)
qed

definition sample_spec :: unmarshal where
  "sample_spec s =
     (if s = ''spec'' then
        Some [(''paths'', JObject [(''/pay'', JObject [(''post'', JObject [(''parameters'',
          JArray [JObject [(''name'', JString ''amount''), (''required'', JBool True)]])])])])]
      else None)"

definition sample_schemas :: schema_manager where
  "sample_schemas = load_schemas sample_spec True
     \<lparr>sm_has_db = True, sm_table = \<lparr>t_rows = [schema_row_of ''pay'' ''spec'' ''custom'' True 0 1], t_next = 2\<rparr>,
      sm_schemas = []\<rparr>"

text \<open>A form without the required field passes.\<close>

lemma schema_verdict_witness:
  "''amount'' \<in> required_of sample_spec ''post'' ''/pay'' (sm_table sample_schemas) \<and>
   vr_Valid (validate_request sample_spec ''post'' ''/pay'' ''x=1'' sample_schemas)"
proof -
  have up: "to_upper ''post'' = ''POST''" by code_simp
  have parsed: "parse_spec sample_spec ''spec'' = [''/pay'' \<mapsto> [''POST'' \<mapsto> [''amount'']]]"
    by (simp add: parse_spec_def sample_spec_def parse_methods_def required_fields_def
        required_parameter_def List.map_filter_simps up)
  have req: "required_of sample_spec ''post'' ''/pay'' (sm_table sample_schemas) = {''amount''}"
    by (auto simp: required_of_def sample_schemas_def load_schemas_def schema_row_of_def parsed up)
  have "schemas.fresh sample_spec sample_schemas"
    unfolding sample_schemas_def by (rule schemas.load_fresh)
  from schema_verdict[OF this, of "''post''" "''/pay''" "''x=1''"] show ?thesis
    unfolding req by (simp add: sample_spec_def)
qed

end
