(* ===== verification/Bot.thy ===== *)
theory Bot
  imports SqlTable
begin

text \<open>
  \<open>internal/domain/security/bot/bot.go\<close>: the classification of clients by their user agent and
  three header flags, the policy per category, the built-in bots with their overrides, and the
  custom bots, each with its table of the database.

  \<^item> Categories and policy actions are strings, as in the code, since rows of the database may
    hold any. \<open>compile\<close> is the regular-expression compiler; the text of its errors is not kept.
  \<^item> \<open>fail\<close> is an error of the statement from outside the model, \<open>ok\<close> says whether the
    query of a reload works. The float scores are reals: no sum of the four weights that is
    compared with 0.5 is rounded across it.

  Proved: each of the three caches equals what its table gives, kept by every operation; when a
  request is blocked; built-in bots win over custom ones.
\<close>

subsection \<open>The code\<close>

definition CategorySearchEngine :: string where "CategorySearchEngine = ''search_engine''"
definition CategorySocialCrawler :: string where "CategorySocialCrawler = ''social_crawler''"
definition CategoryMonitorBot :: string where "CategoryMonitorBot = ''monitor''"
definition CategoryScraper :: string where "CategoryScraper = ''scraper''"
definition CategoryMalicious :: string where "CategoryMalicious = ''malicious''"
definition CategoryUnknown :: string where "CategoryUnknown = ''unknown''"
definition CategoryHuman :: string where "CategoryHuman = ''human''"

definition PolicyBlock :: string where "PolicyBlock = ''block''"
definition PolicyRecord :: string where "PolicyRecord = ''record''"
definition PolicyAllow :: string where "PolicyAllow = ''allow''"

lemmas category_defs = CategorySearchEngine_def CategorySocialCrawler_def CategoryMonitorBot_def
  CategoryScraper_def CategoryMalicious_def CategoryUnknown_def CategoryHuman_def

lemmas policy_defs = PolicyBlock_def PolicyRecord_def PolicyAllow_def

definition all_categories :: "string list" where
  "all_categories =
     [CategorySearchEngine, CategorySocialCrawler, CategoryMonitorBot, CategoryScraper,
      CategoryMalicious, CategoryUnknown, CategoryHuman]"

definition default_policies :: "(string \<times> string) list" where
  "default_policies =
     [(CategorySearchEngine, PolicyAllow), (CategorySocialCrawler, PolicyAllow),
      (CategoryMonitorBot, PolicyAllow), (CategoryScraper, PolicyRecord),
      (CategoryMalicious, PolicyBlock), (CategoryUnknown, PolicyRecord), (CategoryHuman, PolicyAllow)]"

record known_bot =
  kb_name :: string
  kb_category :: string
  kb_uaPattern :: go_regexp
  kb_pattern :: string
  kb_whitelisted :: bool
  kb_enabled :: bool

record known_bot_override =
  ov_whitelisted :: "bool option"
  ov_enabled :: "bool option"

record bot_row =
  br_id :: nat
  br_name :: string
  br_category :: string
  br_ua_pattern :: string
  br_whitelisted :: int
  br_enabled :: int

record override_row =
  or_name :: string
  or_whitelisted :: "int option"
  or_enabled :: "int option"

record bot_db =
  bd_rules :: "bot_row sql_table"
  bd_overrides :: "override_row list"
  bd_policy :: "(string \<times> string) list"

record bot_manager =
  bm_has_db :: bool
  bm_db :: bot_db
  bm_knownBots :: "known_bot list"
  bm_customBots :: "known_bot list"
  bm_overrides :: "string \<rightharpoonup> known_bot_override"
  bm_policies :: "string \<rightharpoonup> string"

definition default_known_bots :: "(string \<times> string \<times> string \<times> bool) list" where
  "default_known_bots =
     [(''Googlebot'', CategorySearchEngine, ''(?i)googlebot'', True),
      (''Bingbot'', CategorySearchEngine, ''(?i)bingbot'', True),
      (''Baiduspider'', CategorySearchEngine, ''(?i)baiduspider'', True),
      (''YandexBot'', CategorySearchEngine, ''(?i)yandexbot'', True),
      (''DuckDuckBot'', CategorySearchEngine, ''(?i)duckduckbot'', True),
      (''Sogou'', CategorySearchEngine, ''(?i)sogou'', True),
      (''Yahoo Slurp'', CategorySearchEngine, ''(?i)slurp'', True),
      (''Applebot'', CategorySearchEngine, ''(?i)applebot'', True),
      (''Facebook'', CategorySocialCrawler, ''(?i)facebookexternalhit'', True),
      (''Twitter'', CategorySocialCrawler, ''(?i)twitterbot'', True),
      (''LinkedIn'', CategorySocialCrawler, ''(?i)linkedinbot'', True),
      (''Telegram'', CategorySocialCrawler, ''(?i)telegrambot'', True),
      (''WhatsApp'', CategorySocialCrawler, ''(?i)whatsapp'', True),
      (''Discord'', CategorySocialCrawler, ''(?i)discordbot'', True),
      (''Pingdom'', CategoryMonitorBot, ''(?i)pingdom'', True),
      (''UptimeRobot'', CategoryMonitorBot, ''(?i)uptimerobot'', True),
      (''NewRelic'', CategoryMonitorBot, ''(?i)newrelicpinger'', True),
      (''Datadog'', CategoryMonitorBot, ''(?i)datadog'', True),
      (''Prometheus'', CategoryMonitorBot, ''(?i)prometheus'', True),
      (''Grafana'', CategoryMonitorBot, ''(?i)grafana'', True),
      (''Zabbix'', CategoryMonitorBot, ''(?i)zabbix'', True),
      (''curl'', CategoryScraper, ''(?i)^curl/'', False),
      (''wget'', CategoryScraper, ''(?i)^wget/'', False),
      (''python-requests'', CategoryScraper, ''(?i)python-requests'', False),
      (''python-urllib'', CategoryScraper, ''(?i)python-urllib'', False),
      (''Go-http-client'', CategoryScraper, ''(?i)go-http-client'', False),
      (''Java/http'', CategoryScraper, rx ''(?i)java/~d+~.~d+'', False),
      (''Apache-HttpClient'', CategoryScraper, ''(?i)apache-httpclient'', False),
      (''node-fetch'', CategoryScraper, ''(?i)node-fetch'', False),
      (''axios'', CategoryScraper, ''(?i)axios'', False),
      (''Nikto'', CategoryMalicious, ''(?i)nikto'', False),
      (''Nmap'', CategoryMalicious, ''(?i)nmap'', False),
      (''SQLMap'', CategoryMalicious, ''(?i)sqlmap'', False),
      (''DirBuster'', CategoryMalicious, ''(?i)dirbuster'', False),
      (''Gobuster'', CategoryMalicious, ''(?i)gobuster'', False),
      (''WPScan'', CategoryMalicious, ''(?i)wpscan'', False),
      (''Masscan'', CategoryMalicious, ''(?i)masscan'', False),
      (''ZAP'', CategoryMalicious, rx ''(?i)(?:owasp[~s_-]*zap|zaproxy)'', False),
      (''BurpSuite'', CategoryMalicious, rx ''(?i)burp[~s_-]*suite'', False),
      (''Hydra'', CategoryMalicious, ''(?i)hydra'', False)]"

definition init_known_bots :: "compiler \<Rightarrow> known_bot list" where
  "init_known_bots compile =
     List.map_filter (\<lambda>(name, category, pattern, whitelisted).
         map_option (\<lambda>re. \<lparr>kb_name = name, kb_category = category, kb_uaPattern = re, kb_pattern = pattern,
                           kb_whitelisted = whitelisted, kb_enabled = True\<rparr>)
           (compile pattern))
       default_known_bots"

definition scan_override :: "override_row \<Rightarrow> known_bot_override" where
  "scan_override r =
     \<lparr>ov_whitelisted = map_option (\<lambda>v. v = 1) (or_whitelisted r),
      ov_enabled = map_option (\<lambda>v. v = 1) (or_enabled r)\<rparr>"

definition override_map :: "override_row list \<Rightarrow> string \<rightharpoonup> known_bot_override" where
  "override_map rows = foldl (\<lambda>ovs r. ovs(or_name r \<mapsto> scan_override r)) Map.empty rows"

text \<open>First the defaults of the table of built-in bots, then the override.\<close>

definition restore_defaults :: "known_bot \<Rightarrow> known_bot" where
  "restore_defaults b =
     (case find (\<lambda>(name, _). name = kb_name b) default_known_bots of
        None \<Rightarrow> b
      | Some (_, _, _, whitelisted) \<Rightarrow> b\<lparr>kb_whitelisted := whitelisted, kb_enabled := True\<rparr>)"

definition override_flags :: "known_bot_override \<Rightarrow> known_bot \<Rightarrow> known_bot" where
  "override_flags ov b =
     b\<lparr>kb_whitelisted := (case ov_whitelisted ov of None \<Rightarrow> kb_whitelisted b | Some v \<Rightarrow> v),
       kb_enabled := (case ov_enabled ov of None \<Rightarrow> kb_enabled b | Some v \<Rightarrow> v)\<rparr>"

definition apply_override :: "(string \<rightharpoonup> known_bot_override) \<Rightarrow> known_bot \<Rightarrow> known_bot" where
  "apply_override ovs b =
     (case ovs (kb_name b) of
        None \<Rightarrow> restore_defaults b
      | Some ov \<Rightarrow> override_flags ov (restore_defaults b))"

definition load_overrides :: "bool \<Rightarrow> bot_manager \<Rightarrow> bot_manager" where
  "load_overrides ok m =
     (if \<not> ok then m
      else let ovs = override_map (bd_overrides (bm_db m)) in
           m\<lparr>bm_overrides := ovs, bm_knownBots := map (apply_override ovs) (bm_knownBots m)\<rparr>)"

definition load_policies :: "bool \<Rightarrow> bot_manager \<Rightarrow> bot_manager" where
  "load_policies ok m =
     (if \<not> ok then m
      else m\<lparr>bm_policies := (bm_policies m ++ map_of default_policies) ++
               foldl (\<lambda>p (cat, action). p(cat \<mapsto> action)) Map.empty (bd_policy (bm_db m))\<rparr>)"

definition load_bot_row :: "compiler \<Rightarrow> bot_row \<Rightarrow> known_bot option" where
  "load_bot_row compile r =
     map_option (\<lambda>re. \<lparr>kb_name = br_name r, kb_category = br_category r, kb_uaPattern = re,
                       kb_pattern = br_ua_pattern r, kb_whitelisted = (br_whitelisted r = 1),
                       kb_enabled = (br_enabled r = 1)\<rparr>)
       (compile (br_ua_pattern r))"

definition build_custom_bots :: "compiler \<Rightarrow> bot_row sql_table \<Rightarrow> known_bot list" where
  "build_custom_bots compile t = List.map_filter (load_bot_row compile) (t_rows t)"

definition load_custom_bots :: "compiler \<Rightarrow> bool \<Rightarrow> bot_manager \<Rightarrow> bot_manager" where
  "load_custom_bots compile ok m =
     (if \<not> ok then m else m\<lparr>bm_customBots := build_custom_bots compile (bd_rules (bm_db m))\<rparr>)"

definition empty_bot_db :: bot_db where
  "empty_bot_db = \<lparr>bd_rules = empty_table, bd_overrides = [], bd_policy = []\<rparr>"

definition new_bot_manager :: "compiler \<Rightarrow> bool \<Rightarrow> bot_db option \<Rightarrow> bot_manager" where
  "new_bot_manager compile ok db =
     (let m = \<lparr>bm_has_db = (db \<noteq> None), bm_db = (case db of None \<Rightarrow> empty_bot_db | Some d \<Rightarrow> d),
               bm_knownBots = init_known_bots compile, bm_customBots = [], bm_overrides = Map.empty,
               bm_policies = map_of default_policies\<rparr>
      in if db = None then m
         else load_custom_bots compile ok (load_policies ok (load_overrides ok m)))"

definition reload_bots :: "compiler \<Rightarrow> bool \<Rightarrow> bot_manager \<Rightarrow> bot_manager" where
  "reload_bots compile ok m =
     (if \<not> bm_has_db m then m else load_custom_bots compile ok (load_policies ok (load_overrides ok m)))"

definition validate_pattern :: "compiler \<Rightarrow> string \<Rightarrow> bool" where
  "validate_pattern compile pattern \<longleftrightarrow> compile pattern \<noteq> None"

definition validate_category :: "string \<Rightarrow> bool" where
  "validate_category category \<longleftrightarrow> category \<in> set all_categories"

record classify_result =
  cl_IsBot :: bool
  cl_Category :: string
  cl_Name :: string
  cl_Confidence :: real
  cl_IsWhitelisted :: bool
  cl_Reason :: string
  cl_Score :: real

definition suspicious_ua_keywords :: "string list" where
  "suspicious_ua_keywords =
     [''bot'', ''crawl'', ''spider'', ''scraper'', ''fetch'', ''http client'', ''python'', ''perl'', ''ruby'',
      ''java/'', ''go-http'', ''node-fetch'', ''axios'', ''requests/'']"

definition is_bot_like_ua :: "string \<Rightarrow> bool" where
  "is_bot_like_ua ua = list_ex (str_contains (to_lower ua)) suspicious_ua_keywords"

definition heuristic_checks :: "string \<Rightarrow> bool \<Rightarrow> bool \<Rightarrow> bool \<Rightarrow> (bool \<times> real \<times> string) list" where
  "heuristic_checks ua hasCookies hasReferer hasAcceptLang =
     [(\<not> hasCookies, 3 / 10, (utf8 [230, 151, 160] @ ''Cookie'')), (\<not> hasReferer, 2 / 10, (utf8 [230, 151, 160] @ ''Referer'')),
      (\<not> hasAcceptLang, 15 / 100, (utf8 [230, 151, 160] @ ''Accept-Language'')), (is_bot_like_ua ua, 3 / 10, (''UA'' @ utf8 [231, 137, 185, 229, 190, 129, 229, 143, 175, 231, 150, 145]))]"

definition classify :: "string \<Rightarrow> bool \<Rightarrow> bool \<Rightarrow> bool \<Rightarrow> bot_manager \<Rightarrow> classify_result" where
  "classify ua hasCookies hasReferer hasAcceptLang m =
     (if ua = '''' then
        \<lparr>cl_IsBot = True, cl_Category = CategoryMalicious, cl_Name = ''Empty-UA'',
         cl_Confidence = 95 / 100, cl_IsWhitelisted = False, cl_Reason = (utf8 [231, 169, 186] @ ''User-Agent''),
         cl_Score = 95 / 100\<rparr>
      else case find (\<lambda>kb. kb_enabled kb \<and> re_match (kb_uaPattern kb) ua) (bm_knownBots m @ bm_customBots m) of
        Some kb \<Rightarrow>
          \<lparr>cl_IsBot = True, cl_Category = kb_category kb, cl_Name = kb_name kb,
           cl_Confidence = 9 / 10, cl_IsWhitelisted = kb_whitelisted kb,
           cl_Reason = (''UA'' @ utf8 [229, 140, 185, 233, 133, 141] @ '': '') @ kb_name kb, cl_Score = 9 / 10\<rparr>
      | None \<Rightarrow>
          let checks = filter fst (heuristic_checks ua hasCookies hasReferer hasAcceptLang);
              score = sum_list (map (\<lambda>(_, w, _). w) checks);
              isBot = (score \<ge> 5 / 10)
          in \<lparr>cl_IsBot = isBot, cl_Category = (if isBot then CategoryScraper else CategoryHuman), cl_Name = '''',
              cl_Confidence = score, cl_IsWhitelisted = False,
              cl_Reason = join_with '', '' (map (\<lambda>(_, _, r). r) checks), cl_Score = score\<rparr>)"

definition should_block :: "classify_result \<Rightarrow> bot_manager \<Rightarrow> bool" where
  "should_block result m =
     (if \<not> cl_IsBot result then False
      else if cl_IsWhitelisted result then False
      else map_get PolicyRecord (bm_policies m) (cl_Category result) = PolicyBlock)"

subsection \<open>Custom rules\<close>

definition bot_table :: "bot_manager \<Rightarrow> bot_row sql_table" where
  "bot_table m = bd_rules (bm_db m)"

definition put_bots :: "bot_row sql_table \<Rightarrow> bot_manager \<Rightarrow> bot_manager" where
  "put_bots t m = m\<lparr>bm_db := (bm_db m)\<lparr>bd_rules := t\<rparr>\<rparr>"

definition bot_exec ::
  "compiler \<Rightarrow> bool \<Rightarrow> string option \<Rightarrow> (bot_row sql_table \<Rightarrow> string + bot_row sql_table) \<Rightarrow> bot_manager
   \<Rightarrow> (string + unit) \<times> bot_manager" where
  "bot_exec compile ok fail stmt m =
     exec_reload bot_table put_bots (load_custom_bots compile) ok (try_stmt fail stmt) m"

definition list_bot_rules :: "bot_manager \<Rightarrow> bot_row list" where
  "list_bot_rules m = (if \<not> bm_has_db m then [] else t_rows (bot_table m))"

definition validate_rule :: "compiler \<Rightarrow> string \<Rightarrow> string \<Rightarrow> string \<Rightarrow> string option" where
  "validate_rule compile name category uaPattern =
     (if \<not> validate_pattern compile uaPattern then Some (utf8 [230, 173, 163, 229, 136, 153, 232, 161, 168, 232, 190, 190, 229, 188, 143, 230, 151, 160, 230, 149, 136])
      else if \<not> validate_category category then Some ((utf8 [230, 151, 160, 230, 149, 136, 231, 154, 132, 229, 136, 134, 231, 177, 187] @ '': '') @ category)
      else if trim_space name = '''' then Some (utf8 [232, 167, 132, 229, 136, 153, 229, 144, 141, 231, 167, 176, 228, 184, 141, 232, 131, 189, 228, 184, 186, 231, 169, 186])
      else None)"

definition unique_error :: "string \<Rightarrow> string \<Rightarrow> string" where
  "unique_error name err = (if str_contains err ''UNIQUE constraint failed'' then (utf8 [232, 167, 132, 229, 136, 153, 229, 144, 141, 231, 167, 176, 229, 183, 178, 229, 173, 152, 229, 156, 168] @ '': '') @ name else err)"

definition add_bot_rule ::
  "compiler \<Rightarrow> bool \<Rightarrow> string option \<Rightarrow> string \<Rightarrow> string \<Rightarrow> string \<Rightarrow> bool \<Rightarrow> bot_manager
   \<Rightarrow> (string + unit) \<times> bot_manager" where
  "add_bot_rule compile ok fail name category uaPattern whitelisted m =
     (if \<not> bm_has_db m then (Inr (), m)
      else case validate_rule compile name category uaPattern of
        Some err \<Rightarrow> (Inl err, m)
      | None \<Rightarrow>
          map_prod (map_sum (unique_error name) id) id
            (bot_exec compile ok fail
              (sql_insert br_name (\<lambda>rid. \<lparr>br_id = rid, br_name = name, br_category = category,
                 br_ua_pattern = uaPattern, br_whitelisted = sql_bool whitelisted, br_enabled = 1\<rparr>)) m))"

definition no_rule_id :: "nat \<Rightarrow> string" where
  "no_rule_id rid = (utf8 [232, 167, 132, 229, 136, 153, 228, 184, 141, 229, 173, 152, 229, 156, 168] @ '': id='') @ dec_string rid"

definition no_rule_name :: "string \<Rightarrow> string" where
  "no_rule_name name = (utf8 [232, 167, 132, 229, 136, 153, 228, 184, 141, 229, 173, 152, 229, 156, 168] @ '': '') @ name"

definition update_bot_rule ::
  "compiler \<Rightarrow> bool \<Rightarrow> string option \<Rightarrow> nat \<Rightarrow> string \<Rightarrow> string \<Rightarrow> string \<Rightarrow> bool \<Rightarrow> bool \<Rightarrow> bot_manager
   \<Rightarrow> (string + unit) \<times> bot_manager" where
  "update_bot_rule compile ok fail rid name category uaPattern whitelisted enabled m =
     (if \<not> bm_has_db m then (Inr (), m)
      else case validate_rule compile name category uaPattern of
        Some err \<Rightarrow> (Inl err, m)
      | None \<Rightarrow>
          map_prod (map_sum (unique_error name) id) id
            (bot_exec compile ok fail
              (\<lambda>t. case sql_update_unique br_name (\<lambda>r. br_id r = rid)
                     (\<lambda>r. r\<lparr>br_name := name, br_category := category, br_ua_pattern := uaPattern,
                            br_whitelisted := sql_bool whitelisted, br_enabled := sql_bool enabled\<rparr>) t of
                     Inl err \<Rightarrow> Inl err
                   | Inr (t', n) \<Rightarrow> if n = 0 then Inl (no_rule_id rid) else Inr t') m))"

text \<open>The operations on existing rows, by name and by id.\<close>

definition exec_affecting ::
  "compiler \<Rightarrow> bool \<Rightarrow> string option \<Rightarrow> string \<Rightarrow> (bot_row sql_table \<Rightarrow> bot_row sql_table \<times> nat) \<Rightarrow> bot_manager
   \<Rightarrow> (string + unit) \<times> bot_manager" where
  "exec_affecting compile ok fail err stmt m =
     (if \<not> bm_has_db m then (Inr (), m) else bot_exec compile ok fail (affecting err stmt) m)"

definition delete_bot_rule where
  "delete_bot_rule compile ok fail name =
     exec_affecting compile ok fail (no_rule_name name) (sql_delete (\<lambda>r. br_name r = name))"

definition delete_bot_rule_by_id where
  "delete_bot_rule_by_id compile ok fail rid =
     exec_affecting compile ok fail (no_rule_id rid) (sql_delete (\<lambda>r. br_id r = rid))"

definition update_whitelisted where
  "update_whitelisted compile ok fail name whitelisted =
     exec_affecting compile ok fail (no_rule_name name)
       (sql_update (\<lambda>r. br_name r = name) (\<lambda>r. r\<lparr>br_whitelisted := sql_bool whitelisted\<rparr>))"

definition update_whitelisted_by_id where
  "update_whitelisted_by_id compile ok fail rid whitelisted =
     exec_affecting compile ok fail (no_rule_id rid)
       (sql_update (\<lambda>r. br_id r = rid) (\<lambda>r. r\<lparr>br_whitelisted := sql_bool whitelisted\<rparr>))"

definition toggle_bot_enabled where
  "toggle_bot_enabled compile ok fail rid enabled =
     exec_affecting compile ok fail (no_rule_id rid)
       (sql_update (\<lambda>r. br_id r = rid) (\<lambda>r. r\<lparr>br_enabled := sql_bool enabled\<rparr>))"

definition batch_delete_bots ::
  "compiler \<Rightarrow> bool \<Rightarrow> string option \<Rightarrow> nat list \<Rightarrow> bot_manager \<Rightarrow> (string + unit) \<times> bot_manager" where
  "batch_delete_bots compile ok fail ids m =
     (if \<not> bm_has_db m \<or> ids = [] then (Inr (), m)
      else bot_exec compile ok fail (\<lambda>t. Inr (fst (sql_delete (\<lambda>r. br_id r \<in> set ids) t))) m)"

definition batch_toggle_bots ::
  "compiler \<Rightarrow> bool \<Rightarrow> string option \<Rightarrow> nat list \<Rightarrow> bool \<Rightarrow> bot_manager \<Rightarrow> (string + unit) \<times> bot_manager" where
  "batch_toggle_bots compile ok fail ids enabled m =
     (if \<not> bm_has_db m \<or> ids = [] then (Inr (), m)
      else bot_exec compile ok fail
        (\<lambda>t. Inr (fst (sql_update (\<lambda>r. br_id r \<in> set ids) (\<lambda>r. r\<lparr>br_enabled := sql_bool enabled\<rparr>) t))) m)"

subsection \<open>Built-in bots and policies\<close>

record bot_stats =
  bs_TotalClassified :: int
  bs_ByCategory :: "string \<rightharpoonup> int"
  bs_TopBots :: "string \<rightharpoonup> int"
  bs_HitCounts :: "string \<rightharpoonup> int"

definition reset_stats :: bot_stats where
  "reset_stats = \<lparr>bs_TotalClassified = 0, bs_ByCategory = Map.empty, bs_TopBots = Map.empty, bs_HitCounts = Map.empty\<rparr>"

definition record_classification :: "classify_result \<Rightarrow> bot_stats \<Rightarrow> bot_stats" where
  "record_classification result s =
     (let s = s\<lparr>bs_TotalClassified := bs_TotalClassified s + 1,
                bs_ByCategory := (bs_ByCategory s)(cl_Category result \<mapsto>
                  map_get 0 (bs_ByCategory s) (cl_Category result) + 1)\<rparr>
      in if cl_Name result = '''' then s
         else s\<lparr>bs_TopBots := (bs_TopBots s)(cl_Name result \<mapsto> map_get 0 (bs_TopBots s) (cl_Name result) + 1),
                bs_HitCounts := (bs_HitCounts s)(cl_Name result \<mapsto> map_get 0 (bs_HitCounts s) (cl_Name result) + 1)\<rparr>)"

definition list_known_bots :: "bot_stats \<Rightarrow> bot_manager \<Rightarrow> (known_bot \<times> int) list" where
  "list_known_bots s m = map (\<lambda>kb. (kb, map_get 0 (bs_TopBots s) (kb_name kb))) (bm_knownBots m)"

definition insert_override :: "string \<Rightarrow> bool option \<Rightarrow> bool option \<Rightarrow> override_row list \<Rightarrow> override_row list" where
  "insert_override name whitelisted enabled rows =
     rows @ [\<lparr>or_name = name, or_whitelisted = map_option sql_bool whitelisted, or_enabled = map_option sql_bool enabled\<rparr>]"

definition update_overrides ::
  "string \<Rightarrow> (override_row \<Rightarrow> override_row) \<Rightarrow> override_row list \<Rightarrow> override_row list" where
  "update_overrides name f rows = map (\<lambda>r. if or_name r = name then f r else r) rows"

definition put_overrides :: "override_row list \<Rightarrow> bot_manager \<Rightarrow> bot_manager" where
  "put_overrides rows m = m\<lparr>bm_db := (bm_db m)\<lparr>bd_overrides := rows\<rparr>\<rparr>"

text \<open>\<open>query_err\<close>, \<open>err1\<close> and \<open>err2\<close> are the errors of the three statements.\<close>

definition update_known_bot_override ::
  "bool \<Rightarrow> string option \<Rightarrow> string option \<Rightarrow> string option \<Rightarrow> string \<Rightarrow> bool option \<Rightarrow> bool option \<Rightarrow> bot_manager
   \<Rightarrow> (string + unit) \<times> bot_manager" where
  "update_known_bot_override ok query_err err1 err2 name whitelisted enabled m =
     (let rows = bd_overrides (bm_db m);
          stop = (\<lambda>e rows. (case e of Some err \<Rightarrow> (Inl err, put_overrides rows m)
                                    | None \<Rightarrow> (Inr (), load_overrides ok (put_overrides rows m))))
      in if \<not> bm_has_db m then (Inr (), m)
         else if whitelisted = None \<and> enabled = None then (Inr (), m)
         else if \<not> list_ex (\<lambda>kb. kb_name kb = name) (bm_knownBots m) then
           (Inl ((utf8 [229, 134, 133, 231, 189, 174, 232, 167, 132, 229, 136, 153, 228, 184, 141, 229, 173, 152, 229, 156, 168] @ '': '') @ name), m)
         else case query_err of
           Some err \<Rightarrow> (Inl err, m)
         | None \<Rightarrow>
             if \<not> list_ex (\<lambda>r. or_name r = name) rows then
               stop err1 (if err1 = None then insert_override name whitelisted enabled rows else rows)
             else
               let (e, rows) = (case whitelisted of
                     None \<Rightarrow> (None, rows)
                   | Some w \<Rightarrow>
                       (err1, if err1 = None
                              then update_overrides name (\<lambda>r. r\<lparr>or_whitelisted := Some (sql_bool w)\<rparr>) rows else rows));
                   (e, rows) = (if enabled \<noteq> None \<and> e = None
                     then (err2, if err2 = None
                                 then update_overrides name (\<lambda>r. r\<lparr>or_enabled := Some (sql_bool (the enabled))\<rparr>) rows else rows)
                     else (e, rows))
               in stop e rows)"

definition get_policies :: "bot_manager \<Rightarrow> (string \<times> string) list" where
  "get_policies m = map (\<lambda>cat. (cat, map_get PolicyRecord (bm_policies m) cat)) all_categories"

definition set_policy ::
  "string option \<Rightarrow> string \<Rightarrow> string \<Rightarrow> bot_manager \<Rightarrow> (string + unit) \<times> bot_manager" where
  "set_policy fail category action m =
     (if \<not> validate_category category then (Inl ((utf8 [230, 151, 160, 230, 149, 136, 231, 154, 132, 229, 136, 134, 231, 177, 187] @ '': '') @ category), m)
      else if action \<noteq> PolicyBlock \<and> action \<noteq> PolicyRecord \<and> action \<noteq> PolicyAllow then
        (Inl ((utf8 [230, 151, 160, 230, 149, 136, 231, 154, 132, 231, 173, 150, 231, 149, 165, 229, 138, 168, 228, 189, 156] @ '': '') @ action), m)
      else if \<not> bm_has_db m then (Inr (), m)
      else case fail of
        Some err \<Rightarrow> (Inl err, m)
      | None \<Rightarrow>
          (Inr (), m\<lparr>bm_db := (bm_db m)\<lparr>bd_policy := filter (\<lambda>(c, _). c \<noteq> category) (bd_policy (bm_db m)) @ [(category, action)]\<rparr>,
                     bm_policies := (bm_policies m)(category \<mapsto> action)\<rparr>))"

subsection \<open>The caches\<close>

interpretation bots: cached_table bot_table bm_customBots "build_custom_bots compile" put_bots "load_custom_bots compile"
  for compile
  by unfold_locales (auto simp: bot_table_def put_bots_def load_custom_bots_def)

interpretation ovs: cached_table "\<lambda>m. bd_overrides (bm_db m)" bm_overrides override_map put_overrides load_overrides
  by unfold_locales (auto simp: put_overrides_def load_overrides_def Let_def)

definition policies_of :: "bot_db \<Rightarrow> string \<rightharpoonup> string" where
  "policies_of d = map_of default_policies ++ foldl (\<lambda>p (cat, action). p(cat \<mapsto> action)) Map.empty (bd_policy d)"

definition bot_current :: "compiler \<Rightarrow> bot_manager \<Rightarrow> bool" where
  "bot_current compile m \<longleftrightarrow>
     bots.fresh compile m \<and> ovs.fresh m \<and> bm_policies m = policies_of (bm_db m) \<and>
     bm_knownBots m = map (apply_override (bm_overrides m)) (init_known_bots compile)"

lemma init_known_names:
  assumes "b \<in> set (init_known_bots compile)"
  obtains a c p w where "find (\<lambda>(name, _). name = kb_name b) default_known_bots = Some (a, c, p, w)"
proof -
  have "\<exists>e \<in> set es. fst e = kb_name b"
    if "b \<in> set (List.map_filter (\<lambda>(name, category, pattern, whitelisted).
         map_option (\<lambda>re. \<lparr>kb_name = name, kb_category = category, kb_uaPattern = re, kb_pattern = pattern,
                           kb_whitelisted = whitelisted, kb_enabled = True\<rparr>)
           (compile pattern)) es)" for es
    using that
  proof (induction es)
    case (Cons e es)
    obtain n c p w where e: "e = (n, c, p, w)" by (cases e)
    show ?case using Cons by (cases "compile p") (auto simp: e List.map_filter_simps)
  qed (simp add: List.map_filter_simps)
  from this[of default_known_bots] obtain e where "e \<in> set default_known_bots" "fst e = kb_name b"
    using assms unfolding init_known_bots_def by meson
  then have "find (\<lambda>(name, _). name = kb_name b) default_known_bots \<noteq> None"
    unfolding find_None_iff by (metis (mono_tags, lifting) case_prodI2 fst_conv)
  then obtain x where "find (\<lambda>(name, _). name = kb_name b) default_known_bots = Some x" by blast
  then show thesis using that by (cases x) auto
qed

lemma apply_override_flags: "\<exists>w e. apply_override ovs b = b\<lparr>kb_whitelisted := w, kb_enabled := e\<rparr>"
proof -
  have "\<exists>w e. restore_defaults b = b\<lparr>kb_whitelisted := w, kb_enabled := e\<rparr>"
  proof (cases "find (\<lambda>(name, _). name = kb_name b) default_known_bots")
    case None
    then show ?thesis
      by (intro exI[of _ "kb_whitelisted b"] exI[of _ "kb_enabled b"]) (simp add: restore_defaults_def)
  next
    case (Some x)
    then show ?thesis by (cases x) (auto simp: restore_defaults_def)
  qed
  then obtain w e where r: "restore_defaults b = b\<lparr>kb_whitelisted := w, kb_enabled := e\<rparr>" by blast
  show ?thesis
    unfolding apply_override_def r override_flags_def by (cases "ovs (kb_name b)") auto
qed

text \<open>The last override wins: the defaults are restored before it is applied.\<close>

lemma apply_override_again:
  assumes "b \<in> set (init_known_bots compile)"
  shows "apply_override ovs' (apply_override ovs b) = apply_override ovs' b"
proof -
  obtain w e where b: "apply_override ovs b = b\<lparr>kb_whitelisted := w, kb_enabled := e\<rparr>"
    using apply_override_flags by blast
  obtain a c p wl where "find (\<lambda>(name, _). name = kb_name b) default_known_bots = Some (a, c, p, wl)"
    using init_known_names[OF assms] .
  then have "restore_defaults (b\<lparr>kb_whitelisted := w, kb_enabled := e\<rparr>) = restore_defaults b"
    by (simp add: restore_defaults_def)
  then show ?thesis
    unfolding b by (simp add: apply_override_def split: option.split)
qed

lemma load_overrides_current:
  assumes "bm_knownBots m = map (apply_override ovs) (init_known_bots compile)"
  shows "bm_knownBots (load_overrides True m) =
    map (apply_override (bm_overrides (load_overrides True m))) (init_known_bots compile)"
  using apply_override_again by (simp add: load_overrides_def assms Let_def)

lemma policies_add: "(policies_of d ++ map_of default_policies) ++
    foldl (\<lambda>p (cat, action). p(cat \<mapsto> action)) Map.empty (bd_policy d) = policies_of d"
  by (auto simp: policies_of_def map_add_def fun_eq_iff split: option.split)

lemma policy_fold_drop:
  "c \<noteq> k \<Longrightarrow> foldl (\<lambda>p (cat, action). p(cat \<mapsto> action)) Map.empty (filter (\<lambda>(c, _). c \<noteq> k) rows) c =
     foldl (\<lambda>p (cat, action). p(cat \<mapsto> action)) Map.empty rows c"
proof (induction rows rule: rev_induct)
  case (snoc e rows)
  then show ?case by (cases e) auto
qed simp

lemma policies_replace:
  "policies_of (d\<lparr>bd_policy := filter (\<lambda>(c, _). c \<noteq> k) (bd_policy d) @ [(k, a)]\<rparr>) = (policies_of d)(k \<mapsto> a)"
  by (auto simp: policies_of_def map_add_def fun_eq_iff policy_fold_drop split: option.split)

lemma bot_exec_current:
  assumes "bot_current compile m"
  shows "bot_current compile (snd (bot_exec compile True fail stmt m))"
proof -
  have "bots.fresh compile (snd (bot_exec compile True fail stmt m))"
    using assms unfolding bot_exec_def bot_current_def by (blast intro: bots.exec_fresh)
  then show ?thesis
    using assms by (auto simp: bot_current_def bot_exec_def exec_reload_def load_custom_bots_def put_bots_def
        ovs.fresh_def policies_of_def split: sum.split)
qed

inductive bot_reachable :: "compiler \<Rightarrow> bot_manager \<Rightarrow> bool" for compile where
  start: "bot_reachable compile (new_bot_manager compile True (Some db))"
| add: "bot_reachable compile m \<Longrightarrow>
    bot_reachable compile (snd (add_bot_rule compile True fail name category pattern wl m))"
| update: "bot_reachable compile m \<Longrightarrow>
    bot_reachable compile (snd (update_bot_rule compile True fail rid name category pattern wl en m))"
| delete: "bot_reachable compile m \<Longrightarrow> bot_reachable compile (snd (delete_bot_rule compile True fail name m))"
| delete_id: "bot_reachable compile m \<Longrightarrow> bot_reachable compile (snd (delete_bot_rule_by_id compile True fail rid m))"
| whitelist: "bot_reachable compile m \<Longrightarrow> bot_reachable compile (snd (update_whitelisted compile True fail name wl m))"
| whitelist_id: "bot_reachable compile m \<Longrightarrow>
    bot_reachable compile (snd (update_whitelisted_by_id compile True fail rid wl m))"
| toggle: "bot_reachable compile m \<Longrightarrow> bot_reachable compile (snd (toggle_bot_enabled compile True fail rid en m))"
| batch_delete: "bot_reachable compile m \<Longrightarrow> bot_reachable compile (snd (batch_delete_bots compile True fail ids m))"
| batch_toggle: "bot_reachable compile m \<Longrightarrow> bot_reachable compile (snd (batch_toggle_bots compile True fail ids en m))"
| override: "bot_reachable compile m \<Longrightarrow>
    bot_reachable compile (snd (update_known_bot_override True q None None name owl oen m))"
| policy: "bot_reachable compile m \<Longrightarrow> bot_reachable compile (snd (set_policy fail category action m))"
| reload: "bot_reachable compile m \<Longrightarrow> bot_reachable compile (reload_bots compile True m)"

lemma overrides_current:
  assumes "bot_current compile m"
  shows "bot_current compile (load_overrides True (put_overrides rows m))"
proof -
  have "bm_knownBots (put_overrides rows m) = map (apply_override (bm_overrides m)) (init_known_bots compile)"
    using assms by (simp add: bot_current_def put_overrides_def)
  from load_overrides_current[OF this] show ?thesis
    using assms ovs.load_fresh by (auto simp: bot_current_def bots.fresh_def bot_table_def policies_of_def
        load_overrides_def put_overrides_def Let_def ovs.fresh_def)
qed

lemma reload_current:
  assumes "bm_knownBots m = map (apply_override ovs) (init_known_bots compile) \<or> bm_knownBots m = init_known_bots compile"
    and "bm_policies m = policies_of (bm_db m) \<or> bm_policies m = map_of default_policies"
  shows "bot_current compile (load_custom_bots compile True (load_policies True (load_overrides True m)))"
proof -
  have kb: "bm_knownBots (load_overrides True m) =
      map (apply_override (bm_overrides (load_overrides True m))) (init_known_bots compile)"
    using assms(1) load_overrides_current by (auto simp: load_overrides_def Let_def)
  have "map_of default_policies ++ map_of default_policies = map_of default_policies"
    by (auto simp: map_add_def fun_eq_iff split: option.split)
  then have p: "(bm_policies m ++ map_of default_policies) ++
      foldl (\<lambda>p (cat, action). p(cat \<mapsto> action)) Map.empty (bd_policy (bm_db m)) = policies_of (bm_db m)"
    using assms(2) policies_add[of "bm_db m"] by (auto simp: policies_of_def)
  show ?thesis
    using kb p by (simp add: bot_current_def bots.fresh_def ovs.fresh_def bot_table_def load_custom_bots_def
        load_policies_def load_overrides_def Let_def)
qed

lemma snd_map_prod_id [simp]: "snd (map_prod f id p) = snd p"
  by (cases p) simp

lemma bot_reachable_current: "bot_reachable compile m \<Longrightarrow> bot_current compile m"
proof (induction rule: bot_reachable.induct)
  case (start db)
  show ?case
    unfolding new_bot_manager_def Let_def
    by (simp, rule reload_current) (simp_all add: policies_of_def)
next
  case (override m q name owl oen)
  have "bot_current compile (load_overrides True (put_overrides rows m))" for rows
    using override overrides_current by blast
  then show ?case
    using override by (simp add: update_known_bot_override_def Let_def split: option.split prod.split)
next
  case (policy m fail category action)
  then show ?case
    by (auto simp: set_policy_def bot_current_def bots.fresh_def ovs.fresh_def bot_table_def policies_replace
        split: option.split)
next
  case (reload m)
  then show ?case
    using reload_current[of m "bm_overrides m" compile] by (auto simp: reload_bots_def bot_current_def)
qed (simp_all add: add_bot_rule_def update_bot_rule_def delete_bot_rule_def delete_bot_rule_by_id_def
    update_whitelisted_def update_whitelisted_by_id_def toggle_bot_enabled_def exec_affecting_def
    batch_delete_bots_def batch_toggle_bots_def bot_exec_current split: option.split)

text \<open>
  The bot manager. In every state its operations reach, the custom bots are the rows of their
  table that compile, the overrides those of theirs, the built-in bots the defaults with these
  overrides on top (whatever was set before), and the policies the defaults updated by the
  policy table.
\<close>

theorem bot_manager_current:
  assumes "bot_reachable compile m"
  shows "bm_customBots m = List.map_filter (load_bot_row compile) (t_rows (bd_rules (bm_db m))) \<and>
    bm_overrides m = override_map (bd_overrides (bm_db m)) \<and>
    bm_knownBots m = map (apply_override (override_map (bd_overrides (bm_db m)))) (init_known_bots compile) \<and>
    bm_policies m = map_of default_policies ++
      foldl (\<lambda>p (cat, action). p(cat \<mapsto> action)) Map.empty (bd_policy (bm_db m))"
  using bot_reachable_current[OF assms]
  by (simp add: bot_current_def bots.fresh_def ovs.fresh_def build_custom_bots_def bot_table_def policies_of_def)

definition sample_compile :: compiler where
  "sample_compile p =
     Some \<lparr>re_string = p, re_match = \<lambda>s. str_contains (to_lower s) (drop 4 p), re_find = \<lambda>s. ''''\<rparr>"

definition sample_bots :: bot_manager where
  "sample_bots = new_bot_manager sample_compile True (Some empty_bot_db)"

lemma sample_bots_reachable: "bot_reachable sample_compile sample_bots"
  unfolding sample_bots_def by (rule bot_reachable.start)

lemma bot_manager_current_witness:
  "bm_policies (snd (set_policy None CategoryScraper PolicyBlock sample_bots)) CategoryScraper = Some PolicyBlock"
proof -
  let ?m = "snd (set_policy None CategoryScraper PolicyBlock sample_bots)"
  have "bot_reachable sample_compile ?m"
    by (intro bot_reachable.policy sample_bots_reachable)
  from bot_manager_current[OF this] show ?thesis
    by (simp add: set_policy_def sample_bots_def new_bot_manager_def validate_category_def all_categories_def
        empty_bot_db_def load_overrides_def load_policies_def load_custom_bots_def Let_def)
qed

subsection \<open>Verdicts\<close>

text \<open>
  A client no rule knows. Its verdict is the majority of three signs: no cookie, no referer, a
  suspicious word in the user agent; whether it sends \<open>Accept-Language\<close> adds to the score but
  never changes the verdict. So the first visit of a browser without referer is a bot. Such a
  bot has the category \<open>scraper\<close> and is blocked exactly when the policy of scrapers is to block.
\<close>

theorem heuristic_majority:
  assumes "ua \<noteq> ''''"
    and "\<forall>kb \<in> set (bm_knownBots m @ bm_customBots m). \<not> (kb_enabled kb \<and> re_match (kb_uaPattern kb) ua)"
  shows "let r = classify ua hasCookies hasReferer hasAcceptLang m
    in (cl_IsBot r \<longleftrightarrow> (\<not> hasCookies \<and> \<not> hasReferer) \<or> (\<not> hasCookies \<and> is_bot_like_ua ua) \<or>
                        (\<not> hasReferer \<and> is_bot_like_ua ua)) \<and>
       (cl_IsBot r \<longleftrightarrow> cl_IsBot (classify ua hasCookies hasReferer (\<not> hasAcceptLang) m)) \<and>
       (should_block r m \<longleftrightarrow> cl_IsBot r \<and> map_get PolicyRecord (bm_policies m) CategoryScraper = PolicyBlock)"
proof -
  have "find (\<lambda>kb. kb_enabled kb \<and> re_match (kb_uaPattern kb) ua) (bm_knownBots m @ bm_customBots m) = None"
    using assms(2) unfolding find_None_iff by blast
  then have c: "classify ua hasCookies hasReferer lang m =
      (let checks = filter fst (heuristic_checks ua hasCookies hasReferer lang);
           score = sum_list (map (\<lambda>(_, w, _). w) checks);
           isBot = (score \<ge> 5 / 10)
       in \<lparr>cl_IsBot = isBot, cl_Category = (if isBot then CategoryScraper else CategoryHuman), cl_Name = '''',
           cl_Confidence = score, cl_IsWhitelisted = False,
           cl_Reason = join_with '', '' (map (\<lambda>(_, _, r). r) checks), cl_Score = score\<rparr>)" for lang
    using assms(1) by (simp add: classify_def)
  show ?thesis
    unfolding c Let_def should_block_def heuristic_checks_def
    by (cases hasCookies; cases hasReferer; cases hasAcceptLang; cases "is_bot_like_ua ua") simp_all
qed

lemma heuristic_majority_witness:
  "cl_IsBot (classify ''Mozilla/5.0 Firefox'' False False True (new_bot_manager (\<lambda>_. None) True None))"
proof -
  have "init_known_bots (\<lambda>_. None) = []"
    by (simp add: init_known_bots_def default_known_bots_def List.map_filter_simps)
  then show ?thesis
    using heuristic_majority[of "''Mozilla/5.0 Firefox''" "new_bot_manager (\<lambda>_. None) True None" False False True]
    by (simp add: new_bot_manager_def Let_def)
qed

lemma known_head:
  assumes "compile ''(?i)googlebot'' = Some re"
  obtains rest where "init_known_bots compile =
    \<lparr>kb_name = ''Googlebot'', kb_category = CategorySearchEngine, kb_uaPattern = re,
     kb_pattern = ''(?i)googlebot'', kb_whitelisted = True, kb_enabled = True\<rparr> # rest"
  using assms by (simp add: init_known_bots_def default_known_bots_def List.map_filter_simps)

text \<open>
  The built-in bots come before the custom ones and the first match decides. So a custom rule
  never applies to a user agent that matches an enabled built-in bot, and the word \<open>googlebot\<close>
  anywhere in the user agent is a pass, whatever tool name stands beside it: as long as the
  built-in entry is not overridden the request is classified as that crawler and not blocked.
\<close>

theorem crawler_name_passes:
  assumes "bot_reachable compile m" "compile ''(?i)googlebot'' = Some re" "re_match re ua" "ua \<noteq> ''''"
    and "bm_overrides m ''Googlebot'' = None"
  shows "cl_Name (classify ua hasCookies hasReferer hasAcceptLang m) = ''Googlebot'' \<and>
    \<not> should_block (classify ua hasCookies hasReferer hasAcceptLang m) m \<and>
    classify ua hasCookies hasReferer hasAcceptLang (m\<lparr>bm_customBots := bots'\<rparr>) =
      classify ua hasCookies hasReferer hasAcceptLang m"
proof -
  let ?g = "\<lparr>kb_name = ''Googlebot'', kb_category = CategorySearchEngine, kb_uaPattern = re,
     kb_pattern = ''(?i)googlebot'', kb_whitelisted = True, kb_enabled = True\<rparr>"
  obtain rest where "init_known_bots compile = ?g # rest"
    using known_head[of compile re, OF assms(2)] by blast
  moreover have "apply_override (bm_overrides m) ?g = ?g"
    using assms(5) by (simp add: apply_override_def restore_defaults_def default_known_bots_def)
  ultimately obtain rest' where "bm_knownBots m = ?g # rest'"
    using bot_reachable_current[OF assms(1)] by (simp add: bot_current_def)
  then show ?thesis
    using assms(3,4) by (simp add: classify_def should_block_def)
qed

lemma crawler_name_passes_witness:
  "\<not> should_block (classify ''sqlmap/1.7 (googlebot)'' False False False sample_bots) sample_bots"
proof -
  have "sample_compile ''(?i)googlebot'' =
      Some \<lparr>re_string = ''(?i)googlebot'', re_match = \<lambda>s. str_contains (to_lower s) ''googlebot'', re_find = \<lambda>s. ''''\<rparr>"
    by (simp add: sample_compile_def)
  moreover have "str_contains (to_lower ''sqlmap/1.7 (googlebot)'') ''googlebot''"
    by code_simp
  moreover have "bm_overrides sample_bots ''Googlebot'' = None"
    by (simp add: sample_bots_def new_bot_manager_def load_overrides_def load_policies_def load_custom_bots_def
        override_map_def empty_bot_db_def Let_def)
  ultimately show ?thesis
    using crawler_name_passes[OF sample_bots_reachable] by fastforce
qed

end
