(* ===== verification/AutoBlock.thy ===== *)
theory AutoBlock
  imports RuleProps SqlTable
begin

text \<open>
  The automatic blocker (\<open>ratelimit/autoblock.go\<close>, \<open>autoblock_persist.go\<close>,
  \<open>autoblock_reconcile.go\<close>): an address that fails enough challenges in a row gets a row in
  \<open>autoblock_records\<close>, a blacklist rule of the rule engine and an entry in memory.

  \<^item> \<open>auto_blocker\<close> is the struct; \<open>ab_db\<close> is the table, \<open>None\<close> without a database. A stored
    time is the whole second RFC 3339 keeps, or a text that is not RFC 3339.
  \<^item> The rule engine is reached through its interface \<open>IPRuleManager\<close>: the operations take
    \<open>add\<close> and \<open>remove\<close> as arguments, as the code does. The locale \<open>ip_rule_manager\<close> states what the
    blocker relies on, and is interpreted on the rule engine of \<open>RuleEngine\<close>.
  \<^item> Whether a statement fails, the clock and the order in which Go visits a map are arguments.
\<close>

subsection \<open>State\<close>

datatype db_time = Rfc3339 int | OtherText string

record block_row =
  bk_ip :: string
  bk_blocked_until :: db_time
  bk_source :: string
  bk_fail_count :: int
  bk_block_duration_sec :: int

record 'e auto_blocker =
  ab_failCount :: "string \<rightharpoonup> int"
  ab_blockedUntil :: "string \<rightharpoonup> instant"
  ab_ruleEngine :: 'e
  ab_maxFails :: int
  ab_blockDuration :: duration
  ab_db :: "block_row list option"

type_synonym 'e add_rule = "string \<Rightarrow> string \<Rightarrow> string \<Rightarrow> 'e \<Rightarrow> (string + unit) \<times> 'e"
type_synonym 'e remove_rule = "string \<Rightarrow> string \<Rightarrow> 'e \<Rightarrow> (string + unit) \<times> 'e"

definition new_auto_blocker :: "'e \<Rightarrow> int \<Rightarrow> duration \<Rightarrow> block_row list option \<Rightarrow> 'e auto_blocker" where
  "new_auto_blocker eng maxFails dur rows =
     \<lparr>ab_failCount = Map.empty, ab_blockedUntil = Map.empty, ab_ruleEngine = eng, ab_maxFails = maxFails,
      ab_blockDuration = dur, ab_db = rows\<rparr>"

definition fail_count :: "'e auto_blocker \<Rightarrow> string \<Rightarrow> int" where
  "fail_count a ip = map_get 0 (ab_failCount a) ip"

definition set_fail_count :: "string \<Rightarrow> int \<Rightarrow> 'e auto_blocker \<Rightarrow> 'e auto_blocker" where
  "set_fail_count ip n a = a\<lparr>ab_failCount := (ab_failCount a)(ip \<mapsto> n)\<rparr>"

definition stored_time :: "instant \<Rightarrow> db_time" where
  "stored_time t = Rfc3339 (t div nano_second)"

subsection \<open>Persistence\<close>

text \<open>\<open>UNIQUE(ip, source)\<close>: \<open>INSERT OR REPLACE\<close> drops the old row.\<close>

definition block_row_of :: "'e auto_blocker \<Rightarrow> string \<Rightarrow> instant \<Rightarrow> int \<Rightarrow> block_row" where
  "block_row_of a ip until fails =
     \<lparr>bk_ip = ip, bk_blocked_until = stored_time until, bk_source = ''autoblock'', bk_fail_count = fails,
      bk_block_duration_sec = go_div (ab_blockDuration a) nano_second\<rparr>"

definition is_block_of :: "string \<Rightarrow> block_row \<Rightarrow> bool" where
  "is_block_of ip r \<longleftrightarrow> bk_ip r = ip \<and> bk_source r = ''autoblock''"

definition persist_block ::
  "bool \<Rightarrow> string \<Rightarrow> instant \<Rightarrow> int \<Rightarrow> 'e auto_blocker \<Rightarrow> bool \<times> 'e auto_blocker" where
  "persist_block exec_ok ip until fails a =
     (case ab_db a of
        None \<Rightarrow> (True, a)
      | Some rows \<Rightarrow>
          if \<not> exec_ok then (False, a)
          else (True, a\<lparr>ab_db := Some (filter (\<lambda>r. \<not> is_block_of ip r) rows @ [block_row_of a ip until fails])\<rparr>))"

definition rollback_persist :: "bool \<Rightarrow> string \<Rightarrow> 'e auto_blocker \<Rightarrow> 'e auto_blocker" where
  "rollback_persist exec_ok ip a =
     (case ab_db a of
        None \<Rightarrow> a
      | Some rows \<Rightarrow> if exec_ok then a\<lparr>ab_db := Some (filter (\<lambda>r. \<not> is_block_of ip r) rows)\<rparr> else a)"

definition delete_persisted_block :: "bool \<Rightarrow> string \<Rightarrow> 'e auto_blocker \<Rightarrow> 'e auto_blocker" where
  "delete_persisted_block exec_ok ip a =
     (case ab_db a of
        None \<Rightarrow> a
      | Some rows \<Rightarrow> if exec_ok then a\<lparr>ab_db := Some (filter (\<lambda>r. \<not> is_block_of ip r) rows)\<rparr> else a)"

subsection \<open>Challenges\<close>

text \<open>\<open>RecordChallengeFail\<close>: below the threshold only the counter moves; at the threshold the
  database, the rule engine and the memory, in that order, each step giving up on failure.\<close>

definition record_challenge_fail ::
  "'e add_rule \<Rightarrow> bool \<Rightarrow> bool \<Rightarrow> instant \<Rightarrow> string \<Rightarrow> 'e auto_blocker \<Rightarrow> 'e auto_blocker" where
  "record_challenge_fail add persist_ok rollback_ok now ip a =
     (if ab_blockedUntil a ip \<noteq> None then a
      else if fail_count a ip \<ge> ab_maxFails a - 1 then
        let until = now + ab_blockDuration a;
            (persisted, a1) = persist_block persist_ok ip until (fail_count a ip + 1) a
        in if \<not> persisted then set_fail_count ip (fail_count a1 ip + 1) a1
           else
             let (res, eng) = add ''blacklist'' ip ''autoblock'' (ab_ruleEngine a1);
                 a2 = a1\<lparr>ab_ruleEngine := eng\<rparr>
             in case res of
                  Inl err \<Rightarrow>
                    let a3 = rollback_persist rollback_ok ip a2
                    in set_fail_count ip (fail_count a3 ip + 1) a3
                | Inr _ \<Rightarrow> set_fail_count ip 0 (a2\<lparr>ab_blockedUntil := (ab_blockedUntil a2)(ip \<mapsto> until)\<rparr>)
      else set_fail_count ip (fail_count a ip + 1) a)"

definition record_challenge_pass :: "string \<Rightarrow> 'e auto_blocker \<Rightarrow> 'e auto_blocker" where
  "record_challenge_pass ip a = set_fail_count ip 0 a"

subsection \<open>Expiry\<close>

text \<open>What \<open>IsBlocked\<close> and \<open>ExpireBlocks\<close> do with an entry whose time is over.\<close>

definition unblock :: "'e remove_rule \<Rightarrow> bool \<Rightarrow> string \<Rightarrow> 'e auto_blocker \<Rightarrow> 'e auto_blocker" where
  "unblock remove delete_ok ip a =
     (let a1 = set_fail_count ip 0 (a\<lparr>ab_blockedUntil := (ab_blockedUntil a)(ip := None)\<rparr>);
          (res, eng) = remove ''blacklist'' ip (ab_ruleEngine a1);
          a2 = a1\<lparr>ab_ruleEngine := eng\<rparr>
      in case res of
           Inl err \<Rightarrow> a2
         | Inr _ \<Rightarrow> delete_persisted_block delete_ok ip a2)"

definition is_blocked :: "'e remove_rule \<Rightarrow> bool \<Rightarrow> instant \<Rightarrow> string \<Rightarrow> 'e auto_blocker \<Rightarrow> bool \<times> 'e auto_blocker" where
  "is_blocked remove delete_ok now ip a =
     (case ab_blockedUntil a ip of
        None \<Rightarrow> (False, a)
      | Some until \<Rightarrow> if now > until then (False, unblock remove delete_ok ip a) else (True, a))"

text \<open>One turn of the loop of \<open>ExpireBlocks\<close> over the map, visited in the order \<open>order\<close>.\<close>

definition expire_one ::
  "'e remove_rule \<Rightarrow> (string \<Rightarrow> bool) \<Rightarrow> instant \<Rightarrow> string \<Rightarrow> 'e auto_blocker \<Rightarrow> 'e auto_blocker" where
  "expire_one remove delete_ok now ip a =
     (case ab_blockedUntil a ip of
        None \<Rightarrow> a
      | Some until \<Rightarrow> if now > until then unblock remove (delete_ok ip) ip a else a)"

definition expire_blocks ::
  "'e remove_rule \<Rightarrow> (string \<Rightarrow> bool) \<Rightarrow> instant \<Rightarrow> string list \<Rightarrow> 'e auto_blocker \<Rightarrow> 'e auto_blocker" where
  "expire_blocks remove delete_ok now order a = fold (expire_one remove delete_ok now) order a"

subsection \<open>Recovery\<close>

definition read_until :: "'e auto_blocker \<Rightarrow> instant \<Rightarrow> block_row \<Rightarrow> instant" where
  "read_until a now r =
     (case bk_blocked_until r of
        Rfc3339 s \<Rightarrow> s * nano_second
      | OtherText _ \<Rightarrow> now + ab_blockDuration a)"

text \<open>The rows the query of \<open>RecoverFromDB\<close> answers: the column is compared as text with the
  formatted clock; \<open>later\<close> is that comparison on a text that is not RFC 3339.\<close>

definition still_blocked :: "(string \<Rightarrow> instant \<Rightarrow> bool) \<Rightarrow> instant \<Rightarrow> block_row \<Rightarrow> bool" where
  "still_blocked later now r \<longleftrightarrow>
     bk_source r = ''autoblock'' \<and>
     (case bk_blocked_until r of Rfc3339 s \<Rightarrow> s > now div nano_second | OtherText t \<Rightarrow> later t now)"

definition recover_row :: "(string \<Rightarrow> bool) \<Rightarrow> instant \<Rightarrow> block_row \<Rightarrow> 'e auto_blocker \<Rightarrow> 'e auto_blocker" where
  "recover_row delete_ok now r a =
     (if now > read_until a now r then delete_persisted_block (delete_ok (bk_ip r)) (bk_ip r) a
      else set_fail_count (bk_ip r) (bk_fail_count r)
             (a\<lparr>ab_blockedUntil := (ab_blockedUntil a)(bk_ip r \<mapsto> read_until a now r)\<rparr>))"

definition recover_from_db ::
  "(string \<Rightarrow> instant \<Rightarrow> bool) \<Rightarrow> string option \<Rightarrow> (string \<Rightarrow> bool) \<Rightarrow> instant \<Rightarrow> instant
   \<Rightarrow> 'e auto_blocker \<Rightarrow> (string + unit) \<times> 'e auto_blocker" where
  "recover_from_db later fail delete_ok asked now a =
     (case ab_db a of
        None \<Rightarrow> (Inr (), a)
      | Some rows \<Rightarrow>
          (case fail of
             Some err \<Rightarrow> (Inl err, a)
           | None \<Rightarrow> (Inr (), fold (recover_row delete_ok now) (filter (still_blocked later asked) rows) a)))"

subsection \<open>Reconciliation\<close>

definition db_records :: "'e auto_blocker \<Rightarrow> instant \<Rightarrow> block_row list \<Rightarrow> string \<rightharpoonup> instant" where
  "db_records a now rows =
     fold (\<lambda>r recs. recs(bk_ip r \<mapsto> read_until a now r)) (filter (\<lambda>r. bk_source r = ''autoblock'') rows) Map.empty"

text \<open>The first loop, over the records of the database.\<close>

definition reconcile_record ::
  "'e remove_rule \<Rightarrow> (string \<Rightarrow> bool) \<Rightarrow> instant \<Rightarrow> (string \<rightharpoonup> instant) \<Rightarrow> string \<Rightarrow> 'e auto_blocker \<Rightarrow> 'e auto_blocker" where
  "reconcile_record remove delete_ok now recs ip a =
     (case recs ip of
        None \<Rightarrow> a
      | Some dbUntil \<Rightarrow>
          if now > dbUntil then
            let a1 = a\<lparr>ab_blockedUntil := (ab_blockedUntil a)(ip := None),
                       ab_failCount := (ab_failCount a)(ip := None)\<rparr>;
                a2 = a1\<lparr>ab_ruleEngine := snd (remove ''blacklist'' ip (ab_ruleEngine a1))\<rparr>
            in delete_persisted_block (delete_ok ip) ip a2
          else
            (case ab_blockedUntil a ip of
               None \<Rightarrow> set_fail_count ip 0 (a\<lparr>ab_blockedUntil := (ab_blockedUntil a)(ip \<mapsto> dbUntil)\<rparr>)
             | Some memUntil \<Rightarrow>
                 if memUntil \<noteq> dbUntil then a\<lparr>ab_blockedUntil := (ab_blockedUntil a)(ip \<mapsto> dbUntil)\<rparr> else a))"

text \<open>The second loop, over the entries in memory.\<close>

definition write_back ::
  "(string \<Rightarrow> bool) \<Rightarrow> (string \<rightharpoonup> instant) \<Rightarrow> string \<Rightarrow> 'e auto_blocker \<Rightarrow> 'e auto_blocker" where
  "write_back persist_ok recs ip a =
     (case ab_blockedUntil a ip of
        None \<Rightarrow> a
      | Some until \<Rightarrow>
          if recs ip \<noteq> None then a else snd (persist_block (persist_ok ip) ip until (fail_count a ip) a))"

definition reconcile ::
  "'e remove_rule \<Rightarrow> bool \<Rightarrow> (string \<Rightarrow> bool) \<Rightarrow> (string \<Rightarrow> bool) \<Rightarrow> instant \<Rightarrow> string list \<Rightarrow> string list
   \<Rightarrow> 'e auto_blocker \<Rightarrow> 'e auto_blocker" where
  "reconcile remove query_ok delete_ok persist_ok now order1 order2 a =
     (case ab_db a of
        None \<Rightarrow> a
      | Some rows \<Rightarrow>
          if \<not> query_ok then a
          else
            let recs = db_records a now rows
            in fold (write_back persist_ok recs) order2
                 (fold (reconcile_record remove delete_ok now recs) order1 a))"

definition reconcile_interval :: "duration \<Rightarrow> duration" where
  "reconcile_interval d = (if d \<le> 0 then 5 * 60 * nano_second else d)"

section \<open>The interface of the rule engine\<close>

text \<open>What the blocker relies on: a failed call changes nothing, and a call on one list leaves the
  rows of the other lists alone.\<close>

locale ip_rule_manager =
  fixes add :: "'e add_rule"
    and remove :: "'e remove_rule"
    and rows_of :: "string \<Rightarrow> 'e \<Rightarrow> 'r list"
  assumes add_failed: "fst (add rt ip s e) = Inl err \<Longrightarrow> snd (add rt ip s e) = e"
    and add_others: "rt' \<noteq> rt \<Longrightarrow> rows_of rt' (snd (add rt ip s e)) = rows_of rt' e"
    and remove_failed: "fst (remove rt ip e) = Inl err \<Longrightarrow> snd (remove rt ip e) = e"
    and remove_others: "rt' \<noteq> rt \<Longrightarrow> rows_of rt' (snd (remove rt ip e)) = rows_of rt' e"
begin

definition same_others :: "'e auto_blocker \<Rightarrow> 'e auto_blocker \<Rightarrow> bool" where
  "same_others a a' \<longleftrightarrow>
     (\<forall>rt. rt \<noteq> ''blacklist'' \<longrightarrow> rows_of rt (ab_ruleEngine a') = rows_of rt (ab_ruleEngine a))"

lemma same_others_refl [simp]: "same_others a a"
  by (simp add: same_others_def)

lemma same_others_trans: "same_others a b \<Longrightarrow> same_others b c \<Longrightarrow> same_others a c"
  by (simp add: same_others_def)

lemma same_others_fold:
  "(\<And>x a. same_others a (f x a)) \<Longrightarrow> same_others a (fold f xs a)"
  by (induction xs arbitrary: a) (auto intro: same_others_trans)

lemma fail_others: "same_others a (record_challenge_fail add p r now ip a)"
  by (auto simp: same_others_def record_challenge_fail_def set_fail_count_def persist_block_def
      rollback_persist_def add_others Let_def split: prod.splits sum.splits option.splits
      dest: arg_cong[where f = snd])
    (metis add_others snd_conv)+

lemma unblock_others: "same_others a (unblock remove d ip a)"
  by (auto simp: same_others_def unblock_def set_fail_count_def delete_persisted_block_def Let_def
      split: prod.splits sum.splits option.splits)
    (metis remove_others snd_conv)+

lemma expire_others: "same_others a (expire_blocks remove d now order a)"
  unfolding expire_blocks_def
  by (rule same_others_fold) (simp add: expire_one_def unblock_others split: option.split)

end

subsection \<open>The rule engine provides it\<close>

definition engine_add :: "regexp \<Rightarrow> queries \<Rightarrow> merge_outcome \<Rightarrow> string option \<Rightarrow> rule_engine add_rule" where
  "engine_add compile q outcome fail rt ip s e = add_ip_rule_by_source compile q outcome fail rt ip s e"

definition engine_remove :: "regexp \<Rightarrow> queries \<Rightarrow> merge_outcome \<Rightarrow> string option \<Rightarrow> rule_engine remove_rule" where
  "engine_remove compile q outcome fail rt ip e = remove_ip_rule compile q outcome fail rt ip e"

definition rows_of_type :: "string \<Rightarrow> rule_engine \<Rightarrow> ip_row list" where
  "rows_of_type rt e = filter (\<lambda>r. ir_rule_type r = rt) (ip_rules (db e))"

lemma rows_of_type_load [simp]: "rows_of_type rt (load_all_rules c q e) = rows_of_type rt e"
  by (simp add: rows_of_type_def load_db)

lemma insert_ignore_others:
  "rt' \<noteq> ir_rule_type row \<Longrightarrow>
   filter (\<lambda>r. ir_rule_type r = rt') (fst (insert_or_ignore ip_key row rows)) = filter (\<lambda>r. ir_rule_type r = rt') rows"
  by (simp add: insert_or_ignore_def)

lemma merged_rows_others:
  assumes "rt' \<noteq> rt"
  shows "filter (\<lambda>r. ir_rule_type r = rt') (merged_rows rt merged rows) = filter (\<lambda>r. ir_rule_type r = rt') rows"
proof -
  have "filter (\<lambda>r. ir_rule_type r = rt')
      (foldl (\<lambda>rs ip. fst (insert_or_ignore ip_key (local_ip_row rt ip) rs)) rs merged) =
    filter (\<lambda>r. ir_rule_type r = rt') rs" for rs
    using assms by (induction merged arbitrary: rs) (simp_all add: insert_ignore_others)
  moreover have "filter (\<lambda>r. ir_rule_type r = rt' \<and> ir_rule_type r \<noteq> rt) rows = filter (\<lambda>r. ir_rule_type r = rt') rows"
    using assms by (intro filter_cong) auto
  ultimately show ?thesis by (simp add: merged_rows_def conj_commute)
qed

lemma try_merge_others:
  "rt' \<noteq> rt \<Longrightarrow> rows_of_type rt' (try_merge_ip_rules c q outcome rt e) = rows_of_type rt' e"
  unfolding try_merge_ip_rules_def Let_def
  by (auto simp: merged_rows_others rows_of_type_def load_db split: merge_outcome.split)

interpretation blocking: ip_rule_manager "engine_add c q outcome fail" "engine_remove c q outcome' fail'" rows_of_type
proof
  fix rt rt' ip s :: string and e :: rule_engine
  assume ne: "rt' \<noteq> rt"
  have upd: "filter (\<lambda>r. ir_rule_type r = rt') (f (ip_rules (db e))) = filter (\<lambda>r. ir_rule_type r = rt') (ip_rules (db e))
      \<Longrightarrow> rows_of_type rt' (update_ip_rows f e) = rows_of_type rt' e" for f
    by (simp add: rows_of_type_def)
  show "rows_of_type rt' (snd (engine_add c q outcome fail rt ip s e)) = rows_of_type rt' e"
    using ne by (simp add: engine_add_def add_ip_rule_by_source_def add_ip_rule_with_source_def Let_def
        try_merge_others upd insert_ignore_others split: option.split)
  have "filter (\<lambda>r. ir_rule_type r = rt' \<and> \<not> (ir_rule_type r = rt \<and> ir_ip r = ip)) (ip_rules (db e)) =
      filter (\<lambda>r. ir_rule_type r = rt') (ip_rules (db e))"
    using ne by (intro filter_cong) auto
  then show "rows_of_type rt' (snd (engine_remove c q outcome' fail' rt ip e)) = rows_of_type rt' e"
    using ne by (simp add: engine_remove_def remove_ip_rule_def try_merge_others upd conj_commute
        split: option.split)
qed (auto simp: engine_add_def engine_remove_def add_ip_rule_by_source_def add_ip_rule_with_source_def
    remove_ip_rule_def Let_def split: option.splits)

section \<open>The three steps are one\<close>

text \<open>What the three steps of a block leave behind, for every outcome of the INSERT, of the call to the
  rule engine and of the DELETE that takes the row back.\<close>

definition block_outcome ::
  "(string + unit) \<times> 'e \<Rightarrow> bool \<Rightarrow> bool \<Rightarrow> instant \<Rightarrow> string \<Rightarrow> 'e auto_blocker \<Rightarrow> 'e auto_blocker" where
  "block_outcome call persist_ok rollback_ok now ip a =
     (let n = fail_count a ip + 1; until = now + ab_blockDuration a;
          rest = filter (\<lambda>r. \<not> is_block_of ip r); row = block_row_of a ip until n;
          counted = a\<lparr>ab_failCount := (ab_failCount a)(ip \<mapsto> n)\<rparr>
      in if ab_db a \<noteq> None \<and> \<not> persist_ok then counted
         else case fst call of
           Inr _ \<Rightarrow> a\<lparr>ab_blockedUntil := (ab_blockedUntil a)(ip \<mapsto> until),
                      ab_failCount := (ab_failCount a)(ip \<mapsto> 0), ab_ruleEngine := snd call,
                      ab_db := map_option (\<lambda>rows. rest rows @ [row]) (ab_db a)\<rparr>
         | Inl _ \<Rightarrow> counted\<lparr>ab_db := map_option
                      (\<lambda>rows. if rollback_ok then rest rows else rest rows @ [row]) (ab_db a)\<rparr>)"

context ip_rule_manager begin

lemma fail_outcome:
  assumes "ab_blockedUntil a ip = None" and "ab_maxFails a - 1 \<le> fail_count a ip"
  shows "record_challenge_fail add persist_ok rollback_ok now ip a =
    block_outcome (add ''blacklist'' ip ''autoblock'' (ab_ruleEngine a)) persist_ok rollback_ok now ip a"
proof -
  have own: "is_block_of ip (block_row_of a ip u n)" for u n
    by (simp add: is_block_of_def block_row_of_def)
  obtain res eng where call: "add ''blacklist'' ip ''autoblock'' (ab_ruleEngine a) = (res, eng)"
    by (cases "add ''blacklist'' ip ''autoblock'' (ab_ruleEngine a)")
  show ?thesis
  proof (cases res)
    case (Inl err)
    then have "eng = ab_ruleEngine a"
      using add_failed[of "''blacklist''" ip "''autoblock''" "ab_ruleEngine a" err] call by simp
    then show ?thesis
      using assms Inl call own
      by (cases "ab_db a") (simp_all add: record_challenge_fail_def persist_block_def rollback_persist_def
          set_fail_count_def fail_count_def block_outcome_def Let_def)
  next
    case (Inr u)
    then show ?thesis
      using assms call
      by (cases "ab_db a") (simp_all add: record_challenge_fail_def persist_block_def set_fail_count_def
          fail_count_def block_outcome_def Let_def)
  qed
qed

end

text \<open>
  C17. What an automatic block does, for every outcome of its three steps: when an address that is not
  blocked fails its challenge at the threshold, then all three happen (the row of the address
  in the database is replaced, the rule engine has taken the rule, the memory holds the end of the block
  and a cleared counter) exactly when the INSERT and the rule engine succeed. If the INSERT fails, the
  counter moves and nothing else changes. If the rule engine refuses, the counter moves and the row is
  taken back, with any older row of the address; only if that DELETE fails as well does the row stay, for
  an address nothing blocks. Without a database the rule engine alone decides.
\<close>

theorem challenge_block_atomic:
  assumes "ab_blockedUntil a ip = None" and "ab_maxFails a - 1 \<le> fail_count a ip"
  shows "record_challenge_fail (engine_add c q outcome fail) persist_ok rollback_ok now ip a =
    (let n = fail_count a ip + 1; until = now + ab_blockDuration a;
         call = engine_add c q outcome fail ''blacklist'' ip ''autoblock'' (ab_ruleEngine a);
         rest = filter (\<lambda>r. \<not> is_block_of ip r); row = block_row_of a ip until n;
         counted = a\<lparr>ab_failCount := (ab_failCount a)(ip \<mapsto> n)\<rparr>
     in if ab_db a \<noteq> None \<and> \<not> persist_ok then counted
        else case fst call of
          Inr _ \<Rightarrow> a\<lparr>ab_blockedUntil := (ab_blockedUntil a)(ip \<mapsto> until),
                     ab_failCount := (ab_failCount a)(ip \<mapsto> 0), ab_ruleEngine := snd call,
                     ab_db := map_option (\<lambda>rows. rest rows @ [row]) (ab_db a)\<rparr>
        | Inl _ \<Rightarrow> counted\<lparr>ab_db := map_option
                     (\<lambda>rows. if rollback_ok then rest rows else rest rows @ [row]) (ab_db a)\<rparr>)"
  using blocking.fail_outcome[OF assms] by (simp add: block_outcome_def Let_def)

definition sample_blocker :: "rule_engine \<Rightarrow> rule_engine auto_blocker" where
  "sample_blocker e = new_auto_blocker e 1 (60 * nano_second) (Some [])"

theorem challenge_block_atomic_witness:
  "record_challenge_fail (engine_add (\<lambda>_. None) (\<lambda>_. True) MergeCommitted (Some ''locked'')) True False 5 ''10.0.0.1''
     (sample_blocker sample_engine) =
   (sample_blocker sample_engine)\<lparr>ab_failCount := [''10.0.0.1'' \<mapsto> 1],
     ab_db := Some [block_row_of (sample_blocker sample_engine) ''10.0.0.1'' (5 + 60 * nano_second) 1]\<rparr>"
  using challenge_block_atomic[of "sample_blocker sample_engine" "''10.0.0.1''" _ _ _ _ True False 5]
  by (simp add: sample_blocker_def new_auto_blocker_def fail_count_def engine_add_def
      add_ip_rule_by_source_def add_ip_rule_with_source_def Let_def)

section \<open>When an address is blocked\<close>

datatype challenge = Failed string instant | Passed string

definition challenge_step :: "'e add_rule \<Rightarrow> challenge \<Rightarrow> 'e auto_blocker \<Rightarrow> 'e auto_blocker" where
  "challenge_step add ev a =
     (case ev of
        Failed ip now \<Rightarrow> record_challenge_fail add True True now ip a
      | Passed ip \<Rightarrow> record_challenge_pass ip a)"

text \<open>The failures of one address since it last passed.\<close>

fun streak_step :: "string \<Rightarrow> challenge \<Rightarrow> int \<Rightarrow> int" where
  "streak_step ip (Failed i _) n = (if i = ip then n + 1 else n)"
| "streak_step ip (Passed i) n = (if i = ip then 0 else n)"

definition streak :: "string \<Rightarrow> challenge list \<Rightarrow> int" where
  "streak ip evs = fold (streak_step ip) evs 0"

lemma streak_snoc [simp]: "streak ip [] = 0" "streak ip (evs @ [ev]) = streak_step ip ev (streak ip evs)"
  by (simp_all add: streak_def)

lemma streak_nonneg: "0 \<le> streak ip evs"
proof (induction evs rule: rev_induct)
  case (snoc ev evs)
  then show ?case by (cases ev) auto
qed simp

text \<open>What one challenge does to one address, when every step of a block succeeds.\<close>

lemma challenge_step_own:
  assumes "\<And>ip e. fst (add ''blacklist'' ip ''autoblock'' e) = Inr ()"
  shows "ab_maxFails (challenge_step add ev a) = ab_maxFails a" (is ?max)
    and "ab_blockedUntil a ip \<noteq> None \<Longrightarrow> ab_blockedUntil (challenge_step add ev a) ip \<noteq> None" (is "_ \<Longrightarrow> ?stay")
    and "ab_blockedUntil a ip = None \<Longrightarrow>
      ab_blockedUntil (challenge_step add ev a) ip \<noteq> None \<longleftrightarrow>
        (\<exists>now. ev = Failed ip now) \<and> fail_count a ip \<ge> ab_maxFails a - 1" (is "_ \<Longrightarrow> ?new")
    and "ab_blockedUntil (challenge_step add ev a) ip = None \<Longrightarrow>
      fail_count (challenge_step add ev a) ip = streak_step ip ev (fail_count a ip)" (is "_ \<Longrightarrow> ?count")
proof -
  have call: "\<exists>eng. add ''blacklist'' i ''autoblock'' e = (Inr (), eng)" for i e
    using assms[of i e] by (metis prod.collapse)
  have db: "\<exists>a'. persist_block True i u n a = (True, a') \<and> ab_maxFails a' = ab_maxFails a \<and>
      ab_blockedUntil a' = ab_blockedUntil a \<and> ab_failCount a' = ab_failCount a" for i u n
    by (simp add: persist_block_def split: option.split)
  have ev: "?max \<and> (ab_blockedUntil a ip \<noteq> None \<longrightarrow> ?stay) \<and> (ab_blockedUntil a ip = None \<longrightarrow> ?new) \<and>
      (ab_blockedUntil (challenge_step add ev a) ip = None \<longrightarrow> ?count)"
  proof (cases ev)
    case (Passed i)
    then show ?thesis
      by (auto simp: challenge_step_def record_challenge_pass_def set_fail_count_def fail_count_def)
  next
    case (Failed i now)
    obtain a' where a': "persist_block True i (now + ab_blockDuration a) (fail_count a i + 1) a = (True, a')"
      "ab_maxFails a' = ab_maxFails a" "ab_blockedUntil a' = ab_blockedUntil a" "ab_failCount a' = ab_failCount a"
      using db by blast
    obtain eng where "add ''blacklist'' i ''autoblock'' (ab_ruleEngine a') = (Inr (), eng)"
      using call by blast
    then show ?thesis
      using Failed a' by (auto simp: challenge_step_def record_challenge_fail_def set_fail_count_def
          fail_count_def Let_def)
  qed
  then show ?max and "ab_blockedUntil a ip \<noteq> None \<Longrightarrow> ?stay" and "ab_blockedUntil a ip = None \<Longrightarrow> ?new"
    and "ab_blockedUntil (challenge_step add ev a) ip = None \<Longrightarrow> ?count"
    by blast+
qed

text \<open>At some point the address had failed \<open>n\<close> challenges in a row.\<close>

definition reached_streak :: "string \<Rightarrow> int \<Rightarrow> challenge list \<Rightarrow> bool" where
  "reached_streak ip n evs \<longleftrightarrow> (\<exists>k \<le> length evs. streak ip (take k evs) \<ge> n)"

lemma reached_streak_snoc:
  "reached_streak ip n (evs @ [ev]) \<longleftrightarrow> reached_streak ip n evs \<or> streak ip (evs @ [ev]) \<ge> n"
  unfolding reached_streak_def by (auto simp: le_Suc_eq simp del: streak_snoc)

lemma reached_streak_now: "\<not> reached_streak ip n evs \<Longrightarrow> streak ip evs < n"
  unfolding reached_streak_def by (metis linorder_not_le order_refl take_all)

lemma streak_grows:
  "streak ip evs < max 1 m \<Longrightarrow>
   streak ip (evs @ [ev]) \<ge> max 1 m \<longleftrightarrow> (\<exists>now. ev = Failed ip now) \<and> streak ip evs \<ge> m - 1"
  using streak_nonneg[of ip evs] by (cases ev) auto

lemma challenges_count:
  assumes ok: "\<And>ip e. fst (add ''blacklist'' ip ''autoblock'' e) = Inr ()"
  shows "let a = fold (challenge_step add) evs (new_auto_blocker e m dur rows) in
    ab_maxFails a = m \<and> (ab_blockedUntil a ip = None \<longrightarrow> fail_count a ip = streak ip evs) \<and>
    (ab_blockedUntil a ip \<noteq> None \<longleftrightarrow> reached_streak ip (max 1 m) evs)"
proof (induction evs rule: rev_induct)
  case Nil
  then show ?case by (simp add: new_auto_blocker_def fail_count_def reached_streak_def)
next
  case (snoc ev evs)
  let ?a = "fold (challenge_step add) evs (new_auto_blocker e m dur rows)"
  let ?b = "challenge_step add ev ?a"
  have IH: "ab_maxFails ?a = m" "ab_blockedUntil ?a ip = None \<longrightarrow> fail_count ?a ip = streak ip evs"
    "ab_blockedUntil ?a ip \<noteq> None \<longleftrightarrow> reached_streak ip (max 1 m) evs"
    using snoc unfolding Let_def by blast+
  note step = challenge_step_own[where add = add and ev = ev, OF ok]
  have "ab_maxFails ?b = m" by (simp only: step(1) IH(1))
  moreover have blocked: "ab_blockedUntil ?b ip \<noteq> None \<longleftrightarrow> reached_streak ip (max 1 m) (evs @ [ev])"
  proof (cases "ab_blockedUntil ?a ip = None")
    case True
    then have "streak ip evs < max 1 m"
      using IH(3) reached_streak_now by blast
    then show ?thesis
      using True IH step(3)[OF True] streak_grows[of ip evs m ev] unfolding reached_streak_snoc
      by metis
  next
    case False
    then show ?thesis using IH(3) step(2)[OF False] by (simp add: reached_streak_snoc)
  qed
  moreover have "fail_count ?b ip = streak ip (evs @ [ev])" if none: "ab_blockedUntil ?b ip = None"
    using step(4)[OF none] step(2)[of ?a ip] none IH(2) by (metis streak_snoc(2))
  ultimately show ?case by (simp add: Let_def del: streak_snoc)
qed

text \<open>
  An address is blocked exactly when it has failed \<open>maxFails\<close> challenges in a row: starting
  from a new blocker and after any interleaving of the challenges of all addresses, it is blocked
  if and only if at some point its failures since it last passed reached the threshold (a
  threshold of 0 or less acts as 1). Every statement and the rule engine are assumed to succeed.
\<close>

theorem blocked_after_streak:
  "ab_blockedUntil (fold (challenge_step (engine_add c q outcome None)) evs (new_auto_blocker e m dur rows)) ip \<noteq> None
   \<longleftrightarrow> reached_streak ip (max 1 m) evs"
  using challenges_count[of "engine_add c q outcome None" evs e m dur rows ip]
  by (simp add: engine_add_def add_ip_rule_by_source_def add_ip_rule_with_source_def Let_def)

section \<open>Memory and database\<close>

definition block_key :: "block_row \<Rightarrow> string \<times> string" where
  "block_key r = (bk_ip r, bk_source r)"

text \<open>One address: the end of its block in memory and on record.\<close>

definition block_view :: "'e auto_blocker \<Rightarrow> string \<Rightarrow> instant option \<times> db_time option" where
  "block_view a ip =
     (ab_blockedUntil a ip,
      case ab_db a of None \<Rightarrow> None | Some rows \<Rightarrow> map_option bk_blocked_until (find (is_block_of ip) rows))"

definition mirrored :: "'e auto_blocker \<Rightarrow> bool" where
  "mirrored a \<longleftrightarrow> (\<forall>ip. snd (block_view a ip) = map_option stored_time (fst (block_view a ip)))"

lemma is_block_of_same: "is_block_of ip r \<Longrightarrow> is_block_of i r \<longleftrightarrow> i = ip"
  by (auto simp: is_block_of_def)

lemma find_drop_block:
  "find (is_block_of i) (filter (\<lambda>r. \<not> is_block_of ip r) rows) =
     (if i = ip then None else find (is_block_of i) rows)"
  by (induction rows) (auto simp: is_block_of_same)

lemma find_after: "find P (xs @ ys) = (case find P xs of None \<Rightarrow> find P ys | Some x \<Rightarrow> Some x)"
  by (induction xs) auto

lemma db_records_find:
  assumes "distinct (map block_key rows)"
  shows "db_records a now rows ip = map_option (read_until a now) (find (is_block_of ip) rows)"
proof -
  have "fold (\<lambda>r recs. recs(bk_ip r \<mapsto> read_until a now r)) (filter (\<lambda>r. bk_source r = ''autoblock'') rows) m ip =
      (case find (is_block_of ip) rows of None \<Rightarrow> m ip | Some r \<Rightarrow> Some (read_until a now r))" for m
    using assms
  proof (induction rows arbitrary: m)
    case (Cons r rows)
    show ?case
    proof (cases "is_block_of ip r")
      case True
      then have "find (is_block_of ip) rows = None"
        using Cons.prems by (auto simp: find_None_iff is_block_of_def block_key_def image_iff)
      moreover have "bk_ip r = ip" "bk_source r = ''autoblock''"
        using True by (auto simp: is_block_of_def)
      ultimately show ?thesis
        using True Cons by simp
    next
      case False
      then have "bk_ip r \<noteq> ip" if "bk_source r = ''autoblock''"
        using that by (auto simp: is_block_of_def)
      then show ?thesis
        using False Cons by (auto split: option.split)
    qed
  qed simp
  then show ?thesis by (simp add: db_records_def split: option.split)
qed

text \<open>A loop whose turns each touch one key, and whose second turn on a key changes nothing,
  leaves every visited key as one turn leaves it.\<close>

lemma fold_by_key:
  assumes "\<And>k a. P a \<Longrightarrow> P (f k a)"
    and "\<And>k a i. P a \<Longrightarrow> view (f k a) i = (if i = k then g k (view a k) else view a i)"
    and "\<And>k v. g k (g k v) = g k v" and "P a"
  shows "P (fold f ks a) \<and> view (fold f ks a) i = (if i \<in> set ks then g i (view a i) else view a i)"
  using assms(4)
proof (induction ks arbitrary: a)
  case (Cons k ks)
  then show ?case using assms(1-3) by auto
qed simp

lemma block_row_of_simps [simp]:
  "is_block_of i (block_row_of a ip until n) \<longleftrightarrow> i = ip"
  "bk_blocked_until (block_row_of a ip until n) = stored_time until"
  by (auto simp: is_block_of_def block_row_of_def)

lemma view_delete:
  "ab_db a \<noteq> None \<Longrightarrow> block_view (delete_persisted_block True ip a) i =
     (if i = ip then (fst (block_view a ip), None) else block_view a i)"
  by (auto simp: block_view_def delete_persisted_block_def find_drop_block)

lemma view_persist:
  "ab_db a \<noteq> None \<Longrightarrow> block_view (snd (persist_block True ip until n a)) i =
     (if i = ip then (fst (block_view a ip), Some (stored_time until)) else block_view a i)"
  by (auto simp: block_view_def persist_block_def find_after find_drop_block split: option.split)

lemma db_kept:
  "ab_db a \<noteq> None \<Longrightarrow> ab_db (delete_persisted_block ok ip a) \<noteq> None"
  "ab_db a \<noteq> None \<Longrightarrow> ab_db (snd (persist_block ok ip until n a)) \<noteq> None"
  by (auto simp: delete_persisted_block_def persist_block_def split: option.split)

lemma reconcile_record_db: "ab_db a \<noteq> None \<Longrightarrow> ab_db (reconcile_record remove d now recs ip a) \<noteq> None"
  by (auto simp: reconcile_record_def db_kept set_fail_count_def Let_def simp del: not_None_eq
      intro!: db_kept split: option.split)

lemma write_back_db: "ab_db a \<noteq> None \<Longrightarrow> ab_db (write_back p recs ip a) \<noteq> None"
  by (auto simp: write_back_def simp del: not_None_eq intro!: db_kept split: option.split)

definition record_view :: "instant \<Rightarrow> (string \<rightharpoonup> instant) \<Rightarrow> string \<Rightarrow>
    instant option \<times> db_time option \<Rightarrow> instant option \<times> db_time option" where
  "record_view now recs ip v =
     (case recs ip of None \<Rightarrow> v | Some u \<Rightarrow> if now > u then (None, None) else (Some u, snd v))"

definition written_view :: "(string \<rightharpoonup> instant) \<Rightarrow> string \<Rightarrow>
    instant option \<times> db_time option \<Rightarrow> instant option \<times> db_time option" where
  "written_view recs ip v =
     (case fst v of None \<Rightarrow> v | Some u \<Rightarrow> if recs ip \<noteq> None then v else (Some u, Some (stored_time u)))"

lemma view_record:
  assumes "ab_db a \<noteq> None"
  shows "block_view (reconcile_record remove (\<lambda>_. True) now recs k a) i =
    (if i = k then record_view now recs k (block_view a k) else block_view a i)"
proof (cases "recs k")
  case (Some u)
  let ?a = "a\<lparr>ab_blockedUntil := (ab_blockedUntil a)(k := None), ab_failCount := (ab_failCount a)(k := None),
     ab_ruleEngine := snd (remove ''blacklist'' k (ab_ruleEngine a))\<rparr>"
  have "ab_db ?a \<noteq> None" using assms by simp
  note del = view_delete[OF this, of k i]
  show ?thesis
  proof (cases "now > u")
    case True
    then have "reconcile_record remove (\<lambda>_. True) now recs k a = delete_persisted_block True k ?a"
      using Some by (simp add: reconcile_record_def Let_def)
    moreover have "fst (block_view ?a k) = None" "i \<noteq> k \<Longrightarrow> block_view ?a i = block_view a i"
      by (simp_all add: block_view_def)
    ultimately show ?thesis
      using del Some True by (simp add: record_view_def)
  next
    case False
    then show ?thesis
      using Some by (simp add: reconcile_record_def record_view_def block_view_def set_fail_count_def
          split: option.split)
  qed
qed (simp add: reconcile_record_def record_view_def)

lemma view_write_back:
  assumes "ab_db a \<noteq> None"
  shows "block_view (write_back (\<lambda>_. True) recs k a) i =
    (if i = k then written_view recs k (block_view a k) else block_view a i)"
proof (cases "ab_blockedUntil a k")
  case None
  then have "fst (block_view a k) = None" by (simp add: block_view_def)
  then show ?thesis
    using None by (simp add: write_back_def written_view_def)
next
  case (Some u)
  then have "fst (block_view a k) = Some u" by (simp add: block_view_def)
  then show ?thesis
    using Some view_persist[OF assms] by (simp add: write_back_def written_view_def)
qed

text \<open>The state after the two loops, one address at a time.\<close>

lemma reconcile_view:
  assumes "ab_db a = Some rows" and "distinct (map block_key rows)"
    and "bk_ip ` set rows \<subseteq> set order1" and "bk_ip ` set rows \<union> dom (ab_blockedUntil a) \<subseteq> set order2"
  shows "block_view (reconcile remove True (\<lambda>_. True) (\<lambda>_. True) now order1 order2 a) ip =
    (let recs = db_records a now rows
     in written_view recs ip (record_view now recs ip (block_view a ip)))"
proof -
  let ?recs = "db_records a now rows"
  let ?a1 = "fold (reconcile_record remove (\<lambda>_. True) now ?recs) order1 a"
  have recs: "?recs i \<noteq> None \<Longrightarrow> i \<in> bk_ip ` set rows" for i
    unfolding db_records_find[OF assms(2)]
    by (auto simp: is_block_of_def dest!: find_Some_mem)
  have one: "ab_db ?a1 \<noteq> None \<and> block_view ?a1 ip =
      (if ip \<in> set order1 then record_view now ?recs ip (block_view a ip) else block_view a ip)"
    by (rule fold_by_key[where P = "\<lambda>a. ab_db a \<noteq> None" and view = block_view])
      (use assms(1) in \<open>auto simp: view_record reconcile_record_db record_view_def simp del: not_None_eq
         split: option.split\<close>)
  have two: "block_view (fold (write_back (\<lambda>_. True) ?recs) order2 ?a1) ip =
      (if ip \<in> set order2 then written_view ?recs ip (block_view ?a1 ip) else block_view ?a1 ip)"
    by (rule fold_by_key[where P = "\<lambda>a. ab_db a \<noteq> None" and view = block_view, THEN conjunct2])
      (use one in \<open>auto simp: view_write_back write_back_db written_view_def simp del: not_None_eq
         split: option.split\<close>)
  have "block_view ?a1 ip = record_view now ?recs ip (block_view a ip)"
    using one recs[of ip] assms(3) by (auto simp: record_view_def split: option.split)
  moreover have "written_view ?recs ip (record_view now ?recs ip (block_view a ip)) =
      record_view now ?recs ip (block_view a ip)"
    if "ip \<notin> set order2"
  proof -
    have "find (is_block_of ip) rows = None"
      using that assms(4) by (auto simp: find_None_iff is_block_of_def)
    then have "block_view a ip = (None, None)" "?recs ip = None"
      using that assms(1,4) by (auto simp: block_view_def db_records_find[OF assms(2)])
    then show ?thesis by (simp add: written_view_def record_view_def)
  qed
  ultimately have "block_view (fold (write_back (\<lambda>_. True) ?recs) order2 ?a1) ip =
      written_view ?recs ip (record_view now ?recs ip (block_view a ip))"
    unfolding two by (cases "ip \<in> set order2") simp_all
  then show ?thesis using assms(1) by (simp add: reconcile_def Let_def)
qed

text \<open>
  The reconciliation restores the mirror between memory and database whatever state it finds:
  when its statements work, the rows are those the blocker writes and the two loops visit the
  maps completely, then afterwards an address has a block on record exactly when it has one in
  memory, with the same end to the second; a block whose recorded end is over is gone from
  both (also when the rule engine refused to drop its rule), any other record wins over the
  memory, and an address without a record keeps what the memory holds.
\<close>

theorem reconcile_restores_mirror:
  assumes "ab_db a = Some rows" and "distinct (map block_key rows)"
    and "\<forall>r \<in> set rows. bk_source r = ''autoblock'' \<longrightarrow> (\<exists>s. bk_blocked_until r = Rfc3339 s)"
    and "bk_ip ` set rows \<subseteq> set order1" and "bk_ip ` set rows \<union> dom (ab_blockedUntil a) \<subseteq> set order2"
  shows "let a' = reconcile remove True (\<lambda>_. True) (\<lambda>_. True) now order1 order2 a in
    mirrored a' \<and>
    ab_blockedUntil a' ip =
      (case find (is_block_of ip) rows of
         None \<Rightarrow> ab_blockedUntil a ip
       | Some r \<Rightarrow> if now > read_until a now r then None else Some (read_until a now r))"
proof -
  let ?a' = "reconcile remove True (\<lambda>_. True) (\<lambda>_. True) now order1 order2 a"
  note view = reconcile_view[OF assms(1,2,4,5), of remove now]
  have recs: "db_records a now rows i = map_option (read_until a now) (find (is_block_of i) rows)" for i
    by (rule db_records_find[OF assms(2)])
  have own: "block_view a i = (ab_blockedUntil a i, map_option bk_blocked_until (find (is_block_of i) rows))" for i
    by (simp add: block_view_def assms(1))
  have stored: "stored_time (read_until a now r) = bk_blocked_until r" if "find (is_block_of i) rows = Some r" for i r
  proof -
    have "r \<in> set rows" "bk_source r = ''autoblock''"
      using find_Some_mem[OF that] by (auto simp: is_block_of_def)
    then obtain s where "bk_blocked_until r = Rfc3339 s" using assms(3) by blast
    then show ?thesis by (simp add: read_until_def stored_time_def)
  qed
  have "snd (block_view ?a' i) = map_option stored_time (fst (block_view ?a' i))" for i
    using stored[of i] by (cases "ab_blockedUntil a i")
      (auto simp: view recs own written_view_def record_view_def Let_def split: option.splits)
  moreover have "ab_blockedUntil ?a' ip = fst (block_view ?a' ip)"
    by (simp add: block_view_def)
  then have "ab_blockedUntil ?a' ip = (case find (is_block_of ip) rows of
      None \<Rightarrow> ab_blockedUntil a ip
    | Some r \<Rightarrow> if now > read_until a now r then None else Some (read_until a now r))"
    by (auto simp: view recs own written_view_def record_view_def Let_def split: option.splits)
  ultimately show ?thesis by (simp add: mirrored_def Let_def)
qed

definition drifted_blocker :: "unit auto_blocker" where
  "drifted_blocker = (new_auto_blocker () 3 (60 * nano_second)
      (Some [\<lparr>bk_ip = ''10.0.0.1'', bk_blocked_until = Rfc3339 5, bk_source = ''autoblock'', bk_fail_count = 3,
              bk_block_duration_sec = 60\<rparr>]))\<lparr>ab_blockedUntil := [''10.0.0.2'' \<mapsto> 9 * nano_second]\<rparr>"

theorem reconcile_restores_mirror_witness:
  "let a' = reconcile (\<lambda>_ _ e. (Inl ''locked'', e)) True (\<lambda>_. True) (\<lambda>_. True) (6 * nano_second)
              [''10.0.0.1''] [''10.0.0.2'', ''10.0.0.1''] drifted_blocker
   in mirrored a' \<and> ab_blockedUntil a' ''10.0.0.1'' = None"
  using reconcile_restores_mirror[of drifted_blocker
      "[\<lparr>bk_ip = ''10.0.0.1'', bk_blocked_until = Rfc3339 5, bk_source = ''autoblock'', bk_fail_count = 3,
         bk_block_duration_sec = 60\<rparr>]" "[''10.0.0.1'']" "[''10.0.0.2'', ''10.0.0.1'']"
      "\<lambda>_ _ e. (Inl ''locked'', e)" "6 * nano_second" "''10.0.0.1''"]
  by (simp add: drifted_blocker_def new_auto_blocker_def is_block_of_def read_until_def Let_def)

section \<open>A merged block outlives its end\<close>

definition auto_row :: "string \<Rightarrow> ip_row" where
  "auto_row ip = (local_ip_row ''blacklist'' ip)\<lparr>ir_source := ''autoblock'', ir_intel_id := Some ''''\<rparr>"

definition with_block :: "string \<Rightarrow> rule_engine \<Rightarrow> rule_engine" where
  "with_block ip e = update_ip_rows (\<lambda>rows. rows @ [auto_row ip]) e"

definition blacklist_texts :: "rule_engine \<Rightarrow> string list" where
  "blacklist_texts e =
     map ir_ip (filter (\<lambda>r. ir_rule_type r = ''blacklist'' \<and> ir_enabled r = 1) (ip_rules (db e)))"

definition merged_blacklist :: "rule_engine \<Rightarrow> rule_engine" where
  "merged_blacklist e = update_ip_rows (merged_rows ''blacklist'' (merge_ips_to_cidrs (blacklist_texts e))) e"

lemma auto_row_simps [simp]:
  "ir_rule_type (auto_row ip) = ''blacklist''" "ir_ip (auto_row ip) = ip" "ir_enabled (auto_row ip) = 1"
  "ip_key (auto_row ip) = (''blacklist'', ip)"
  by (simp_all add: auto_row_def ip_key_def)

lemma engine_add_merges:
  assumes "(''blacklist'', ip) \<notin> ip_key ` set (ip_rules (db e))"
    and "merge_shrinks ''blacklist'' (with_block ip e)"
  shows "engine_add c q MergeCommitted None ''blacklist'' ip ''autoblock'' e =
    (Inr (), load_all_rules c q (merged_blacklist (with_block ip e)))"
proof -
  have "\<not> list_ex (\<lambda>r. ip_key r = ip_key (auto_row ip)) (ip_rules (db e))"
    using assms(1) unfolding list_ex_iff by (auto simp: image_iff)
  then have "update_ip_rows (\<lambda>rows. fst (insert_or_ignore ip_key (auto_row ip) rows)) e = with_block ip e"
    by (simp add: with_block_def insert_or_ignore_def update_ip_rows_def)
  then show ?thesis
    using try_merge_committed[OF assms(2)]
    by (simp add: engine_add_def add_ip_rule_by_source_def add_ip_rule_with_source_def Let_def
        merged_blacklist_def blacklist_texts_def flip: auto_row_def)
qed

lemma engine_remove_absent:
  assumes "(''blacklist'', ip) \<notin> ip_key ` set (ip_rules (db e))" and "\<not> merge_shrinks ''blacklist'' e"
  shows "engine_remove c q outcome None ''blacklist'' ip e = (Inr (), load_all_rules c q e)"
proof -
  have "filter (\<lambda>r. \<not> (ir_rule_type r = ''blacklist'' \<and> ir_ip r = ip)) (ip_rules (db e)) = ip_rules (db e)"
    using assms(1) by (auto simp: filter_id_conv ip_key_def image_iff)
  then have "update_ip_rows (filter (\<lambda>r. \<not> (ir_rule_type r = ''blacklist'' \<and> ir_ip r = ip))) e = e"
    by (simp add: update_ip_rows_def)
  moreover have "\<not> merge_shrinks ''blacklist'' (load_all_rules c q e)"
    using assms(2) by (simp add: merge_shrinks_def load_db)
  ultimately show ?thesis
    by (simp add: engine_remove_def remove_ip_rule_def try_merge_no_shrink)
qed

text \<open>
  An automatic block that the table merge joined with its neighbours never ends. When adding
  the rule of the blocked address \<open>x\<close> makes the blacklist mergeable and no merged rule is the
  address itself, then once the block is over the blocker forgets it and asks the rule engine to
  remove a rule that is no longer there: the merged network stays, and the address stays
  blocked although the blocker has no block of it left.
\<close>

theorem merged_block_never_ends:
  assumes "q IpRules"
    and "ab_blockedUntil a (ipv4_string x) = None" and "ab_maxFails a - 1 \<le> fail_count a (ipv4_string x)"
    and "(''blacklist'', ipv4_string x) \<notin> ip_key ` set (ip_rules (db (ab_ruleEngine a)))"
    and "\<forall>r \<in> set (ip_rules (db (ab_ruleEngine a))). ir_rule_type r = ''blacklist'' \<and> ir_enabled r = 1 \<longrightarrow>
           plain_rule (ir_ip r) \<and> canonical_rule (ir_ip r)"
    and "\<not> listed ''whitelist'' (ipv4_string x) (V4 x) (ip_rules (db (ab_ruleEngine a)))"
    and "merge_shrinks ''blacklist'' (with_block (ipv4_string x) (ab_ruleEngine a))"
    and "\<not> merge_shrinks ''blacklist'' (merged_blacklist (with_block (ipv4_string x) (ab_ruleEngine a)))"
    and "ipv4_string x \<notin> set (merge_ips_to_cidrs (blacklist_texts (with_block (ipv4_string x) (ab_ruleEngine a))))"
    and "later > now + ab_blockDuration a"
  shows "let blocked = record_challenge_fail (engine_add c q MergeCommitted None) True True now (ipv4_string x) a;
             expired = expire_blocks (engine_remove c q outcome None) (\<lambda>_. True) later [ipv4_string x] blocked
    in ab_blockedUntil blocked (ipv4_string x) = Some (now + ab_blockDuration a) \<and>
       ab_blockedUntil expired (ipv4_string x) = None \<and>
       Matched (is_ip_blocked (ab_ruleEngine expired) (ipv4_string x))"
proof -
  let ?ip = "ipv4_string x" and ?e = "with_block (ipv4_string x) (ab_ruleEngine a)"
  let ?m = "merged_blacklist ?e"
  note add = engine_add_merges[where c = c and q = q, OF assms(4,7)]
  have rows: "ip_rules (db ?e) = ip_rules (db (ab_ruleEngine a)) @ [auto_row ?ip]"
    by (simp add: with_block_def)
  have gone: "(''blacklist'', ?ip) \<notin> ip_key ` set (ip_rules (db (load_all_rules c q ?m)))"
    using assms(9) by (auto simp: load_db merged_blacklist_def merged_rows_set ip_key_def)
  have "\<not> merge_shrinks ''blacklist'' (load_all_rules c q ?m)"
    using assms(8) by (simp add: merge_shrinks_def load_db)
  note remove = engine_remove_absent[where c = c and q = q and outcome = outcome, OF gone this]
  have can: "\<forall>r \<in> set (ip_rules (db ?e)). ir_rule_type r = ''blacklist'' \<and> ir_enabled r = 1 \<longrightarrow>
      plain_rule (ir_ip r) \<and> canonical_rule (ir_ip r)"
    using assms(5) unfolding rows by (auto simp: plain_rule_address canonical_rule_def parse_ip_string)
  have "listed ''blacklist'' ?ip (V4 x) (ip_rules (db ?e))"
    unfolding rows listed_def
    by (rule bexI[of _ "auto_row ?ip"]) (simp_all add: row_applies_def parse_cidr_plain ipv4_string_chars)
  moreover have "\<not> listed ''whitelist'' ?ip (V4 x) (ip_rules (db ?e))"
    using assms(6) unfolding rows listed_def by auto
  ultimately have "Matched (is_ip_blocked (load_all_rules c q ?m) ?ip)"
    unfolding loaded_verdict[where q = q, OF assms(1)] merged_blacklist_def update_ip_rows_simps
      blacklist_texts_def merged_listed[OF can] by blast
  then have "Matched (is_ip_blocked (load_all_rules c q (load_all_rules c q ?m)) ?ip)"
    by (simp add: load_all_rules_def)
  moreover obtain a' where a': "persist_block True ?ip (now + ab_blockDuration a) (fail_count a ?ip + 1) a = (True, a')"
    "ab_ruleEngine a' = ab_ruleEngine a" "ab_blockedUntil a' = ab_blockedUntil a"
    by (cases "ab_db a") (simp_all add: persist_block_def)
  have blocked: "record_challenge_fail (engine_add c q MergeCommitted None) True True now ?ip a =
      set_fail_count ?ip 0 (a'\<lparr>ab_ruleEngine := load_all_rules c q ?m,
        ab_blockedUntil := (ab_blockedUntil a)(?ip \<mapsto> now + ab_blockDuration a)\<rparr>)"
    using assms(2,3) a' add by (simp add: record_challenge_fail_def Let_def)
  moreover have "ab_ruleEngine (delete_persisted_block True ?ip b) = ab_ruleEngine b"
    "ab_blockedUntil (delete_persisted_block True ?ip b) = ab_blockedUntil b" for b :: "rule_engine auto_blocker"
    by (simp_all add: delete_persisted_block_def split: option.split)
  ultimately show ?thesis
    unfolding Let_def blocked using assms(10) remove
    by (simp add: set_fail_count_def expire_blocks_def expire_one_def unblock_def Let_def)
qed

definition blocker_engine :: rule_engine where
  "blocker_engine = \<lparr>db = empty_db\<lparr>ip_rules := rule_rows (map ipv4_string [0x0A000000, 0x0A000001, 0x0A000002])\<rparr>,
     snapshot = empty_snapshot, lastVersion = 0\<rparr>"

theorem merged_block_never_ends_witness:
  "Matched (is_ip_blocked (ab_ruleEngine (expire_blocks (engine_remove (\<lambda>_. None) (\<lambda>_. True) MergeAborted None)
       (\<lambda>_. True) (99 * nano_second) [ipv4_string 0x0A000003]
       (record_challenge_fail (engine_add (\<lambda>_. None) (\<lambda>_. True) MergeCommitted None) True True 0
          (ipv4_string 0x0A000003) (sample_blocker blocker_engine)))) (ipv4_string 0x0A000003))"
proof -
  let ?a = "sample_blocker blocker_engine"
  have eng: "ab_ruleEngine ?a = blocker_engine" "ab_blockedUntil ?a i = None" "ab_maxFails ?a = 1"
    "fail_count ?a i = 0" "ab_blockDuration ?a = 60 * nano_second" for i
    by (simp_all add: sample_blocker_def new_auto_blocker_def fail_count_def)
  have rows: "ip_rules (db blocker_engine) = rule_rows (map ipv4_string [0x0A000000, 0x0A000001, 0x0A000002])"
    by (simp add: blocker_engine_def)
  have texts: "blacklist_texts (with_block (ipv4_string 0x0A000003) blocker_engine) = sample_rules"
    by (simp add: blacklist_texts_def with_block_def rows rule_rows_def sample_rules_def)
  have ne: "ipv4_string v \<noteq> ipv4_string w" if "v \<noteq> w" for v w
    using that by (metis ip_addr.inject(1) option.inject parse_ip_string)
  have notin: "ipv4_string 0x0A000003 \<noteq> cidr4_string 0x0A000000 30"
    using parse_cidr_string[of 30 "0x0A000000"] parse_cidr_plain[OF ipv4_string_chars(1), of "0x0A000003"]
    by auto
  have shrinks: "merge_shrinks ''blacklist'' e \<longleftrightarrow> length (blacklist_texts e) > 1 \<and>
      length (merge_ips_to_cidrs (blacklist_texts e)) < length (blacklist_texts e)" for e
    by (simp add: merge_shrinks_def blacklist_texts_def Let_def)
  have "blacklist_texts (merged_blacklist (with_block (ipv4_string 0x0A000003) blocker_engine)) =
      [cidr4_string 0x0A000000 30]"
    unfolding merged_blacklist_def texts sample_merge
    by (simp add: blacklist_texts_def with_block_def rows rule_rows_def merged_rows_def insert_or_ignore_def)
  then have small: "\<not> merge_shrinks ''blacklist'' (merged_blacklist (with_block (ipv4_string 0x0A000003) blocker_engine))"
    by (simp add: shrinks)
  have big: "merge_shrinks ''blacklist'' (with_block (ipv4_string 0x0A000003) blocker_engine)"
    unfolding shrinks texts sample_merge by (simp add: sample_rules_def)
  have plain: "\<forall>r \<in> set (ip_rules (db blocker_engine)). ir_rule_type r = ''blacklist'' \<and> ir_enabled r = 1 \<longrightarrow>
      plain_rule (ir_ip r) \<and> canonical_rule (ir_ip r)"
    by (auto simp: rows rule_rows_def plain_rule_address canonical_rule_def parse_ip_string)
  have white: "\<not> listed ''whitelist'' s w (ip_rules (db blocker_engine))" for s w
    by (simp add: listed_def rows rule_rows_def)
  show ?thesis
    using merged_block_never_ends[of "\<lambda>_. True" ?a "0x0A000003" 0 "99 * nano_second" "\<lambda>_. None" MergeAborted,
        unfolded eng, OF TrueI refl _ _ plain white big small]
    unfolding texts sample_merge using notin
    by (simp add: rows rule_rows_def ip_key_def ne Let_def)
qed

end
