(* ===== verification/Proxy.thy ===== *)
theory Proxy
  imports ProxyUtil AsyncExtract ApiSchema Bot VPatch RateLimiter SmartLimit AutoBlock
begin

text \<open>
  The request pipeline of the proxy (\<open>proxy/detect.go\<close>, \<open>proxy/ratelimit_check.go\<close>,
  \<open>recordBlock\<close> of \<open>proxy/metric.go\<close>): the checks a request goes through, in their order, over
  the components of the other theories.

  \<^item> \<open>waf_proxy\<close> holds the components the struct \<open>WAFProxy\<close> points to, the global switch, the
    challenge tables and the block events recorded so far. The automatic blocker and the proxy
    share one rule engine, which the blocker's calls are given and give back.
  \<^item> A check takes the exchange (the request, whose body a check may read and replay, and the
    response headers set so far) and answers \<open>Some\<close> when it has written a response.
  \<^item> \<open>proxy_env\<close> gathers what is outside the repository or outside one request: the clock, the
    geography data base, the ACME responses, the token buckets, the random bytes, the outcome of
    statements, the status of the backend.
  \<^item> Not modelled: access logs, the counters of \<open>stats\<close> and the metrics queue, alerts.
\<close>

subsection \<open>State\<close>

record block_event =
  ev_clientIP :: string
  ev_path :: string
  ev_method :: string
  ev_userAgent :: string
  ev_rule :: string
  ev_statusCode :: int
  ev_requestID :: string
  ev_backendAddr :: string
  ev_matchDetail :: string
  ev_matchLocation :: string

record 'l waf_proxy =
  wp_globalEnabled :: bool
  wp_ruleEngine :: rule_engine
  wp_limiter :: "'l ip_rate_limiter option"
  wp_rateLimitKeyCfg :: key_config
  wp_detectorManager :: "det_manager option"
  wp_rateLimitEngine :: "smart_engine option"
  wp_autoBlocker :: "rule_engine auto_blocker option"
  wp_botManager :: "bot_manager option"
  wp_botStats :: bot_stats
  wp_vpatchManager :: "vpatch_manager option"
  wp_pathBodyLimitMgr :: "body_limit_manager option"
  wp_apiSchemaMgr :: "schema_manager option"
  wp_asyncExtractor :: "extractor option"
  wp_trustedProxies :: "trusted_proxy_matcher option"
  wp_challenges :: challenge_store
  wp_events :: "block_event list"

record 'l proxy_env =
  pe_now :: instant
  pe_tz :: duration
  pe_runtime :: runtime
  pe_geo :: "string \<Rightarrow> string option"
  pe_acme :: "string \<Rightarrow> string"
  pe_unmarshal :: unmarshal
  pe_maxBody :: int
  pe_newLimiter :: "real \<Rightarrow> int \<Rightarrow> 'l"
  pe_allow :: "instant \<Rightarrow> 'l \<Rightarrow> bool \<times> 'l"
  pe_pathEnum :: "limiter_entry list \<Rightarrow> limiter_entry list"
  pe_pathAllow :: "limiter_entry \<Rightarrow> bool"
  pe_sha256 :: "string \<Rightarrow> string"
  pe_challenge :: string
  pe_token :: string
  pe_requestID :: string
  pe_upstream :: string
  pe_compile :: RuleEngine.regexp
  pe_queries :: queries
  pe_outcome :: merge_outcome
  pe_addFail :: "string option"
  pe_persist_ok :: bool
  pe_rollback_ok :: bool
  pe_respStatus :: int

record exchange =
  xc_request :: http_request
  xc_respHeader :: headers

datatype answer =
  BlockPage string int string
| ChallengePage string int string
| AcmeAnswer string
| ForwardTo http_request

type_synonym 'l check_step = "exchange \<Rightarrow> 'l waf_proxy \<Rightarrow> answer option \<times> exchange \<times> 'l waf_proxy"

definition and_then :: "'l check_step \<Rightarrow> 'l check_step \<Rightarrow> 'l check_step" where
  "and_then c1 c2 x p =
     (case c1 x p of
        (Some a, x', p') \<Rightarrow> (Some a, x', p')
      | (None, x', p') \<Rightarrow> c2 x' p')"

text \<open>What \<open>ServeHTTP\<close> hands to every check.\<close>

record request_ctx =
  cx_clientIP :: string
  cx_userAgent :: string
  cx_country :: "string option"

subsection \<open>Blocking\<close>

definition record_block_event ::
  "'l proxy_env \<Rightarrow> request_ctx \<Rightarrow> http_request \<Rightarrow> string \<Rightarrow> int \<Rightarrow> string \<Rightarrow> string
   \<Rightarrow> 'l waf_proxy \<Rightarrow> 'l waf_proxy" where
  "record_block_event env cx r rule statusCode matchDetail matchLocation p =
     p\<lparr>wp_events := wp_events p @
         [\<lparr>ev_clientIP = cx_clientIP cx, ev_path = rq_Path r, ev_method = rq_Method r,
           ev_userAgent = cx_userAgent cx, ev_rule = rule, ev_statusCode = statusCode,
           ev_requestID = pe_requestID env, ev_backendAddr = pe_upstream env,
           ev_matchDetail = matchDetail, ev_matchLocation = matchLocation\<rparr>]\<rparr>"

text \<open>\<open>recordBlock\<close> followed by \<open>blockpage.RenderBlock\<close>.\<close>

definition block_with ::
  "'l proxy_env \<Rightarrow> request_ctx \<Rightarrow> string \<Rightarrow> string \<Rightarrow> int \<Rightarrow> string \<Rightarrow> string \<Rightarrow> 'l check_step" where
  "block_with env cx page rule statusCode matchDetail matchLocation x p =
     (Some (BlockPage page statusCode matchDetail), x,
      record_block_event env cx (xc_request x) rule statusCode matchDetail matchLocation p)"

definition submit_async_extract ::
  "'l proxy_env \<Rightarrow> request_ctx \<Rightarrow> http_request \<Rightarrow> string \<Rightarrow> 'l waf_proxy \<Rightarrow> 'l waf_proxy" where
  "submit_async_extract env cx r sourceRule p =
     (case wp_asyncExtractor p of
        None \<Rightarrow> p
      | Some ae \<Rightarrow>
          p\<lparr>wp_asyncExtractor := Some (snd (submit
              \<lparr>er_RequestID = pe_requestID env, er_ClientIP = cx_clientIP cx, er_Method = rq_Method r,
               er_Path = rq_Path r, er_Query = rq_RawQuery r, er_Body = '''',
               er_UserAgent = header_get (rq_Header r) ''User-Agent'', er_SourceRule = sourceRule,
               er_Timestamp = pe_now env\<rparr> ae))\<rparr>)"

definition extract_and_block ::
  "'l proxy_env \<Rightarrow> request_ctx \<Rightarrow> string \<Rightarrow> string \<Rightarrow> string \<Rightarrow> int \<Rightarrow> string \<Rightarrow> string \<Rightarrow> 'l check_step" where
  "extract_and_block env cx sourceRule page rule statusCode matchDetail matchLocation x p =
     block_with env cx page rule statusCode matchDetail matchLocation x
       (submit_async_extract env cx (xc_request x) sourceRule p)"

definition no_answer :: "'l check_step" where
  "no_answer x p = (None, x, p)"

subsection \<open>checkPreDetectionRules\<close>

definition check_ip_rules :: "'l proxy_env \<Rightarrow> request_ctx \<Rightarrow> 'l check_step" where
  "check_ip_rules env cx x p =
     (let res = is_ip_blocked (wp_ruleEngine p) (cx_clientIP cx) in
      if Matched res then extract_and_block env cx ''ip_blacklist'' ''ip_blocked'' (''IP'' @ utf8 [233, 187, 145, 229, 144, 141, 229, 141, 149]) 403 (Detail res) ''ip'' x p
      else no_answer x p)"

definition check_reputation :: "'l proxy_env \<Rightarrow> request_ctx \<Rightarrow> 'l check_step" where
  "check_reputation env cx x p =
     (case wp_detectorManager p of
        None \<Rightarrow> no_answer x p
      | Some dm \<Rightarrow>
          let ((isBad, reason), dm') = check_ip_reputation (pe_now env) (cx_clientIP cx) dm;
              p = p\<lparr>wp_detectorManager := Some dm'\<rparr>
          in if isBad
             then extract_and_block env cx ''ip_reputation'' ''ip_reputation'' ((''IP'' @ utf8 [228, 191, 161, 232, 170, 137] @ '':'') @ reason) 403 reason
                    ''ip_reputation'' x p
             else no_answer x p)"

definition check_geo_rules :: "'l proxy_env \<Rightarrow> request_ctx \<Rightarrow> 'l check_step" where
  "check_geo_rules env cx x p =
     (case cx_country cx of
        None \<Rightarrow> no_answer x p
      | Some country \<Rightarrow>
          if country = '''' then no_answer x p
          else let res = is_geo_blocked (wp_ruleEngine p) country in
               if Matched res
               then extract_and_block env cx ''geo_blocked'' ''geo_blocked'' ((''GeoIP'' @ utf8 [233, 152, 187, 230, 150, 173] @ '':'') @ country) 403 (Detail res) ''geo'' x p
               else no_answer x p)"

definition check_method_rules :: "'l proxy_env \<Rightarrow> request_ctx \<Rightarrow> 'l check_step" where
  "check_method_rules env cx x p =
     (let res = is_method_allowed (wp_ruleEngine p) (rq_Method (xc_request x)) in
      if Matched res
      then extract_and_block env cx ''method_blocked'' ''method_blocked'' (''HTTP'' @ utf8 [230, 150, 185, 230, 179, 149, 233, 153, 144, 229, 136, 182]) 405 (Detail res) ''method'' x p
      else no_answer x p)"

definition check_path_rules :: "'l proxy_env \<Rightarrow> request_ctx \<Rightarrow> 'l check_step" where
  "check_path_rules env cx x p =
     (let res = check_path (wp_ruleEngine p) (rq_Path (xc_request x)) in
      if Matched res
      then extract_and_block env cx ''path_blacklist'' ''path_blocked'' (utf8 [232, 183, 175, 229, 190, 132, 233, 187, 145, 229, 144, 141, 229, 141, 149]) 403 (Detail res) ''path'' x p
      else no_answer x p)"

definition bot_class :: "request_ctx \<Rightarrow> http_request \<Rightarrow> bot_manager \<Rightarrow> classify_result" where
  "bot_class cx r bm =
     classify (cx_userAgent cx) (header_get (rq_Header r) ''Cookie'' \<noteq> '''')
       (header_get (rq_Header r) ''Referer'' \<noteq> '''') (header_get (rq_Header r) ''Accept-Language'' \<noteq> '''') bm"

definition check_bot :: "'l proxy_env \<Rightarrow> request_ctx \<Rightarrow> 'l check_step" where
  "check_bot env cx x p =
     (case wp_botManager p of
        None \<Rightarrow> no_answer x p
      | Some bm \<Rightarrow>
          let res = bot_class cx (xc_request x) bm;
              p = p\<lparr>wp_botStats := record_classification res (wp_botStats p)\<rparr>
          in if should_block res bm
             then extract_and_block env cx ''bot_malicious'' ''bot_blocked'' ((''Bot'' @ utf8 [230, 139, 166, 230, 136, 170] @ '':'') @ cl_Name res) 403 (cl_Reason res)
                    ''bot'' x p
             else no_answer x p)"

definition check_ua_rules :: "'l proxy_env \<Rightarrow> request_ctx \<Rightarrow> 'l check_step" where
  "check_ua_rules env cx x p =
     (let res = check_ua (wp_ruleEngine p) (cx_userAgent cx) in
      if Matched res then extract_and_block env cx ''ua_blacklist'' ''ua_blocked'' (''UA'' @ utf8 [233, 187, 145, 229, 144, 141, 229, 141, 149]) 403 (Detail res) ''ua'' x p
      else no_answer x p)"

definition check_pre_detection_rules :: "'l proxy_env \<Rightarrow> request_ctx \<Rightarrow> 'l check_step" where
  "check_pre_detection_rules env cx =
     foldr and_then
       [check_ip_rules env cx, check_reputation env cx, check_geo_rules env cx, check_method_rules env cx,
        check_path_rules env cx, check_bot env cx, check_ua_rules env cx] no_answer"

subsection \<open>checkRateLimits\<close>

definition rate_request :: "'l proxy_env \<Rightarrow> request_ctx \<Rightarrow> http_request \<Rightarrow> request_info" where
  "rate_request env cx r =
     \<lparr>ri_IP = cx_clientIP cx, ri_Method = rq_Method r, ri_Path = rq_Path r, ri_UserAgent = cx_userAgent cx,
      ri_StatusCode = 0, ri_RuleID = '''', ri_IsBlocked = False, ri_BodySize = 0, ri_Upstream = pe_upstream env,
      ri_Cookie = header_get (rq_Header r) ''Cookie'', ri_Referer = header_get (rq_Header r) ''Referer'',
      ri_CountryISO = (case cx_country cx of None \<Rightarrow> '''' | Some country \<Rightarrow> country)\<rparr>"

text \<open>\<open>BuildFingerprintFromRequest\<close>: the values under their sorted names, hashed; the first 16 bytes of
  the digest.\<close>

definition build_fingerprint :: "(string \<Rightarrow> string) \<Rightarrow> (string \<times> string) list \<Rightarrow> string" where
  "build_fingerprint sha256 kvs =
     take 32 (sha256 (''fp:'' @ concat (map (\<lambda>(k, v). k @ ''='' @ v @ '';'') kvs)))"

definition request_fingerprint :: "'l proxy_env \<Rightarrow> request_ctx \<Rightarrow> headers \<Rightarrow> string" where
  "request_fingerprint env cx h =
     build_fingerprint (pe_sha256 env)
       [(''accept_enc'', header_get h ''Accept-Encoding''), (''accept_lang'', header_get h ''Accept-Language''),
        (''sec_ch_platform'', header_get h ''Sec-Ch-Ua-Platform''), (''sec_ch_ua'', header_get h ''Sec-Ch-Ua''),
        (''sec_ch_ua_mobile'', header_get h ''Sec-CH-UA-Mobile''), (''ua'', cx_userAgent cx)]"

definition fingerprint_step :: "'l proxy_env \<Rightarrow> request_ctx \<Rightarrow> headers \<Rightarrow> smart_engine \<Rightarrow> smart_engine" where
  "fingerprint_step env cx h e =
     (if cx_userAgent cx \<noteq> '''' \<or> header_get h ''Accept-Language'' \<noteq> '''' \<or> header_get h ''Accept-Encoding'' \<noteq> ''''
      then set_fingerprint_for_ip (pe_now env) (cx_clientIP cx) (request_fingerprint env cx h) e else e)"

definition put_engine :: "smart_engine \<Rightarrow> 'l waf_proxy \<Rightarrow> 'l waf_proxy" where
  "put_engine e p = p\<lparr>wp_rateLimitEngine := Some e\<rparr>"

definition feedback :: "'l proxy_env \<Rightarrow> request_info \<Rightarrow> 'l waf_proxy \<Rightarrow> 'l waf_proxy" where
  "feedback env info p =
     (case wp_rateLimitEngine p of
        None \<Rightarrow> p
      | Some e \<Rightarrow> put_engine (engine_record_feedback (pe_tz env) (pe_now env) info e) p)"

text \<open>\<open>Engine.RecordChallengePass\<close> and \<open>RecordChallengeFail\<close>: the blocker, when there is one, works on the rule engine
  of the proxy.\<close>

definition with_blocker ::
  "(rule_engine auto_blocker \<Rightarrow> rule_engine auto_blocker) \<Rightarrow> 'l waf_proxy \<Rightarrow> 'l waf_proxy" where
  "with_blocker f p =
     (case wp_autoBlocker p of
        None \<Rightarrow> p
      | Some a \<Rightarrow>
          let a' = f (a\<lparr>ab_ruleEngine := wp_ruleEngine p\<rparr>)
          in p\<lparr>wp_autoBlocker := Some a', wp_ruleEngine := ab_ruleEngine a'\<rparr>)"

definition challenge_failed :: "'l proxy_env \<Rightarrow> request_ctx \<Rightarrow> 'l waf_proxy \<Rightarrow> 'l waf_proxy" where
  "challenge_failed env cx =
     with_blocker (record_challenge_fail
       (engine_add (pe_compile env) (pe_queries env) (pe_outcome env) (pe_addFail env))
       (pe_persist_ok env) (pe_rollback_ok env) (pe_now env) (cx_clientIP cx))"

definition challenge_passed :: "request_ctx \<Rightarrow> 'l waf_proxy \<Rightarrow> 'l waf_proxy" where
  "challenge_passed cx = with_blocker (record_challenge_pass (cx_clientIP cx))"

definition expired_pow_cookie :: string where
  "expired_pow_cookie = ''gowaf_pow=; Path=/; Max-Age=0; HttpOnly; SameSite=Strict''"

definition challenge_step_of :: "'l proxy_env \<Rightarrow> request_ctx \<Rightarrow> request_info \<Rightarrow> string \<Rightarrow> 'l check_step" where
  "challenge_step_of env cx info reason x p =
     (let (ok, cs) = verify_challenge (pe_sha256 env) (rq_Header (xc_request x)) (wp_challenges p);
          p = p\<lparr>wp_challenges := cs\<rparr>
      in if ok then (None, x\<lparr>xc_respHeader := header_add ''Set-Cookie'' expired_pow_cookie (xc_respHeader x)\<rparr>,
                     challenge_passed cx p)
         else
           let p = feedback env (info\<lparr>ri_IsBlocked := True, ri_StatusCode := 503\<rparr>) (challenge_failed env cx p);
               ((c, d, tok), cs) = generate_pow_challenge (pe_challenge env) (pe_token env) (pe_now env) (wp_challenges p);
               p = p\<lparr>wp_challenges := cs\<rparr>
           in (Some (ChallengePage c d tok), x,
               if c \<noteq> '''' then record_block_event env cx (xc_request x) ((utf8 [230, 153, 186, 232, 131, 189, 230, 140, 145, 230, 136, 152] @ '':'') @ reason) 503 '''' '''' p else p))"

definition slowdown_headers :: "real \<Rightarrow> headers \<Rightarrow> headers" where
  "slowdown_headers score h =
     (let delayMs = 100 + (if score \<ge> 0 then \<lfloor>score * 500\<rfloor> else \<lceil>score * 500\<rceil>);
          delayMs = (if delayMs > 2000 then 2000 else delayMs)
      in header_set ''Retry-After'' (format_int (go_div delayMs 1000 + 1))
           (header_set ''X-RateLimit-Delay'' (format_int delayMs) h))"

definition apply_decision :: "'l proxy_env \<Rightarrow> request_ctx \<Rightarrow> request_info \<Rightarrow> decision \<Rightarrow> 'l check_step" where
  "apply_decision env cx info d x p =
     (case d_Action d of
        Block \<Rightarrow> block_with env cx ''threat_detected'' ((utf8 [230, 153, 186, 232, 131, 189, 230, 139, 166, 230, 136, 170] @ '':'') @ d_Reason d) 403 '''' '''' x
                   (feedback env (info\<lparr>ri_IsBlocked := True, ri_StatusCode := 403\<rparr>) p)
      | Slowdown \<Rightarrow> (None, x\<lparr>xc_respHeader := slowdown_headers (d_Score d) (xc_respHeader x)\<rparr>, p)
      | Challenge \<Rightarrow> challenge_step_of env cx info (d_Reason d) x p
      | Throttle \<Rightarrow>
          block_with env cx ''rate_limit'' ((utf8 [230, 153, 186, 232, 131, 189, 233, 153, 144, 230, 181, 129] @ '':'') @ d_Reason d) 429 '''' ''''
            (x\<lparr>xc_respHeader := header_set ''Retry-After'' ''5'' (xc_respHeader x)\<rparr>)
            (feedback env (info\<lparr>ri_IsBlocked := True, ri_StatusCode := 429\<rparr>) p)
      | Allow \<Rightarrow> no_answer x p)"

text \<open>The smart engine when it is on, otherwise the token buckets.\<close>

definition smart_limit_active :: "'l waf_proxy \<Rightarrow> bool" where
  "smart_limit_active p \<longleftrightarrow>
     (case wp_rateLimitEngine p of None \<Rightarrow> False | Some e \<Rightarrow> get_enabled (engine_get_config e))"

definition smart_limit_step :: "'l proxy_env \<Rightarrow> request_ctx \<Rightarrow> smart_engine \<Rightarrow> 'l check_step" where
  "smart_limit_step env cx e x p =
     (let info = rate_request env cx (xc_request x);
          e = fingerprint_step env cx (rq_Header (xc_request x)) e;
          (d, e) = evaluate (pe_tz env) (pe_now env) info e;
          p = put_engine e p;
          p = (if d_Observe d
               then record_block_event env cx (xc_request x) ((utf8 [232, 167, 130, 230, 181, 139, 230, 168, 161, 229, 188, 143] @ ''-'' @ utf8 [230, 153, 186, 232, 131, 189, 230, 139, 166, 230, 136, 170] @ '':'') @ d_Reason d) 0 '''' '''' p else p)
      in apply_decision env cx info d x p)"

definition bucket_step :: "'l proxy_env \<Rightarrow> request_ctx \<Rightarrow> 'l check_step" where
  "bucket_step env cx x p =
     (case wp_limiter p of
        None \<Rightarrow> no_answer x p
      | Some l \<Rightarrow>
          let key = extract_key (xc_request x) (wp_rateLimitKeyCfg p);
              (ok, l) = limiter_allow (pe_newLimiter env) (pe_allow env) (pe_now env) key l;
              p = p\<lparr>wp_limiter := Some l\<rparr>
          in if \<not> ok then block_with env cx ''rate_limit'' (utf8 [233, 153, 144, 230, 181, 129]) 429 '''' '''' x p else no_answer x p)"

definition limit_step :: "'l proxy_env \<Rightarrow> request_ctx \<Rightarrow> 'l check_step" where
  "limit_step env cx x p =
     (case wp_rateLimitEngine p of
        Some e \<Rightarrow> if smart_limit_active p then smart_limit_step env cx e x p else bucket_step env cx x p
      | None \<Rightarrow> bucket_step env cx x p)"

definition path_limit_step :: "'l proxy_env \<Rightarrow> request_ctx \<Rightarrow> 'l check_step" where
  "path_limit_step env cx x p =
     (if \<not> check_path_rate_limit (pe_pathEnum env) (pe_pathAllow env) (wp_ruleEngine p) (rq_Path (xc_request x))
      then block_with env cx ''rate_limit'' (utf8 [232, 183, 175, 229, 190, 132, 233, 153, 144, 230, 181, 129]) 429 '''' '''' x p
      else no_answer x p)"

definition check_rate_limits :: "'l proxy_env \<Rightarrow> request_ctx \<Rightarrow> 'l check_step" where
  "check_rate_limits env cx = and_then (limit_step env cx) (path_limit_step env cx)"

subsection \<open>The body of a request\<close>

definition has_body :: "http_request \<Rightarrow> bool" where
  "has_body r \<longleftrightarrow> rq_Method r \<in> {''POST'', ''PUT'', ''PATCH''}"

definition configured_limit :: "'l proxy_env \<Rightarrow> int \<Rightarrow> int" where
  "configured_limit env dflt = (if pe_maxBody env > 0 then pe_maxBody env else dflt)"

definition too_large_detail :: "http_request \<Rightarrow> string \<Rightarrow> int \<Rightarrow> string \<Rightarrow> string" where
  "too_large_detail r body limit chk =
     (let actualSize = (if rq_ContentLength r \<le> 0 then int (length body) else rq_ContentLength r)
      in (''body'' @ utf8 [229, 164, 167, 229, 176, 143] @ '':'') @ format_int actualSize @ (utf8 [229, 173, 151, 232, 138, 130] @ '', '' @ utf8 [233, 153, 144, 229, 136, 182] @ '':'') @ format_int limit @ (utf8 [229, 173, 151, 232, 138, 130]) @ chk)"

text \<open>The three checks that read the body do it the same way: \<open>Inr\<close> the answer to a body over the
  limit, \<open>Inl\<close> the bytes. The caller sees the replayed body, not the new context, so the next check reads it
  again.\<close>

definition read_body_step ::
  "'l proxy_env \<Rightarrow> request_ctx \<Rightarrow> int \<Rightarrow> string \<Rightarrow> (string \<Rightarrow> http_request \<Rightarrow> 'l check_step) \<Rightarrow> 'l check_step" where
  "read_body_step env cx limit chk k x p =
     (let (body, over, r, _) = read_request_body None limit (xc_request x);
          x' = x\<lparr>xc_request := r\<rparr>
      in if over
         then block_with env cx ''body_too_large'' (utf8 [232, 175, 183, 230, 177, 130, 228, 189, 147, 232, 191, 135, 229, 164, 167]) 413 (too_large_detail r body limit chk) ''body'' x' p
         else k body r x' p)"

subsection \<open>checkAPISchema\<close>

definition schema_step :: "'l proxy_env \<Rightarrow> request_ctx \<Rightarrow> schema_manager \<Rightarrow> string \<Rightarrow> http_request \<Rightarrow> 'l check_step" where
  "schema_step env cx sm body r x p =
     (let res = validate_request (pe_unmarshal env) (rq_Method r) (rq_Path r) body sm in
      if \<not> vr_Valid res
      then block_with env cx ''api_schema_blocked'' (''API Schema'' @ utf8 [233, 170, 140, 232, 175, 129, 229, 164, 177, 232, 180, 165]) 400 (join_with '', '' (vr_Errors res))
             ''api_schema'' x p
      else no_answer x p)"

definition check_api_schema :: "'l proxy_env \<Rightarrow> request_ctx \<Rightarrow> 'l check_step" where
  "check_api_schema env cx x p =
     (case wp_apiSchemaMgr p of
        None \<Rightarrow> no_answer x p
      | Some sm \<Rightarrow>
          if has_body (xc_request x)
          then read_body_step env cx (configured_limit env (2 ^ 20)) (''(API Schema'' @ utf8 [230, 163, 128, 230, 159, 165] @ '')'') (schema_step env cx sm) x p
          else schema_step env cx sm '''' (xc_request x) x p)"

subsection \<open>checkAttackDetection\<close>

definition attack_body_limit :: "'l proxy_env \<Rightarrow> string \<Rightarrow> 'l waf_proxy \<Rightarrow> int" where
  "attack_body_limit env path p =
     (let maxBodySize = configured_limit env (10 * 1024 * 1024)
      in case wp_pathBodyLimitMgr p of
           None \<Rightarrow> maxBodySize
         | Some m \<Rightarrow>
             let pathLimit = sint (check_limit (Some m) path)
             in if pathLimit > 0 \<and> pathLimit < maxBodySize then pathLimit else maxBodySize)"

definition rule_detail :: "detection_result \<Rightarrow> string" where
  "rule_detail res =
     (if dr_RuleID res > 0 \<and> dr_RuleDesc res \<noteq> ''''
      then ''[Rule#'' @ format_int (dr_RuleID res) @ ''|'' @ dr_RuleDesc res @ ''] '' @ dr_Pattern res
      else if dr_RuleID res > 0 then ''[Rule#'' @ format_int (dr_RuleID res) @ ''] '' @ dr_Pattern res
      else if dr_RuleDesc res \<noteq> '''' then ''['' @ dr_RuleDesc res @ ''] '' @ dr_Pattern res
      else dr_Pattern res)"

text \<open>The detected results whose detector is not in observation mode.\<close>

definition blocking_results :: "det_manager \<Rightarrow> detection_result list \<Rightarrow> detection_result list" where
  "blocking_results dm results =
     filter (\<lambda>res. dr_Detected res \<and> \<not> is_observation_mode (dr_AttackType res) dm) results"

definition attack_feedback :: "'l proxy_env \<Rightarrow> request_ctx \<Rightarrow> http_request \<Rightarrow> string \<Rightarrow> 'l waf_proxy \<Rightarrow> 'l waf_proxy" where
  "attack_feedback env cx r attackType =
     feedback env
       \<lparr>ri_IP = cx_clientIP cx, ri_Method = '''', ri_Path = rq_Path r, ri_UserAgent = '''', ri_StatusCode = 403,
        ri_RuleID = attackType, ri_IsBlocked = True, ri_BodySize = 0, ri_Upstream = '''', ri_Cookie = '''',
        ri_Referer = '''', ri_CountryISO = ''''\<rparr>"

definition attack_step :: "'l proxy_env \<Rightarrow> request_ctx \<Rightarrow> det_manager \<Rightarrow> string \<Rightarrow> http_request \<Rightarrow> 'l check_step" where
  "attack_step env cx dm body r x p =
     (let (results, dm') = detect_request_with_body (pe_runtime env) r body dm;
          p = p\<lparr>wp_detectorManager := Some dm'\<rparr>
      in if \<not> has_attack results then no_answer x p
         else
           let blockResults = blocking_results dm' results in
           if blockResults = [] then no_answer x p
           else
             let attackTypes = get_attack_types blockResults;
                 matchDetail = join_with '', '' (map rule_detail blockResults);
                 matchLocation = join_with '', '' (filter (\<lambda>l. l \<noteq> '''') (map dr_Location blockResults));
                 p = fold (attack_feedback env cx r) attackTypes p
             in block_with env cx ''attack'' ((utf8 [230, 148, 187, 229, 135, 187, 230, 163, 128, 230, 181, 139] @ '':'') @ join_with '','' attackTypes) 403 matchDetail matchLocation x p)"

definition check_attack_detection :: "'l proxy_env \<Rightarrow> request_ctx \<Rightarrow> 'l check_step" where
  "check_attack_detection env cx x p =
     (case wp_detectorManager p of
        None \<Rightarrow> no_answer x p
      | Some dm \<Rightarrow>
          if has_body (xc_request x)
          then read_body_step env cx (attack_body_limit env (rq_Path (xc_request x)) p) '''' (attack_step env cx dm) x p
          else attack_step env cx dm '''' (xc_request x) x p)"

subsection \<open>checkVPatch\<close>

definition vpatch_step :: "'l proxy_env \<Rightarrow> request_ctx \<Rightarrow> vpatch_manager \<Rightarrow> string \<Rightarrow> http_request \<Rightarrow> 'l check_step" where
  "vpatch_step env cx vm body r x p =
     (let res = vpatch_check (rq_Path r) (rq_RawQuery r) body vm in
      if mr_Matched res
      then block_with env cx ''vpatch_blocked'' ((utf8 [232, 153, 154, 230, 139, 159, 232, 161, 165, 228, 184, 129] @ '':'') @ mr_CVEID res) 403 (mr_Detail res) ''vpatch'' x p
      else no_answer x p)"

definition check_vpatch :: "'l proxy_env \<Rightarrow> request_ctx \<Rightarrow> 'l check_step" where
  "check_vpatch env cx x p =
     (case wp_vpatchManager p of
        None \<Rightarrow> no_answer x p
      | Some vm \<Rightarrow>
          if has_body (xc_request x)
          then read_body_step env cx (configured_limit env (2 ^ 20)) (''(VPatch'' @ utf8 [230, 163, 128, 230, 159, 165] @ '')'') (vpatch_step env cx vm) x p
          else vpatch_step env cx vm '''' (xc_request x) x p)"

subsection \<open>ServeHTTP\<close>

definition is_websocket :: "headers \<Rightarrow> bool" where
  "is_websocket h \<longleftrightarrow>
     str_contains (to_lower (header_get h ''Connection'')) ''upgrade'' \<and>
     to_lower (header_get h ''Upgrade'') = ''websocket''"

definition acme_prefix :: string where
  "acme_prefix = ''/.well-known/acme-challenge/''"

definition acme_answer :: "'l proxy_env \<Rightarrow> string \<Rightarrow> string" where
  "acme_answer env path =
     (if has_prefix path acme_prefix \<and> drop (length acme_prefix) path \<noteq> ''''
      then pe_acme env (drop (length acme_prefix) path) else '''')"

text \<open>Forwarding, then the feedback with the status the backend answered.\<close>

definition forward_request :: "'l proxy_env \<Rightarrow> request_ctx \<Rightarrow> exchange \<Rightarrow> 'l waf_proxy \<Rightarrow> answer \<times> exchange \<times> 'l waf_proxy" where
  "forward_request env cx x p =
     (let r = xc_request x;
          status = (if pe_respStatus env = 0 then 200 else pe_respStatus env)
      in (ForwardTo r, x, feedback env ((rate_request env cx r)\<lparr>ri_StatusCode := status\<rparr>) p))"

definition checks_of :: "'l proxy_env \<Rightarrow> bool \<Rightarrow> request_ctx \<Rightarrow> 'l check_step" where
  "checks_of env ws cx =
     foldr and_then
       ([check_pre_detection_rules env cx, check_rate_limits env cx] @
        (if ws then [] else [check_api_schema env cx]) @
        [check_attack_detection env cx, check_vpatch env cx]) no_answer"

definition request_ctx_of :: "'l proxy_env \<Rightarrow> http_request \<Rightarrow> 'l waf_proxy \<Rightarrow> request_ctx" where
  "request_ctx_of env r p =
     (let ip = get_client_ip (wp_trustedProxies p) None r
      in \<lparr>cx_clientIP = ip, cx_userAgent = header_get (rq_Header r) ''User-Agent'', cx_country = pe_geo env ip\<rparr>)"

definition serve_http :: "'l proxy_env \<Rightarrow> http_request \<Rightarrow> 'l waf_proxy \<Rightarrow> answer \<times> exchange \<times> 'l waf_proxy" where
  "serve_http env r p =
     (let ws = is_websocket (rq_Header r);
          cx = request_ctx_of env r p;
          x = \<lparr>xc_request = r, xc_respHeader = no_headers\<rparr>
      in if \<not> ws \<and> acme_answer env (rq_Path r) \<noteq> '''' then (AcmeAnswer (acme_answer env (rq_Path r)), x, p)
         else if \<not> wp_globalEnabled p then (ForwardTo r, x, p)
         else
           case checks_of env ws cx x p of
             (Some a, x, p) \<Rightarrow> (a, x, p)
           | (None, x, p) \<Rightarrow> forward_request env cx x p)"

end
