(* ===== verification/ProxyProps.thy ===== *)
theory ProxyProps
  imports Proxy
begin

text \<open>
  What a request that passes the pipeline of \<open>Proxy\<close> has been through.

  \<^item> The locale \<open>pipeline_check\<close> is the contract of one check: it leaves the request as it came,
    its body replayed in full, when it passes; it logs an event with the status of the page when it
    answers; it never forwards. \<open>and_then\<close> keeps the contract (\<open>check_pair\<close>), so the whole
    pipeline has it.
  \<^item> The locale \<open>body_blind\<close> is the contract of a check that does not look at the body of a
    request without one (any method but POST, PUT and PATCH).
\<close>

subsection \<open>The contract of a check\<close>

text \<open>What \<open>readRequestBody\<close> leaves of a request whose body is within the limit.\<close>

definition replayed :: "http_request \<Rightarrow> http_request \<Rightarrow> bool" where
  "replayed r r' \<longleftrightarrow>
     r' = r \<or> has_body r \<and>
     r' = (case rq_Body r of
             None \<Rightarrow> r\<lparr>rq_Body := Some '''', rq_ContentLength := 0\<rparr>
           | Some full \<Rightarrow> r\<lparr>rq_ContentLength := int (length full)\<rparr>)"

fun logged :: "answer \<Rightarrow> block_event list \<Rightarrow> bool" where
  "logged (BlockPage page status detail) es \<longleftrightarrow> es \<noteq> [] \<and> ev_statusCode (last es) = status"
| "logged (ChallengePage c d tok) es \<longleftrightarrow> c = '''' \<or> es \<noteq> [] \<and> ev_statusCode (last es) = 503"
| "logged (AcmeAnswer a) es \<longleftrightarrow> False"
| "logged (ForwardTo r) es \<longleftrightarrow> False"

definition of_client :: "request_ctx \<Rightarrow> http_request \<Rightarrow> block_event \<Rightarrow> bool" where
  "of_client cx r e \<longleftrightarrow> ev_clientIP e = cx_clientIP cx \<and> ev_path e = rq_Path r \<and> ev_method e = rq_Method r"

lemma replayed_refl [simp, intro]: "replayed r r"
  by (simp add: replayed_def)

lemma replayed_fields:
  assumes "replayed r r'"
  shows "rq_Method r' = rq_Method r" "rq_Path r' = rq_Path r" "rq_RawQuery r' = rq_RawQuery r"
    "rq_Header r' = rq_Header r" "rq_Host r' = rq_Host r" "rq_RemoteAddr r' = rq_RemoteAddr r"
    "has_body r' = has_body r"
  using assms by (auto simp: replayed_def has_body_def split: option.splits)

lemma replayed_body: "replayed r r' \<Longrightarrow> rq_Body r = Some full \<Longrightarrow> rq_Body r' = Some full"
  by (auto simp: replayed_def)

lemma replayed_trans: "replayed r r' \<Longrightarrow> replayed r' r'' \<Longrightarrow> replayed r r''"
  by (auto simp: replayed_def has_body_def split: option.splits)

lemma of_client_replayed: "replayed r r' \<Longrightarrow> of_client cx r' = of_client cx r"
  by (simp add: of_client_def fun_eq_iff replayed_fields)

text \<open>What a check leaves when it passes, and when it answers.\<close>

definition passed_with :: "request_ctx \<Rightarrow> exchange \<Rightarrow> 'l waf_proxy \<Rightarrow> exchange \<Rightarrow> 'l waf_proxy \<Rightarrow> bool" where
  "passed_with cx x p x' p' \<longleftrightarrow>
     replayed (xc_request x) (xc_request x') \<and>
     (\<exists>es. wp_events p' = wp_events p @ es \<and>
           (\<forall>e \<in> set es. ev_statusCode e = 0 \<and> of_client cx (xc_request x) e))"

definition answered_with :: "request_ctx \<Rightarrow> exchange \<Rightarrow> 'l waf_proxy \<Rightarrow> answer \<Rightarrow> 'l waf_proxy \<Rightarrow> bool" where
  "answered_with cx x p a p' \<longleftrightarrow>
     (\<exists>es. wp_events p' = wp_events p @ es \<and> logged a es \<and> (\<forall>e \<in> set es. of_client cx (xc_request x) e))"

locale pipeline_check =
  fixes cx :: request_ctx and c :: "'l check_step"
  assumes passes: "c x p = (None, x', p') \<Longrightarrow> passed_with cx x p x' p'"
    and answers: "c x p = (Some a, x', p') \<Longrightarrow> answered_with cx x p a p'"
begin

lemma never_forwards: "c x p = (Some (ForwardTo r), x', p') \<Longrightarrow> False"
  using answers by (fastforce simp: answered_with_def)

end

lemma no_answer_check: "pipeline_check cx no_answer"
  by unfold_locales (simp_all add: no_answer_def passed_with_def)

lemma logged_append: "logged a es' \<Longrightarrow> logged a (es @ es')"
  by (cases a) auto

locale check_pair = first: pipeline_check cx c1 + second: pipeline_check cx c2
  for cx :: request_ctx and c1 c2 :: "'l check_step"
begin

lemma pair_passes:
  assumes "and_then c1 c2 x p = (None, x'', p'')"
  shows "passed_with cx x p x'' p''"
proof -
  obtain x' p' where c: "c1 x p = (None, x', p')" "c2 x' p' = (None, x'', p'')"
    using assms by (auto simp: and_then_def split: prod.splits option.splits)
  obtain es es' where "wp_events p' = wp_events p @ es" "wp_events p'' = wp_events p' @ es'"
    "\<forall>e \<in> set es. ev_statusCode e = 0 \<and> of_client cx (xc_request x) e"
    "\<forall>e \<in> set es'. ev_statusCode e = 0 \<and> of_client cx (xc_request x') e"
    using first.passes[OF c(1)] second.passes[OF c(2)] unfolding passed_with_def by blast
  moreover have r: "replayed (xc_request x) (xc_request x')" "replayed (xc_request x') (xc_request x'')"
    using first.passes[OF c(1)] second.passes[OF c(2)] unfolding passed_with_def by blast+
  ultimately have "wp_events p'' = wp_events p @ (es @ es')"
    "\<forall>e \<in> set (es @ es'). ev_statusCode e = 0 \<and> of_client cx (xc_request x) e"
    by (auto simp: of_client_replayed[OF r(1)])
  then show ?thesis unfolding passed_with_def using replayed_trans[OF r] by blast
qed

lemma pair_answers:
  assumes "and_then c1 c2 x p = (Some a, x'', p'')"
  shows "answered_with cx x p a p''"
proof (cases "c1 x p")
  case (fields o1 x' p')
  show ?thesis
  proof (cases o1)
    case (Some b)
    then show ?thesis using first.answers[of x p a x'' p''] fields assms by (simp add: and_then_def)
  next
    case None
    then have c: "c1 x p = (None, x', p')" "c2 x' p' = (Some a, x'', p'')"
      using fields assms by (simp_all add: and_then_def)
    obtain es es' where "wp_events p' = wp_events p @ es" "wp_events p'' = wp_events p' @ es'" "logged a es'"
      "\<forall>e \<in> set es. of_client cx (xc_request x) e" "\<forall>e \<in> set es'. of_client cx (xc_request x') e"
      using first.passes[OF c(1)] second.answers[OF c(2)] unfolding passed_with_def answered_with_def by blast
    moreover have "replayed (xc_request x) (xc_request x')" using first.passes[OF c(1)] unfolding passed_with_def by blast
    ultimately show ?thesis unfolding answered_with_def
      by (intro exI[of _ "es @ es'"]) (auto simp: logged_append of_client_replayed)
  qed
qed

end

sublocale check_pair \<subseteq> pair: pipeline_check cx "and_then c1 c2"
  by unfold_locales (rule pair_passes, assumption, rule pair_answers)

lemma pipeline_and_then:
  assumes "pipeline_check cx c1" and "pipeline_check cx c2"
  shows "pipeline_check cx (and_then c1 c2)"
proof -
  note pair = check_pair.intro[OF assms]
  show ?thesis
    by (intro pipeline_check.intro check_pair.pair_passes[OF pair] check_pair.pair_answers[OF pair])
qed

lemma pipeline_foldr: "(\<forall>c \<in> set cs. pipeline_check cx c) \<Longrightarrow> pipeline_check cx (foldr and_then cs no_answer)"
  by (induction cs) (auto intro: no_answer_check pipeline_and_then)

subsection \<open>Every check keeps the contract\<close>

lemma record_block_event_simps [simp]:
  "wp_ruleEngine (record_block_event env cx r rule s d l p) = wp_ruleEngine p"
  "wp_detectorManager (record_block_event env cx r rule s d l p) = wp_detectorManager p"
  "wp_vpatchManager (record_block_event env cx r rule s d l p) = wp_vpatchManager p"
  "wp_pathBodyLimitMgr (record_block_event env cx r rule s d l p) = wp_pathBodyLimitMgr p"
  "wp_events (record_block_event env cx r rule s d l p) = wp_events p @
     [\<lparr>ev_clientIP = cx_clientIP cx, ev_path = rq_Path r, ev_method = rq_Method r,
       ev_userAgent = cx_userAgent cx, ev_rule = rule, ev_statusCode = s,
       ev_requestID = pe_requestID env, ev_backendAddr = pe_upstream env,
       ev_matchDetail = d, ev_matchLocation = l\<rparr>]"
  by (simp_all add: record_block_event_def)

lemma submit_simps [simp]:
  "wp_events (submit_async_extract env cx r src p) = wp_events p"
  "wp_ruleEngine (submit_async_extract env cx r src p) = wp_ruleEngine p"
  by (simp_all add: submit_async_extract_def split: option.split)

lemmas check_simps = passed_with_def answered_with_def extract_and_block_def block_with_def no_answer_def of_client_def Let_def

lemma ip_rules_check: "pipeline_check cx (check_ip_rules env cx)"
  by unfold_locales (auto simp: check_ip_rules_def check_simps split: if_splits)

lemma reputation_check: "pipeline_check cx (check_reputation env cx)"
  by unfold_locales (auto simp: check_reputation_def check_simps split: if_splits option.splits prod.splits)

lemma geo_check: "pipeline_check cx (check_geo_rules env cx)"
  by unfold_locales (auto simp: check_geo_rules_def check_simps split: if_splits option.splits)

lemma method_check: "pipeline_check cx (check_method_rules env cx)"
  by unfold_locales (auto simp: check_method_rules_def check_simps split: if_splits)

lemma path_check: "pipeline_check cx (check_path_rules env cx)"
  by unfold_locales (auto simp: check_path_rules_def check_simps split: if_splits)

lemma bot_check: "pipeline_check cx (check_bot env cx)"
  by unfold_locales (auto simp: check_bot_def check_simps split: if_splits option.splits)

lemma ua_check: "pipeline_check cx (check_ua_rules env cx)"
  by unfold_locales (auto simp: check_ua_rules_def check_simps split: if_splits)

lemma pre_detection_check: "pipeline_check cx (check_pre_detection_rules env cx)"
  unfolding check_pre_detection_rules_def
  by (rule pipeline_foldr)
    (simp add: ip_rules_check reputation_check geo_check method_check path_check bot_check ua_check)

lemma engine_simps [simp]:
  "wp_events (put_engine e p) = wp_events p"
  "wp_ruleEngine (put_engine e p) = wp_ruleEngine p"
  "wp_detectorManager (put_engine e p) = wp_detectorManager p"
  "wp_vpatchManager (put_engine e p) = wp_vpatchManager p"
  "wp_pathBodyLimitMgr (put_engine e p) = wp_pathBodyLimitMgr p"
  "wp_events (feedback env info p) = wp_events p"
  "wp_ruleEngine (feedback env info p) = wp_ruleEngine p"
  "wp_detectorManager (feedback env info p) = wp_detectorManager p"
  "wp_vpatchManager (feedback env info p) = wp_vpatchManager p"
  "wp_pathBodyLimitMgr (feedback env info p) = wp_pathBodyLimitMgr p"
  by (simp_all add: put_engine_def feedback_def split: option.split)

lemma blocker_simps [simp]:
  "wp_events (with_blocker f p) = wp_events p"
  "wp_detectorManager (with_blocker f p) = wp_detectorManager p"
  "wp_vpatchManager (with_blocker f p) = wp_vpatchManager p"
  "wp_pathBodyLimitMgr (with_blocker f p) = wp_pathBodyLimitMgr p"
  by (simp_all add: with_blocker_def Let_def split: option.split)

lemma passed_rules:
  "wp_ruleEngine (with_blocker (record_challenge_pass ip) p) = wp_ruleEngine p"
  "wp_apiSchemaMgr (with_blocker f p) = wp_apiSchemaMgr p"
  by (simp_all add: with_blocker_def record_challenge_pass_def set_fail_count_def Let_def split: option.split)

lemma decision_passes:
  "apply_decision env cx info d x p = (None, x', p') \<Longrightarrow>
   xc_request x' = xc_request x \<and> wp_events p' = wp_events p \<and>
   wp_detectorManager p' = wp_detectorManager p \<and> wp_vpatchManager p' = wp_vpatchManager p \<and>
   wp_pathBodyLimitMgr p' = wp_pathBodyLimitMgr p \<and> wp_apiSchemaMgr p' = wp_apiSchemaMgr p \<and>
   wp_ruleEngine p' = wp_ruleEngine p \<and> d_Action d \<noteq> Block \<and> d_Action d \<noteq> Throttle \<and>
   (d_Action d = Challenge \<longrightarrow> fst (verify_challenge (pe_sha256 env) (rq_Header (xc_request x)) (wp_challenges p)))"
  by (auto simp: apply_decision_def challenge_step_of_def challenge_passed_def check_simps passed_rules
      split: action.splits prod.splits if_splits)

lemma decision_answers:
  "apply_decision env cx info d x p = (Some a, x', p') \<Longrightarrow>
   answered_with cx x p a p'"
  by (auto simp: apply_decision_def challenge_step_of_def challenge_failed_def check_simps
      split: action.splits prod.splits if_splits)

lemma smart_limit_check: "pipeline_check cx (smart_limit_step env cx e)"
proof unfold_locales
  fix x p x' p'
  assume "smart_limit_step env cx e x p = (None, x', p')"
  then show "passed_with cx x p x' p'"
    by (auto simp: smart_limit_step_def passed_with_def Let_def of_client_def dest!: decision_passes split: prod.splits if_splits)
next
  fix x p a x' p'
  assume "smart_limit_step env cx e x p = (Some a, x', p')"
  then show "answered_with cx x p a p'"
    by (auto simp: smart_limit_step_def answered_with_def Let_def split: prod.splits if_splits dest!: decision_answers
        intro: logged_append) (auto simp: of_client_def intro: logged_append[of _ _ "[_]", simplified])
qed

lemma bucket_check: "pipeline_check cx (bucket_step env cx)"
  by unfold_locales (auto simp: bucket_step_def check_simps split: if_splits option.splits prod.splits)

lemma limit_check: "pipeline_check cx (limit_step env cx)"
proof unfold_locales
  fix x p x' p'
  assume "limit_step env cx x p = (None, x', p')"
  then show "passed_with cx x p x' p'"
    unfolding limit_step_def
    by (auto split: option.splits if_splits dest!: pipeline_check.passes[OF smart_limit_check] pipeline_check.passes[OF bucket_check])
next
  fix x p a x' p'
  assume "limit_step env cx x p = (Some a, x', p')"
  then show "answered_with cx x p a p'"
    unfolding limit_step_def
    by (auto split: option.splits if_splits dest!: pipeline_check.answers[OF smart_limit_check] pipeline_check.answers[OF bucket_check])
qed

lemma path_limit_check: "pipeline_check cx (path_limit_step env cx)"
  by unfold_locales (auto simp: path_limit_step_def check_simps split: if_splits)

lemma rate_limits_check: "pipeline_check cx (check_rate_limits env cx)"
  unfolding check_rate_limits_def by (intro pipeline_and_then limit_check path_limit_check)

text \<open>The checks that read the body.\<close>

lemma read_within:
  "has_body r \<Longrightarrow> read_request_body None limit r = (body, False, r', ctx) \<Longrightarrow> 0 \<le> limit \<Longrightarrow> replayed r r'"
  by (auto simp: read_request_body_def replayed_def Let_def split: option.splits if_splits)

lemma read_keeps:
  "read_request_body None limit r = (body, over, r', ctx) \<Longrightarrow>
   rq_Path r' = rq_Path r \<and> rq_Method r' = rq_Method r"
  by (auto simp: read_request_body_def Let_def split: option.splits if_splits)

lemma configured_limit_pos [simp]: "0 < dflt \<Longrightarrow> 0 < configured_limit env dflt"
  by (simp add: configured_limit_def)

lemma attack_body_limit_pos [simp]: "0 < attack_body_limit env path p"
  by (auto simp: attack_body_limit_def Let_def split: option.split)

lemma read_body_passes:
  assumes "read_body_step env cx limit chk k x p = (None, x', p')" and "has_body (xc_request x)" and "0 < limit"
    and k: "\<And>body r. pipeline_check cx (k body r)"
  shows "passed_with cx x p x' p'"
proof -
  obtain body over r ctx where r: "read_request_body None limit (xc_request x) = (body, over, r, ctx)"
    by (cases "read_request_body None limit (xc_request x)")
  with assms(1) have "\<not> over" and "k body r (x\<lparr>xc_request := r\<rparr>) p = (None, x', p')"
    by (auto simp: read_body_step_def block_with_def Let_def split: if_splits)
  moreover from this r assms(2,3) have "replayed (xc_request x) r" by (auto intro: read_within)
  ultimately show ?thesis
    using pipeline_check.passes[OF k, of body r "x\<lparr>xc_request := r\<rparr>" p x' p']
    by (auto simp: passed_with_def of_client_replayed intro: replayed_trans)
qed

lemma read_body_answers:
  assumes "read_body_step env cx limit chk k x p = (Some a, x', p')"
    and k: "\<And>body r. pipeline_check cx (k body r)"
  shows "answered_with cx x p a p'"
proof -
  obtain body over r ctx where r: "read_request_body None limit (xc_request x) = (body, over, r, ctx)"
    by (cases "read_request_body None limit (xc_request x)")
  note same = read_keeps[OF r]
  show ?thesis
  proof (cases over)
    case True
    then show ?thesis using assms(1) r same
      by (auto simp: read_body_step_def check_simps Let_def)
  next
    case False
    then have "k body r (x\<lparr>xc_request := r\<rparr>) p = (Some a, x', p')"
      using assms(1) r by (simp add: read_body_step_def Let_def)
    from pipeline_check.answers[OF k this] same show ?thesis
      by (auto simp: answered_with_def of_client_def)
  qed
qed

lemma schema_step_check: "pipeline_check cx (schema_step env cx sm body r)"
  by unfold_locales (auto simp: schema_step_def check_simps split: if_splits)

lemma vpatch_step_check: "pipeline_check cx (vpatch_step env cx vm body r)"
  by unfold_locales (auto simp: vpatch_step_def check_simps split: if_splits)

lemma fold_feedback [simp]:
  "wp_events (fold (attack_feedback env cx r) types p) = wp_events p"
  by (induction types arbitrary: p) (simp_all add: attack_feedback_def)

lemma attack_step_check: "pipeline_check cx (attack_step env cx dm body r)"
  by unfold_locales (auto simp: attack_step_def check_simps split: if_splits prod.splits)

lemma schema_check: "pipeline_check cx (check_api_schema env cx)"
  by unfold_locales
    (auto simp: check_api_schema_def split: option.splits if_splits
      intro: read_body_passes[OF _ _ _ schema_step_check] read_body_answers[OF _ schema_step_check]
        pipeline_check.passes[OF schema_step_check] pipeline_check.answers[OF schema_step_check]
        pipeline_check.passes[OF no_answer_check] pipeline_check.answers[OF no_answer_check])

lemma attack_check: "pipeline_check cx (check_attack_detection env cx)"
  by unfold_locales
    (auto simp: check_attack_detection_def split: option.splits if_splits
      intro: read_body_passes[OF _ _ _ attack_step_check] read_body_answers[OF _ attack_step_check]
        pipeline_check.passes[OF attack_step_check] pipeline_check.answers[OF attack_step_check]
        pipeline_check.passes[OF no_answer_check] pipeline_check.answers[OF no_answer_check])

lemma vpatch_check_check: "pipeline_check cx (check_vpatch env cx)"
  by unfold_locales
    (auto simp: check_vpatch_def split: option.splits if_splits
      intro: read_body_passes[OF _ _ _ vpatch_step_check] read_body_answers[OF _ vpatch_step_check]
        pipeline_check.passes[OF vpatch_step_check] pipeline_check.answers[OF vpatch_step_check]
        pipeline_check.passes[OF no_answer_check] pipeline_check.answers[OF no_answer_check])

lemma pipeline_of_checks: "pipeline_check cx (checks_of env ws cx)"
  unfolding checks_of_def
  by (rule pipeline_foldr)
    (simp add: pre_detection_check rate_limits_check schema_check attack_check vpatch_check_check)

interpretation pipeline: pipeline_check cx "checks_of env ws cx" for cx env ws
  by (rule pipeline_of_checks)

subsection \<open>What a forwarded request has been through\<close>

lemma and_then_pass:
  "and_then c1 c2 x p = (None, x'', p'') \<longleftrightarrow> (\<exists>x' p'. c1 x p = (None, x', p') \<and> c2 x' p' = (None, x'', p''))"
  by (auto simp: and_then_def split: prod.splits option.splits)

lemma rule_checks_pass:
  "check_ip_rules env cx x p = (None, x', p') \<longleftrightarrow>
     x' = x \<and> p' = p \<and> \<not> Matched (is_ip_blocked (wp_ruleEngine p) (cx_clientIP cx))"
  "check_method_rules env cx x p = (None, x', p') \<longleftrightarrow>
     x' = x \<and> p' = p \<and> \<not> Matched (is_method_allowed (wp_ruleEngine p) (rq_Method (xc_request x)))"
  "check_path_rules env cx x p = (None, x', p') \<longleftrightarrow>
     x' = x \<and> p' = p \<and> \<not> Matched (check_path (wp_ruleEngine p) (rq_Path (xc_request x)))"
  "check_ua_rules env cx x p = (None, x', p') \<longleftrightarrow>
     x' = x \<and> p' = p \<and> \<not> Matched (check_ua (wp_ruleEngine p) (cx_userAgent cx))"
  by (auto simp: check_ip_rules_def check_method_rules_def check_path_rules_def check_ua_rules_def
      extract_and_block_def block_with_def no_answer_def Let_def split: if_splits)

lemma geo_pass:
  "check_geo_rules env cx x p = (None, x', p') \<longleftrightarrow>
     x' = x \<and> p' = p \<and>
     (\<forall>country. cx_country cx = Some country \<and> country \<noteq> '''' \<longrightarrow> \<not> Matched (is_geo_blocked (wp_ruleEngine p) country))"
  by (auto simp: check_geo_rules_def extract_and_block_def block_with_def no_answer_def Let_def
      split: option.splits if_splits)

text \<open>What the rate limits and the API schema work on, which no check before them touches when it passes.\<close>

definition later_parts where
  "later_parts p = (wp_rateLimitEngine p, wp_limiter p, wp_rateLimitKeyCfg p, wp_challenges p, wp_apiSchemaMgr p)"

lemma reputation_pass:
  "check_reputation env cx x p = (None, x', p') \<Longrightarrow>
     x' = x \<and> wp_ruleEngine p' = wp_ruleEngine p \<and> wp_vpatchManager p' = wp_vpatchManager p \<and>
     wp_pathBodyLimitMgr p' = wp_pathBodyLimitMgr p \<and> later_parts p' = later_parts p \<and>
     wp_botManager p' = wp_botManager p \<and>
     (\<forall>dm. wp_detectorManager p = Some dm \<longrightarrow> \<not> fst (fst (check_ip_reputation (pe_now env) (cx_clientIP cx) dm))) \<and>
     wp_detectorManager p' = map_option (\<lambda>dm. snd (check_ip_reputation (pe_now env) (cx_clientIP cx) dm)) (wp_detectorManager p)"
  by (auto simp: check_reputation_def later_parts_def extract_and_block_def block_with_def no_answer_def Let_def
      split: option.splits if_splits prod.splits)

lemma bot_pass:
  "check_bot env cx x p = (None, x', p') \<Longrightarrow>
     x' = x \<and> wp_ruleEngine p' = wp_ruleEngine p \<and> wp_vpatchManager p' = wp_vpatchManager p \<and>
     wp_pathBodyLimitMgr p' = wp_pathBodyLimitMgr p \<and> later_parts p' = later_parts p \<and>
     wp_detectorManager p' = wp_detectorManager p \<and>
     (\<forall>bm. wp_botManager p = Some bm \<longrightarrow> \<not> should_block (bot_class cx (xc_request x) bm) bm)"
  by (auto simp: check_bot_def later_parts_def extract_and_block_def block_with_def no_answer_def Let_def
      split: option.splits if_splits)

text \<open>The verdict of the rules and of the bot manager, none of which a check before them changes.\<close>

definition rules_let_through :: "request_ctx \<Rightarrow> http_request \<Rightarrow> 'l waf_proxy \<Rightarrow> bool" where
  "rules_let_through cx r p \<longleftrightarrow>
     \<not> Matched (is_ip_blocked (wp_ruleEngine p) (cx_clientIP cx)) \<and>
     \<not> Matched (is_method_allowed (wp_ruleEngine p) (rq_Method r)) \<and>
     \<not> Matched (check_path (wp_ruleEngine p) (rq_Path r)) \<and>
     \<not> Matched (check_ua (wp_ruleEngine p) (cx_userAgent cx)) \<and>
     (\<forall>country. cx_country cx = Some country \<and> country \<noteq> '''' \<longrightarrow> \<not> Matched (is_geo_blocked (wp_ruleEngine p) country)) \<and>
     (\<forall>bm. wp_botManager p = Some bm \<longrightarrow> \<not> should_block (bot_class cx r bm) bm)"

lemma pre_detection_passes:
  assumes "check_pre_detection_rules env cx x p = (None, x', p')"
  shows "x' = x \<and> rules_let_through cx (xc_request x) p \<and> wp_vpatchManager p' = wp_vpatchManager p \<and>
     wp_pathBodyLimitMgr p' = wp_pathBodyLimitMgr p \<and> wp_ruleEngine p' = wp_ruleEngine p \<and> later_parts p' = later_parts p \<and>
     (\<forall>dm. wp_detectorManager p = Some dm \<longrightarrow> \<not> fst (fst (check_ip_reputation (pe_now env) (cx_clientIP cx) dm))) \<and>
    wp_detectorManager p' = map_option (\<lambda>dm. snd (check_ip_reputation (pe_now env) (cx_clientIP cx) dm)) (wp_detectorManager p)"
  using assms
  by (auto simp: check_pre_detection_rules_def and_then_pass rule_checks_pass geo_pass rules_let_through_def no_answer_def
      dest!: reputation_pass bot_pass)

text \<open>
  The verdict of the limits: the smart engine when it is on, else the bucket of the client's key, and then the
  limit of the path.
\<close>

definition limits_let_through :: "'l proxy_env \<Rightarrow> request_ctx \<Rightarrow> http_request \<Rightarrow> 'l waf_proxy \<Rightarrow> bool" where
  "limits_let_through env cx r p \<longleftrightarrow>
     (if smart_limit_active p
      then \<forall>e. wp_rateLimitEngine p = Some e \<longrightarrow>
             (let d = fst (evaluate (pe_tz env) (pe_now env) (rate_request env cx r) (fingerprint_step env cx (rq_Header r) e))
              in d_Action d \<noteq> Block \<and> d_Action d \<noteq> Throttle \<and>
                 (d_Action d = Challenge \<longrightarrow> fst (verify_challenge (pe_sha256 env) (rq_Header r) (wp_challenges p))))
      else \<forall>l. wp_limiter p = Some l \<longrightarrow>
             fst (limiter_allow (pe_newLimiter env) (pe_allow env) (pe_now env) (extract_key r (wp_rateLimitKeyCfg p)) l)) \<and>
     check_path_rate_limit (pe_pathEnum env) (pe_pathAllow env) (wp_ruleEngine p) (rq_Path r)"

lemma smart_pass:
  fixes env :: "'l proxy_env"
  assumes "smart_limit_step env cx e x p = (None, x', p')"
  defines "d \<equiv> fst (evaluate (pe_tz env) (pe_now env) (rate_request env cx (xc_request x))
      (fingerprint_step env cx (rq_Header (xc_request x)) e))"
  shows "xc_request x' = xc_request x \<and> wp_vpatchManager p' = wp_vpatchManager p \<and>
    wp_pathBodyLimitMgr p' = wp_pathBodyLimitMgr p \<and> wp_detectorManager p' = wp_detectorManager p \<and>
    wp_ruleEngine p' = wp_ruleEngine p \<and> wp_apiSchemaMgr p' = wp_apiSchemaMgr p \<and>
    d_Action d \<noteq> Block \<and> d_Action d \<noteq> Throttle \<and>
    (d_Action d = Challenge \<longrightarrow> fst (verify_challenge (pe_sha256 env) (rq_Header (xc_request x)) (wp_challenges p)))"
proof -
  obtain d' e' where ev: "evaluate (pe_tz env) (pe_now env) (rate_request env cx (xc_request x))
      (fingerprint_step env cx (rq_Header (xc_request x)) e) = (d', e')"
    by fastforce
  have eq: "d' = d" by (simp add: d_def ev)
  obtain q where "apply_decision env cx (rate_request env cx (xc_request x)) d' x q = (None, x', p')"
    "wp_vpatchManager q = wp_vpatchManager p" "wp_pathBodyLimitMgr q = wp_pathBodyLimitMgr p"
    "wp_detectorManager q = wp_detectorManager p" "wp_ruleEngine q = wp_ruleEngine p"
    "wp_apiSchemaMgr q = wp_apiSchemaMgr p" "wp_challenges q = wp_challenges p"
    using assms(1) ev by (auto simp: smart_limit_step_def Let_def put_engine_def record_block_event_def split: if_splits)
  with decision_passes[OF this(1)] show ?thesis by (simp add: eq)
qed

lemma bucket_pass:
  assumes "bucket_step env cx x p = (None, x', p')"
  shows "x' = x \<and> wp_vpatchManager p' = wp_vpatchManager p \<and>
    wp_pathBodyLimitMgr p' = wp_pathBodyLimitMgr p \<and> wp_detectorManager p' = wp_detectorManager p \<and>
    wp_ruleEngine p' = wp_ruleEngine p \<and> wp_apiSchemaMgr p' = wp_apiSchemaMgr p \<and>
    (\<forall>l. wp_limiter p = Some l \<longrightarrow>
      fst (limiter_allow (pe_newLimiter env) (pe_allow env) (pe_now env) (extract_key (xc_request x) (wp_rateLimitKeyCfg p)) l))"
  using assms by (auto simp: bucket_step_def block_with_def no_answer_def Let_def split: option.splits prod.splits if_splits)

lemma limits_pass:
  assumes "check_rate_limits env cx x p = (None, x', p')"
  shows "xc_request x' = xc_request x \<and> wp_vpatchManager p' = wp_vpatchManager p \<and>
     wp_pathBodyLimitMgr p' = wp_pathBodyLimitMgr p \<and> wp_detectorManager p' = wp_detectorManager p \<and>
     wp_apiSchemaMgr p' = wp_apiSchemaMgr p \<and> limits_let_through env cx (xc_request x) p"
proof -
  obtain x1 p1 where first: "limit_step env cx x p = (None, x1, p1)"
    and second: "path_limit_step env cx x1 p1 = (None, x', p')"
    using assms by (auto simp: check_rate_limits_def and_then_pass)
  have path: "x' = x1" "p' = p1"
    "check_path_rate_limit (pe_pathEnum env) (pe_pathAllow env) (wp_ruleEngine p1) (rq_Path (xc_request x1))"
    using second by (auto simp: path_limit_step_def block_with_def no_answer_def Let_def split: if_splits)
  show ?thesis
  proof (cases "smart_limit_active p")
    case True
    then obtain e where e: "wp_rateLimitEngine p = Some e"
      by (auto simp: smart_limit_active_def split: option.splits)
    with first True have "smart_limit_step env cx e x p = (None, x1, p1)" by (simp add: limit_step_def)
    from smart_pass[OF this] show ?thesis
      using path e True by (simp add: limits_let_through_def Let_def)
  next
    case False
    with first have "bucket_step env cx x p = (None, x1, p1)" by (simp add: limit_step_def split: option.splits)
    from bucket_pass[OF this] show ?thesis
      using path False by (simp add: limits_let_through_def)
  qed
qed

text \<open>The bytes the checks inspect: the whole body of a POST, PUT or PATCH, nothing of any other request.\<close>

definition inspected_body :: "http_request \<Rightarrow> string" where
  "inspected_body r = (if has_body r then (case rq_Body r of None \<Rightarrow> '''' | Some full \<Rightarrow> full) else '''')"

lemma inspected_replayed: "replayed r r' \<Longrightarrow> inspected_body r' = inspected_body r"
  by (auto simp: replayed_def inspected_body_def has_body_def split: option.splits)

lemma detect_replayed:
  "replayed r r' \<Longrightarrow> detect_request_with_body rt r' body dm = detect_request_with_body rt r body dm"
  by (simp add: detect_request_with_body_def replayed_fields)

lemma read_inspects:
  "has_body r \<Longrightarrow> read_request_body None limit r = (body, False, r', ctx) \<Longrightarrow> 0 \<le> limit \<Longrightarrow>
   body = inspected_body r \<and> int (length body) \<le> limit"
  by (auto simp: read_request_body_def inspected_body_def Let_def split: option.splits if_splits)

lemma read_body_pass:
  assumes "read_body_step env cx limit chk k x p = (None, x', p')" and "has_body (xc_request x)" and "0 < limit"
  shows "\<exists>r. replayed (xc_request x) r \<and> int (length (inspected_body (xc_request x))) \<le> limit \<and>
     k (inspected_body (xc_request x)) r (x\<lparr>xc_request := r\<rparr>) p = (None, x', p')"
proof -
  obtain body over r ctx where r: "read_request_body None limit (xc_request x) = (body, over, r, ctx)"
    by (cases "read_request_body None limit (xc_request x)")
  with assms(1) have "\<not> over" and k: "k body r (x\<lparr>xc_request := r\<rparr>) p = (None, x', p')"
    by (auto simp: read_body_step_def block_with_def Let_def split: if_splits)
  with r have r': "read_request_body None limit (xc_request x) = (body, False, r, ctx)" by simp
  show ?thesis
    using read_within[OF assms(2) r'] read_inspects[OF assms(2) r'] k assms(3) by auto
qed

text \<open>The verdict of the API schema, on the body it inspects.\<close>

definition schema_lets_through :: "'l proxy_env \<Rightarrow> http_request \<Rightarrow> 'l waf_proxy \<Rightarrow> bool" where
  "schema_lets_through env r p \<longleftrightarrow>
     (\<forall>sm. wp_apiSchemaMgr p = Some sm \<longrightarrow>
        vr_Valid (validate_request (pe_unmarshal env) (rq_Method r) (rq_Path r) (inspected_body r) sm) \<and>
        int (length (inspected_body r)) \<le> configured_limit env (2 ^ 20))"

lemma schema_step_pass:
  "schema_step env cx sm body r x p = (None, x', p') \<Longrightarrow> x' = x \<and> p' = p \<and>
     vr_Valid (validate_request (pe_unmarshal env) (rq_Method r) (rq_Path r) body sm)"
  by (auto simp: schema_step_def block_with_def no_answer_def Let_def split: if_splits)

lemma no_body_inspected: "\<not> has_body r \<Longrightarrow> inspected_body r = ''''"
  by (simp add: inspected_body_def)

lemma configured_limit_nonneg [simp]: "0 \<le> dflt \<Longrightarrow> 0 \<le> configured_limit env dflt"
  by (simp add: configured_limit_def)

lemma schema_pass:
  assumes "check_api_schema env cx x p = (None, x', p')"
  shows "replayed (xc_request x) (xc_request x') \<and> p' = p \<and> schema_lets_through env (xc_request x) p"
proof (cases "wp_apiSchemaMgr p")
  case None
  then show ?thesis using assms by (simp add: check_api_schema_def no_answer_def schema_lets_through_def)
next
  case (Some sm)
  show ?thesis
  proof (cases "has_body (xc_request x)")
    case True
    then have "read_body_step env cx (configured_limit env (2 ^ 20))
        (''(API Schema'' @ utf8 [230, 163, 128, 230, 159, 165] @ '')'') (schema_step env cx sm) x p = (None, x', p')"
      using assms Some by (simp add: check_api_schema_def)
    from read_body_pass[OF this True] obtain r where r: "replayed (xc_request x) r"
      "int (length (inspected_body (xc_request x))) \<le> configured_limit env (2 ^ 20)"
      "schema_step env cx sm (inspected_body (xc_request x)) r (x\<lparr>xc_request := r\<rparr>) p = (None, x', p')"
      by auto
    then show ?thesis
      using Some schema_step_pass[OF r(3)] by (simp add: schema_lets_through_def replayed_fields)
  next
    case False
    then have "schema_step env cx sm '''' (xc_request x) x p = (None, x', p')"
      using assms Some by (simp add: check_api_schema_def)
    from schema_step_pass[OF this] show ?thesis
      using Some no_body_inspected[OF False] by (simp add: schema_lets_through_def)
  qed
qed

text \<open>Nothing the detectors found in the request is in a detector that blocks.\<close>

definition detectors_let_through :: "runtime \<Rightarrow> http_request \<Rightarrow> det_manager \<Rightarrow> bool" where
  "detectors_let_through rt r dm \<longleftrightarrow>
     (let (results, dm') = detect_request_with_body rt r (inspected_body r) dm in blocking_results dm' results = [])"

lemma no_attack_none_blocks: "\<not> has_attack results \<Longrightarrow> blocking_results dm results = []"
  by (auto simp: has_attack_def blocking_results_def list_ex_iff filter_empty_conv)

lemma attack_step_pass:
  assumes "attack_step env cx dm body r x p = (None, x', p')"
  shows "x' = x" and "wp_vpatchManager p' = wp_vpatchManager p"
    and "let (results, dm') = detect_request_with_body (pe_runtime env) r body dm in blocking_results dm' results = []"
  using assms
  by (auto simp: attack_step_def block_with_def no_answer_def Let_def no_attack_none_blocks split: prod.splits if_splits)

lemma attack_pass:
  assumes "check_attack_detection env cx x p = (None, x', p')"
  shows "replayed (xc_request x) (xc_request x') \<and> wp_vpatchManager p' = wp_vpatchManager p \<and>
    (\<forall>dm. wp_detectorManager p = Some dm \<longrightarrow>
       detectors_let_through (pe_runtime env) (xc_request x) dm \<and>
       int (length (inspected_body (xc_request x))) \<le> attack_body_limit env (rq_Path (xc_request x)) p)"
proof (cases "wp_detectorManager p")
  case None
  then show ?thesis using assms by (simp add: check_attack_detection_def no_answer_def)
next
  case (Some dm)
  show ?thesis
  proof (cases "has_body (xc_request x)")
    case True
    then have s: "read_body_step env cx (attack_body_limit env (rq_Path (xc_request x)) p) [] (attack_step env cx dm) x p =
        (None, x', p')"
      using assms Some by (simp add: check_attack_detection_def)
    obtain r where r: "replayed (xc_request x) r"
      "int (length (inspected_body (xc_request x))) \<le> attack_body_limit env (rq_Path (xc_request x)) p"
      "attack_step env cx dm (inspected_body (xc_request x)) r (x\<lparr>xc_request := r\<rparr>) p = (None, x', p')"
      using read_body_pass[OF s True attack_body_limit_pos] by blast
    then show ?thesis
      using Some attack_step_pass[OF r(3)] by (simp add: detectors_let_through_def detect_replayed)
  next
    case False
    then have s: "attack_step env cx dm '''' (xc_request x) x p = (None, x', p')"
      using assms Some by (simp add: check_attack_detection_def)
    then show ?thesis
      using Some False attack_step_pass[OF s] less_imp_le[OF attack_body_limit_pos]
      by (auto simp: detectors_let_through_def inspected_body_def)
  qed
qed

lemma vpatch_step_pass:
  "vpatch_step env cx vm body r x p = (None, x', p') \<Longrightarrow> \<not> mr_Matched (vpatch_check (rq_Path r) (rq_RawQuery r) body vm)"
  by (auto simp: vpatch_step_def block_with_def Let_def split: if_splits)

lemma vpatch_pass:
  assumes "check_vpatch env cx x p = (None, x', p')"
  shows "\<forall>vm. wp_vpatchManager p = Some vm \<longrightarrow>
     \<not> mr_Matched (vpatch_check (rq_Path (xc_request x)) (rq_RawQuery (xc_request x)) (inspected_body (xc_request x)) vm) \<and>
     int (length (inspected_body (xc_request x))) \<le> configured_limit env (2 ^ 20)"
proof (intro allI impI)
  fix vm assume vm: "wp_vpatchManager p = Some vm"
  show "\<not> mr_Matched (vpatch_check (rq_Path (xc_request x)) (rq_RawQuery (xc_request x)) (inspected_body (xc_request x)) vm) \<and>
     int (length (inspected_body (xc_request x))) \<le> configured_limit env (2 ^ 20)"
  proof (cases "has_body (xc_request x)")
    case True
    then have "read_body_step env cx (configured_limit env (2 ^ 20)) (''(VPatch'' @ utf8 [230, 163, 128, 230, 159, 165] @ '')'')
        (vpatch_step env cx vm) x p = (None, x', p')"
      using assms vm by (simp add: check_vpatch_def)
    from read_body_pass[OF this True] obtain r where r: "replayed (xc_request x) r"
      and l: "int (length (inspected_body (xc_request x))) \<le> configured_limit env (2 ^ 20)"
      and s: "vpatch_step env cx vm (inspected_body (xc_request x)) r (x\<lparr>xc_request := r\<rparr>) p = (None, x', p')"
      by auto
    show ?thesis using vpatch_step_pass[OF s] l by (simp add: replayed_fields[OF r])
  next
    case False
    then have s: "vpatch_step env cx vm '''' (xc_request x) x p = (None, x', p')"
      using assms vm by (simp add: check_vpatch_def)
    show ?thesis using vpatch_step_pass[OF s] False by (simp add: inspected_body_def)
  qed
qed

subsection \<open>Properties of the pipeline\<close>

lemma serve_cases:
  assumes "serve_http env r p = (a, x', p')"
  obtains (acme) t where "a = AcmeAnswer t" "p' = p"
  | (off) "\<not> wp_globalEnabled p" "a = ForwardTo r" "p' = p"
  | (refused) "wp_globalEnabled p"
      "checks_of env (is_websocket (rq_Header r)) (request_ctx_of env r p) \<lparr>xc_request = r, xc_respHeader = no_headers\<rparr> p = (Some a, x', p')"
  | (passed) q where "wp_globalEnabled p"
      "checks_of env (is_websocket (rq_Header r)) (request_ctx_of env r p) \<lparr>xc_request = r, xc_respHeader = no_headers\<rparr> p = (None, x', q)"
      "forward_request env (request_ctx_of env r p) x' q = (a, x', p')"
proof -
  define run where
    "run = checks_of env (is_websocket (rq_Header r)) (request_ctx_of env r p) \<lparr>xc_request = r, xc_respHeader = no_headers\<rparr> p"
  note unfolded = assms[unfolded serve_http_def Let_def, folded run_def]
  obtain o1 x1 p1 where run: "run = (o1, x1, p1)" by (cases run)
  show thesis
  proof (cases "\<not> is_websocket (rq_Header r) \<and> acme_answer env (rq_Path r) \<noteq> ''''")
    case True
    then have "AcmeAnswer (acme_answer env (rq_Path r)) = a \<and> p = p'" using unfolded by simp
    then show thesis by (intro acme) auto
  next
    case served: False
    show thesis
    proof (cases "wp_globalEnabled p")
      case False
      with served have "(ForwardTo r, \<lparr>xc_request = r, xc_respHeader = no_headers\<rparr>, p) = (a, x', p')"
        using unfolded by (simp only: if_False not_False_eq_True if_True)
      with False show thesis by (intro off) auto
    next
      case True
      have eq: "(case o1 of None \<Rightarrow> forward_request env (request_ctx_of env r p) x1 p1 | Some a \<Rightarrow> (a, x1, p1)) = (a, x', p')"
        using unfolded served True run by (auto split: option.splits)
      show thesis
      proof (cases o1)
        case None
        with eq have fwd: "forward_request env (request_ctx_of env r p) x1 p1 = (a, x', p')" by simp
        then have "x' = x1" by (simp add: forward_request_def Let_def)
        with None run fwd True show thesis by (intro passed) (simp_all add: run_def)
      next
        case (Some b)
        with eq run True show thesis by (intro refused) (simp_all add: run_def)
      qed
    qed
  qed
qed

lemma forwarded_logged:
  assumes "serve_http env r p = (ForwardTo r', x', p')"
  shows "replayed r r' \<and> (\<exists>es. wp_events p' = wp_events p @ es \<and> (\<forall>e \<in> set es. ev_statusCode e = 0))"
  using assms
proof (cases rule: serve_cases)
  case refused
  then show ?thesis using pipeline.never_forwards by blast
next
  case (passed q)
  then show ?thesis using pipeline.passes[OF passed(2)] by (auto simp: passed_with_def forward_request_def Let_def)
qed auto

lemma checks_pass:
  assumes "checks_of env ws cx x p = (None, x', q)"
  shows "\<exists>x1 p1 x2 p2 x3 x4 p4. check_pre_detection_rules env cx x p = (None, x1, p1) \<and>
    check_rate_limits env cx x1 p1 = (None, x2, p2) \<and>
    replayed (xc_request x2) (xc_request x3) \<and> (\<not> ws \<longrightarrow> schema_lets_through env (xc_request x2) p2) \<and>
    check_attack_detection env cx x3 p2 = (None, x4, p4) \<and> check_vpatch env cx x4 p4 = (None, x', q)"
proof (cases ws)
  case True
  then show ?thesis using assms by (auto simp: checks_of_def and_then_pass no_answer_def intro!: exI[of _ p]) blast
next
  case False
  then show ?thesis using assms
    by (simp add: checks_of_def and_then_pass no_answer_def) (blast dest: schema_pass)
qed

text \<open>
  A request the proxy forwards is the one it received: same method, path, query, headers and host; the whole
  body when it could be read, with at most \<open>ContentLength\<close> set to the body's length. The only events logged on the way
  are those of the observation mode (status 0).
\<close>

theorem forwarded_unchanged:
  assumes "serve_http env r p = (ForwardTo r', x', p')"
  shows "rq_Method r' = rq_Method r \<and> rq_Path r' = rq_Path r \<and> rq_RawQuery r' = rq_RawQuery r \<and>
    rq_Header r' = rq_Header r \<and> rq_Host r' = rq_Host r \<and>
    (\<forall>full. rq_Body r = Some full \<longrightarrow> rq_Body r' = Some full \<and>
       rq_ContentLength r' \<in> {rq_ContentLength r, int (length full)}) \<and>
    (\<exists>es. wp_events p' = wp_events p @ es \<and> (\<forall>e \<in> set es. ev_statusCode e = 0))"
  using forwarded_logged[OF assms] by (auto simp: replayed_fields replayed_body) (auto simp: replayed_def)

text \<open>
  A block page is never sent silently: the last event logged has the status of the page, and every event logged
  for the request names the client, the path and the method of the request.
\<close>

theorem refusal_logged:
  assumes "serve_http env r p = (BlockPage page status detail, x', p')"
  shows "\<exists>es. wp_events p' = wp_events p @ es \<and> es \<noteq> [] \<and> ev_statusCode (last es) = status \<and>
    (\<forall>e \<in> set es. ev_clientIP e = get_client_ip (wp_trustedProxies p) None r \<and>
       ev_path e = rq_Path r \<and> ev_method e = rq_Method r)"
  using assms
proof (cases rule: serve_cases)
  case refused
  then show ?thesis using pipeline.answers[OF refused(2)]
    by (auto simp: answered_with_def of_client_def request_ctx_of_def Let_def)
qed (auto simp: forward_request_def Let_def)

text \<open>
  C1. With the firewall switched on, a request that is forwarded passed every check. It is the request received
  with its body, at most its length newly recorded; the address, method, path, user-agent, country and
  bot rules, the reputation of the address and the rate limits let it through; and on the bytes it is
  forwarded with, when it is a POST, PUT or PATCH, and on an empty body otherwise, the API schema accepts it (unless it
  is a websocket request), no detector that blocks found anything, no virtual patch matches, and each of these
  three kept its limit of the body.
\<close>

theorem forwarded_passed_checks:
  assumes "serve_http env r p = (ForwardTo r', x', p')" and "wp_globalEnabled p"
  shows "let cx = request_ctx_of env r p in
    replayed r r' \<and> (has_body r \<longrightarrow> rq_Body r' \<in> {rq_Body r, Some (inspected_body r)}) \<and>
    rules_let_through cx r p \<and>
    (\<forall>dm. wp_detectorManager p = Some dm \<longrightarrow> \<not> fst (fst (check_ip_reputation (pe_now env) (cx_clientIP cx) dm))) \<and>
    limits_let_through env cx r p \<and>
    (\<not> is_websocket (rq_Header r) \<longrightarrow> schema_lets_through env r p) \<and>
    (\<forall>dm. wp_detectorManager p = Some dm \<longrightarrow>
       detectors_let_through (pe_runtime env) r (snd (check_ip_reputation (pe_now env) (cx_clientIP cx) dm)) \<and>
       int (length (inspected_body r)) \<le> attack_body_limit env (rq_Path r) p) \<and>
    (\<forall>vm. wp_vpatchManager p = Some vm \<longrightarrow>
       \<not> mr_Matched (vpatch_check (rq_Path r) (rq_RawQuery r) (inspected_body r) vm) \<and>
       int (length (inspected_body r)) \<le> configured_limit env (2 ^ 20))"
proof -
  have sent: "replayed r r' \<and> (has_body r \<longrightarrow> rq_Body r' \<in> {rq_Body r, Some (inspected_body r)})"
    using forwarded_logged[OF assms(1)] by (auto simp: replayed_def inspected_body_def split: option.splits)
  show ?thesis
    using assms(1)
  proof (cases rule: serve_cases)
    case refused
    then show ?thesis using pipeline.never_forwards by blast
  next
    case (passed q)
    define cx where "cx = request_ctx_of env r p"
    define x where "x = \<lparr>xc_request = r, xc_respHeader = no_headers\<rparr>"
    obtain x1 p1 x2 p2 x3 x4 p4 where
      pre: "check_pre_detection_rules env cx x p = (None, x1, p1)" and
      lim: "check_rate_limits env cx x1 p1 = (None, x2, p2)" and
      sch: "replayed (xc_request x2) (xc_request x3)" "\<not> is_websocket (rq_Header r) \<longrightarrow> schema_lets_through env (xc_request x2) p2" and
      att: "check_attack_detection env cx x3 p2 = (None, x4, p4)" and
      vp: "check_vpatch env cx x4 p4 = (None, x', q)"
      using checks_pass[OF passed(2)] unfolding cx_def x_def by blast
    note pre = pre_detection_passes[OF pre] and lim = limits_pass[OF lim] and att = attack_pass[OF att] and vp = vpatch_pass[OF vp]
    have limit: "attack_body_limit env (rq_Path r) p2 = attack_body_limit env (rq_Path r) p"
      using pre lim sch by (simp add: attack_body_limit_def)
    have same: "limits_let_through env cx r p1 = limits_let_through env cx r p"
      "schema_lets_through env r p2 = schema_lets_through env r p"
      using pre lim by (auto simp: limits_let_through_def schema_lets_through_def smart_limit_active_def later_parts_def)
    have body: "replayed r (xc_request x3)" "replayed r (xc_request x4)"
      using pre lim sch att by (auto simp: x_def intro: replayed_trans)
    have det: "detectors_let_through rt (xc_request x3) dm = detectors_let_through rt r dm" for rt dm
      by (simp add: detectors_let_through_def detect_replayed[OF body(1)] inspected_replayed[OF body(1)])
    show ?thesis
      unfolding Let_def cx_def[symmetric]
    proof (intro conjI)
      show "limits_let_through env cx r p" using pre lim same by (simp add: x_def)
      show "\<not> is_websocket (rq_Header r) \<longrightarrow> schema_lets_through env r p" using pre lim sch same by (simp add: x_def)
      show "rules_let_through cx r p" using pre by (simp add: x_def)
    qed (use sent pre lim att vp limit in
      \<open>auto simp: det inspected_replayed[OF body(1)] inspected_replayed[OF body(2)] replayed_fields[OF body(1)] replayed_fields[OF body(2)]\<close>)
  qed (use assms(2) in auto)
qed

subsection \<open>What the pipeline does not look at\<close>

text \<open>
  A check that commutes with a change \<open>f\<close> of the exchange and \<open>g\<close> of the components, on exchanges in
  \<open>ok\<close>: what is changed plays no part in its answer.
\<close>

locale commuting_check =
  fixes ok :: "exchange \<Rightarrow> bool" and f :: "exchange \<Rightarrow> exchange" and g :: "'l waf_proxy \<Rightarrow> 'l waf_proxy"
    and c :: "'l check_step"
  assumes commutes: "ok x \<Longrightarrow> c x p = (a, x', p') \<Longrightarrow> c (f x) (g p) = (a, f x', g p')"
    and stays: "ok x \<Longrightarrow> c x p = (None, x', p') \<Longrightarrow> ok x'"

locale commuting_pair = first: commuting_check ok f g c1 + second: commuting_check ok f g c2
  for ok f g and c1 c2 :: "'l check_step"
begin

lemma pair_commutes:
  assumes "ok x" and "and_then c1 c2 x p = (a, x'', p'')"
  shows "and_then c1 c2 (f x) (g p) = (a, f x'', g p'')"
proof (cases "c1 x p")
  case (fields o1 x' p')
  show ?thesis
  proof (cases o1)
    case None
    then have "c2 x' p' = (a, x'', p'')" using fields assms by (simp add: and_then_def)
    moreover have "ok x'" using first.stays fields None assms(1) by blast
    ultimately show ?thesis
      using None first.commutes[OF assms(1) fields] second.commutes by (simp add: and_then_def)
  next
    case (Some b)
    then have "a = Some b" "x'' = x'" "p'' = p'" using fields assms(2) by (simp_all add: and_then_def)
    then show ?thesis using Some first.commutes[OF assms(1) fields] by (simp add: and_then_def)
  qed
qed

lemma pair_stays: "ok x \<Longrightarrow> and_then c1 c2 x p = (None, x', p') \<Longrightarrow> ok x'"
  unfolding and_then_pass using first.stays second.stays by blast

end

sublocale commuting_pair \<subseteq> pair: commuting_check ok f g "and_then c1 c2"
  by unfold_locales (rule pair_commutes pair_stays; assumption)+

lemma commuting_and_then:
  assumes "commuting_check ok f g c1" and "commuting_check ok f g c2"
  shows "commuting_check ok f g (and_then c1 c2)"
proof -
  note pair = commuting_pair.intro[OF assms]
  show ?thesis
    by (rule commuting_check.intro, rule commuting_pair.pair_commutes[OF pair], assumption+)
      (rule commuting_pair.pair_stays[OF pair], assumption+)
qed

lemma commuting_foldr:
  "(\<forall>c \<in> set cs. commuting_check ok f g c) \<Longrightarrow> commuting_check ok f g (foldr and_then cs no_answer)"
proof (induction cs)
  case Nil
  show ?case by (simp, unfold_locales) (simp_all add: no_answer_def)
next
  case (Cons c cs)
  then show ?case by (simp add: commuting_and_then)
qed

text \<open>The body of a request whose method carries none.\<close>

definition bodiless :: "exchange \<Rightarrow> bool" where
  "bodiless x \<longleftrightarrow> \<not> has_body (xc_request x)"

definition put_body :: "string option \<Rightarrow> exchange \<Rightarrow> exchange" where
  "put_body b x = x\<lparr>xc_request := (xc_request x)\<lparr>rq_Body := b\<rparr>\<rparr>"

lemma put_body_simps [simp]:
  "rq_Method (xc_request (put_body b x)) = rq_Method (xc_request x)"
  "rq_Path (xc_request (put_body b x)) = rq_Path (xc_request x)"
  "rq_Header (xc_request (put_body b x)) = rq_Header (xc_request x)"
  "rq_RawQuery (xc_request (put_body b x)) = rq_RawQuery (xc_request x)"
  "has_body (xc_request (put_body b x)) = has_body (xc_request x)"
  "rq_RemoteAddr (xc_request (put_body b x)) = rq_RemoteAddr (xc_request x)"
  "xc_respHeader (put_body b x) = xc_respHeader x"
  by (simp_all add: put_body_def has_body_def)

lemma put_body_key [simp]: "extract_key (xc_request (put_body b x)) cfg = extract_key (xc_request x) cfg"
proof -
  have ip: "get_client_ip_from_request (xc_request (put_body b x)) = get_client_ip_from_request (xc_request x)"
    unfolding get_client_ip_from_request_def put_body_simps ..
  have h: "rq_Header (xc_request (put_body b x)) = rq_Header (xc_request x)" by simp
  show ?thesis
    unfolding extract_key_def extract_session_key_def extract_api_key_def extract_cookie_key_def
      extract_header_key_def ip h ..
qed

lemma put_body_blind [simp]:
  "record_block_event env cx (xc_request (put_body b x)) rule s d l p = record_block_event env cx (xc_request x) rule s d l p"
  "submit_async_extract env cx (xc_request (put_body b x)) src p = submit_async_extract env cx (xc_request x) src p"
  "bot_class cx (xc_request (put_body b x)) bm = bot_class cx (xc_request x) bm"
  "rate_request env cx (xc_request (put_body b x)) = rate_request env cx (xc_request x)"
  "detect_request_with_body rt (xc_request (put_body b x)) body dm = detect_request_with_body rt (xc_request x) body dm"
  "attack_feedback env cx (xc_request (put_body b x)) = attack_feedback env cx (xc_request x)"
  unfolding record_block_event_def submit_async_extract_def bot_class_def rate_request_def
    detect_request_with_body_def attack_feedback_def put_body_simps fun_eq_iff by (rule refl allI)+

lemmas blind_simps = extract_and_block_def block_with_def no_answer_def Let_def bodiless_def

lemma bodiless_rule_checks:
  "commuting_check bodiless (put_body b) id (check_ip_rules env cx)"
  "commuting_check bodiless (put_body b) id (check_method_rules env cx)"
  "commuting_check bodiless (put_body b) id (check_path_rules env cx)"
  "commuting_check bodiless (put_body b) id (check_ua_rules env cx)"
  "commuting_check bodiless (put_body b) id (check_geo_rules env cx)"
  "commuting_check bodiless (put_body b) id (check_reputation env cx)"
  "commuting_check bodiless (put_body b) id (check_bot env cx)"
  by (unfold_locales; auto simp: check_ip_rules_def check_method_rules_def check_path_rules_def check_ua_rules_def
      check_geo_rules_def check_reputation_def check_bot_def blind_simps split: if_splits option.splits prod.splits)+

lemma bodiless_decision:
  "apply_decision env cx info d x p = (a, x', p') \<Longrightarrow>
   apply_decision env cx info d (put_body b x) p = (a, put_body b x', p') \<and>
   xc_request x' = xc_request x"
  by (auto simp: apply_decision_def challenge_step_of_def blind_simps put_body_def record_block_event_def
      split: action.splits if_splits prod.splits)

lemma bodiless_smart:
  "smart_limit_step env cx e x p = (a, x', p') \<Longrightarrow>
   smart_limit_step env cx e (put_body b x) p = (a, put_body b x', p') \<and> xc_request x' = xc_request x"
  using bodiless_decision[of env cx _ _ x _ a x' p' b]
  by (auto simp: smart_limit_step_def Let_def split: prod.splits if_splits)

lemma bodiless_bucket:
  "bucket_step env cx x p = (a, x', p') \<Longrightarrow>
   bucket_step env cx (put_body b x) p = (a, put_body b x', p') \<and> xc_request x' = xc_request x"
  by (auto simp: bucket_step_def blind_simps split: if_splits option.splits prod.splits)

lemma bodiless_limit:
  "limit_step env cx x p = (a, x', p') \<Longrightarrow>
   limit_step env cx (put_body b x) p = (a, put_body b x', p') \<and> xc_request x' = xc_request x"
  unfolding limit_step_def
  using bodiless_smart[of env cx _ x p a x' p' b] bodiless_bucket[of env cx x p a x' p' b]
  by (cases "wp_rateLimitEngine p") (auto split: if_splits)

lemma bodiless_limits: "commuting_check bodiless (put_body b) id (check_rate_limits env cx)"
  unfolding check_rate_limits_def
proof (rule commuting_and_then)
  show "commuting_check bodiless (put_body b) id (limit_step env cx)"
    by unfold_locales (simp_all add: bodiless_def bodiless_limit)
  show "commuting_check bodiless (put_body b) id (path_limit_step env cx)"
    by unfold_locales (auto simp: path_limit_step_def blind_simps split: if_splits)
qed

lemma bodiless_attack_step:
  "attack_step env cx dm body (xc_request x) x p = (a, x', p') \<Longrightarrow>
   attack_step env cx dm body (xc_request (put_body b x)) (put_body b x) p = (a, put_body b x', p') \<and> x' = x"
  by (auto simp: attack_step_def blind_simps split: if_splits prod.splits)

lemma bodiless_schema: "commuting_check bodiless (put_body b) id (check_api_schema env cx)"
  by unfold_locales (auto simp: check_api_schema_def schema_step_def blind_simps split: if_splits option.splits)

lemma bodiless_attack: "commuting_check bodiless (put_body b) id (check_attack_detection env cx)"
  by unfold_locales (auto simp: check_attack_detection_def blind_simps split: if_splits option.splits
      dest!: bodiless_attack_step[where b = b])

lemma bodiless_vpatch: "commuting_check bodiless (put_body b) id (check_vpatch env cx)"
  by unfold_locales (auto simp: check_vpatch_def vpatch_step_def blind_simps split: if_splits option.splits)

lemma bodiless_pre_detection: "commuting_check bodiless (put_body b) id (check_pre_detection_rules env cx)"
  unfolding check_pre_detection_rules_def by (rule commuting_foldr) (simp add: bodiless_rule_checks)

interpretation bodiless: commuting_check bodiless "put_body b" id "checks_of env ws cx" for b env ws cx
  unfolding checks_of_def
  by (rule commuting_foldr)
    (simp add: bodiless_pre_detection bodiless_limits bodiless_schema bodiless_attack bodiless_vpatch)

text \<open>
  Two requests whose method is none of POST, PUT and PATCH and that differ in their body only are treated alike:
  same answer, same state of the proxy. A body sent with DELETE or GET is forwarded without having been looked at nor
  measured.
\<close>

theorem other_bodies_never_inspected:
  assumes "rq_Method r \<notin> {''POST'', ''PUT'', ''PATCH''}"
  shows "let (a, x, p') = serve_http env r p; (a', x', p'') = serve_http env (r\<lparr>rq_Body := b\<rparr>) p in
    p'' = p' \<and> a' = (case a of ForwardTo r' \<Rightarrow> ForwardTo (r'\<lparr>rq_Body := b\<rparr>) | _ \<Rightarrow> a)"
proof -
  define cx where "cx = request_ctx_of env r p"
  define x where "x = \<lparr>xc_request = r, xc_respHeader = no_headers\<rparr>"
  define ws where "ws = is_websocket (rq_Header r)"
  have ok: "bodiless x" using assms by (simp add: bodiless_def has_body_def x_def)
  have cx': "request_ctx_of env (r\<lparr>rq_Body := b\<rparr>) p = cx"
  proof -
    have "remote_host (r\<lparr>rq_Body := b\<rparr>) = remote_host r"
      by (simp add: remote_host_def split: option.split)
    then show ?thesis by (simp add: cx_def request_ctx_of_def get_client_ip_def)
  qed
  have x': "\<lparr>xc_request = r\<lparr>rq_Body := b\<rparr>, xc_respHeader = no_headers\<rparr> = put_body b x"
    by (simp add: x_def put_body_def)
  obtain o1 x1 p1 where run: "checks_of env ws cx x p = (o1, x1, p1)" by (cases "checks_of env ws cx x p")
  have run': "checks_of env ws cx (put_body b x) p = (o1, put_body b x1, p1)"
    using bodiless.commutes[OF ok run] by simp
  have fwd: "forward_request env cx (put_body b x1) p1 =
      (case forward_request env cx x1 p1 of (a, y, q) \<Rightarrow> (ForwardTo ((xc_request x1)\<lparr>rq_Body := b\<rparr>), put_body b y, q))"
    by (simp add: forward_request_def Let_def) (simp add: put_body_def)
  have noans: "o1 \<noteq> Some (ForwardTo r')" for r' using run pipeline.never_forwards by blast
  show ?thesis
  proof (cases "\<not> ws \<and> acme_answer env (rq_Path r) \<noteq> ''''")
    case True
    then show ?thesis by (simp add: serve_http_def ws_def Let_def)
  next
    case served: False
    show ?thesis
    proof (cases "wp_globalEnabled p")
      case False
      then show ?thesis using served by (simp add: serve_http_def ws_def Let_def)
    next
      case True
      have "serve_http env r p = (case o1 of Some a \<Rightarrow> (a, x1, p1) | None \<Rightarrow> forward_request env cx x1 p1)"
        using served True run by (auto simp: serve_http_def Let_def ws_def cx_def x_def split: option.splits)
      moreover have "serve_http env (r\<lparr>rq_Body := b\<rparr>) p =
          (case o1 of Some a \<Rightarrow> (a, put_body b x1, p1) | None \<Rightarrow> forward_request env cx (put_body b x1) p1)"
        using served True run' by (auto simp: serve_http_def Let_def ws_def cx' x' split: option.splits)
      ultimately show ?thesis
      proof (cases o1)
        case None
        then show ?thesis
          using \<open>serve_http env r p = _\<close> \<open>serve_http env (r\<lparr>rq_Body := b\<rparr>) p = _\<close>
          by (simp add: fwd) (simp add: forward_request_def Let_def)
      next
        case (Some a)
        then show ?thesis
          using \<open>serve_http env r p = _\<close> \<open>serve_http env (r\<lparr>rq_Body := b\<rparr>) p = _\<close> noans
          by (cases a) simp_all
      qed
    qed
  qed
qed

text \<open>The schemas, for every check but their own.\<close>

definition put_schemas_mgr :: "schema_manager option \<Rightarrow> 'l waf_proxy \<Rightarrow> 'l waf_proxy" where
  "put_schemas_mgr m p = p\<lparr>wp_apiSchemaMgr := m\<rparr>"

lemma put_schemas_simps [simp]:
  "wp_globalEnabled (put_schemas_mgr m p) = wp_globalEnabled p"
  "wp_ruleEngine (put_schemas_mgr m p) = wp_ruleEngine p"
  "wp_limiter (put_schemas_mgr m p) = wp_limiter p"
  "wp_rateLimitKeyCfg (put_schemas_mgr m p) = wp_rateLimitKeyCfg p"
  "wp_detectorManager (put_schemas_mgr m p) = wp_detectorManager p"
  "wp_rateLimitEngine (put_schemas_mgr m p) = wp_rateLimitEngine p"
  "wp_autoBlocker (put_schemas_mgr m p) = wp_autoBlocker p"
  "wp_botManager (put_schemas_mgr m p) = wp_botManager p"
  "wp_botStats (put_schemas_mgr m p) = wp_botStats p"
  "wp_vpatchManager (put_schemas_mgr m p) = wp_vpatchManager p"
  "wp_pathBodyLimitMgr (put_schemas_mgr m p) = wp_pathBodyLimitMgr p"
  "wp_asyncExtractor (put_schemas_mgr m p) = wp_asyncExtractor p"
  "wp_trustedProxies (put_schemas_mgr m p) = wp_trustedProxies p"
  "wp_challenges (put_schemas_mgr m p) = wp_challenges p"
  "wp_events (put_schemas_mgr m p) = wp_events p"
  by (simp_all add: put_schemas_mgr_def)

lemma put_schemas_updates [simp]:
  "(put_schemas_mgr m p)\<lparr>wp_detectorManager := dm\<rparr> = put_schemas_mgr m (p\<lparr>wp_detectorManager := dm\<rparr>)"
  "(put_schemas_mgr m p)\<lparr>wp_botStats := bs\<rparr> = put_schemas_mgr m (p\<lparr>wp_botStats := bs\<rparr>)"
  "(put_schemas_mgr m p)\<lparr>wp_limiter := il\<rparr> = put_schemas_mgr m (p\<lparr>wp_limiter := il\<rparr>)"
  "(put_schemas_mgr m p)\<lparr>wp_challenges := cs\<rparr> = put_schemas_mgr m (p\<lparr>wp_challenges := cs\<rparr>)"
  "(put_schemas_mgr m p)\<lparr>wp_autoBlocker := ab, wp_ruleEngine := re\<rparr> = put_schemas_mgr m (p\<lparr>wp_autoBlocker := ab, wp_ruleEngine := re\<rparr>)"
  "put_engine e (put_schemas_mgr m p) = put_schemas_mgr m (put_engine e p)"
  "record_block_event env cx r rule s d l (put_schemas_mgr m p) = put_schemas_mgr m (record_block_event env cx r rule s d l p)"
  by (simp_all add: put_schemas_mgr_def put_engine_def record_block_event_def)

lemma put_schemas_calls [simp]:
  "submit_async_extract env cx r src (put_schemas_mgr m p) = put_schemas_mgr m (submit_async_extract env cx r src p)"
  "feedback env info (put_schemas_mgr m p) = put_schemas_mgr m (feedback env info p)"
  "with_blocker h (put_schemas_mgr m p) = put_schemas_mgr m (with_blocker h p)"
  "attack_body_limit env path (put_schemas_mgr m p) = attack_body_limit env path p"
  by (simp_all add: submit_async_extract_def feedback_def with_blocker_def attack_body_limit_def Let_def split: option.split)
    (simp_all add: put_schemas_mgr_def)

lemma put_schemas_fold [simp]:
  "fold (attack_feedback env cx r) ts (put_schemas_mgr m p) = put_schemas_mgr m (fold (attack_feedback env cx r) ts p)"
  by (induction ts arbitrary: p) (simp_all add: attack_feedback_def)

abbreviation schema_blind :: "schema_manager option \<Rightarrow> 'l check_step \<Rightarrow> bool" where
  "schema_blind m \<equiv> commuting_check (\<lambda>x. True) id (put_schemas_mgr m)"

lemma schema_blind_rules: "schema_blind m (check_pre_detection_rules env cx)"
proof -
  have "schema_blind m (check_ip_rules env cx)" "schema_blind m (check_method_rules env cx)"
    "schema_blind m (check_path_rules env cx)" "schema_blind m (check_ua_rules env cx)" "schema_blind m (check_geo_rules env cx)"
    "schema_blind m (check_reputation env cx)" "schema_blind m (check_bot env cx)"
    by (unfold_locales; auto simp: check_ip_rules_def check_method_rules_def check_path_rules_def check_ua_rules_def
        check_geo_rules_def check_reputation_def check_bot_def blind_simps split: if_splits option.splits prod.splits)+
  then show ?thesis unfolding check_pre_detection_rules_def by (intro commuting_foldr) simp
qed

lemma schema_blind_decision:
  "apply_decision env cx info d x p = (a, x', p') \<Longrightarrow>
   apply_decision env cx info d x (put_schemas_mgr m p) = (a, x', put_schemas_mgr m p')"
  by (auto simp: apply_decision_def challenge_step_of_def challenge_passed_def challenge_failed_def blind_simps
      split: action.splits if_splits prod.splits)

lemma schema_blind_smart:
  "smart_limit_step env cx e x p = (a, x', p') \<Longrightarrow>
   smart_limit_step env cx e x (put_schemas_mgr m p) = (a, x', put_schemas_mgr m p')"
  by (auto simp: smart_limit_step_def Let_def schema_blind_decision split: prod.splits if_splits)

lemma schema_blind_bucket:
  "bucket_step env cx x p = (a, x', p') \<Longrightarrow>
   bucket_step env cx x (put_schemas_mgr m p) = (a, x', put_schemas_mgr m p')"
  by (auto simp: bucket_step_def blind_simps split: if_splits option.splits prod.splits)

lemma schema_blind_limit:
  "limit_step env cx x p = (a, x', p') \<Longrightarrow>
   limit_step env cx x (put_schemas_mgr m p) = (a, x', put_schemas_mgr m p')"
  unfolding limit_step_def smart_limit_active_def
  using schema_blind_smart[of env cx _ x p a x' p' m] schema_blind_bucket[of env cx x p a x' p' m]
  by (cases "wp_rateLimitEngine p") (auto split: if_splits)

lemma schema_blind_limits: "schema_blind m (check_rate_limits env cx)"
  unfolding check_rate_limits_def
proof (rule commuting_and_then)
  show "schema_blind m (limit_step env cx)"
    by unfold_locales (simp_all add: schema_blind_limit)
  show "schema_blind m (path_limit_step env cx)"
    by unfold_locales (auto simp: path_limit_step_def blind_simps split: if_splits)
qed

lemma schema_blind_attack_step:
  "attack_step env cx dm body r x p = (a, x', p') \<Longrightarrow>
   attack_step env cx dm body r x (put_schemas_mgr m p) = (a, x', put_schemas_mgr m p')"
  by (auto simp: attack_step_def blind_simps split: if_splits prod.splits)

lemma schema_blind_vpatch_step:
  "vpatch_step env cx vm body r x p = (a, x', p') \<Longrightarrow>
   vpatch_step env cx vm body r x (put_schemas_mgr m p) = (a, x', put_schemas_mgr m p')"
  by (auto simp: vpatch_step_def blind_simps split: if_splits)

lemma schema_blind_read:
  assumes "\<And>body r y p a x' p'. k body r y p = (a, x', p') \<Longrightarrow> k body r y (put_schemas_mgr m p) = (a, x', put_schemas_mgr m p')"
    and "read_body_step env cx limit chk k x p = (a, x', p')"
  shows "read_body_step env cx limit chk k x (put_schemas_mgr m p) = (a, x', put_schemas_mgr m p')"
  using assms by (auto simp: read_body_step_def block_with_def Let_def split: prod.splits if_splits)

lemma schema_blind_body_checks:
  "schema_blind m (check_attack_detection env cx)" "schema_blind m (check_vpatch env cx)"
  by (unfold_locales; auto simp: check_attack_detection_def check_vpatch_def no_answer_def schema_blind_attack_step
      schema_blind_vpatch_step split: if_splits option.splits intro: schema_blind_read schema_blind_attack_step schema_blind_vpatch_step)+

interpretation schemaless: commuting_check "\<lambda>x. True" id "put_schemas_mgr m" "checks_of env True cx" for m env cx
  unfolding checks_of_def
  by (rule commuting_foldr)
    (simp add: schema_blind_rules schema_blind_limits schema_blind_body_checks)

text \<open>
  A request that asks for a WebSocket upgrade (two headers the client is free to send) gets the same answer and leaves
  the same state whatever the API schemas: the schema check is not made for it.
\<close>

theorem upgrade_skips_schemas:
  assumes "is_websocket (rq_Header r)"
  shows "let (a, x, p') = serve_http env r p
    in serve_http env r (p\<lparr>wp_apiSchemaMgr := m\<rparr>) = (a, x, p'\<lparr>wp_apiSchemaMgr := m\<rparr>)"
proof -
  define cx where "cx = request_ctx_of env r p"
  define x where "x = \<lparr>xc_request = r, xc_respHeader = no_headers\<rparr>"
  have cx': "request_ctx_of env r (put_schemas_mgr m p) = cx" by (simp add: cx_def request_ctx_of_def)
  obtain o1 x1 p1 where run: "checks_of env True cx x p = (o1, x1, p1)" by (cases "checks_of env True cx x p")
  have run': "checks_of env True cx x (put_schemas_mgr m p) = (o1, x1, put_schemas_mgr m p1)"
    using schemaless.commutes[OF TrueI run] by simp
  have fwd: "forward_request env cx x1 (put_schemas_mgr m p1) =
      (case forward_request env cx x1 p1 of (a, y, q) \<Rightarrow> (a, y, put_schemas_mgr m q))"
    by (simp add: forward_request_def Let_def)
  have "let (a, x, p') = serve_http env r p in serve_http env r (put_schemas_mgr m p) = (a, x, put_schemas_mgr m p')"
  proof (cases "wp_globalEnabled p")
    case False
    then show ?thesis using assms by (simp add: serve_http_def Let_def)
  next
    case True
    have "serve_http env r p = (case o1 of Some a \<Rightarrow> (a, x1, p1) | None \<Rightarrow> forward_request env cx x1 p1)"
      using assms True run by (auto simp: serve_http_def Let_def cx_def x_def split: option.splits)
    moreover have "serve_http env r (put_schemas_mgr m p) =
        (case o1 of Some a \<Rightarrow> (a, x1, put_schemas_mgr m p1) | None \<Rightarrow> forward_request env cx x1 (put_schemas_mgr m p1))"
      using assms True run' by (auto simp: serve_http_def Let_def cx' x_def split: option.splits)
    ultimately show ?thesis by (cases o1) (simp_all add: fwd split: prod.splits)
  qed
  then show ?thesis by (simp add: put_schemas_mgr_def)
qed

text \<open>
  A request from a blocked address is answered 403 before anything else: no limiter, detector, bot or schema state
  changes, only the feature extractor gets its features and one event is logged.
\<close>

theorem blocked_address_refused:
  assumes "wp_globalEnabled p" and "acme_answer env (rq_Path r) = ''''"
    and "Matched (is_ip_blocked (wp_ruleEngine p) (get_client_ip (wp_trustedProxies p) None r))"
  shows "let (a, x, p') = serve_http env r p in
    a = BlockPage ''ip_blocked'' 403 (Detail (is_ip_blocked (wp_ruleEngine p) (get_client_ip (wp_trustedProxies p) None r))) \<and>
    length (wp_events p') = Suc (length (wp_events p)) \<and>
    p'\<lparr>wp_asyncExtractor := wp_asyncExtractor p, wp_events := wp_events p\<rparr> = p"
proof -
  have frame: "(record_block_event env cx r rule s d l (submit_async_extract env cx r src p))
      \<lparr>wp_asyncExtractor := wp_asyncExtractor p, wp_events := wp_events p\<rparr> = p" for cx rule s d l src
    by (simp add: record_block_event_def submit_async_extract_def split: option.split)
  show ?thesis using assms
    by (simp add: serve_http_def checks_of_def check_pre_detection_rules_def and_then_def check_ip_rules_def
        extract_and_block_def block_with_def Let_def request_ctx_of_def frame)
qed

subsection \<open>The properties on concrete requests\<close>

definition sample_env :: "unit proxy_env" where
  "sample_env =
     \<lparr>pe_now = 0, pe_tz = 0,
      pe_runtime = \<lparr>rt_compile = \<lambda>_. None, rt_html = \<lambda>s. s, rt_enum = \<lambda>q. q, rt_arrive = \<lambda>rs. rs, rt_now = 0, rt_jitter = 0\<rparr>,
      pe_geo = \<lambda>_. None, pe_acme = \<lambda>_. '''', pe_unmarshal = \<lambda>_. None, pe_maxBody = 0,
      pe_newLimiter = \<lambda>_ _. (), pe_allow = \<lambda>_ l. (True, l), pe_pathEnum = \<lambda>es. es, pe_pathAllow = \<lambda>_. True,
      pe_sha256 = \<lambda>s. s, pe_challenge = ''c0'', pe_token = ''t0'', pe_requestID = ''id'', pe_upstream = '''',
      pe_compile = \<lambda>_. None, pe_queries = \<lambda>_. True, pe_outcome = MergeCommitted, pe_addFail = None,
      pe_persist_ok = True, pe_rollback_ok = True, pe_respStatus = 200\<rparr>"

definition sample_proxy :: "rule_snapshot \<Rightarrow> unit waf_proxy" where
  "sample_proxy snap =
     \<lparr>wp_globalEnabled = True, wp_ruleEngine = \<lparr>db = empty_db, snapshot = snap, lastVersion = 0\<rparr>,
      wp_limiter = None, wp_rateLimitKeyCfg = \<lparr>kc_KeyType = KeyTypeIP, kc_HeaderName = '''', kc_CookieName = '''', kc_SessionKey = ''''\<rparr>,
      wp_detectorManager = None, wp_rateLimitEngine = None, wp_autoBlocker = None, wp_botManager = None,
      wp_botStats = reset_stats, wp_vpatchManager = Some sample_vpatch, wp_pathBodyLimitMgr = None,
      wp_apiSchemaMgr = None, wp_asyncExtractor = None, wp_trustedProxies = None,
      wp_challenges = initial_challenges, wp_events = []\<rparr>"

definition proxy_request :: "string \<Rightarrow> string option \<Rightarrow> http_request" where
  "proxy_request method body =
     \<lparr>rq_Method = method, rq_Path = ''/a'', rq_RawQuery = '''', rq_Proto = ''HTTP/1.1'', rq_Host = ''h'',
      rq_RemoteAddr = ''1.2.3.4'', rq_TLS = False, rq_ContentLength = 0, rq_Header = no_headers, rq_Body = body\<rparr>"

lemma sample_acme [simp]: "acme_answer env ''/a'' = ''''"
  by (simp add: acme_answer_def acme_prefix_def has_prefix_def)

lemma sample_ws [simp]: "\<not> is_websocket no_headers"
  by code_simp

lemma sample_rules [simp]:
  "RuleEngine.is_ip_blocked \<lparr>db = d, snapshot = empty_snapshot, lastVersion = v\<rparr> s = RuleEngine.no_match"
  "is_method_allowed \<lparr>db = d, snapshot = empty_snapshot, lastVersion = v\<rparr> m = RuleEngine.no_match"
  "check_path \<lparr>db = d, snapshot = empty_snapshot, lastVersion = v\<rparr> p = RuleEngine.no_match"
  "check_ua \<lparr>db = d, snapshot = empty_snapshot, lastVersion = v\<rparr> ua = RuleEngine.no_match"
  "check_path_rate_limit (\<lambda>es. es) f \<lparr>db = d, snapshot = empty_snapshot, lastVersion = v\<rparr> p"
  by (simp_all add: is_ip_blocked_def is_method_allowed_def check_path_def check_ua_def check_path_rate_limit_def
      empty_snapshot_def Let_def split: option.split)

lemma sample_served:
  "serve_http sample_env (proxy_request ''POST'' (Some ''hi'')) (sample_proxy empty_snapshot) =
   (ForwardTo ((proxy_request ''POST'' (Some ''hi''))\<lparr>rq_ContentLength := 2\<rparr>),
    \<lparr>xc_request = (proxy_request ''POST'' (Some ''hi''))\<lparr>rq_ContentLength := 2\<rparr>, xc_respHeader = no_headers\<rparr>,
    sample_proxy empty_snapshot)"
proof -
  have "\<not> str_contains ''hi'' ''evil''" by code_simp
  then have vp: "\<not> mr_Matched (vpatch_check ''/a'' '''' ''hi'' sample_vpatch)"
    by (simp add: sample_vpatch_eq vpatch_check_def check_patch_def regex_hits_def attack_target_def sample_patch_def VPatch.no_match_def)
  then show ?thesis
    by (simp add: serve_http_def request_ctx_of_def checks_of_def check_pre_detection_rules_def and_then_def
        check_ip_rules_def check_reputation_def check_geo_rules_def check_method_rules_def check_path_rules_def check_bot_def
        check_ua_rules_def check_rate_limits_def limit_step_def bucket_step_def path_limit_step_def check_api_schema_def
        check_attack_detection_def check_vpatch_def read_body_step_def vpatch_step_def read_request_body_def
        configured_limit_def has_body_def no_answer_def forward_request_def feedback_def sample_proxy_def proxy_request_def
        sample_env_def RuleEngine.no_match_def Let_def)
qed

lemma forwarded_unchanged_witness:
  "let (a, x', p') = serve_http sample_env (proxy_request ''POST'' (Some ''hi'')) (sample_proxy empty_snapshot)
   in \<exists>r'. a = ForwardTo r' \<and> rq_Path r' = ''/a'' \<and> rq_Body r' = Some ''hi''"
  using forwarded_unchanged[OF sample_served] by (simp add: sample_served) (simp add: proxy_request_def)

lemma forwarded_passed_checks_witness:
  "\<not> mr_Matched (vpatch_check ''/a'' '''' ''hi'' sample_vpatch)"
  using forwarded_passed_checks[OF sample_served] by (simp add: Let_def sample_proxy_def proxy_request_def inspected_body_def has_body_def)

lemma sample_blocked:
  "get_client_ip None None (proxy_request m b) = ''1.2.3.4''"
  "Matched (is_ip_blocked \<lparr>db = d, snapshot = empty_snapshot\<lparr>blackIPExact := [''1.2.3.4'']\<rparr>, lastVersion = v\<rparr> ''1.2.3.4'')"
proof -
  have s: "split_host_port ''1.2.3.4'' = None" by code_simp
  have "parse_octet ''1'' = Some 1" "parse_octet ''2'' = Some 2" "parse_octet ''3'' = Some 3" "parse_octet ''4'' = Some 4"
    by code_simp+
  then have "parse_ip ''1.2.3.4'' \<noteq> None" by (simp add: parse_ip_def parse_ipv4_def)
  then obtain ip where p: "parse_ip ''1.2.3.4'' = Some ip" by blast
  show "get_client_ip None None (proxy_request m b) = ''1.2.3.4''"
    by (simp add: get_client_ip_def remote_host_def proxy_request_def s is_trusted_proxy_def)
  show "Matched (is_ip_blocked \<lparr>db = d, snapshot = empty_snapshot\<lparr>blackIPExact := [''1.2.3.4'']\<rparr>, lastVersion = v\<rparr> ''1.2.3.4'')"
    unfolding is_ip_blocked_def p by (simp add: empty_snapshot_def Let_def)
qed

abbreviation blocking_proxy :: "unit waf_proxy" where
  "blocking_proxy \<equiv> sample_proxy (empty_snapshot\<lparr>blackIPExact := [''1.2.3.4'']\<rparr>)"

lemma sample_proxy_fields:
  "wp_globalEnabled (sample_proxy s)" "wp_trustedProxies (sample_proxy s) = None" "wp_events (sample_proxy s) = []"
  "wp_ruleEngine (sample_proxy s) = \<lparr>db = empty_db, snapshot = s, lastVersion = 0\<rparr>"
  "wp_asyncExtractor (sample_proxy s) = None" "rq_Path (proxy_request m b) = ''/a''"
  "rq_Header (proxy_request m b) = no_headers" "rq_Method (proxy_request m b) = m"
  by (simp_all add: sample_proxy_def proxy_request_def)

lemma blocked_address_refused_witness:
  "\<exists>d. fst (serve_http sample_env (proxy_request ''POST'' None) blocking_proxy) = BlockPage ''ip_blocked'' 403 d"
  using blocked_address_refused[of blocking_proxy sample_env "proxy_request ''POST'' None"] sample_blocked
  by (cases "serve_http sample_env (proxy_request ''POST'' None) blocking_proxy") (simp add: sample_proxy_fields)

lemma refusal_logged_witness:
  "\<exists>e. wp_events (snd (snd (serve_http sample_env (proxy_request ''POST'' None) blocking_proxy))) = [e] \<and>
     ev_clientIP e = ''1.2.3.4'' \<and> ev_statusCode e = 403"
proof -
  let ?p = blocking_proxy and ?r = "proxy_request ''POST'' None"
  obtain d where run: "serve_http sample_env ?r ?p =
      (BlockPage ''ip_blocked'' 403 d, \<lparr>xc_request = ?r, xc_respHeader = no_headers\<rparr>,
       record_block_event sample_env (request_ctx_of sample_env ?r ?p) ?r (''IP'' @ utf8 [233, 187, 145, 229, 144, 141, 229, 141, 149])
         403 d ''ip'' ?p)"
    using sample_blocked
    by (simp add: serve_http_def checks_of_def check_pre_detection_rules_def and_then_def check_ip_rules_def
        extract_and_block_def block_with_def submit_async_extract_def Let_def request_ctx_of_def sample_proxy_fields)
  show ?thesis
    using refusal_logged[OF run] sample_blocked
    by (simp add: run sample_proxy_fields request_ctx_of_def Let_def)
qed

lemma other_bodies_never_inspected_witness:
  "fst (serve_http sample_env (proxy_request ''DELETE'' (Some ''evil'')) (sample_proxy empty_snapshot)) =
   ForwardTo (proxy_request ''DELETE'' (Some ''evil''))"
proof -
  have "\<not> str_contains ''/a'' ''evil''" by code_simp
  then have vp: "\<not> mr_Matched (vpatch_check ''/a'' '''' '''' sample_vpatch)"
    by (simp add: sample_vpatch_eq vpatch_check_def check_patch_def regex_hits_def attack_target_def sample_patch_def VPatch.no_match_def)
  then have "fst (serve_http sample_env (proxy_request ''DELETE'' None) (sample_proxy empty_snapshot)) =
      ForwardTo (proxy_request ''DELETE'' None)"
    by (simp add: serve_http_def request_ctx_of_def checks_of_def check_pre_detection_rules_def and_then_def
        check_ip_rules_def check_reputation_def check_geo_rules_def check_method_rules_def check_path_rules_def check_bot_def
        check_ua_rules_def check_rate_limits_def limit_step_def bucket_step_def path_limit_step_def check_api_schema_def
        check_attack_detection_def check_vpatch_def vpatch_step_def
        configured_limit_def has_body_def no_answer_def forward_request_def feedback_def sample_proxy_def proxy_request_def
        sample_env_def RuleEngine.no_match_def Let_def)
  then show ?thesis
    using other_bodies_never_inspected[of "proxy_request ''DELETE'' None" sample_env "sample_proxy empty_snapshot" "Some ''evil''"]
    by (auto simp: Let_def split: prod.splits) (auto simp: proxy_request_def)
qed

definition upgrade_headers :: headers where
  "upgrade_headers = (\<lambda>k. if k = ''Connection'' then [''Upgrade''] else if k = ''Upgrade'' then [''websocket''] else [])"

lemma upgrade_skips_schemas_witness:
  "let r = (proxy_request ''POST'' None)\<lparr>rq_Header := upgrade_headers\<rparr>
   in is_websocket (rq_Header r) \<and>
      fst (serve_http sample_env r (blocking_proxy\<lparr>wp_apiSchemaMgr := Some sample_schemas\<rparr>)) = fst (serve_http sample_env r blocking_proxy)"
proof -
  have "is_websocket (rq_Header ((proxy_request ''POST'' None)\<lparr>rq_Header := upgrade_headers\<rparr>))"
    by (simp add: upgrade_headers_def) code_simp
  then show ?thesis
    using upgrade_skips_schemas[of "(proxy_request ''POST'' None)\<lparr>rq_Header := upgrade_headers\<rparr>" sample_env blocking_proxy "Some sample_schemas"]
    by (simp add: Let_def split: prod.splits)
qed

end
