(* ===== verification/Masker.thy ===== *)
theory Masker
  imports Regexp ProxyConfig Http
begin

text \<open>
  The masking of sensitive texts, \<open>internal/domain/auxiliary/masker/masker.go\<close>, with what it uses of Go:
  \<open>ReplaceAllString\<close> and \<open>ReplaceAllStringFunc\<close> of \<open>regexp\<close>, \<open>QuoteMeta\<close>, \<open>QueryEscape\<close> and
  \<open>Values.Encode\<close> of \<open>net/url\<close>.

  \<^item> The patterns are the code's, compiled by the parser of \<open>Regexp\<close>.
  \<^item> Go ranges over the map of sensitive keys in no fixed order: the functions that do take the
    order as the argument \<open>keys\<close>.

  Proved: an encoded query parses back to its values; the exact values of a masked query.
\<close>

subsection \<open>Replacing the matches of an expression\<close>

text \<open>
  The matches \<open>ReplaceAll\<close> visits from position \<open>p\<close> on, at least one rune further each time; the
  length of the text bounds their number.
\<close>

fun matches_from :: "nat \<Rightarrow> regex \<Rightarrow> int list \<Rightarrow> nat \<Rightarrow> (nat \<times> nat) list" where
  "matches_from 0 r t p = []"
| "matches_from (Suc n) r t p =
     (if length t < p then []
      else case find_from r t [p..<Suc (length t)] of
             None \<Rightarrow> []
           | Some (i, j) \<Rightarrow> (i, j) # matches_from n r t (if p + 1 > j then p + 1 else j))"

text \<open>The text between the matches, and a replacement for each match but an empty one right after another.\<close>

fun splice_matches :: "(string \<Rightarrow> string) \<Rightarrow> string list \<Rightarrow> nat \<Rightarrow> (nat \<times> nat) list \<Rightarrow> string" where
  "splice_matches repl cs prev [] = concat (drop prev cs)"
| "splice_matches repl cs prev ((i, j) # ms) =
     concat (take (i - prev) (drop prev cs)) @
     (if j > prev \<or> i = 0 then repl (concat (take (j - i) (drop i cs))) else '''') @
     splice_matches repl cs j ms"

definition replace_matches :: "(string \<Rightarrow> string) \<Rightarrow> regex \<Rightarrow> string \<Rightarrow> string" where
  "replace_matches repl r s =
     (let rs = runes s in
      splice_matches repl (map snd rs) 0 (matches_from (length rs + 2) r (map fst rs) 0))"

definition must_compile :: "string \<Rightarrow> regex" where
  "must_compile p = the (parse_regex (rx p))"

definition quote_meta :: "string \<Rightarrow> string" where
  "quote_meta s =
     concat (map (\<lambda>c. if c \<in> set (bslash # ''.+*?()|[]{}^$'') then [bslash, c] else [c]) s)"

subsection \<open>Encoding queries\<close>

definition upper_hex :: "nat \<Rightarrow> char" where
  "upper_hex n = ''0123456789ABCDEF'' ! n"

definition unreserved :: "char \<Rightarrow> bool" where
  "unreserved c = (is_alnum c \<or> c \<in> {CHR ''-'', CHR ''_'', CHR ''.'', CHR 0x7E})"

definition escape_char :: "char \<Rightarrow> string" where
  "escape_char c =
     (if unreserved c then [c]
      else if c = CHR '' '' then ''+''
      else [CHR ''%'', upper_hex (of_char c div 16), upper_hex (of_char c mod 16)])"

definition query_escape :: "string \<Rightarrow> string" where
  "query_escape s = concat (map escape_char s)"

definition pair_text :: "string \<Rightarrow> string \<Rightarrow> string" where
  "pair_text k v = query_escape k @ ''='' @ query_escape v"

definition sort_keys :: "query_values \<Rightarrow> query_values" where
  "sort_keys vs = sort_key (\<lambda>e. bytes_of (fst e)) vs"

definition encode_values :: "query_values \<Rightarrow> string" where
  "encode_values vs =
     join_with ''&'' (concat (map (\<lambda>(k, xs). map (pair_text k) xs) (sort_keys vs)))"

subsection \<open>Patterns\<close>

definition sensitive_keys :: "string list" where
  "sensitive_keys =
     [''password'', ''passwd'', ''pwd'', ''pass'', ''secret'', ''token'', ''key'', ''api_key'', ''apikey'',
      ''auth'', ''authorization'', ''sign'', ''signature'', ''credential'', ''credentials'', ''jwt'',
      ''access_token'', ''refresh_token'', ''bearer'', ''private_key'', ''privatekey'', ''secret_key'',
      ''session'', ''sess'', ''sessionid'', ''sid'', ''cookie'', ''csrf'', ''csrf_token'', ''xsrf'',
      ''ssn'', ''social_security'', ''passport'', ''passport_no'', ''answer'', ''security_answer'']"

definition masked_placeholder :: string where
  "masked_placeholder = ''***''"

definition jwt_pattern :: regex where
  "jwt_pattern = must_compile ''eyJ[A-Za-z0-9_-]+~.eyJ[A-Za-z0-9_-]+~.[A-Za-z0-9_-]+''"

definition cn_id_pattern :: regex where
  "cn_id_pattern = must_compile
     ''~b[1-9]~d{5}(?:1[89]|20)~d{2}(?:0[1-9]|1[0-2])(?:0[1-9]|[12]~d|3[01])~d{3}[~dXx]~b''"

definition credit_card_pattern :: regex where
  "credit_card_pattern = must_compile
     ''~b(?:4[0-9]{12}(?:[0-9]{3})?|5[1-5][0-9]{14}|3[47][0-9]{13}|6(?:011|5[0-9]{2})[0-9]{12})~b''"

definition github_token_pattern :: regex where
  "github_token_pattern = must_compile ''~bgh[pousr]_[A-Za-z0-9_]{36,251}~b''"

definition api_key_pattern :: regex where
  "api_key_pattern = must_compile ''~b[A-Za-z0-9+/]{40,}[=]{0,2}~b''"

definition cn_phone_pattern :: regex where
  "cn_phone_pattern = must_compile ''~b1[3-9]~d{9}~b''"

definition email_pattern :: regex where
  "email_pattern = must_compile ''~b[A-Za-z0-9._%+-]+@[A-Za-z0-9.-]+~.[A-Za-z]{2,}~b''"

definition aws_access_key_pattern :: regex where
  "aws_access_key_pattern = must_compile ''~bAKIA[0-9A-Z]{16}~b''"

definition hex_token_pattern :: regex where
  "hex_token_pattern = must_compile ''~b[A-Fa-f0-9]{48,128}~b''"

definition json_key_pattern :: "string \<Rightarrow> regex" where
  \<open>json_key_pattern key = must_compile (''(?i)"'' @ quote_meta key @ ''"~s*:~s*"[^"]*"'')\<close>

definition url_key_pattern :: "string \<Rightarrow> regex" where
  "url_key_pattern key = must_compile (''(?i)~b'' @ quote_meta key @ ''~s*=~s*[^&~s]+'')"

definition general_key_pattern :: "string \<Rightarrow> regex" where
  "general_key_pattern key = must_compile (''(?i)'' @ quote_meta key @ ''~s*[:=]~s*([^~s&,;]+)'')"

subsection \<open>Masking\<close>

definition mask_matches :: "regex \<Rightarrow> string \<Rightarrow> string" where
  "mask_matches r s = replace_matches (\<lambda>_. masked_placeholder) r s"

definition mask_key_value_pairs :: "string list \<Rightarrow> string \<Rightarrow> string" where
  \<open>mask_key_value_pairs keys s =
     fold (\<lambda>key s.
       replace_matches (\<lambda>_. key @ ''='' @ masked_placeholder) (url_key_pattern key)
         (replace_matches (\<lambda>_. ''"'' @ key @ ''":"'' @ masked_placeholder @ ''"'') (json_key_pattern key) s)) keys s\<close>

definition looks_like_base64_url :: "string \<Rightarrow> bool" where
  "looks_like_base64_url s \<longleftrightarrow> contains_any s ''/+'' \<and> length s \<ge> 32"

definition mask_long_tokens :: "string \<Rightarrow> string" where
  "mask_long_tokens s =
     mask_matches hex_token_pattern
       (replace_matches (\<lambda>m. if looks_like_base64_url m then masked_placeholder else m) api_key_pattern s)"

definition mask_sensitive_key_appearances :: "string list \<Rightarrow> string \<Rightarrow> string" where
  "mask_sensitive_key_appearances keys s =
     (let lower = to_lower s in
      fold (\<lambda>key s. if str_contains lower key
                    then replace_matches (\<lambda>_. key @ ''='' @ masked_placeholder) (general_key_pattern key) s
                    else s) keys s)"

definition mask_content :: "string list \<Rightarrow> string \<Rightarrow> string" where
  "mask_content keys s =
     (if s = '''' then s
      else
        let result = mask_matches jwt_pattern s;
            result = mask_matches cn_id_pattern result;
            result = mask_matches credit_card_pattern result;
            result = mask_matches github_token_pattern result;
            result = mask_matches aws_access_key_pattern result;
            result = mask_matches cn_phone_pattern result;
            result = mask_matches email_pattern result
        in mask_sensitive_key_appearances keys (mask_long_tokens (mask_key_value_pairs keys result)))"

definition mask_value :: "string list \<Rightarrow> string \<Rightarrow> string" where
  "mask_value keys v = mask_content keys v"

definition mask_path :: "string list \<Rightarrow> string \<Rightarrow> string" where
  "mask_path keys path = mask_content keys path"

definition mask_match_detail :: "string list \<Rightarrow> string \<Rightarrow> string" where
  "mask_match_detail keys detail = mask_content keys detail"

definition is_sensitive :: "string \<Rightarrow> bool" where
  "is_sensitive key \<longleftrightarrow> to_lower key \<in> set sensitive_keys"

text \<open>The loop over the parsed values: a sensitive key keeps the placeholder only.\<close>

definition mask_values :: "string list \<Rightarrow> query_values \<Rightarrow> query_values" where
  "mask_values keys vs =
     map (\<lambda>(k, xs). if is_sensitive k then (k, [masked_placeholder]) else (k, map (mask_value keys) xs)) vs"

definition mask_query :: "string list \<Rightarrow> string \<Rightarrow> string" where
  "mask_query keys rawQuery =
     (if rawQuery = '''' then rawQuery
      else case parse_query rawQuery of
             (values, err) \<Rightarrow>
               if err then mask_content keys rawQuery
               else if list_ex (\<lambda>(k, _). is_sensitive k) values then encode_values (mask_values keys values)
               else mask_content keys rawQuery)"

subsection \<open>An encoded query parses back\<close>

lemma upper_hex_digits:
  "\<forall>n \<in> set [0..<16]. hex_val (upper_hex n) = Some n \<and> upper_hex n \<notin> {CHR ''&'', CHR '';'', CHR ''=''}"
  by code_simp

lemma hex_val_upper: "n < 16 \<Longrightarrow> hex_val (upper_hex n) = Some n"
  using upper_hex_digits by simp

lemma unreserved_plain: "unreserved c \<Longrightarrow> c \<noteq> CHR ''%'' \<and> c \<noteq> CHR ''+'' \<and> c \<noteq> CHR ''&'' \<and> c \<noteq> CHR '';'' \<and> c \<noteq> CHR ''=''"
  by (auto simp: unreserved_def is_alnum_def in_ranges_def)

lemma unescape_char: "query_unescape (escape_char c @ s) = map_option ((#) c) (query_unescape s)"
proof -
  have "of_char c div 16 < (16 :: nat)"
    by (simp add: less_mult_imp_div_less)
  then show ?thesis
    using unreserved_plain[of c]
    by (auto simp: escape_char_def hex_val_upper)
qed

lemma unescape_escape: "query_unescape (query_escape s) = Some s"
  by (induction s) (simp_all add: query_escape_def unescape_char)

lemma upper_hex_plain: "n < 16 \<Longrightarrow> upper_hex n \<notin> {CHR ''&'', CHR '';'', CHR ''=''}"
  using upper_hex_digits by simp

lemma escape_char_plain: "x \<in> set (escape_char c) \<Longrightarrow> x \<notin> {CHR ''&'', CHR '';'', CHR ''=''}"
proof -
  have "of_char c div 16 < (16 :: nat)" "of_char c mod 16 < (16 :: nat)"
    by (simp_all add: less_mult_imp_div_less)
  note plain = this[THEN upper_hex_plain]
  then show "x \<in> set (escape_char c) \<Longrightarrow> x \<notin> {CHR ''&'', CHR '';'', CHR ''=''}"
    using unreserved_plain[of c] by (auto simp: escape_char_def split: if_splits)
qed

lemma escape_plain: "set (query_escape s) \<inter> {CHR ''&'', CHR '';'', CHR ''=''} = {}"
  using escape_char_plain by (fastforce simp: query_escape_def)

lemma cut_at_sep: "c \<notin> set s \<Longrightarrow> cut_at c (s @ c # t) = (s, t)"
  by (simp add: cut_at_def takeWhile_append dropWhile_append)

lemma query_pair_text: "query_pair (pair_text k v) = Some (Some (k, v))"
proof -
  have "CHR ''='' \<notin> set (query_escape k)" "CHR '';'' \<notin> set (pair_text k v)"
    using escape_plain[of k] escape_plain[of v] by (auto simp: pair_text_def)
  then show ?thesis
    by (simp add: query_pair_def pair_text_def cut_at_sep unescape_escape)
qed

definition entry_pairs :: "query_values \<Rightarrow> (string \<times> string) list" where
  "entry_pairs vs = concat (map (\<lambda>(k, xs). map (Pair k) xs) vs)"

lemma parse_pairs:
  "foldl parse_query_part acc (map (\<lambda>(k, v). pair_text k v) kvs) =
     (foldl (\<lambda>m (k, v). add_value k v m) (fst acc) kvs, snd acc)"
  by (induction kvs arbitrary: acc) (auto simp: parse_query_part_def query_pair_text)

lemma add_value_new: "k \<notin> fst ` set m \<Longrightarrow> add_value k v m = m @ [(k, [v])]"
  by (induction m) auto

lemma add_value_last: "k \<notin> fst ` set m \<Longrightarrow> add_value k v (m @ [(k, xs)]) = m @ [(k, xs @ [v])]"
  by (induction m) auto

lemma add_values_last:
  "k \<notin> fst ` set m \<Longrightarrow>
   foldl (\<lambda>m (k, v). add_value k v m) (m @ [(k, xs)]) (map (Pair k) ys) = m @ [(k, xs @ ys)]"
  by (induction ys arbitrary: xs) (simp_all add: add_value_last)

lemma add_values_new:
  "k \<notin> fst ` set m \<Longrightarrow> ys \<noteq> [] \<Longrightarrow>
   foldl (\<lambda>m (k, v). add_value k v m) m (map (Pair k) ys) = m @ [(k, ys)]"
  by (cases ys) (simp_all add: add_value_new add_values_last)

definition values_ok :: "query_values \<Rightarrow> bool" where
  "values_ok vs \<longleftrightarrow> distinct (map fst vs) \<and> [] \<notin> snd ` set vs"

lemma add_entry_pairs:
  "values_ok vs \<Longrightarrow> fst ` set m \<inter> fst ` set vs = {} \<Longrightarrow>
   foldl (\<lambda>m (k, v). add_value k v m) m (entry_pairs vs) = m @ vs"
proof (induction vs arbitrary: m)
  case (Cons e vs)
  obtain k xs where e: "e = (k, xs)" by fastforce
  have "foldl (\<lambda>m (k, v). add_value k v m) m (map (Pair k) xs) = m @ [(k, xs)]"
    using Cons.prems by (intro add_values_new) (auto simp: e values_ok_def)
  moreover have "foldl (\<lambda>m (k, v). add_value k v m) (m @ [(k, xs)]) (entry_pairs vs) = (m @ [(k, xs)]) @ vs"
    using Cons.prems by (intro Cons.IH) (auto simp: e values_ok_def)
  ultimately show ?case
    by (simp add: e entry_pairs_def)
qed (simp add: entry_pairs_def)

lemma sort_keys_ok: "values_ok vs \<Longrightarrow> values_ok (sort_keys vs)"
  by (simp add: values_ok_def sort_keys_def distinct_map)

lemma encode_pairs: "encode_values vs = join_with ''&'' (map (\<lambda>(k, v). pair_text k v) (entry_pairs (sort_keys vs)))"
  by (simp add: encode_values_def entry_pairs_def map_concat comp_def case_prod_unfold)

lemma parse_query_join:
  "parse_query (join_with ''&'' (map (\<lambda>(k, v). pair_text k v) kvs)) =
     (foldl (\<lambda>m (k, v). add_value k v m) [] kvs, False)"
proof (cases kvs)
  case Nil
  then show ?thesis by (simp add: parse_query_def parse_query_part_def query_pair_def)
next
  case (Cons e es)
  have "\<forall>p \<in> set (map (\<lambda>(k, v). pair_text k v) kvs). CHR ''&'' \<notin> set p"
    using escape_plain by (fastforce simp: pair_text_def)
  then have "split_char CHR ''&'' (join_with ''&'' (map (\<lambda>(k, v). pair_text k v) kvs)) = map (\<lambda>(k, v). pair_text k v) kvs"
    using Cons by (intro split_join) auto
  then show ?thesis
    by (simp add: parse_query_def parse_pairs)
qed

lemma parse_encode: "values_ok vs \<Longrightarrow> parse_query (encode_values vs) = (sort_keys vs, False)"
  using add_entry_pairs[OF sort_keys_ok, of vs "[]"] by (simp add: encode_pairs parse_query_join)

subsection \<open>Parsed values\<close>

lemma add_value_keys: "fst ` set (add_value k v m) = insert k (fst ` set m)"
  by (induction k v m rule: add_value.induct) auto

lemma values_ok_Cons: "values_ok ((k, xs) # vs) \<longleftrightarrow> k \<notin> fst ` set vs \<and> xs \<noteq> [] \<and> values_ok vs"
  by (auto simp: values_ok_def)

lemma add_value_ok: "values_ok m \<Longrightarrow> values_ok (add_value k v m)"
  by (induction k v m rule: add_value.induct) (auto simp: values_ok_Cons add_value_keys values_ok_def [of "[]"])

lemma parse_part_ok: "values_ok (fst acc) \<Longrightarrow> values_ok (fst (parse_query_part acc p))"
  by (auto simp: parse_query_part_def add_value_ok split: option.split)

lemma parse_parts_ok: "values_ok (fst acc) \<Longrightarrow> values_ok (fst (foldl parse_query_part acc ps))"
  by (induction ps arbitrary: acc) (simp_all add: parse_part_ok)

lemma parse_query_ok: "values_ok (fst (parse_query q))"
  unfolding parse_query_def by (rule parse_parts_ok) (simp add: values_ok_def)

lemma mask_values_ok: "values_ok vs \<Longrightarrow> values_ok (mask_values keys vs)"
proof (induction vs)
  case (Cons e vs)
  have "fst ` set (mask_values keys vs) = fst ` set vs"
    by (force simp: mask_values_def)
  then show ?case
    using Cons by (cases e) (auto simp: mask_values_def values_ok_Cons)
qed (simp add: mask_values_def)

subsection \<open>The masked query\<close>

text \<open>
  A well-formed query with a sensitive parameter is masked exactly: it parses back, sorted, to
  the same keys with the placeholder as the only value of every sensitive key and the other values
  masked one by one.
\<close>

theorem masked_query_exact:
  assumes "parse_query q = (vs, False)" "list_ex (\<lambda>(k, _). is_sensitive k) vs"
  shows "parse_query (mask_query keys q) = (sort_keys (mask_values keys vs), False) \<and>
    (\<forall>(k, xs) \<in> set (fst (parse_query (mask_query keys q))). is_sensitive k \<longrightarrow> xs = [masked_placeholder])"
proof -
  have "q \<noteq> ''''"
    using assms by (auto simp: parse_query_def parse_query_part_def query_pair_def)
  then have q: "mask_query keys q = encode_values (mask_values keys vs)"
    using assms by (simp add: mask_query_def)
  have "values_ok (mask_values keys vs)"
    using mask_values_ok parse_query_ok[of q] assms by simp
  then have "parse_query (mask_query keys q) = (sort_keys (mask_values keys vs), False)"
    by (simp add: q parse_encode)
  then show ?thesis
    by (auto simp: sort_keys_def mask_values_def split: if_splits)
qed

theorem masked_query_exact_witness:
  "parse_query (mask_query [] ''Token=abc&a='') = ([(''Token'', [''***'']), (''a'', [''''])], False)"
proof -
  have "parse_query ''Token=abc&a='' = ([(''Token'', [''abc'']), (''a'', [''''])], False)"
    "list_ex (\<lambda>(k, _). is_sensitive k) [(''Token'', [''abc'']), (''a'', [''''])]"
    by code_simp+
  note r = masked_query_exact[OF this, of "[]", THEN conjunct1]
  have "sort_keys (mask_values [] [(''Token'', [''abc'']), (''a'', [''''])]) = [(''Token'', [''***'']), (''a'', [''''])]"
  proof -
    have "is_sensitive ''Token''" "\<not> is_sensitive ''a''"
      by code_simp+
    then show ?thesis
      by (simp add: mask_values_def mask_value_def mask_content_def masked_placeholder_def sort_keys_def bytes_of_def)
  qed
  then show ?thesis
    using r by simp
qed

end
