(* ===== verification/Forward.thy ===== *)
theory Forward
  imports ProxyProps ProxyConfig Masker HeaderRules BackendSystem
begin

text \<open>
  Forwarding, \<open>internal/domain/proxy/forward.go\<close>: the director that rewrites a request for its
  backend, the treatment of the backend's response, and the scan of its body.

  \<^item> \<open>forwarder\<close> holds what the proxy's functions of this file read and write. The access logs
    of the observation mode and of a failed round trip are \<open>fw_logs\<close>, the block events
    \<open>fw_events\<close>.
  \<^item> The context of the request is given by its entries: the client address, the original
    scheme, the request identifier. A local \<open>req = req.WithContext(..)\<close> shares the header
    map and the URL, so the director changes the outgoing request.
  \<^item> Of Go's reverse proxy: what it does to the headers after the director
    (\<open>reverse_proxy_headers\<close>), and \<open>Set-Cookie\<close> parsing and printing. Dates in cookies are
    normalised by the argument \<open>expires\<close>.
  \<^item> A body is what can be read of it and whether reading then fails.
\<close>

subsection \<open>State\<close>

record access_log =
  al_clientIP :: string
  al_method :: string
  al_path :: string
  al_status :: int
  al_action :: string
  al_requestID :: string
  al_upstream :: string
  al_ruleID :: string
  al_host :: string
  al_query :: string
  al_userAgent :: string
  al_referer :: string
  al_contentType :: string
  al_matchDetail :: string

record forwarder =
  fw_reqHeaderMgr :: "header_manager option"
  fw_respHeaderMgr :: "header_manager option"
  fw_proxyConfigMgr :: "pc_manager option"
  fw_backendManager :: "manager option"
  fw_detectorManager :: "det_manager option"
  fw_dlpRuleMgr :: "dlp_manager option"
  fw_events :: "block_event list"
  fw_logs :: "access_log list"

record forward_env =
  fe_clientIP :: string
  fe_scheme :: string
  fe_requestID :: string
  fe_now :: instant
  fe_splitHost :: "string \<Rightarrow> string option"
  fe_draw :: "int \<Rightarrow> int"
  fe_lbPolicy :: lb_policy
  fe_runtime :: runtime
  fe_maskKeys :: "string list"
  fe_expires :: "string \<Rightarrow> string option"

record outgoing =
  og_Request :: http_request
  og_URLScheme :: string
  og_URLHost :: string

subsection \<open>The director\<close>

definition strip_port :: "string \<Rightarrow> string" where
  "strip_port host =
     (case last_index (CHR '':'') host of
        None \<Rightarrow> host
      | Some idx \<Rightarrow>
          if CHR '':'' \<notin> set (take idx host) then take idx host
          else if has_prefix host ''['' then
            (case str_index host '']'' of None \<Rightarrow> host | Some e \<Rightarrow> take (e - 1) (drop 1 host))
          else host)"

definition usable_route :: "domain_config \<Rightarrow> bool" where
  "usable_route cfg \<longleftrightarrow> dc_Enabled cfg \<and> (dc_BackendIDs cfg \<noteq> [] \<or> dc_GroupID cfg \<noteq> '''')"

definition route_named :: "string \<Rightarrow> pc_manager \<Rightarrow> (string list \<times> string) \<times> pc_manager" where
  "route_named name pm =
     (case get_domain_by_name name pm of
        (Some cfg, pm') \<Rightarrow> (if usable_route cfg then (dc_BackendIDs cfg, dc_GroupID cfg) else ([], ''''), pm')
      | (None, pm') \<Rightarrow> (([], ''''), pm'))"

definition route_of :: "string \<Rightarrow> pc_manager \<Rightarrow> (string list \<times> string) \<times> pc_manager" where
  "route_of host pm =
     (let ((bids, gid), pm) = route_named host pm
      in if bids = [] \<and> gid = '''' then route_named ''default'' pm else ((bids, gid), pm))"

fun first_selected :: "manager \<Rightarrow> string list \<Rightarrow> backend option" where
  "first_selected m [] = None"
| "first_selected m (i # bids) =
     (case select_backend_by_id i m of None \<Rightarrow> first_selected m bids | Some b \<Rightarrow> Some b)"

text \<open>The backend in the context and the manager afterwards; an empty address counts as none.\<close>

definition choose_backend ::
  "forward_env \<Rightarrow> selection_info \<Rightarrow> string list \<times> string \<Rightarrow> manager \<Rightarrow> backend option \<times> manager" where
  "choose_backend env info route m =
     (let (bids, gid) = route;
          (b, m) = (if gid = '''' then (None, m)
                    else select_backend_for_group (fe_splitHost env) (fe_draw env) (fe_now env) gid info m)
      in case b of
           Some b \<Rightarrow> if b_Address b \<noteq> '''' then (Some b, m)
                     else (case first_selected m bids of None \<Rightarrow> (Some b, m) | Some b' \<Rightarrow> (Some b', m))
         | None \<Rightarrow> (first_selected m bids, m))"

definition upstream_scheme :: "bool \<Rightarrow> backend \<Rightarrow> string" where
  "upstream_scheme isWS b =
     (let scheme = get_scheme_for_request b isWS
      in if scheme = ''ws'' then ''http'' else if scheme = ''wss'' then ''https'' else scheme)"

definition forwarding_headers :: "string \<Rightarrow> bool \<Rightarrow> string \<Rightarrow> headers \<Rightarrow> headers" where
  "forwarding_headers clientIP isTLS host h =
     (let h = header_set ''X-Real-IP'' clientIP h;
          prior = header_get h ''X-Forwarded-For'';
          h = header_set ''X-Forwarded-For'' (if prior \<noteq> '''' then prior @ '', '' @ clientIP else clientIP) h;
          h = header_set ''X-Forwarded-Proto'' (if isTLS then ''https'' else ''http'') h
      in if host \<noteq> '''' then header_set ''X-Forwarded-Host'' host h else h)"

definition put_pcm :: "pc_manager \<Rightarrow> forwarder \<Rightarrow> forwarder" where
  "put_pcm pm f = f\<lparr>fw_proxyConfigMgr := Some pm\<rparr>"

definition put_backends :: "manager \<Rightarrow> forwarder \<Rightarrow> forwarder" where
  "put_backends m f = f\<lparr>fw_backendManager := Some m\<rparr>"

definition find_route :: "string \<Rightarrow> forwarder \<Rightarrow> (string list \<times> string) \<times> forwarder" where
  "find_route host f =
     (case fw_proxyConfigMgr f of
        None \<Rightarrow> (([], ''''), f)
      | Some pm \<Rightarrow> map_prod id (\<lambda>pm. put_pcm pm f) (route_of host pm))"

definition find_backend ::
  "forward_env \<Rightarrow> selection_info \<Rightarrow> string list \<times> string \<Rightarrow> forwarder \<Rightarrow> backend option \<times> forwarder" where
  "find_backend env info route f =
     (case fw_backendManager f of
        None \<Rightarrow> (None, f)
      | Some m \<Rightarrow> map_prod id (\<lambda>m. put_backends m f) (choose_backend env info route m))"

definition director :: "forward_env \<Rightarrow> http_request \<Rightarrow> forwarder \<Rightarrow> outgoing \<times> forwarder" where
  "director env req f =
     (let req = (case fw_reqHeaderMgr f of None \<Rightarrow> req | Some hm \<Rightarrow> apply_request_headers hm req);
          (route, f) = find_route (strip_port (rq_Host req)) f;
          isWS = is_websocket (rq_Header req);
          info = \<lparr>si_ClientIP = fe_clientIP env, si_URLPath = rq_Path req, si_IsWS = isWS, si_IsTLS = rq_TLS req\<rparr>;
          (b, f) = find_backend env info route f
      in case b of
           None \<Rightarrow> (\<lparr>og_Request = req, og_URLScheme = '''', og_URLHost = ''''\<rparr>, f)
         | Some b \<Rightarrow>
             if b_Address b = '''' then (\<lparr>og_Request = req, og_URLScheme = '''', og_URLHost = ''''\<rparr>, f)
             else (\<lparr>og_Request = req\<lparr>rq_Header := forwarding_headers (fe_clientIP env) (rq_TLS req) (rq_Host req) (rq_Header req)\<rparr>,
                    og_URLScheme = upstream_scheme isWS b, og_URLHost = b_Address b\<rparr>, f))"

subsection \<open>What the reverse proxy sends\<close>

definition hop_headers :: "string list" where
  "hop_headers =
     [''Connection'', ''Proxy-Connection'', ''Keep-Alive'', ''Proxy-Authenticate'', ''Proxy-Authorization'', ''Te'',
      ''Trailer'', ''Transfer-Encoding'', ''Upgrade'']"

text \<open>The headers a client names in \<open>Connection\<close>.\<close>

definition named_hops :: "headers \<Rightarrow> string list" where
  "named_hops h = filter (\<lambda>n. n \<noteq> '''') (map trim_blank (concat (map (split_char (CHR '','')) (h ''Connection''))))"

definition remove_hop_by_hop :: "headers \<Rightarrow> headers" where
  "remove_hop_by_hop h = fold header_del (named_hops h @ hop_headers) h"


definition append_forwarded_for :: "string \<Rightarrow> headers \<Rightarrow> headers" where
  "append_forwarded_for remoteAddr h =
     (case split_host_port remoteAddr of
        None \<Rightarrow> h
      | Some (ip, _) \<Rightarrow>
          let prior = h ''X-Forwarded-For''
          in header_set ''X-Forwarded-For'' (if prior \<noteq> [] then join_with '', '' prior @ '', '' @ ip else ip) h)"

definition has_token :: "string \<Rightarrow> string list \<Rightarrow> bool" where
  "has_token tok vs = list_ex (\<lambda>v. list_ex (\<lambda>t. to_lower (trim_blank t) = tok) (split_char (CHR '','') v)) vs"

text \<open>\<open>inbound\<close>: the headers as the client sent them.\<close>

definition reverse_proxy_headers :: "string \<Rightarrow> headers \<Rightarrow> headers \<Rightarrow> headers" where
  "reverse_proxy_headers remoteAddr inbound h =
     (let up = (if has_token ''upgrade'' (h ''Connection'') then header_get h ''Upgrade'' else '''');
          h' = remove_hop_by_hop h;
          h' = (if has_token ''trailers'' (inbound ''Te'') then header_set ''Te'' ''trailers'' h' else h');
          h' = (if up \<noteq> '''' then header_set ''Upgrade'' up (header_set ''Connection'' ''Upgrade'' h') else h');
          h' = append_forwarded_for remoteAddr h'
      in if h' ''User-Agent'' = [] then header_set ''User-Agent'' '''' h' else h')"

subsection \<open>Cookies of a response\<close>

record cookie =
  ck_Name :: string
  ck_Value :: string
  ck_Quoted :: bool
  ck_Path :: string
  ck_Domain :: string
  ck_Expires :: string
  ck_MaxAge :: int
  ck_Secure :: bool
  ck_HttpOnly :: bool
  ck_SameSite :: nat
  ck_Partitioned :: bool

definition strip_quotes :: "bool \<Rightarrow> string \<Rightarrow> (string \<times> bool) option" where
  "strip_quotes allowQuote raw =
     (let quoted = allowQuote \<and> length raw > 1 \<and> hd raw = CHR 0x22 \<and> last raw = CHR 0x22;
          v = (if quoted then butlast (tl raw) else raw)
      in if list_all cookie_value_char v then Some (v, quoted) else None)"

definition same_site_of :: "string \<Rightarrow> nat" where
  "same_site_of v =
     (if to_lower v = ''lax'' then 2 else if to_lower v = ''strict'' then 3 else if to_lower v = ''none'' then 4 else 1)"

definition max_age_of :: "string \<Rightarrow> int option" where
  "max_age_of v =
     (case parse_int64 v of
        None \<Rightarrow> None
      | Some secs \<Rightarrow> if secs \<noteq> 0 \<and> hd v = CHR ''0'' then None else Some (if secs \<le> 0 then - 1 else secs))"

definition cookie_attr :: "(string \<Rightarrow> string option) \<Rightarrow> string \<Rightarrow> cookie \<Rightarrow> cookie" where
  "cookie_attr expires part c =
     (let part = trim_blank part; (attr, val) = cut_at (CHR ''='') part; lower = to_lower attr
      in if part = '''' then c
         else case strip_quotes False val of
                None \<Rightarrow> c
              | Some (val, _) \<Rightarrow>
                  if lower = ''samesite'' then c\<lparr>ck_SameSite := same_site_of val\<rparr>
                  else if lower = ''secure'' then c\<lparr>ck_Secure := True\<rparr>
                  else if lower = ''httponly'' then c\<lparr>ck_HttpOnly := True\<rparr>
                  else if lower = ''domain'' then c\<lparr>ck_Domain := val\<rparr>
                  else if lower = ''max-age'' then (case max_age_of val of None \<Rightarrow> c | Some n \<Rightarrow> c\<lparr>ck_MaxAge := n\<rparr>)
                  else if lower = ''expires'' then (case expires val of None \<Rightarrow> c | Some t \<Rightarrow> c\<lparr>ck_Expires := t\<rparr>)
                  else if lower = ''path'' then c\<lparr>ck_Path := val\<rparr>
                  else if lower = ''partitioned'' then c\<lparr>ck_Partitioned := True\<rparr>
                  else c)"

definition parse_set_cookie :: "(string \<Rightarrow> string option) \<Rightarrow> string \<Rightarrow> cookie option" where
  "parse_set_cookie expires line =
     (let parts = split_char (CHR '';'') (trim_blank line);
          first = trim_blank (hd parts);
          (name, val) = cut_at (CHR ''='') first; name = trim_blank name
      in if CHR ''='' \<notin> set first \<or> name = '''' \<or> \<not> list_all is_token_char name then None
         else map_option (\<lambda>(v, quoted).
                fold (cookie_attr expires) (tl parts)
                  \<lparr>ck_Name = name, ck_Value = v, ck_Quoted = quoted, ck_Path = '''', ck_Domain = '''', ck_Expires = '''',
                   ck_MaxAge = 0, ck_Secure = False, ck_HttpOnly = False, ck_SameSite = 0, ck_Partitioned = False\<rparr>)
              (strip_quotes True val))"

definition cookie_text_value :: "string \<Rightarrow> bool \<Rightarrow> string" where
  "cookie_text_value v quoted =
     (if v \<noteq> '''' \<and> (CHR '' '' \<in> set v \<or> CHR '','' \<in> set v \<or> quoted) then [CHR 0x22] @ v @ [CHR 0x22] else v)"

text \<open>A host name with a letter, its leading dot not counted, or an IPv4 address.\<close>

definition cookie_domain_name :: "string \<Rightarrow> bool" where
  "cookie_domain_name d \<longleftrightarrow>
     length d \<le> 255 \<and>
     (let labels = split_char (CHR ''.'') (if has_prefix d ''.'' then drop 1 d else d)
      in list_all (\<lambda>l. l \<noteq> '''') (butlast labels) \<and>
         list_all (\<lambda>l. length l \<le> 63 \<and> list_all (\<lambda>c. is_alnum c \<or> c = CHR ''-'') l \<and>
                       \<not> has_prefix l ''-'' \<and> \<not> has_suffix l ''-'') labels \<and>
         list_ex (list_ex (\<lambda>c. is_alnum c \<and> \<not> is_digit c)) labels)"

definition valid_cookie_domain :: "string \<Rightarrow> bool" where
  "valid_cookie_domain d \<longleftrightarrow> cookie_domain_name d \<or> parse_ip d \<noteq> None \<and> CHR '':'' \<notin> set d"

definition cookie_string :: "cookie \<Rightarrow> string" where
  "cookie_string c =
     ck_Name c @ ''='' @ cookie_text_value (ck_Value c) (ck_Quoted c) @
     (if ck_Path c \<noteq> '''' then ''; Path='' @ ck_Path c else '''') @
     (if valid_cookie_domain (ck_Domain c)
      then ''; Domain='' @ (if has_prefix (ck_Domain c) ''.'' then drop 1 (ck_Domain c) else ck_Domain c) else '''') @
     (if ck_Expires c \<noteq> '''' then ''; Expires='' @ ck_Expires c else '''') @
     (if ck_MaxAge c > 0 then ''; Max-Age='' @ format_int (ck_MaxAge c) else if ck_MaxAge c < 0 then ''; Max-Age=0'' else '''') @
     (if ck_HttpOnly c then ''; HttpOnly'' else '''') @
     (if ck_Secure c then ''; Secure'' else '''') @
     (if ck_SameSite c = 4 then ''; SameSite=None'' else if ck_SameSite c = 2 then ''; SameSite=Lax''
      else if ck_SameSite c = 3 then ''; SameSite=Strict'' else '''') @
     (if ck_Partitioned c then ''; Partitioned'' else '''')"

definition harden_cookie :: "bool \<Rightarrow> cookie \<Rightarrow> cookie" where
  "harden_cookie isHTTPS c =
     c\<lparr>ck_HttpOnly := True, ck_Secure := ck_Secure c \<or> isHTTPS,
       ck_SameSite := (if ck_SameSite c = 0 then 2 else ck_SameSite c)\<rparr>"

definition harden_cookies :: "(string \<Rightarrow> string option) \<Rightarrow> bool \<Rightarrow> headers \<Rightarrow> headers" where
  "harden_cookies expires isHTTPS h =
     (let cookies = List.map_filter (parse_set_cookie expires) (h ''Set-Cookie'')
      in if cookies = [] then h
         else fold (\<lambda>c. header_add ''Set-Cookie'' (cookie_string (harden_cookie isHTTPS c))) cookies
                (header_del ''Set-Cookie'' h))"

subsection \<open>Responses\<close>

record http_response =
  rs_StatusCode :: int
  rs_Header :: headers
  rs_Body :: "(string \<times> bool) option"
  rs_ContentLength :: int
  rs_Request :: "http_request option"

definition max_response_scan_size :: nat where
  "max_response_scan_size = 1024 * 1024"

definition security_headers :: "bool \<Rightarrow> headers \<Rightarrow> headers" where
  "security_headers isHTTPS h =
     (let h = header_set ''X-Content-Type-Options'' ''nosniff'' h;
          h = header_set ''X-Frame-Options'' ''DENY'' h;
          h = header_set ''X-XSS-Protection'' ''1; mode=block'' h;
          h = header_set ''Referrer-Policy'' ''strict-origin-when-cross-origin'' h;
          h = header_del ''X-Powered-By'' (header_del ''Server'' h);
          h = (if isHTTPS \<and> header_get h ''Strict-Transport-Security'' = ''''
               then header_set ''Strict-Transport-Security'' ''max-age=31536000; includeSubDomains; preload'' h else h)
      in header_set ''Permissions-Policy'' ''camera=(), microphone=(), geolocation=(), payment=()'' h)"

definition should_scan :: "string \<Rightarrow> bool" where
  "should_scan contentType \<longleftrightarrow>
     contentType \<noteq> '''' \<and>
     (str_contains contentType ''text/'' \<or> str_contains contentType ''json'' \<or> str_contains contentType ''javascript'' \<or>
      str_contains contentType ''xml'' \<or> str_contains contentType ''x-www-form-urlencoded'')"

text \<open>The detail of a hit in an observation log and in a block event.\<close>

definition observe_detail :: "detection_result \<Rightarrow> string" where
  "observe_detail r =
     (if dr_RuleID r > 0 \<and> dr_RuleDesc r \<noteq> ''''
      then ''[Rule#'' @ format_int (dr_RuleID r) @ ''|'' @ dr_RuleDesc r @ ''] '' @ dr_Pattern r
      else if dr_RuleID r > 0 then ''[Rule#'' @ format_int (dr_RuleID r) @ ''] '' @ dr_Pattern r
      else if dr_RuleDesc r \<noteq> '''' then ''['' @ dr_RuleDesc r @ ''] '' @ dr_Pattern r
      else dr_Pattern r)"

definition sensitive_detail :: "detection_result \<Rightarrow> string" where
  "sensitive_detail r =
     (if dr_RuleID r > 0 \<and> dr_RuleDesc r \<noteq> ''''
      then ''[Rule#'' @ format_int (dr_RuleID r) @ ''|'' @ dr_RuleDesc r @ ''] '' @ dr_Pattern r
      else dr_Pattern r)"

definition observed_hits :: "det_manager \<Rightarrow> detection_result list \<Rightarrow> detection_result list" where
  "observed_hits dm rs = filter (\<lambda>r. dr_Detected r \<and> is_observation_mode (dr_AttackType r) dm) rs"

definition blocking_hits :: "det_manager \<Rightarrow> detection_result list \<Rightarrow> detection_result list" where
  "blocking_hits dm rs = filter (\<lambda>r. dr_Detected r \<and> \<not> is_observation_mode (dr_AttackType r) dm) rs"

definition log_observed :: "forward_env \<Rightarrow> http_request \<Rightarrow> string \<Rightarrow> string \<Rightarrow> forwarder \<Rightarrow> forwarder" where
  "log_observed env r types detail f =
     f\<lparr>fw_logs := fw_logs f @
         [\<lparr>al_clientIP = fe_clientIP env, al_method = rq_Method r, al_path = mask_path (fe_maskKeys env) (rq_Path r),
           al_status = 200, al_action = ''observe'', al_requestID = fe_requestID env, al_upstream = '''',
           al_ruleID = (utf8 [232, 167, 130, 229, 175, 159, 230, 168, 161, 229, 188, 143] @ '':'') @ types, al_host = rq_Host r, al_query = mask_query (fe_maskKeys env) (rq_RawQuery r),
           al_userAgent = header_get (rq_Header r) ''User-Agent'', al_referer = header_get (rq_Header r) ''Referer'',
           al_contentType = header_get (rq_Header r) ''Content-Type'',
           al_matchDetail = mask_match_detail (fe_maskKeys env) detail\<rparr>]\<rparr>"

definition record_response_block ::
  "forward_env \<Rightarrow> http_request \<Rightarrow> string \<Rightarrow> string \<Rightarrow> string \<Rightarrow> forwarder \<Rightarrow> forwarder" where
  "record_response_block env r rule detail location f =
     f\<lparr>fw_events := fw_events f @
         [\<lparr>ev_clientIP = fe_clientIP env, ev_path = rq_Path r, ev_method = rq_Method r,
           ev_userAgent = header_get (rq_Header r) ''User-Agent'', ev_rule = rule, ev_statusCode = 200,
           ev_requestID = fe_requestID env, ev_backendAddr = '''', ev_matchDetail = detail, ev_matchLocation = location\<rparr>]\<rparr>"

definition log_hits :: "forward_env \<Rightarrow> http_request \<Rightarrow> detection_result list \<Rightarrow> forwarder \<Rightarrow> forwarder" where
  "log_hits env r hits f =
     (if hits = [] then f
      else log_observed env r (join_with '','' (map dr_AttackType hits)) (join_with '', '' (map observe_detail hits)) f)"

definition detect_response_body_content ::
  "forward_env \<Rightarrow> http_response \<Rightarrow> string \<Rightarrow> forwarder \<Rightarrow> forwarder" where
  "detect_response_body_content env resp body f =
     (case (fw_detectorManager f, rs_Request resp) of
        (Some dm, Some r) \<Rightarrow>
          let results = detect_response dm body (rs_StatusCode resp); hits = blocking_hits dm results
          in if \<not> has_attack results then f
             else
               let f = log_hits env r (observed_hits dm results) f
               in if hits = [] then f
                  else record_response_block env r ((utf8 [229, 147, 141, 229, 186, 148, 229, 188, 130, 229, 184, 184] @ '':'') @ join_with '','' (get_attack_types hits)) '''' ''response'' f
      | _ \<Rightarrow> f)"

definition detect_sensitive_data :: "forward_env \<Rightarrow> http_response \<Rightarrow> string \<Rightarrow> forwarder \<Rightarrow> forwarder" where
  "detect_sensitive_data env resp body f =
     (case (fw_detectorManager f, rs_Request resp) of
        (Some dm, Some r) \<Rightarrow>
          let results = detect_string (fe_runtime env) dm body; hits = blocking_hits dm results
          in if \<not> has_attack results then f
             else
               let f = log_hits env r (observed_hits dm results) f
               in if hits = [] then f
                  else record_response_block env r ((utf8 [230, 149, 143, 230, 132, 159, 230, 149, 176, 230, 141, 174, 230, 179, 132, 233, 156, 178] @ '':'') @ join_with '','' (get_attack_types hits))
                         (join_with '', '' (map sensitive_detail hits)) ''body'' f
      | _ \<Rightarrow> f)"

definition dlp_block_text :: string where
  "dlp_block_text = ''Blocked by DLP policy''"

definition dlp_blocked :: "http_response \<Rightarrow> http_response" where
  "dlp_blocked resp =
     resp\<lparr>rs_StatusCode := 403, rs_Body := Some (dlp_block_text, False), rs_ContentLength := 23\<rparr>"

definition detect_dlp_in_response ::
  "forward_env \<Rightarrow> http_response \<Rightarrow> string \<Rightarrow> forwarder \<Rightarrow> http_response \<times> forwarder" where
  "detect_dlp_in_response env resp body f =
     (case (fw_dlpRuleMgr f, rs_Request resp) of
        (Some dlp, Some r) \<Rightarrow>
          let matches = dlp_check dlp body;
              details = map (\<lambda>dm. dm_RuleName dm @ '':'' @ dm_Match dm) matches;
              isObserve = (case fw_detectorManager f of None \<Rightarrow> False | Some dm \<Rightarrow> is_observation_mode ''sensitive_data'' dm)
          in if matches = [] then (resp, f)
             else if isObserve then (resp, log_observed env r ''sensitive_data'' (join_with '', '' details) f)
             else (if list_ex (\<lambda>dm. dm_Action dm = ''block'') matches then dlp_blocked resp else resp,
                   record_response_block env r (''DLP:'' @ join_with '','' details) '''' ''dlp'' f)
      | _ \<Rightarrow> (resp, f))"

text \<open>The body read for the scan: at most one byte more than the limit; an error only if it ends before.\<close>

definition scan_body_copy :: "string \<times> bool \<Rightarrow> string option" where
  "scan_body_copy body =
     (let (content, fails) = body
      in if length content < max_response_scan_size + 1 \<and> fails then None
         else Some (take max_response_scan_size content))"

definition restore_body :: "string \<Rightarrow> http_response \<Rightarrow> http_response" where
  "restore_body body resp = resp\<lparr>rs_Body := Some (body, False), rs_ContentLength := int (length body)\<rparr>"

definition scans_responses :: "forwarder \<Rightarrow> bool" where
  "scans_responses f \<longleftrightarrow> (case fw_detectorManager f of None \<Rightarrow> False | Some dm \<Rightarrow> is_detector_enabled ''sensitive_data'' dm)"

definition scan_response_body :: "forward_env \<Rightarrow> http_response \<Rightarrow> forwarder \<Rightarrow> http_response \<times> forwarder" where
  "scan_response_body env resp f =
     (if \<not> scans_responses f \<or> \<not> should_scan (header_get (rs_Header resp) ''Content-Type'') then (resp, f)
      else case rs_Body resp of
             None \<Rightarrow> (resp, f)
           | Some body \<Rightarrow>
               (case scan_body_copy body of
                  None \<Rightarrow> (resp\<lparr>rs_Body := Some ('''', False)\<rparr>, f)
                | Some copy \<Rightarrow>
                    if copy = '''' then (restore_body '''' resp, f)
                    else
                      let f = detect_response_body_content env resp copy f;
                          f = detect_sensitive_data env resp copy f;
                          (resp, f) = detect_dlp_in_response env resp copy f
                      in (restore_body copy resp, f)))"

definition response_headers :: "forward_env \<Rightarrow> http_response \<Rightarrow> forwarder \<Rightarrow> headers" where
  "response_headers env resp f =
     (let isHTTPS = (rs_Request resp \<noteq> None \<and> fe_scheme env = ''https'');
          h = security_headers isHTTPS (rs_Header resp);
          (host, path) = (case rs_Request resp of None \<Rightarrow> ('''', '''') | Some r \<Rightarrow> (rq_Host r, rq_Path r));
          h = (case fw_respHeaderMgr f of None \<Rightarrow> h | Some hm \<Rightarrow> apply_response_headers hm host path h)
      in harden_cookies (fe_expires env) isHTTPS h)"

definition modify_response :: "forward_env \<Rightarrow> http_response \<Rightarrow> forwarder \<Rightarrow> http_response \<times> forwarder" where
  "modify_response env resp f =
     scan_response_body env (resp\<lparr>rs_Header := response_headers env resp f\<rparr>) f"

subsection \<open>Failures and the whole round trip\<close>

definition get_upstream_addr :: "forward_env \<Rightarrow> forwarder \<Rightarrow> string \<times> forwarder" where
  "get_upstream_addr env f =
     (case fw_backendManager f of
        None \<Rightarrow> (''127.0.0.1:8000'', f)
      | Some m \<Rightarrow>
          (case select_backend (fe_lbPolicy env) m of
             (None, m') \<Rightarrow> (''127.0.0.1:8000'', put_backends m' f)
           | (Some b, m') \<Rightarrow> (b_Address b, put_backends m' f)))"

definition error_handler :: "forward_env \<Rightarrow> http_request \<Rightarrow> forwarder \<Rightarrow> answer \<times> forwarder" where
  "error_handler env r f =
     (let (upstream, f) = get_upstream_addr env f
      in (BlockPage ''gateway_error'' 502 '''',
          f\<lparr>fw_logs := fw_logs f @
              [\<lparr>al_clientIP = fe_clientIP env, al_method = rq_Method r, al_path = mask_path (fe_maskKeys env) (rq_Path r),
                al_status = 502, al_action = ''error'', al_requestID = fe_requestID env, al_upstream = upstream,
                al_ruleID = '''', al_host = rq_Host r, al_query = mask_query (fe_maskKeys env) (rq_RawQuery r),
                al_userAgent = header_get (rq_Header r) ''User-Agent'', al_referer = header_get (rq_Header r) ''Referer'',
                al_contentType = header_get (rq_Header r) ''Content-Type'', al_matchDetail = ''''\<rparr>]\<rparr>))"

text \<open>The reverse proxy around them; \<open>backend\<close> is the transport and the backend behind it.\<close>

definition outgoing_request :: "http_request \<Rightarrow> outgoing \<Rightarrow> outgoing" where
  "outgoing_request req out =
     out\<lparr>og_Request := (og_Request out)\<lparr>rq_Header :=
         reverse_proxy_headers (rq_RemoteAddr req) (rq_Header req) (rq_Header (og_Request out))\<rparr>\<rparr>"

definition round_trip ::
  "forward_env \<Rightarrow> (outgoing \<Rightarrow> http_response option) \<Rightarrow> http_request \<Rightarrow> forwarder \<Rightarrow> (answer + http_response) \<times> forwarder" where
  "round_trip env backend req f =
     (let (out, f) = director env req f; out = outgoing_request req out
      in if og_URLHost out = '''' then map_prod Inl id (error_handler env (og_Request out) f)
         else case backend out of
                None \<Rightarrow> map_prod Inl id (error_handler env (og_Request out) f)
              | Some resp \<Rightarrow> map_prod Inr id (modify_response env (resp\<lparr>rs_Request := Some (og_Request out)\<rparr>) f))"

end
