(* ===== verification/ForwardProps.thy ===== *)
theory ForwardProps
  imports Forward
begin

text \<open>
  What forwarding guarantees, and what it does not.

  \<^item> A request only reaches an enabled, healthy backend of its host's configuration, or of the
    configuration named \<open>default\<close>.
  \<^item> The backend sees the client address in \<open>X-Real-IP\<close> unless the client asks, in its
    \<open>Connection\<close> header, to have that header removed.
  \<^item> The response headers after the custom rules, and the flags of every cookie.
  \<^item> A scanned body is handed on, cut at one megabyte, whatever the data-leak rules decided.
\<close>

subsection \<open>Routing\<close>

lemma lookup_again: "fst (get_domain_by_name n (snd (get_domain_by_name k pm))) = fst (get_domain_by_name n pm)"
  by (cases "k = n") (auto simp: get_domain_by_name_def split: option.splits)

lemma route_named_cases:
  "fst (route_named name pm) = ([], '''') \<or>
   (\<exists>cfg. fst (get_domain_by_name name pm) = Some cfg \<and> usable_route cfg \<and>
      fst (route_named name pm) = (dc_BackendIDs cfg, dc_GroupID cfg))"
  by (auto simp: route_named_def split: prod.split option.split)

lemma route_named_snd: "snd (route_named name pm) = snd (get_domain_by_name name pm)"
  by (auto simp: route_named_def split: prod.split option.split)

lemma route_of_cases:
  "fst (route_of host pm) = ([], '''') \<or>
   (\<exists>name cfg. name \<in> {host, ''default''} \<and> fst (get_domain_by_name name pm) = Some cfg \<and> usable_route cfg \<and>
      fst (route_of host pm) = (dc_BackendIDs cfg, dc_GroupID cfg))"
proof (cases "fst (route_named host pm) = ([], '''')")
  case True
  then have "fst (route_of host pm) = fst (route_named ''default'' (snd (get_domain_by_name host pm)))"
    using route_named_snd[of host pm] by (auto simp: route_of_def split: prod.split)
  then show ?thesis
    using route_named_cases[of "''default''" "snd (get_domain_by_name host pm)"] by (auto simp: lookup_again)
next
  case False
  then have "fst (route_of host pm) = fst (route_named host pm)"
    by (auto simp: route_of_def split: prod.split)
  then show ?thesis
    using route_named_cases[of host pm] False by auto
qed

lemma first_selected_mem:
  "first_selected m bids = Some b \<Longrightarrow>
   \<exists>p \<in> set (backends m). b = heap m p \<and> usable (heap m p) \<and> b_ID b \<in> set bids"
  by (induction bids) (auto simp: select_backend_by_id_def get_backends_def usable_def split: option.splits dest!: find_Some_mem)

lemma group_answer:
  assumes "mgr_inv m" "select_backend_for_group sh draw now gid info m = (Some b, m')"
  shows "lb_frame m m' \<and> (\<exists>x \<in> set (group_available m gid). sans_conns b = sans_conns x)"
proof (rule fast_cases[OF assms(1), of sh draw now gid info])
  fix g bs
  assume ne: "group_available m gid \<noteq> []"
    and bs: "map sans_conns bs = map sans_conns (eligible m gid (si_IsTLS info))"
    and sel: "select_backend_for_group sh draw now gid info m =
         map_prod Some (\<lambda>m. m) (select_backend_from_list sh draw bs (valid_policy (g_LbPolicy g)) info m)"
  let ?r = "select_backend_from_list sh draw bs (valid_policy (g_LbPolicy g)) info m"
  have r: "b = fst ?r" "m' = snd ?r"
    using sel assms(2) by (auto simp: map_prod_def split: prod.splits)
  have "bs \<noteq> []"
    using bs eligible_ne[OF ne] by auto
  then have "b \<in> set bs"
    using r from_list.sel_mem by simp
  then have "sans_conns b \<in> set (map sans_conns (eligible m gid (si_IsTLS info)))"
    unfolding bs[symmetric] by simp
  then have "\<exists>x \<in> set (group_available m gid). sans_conns b = sans_conns x"
    using eligible_subset[of m gid] by auto
  then show ?thesis
    using r from_list.sel_frame by simp
qed (use assms in simp)

lemma address_sans_conns: "sans_conns a = sans_conns b \<Longrightarrow> b_Address a = b_Address b"
  by (cases a; cases b) (simp add: sans_conns_def)

lemma first_selected_frame: "lb_frame m m' \<Longrightarrow> first_selected m' bids = first_selected m bids"
  by (induction bids) (simp_all add: select_backend_by_id_def get_backends_def lb_frameD split: option.split)

text \<open>A backend the route names, in its list or as a member of its group.\<close>

definition on_route :: "manager \<Rightarrow> string list \<times> string \<Rightarrow> backend \<Rightarrow> bool" where
  "on_route m route b \<longleftrightarrow>
     b_ID b \<in> set (fst route) \<or> (\<exists>mi \<in> set (groupMembers m (snd route)). mi_Enabled mi \<and> mi_BackendID mi = b_ID b)"

lemma chosen_backend:
  assumes "mgr_inv m" "fst (choose_backend env info route m) = Some b" "b_Address b \<noteq> ''''"
  shows "\<exists>p \<in> set (backends m). usable (heap m p) \<and> b_Address (heap m p) = b_Address b \<and> on_route m route (heap m p)"
proof -
  obtain bids gid where route: "route = (bids, gid)" by fastforce
  have listed: ?thesis if "first_selected m' bids = Some b" "lb_frame m m'" for m'
    using first_selected_mem[of m bids b] that(1) by (auto simp: first_selected_frame[OF that(2)] route on_route_def)
  show ?thesis
  proof (cases "gid = ''''")
    case True
    then show ?thesis
      using assms(2) listed[OF _ lb_frame_refl] by (simp add: choose_backend_def route)
  next
    case False
    obtain ob m' where sel: "select_backend_for_group (fe_splitHost env) (fe_draw env) (fe_now env) gid info m = (ob, m')"
      by fastforce
    show ?thesis
    proof (cases ob)
      case None
      then have "first_selected m' bids = Some b"
        using assms(2) sel False by (simp add: choose_backend_def route)
      moreover have "lb_frame m m'"
        using select_group_frame[OF assms(1), of "fe_splitHost env" "fe_draw env" "fe_now env" gid info] sel by simp
      ultimately show ?thesis by (rule listed)
    next
      case (Some g)
      note a = group_answer[OF assms(1) sel[unfolded Some]]
      show ?thesis
      proof (cases "g = b")
        case True
        obtain x where x: "x \<in> set (group_available m gid)" "sans_conns b = sans_conns x"
          using a True by blast
        then show ?thesis
          using group_available_registered[OF x(1)] address_sans_conns[OF x(2)] by (fastforce simp: route on_route_def)
      next
        case False
        then have "first_selected m' bids = Some b"
          using assms(2) sel Some \<open>gid \<noteq> ''''\<close> by (auto simp: choose_backend_def route split: if_splits option.splits)
        then show ?thesis
          using a by (blast intro: listed)
      qed
    qed
  qed
qed

text \<open>What the request keeps of its host, and when an upstream was found.\<close>

definition with_rules :: "http_request \<Rightarrow> forwarder \<Rightarrow> http_request" where
  "with_rules req f = (case fw_reqHeaderMgr f of None \<Rightarrow> req | Some hm \<Rightarrow> apply_request_headers hm req)"

lemma with_rules_fields [simp]:
  "rq_Host (with_rules req f) = rq_Host req" "rq_TLS (with_rules req f) = rq_TLS req"
  "rq_Path (with_rules req f) = rq_Path req" "rq_RemoteAddr (with_rules req f) = rq_RemoteAddr req"
  by (simp_all add: with_rules_def apply_request_headers_def split: option.split)

lemma director_found:
  assumes "director env req f = (out, f')" "og_URLHost out \<noteq> ''''"
  obtains b where
    "fst (find_backend env
        \<lparr>si_ClientIP = fe_clientIP env, si_URLPath = rq_Path req, si_IsWS = is_websocket (rq_Header (with_rules req f)),
         si_IsTLS = rq_TLS req\<rparr>
        (fst (find_route (strip_port (rq_Host req)) f)) (snd (find_route (strip_port (rq_Host req)) f))) = Some b"
    "og_URLHost out = b_Address b"
    "og_Request out = (with_rules req f)\<lparr>rq_Header :=
       forwarding_headers (fe_clientIP env) (rq_TLS req) (rq_Host req) (rq_Header (with_rules req f))\<rparr>"
    "og_URLScheme out = upstream_scheme (is_websocket (rq_Header (with_rules req f))) b"
  using assms
  by (fastforce simp: director_def Let_def with_rules_def [symmetric] split: prod.splits option.splits if_splits)

text \<open>
  C2. A request is sent to a backend only if that backend is registered, enabled and healthy and
  is named by a usable configuration: that of the request's host without its port, or the one
  called \<open>default\<close>, in its list or as an enabled member of its group.
\<close>

theorem routed_to_usable_backend:
  assumes "fw_proxyConfigMgr f = Some pm" "fw_backendManager f = Some m" "mgr_inv m"
    "director env req f = (out, f')" "og_URLHost out \<noteq> ''''"
  shows "\<exists>name cfg. name \<in> {strip_port (rq_Host req), ''default''} \<and>
    fst (get_domain_by_name name pm) = Some cfg \<and> usable_route cfg \<and>
    (\<exists>p \<in> set (backends m). usable (heap m p) \<and> b_Address (heap m p) = og_URLHost out \<and>
       on_route m (dc_BackendIDs cfg, dc_GroupID cfg) (heap m p))"
proof (rule director_found[OF assms(4,5)])
  let ?route = "fst (route_of (strip_port (rq_Host req)) pm)"
  fix b
  assume b: "fst (find_backend env
        \<lparr>si_ClientIP = fe_clientIP env, si_URLPath = rq_Path req, si_IsWS = is_websocket (rq_Header (with_rules req f)),
         si_IsTLS = rq_TLS req\<rparr>
        (fst (find_route (strip_port (rq_Host req)) f)) (snd (find_route (strip_port (rq_Host req)) f))) = Some b"
    and addr: "og_URLHost out = b_Address b"
  then obtain info where chosen: "fst (choose_backend env info ?route m) = Some b"
    using assms(1,2) by (auto simp: find_backend_def find_route_def put_pcm_def)
  then obtain p where p: "p \<in> set (backends m)" "usable (heap m p)" "b_Address (heap m p) = b_Address b"
      "on_route m ?route (heap m p)"
    using chosen_backend[OF assms(3) chosen] assms(5) addr by auto
  have "?route \<noteq> ([], '''')"
    using chosen by (auto simp: choose_backend_def)
  then obtain name cfg where "name \<in> {strip_port (rq_Host req), ''default''}"
      "fst (get_domain_by_name name pm) = Some cfg" "usable_route cfg" "?route = (dc_BackendIDs cfg, dc_GroupID cfg)"
    using route_of_cases[of "strip_port (rq_Host req)" pm] by blast
  then show ?thesis
    using p addr by metis
qed

subsection \<open>The address headers\<close>

lemma header_get_dels:
  "header_get (fold header_del ks h) k = (if canonical_key k \<in> canonical_key ` set ks then '''' else header_get h k)"
  by (induction ks arbitrary: h) auto

lemma dels_values: "fold header_del ks h k = (if k \<in> canonical_key ` set ks then [] else h k)"
  by (induction ks arbitrary: h) (auto simp: header_del_def)

lemma address_keys [simp]:
  "canonical_key ''X-Real-IP'' = ''X-Real-Ip''" "canonical_key ''X-Forwarded-For'' = ''X-Forwarded-For''"
  "canonical_key ''X-Forwarded-Proto'' = ''X-Forwarded-Proto''" "canonical_key ''X-Forwarded-Host'' = ''X-Forwarded-Host''"
  "canonical_key ''Connection'' = ''Connection''" "canonical_key ''Upgrade'' = ''Upgrade''"
  "canonical_key ''User-Agent'' = ''User-Agent''" "canonical_key ''Te'' = ''Te''"
  by code_simp+

lemma hop_keys [simp]:
  "canonical_key ` set hop_headers =
     {''Connection'', ''Proxy-Connection'', ''Keep-Alive'', ''Proxy-Authenticate'', ''Proxy-Authorization'', ''Te'',
      ''Trailer'', ''Transfer-Encoding'', ''Upgrade''}"
  by code_simp

lemma forwarding_connection [simp]:
  "forwarding_headers ip tls host h ''Connection'' = h ''Connection''"
  by (simp add: forwarding_headers_def header_set_def Let_def)

definition asks_removal :: "headers \<Rightarrow> string \<Rightarrow> bool" where
  "asks_removal h k \<longleftrightarrow> canonical_key k \<in> canonical_key ` set (named_hops h)"

lemma named_hops_forwarding [simp]: "named_hops (forwarding_headers ip tls host h) = named_hops h"
  by (simp add: named_hops_def)

lemma forwarding_get:
  "header_get (forwarding_headers ip tls host h) ''X-Real-IP'' = ip"
  "header_get (forwarding_headers ip tls host h) ''X-Forwarded-Proto'' = (if tls then ''https'' else ''http'')"
  "forwarding_headers ip tls host h ''X-Forwarded-For'' =
     [(if header_get h ''X-Forwarded-For'' \<noteq> '''' then header_get h ''X-Forwarded-For'' @ '', '' @ ip else ip)]"
  by (simp_all add: forwarding_headers_def header_set_def header_get_def header_values_def Let_def)

lemma get_append_forwarded_for:
  "canonical_key k \<noteq> ''X-Forwarded-For'' \<Longrightarrow> header_get (append_forwarded_for remote h) k = header_get h k"
  by (simp add: append_forwarded_for_def Let_def split: option.split prod.split)

lemma sent_get:
  assumes "canonical_key k \<notin> {''X-Forwarded-For'', ''User-Agent''} \<union> canonical_key ` set hop_headers"
  shows "header_get (reverse_proxy_headers remote inbound h) k = (if asks_removal h k then '''' else header_get h k)"
  using assms
  by (simp add: reverse_proxy_headers_def Let_def get_append_forwarded_for remove_hop_by_hop_def header_get_dels asks_removal_def image_Un)

lemma sent_forwarded_for:
  assumes "split_host_port remote = Some (ip, port)"
  shows "header_get (reverse_proxy_headers remote inbound h) ''X-Forwarded-For'' =
    (if asks_removal h ''X-Forwarded-For'' \<or> h ''X-Forwarded-For'' = [] then ip
     else join_with '', '' (h ''X-Forwarded-For'') @ '', '' @ ip)"
proof -
  have "remove_hop_by_hop h ''X-Forwarded-For'' = (if asks_removal h ''X-Forwarded-For'' then [] else h ''X-Forwarded-For'')"
    by (auto simp: remove_hop_by_hop_def dels_values asks_removal_def image_Un)
  then show ?thesis
    by (simp add: reverse_proxy_headers_def append_forwarded_for_def assms Let_def)
      (simp add: header_set_def)
qed

text \<open>
  What the backend learns of the client's address. The backend gets the client address in
  \<open>X-Real-IP\<close> and the protocol in \<open>X-Forwarded-Proto\<close> unless the client lists these
  names in its \<open>Connection\<close> header: then they are removed after the director set them. The list
  \<open>X-Forwarded-For\<close> ends with the client address and then the peer's once more; a client that
  lists it leaves the peer's alone.
\<close>

theorem address_headers_sent:
  assumes "director env req f = (out, f')" "og_URLHost out \<noteq> ''''" "split_host_port (rq_RemoteAddr req) = Some (peer, port)"
  defines "h \<equiv> rq_Header (with_rules req f)" and "sent \<equiv> rq_Header (og_Request (outgoing_request req out))"
  shows "header_get sent ''X-Real-IP'' = (if asks_removal h ''X-Real-IP'' then '''' else fe_clientIP env) \<and>
    header_get sent ''X-Forwarded-Proto'' =
      (if asks_removal h ''X-Forwarded-Proto'' then '''' else if rq_TLS req then ''https'' else ''http'') \<and>
    header_get sent ''X-Forwarded-For'' =
      (if asks_removal h ''X-Forwarded-For'' then peer
       else (if header_get h ''X-Forwarded-For'' \<noteq> '''' then header_get h ''X-Forwarded-For'' @ '', '' else '''') @
            fe_clientIP env @ '', '' @ peer)"
proof (rule director_found[OF assms(1,2)])
  fix b
  assume req': "og_Request out = (with_rules req f)\<lparr>rq_Header :=
       forwarding_headers (fe_clientIP env) (rq_TLS req) (rq_Host req) (rq_Header (with_rules req f))\<rparr>"
  let ?h = "forwarding_headers (fe_clientIP env) (rq_TLS req) (rq_Host req) h"
  have sent: "sent = reverse_proxy_headers (rq_RemoteAddr req) (rq_Header req) ?h"
    by (simp add: sent_def outgoing_request_def req' h_def)
  have asks: "asks_removal ?h k = asks_removal h k" for k
    by (simp add: asks_removal_def)
  show ?thesis
    by (simp add: sent sent_get sent_forwarded_for[OF assms(3)] forwarding_get asks)
qed

subsection \<open>The response headers\<close>

lemma harden_keeps: "canonical_key k \<noteq> ''Set-Cookie'' \<Longrightarrow> header_get (harden_cookies expires https h) k = header_get h k"
proof -
  assume k: "canonical_key k \<noteq> ''Set-Cookie''"
  have ck: "canonical_key ''Set-Cookie'' = ''Set-Cookie''" by code_simp
  have "header_get (fold (\<lambda>c. header_add ''Set-Cookie'' (g c)) cs h) k = header_get h k" for g :: "cookie \<Rightarrow> string" and cs h
    by (induction cs arbitrary: h) (simp_all add: header_get_def header_values_def header_add_def ck k)
  then show ?thesis
    by (simp add: harden_cookies_def Let_def ck k)
qed

lemma security_keys [simp]:
  "canonical_key ''X-Content-Type-Options'' = ''X-Content-Type-Options''" "canonical_key ''X-Frame-Options'' = ''X-Frame-Options''"
  "canonical_key ''X-XSS-Protection'' = ''X-Xss-Protection''" "canonical_key ''Referrer-Policy'' = ''Referrer-Policy''"
  "canonical_key ''Server'' = ''Server''" "canonical_key ''X-Powered-By'' = ''X-Powered-By''"
  "canonical_key ''Strict-Transport-Security'' = ''Strict-Transport-Security''"
  "canonical_key ''Permissions-Policy'' = ''Permissions-Policy''" "canonical_key ''Set-Cookie'' = ''Set-Cookie''"
  by code_simp+

lemma security_headers_get:
  "header_get (security_headers https h) ''X-Content-Type-Options'' = ''nosniff''"
  "header_get (security_headers https h) ''X-Frame-Options'' = ''DENY''"
  "header_get (security_headers https h) ''Server'' = ''''"
  "header_get (security_headers https h) ''X-Powered-By'' = ''''"
  "https \<Longrightarrow> header_get (security_headers https h) ''Strict-Transport-Security'' \<noteq> ''''"
  by (simp_all add: security_headers_def Let_def)

lemma scan_keeps_headers: "rs_Header (fst (scan_response_body env resp f)) = rs_Header resp"
  by (auto simp: scan_response_body_def detect_dlp_in_response_def restore_body_def dlp_blocked_def Let_def
      split: option.splits prod.splits)

definition response_rules :: "forwarder \<Rightarrow> header_rule list" where
  "response_rules f = (case fw_respHeaderMgr f of None \<Rightarrow> [] | Some hm \<Rightarrow> hm_rules hm)"

lemma response_header:
  assumes "rs_Request resp = Some r" "canonical_key k \<noteq> ''Set-Cookie''"
  shows "header_get (rs_Header (fst (modify_response env resp f))) k =
    final_value (rq_Host r) (rq_Path r) (response_rules f) (security_headers (fe_scheme env = ''https'') (rs_Header resp)) k"
  using assms
  by (simp add: modify_response_def scan_keeps_headers response_headers_def Let_def harden_keeps response_rules_def
      apply_response_headers_def apply_rules_get split: option.split) (simp add: final_value_def)

text \<open>
  The headers a response leaves with, after the custom rules that run last: without a rule
  naming them, content sniffing and framing are denied, the server does not name itself and a
  response to a TLS request has a transport-security policy. A rule naming one of them has the last
  word.
\<close>

theorem response_headers_final:
  fixes env :: forward_env and f :: forwarder
  assumes "rs_Request resp = Some r"
  defines "sent \<equiv> header_get (rs_Header (fst (modify_response env resp f)))"
    and "rules \<equiv> (\<lambda>k. filter (\<lambda>ru. rule_applies (rq_Host r) (rq_Path r) ru \<and> canonical_key (hr_Header ru) = canonical_key k) (response_rules f))"
  shows "(\<forall>(k, v) \<in> {(''X-Content-Type-Options'', ''nosniff''), (''X-Frame-Options'', ''DENY''), (''Server'', ''''), (''X-Powered-By'', '''')}.
       sent k = (if rules k = [] then v else hr_Value (last (rules k)))) \<and>
    (fe_scheme env = ''https'' \<longrightarrow> rules ''Strict-Transport-Security'' = [] \<longrightarrow> sent ''Strict-Transport-Security'' \<noteq> '''')"
  unfolding sent_def rules_def
  by (simp add: response_header[OF assms(1)] final_value_def security_headers_get split: list.split)

subsection \<open>Cookies\<close>

lemma added_cookies:
  "fold (\<lambda>c. header_add ''Set-Cookie'' (g c)) cs h ''Set-Cookie'' = h ''Set-Cookie'' @ map g cs"
  by (induction cs arbitrary: h) (simp_all add: header_add_def)

lemma hardened_values:
  "List.map_filter (parse_set_cookie expires) (h ''Set-Cookie'') \<noteq> [] \<Longrightarrow>
   harden_cookies expires https h ''Set-Cookie'' =
     map (\<lambda>c. cookie_string (harden_cookie https c)) (List.map_filter (parse_set_cookie expires) (h ''Set-Cookie''))"
  by (simp add: harden_cookies_def Let_def added_cookies) (simp add: header_del_def)

lemma contains_self: "str_contains (p @ b) p"
  unfolding str_contains_iff by (rule exI[of _ "[]"]) simp


lemma contains_trans: "str_contains s t \<Longrightarrow> str_contains t p \<Longrightarrow> str_contains s p"
  unfolding str_contains_iff by (metis append.assoc)

lemma flag_in:
  "str_contains (n @ e @ v @ p @ d @ x @ m @ s @ rest) s" "str_contains (n @ e @ v @ p @ d @ x @ m @ t @ s @ rest) s"
  by (intro str_contains_append(1) contains_self)+

lemma hardened_text:
  "str_contains (cookie_string (harden_cookie https c)) ''; HttpOnly'' \<and>
   (https \<longrightarrow> str_contains (cookie_string (harden_cookie https c)) ''; Secure'')"
proof -
  have "ck_HttpOnly (harden_cookie https c)" "https \<Longrightarrow> ck_Secure (harden_cookie https c)"
    by (simp_all add: harden_cookie_def)
  then show ?thesis
    unfolding cookie_string_def by (cases https) (simp_all only: if_True flag_in simp_thms)
qed

text \<open>
  C34. The cookies of a response. When at least one \<open>Set-Cookie\<close> line parses, the lines that leave are those
  that parsed, in order, written anew: each is \<open>HttpOnly\<close>, and \<open>Secure\<close> when the client came over TLS;
  the lines that do not parse are dropped. When no line parses, the lines leave as they came, without either
  attribute.
\<close>

theorem cookies_hardened:
  fixes env :: forward_env and f :: forwarder
  assumes "rs_Request resp = Some r"
  defines "h \<equiv> apply_rules (rq_Host r) (rq_Path r) (response_rules f) (security_headers (fe_scheme env = ''https'') (rs_Header resp))"
  defines "cookies \<equiv> List.map_filter (parse_set_cookie (fe_expires env)) (h ''Set-Cookie'')"
    and "sent \<equiv> rs_Header (fst (modify_response env resp f)) ''Set-Cookie''"
  shows "(if cookies = [] then sent = h ''Set-Cookie''
    else sent = map (\<lambda>c. cookie_string (harden_cookie (fe_scheme env = ''https'') c)) cookies \<and>
      (\<forall>v \<in> set sent. str_contains v ''; HttpOnly'' \<and> (fe_scheme env = ''https'' \<longrightarrow> str_contains v ''; Secure'')))"
proof -
  have h: "response_headers env resp f = harden_cookies (fe_expires env) (fe_scheme env = ''https'') h"
    by (simp add: response_headers_def assms(1) h_def response_rules_def apply_response_headers_def apply_rules_def Let_def split: option.split)
  show ?thesis
  proof (cases "cookies = []")
    case True
    then show ?thesis
      using h by (simp add: sent_def modify_response_def scan_keeps_headers harden_cookies_def cookies_def)
  next
    case False
    then have "sent = map (\<lambda>c. cookie_string (harden_cookie (fe_scheme env = ''https'') c)) cookies"
      using h by (simp add: sent_def modify_response_def scan_keeps_headers cookies_def hardened_values)
    then show ?thesis
      using False hardened_text by auto
  qed
qed

subsection \<open>The scanned body\<close>

lemma content_frame:
  "fw_dlpRuleMgr (detect_response_body_content env resp body f) = fw_dlpRuleMgr f"
  "fw_detectorManager (detect_response_body_content env resp body f) = fw_detectorManager f"
  by (simp_all add: detect_response_body_content_def log_hits_def log_observed_def record_response_block_def Let_def
      split: option.split)

lemma sensitive_frame:
  "fw_dlpRuleMgr (detect_sensitive_data env resp body f) = fw_dlpRuleMgr f"
  "fw_detectorManager (detect_sensitive_data env resp body f) = fw_detectorManager f"
  by (simp_all add: detect_sensitive_data_def log_hits_def log_observed_def record_response_block_def Let_def
      split: option.split)

definition dlp_blocks :: "forwarder \<Rightarrow> string \<Rightarrow> bool" where
  "dlp_blocks f body \<longleftrightarrow>
     (case fw_dlpRuleMgr f of None \<Rightarrow> False | Some dlp \<Rightarrow> list_ex (\<lambda>dm. dm_Action dm = ''block'') (dlp_check dlp body)) \<and>
     \<not> (case fw_detectorManager f of None \<Rightarrow> False | Some dm \<Rightarrow> is_observation_mode ''sensitive_data'' dm)"

lemma dlp_response:
  assumes "rs_Request resp = Some r"
  shows "fst (detect_dlp_in_response env resp body f) = (if dlp_blocks f body then dlp_blocked resp else resp)"
  using assms by (auto simp: detect_dlp_in_response_def dlp_blocks_def Let_def split: option.split)

text \<open>
  A scanned body is never withheld. When the data-leak rules decide to block a response its
  status becomes 403, but the body that triggered them is put back and sent, cut at one megabyte like
  every scanned body; the block page written in its place is lost.
\<close>

theorem blocked_response_still_sent:
  assumes "rs_Request resp = Some r" "scans_responses f"
    "should_scan (header_get (rs_Header resp) ''Content-Type'')" "rs_Body resp = Some (content, False)" "content \<noteq> ''''"
  shows "fst (scan_response_body env resp f) =
    (let copy = take max_response_scan_size content
     in resp\<lparr>rs_StatusCode := (if dlp_blocks f copy then 403 else rs_StatusCode resp),
             rs_Body := Some (copy, False), rs_ContentLength := int (length copy)\<rparr>)"
proof -
  let ?copy = "take max_response_scan_size content"
  let ?f = "detect_sensitive_data env resp ?copy (detect_response_body_content env resp ?copy f)"
  have copy: "?copy \<noteq> ''''"
    using assms(5) by (simp add: max_response_scan_size_def)
  have "fst (scan_response_body env resp f) = restore_body ?copy (fst (detect_dlp_in_response env resp ?copy ?f))"
    using assms(2-4) copy by (simp add: scan_response_body_def scan_body_copy_def Let_def split: prod.split)
  also have "\<dots> = restore_body ?copy (if dlp_blocks ?f ?copy then dlp_blocked resp else resp)"
    by (simp only: dlp_response[OF assms(1)])
  also have "dlp_blocks ?f ?copy = dlp_blocks f ?copy"
    by (simp add: dlp_blocks_def content_frame sensitive_frame)
  finally show ?thesis
    by (simp add: restore_body_def dlp_blocked_def Let_def)
qed

lemma contains_joined: "x \<in> set xs \<Longrightarrow> str_contains (join_with sep xs) x"
proof (induction sep xs rule: join_with.induct)
  case (2 sep s)
  then show ?case using contains_self[of s "[]"] by simp
next
  case (3 sep s t ss)
  then show ?case
    using contains_self[of s] str_contains_append(1) by (cases "x = s") (simp_all only: join_with.simps set_ConsD set_simps insert_iff simp_thms)
qed simp

text \<open>
  The block event of a data leak carries the leaked data: the text each rule matched is part
  of the rule's name in the event, which is not masked.
\<close>

theorem dlp_event_leaks:
  assumes "fw_dlpRuleMgr f = Some dlp" "rs_Request resp = Some r" "m \<in> set (dlp_check dlp body)"
    "\<not> (case fw_detectorManager f of None \<Rightarrow> False | Some dm \<Rightarrow> is_observation_mode ''sensitive_data'' dm)"
  shows "\<exists>e. fw_events (snd (detect_dlp_in_response env resp body f)) = fw_events f @ [e] \<and> str_contains (ev_rule e) (dm_Match m)"
proof -

  let ?d = "map (\<lambda>dm. dm_RuleName dm @ '':'' @ dm_Match dm) (dlp_check dlp body)"
  have "str_contains (join_with '','' ?d) (dm_RuleName m @ '':'' @ dm_Match m)"
    using assms(3) by (intro contains_joined) auto
  moreover have "str_contains (dm_RuleName m @ '':'' @ dm_Match m) (dm_Match m)"
    using contains_self[of "dm_Match m" "[]"] by (intro str_contains_append(1)) simp
  ultimately have "str_contains (''DLP:'' @ join_with '','' ?d) (dm_Match m)"
    by (intro str_contains_append(1)) (rule contains_trans)
  moreover have "dlp_check dlp body \<noteq> []"
    using assms(3) by auto
  ultimately show ?thesis
    using assms(1,2,4)
    by (auto simp: detect_dlp_in_response_def record_response_block_def Let_def split: option.splits)
qed

subsection \<open>Instances\<close>

definition leak_rules :: dlp_manager where
  "leak_rules =
     \<lparr>dlp_has_db = False, dlp_table = empty_table,
      dlp_rules = [\<lparr>dl_ID = 1, dl_Name = ''ssn'', dl_Pattern = ''x'', dl_Action = ''block'', dl_Category = '''',
        dl_RuleType = ''custom'', dl_Enabled = True,
        dl_compiledRe = Some \<lparr>re_string = ''x'', re_match = (\<lambda>s. s \<noteq> ''''), re_find = (\<lambda>s. s)\<rparr>\<rparr>]\<rparr>"

definition leak_detectors :: det_manager where
  "leak_detectors =
     set_observation_mode ''sensitive_data'' False (enable_detector ''sensitive_data'' True (new_det_manager (\<lambda>_. None)))"

definition sample_forwarder :: forwarder where
  "sample_forwarder =
     \<lparr>fw_reqHeaderMgr = None, fw_respHeaderMgr = None,
      fw_proxyConfigMgr = Some \<lparr>pm_proxies = [], pm_domains = [], pm_config = Map.empty, pm_keys = [],
        pm_cache = [''h'' \<mapsto> \<lparr>dc_ID = ''d'', dc_Domain = ''h'', dc_ProxyIDs = [], dc_BackendIDs = [''a''], dc_GroupID = '''',
                            dc_CertID = '''', dc_Enabled = True, dc_ForceHTTPS = False\<rparr>]\<rparr>,
      fw_backendManager = Some sample_manager, fw_detectorManager = Some leak_detectors,
      fw_dlpRuleMgr = Some leak_rules, fw_events = [], fw_logs = []\<rparr>"

definition sample_fenv :: forward_env where
  "sample_fenv =
     \<lparr>fe_clientIP = ''9.9.9.9'', fe_scheme = ''https'', fe_requestID = ''id'', fe_now = 0, fe_splitHost = Some,
      fe_draw = (\<lambda>n. 0), fe_lbPolicy = LBRoundRobin, fe_runtime = pe_runtime sample_env, fe_maskKeys = [],
      fe_expires = (\<lambda>_. None)\<rparr>"

definition hop_request :: http_request where
  "hop_request =
     (proxy_request ''GET'' None)\<lparr>rq_RemoteAddr := ''9.9.9.9:80'', rq_Header := header_set ''Connection'' ''X-Real-IP'' no_headers\<rparr>"

definition sample_response :: http_response where
  "sample_response =
     \<lparr>rs_StatusCode = 200, rs_Header = header_set ''Set-Cookie'' ''s=1'' (header_set ''Content-Type'' ''text/html'' no_headers),
      rs_Body = Some (''secret'', False), rs_ContentLength = 6, rs_Request = Some hop_request\<rparr>"

lemma sample_out:
  "\<exists>out f'. director sample_fenv hop_request sample_forwarder = (out, f') \<and> og_URLHost out = ''8.8.8.8:80''"
proof -
  have "strip_port ''h'' = ''h''" by code_simp
  then show ?thesis
    by (simp add: director_def sample_forwarder_def hop_request_def proxy_request_def find_route_def route_of_def route_named_def
        get_domain_by_name_def usable_route_def find_backend_def choose_backend_def select_backend_by_id_def
        get_backends_def put_pcm_def Let_def)
      (simp add: sample_manager_def sample_backend_def)
qed

lemma routed_to_usable_backend_witness:
  "\<exists>name \<in> {strip_port ''h'', ''default''}.
     fst (get_domain_by_name name (the (fw_proxyConfigMgr sample_forwarder))) \<noteq> None \<and>
     (\<exists>p \<in> set (backends sample_manager). usable (heap sample_manager p) \<and> b_Address (heap sample_manager p) = ''8.8.8.8:80'')"
proof -
  obtain out f' where o: "director sample_fenv hop_request sample_forwarder = (out, f')" "og_URLHost out = ''8.8.8.8:80''"
    using sample_out by blast
  have "fw_proxyConfigMgr sample_forwarder = Some (the (fw_proxyConfigMgr sample_forwarder))"
    "fw_backendManager sample_forwarder = Some sample_manager" "og_URLHost out \<noteq> ''''"
    by (simp_all add: sample_forwarder_def o(2))
  from routed_to_usable_backend[OF this(1,2) sample_manager_inv o(1) this(3)]
  show ?thesis
    by (force simp: o(2) hop_request_def proxy_request_def)
qed

lemma address_headers_sent_witness:
  "\<exists>out f'. director sample_fenv hop_request sample_forwarder = (out, f') \<and>
     header_get (rq_Header (og_Request (outgoing_request hop_request out))) ''X-Real-IP'' = '''' \<and>
     header_get (rq_Header (og_Request (outgoing_request hop_request out))) ''X-Forwarded-For'' = ''9.9.9.9, 9.9.9.9''"
proof -
  obtain out f' where o: "director sample_fenv hop_request sample_forwarder = (out, f')" "og_URLHost out = ''8.8.8.8:80''"
    using sample_out by blast
  have peer: "split_host_port (rq_RemoteAddr hop_request) = Some (''9.9.9.9'', ''80'')"
    by code_simp
  have rules: "with_rules hop_request sample_forwarder = hop_request"
    by (simp add: with_rules_def sample_forwarder_def)
  have h: "rq_Header hop_request = header_set ''Connection'' ''X-Real-IP'' no_headers"
    by (simp add: hop_request_def)
  have "filter (\<lambda>n. n \<noteq> '''') (map trim_blank (split_char (CHR '','') ''X-Real-IP'')) = [''X-Real-IP'']"
    by code_simp
  then have "named_hops (rq_Header hop_request) = [''X-Real-IP'']"
    by (simp add: h named_hops_def header_set_def)
  then have "asks_removal (rq_Header hop_request) ''X-Real-IP''" "\<not> asks_removal (rq_Header hop_request) ''X-Forwarded-For''"
    "header_get (rq_Header hop_request) ''X-Forwarded-For'' = ''''"
    by (simp_all add: asks_removal_def h) (simp add: header_get_def header_values_def no_headers_def)
  then show ?thesis
    using address_headers_sent[OF o(1) _ peer] o unfolding rules by (simp add: sample_fenv_def)
qed

lemma response_headers_final_witness:
  "header_get (rs_Header (fst (modify_response sample_fenv sample_response sample_forwarder))) ''X-Frame-Options'' = ''DENY''"
  using response_headers_final[of sample_response hop_request sample_fenv sample_forwarder]
  by (simp add: sample_response_def response_rules_def sample_forwarder_def)

lemma cookies_hardened_witness:
  "list_all (\<lambda>v. str_contains v ''; HttpOnly'' \<and> str_contains v ''; Secure'')
     (rs_Header (fst (modify_response sample_fenv sample_response sample_forwarder)) ''Set-Cookie'')"
proof -
  have req: "rs_Request sample_response = Some hop_request"
    by (simp add: sample_response_def)
  have "List.map_filter (parse_set_cookie (fe_expires sample_fenv))
      (apply_rules (rq_Host hop_request) (rq_Path hop_request) (response_rules sample_forwarder)
        (security_headers (fe_scheme sample_fenv = ''https'') (rs_Header sample_response)) ''Set-Cookie'') \<noteq> []"
  proof -
    have "parse_set_cookie (\<lambda>_. None) ''s=1'' \<noteq> None" by code_simp
    moreover have "security_headers https (rs_Header sample_response) ''Set-Cookie'' = [''s=1'']" for https
      by (simp add: security_headers_def sample_response_def header_set_def header_del_def no_headers_def Let_def)
    ultimately show ?thesis
      by (auto simp: response_rules_def sample_forwarder_def apply_rules_def sample_fenv_def List.map_filter_def)
  qed
  then show ?thesis
    using cookies_hardened[OF req, of sample_fenv sample_forwarder]
    by (simp add: sample_fenv_def list_all_iff split: if_splits)
qed

lemma sample_scans: "scans_responses sample_forwarder"
  by (simp add: scans_responses_def sample_forwarder_def leak_detectors_def is_detector_enabled_def set_observation_mode_def
      enable_detector_def)

lemma sample_blocks: "dlp_blocks sample_forwarder ''secret''"
  by (simp add: dlp_blocks_def sample_forwarder_def leak_detectors_def is_observation_mode_def set_observation_mode_def
      leak_rules_def dlp_check_def dlp_match_of_def List.map_filter_def)

lemma blocked_response_still_sent_witness:
  "let resp = fst (scan_response_body sample_fenv sample_response sample_forwarder)
   in rs_StatusCode resp = 403 \<and> rs_Body resp = Some (''secret'', False)"
proof -
  have ct: "header_get (rs_Header sample_response) ''Content-Type'' = ''text/html''"
  proof -
    have "canonical_key ''Content-Type'' = ''Content-Type''" by code_simp
    then show ?thesis by (simp add: sample_response_def)
  qed
  have scan: "should_scan ''text/html''"
    by code_simp
  have f: "rs_Request sample_response = Some hop_request" "rs_Body sample_response = Some (''secret'', False)"
    by (simp_all add: sample_response_def)
  note r = blocked_response_still_sent[OF f(1) sample_scans _ f(2), of sample_fenv, unfolded ct, OF scan]
  have t: "take max_response_scan_size ''secret'' = ''secret''"
    by (rule take_all) (simp add: max_response_scan_size_def)
  show ?thesis
    using r unfolding t Let_def by (simp add: sample_blocks)
qed

lemma dlp_event_leaks_witness:
  "\<exists>e. fw_events (snd (detect_dlp_in_response sample_fenv sample_response ''secret'' sample_forwarder)) = [e] \<and>
     str_contains (ev_rule e) ''secret''"
proof -
  have "\<lparr>dm_RuleName = ''ssn'', dm_Category = '''', dm_Action = ''block'', dm_Match = ''secret''\<rparr> \<in> set (dlp_check leak_rules ''secret'')"
    by (simp add: leak_rules_def dlp_check_def dlp_match_of_def List.map_filter_def)
  from dlp_event_leaks[OF _ _ this, of sample_forwarder sample_response hop_request sample_fenv] show ?thesis
    by (simp add: sample_forwarder_def sample_response_def leak_detectors_def is_observation_mode_def set_observation_mode_def)
qed

end
