(* ===== verification/CertProps.thy ===== *)
theory CertProps
  imports CertStore ProxyConfigProps
begin

text \<open>
  Properties of the certificate table: the four \<open>LIKE\<close> patterns of a look-up by domain against the list the column
  holds; what an ACME renewal overwrites; when a certificate counts as expired; what \<open>ValidateCert\<close> does not check.
\<close>

subsection \<open>LIKE\<close>

definition wild_free :: "string \<Rightarrow> bool" where
  "wild_free p \<longleftrightarrow> CHR ''%'' \<notin> set p \<and> CHR ''_'' \<notin> set p"

lemma like_any [simp]: "sql_like ''%'' s"
  by (induction s) auto

lemma like_percent: "sql_like (CHR ''%'' # p) s \<longleftrightarrow> (\<exists>a b. s = a @ b \<and> sql_like p b)"
proof (induction s)
  case (Cons c s)
  have "(\<exists>a b. c # s = a @ b \<and> sql_like p b) \<longleftrightarrow> sql_like p (c # s) \<or> (\<exists>a b. s = a @ b \<and> sql_like p b)"
    by (metis append_Cons append_Nil append_eq_Cons_conv)
  then show ?case using Cons by simp
qed simp

lemma like_literal_append:
  "wild_free p \<Longrightarrow> sql_like (p @ q) s \<longleftrightarrow> (\<exists>a b. s = a @ b \<and> to_lower a = to_lower p \<and> sql_like q b)"
proof (induction p arbitrary: s)
  case Nil
  then show ?case by (auto simp: to_lower_def)
next
  case (Cons x p)
  then have wf: "wild_free p" "x \<noteq> CHR ''%''" "x \<noteq> CHR ''_''" by (auto simp: wild_free_def)
  show ?case
  proof (cases s)
    case Nil
    then show ?thesis using wf by (simp add: to_lower_def)
  next
    case (Cons c t)
    have "(\<exists>a b. c # t = a @ b \<and> to_lower a = to_lower (x # p) \<and> sql_like q b) \<longleftrightarrow>
        lower_char x = lower_char c \<and> (\<exists>a b. t = a @ b \<and> to_lower a = to_lower p \<and> sql_like q b)"
    proof
      assume "lower_char x = lower_char c \<and> (\<exists>a b. t = a @ b \<and> to_lower a = to_lower p \<and> sql_like q b)"
      then obtain a b where "c # t = (c # a) @ b" "to_lower (c # a) = to_lower (x # p)" "sql_like q b"
        by (auto simp: to_lower_def)
      then show "\<exists>a b. c # t = a @ b \<and> to_lower a = to_lower (x # p) \<and> sql_like q b" by blast
    qed (auto simp: to_lower_def Cons_eq_append_conv)
    then show ?thesis using Cons Cons.IH[OF wf(1), of t] wf by simp
  qed
qed

lemma like_literal: "wild_free p \<Longrightarrow> sql_like p s \<longleftrightarrow> to_lower s = to_lower p"
  using like_literal_append[of p "[]" s] by simp

lemma split_append: "split_char c (a @ c # t) = split_char c a @ split_char c t"
  by (induction a) (auto split: list.splits)

lemma join_append:
  "xs \<noteq> [] \<Longrightarrow> ys \<noteq> [] \<Longrightarrow> join_with sep (xs @ ys) = join_with sep xs @ sep @ join_with sep ys"
  by (induction sep xs rule: join_with.induct) (auto, cases ys, auto)

text \<open>The four shapes of a field.\<close>

definition field_at :: "char \<Rightarrow> string \<Rightarrow> string \<Rightarrow> bool" where
  "field_at c d s \<longleftrightarrow> s = d \<or> (\<exists>b. s = d @ c # b) \<or> (\<exists>a. s = a @ c # d) \<or> (\<exists>a b. s = a @ c # d @ c # b)"

lemma field_iff:
  assumes "c \<notin> set d"
  shows "d \<in> set (split_char c s) \<longleftrightarrow> field_at c d s"
proof
  assume "d \<in> set (split_char c s)"
  then obtain xs ys where sp: "split_char c s = xs @ d # ys" by (meson split_list)
  have s: "s = join_with [c] (xs @ d # ys)" using join_split[of c s] sp by simp
  show "field_at c d s"
    by (cases "xs = []"; cases "ys = []")
      (use s in \<open>auto simp: field_at_def join_append[of xs "d # ys"] join_append[of xs "[d]"] join_append[of "[d]" ys, simplified]\<close>)
next
  assume "field_at c d s"
  then show "d \<in> set (split_char c s)"
    using assms by (auto simp: field_at_def split_append split_char_no_sep)
qed

lemma lower_comma: "lower_char c = CHR '','' \<longleftrightarrow> c = CHR '',''"
proof
  assume h: "lower_char c = CHR '',''"
  show "c = CHR '',''"
  proof (cases "65 \<le> (of_char c :: nat) \<and> (of_char c :: nat) \<le> 90")
    case True
    then have "(of_char (lower_char c) :: nat) = of_char c + 32"
      by (simp add: lower_char_def Let_def)
    then show ?thesis using h True by simp
  next
    case False
    then show ?thesis using h by (auto simp: lower_char_def Let_def)
  qed
qed (simp add: lower_char_def)

lemma comma_lower: "to_lower d = to_lower e \<Longrightarrow> CHR '','' \<in> set d \<longleftrightarrow> CHR '','' \<in> set e"
proof -
  assume "to_lower d = to_lower e"
  then have "CHR '','' \<in> set (to_lower d) \<longleftrightarrow> CHR '','' \<in> set (to_lower e)" by simp
  moreover have "CHR '','' \<in> set (to_lower x) \<longleftrightarrow> CHR '','' \<in> set x" for x
  proof
    assume "CHR '','' \<in> set (to_lower x)"
    then obtain c where c: "c \<in> set x" "lower_char c = CHR '',''" unfolding to_lower_def by force
    from c(2) have "c = CHR '',''" by (rule lower_comma[THEN iffD1])
    then show "CHR '','' \<in> set x" using c(1) by simp
  next
    assume "CHR '','' \<in> set x"
    then have "lower_char (CHR '','') \<in> set (to_lower x)" unfolding to_lower_def set_map by (rule imageI)
    moreover have "lower_char (CHR '','') = CHR '',''" by (rule lower_comma[THEN iffD2]) (rule refl)
    ultimately show "CHR '','' \<in> set (to_lower x)" by simp
  qed
  ultimately show ?thesis by simp
qed

lemma like_patterns:
  assumes "wild_free d"
  shows "sql_like (''%,'' @ d @ '',%'') s \<longleftrightarrow> (\<exists>a e b. s = a @ CHR '','' # e @ CHR '','' # b \<and> to_lower e = to_lower d)"
    and "sql_like (d @ '',%'') s \<longleftrightarrow> (\<exists>e b. s = e @ CHR '','' # b \<and> to_lower e = to_lower d)"
    and "sql_like (''%,'' @ d) s \<longleftrightarrow> (\<exists>a e. s = a @ CHR '','' # e \<and> to_lower e = to_lower d)"
proof -
  have comma: "sql_like (CHR '','' # q) t \<longleftrightarrow> (\<exists>u. t = CHR '','' # u \<and> sql_like q u)" for q t
  proof (cases t)
    case (Cons c u)
    have "lower_char (CHR '','') = lower_char c \<longleftrightarrow> c = CHR '',''"
      using lower_comma[of c] lower_comma[of "CHR '',''"] by metis
    then show ?thesis using Cons by auto
  qed simp
  have tail: "sql_like '',%'' t \<longleftrightarrow> (\<exists>u. t = CHR '','' # u)" for t
    using comma[of "''%''" t] by simp
  show first: "sql_like (d @ '',%'') s \<longleftrightarrow> (\<exists>e b. s = e @ CHR '','' # b \<and> to_lower e = to_lower d)" for s
    by (auto simp: like_literal_append[OF assms] tail)
  show "sql_like (''%,'' @ d @ '',%'') s \<longleftrightarrow> (\<exists>a e b. s = a @ CHR '','' # e @ CHR '','' # b \<and> to_lower e = to_lower d)"
    by (auto simp: like_percent comma first) blast
  show "sql_like (''%,'' @ d) s \<longleftrightarrow> (\<exists>a e. s = a @ CHR '','' # e \<and> to_lower e = to_lower d)"
    by (auto simp: like_percent comma like_literal[OF assms])
qed

text \<open>
  A look-up by domain (\<open>GetCertByDomainAndSource\<close>, \<open>DeleteCertByDomainAndSource\<close>) matches a certificate exactly when
  the domain is one of the comma-separated entries of its column, up to ASCII letter case. The domain is not escaped: this
  holds for names without the wild cards of \<open>LIKE\<close>.
\<close>

theorem cert_lookup_exact:
  assumes "wild_free domain" and "CHR '','' \<notin> set domain" and "cr_domains r = Some s"
  shows "lists_domain domain r \<longleftrightarrow> (\<exists>d \<in> set (split_char (CHR '','') s). to_lower d = to_lower domain)"
proof
  assume "lists_domain domain r"
  then obtain e where e: "to_lower e = to_lower domain" "field_at (CHR '','') e s"
    using like_patterns[OF assms(1), of s]
    by (auto simp: lists_domain_def assms(3) like_literal[OF assms(1)] field_at_def)
  then have "CHR '','' \<notin> set e" using comma_lower[OF e(1)] assms(2) by simp
  then show "\<exists>d \<in> set (split_char (CHR '','') s). to_lower d = to_lower domain"
    using e field_iff by blast
next
  assume "\<exists>d \<in> set (split_char (CHR '','') s). to_lower d = to_lower domain"
  then obtain d where d: "d \<in> set (split_char (CHR '','') s)" "to_lower d = to_lower domain" by blast
  then have "field_at (CHR '','') d s" using field_iff split_char_fields by blast
  then show "lists_domain domain r"
    using d(2) like_patterns[OF assms(1), of s]
    by (auto simp: lists_domain_def assms(3) like_literal[OF assms(1)] field_at_def)
qed

definition sample_cert :: "string \<Rightarrow> string list \<Rightarrow> ssl_cert" where
  "sample_cert i domains =
     \<lparr>ce_ID = i, ce_Name = '''', ce_Domains = domains, ce_CertPEM = ''c'', ce_KeyPEM = ''k'', ce_NotBefore = 0,
      ce_NotAfter = 100, ce_Issuer = '''', ce_Subject = '''', ce_DaysLeft = 0, ce_CreatedAt = 0, ce_Source = ''acme'',
      ce_AutoRenew = True\<rparr>"

lemma cert_lookup_exact_witness:
  "lists_domain ''b.org'' (cert_row_of (sample_cert ''1'' [''a.org'', ''B.org'', ''c.org''])) \<and>
   \<not> lists_domain ''org'' (cert_row_of (sample_cert ''1'' [''a.org'', ''B.org'', ''c.org'']))"
proof -
  have row: "cr_domains (cert_row_of (sample_cert ''1'' [''a.org'', ''B.org'', ''c.org''])) = Some ''a.org,B.org,c.org''"
    by (simp add: cert_row_of_def sample_cert_def join_backend_ids_def)
  have split: "split_char (CHR '','') ''a.org,B.org,c.org'' = [''a.org'', ''B.org'', ''c.org'']" by simp
  have low: "to_lower ''B.org'' = to_lower ''b.org''" "to_lower ''org'' \<notin> to_lower ` {''a.org'', ''B.org'', ''c.org''}"
    by code_simp+
  have wf: "wild_free ''b.org''" "wild_free ''org''" by (simp_all add: wild_free_def)
  show ?thesis
    using cert_lookup_exact[OF wf(1) _ row] cert_lookup_exact[OF wf(2) _ row] low unfolding split by auto
qed

text \<open>
  A certificate is reported expired only a whole day after its end: \<open>DaysLeft\<close> is truncated towards zero, so during
  the first 24 hours an expired certificate is \<open>critical\<close>.
\<close>

theorem expired_a_day_late:
  "get_cert_expiry_status (days_left now notAfter) = ''expired'' \<longleftrightarrow>
     notAfter * nano_second + 24 * 3600 * nano_second \<le> now"
proof -
  have neg: "go_div d (24 * 3600 * nano_second) < 0 \<longleftrightarrow> d \<le> - (24 * 3600 * nano_second)" for d
  proof (cases "d < 0")
    case True
    then have "go_div d (24 * 3600 * nano_second) = - ((- d) div (24 * 3600 * nano_second))"
      by (simp add: go_div_def sgn_if)
    moreover have "0 < (- d) div (24 * 3600 * nano_second) \<longleftrightarrow> 24 * 3600 * nano_second \<le> - d"
      using pos_imp_zdiv_pos_iff[of "24 * 3600 * nano_second" "- d"] by simp
    ultimately show ?thesis by linarith
  qed (simp add: not_less)
  have "get_cert_expiry_status (days_left now notAfter) = ''expired'' \<longleftrightarrow> days_left now notAfter < 0"
    by (simp add: get_cert_expiry_status_def)
  also have "\<dots> \<longleftrightarrow> time_sub (notAfter * nano_second) now < - (24 * 3600 * nano_second) + 1"
    unfolding days_left_def until_def neg by linarith
  also have "\<dots> \<longleftrightarrow> notAfter * nano_second - now < - (24 * 3600 * nano_second) + 1"
    by (rule time_sub_less) simp_all
  finally show ?thesis by linarith
qed

text \<open>
  Renewing a certificate for one name overwrites the first ACME certificate that lists the name, whatever else it lists:
  no row is added, and that certificate now covers the domains of the new one only.
\<close>

theorem renewal_overwrites:
  assumes "ce_Domains c = primary # others" and "primary \<noteq> ''''" and "clean_ids (ce_Domains c)"
    and "find (\<lambda>r. cr_source r = Some ''acme'' \<and> primary_matches primary r) rows = Some old"
  shows "let (err, rows') = upsert_acme_cert True None now c rows in
    err = None \<and> map cr_id rows' = map cr_id rows \<and>
    (\<forall>r \<in> set rows'. cr_id r = cr_id old \<longrightarrow> ids_of (cr_domains r) = ce_Domains c)"
proof -
  let ?c = "(with_source ''acme'' c)\<lparr>ce_AutoRenew := True\<rparr>"
  have doms: "ce_Domains ?c = primary # others" using assms(1) by (simp add: with_source_def)
  have ids: "ids_of (cr_domains (cert_row_of ?c)) = ce_Domains c"
    using ids_roundtrip[OF assms(3)] by (simp add: ids_of_def cert_row_of_def with_source_def)
  have run: "upsert_acme_cert True None now c rows = (None, map (\<lambda>r. if cr_id r = cr_id old
      then (cert_row_of ?c)\<lparr>cr_id := cr_id r, cr_created_at := cr_created_at r, cr_source := cr_source r\<rparr> else r) rows)"
    using assms(2,4) doms by (simp add: upsert_acme_cert_def Let_def)
  show ?thesis
    unfolding run Let_def prod.case using ids by auto
qed

lemma renewal_overwrites_witness:
  "let rows = [cert_row_of (sample_cert ''1'' [''a.org'', ''b.org''])];
       rows' = snd (upsert_acme_cert True None 5 (sample_cert ''2'' [''a.org'']) rows)
   in \<forall>r \<in> set rows'. cr_id r = ''1'' \<longrightarrow> ids_of (cr_domains r) = [''a.org'']"
proof -
  let ?rows = "[cert_row_of (sample_cert ''1'' [''a.org'', ''b.org''])]"
  have row: "cr_domains (cert_row_of (sample_cert ''1'' [''a.org'', ''b.org''])) = Some ''a.org,b.org''"
    by (simp add: cert_row_of_def sample_cert_def join_backend_ids_def)
  have "sql_like (''a.org'' @ '',%'') ''a.org,b.org''" by code_simp
  then have found: "find (\<lambda>r. cr_source r = Some ''acme'' \<and> primary_matches ''a.org'' r) ?rows = Some (hd ?rows)"
    by (simp add: primary_matches_def row) (simp add: cert_row_of_def sample_cert_def)
  have "trim_space ''a.org'' = ''a.org''" by code_simp
  then have clean: "clean_ids (ce_Domains (sample_cert ''2'' [''a.org'']))" by (simp add: clean_ids_def sample_cert_def)
  have "ce_Domains (sample_cert ''2'' [''a.org'']) = ''a.org'' # []" by (simp add: sample_cert_def)
  from renewal_overwrites[OF this _ clean found, of 5] show ?thesis
    by (auto simp: Let_def cert_row_of_def sample_cert_def split: prod.splits)
qed

text \<open>\<open>ValidateCert\<close> looks at the key only to see that it parses: keys of other certificates pass.\<close>

lemma any_key_validates:
  assumes "pem_decode env k = Some b" "parse_pkcs1 env b \<or> parse_pkcs8 env b \<or> parse_ec env b"
    and "pem_decode env k' = Some b'" "parse_pkcs1 env b' \<or> parse_pkcs8 env b' \<or> parse_ec env b'"
  shows "validate_cert env now cert k = validate_cert env now cert k'"
  using assms by (auto simp: validate_cert_def split: option.split sum.split)

end
