(* ===== verification/SessionProps.thy ===== *)
theory SessionProps
  imports Session
begin

text \<open>
  Sequences of session operations, as events: lifetimes, restarts, and what the guard notices.
\<close>

datatype session_event =
    Added bool instant string string string
  | Removed bool string
  | Renewed bool instant string
  | Bound string string
  | Accessed bool instant string string string
  | Cleaned bool bool "nat \<Rightarrow> bool" "string list" instant

fun session_do :: "session_event \<Rightarrow> session_state \<Rightarrow> session_state" where
  "session_do (Added ok now token username csrf) s = add_session_with_csrf ok now token username csrf s"
| "session_do (Removed ok token) s = remove_session ok token s"
| "session_do (Renewed ok now token) s = renew_session ok now token s"
| "session_do (Bound token csrf) s = bind_csrf_to_session token csrf s"
| "session_do (Accessed ok now token ip ua) s = snd (check_session_security ok now token ip ua s)"
| "session_do (Cleaned begun committed batch enum now) s = clean_expired_sessions begun committed batch enum now s"

fun adds_token :: "string \<Rightarrow> session_event \<Rightarrow> bool" where
  "adds_token token (Added ok now t username csrf) = (t = token)"
| "adds_token token e = False"

subsection \<open>Lifetimes\<close>

lemma set_db_fields [simp]:
  "ss_store (set_db ok f s) = ss_store s" "ss_ttl (set_db ok f s) = ss_ttl s"
  "ss_absoluteTTL (set_db ok f s) = ss_absoluteTTL s" "ss_safe (set_db ok f s) = ss_safe s"
  by (simp_all add: set_db_def)

lemma check_fields [simp]:
  "ss_store (snd (check_session_security ok now i ip ua s)) = ss_store s"
  "ss_ttl (snd (check_session_security ok now i ip ua s)) = ss_ttl s"
  "ss_absoluteTTL (snd (check_session_security ok now i ip ua s)) = ss_absoluteTTL s"
  "ss_db (snd (check_session_security ok now i ip ua s)) = ss_db s"
  by (simp_all add: check_session_security_def Let_def split: option.split prod.split)

lemma session_do_ttl [simp]:
  "ss_ttl (session_do e s) = ss_ttl s" "ss_absoluteTTL (session_do e s) = ss_absoluteTTL s"
  by (cases e; simp add: add_session_with_csrf_def remove_session_def renew_session_def bind_csrf_to_session_def
      clean_expired_sessions_def Let_def split: option.split)+

text \<open>An event that does not add the token keeps what was fixed when it was added.\<close>

lemma session_do_keeps:
  assumes "\<not> adds_token t e" "ss_store (session_do e s) t = Some x'"
  shows "\<exists>x. ss_store s t = Some x \<and> se_originalCreatedAt x' = se_originalCreatedAt x \<and> se_username x' = se_username x"
  using assms
  by (cases e) (auto simp: add_session_with_csrf_def remove_session_def renew_session_def bind_csrf_to_session_def
      clean_expired_sessions_def Let_def split: option.splits if_splits)

lemma sessions_keep:
  assumes "\<forall>e \<in> set es. \<not> adds_token t e" "ss_store (fold session_do es s) t = Some x'"
  shows "\<exists>x. ss_store s t = Some x \<and> se_originalCreatedAt x' = se_originalCreatedAt x \<and> se_username x' = se_username x"
  using assms
proof (induction es arbitrary: s)
  case (Cons e es)
  then obtain y where y: "ss_store (session_do e s) t = Some y" "se_originalCreatedAt x' = se_originalCreatedAt y"
      "se_username x' = se_username y"
    by auto
  then show ?case
    using session_do_keeps[of t e s y] Cons.prems(1) by auto
qed simp

lemma fold_ttl: "ss_ttl (fold session_do es s) = ss_ttl s \<and> ss_absoluteTTL (fold session_do es s) = ss_absoluteTTL s"
  by (induction es arbitrary: s) simp_all

text \<open>
  C9. A session never outlives its absolute lifetime: whatever is done after the login, renewals on
  every request included, the token is refused once that time has passed, and until then it
  stands for the user it was issued to.
\<close>

theorem session_absolute_expiry:
  assumes "0 < ss_absoluteTTL s" "ss_absoluteTTL s < 2 ^ 63 - 1" "\<forall>e \<in> set es. \<not> adds_token token e"
    and "is_valid_session now token (fold session_do es (add_session_with_csrf ok t0 token username csrf s))"
  shows "now - t0 \<le> ss_absoluteTTL s \<and>
    get_session_username token (fold session_do es (add_session_with_csrf ok t0 token username csrf s)) = username"
proof -
  let ?added = "add_session_with_csrf ok t0 token username csrf s" and ?s = "fold session_do es (add_session_with_csrf ok t0 token username csrf s)"
  have abs: "ss_absoluteTTL ?s = ss_absoluteTTL s"
    using fold_ttl[of es ?added] by (simp add: add_session_with_csrf_def)
  obtain x where x: "ss_store ?s token = Some x" "time_sub now (se_originalCreatedAt x) \<le> ss_absoluteTTL s"
    using assms(1,4) by (auto simp: is_valid_session_def abs split: option.splits if_splits)
  have "ss_store ?added token = Some \<lparr>se_createdAt = t0, se_originalCreatedAt = t0, se_username = username, se_csrfToken = csrf\<rparr>"
    by (simp add: add_session_with_csrf_def)
  then have o: "se_originalCreatedAt x = t0" "se_username x = username"
    using sessions_keep[OF assms(3) x(1)] by auto
  then show ?thesis
    using x assms(2) by (auto simp: time_sub_def get_session_username_def)
qed

definition sample_sessions :: session_state where
  "sample_sessions =
     \<lparr>ss_store = Map.empty, ss_db = Some [], ss_ttl = 2 * hour, ss_absoluteTTL = 3 * hour, ss_safe = None\<rparr>"

theorem session_absolute_expiry_witness:
  "\<not> is_valid_session (4 * hour + nano_second) ''t''
     (fold session_do [Renewed True (2 * hour) ''t'', Renewed True (4 * hour) ''t'']
       (add_session_with_csrf True nano_second ''t'' ''u'' ''c'' sample_sessions))"
proof
  assume v: "is_valid_session (4 * hour + nano_second) ''t''
     (fold session_do [Renewed True (2 * hour) ''t'', Renewed True (4 * hour) ''t'']
       (add_session_with_csrf True nano_second ''t'' ''u'' ''c'' sample_sessions))"
  have s: "0 < ss_absoluteTTL sample_sessions" "ss_absoluteTTL sample_sessions < 2 ^ 63 - 1"
    by (simp_all add: sample_sessions_def)
  show False
    using session_absolute_expiry[OF s _ v] by (simp add: sample_sessions_def)
qed

subsection \<open>Restarts\<close>

definition row_of_entry :: "string \<Rightarrow> session_entry \<Rightarrow> session_row" where
  "row_of_entry t e =
     \<lparr>sr_token = t, sr_created_at = se_createdAt e div nano_second,
      sr_original_created_at = Some (se_originalCreatedAt e div nano_second),
      sr_username = se_username e, sr_csrf_token = Some (se_csrfToken e)\<rparr>"

text \<open>The table holds exactly the sessions of the store.\<close>

definition db_mirrors :: "session_state \<Rightarrow> bool" where
  "db_mirrors s \<longleftrightarrow>
     (\<exists>rows. ss_db s = Some rows \<and> distinct (map sr_token rows) \<and>
        set rows = {row_of_entry t e |t e. ss_store s t = Some e}) \<and>
     (\<forall>t e. ss_store s t = Some e \<longrightarrow> 0 < se_originalCreatedAt e div nano_second)"

text \<open>
  Events whose statements work, at a clock past its first second. Binding a CSRF token is left out: it is not
  written to the table until the next renewal.
\<close>

fun persisted :: "session_event \<Rightarrow> bool" where
  "persisted (Added ok now t u c) \<longleftrightarrow> ok \<and> 0 < now div nano_second"
| "persisted (Removed ok t) \<longleftrightarrow> ok"
| "persisted (Renewed ok now t) \<longleftrightarrow> ok"
| "persisted (Bound t c) \<longleftrightarrow> False"
| "persisted (Accessed ok now t ip ua) \<longleftrightarrow> True"
| "persisted (Cleaned begun committed batch enum now) \<longleftrightarrow> begun \<and> committed \<and> (\<forall>i. batch i)"

lemma concat_batches: "length xs \<le> n \<Longrightarrow> concat (batches n xs) = xs"
proof (induction n arbitrary: xs)
  case (Suc n)
  then have "concat (batches n (drop 500 xs)) = drop 500 xs"
    by (cases xs) auto
  then show ?case by simp
qed simp

lemma all_deleted: "(\<forall>i. batch i) \<Longrightarrow> deleted_tokens True True batch tokens = tokens"
proof -
  assume "\<forall>i. batch i"
  then have "filter (\<lambda>(i, b). batch i) (List.enumerate 0 (batches (length tokens) tokens)) =
      List.enumerate 0 (batches (length tokens) tokens)"
    by (simp add: filter_id_conv case_prod_unfold)
  then show ?thesis by (simp add: deleted_tokens_def concat_batches)
qed

lemma row_of_entry_token [simp]: "sr_token (row_of_entry t e) = t"
  by (simp add: row_of_entry_def)

lemma db_mirrors_filter:
  assumes "db_mirrors s" "ss_db s = Some rows"
    "ss_db s' = Some (filter (\<lambda>r. P (sr_token r)) rows)" "\<And>t. ss_store s' t = (if P t then ss_store s t else None)"
  shows "db_mirrors s'"
  using assms unfolding db_mirrors_def
  by (auto simp: distinct_map_filter split: if_splits)

lemma renewed_row: "(row_of_entry t e)\<lparr>sr_created_at := now div nano_second, sr_csrf_token := Some (se_csrfToken e)\<rparr> =
    row_of_entry t (e\<lparr>se_createdAt := now\<rparr>)"
  by (simp add: row_of_entry_def)

lemma db_mirrors_add:
  assumes "db_mirrors s" "0 < now div nano_second"
  shows "db_mirrors (add_session_with_csrf True now t u c s)"
proof -
  let ?e = "\<lparr>se_createdAt = now, se_originalCreatedAt = now, se_username = u, se_csrfToken = c\<rparr>"
  obtain rows where rows: "ss_db s = Some rows" "distinct (map sr_token rows)"
      "set rows = {row_of_entry t e |t e. ss_store s t = Some e}"
    using assms(1) by (auto simp: db_mirrors_def)
  have "ss_db (add_session_with_csrf True now t u c s) = Some (filter (\<lambda>r. sr_token r \<noteq> t) rows @ [row_of_entry t ?e])"
    by (simp add: add_session_with_csrf_def set_db_def rows(1) row_of_entry_def)
  moreover have "distinct (map sr_token (filter (\<lambda>r. sr_token r \<noteq> t) rows @ [row_of_entry t ?e]))"
    using rows(2) by (auto simp: distinct_map_filter)
  moreover have "set (filter (\<lambda>r. sr_token r \<noteq> t) rows @ [row_of_entry t ?e]) =
      {row_of_entry t' e |t' e. ss_store (add_session_with_csrf True now t u c s) t' = Some e}"
    by (auto simp: rows(3) add_session_with_csrf_def)
  ultimately show ?thesis
    using assms by (auto simp: db_mirrors_def add_session_with_csrf_def)
qed

lemma db_mirrors_renew:
  assumes "db_mirrors s"
  shows "db_mirrors (renew_session True now t s)"
proof (cases "ss_store s t")
  case None
  then show ?thesis using assms by (simp add: renew_session_def)
next
  case (Some x)
  obtain rows where rows: "ss_db s = Some rows" "distinct (map sr_token rows)"
      "set rows = {row_of_entry t e |t e. ss_store s t = Some e}"
    using assms by (auto simp: db_mirrors_def)
  define upd where "upd = (\<lambda>r :: session_row. if sr_token r = t
      then r\<lparr>sr_created_at := now div nano_second, sr_csrf_token := Some (se_csrfToken x)\<rparr> else r)"
  have upd: "upd (row_of_entry t' e) = row_of_entry t' (if t' = t then e\<lparr>se_createdAt := now\<rparr> else e)"
    if "ss_store s t' = Some e" for t' e
    using that Some renewed_row[where t = t and e = e and now = now] by (auto simp: upd_def)
  have db: "ss_db (renew_session True now t s) = Some (map upd rows)"
    and st: "ss_store (renew_session True now t s) = (ss_store s)(t \<mapsto> x\<lparr>se_createdAt := now\<rparr>)"
    by (simp_all add: renew_session_def Some set_db_def rows(1) upd_def)
  have "map sr_token (map upd rows) = map sr_token rows"
    by (simp add: upd_def)
  moreover have "set (map upd rows) = {row_of_entry t' e |t' e. ss_store (renew_session True now t s) t' = Some e}"
  proof (rule set_eqI, rule iffI)
    fix r
    assume "r \<in> set (map upd rows)"
    then obtain t' e where e: "ss_store s t' = Some e" "r = upd (row_of_entry t' e)"
      unfolding set_map rows(3) by blast
    have "t' = t \<longrightarrow> e = x"
      using e(1) Some by auto
    then have "r = row_of_entry t' (if t' = t then e\<lparr>se_createdAt := now\<rparr> else e)"
      "ss_store (renew_session True now t s) t' = Some (if t' = t then e\<lparr>se_createdAt := now\<rparr> else e)"
      using upd[OF e(1)] e by (simp_all add: st)
    then show "r \<in> {row_of_entry t' e |t' e. ss_store (renew_session True now t s) t' = Some e}"
      by blast
  next
    fix r
    assume "r \<in> {row_of_entry t' e |t' e. ss_store (renew_session True now t s) t' = Some e}"
    then obtain t' e where r: "r = row_of_entry t' e" "ss_store (renew_session True now t s) t' = Some e"
      by blast
    then obtain e0 where e0: "ss_store s t' = Some e0" "e = (if t' = t then e0\<lparr>se_createdAt := now\<rparr> else e0)"
      using Some by (cases "t' = t") (simp_all add: st)
    then have "r = upd (row_of_entry t' e0)"
      using upd r by simp
    moreover have "row_of_entry t' e0 \<in> set rows"
      unfolding rows(3) using e0(1) by blast
    ultimately show "r \<in> set (map upd rows)"
      by simp
  qed
  ultimately have "\<exists>rows. ss_db (renew_session True now t s) = Some rows \<and> distinct (map sr_token rows) \<and>
      set rows = {row_of_entry t' e |t' e. ss_store (renew_session True now t s) t' = Some e}"
    using db rows(2) by metis
  moreover have "0 < se_originalCreatedAt e div nano_second" if "ss_store (renew_session True now t s) t' = Some e" for t' e
    using that assms Some unfolding db_mirrors_def st by (cases "t' = t") auto
  ultimately show ?thesis
    unfolding db_mirrors_def by blast
qed

lemma db_mirrors_remove: "db_mirrors s \<Longrightarrow> db_mirrors (remove_session True t s)"
proof -
  assume m: "db_mirrors s"
  then obtain rows where rows: "ss_db s = Some rows"
    by (auto simp: db_mirrors_def)
  show ?thesis
    by (rule db_mirrors_filter[OF m rows, of _ "\<lambda>x. x \<noteq> t"]) (simp_all add: remove_session_def set_db_def rows)
qed

lemma db_mirrors_clean:
  assumes "db_mirrors s" "\<forall>i. batch i"
  shows "db_mirrors (clean_expired_sessions True True batch enum now s)"
proof -
  obtain rows where rows: "ss_db s = Some rows"
    using assms(1) by (auto simp: db_mirrors_def)
  let ?tokens = "filter (\<lambda>t. case ss_store s t of None \<Rightarrow> False | Some e \<Rightarrow> expired_entry now s e) enum"
  show ?thesis
  proof (cases "?tokens = []")
    case True
    then show ?thesis using assms(1) by (simp add: clean_expired_sessions_def)
  next
    case False
    show ?thesis
      by (rule db_mirrors_filter[OF assms(1) rows, of _ "\<lambda>t. t \<notin> set ?tokens"])
        (use False assms(2) in \<open>simp_all add: clean_expired_sessions_def Let_def rows all_deleted del: set_filter\<close>)
  qed
qed

lemma db_mirrors_access: "db_mirrors s \<Longrightarrow> db_mirrors (snd (check_session_security ok now i ip ua s))"
  by (simp add: db_mirrors_def)

lemma db_mirrors_do: "db_mirrors s \<Longrightarrow> persisted e \<Longrightarrow> db_mirrors (session_do e s)"
  by (cases e) (auto simp: db_mirrors_add db_mirrors_renew db_mirrors_remove db_mirrors_clean db_mirrors_access)

lemma db_mirrors_fold: "db_mirrors s \<Longrightarrow> \<forall>e \<in> set es. persisted e \<Longrightarrow> db_mirrors (fold session_do es s)"
  by (induction es arbitrary: s) (auto simp: db_mirrors_do)

text \<open>An entry at whole seconds.\<close>

definition whole_seconds :: "session_entry \<Rightarrow> session_entry" where
  "whole_seconds e =
     e\<lparr>se_createdAt := se_createdAt e div nano_second * nano_second,
       se_originalCreatedAt := se_originalCreatedAt e div nano_second * nano_second\<rparr>"

lemma entry_of_row_of: "0 < se_originalCreatedAt e div nano_second \<Longrightarrow> entry_of_row (row_of_entry t e) = whole_seconds e"
  by (simp add: entry_of_row_def row_of_entry_def whole_seconds_def Let_def)

lemma loaded_entries:
  "distinct (map sr_token rows) \<Longrightarrow>
   fold (\<lambda>r st. st(sr_token r \<mapsto> entry_of_row r)) rows st t =
     (case find (\<lambda>r. sr_token r = t) rows of None \<Rightarrow> st t | Some r \<Rightarrow> Some (entry_of_row r))"
proof (induction rows arbitrary: st)
  case (Cons r rows)
  show ?case
  proof (cases "sr_token r = t")
    case True
    then have "find (\<lambda>r. sr_token r = t) rows = None"
      using Cons.prems unfolding find_None_iff by (metis distinct.simps(2) image_eqI list.set_map list.simps(9))
    then show ?thesis
      using Cons True by simp
  next
    case False
    then show ?thesis
      using Cons by (simp split: option.split)
  qed
qed simp

text \<open>
  C19. A restart brings the sessions back: after any operations whose statements worked (the binding of a CSRF token to an
  open session, which is not written to the table, is not among them), loading the
  table into an empty store yields, for every token renewed recently enough, the session that was in
  force, its times cut to whole seconds, and no other session.
\<close>

theorem restart_keeps_sessions:
  assumes "db_mirrors s0" "\<forall>e \<in> set es. persisted e"
  defines "s \<equiv> fold session_do es s0"
  shows "ss_store (load_sessions_from_db True now (s\<lparr>ss_store := Map.empty\<rparr>)) t =
    (case ss_store s t of
       None \<Rightarrow> None
     | Some e \<Rightarrow> if load_cutoff now s > 0 \<and> se_createdAt e div nano_second < load_cutoff now s then None
                 else Some (whole_seconds e))"
proof -
  have m: "db_mirrors s"
    unfolding s_def by (rule db_mirrors_fold) fact+
  then obtain rows where rows: "ss_db s = Some rows" "distinct (map sr_token rows)"
      "set rows = {row_of_entry t e |t e. ss_store s t = Some e}"
    by (auto simp: db_mirrors_def)
  let ?keep = "\<lambda>r. load_cutoff now s > 0 \<longrightarrow> sr_created_at r \<ge> load_cutoff now s"
  have cutoff: "load_cutoff now (s\<lparr>ss_store := Map.empty\<rparr>) = load_cutoff now s"
    by (simp add: load_cutoff_def)
  have loaded: "ss_store (load_sessions_from_db True now (s\<lparr>ss_store := Map.empty\<rparr>)) t =
      (case find (\<lambda>r. sr_token r = t) (filter ?keep rows) of None \<Rightarrow> None | Some r \<Rightarrow> Some (entry_of_row r))"
    using rows(2) by (simp add: load_sessions_from_db_def rows(1) cutoff loaded_entries distinct_map_filter)
  show ?thesis
  proof (cases "\<exists>r \<in> set (filter ?keep rows). sr_token r = t")
    case True
    then obtain r where r: "find (\<lambda>r. sr_token r = t) (filter ?keep rows) = Some r"
      by (cases "find (\<lambda>r. sr_token r = t) (filter ?keep rows)") (auto simp: find_None_iff)
    then have "r \<in> set rows" "sr_token r = t" "?keep r"
      by (auto dest!: find_Some_mem)
    then obtain e where e: "ss_store s t = Some e" "r = row_of_entry t e"
      by (auto simp: rows(3))
    then have "entry_of_row r = whole_seconds e"
      using m by (auto simp: db_mirrors_def entry_of_row_of)
    then show ?thesis
      using loaded r e \<open>?keep r\<close> by (auto simp: row_of_entry_def)
  next
    case False
    then have n: "find (\<lambda>r. sr_token r = t) (filter ?keep rows) = None"
      by (simp add: find_None_iff)
    have "load_cutoff now s > 0 \<and> se_createdAt e div nano_second < load_cutoff now s" if "ss_store s t = Some e" for e
    proof -
      have "row_of_entry t e \<in> set rows"
        using that by (auto simp: rows(3))
      then have "\<not> ?keep (row_of_entry t e)"
        using False by auto
      then show ?thesis by (simp add: row_of_entry_def)
    qed
    then show ?thesis
      using loaded n by (auto split: option.split)
  qed
qed

lemma empty_mirrors: "db_mirrors sample_sessions"
  by (simp add: db_mirrors_def sample_sessions_def)

theorem restart_keeps_sessions_witness:
  "get_session_username ''t'' (load_sessions_from_db True (hour + 1)
     ((session_do (Added True hour ''t'' ''u'' ''c'') sample_sessions)\<lparr>ss_store := Map.empty\<rparr>)) = ''u''"
proof -
  let ?es = "[Added True hour ''t'' ''u'' ''c'']"
  have "\<forall>e \<in> set ?es. persisted e" by simp
  from restart_keeps_sessions[OF empty_mirrors this, of "hour + 1" "''t''"]
  show ?thesis
    by (simp add: get_session_username_def add_session_with_csrf_def whole_seconds_def load_cutoff_def sample_sessions_def)
qed

subsection \<open>The guard\<close>

text \<open>The answers to a sequence of accesses (time, address, agent) with one session.\<close>

fun guard_run ::
  "string \<Rightarrow> (instant \<times> string \<times> string) list \<Rightarrow> safe_manager \<Rightarrow> security_alert option list \<times> safe_manager" where
  "guard_run i [] m = ([], m)"
| "guard_run i ((now, ip, ua) # as) m =
     (let (a, m) = record_session_access True now i ip ua m; (rest, m) = guard_run i as m in (a # rest, m))"

lemma record_alert_fields [simp]:
  "sm_profiles (record_alert ok now a m) = sm_profiles m"
  "sm_ipMutationThreshold (record_alert ok now a m) = sm_ipMutationThreshold m"
  "sm_uaDetectionEnabled (record_alert ok now a m) = sm_uaDetectionEnabled m"
  by (simp_all add: record_alert_def)

lemma access_keeps [simp]:
  "sm_ipMutationThreshold (snd (record_session_access ok now i ip ua m)) = sm_ipMutationThreshold m"
  "sm_uaDetectionEnabled (snd (record_session_access ok now i ip ua m)) = sm_uaDetectionEnabled m"
  by (simp_all add: record_session_access_def Let_def split: option.split)

lemma access_known:
  assumes "i \<noteq> ''''" "sm_profiles m i = Some p"
  shows "\<exists>p'. sm_profiles (snd (record_session_access ok now i ip ua m)) i = Some p' \<and>
      set (sp_ipHistory p') = insert ip (set (sp_ipHistory p)) \<and>
      (fst (record_session_access ok now i ip ua m) = None \<longrightarrow>
         int (card (insert ip (set (sp_ipHistory p)))) \<le> sm_ipMutationThreshold m)"
proof -
  have seen: "set (seen_from ip p) = insert ip (set (sp_ipHistory p))"
    by (auto simp: seen_from_def)
  have "length (remdups (seen_from ip p)) = card (insert ip (set (sp_ipHistory p)))"
    by (metis length_remdups_card_conv seen)
  then show ?thesis
    using assms by (auto simp: record_session_access_def Let_def seen)
qed

lemma guard_run_known:
  assumes "i \<noteq> ''''" "sm_profiles m i = Some p" "int (card (set (sp_ipHistory p))) \<le> sm_ipMutationThreshold m"
    "\<forall>a \<in> set (fst (guard_run i as m)). a = None"
  shows "int (card (set (sp_ipHistory p) \<union> (\<lambda>(now, ip, ua). ip) ` set as)) \<le> sm_ipMutationThreshold m"
  using assms(2-)
proof (induction as arbitrary: m p)
  case (Cons a as)
  obtain now ip ua where a: "a = (now, ip, ua)" by (metis prod_cases3)
  obtain alert m' where r: "record_session_access True now i ip ua m = (alert, m')" by fastforce
  obtain p' where p': "sm_profiles m' i = Some p'" "set (sp_ipHistory p') = insert ip (set (sp_ipHistory p))"
      "alert = None \<longrightarrow> int (card (insert ip (set (sp_ipHistory p)))) \<le> sm_ipMutationThreshold m"
    using access_known[OF assms(1) Cons.prems(1), of True now ip ua] r by auto
  have thr: "sm_ipMutationThreshold m' = sm_ipMutationThreshold m"
    using access_keeps(1)[of True now i ip ua m] r by simp
  have none: "alert = None" "\<forall>a \<in> set (fst (guard_run i as m')). a = None"
    using Cons.prems(3) by (simp_all add: a r split: prod.splits)
  have "int (card (set (sp_ipHistory p'))) \<le> sm_ipMutationThreshold m'"
    using p'(2,3) none(1) thr by simp
  from Cons.IH[OF p'(1) this none(2)] show ?case
    using p'(2) thr a by simp
qed simp

text \<open>
  The guard lets a session be used from at most as many different addresses as its threshold says:
  while no access of a new session raises an alarm, whatever the agents and the order, the number of
  addresses is within it.
\<close>

theorem addresses_without_alarm:
  assumes "i \<noteq> ''''" "sm_profiles m i = None" "1 \<le> sm_ipMutationThreshold m"
    "\<forall>a \<in> set (fst (guard_run i as m)). a = None"
  shows "int (card ((\<lambda>(now, ip, ua). ip) ` set as)) \<le> sm_ipMutationThreshold m"
proof (cases as)
  case Nil
  then show ?thesis using assms(3) by simp
next
  case (Cons a rest)
  obtain now ip ua where a: "a = (now, ip, ua)" by (metis prod_cases3)
  let ?m = "snd (record_session_access True now i ip ua m)"
  have p: "sm_profiles ?m i = Some \<lparr>sp_SessionID = i, sp_IP = ip, sp_UserAgent = ua, sp_CreatedAt = now, sp_LastSeen = now, sp_ipHistory = [ip]\<rparr>"
    using assms(1,2) by (simp add: record_session_access_def)
  have "\<forall>a \<in> set (fst (guard_run i rest ?m)). a = None"
    using assms(4) by (simp add: Cons a split: prod.splits)
  from guard_run_known[OF assms(1) p _ this] show ?thesis
    using assms(3) by (simp add: Cons a)
qed

theorem addresses_without_alarm_witness:
  "int (card ((\<lambda>(now, ip, ua). ip) ` set [(0, ''1.1.1.1'', ''x''), (1, ''2.2.2.2'', ''x'')])) \<le>
     sm_ipMutationThreshold (new_safe_manager False)"
proof -
  let ?as = "[(0, ''1.1.1.1'', ''x''), (1, ''2.2.2.2'', ''x'')]"
  have "\<forall>a \<in> set (fst (guard_run ''s'' ?as (new_safe_manager False))). a = None"
    by (simp add: new_safe_manager_def record_session_access_def seen_from_def agent_changed_def)
  then show ?thesis
    using addresses_without_alarm[of "''s''" "new_safe_manager False" ?as] by (simp add: new_safe_manager_def)
qed

text \<open>
  The guard can be blinded. A request that shows another \<open>User-Agent\<close> from a known address is an
  alarm, but not if a request without that header comes first: it is accepted and erases the agent
  the session was bound to, so the other agent is accepted after it.
\<close>

theorem empty_agent_blinds_guard:
  assumes "i \<noteq> ''''" "sm_profiles m i = Some p" "sm_uaDetectionEnabled m" "sp_UserAgent p \<noteq> ''''"
    "ua \<noteq> sp_UserAgent p" "ua \<noteq> ''''" "ip \<in> set (sp_ipHistory p)"
    "int (card (set (sp_ipHistory p))) \<le> sm_ipMutationThreshold m"
  shows "fst (record_session_access ok now i ip ua m) = Some (ua_alert i) \<and>
    fst (guard_run i [(now, ip, ''''), (now', ip, ua)] m) = [None, None]"
proof -
  have "seen_from ip p = sp_ipHistory p" "length (remdups (sp_ipHistory p)) = card (set (sp_ipHistory p))"
    using assms(7) by (simp_all add: seen_from_def length_remdups_card_conv)
  then show ?thesis
    using assms by (simp add: record_session_access_def agent_changed_def seen_from_def Let_def)
qed

theorem empty_agent_blinds_guard_witness:
  "let m = snd (record_session_access True 0 ''s'' ''1.1.1.1'' ''firefox'' (new_safe_manager False))
   in fst (record_session_access True 1 ''s'' ''1.1.1.1'' ''curl'' m) = Some (ua_alert ''s'') \<and>
      fst (guard_run ''s'' [(1, ''1.1.1.1'', ''''), (2, ''1.1.1.1'', ''curl'')] m) = [None, None]"
  unfolding Let_def
  by (rule empty_agent_blinds_guard[where p = "\<lparr>sp_SessionID = ''s'', sp_IP = ''1.1.1.1'', sp_UserAgent = ''firefox'',
        sp_CreatedAt = 0, sp_LastSeen = 0, sp_ipHistory = [''1.1.1.1'']\<rparr>"])
    (simp_all add: record_session_access_def new_safe_manager_def)

end
