(* ===== verification/AdminAuth.thy ===== *)
theory AdminAuth
  imports Session "HOL-Library.AList"
begin

text \<open>
  The middleware in front of the administration pages: \<open>internal/domain/gateway/middleware/auth.go\<close>.

  \<^item> \<open>admin_state\<close>: the networks allowed, the API calls counted per address, the global limiter when one
    is set, the sessions, and the size limit of request bodies.
  \<^item> The limiter of \<open>golang.org/x/time/rate\<close> is a parameter: \<open>new_limiter r burst\<close> makes one, \<open>allow\<close>
    answers and moves it on.
  \<^item> \<open>auth\<close> answers what the middleware wrote, and the request handed on when there is one. Clock readings,
    random bytes and the outcome of statements are in \<open>auth_env\<close>.
  \<^item> \<open>form_value\<close> is \<open>Request.FormValue\<close>; the values of a multipart body are an argument.

  Proved: a request that changes something passes only with a valid session and the CSRF token that
  cookie and request agree on; how many API calls an address gets; what the default allows.
\<close>

section \<open>Nonces\<close>

definition base64_table :: string where
  "base64_table = ''ABCDEFGHIJKLMNOPQRSTUVWXYZabcdefghijklmnopqrstuvwxyz0123456789+/''"

definition base64_digit :: "nat \<Rightarrow> char" where
  "base64_digit n = base64_table ! (n mod 64)"

fun base64 :: "8 word list \<Rightarrow> string" where
  "base64 [] = ''''"
| "base64 [a] = [base64_digit (unat a div 4), base64_digit (unat a * 16)] @ ''==''"
| "base64 [a, b] =
     [base64_digit (unat a div 4), base64_digit (unat a * 16 + unat b div 16), base64_digit (unat b * 4)] @ ''=''"
| "base64 (a # b # c # rest) =
     [base64_digit (unat a div 4), base64_digit (unat a * 16 + unat b div 16),
      base64_digit (unat b * 4 + unat c div 64), base64_digit (unat c)] @ base64 rest"

definition generate_csp_nonce :: "8 word list option \<Rightarrow> string" where
  "generate_csp_nonce random =
     base64 (case random of Some b \<Rightarrow> b | None \<Rightarrow> map (\<lambda>i. word_of_nat (i * 17 + 37)) [0..<16])"

text \<open>The context of a request holds the nonce.\<close>

definition get_csp_nonce :: "string option \<Rightarrow> string" where
  "get_csp_nonce nonce = (case nonce of Some v \<Rightarrow> v | None \<Rightarrow> '''')"

section \<open>The state\<close>

record 'g admin_state =
  ad_allowedNets :: "ip_net list"
  ad_allowAll :: bool
  ad_apiRequests :: "(string \<times> instant list) list"
  ad_limiter :: "'g option"
  ad_apiRateLimit :: int
  ad_apiRateWindow :: duration
  ad_sessions :: session_state
  ad_maxRequestBody :: int

subsection \<open>Addresses\<close>

definition single_address :: "string \<Rightarrow> string" where
  "single_address cidr =
     (if CHR ''/'' \<in> set cidr then cidr
      else if CHR '':'' \<in> set cidr then cidr @ ''/128'' else cidr @ ''/32'')"

definition init_admin_allowed_nets :: "string list \<Rightarrow> 'g admin_state \<Rightarrow> 'g admin_state" where
  "init_admin_allowed_nets cidrs s =
     s\<lparr>ad_allowAll := (if cidrs = [] then False else ad_allowAll s),
       ad_allowedNets := List.map_filter (\<lambda>cidr. parse_cidr (single_address cidr))
         (if cidrs = [] then [''127.0.0.1/8'', ''::1/128''] else cidrs)\<rparr>"

text \<open>\<open>IPNet.String\<close>: an IPv6 address has its first longest run of zero groups, if longer than one, cut out.\<close>

fun hex_digits :: "nat \<Rightarrow> string" where
  "hex_digits n = (if n < 16 then [hex_table ! n] else hex_digits (n div 16) @ [hex_table ! (n mod 16)])"

declare hex_digits.simps [simp del]

definition groups_of_word :: "128 word \<Rightarrow> nat list" where
  "groups_of_word w = map (\<lambda>i. unat (drop_bit (112 - 16 * i) w) mod 65536) [0..<8]"

definition zero_run :: "nat list \<Rightarrow> nat \<times> nat" where
  "zero_run gs =
     fold (\<lambda>i (start, len).
         let l = length (takeWhile ((=) 0) (drop i gs)) in if l \<ge> 2 \<and> l > len then (i, l) else (start, len))
       [0..<8] (0, 0)"

definition ipv6_string :: "128 word \<Rightarrow> string" where
  "ipv6_string w =
     (let gs = groups_of_word w; (start, len) = zero_run gs
      in if len = 0 then join_with '':'' (map hex_digits gs)
         else join_with '':'' (map hex_digits (take start gs)) @ ''::'' @
              join_with '':'' (map hex_digits (drop (start + len) gs)))"

definition net_string :: "ip_net \<Rightarrow> string" where
  "net_string net =
     (case net of Net4 a n \<Rightarrow> cidr4_string a n | Net6 a n \<Rightarrow> ipv6_string a @ ''/'' @ dec_string n)"

definition get_admin_allowed_nets :: "'g admin_state \<Rightarrow> string list" where
  "get_admin_allowed_nets s = map net_string (ad_allowedNets s)"

definition is_ip_allowed :: "string \<Rightarrow> 'g admin_state \<Rightarrow> bool" where
  "is_ip_allowed ipStr s =
     (if ad_allowAll s then True
      else case parse_ip ipStr of
             None \<Rightarrow> False
           | Some ip \<Rightarrow> list_ex (\<lambda>network. contains network ip) (ad_allowedNets s))"

subsection \<open>Rates\<close>

definition api_rate_exempt_paths :: "string list" where
  "api_rate_exempt_paths =
     [''/api/stats'', ''/api/events'', ''/api/system'', ''/api/top/'', ''/api/rule-hits'', ''/api/detector/list'',
      ''/api/metrics/'', ''/api/config/'', ''/api/intercepts'']"

definition api_body_exempt_paths :: "string list" where
  "api_body_exempt_paths = [''/api/geoip/upload'']"

definition init_rate_limit_config ::
  "(int \<Rightarrow> int \<Rightarrow> 'g) \<Rightarrow> int \<Rightarrow> int \<Rightarrow> 'g admin_state \<Rightarrow> 'g admin_state" where
  "init_rate_limit_config new_limiter limit windowMinutes s =
     s\<lparr>ad_apiRateLimit := limit, ad_apiRateWindow := windowMinutes * (60 * nano_second),
       ad_limiter := (case ad_limiter s of None \<Rightarrow> Some (new_limiter 200 400) | Some g \<Rightarrow> Some g)\<rparr>"

definition init_global_rate_limit ::
  "(int \<Rightarrow> int \<Rightarrow> 'g) \<Rightarrow> int \<Rightarrow> int \<Rightarrow> 'g admin_state \<Rightarrow> 'g admin_state" where
  "init_global_rate_limit new_limiter r burst s = s\<lparr>ad_limiter := Some (new_limiter r burst)\<rparr>"

definition check_global_rate_limit :: "('g \<Rightarrow> bool \<times> 'g) \<Rightarrow> 'g admin_state \<Rightarrow> bool \<times> 'g admin_state" where
  "check_global_rate_limit allow s =
     (case ad_limiter s of
        None \<Rightarrow> (True, s)
      | Some g \<Rightarrow> let (ok, g) = allow g in (ok, s\<lparr>ad_limiter := Some g\<rparr>))"

text \<open>One tick of the cleaning goroutine.\<close>

definition cleanup_api_rate_limit :: "instant \<Rightarrow> 'g admin_state \<Rightarrow> 'g admin_state" where
  "cleanup_api_rate_limit now s =
     (if length (ad_apiRequests s) > 5000 then
        s\<lparr>ad_apiRequests := filter (\<lambda>(k, v). v \<noteq> [])
            (map (\<lambda>(k, requests). (k, filter (\<lambda>t. time_sub now t \<le> ad_apiRateWindow s) requests)) (ad_apiRequests s))\<rparr>
      else s)"

definition valid_requests :: "instant \<Rightarrow> string \<Rightarrow> 'g admin_state \<Rightarrow> instant list" where
  "valid_requests now ip s =
     filter (\<lambda>t. t > now - ad_apiRateWindow s) (map_get [] (map_of (ad_apiRequests s)) ip)"

definition drop_idle :: "instant \<Rightarrow> (string \<times> instant list) list \<Rightarrow> (string \<times> instant list) list" where
  "drop_idle now m =
     (if length m > 10000 then filter (\<lambda>(k, v). \<exists>t \<in> set v. t > now - 24 * hour) m else m)"

definition check_api_rate_limit :: "instant \<Rightarrow> string \<Rightarrow> 'g admin_state \<Rightarrow> bool \<times> 'g admin_state" where
  "check_api_rate_limit now ip s =
     (if ad_apiRateLimit s \<le> 0 \<or> ad_apiRateWindow s \<le> 0 then (True, s)
      else
        let validRequests = valid_requests now ip s;
            s = s\<lparr>ad_apiRequests := drop_idle now (AList.update ip validRequests (ad_apiRequests s))\<rparr>
        in if int (length (filter (\<lambda>t. t > now - nano_second) validRequests)) \<ge> 10 then (False, s)
           else if int (length validRequests) \<ge> ad_apiRateLimit s then (False, s)
           else (True, s\<lparr>ad_apiRequests := AList.update ip (validRequests @ [now]) (ad_apiRequests s)\<rparr>))"

definition set_api_rate_limit :: "int \<Rightarrow> duration \<Rightarrow> 'g admin_state \<Rightarrow> 'g admin_state" where
  "set_api_rate_limit limit window s =
     s\<lparr>ad_apiRateLimit := (if limit > 0 then limit else ad_apiRateLimit s),
       ad_apiRateWindow := (if window > 0 then window else ad_apiRateWindow s)\<rparr>"

definition set_max_request_body :: "int \<Rightarrow> 'g admin_state \<Rightarrow> 'g admin_state" where
  "set_max_request_body maxMB s = s\<lparr>ad_maxRequestBody := (if maxMB \<le> 0 then 0 else maxMB * 1024 * 1024)\<rparr>"

definition get_max_request_body :: "'g admin_state \<Rightarrow> int" where
  "get_max_request_body s = ad_maxRequestBody s"

section \<open>CSRF tokens\<close>

text \<open>
  \<open>Request.FormValue\<close>. \<open>limit\<close>: the bytes the body may have, of \<open>http.MaxBytesReader\<close>; a form of more than
  10 MiB is never read.
\<close>

definition media_type :: "string \<Rightarrow> string" where
  "media_type ct = to_lower (trim_space (takeWhile (\<lambda>c. c \<noteq> CHR '';'') ct))"

definition post_form :: "int option \<Rightarrow> http_request \<Rightarrow> query_values" where
  "post_form limit r =
     (if rq_Method r \<in> {''POST'', ''PUT'', ''PATCH''} \<and>
         media_type (header_get (rq_Header r) ''Content-Type'') = ''application/x-www-form-urlencoded''
      then case rq_Body r of
             None \<Rightarrow> []
           | Some b \<Rightarrow>
               if (case limit of None \<Rightarrow> False | Some n \<Rightarrow> int (length b) > n) \<or> int (length b) > 10 * 1024 * 1024 then []
               else fst (parse_query b)
      else [])"

definition form_value :: "string list \<Rightarrow> int option \<Rightarrow> string \<Rightarrow> http_request \<Rightarrow> string" where
  "form_value multipart limit key r =
     (case map_get [] (map_of (post_form limit r)) key @ map_get [] (map_of (fst (parse_query (rq_RawQuery r)))) key @
           multipart of
        [] \<Rightarrow> ''''
      | v # _ \<Rightarrow> v)"

definition presented_csrf :: "string list \<Rightarrow> int option \<Rightarrow> http_request \<Rightarrow> string" where
  "presented_csrf multipart limit r =
     (if header_get (rq_Header r) ''X-CSRF-Token'' = '''' then form_value multipart limit ''csrf_token'' r
      else header_get (rq_Header r) ''X-CSRF-Token'')"

definition validate_csrf ::
  "string list \<Rightarrow> int option \<Rightarrow> http_request \<Rightarrow> string \<Rightarrow> session_state \<Rightarrow> bool" where
  "validate_csrf multipart limit r sessionToken ss =
     (case request_cookie (rq_Header r) ''csrf_token'' of
        None \<Rightarrow> False
      | Some v \<Rightarrow>
          if v = '''' then False
          else if presented_csrf multipart limit r \<noteq> v then False
          else verify_csrf_session_binding sessionToken (presented_csrf multipart limit r) ss)"

section \<open>The handlers\<close>

record set_cookie =
  sc_Name :: string
  sc_Value :: string
  sc_Path :: string
  sc_HttpOnly :: bool
  sc_Secure :: bool
  sc_Lax :: bool
  sc_MaxAge :: int

datatype auth_outcome =
    Refused int string
  | RedirectedTo string
  | HandedOn string "int option"

record auth_response =
  au_header :: headers
  au_cookies :: "set_cookie list"
  au_outcome :: auth_outcome

record auth_env =
  ae_nonce :: "8 word list option"
  ae_token :: "8 word list option"
  ae_checked :: instant
  ae_renewed :: instant
  ae_accessed :: instant
  ae_counted :: instant
  ae_stmt :: bool
  ae_multipart :: "string list"

definition ip_whitelist :: "http_request \<Rightarrow> 'g admin_state \<Rightarrow> (int \<times> string) option" where
  "ip_whitelist r s = (if is_ip_allowed (remote_host r) s then None else Some (403, ''Forbidden''))"

definition common_csp :: string where
  "common_csp =
     ''default-src 'self'; style-src 'self' 'unsafe-inline'; script-src 'self' 'unsafe-inline'; img-src 'self' data:; connect-src 'self' ws: wss:;''"

definition set_common_security_headers :: "http_request \<Rightarrow> headers \<Rightarrow> headers" where
  "set_common_security_headers r h =
     (let h = header_set ''X-Content-Type-Options'' ''nosniff'' h;
          h = header_set ''X-Frame-Options'' ''DENY'' h;
          h = header_set ''Referrer-Policy'' ''strict-origin-when-cross-origin'' h;
          h = header_set ''Content-Security-Policy'' common_csp h;
          h = header_set ''Permissions-Policy'' ''camera=(), microphone=(), geolocation=()'' h
      in if rq_TLS r then header_set ''Strict-Transport-Security'' ''max-age=31536000; includeSubDomains'' h else h)"

definition security_headers_only :: "8 word list option \<Rightarrow> http_request \<Rightarrow> auth_response" where
  "security_headers_only nonce r =
     \<lparr>au_header = set_common_security_headers r no_headers, au_cookies = [],
      au_outcome = HandedOn (generate_csp_nonce nonce) None\<rparr>"

definition expired_cookie :: "string \<Rightarrow> set_cookie" where
  "expired_cookie name =
     \<lparr>sc_Name = name, sc_Value = '''', sc_Path = ''/'', sc_HttpOnly = False, sc_Secure = False, sc_Lax = False, sc_MaxAge = -1\<rparr>"

definition csrf_cookie :: "string \<Rightarrow> http_request \<Rightarrow> session_state \<Rightarrow> set_cookie" where
  "csrf_cookie v r ss =
     \<lparr>sc_Name = ''csrf_token'', sc_Value = v, sc_Path = ''/'', sc_HttpOnly = False, sc_Secure = rq_TLS r,
      sc_Lax = True, sc_MaxAge = go_div (ss_ttl ss) nano_second\<rparr>"

text \<open>The limits of API calls: the answer refusing it, or the size its body may have.\<close>

definition api_limits ::
  "('g \<Rightarrow> bool \<times> 'g) \<Rightarrow> instant \<Rightarrow> http_request \<Rightarrow> 'g admin_state \<Rightarrow> ((int \<times> string) + int option) \<times> 'g admin_state" where
  "api_limits allow now r s =
     (let (ok, s) = check_global_rate_limit allow s in
      if \<not> ok then (Inl (429, ''Too Many Requests''), s)
      else
        let limit = (if rq_Method r \<noteq> ''GET'' \<and> rq_Method r \<noteq> ''HEAD'' \<and>
                        \<not> list_ex (has_prefix (rq_Path r)) api_body_exempt_paths
                     then Some (2 ^ 20) else None)
        in if list_ex (has_prefix (rq_Path r)) api_rate_exempt_paths then (Inr limit, s)
           else let (ok, s) = check_api_rate_limit now (remote_host r) s
                in (if ok then Inr limit else Inl (429, ''Too Many Requests''), s))"

text \<open>The CSRF cookie that goes out, and the session it is bound to when it is a new one.\<close>

definition renew_csrf ::
  "auth_env \<Rightarrow> string \<Rightarrow> http_request \<Rightarrow> session_state \<Rightarrow> set_cookie option \<times> session_state" where
  "renew_csrf e token r ss =
     (let old = (case request_cookie (rq_Header r) ''csrf_token'' of Some v \<Rightarrow> v | None \<Rightarrow> '''') in
      if old \<noteq> '''' then (Some (csrf_cookie old r ss), ss)
      else
        let new = generate_session_token (ae_token e) in
        if new = '''' then (None, ss) else (Some (csrf_cookie new r ss), bind_csrf_to_session token new ss))"

text \<open>The part after the CSRF cookie: limits, then the token of a request that writes.\<close>

definition auth_checks ::
  "('g \<Rightarrow> bool \<times> 'g) \<Rightarrow> auth_env \<Rightarrow> string \<Rightarrow> http_request \<Rightarrow> 'g admin_state \<Rightarrow> auth_outcome \<times> 'g admin_state" where
  "auth_checks allow e token r s =
     (let (limits, s) = (if has_prefix (rq_Path r) ''/api/'' then api_limits allow (ae_counted e) r s else (Inr None, s))
      in case limits of
           Inl (code, msg) \<Rightarrow> (Refused code msg, s)
         | Inr limit \<Rightarrow>
             if rq_Method r \<notin> {''GET'', ''HEAD'', ''OPTIONS''} \<and>
                \<not> validate_csrf (ae_multipart e) limit r token (ad_sessions s)
             then (Refused 403 ''Invalid CSRF Token'', s)
             else (HandedOn (generate_csp_nonce (ae_nonce e)) limit, s))"

definition auth ::
  "('g \<Rightarrow> bool \<times> 'g) \<Rightarrow> auth_env \<Rightarrow> http_request \<Rightarrow> 'g admin_state \<Rightarrow> auth_response \<times> 'g admin_state" where
  "auth allow e r s =
     (let respond = (\<lambda>cookies outcome. \<lparr>au_header = set_common_security_headers r no_headers, au_cookies = cookies, au_outcome = outcome\<rparr>)
      in case request_cookie (rq_Header r) ''session'' of
           Some token \<Rightarrow>
             if is_valid_session (ae_checked e) token (ad_sessions s) then
               let ss = renew_session (ae_stmt e) (ae_renewed e) token (ad_sessions s);
                   (alert, ss) = check_session_security (ae_stmt e) (ae_accessed e) token (remote_host r)
                     (header_get (rq_Header r) ''User-Agent'') ss
               in if alert \<noteq> None
                  then (respond [expired_cookie ''session'', expired_cookie ''csrf_token''] (RedirectedTo ''/login?alert=session_hijack''),
                        s\<lparr>ad_sessions := remove_session (ae_stmt e) token ss\<rparr>)
                  else case renew_csrf e token r ss of
                         (None, ss) \<Rightarrow> (respond [] (Refused 500 ''Failed to generate CSRF token''), s\<lparr>ad_sessions := ss\<rparr>)
                       | (Some c, ss) \<Rightarrow>
                           let (outcome, s) = auth_checks allow e token r (s\<lparr>ad_sessions := ss\<rparr>)
                           in (respond [c] outcome, s)
             else (respond [] (if has_prefix (rq_Path r) ''/api/'' then Refused 401 ''Unauthorized'' else RedirectedTo ''/login''), s)
         | None \<Rightarrow> (respond [] (if has_prefix (rq_Path r) ''/api/'' then Refused 401 ''Unauthorized'' else RedirectedTo ''/login''), s))"

end
