(* ===== verification/AdminAuthProps.thy ===== *)
theory AdminAuthProps
  imports AdminAuth
begin

text \<open>
  What the middleware of the administration pages guarantees: sessions and CSRF tokens, rates of calls,
  addresses.
\<close>

subsection \<open>Requests that write\<close>

lemma global_limit_sessions [simp]:
  "ad_sessions (snd (check_global_rate_limit allow s)) = ad_sessions s"
  "check_global_rate_limit allow (s\<lparr>ad_sessions := ss\<rparr>) =
     (fst (check_global_rate_limit allow s), snd (check_global_rate_limit allow s)\<lparr>ad_sessions := ss\<rparr>)"
  by (simp_all add: check_global_rate_limit_def case_prod_unfold Let_def split: option.split)

lemma api_limit_sessions [simp]:
  "ad_sessions (snd (check_api_rate_limit now ip s)) = ad_sessions s"
  "fst (check_api_rate_limit now ip (s\<lparr>ad_sessions := ss\<rparr>)) = fst (check_api_rate_limit now ip s)"
  by (simp_all add: check_api_rate_limit_def valid_requests_def Let_def)

lemma limits_keep_sessions [simp]: "ad_sessions (snd (api_limits allow now r s)) = ad_sessions s"
  by (simp add: api_limits_def Let_def case_prod_unfold)

lemma limits_ignore_sessions [simp]:
  "fst (api_limits allow now r (s\<lparr>ad_sessions := ss\<rparr>)) = fst (api_limits allow now r s)"
  by (simp add: api_limits_def Let_def case_prod_unfold)

definition page_limits ::
  "('g \<Rightarrow> bool \<times> 'g) \<Rightarrow> instant \<Rightarrow> http_request \<Rightarrow> 'g admin_state \<Rightarrow> (int \<times> string) + int option" where
  "page_limits allow now r s =
     (if has_prefix (rq_Path r) ''/api/'' then fst (api_limits allow now r s) else Inr None)"

lemma auth_checks_outcome:
  "fst (auth_checks allow e token r s) =
     (case page_limits allow (ae_counted e) r s of
        Inl (code, msg) \<Rightarrow> Refused code msg
      | Inr limit \<Rightarrow>
          if rq_Method r \<notin> {''GET'', ''HEAD'', ''OPTIONS''} \<and>
             \<not> validate_csrf (ae_multipart e) limit r token (ad_sessions s)
          then Refused 403 ''Invalid CSRF Token''
          else HandedOn (generate_csp_nonce (ae_nonce e)) limit)"
proof (cases "has_prefix (rq_Path r) ''/api/''")
  case True
  obtain l s' where l: "api_limits allow (ae_counted e) r s = (l, s')" by fastforce
  have "ad_sessions s' = ad_sessions s"
    using limits_keep_sessions[of allow "ae_counted e" r s] l by simp
  then show ?thesis
    using True by (cases l) (simp_all add: auth_checks_def page_limits_def l Let_def case_prod_unfold)
qed (simp add: auth_checks_def page_limits_def)

lemma renewed_csrf: "map_option se_csrfToken (ss_store (renew_session ok now t ss) t') = map_option se_csrfToken (ss_store ss t')"
  by (simp add: renew_session_def set_db_def split: option.split)

lemma csrf_binding_iff:
  "verify_csrf_session_binding t c ss \<longleftrightarrow>
     c \<noteq> '''' \<and> (\<exists>b. map_option se_csrfToken (ss_store ss t) = Some b \<and> (b = '''' \<or> b = c))"
  by (auto simp: verify_csrf_session_binding_def split: option.split)

lemma checked_store: "ss_store (snd (check_session_security ok now i ip ua s)) = ss_store s"
  by (simp add: check_session_security_def Let_def split: option.split prod.split)

text \<open>
  C5. Which writing requests pass the middleware: exactly those that carry a session cookie in force and
  a CSRF cookie, present the same token in the header or in the form, bound to that session
  or to none, when the guard sees nothing wrong and the limits of API calls are kept. The
  body goes on with the size limit those set.
\<close>

theorem write_passes_iff:
  assumes "rq_Method r \<notin> {''GET'', ''HEAD'', ''OPTIONS''}"
  shows "(\<exists>nonce. au_outcome (fst (auth allow e r s)) = HandedOn nonce limit) \<longleftrightarrow>
    (\<exists>token c x.
       request_cookie (rq_Header r) ''session'' = Some token \<and>
       is_valid_session (ae_checked e) token (ad_sessions s) \<and>
       fst (check_session_security (ae_stmt e) (ae_accessed e) token (remote_host r)
         (header_get (rq_Header r) ''User-Agent'')
         (renew_session (ae_stmt e) (ae_renewed e) token (ad_sessions s))) = None \<and>
       page_limits allow (ae_counted e) r s = Inr limit \<and>
       request_cookie (rq_Header r) ''csrf_token'' = Some c \<and> c \<noteq> '''' \<and>
       presented_csrf (ae_multipart e) limit r = c \<and>
       ss_store (ad_sessions s) token = Some x \<and> se_csrfToken x \<in> {'''', c})"
    (is "?passes \<longleftrightarrow> ?ok")
proof (cases "request_cookie (rq_Header r) ''session''")
  case None
  then show ?thesis by (simp add: auth_def Let_def)
next
  case (Some token)
  note tok = Some
  show ?thesis
  proof (cases "is_valid_session (ae_checked e) token (ad_sessions s)")
    case False
    then show ?thesis by (simp add: auth_def Let_def tok)
  next
    case True
    define ss1 where "ss1 = renew_session (ae_stmt e) (ae_renewed e) token (ad_sessions s)"
    obtain alert ss2 where ss2: "check_session_security (ae_stmt e) (ae_accessed e) token (remote_host r)
        (header_get (rq_Header r) ''User-Agent'') ss1 = (alert, ss2)" by fastforce
    have bound: "map_option se_csrfToken (ss_store ss2 token) = map_option se_csrfToken (ss_store (ad_sessions s) token)"
      using checked_store[of "ae_stmt e" "ae_accessed e" token "remote_host r" "header_get (rq_Header r) ''User-Agent''" ss1]
        renewed_csrf[of "ae_stmt e" "ae_renewed e" token "ad_sessions s" token, folded ss1_def]
      by (simp add: ss2)
    show ?thesis
    proof (cases "alert = None")
      case False
      then show ?thesis by (auto simp: auth_def Let_def tok True ss2 ss1_def[symmetric])
    next
      case alert: True
      show ?thesis
      proof (cases "\<exists>c. request_cookie (rq_Header r) ''csrf_token'' = Some c \<and> c \<noteq> ''''")
        case c: True
        then obtain c where c: "request_cookie (rq_Header r) ''csrf_token'' = Some c" "c \<noteq> ''''" by blast
        have "fst (auth allow e r s) =
            \<lparr>au_header = set_common_security_headers r no_headers, au_cookies = [csrf_cookie c r ss2],
             au_outcome = fst (auth_checks allow e token r (s\<lparr>ad_sessions := ss2\<rparr>))\<rparr>"
          by (simp add: auth_def Let_def tok True ss2 ss1_def[symmetric] alert renew_csrf_def c case_prod_unfold)
        moreover have "page_limits allow (ae_counted e) r (s\<lparr>ad_sessions := ss2\<rparr>) = page_limits allow (ae_counted e) r s"
          by (simp add: page_limits_def)
        ultimately have "?passes \<longleftrightarrow> page_limits allow (ae_counted e) r s = Inr limit \<and>
            validate_csrf (ae_multipart e) limit r token ss2"
          using assms by (auto simp: auth_checks_outcome split: sum.split)
        also have "\<dots> \<longleftrightarrow> ?ok"
          using c tok True alert bound
          by (auto simp: validate_csrf_def csrf_binding_iff ss2 ss1_def[symmetric] split: if_splits)
        finally show ?thesis .
      next
        case False
        then have "\<not> validate_csrf m l r t x" for m l t x
          by (auto simp: validate_csrf_def split: option.split)
        then have "\<not> ?passes"
          using assms by (auto simp: auth_def Let_def tok True ss2 ss1_def[symmetric] alert auth_checks_outcome
              case_prod_unfold split: option.splits sum.splits if_splits)
        then show ?thesis using False by blast
      qed
    qed
  qed
qed

definition form_post :: http_request where
  "form_post =
     \<lparr>rq_Method = ''POST'', rq_Path = ''/save'', rq_RawQuery = '''', rq_Proto = ''HTTP/1.1'', rq_Host = ''h'',
      rq_RemoteAddr = ''127.0.0.1:5'', rq_TLS = True, rq_ContentLength = 0,
      rq_Header = no_headers(''Cookie'' := [''session=t; csrf_token=c''], ''X-Csrf-Token'' := [''c'']), rq_Body = Some ''''\<rparr>"

definition sample_admin :: "unit admin_state" where
  "sample_admin =
     \<lparr>ad_allowedNets = [], ad_allowAll = False, ad_apiRequests = [], ad_limiter = None, ad_apiRateLimit = 60,
      ad_apiRateWindow = 60 * nano_second,
      ad_sessions = add_session_with_csrf True nano_second ''t'' ''u'' ''c''
        \<lparr>ss_store = Map.empty, ss_db = None, ss_ttl = hour, ss_absoluteTTL = hour, ss_safe = None\<rparr>,
      ad_maxRequestBody = 0\<rparr>"

definition sample_auth_env :: auth_env where
  "sample_auth_env =
     \<lparr>ae_nonce = None, ae_token = None, ae_checked = 2 * nano_second, ae_renewed = 2 * nano_second,
      ae_accessed = 2 * nano_second, ae_counted = 2 * nano_second, ae_stmt = True, ae_multipart = []\<rparr>"

lemma form_post_reads:
  "request_cookie (rq_Header form_post) ''session'' = Some ''t''"
  "request_cookie (rq_Header form_post) ''csrf_token'' = Some ''c''"
  "presented_csrf [] None form_post = ''c''"
  by code_simp+

theorem write_passes_iff_witness:
  "\<exists>nonce. au_outcome (fst (auth (\<lambda>g. (True, g)) sample_auth_env form_post sample_admin)) = HandedOn nonce None"
proof -
  have m: "rq_Method form_post \<notin> {''GET'', ''HEAD'', ''OPTIONS''}" "\<not> has_prefix (rq_Path form_post) ''/api/''"
    by (simp_all add: form_post_def has_prefix_def)
  let ?x = "\<lparr>se_createdAt = nano_second, se_originalCreatedAt = nano_second, se_username = ''u'', se_csrfToken = ''c''\<rparr>"
  have st: "ss_store (ad_sessions sample_admin) ''t'' = Some ?x"
    by (simp add: sample_admin_def add_session_with_csrf_def set_db_def)
  have v: "is_valid_session (ae_checked sample_auth_env) ''t'' (ad_sessions sample_admin)"
    by (simp add: is_valid_session_def st sample_auth_env_def time_sub_def)
      (simp add: sample_admin_def add_session_with_csrf_def set_db_def)
  have g: "fst (check_session_security ok now t i u (renew_session ok' now' t (ad_sessions sample_admin))) = None" for ok now t i u ok' now'
    by (simp add: check_session_security_def renew_session_def set_db_def sample_admin_def add_session_with_csrf_def split: option.split)
  show ?thesis
    unfolding write_passes_iff[OF m(1)]
    using form_post_reads st v g m(2)
    by (intro exI[of _ "''t''"] exI[of _ "''c''"] exI[of _ ?x]) (simp add: page_limits_def sample_auth_env_def)
qed

subsection \<open>Addresses allowed by default\<close>

lemma loopback4_parses: "parse_cidr ''127.0.0.1/8'' = Some (Net4 0x7F000000 8)"
proof -
  have "''127.0.0.1/8'' = cidr4_string 0x7F000001 8"
    by (simp add: cidr4_string_def ipv4_string_def dec_string.simps) code_simp
  moreover have "(0x7F000001 :: 32 word) AND mask32 8 = 0x7F000000"
    by code_simp
  ultimately show ?thesis
    using parse_cidr_string[where n = 8 and w = "0x7F000001"] by simp
qed

lemma loopback6_parses: "parse_cidr ''::1/128'' = Some (Net6 1 128)"
proof -
  have "ipv6_groups 8 ''1'' [] (Some 0) = Some ([1], Some 0)" "expand_groups ([1], Some 0) = Some [0,0,0,0,0,0,0,1]"
    by code_simp+
  then have "parse_ipv6 ''::1'' = Some 1"
    by (simp add: parse_ipv6_def word_of_groups_def)
  then have "parse_ip ''::1'' = Some (V6 1)"
    by (simp add: parse_ip_def normalise_v6_def)
  moreover have "parse_prefix_len ''128'' = Some 128"
    by code_simp
  ultimately show ?thesis
    by (simp add: parse_cidr_def mask128_def)
qed

lemma default_nets: "ad_allowedNets (init_admin_allowed_nets [] s) = [Net4 0x7F000000 8, Net6 1 128]"
  by (simp add: init_admin_allowed_nets_def List.map_filter_simps single_address_def loopback4_parses loopback6_parses)

text \<open>
  Until an operator names networks, the pages answer exactly the loopback addresses, of either family;
  what is no address is refused.
\<close>

theorem default_allows_loopback:
  "is_ip_allowed s (init_admin_allowed_nets [] st) \<longleftrightarrow> (\<exists>ip. parse_ip s = Some ip \<and> is_loopback ip)"
proof -
  have "ad_allowAll (init_admin_allowed_nets [] st) = False"
    by (simp add: init_admin_allowed_nets_def)
  moreover have "contains (Net4 0x7F000000 8) ip \<or> contains (Net6 1 128) ip \<longleftrightarrow> is_loopback ip" for ip
  proof (cases ip)
    case (V4 w)
    have "drop_bit 24 w = 127 \<longleftrightarrow> unat w div 2 ^ 24 = 127"
      unfolding word_unat_eq_iff unat_drop_bit_eq by (simp add: drop_bit_eq_div)
    then show ?thesis
      by (simp add: V4 contains_def and_mask32_eq_iff is_loopback_def)
  next
    case (V6 w)
    have "mask128 128 = - 1"
      by (simp add: mask128_def)
    then show ?thesis
      by (simp add: V6 contains_def is_loopback_def)
  qed
  ultimately show ?thesis
    by (simp add: is_ip_allowed_def default_nets split: option.split)
qed

subsection \<open>Rates of API calls\<close>

text \<open>Calls of the limiter and ticks of the cleaning, with their times; the calls let through.\<close>

datatype api_event = Call instant string | Tick instant

fun api_time :: "api_event \<Rightarrow> instant" where
  "api_time (Call now ip) = now"
| "api_time (Tick now) = now"

fun api_run :: "api_event list \<Rightarrow> 'g admin_state \<Rightarrow> (instant \<times> string) list \<times> 'g admin_state" where
  "api_run [] s = ([], s)"
| "api_run (Tick now # es) s = api_run es (cleanup_api_rate_limit now s)"
| "api_run (Call now ip # es) s =
     (let (ok, s) = check_api_rate_limit now ip s; (accepted, s) = api_run es s
      in (if ok then (now, ip) # accepted else accepted, s))"

definition calls_within :: "(instant \<times> string) list \<Rightarrow> string \<Rightarrow> duration \<Rightarrow> instant \<Rightarrow> nat" where
  "calls_within accepted ip d t = length (filter (\<lambda>(t', ip'). ip' = ip \<and> t - d < t' \<and> t' \<le> t) accepted)"

text \<open>
  The store against the calls let through so far (\<open>acc\<close>): it holds those of the last window, and the
  bounds hold for every span so far.
\<close>

definition api_ok :: "instant \<Rightarrow> (instant \<times> string) list \<Rightarrow> 'g admin_state \<Rightarrow> bool" where
  "api_ok now acc s \<longleftrightarrow>
     distinct (map fst (ad_apiRequests s)) \<and> (\<forall>(t, ip) \<in> set acc. t \<le> now) \<and>
     (\<forall>ip. filter (\<lambda>t. t > now - ad_apiRateWindow s) (map_get [] (map_of (ad_apiRequests s)) ip) =
           filter (\<lambda>t. t > now - ad_apiRateWindow s) (map fst (filter (\<lambda>(t, ip'). ip' = ip) acc))) \<and>
     (\<forall>ip t. int (calls_within acc ip (ad_apiRateWindow s) t) \<le> ad_apiRateLimit s \<and>
            calls_within acc ip nano_second t \<le> 10)"

lemma map_of_kept:
  "distinct (map fst m) \<Longrightarrow>
   map_of (filter (\<lambda>(k, v). P v) m) k = (case map_of m k of Some v \<Rightarrow> if P v then Some v else None | None \<Rightarrow> None)"
proof (induction m)
  case (Cons x m)
  obtain k' v where x: "x = (k', v)" by fastforce
  have "map_of (filter (\<lambda>(k, v). P v) m) k' = None"
    using Cons.prems x by (auto simp: map_of_eq_None_iff)
  then show ?case
    using Cons x by (auto simp: map_of_eq_None_iff split: option.split)
qed simp

lemma filter_later: "a \<le> b \<Longrightarrow> filter (\<lambda>t :: int. t > b) (filter (\<lambda>t. t > a) ts) = filter (\<lambda>t. t > b) ts"
  by (induction ts) auto

lemma later_windows:
  assumes "filter (\<lambda>t :: int. t > a) xs = filter (\<lambda>t. t > a) ys" "a \<le> b"
  shows "filter (\<lambda>t. t > b) xs = filter (\<lambda>t. t > b) ys"
  using arg_cong[OF assms(1), of "filter (\<lambda>t. t > b)"] assms(2) by (simp add: filter_later del: filter_filter)

lemma api_ok_later: "api_ok now acc s \<Longrightarrow> now \<le> now' \<Longrightarrow> api_ok now' acc s"
  unfolding api_ok_def by (auto intro: later_windows[of "now - ad_apiRateWindow s"] order_trans)

text \<open>Removing lists with nothing in the window changes nothing that counts.\<close>

lemma api_ok_map:
  assumes "api_ok now acc s" "ad_apiRateWindow s' = ad_apiRateWindow s" "ad_apiRateLimit s' = ad_apiRateLimit s"
    "distinct (map fst (ad_apiRequests s'))"
    "\<And>ip. filter (\<lambda>t. t > now - ad_apiRateWindow s) (map_get [] (map_of (ad_apiRequests s')) ip) =
          filter (\<lambda>t. t > now - ad_apiRateWindow s) (map_get [] (map_of (ad_apiRequests s)) ip)"
  shows "api_ok now acc s'"
  using assms unfolding api_ok_def by simp

lemma api_ok_tick:
  assumes "api_ok now acc s" "0 < ad_apiRateWindow s" "ad_apiRateWindow s < 2 ^ 63 - 1"
  shows "api_ok now acc (cleanup_api_rate_limit now s)"
proof (rule api_ok_map[OF assms(1)])
  let ?m = "map (\<lambda>(k, requests). (k, filter (\<lambda>t. time_sub now t \<le> ad_apiRateWindow s) requests)) (ad_apiRequests s)"
  have d: "distinct (map fst ?m)" "distinct (map fst (ad_apiRequests s))"
    using assms(1) by (simp_all add: api_ok_def case_prod_unfold comp_def)
  then show "distinct (map fst (ad_apiRequests (cleanup_api_rate_limit now s)))"
    by (simp add: cleanup_api_rate_limit_def distinct_map_filter)
  have get: "map_of ?m ip = map_option (filter (\<lambda>t. time_sub now t \<le> ad_apiRateWindow s)) (map_of (ad_apiRequests s) ip)" for ip
    by (simp add: map_of_map)
  have "t > now - ad_apiRateWindow s \<Longrightarrow> time_sub now t \<le> ad_apiRateWindow s" for t
    using assms(2,3) by (auto simp: time_sub_def)
  then have f: "filter (\<lambda>t. t > now - ad_apiRateWindow s) (filter (\<lambda>t. time_sub now t \<le> ad_apiRateWindow s) ts) =
      filter (\<lambda>t. t > now - ad_apiRateWindow s) ts" for ts
    by (auto intro!: filter_cong)
  have "map_get [] (map_of (filter (\<lambda>(k, v). v \<noteq> []) ?m)) ip =
      filter (\<lambda>t. time_sub now t \<le> ad_apiRateWindow s) (map_get [] (map_of (ad_apiRequests s)) ip)" for ip
    using map_of_kept[OF d(1), of "\<lambda>v. v \<noteq> []" ip] by (simp add: map_get_def get split: option.split)
  then show "filter (\<lambda>t. t > now - ad_apiRateWindow s) (map_get [] (map_of (ad_apiRequests (cleanup_api_rate_limit now s))) ip) =
      filter (\<lambda>t. t > now - ad_apiRateWindow s) (map_get [] (map_of (ad_apiRequests s)) ip)" for ip
    using f by (simp add: cleanup_api_rate_limit_def del: filter_filter)
qed (simp_all add: cleanup_api_rate_limit_def)

lemma api_ok_drop_idle:
  assumes "api_ok now acc s" "ad_apiRateWindow s \<le> 24 * hour"
  shows "api_ok now acc (s\<lparr>ad_apiRequests := drop_idle now (ad_apiRequests s)\<rparr>)"
proof (rule api_ok_map[OF assms(1)])
  have d: "distinct (map fst (ad_apiRequests s))"
    using assms(1) by (simp add: api_ok_def)
  then show "distinct (map fst (ad_apiRequests (s\<lparr>ad_apiRequests := drop_idle now (ad_apiRequests s)\<rparr>)))"
    by (simp add: drop_idle_def distinct_map_filter)
  have "filter (\<lambda>t. t > now - ad_apiRateWindow s) v = []" if "\<not> (\<exists>t \<in> set v. t > now - 24 * hour)" for v
    using that assms(2) by (force simp: filter_empty_conv)
  then show "filter (\<lambda>t. t > now - ad_apiRateWindow s)
        (map_get [] (map_of (ad_apiRequests (s\<lparr>ad_apiRequests := drop_idle now (ad_apiRequests s)\<rparr>))) ip) =
      filter (\<lambda>t. t > now - ad_apiRateWindow s) (map_get [] (map_of (ad_apiRequests s)) ip)" for ip
    using map_of_kept[OF d, of "\<lambda>v. \<exists>t \<in> set v. t > now - 24 * hour" ip]
    by (auto simp: drop_idle_def map_get_def split: option.split)
qed simp_all

text \<open>Keeping only the calls of the window, under one address.\<close>

lemma api_ok_valid:
  assumes "api_ok now acc s"
  shows "api_ok now acc (s\<lparr>ad_apiRequests := AList.update ip (valid_requests now ip s) (ad_apiRequests s)\<rparr>)"
  by (rule api_ok_map[OF assms])
    (use assms in \<open>auto simp: api_ok_def map_get_def update_conv' distinct_update valid_requests_def\<close>)

lemma calls_within_add:
  "calls_within (acc @ [(now, ip)]) ip' d t =
     calls_within acc ip' d t + (if ip' = ip \<and> t - d < now \<and> now \<le> t then 1 else 0)"
  by (simp add: calls_within_def)

text \<open>From \<open>now\<close> on a span sees at most the calls after its beginning.\<close>

lemma calls_within_now:
  "now \<le> t \<Longrightarrow> calls_within acc ip d t \<le> length (filter (\<lambda>t. t > now - d) (map fst (filter (\<lambda>(t, ip'). ip' = ip) acc)))"
  by (induction acc) (auto simp: calls_within_def)

lemma api_ok_accept:
  assumes ok: "api_ok now acc s" and w: "nano_second \<le> ad_apiRateWindow s"
    and one: "length (filter (\<lambda>t. t > now - nano_second) (valid_requests now ip s)) < 10"
    and all: "int (length (valid_requests now ip s)) < ad_apiRateLimit s"
  shows "api_ok now (acc @ [(now, ip)])
    (s\<lparr>ad_apiRequests := AList.update ip (valid_requests now ip s @ [now]) (ad_apiRequests s)\<rparr>)"
proof -
  let ?mine = "map fst (filter (\<lambda>(t, ip'). ip' = ip) acc)"
  have v: "valid_requests now ip s = filter (\<lambda>t. t > now - ad_apiRateWindow s) ?mine"
    using ok by (simp add: api_ok_def valid_requests_def)
  have "filter (\<lambda>t. t > now - nano_second) (valid_requests now ip s) = filter (\<lambda>t. t > now - nano_second) ?mine"
    unfolding v by (rule filter_later) (use w in simp)
  then have now: "int (calls_within acc ip (ad_apiRateWindow s) t) + 1 \<le> ad_apiRateLimit s"
      "calls_within acc ip nano_second t + 1 \<le> 10" if "now \<le> t" for t
    using calls_within_now[OF that, of acc ip "ad_apiRateWindow s"] calls_within_now[OF that, of acc ip nano_second]
      one all v by simp_all
  show ?thesis
    using ok now by (auto simp: api_ok_def calls_within_add map_get_def update_conv' distinct_update valid_requests_def)
qed

lemma api_ok_call:
  assumes "api_ok now acc s" "nano_second \<le> ad_apiRateWindow s" "ad_apiRateWindow s \<le> 24 * hour" "0 < ad_apiRateLimit s"
    "check_api_rate_limit now ip s = (ok, s')"
  shows "api_ok now (if ok then acc @ [(now, ip)] else acc) s' \<and>
    ad_apiRateWindow s' = ad_apiRateWindow s \<and> ad_apiRateLimit s' = ad_apiRateLimit s"
proof -
  let ?s = "s\<lparr>ad_apiRequests := drop_idle now (AList.update ip (valid_requests now ip s) (ad_apiRequests s))\<rparr>"
  have s: "api_ok now acc ?s"
    using api_ok_drop_idle[OF api_ok_valid[OF assms(1), of ip]] assms(3) by simp
  have "valid_requests now ip ?s = valid_requests now ip s"
    using s assms(1) by (simp add: api_ok_def valid_requests_def)
  then show ?thesis
    using api_ok_accept[OF s, of ip] s assms(2,4,5)
    by (auto simp: check_api_rate_limit_def Let_def split: if_splits)
qed

lemma api_ok_run:
  assumes "api_ok now acc s" "nano_second \<le> ad_apiRateWindow s" "ad_apiRateWindow s \<le> 24 * hour" "0 < ad_apiRateLimit s"
    "sorted (now # map api_time es)"
  shows "\<exists>now'. api_ok now' (acc @ fst (api_run es s)) (snd (api_run es s)) \<and>
    ad_apiRateWindow (snd (api_run es s)) = ad_apiRateWindow s \<and> ad_apiRateLimit (snd (api_run es s)) = ad_apiRateLimit s"
  using assms
proof (induction es arbitrary: now acc s)
  case Nil
  then show ?case by auto
next
  case (Cons e es)
  have later: "api_ok (api_time e) acc s"
    using Cons.prems by (auto intro: api_ok_later)
  show ?case
  proof (cases e)
    case (Tick t)
    then show ?thesis
      using Cons.IH[of t acc "cleanup_api_rate_limit t s"] Cons.prems later api_ok_tick[of t acc s]
      by (simp add: cleanup_api_rate_limit_def)
  next
    case (Call t ip)
    obtain ok s' where c: "check_api_rate_limit t ip s = (ok, s')" by fastforce
    show ?thesis
      using Cons.IH[of t "if ok then acc @ [(t, ip)] else acc" s'] Cons.prems later api_ok_call[OF _ _ _ _ c, of acc]
      by (cases ok) (auto simp: Call c case_prod_unfold Let_def)
  qed
qed

text \<open>
  C13. The limit on API calls: whatever calls come from whatever addresses, and whenever the goroutine
  cleans, no address gets more calls through than the limit within any span as long as the
  window, nor more than ten within any second. Counted are the calls that reach the limit: those with one of the nine
  exempt prefixes never do. The limit is positive, the window between a second and a day, and both stay.
\<close>

theorem api_calls_bounded:
  assumes "ad_apiRequests s = []" "0 < ad_apiRateLimit s"
    "nano_second \<le> ad_apiRateWindow s" "ad_apiRateWindow s \<le> 24 * hour" "sorted (map api_time es)"
  shows "int (calls_within (fst (api_run es s)) ip (ad_apiRateWindow s) t) \<le> ad_apiRateLimit s \<and>
    calls_within (fst (api_run es s)) ip nano_second t \<le> 10"
proof -
  let ?t0 = "case es of [] \<Rightarrow> 0 | e # _ \<Rightarrow> api_time e"
  have "api_ok ?t0 [] s"
    using assms(1,2) by (simp add: api_ok_def calls_within_def map_get_def)
  moreover have "sorted (?t0 # map api_time es)"
    using assms(5) by (cases es) auto
  ultimately obtain now' where "api_ok now' (fst (api_run es s)) (snd (api_run es s))"
      "ad_apiRateWindow (snd (api_run es s)) = ad_apiRateWindow s" "ad_apiRateLimit (snd (api_run es s)) = ad_apiRateLimit s"
    using api_ok_run[of ?t0 "[]" s es] assms by auto
  then show ?thesis
    by (auto simp: api_ok_def)
qed

theorem api_calls_bounded_witness:
  "calls_within (fst (api_run (replicate 12 (Call 5 ''1.1.1.1'') @ [Tick 6]) sample_admin)) ''1.1.1.1'' nano_second 6 \<le> 10"
  by (rule conjunct2[OF api_calls_bounded[where t = 6]]) (simp_all add: sample_admin_def sorted_append)

end
