(* ===== verification/IntelConfig.thy ===== *)
theory IntelConfig
  imports GoText
begin

text \<open>
  The settings of the intelligence centre: \<open>internal/intel/config/config.go\<close>.

  Nested structures are records; a set of admitted words is the list the code's map holds. A list of Go that is
  nil and one that is empty are the same here, as every use of them makes no difference.

  Proved: the settings a deployment gets by merging its own over the defaults, and when they are valid.
\<close>

section \<open>Settings\<close>

record tls_config =
  tc_CACertPath :: string
  tc_InsecureSkipVerify :: bool

record sync_config =
  sy_Enabled :: bool
  sy_IntervalSecs :: int
  sy_DataTypes :: "string list"
  sy_FullOnDesync :: bool

record exclusion_config =
  ex_Enabled :: bool
  ex_Paths :: "string list"
  ex_IPs :: "string list"
  ex_Hosts :: "string list"

record upload_config =
  up_Enabled :: bool
  up_BatchSize :: int
  up_IntervalSecs :: int
  up_DataTypes :: "string list"
  up_AuditMode :: bool
  up_AutoApprovePaths :: "string list"
  up_MaxBodyLength :: int
  up_Exclusions :: exclusion_config

record intel_rule_config =
  rc_Priority :: string
  rc_IntelRulePrefix :: string
  rc_OverrideEnabled :: bool

record sensitive_filter_config =
  sf_Enabled :: bool
  sf_Action :: string
  sf_CustomPatterns :: "string list"

record offline_config =
  of_AllowOffline :: bool
  of_CacheRetentionDays :: int
  of_MaxCacheAgeHours :: int

record alert_config =
  al_OnConnectionLost :: bool
  al_OnSyncFailure :: bool
  al_OnLicenseExpiring :: bool
  al_OnUploadFailure :: bool
  al_OnEmergencyRule :: bool
  al_FailureThreshold :: int

record intel_config =
  in_Enabled :: bool
  in_ServerURL :: string
  in_LicenseKey :: string
  in_InstanceID :: string
  in_TLS :: tls_config
  in_ConnectTimeout :: int
  in_RequestTimeout :: int
  in_Sync :: sync_config
  in_Upload :: upload_config
  in_Rule :: intel_rule_config
  in_SensitiveFilter :: sensitive_filter_config
  in_Offline :: offline_config
  in_Alerts :: alert_config

definition default_intel_config :: intel_config where
  "default_intel_config =
     \<lparr>in_Enabled = False, in_ServerURL = '''', in_LicenseKey = '''', in_InstanceID = '''',
      in_TLS = \<lparr>tc_CACertPath = '''', tc_InsecureSkipVerify = False\<rparr>,
      in_ConnectTimeout = 10, in_RequestTimeout = 30,
      in_Sync = \<lparr>sy_Enabled = True, sy_IntervalSecs = 3600,
        sy_DataTypes = [''ip_blacklist'', ''threat_signatures'', ''ua_rules'', ''path_rules'', ''bot_ips'', ''geoip''],
        sy_FullOnDesync = True\<rparr>,
      in_Upload = \<lparr>up_Enabled = True, up_BatchSize = 50, up_IntervalSecs = 300,
        up_DataTypes = [''intercept_events'', ''false_positives''], up_AuditMode = False, up_AutoApprovePaths = [],
        up_MaxBodyLength = 4096,
        up_Exclusions = \<lparr>ex_Enabled = False, ex_Paths = [], ex_IPs = [], ex_Hosts = []\<rparr>\<rparr>,
      in_Rule = \<lparr>rc_Priority = ''local_first'', rc_IntelRulePrefix = ''intel-'', rc_OverrideEnabled = True\<rparr>,
      in_SensitiveFilter = \<lparr>sf_Enabled = True, sf_Action = ''mask'', sf_CustomPatterns = []\<rparr>,
      in_Offline = \<lparr>of_AllowOffline = True, of_CacheRetentionDays = 7, of_MaxCacheAgeHours = 24\<rparr>,
      in_Alerts = \<lparr>al_OnConnectionLost = True, al_OnSyncFailure = True, al_OnLicenseExpiring = True,
        al_OnUploadFailure = True, al_OnEmergencyRule = True, al_FailureThreshold = 3\<rparr>\<rparr>"

section \<open>Merging\<close>

text \<open>A setting of the deployment wins unless it is the zero value of its type.\<close>

definition or_text :: "string \<Rightarrow> string \<Rightarrow> string" where
  "or_text override base = (if override \<noteq> '''' then override else base)"

definition or_int :: "int \<Rightarrow> int \<Rightarrow> int" where
  "or_int override base = (if override \<noteq> 0 then override else base)"

definition or_texts :: "string list \<Rightarrow> string list \<Rightarrow> string list" where
  "or_texts override base = (if length override > 0 then override else base)"

definition merge_upload :: "upload_config \<Rightarrow> upload_config \<Rightarrow> upload_config" where
  "merge_upload b v =
     \<lparr>up_Enabled = up_Enabled v,
      up_BatchSize = or_int (up_BatchSize v) (up_BatchSize b),
      up_IntervalSecs = or_int (up_IntervalSecs v) (up_IntervalSecs b),
      up_DataTypes = or_texts (up_DataTypes v) (up_DataTypes b),
      up_AuditMode = up_AuditMode v,
      up_AutoApprovePaths = or_texts (up_AutoApprovePaths v) (up_AutoApprovePaths b),
      up_MaxBodyLength = or_int (up_MaxBodyLength v) (up_MaxBodyLength b),
      up_Exclusions =
        \<lparr>ex_Enabled = ex_Enabled (up_Exclusions v),
         ex_Paths = or_texts (ex_Paths (up_Exclusions v)) (ex_Paths (up_Exclusions b)),
         ex_IPs = or_texts (ex_IPs (up_Exclusions v)) (ex_IPs (up_Exclusions b)),
         ex_Hosts = or_texts (ex_Hosts (up_Exclusions v)) (ex_Hosts (up_Exclusions b))\<rparr>\<rparr>"

definition merge_settings :: "intel_config \<Rightarrow> intel_config \<Rightarrow> intel_config" where
  "merge_settings b v =
     \<lparr>in_Enabled = in_Enabled v,
      in_ServerURL = or_text (in_ServerURL v) (in_ServerURL b),
      in_LicenseKey = or_text (in_LicenseKey v) (in_LicenseKey b),
      in_InstanceID = or_text (in_InstanceID v) (in_InstanceID b),
      in_TLS = \<lparr>tc_CACertPath = or_text (tc_CACertPath (in_TLS v)) (tc_CACertPath (in_TLS b)),
                tc_InsecureSkipVerify = tc_InsecureSkipVerify (in_TLS v)\<rparr>,
      in_ConnectTimeout = or_int (in_ConnectTimeout v) (in_ConnectTimeout b),
      in_RequestTimeout = or_int (in_RequestTimeout v) (in_RequestTimeout b),
      in_Sync =
        \<lparr>sy_Enabled = sy_Enabled (in_Sync v),
         sy_IntervalSecs = or_int (sy_IntervalSecs (in_Sync v)) (sy_IntervalSecs (in_Sync b)),
         sy_DataTypes = or_texts (sy_DataTypes (in_Sync v)) (sy_DataTypes (in_Sync b)),
         sy_FullOnDesync = sy_FullOnDesync (in_Sync v)\<rparr>,
      in_Upload = merge_upload (in_Upload b) (in_Upload v),
      in_Rule =
        \<lparr>rc_Priority = or_text (rc_Priority (in_Rule v)) (rc_Priority (in_Rule b)),
         rc_IntelRulePrefix = or_text (rc_IntelRulePrefix (in_Rule v)) (rc_IntelRulePrefix (in_Rule b)),
         rc_OverrideEnabled = rc_OverrideEnabled (in_Rule v)\<rparr>,
      in_SensitiveFilter =
        \<lparr>sf_Enabled = sf_Enabled (in_SensitiveFilter v),
         sf_Action = or_text (sf_Action (in_SensitiveFilter v)) (sf_Action (in_SensitiveFilter b)),
         sf_CustomPatterns = or_texts (sf_CustomPatterns (in_SensitiveFilter v)) (sf_CustomPatterns (in_SensitiveFilter b))\<rparr>,
      in_Offline =
        \<lparr>of_AllowOffline = of_AllowOffline (in_Offline v),
         of_CacheRetentionDays = or_int (of_CacheRetentionDays (in_Offline v)) (of_CacheRetentionDays (in_Offline b)),
         of_MaxCacheAgeHours = or_int (of_MaxCacheAgeHours (in_Offline v)) (of_MaxCacheAgeHours (in_Offline b))\<rparr>,
      in_Alerts =
        \<lparr>al_OnConnectionLost = al_OnConnectionLost (in_Alerts v),
         al_OnSyncFailure = al_OnSyncFailure (in_Alerts v),
         al_OnLicenseExpiring = al_OnLicenseExpiring (in_Alerts v),
         al_OnUploadFailure = al_OnUploadFailure (in_Alerts v),
         al_OnEmergencyRule = al_OnEmergencyRule (in_Alerts v),
         al_FailureThreshold = or_int (al_FailureThreshold (in_Alerts v)) (al_FailureThreshold (in_Alerts b))\<rparr>\<rparr>"

definition merge_intel_config :: "intel_config option \<Rightarrow> intel_config option \<Rightarrow> intel_config option" where
  "merge_intel_config base override =
     (case override of
        None \<Rightarrow> base
      | Some v \<Rightarrow> (case base of None \<Rightarrow> override | Some b \<Rightarrow> Some (merge_settings b v)))"

section \<open>Validity\<close>

definition valid_priorities :: "string list" where
  "valid_priorities = [''local_first'', ''intel_first'', ''merge'']"

definition valid_filter_actions :: "string list" where
  "valid_filter_actions = [''mask'', ''reject'', ''warn'']"

definition valid_sync_data_types :: "string list" where
  "valid_sync_data_types = [''ip_blacklist'', ''threat_signatures'', ''ua_rules'', ''path_rules'', ''bot_ips'', ''geoip'']"

definition valid_upload_data_types :: "string list" where
  "valid_upload_data_types = [''intercept_events'', ''false_positives'']"

text \<open>The error, or \<open>None\<close>.\<close>

definition validate_intel_config :: "intel_config \<Rightarrow> string option" where
  "validate_intel_config cfg =
     (if \<not> in_Enabled cfg then None
      else if in_ServerURL cfg = '''' then Some ''intel.server_url is required when intel is enabled''
      else if \<not> has_prefix (in_ServerURL cfg) ''https://'' \<and> \<not> has_prefix (in_ServerURL cfg) ''http://''
      then Some ''intel.server_url must start with http:// or https://''
      else if rc_Priority (in_Rule cfg) \<notin> set valid_priorities
      then Some ''intel.rule.priority must be one of: local_first, intel_first, merge''
      else if sf_Enabled (in_SensitiveFilter cfg) \<and> sf_Action (in_SensitiveFilter cfg) \<notin> set valid_filter_actions
      then Some ''intel.sensitive_filter.action must be one of: mask, reject, warn''
      else if in_ConnectTimeout cfg \<le> 0 then Some ''intel.connect_timeout_secs must be positive''
      else if in_RequestTimeout cfg \<le> 0 then Some ''intel.request_timeout_secs must be positive''
      else if sy_IntervalSecs (in_Sync cfg) \<le> 0 then Some ''intel.sync.interval_secs must be positive''
      else if up_IntervalSecs (in_Upload cfg) \<le> 0 then Some ''intel.upload.interval_secs must be positive''
      else if up_BatchSize (in_Upload cfg) \<le> 0 then Some ''intel.upload.batch_size must be positive''
      else case find (\<lambda>dt. dt \<notin> set valid_sync_data_types) (sy_DataTypes (in_Sync cfg)) of
             Some dt \<Rightarrow> Some (''intel.sync.data_types contains invalid type: '' @ dt)
           | None \<Rightarrow>
               (case find (\<lambda>dt. dt \<notin> set valid_upload_data_types) (up_DataTypes (in_Upload cfg)) of
                  Some dt \<Rightarrow> Some (''intel.upload.data_types contains invalid type: '' @ dt)
                | None \<Rightarrow>
                    if of_CacheRetentionDays (in_Offline cfg) \<le> 0
                    then Some ''intel.offline.cache_retention_days must be positive''
                    else if al_FailureThreshold (in_Alerts cfg) \<le> 0
                    then Some ''intel.alerts.failure_threshold must be positive''
                    else None))"

lemma find_rejects:
  "(case find P xs of Some x \<Rightarrow> Some (f x) | None \<Rightarrow> r) = None \<longleftrightarrow> (\<forall>x \<in> set xs. \<not> P x) \<and> r = None"
  using find_None_iff[of P xs] find_Some_mem[of P xs] by (cases "find P xs") auto

lemma if_rejects: "(if c then Some x else r) = None \<longleftrightarrow> \<not> c \<and> r = None"
  by simp

lemma validate_iff:
  "in_Enabled cfg \<Longrightarrow> validate_intel_config cfg = None \<longleftrightarrow>
     in_ServerURL cfg \<noteq> '''' \<and>
     \<not> (\<not> has_prefix (in_ServerURL cfg) ''https://'' \<and> \<not> has_prefix (in_ServerURL cfg) ''http://'') \<and>
     \<not> rc_Priority (in_Rule cfg) \<notin> set valid_priorities \<and>
     \<not> (sf_Enabled (in_SensitiveFilter cfg) \<and> sf_Action (in_SensitiveFilter cfg) \<notin> set valid_filter_actions) \<and>
     \<not> in_ConnectTimeout cfg \<le> 0 \<and> \<not> in_RequestTimeout cfg \<le> 0 \<and> \<not> sy_IntervalSecs (in_Sync cfg) \<le> 0 \<and>
     \<not> up_IntervalSecs (in_Upload cfg) \<le> 0 \<and> \<not> up_BatchSize (in_Upload cfg) \<le> 0 \<and>
     (\<forall>dt \<in> set (sy_DataTypes (in_Sync cfg)). \<not> dt \<notin> set valid_sync_data_types) \<and>
     (\<forall>dt \<in> set (up_DataTypes (in_Upload cfg)). \<not> dt \<notin> set valid_upload_data_types) \<and>
     \<not> of_CacheRetentionDays (in_Offline cfg) \<le> 0 \<and> \<not> al_FailureThreshold (in_Alerts cfg) \<le> 0"
  by (simp only: validate_intel_config_def if_rejects find_rejects simp_thms if_True if_False)

text \<open>
  The settings a deployment gives, merged over the defaults, are rejected only for what they give
  themselves: no server with a known scheme, a number below zero, or a word that is not
  admitted. What they leave out never makes them invalid.
\<close>

theorem merged_settings_valid_iff:
  assumes "in_Enabled v"
  shows "validate_intel_config (merge_settings default_intel_config v) = None \<longleftrightarrow>
     (has_prefix (in_ServerURL v) ''https://'' \<or> has_prefix (in_ServerURL v) ''http://'') \<and>
     rc_Priority (in_Rule v) \<in> set ('''' # valid_priorities) \<and>
     (sf_Enabled (in_SensitiveFilter v) \<longrightarrow> sf_Action (in_SensitiveFilter v) \<in> set ('''' # valid_filter_actions)) \<and>
     0 \<le> in_ConnectTimeout v \<and> 0 \<le> in_RequestTimeout v \<and> 0 \<le> sy_IntervalSecs (in_Sync v) \<and>
     0 \<le> up_IntervalSecs (in_Upload v) \<and> 0 \<le> up_BatchSize (in_Upload v) \<and>
     set (sy_DataTypes (in_Sync v)) \<subseteq> set valid_sync_data_types \<and>
     set (up_DataTypes (in_Upload v)) \<subseteq> set valid_upload_data_types \<and>
     0 \<le> of_CacheRetentionDays (in_Offline v) \<and> 0 \<le> al_FailureThreshold (in_Alerts v)"
proof -
  have url: "or_text (in_ServerURL v) '''' = in_ServerURL v"
    by (simp add: or_text_def)
  have scheme: "in_ServerURL v \<noteq> ''''" if "has_prefix (in_ServerURL v) ''https://'' \<or> has_prefix (in_ServerURL v) ''http://''"
    using that by (auto simp: has_prefix_def)
  have words: "or_text a ''local_first'' \<in> set valid_priorities \<longleftrightarrow> a \<in> set ('''' # valid_priorities)"
    "or_text a ''mask'' \<in> set valid_filter_actions \<longleftrightarrow> a \<in> set ('''' # valid_filter_actions)" for a
    by (auto simp: or_text_def valid_priorities_def valid_filter_actions_def)
  have numbers: "0 < n \<Longrightarrow> or_int m n \<le> 0 \<longleftrightarrow> m < 0" for m n
    by (auto simp: or_int_def)
  have lists: "(\<forall>dt \<in> set (or_texts a valid_sync_data_types). dt \<in> set valid_sync_data_types) \<longleftrightarrow> set a \<subseteq> set valid_sync_data_types"
    "(\<forall>dt \<in> set (or_texts a valid_upload_data_types). dt \<in> set valid_upload_data_types) \<longleftrightarrow> set a \<subseteq> set valid_upload_data_types" for a
    by (auto simp: or_texts_def)
  let ?m = "merge_settings default_intel_config v"
  have m: "in_Enabled ?m" "in_ServerURL ?m = in_ServerURL v"
    "rc_Priority (in_Rule ?m) = or_text (rc_Priority (in_Rule v)) ''local_first''"
    "sf_Enabled (in_SensitiveFilter ?m) = sf_Enabled (in_SensitiveFilter v)"
    "sf_Action (in_SensitiveFilter ?m) = or_text (sf_Action (in_SensitiveFilter v)) ''mask''"
    "in_ConnectTimeout ?m = or_int (in_ConnectTimeout v) 10" "in_RequestTimeout ?m = or_int (in_RequestTimeout v) 30"
    "sy_IntervalSecs (in_Sync ?m) = or_int (sy_IntervalSecs (in_Sync v)) 3600"
    "up_IntervalSecs (in_Upload ?m) = or_int (up_IntervalSecs (in_Upload v)) 300"
    "up_BatchSize (in_Upload ?m) = or_int (up_BatchSize (in_Upload v)) 50"
    "sy_DataTypes (in_Sync ?m) = or_texts (sy_DataTypes (in_Sync v)) valid_sync_data_types"
    "up_DataTypes (in_Upload ?m) = or_texts (up_DataTypes (in_Upload v)) valid_upload_data_types"
    "of_CacheRetentionDays (in_Offline ?m) = or_int (of_CacheRetentionDays (in_Offline v)) 7"
    "al_FailureThreshold (in_Alerts ?m) = or_int (al_FailureThreshold (in_Alerts v)) 3"
    using assms by (simp_all add: merge_settings_def merge_upload_def default_intel_config_def url
        valid_sync_data_types_def valid_upload_data_types_def)
  show ?thesis
    unfolding validate_iff[OF m(1)] unfolding m not_not lists words
    using scheme numbers by auto
qed

theorem merged_settings_valid_iff_witness:
  "validate_intel_config (merge_settings default_intel_config
     (default_intel_config\<lparr>in_Enabled := True, in_ServerURL := ''https://i''\<rparr>)) = None"
  by (subst merged_settings_valid_iff)
    (simp_all add: default_intel_config_def has_prefix_def valid_priorities_def valid_filter_actions_def
      valid_sync_data_types_def valid_upload_data_types_def)

end
