(* ===== verification/RuntimeConfig.thy ===== *)
theory RuntimeConfig
  imports IntelConfig Regexp NetAddr
begin

text \<open>
  The settings of the program: \<open>internal/infra/config/config\<close> (\<open>config.go\<close>, \<open>validator.go\<close>, \<open>init.go\<close>).

  \<^item> \<open>config\<close> is what the file holds, \<open>runtime_config\<close> the settings kept in the data base under
    \<open>runtime_config\<close>. Of the file's settings of logging the rotation and the time format are modelled.
  \<^item> What \<open>gopkg.in/yaml.v3\<close> makes of the file and \<open>encoding/json\<close> of the row are arguments, as are the answers of
    the file system.
  \<^item> Not modelled: \<open>Save\<close>, which only writes the file, and the loggers the settings are handed to.

  Proved: which source wins for each setting, and which settings no source but the default can change; what
  a file needs to load.
\<close>

section \<open>Run-time settings\<close>

record log_fields =
  lf_Host :: bool
  lf_Query :: bool
  lf_Referer :: bool
  lf_ContentType :: bool
  lf_BodySize :: bool
  lf_LatencyUs :: bool

record log_config =
  lc_Level :: string
  lc_MaxSize :: int
  lc_MaxBackups :: int
  lc_MaxAge :: int
  lc_Compress :: bool
  lc_Fields :: log_fields

record retention_config =
  rt_LogRetentionDays :: int
  rt_MetricsRetentionDays :: int
  rt_AdminLogRetentionDays :: int

record session_safe_config =
  sfc_IPMutationThreshold :: int
  sfc_UADetectionEnabled :: bool

record security_config =
  sec_MaxAttempts :: int
  sec_BlockDuration :: int
  sec_SessionTTL :: int
  sec_AbsoluteTTL :: int
  sec_CleanupInterval :: int
  sec_CaptchaTTL :: int
  sec_APILimit :: int
  sec_APIWindow :: int

record performance_config =
  pf_LogChannelSize :: int
  pf_CacheSize :: int
  pf_CacheTTL :: int
  pf_MaxRequestBody :: int
  pf_ScanBuffer :: int
  pf_DisableCompression :: bool

record scheduler_config =
  sd_HealthCheck :: int
  sd_LogFlush :: int
  sd_LogCleanup :: int
  sd_MetricsCleanup :: int
  sd_RuleReload :: int

record websocket_config =
  ws_DashboardPush :: int
  ws_LogHeartbeat :: int
  ws_BufferSize :: int
  ws_BroadcastChannel :: int

record runtime_config =
  rn_Security :: security_config
  rn_Performance :: performance_config
  rn_Scheduler :: scheduler_config
  rn_WebSocket :: websocket_config
  rn_Log :: log_config
  rn_Retention :: retention_config
  rn_SessionSafe :: session_safe_config

definition default_runtime_config :: runtime_config where
  "default_runtime_config =
     \<lparr>rn_Security = \<lparr>sec_MaxAttempts = 5, sec_BlockDuration = 15, sec_SessionTTL = 8, sec_AbsoluteTTL = 24,
        sec_CleanupInterval = 5, sec_CaptchaTTL = 5, sec_APILimit = 300, sec_APIWindow = 1\<rparr>,
      rn_Performance = \<lparr>pf_LogChannelSize = 10000, pf_CacheSize = 1000, pf_CacheTTL = 5, pf_MaxRequestBody = 10,
        pf_ScanBuffer = 1024, pf_DisableCompression = True\<rparr>,
      rn_Scheduler = \<lparr>sd_HealthCheck = 5, sd_LogFlush = 2, sd_LogCleanup = 24, sd_MetricsCleanup = 1, sd_RuleReload = 5\<rparr>,
      rn_WebSocket = \<lparr>ws_DashboardPush = 2, ws_LogHeartbeat = 30, ws_BufferSize = 1024, ws_BroadcastChannel = 1000\<rparr>,
      rn_Log = \<lparr>lc_Level = ''info'', lc_MaxSize = 100, lc_MaxBackups = 10, lc_MaxAge = 7, lc_Compress = True,
        lc_Fields = \<lparr>lf_Host = False, lf_Query = False, lf_Referer = False, lf_ContentType = False, lf_BodySize = False,
          lf_LatencyUs = False\<rparr>\<rparr>,
      rn_Retention = \<lparr>rt_LogRetentionDays = 30, rt_MetricsRetentionDays = 30, rt_AdminLogRetentionDays = 90\<rparr>,
      rn_SessionSafe = \<lparr>sfc_IPMutationThreshold = 3, sfc_UADetectionEnabled = True\<rparr>\<rparr>"

subsection \<open>Merging\<close>

definition merge_security :: "security_config \<Rightarrow> security_config \<Rightarrow> security_config" where
  "merge_security b v =
     b\<lparr>sec_MaxAttempts := or_int (sec_MaxAttempts v) (sec_MaxAttempts b),
       sec_BlockDuration := or_int (sec_BlockDuration v) (sec_BlockDuration b),
       sec_SessionTTL := or_int (sec_SessionTTL v) (sec_SessionTTL b),
       sec_CleanupInterval := or_int (sec_CleanupInterval v) (sec_CleanupInterval b),
       sec_CaptchaTTL := or_int (sec_CaptchaTTL v) (sec_CaptchaTTL b),
       sec_APILimit := or_int (sec_APILimit v) (sec_APILimit b),
       sec_APIWindow := or_int (sec_APIWindow v) (sec_APIWindow b)\<rparr>"

definition merge_performance :: "performance_config \<Rightarrow> performance_config \<Rightarrow> performance_config" where
  "merge_performance b v =
     b\<lparr>pf_LogChannelSize := or_int (pf_LogChannelSize v) (pf_LogChannelSize b),
       pf_CacheSize := or_int (pf_CacheSize v) (pf_CacheSize b),
       pf_CacheTTL := or_int (pf_CacheTTL v) (pf_CacheTTL b),
       pf_MaxRequestBody := or_int (pf_MaxRequestBody v) (pf_MaxRequestBody b),
       pf_ScanBuffer := or_int (pf_ScanBuffer v) (pf_ScanBuffer b)\<rparr>"

definition merge_scheduler :: "scheduler_config \<Rightarrow> scheduler_config \<Rightarrow> scheduler_config" where
  "merge_scheduler b v =
     \<lparr>sd_HealthCheck = or_int (sd_HealthCheck v) (sd_HealthCheck b),
      sd_LogFlush = or_int (sd_LogFlush v) (sd_LogFlush b),
      sd_LogCleanup = or_int (sd_LogCleanup v) (sd_LogCleanup b),
      sd_MetricsCleanup = or_int (sd_MetricsCleanup v) (sd_MetricsCleanup b),
      sd_RuleReload = or_int (sd_RuleReload v) (sd_RuleReload b)\<rparr>"

definition merge_websocket :: "websocket_config \<Rightarrow> websocket_config \<Rightarrow> websocket_config" where
  "merge_websocket b v =
     \<lparr>ws_DashboardPush = or_int (ws_DashboardPush v) (ws_DashboardPush b),
      ws_LogHeartbeat = or_int (ws_LogHeartbeat v) (ws_LogHeartbeat b),
      ws_BufferSize = or_int (ws_BufferSize v) (ws_BufferSize b),
      ws_BroadcastChannel = or_int (ws_BroadcastChannel v) (ws_BroadcastChannel b)\<rparr>"

definition merge_runtime_config :: "runtime_config \<Rightarrow> runtime_config \<Rightarrow> runtime_config" where
  "merge_runtime_config base override =
     base\<lparr>rn_Security := merge_security (rn_Security base) (rn_Security override),
          rn_Performance := merge_performance (rn_Performance base) (rn_Performance override),
          rn_Scheduler := merge_scheduler (rn_Scheduler base) (rn_Scheduler override),
          rn_WebSocket := merge_websocket (rn_WebSocket base) (rn_WebSocket override)\<rparr>"

definition merge_config :: "runtime_config \<Rightarrow> runtime_config option \<Rightarrow> runtime_config option \<Rightarrow> runtime_config" where
  "merge_config defaultCfg yamlCfg dbCfg =
     (let result = (case yamlCfg of None \<Rightarrow> defaultCfg | Some y \<Rightarrow> merge_runtime_config defaultCfg y)
      in case dbCfg of None \<Rightarrow> result | Some d \<Rightarrow> merge_runtime_config result d)"

subsection \<open>Loading them from the data base\<close>

text \<open>
  \<open>row\<close>: the value the query answers, \<open>None\<close> without a data base, without a row or on an error.
  Sections old rows lack come from the defaults.
\<close>

definition load_runtime_config :: "(string \<Rightarrow> runtime_config option) \<Rightarrow> string option \<Rightarrow> runtime_config option" where
  "load_runtime_config unmarshal row =
     (case row of
        None \<Rightarrow> None
      | Some json \<Rightarrow>
          if json = '''' then None
          else map_option (\<lambda>rc.
            rc\<lparr>rn_Log := (if lc_Level (rn_Log rc) = '''' then rn_Log default_runtime_config else rn_Log rc),
               rn_Retention := (if rt_LogRetentionDays (rn_Retention rc) = 0 then rn_Retention default_runtime_config
                                else rn_Retention rc),
               rn_SessionSafe := (if sfc_IPMutationThreshold (rn_SessionSafe rc) = 0
                                  then rn_SessionSafe default_runtime_config else rn_SessionSafe rc)\<rparr>)
            (unmarshal json))"

definition stored_runtime_config :: "(string \<Rightarrow> runtime_config option) \<Rightarrow> string option \<Rightarrow> runtime_config" where
  "stored_runtime_config unmarshal row =
     (case load_runtime_config unmarshal row of None \<Rightarrow> default_runtime_config | Some rc \<Rightarrow> rc)"

text \<open>The cache size and lifetime \<open>InitLogDBWithConfig\<close> opens the log data base with.\<close>

definition log_db_cache :: "(string \<Rightarrow> runtime_config option) \<Rightarrow> string option \<Rightarrow> int \<times> int" where
  "log_db_cache unmarshal row =
     (case load_runtime_config unmarshal row of
        None \<Rightarrow> (1000, 5)
      | Some rc \<Rightarrow> (pf_CacheSize (rn_Performance rc), pf_CacheTTL (rn_Performance rc)))"

definition get_websocket_config :: "(string \<Rightarrow> runtime_config option) \<Rightarrow> string option \<Rightarrow> int \<times> int \<times> int \<times> int" where
  "get_websocket_config unmarshal row =
     (let w = rn_WebSocket (stored_runtime_config unmarshal row)
      in (ws_DashboardPush w, ws_LogHeartbeat w, ws_BufferSize w, ws_BroadcastChannel w))"

definition get_scheduler_config :: "(string \<Rightarrow> runtime_config option) \<Rightarrow> string option \<Rightarrow> int \<times> int \<times> int \<times> int \<times> int" where
  "get_scheduler_config unmarshal row =
     (let s = rn_Scheduler (stored_runtime_config unmarshal row)
      in (sd_HealthCheck s, sd_LogFlush s, sd_LogCleanup s, sd_MetricsCleanup s, sd_RuleReload s))"

definition get_performance_config :: "(string \<Rightarrow> runtime_config option) \<Rightarrow> string option \<Rightarrow> int \<times> int \<times> int \<times> int \<times> int" where
  "get_performance_config unmarshal row =
     (let p = rn_Performance (stored_runtime_config unmarshal row)
      in (pf_LogChannelSize p, pf_CacheSize p, pf_CacheTTL p, pf_MaxRequestBody p, pf_ScanBuffer p))"

definition get_retention_config :: "(string \<Rightarrow> runtime_config option) \<Rightarrow> string option \<Rightarrow> int \<times> int \<times> int" where
  "get_retention_config unmarshal row =
     (let r = rn_Retention (stored_runtime_config unmarshal row)
      in (rt_LogRetentionDays r, rt_MetricsRetentionDays r, rt_AdminLogRetentionDays r))"

definition get_session_safe :: "(string \<Rightarrow> runtime_config option) \<Rightarrow> string option \<Rightarrow> session_safe_config" where
  "get_session_safe unmarshal row = rn_SessionSafe (stored_runtime_config unmarshal row)"

section \<open>The file\<close>

record rotation_config =
  ro_MaxSize :: int
  ro_MaxBackups :: int
  ro_MaxAge :: int
  ro_Compress :: bool

record app_config =
  cf_AdminAddr :: string
  cf_AdminAllowedCIDRs :: "string list"
  cf_AdminLog :: string
  cf_DBConfigPath :: string
  cf_DBMetricsPath :: string
  cf_DBLogsPath :: string
  cf_LogFile :: string
  cf_LogLevel :: string
  cf_Rotation :: rotation_config
  cf_TimeFormat :: string
  cf_AuthUsername :: string
  cf_AuthPassword :: string
  cf_Runtime :: runtime_config
  cf_Intel :: "intel_config option"

subsection \<open>Validation\<close>

text \<open>The errors in the order they are found, each \<open>field: message\<close>.\<close>

definition field_error :: "string \<Rightarrow> string \<Rightarrow> string" where
  "field_error field message = field @ '': '' @ message"

definition addr_pattern :: regex where
  "addr_pattern = the (parse_regex (rx ''^(~[[^~]]+~]|[^~[:]+)?:~d+$''))"

definition is_valid_addr :: "string \<Rightarrow> bool" where
  "is_valid_addr addr = match_string addr_pattern addr"

definition validate_admin_config :: "app_config \<Rightarrow> string list" where
  "validate_admin_config cfg =
     (if cf_AdminAddr cfg = '''' then [field_error ''admin.addr'' (utf8 [229, 156, 176, 229, 157, 128, 228, 184, 141, 232, 131, 189, 228, 184, 186, 231, 169, 186])]
      else if \<not> is_valid_addr (cf_AdminAddr cfg) then [field_error ''admin.addr'' (utf8 [229, 156, 176, 229, 157, 128, 230, 160, 188, 229, 188, 143, 230, 151, 160, 230, 149, 136, 239, 188, 140, 229, 186, 148, 228, 184, 186] @ '' host:port '' @ utf8 [230, 160, 188, 229, 188, 143])]
      else []) @
     concat (map (\<lambda>cidr.
       if parse_cidr cidr = None \<and> parse_ip cidr = None
       then [field_error ''admin.allowed_cidrs'' ((utf8 [230, 151, 160, 230, 149, 136, 231, 154, 132] @ ''CIDR'' @ utf8 [230, 136, 150] @ ''IP: '') @ cidr)] else []) (cf_AdminAllowedCIDRs cfg)) @
     (if cf_AdminLog cfg = '''' then [field_error ''admin.admin_log'' (utf8 [230, 151, 165, 229, 191, 151, 232, 183, 175, 229, 190, 132, 228, 184, 141, 232, 131, 189, 228, 184, 186, 231, 169, 186])] else [])"

definition validate_database_config :: "app_config \<Rightarrow> string list" where
  "validate_database_config cfg =
     (if cf_DBConfigPath cfg = '''' then [field_error ''database.config_path'' (utf8 [233, 133, 141, 231, 189, 174, 230, 149, 176, 230, 141, 174, 229, 186, 147, 232, 183, 175, 229, 190, 132, 228, 184, 141, 232, 131, 189, 228, 184, 186, 231, 169, 186])] else []) @
     (if cf_DBMetricsPath cfg = '''' then [field_error ''database.metrics_path'' (utf8 [230, 140, 135, 230, 160, 135, 230, 149, 176, 230, 141, 174, 229, 186, 147, 232, 183, 175, 229, 190, 132, 228, 184, 141, 232, 131, 189, 228, 184, 186, 231, 169, 186])] else []) @
     (if cf_DBLogsPath cfg = '''' then [field_error ''database.logs_path'' (utf8 [230, 151, 165, 229, 191, 151, 230, 149, 176, 230, 141, 174, 229, 186, 147, 232, 183, 175, 229, 190, 132, 228, 184, 141, 232, 131, 189, 228, 184, 186, 231, 169, 186])] else [])"

definition validate_log_config :: "app_config \<Rightarrow> string list" where
  "validate_log_config cfg =
     (if cf_LogFile cfg = '''' then [field_error ''log.file'' ((utf8 [230, 151, 165, 229, 191, 151, 230, 150, 135, 228, 187, 182, 232, 183, 175, 229, 190, 132, 228, 184, 141, 232, 131, 189, 228, 184, 186, 231, 169, 186]))] else []) @
     (if cf_LogLevel cfg \<noteq> '''' \<and> to_lower (cf_LogLevel cfg) \<notin> set [''debug'', ''info'', ''warn'', ''error'']
      then [field_error ''log.level'' ((utf8 [230, 151, 160, 230, 149, 136, 231, 154, 132, 230, 151, 165, 229, 191, 151, 231, 186, 167, 229, 136, 171] @ '': '') @ cf_LogLevel cfg)] else [])"

definition validate_auth_config :: "app_config \<Rightarrow> string list" where
  "validate_auth_config cfg =
     (if cf_AuthUsername cfg = '''' then [field_error ''auth.username'' (utf8 [231, 148, 168, 230, 136, 183, 229, 144, 141, 228, 184, 141, 232, 131, 189, 228, 184, 186, 231, 169, 186])] else []) @
     (if cf_AuthPassword cfg \<noteq> '''' \<and> length (cf_AuthPassword cfg) < 8
      then [field_error ''auth.password'' (utf8 [229, 175, 134, 231, 160, 129, 233, 149, 191, 229, 186, 166, 228, 184, 141, 232, 131, 189, 229, 176, 145, 228, 186, 142] @ ''8'' @ utf8 [228, 189, 141])] else []) @
     (if cf_AuthPassword cfg \<noteq> '''' \<and>
         cf_AuthPassword cfg \<in> set [''admin'', ''password'', ''123456'', ''admin123'', ''root'']
      then [field_error ''auth.password'' ((utf8 [228, 184, 141, 232, 131, 189, 228, 189, 191, 231, 148, 168, 229, 184, 184, 232, 167, 129, 229, 188, 177, 229, 143, 163, 228, 187, 164, 239, 188, 136] @ ''admin/password/123456'' @ utf8 [231, 173, 137, 239, 188, 137, 239, 188, 140, 232, 175, 183, 228, 191, 174, 230, 148, 185] @ ''config.yaml'' @ utf8 [228, 184, 173, 231, 154, 132] @ ''auth.password''))] else [])"

definition validate_runtime_config :: "runtime_config \<Rightarrow> string list" where
  "validate_runtime_config rc =
     (if sec_MaxAttempts (rn_Security rc) < 0 then [field_error ''security.login.max_attempts'' ((utf8 [231, 153, 187, 229, 189, 149, 229, 176, 157, 232, 175, 149, 230, 172, 161, 230, 149, 176, 228, 184, 141, 232, 131, 189, 228, 184, 186, 232, 180, 159, 230, 149, 176]))] else []) @
     (if sec_BlockDuration (rn_Security rc) < 0 then [field_error ''security.login.block_duration'' (utf8 [233, 148, 129, 229, 174, 154, 230, 151, 182, 233, 149, 191, 228, 184, 141, 232, 131, 189, 228, 184, 186, 232, 180, 159, 230, 149, 176])] else []) @
     (if sec_SessionTTL (rn_Security rc) < 0 then [field_error ''security.session.ttl'' (''Session'' @ utf8 [230, 156, 137, 230, 149, 136, 230, 156, 159, 228, 184, 141, 232, 131, 189, 228, 184, 186, 232, 180, 159, 230, 149, 176])] else []) @
     (if pf_LogChannelSize (rn_Performance rc) < 0
      then [field_error ''performance.log_channel_size'' (utf8 [230, 151, 165, 229, 191, 151, 233, 128, 154, 233, 129, 147, 229, 164, 167, 229, 176, 143, 228, 184, 141, 232, 131, 189, 228, 184, 186, 232, 180, 159, 230, 149, 176])] else []) @
     (if pf_CacheSize (rn_Performance rc) < 0 then [field_error ''performance.cache_size'' (utf8 [231, 188, 147, 229, 173, 152, 229, 164, 167, 229, 176, 143, 228, 184, 141, 232, 131, 189, 228, 184, 186, 232, 180, 159, 230, 149, 176])] else []) @
     (if pf_MaxRequestBody (rn_Performance rc) < 0
      then [field_error ''performance.max_request_body'' (utf8 [232, 175, 183, 230, 177, 130, 228, 189, 147, 230, 156, 128, 229, 164, 167, 229, 128, 188, 228, 184, 141, 232, 131, 189, 228, 184, 186, 232, 180, 159, 230, 149, 176])] else []) @
     (if sd_HealthCheck (rn_Scheduler rc) < 0 then [field_error ''scheduler.health_check'' (utf8 [229, 129, 165, 229, 186, 183, 230, 163, 128, 230, 159, 165, 233, 151, 180, 233, 154, 148, 228, 184, 141, 232, 131, 189, 228, 184, 186, 232, 180, 159, 230, 149, 176])] else [])"

definition validation_errors :: "app_config \<Rightarrow> string list" where
  "validation_errors cfg =
     validate_admin_config cfg @ validate_database_config cfg @ validate_log_config cfg @ validate_auth_config cfg @
     validate_runtime_config (cf_Runtime cfg)"

definition validate_config :: "app_config \<Rightarrow> string option" where
  "validate_config cfg =
     (if validation_errors cfg \<noteq> []
      then Some ((utf8 [233, 133, 141, 231, 189, 174, 233, 170, 140, 232, 175, 129, 229, 164, 177, 232, 180, 165] @ '': '') @ ''['' @ join_with '' '' (validation_errors cfg) @ '']'') else None)"

subsection \<open>Loading\<close>

definition load_defaults :: "app_config \<Rightarrow> app_config" where
  "load_defaults cfg =
     cfg\<lparr>cf_TimeFormat := (if cf_TimeFormat cfg = '''' then ''2006-01-02T15:04:05.000Z07:00'' else cf_TimeFormat cfg),
         cf_Rotation :=
           (cf_Rotation cfg)\<lparr>
             ro_MaxSize := (if ro_MaxSize (cf_Rotation cfg) = 0 then 100 else ro_MaxSize (cf_Rotation cfg)),
             ro_MaxBackups := (if ro_MaxBackups (cf_Rotation cfg) = 0 then 10 else ro_MaxBackups (cf_Rotation cfg)),
             ro_MaxAge := (if ro_MaxAge (cf_Rotation cfg) = 0 then 7 else ro_MaxAge (cf_Rotation cfg))\<rparr>,
         cf_AdminLog := (if cf_AdminLog cfg = '''' then ''./admin.log'' else cf_AdminLog cfg)\<rparr>"

text \<open>
  \<open>Load\<close>: \<open>file\<close> is what reading answers, \<open>unmarshal\<close> the decoder; the errors of those are texts. The path is kept
  even when the validation fails.
\<close>

definition load_config ::
  "(string \<Rightarrow> string + app_config) \<Rightarrow> string + string \<Rightarrow> string \<Rightarrow> string \<Rightarrow> (string + app_config) \<times> string" where
  "load_config unmarshal file path configPath =
     (case file of
        Inl e \<Rightarrow> (Inl e, configPath)
      | Inr data \<Rightarrow>
          (case unmarshal data of
             Inl e \<Rightarrow> (Inl e, configPath)
           | Inr cfg \<Rightarrow>
               let cfg = load_defaults cfg
               in case validate_config cfg of
                    Some e \<Rightarrow> (Inl ((utf8 [233, 133, 141, 231, 189, 174, 233, 170, 140, 232, 175, 129, 229, 164, 177, 232, 180, 165] @ '': '') @ e), path)
                  | None \<Rightarrow>
                      let intel = (case cf_Intel cfg of None \<Rightarrow> default_intel_config
                                   | Some v \<Rightarrow> merge_settings default_intel_config v)
                      in case validate_intel_config intel of
                           Some e \<Rightarrow> (Inl ((utf8 [230, 131, 133, 230, 138, 165, 228, 184, 173, 229, 191, 131, 233, 133, 141, 231, 189, 174, 233, 170, 140, 232, 175, 129, 229, 164, 177, 232, 180, 165] @ '': '') @ e), path)
                         | None \<Rightarrow> (Inr (cfg\<lparr>cf_Intel := Some intel\<rparr>), path)))"

section \<open>What the sources decide\<close>

text \<open>The settings \<open>merge_runtime_config\<close> looks at.\<close>

definition mergeable :: "(runtime_config \<Rightarrow> int) list" where
  "mergeable =
     map (\<lambda>f rc. f (rn_Security rc)) [sec_MaxAttempts, sec_BlockDuration, sec_SessionTTL, sec_CleanupInterval,
       sec_CaptchaTTL, sec_APILimit, sec_APIWindow] @
     map (\<lambda>f rc. f (rn_Performance rc)) [pf_LogChannelSize, pf_CacheSize, pf_CacheTTL, pf_MaxRequestBody, pf_ScanBuffer] @
     map (\<lambda>f rc. f (rn_Scheduler rc)) [sd_HealthCheck, sd_LogFlush, sd_LogCleanup, sd_MetricsCleanup, sd_RuleReload] @
     map (\<lambda>f rc. f (rn_WebSocket rc)) [ws_DashboardPush, ws_LogHeartbeat, ws_BufferSize, ws_BroadcastChannel]"

definition source_value :: "(runtime_config \<Rightarrow> int) \<Rightarrow> runtime_config option \<Rightarrow> int" where
  "source_value f source = (case source of None \<Rightarrow> 0 | Some rc \<Rightarrow> f rc)"

lemma merged_field: "f \<in> set mergeable \<Longrightarrow> f (merge_runtime_config b v) = or_int (f v) (f b)"
  by (auto simp: mergeable_def merge_runtime_config_def merge_security_def merge_performance_def merge_scheduler_def
      merge_websocket_def)

lemma unmerged_fields:
  "rn_Log (merge_runtime_config b v) = rn_Log b" "rn_Retention (merge_runtime_config b v) = rn_Retention b"
  "rn_SessionSafe (merge_runtime_config b v) = rn_SessionSafe b"
  "sec_AbsoluteTTL (rn_Security (merge_runtime_config b v)) = sec_AbsoluteTTL (rn_Security b)"
  "pf_DisableCompression (rn_Performance (merge_runtime_config b v)) = pf_DisableCompression (rn_Performance b)"
  by (simp_all add: merge_runtime_config_def merge_security_def merge_performance_def)

text \<open>
  Which source decides a setting: the data base if it holds a value other than zero, else the
  file, else the default. Zero can therefore not be set. The lifetime of sessions, the compression
  switch, and the sections for logs, retention and the session guard come from the default
  whatever the other sources hold.
\<close>

theorem merge_priority:
  assumes "f \<in> set mergeable"
  shows "f (merge_config d y db) = (if source_value f db \<noteq> 0 then source_value f db
                                    else if source_value f y \<noteq> 0 then source_value f y else f d) \<and>
    rn_Log (merge_config d y db) = rn_Log d \<and> rn_Retention (merge_config d y db) = rn_Retention d \<and>
    rn_SessionSafe (merge_config d y db) = rn_SessionSafe d \<and>
    sec_AbsoluteTTL (rn_Security (merge_config d y db)) = sec_AbsoluteTTL (rn_Security d) \<and>
    pf_DisableCompression (rn_Performance (merge_config d y db)) = pf_DisableCompression (rn_Performance d)"
  using merged_field[OF assms]
  by (cases y; cases db) (simp_all add: merge_config_def unmerged_fields source_value_def or_int_def)

theorem merge_priority_witness:
  "sec_MaxAttempts (rn_Security (merge_config default_runtime_config None
     (Some (default_runtime_config\<lparr>rn_Security := (rn_Security default_runtime_config)\<lparr>sec_MaxAttempts := 3, sec_AbsoluteTTL := 99\<rparr>\<rparr>)))) = 3"
proof -
  have "(\<lambda>rc. sec_MaxAttempts (rn_Security rc)) \<in> set mergeable"
    by (simp add: mergeable_def)
  from merge_priority[OF this, of default_runtime_config None
      "Some (default_runtime_config\<lparr>rn_Security := (rn_Security default_runtime_config)\<lparr>sec_MaxAttempts := 3, sec_AbsoluteTTL := 99\<rparr>\<rparr>)"]
  show ?thesis by (simp add: source_value_def)
qed

subsection \<open>Loading twice\<close>

lemma load_defaults_idem: "load_defaults (load_defaults cfg) = load_defaults cfg"
  by (simp add: load_defaults_def)

lemma or_idem [simp]: "or_text (or_text t u) u = or_text t u" "or_int (or_int m n) n = or_int m n"
    "or_texts (or_texts ts us) us = or_texts ts us"
  by (simp_all add: or_text_def or_int_def or_texts_def)

lemma merge_settings_idem: "merge_settings b (merge_settings b v) = merge_settings b v"
  by (simp add: merge_settings_def merge_upload_def)

lemma merge_settings_self: "merge_settings b b = b"
  by (simp add: merge_settings_def merge_upload_def or_text_def or_int_def or_texts_def)

lemma validation_ignores_intel: "validation_errors (cfg\<lparr>cf_Intel := i\<rparr>) = validation_errors cfg"
  by (simp add: validation_errors_def validate_admin_config_def validate_database_config_def validate_log_config_def
      validate_auth_config_def)

text \<open>
  A configuration that loads is valid and complete, and loads again as itself: if a file decodes to the
  loaded configuration, as one written from it does, loading that file changes nothing.
\<close>

theorem loaded_config_reloads:
  assumes "fst (load_config unmarshal file path old) = Inr cfg" "unmarshal data = Inr cfg"
  shows "validation_errors cfg = [] \<and> (\<exists>i. cf_Intel cfg = Some i \<and> validate_intel_config i = None) \<and>
    load_config unmarshal (Inr data) path' old' = (Inr cfg, path')"
proof -
  obtain d raw i where raw: "file = Inr d" "unmarshal d = Inr raw" "validate_config (load_defaults raw) = None"
      "cfg = (load_defaults raw)\<lparr>cf_Intel := Some i\<rparr>" "validate_intel_config i = None"
      "i = (case cf_Intel (load_defaults raw) of None \<Rightarrow> default_intel_config | Some v \<Rightarrow> merge_settings default_intel_config v)"
    using assms(1) by (auto simp: load_config_def Let_def split: sum.splits option.splits)
  have "merge_settings default_intel_config i = i"
    using raw(6) by (simp add: merge_settings_idem merge_settings_self split: option.splits)
  moreover have "load_defaults cfg = cfg"
    unfolding raw(4) by (simp add: load_defaults_def)
  moreover have v: "validation_errors cfg = []"
    using raw(3) by (simp add: raw(4) validation_ignores_intel validate_config_def split: if_splits)
  ultimately show ?thesis
    using raw(4,5) assms(2) by (simp add: load_config_def validate_config_def)
qed

definition sample_file :: app_config where
  "sample_file =
     \<lparr>cf_AdminAddr = '':8443'', cf_AdminAllowedCIDRs = [], cf_AdminLog = '''', cf_DBConfigPath = ''c.db'',
      cf_DBMetricsPath = ''m.db'', cf_DBLogsPath = ''l.db'', cf_LogFile = ''a.log'', cf_LogLevel = '''',
      cf_Rotation = \<lparr>ro_MaxSize = 0, ro_MaxBackups = 3, ro_MaxAge = 0, ro_Compress = False\<rparr>, cf_TimeFormat = '''',
      cf_AuthUsername = ''admin'', cf_AuthPassword = '''', cf_Runtime = default_runtime_config, cf_Intel = None\<rparr>"

lemma sample_addr: "is_valid_addr '':8443''"
  by code_simp

lemma sample_valid: "validation_errors (load_defaults sample_file) = []"
  by (simp add: validation_errors_def validate_admin_config_def validate_database_config_def validate_log_config_def
      validate_auth_config_def validate_runtime_config_def load_defaults_def sample_file_def default_runtime_config_def sample_addr)

theorem loaded_config_reloads_witness:
  "fst (load_config (\<lambda>d. Inr (if d = ''1'' then sample_file else (load_defaults sample_file)\<lparr>cf_Intel := Some default_intel_config\<rparr>))
     (Inr ''2'') ''b'' ''a'') = Inr ((load_defaults sample_file)\<lparr>cf_Intel := Some default_intel_config\<rparr>)"
proof -
  let ?cfg = "(load_defaults sample_file)\<lparr>cf_Intel := Some default_intel_config\<rparr>"
  let ?u = "\<lambda>d. Inr (if d = ''1'' then sample_file else ?cfg) :: string + app_config"
  have "cf_Intel (load_defaults sample_file) = None"
    by (simp add: load_defaults_def sample_file_def)
  then have "fst (load_config ?u (Inr ''1'') ''a'' '''') = Inr ?cfg"
    by (simp add: load_config_def validate_config_def sample_valid validate_intel_config_def default_intel_config_def)
  then show ?thesis
    using loaded_config_reloads[of ?u "Inr ''1''" "''a''" "''''" ?cfg "''2''" "''b''" "''a''"] by simp
qed

end
