(* ===== verification/Login.thy ===== *)
theory Login
  imports AdminAuth RuntimeConfig
begin

text \<open>
  Logging in to the administration pages: \<open>internal/domain/gateway/handler/auth.go\<close> and \<open>users.go\<close>.

  \<^item> \<open>login_state\<close>: the attempts and blocks of logins, the captchas, the security settings cached for 30 seconds
    and the row they come from, the table \<open>users\<close>, the administrator of the configuration, the attempts to
    change a password or create an API key, and the sessions.
  \<^item> \<open>golang.org/x/crypto/bcrypt\<close> is a pair of parameters (\<open>compare hash password\<close>, \<open>generate password\<close>).
    What \<open>encoding/json\<close> makes of the settings row is the parameter \<open>unmarshal\<close>; of a request body, an argument.
  \<^item> A request reads the clock once; what statements answer and the random bytes are in \<open>login_env\<close>.
  \<^item> Not modelled: the drawing of lines, points and colours of the captcha, the DDL, the page of \<open>ChangePasswordPage\<close>.

  Proved: what a login takes; how many wrong guesses an address has; captchas are used once; what the
  counters do beyond that.
\<close>

section \<open>State\<close>

record captcha_entry =
  ce_answer :: string
  ce_createdAt :: instant

record user_row =
  ur_id :: string
  ur_username :: string
  ur_password_hash :: string
  ur_role :: string
  ur_enabled :: int
  ur_created_at :: int

record login_state =
  lg_attempts :: "(string \<times> int) list"
  lg_attemptsByUser :: "string \<rightharpoonup> int"
  lg_blocked :: "string \<rightharpoonup> instant"
  lg_captchas :: "string \<rightharpoonup> captcha_entry"
  lg_cachedSecurity :: security_config
  lg_cachedAt :: instant
  lg_hasDB :: bool
  lg_runtime :: "string option"
  lg_users :: "user_row list"
  lg_adminUsername :: string
  lg_adminHash :: string
  lg_adminHashRow :: "string option"
  lg_authPassword :: string
  lg_passwordChanges :: "(string \<times> int) list"
  lg_apiKeyCreates :: "(string \<times> int) list"
  lg_sessions :: session_state

abbreviation minute :: duration where
  "minute \<equiv> 60 * nano_second"

section \<open>Attempts\<close>

definition user_key :: "string \<Rightarrow> string \<Rightarrow> string" where
  "user_key ip username = ip @ '':'' @ username"

definition is_login_blocked :: "instant \<Rightarrow> string \<Rightarrow> string \<Rightarrow> login_state \<Rightarrow> bool \<times> login_state" where
  "is_login_blocked now ip username s =
     (if (case lg_blocked s ip of Some until \<Rightarrow> now < until | None \<Rightarrow> False) then (True, s)
      else
        let s = (if lg_blocked s ip = None then s
                 else s\<lparr>lg_blocked := (lg_blocked s)(ip := None), lg_attempts := AList.delete ip (lg_attempts s)\<rparr>);
            k = user_key ip username
        in if username = '''' then (False, s)
           else if (case lg_blocked s k of Some until \<Rightarrow> now < until | None \<Rightarrow> False) then (True, s)
           else (False, if lg_blocked s k = None then s
                        else s\<lparr>lg_blocked := (lg_blocked s)(k := None),
                               lg_attemptsByUser := (lg_attemptsByUser s)(k := None)\<rparr>))"

text \<open>The loop over the attempts in the order Go ranges over them (\<open>enum\<close>).\<close>

fun drop_unblocked :: "(string \<rightharpoonup> instant) \<Rightarrow> string list \<Rightarrow> int \<Rightarrow> (string \<times> int) list \<Rightarrow> (string \<times> int) list" where
  "drop_unblocked blocked [] cnt m = m"
| "drop_unblocked blocked (ip # ips) cnt m =
     (if blocked ip = None then
        let m = AList.delete ip m in if cnt + 1 \<ge> int (length m div 2) then m else drop_unblocked blocked ips (cnt + 1) m
      else drop_unblocked blocked ips cnt m)"

definition clean_expired_login_entries :: "string list \<Rightarrow> instant \<Rightarrow> login_state \<Rightarrow> login_state" where
  "clean_expired_login_entries enum now s =
     (let over = (\<lambda>k. case lg_blocked s k of Some until \<Rightarrow> now > until | None \<Rightarrow> False);
          blocked = (\<lambda>k. if over k then None else lg_blocked s k);
          attempts = filter (\<lambda>(k, n). \<not> over k) (lg_attempts s)
      in s\<lparr>lg_blocked := blocked,
           lg_attempts := (if length attempts > 50000 then drop_unblocked blocked enum 0 attempts else attempts)\<rparr>)"

text \<open>
  The security settings, read at most every 30 seconds. \<open>ok\<close>: the query works; no row is \<open>lg_runtime s = None\<close>.
  Unlike \<open>load_runtime_config\<close> nothing the row lacks is filled in.
\<close>

definition get_security_config ::
  "(string \<Rightarrow> runtime_config option) \<Rightarrow> bool \<Rightarrow> instant \<Rightarrow> login_state \<Rightarrow> security_config \<times> login_state" where
  "get_security_config unmarshal ok now s =
     (let default = rn_Security default_runtime_config in
      if time_sub now (lg_cachedAt s) < 30 * nano_second then (lg_cachedSecurity s, s)
      else if \<not> lg_hasDB s \<or> \<not> ok then (default, s)
      else case lg_runtime s of
             None \<Rightarrow> (default, s)
           | Some json \<Rightarrow>
               if json = [] then (default, s)
               else case unmarshal json of
                      None \<Rightarrow> (default, s)
                    | Some rc \<Rightarrow> (rn_Security rc, s\<lparr>lg_cachedSecurity := rn_Security rc, lg_cachedAt := now\<rparr>))"

definition count_failure :: "security_config \<Rightarrow> instant \<Rightarrow> string \<Rightarrow> login_state \<Rightarrow> login_state" where
  "count_failure sec now ip s =
     (let n = map_get 0 (map_of (lg_attempts s)) ip + 1 in
      if n \<ge> sec_MaxAttempts sec
      then s\<lparr>lg_blocked := (lg_blocked s)(ip \<mapsto> now + sec_BlockDuration sec * minute),
             lg_attempts := AList.delete ip (lg_attempts s)\<rparr>
      else s\<lparr>lg_attempts := AList.update ip n (lg_attempts s)\<rparr>)"

definition count_user_failure :: "security_config \<Rightarrow> instant \<Rightarrow> string \<Rightarrow> login_state \<Rightarrow> login_state" where
  "count_user_failure sec now k s =
     (let n = map_get 0 (lg_attemptsByUser s) k + 1 in
      if n \<ge> sec_MaxAttempts sec
      then s\<lparr>lg_blocked := (lg_blocked s)(k \<mapsto> now + sec_BlockDuration sec * minute),
             lg_attemptsByUser := (lg_attemptsByUser s)(k := None)\<rparr>
      else s\<lparr>lg_attemptsByUser := (lg_attemptsByUser s)(k \<mapsto> n)\<rparr>)"

definition record_login_failure ::
  "(string \<Rightarrow> runtime_config option) \<Rightarrow> bool \<Rightarrow> instant \<Rightarrow> string \<Rightarrow> string \<Rightarrow> login_state \<Rightarrow> login_state" where
  "record_login_failure unmarshal ok now ip username s =
     (let (sec, s) = get_security_config unmarshal ok now s;
          s = count_failure sec now ip s
      in if username = '''' then s else count_user_failure sec now (user_key ip username) s)"

definition clear_login_attempts :: "string \<Rightarrow> string \<Rightarrow> login_state \<Rightarrow> login_state" where
  "clear_login_attempts ip username s =
     (let s = s\<lparr>lg_attempts := AList.delete ip (lg_attempts s), lg_blocked := (lg_blocked s)(ip := None)\<rparr>;
          k = user_key ip username
      in if username = '''' then s
         else s\<lparr>lg_attemptsByUser := (lg_attemptsByUser s)(k := None), lg_blocked := (lg_blocked s)(k := None)\<rparr>)"

section \<open>Captchas\<close>

definition captcha_chars :: string where
  "captcha_chars = ''23456789ABCDEFGHJKLMNPQRSTUVWXYZ''"

text \<open>
  \<open>picks\<close>: the five random numbers below the number of characters; \<open>idBytes\<close>: the random bytes, or what
  stands in for them when there are none, the decimal time.
\<close>

definition generate_captcha :: "nat list \<Rightarrow> 8 word list option \<Rightarrow> instant \<Rightarrow> login_state \<Rightarrow> (string \<times> string) \<times> login_state" where
  "generate_captcha picks idBytes now s =
     (let answer = map (\<lambda>n. captcha_chars ! n) (take 5 picks);
          captchaID = concat (map hex_byte (case idBytes of Some b \<Rightarrow> b | None \<Rightarrow> map of_char (format_int now)))
      in ((captchaID, answer),
          s\<lparr>lg_captchas := (lg_captchas s)(captchaID \<mapsto> \<lparr>ce_answer = answer, ce_createdAt = now\<rparr>)\<rparr>))"

definition fold_ascii :: "char \<Rightarrow> char" where
  "fold_ascii c = (if CHR ''A'' \<le> c \<and> c \<le> CHR ''Z'' then char_of ((of_char c :: nat) + 32) else c)"

definition strings_equal_fold :: "string \<Rightarrow> string \<Rightarrow> bool" where
  "strings_equal_fold a b \<longleftrightarrow> length a = length b \<and> list_all2 (\<lambda>ca cb. fold_ascii ca = fold_ascii cb) a b"

definition validate_captcha ::
  "(string \<Rightarrow> runtime_config option) \<Rightarrow> bool \<Rightarrow> instant \<Rightarrow> string \<Rightarrow> string \<Rightarrow> login_state \<Rightarrow> bool \<times> login_state" where
  "validate_captcha unmarshal ok now captchaID userInput s =
     (if captchaID = '''' \<or> userInput = '''' then (False, s)
      else case lg_captchas s captchaID of
             None \<Rightarrow> (False, s)
           | Some entry \<Rightarrow>
               let s = s\<lparr>lg_captchas := (lg_captchas s)(captchaID := None)\<rparr>;
                   (sec, s) = get_security_config unmarshal ok now s
               in if time_sub now (ce_createdAt entry) > sec_CaptchaTTL sec * minute then (False, s)
                  else (strings_equal_fold (ce_answer entry) userInput, s))"

definition clean_expired_captchas ::
  "(string \<Rightarrow> runtime_config option) \<Rightarrow> bool \<Rightarrow> instant \<Rightarrow> login_state \<Rightarrow> login_state" where
  "clean_expired_captchas unmarshal ok now s =
     (let (sec, s) = get_security_config unmarshal ok now s
      in s\<lparr>lg_captchas := (\<lambda>i. case lg_captchas s i of
            Some e \<Rightarrow> if time_sub now (ce_createdAt e) > sec_CaptchaTTL sec * minute then None else Some e
          | None \<Rightarrow> None)\<rparr>)"

text \<open>The cookie \<open>CaptchaHandler\<close> sends with the image.\<close>

definition captcha_handler ::
  "nat list \<Rightarrow> 8 word list option \<Rightarrow> instant \<Rightarrow> http_request \<Rightarrow> login_state \<Rightarrow> (set_cookie \<times> headers) \<times> login_state" where
  "captcha_handler picks idBytes now r s =
     (let ((captchaID, answer), s) = generate_captcha picks idBytes now s;
          h = header_set ''Content-Type'' ''image/png'' no_headers;
          h = header_set ''Cache-Control'' ''no-store, no-cache, must-revalidate'' h;
          h = header_set ''Pragma'' ''no-cache'' h
      in ((\<lparr>sc_Name = ''captcha_id'', sc_Value = captchaID, sc_Path = ''/'', sc_HttpOnly = True, sc_Secure = rq_TLS r,
            sc_Lax = True, sc_MaxAge = 300\<rparr>, h), s))"

subsection \<open>Glyphs\<close>

text \<open>\<open>captchaFont\<close>: seven rows of five bits for each character.\<close>

definition captcha_font :: "(char \<times> string list) list" where
  "captcha_font =
     [(CHR ''2'', [''01100'', ''10010'', ''10010'', ''00100'', ''01000'', ''10000'', ''11110'']),
      (CHR ''3'', [''01110'', ''10001'', ''00001'', ''00110'', ''00001'', ''10001'', ''01110'']),
      (CHR ''4'', [''00100'', ''01100'', ''10100'', ''10100'', ''11111'', ''00100'', ''00100'']),
      (CHR ''5'', [''11111'', ''10000'', ''11110'', ''00001'', ''00001'', ''10001'', ''01110'']),
      (CHR ''6'', [''00110'', ''01000'', ''10000'', ''11110'', ''10001'', ''10001'', ''01110'']),
      (CHR ''7'', [''11111'', ''00001'', ''00010'', ''00100'', ''01000'', ''01000'', ''01000'']),
      (CHR ''8'', [''01110'', ''10001'', ''10001'', ''01110'', ''10001'', ''10001'', ''01110'']),
      (CHR ''9'', [''01110'', ''10001'', ''10001'', ''01111'', ''00001'', ''00010'', ''01100'']),
      (CHR ''A'', [''01110'', ''10001'', ''10001'', ''11111'', ''10001'', ''10001'', ''10001'']),
      (CHR ''B'', [''11110'', ''10001'', ''10001'', ''11110'', ''10001'', ''10001'', ''11110'']),
      (CHR ''C'', [''01110'', ''10001'', ''10000'', ''10000'', ''10000'', ''10001'', ''01110'']),
      (CHR ''D'', [''11100'', ''10010'', ''10001'', ''10001'', ''10001'', ''10010'', ''11100'']),
      (CHR ''E'', [''11111'', ''10000'', ''10000'', ''11110'', ''10000'', ''10000'', ''11111'']),
      (CHR ''F'', [''11111'', ''10000'', ''10000'', ''11110'', ''10000'', ''10000'', ''10000'']),
      (CHR ''G'', [''01110'', ''10001'', ''10000'', ''10111'', ''10001'', ''10001'', ''01110'']),
      (CHR ''H'', [''10001'', ''10001'', ''10001'', ''11111'', ''10001'', ''10001'', ''10001'']),
      (CHR ''J'', [''00111'', ''00010'', ''00010'', ''00010'', ''00010'', ''10010'', ''01100'']),
      (CHR ''K'', [''10001'', ''10010'', ''10100'', ''11000'', ''10100'', ''10010'', ''10001'']),
      (CHR ''L'', [''10000'', ''10000'', ''10000'', ''10000'', ''10000'', ''10000'', ''11111'']),
      (CHR ''M'', [''10001'', ''11011'', ''10101'', ''10101'', ''10001'', ''10001'', ''10001'']),
      (CHR ''N'', [''10001'', ''11001'', ''10101'', ''10011'', ''10001'', ''10001'', ''10001'']),
      (CHR ''P'', [''11110'', ''10001'', ''10001'', ''11110'', ''10000'', ''10000'', ''10000'']),
      (CHR ''Q'', [''01110'', ''10001'', ''10001'', ''10001'', ''10101'', ''10010'', ''01101'']),
      (CHR ''R'', [''11110'', ''10001'', ''10001'', ''11110'', ''10100'', ''10010'', ''10001'']),
      (CHR ''S'', [''01110'', ''10001'', ''10000'', ''01110'', ''00001'', ''10001'', ''01110'']),
      (CHR ''T'', [''11111'', ''00100'', ''00100'', ''00100'', ''00100'', ''00100'', ''00100'']),
      (CHR ''U'', [''10001'', ''10001'', ''10001'', ''10001'', ''10001'', ''10001'', ''01110'']),
      (CHR ''V'', [''10001'', ''10001'', ''10001'', ''10001'', ''01010'', ''01010'', ''00100'']),
      (CHR ''W'', [''10001'', ''10001'', ''10001'', ''10101'', ''10101'', ''11011'', ''10001'']),
      (CHR ''X'', [''10001'', ''10001'', ''01010'', ''00100'', ''01010'', ''10001'', ''10001'']),
      (CHR ''Y'', [''10001'', ''10001'', ''01010'', ''00100'', ''00100'', ''00100'', ''00100'']),
      (CHR ''Z'', [''11111'', ''00001'', ''00010'', ''00100'', ''01000'', ''10000'', ''11111''])]"

text \<open>
  \<open>drawChar\<close>: an image as the colour of each pixel; \<open>width\<close>, \<open>height\<close> are the bounds. Each set bit of the glyph is a
  square of three by three pixels.
\<close>

definition glyph_pixels :: "int \<Rightarrow> int \<Rightarrow> char \<Rightarrow> (int \<times> int) list" where
  "glyph_pixels x y ch =
     (case map_of captcha_font ch of
        None \<Rightarrow> []
      | Some rows \<Rightarrow>
          concat (map (\<lambda>(rowIdx, row).
            concat (map (\<lambda>(colIdx, bit).
              if bit = CHR ''1''
              then concat (map (\<lambda>dy. map (\<lambda>dx. (x + int colIdx * 3 + dx, y + int rowIdx * 3 + dy)) [0..2]) [0..2])
              else []) (List.enumerate 0 row))) (List.enumerate 0 rows)))"

definition draw_char :: "int \<Rightarrow> int \<Rightarrow> int \<Rightarrow> int \<Rightarrow> char \<Rightarrow> 'c \<Rightarrow> (int \<times> int \<Rightarrow> 'c) \<Rightarrow> int \<times> int \<Rightarrow> 'c" where
  "draw_char width height x y ch c img =
     fold (\<lambda>(px, py) img. if 0 \<le> px \<and> px < width \<and> 0 \<le> py \<and> py < height then img((px, py) := c) else img)
       (glyph_pixels x y ch) img"

section \<open>Passwords\<close>

definition validate_password_strength :: "string \<Rightarrow> string option" where
  "validate_password_strength password =
     (if length password < 8 then Some (utf8 [229, 175, 134, 231, 160, 129, 233, 149, 191, 229, 186, 166, 228, 184, 141, 232, 131, 189, 229, 176, 145, 228, 186, 142] @ ''8'' @ utf8 [228, 189, 141])
      else if length password > 128 then Some (utf8 [229, 175, 134, 231, 160, 129, 233, 149, 191, 229, 186, 166, 228, 184, 141, 232, 131, 189, 232, 182, 133, 232, 191, 135] @ ''128'' @ utf8 [228, 189, 141])
      else if \<not> list_ex (\<lambda>c. CHR ''A'' \<le> c \<and> c \<le> CHR ''Z'') password then Some (utf8 [229, 175, 134, 231, 160, 129, 229, 191, 133, 233, 161, 187, 229, 140, 133, 229, 144, 171, 229, 164, 167, 229, 134, 153, 229, 173, 151, 230, 175, 141])
      else if \<not> list_ex (\<lambda>c. CHR ''a'' \<le> c \<and> c \<le> CHR ''z'') password then Some (utf8 [229, 175, 134, 231, 160, 129, 229, 191, 133, 233, 161, 187, 229, 140, 133, 229, 144, 171, 229, 176, 143, 229, 134, 153, 229, 173, 151, 230, 175, 141])
      else if \<not> list_ex (\<lambda>c. CHR ''0'' \<le> c \<and> c \<le> CHR ''9'') password then Some (utf8 [229, 175, 134, 231, 160, 129, 229, 191, 133, 233, 161, 187, 229, 140, 133, 229, 144, 171, 230, 149, 176, 229, 173, 151])
      else None)"

definition is_password_change_blocked :: "string \<Rightarrow> login_state \<Rightarrow> bool \<times> login_state" where
  "is_password_change_blocked ip s =
     (let count = map_get 0 (map_of (lg_passwordChanges s)) ip in
      if count \<ge> 3 then (True, s)
      else (False, s\<lparr>lg_passwordChanges := AList.update ip (count + 1) (lg_passwordChanges s)\<rparr>))"

text \<open>The loop that drops entries until fewer than a hundred are left.\<close>

fun drop_entries :: "string list \<Rightarrow> (string \<times> int) list \<Rightarrow> (string \<times> int) list" where
  "drop_entries [] m = m"
| "drop_entries (ip # ips) m =
     (let m = AList.delete ip m in if length m < 100 then m else drop_entries ips m)"

definition clean_password_change_entries :: "string list \<Rightarrow> login_state \<Rightarrow> login_state" where
  "clean_password_change_entries enum s =
     (if length (lg_passwordChanges s) > 10000
      then s\<lparr>lg_passwordChanges := drop_entries enum (lg_passwordChanges s)\<rparr> else s)"

definition clean_api_key_create_entries :: "string list \<Rightarrow> login_state \<Rightarrow> login_state" where
  "clean_api_key_create_entries enum s =
     (if length (lg_apiKeyCreates s) > 10000
      then s\<lparr>lg_apiKeyCreates := drop_entries enum (lg_apiKeyCreates s)\<rparr> else s)"

text \<open>\<open>jsonError\<close> and \<open>jsonSuccess\<close>: the message and status, or the data.\<close>

type_synonym 'a api_answer = "(string \<times> int) + 'a"

text \<open>\<open>req\<close>: the old and the new password decoded from the body; \<open>ok\<close>: the statement works.\<close>

definition api_change_password ::
  "(string \<Rightarrow> string \<Rightarrow> bool) \<Rightarrow> (string \<Rightarrow> string option) \<Rightarrow> bool \<Rightarrow> (string \<times> string) option \<Rightarrow> http_request \<Rightarrow>
   login_state \<Rightarrow> string api_answer \<times> login_state" where
  "api_change_password compare generate ok req r s =
     (case req of
        None \<Rightarrow> (Inl ((utf8 [230, 151, 160, 230, 149, 136, 231, 154, 132, 232, 175, 183, 230, 177, 130, 230, 160, 188, 229, 188, 143]), 400), s)
      | Some (old, new) \<Rightarrow>
          if old = [] then (Inl ((utf8 [229, 142, 159, 229, 175, 134, 231, 160, 129, 228, 184, 141, 232, 131, 189, 228, 184, 186, 231, 169, 186]), 400), s)
          else case validate_password_strength new of
                 Some e \<Rightarrow> (Inl (e, 400), s)
               | None \<Rightarrow>
                   let (blocked, s) = is_password_change_blocked (remote_host r) s
                   in if blocked then (Inl ((utf8 [229, 175, 134, 231, 160, 129, 228, 191, 174, 230, 148, 185, 230, 172, 161, 230, 149, 176, 232, 191, 135, 229, 164, 154, 239, 188, 140, 232, 175, 183, 231, 168, 141, 229, 144, 142, 229, 134, 141, 232, 175, 149]), 429), s)
                      else if \<not> compare (lg_adminHash s) old then (Inl ((utf8 [229, 142, 159, 229, 175, 134, 231, 160, 129, 233, 148, 153, 232, 175, 175]), 401), s)
                      else case generate new of
                             None \<Rightarrow> (Inl ((utf8 [229, 175, 134, 231, 160, 129, 229, 138, 160, 229, 175, 134, 229, 164, 177, 232, 180, 165]), 500), s)
                           | Some hash \<Rightarrow>
                               (Inr (utf8 [229, 175, 134, 231, 160, 129, 228, 191, 174, 230, 148, 185, 230, 136, 144, 229, 138, 159, 239, 188, 140, 232, 175, 183, 233, 135, 141, 230, 150, 176, 231, 153, 187, 229, 189, 149]),
                                s\<lparr>lg_adminHash := hash, lg_authPassword := [],
                                  lg_adminHashRow := (if lg_hasDB s \<and> ok then map_option (\<lambda>_. hash) (lg_adminHashRow s)
                                                      else lg_adminHashRow s)\<rparr>))"

section \<open>Users\<close>

text \<open>\<open>row\<close>: the query works. An error of it falls back to the administrator, as no row does.\<close>

definition validate_user_credentials :: "(string \<Rightarrow> string \<Rightarrow> bool) \<Rightarrow> bool \<Rightarrow> string \<Rightarrow> string \<Rightarrow> login_state \<Rightarrow> bool" where
  "validate_user_credentials compare row username password s =
     (case (if lg_hasDB s \<and> row then find (\<lambda>u. ur_username u = username) (lg_users s) else None) of
        Some u \<Rightarrow> if ur_enabled u \<noteq> 1 then False else compare (ur_password_hash u) password
      | None \<Rightarrow>
          lg_adminHash s \<noteq> [] \<and> username = lg_adminUsername s \<and> compare (lg_adminHash s) password)"

definition get_user_role :: "bool \<Rightarrow> string \<Rightarrow> login_state \<Rightarrow> string" where
  "get_user_role row username s =
     (case (if lg_hasDB s \<and> row then find (\<lambda>u. ur_username u = username) (lg_users s) else None) of
        Some u \<Rightarrow> ur_role u
      | None \<Rightarrow> if username = lg_adminUsername s then ''admin'' else [])"

record user_info =
  ui_ID :: string
  ui_Username :: string
  ui_Role :: string
  ui_Enabled :: bool
  ui_CreatedAt :: int

definition not_allowed :: "string \<times> int" where
  "not_allowed = (''method not allowed'', 405)"

definition no_db :: "string \<times> int" where
  "no_db = ((utf8 [230, 149, 176, 230, 141, 174, 229, 186, 147, 230, 156, 170, 229, 136, 157, 229, 167, 139, 229, 140, 150]), 500)"

definition bad_body :: "string \<times> int" where
  "bad_body = ((utf8 [232, 167, 163, 230, 158, 144, 232, 175, 183, 230, 177, 130, 229, 164, 177, 232, 180, 165]), 400)"

definition api_user_list :: "bool \<Rightarrow> http_request \<Rightarrow> login_state \<Rightarrow> user_info list api_answer" where
  "api_user_list ok r s =
     (if rq_Method r \<noteq> ''GET'' then Inl not_allowed
      else if \<not> lg_hasDB s then Inl no_db
      else if \<not> ok then Inl ((utf8 [230, 159, 165, 232, 175, 162, 229, 164, 177, 232, 180, 165]), 500)
      else Inr (map (\<lambda>u. \<lparr>ui_ID = ur_id u, ui_Username = ur_username u, ui_Role = ur_role u,
                          ui_Enabled = (ur_enabled u = 1), ui_CreatedAt = ur_created_at u\<rparr>)
                 (sort_key (\<lambda>u. - ur_created_at u) (lg_users s))))"

text \<open>\<open>req\<close>: name, password and role; \<open>stamp\<close>: the local time as fourteen digits. The insertion fails on a name or an id in use.\<close>

definition api_user_add ::
  "(string \<Rightarrow> string option) \<Rightarrow> bool \<Rightarrow> string \<Rightarrow> instant \<Rightarrow> (string \<times> string \<times> string) option \<Rightarrow> http_request \<Rightarrow>
   login_state \<Rightarrow> string api_answer \<times> login_state" where
  "api_user_add generate ok stamp now req r s =
     (if rq_Method r \<noteq> ''POST'' then (Inl not_allowed, s)
      else if \<not> lg_hasDB s then (Inl no_db, s)
      else case req of
             None \<Rightarrow> (Inl bad_body, s)
           | Some (username, password, role) \<Rightarrow>
               if username = [] \<or> password = [] then (Inl ((utf8 [231, 148, 168, 230, 136, 183, 229, 144, 141, 229, 146, 140, 229, 175, 134, 231, 160, 129, 228, 184, 141, 232, 131, 189, 228, 184, 186, 231, 169, 186]), 400), s)
               else if length username > 64 \<or> length password > 128 then (Inl ((utf8 [231, 148, 168, 230, 136, 183, 229, 144, 141, 230, 136, 150, 229, 175, 134, 231, 160, 129, 232, 191, 135, 233, 149, 191]), 400), s)
               else case generate password of
                      None \<Rightarrow> (Inl ((utf8 [229, 175, 134, 231, 160, 129, 229, 138, 160, 229, 175, 134, 229, 164, 177, 232, 180, 165]), 500), s)
                    | Some hash \<Rightarrow>
                        let i = ''usr_'' @ stamp;
                            u = \<lparr>ur_id = i, ur_username = username, ur_password_hash = hash,
                                 ur_role = (if role \<noteq> ''admin'' \<and> role \<noteq> ''readonly'' then ''readonly'' else role),
                                 ur_enabled = 1, ur_created_at = now div nano_second\<rparr>
                        in if \<not> ok \<or> list_ex (\<lambda>u. ur_id u = i \<or> ur_username u = username) (lg_users s)
                           then (Inl ((utf8 [229, 136, 155, 229, 187, 186, 231, 148, 168, 230, 136, 183, 229, 164, 177, 232, 180, 165, 239, 188, 136, 229, 143, 175, 232, 131, 189, 229, 183, 178, 229, 173, 152, 229, 156, 168, 239, 188, 137]), 400), s)
                           else (Inr i, s\<lparr>lg_users := lg_users s @ [u]\<rparr>))"

definition api_user_delete :: "bool \<Rightarrow> string option \<Rightarrow> http_request \<Rightarrow> login_state \<Rightarrow> unit api_answer \<times> login_state" where
  "api_user_delete ok req r s =
     (if rq_Method r \<noteq> ''POST'' then (Inl not_allowed, s)
      else if \<not> lg_hasDB s then (Inl no_db, s)
      else case req of
             None \<Rightarrow> (Inl bad_body, s)
           | Some i \<Rightarrow> (Inr (), if ok then s\<lparr>lg_users := filter (\<lambda>u. ur_id u \<noteq> i) (lg_users s)\<rparr> else s))"

definition api_user_toggle :: "bool \<Rightarrow> (string \<times> bool) option \<Rightarrow> http_request \<Rightarrow> login_state \<Rightarrow> unit api_answer \<times> login_state" where
  "api_user_toggle ok req r s =
     (if rq_Method r \<noteq> ''POST'' then (Inl not_allowed, s)
      else if \<not> lg_hasDB s then (Inl no_db, s)
      else case req of
             None \<Rightarrow> (Inl bad_body, s)
           | Some (i, enabled) \<Rightarrow>
               (Inr (), if ok
                 then s\<lparr>lg_users := map (\<lambda>u. if ur_id u = i then u\<lparr>ur_enabled := (if enabled then 1 else 0)\<rparr> else u) (lg_users s)\<rparr>
                 else s))"

definition api_password_change_for_user ::
  "(string \<Rightarrow> string option) \<Rightarrow> bool \<Rightarrow> (string \<times> string) option \<Rightarrow> http_request \<Rightarrow> login_state \<Rightarrow>
   unit api_answer \<times> login_state" where
  "api_password_change_for_user generate ok req r s =
     (if rq_Method r \<noteq> ''POST'' then (Inl not_allowed, s)
      else if \<not> lg_hasDB s then (Inl no_db, s)
      else case req of
             None \<Rightarrow> (Inl bad_body, s)
           | Some (i, new) \<Rightarrow>
               if length new < 8 \<or> length new > 128 then (Inl ((utf8 [229, 175, 134, 231, 160, 129, 233, 149, 191, 229, 186, 166, 229, 186, 148, 229, 156, 168] @ ''8-128'' @ utf8 [228, 185, 139, 233, 151, 180]), 400), s)
               else case generate new of
                      None \<Rightarrow> (Inl ((utf8 [229, 175, 134, 231, 160, 129, 229, 138, 160, 229, 175, 134, 229, 164, 177, 232, 180, 165]), 500), s)
                    | Some hash \<Rightarrow>
                        (Inr (), if ok
                          then s\<lparr>lg_users := map (\<lambda>u. if ur_id u = i then u\<lparr>ur_password_hash := hash\<rparr> else u) (lg_users s)\<rparr>
                          else s))"

section \<open>The page\<close>

text \<open>\<open>loginPageCSS\<close>.\<close>

definition login_page_css :: string where
  \<open>login_page_css =
      utf8 [10] @
      ''        * { margin: 0; padding: 0; box-sizing: border-box; }'' @ utf8 [10] @
      ''        body {'' @ utf8 [10] @
      ''            font-family: -apple-system, BlinkMacSystemFont, "Segoe UI", Roboto, "Helvetica Neue", Arial, sans-serif;'' @ utf8 [10] @
      ''            background: linear-gradient(135deg, #667eea 0%, #764ba2 100%);'' @ utf8 [10] @
      ''            min-height: 100vh;'' @ utf8 [10] @
      ''            display: flex;'' @ utf8 [10] @
      ''            align-items: center;'' @ utf8 [10] @
      ''            justify-content: center;'' @ utf8 [10] @
      ''        }'' @ utf8 [10] @
      ''        .login-card {'' @ utf8 [10] @
      ''            background: white;'' @ utf8 [10] @
      ''            border-radius: 16px;'' @ utf8 [10] @
      ''            box-shadow: 0 20px 40px rgba(0,0,0,0.15);'' @ utf8 [10] @
      ''            width: 400px;'' @ utf8 [10] @
      ''            padding: 40px;'' @ utf8 [10] @
      ''            text-align: center;'' @ utf8 [10] @
      ''        }'' @ utf8 [10] @
      ''        h1 { font-weight: 500; color: #333; margin-bottom: 10px; }'' @ utf8 [10] @
      ''        .subtitle { color: #666; margin-bottom: 30px; font-size: 14px; }'' @ utf8 [10] @
      ''        .input-group { margin-bottom: 20px; text-align: left; }'' @ utf8 [10] @
      ''        .input-group label { display: block; margin-bottom: 8px; color: #555; font-weight: 500; }'' @ utf8 [10] @
      ''        .input-group input { width: 100%; padding: 12px 16px; border: 1px solid #ddd; border-radius: 8px; font-size: 14px; transition: border 0.2s; }'' @ utf8 [10] @
      ''        .input-group input:focus { outline: none; border-color: #667eea; }'' @ utf8 [10] @
      ''        .captcha-group { margin-bottom: 20px; text-align: left; }'' @ utf8 [10] @
      ''        .captcha-group label { display: block; margin-bottom: 8px; color: #555; font-weight: 500; }'' @ utf8 [10] @
      ''        .captcha-row { display: flex; gap: 8px; align-items: center; }'' @ utf8 [10] @
      ''        .captcha-row input { width: 120px; padding: 12px 16px; border: 1px solid #ddd; border-radius: 8px; font-size: 14px; letter-spacing: 4px; text-transform: uppercase; }'' @ utf8 [10] @
      ''        .captcha-row input:focus { outline: none; border-color: #667eea; }'' @ utf8 [10] @
      ''        .captcha-img { border-radius: 8px; cursor: pointer; height: 46px; border: 1px solid #ddd; }'' @ utf8 [10] @
      ''        .captcha-refresh { color: #667eea; cursor: pointer; font-size: 22px; width: 36px; height: 46px; display: flex; align-items: center; justify-content: center; border: 1px solid #ddd; border-radius: 8px; background: #f8f9fa; }'' @ utf8 [10] @
      ''        .captcha-refresh:hover { color: #5a67d8; background: #eef; border-color: #667eea; }'' @ utf8 [10] @
      ''        button { width: 100%; padding: 12px; background: #667eea; color: white; border: none; border-radius: 8px; font-size: 16px; font-weight: 500; cursor: pointer; transition: background 0.2s; }'' @ utf8 [10] @
      ''        button:hover { background: #5a67d8; }'' @ utf8 [10] @
      ''        button:disabled { background: #ccc; cursor: not-allowed; }'' @ utf8 [10] @
      ''        .footer { margin-top: 20px; color: #999; font-size: 12px; }'' @ utf8 [10] @
      ''        .blocked { color: #e53e3e; margin-bottom: 15px; font-size: 14px; font-weight: 500; }'' @ utf8 [10] @
      ''        .error-msg {'' @ utf8 [10] @
      ''            background: #fee;'' @ utf8 [10] @
      ''            border: 1px solid #fcc;'' @ utf8 [10] @
      ''            color: #c00;'' @ utf8 [10] @
      ''            padding: 12px;'' @ utf8 [10] @
      ''            border-radius: 8px;'' @ utf8 [10] @
      ''            margin-bottom: 20px;'' @ utf8 [10] @
      ''            font-size: 14px;'' @ utf8 [10] @
      ''            animation: fadeOut 0.5s ease-in 3s forwards;'' @ utf8 [10] @
      ''        }'' @ utf8 [10] @
      ''        @keyframes fadeOut {'' @ utf8 [10] @
      ''            from { opacity: 1; max-height: 100px; margin-bottom: 20px; padding: 12px; }'' @ utf8 [10] @
      ''            to { opacity: 0; max-height: 0; margin-bottom: 0; padding: 0; border: none; }'' @ utf8 [10] @
      ''        }''\<close>

text \<open>The pieces of \<open>renderLoginHTML\<close>, in order.\<close>

definition login_head :: string where
  \<open>login_head =
      ''<!DOCTYPE html>'' @ utf8 [10] @
      ''<html>'' @ utf8 [10] @
      ''<head>'' @ utf8 [10] @
      ''    <meta charset="UTF-8">'' @ utf8 [10] @
      ''    <meta name="viewport" content="width=device-width, initial-scale=1.0">'' @ utf8 [10] @
      ''    <title>'' @ utf8 [231, 153, 187, 229, 189, 149] @ '' '' @ utf8 [194, 183] @ '' GoWAF</title>'' @ utf8 [10] @
      ''    <style>''\<close>

definition login_title :: string where
  \<open>login_title =
      ''</style>'' @ utf8 [10] @
      ''</head>'' @ utf8 [10] @
      ''<body>'' @ utf8 [10] @
      ''    <div class="login-card">'' @ utf8 [10] @
      ''        <h1>GoWAF</h1>'' @ utf8 [10] @
      ''        <div class="subtitle">Web '' @ utf8 [229, 186, 148, 231, 148, 168, 233, 152, 178, 231, 129, 171, 229, 162, 153] @ ''</div>''\<close>

definition login_error_open :: string where
  \<open>login_error_open =
      ''<div class="error-msg" id="errorMsg">''\<close>

definition login_error_close :: string where
  \<open>login_error_close =
      ''</div>''\<close>

definition login_blocked_open :: string where
  \<open>login_blocked_open =
      ''<div class="blocked">'' @ utf8 [231, 153, 187, 229, 189, 149, 229, 176, 157, 232, 175, 149, 232, 191, 135, 229, 164, 154, 239, 188, 140, 232, 175, 183]\<close>

definition login_blocked_form :: string where
  \<open>login_blocked_form =
      utf8 [229, 136, 134, 233, 146, 159, 229, 144, 142, 229, 134, 141, 232, 175, 149] @ ''</div>'' @ utf8 [10] @
      ''        <form method="POST" onsubmit="return false;">'' @ utf8 [10] @
      ''            <div class="input-group">'' @ utf8 [10] @
      ''                <label>'' @ utf8 [231, 148, 168, 230, 136, 183, 229, 144, 141] @ ''</label>'' @ utf8 [10] @
      ''                <input type="text" name="username" disabled>'' @ utf8 [10] @
      ''            </div>'' @ utf8 [10] @
      ''            <div class="input-group">'' @ utf8 [10] @
      ''                <label>'' @ utf8 [229, 175, 134, 231, 160, 129] @ ''</label>'' @ utf8 [10] @
      ''                <input type="password" name="password" disabled>'' @ utf8 [10] @
      ''            </div>'' @ utf8 [10] @
      ''            <button type="submit" disabled>'' @ utf8 [231, 153, 187, 229, 189, 149] @ ''</button>'' @ utf8 [10] @
      ''        </form>''\<close>

definition login_form :: string where
  \<open>login_form =
      ''<form method="POST">'' @ utf8 [10] @
      ''            <div class="input-group">'' @ utf8 [10] @
      ''                <label>'' @ utf8 [231, 148, 168, 230, 136, 183, 229, 144, 141] @ ''</label>'' @ utf8 [10] @
      ''                <input type="text" name="username" placeholder="'' @ utf8 [232, 175, 183, 232, 190, 147, 229, 133, 165, 231, 148, 168, 230, 136, 183, 229, 144, 141] @ ''" required autofocus>'' @ utf8 [10] @
      ''            </div>'' @ utf8 [10] @
      ''            <div class="input-group">'' @ utf8 [10] @
      ''                <label>'' @ utf8 [229, 175, 134, 231, 160, 129] @ ''</label>'' @ utf8 [10] @
      ''                <input type="password" name="password" placeholder="'' @ utf8 [232, 175, 183, 232, 190, 147, 229, 133, 165, 229, 175, 134, 231, 160, 129] @ ''" required>'' @ utf8 [10] @
      ''            </div>'' @ utf8 [10] @
      ''            <div class="captcha-group">'' @ utf8 [10] @
      ''                <label>'' @ utf8 [233, 170, 140, 232, 175, 129, 231, 160, 129] @ ''</label>'' @ utf8 [10] @
      ''                <div class="captcha-row">'' @ utf8 [10] @
      ''                    <input type="text" name="captcha" placeholder="'' @ utf8 [232, 175, 183, 232, 190, 147, 229, 133, 165, 233, 170, 140, 232, 175, 129, 231, 160, 129] @ ''" required maxlength="5" autocomplete="off">'' @ utf8 [10] @
      ''                    <img class="captcha-img" id="captchaImg" src="/captcha" onclick="refreshCaptcha()" title="'' @ utf8 [231, 130, 185, 229, 135, 187, 229, 136, 183, 230, 150, 176, 233, 170, 140, 232, 175, 129, 231, 160, 129] @ ''">'' @ utf8 [10] @
      ''                    <span class="captcha-refresh" onclick="refreshCaptcha()" title="'' @ utf8 [229, 136, 183, 230, 150, 176, 233, 170, 140, 232, 175, 129, 231, 160, 129] @ ''">&#x21bb;</span>'' @ utf8 [10] @
      ''                </div>'' @ utf8 [10] @
      ''            </div>'' @ utf8 [10] @
      ''            <button type="submit">'' @ utf8 [231, 153, 187, 229, 189, 149] @ ''</button>'' @ utf8 [10] @
      ''        </form>'' @ utf8 [10] @
      ''        <script nonce="''\<close>

definition login_script :: string where
  \<open>login_script =
      ''">'' @ utf8 [10] @
      ''            function refreshCaptcha() {'' @ utf8 [10] @
      ''                document.getElementById(\'captchaImg\').src = \'/captcha?t=\' + Date.now();'' @ utf8 [10] @
      ''            }''\<close>

definition login_script_hide :: string where
  \<open>login_script_hide =
      utf8 [10] @
      ''            setTimeout(function() {'' @ utf8 [10] @
      ''                var errorMsgEl = document.getElementById(\'errorMsg\');'' @ utf8 [10] @
      ''                if (errorMsgEl) {'' @ utf8 [10] @
      ''                    errorMsgEl.style.display = \'none\';'' @ utf8 [10] @
      ''                }'' @ utf8 [10] @
      ''            }, 3500);''\<close>

definition login_script_close :: string where
  \<open>login_script_close =
      utf8 [10] @
      ''        </script>''\<close>

definition login_footer :: string where
  \<open>login_footer =
      ''<div class="footer">'' @ utf8 [232, 175, 183, 228, 189, 191, 231, 148, 168, 231, 174, 161, 231, 144, 134, 229, 145, 152, 232, 180, 166, 230, 136, 183, 231, 153, 187, 229, 189, 149] @ ''</div>'' @ utf8 [10] @
      ''    </div>'' @ utf8 [10] @
      ''</body>'' @ utf8 [10] @
      ''</html>''\<close>

text \<open>\<open>template.HTMLEscapeString\<close>.\<close>

definition html_escape :: "string \<Rightarrow> string" where
  "html_escape s = concat (map (\<lambda>c.
     if c = CHR 0x00 then utf8 [239, 191, 189]
     else if c = CHR 0x22 then ''&#34;'' else if c = CHR 0x27 then ''&#39;'' else if c = CHR ''&'' then ''&amp;''
     else if c = CHR ''<'' then ''&lt;'' else if c = CHR ''>'' then ''&gt;'' else [c]) s)"

definition render_login_html :: "string \<Rightarrow> string \<Rightarrow> bool \<Rightarrow> int \<Rightarrow> string" where
  "render_login_html nonce errorMsg blocked blockMins =
     login_head @ login_page_css @ login_title @
     (if errorMsg \<noteq> [] then login_error_open @ html_escape errorMsg @ login_error_close else []) @
     (if blocked then login_blocked_open @ format_int blockMins @ login_blocked_form
      else login_form @ nonce @ login_script @ (if errorMsg \<noteq> [] then login_script_hide else []) @ login_script_close) @
     login_footer"

definition render_login_error :: "string \<Rightarrow> string \<Rightarrow> string" where
  "render_login_error nonce errorMsg = render_login_html nonce errorMsg False 0"

section \<open>Logging in and out\<close>

datatype login_answer =
    LoginHtml string
  | LoginFailed string int
  | LoggedIn "set_cookie list"

record login_env =
  le_now :: instant
  le_nonce :: string
  le_config :: bool
  le_query :: bool
  le_stmt :: bool
  le_token :: "8 word list option"
  le_csrf :: "8 word list option"

definition session_cookie :: "string \<Rightarrow> string \<Rightarrow> bool \<Rightarrow> int \<Rightarrow> http_request \<Rightarrow> set_cookie" where
  "session_cookie name v httpOnly ttl r =
     \<lparr>sc_Name = name, sc_Value = v, sc_Path = ''/'', sc_HttpOnly = httpOnly, sc_Secure = rq_TLS r, sc_Lax = True,
      sc_MaxAge = ttl * 3600\<rparr>"

text \<open>What follows valid credentials: a new session in place of the one the request came with.\<close>

definition open_session ::
  "(string \<Rightarrow> runtime_config option) \<Rightarrow> login_env \<Rightarrow> string \<Rightarrow> http_request \<Rightarrow> login_state \<Rightarrow> login_answer \<times> login_state" where
  "open_session unmarshal e user r s =
     (let s = clear_login_attempts (remote_host r) user s;
          s = (case request_cookie (rq_Header r) ''session'' of
                 Some old \<Rightarrow> if old \<noteq> [] then s\<lparr>lg_sessions := remove_session (le_stmt e) old (lg_sessions s)\<rparr> else s
               | None \<Rightarrow> s);
          token = generate_session_token (le_token e);
          csrf = generate_session_token (le_csrf e)
      in if token = [] \<or> csrf = [] then (LoginFailed ''Failed to generate secure token'' 500, s)
         else
           let s = s\<lparr>lg_sessions := add_session_with_csrf (le_stmt e) (le_now e) token user csrf (lg_sessions s)\<rparr>;
               (sec, s) = get_security_config unmarshal (le_config e) (le_now e) s
           in (LoggedIn [session_cookie ''session'' token True (sec_SessionTTL sec) r,
                         session_cookie ''csrf_token'' csrf False (sec_SessionTTL sec) r, expired_cookie ''captcha_id''], s))"

text \<open>
  \<open>LoginPage\<close>. Since \<open>ParseForm\<close> ran, a multipart body yields no values. A request other than \<open>GET\<close> logs in.
\<close>

definition login_page ::
  "(string \<Rightarrow> runtime_config option) \<Rightarrow> (string \<Rightarrow> string \<Rightarrow> bool) \<Rightarrow> login_env \<Rightarrow> http_request \<Rightarrow> login_state \<Rightarrow>
   login_answer \<times> login_state" where
  "login_page unmarshal compare e r s =
     (let ip = remote_host r; config = get_security_config unmarshal (le_config e) (le_now e);
          failed = (\<lambda>msg. LoginHtml (render_login_error (le_nonce e) msg));
          (blocked, s) = is_login_blocked (le_now e) ip [] s
      in if rq_Method r = ''GET'' then
           let (sec, s) = config s in (LoginHtml (render_login_html (le_nonce e) [] blocked (sec_BlockDuration sec)), s)
         else if blocked then
           let (sec, s) = config s in (failed ((utf8 [231, 153, 187, 229, 189, 149, 229, 176, 157, 232, 175, 149, 232, 191, 135, 229, 164, 154, 239, 188, 140, 232, 175, 183]) @ format_int (sec_BlockDuration sec) @ (utf8 [229, 136, 134, 233, 146, 159, 229, 144, 142, 229, 134, 141, 232, 175, 149])), s)
         else case request_cookie (rq_Header r) ''captcha_id'' of
                None \<Rightarrow> (failed (utf8 [232, 175, 183, 229, 133, 136, 232, 142, 183, 229, 143, 150, 233, 170, 140, 232, 175, 129, 231, 160, 129]), s)
              | Some captchaID \<Rightarrow>
                  let (valid, s) = validate_captcha unmarshal (le_config e) (le_now e) captchaID (form_value [] None ''captcha'' r) s
                  in if \<not> valid
                     then (failed (utf8 [233, 170, 140, 232, 175, 129, 231, 160, 129, 233, 148, 153, 232, 175, 175, 230, 136, 150, 229, 183, 178, 232, 191, 135, 230, 156, 159]), record_login_failure unmarshal (le_config e) (le_now e) ip [] s)
                     else
                       let user = form_value [] None ''username'' r; pass = form_value [] None ''password'' r;
                           (blocked, s) = is_login_blocked (le_now e) ip user s
                       in if blocked then
                            let (sec, s) = config s
                            in (failed ((utf8 [230, 173, 164, 232, 180, 166, 230, 136, 183, 231, 153, 187, 229, 189, 149, 229, 176, 157, 232, 175, 149, 232, 191, 135, 229, 164, 154, 239, 188, 140, 232, 175, 183]) @ format_int (sec_BlockDuration sec) @ (utf8 [229, 136, 134, 233, 146, 159, 229, 144, 142, 229, 134, 141, 232, 175, 149])), s)
                          else if validate_user_credentials compare (le_query e) user pass s then open_session unmarshal e user r s
                          else (failed (utf8 [231, 148, 168, 230, 136, 183, 229, 144, 141, 230, 136, 150, 229, 175, 134, 231, 160, 129, 233, 148, 153, 232, 175, 175]), record_login_failure unmarshal (le_config e) (le_now e) ip user s))"

definition logout :: "bool \<Rightarrow> http_request \<Rightarrow> login_state \<Rightarrow> set_cookie \<times> login_state" where
  "logout ok r s =
     (expired_cookie ''session'',
      case request_cookie (rq_Header r) ''session'' of
        Some v \<Rightarrow> s\<lparr>lg_sessions := remove_session ok v (lg_sessions s)\<rparr>
      | None \<Rightarrow> s)"

text \<open>One tick of the cleaning goroutine; \<open>enum\<close> gives the orders in which the maps are ranged over.\<close>

definition session_cleaner_tick ::
  "(string \<Rightarrow> runtime_config option) \<Rightarrow> bool \<Rightarrow> bool \<Rightarrow> bool \<Rightarrow> (nat \<Rightarrow> bool) \<Rightarrow> (nat \<Rightarrow> string list) \<Rightarrow> instant \<Rightarrow>
   login_state \<Rightarrow> login_state" where
  "session_cleaner_tick unmarshal ok begun committed batch enum now s =
     (let s = s\<lparr>lg_sessions := clean_expired_sessions begun committed batch (enum 0) now (lg_sessions s)\<rparr>;
          s = clean_expired_captchas unmarshal ok now s;
          s = clean_expired_login_entries (enum 1) now s;
          s = clean_password_change_entries (enum 2) s
      in clean_api_key_create_entries (enum 3) s)"

section \<open>Starting\<close>

text \<open>
  \<open>InitCoreConfigs\<close>: the settings of the row, or the defaults, go to the configuration, the sessions
  and the limits of API calls.
\<close>

definition init_core_configs ::
  "(string \<Rightarrow> runtime_config option) \<Rightarrow> (int \<Rightarrow> int \<Rightarrow> 'g) \<Rightarrow> string option \<Rightarrow> app_config \<Rightarrow> 'g admin_state \<Rightarrow>
   app_config \<times> 'g admin_state" where
  "init_core_configs unmarshal new_limiter row cfg s =
     (let rc = stored_runtime_config unmarshal row; sec = rn_Security rc;
          s = s\<lparr>ad_sessions := init_session_config (sec_SessionTTL sec) (sec_AbsoluteTTL sec) (ad_sessions s)\<rparr>
      in (cfg\<lparr>cf_Runtime := rc\<rparr>, init_rate_limit_config new_limiter (sec_APILimit sec) (sec_APIWindow sec) s))"

end
