(* ===== verification/LoginProps.thy ===== *)
theory LoginProps
  imports Login AdminAuthProps
begin

text \<open>
  What logging in guarantees, and what its counters do beyond it.
\<close>

subsection \<open>What the steps keep\<close>

lemma config_keeps [simp]:
  "lg_attempts (snd (get_security_config um ok now s)) = lg_attempts s"
  "lg_attemptsByUser (snd (get_security_config um ok now s)) = lg_attemptsByUser s"
  "lg_blocked (snd (get_security_config um ok now s)) = lg_blocked s"
  "lg_captchas (snd (get_security_config um ok now s)) = lg_captchas s"
  "lg_hasDB (snd (get_security_config um ok now s)) = lg_hasDB s"
  "lg_runtime (snd (get_security_config um ok now s)) = lg_runtime s"
  "lg_users (snd (get_security_config um ok now s)) = lg_users s"
  "lg_adminUsername (snd (get_security_config um ok now s)) = lg_adminUsername s"
  "lg_adminHash (snd (get_security_config um ok now s)) = lg_adminHash s"
  "lg_sessions (snd (get_security_config um ok now s)) = lg_sessions s"
  by (simp_all add: get_security_config_def Let_def split: option.split)

lemma blocked_keeps [simp]:
  "lg_captchas (snd (is_login_blocked now ip u s)) = lg_captchas s"
  "lg_hasDB (snd (is_login_blocked now ip u s)) = lg_hasDB s"
  "lg_runtime (snd (is_login_blocked now ip u s)) = lg_runtime s"
  "lg_users (snd (is_login_blocked now ip u s)) = lg_users s"
  "lg_adminUsername (snd (is_login_blocked now ip u s)) = lg_adminUsername s"
  "lg_adminHash (snd (is_login_blocked now ip u s)) = lg_adminHash s"
  "lg_sessions (snd (is_login_blocked now ip u s)) = lg_sessions s"
  "lg_cachedSecurity (snd (is_login_blocked now ip u s)) = lg_cachedSecurity s"
  by (simp_all add: is_login_blocked_def Let_def)

lemma captcha_keeps [simp]:
  "lg_attempts (snd (validate_captcha um ok now i x s)) = lg_attempts s"
  "lg_attemptsByUser (snd (validate_captcha um ok now i x s)) = lg_attemptsByUser s"
  "lg_blocked (snd (validate_captcha um ok now i x s)) = lg_blocked s"
  "lg_hasDB (snd (validate_captcha um ok now i x s)) = lg_hasDB s"
  "lg_runtime (snd (validate_captcha um ok now i x s)) = lg_runtime s"
  "lg_users (snd (validate_captcha um ok now i x s)) = lg_users s"
  "lg_adminUsername (snd (validate_captcha um ok now i x s)) = lg_adminUsername s"
  "lg_adminHash (snd (validate_captcha um ok now i x s)) = lg_adminHash s"
  "lg_sessions (snd (validate_captcha um ok now i x s)) = lg_sessions s"
  by (simp_all add: validate_captcha_def Let_def case_prod_unfold split: option.split)

lemma clear_keeps [simp]:
  "lg_captchas (clear_login_attempts ip u s) = lg_captchas s" "lg_sessions (clear_login_attempts ip u s) = lg_sessions s"
  by (simp_all add: clear_login_attempts_def Let_def)

lemma credentials_cong:
  "lg_hasDB s' = lg_hasDB s \<Longrightarrow> lg_users s' = lg_users s \<Longrightarrow> lg_adminUsername s' = lg_adminUsername s \<Longrightarrow>
   lg_adminHash s' = lg_adminHash s \<Longrightarrow>
   validate_user_credentials compare q u p s' = validate_user_credentials compare q u p s"
  by (simp add: validate_user_credentials_def split: option.split)

definition barred :: "instant \<Rightarrow> string \<Rightarrow> login_state \<Rightarrow> bool" where
  "barred now k s \<longleftrightarrow> (case lg_blocked s k of Some until \<Rightarrow> now < until | None \<Rightarrow> False)"

lemma blocked_iff:
  "fst (is_login_blocked now ip u s) \<longleftrightarrow> barred now ip s \<or> u \<noteq> '''' \<and> barred now (user_key ip u) s"
  by (auto simp: is_login_blocked_def barred_def user_key_def Let_def split: option.split)

lemma barred_after: "barred now k (snd (is_login_blocked now ip u s)) = barred now k s"
  by (auto simp: is_login_blocked_def barred_def Let_def split: option.split)

lemma captcha_valid:
  assumes "fst (validate_captcha um ok now i x s)"
  shows "\<exists>entry. lg_captchas s i = Some entry \<and> strings_equal_fold (ce_answer entry) x \<and>
    lg_captchas (snd (validate_captcha um ok now i x s)) i = None"
proof -
  obtain entry where e: "lg_captchas s i = Some entry" "i \<noteq> ''''" "x \<noteq> ''''"
    using assms by (auto simp: validate_captcha_def split: if_splits option.splits)
  then show ?thesis
    using assms by (auto simp: validate_captcha_def Let_def case_prod_unfold split: if_splits)
qed

lemma session_opened:
  assumes "fst (open_session um e user r s) = LoggedIn cookies"
  shows "\<exists>token csrf. map sc_Name cookies = [''session'', ''csrf_token'', ''captcha_id''] \<and>
    sc_Value (cookies ! 0) = token \<and> token \<noteq> '''' \<and>
    ss_store (lg_sessions (snd (open_session um e user r s))) token =
      Some \<lparr>se_createdAt = le_now e, se_originalCreatedAt = le_now e, se_username = user, se_csrfToken = csrf\<rparr> \<and>
    sc_Value (cookies ! 1) = csrf \<and> lg_captchas (snd (open_session um e user r s)) = lg_captchas s"
  using assms
  by (auto simp: open_session_def Let_def case_prod_unfold session_cookie_def expired_cookie_def
      add_session_with_csrf_def set_db_def split: if_splits option.split)

subsection \<open>What a login takes\<close>

text \<open>
  C4. A session is only opened for a request that is not a \<open>GET\<close>, comes from an address that is not blocked, nor
  blocked for that user, carries the identifier of a stored captcha and its text, and the
  credentials of that user. The captcha is then gone, and the session belongs to that user, with the CSRF
  token sent along.
\<close>

theorem login_requires:
  assumes "fst (login_page um compare e r s) = LoggedIn cookies"
  defines "s' \<equiv> snd (login_page um compare e r s)"
    and "user \<equiv> form_value [] None ''username'' r" and "pass \<equiv> form_value [] None ''password'' r"
  shows "rq_Method r \<noteq> ''GET'' \<and>
    \<not> barred (le_now e) (remote_host r) s \<and> (user \<noteq> '''' \<longrightarrow> \<not> barred (le_now e) (user_key (remote_host r) user) s) \<and>
    validate_user_credentials compare (le_query e) user pass s \<and>
    (\<exists>i entry. request_cookie (rq_Header r) ''captcha_id'' = Some i \<and> lg_captchas s i = Some entry \<and>
       strings_equal_fold (ce_answer entry) (form_value [] None ''captcha'' r) \<and> lg_captchas s' i = None) \<and>
    map sc_Name cookies = [''session'', ''csrf_token'', ''captcha_id''] \<and>
    ss_store (lg_sessions s') (sc_Value (cookies ! 0)) =
      Some \<lparr>se_createdAt = le_now e, se_originalCreatedAt = le_now e, se_username = user,
            se_csrfToken = sc_Value (cookies ! 1)\<rparr>"
proof -
  let ?ip = "remote_host r"
  obtain b1 s1 where s1: "is_login_blocked (le_now e) ?ip [] s = (b1, s1)" by fastforce
  have n1: "rq_Method r \<noteq> ''GET''" "\<not> b1"
    using assms(1) by (auto simp: login_page_def Let_def s1 case_prod_unfold split: if_splits)
  obtain i where i: "request_cookie (rq_Header r) ''captcha_id'' = Some i"
    using assms(1) n1 by (auto simp: login_page_def Let_def s1 case_prod_unfold split: option.splits)
  let ?v = "validate_captcha um (le_config e) (le_now e) i (form_value [] None ''captcha'' r) s1"
  obtain v s2 where s2: "?v = (v, s2)" by fastforce
  have n2: v
    using assms(1) n1 by (auto simp: login_page_def Let_def s1 s2 i case_prod_unfold split: if_splits)
  obtain b3 s3 where s3: "is_login_blocked (le_now e) ?ip user s2 = (b3, s3)" by fastforce
  have n3: "\<not> b3" "validate_user_credentials compare (le_query e) user pass s3"
    and login: "login_page um compare e r s = open_session um e user r s3"
    using assms(1) n1 n2
    by (auto simp: login_page_def Let_def s1 s2 s3[unfolded user_def] i user_def pass_def case_prod_unfold split: if_splits)
  obtain entry where entry: "lg_captchas s i = Some entry" "strings_equal_fold (ce_answer entry) (form_value [] None ''captcha'' r)"
      "lg_captchas s2 i = None"
    using captcha_valid[of um "le_config e" "le_now e" i "form_value [] None ''captcha'' r" s1] n2 s2
      blocked_keeps(1)[of "le_now e" ?ip "[]" s] s1 by auto
  have "barred now k s3 = barred now k s" if "now = le_now e" for now k
    using barred_after[of "le_now e" k ?ip user s2] barred_after[of "le_now e" k ?ip "[]" s]
      captcha_keeps(3)[of um "le_config e" "le_now e" i "form_value [] None ''captcha'' r" s1] s1 s2 s3 that
    by (simp add: barred_def)
  moreover have "\<not> barred (le_now e) ?ip s3 \<and> (user \<noteq> '''' \<longrightarrow> \<not> barred (le_now e) (user_key ?ip user) s3)"
    using blocked_iff[of "le_now e" ?ip user s2] n3(1) s3 barred_after[of "le_now e" _ ?ip user s2] by auto
  moreover have "validate_user_credentials compare (le_query e) user pass s"
    using n3(2) credentials_cong[of s3 s compare "le_query e" user pass]
      blocked_keeps(2,4,5,6)[of "le_now e" ?ip user s2] blocked_keeps(2,4,5,6)[of "le_now e" ?ip "[]" s]
      captcha_keeps(4,6,7,8)[of um "le_config e" "le_now e" i "form_value [] None ''captcha'' r" s1] s1 s2 s3 by simp
  moreover have "lg_captchas s3 i = None"
    using blocked_keeps(1)[of "le_now e" ?ip user s2] s3 entry(3) by simp
  moreover have "fst (open_session um e user r s3) = LoggedIn cookies"
    using assms(1) login by simp
  ultimately show ?thesis
    using session_opened[of um e user r s3 cookies] entry i n1 unfolding s'_def login by auto
qed

definition login_request :: http_request where
  "login_request =
     \<lparr>rq_Method = ''POST'', rq_Path = ''/login'', rq_RawQuery = ''captcha=ab&username=u&password=p'', rq_Proto = ''HTTP/1.1'',
      rq_Host = ''h'', rq_RemoteAddr = ''10.0.0.1'', rq_TLS = True, rq_ContentLength = 0,
      rq_Header = no_headers(''Cookie'' := [''captcha_id=i'']), rq_Body = Some ''''\<rparr>"

definition sample_login :: login_state where
  "sample_login =
     \<lparr>lg_attempts = [], lg_attemptsByUser = Map.empty, lg_blocked = Map.empty,
      lg_captchas = [''i'' \<mapsto> \<lparr>ce_answer = ''AB'', ce_createdAt = 0\<rparr>],
      lg_cachedSecurity = rn_Security default_runtime_config, lg_cachedAt = 0, lg_hasDB = False, lg_runtime = None,
      lg_users = [], lg_adminUsername = ''u'', lg_adminHash = ''p'', lg_adminHashRow = None, lg_authPassword = '''',
      lg_passwordChanges = [], lg_apiKeyCreates = [],
      lg_sessions = \<lparr>ss_store = Map.empty, ss_db = None, ss_ttl = hour, ss_absoluteTTL = hour, ss_safe = None\<rparr>\<rparr>"

definition sample_login_env :: login_env where
  "sample_login_env =
     \<lparr>le_now = 1, le_nonce = '''', le_config = True, le_query = True, le_stmt = True, le_token = Some [1], le_csrf = Some [2]\<rparr>"

lemma login_request_reads:
  "request_cookie (rq_Header login_request) ''captcha_id'' = Some ''i''"
  "request_cookie (rq_Header login_request) ''session'' = None"
  "form_value [] None ''captcha'' login_request = ''ab''"
  "form_value [] None ''username'' login_request = ''u''"
  "form_value [] None ''password'' login_request = ''p''"
  "remote_host login_request = ''10.0.0.1''"
  "rq_Method login_request = ''POST''"
  by code_simp+

lemma sample_logs_in:
  "fst (login_page (\<lambda>_. None) (=) sample_login_env login_request sample_login) =
     LoggedIn [session_cookie ''session'' ''01'' True 8 login_request, session_cookie ''csrf_token'' ''02'' False 8 login_request,
               expired_cookie ''captcha_id'']"
proof -
  have fold: "strings_equal_fold ''AB'' ''ab''"
    by code_simp
  have tokens: "generate_session_token (Some [1]) = ''01''" "generate_session_token (Some [2]) = ''02''"
    by code_simp+
  show ?thesis
    by (simp add: login_page_def login_request_reads is_login_blocked_def validate_captcha_def get_security_config_def
        sample_login_def sample_login_env_def time_sub_def default_runtime_config_def fold validate_user_credentials_def
        open_session_def clear_login_attempts_def tokens user_key_def Let_def)
qed

theorem login_requires_witness:
  "ss_store (lg_sessions (snd (login_page (\<lambda>_. None) (=) sample_login_env login_request sample_login))) ''01'' =
     Some \<lparr>se_createdAt = 1, se_originalCreatedAt = 1, se_username = ''u'', se_csrfToken = ''02''\<rparr>"
  using login_requires[OF sample_logs_in]
  by (simp add: session_cookie_def sample_login_env_def login_request_reads)

subsection \<open>Wrong guesses\<close>

text \<open>What a request was: one that reached a check it failed, one that opened a session, or neither.\<close>

datatype attempt = NoGuess | WrongGuess | RightGuess

definition login_attempt ::
  "(string \<Rightarrow> runtime_config option) \<Rightarrow> (string \<Rightarrow> string \<Rightarrow> bool) \<Rightarrow> login_env \<Rightarrow> http_request \<Rightarrow> login_state \<Rightarrow> attempt" where
  "login_attempt um compare e r s =
     (let now = le_now e; ip = remote_host r; user = form_value [] None ''username'' r; pass = form_value [] None ''password'' r in
      if rq_Method r = ''GET'' \<or> barred now ip s then NoGuess
      else case request_cookie (rq_Header r) ''captcha_id'' of
             None \<Rightarrow> NoGuess
           | Some i \<Rightarrow>
               if \<not> fst (validate_captcha um (le_config e) now i (form_value [] None ''captcha'' r)
                          (snd (is_login_blocked now ip '''' s))) then WrongGuess
               else if user \<noteq> '''' \<and> barred now (user_key ip user) s then NoGuess
               else if validate_user_credentials compare (le_query e) user pass s then RightGuess else WrongGuess)"

fun login_run ::
  "(string \<Rightarrow> runtime_config option) \<Rightarrow> (string \<Rightarrow> string \<Rightarrow> bool) \<Rightarrow> (login_env \<times> http_request) list \<Rightarrow> login_state \<Rightarrow>
   (instant \<times> string \<times> attempt) list \<times> login_state" where
  "login_run um compare [] s = ([], s)"
| "login_run um compare ((e, r) # es) s =
     (let (as, s') = login_run um compare es (snd (login_page um compare e r s))
      in ((le_now e, remote_host r, login_attempt um compare e r s) # as, s'))"

definition wrong_times :: "string \<Rightarrow> (instant \<times> string \<times> attempt) list \<Rightarrow> instant list" where
  "wrong_times ip as = map fst (filter (\<lambda>(t, ip', a). ip' = ip \<and> a = WrongGuess) as)"

definition times_within :: "duration \<Rightarrow> instant \<Rightarrow> instant list \<Rightarrow> nat" where
  "times_within d t ts = length (filter (\<lambda>t'. t - d < t' \<and> t' \<le> t) ts)"

text \<open>The settings in force are \<open>c\<close>, in the cache and behind it.\<close>

definition steady :: "(string \<Rightarrow> runtime_config option) \<Rightarrow> security_config \<Rightarrow> login_state \<Rightarrow> bool" where
  "steady um c s \<longleftrightarrow> lg_cachedSecurity s = c \<and>
     (if lg_hasDB s then \<exists>j rc. lg_runtime s = Some j \<and> j \<noteq> '''' \<and> um j = Some rc \<and> rn_Security rc = c
      else c = rn_Security default_runtime_config)"

lemma steady_config: "steady um c s \<Longrightarrow> fst (get_security_config um True now s) = c \<and> steady um c (snd (get_security_config um True now s))"
  by (auto simp: steady_def get_security_config_def Let_def)

lemma steady_cong:
  "steady um c s \<Longrightarrow> lg_cachedSecurity s' = lg_cachedSecurity s \<Longrightarrow> lg_hasDB s' = lg_hasDB s \<Longrightarrow> lg_runtime s' = lg_runtime s \<Longrightarrow>
   steady um c s'"
  unfolding steady_def by (cases "lg_hasDB s") simp_all

lemma steady_blocked: "steady um c s \<Longrightarrow> steady um c (snd (is_login_blocked now ip u s))"
  by (erule steady_cong) simp_all

lemma steady_captcha: "steady um c s \<Longrightarrow> steady um c (snd (validate_captcha um True now i x s))"
  using steady_config[of um c "s\<lparr>lg_captchas := (lg_captchas s)(i := None)\<rparr>" now]
  by (auto simp: validate_captcha_def Let_def case_prod_unfold steady_def split: option.split)

lemma count_keeps [simp]:
  "lg_cachedSecurity (count_failure c now ip s) = lg_cachedSecurity s" "lg_hasDB (count_failure c now ip s) = lg_hasDB s"
  "lg_runtime (count_failure c now ip s) = lg_runtime s"
  "lg_cachedSecurity (count_user_failure c now ip s) = lg_cachedSecurity s" "lg_hasDB (count_user_failure c now ip s) = lg_hasDB s"
  "lg_runtime (count_user_failure c now ip s) = lg_runtime s"
  by (simp_all add: count_failure_def count_user_failure_def Let_def)

lemma steady_failure:
  assumes "steady um c s"
  shows "steady um c (record_login_failure um True now ip u s)"
  using steady_config[OF assms, of now]
  by (auto simp: record_login_failure_def Let_def case_prod_unfold intro: steady_cong)

text \<open>
  The counters of an address against its wrong guesses so far (\<open>F\<close>): while it is blocked, all of them lie a
  block before its end; while it is not, the counter covers those of the last block's length.
\<close>

definition guesses_ok :: "security_config \<Rightarrow> string \<Rightarrow> instant \<Rightarrow> instant list \<Rightarrow> login_state \<Rightarrow> bool" where
  "guesses_ok c ip now F s \<longleftrightarrow>
     (let d = sec_BlockDuration c * minute; n = map_get 0 (map_of (lg_attempts s)) ip in
      (\<forall>t \<in> set F. t \<le> now) \<and> n < sec_MaxAttempts c \<and>
      (case lg_blocked s ip of
         Some b \<Rightarrow> \<forall>t \<in> set F. t + d \<le> b
       | None \<Rightarrow> int (length (filter (\<lambda>t. t > now - d) F)) \<le> n) \<and>
      (\<forall>T. int (times_within d T F) \<le> sec_MaxAttempts c))"

lemma guesses_later: "guesses_ok c ip now F s \<Longrightarrow> now \<le> now' \<Longrightarrow> guesses_ok c ip now' F s"
proof -
  assume ok: "guesses_ok c ip now F s" and le: "now \<le> now'"
  have "length (filter (\<lambda>t. t > now' - d) F) \<le> length (filter (\<lambda>t. t > now - d) F)" for d
    using le by (induction F) auto
  from this[of "sec_BlockDuration c * minute"] show ?thesis
    using ok le unfolding guesses_ok_def Let_def by (auto split: option.splits)
qed

lemma guesses_cong:
  "guesses_ok c ip now F s \<Longrightarrow> lg_blocked s' = lg_blocked s \<Longrightarrow> lg_attempts s' = lg_attempts s \<Longrightarrow> guesses_ok c ip now F s'"
  by (simp add: guesses_ok_def)

text \<open>Lifting a block that has ended, with or without the counter.\<close>

lemma guesses_lift:
  assumes "guesses_ok c ip now F s" "\<not> barred now ip s" "0 < sec_MaxAttempts c"
    "lg_blocked s' ip = None" "lg_blocked s ip = None \<longrightarrow> map_get 0 (map_of (lg_attempts s')) ip = map_get 0 (map_of (lg_attempts s)) ip"
    "map_get 0 (map_of (lg_attempts s')) ip \<in> {0, map_get 0 (map_of (lg_attempts s)) ip}"
    "0 \<le> map_get 0 (map_of (lg_attempts s)) ip"
  shows "guesses_ok c ip now F s'"
proof (cases "lg_blocked s ip")
  case None
  then show ?thesis using assms by (simp add: guesses_ok_def Let_def)
next
  case (Some b)
  have "filter (\<lambda>t. t > now - sec_BlockDuration c * minute) F = []"
    using assms(1,2) by (force simp: guesses_ok_def Let_def Some barred_def filter_empty_conv)
  then show ?thesis
    using assms by (auto simp: guesses_ok_def Let_def)
qed

definition counters_pos :: "login_state \<Rightarrow> bool" where
  "counters_pos s \<longleftrightarrow> (\<forall>ip. 0 \<le> map_get 0 (map_of (lg_attempts s)) ip)"

lemma counter_pos: "counters_pos s \<Longrightarrow> 0 \<le> map_get 0 (map_of (lg_attempts s)) ip"
  by (simp add: counters_pos_def)

lemma attempts_delete [simp]:
  "map_get 0 (map_of (AList.delete k m)) k' = (if k' = k then 0 else map_get 0 (map_of m) k')"
  by (simp add: map_get_def delete_conv')

lemma attempts_update [simp]:
  "map_get 0 (map_of (AList.update k n m)) k' = (if k' = k then n else map_get 0 (map_of m) k')"
  by (simp add: map_get_def update_conv')

lemma counters_delete: "counters_pos s \<Longrightarrow> counters_pos (s\<lparr>lg_attempts := AList.delete k (lg_attempts s)\<rparr>)"
  by (simp add: counters_pos_def)

lemma counters_cong: "counters_pos s \<Longrightarrow> lg_attempts s' = lg_attempts s \<Longrightarrow> counters_pos s'"
  by (simp add: counters_pos_def)

lemma counters_blocked: "counters_pos s \<Longrightarrow> counters_pos (snd (is_login_blocked now ip u s))"
  using counters_delete[of s ip]
  by (auto simp: is_login_blocked_def Let_def intro: counters_cong split: option.split)

lemma guesses_blocked:
  assumes "guesses_ok c ip now F s" "counters_pos s" "0 < sec_MaxAttempts c"
  shows "guesses_ok c ip now F (snd (is_login_blocked now ip' u s))"
proof (cases "lg_blocked (snd (is_login_blocked now ip' u s)) ip = lg_blocked s ip \<and>
    map_get 0 (map_of (lg_attempts (snd (is_login_blocked now ip' u s)))) ip = map_get 0 (map_of (lg_attempts s)) ip")
  case True
  then show ?thesis using assms(1) by (simp add: guesses_ok_def Let_def)
next
  case False
  then have "\<not> barred now ip s" "lg_blocked (snd (is_login_blocked now ip' u s)) ip = None" "lg_blocked s ip \<noteq> None"
    "map_get 0 (map_of (lg_attempts (snd (is_login_blocked now ip' u s)))) ip \<in> {0, map_get 0 (map_of (lg_attempts s)) ip}"
    by (auto simp: is_login_blocked_def Let_def barred_def split: if_splits option.splits)
  then show ?thesis
    using assms counter_pos[OF assms(2)] by (intro guesses_lift[OF assms(1)]) auto
qed

lemma counters_failure: "counters_pos s \<Longrightarrow> counters_pos (count_failure c now ip s)"
  by (auto simp: counters_pos_def count_failure_def Let_def intro: add_nonneg_nonneg)

lemma counters_user_failure: "counters_pos s \<Longrightarrow> counters_pos (count_user_failure c now ip s)"
  by (erule counters_cong) (simp add: count_user_failure_def Let_def)

lemma times_within_add: "times_within d T (F @ [now]) = times_within d T F + (if T - d < now \<and> now \<le> T then 1 else 0)"
  by (simp add: times_within_def)

lemma times_within_now: "now \<le> T \<Longrightarrow> times_within d T F \<le> length (filter (\<lambda>t. t > now - d) F)"
  unfolding times_within_def by (induction F) auto

lemma guesses_failure:
  assumes "guesses_ok c ip now F s" "0 < sec_MaxAttempts c" "lg_blocked s ip = None"
  shows "guesses_ok c ip now (F @ [now]) (count_failure c now ip s)"
proof -
  let ?d = "sec_BlockDuration c * minute" and ?n = "map_get 0 (map_of (lg_attempts s)) ip"
  have n: "?n < sec_MaxAttempts c" "int (length (filter (\<lambda>t. t > now - ?d) F)) \<le> ?n" "\<forall>t \<in> set F. t \<le> now"
    and old: "int (times_within ?d T F) \<le> sec_MaxAttempts c" for T
    using assms by (simp_all add: guesses_ok_def Let_def)
  have "int (times_within ?d T (F @ [now])) \<le> sec_MaxAttempts c" for T
    using n old[of T] times_within_now[of now T ?d F] by (auto simp: times_within_add)
  then show ?thesis
    using n assms(2,3) by (auto simp: guesses_ok_def count_failure_def Let_def)
qed

lemma guesses_other_failure:
  "guesses_ok c ip now F s \<Longrightarrow> ip' \<noteq> ip \<Longrightarrow> guesses_ok c ip now F (count_failure c now ip' s)"
  by (cases "lg_blocked s ip") (simp_all add: guesses_ok_def count_failure_def Let_def)

lemma guesses_user_failure:
  "guesses_ok c ip now F s \<Longrightarrow> guesses_ok c ip now F (count_user_failure c now k s)"
  by (auto simp: guesses_ok_def count_user_failure_def Let_def split: option.splits)

lemma guesses_record:
  assumes "guesses_ok c ip now F s" "0 < sec_MaxAttempts c" "steady um c s" "ip' = ip \<longrightarrow> lg_blocked s ip = None"
  shows "guesses_ok c ip now (if ip' = ip then F @ [now] else F) (record_login_failure um True now ip' u s)"
proof -
  obtain s1 where s1: "get_security_config um True now s = (c, s1)"
    using steady_config[OF assms(3), of now] by (metis prod.collapse)
  have "guesses_ok c ip now F s1" "lg_blocked s1 = lg_blocked s"
    using guesses_cong[OF assms(1), of s1] config_keeps(1,3)[of um True now s] s1 by simp_all
  then have "guesses_ok c ip now (if ip' = ip then F @ [now] else F) (count_failure c now ip' s1)"
    using guesses_failure[of c ip now F s1] guesses_other_failure[of c ip now F s1 ip'] assms(2,4) by auto
  then show ?thesis
    using guesses_user_failure by (simp add: record_login_failure_def s1 Let_def)
qed

lemma counters_record: "counters_pos s \<Longrightarrow> counters_pos (record_login_failure um ok now ip u s)"
  by (auto simp: record_login_failure_def Let_def case_prod_unfold
      intro!: counters_user_failure counters_failure elim: counters_cong)

text \<open>The three facts a run keeps.\<close>

definition login_inv ::
  "(string \<Rightarrow> runtime_config option) \<Rightarrow> security_config \<Rightarrow> string \<Rightarrow> instant \<Rightarrow> instant list \<Rightarrow> login_state \<Rightarrow> bool" where
  "login_inv um c ip now F s \<longleftrightarrow> guesses_ok c ip now F s \<and> counters_pos s \<and> steady um c s"

lemma inv_blocked:
  "login_inv um c ip now F s \<Longrightarrow> 0 < sec_MaxAttempts c \<Longrightarrow> login_inv um c ip now F (snd (is_login_blocked now ip' u s))"
  by (simp add: login_inv_def guesses_blocked counters_blocked steady_blocked)

lemma inv_captcha:
  "login_inv um c ip now F s \<Longrightarrow> login_inv um c ip now F (snd (validate_captcha um True now i x s))"
  by (auto simp: login_inv_def intro: guesses_cong counters_cong steady_captcha)

lemma inv_config: "login_inv um c ip now F s \<Longrightarrow> login_inv um c ip now F (snd (get_security_config um True now s))"
  using steady_config[of um c s now] by (auto simp: login_inv_def intro: guesses_cong counters_cong)

lemma inv_record:
  "login_inv um c ip now F s \<Longrightarrow> 0 < sec_MaxAttempts c \<Longrightarrow> (ip' = ip \<longrightarrow> lg_blocked s ip = None) \<Longrightarrow>
   login_inv um c ip now (if ip' = ip then F @ [now] else F) (record_login_failure um True now ip' u s)"
  by (simp add: login_inv_def guesses_record counters_record steady_failure)

lemma lifted:
  "\<not> fst (is_login_blocked now ip u s) \<Longrightarrow> lg_blocked (snd (is_login_blocked now ip u s)) ip = None"
  by (auto simp: is_login_blocked_def Let_def user_key_def split: option.splits if_splits)

lemma inv_page:
  assumes "login_inv um c ip (le_now e) F s" "0 < sec_MaxAttempts c" "le_config e"
    "login_attempt um compare e r s \<noteq> RightGuess"
  shows "login_inv um c ip (le_now e)
    (if remote_host r = ip \<and> login_attempt um compare e r s = WrongGuess then F @ [le_now e] else F)
    (snd (login_page um compare e r s))"
proof -
  let ?now = "le_now e" and ?ip = "remote_host r" and ?user = "form_value [] None ''username'' r"
  obtain b1 s1 where s1: "is_login_blocked ?now ?ip [] s = (b1, s1)" by fastforce
  have i1: "login_inv um c ip ?now F s1"
    using inv_blocked[OF assms(1,2), of ?ip "[]"] s1 by simp
  have b1: "b1 \<longleftrightarrow> barred ?now ?ip s" and free1: "\<not> b1 \<Longrightarrow> lg_blocked s1 ?ip = None"
    using blocked_iff[of ?now ?ip "[]" s] lifted[of ?now ?ip "[]" s] s1 by simp_all
  have i1': "login_inv um c ip ?now F (snd (get_security_config um True ?now s1))"
    by (rule inv_config[OF i1])
  show ?thesis
  proof (cases "rq_Method r = ''GET'' \<or> b1 \<or> request_cookie (rq_Header r) ''captcha_id'' = None")
    case True
    then have "login_attempt um compare e r s = NoGuess"
      unfolding b1 by (auto simp: login_attempt_def Let_def)
    moreover have "snd (login_page um compare e r s) \<in> {s1, snd (get_security_config um True ?now s1)}"
      using True assms(3) by (auto simp: login_page_def s1 Let_def case_prod_unfold)
    ultimately show ?thesis
      using i1 i1' by auto
  next
    case False
    then obtain i where i: "request_cookie (rq_Header r) ''captcha_id'' = Some i" by blast
    obtain v s2 where s2: "validate_captcha um True ?now i (form_value [] None ''captcha'' r) s1 = (v, s2)" by fastforce
    have i2: "login_inv um c ip ?now F s2" and free2: "lg_blocked s2 ?ip = None"
      using inv_captcha[OF i1, of i "form_value [] None ''captcha'' r"] free1 False
        captcha_keeps(3)[of um True ?now i "form_value [] None ''captcha'' r" s1] s2 by simp_all
    show ?thesis
    proof (cases v)
      case False
      then have "login_attempt um compare e r s = WrongGuess"
        using \<open>\<not> (rq_Method r = ''GET'' \<or> _)\<close> assms(3) unfolding b1 by (simp add: login_attempt_def s1 s2 i Let_def)
      moreover have "snd (login_page um compare e r s) = record_login_failure um True ?now ?ip [] s2"
        using \<open>\<not> (rq_Method r = ''GET'' \<or> _)\<close> False assms(3) by (simp add: login_page_def s1 s2 i Let_def)
      ultimately show ?thesis
        using inv_record[OF i2 assms(2), of ?ip "[]"] free2 by (cases "?ip = ip") simp_all
    next
      case True
      obtain b3 s3 where s3: "is_login_blocked ?now ?ip ?user s2 = (b3, s3)" by fastforce
      have i3: "login_inv um c ip ?now F s3" and free3: "\<not> b3 \<Longrightarrow> lg_blocked s3 ?ip = None"
        using inv_blocked[OF i2 assms(2), of ?ip ?user] lifted[of ?now ?ip ?user s2] s3 by simp_all
      have "barred ?now k s2 = barred ?now k s" for k
        using barred_after[of ?now k ?ip "[]" s] s1 s2
          captcha_keeps(3)[of um True ?now i "form_value [] None ''captcha'' r" s1] by (simp add: barred_def)
      then have b3: "b3 \<longleftrightarrow> ?user \<noteq> [] \<and> barred ?now (user_key ?ip ?user) s"
        using blocked_iff[of ?now ?ip ?user s2] s3 b1 \<open>\<not> (rq_Method r = ''GET'' \<or> _)\<close> by auto
      have creds: "validate_user_credentials compare (le_query e) ?user p s3 = validate_user_credentials compare (le_query e) ?user p s" for p
        using credentials_cong[of s3 s] blocked_keeps(2,4,5,6)[of ?now ?ip ?user s2] blocked_keeps(2,4,5,6)[of ?now ?ip "[]" s]
          captcha_keeps(4,6,7,8)[of um True ?now i "form_value [] None ''captcha'' r" s1] s1 s2 s3 by simp
      show ?thesis
      proof (cases b3)
        case True
        then have "login_attempt um compare e r s = NoGuess"
          using \<open>\<not> (rq_Method r = ''GET'' \<or> _)\<close> \<open>v\<close> assms(3) unfolding b1 b3 by (simp add: login_attempt_def s1 s2 i Let_def)
        moreover have "snd (login_page um compare e r s) = snd (get_security_config um True ?now s3)"
          using \<open>\<not> (rq_Method r = ''GET'' \<or> _)\<close> \<open>v\<close> True assms(3)
          by (simp add: login_page_def s1 s2 s3 i Let_def case_prod_unfold)
        ultimately show ?thesis
          using inv_config[OF i3] by simp
      next
        case False
        then have a: "login_attempt um compare e r s =
            (if validate_user_credentials compare (le_query e) ?user (form_value [] None ''password'' r) s then RightGuess else WrongGuess)"
          using \<open>\<not> (rq_Method r = ''GET'' \<or> _)\<close> \<open>v\<close> assms(3) unfolding b1 b3 by (auto simp: login_attempt_def s1 s2 i Let_def)
        then have "snd (login_page um compare e r s) = record_login_failure um True ?now ?ip ?user s3"
          using \<open>\<not> (rq_Method r = ''GET'' \<or> _)\<close> \<open>v\<close> False assms(3,4) creds
          by (simp add: login_page_def s1 s2 s3 i Let_def split: if_splits)
        then show ?thesis
          using inv_record[OF i3 assms(2), of ?ip ?user] free3[OF False] a assms(4)
          by (cases "?ip = ip") (simp_all split: if_splits)
      qed
    qed
  qed
qed

lemma inv_run:
  assumes "login_inv um c ip now F s" "0 < sec_MaxAttempts c" "\<forall>(e, r) \<in> set es. le_config e"
    "sorted (now # map (\<lambda>(e, r). le_now e) es)" "\<forall>(t, i, a) \<in> set (fst (login_run um compare es s)). a \<noteq> RightGuess"
  shows "\<exists>now'. login_inv um c ip now' (F @ wrong_times ip (fst (login_run um compare es s))) (snd (login_run um compare es s))"
  using assms
proof (induction es arbitrary: now F s)
  case Nil
  then show ?case by (auto simp: wrong_times_def)
next
  case (Cons x es)
  obtain e r where x: "x = (e, r)" by fastforce
  let ?s = "snd (login_page um compare e r s)" and ?a = "login_attempt um compare e r s"
  let ?F = "if remote_host r = ip \<and> ?a = WrongGuess then F @ [le_now e] else F"
  have "login_inv um c ip (le_now e) F s"
    using Cons.prems(1,4) guesses_later[of c ip now F s "le_now e"] by (simp add: login_inv_def x)
  moreover have "?a \<noteq> RightGuess"
    using Cons.prems(5) by (auto simp: x case_prod_unfold Let_def)
  ultimately have "login_inv um c ip (le_now e) ?F ?s"
    using inv_page Cons.prems(2,3) by (auto simp: x)
  from Cons.IH[OF this Cons.prems(2)] Cons.prems(3-5) show ?case
    by (auto simp: x case_prod_unfold Let_def wrong_times_def split: if_splits)
qed

text \<open>
  The brute-force guard over requests handled one after another: with the settings in force unchanged and no login
  succeeding, however many requests come from however many addresses under whatever names, no address fails
  more than \<open>MaxAttempts\<close> checks, captcha or password, in any span as long as a block. (Requests that interleave are in \<open>LoginRace\<close>.)
\<close>

theorem wrong_guesses_bounded:
  assumes "steady um c s" "0 < sec_MaxAttempts c" "lg_attempts s = []" "lg_blocked s ip = None"
    "\<forall>(e, r) \<in> set es. le_config e" "sorted (map (\<lambda>(e, r). le_now e) es)"
    "\<forall>(t, i, a) \<in> set (fst (login_run um compare es s)). a \<noteq> RightGuess"
  shows "int (times_within (sec_BlockDuration c * minute) t (wrong_times ip (fst (login_run um compare es s)))) \<le>
    sec_MaxAttempts c"
proof -
  let ?t0 = "case es of [] \<Rightarrow> 0 | x # _ \<Rightarrow> le_now (fst x)"
  have "login_inv um c ip ?t0 [] s"
    using assms(1-4) by (simp add: login_inv_def guesses_ok_def counters_pos_def map_get_def times_within_def)
  moreover have "sorted (?t0 # map (\<lambda>(e, r). le_now e) es)"
    using assms(6) by (cases es) (auto simp: case_prod_unfold)
  ultimately obtain now' where
    "login_inv um c ip now' (wrong_times ip (fst (login_run um compare es s))) (snd (login_run um compare es s))"
    using inv_run[of um c ip ?t0 "[]" s es compare] assms(2,5,7) by auto
  then show ?thesis
    by (simp add: login_inv_def guesses_ok_def Let_def)
qed

lemma no_right_guess: "\<forall>(t, i, a) \<in> set (fst (login_run um (\<lambda>_ _. False) es s)). a \<noteq> RightGuess"
proof (induction es arbitrary: s)
  case (Cons x es)
  obtain e r where x: "x = (e, r)" by fastforce
  have "login_attempt um (\<lambda>_ _. False) e r s \<noteq> RightGuess"
    by (auto simp: login_attempt_def validate_user_credentials_def Let_def split: option.split)
  then show ?case
    using Cons.IH by (auto simp: x case_prod_unfold Let_def)
qed simp

theorem wrong_guesses_bounded_witness:
  "int (times_within (15 * minute) 9
     (wrong_times ''10.0.0.1'' (fst (login_run (\<lambda>_. None) (\<lambda>_ _. False)
        (replicate 3 (sample_login_env, login_request)) sample_login)))) \<le> 5"
proof -
  let ?c = "rn_Security default_runtime_config"

  have "steady (\<lambda>_. None) ?c sample_login"
    by (simp add: steady_def sample_login_def)
  from wrong_guesses_bounded[OF this, of "''10.0.0.1''" "replicate 3 (sample_login_env, login_request)" "\<lambda>_ _. False" 9]
  show ?thesis
    using no_right_guess[of "\<lambda>_. None" "replicate 3 (sample_login_env, login_request)" sample_login]
    by (simp add: sample_login_def default_runtime_config_def sample_login_env_def)
qed

subsection \<open>Captchas\<close>

datatype captcha_event = Drawn "nat list" "8 word list option" instant | Answered bool instant string string | Swept bool instant

fun captcha_run :: "(string \<Rightarrow> runtime_config option) \<Rightarrow> captcha_event list \<Rightarrow> login_state \<Rightarrow> (string list \<times> string list) \<times> login_state" where
  "captcha_run um [] s = (([], []), s)"
| "captcha_run um (Drawn picks b now # es) s =
     (let ((i, a), s) = generate_captcha picks b now s; ((drawn, used), s) = captcha_run um es s in ((i # drawn, used), s))"
| "captcha_run um (Answered ok now i x # es) s =
     (let (v, s) = validate_captcha um ok now i x s; ((drawn, used), s) = captcha_run um es s
      in ((drawn, if v then i # used else used), s))"
| "captcha_run um (Swept ok now # es) s = captcha_run um es (clean_expired_captchas um ok now s)"

lemma captcha_stored: "lg_captchas (snd (validate_captcha um ok now i x s)) j = (if j = i \<and> i \<noteq> '''' \<and> x \<noteq> '''' then None else lg_captchas s j)"
  by (auto simp: validate_captcha_def Let_def case_prod_unfold split: option.split)

lemma swept_stored: "lg_captchas (clean_expired_captchas um ok now s) i \<noteq> None \<Longrightarrow> lg_captchas s i \<noteq> None"
  by (auto simp: clean_expired_captchas_def Let_def case_prod_unfold split: option.splits)

text \<open>
  A captcha lets one attempt through: over any sequence of drawings, answers and cleanings, an identifier is
  accepted at most as often as it was drawn, counting one that was stored at the start.
\<close>

theorem captcha_single_use:
  "count_list (snd (fst (captcha_run um es s))) i \<le>
     count_list (fst (fst (captcha_run um es s))) i + (if lg_captchas s i = None then 0 else 1)"
proof (induction es arbitrary: s)
  case (Cons e es)
  show ?case
  proof (cases e)
    case (Drawn picks b now)
    obtain j a s' where g: "generate_captcha picks b now s = ((j, a), s')" by (metis prod.collapse)
    have "lg_captchas s' i = None \<longleftrightarrow> i \<noteq> j \<and> lg_captchas s i = None"
      using g by (auto simp: generate_captcha_def Let_def split: if_splits)
    then show ?thesis
      using Cons.IH[of s'] by (auto simp: Drawn g case_prod_unfold Let_def split: if_splits)
  next
    case (Answered ok now j x)
    obtain v s' where g: "validate_captcha um ok now j x s = (v, s')" by fastforce
    have "v \<Longrightarrow> lg_captchas s j \<noteq> None \<and> lg_captchas s' j = None" "lg_captchas s' i \<noteq> None \<Longrightarrow> lg_captchas s i \<noteq> None"
      using captcha_valid[of um ok now j x s] captcha_stored[of um ok now j x s i] g by (auto split: if_splits)
    then show ?thesis
      using Cons.IH[of s'] by (auto simp: Answered g case_prod_unfold Let_def split: if_splits)
  next
    case (Swept ok now)
    then show ?thesis
      using Cons.IH[of "clean_expired_captchas um ok now s"] swept_stored[of um ok now s i]
      by (auto split: if_splits)
  qed
qed simp

subsection \<open>Counters that reach further\<close>

text \<open>
  The blocks of addresses and of users share one table, and its keys collide for IPv6: an address that fails
  often enough under a made-up user name blocks another address, its own followed by that name, for
  every user.
\<close>

theorem user_name_blocks_address:
  assumes "u \<noteq> ''''" "sec_MaxAttempts (fst (get_security_config um ok now s)) \<le> map_get 0 (lg_attemptsByUser s) (user_key ip u) + 1"
    "now' < now + sec_BlockDuration (fst (get_security_config um ok now s)) * minute"
  shows "fst (is_login_blocked now' (user_key ip u) v (record_login_failure um ok now ip u s))"
proof -
  have "lg_attemptsByUser (count_failure c t k s') = lg_attemptsByUser s'" for c t k s'
    by (simp add: count_failure_def Let_def)
  then show ?thesis
    using assms unfolding blocked_iff
    by (simp add: record_login_failure_def Let_def case_prod_unfold count_user_failure_def barred_def)
qed

theorem user_name_blocks_address_witness:
  "fst (is_login_blocked 2 ''fe80::1:2'' ''admin''
     (record_login_failure (\<lambda>_. None) True 1 ''fe80::1'' ''2''
       (sample_login\<lparr>lg_attemptsByUser := [''fe80::1:2'' \<mapsto> 4]\<rparr>)))"
  using user_name_blocks_address[of "''2''" "\<lambda>_. None" True 1 "sample_login\<lparr>lg_attemptsByUser := [''fe80::1:2'' \<mapsto> 4]\<rparr>" "''fe80::1''" 2 "''admin''"]
  by (simp add: user_key_def get_security_config_def sample_login_def time_sub_def default_runtime_config_def)

text \<open>The requests to change the password that reach the check of the old one, by address.\<close>

fun change_run ::
  "(string \<Rightarrow> string \<Rightarrow> bool) \<Rightarrow> (string \<Rightarrow> string option) \<Rightarrow> (bool \<times> (string \<times> string) option \<times> http_request) list \<Rightarrow>
   login_state \<Rightarrow> (string \<times> string api_answer) list \<times> login_state" where
  "change_run compare generate [] s = ([], s)"
| "change_run compare generate ((ok, req, r) # es) s =
     (let (a, s) = api_change_password compare generate ok req r s; (as, s) = change_run compare generate es s
      in ((remote_host r, a) # as, s))"

definition answered :: "string \<Rightarrow> (string \<times> string api_answer) list \<Rightarrow> string api_answer list" where
  "answered ip as = filter (\<lambda>a. case a of Inl e \<Rightarrow> snd e \<notin> {400, 429} | Inr m \<Rightarrow> True) (map snd (filter (\<lambda>(i, a). i = ip) as))"

lemma change_cases:
  fixes s :: login_state
  obtains (malformed) m where "api_change_password compare generate ok req r s = (Inl (m, 400), s)"
  | (blocked) m where "api_change_password compare generate ok req r s = (Inl (m, 429), s)"
  | (answered) a s' where "api_change_password compare generate ok req r s = (a, s')" "\<forall>m. a \<noteq> Inl (m, 400) \<and> a \<noteq> Inl (m, 429)"
      "map_get 0 (map_of (lg_passwordChanges s)) (remote_host r) < 3"
      "lg_passwordChanges s' =
         AList.update (remote_host r) (map_get 0 (map_of (lg_passwordChanges s)) (remote_host r) + 1) (lg_passwordChanges s)"
proof (cases req)
  case None
  then show ?thesis using malformed by (simp add: api_change_password_def)
next
  case (Some p)
  obtain old new where p: "req = Some (old, new)" using Some by (cases p) auto
  show ?thesis
  proof (cases "old = [] \<or> validate_password_strength new \<noteq> None")
    case True
    then have "\<exists>m. api_change_password compare generate ok req r s = (Inl (m, 400), s)"
      using p by (cases "old = []") (auto simp: api_change_password_def)
    then show ?thesis using malformed by blast
  next
    case False
    then have ok: "old \<noteq> []" "validate_password_strength new = None" by auto
    show ?thesis
    proof (cases "map_get 0 (map_of (lg_passwordChanges s)) (remote_host r) \<ge> 3")
      case True
      then have "\<exists>m. api_change_password compare generate ok req r s = (Inl (m, 429), s)"
        using p ok by (simp add: api_change_password_def is_password_change_blocked_def Let_def)
      then show ?thesis using blocked by blast
    next
      case False
      obtain a s' where a: "api_change_password compare generate ok req r s = (a, s')" by fastforce
      then have "(\<forall>m. a \<noteq> Inl (m, 400) \<and> a \<noteq> Inl (m, 429)) \<and> lg_passwordChanges s' =
          AList.update (remote_host r) (map_get 0 (map_of (lg_passwordChanges s)) (remote_host r) + 1) (lg_passwordChanges s)"
        using False p ok
        by (cases "generate new"; cases "compare (lg_adminHash s) old")
          (auto simp: api_change_password_def is_password_change_blocked_def Let_def)
      with False have "map_get 0 (map_of (lg_passwordChanges s)) (remote_host r) < 3 \<and>
          (\<forall>m. a \<noteq> Inl (m, 400) \<and> a \<noteq> Inl (m, 429)) \<and> lg_passwordChanges s' =
          AList.update (remote_host r) (map_get 0 (map_of (lg_passwordChanges s)) (remote_host r) + 1) (lg_passwordChanges s)"
        by simp
      then show ?thesis using answered[OF a] by blast
    qed
  qed
qed

lemma change_counter:
  fixes s :: login_state
  assumes "api_change_password compare generate ok req r s = (a, s')"
  shows "map_get 0 (map_of (lg_passwordChanges s')) ip =
      map_get 0 (map_of (lg_passwordChanges s)) ip + int (length (answered ip [(remote_host r, a)])) \<and>
    (answered ip [(remote_host r, a)] \<noteq> [] \<longrightarrow> map_get 0 (map_of (lg_passwordChanges s)) ip < 3)"
  by (cases rule: change_cases[of compare generate ok req r s])
    (use assms in \<open>auto simp: answered_def split: sum.splits\<close>)

text \<open>
  Three requests to change the password is all an address ever gets, right ones included: whatever is asked
  from whatever addresses, at most three of its requests are answered other than as malformed or
  too many. Only a cleaning past ten thousand addresses forgets them.
\<close>

theorem three_password_changes:
  assumes "lg_passwordChanges s = []"
  shows "length (answered ip (fst (change_run compare generate es s))) \<le> 3"
proof -
  define n where "n = (\<lambda>s :: login_state. map_get 0 (map_of (lg_passwordChanges s)) ip)"
  have bound: "n s \<ge> 0 \<Longrightarrow> n s \<le> 3 \<Longrightarrow> n s + int (length (answered ip (fst (change_run compare generate es s)))) \<le> 3" for s
  proof (induction es arbitrary: s)
    case Nil
    then show ?case by (simp add: answered_def)
  next
    case (Cons x es)
    obtain ok req r where x: "x = (ok, req, r)" by (metis prod_cases3)
    obtain a s' where c: "api_change_password compare generate ok req r s = (a, s')" by fastforce
    have "length (answered ip [(remote_host r, a)]) \<le> 1"
      by (simp add: answered_def)
    then have "0 \<le> n s'" "n s' \<le> 3" "n s' = n s + int (length (answered ip [(remote_host r, a)]))"
      using change_counter[OF c, of ip] Cons.prems unfolding n_def
      by (cases "answered ip [(remote_host r, a)] = []"; simp)+
    with Cons.IH[of s'] have "n s + int (length (answered ip [(remote_host r, a)])) +
        int (length (answered ip (fst (change_run compare generate es s')))) \<le> 3"
      by simp
    moreover have "answered ip (fst (change_run compare generate (x # es) s)) =
        answered ip [(remote_host r, a)] @ answered ip (fst (change_run compare generate es s'))"
      by (simp add: x c case_prod_unfold Let_def answered_def)
    ultimately show ?case by simp
  qed
  have "n s = 0"
    using assms by (simp add: n_def map_get_def)
  then show ?thesis
    using bound[of s] by simp
qed

theorem three_password_changes_witness:
  "length (answered ''10.0.0.1'' (fst (change_run (=) Some
     (replicate 4 (True, Some (''p'', ''Abcdefg1''), login_request)) sample_login))) \<le> 3"
  by (rule three_password_changes) (simp add: sample_login_def)

subsection \<open>The page\<close>

text \<open>Every character a captcha can show has a glyph, of seven rows of five bits.\<close>

theorem captcha_glyphs_complete:
  "list_all (\<lambda>c. case map_of captcha_font c of
       None \<Rightarrow> False
     | Some rows \<Rightarrow> length rows = 7 \<and> list_all (\<lambda>row. length row = 5 \<and> list_all (\<lambda>b. b = CHR ''0'' \<or> b = CHR ''1'') row) rows)
     captcha_chars"
  by code_simp

text \<open>The message of an error stays text on the page: nothing in it opens or closes a tag or an attribute.\<close>

lemma escaped_text: "set (html_escape s) \<inter> {CHR ''<'', CHR ''>'', CHR 0x22, CHR 0x27} = {}"
proof -
  have "set (utf8 [239, 191, 189]) \<inter> {CHR ''<'', CHR ''>'', CHR 0x22, CHR 0x27} = {}"
    by code_simp
  then show ?thesis
    by (auto simp: html_escape_def split: if_splits)
qed

end
