(* ===== verification/LoginRace.thy ===== *)
theory LoginRace
  imports LoginProps
begin

text \<open>
  The login page under concurrency. \<open>LoginPage\<close> (\<open>handler/auth.go\<close>) holds \<open>loginMu\<close> only inside \<open>isLoginBlocked\<close>,
  \<open>recordLoginFailure\<close> and \<open>clearLoginAttempts\<close>, and \<open>captchaMu\<close> inside \<open>validateCaptcha\<close>; between them the requests in hand
  interleave. Here each of these, and the query of the users, is a step of its own, and so are the sweep of the cleaner
  and whatever else changes the captchas, users and sessions.

  Proved: the guard counts as promised the wrong guesses that are recorded while the address is not blocked, and of those
  that are recorded while it is (by requests that had passed their check before the block began) there are at
  most twice as many in a block length as requests can be in hand. That there are some is real.
\<close>

section \<open>The steps\<close>

text \<open>Where a request is: past the first check, past the captcha, past the second check, or about to record its outcome.\<close>

datatype login_pc = Away | Entered string | Solved string | Checked string string | Failing string string | Passing string string


text \<open>With the clock and the wrong guesses recorded since the last success: when, from where, and whether the address was blocked.\<close>

record login_system =
  lo_state :: login_state
  lo_pc :: "nat \<Rightarrow> login_pc"
  lo_now :: instant
  lo_wrong :: "(instant \<times> string \<times> bool) list"

text \<open>The keys whose counters a success clears.\<close>

definition cleared_keys :: "string \<Rightarrow> string \<Rightarrow> string set" where
  "cleared_keys ip u = (if u = '''' then {ip} else {ip, user_key ip u})"

definition same_counters :: "login_state \<Rightarrow> login_state \<Rightarrow> bool" where
  "same_counters st st' \<longleftrightarrow> lg_attempts st' = lg_attempts st \<and> lg_attemptsByUser st' = lg_attemptsByUser st \<and>
     lg_blocked st' = lg_blocked st \<and> lg_cachedSecurity st' = lg_cachedSecurity st \<and> lg_cachedAt st' = lg_cachedAt st \<and>
     lg_hasDB st' = lg_hasDB st \<and> lg_runtime st' = lg_runtime st"

text \<open>At most \<open>K\<close> requests are in hand at a time.\<close>

inductive login_step ::
  "(string \<Rightarrow> runtime_config option) \<Rightarrow> (string \<Rightarrow> string \<Rightarrow> bool) \<Rightarrow> nat \<Rightarrow> login_system \<Rightarrow> login_system \<Rightarrow> bool"
  for um compare K where
  clock: "lo_now s \<le> now \<Longrightarrow> login_step um compare K s (s\<lparr>lo_now := now\<rparr>)"
| look: "login_step um compare K s (s\<lparr>lo_state := snd (is_login_blocked (lo_now s) ip '''' (lo_state s))\<rparr>)"
| enter: "t < K \<Longrightarrow> lo_pc s t = Away \<Longrightarrow> is_login_blocked (lo_now s) ip '''' (lo_state s) = (False, st)
    \<Longrightarrow> login_step um compare K s (s\<lparr>lo_state := st, lo_pc := (lo_pc s)(t := Entered ip)\<rparr>)"
| leave: "lo_pc s t = Entered ip \<Longrightarrow> login_step um compare K s (s\<lparr>lo_pc := (lo_pc s)(t := Away)\<rparr>)"
| captcha: "lo_pc s t = Entered ip \<Longrightarrow> validate_captcha um True (lo_now s) i x (lo_state s) = (ok, st)
    \<Longrightarrow> login_step um compare K s (s\<lparr>lo_state := st, lo_pc := (lo_pc s)(t := if ok then Solved ip else Failing ip '''')\<rparr>)"
| check: "lo_pc s t = Solved ip \<Longrightarrow> is_login_blocked (lo_now s) ip u (lo_state s) = (blocked, st)
    \<Longrightarrow> login_step um compare K s (s\<lparr>lo_state := st, lo_pc := (lo_pc s)(t := if blocked then Away else Checked ip u)\<rparr>)"
| credentials: "lo_pc s t = Checked ip u
    \<Longrightarrow> login_step um compare K s (s\<lparr>lo_pc := (lo_pc s)(t :=
          if validate_user_credentials compare q u p (lo_state s) then Passing ip u else Failing ip u)\<rparr>)"
| fail: "lo_pc s t = Failing ip u
    \<Longrightarrow> login_step um compare K s (s\<lparr>lo_state := record_login_failure um True (lo_now s) ip u (lo_state s),
          lo_pc := (lo_pc s)(t := Away), lo_wrong := lo_wrong s @ [(lo_now s, ip, lg_blocked (lo_state s) ip \<noteq> None)]\<rparr>)"
| succeed: "lo_pc s t = Passing ip u
    \<Longrightarrow> login_step um compare K s (s\<lparr>lo_state := clear_login_attempts ip u (lo_state s),
          lo_pc := (lo_pc s)(t := Away), lo_wrong := filter (\<lambda>(_, i, _). i \<notin> cleared_keys ip u) (lo_wrong s)\<rparr>)"
| settings: "login_step um compare K s (s\<lparr>lo_state := snd (get_security_config um True (lo_now s) (lo_state s))\<rparr>)"
| sweep: "length (lg_attempts (lo_state s)) \<le> 50000
    \<Longrightarrow> login_step um compare K s (s\<lparr>lo_state := clean_expired_login_entries enum (lo_now s) (lo_state s)\<rparr>)"
| elsewhere: "same_counters (lo_state s) st \<Longrightarrow> login_step um compare K s (s\<lparr>lo_state := st\<rparr>)"


text \<open>When the wrong guesses of an address were recorded: those while it was not blocked, and those while it was.\<close>

definition guess_times :: "string \<Rightarrow> bool \<Rightarrow> (instant \<times> string \<times> bool) list \<Rightarrow> instant list" where
  "guess_times ip late gs = map fst (filter (\<lambda>(_, i, b). i = ip \<and> b = late) gs)"

lemma guess_times_simps [simp]:
  "guess_times ip late [] = []"
  "guess_times ip late (gs @ [(t, i, b)]) = guess_times ip late gs @ (if i = ip \<and> b = late then [t] else [])"
  by (simp_all add: guess_times_def)






section \<open>The guesses that come late\<close>









section \<open>The invariant\<close>






















section \<open>The page is these steps in a row\<close>

text \<open>A state with one request in hand.\<close>

abbreviation alone :: "login_state \<Rightarrow> login_pc \<Rightarrow> instant \<Rightarrow> (instant \<times> string \<times> bool) list \<Rightarrow> login_system" where
  "alone st pc now gs \<equiv> \<lparr>lo_state = st, lo_pc = (\<lambda>_. Away)(0 := pc), lo_now = now, lo_wrong = gs\<rparr>"

lemma alone_steps:
  "login_step um compare K (alone st pc now gs) (alone (snd (is_login_blocked now ip '''' st)) pc now gs)"
  "0 < K \<Longrightarrow> is_login_blocked now ip '''' st = (False, st') \<Longrightarrow>
   login_step um compare K (alone st Away now gs) (alone st' (Entered ip) now gs)"
  "login_step um compare K (alone st (Entered ip) now gs) (alone st Away now gs)"
  "validate_captcha um True now i x st = (ok, st') \<Longrightarrow>
   login_step um compare K (alone st (Entered ip) now gs) (alone st' (if ok then Solved ip else Failing ip '''') now gs)"
  "is_login_blocked now ip u st = (blocked, st') \<Longrightarrow>
   login_step um compare K (alone st (Solved ip) now gs) (alone st' (if blocked then Away else Checked ip u) now gs)"
  "login_step um compare K (alone st (Checked ip u) now gs)
     (alone st (if validate_user_credentials compare q u p st then Passing ip u else Failing ip u) now gs)"
  "login_step um compare K (alone st (Failing ip u) now gs)
     (alone (record_login_failure um True now ip u st) Away now (gs @ [(now, ip, lg_blocked st ip \<noteq> None)]))"
  "login_step um compare K (alone st (Passing ip u) now gs)
     (alone (clear_login_attempts ip u st) Away now (filter (\<lambda>(_, i, _). i \<notin> cleared_keys ip u) gs))"
  "login_step um compare K (alone st pc now gs) (alone (snd (get_security_config um True now st)) pc now gs)"
  "same_counters st st' \<Longrightarrow> login_step um compare K (alone st pc now gs) (alone st' pc now gs)"
  using look[of um compare K "alone st pc now gs" ip] enter[of 0 K "alone st Away now gs" ip st' um compare]
    leave[of "alone st (Entered ip) now gs" 0 ip um compare K] captcha[of "alone st (Entered ip) now gs" 0 ip um i x ok st' compare K]
    check[of "alone st (Solved ip) now gs" 0 ip u blocked st' um compare K]
    credentials[of "alone st (Checked ip u) now gs" 0 ip u um compare K q p]
    fail[of "alone st (Failing ip u) now gs" 0 ip u um compare K] succeed[of "alone st (Passing ip u) now gs" 0 ip u um compare K]
    settings[of um compare K "alone st pc now gs"] elsewhere[of "alone st pc now gs" st' um compare K]
  by simp_all

lemma open_session_steps:
  assumes "le_config e"
  shows "(login_step um compare K)\<^sup>*\<^sup>* (alone (clear_login_attempts (remote_host r) u st) Away (le_now e) gs)
    (alone (snd (open_session um e u r st)) Away (le_now e) gs)"
proof -
  let ?s1 = "clear_login_attempts (remote_host r) u st"
  let ?s2 = "case request_cookie (rq_Header r) ''session'' of
      Some old \<Rightarrow> if old \<noteq> [] then ?s1\<lparr>lg_sessions := remove_session (le_stmt e) old (lg_sessions ?s1)\<rparr> else ?s1
    | None \<Rightarrow> ?s1"
  let ?token = "generate_session_token (le_token e)" and ?csrf = "generate_session_token (le_csrf e)"
  let ?s3 = "?s2\<lparr>lg_sessions := add_session_with_csrf (le_stmt e) (le_now e) ?token u ?csrf (lg_sessions ?s2)\<rparr>"
  have "same_counters ?s1 ?s2" "same_counters ?s1 ?s3"
    by (simp_all add: same_counters_def split: option.split)
  moreover have "snd (open_session um e u r st) = (if ?token = [] \<or> ?csrf = [] then ?s2
      else snd (get_security_config um True (le_now e) ?s3))"
    using assms by (simp add: open_session_def Let_def case_prod_unfold)
  ultimately show ?thesis
    using alone_steps(10)[of ?s1 ?s2 um compare K Away "le_now e" gs] alone_steps(10)[of ?s1 ?s3 um compare K Away "le_now e" gs]
      alone_steps(9)[of um compare K ?s3 Away "le_now e" gs]
    by (auto intro: rtranclp.rtrancl_into_rtrancl converse_rtranclp_into_rtranclp)
qed

text \<open>A request handled alone is a run of the steps; a wrong guess of it is never a late one.\<close>

theorem login_page_in_steps:
  assumes "le_config e" and "0 < K"
  shows "\<exists>gs' \<in> {gs, gs @ [(le_now e, remote_host r, False)],
      filter (\<lambda>(_, i, _). i \<notin> cleared_keys (remote_host r) (form_value [] None ''username'' r)) gs}.
    (login_step um compare K)\<^sup>*\<^sup>* (alone st Away (le_now e) gs) (alone (snd (login_page um compare e r st)) Away (le_now e) gs')"
proof -
  let ?now = "le_now e" and ?ip = "remote_host r" and ?user = "form_value [] None ''username'' r"
  let ?pass = "form_value [] None ''password'' r" and ?x = "form_value [] None ''captcha'' r"
  note into = converse_rtranclp_into_rtranclp[of "login_step um compare K"]
  obtain b1 s1 where s1: "is_login_blocked ?now ?ip [] st = (b1, s1)" by fastforce
  show ?thesis
  proof (cases "rq_Method r = ''GET'' \<or> b1")
    case True
    then have "snd (login_page um compare e r st) = snd (get_security_config um True ?now s1)"
      using assms(1) by (auto simp: login_page_def s1 Let_def case_prod_unfold)
    then show ?thesis
      using into[OF alone_steps(1)[of um compare K st Away ?now gs ?ip]] alone_steps(9)[of um compare K s1 Away ?now gs] s1 by auto
  next
    case False
    then have enter: "login_step um compare K (alone st Away ?now gs) (alone s1 (Entered ?ip) ?now gs)"
      using alone_steps(2)[OF assms(2), of ?now ?ip st s1] s1 by simp
    have free1: "lg_blocked s1 ?ip = None" using lifted[of ?now ?ip "[]" st] s1 False by simp
    show ?thesis
    proof (cases "request_cookie (rq_Header r) ''captcha_id''")
      case None
      then have "snd (login_page um compare e r st) = s1"
        using \<open>\<not> (rq_Method r = ''GET'' \<or> b1)\<close> by (simp add: login_page_def s1 Let_def)
      then show ?thesis
        using into[OF enter] alone_steps(3)[of um compare K s1 ?ip ?now gs] by auto
    next
      case (Some i)
      obtain v s2 where s2: "validate_captcha um True ?now i ?x s1 = (v, s2)" by fastforce
      have free2: "lg_blocked s2 ?ip = None" using captcha_keeps(3)[of um True ?now i ?x s1] s2 free1 by simp
      have solve: "(login_step um compare K)\<^sup>*\<^sup>* (alone st Away ?now gs) (alone s2 (if v then Solved ?ip else Failing ?ip []) ?now gs)"
        by (rule into[OF enter r_into_rtranclp[of "login_step um compare K", OF alone_steps(4)[OF s2, of compare K ?ip gs]]])
      show ?thesis
      proof (cases v)
        case False
        then have "snd (login_page um compare e r st) = record_login_failure um True ?now ?ip [] s2"
          using \<open>\<not> (rq_Method r = ''GET'' \<or> b1)\<close> Some assms(1) by (simp add: login_page_def s1 s2 Let_def)
        then show ?thesis
          using solve alone_steps(7)[of um compare K s2 ?ip "[]" ?now gs] free2 False
          by (auto intro: rtranclp.rtrancl_into_rtrancl)
      next
        case True
        obtain b3 s3 where s3: "is_login_blocked ?now ?ip ?user s2 = (b3, s3)" by fastforce
        have check: "(login_step um compare K)\<^sup>*\<^sup>* (alone st Away ?now gs) (alone s3 (if b3 then Away else Checked ?ip ?user) ?now gs)"
          using solve alone_steps(5)[OF s3, of um compare K gs] True by (auto intro: rtranclp.rtrancl_into_rtrancl)
        let ?ok = "validate_user_credentials compare (le_query e) ?user ?pass s3"
        have page: "snd (login_page um compare e r st) =
            (if b3 then snd (get_security_config um True ?now s3)
             else if ?ok then snd (open_session um e ?user r s3) else record_login_failure um True ?now ?ip ?user s3)"
          using \<open>\<not> (rq_Method r = ''GET'' \<or> b1)\<close> Some True assms(1)
          by (simp add: login_page_def s1 s2 s3 Let_def case_prod_unfold)
        show ?thesis
        proof (cases b3)
          case True
          then show ?thesis
            using check page alone_steps(9)[of um compare K s3 Away ?now gs] by (auto intro: rtranclp.rtrancl_into_rtrancl)
        next
          case False
          have free3: "lg_blocked s3 ?ip = None" using lifted[of ?now ?ip ?user s2] s3 False by simp
          have ask: "(login_step um compare K)\<^sup>*\<^sup>* (alone st Away ?now gs) (alone s3 (if ?ok then Passing ?ip ?user else Failing ?ip ?user) ?now gs)"
            using check alone_steps(6)[of um compare K s3 ?ip ?user ?now gs "le_query e" ?pass] False
            by (auto intro: rtranclp.rtrancl_into_rtrancl)
          show ?thesis
          proof (cases ?ok)
            case True
            let ?gs = "filter (\<lambda>(_, i, _). i \<notin> cleared_keys ?ip ?user) gs"
            have "(login_step um compare K)\<^sup>*\<^sup>* (alone st Away ?now gs) (alone (clear_login_attempts ?ip ?user s3) Away ?now ?gs)"
              using ask alone_steps(8)[of um compare K s3 ?ip ?user ?now gs] True by (auto intro: rtranclp.rtrancl_into_rtrancl)
            then show ?thesis
              using open_session_steps[OF assms(1), of um compare K r ?user s3 ?gs] page True False
              by (auto intro: rtranclp_trans)
          next
            case wrong: False
            then show ?thesis
              using ask alone_steps(7)[of um compare K s3 ?ip ?user ?now gs] free3 page False
              by (auto intro: rtranclp.rtrancl_into_rtrancl)
          qed
        qed
      qed
    qed
  qed
qed

section \<open>A late guess\<close>

text \<open>
  Late guesses are real: when two requests of an address have got past the check and the address is one wrong guess
  short of a block, both of them guess, at the same moment, although the first guess begins the block.
\<close>

theorem late_guess:
  assumes "steady um c (lo_state s)" "lg_blocked (lo_state s) ip = None"
    and "sec_MaxAttempts c \<le> map_get 0 (map_of (lg_attempts (lo_state s))) ip + 1"
    and "lo_pc s 0 = Failing ip ''''" "lo_pc s 1 = Failing ip ''''"
  shows "\<exists>s'. (login_step um compare K)\<^sup>*\<^sup>* s s' \<and>
    lo_wrong s' = lo_wrong s @ [(lo_now s, ip, False), (lo_now s, ip, True)]"
proof -
  let ?st = "record_login_failure um True (lo_now s) ip '''' (lo_state s)"
  let ?s1 = "s\<lparr>lo_state := ?st, lo_pc := (lo_pc s)(0 := Away), lo_wrong := lo_wrong s @ [(lo_now s, ip, False)]\<rparr>"
  let ?s2 = "?s1\<lparr>lo_state := record_login_failure um True (lo_now s) ip [] ?st,
      lo_pc := (lo_pc ?s1)(1 := Away), lo_wrong := lo_wrong s @ [(lo_now s, ip, False), (lo_now s, ip, True)]\<rparr>"
  have "fst (get_security_config um True (lo_now s) (lo_state s)) = c"
    using steady_config[OF assms(1)] by simp
  then have "lg_blocked ?st ip \<noteq> None"
    using assms(3) by (simp add: record_login_failure_def Let_def case_prod_unfold count_failure_def)
  then have "login_step um compare K ?s1 ?s2"
    using fail[of ?s1 1 ip "''''" um compare K] assms(5) by simp
  moreover have "login_step um compare K s ?s1"
    using fail[of s 0 ip "''''" um compare K] assms(2,4) by simp
  ultimately have "(login_step um compare K)\<^sup>*\<^sup>* s ?s2" by (meson converse_rtranclp_into_rtranclp rtranclp.rtrancl_refl)
  then show ?thesis by (intro exI[of _ ?s2]) simp
qed

theorem late_guess_witness:
  "\<exists>s'. (login_step (\<lambda>_. None) (\<lambda>_ _. False) 2)\<^sup>*\<^sup>*
     \<lparr>lo_state = sample_login\<lparr>lg_attempts := [(''10.0.0.1'', 4)]\<rparr>, lo_pc = (\<lambda>_. Failing ''10.0.0.1'' ''''), lo_now = 9, lo_wrong = []\<rparr> s' \<and>
     lo_wrong s' = [(9, ''10.0.0.1'', False), (9, ''10.0.0.1'', True)]"
  using late_guess[of "\<lambda>_. None" "rn_Security default_runtime_config"
      "\<lparr>lo_state = sample_login\<lparr>lg_attempts := [(''10.0.0.1'', 4)]\<rparr>, lo_pc = (\<lambda>_. Failing ''10.0.0.1'' ''''), lo_now = 9, lo_wrong = []\<rparr>"
      "''10.0.0.1''" "\<lambda>_ _. False" 2]
  by (simp add: steady_def sample_login_def default_runtime_config_def map_get_def)


end
