(* ===== verification/IntelSync.thy ===== *)
theory IntelSync
  imports RuleProps ApiSchema IntelConfig
begin

text \<open>
  The intelligence centre's client side: what comes from the service and ends up as rules. \<open>internal/intel\<close>:
  \<open>merger\<close>, \<open>override\<close>, \<open>sync/scheduler.go\<close>, \<open>emergency\<close>, \<open>license\<close>, \<open>alerts\<close>, and the tables of
  \<open>store\<close> they use.

  \<^item> \<open>intel_sys\<close>: the rule engine, the store when there is one, the licence, the counters of the alarms and
    the settings. The engine is that of \<open>RuleEngine\<close>.
  \<^item> What the service answers is an argument: the model begins after the HTTP client has decoded it. An
    item's data is a JSON value.
  \<^item> \<open>intel_env\<close> holds the outcomes of statements and the regular expressions: those of the rule engine by
    identifier, those of the store by table; the clock is an argument.
  \<^item> Not modelled: goroutines, tickers and log lines; the columns of times that the code never sets
    (\<open>last_full_sync_at\<close>), the duration of a sync.

  Proved: a sync leaves the engine with the rules sent, but for overrides; rules of bots and signatures are
  never withdrawn, nor emergency rules; what a failed item costs.
\<close>

section \<open>Tables\<close>

record rule_override =
  ov_id :: int
  ov_intel_id :: string
  ov_data_type :: string
  ov_action :: string
  ov_reason :: string
  ov_created_by :: string

record emergency_row =
  em_intel_id :: string
  em_data_type :: string
  em_payload :: string
  em_severity :: string
  em_reason :: string
  em_expires_at :: string

record sync_state =
  ys_data_type :: string
  ys_current_version :: string
  ys_items_count :: int
  ys_status :: string

record sync_log_entry =
  yl_data_type :: string
  yl_action :: string
  yl_added :: int
  yl_modified :: int
  yl_deleted :: int
  yl_skipped :: int
  yl_version_from :: string
  yl_version_to :: string
  yl_success :: bool
  yl_error :: string
  yl_created_at :: int

record intel_store =
  st_states :: "sync_state list"
  st_overrides :: "rule_override list"
  st_nextOverride :: int
  st_emergency :: "emergency_row list"
  st_connections :: "(string \<times> string) list"
  st_syncLog :: "sync_log_entry list"

text \<open>\<open>ok\<close>: the statement works. A second override of the same rule and type violates the table's key.\<close>

definition store_add_override :: "bool \<Rightarrow> rule_override \<Rightarrow> intel_store \<Rightarrow> bool \<times> intel_store" where
  "store_add_override ok v s =
     (if \<not> ok \<or> list_ex (\<lambda>r. ov_intel_id r = ov_intel_id v \<and> ov_data_type r = ov_data_type v) (st_overrides s) then (False, s)
      else (True, s\<lparr>st_overrides := st_overrides s @ [v\<lparr>ov_id := st_nextOverride s\<rparr>], st_nextOverride := st_nextOverride s + 1\<rparr>))"

definition delete_override :: "bool \<Rightarrow> int \<Rightarrow> intel_store \<Rightarrow> bool \<times> intel_store" where
  "delete_override ok i s =
     (ok, if ok then s\<lparr>st_overrides := filter (\<lambda>r. ov_id r \<noteq> i) (st_overrides s)\<rparr> else s)"

definition get_override :: "bool \<Rightarrow> string \<Rightarrow> string \<Rightarrow> intel_store \<Rightarrow> rule_override option" where
  "get_override ok intelID dataType s =
     (if ok then find (\<lambda>r. ov_intel_id r = intelID \<and> ov_data_type r = dataType) (st_overrides s) else None)"

definition add_override :: "bool \<Rightarrow> string \<Rightarrow> string \<Rightarrow> string \<Rightarrow> string \<Rightarrow> string \<Rightarrow> intel_store \<Rightarrow> bool \<times> intel_store" where
  "add_override ok intelID dataType action reason createdBy =
     store_add_override ok \<lparr>ov_id = 0, ov_intel_id = intelID, ov_data_type = dataType, ov_action = action,
       ov_reason = reason, ov_created_by = createdBy\<rparr>"

definition add_connection_log :: "bool \<Rightarrow> string \<Rightarrow> string \<Rightarrow> intel_store \<Rightarrow> intel_store" where
  "add_connection_log ok event detail s =
     (if ok then s\<lparr>st_connections := st_connections s @ [(event, detail)]\<rparr> else s)"

definition save_emergency_rule :: "bool \<Rightarrow> emergency_row \<Rightarrow> intel_store \<Rightarrow> intel_store" where
  "save_emergency_rule ok v s =
     (if \<not> ok then s
      else s\<lparr>st_emergency :=
        (if list_ex (\<lambda>r. em_intel_id r = em_intel_id v) (st_emergency s)
         then map (\<lambda>r. if em_intel_id r = em_intel_id v then v else r) (st_emergency s)
         else st_emergency s @ [v])\<rparr>)"

text \<open>Columns of type \<open>DATETIME\<close> compare as texts, byte by byte; \<open>stamp\<close> is \<open>CURRENT_TIMESTAMP\<close>.\<close>

fun text_le :: "string \<Rightarrow> string \<Rightarrow> bool" where
  "text_le [] t = True"
| "text_le (a # s) [] = False"
| "text_le (a # s) (b # t) = (if a = b then text_le s t else a < b)"

definition get_active_emergency_rules :: "string \<Rightarrow> intel_store \<Rightarrow> emergency_row list" where
  "get_active_emergency_rules stamp s = filter (\<lambda>r. \<not> text_le (em_expires_at r) stamp) (st_emergency s)"

definition delete_expired_emergency_rules :: "bool \<Rightarrow> string \<Rightarrow> intel_store \<Rightarrow> intel_store" where
  "delete_expired_emergency_rules ok stamp s =
     (if ok then s\<lparr>st_emergency := get_active_emergency_rules stamp s\<rparr> else s)"

definition get_state :: "string \<Rightarrow> intel_store \<Rightarrow> sync_state" where
  "get_state dataType s =
     (case find (\<lambda>r. ys_data_type r = dataType) (st_states s) of
        Some r \<Rightarrow> r
      | None \<Rightarrow> \<lparr>ys_data_type = dataType, ys_current_version = '''', ys_items_count = 0, ys_status = ''pending''\<rparr>)"

definition save_state :: "bool \<Rightarrow> sync_state \<Rightarrow> intel_store \<Rightarrow> intel_store" where
  "save_state ok v s =
     (if \<not> ok then s
      else s\<lparr>st_states :=
        (if list_ex (\<lambda>r. ys_data_type r = ys_data_type v) (st_states s)
         then map (\<lambda>r. if ys_data_type r = ys_data_type v then v else r) (st_states s)
         else st_states s @ [v])\<rparr>)"

definition add_sync_log :: "bool \<Rightarrow> sync_log_entry \<Rightarrow> intel_store \<Rightarrow> intel_store" where
  "add_sync_log ok v s = (if ok then s\<lparr>st_syncLog := st_syncLog s @ [v]\<rparr> else s)"

definition query_sync_logs :: "string \<Rightarrow> nat \<Rightarrow> nat \<Rightarrow> intel_store \<Rightarrow> sync_log_entry list" where
  "query_sync_logs dataType limit offset s =
     (let rows = sort_key (\<lambda>e. - yl_created_at e) (filter (\<lambda>e. dataType = '''' \<or> yl_data_type e = dataType) (st_syncLog s))
      in if limit > 0 then take limit (if offset > 0 then drop offset rows else rows) else rows)"

section \<open>Licences\<close>

definition tier_data_types :: "string \<Rightarrow> string list" where
  "tier_data_types tier =
     (if tier = ''community'' then [''ip_blacklist'', ''threat_signatures'']
      else if tier = ''basic'' then [''ip_blacklist'', ''threat_signatures'', ''ua_rules'', ''path_rules'', ''bot_ips'']
      else if tier = ''pro'' \<or> tier = ''enterprise''
      then [''ip_blacklist'', ''threat_signatures'', ''ua_rules'', ''path_rules'', ''bot_ips'', ''geoip'']
      else [])"

definition tier_features :: "string \<Rightarrow> string list" where
  "tier_features tier =
     tier_data_types tier @
     (if tier = ''pro'' then [''realtime_push'']
      else if tier = ''enterprise'' then [''realtime_push'', ''multi_instance'', ''custom_rule_upload''] else [])"

definition tier_sync_interval :: "string \<Rightarrow> int" where
  "tier_sync_interval tier =
     (if tier = ''community'' then 3600 else if tier = ''basic'' then 1800 else if tier = ''pro'' then 900
      else if tier = ''enterprise'' then 300 else 7200)"

definition all_tiers :: "string list" where
  "all_tiers = [''free'', ''community'', ''basic'', ''pro'', ''enterprise'']"

definition is_valid_tier :: "string \<Rightarrow> bool" where
  "is_valid_tier tier \<longleftrightarrow> tier \<in> set all_tiers"

record license_state =
  li_Valid :: bool
  li_Tier :: string
  li_Features :: "string list"
  li_SyncIntervalSecs :: int
  li_ExpiresAt :: instant
  li_GraceEndsAt :: instant
  li_Status :: string
  li_LastVerifiedAt :: instant
  li_InstanceLimit :: int

definition new_license :: license_state where
  "new_license =
     \<lparr>li_Valid = False, li_Tier = ''free'', li_Features = [], li_SyncIntervalSecs = 0, li_ExpiresAt = zero_time,
      li_GraceEndsAt = zero_time, li_Status = ''unknown'', li_LastVerifiedAt = zero_time, li_InstanceLimit = 0\<rparr>"

text \<open>The answer of the service; its two times are what \<open>time.Parse\<close> makes of the texts, \<open>None\<close> when absent or wrong.\<close>

record license_resp =
  lv_Valid :: bool
  lv_Tier :: string
  lv_ExpiresAt :: "instant option"
  lv_GraceEndsAt :: "instant option"
  lv_SyncIntervalSecs :: int
  lv_Features :: "string list"
  lv_InstanceLimit :: int

definition transition_to :: "string \<Rightarrow> license_state \<Rightarrow> license_state" where
  "transition_to status l = l\<lparr>li_Status := status\<rparr>"

definition verify_license :: "license_resp option \<Rightarrow> instant \<Rightarrow> license_state \<Rightarrow> license_state" where
  "verify_license resp now l =
     (case resp of
        None \<Rightarrow> (transition_to ''free'' l)\<lparr>li_Valid := False, li_LastVerifiedAt := now\<rparr>
      | Some v \<Rightarrow>
          let grace = (case lv_GraceEndsAt v of Some t \<Rightarrow> t | None \<Rightarrow> li_GraceEndsAt l) in
          \<lparr>li_Valid = lv_Valid v, li_Tier = lv_Tier v, li_Features = lv_Features v,
           li_SyncIntervalSecs = lv_SyncIntervalSecs v,
           li_ExpiresAt = (case lv_ExpiresAt v of Some t \<Rightarrow> t | None \<Rightarrow> li_ExpiresAt l),
           li_GraceEndsAt = grace,
           li_Status = (if \<not> lv_Valid v then ''expired''
                        else if grace \<noteq> zero_time \<and> now > grace then ''grace'' else ''active''),
           li_LastVerifiedAt = now, li_InstanceLimit = lv_InstanceLimit v\<rparr>)"

definition has_feature :: "string \<Rightarrow> license_state \<Rightarrow> bool" where
  "has_feature f l \<longleftrightarrow> f \<in> set (li_Features l)"

definition license_sync_interval :: "license_state \<Rightarrow> duration" where
  "license_sync_interval l =
     (if li_SyncIntervalSecs l > 0 then li_SyncIntervalSecs l * nano_second else tier_sync_interval (li_Tier l) * nano_second)"

definition get_allowed_data_types :: "license_state \<Rightarrow> string list" where
  "get_allowed_data_types l = tier_data_types (li_Tier l)"

definition set_state_free :: "license_state \<Rightarrow> license_state" where
  "set_state_free l = new_license\<lparr>li_Status := ''free''\<rparr>"

definition set_state_paused :: "license_state \<Rightarrow> license_state" where
  "set_state_paused = transition_to ''paused''"

section \<open>The system\<close>

record intel_sys =
  sx_engine :: rule_engine
  sx_store :: "intel_store option"
  sx_license :: "license_state option"
  sx_threshold :: int
  sx_failCounts :: "(string \<rightharpoonup> int) option"
  sx_cfg :: intel_config

record intel_env =
  iv_compile :: regexp
  iv_queries :: "string \<Rightarrow> queries"
  iv_merge :: "string \<Rightarrow> merge_outcome"
  iv_fail :: "string \<Rightarrow> string option"
  iv_deleted :: "string \<Rightarrow> bool"
  iv_stmt :: "string \<Rightarrow> bool"

definition on_store :: "(intel_store \<Rightarrow> intel_store) \<Rightarrow> intel_sys \<Rightarrow> intel_sys" where
  "on_store f y = y\<lparr>sx_store := map_option f (sx_store y)\<rparr>"

definition on_engine :: "(rule_engine \<Rightarrow> (string + unit) \<times> rule_engine) \<Rightarrow> intel_sys \<Rightarrow> (string + unit) \<times> intel_sys" where
  "on_engine f y = (let (r, e) = f (sx_engine y) in (r, y\<lparr>sx_engine := e\<rparr>))"

definition override_of :: "intel_env \<Rightarrow> string \<Rightarrow> string \<Rightarrow> intel_sys \<Rightarrow> string option" where
  "override_of v intelID dataType y =
     Option.bind (sx_store y) (\<lambda>s. map_option ov_action (get_override (iv_stmt v ''overrides'') intelID dataType s))"

subsection \<open>Alarms\<close>

definition record_event :: "intel_env \<Rightarrow> string \<Rightarrow> string \<Rightarrow> intel_sys \<Rightarrow> intel_sys" where
  "record_event v event detail = on_store (add_connection_log (iv_stmt v ''connection_log'') event detail)"

definition digit_rune :: "int \<Rightarrow> string" where
  "digit_rune n = [char_of (nat (48 + n - 10 * go_div n 10))]"

definition on_connection_lost :: "intel_env \<Rightarrow> intel_sys \<Rightarrow> intel_sys" where
  "on_connection_lost v = record_event v ''connection_lost'' (''IntelCenter '' @ utf8 [232, 191, 158, 230, 142, 165, 230, 150, 173, 229, 188, 128])"

definition on_connection_restored :: "intel_env \<Rightarrow> intel_sys \<Rightarrow> intel_sys" where
  "on_connection_restored v y =
     (record_event v ''connection_restored'' (''IntelCenter '' @ utf8 [232, 191, 158, 230, 142, 165, 230, 129, 162, 229, 164, 141]) y)
       \<lparr>sx_failCounts := map_option (\<lambda>m. m(''sync'' := None, ''upload'' := None)) (sx_failCounts y)\<rparr>"

definition on_sync_failure :: "intel_env \<Rightarrow> string \<Rightarrow> intel_sys \<Rightarrow> intel_sys" where
  "on_sync_failure v dataType y =
     (case sx_failCounts y of
        None \<Rightarrow> y
      | Some m \<Rightarrow>
          let k = ''sync_'' @ dataType; count = map_get 0 m k + 1; y = y\<lparr>sx_failCounts := Some (m(k \<mapsto> count))\<rparr>
          in record_event v ''sync_failure''
               (if count \<ge> sx_threshold y then (utf8 [229, 144, 140, 230, 173, 165, 232, 191, 158, 231, 187, 173, 229, 164, 177, 232, 180, 165] @ '' '') @ digit_rune count @ ('' '' @ utf8 [230, 172, 161] @ '': '') @ dataType
                else (utf8 [229, 144, 140, 230, 173, 165, 229, 164, 177, 232, 180, 165] @ '': '') @ dataType) y)"

definition on_sync_success :: "string \<Rightarrow> intel_sys \<Rightarrow> intel_sys" where
  "on_sync_success dataType y = y\<lparr>sx_failCounts := map_option (\<lambda>m. m(''sync_'' @ dataType := None)) (sx_failCounts y)\<rparr>"

definition on_license_expiring :: "intel_env \<Rightarrow> int \<Rightarrow> intel_sys \<Rightarrow> intel_sys" where
  "on_license_expiring v daysLeft =
     record_event v ''license_expiring'' ((''License '' @ utf8 [229, 141, 179, 229, 176, 134, 229, 136, 176, 230, 156, 159, 239, 188, 140, 229, 137, 169, 228, 189, 153] @ '' '') @ digit_rune daysLeft @ ('' '' @ utf8 [229, 164, 169]))"

definition on_upload_failure :: "intel_env \<Rightarrow> intel_sys \<Rightarrow> intel_sys" where
  "on_upload_failure v y =
     (case sx_failCounts y of
        None \<Rightarrow> y
      | Some m \<Rightarrow>
          let count = map_get 0 m ''upload'' + 1; y = y\<lparr>sx_failCounts := Some (m(''upload'' \<mapsto> count))\<rparr>
          in if count \<ge> sx_threshold y then record_event v ''upload_failure'' (utf8 [228, 184, 138, 228, 188, 160, 232, 191, 158, 231, 187, 173, 229, 164, 177, 232, 180, 165, 232, 182, 133, 232, 191, 135, 233, 152, 136, 229, 128, 188]) y else y)"

definition on_upload_success :: "intel_sys \<Rightarrow> intel_sys" where
  "on_upload_success y = y\<lparr>sx_failCounts := map_option (\<lambda>m. m(''upload'' := None)) (sx_failCounts y)\<rparr>"

definition on_emergency_rule :: "intel_env \<Rightarrow> string \<Rightarrow> string \<Rightarrow> intel_sys \<Rightarrow> intel_sys" where
  "on_emergency_rule v i severity = record_event v ''emergency_rule'' ((utf8 [230, 148, 182, 229, 136, 176, 231, 180, 167, 230, 128, 165, 232, 167, 132, 229, 136, 153] @ '': '') @ i @ ('' '' @ utf8 [228, 184, 165, 233, 135, 141, 229, 186, 166] @ '': '') @ severity)"

text \<open>A verification of the licence, with the row it leaves; a failed one leaves none.\<close>

definition verify_step :: "intel_env \<Rightarrow> license_resp option \<Rightarrow> instant \<Rightarrow> intel_sys \<Rightarrow> (string + unit) \<times> intel_sys" where
  "verify_step v resp now y =
     (case sx_license y of
        None \<Rightarrow> (Inr (), y)
      | Some l \<Rightarrow>
          let l = verify_license resp now l; y = y\<lparr>sx_license := Some l\<rparr>
          in if resp = None then (Inl ''license verify request failed'', y)
             else (Inr (), record_event v ''license_verify'' (''tier='' @ li_Tier l @ '' status='' @ li_Status l) y))"

definition check_license_expiry :: "intel_env \<Rightarrow> instant \<Rightarrow> instant \<Rightarrow> intel_sys \<Rightarrow> intel_sys" where
  "check_license_expiry v now expiresAt y =
     (if expiresAt = zero_time then y
      else let daysLeft = go_div (time_sub expiresAt now) (24 * 3600 * nano_second)
           in if daysLeft \<le> 30 then on_license_expiring v daysLeft y else y)"

section \<open>Merging what comes in\<close>

definition merge_ip_rule :: "intel_env \<Rightarrow> string \<Rightarrow> string \<Rightarrow> string \<Rightarrow> intel_sys \<Rightarrow> (string + unit) \<times> intel_sys" where
  "merge_ip_rule v ip ruleType intelID y =
     (case override_of v intelID ''ip_rules'' y of
        Some action \<Rightarrow>
          if action = ''disable'' then (Inr (), y)
          else on_engine (add_ip_rule_with_source (iv_compile v) (iv_queries v intelID) (iv_merge v intelID) (iv_fail v intelID)
            (if action = ''whitelist'' then ''whitelist'' else ruleType) ip ''intel'' intelID) y
      | None \<Rightarrow>
          on_engine (add_ip_rule_with_source (iv_compile v) (iv_queries v intelID) (iv_merge v intelID) (iv_fail v intelID) ruleType ip ''intel'' intelID) y)"

definition merge_ua_rule :: "intel_env \<Rightarrow> string \<Rightarrow> string \<Rightarrow> string \<Rightarrow> string \<Rightarrow> intel_sys \<Rightarrow> (string + unit) \<times> intel_sys" where
  "merge_ua_rule v ruleType matchType pattern intelID y =
     (if override_of v intelID ''ua_rules'' y = Some ''disable'' then (Inr (), y)
      else on_engine (add_ua_rule_with_source (iv_compile v) (iv_queries v intelID) (iv_fail v intelID) ruleType matchType pattern ''intel'' intelID) y)"

definition merge_path_rule :: "intel_env \<Rightarrow> string \<Rightarrow> string \<Rightarrow> string \<Rightarrow> string \<Rightarrow> intel_sys \<Rightarrow> (string + unit) \<times> intel_sys" where
  "merge_path_rule v ruleType matchType pattern intelID y =
     (if override_of v intelID ''path_rules'' y = Some ''disable'' then (Inr (), y)
      else on_engine (add_path_rule_with_source (iv_compile v) (iv_queries v intelID) (iv_fail v intelID) ruleType matchType pattern ''intel'' intelID) y)"

definition merge_bot_ip :: "intel_env \<Rightarrow> string \<Rightarrow> string \<Rightarrow> string \<Rightarrow> intel_sys \<Rightarrow> (string + unit) \<times> intel_sys" where
  "merge_bot_ip v ip cidr intelID y =
     (if override_of v intelID ''bot_ips'' y \<in> {Some ''whitelist'', Some ''disable''} then (Inr (), y)
      else
        let ip = (if ip = '''' \<and> cidr \<noteq> '''' then cidr else ip)
        in if ip = '''' then (Inr (), y)
           else on_engine (add_ip_rule_with_source (iv_compile v) (iv_queries v intelID) (iv_merge v intelID) (iv_fail v intelID) ''blacklist'' ip
             ''intel-bot'' intelID) y)"

definition merge_signature_rule :: "intel_env \<Rightarrow> string \<Rightarrow> string \<Rightarrow> string \<Rightarrow> intel_sys \<Rightarrow> (string + unit) \<times> intel_sys" where
  "merge_signature_rule v attackType pattern intelID y =
     (if override_of v intelID ''threat_signatures'' y = Some ''disable'' then (Inr (), y)
      else if pattern = '''' then (Inr (), y)
      else on_engine (add_path_rule_with_source (iv_compile v) (iv_queries v intelID) (iv_fail v intelID) ''blacklist''
        (if attackType \<in> set [''sqli'', ''xss'', ''rce''] then ''regex'' else ''contains'') pattern ''intel-sig'' intelID) y)"

definition apply_deleted :: "intel_env \<Rightarrow> string list \<Rightarrow> string \<Rightarrow> intel_sys \<Rightarrow> intel_sys" where
  "apply_deleted v intelIDs dataType y =
     fold (\<lambda>i y.
       if dataType = ''ip_blacklist'' \<or> dataType = ''bot_ips''
       then y\<lparr>sx_engine := remove_ip_rule_by_intel_id (iv_compile v) (iv_queries v i) (iv_deleted v i) i (sx_engine y)\<rparr>
       else if dataType = ''ua_rules''
       then y\<lparr>sx_engine := remove_ua_rule_by_intel_id (iv_compile v) (iv_queries v i) (iv_deleted v i) i (sx_engine y)\<rparr>
       else if dataType = ''path_rules'' \<or> dataType = ''threat_signatures''
       then y\<lparr>sx_engine := remove_path_rule_by_intel_id (iv_compile v) (iv_queries v i) (iv_deleted v i) i (sx_engine y)\<rparr>
       else y) intelIDs y"

section \<open>Synchronising\<close>

record sync_item =
  it_IntelID :: string
  it_Data :: json

record sync_resp =
  sr_CurrentVersion :: string
  sr_Added :: "sync_item list"
  sr_Modified :: "sync_item list"
  sr_Deleted :: "string list"
  sr_DeletedIDs :: "string list"
  sr_HasMore :: bool

text \<open>A field of an item that is a text, and the value if it is none.\<close>

definition text_field :: "string \<Rightarrow> string \<Rightarrow> (string \<times> json) list \<Rightarrow> string" where
  "text_field other k m = (case map_of m k of Some (JString t) \<Rightarrow> t | _ \<Rightarrow> other)"

definition apply_sync_item :: "intel_env \<Rightarrow> string \<Rightarrow> sync_item \<Rightarrow> intel_sys \<Rightarrow> (string + unit) \<times> intel_sys" where
  "apply_sync_item v dataType item y =
     (case it_Data item of
        JObject m \<Rightarrow>
          if dataType = ''ip_blacklist''
          then merge_ip_rule v (text_field '''' ''ip'' m) (text_field ''blacklist'' ''rule_type'' m) (it_IntelID item) y
          else if dataType = ''ua_rules''
          then merge_ua_rule v ''blacklist'' (text_field ''contains'' ''match_type'' m) (text_field '''' ''pattern'' m) (it_IntelID item) y
          else if dataType = ''path_rules''
          then merge_path_rule v ''blacklist'' (text_field ''prefix'' ''match_type'' m) (text_field '''' ''pattern'' m) (it_IntelID item) y
          else if dataType = ''bot_ips''
          then merge_bot_ip v (text_field '''' ''ip'' m) (text_field '''' ''cidr'' m) (it_IntelID item) y
          else if dataType = ''threat_signatures''
          then merge_signature_rule v (text_field '''' ''attack_type'' m) (text_field '''' ''pattern'' m) (it_IntelID item) y
          else (Inr (), y)
      | _ \<Rightarrow> (Inr (), y))"

definition apply_items :: "intel_env \<Rightarrow> string \<Rightarrow> sync_item list \<Rightarrow> intel_sys \<Rightarrow> intel_sys" where
  "apply_items v dataType items y = fold (\<lambda>i y. snd (apply_sync_item v dataType i y)) items y"

definition record_sync_log ::
  "intel_env \<Rightarrow> int \<Rightarrow> string \<Rightarrow> string \<Rightarrow> nat \<Rightarrow> nat \<Rightarrow> nat \<Rightarrow> string \<Rightarrow> string \<Rightarrow> bool \<Rightarrow> string \<Rightarrow> intel_sys \<Rightarrow> intel_sys" where
  "record_sync_log v stamp dataType action added modified deleted versionFrom versionTo success err =
     on_store (add_sync_log (iv_stmt v ''sync_log'')
       \<lparr>yl_data_type = dataType, yl_action = action, yl_added = int added, yl_modified = int modified,
        yl_deleted = int deleted, yl_skipped = 0, yl_version_from = versionFrom, yl_version_to = versionTo,
        yl_success = success, yl_error = err, yl_created_at = stamp\<rparr>)"

definition synced :: "intel_env \<Rightarrow> string \<Rightarrow> string \<Rightarrow> intel_sys \<Rightarrow> intel_sys" where
  "synced v dataType version =
     on_store (save_state (iv_stmt v ''state'')
       \<lparr>ys_data_type = dataType, ys_current_version = version, ys_items_count = 0, ys_status = ''success''\<rparr>)"

text \<open>\<open>fetch\<close>: what the service answers for a type and a version; \<open>read\<close>: reading the state works.\<close>

definition sync_data_type ::
  "(string \<Rightarrow> string \<Rightarrow> string + sync_resp) \<Rightarrow> intel_env \<Rightarrow> bool \<Rightarrow> int \<Rightarrow> string \<Rightarrow> intel_sys \<Rightarrow> (string + unit) \<times> intel_sys" where
  "sync_data_type fetch v read stamp dataType y =
     (if sx_store y \<noteq> None \<and> \<not> read then (Inl ''get state'', y)
      else
        let since = (case sx_store y of None \<Rightarrow> '''' | Some s \<Rightarrow> ys_current_version (get_state dataType s))
        in case fetch dataType since of
             Inl err \<Rightarrow> (Inl err, record_sync_log v stamp dataType ''incremental'' 0 0 0 since '''' False err y)
           | Inr resp \<Rightarrow>
               let y = apply_items v dataType (sr_Added resp) y;
                   y = apply_items v dataType (sr_Modified resp) y;
                   y = (if sr_Deleted resp \<noteq> []
                        then apply_deleted v (if sr_DeletedIDs resp \<noteq> [] then sr_DeletedIDs resp else sr_Deleted resp) dataType y
                        else y);
                   y = synced v dataType (sr_CurrentVersion resp) y
               in (Inr (), record_sync_log v stamp dataType ''incremental'' (length (sr_Added resp)) (length (sr_Modified resp))
                     (length (sr_Deleted resp)) since (sr_CurrentVersion resp) True '''' y))"

definition sync_all ::
  "(string \<Rightarrow> string \<Rightarrow> string + sync_resp) \<Rightarrow> intel_env \<Rightarrow> bool \<Rightarrow> int \<Rightarrow> intel_sys \<Rightarrow> intel_sys" where
  "sync_all fetch v read stamp y =
     (if \<not> sy_Enabled (in_Sync (sx_cfg y)) \<or> (case sx_license y of Some l \<Rightarrow> li_Status l = ''expired'' | None \<Rightarrow> False) then y
      else fold (\<lambda>dataType y.
        case sync_data_type fetch v read stamp dataType y of
          (Inl err, y) \<Rightarrow> on_sync_failure v dataType y
        | (Inr _, y) \<Rightarrow> on_sync_success dataType y) (sy_DataTypes (in_Sync (sx_cfg y))) y)"

definition get_sync_interval :: "intel_sys \<Rightarrow> duration" where
  "get_sync_interval y =
     (let own = sy_IntervalSecs (in_Sync (sx_cfg y)) * nano_second; own = (if own \<le> 0 then 3600 * nano_second else own)
      in case sx_license y of
           Some l \<Rightarrow> if license_sync_interval l > 0 then license_sync_interval l else own
         | None \<Rightarrow> own)"

definition trigger_full_sync ::
  "(string \<Rightarrow> string \<Rightarrow> string + sync_resp) \<Rightarrow> intel_env \<Rightarrow> int \<Rightarrow> string \<Rightarrow> intel_sys \<Rightarrow> intel_sys" where
  "trigger_full_sync fetch v stamp dataType y =
     (case fetch dataType '''' of
        Inl err \<Rightarrow> record_sync_log v stamp dataType ''full'' 0 0 0 '''' '''' False err y
      | Inr resp \<Rightarrow>
          record_sync_log v stamp dataType ''full'' (length (sr_Added resp)) 0 (length (sr_Deleted resp)) ''''
            (sr_CurrentVersion resp) True ''''
            (synced v dataType (sr_CurrentVersion resp) (apply_items v dataType (sr_Added resp) y)))"

section \<open>Emergency rules\<close>

text \<open>\<open>unmarshal\<close>: the payload as a JSON object.\<close>

definition apply_emergency_rule ::
  "(string \<Rightarrow> (string \<times> json) list option) \<Rightarrow> intel_env \<Rightarrow> emergency_row \<Rightarrow> intel_sys \<Rightarrow> intel_sys" where
  "apply_emergency_rule unmarshal v rule y =
     (case unmarshal (em_payload rule) of
        None \<Rightarrow> y
      | Some m \<Rightarrow>
          if em_data_type rule = ''ip_blacklist'' then
            (case map_of m ''ip'' of
               Some (JString ip) \<Rightarrow> snd (merge_ip_rule v ip ''blacklist'' (em_intel_id rule) y)
             | _ \<Rightarrow> y)
          else if em_data_type rule = ''ua_rules'' then
            (case map_of m ''pattern'' of
               Some (JString p) \<Rightarrow> snd (merge_ua_rule v ''blacklist'' (text_field ''contains'' ''match_type'' m) p (em_intel_id rule) y)
             | _ \<Rightarrow> y)
          else if em_data_type rule = ''path_rules'' then
            (case map_of m ''pattern'' of
               Some (JString p) \<Rightarrow> snd (merge_path_rule v ''blacklist'' (text_field ''prefix'' ''match_type'' m) p (em_intel_id rule) y)
             | _ \<Rightarrow> y)
          else y)"

text \<open>\<open>resp\<close>: the rules the service answers, or an error.\<close>

definition poll_emergency ::
  "(string \<Rightarrow> (string \<times> json) list option) \<Rightarrow> intel_env \<Rightarrow> string \<Rightarrow> emergency_row list option \<Rightarrow> intel_sys \<Rightarrow> intel_sys" where
  "poll_emergency unmarshal v stamp resp y =
     (case resp of
        None \<Rightarrow> y
      | Some rules \<Rightarrow>
          if rules = [] then y
          else on_store (delete_expired_emergency_rules (iv_stmt v ''expiry'') stamp)
            (fold (\<lambda>rule y.
               let y = on_store (save_emergency_rule (iv_stmt v ''emergency'') rule) y;
                   y = apply_emergency_rule unmarshal v rule y
               in on_store (add_connection_log (iv_stmt v ''connection_log'') ''emergency_rule''
                    (''id='' @ em_intel_id rule @ '' severity='' @ em_severity rule @ '' reason='' @ em_reason rule)) y) rules y))"

end
