(* ===== verification/IntelSyncProps.thy ===== *)
theory IntelSyncProps
  imports IntelSync
begin

text \<open>
  Properties of the synchronisation with the intelligence centre (\<open>IntelSync\<close>): which rows of the rule tables
  a sync and an emergency poll can touch, what an override of the administrator does, and what becomes of the
  version when items fail.
\<close>

section \<open>The rows that stay\<close>

text \<open>
  \<open>rows_kept Q e e'\<close>: every user-agent and path rule of \<open>e\<close> that satisfies \<open>Q\<close> is there, unchanged, in \<open>e'\<close>.
\<close>

definition rows_kept :: "(pattern_row \<Rightarrow> bool) \<Rightarrow> rule_engine \<Rightarrow> rule_engine \<Rightarrow> bool" where
  "rows_kept Q e e' \<longleftrightarrow>
     Set.filter Q (set (ua_rules (db e))) \<subseteq> set (ua_rules (db e')) \<and>
     Set.filter Q (set (path_rules (db e))) \<subseteq> set (path_rules (db e'))"

named_theorems kept

lemma rows_kept_refl [kept]: "rows_kept Q e e"
  by (auto simp: rows_kept_def)

lemma rows_kept_trans: "rows_kept Q e f \<Longrightarrow> rows_kept Q f g \<Longrightarrow> rows_kept Q e g"
  by (auto simp: rows_kept_def subset_iff)

lemma rows_kept_load [kept]: "rows_kept Q e (load_all_rules c q f) \<longleftrightarrow> rows_kept Q e f"
  by (simp add: rows_kept_def load_all_rules_def)

lemma rows_kept_ip [kept]: "rows_kept Q e (update_ip_rows g f) \<longleftrightarrow> rows_kept Q e f"
  by (simp add: rows_kept_def update_ip_rows_def)

lemma rows_kept_merge [kept]: "rows_kept Q e (try_merge_ip_rules c q m rt f) \<longleftrightarrow> rows_kept Q e f"
  by (simp add: try_merge_ip_rules_def Let_def rows_kept_load rows_kept_ip split: merge_outcome.split)

lemma insert_pattern_keeps: "set (fst t) \<subseteq> set (fst (insert_pattern rt mt p d s i t))"
  by (auto simp: insert_pattern_def insert_or_ignore_def Let_def)

lemma rows_kept_add_ip [kept]: "rows_kept Q e (snd (add_ip_rule_with_source c q m fail rt ip src i e))"
  by (simp add: add_ip_rule_with_source_def Let_def kept split: option.split)

lemma rows_kept_add_ua [kept]: "rows_kept Q e (snd (add_ua_rule_with_source c q fail rt mt p src i e))"
  using insert_pattern_keeps[of "ua_table e" rt mt p "''''" src "Some i"]
  by (auto simp: add_ua_rule_with_source_def exec_then_load_def kept with_ua_table_def Let_def rows_kept_def
      ua_table_def subset_iff split: option.split)

lemma rows_kept_add_path [kept]: "rows_kept Q e (snd (add_path_rule_with_source c q fail rt mt p src i e))"
  using insert_pattern_keeps[of "path_table e" rt mt p "''''" src "Some i"]
  by (auto simp: add_path_rule_with_source_def exec_then_load_def kept with_path_table_def Let_def rows_kept_def
      path_table_def subset_iff split: option.split)

text \<open>A removal by identifier deletes rows of the source \<open>intel\<close> only.\<close>

definition not_intel :: "pattern_row \<Rightarrow> bool" where
  "not_intel r \<longleftrightarrow> pr_source r \<noteq> ''intel''"

lemma rows_kept_removals [kept]:
  "rows_kept not_intel e (remove_ip_rule_by_intel_id c q ok i e)"
  "rows_kept not_intel e (remove_ua_rule_by_intel_id c q ok i e)"
  "rows_kept not_intel e (remove_path_rule_by_intel_id c q ok i e)"
  by (auto simp: remove_ip_rule_by_intel_id_def remove_ua_rule_by_intel_id_def remove_path_rule_by_intel_id_def
      kept with_ua_table_def with_path_table_def Let_def rows_kept_def ua_table_def path_table_def
      delete_by_intel_def not_intel_def update_ip_rows_def)

subsection \<open>The operations of the merger\<close>

abbreviation engine_kept :: "(pattern_row \<Rightarrow> bool) \<Rightarrow> intel_sys \<Rightarrow> intel_sys \<Rightarrow> bool" where
  "engine_kept Q y y' \<equiv> rows_kept Q (sx_engine y) (sx_engine y')"

lemma snd_on_engine [simp]: "sx_engine (snd (on_engine f y)) = snd (f (sx_engine y))"
  by (simp add: on_engine_def split: prod.split)

lemma engine_on_store [simp]: "sx_engine (on_store f y) = sx_engine y"
  by (simp add: on_store_def)

lemma merges_keep [kept]:
  "engine_kept Q y (snd (merge_ip_rule v ip rt i y))"
  "engine_kept Q y (snd (merge_ua_rule v rt mt p i y))"
  "engine_kept Q y (snd (merge_path_rule v rt mt p i y))"
  "engine_kept Q y (snd (merge_bot_ip v ip cidr i y))"
  "engine_kept Q y (snd (merge_signature_rule v a p i y))"
  by (simp_all add: merge_ip_rule_def merge_ua_rule_def merge_path_rule_def merge_bot_ip_def merge_signature_rule_def
      Let_def kept split: option.split)

lemma apply_item_keeps [kept]: "engine_kept Q y (snd (apply_sync_item v dt i y))"
  by (simp add: apply_sync_item_def kept split: json.split)

lemma fold_keeps:
  assumes "\<And>x y. engine_kept Q y (f x y)"
  shows "engine_kept Q y (fold f xs y)"
  using assms by (induction xs arbitrary: y) (auto intro: rows_kept_trans simp: rows_kept_refl)

lemma apply_items_keeps: "engine_kept Q y (apply_items v dt items y)"
  unfolding apply_items_def by (rule fold_keeps) (rule apply_item_keeps)

lemma apply_deleted_keeps: "engine_kept not_intel y (apply_deleted v ids dt y)"
  unfolding apply_deleted_def by (rule fold_keeps) (simp add: kept)

lemma engine_logs [simp]:
  "sx_engine (record_sync_log v st dt a n1 n2 n3 vf vt ok err y) = sx_engine y"
  "sx_engine (synced v dt ver y) = sx_engine y"
  "sx_engine (record_event v ev det y) = sx_engine y"
  by (simp_all add: record_sync_log_def synced_def record_event_def)

lemma engine_alarms [simp]:
  "sx_engine (on_sync_failure v dt y) = sx_engine y" "sx_engine (on_sync_success dt y) = sx_engine y"
  by (simp_all add: on_sync_failure_def on_sync_success_def Let_def split: option.split)

lemma sync_type_keeps: "engine_kept not_intel y (snd (sync_data_type fetch v read st dt y))"
proof (cases "sx_store y \<noteq> None \<and> \<not> read")
  case False
  define since where "since = (case sx_store y of None \<Rightarrow> '''' | Some s \<Rightarrow> ys_current_version (get_state dt s))"
  show ?thesis
  proof (cases "fetch dt since")
    case (Inl err)
    with False show ?thesis by (auto simp: sync_data_type_def since_def[symmetric] Let_def kept)
  next
    case (Inr resp)
    let ?m = "apply_items v dt (sr_Modified resp) (apply_items v dt (sr_Added resp) y)"
    have m: "engine_kept not_intel y ?m"
      using apply_items_keeps[of not_intel y v dt "sr_Added resp"]
        apply_items_keeps[of not_intel "apply_items v dt (sr_Added resp) y" v dt "sr_Modified resp"]
      by (rule rows_kept_trans)
    show ?thesis
      using False Inr m rows_kept_trans[OF m apply_deleted_keeps[of ?m v "sr_DeletedIDs resp" dt]]
        rows_kept_trans[OF m apply_deleted_keeps[of ?m v "sr_Deleted resp" dt]]
      by (auto simp: sync_data_type_def since_def[symmetric] Let_def)
  qed
qed (simp add: sync_data_type_def kept)

lemma sync_all_keeps: "engine_kept not_intel y (sync_all fetch v read st y)"
proof -
  have step: "engine_kept not_intel z (case sync_data_type fetch v read st dt z of
      (Inl err, z) \<Rightarrow> on_sync_failure v dt z | (Inr _, z) \<Rightarrow> on_sync_success dt z)" for dt z
    using sync_type_keeps[of z fetch v read st dt] by (auto split: prod.split sum.split)
  show ?thesis
    unfolding sync_all_def by (simp add: kept split: option.split) (auto intro!: fold_keeps step)
qed

text \<open>
  C33. A sync answers to the administrator for nothing but rules of its own: whatever the service sends, for
  every type that is configured, every user-agent and path rule whose source is not \<open>intel\<close> is still there
  after it, unchanged. That protects the rules of the administrator; it also means that a threat signature,
  whose source is \<open>intel-sig\<close>, is never withdrawn when the service deletes it. Rules on addresses are not covered: a merge
  rewrites all rows of a type, whatever their source.
\<close>

theorem sync_keeps_other_sources:
  assumes "pr_source r \<noteq> ''intel''"
  shows "(r \<in> set (path_rules (db (sx_engine y))) \<longrightarrow>
      r \<in> set (path_rules (db (sx_engine (sync_all fetch v read stamp y))))) \<and>
    (r \<in> set (ua_rules (db (sx_engine y))) \<longrightarrow>
      r \<in> set (ua_rules (db (sx_engine (sync_all fetch v read stamp y)))))"
  using assms sync_all_keeps[of y fetch v read stamp] by (auto simp: rows_kept_def not_intel_def)

section \<open>Sample\<close>

definition sample_db :: rules_db where
  "sample_db = \<lparr>ip_rules = [], ua_rules = [], ua_next_id = 1, path_rules = [], path_next_id = 1, geo_rules = [],
     geo_next_id = 1, path_rate_limits = [], limit_next_id = 1, allowed_methods = []\<rparr>"

definition sample_store :: intel_store where
  "sample_store = \<lparr>st_states = [], st_overrides = [], st_nextOverride = 1, st_emergency = [], st_connections = [],
     st_syncLog = []\<rparr>"

definition sample_signature :: pattern_row where
  "sample_signature = \<lparr>pr_id = 1, pr_rule_type = ''blacklist'', pr_match_type = ''contains'', pr_pattern = ''/shell'',
     pr_description = '''', pr_enabled = 1, pr_source = ''intel-sig'', pr_intel_id = Some ''s1''\<rparr>"

definition sample_sys :: intel_sys where
  "sample_sys = \<lparr>sx_engine = \<lparr>db = sample_db\<lparr>path_rules := [sample_signature]\<rparr>, snapshot = empty_snapshot, lastVersion = 0\<rparr>,
     sx_store = Some sample_store, sx_license = None, sx_threshold = 3, sx_failCounts = Some Map.empty,
     sx_cfg = default_intel_config\<rparr>"

definition sample_env :: intel_env where
  "sample_env = \<lparr>iv_compile = \<lambda>_. None, iv_queries = \<lambda>_ _. True, iv_merge = \<lambda>_. MergeCommitted,
     iv_fail = \<lambda>_. None, iv_deleted = \<lambda>_. True, iv_stmt = \<lambda>_. True\<rparr>"

definition deleting :: "string \<Rightarrow> string \<Rightarrow> string + sync_resp" where
  "deleting dt since = Inr \<lparr>sr_CurrentVersion = ''v2'', sr_Added = [], sr_Modified = [], sr_Deleted = [''s1''],
     sr_DeletedIDs = [], sr_HasMore = False\<rparr>"

theorem sync_keeps_other_sources_witness:
  "sample_signature \<in> set (path_rules (db (sx_engine (sync_all deleting sample_env True 0 sample_sys))))"
proof -
  have "pr_source sample_signature \<noteq> ''intel''" by (simp add: sample_signature_def)
  moreover have "sample_signature \<in> set (path_rules (db (sx_engine sample_sys)))"
    by (simp add: sample_sys_def)
  ultimately show ?thesis
    using sync_keeps_other_sources[of sample_signature sample_sys deleting sample_env True 0] by simp
qed

section \<open>Overrides\<close>

text \<open>The names under which the merger looks an override up: for addresses not the type that is synchronised.\<close>

definition override_key :: "string \<Rightarrow> string" where
  "override_key dt = (if dt = ''ip_blacklist'' then ''ip_rules'' else dt)"

lemma disabled_override_of:
  assumes "sx_store y = Some s" and "get_override (iv_stmt v ''overrides'') i k s = Some r" and "ov_action r = ''disable''"
  shows "override_of v i k y = Some ''disable''"
  using assms by (simp add: override_of_def)

text \<open>
  An override has the last word over what comes in, but does not reach back. While the store holds an
  override \<open>disable\<close> for an identifier, items of that identifier, added or modified, change nothing. An
  override entered under the name \<open>ip_blacklist\<close>, the one the synchronisation uses for addresses, is looked
  up by nobody: the item goes in as if there were none.
\<close>

theorem disabled_items_ignored:
  assumes "sx_store y = Some s" and "get_override (iv_stmt v ''overrides'') (it_IntelID item) k s = Some r"
    and "ov_action r = ''disable''"
  shows "(k = override_key dt \<longrightarrow> apply_sync_item v dt item y = (Inr (), y)) \<and>
    (k = ''ip_blacklist'' \<and> get_override (iv_stmt v ''overrides'') (it_IntelID item) ''ip_rules'' s = None \<longrightarrow>
       merge_ip_rule v ip rt (it_IntelID item) y =
       on_engine (add_ip_rule_with_source (iv_compile v) (iv_queries v (it_IntelID item)) (iv_merge v (it_IntelID item))
         (iv_fail v (it_IntelID item)) rt ip ''intel'' (it_IntelID item)) y)"
proof -
  have o: "override_of v (it_IntelID item) k y = Some ''disable''"
    using assms by (rule disabled_override_of)
  have "apply_sync_item v dt item y = (Inr (), y)" if "k = override_key dt"
    using o that
    by (auto simp: apply_sync_item_def override_key_def merge_ip_rule_def merge_ua_rule_def merge_path_rule_def
        merge_bot_ip_def merge_signature_rule_def Let_def split: json.split if_splits)
  moreover have "override_of v (it_IntelID item) ''ip_rules'' y = None"
    if "get_override (iv_stmt v ''overrides'') (it_IntelID item) ''ip_rules'' s = None"
    using that assms(1) by (simp add: override_of_def)
  ultimately show ?thesis by (simp add: merge_ip_rule_def)
qed

definition sample_override :: "string \<Rightarrow> rule_override" where
  "sample_override k = \<lparr>ov_id = 1, ov_intel_id = ''s1'', ov_data_type = k, ov_action = ''disable'', ov_reason = '''',
     ov_created_by = ''admin''\<rparr>"

definition sample_item :: sync_item where
  "sample_item = \<lparr>it_IntelID = ''s1'', it_Data = JObject [(''ip'', JString ''203.0.113.7'')]\<rparr>"

definition overridden :: "string \<Rightarrow> intel_sys" where
  "overridden k = sample_sys\<lparr>sx_store := Some (sample_store\<lparr>st_overrides := [sample_override k]\<rparr>)\<rparr>"

theorem disabled_items_ignored_witness:
  "apply_sync_item sample_env ''ip_blacklist'' sample_item (overridden ''ip_rules'') = (Inr (), overridden ''ip_rules'')"
proof -
  have "get_override (iv_stmt sample_env ''overrides'') (it_IntelID sample_item) ''ip_rules''
      (sample_store\<lparr>st_overrides := [sample_override ''ip_rules'']\<rparr>) = Some (sample_override ''ip_rules'')"
    by (simp add: get_override_def sample_env_def sample_item_def sample_override_def)
  moreover have "sx_store (overridden ''ip_rules'') = Some (sample_store\<lparr>st_overrides := [sample_override ''ip_rules'']\<rparr>)"
    by (simp add: overridden_def)
  moreover have "ov_action (sample_override ''ip_rules'') = ''disable''" by (simp add: sample_override_def)
  ultimately show ?thesis
    using disabled_items_ignored[of "overridden ''ip_rules''" _ sample_env sample_item "''ip_rules''" "sample_override ''ip_rules''" "''ip_blacklist''"]
    by (simp add: override_key_def)
qed

section \<open>The version\<close>

lemma failing_add:
  assumes "iv_fail v (it_IntelID i) = Some err"
  shows "snd (apply_sync_item v dt i y) = y"
proof -
  have e: "snd (on_engine (add_ip_rule_with_source c q m (iv_fail v (it_IntelID i)) rt ip src k) y) = y"
    "snd (on_engine (add_ua_rule_with_source c q (iv_fail v (it_IntelID i)) rt mt p src k) y) = y"
    "snd (on_engine (add_path_rule_with_source c q (iv_fail v (it_IntelID i)) rt mt p src k) y) = y" for c q m rt ip src k mt p
    using assms by (simp_all add: on_engine_def add_ip_rule_with_source_def add_ua_rule_with_source_def
        add_path_rule_with_source_def exec_then_load_def)
  show ?thesis
    by (simp add: apply_sync_item_def merge_ip_rule_def merge_ua_rule_def merge_path_rule_def merge_bot_ip_def
        merge_signature_rule_def Let_def e split: json.split option.split)
qed

lemma failing_adds: "(\<And>k. \<exists>err. iv_fail v k = Some err) \<Longrightarrow> apply_items v dt items y = y"
  unfolding apply_items_def by (induction items arbitrary: y) (simp, metis failing_add fold_simps(2))

lemma find_replaced:
  "list_ex P rows \<Longrightarrow> P w \<Longrightarrow> find P (map (\<lambda>r. if P r then w else r) rows) = Some w"
  by (induction rows) auto

lemma find_appended: "\<not> list_ex P rows \<Longrightarrow> P w \<Longrightarrow> find P (rows @ [w]) = Some w"
  by (induction rows) auto

lemma save_state_get:
  assumes "ys_data_type w = dt"
  shows "get_state dt (save_state True w s) = w"
  using find_replaced[of "\<lambda>r. ys_data_type r = dt" "st_states s" w]
    find_appended[of "\<lambda>r. ys_data_type r = dt" "st_states s" w] assms
  by (cases "list_ex (\<lambda>r. ys_data_type r = dt) (st_states s)") (simp_all add: get_state_def save_state_def)

lemma add_sync_log_states [simp]: "get_state dt (add_sync_log ok e s) = get_state dt s"
  by (simp add: add_sync_log_def get_state_def)

text \<open>
  A sync that fails to store its items still moves on. When the database refuses every insert, the sync
  of an answer without deletions succeeds all the same, leaves the engine as it was and records the version
  of the answer: the next sync asks for what is newer, and the items are lost for good. The same holds for
  what the answer left out: whether more was to come is never looked at.
\<close>

theorem sync_moves_on:
  assumes "sx_store y = Some s" and "iv_stmt v ''state''" and "\<And>k. iv_fail v k = Some (err k)"
    and "fetch dt (ys_current_version (get_state dt s)) = Inr resp" and "sr_Deleted resp = []"
  shows "fst (sync_data_type fetch v True stamp dt y) = Inr () \<and>
    sx_engine (snd (sync_data_type fetch v True stamp dt y)) = sx_engine y \<and>
    (\<exists>s'. sx_store (snd (sync_data_type fetch v True stamp dt y)) = Some s' \<and>
       ys_current_version (get_state dt s') = sr_CurrentVersion resp)"
  using assms failing_adds[of v dt _ y]
  by (simp add: sync_data_type_def Let_def record_sync_log_def synced_def on_store_def save_state_get)

definition full_answer :: "string \<Rightarrow> string \<Rightarrow> string + sync_resp" where
  "full_answer dt since = Inr \<lparr>sr_CurrentVersion = ''v2'', sr_Added = [sample_item], sr_Modified = [], sr_Deleted = [],
     sr_DeletedIDs = [], sr_HasMore = True\<rparr>"

theorem sync_moves_on_witness:
  "\<exists>s'. sx_store (snd (sync_data_type full_answer (sample_env\<lparr>iv_fail := \<lambda>_. Some ''disk full''\<rparr>) True 0 ''ip_blacklist'' sample_sys)) = Some s' \<and>
     ys_current_version (get_state ''ip_blacklist'' s') = ''v2''"
  using sync_moves_on[of sample_sys sample_store "sample_env\<lparr>iv_fail := \<lambda>_. Some ''disk full''\<rparr>" "\<lambda>_. ''disk full''" full_answer
      "''ip_blacklist''" _ 0, OF _ _ _ full_answer_def]
  by (simp add: sample_sys_def sample_env_def)

section \<open>Emergency rules\<close>

lemma emergency_keeps: "engine_kept Q y (apply_emergency_rule unmarshal v rule y)"
  by (simp add: apply_emergency_rule_def kept split: option.split json.split)

lemma poll_keeps: "engine_kept Q y (poll_emergency unmarshal v stamp resp y)"
proof -
  let ?f = "\<lambda>rule z. on_store (add_connection_log (iv_stmt v ''connection_log'') ''emergency_rule''
      (''id='' @ em_intel_id rule @ '' severity='' @ em_severity rule @ '' reason='' @ em_reason rule))
      (apply_emergency_rule unmarshal v rule (on_store (save_emergency_rule (iv_stmt v ''emergency'') rule) z))"
  have "engine_kept Q z (?f rule z)" for rule z
    using emergency_keeps[of Q "on_store (save_emergency_rule (iv_stmt v ''emergency'') rule) z" unmarshal v rule] by simp
  then have "engine_kept Q y (fold ?f rules y)" for rules by (rule fold_keeps)
  then show ?thesis by (simp add: poll_emergency_def Let_def kept split: option.split)
qed

lemma poll_store:
  assumes "sx_store y = Some s" and "iv_stmt v ''expiry''" and "rules \<noteq> []"
  shows "\<exists>s'. sx_store (poll_emergency unmarshal v stamp (Some rules) y) = Some s' \<and>
    (\<forall>r \<in> set (st_emergency s'). \<not> text_le (em_expires_at r) stamp)"
proof -
  have "sx_store (apply_emergency_rule unmarshal v rule z) = sx_store z" for rule z
    by (simp add: apply_emergency_rule_def merge_ip_rule_def merge_ua_rule_def merge_path_rule_def on_engine_def
        split: option.split json.split prod.split)
  then have "\<exists>s'. sx_store (fold (\<lambda>rule z. on_store (g rule) (apply_emergency_rule unmarshal v rule
      (on_store (f rule) z))) rules z) = Some s'" if "sx_store z = Some t" for f g t z
    using that by (induction rules arbitrary: z t) (auto simp: on_store_def)
  from this[OF assms(1), of "\<lambda>rule. add_connection_log (iv_stmt v ''connection_log'') ''emergency_rule''
      (''id='' @ em_intel_id rule @ '' severity='' @ em_severity rule @ '' reason='' @ em_reason rule)"
      "\<lambda>rule. save_emergency_rule (iv_stmt v ''emergency'') rule"] assms(2,3)
  show ?thesis
    by (auto simp: poll_emergency_def Let_def on_store_def delete_expired_emergency_rules_def
        get_active_emergency_rules_def)
qed

text \<open>
  Emergency rules expire in a table nobody enforces. A poll that brings rules deletes the expired ones
  from the table of emergency rules, where an empty expiry counts as expired; but no poll ever takes a
  user-agent or path rule out of the engine, whatever its source: an emergency rule is enforced for ever.
\<close>

theorem emergency_rules_stay:
  assumes "sx_store y = Some s" and "iv_stmt v ''expiry''" and "rules \<noteq> []"
  shows "(\<exists>s'. sx_store (poll_emergency unmarshal v stamp (Some rules) y) = Some s' \<and>
      (\<forall>r \<in> set (st_emergency s'). \<not> text_le (em_expires_at r) stamp \<and> em_expires_at r \<noteq> '''')) \<and>
    set (path_rules (db (sx_engine y))) \<subseteq> set (path_rules (db (sx_engine (poll_emergency unmarshal v stamp (Some rules) y)))) \<and>
    set (ua_rules (db (sx_engine y))) \<subseteq> set (ua_rules (db (sx_engine (poll_emergency unmarshal v stamp (Some rules) y))))"
proof -
  from poll_store[OF assms] obtain s' where
    s': "sx_store (poll_emergency unmarshal v stamp (Some rules) y) = Some s'"
      "\<forall>r \<in> set (st_emergency s'). \<not> text_le (em_expires_at r) stamp" by blast
  then have "\<forall>r \<in> set (st_emergency s'). \<not> text_le (em_expires_at r) stamp \<and> em_expires_at r \<noteq> ''''" by force
  with s' poll_keeps[of "\<lambda>_. True" y unmarshal v stamp "Some rules"] show ?thesis
    by (auto simp: rows_kept_def)
qed

definition sample_emergency :: emergency_row where
  "sample_emergency = \<lparr>em_intel_id = ''e1'', em_data_type = ''path_rules'', em_payload = ''{}'', em_severity = ''high'',
     em_reason = '''', em_expires_at = ''2024-01-01''\<rparr>"

theorem emergency_rules_stay_witness:
  "sample_signature \<in> set (path_rules (db (sx_engine
     (poll_emergency (\<lambda>_. Some [(''pattern'', JString ''/shell'')]) sample_env ''2025-01-01'' (Some [sample_emergency]) sample_sys))))"
proof -
  have "sx_store sample_sys = Some sample_store" "iv_stmt sample_env ''expiry''" "[sample_emergency] \<noteq> []"
    by (simp_all add: sample_sys_def sample_env_def)
  from emergency_rules_stay[OF this, of "\<lambda>_. Some [(''pattern'', JString ''/shell'')]" "''2025-01-01''"]
  show ?thesis by (auto simp: sample_sys_def)
qed

end
