(* ===== verification/CidrTight.thy ===== *)
theory CidrTight
  imports CidrMerge
begin

text \<open>
  How long \<open>rangeToCIDRs\<close> (\<open>rules/cidr_merge.go\<close>) runs: every round takes the largest aligned block that
  fits, so the blocks first grow and then shrink.
\<close>

lemma push_bit_nat: "unat (push_bit i 1 - 1 :: 32 word) = 2 ^ i - 1" if "i < 32"
  using unat_push_bit_1[OF that] that by (subst unat_minus_one) auto

lemma aligned_iff: "s AND (push_bit i 1 - 1) = 0 \<longleftrightarrow> 2 ^ i dvd unat s" if "i < 32" for s :: "32 word"
proof -
  have "s AND (push_bit i 1 - 1) = take_bit i s"
    by (simp add: take_bit_eq_mask mask_eq_exp_minus_1 push_bit_eq_mult)
  also have "\<dots> = 0 \<longleftrightarrow> take_bit i (unat s) = 0"
    using unsigned_take_bit_eq[of i s, where 'a = nat] by (metis unsigned_0 unsigned_eq_0_iff)
  finally show ?thesis by (simp only: take_bit_eq_mod mod_eq_0_iff_dvd)
qed

text \<open>The loop over the sizes stops only at the last size, at one that is not aligned or at one too large.\<close>

lemma max_bits_from_max:
  assumes "i + k = 32" and "s \<le> e" and "best = i - 1"
  shows "let m = max_bits_from k i best s e in
    m = 31 \<or> \<not> 2 ^ Suc m dvd unat s \<or> unat e - unat s + 1 < 2 ^ Suc m"
  using assms
proof (induction k i best s e rule: max_bits_from.induct)
  case (2 k i best s e)
  have i: "i < 32" using 2(2) by simp
  note al = aligned_iff[OF i, of s]
  have le: "push_bit i 1 - 1 > e - s \<longleftrightarrow> unat e - unat s < 2 ^ i - 1"
    using push_bit_nat[OF i] 2(3) by (simp add: word_less_nat_alt unat_sub word_le_nat_alt)
  show ?case
  proof (cases "s AND (push_bit i 1 - 1) \<noteq> 0 \<or> push_bit i 1 - 1 > e - s")
    case True
    then show ?thesis using al le 2(4) by (cases i) (auto simp: Let_def)
  next
    case False
    then have "max_bits_from (Suc k) i best s e = max_bits_from k (Suc i) i s e" by (simp add: Let_def)
    moreover note 2(1)[OF refl]
    ultimately show ?thesis using False 2(2,3) by (auto simp: Let_def)
  qed
qed (simp add: Let_def)

lemma max_bits_largest:
  assumes "s \<le> e"
  shows "max_bits s e = 31 \<or> \<not> 2 ^ Suc (max_bits s e) dvd unat s \<or> unat e - unat s + 1 < 2 ^ Suc (max_bits s e)"
  using max_bits_from_max[of 0 32 s e 0] assms by (simp add: max_bits_def Let_def)

subsection \<open>The rounds\<close>

text \<open>One round: either it is the last, or what is left starts after the block and is shorter by it.\<close>

lemma range_round:
  assumes "s \<le> e"
  defines "k \<equiv> max_bits s e"
  obtains (last_round) "length (range_to_cidrs s e) = 1"
  | (more) s' where "unat s' = unat s + 2 ^ k" "length (range_to_cidrs s e) = Suc (length (range_to_cidrs s' e))"
proof -
  let ?next = "s + push_bit k 1"
  have p: "unat (push_bit k 1 :: 32 word) = 2 ^ k"
    using max_bits_spec(1)[OF assms(1)] by (intro unat_push_bit_1) (simp add: k_def)
  show ?thesis
  proof (cases "?next \<le> s")
    case True
    then show ?thesis using last_round assms by (simp add: range_to_cidrs.simps[of s e] Let_def)
  next
    case False
    then have "unat ?next = unat s + 2 ^ k"
      using p by (metis nle_le not_le olen_add_eqv unat_plus_simple)
    moreover have "length (range_to_cidrs s e) = Suc (length (range_to_cidrs ?next e))"
      using False assms by (simp add: range_to_cidrs.simps[of s e] Let_def)
    ultimately show ?thesis by (rule more)
  qed
qed

text \<open>Once what is left is shorter than the alignment, the blocks shrink.\<close>

lemma shrinking_rounds:
  assumes "2 ^ k dvd unat s" and "unat e + 1 - unat s < 2 ^ k" and "k \<le> 32"
  shows "length (range_to_cidrs s e) \<le> k"
  using assms
proof (induction k arbitrary: s rule: less_induct)
  case (less k)
  show ?case
  proof (cases "s \<le> e")
    case False
    then show ?thesis by (simp add: range_to_cidrs.simps[of s e])
  next
    case True
    let ?m = "max_bits s e"
    note m = max_bits_spec[OF True]
    have se: "unat s \<le> unat e" using True by (simp add: word_le_nat_alt)
    have "(2 :: nat) ^ ?m \<le> unat e + 1 - unat s" using m(3) se by linarith
    then have "(2 :: nat) ^ ?m < 2 ^ k" using less(3) by linarith
    then have mk: "?m < k" by simp
    from True show ?thesis
    proof (cases rule: range_round)
      case last_round
      then show ?thesis using mk by simp
    next
      case (more s')
      have "2 ^ Suc ?m dvd unat s" using less(2) mk by (meson Suc_leI dvd_trans le_imp_power_dvd)
      then have "?m = 31 \<or> unat e - unat s + 1 < 2 ^ Suc ?m" using max_bits_largest[OF True] by blast
      moreover have "unat e - unat s + 1 < 2 ^ Suc ?m" if "?m = 31"
      proof -
        have "k = Suc ?m" using that mk less(4) by simp
        then show ?thesis using less(3) se by simp
      qed
      ultimately have "unat e - unat s + 1 < 2 ^ Suc ?m" by blast
      then have "unat e + 1 - unat s' < 2 ^ ?m" using more(1) se by simp
      moreover have "2 ^ ?m dvd unat s'" using m(2) more(1) by simp
      ultimately have "length (range_to_cidrs s' e) \<le> ?m" using less(1)[OF mk] mk less(4) by simp
      then show ?thesis using more(2) mk by simp
    qed
  qed
qed

lemma exact_block:
  assumes "2 ^ k dvd unat s" and "unat e + 1 = unat s + 2 ^ k" and "k \<le> 31"
  shows "length (range_to_cidrs s e) \<le> 1"
proof -
  have pos: "(1 :: nat) \<le> 2 ^ k" by simp
  have se: "s \<le> e" using assms(2) pos unfolding word_le_nat_alt by linarith
  let ?m = "max_bits s e"
  note m = max_bits_spec[OF se]
  have "?m = 31 \<or> \<not> ?m < k"
  proof (rule ccontr)
    assume "\<not> ?thesis"
    then have mk: "Suc ?m \<le> k" and "?m \<noteq> 31" by simp_all
    then have "2 ^ Suc ?m dvd unat s" "(2 :: nat) ^ Suc ?m \<le> 2 ^ k"
      using assms(1) by (meson dvd_trans le_imp_power_dvd) (simp add: mk del: power_Suc)
    then show False using max_bits_largest[OF se] \<open>?m \<noteq> 31\<close> assms(2) by linarith
  qed
  then have "k \<le> ?m" using assms(3) by linarith
  then have big: "(2 :: nat) ^ k \<le> 2 ^ ?m" by simp
  from se show ?thesis
  proof (cases rule: range_round)
    case (more s')
    then have "\<not> s' \<le> e" using big assms(2) unfolding word_le_nat_alt by linarith
    then show ?thesis using more(2) by (simp add: range_to_cidrs.simps[of s' e])
  qed simp
qed

lemma growing_rounds:
  assumes "2 ^ j dvd unat s" and "j \<le> 32"
  shows "length (range_to_cidrs s e) \<le> 64 - j"
  using assms
proof (induction "32 - j" arbitrary: j s rule: less_induct)
  case less
  show ?case
  proof (cases "s \<le> e")
    case False
    then show ?thesis by (simp add: range_to_cidrs.simps[of s e])
  next
    case True
    let ?m = "max_bits s e"
    note m = max_bits_spec[OF True]
    have se: "unat s \<le> unat e" using True by (simp add: word_le_nat_alt)
    from True show ?thesis
    proof (cases rule: range_round)
      case last_round
      then show ?thesis using less(3) by simp
    next
      case (more s')
      have al: "2 ^ ?m dvd unat s'" using m(2) more(1) by simp
      show ?thesis
      proof (cases "unat e + 1 - unat s' < 2 ^ ?m")
        case True
        then have "length (range_to_cidrs s' e) \<le> ?m" using al m(1) by (intro shrinking_rounds) simp_all
        then show ?thesis using more(2) m(1) less(3) by simp
      next
        case False
        then have "unat e - unat s + 1 \<ge> 2 ^ Suc ?m" using more(1) se by simp
        then have d: "?m = 31 \<or> \<not> 2 ^ Suc ?m dvd unat s" using max_bits_largest[OF True] by linarith
        show ?thesis
        proof (cases "2 ^ Suc ?m dvd unat s")
          case aligned: True
          then have m31: "?m = 31" using d by blast
          then have "unat s = 0" using aligned unat32_less[of s] by (auto dest: nat_dvd_not_less)
          then have "unat e + 1 = unat s' + 2 ^ 31"
            using \<open>unat e - unat s + 1 \<ge> 2 ^ Suc ?m\<close> m31 unat32_less[of e] more(1) by simp
          moreover have "2 ^ 31 dvd unat s'" using al m31 by simp
          ultimately have "length (range_to_cidrs s' e) \<le> 1" by (intro exact_block[of 31]) simp_all
          then show ?thesis using more(2) less(3) by simp
        next
          case odd: False
          have jm: "j \<le> ?m"
          proof (rule ccontr)
            assume "\<not> j \<le> ?m"
            then have "(2 :: nat) ^ Suc ?m dvd 2 ^ j" by (intro le_imp_power_dvd) simp
            then show False using less(2) odd dvd_trans by blast
          qed
          from m(2) obtain q where q: "unat s = 2 ^ ?m * q" by blast
          have "odd q"
          proof
            assume "even q"
            then show False using odd q by (auto elim!: evenE)
          qed
          then have "2 ^ Suc ?m dvd unat s'"
            using more(1) q by (auto elim!: oddE simp: algebra_simps)
          then have "length (range_to_cidrs s' e) \<le> 64 - Suc ?m"
            using less(1)[of "Suc ?m" s'] jm m(1) by simp
          then show ?thesis using more(2) jm m(1) by simp
        qed
      qed
    qed
  qed
qed

text \<open>
  C23. \<open>rangeToCIDRs\<close> ends after at most 64 rounds, whatever the two ends, the last address of the 32-bit
  space included: no range of addresses takes more than 64 rules.
\<close>

theorem range_to_cidrs_ends:
  "length (range_to_cidrs s e) \<le> 64"
  using growing_rounds[of 0 s e] by simp

end
