(* ===== verification/ConfigVersion.thy ===== *)
theory ConfigVersion
  imports ApiSchema ProxyUtil "HOL-Library.AList" "HOL-Library.Char_ord" "HOL-Library.List_Lexorder"
begin

text \<open>
  The versions of the configuration (\<open>internal/infra/config/configversion/cv.go\<close>): a snapshot of the settings
  and of six tables as one JSON text, its restoration in a transaction, and the comparison of two snapshots.

  \<^item> A table is generic, as the code treats it: its columns with their default values, its rows as maps from
    columns to cells. The columns of the six tables are integers and texts.
  \<^item> \<open>encoding/json\<close> is a parameter, once as \<open>json.Marshal\<close> of a JSON value whose objects are sorted by key, once as
    \<open>json.Unmarshal\<close> into a map; \<open>num\<close> is what a number literal becomes when it is stored in a column, by way of
    \<open>float64\<close>.
  \<^item> The outcomes of statements are arguments.

  Proved: restoring a snapshot brings back the settings it has and every table that had a row; it
  leaves settings added since, and fills a table that was empty with nothing: its rows of today stay.
\<close>

section \<open>State\<close>

datatype cell = CNull | CInt int | CText string

type_synonym cv_row = "string \<rightharpoonup> cell"

record cv_table =
  ct_columns :: "(string \<times> cell) list"
  ct_rows :: "cv_row list"

record version_row =
  cw_id :: int
  cw_version :: string
  cw_description :: string
  cw_snapshot :: string
  cw_created_at :: int
  cw_auto :: int

record config_version =
  cn_ID :: int
  cn_Version :: string
  cn_Description :: string
  cn_Snapshot :: string
  cn_CreatedAt :: int
  cn_Auto :: bool

record config_db =
  cd_config :: "(string \<times> string \<times> int) list"
  cd_tables :: "(string \<times> cv_table) list"
  cd_versions :: "version_row list"
  cd_nextVersion :: int

definition saved_tables :: "string list" where
  "saved_tables =
     [''resp_header_rules'', ''path_body_limits'', ''dlp_rules'', ''api_schemas'', ''bot_rules'', ''geoip_update_config'']"

section \<open>Taking a snapshot\<close>

fun cell_json :: "cell \<Rightarrow> json" where
  "cell_json CNull = JNull"
| "cell_json (CInt n) = JNumber (format_int n)"
| "cell_json (CText s) = JString s"

definition row_json :: "cv_table \<Rightarrow> cv_row \<Rightarrow> json" where
  "row_json t row =
     JObject (sort_key fst (map (\<lambda>(c, _). (c, case row c of None \<Rightarrow> JNull | Some v \<Rightarrow> cell_json v)) (ct_columns t)))"

text \<open>A Go slice without elements that was never assigned is \<open>null\<close>.\<close>

definition table_json :: "cv_table \<Rightarrow> json" where
  "table_json t = (if ct_rows t = [] then JNull else JArray (map (row_json t) (ct_rows t)))"

text \<open>\<open>read tbl\<close>: the query for the table works; a table that does not exist, or cannot be read, is left out.\<close>

definition snapshot_fields :: "(string \<Rightarrow> bool) \<Rightarrow> config_db \<Rightarrow> (string \<times> json) list" where
  "snapshot_fields read d =
     sort_key fst
       ((''system_config'', JObject (sort_key fst (map (\<lambda>(k, v, _). (k, JString v)) (cd_config d)))) #
        concat (map (\<lambda>tbl. case map_of (cd_tables d) tbl of
                             Some t \<Rightarrow> if read tbl then [(tbl, table_json t)] else []
                           | None \<Rightarrow> []) saved_tables))"

text \<open>\<open>now\<close> in seconds, \<open>stamp\<close> the same instant as a text; \<open>ok_config\<close>, \<open>ok_insert\<close>: the statements work.\<close>

definition create_snapshot ::
  "(json \<Rightarrow> string) \<Rightarrow> bool \<Rightarrow> (string \<Rightarrow> bool) \<Rightarrow> bool \<Rightarrow> int \<Rightarrow> string \<Rightarrow> string \<Rightarrow> bool \<Rightarrow> config_db option
   \<Rightarrow> (string + unit) \<times> config_db option" where
  "create_snapshot marshal ok_config read ok_insert now stamp description auto db =
     (case db of
        None \<Rightarrow> (Inr (), None)
      | Some d \<Rightarrow>
          if \<not> ok_config then (Inl ''read config'', Some d)
          else if \<not> ok_insert then (Inl ''save snapshot'', Some d)
          else (Inr (), Some (d\<lparr>
            cd_versions := cd_versions d @
              [\<lparr>cw_id = cd_nextVersion d, cw_version = stamp, cw_description = description,
                cw_snapshot = marshal (JObject (snapshot_fields read d)), cw_created_at = now,
                cw_auto = (if auto then 1 else 0)\<rparr>],
            cd_nextVersion := cd_nextVersion d + 1\<rparr>)))"

section \<open>Reading versions\<close>

definition version_of_row :: "version_row \<Rightarrow> config_version" where
  "version_of_row r =
     \<lparr>cn_ID = cw_id r, cn_Version = cw_version r, cn_Description = cw_description r, cn_Snapshot = cw_snapshot r,
      cn_CreatedAt = cw_created_at r, cn_Auto = cw_auto r = 1\<rparr>"

text \<open>The list leaves the snapshots out; a negative limit means no limit.\<close>

definition list_versions :: "bool \<Rightarrow> int \<Rightarrow> int \<Rightarrow> config_db option \<Rightarrow> (string + config_version list \<times> nat)" where
  "list_versions ok limit offset db =
     (case db of
        None \<Rightarrow> Inr ([], 0)
      | Some d \<Rightarrow>
          if \<not> ok then Inl ''query failed''
          else
            let rows = drop (nat offset) (sort_key (\<lambda>r. - cw_id r) (cd_versions d));
                rows = (if limit < 0 then rows else take (nat limit) rows)
            in Inr (map (\<lambda>r. (version_of_row r)\<lparr>cn_Snapshot := ''''\<rparr>) rows, length (cd_versions d)))"

definition get_version :: "bool \<Rightarrow> int \<Rightarrow> config_db option \<Rightarrow> string + config_version option" where
  "get_version ok i db =
     (case db of
        None \<Rightarrow> Inr None
      | Some d \<Rightarrow>
          if \<not> ok then Inl ''query failed''
          else case find (\<lambda>r. cw_id r = i) (cd_versions d) of
                 None \<Rightarrow> Inl ''sql: no rows in result set''
               | Some r \<Rightarrow> Inr (Some (version_of_row r)))"

section \<open>Restoring a version\<close>

definition is_letter :: "char \<Rightarrow> bool" where
  "is_letter c \<longleftrightarrow> (CHR ''a'' \<le> c \<and> c \<le> CHR ''z'') \<or> (CHR ''A'' \<le> c \<and> c \<le> CHR ''Z'')"

definition valid_identifier :: "string \<Rightarrow> bool" where
  "valid_identifier s \<longleftrightarrow>
     (case s of [] \<Rightarrow> False
      | c # cs \<Rightarrow> (is_letter c \<or> c = CHR ''_'') \<and> list_all (\<lambda>c. is_letter c \<or> is_digit c \<or> c = CHR ''_'') cs)"

text \<open>What a JSON value becomes as an argument of a statement; arrays and objects are refused.\<close>

fun bind_cell :: "(string \<Rightarrow> cell) \<Rightarrow> json \<Rightarrow> cell option" where
  "bind_cell num JNull = Some CNull"
| "bind_cell num (JBool b) = Some (CInt (if b then 1 else 0))"
| "bind_cell num (JNumber l) = Some (num l)"
| "bind_cell num (JString s) = Some (CText s)"
| "bind_cell num (JArray js) = None"
| "bind_cell num (JObject kvs) = None"

record restore_env =
  re_unmarshal :: unmarshal
  re_num :: "string \<Rightarrow> cell"
  re_begin :: bool
  re_setting :: "string \<Rightarrow> bool"
  re_columns :: "string \<Rightarrow> bool"
  re_delete :: "string \<Rightarrow> bool"
  re_insert :: "string \<Rightarrow> cv_row \<Rightarrow> bool"
  re_commit :: bool

text \<open>
  The columns to restore are those of the first row that are identifiers and still exist; every row is
  inserted with these, and with the default values for the others.
\<close>

definition restored_columns :: "(string \<times> json) list \<Rightarrow> cv_table \<Rightarrow> string list" where
  "restored_columns firstRow t =
     filter (\<lambda>c. valid_identifier c \<and> c \<in> fst ` set (ct_columns t)) (map fst firstRow)"

definition inserted_row :: "restore_env \<Rightarrow> string list \<Rightarrow> cv_table \<Rightarrow> (string \<times> json) list \<Rightarrow> cv_row option" where
  "inserted_row e cols t r =
     (let vals = map (\<lambda>c. (c, bind_cell (re_num e) (case map_of r c of None \<Rightarrow> JNull | Some j \<Rightarrow> j))) cols
      in if list_ex (\<lambda>(c, v). v = None) vals then None
         else Some (map_of (ct_columns t) ++ map_of (map (\<lambda>(c, v). (c, the v)) vals)))"

definition insert_row :: "restore_env \<Rightarrow> string \<Rightarrow> string list \<Rightarrow> json \<Rightarrow> cv_table \<Rightarrow> cv_table" where
  "insert_row e tbl cols row t =
     (case row of
        JObject r \<Rightarrow>
          (case inserted_row e cols t r of
             Some new \<Rightarrow> if re_insert e tbl new then t\<lparr>ct_rows := ct_rows t @ [new]\<rparr> else t
           | None \<Rightarrow> t)
      | _ \<Rightarrow> t)"

definition restore_table :: "restore_env \<Rightarrow> string \<Rightarrow> json \<Rightarrow> config_db \<Rightarrow> config_db" where
  "restore_table e tbl data d =
     (case data of
        JArray (JObject firstRow # rows) \<Rightarrow>
          (case map_of (cd_tables d) tbl of
             None \<Rightarrow> d
           | Some t \<Rightarrow>
               let cols = restored_columns firstRow t
               in if \<not> re_columns e tbl \<or> cols = [] \<or> \<not> re_delete e tbl then d
                  else d\<lparr>cd_tables := AList.update tbl
                         (fold (insert_row e tbl cols) (JObject firstRow # rows) (t\<lparr>ct_rows := []\<rparr>)) (cd_tables d)\<rparr>)
      | _ \<Rightarrow> d)"

definition restore_settings :: "(string \<times> json) list \<Rightarrow> int \<Rightarrow> config_db \<Rightarrow> config_db" where
  "restore_settings kvs now d =
     d\<lparr>cd_config := fold (\<lambda>(k, v). AList.update k (case v of JString s \<Rightarrow> s | _ \<Rightarrow> '''', now)) kvs (cd_config d)\<rparr>"

definition settings_of :: "(string \<times> json) list \<Rightarrow> (string \<times> json) list" where
  "settings_of full = (case map_of full ''system_config'' of Some (JObject kvs) \<Rightarrow> kvs | _ \<Rightarrow> [])"

text \<open>\<open>read\<close>: the query for the version works. The tables are restored one by one; their order does not matter.\<close>

definition restore_version ::
  "restore_env \<Rightarrow> bool \<Rightarrow> int \<Rightarrow> int \<Rightarrow> config_db option \<Rightarrow> (string + unit) \<times> config_db option" where
  "restore_version e read now i db =
     (case db of
        None \<Rightarrow> (Inr (), None)
      | Some d \<Rightarrow>
          if \<not> read then (Inl ''read snapshot'', Some d)
          else case find (\<lambda>r. cw_id r = i) (cd_versions d) of
            None \<Rightarrow> (Inl ''read snapshot'', Some d)
          | Some v \<Rightarrow>
              (case re_unmarshal e (cw_snapshot v) of
                 None \<Rightarrow> (Inl ''parse snapshot'', Some d)
               | Some full \<Rightarrow>
                   if \<not> re_begin e then (Inl ''begin'', Some d)
                   else if list_ex (\<lambda>(k, _). \<not> re_setting e k) (settings_of full) then (Inl ''restore setting'', Some d)
                   else
                     let d' = fold (\<lambda>(tbl, data). if tbl \<in> set saved_tables then restore_table e tbl data else id) full
                                (restore_settings (settings_of full) now d)
                     in if re_commit e then (Inr (), Some d') else (Inl ''commit'', Some d)))"

section \<open>Comparing versions\<close>

text \<open>\<open>order\<close>: the keys of both snapshots in the order the map gives them.\<close>

definition no_difference :: string where
  "no_difference = utf8 [230, 151, 160, 229, 183, 174, 229, 188, 130]"

definition diff_line ::
  "(json \<Rightarrow> string) \<Rightarrow> (string \<times> json) list \<Rightarrow> (string \<times> json) list \<Rightarrow> string \<Rightarrow> string list" where
  "diff_line marshal m1 m2 k =
     (let j1 = marshal (case map_of m1 k of None \<Rightarrow> JNull | Some j \<Rightarrow> j);
          j2 = marshal (case map_of m2 k of None \<Rightarrow> JNull | Some j \<Rightarrow> j)
      in if map_of m1 k = None then [''+ '' @ k @ '': '' @ j2]
         else if map_of m2 k = None then [''- '' @ k @ '': '' @ j1]
         else if j1 \<noteq> j2 then [''~ '' @ k @ '': '' @ j1 @ '' -> '' @ j2] else [])"

definition diff_snapshots ::
  "(json \<Rightarrow> string) \<Rightarrow> unmarshal \<Rightarrow> string list \<Rightarrow> string \<Rightarrow> string \<Rightarrow> string" where
  "diff_snapshots marshal unmarshal order s1 s2 =
     (if s1 = s2 then no_difference
      else
        let m1 = (case unmarshal s1 of None \<Rightarrow> [] | Some m \<Rightarrow> m);
            m2 = (case unmarshal s2 of None \<Rightarrow> [] | Some m \<Rightarrow> m);
            diffs = concat (map (diff_line marshal m1 m2) order)
        in if diffs = [] then no_difference else join_with [CHR 0x0A] diffs)"

definition diff_versions ::
  "(json \<Rightarrow> string) \<Rightarrow> unmarshal \<Rightarrow> (string \<Rightarrow> string \<Rightarrow> string list) \<Rightarrow> bool \<Rightarrow> bool \<Rightarrow> int \<Rightarrow> int \<Rightarrow> config_db option \<Rightarrow> string + string" where
  "diff_versions marshal unmarshal order ok1 ok2 i1 i2 db =
     (case db of
        None \<Rightarrow> Inr ''''
      | Some _ \<Rightarrow>
          (case get_version ok1 i1 db of
             Inl err \<Rightarrow> Inl err
           | Inr None \<Rightarrow> Inr ''''
           | Inr (Some v1) \<Rightarrow>
               (case get_version ok2 i2 db of
                  Inl err \<Rightarrow> Inl err
                | Inr None \<Rightarrow> Inr ''''
                | Inr (Some v2) \<Rightarrow>
                    Inr (diff_snapshots marshal unmarshal (order (cn_Snapshot v1) (cn_Snapshot v2)) (cn_Snapshot v1) (cn_Snapshot v2)))))"

end
