(* ===== verification/ConfigVersionProps.thy ===== *)
theory ConfigVersionProps
  imports ConfigVersion
begin

text \<open>
  What taking a snapshot and restoring it does to the settings and the tables (\<open>ConfigVersion\<close>).
\<close>

section \<open>Association lists\<close>

lemma distinct_sorted: "distinct (map fst (sort_key g xs)) = distinct (map fst xs)"
  by (simp add: distinct_map inj_on_def)

lemma map_of_sorted:
  assumes "distinct (map fst xs)"
  shows "map_of (sort_key g xs) = map_of xs"
proof -
  have d: "distinct (map fst (sort_key g xs))"
    using assms by (simp only: distinct_sorted)
  have "(map_of (sort_key g xs) k = Some v) = (map_of xs k = Some v)" for k v
    using d assms by simp
  then show ?thesis by (metis ext not_None_eq)
qed

lemma fst_sorted: "set (map fst (sort_key g xs)) = set (map fst xs)"
  by simp

lemma map_of_fold_update:
  assumes "distinct (map fst kvs)"
  shows "map_of (fold (\<lambda>(k, v). AList.update k (h v)) kvs al) x =
    (case map_of kvs x of Some v \<Rightarrow> Some (h v) | None \<Rightarrow> map_of al x)"
  using assms
  by (induction kvs arbitrary: al) (auto simp: update_conv' map_of_eq_None_iff[THEN iffD2] split: option.split)

section \<open>A database and its snapshot\<close>

definition rows_of :: "config_db \<Rightarrow> string \<Rightarrow> cv_row list" where
  "rows_of d tbl = (case map_of (cd_tables d) tbl of None \<Rightarrow> [] | Some t \<Rightarrow> ct_rows t)"

definition setting_of :: "config_db \<Rightarrow> string \<Rightarrow> string option" where
  "setting_of d k = map_option fst (map_of (cd_config d) k)"

abbreviation column_names :: "cv_table \<Rightarrow> string list" where
  "column_names t \<equiv> map fst (ct_columns t)"

definition wf_table :: "cv_table \<Rightarrow> bool" where
  "wf_table t \<longleftrightarrow> distinct (column_names t) \<and> ct_columns t \<noteq> [] \<and> list_all valid_identifier (column_names t) \<and>
     (\<forall>row \<in> set (ct_rows t). dom row = set (column_names t))"

text \<open>The integers of the saved tables survive the way through \<open>float64\<close>: those up to \<open>2 ^ 53\<close> do.\<close>

definition exact_numbers :: "(string \<Rightarrow> cell) \<Rightarrow> cv_table \<Rightarrow> bool" where
  "exact_numbers num t \<longleftrightarrow>
     (\<forall>row \<in> set (ct_rows t). \<forall>c n. row c = Some (CInt n) \<longrightarrow> num (format_int n) = CInt n)"

text \<open>The tables saved are well formed, the keys of the settings unique, and the tables of today have their columns.\<close>

definition restorable :: "(string \<Rightarrow> cell) \<Rightarrow> config_db \<Rightarrow> config_db \<Rightarrow> bool" where
  "restorable num d d' \<longleftrightarrow> distinct (map fst (cd_config d)) \<and>
     (\<forall>tbl \<in> set saved_tables. \<forall>t. map_of (cd_tables d) tbl = Some t \<longrightarrow> wf_table t \<and> exact_numbers num t \<and>
        (\<exists>t'. map_of (cd_tables d') tbl = Some t' \<and> set (column_names t') = set (column_names t)))"

definition all_well :: "unmarshal \<Rightarrow> (string \<Rightarrow> cell) \<Rightarrow> restore_env" where
  "all_well unmarshal num = \<lparr>re_unmarshal = unmarshal, re_num = num, re_begin = True, re_setting = \<lambda>_. True,
     re_columns = \<lambda>_. True, re_delete = \<lambda>_. True, re_insert = \<lambda>_ _. True, re_commit = True\<rparr>"

lemma all_well_fields [simp]:
  "re_unmarshal (all_well u num) = u" "re_num (all_well u num) = num" "re_begin (all_well u num)"
  "re_setting (all_well u num) k" "re_columns (all_well u num) tbl" "re_delete (all_well u num) tbl"
  "re_insert (all_well u num) tbl row" "re_commit (all_well u num)"
  by (simp_all add: all_well_def)

subsection \<open>The snapshot as a map\<close>

definition table_fields :: "config_db \<Rightarrow> (string \<times> json) list" where
  "table_fields d = concat (map (\<lambda>tbl. case map_of (cd_tables d) tbl of
      Some t \<Rightarrow> [(tbl, table_json t)] | None \<Rightarrow> []) saved_tables)"

lemma table_fields_names: "map fst (table_fields d) = filter (\<lambda>tbl. map_of (cd_tables d) tbl \<noteq> None) saved_tables"
proof -
  have "map fst (concat (map (\<lambda>tbl. case map_of al tbl of Some t \<Rightarrow> [(tbl, g t)] | None \<Rightarrow> []) tbls)) =
      filter (\<lambda>tbl. map_of al tbl \<noteq> None) tbls" for g :: "cv_table \<Rightarrow> json" and al tbls
    by (induction tbls) (auto split: option.split)
  then show ?thesis by (simp add: table_fields_def)
qed

lemma distinct_saved: "distinct saved_tables" "''system_config'' \<notin> set saved_tables"
  by (simp_all add: saved_tables_def)

lemma map_of_table_fields:
  "map_of (table_fields d) tbl =
     (if tbl \<in> set saved_tables then map_option table_json (map_of (cd_tables d) tbl) else None)"
proof -
  have d: "distinct (map fst (table_fields d))"
    using distinct_saved(1) by (simp add: table_fields_names)
  show ?thesis
  proof (cases "tbl \<in> set saved_tables \<and> map_of (cd_tables d) tbl \<noteq> None")
    case True
    then obtain t where "map_of (cd_tables d) tbl = Some t" by blast
    then have "(tbl, table_json t) \<in> set (table_fields d)"
      using True by (force simp: table_fields_def)
    then show ?thesis using True d \<open>map_of (cd_tables d) tbl = Some t\<close> by simp
  next
    case False
    then have "tbl \<notin> set (map fst (table_fields d))" by (auto simp: table_fields_names)
    then have "map_of (table_fields d) tbl = None" by (simp add: map_of_eq_None_iff)
    then show ?thesis using False by auto
  qed
qed

lemma snapshot_as_map:
  fixes d :: config_db
  defines "full \<equiv> snapshot_fields (\<lambda>_. True) d"
  shows "distinct (map fst full)"
    and "map_of full ''system_config'' = Some (JObject (sort_key fst (map (\<lambda>(k, v, _). (k, JString v)) (cd_config d))))"
    and "tbl \<in> set saved_tables \<Longrightarrow> map_of full tbl = map_option table_json (map_of (cd_tables d) tbl)"
proof -
  let ?raw = "(''system_config'', JObject (sort_key fst (map (\<lambda>(k, v, _). (k, JString v)) (cd_config d)))) # table_fields d"
  have full: "full = sort_key fst ?raw"
    by (simp add: full_def snapshot_fields_def table_fields_def cong: option.case_cong)
  have raw: "distinct (map fst ?raw)"
    using distinct_saved by (auto simp: table_fields_names simp flip: set_map)
  then show "distinct (map fst full)" by (simp only: full distinct_sorted)
  note m = map_of_sorted[OF raw, of fst]
  show "map_of full ''system_config'' = Some (JObject (sort_key fst (map (\<lambda>(k, v, _). (k, JString v)) (cd_config d))))"
    unfolding full m by simp
  show "map_of full tbl = map_option table_json (map_of (cd_tables d) tbl)" if "tbl \<in> set saved_tables"
  proof -
    have "tbl \<noteq> ''system_config''" using that distinct_saved(2) by blast
    then show ?thesis using that unfolding full m by (simp add: map_of_table_fields)
  qed
qed

section \<open>Restoring\<close>

lemma restore_table_frame: "tbl \<noteq> x \<Longrightarrow> map_of (cd_tables (restore_table e tbl data d)) x = map_of (cd_tables d) x"
  by (auto simp: restore_table_def Let_def update_conv' split: json.split list.split option.split)

lemma restore_table_config [simp]: "cd_config (restore_table e tbl data d) = cd_config d"
  by (auto simp: restore_table_def Let_def split: json.split list.split option.split)

lemma restore_table_local:
  assumes "map_of (cd_tables d) tbl = map_of (cd_tables d') tbl"
  shows "map_of (cd_tables (restore_table e tbl data d)) tbl = map_of (cd_tables (restore_table e tbl data d')) tbl"
  using assms by (auto simp: restore_table_def Let_def update_conv' split: json.split list.split option.split)

abbreviation restore_all :: "restore_env \<Rightarrow> (string \<times> json) list \<Rightarrow> config_db \<Rightarrow> config_db" where
  "restore_all e full \<equiv> fold (\<lambda>(tbl, data). if tbl \<in> set saved_tables then restore_table e tbl data else id) full"

lemma restore_all_config [simp]: "cd_config (restore_all e full d) = cd_config d"
  by (induction full arbitrary: d) auto

lemma restore_all_tables:
  assumes "distinct (map fst full)"
  shows "map_of (cd_tables (restore_all e full d)) x =
    (case map_of full x of
       Some data \<Rightarrow> if x \<in> set saved_tables then map_of (cd_tables (restore_table e x data d)) x else map_of (cd_tables d) x
     | None \<Rightarrow> map_of (cd_tables d) x)"
  using assms
proof (induction full arbitrary: d)
  case (Cons f full)
  obtain tbl data where f: "f = (tbl, data)" by (cases f)
  let ?d = "if tbl \<in> set saved_tables then restore_table e tbl data d else d"
  have none: "map_of full tbl = None" using Cons.prems f by (simp add: map_of_eq_None_iff)
  have step: "restore_all e (f # full) d = restore_all e full ?d" by (simp add: f)
  show ?case
  proof (cases "x = tbl")
    case True
    then show ?thesis using Cons.IH[of ?d] Cons.prems none unfolding step
      by (cases "tbl \<in> set saved_tables") (simp_all add: f)
  next
    case False
    then have "map_of (cd_tables ?d) x = map_of (cd_tables d) x" using restore_table_frame by simp
    then show ?thesis
      using Cons.IH[of ?d] Cons.prems False restore_table_local[of ?d x d]
      unfolding step by (auto simp: f split: option.split)
  qed
qed simp

subsection \<open>One table\<close>

lemma bind_json: "(\<And>n. v = CInt n \<Longrightarrow> num (format_int n) = CInt n) \<Longrightarrow> bind_cell num (cell_json v) = Some v"
  by (cases v) simp_all

abbreviation row_fields :: "cv_table \<Rightarrow> cv_row \<Rightarrow> (string \<times> json) list" where
  "row_fields t row \<equiv>
     sort_key fst (map (\<lambda>(c, _). (c, case row c of None \<Rightarrow> JNull | Some v \<Rightarrow> cell_json v)) (ct_columns t))"

lemma row_fields_names: "set (map fst (row_fields t row)) = set (column_names t)"
  by force

lemma row_fields_map:
  assumes "distinct (column_names t)" "c \<in> set (column_names t)" "row c = Some v"
  shows "map_of (row_fields t row) c = Some (cell_json v)"
proof -
  let ?xs = "map (\<lambda>(c, _). (c, case row c of None \<Rightarrow> JNull | Some v \<Rightarrow> cell_json v)) (ct_columns t)"
  have names: "map fst ?xs = column_names t" by auto
  have "(c, cell_json v) \<in> set ?xs" using assms(2,3) by (force simp: image_iff)
  then show ?thesis using assms(1) names map_of_sorted[of ?xs fst] by (metis map_of_eq_Some_iff)
qed

lemma restored_row:
  assumes "wf_table t" "exact_numbers num t" "row \<in> set (ct_rows t)" "set cols = set (column_names t)"
    "set (column_names t') = set (column_names t)"
  shows "inserted_row (all_well u num) cols t' (row_fields t row) = Some row"
proof -
  have dom: "dom row = set (column_names t)" using assms(1,3) by (simp add: wf_table_def)
  let ?v = "\<lambda>c. bind_cell num (case map_of (row_fields t row) c of None \<Rightarrow> JNull | Some j \<Rightarrow> j)"
  have v: "?v c = row c" if "c \<in> set cols" for c
  proof -
    from that dom assms(4) obtain w where w: "row c = Some w" by blast
    then have "map_of (row_fields t row) c = Some (cell_json w)"
      using row_fields_map[of t c row w] assms(1,4) that by (simp add: wf_table_def)
    moreover have "bind_cell num (cell_json w) = Some w"
      using w assms(2,3) by (intro bind_json) (auto simp: exact_numbers_def)
    ultimately show ?thesis using w by simp
  qed
  have "map_of (ct_columns t') ++ map_of (map (\<lambda>c. (c, the (?v c))) cols) = row"
  proof
    fix c
    show "(map_of (ct_columns t') ++ map_of (map (\<lambda>c. (c, the (?v c))) cols)) c = row c"
    proof (cases "c \<in> set cols")
      case True
      then have "map_of (map (\<lambda>c. (c, the (?v c))) cols) c = Some (the (?v c))"
        by (simp add: map_of_map_restrict)
      moreover obtain w where "row c = Some w" using True dom assms(4) by blast
      ultimately show ?thesis using v[OF True] by (simp add: map_add_def)
    next
      case False
      then have "row c = None" "map_of (ct_columns t') c = None"
        using dom assms(4,5) by (auto simp: map_of_eq_None_iff)
      moreover have "map_of (map (\<lambda>c. (c, the (?v c))) cols) c = None"
        using False by (auto simp: map_of_eq_None_iff)
      ultimately show ?thesis by (simp add: map_add_def)
    qed
  qed
  moreover have "\<not> list_ex (\<lambda>(c, w). w = None) (map (\<lambda>c. (c, ?v c)) cols)"
    using v dom assms(4) by (auto simp: list_ex_iff)
  ultimately show ?thesis by (simp add: inserted_row_def Let_def comp_def)
qed

lemma insert_rows:
  assumes "wf_table t" "exact_numbers num t" "set rows \<subseteq> set (ct_rows t)" "set cols = set (column_names t)"
    "set (column_names t') = set (column_names t)"
  shows "fold (insert_row (all_well u num) tbl cols) (map (row_json t) rows) t' = t'\<lparr>ct_rows := ct_rows t' @ rows\<rparr>"
  using assms(3,5)
proof (induction rows arbitrary: t')
  case (Cons row rows)
  have "inserted_row (all_well u num) cols t' (row_fields t row) = Some row"
    using Cons.prems by (intro restored_row assms) simp_all
  then have "insert_row (all_well u num) tbl cols (row_json t row) t' = t'\<lparr>ct_rows := ct_rows t' @ [row]\<rparr>"
    by (simp add: insert_row_def row_json_def)
  then show ?case using Cons.IH[of "t'\<lparr>ct_rows := ct_rows t' @ [row]\<rparr>"] Cons.prems by simp
qed simp

lemma restored_columns_names:
  assumes "wf_table t" "set (column_names t') = set (column_names t)"
  shows "set (restored_columns (row_fields t row) t') = set (column_names t)"
proof -
  have "set (restored_columns (row_fields t row) t') =
      {c \<in> set (map fst (row_fields t row)). valid_identifier c \<and> c \<in> set (column_names t')}"
    by (auto simp: restored_columns_def)
  also have "\<dots> = set (column_names t)"
    unfolding row_fields_names using assms by (auto simp: wf_table_def list_all_iff)
  finally show ?thesis .
qed

lemma restored_table:
  assumes "wf_table t" "exact_numbers num t" "map_of (cd_tables d) tbl = Some t'"
    "set (column_names t') = set (column_names t)"
  shows "rows_of (restore_table (all_well u num) tbl (table_json t) d) tbl =
    (if ct_rows t = [] then rows_of d tbl else ct_rows t)"
proof (cases "ct_rows t")
  case Nil
  then show ?thesis by (simp add: table_json_def restore_table_def)
next
  case (Cons row rows)
  let ?cols = "restored_columns (row_fields t row) t'"
  have cols: "set ?cols = set (column_names t)" using assms(1,4) by (rule restored_columns_names)
  moreover have "?cols \<noteq> []"
  proof
    assume "?cols = []"
    then show False using cols assms(1) by (simp add: wf_table_def)
  qed
  moreover have "fold (insert_row (all_well u num) tbl ?cols) (map (row_json t) (row # rows)) (t'\<lparr>ct_rows := []\<rparr>) =
      t'\<lparr>ct_rows := row # rows\<rparr>"
    using insert_rows[OF assms(1,2) _ cols, of "row # rows" "t'\<lparr>ct_rows := []\<rparr>" u tbl] Cons assms(4) by simp
  ultimately show ?thesis
    using Cons assms(3)
    by (simp add: table_json_def restore_table_def row_json_def Let_def rows_of_def update_conv')
qed

subsection \<open>The whole\<close>

lemma map_of_mapped: "map_of (map (\<lambda>(k, v, _). (k, h v)) al) k = map_option (\<lambda>(v, _). h v) (map_of al k)"
  by (induction al) auto

lemma restore_settings_map:
  assumes "distinct (map fst (cd_config d))"
  shows "setting_of (restore_settings (sort_key fst (map (\<lambda>(k, v, _). (k, JString v)) (cd_config d))) now d') k =
    (case setting_of d k of Some v \<Rightarrow> Some v | None \<Rightarrow> setting_of d' k)"
proof -
  let ?kvs = "map (\<lambda>(k, v, _). (k, JString v)) (cd_config d)"
  have names: "map fst ?kvs = map fst (cd_config d)" by auto
  then have dist: "distinct (map fst ?kvs)" using assms by (simp only:)
  have "distinct (map fst (sort_key fst ?kvs))" using dist by (simp only: distinct_sorted)
  from map_of_fold_update[OF this, of "\<lambda>v. (case v of JString s \<Rightarrow> s | _ \<Rightarrow> '''', now)" "cd_config d'" k]
  show ?thesis
    unfolding restore_settings_def setting_of_def map_of_sorted[OF dist] map_of_mapped
    by (cases "map_of (cd_config d) k") (auto simp: case_prod_unfold)
qed

text \<open>
  C20. A snapshot, restored. Whatever happened to the settings and the tables since a snapshot was taken, as
  long as the tables have the columns they had, restoring it gives every setting of the snapshot the value it
  had, and every saved table that had rows exactly those rows. It does not undo additions: settings
  that are new stay, and a table that was empty when the snapshot was taken keeps the rows of today.
  Assumed are statements that work, JSON read back as written, and integers small enough for \<open>float64\<close>.
\<close>

theorem snapshot_restores:
  assumes "create_snapshot marshal True (\<lambda>_. True) True now stamp description auto (Some d) = (res, Some d1)"
    and "\<forall>r \<in> set (cd_versions d). cw_id r \<noteq> cd_nextVersion d"
    and "find (\<lambda>r. cw_id r = cd_nextVersion d) (cd_versions d') = find (\<lambda>r. cw_id r = cd_nextVersion d) (cd_versions d1)"
    and "restorable num d d'"
    and "unmarshal (marshal (JObject (snapshot_fields (\<lambda>_. True) d))) = Some (snapshot_fields (\<lambda>_. True) d)"
  shows "\<exists>d''. restore_version (all_well unmarshal num) True later (cd_nextVersion d) (Some d') = (Inr (), Some d'') \<and>
    (\<forall>k. setting_of d'' k = (case setting_of d k of Some v \<Rightarrow> Some v | None \<Rightarrow> setting_of d' k)) \<and>
    (\<forall>tbl. rows_of d'' tbl = (if tbl \<in> set saved_tables \<and> rows_of d tbl \<noteq> [] then rows_of d tbl else rows_of d' tbl))"
proof -
  let ?full = "snapshot_fields (\<lambda>_. True) d" and ?e = "all_well unmarshal num"
  note full = snapshot_as_map[where d = d]
  let ?d1 = "restore_settings (settings_of ?full) later d'"
  let ?d2 = "restore_all ?e ?full ?d1"
  have found: "find P (vs @ [r]) = Some r" if "\<forall>x \<in> set vs. \<not> P x" "P r" for P and vs :: "version_row list" and r
    using that by (induction vs) auto
  obtain v where v: "find (\<lambda>r. cw_id r = cd_nextVersion d) (cd_versions d') = Some v"
      "cw_snapshot v = marshal (JObject ?full)"
    using assms(1-3) by (auto simp: create_snapshot_def found)
  have run: "restore_version ?e True later (cd_nextVersion d) (Some d') = (Inr (), Some ?d2)"
    using v assms(5) by (simp add: restore_version_def Let_def list_ex_iff)
  have dist: "distinct (map fst (cd_config d))" using assms(4) by (simp add: restorable_def)
  have "setting_of ?d2 k = setting_of ?d1 k" for k by (simp add: setting_of_def)
  then have "setting_of ?d2 k = (case setting_of d k of Some v \<Rightarrow> Some v | None \<Rightarrow> setting_of d' k)" for k
    using restore_settings_map[OF dist, of later d' k] full(2) by (simp add: settings_of_def)
  moreover have "rows_of ?d2 tbl =
      (if tbl \<in> set saved_tables \<and> rows_of d tbl \<noteq> [] then rows_of d tbl else rows_of d' tbl)" for tbl
  proof -
    have tables: "cd_tables ?d1 = cd_tables d'" by (simp add: restore_settings_def)
    show ?thesis
    proof (cases "tbl \<in> set saved_tables \<and> map_of (cd_tables d) tbl \<noteq> None")
      case True
      then obtain t where t: "map_of (cd_tables d) tbl = Some t" by blast
      then obtain t' where t': "map_of (cd_tables d') tbl = Some t'" "set (column_names t') = set (column_names t)"
          "wf_table t" "exact_numbers num t"
        using assms(4) True unfolding restorable_def by blast
      have "rows_of ?d2 tbl = rows_of (restore_table ?e tbl (table_json t) ?d1) tbl"
        using restore_all_tables[OF full(1), of ?e ?d1 tbl] full(3) True t by (simp add: rows_of_def)
      also have "\<dots> = (if ct_rows t = [] then rows_of ?d1 tbl else ct_rows t)"
        using restored_table[OF t'(3,4) _ t'(2), of ?d1 tbl unmarshal] t'(1) tables by simp
      finally show ?thesis using True t tables by (simp add: rows_of_def)
    next
      case False
      then have "map_of (cd_tables ?d2) tbl = map_of (cd_tables ?d1) tbl"
        using restore_all_tables[OF full(1), of ?e ?d1 tbl] full(3) by (auto split: option.split)
      then show ?thesis using False tables by (auto simp: rows_of_def)
    qed
  qed
  ultimately show ?thesis using run by blast
qed

section \<open>Sample\<close>

definition sample_table :: "cv_row list \<Rightarrow> cv_table" where
  "sample_table rows = \<lparr>ct_columns = [(''id'', CNull), (''name'', CText '''')], ct_rows = rows\<rparr>"

definition sample_row :: "int \<Rightarrow> string \<Rightarrow> cv_row" where
  "sample_row i name = [''id'' \<mapsto> CInt i, ''name'' \<mapsto> CText name]"

definition sample_config :: "(string \<times> string \<times> int) list \<Rightarrow> cv_row list \<Rightarrow> cv_row list \<Rightarrow> version_row list \<Rightarrow> config_db" where
  "sample_config settings dlp bots versions =
     \<lparr>cd_config = settings, cd_tables = [(''dlp_rules'', sample_table dlp), (''bot_rules'', sample_table bots)],
      cd_versions = versions, cd_nextVersion = 1\<rparr>"

definition before_change :: config_db where
  "before_change = sample_config [(''ratelimit_qps'', ''100'', 0)] [sample_row 1 ''cards''] [] []"

definition after_change :: config_db where
  "after_change = sample_config [(''ratelimit_qps'', ''5'', 0), (''log_level'', ''debug'', 0)]
     [sample_row 2 ''phones''] [sample_row 1 ''crawler'']
     [\<lparr>cw_id = 1, cw_version = ''v'', cw_description = '''', cw_snapshot = ''x'', cw_created_at = 0, cw_auto = 0\<rparr>]"

lemma wf_sample: "wf_table (sample_table [])" "wf_table (sample_table [sample_row i n])"
  by (auto simp: wf_table_def sample_table_def sample_row_def valid_identifier_def is_letter_def)

lemma sample_restorable: "restorable (\<lambda>_. CInt 1) before_change after_change"
  using wf_sample
  by (auto simp: restorable_def before_change_def after_change_def sample_config_def exact_numbers_def sample_table_def
      sample_row_def split: if_splits)

theorem snapshot_restores_witness:
  "\<exists>d. restore_version (all_well (\<lambda>_. Some (snapshot_fields (\<lambda>_. True) before_change)) (\<lambda>_. CInt 1)) True 7 1 (Some after_change) =
      (Inr (), Some d) \<and>
    setting_of d ''ratelimit_qps'' = Some ''100'' \<and> setting_of d ''log_level'' = Some ''debug'' \<and>
    rows_of d ''dlp_rules'' = [sample_row 1 ''cards''] \<and> rows_of d ''bot_rules'' = [sample_row 1 ''crawler'']"
proof -
  have taken: "create_snapshot (\<lambda>_. ''x'') True (\<lambda>_. True) True 0 ''v'' '''' False (Some before_change) =
      (Inr (), Some (before_change\<lparr>cd_versions := cd_versions after_change, cd_nextVersion := 2\<rparr>))"
    by (simp add: create_snapshot_def before_change_def after_change_def sample_config_def)
  have one: "cd_nextVersion before_change = 1" "cd_versions before_change = []"
    by (simp_all add: before_change_def sample_config_def)
  from snapshot_restores[OF taken, of after_change "\<lambda>_. CInt 1" "\<lambda>_. Some (snapshot_fields (\<lambda>_. True) before_change)" 7]
  obtain d where d: "restore_version (all_well (\<lambda>_. Some (snapshot_fields (\<lambda>_. True) before_change)) (\<lambda>_. CInt 1)) True 7 1
      (Some after_change) = (Inr (), Some d)"
    "\<forall>k. setting_of d k = (case setting_of before_change k of Some v \<Rightarrow> Some v | None \<Rightarrow> setting_of after_change k)"
    "\<forall>tbl. rows_of d tbl = (if tbl \<in> set saved_tables \<and> rows_of before_change tbl \<noteq> []
       then rows_of before_change tbl else rows_of after_change tbl)"
    using one sample_restorable by auto
  have "setting_of before_change ''ratelimit_qps'' = Some ''100''" "setting_of before_change ''log_level'' = None"
    "setting_of after_change ''log_level'' = Some ''debug''"
    by (simp_all add: setting_of_def before_change_def after_change_def sample_config_def)
  moreover have "rows_of before_change ''dlp_rules'' = [sample_row 1 ''cards'']" "rows_of before_change ''bot_rules'' = []"
    "rows_of after_change ''bot_rules'' = [sample_row 1 ''crawler'']"
    by (simp_all add: rows_of_def before_change_def after_change_def sample_config_def sample_table_def)
  moreover have "''dlp_rules'' \<in> set saved_tables" by (simp add: saved_tables_def)
  ultimately show ?thesis using d by auto
qed

end
