(* ===== verification/IntelUpload.thy ===== *)
theory IntelUpload
  imports IntelSync Masker
begin

text \<open>
  The intelligence centre's client side: what goes out. \<open>internal/intel\<close>: \<open>upload\<close> (collector, masking,
  manager, false positives), the tables of \<open>store\<close> they use, and the limits and repetitions of requests of
  \<open>client\<close>.

  \<^item> Events and payloads are JSON objects; \<open>marshal\<close> and \<open>unmarshal\<close> are parameters, as is the service.
  \<^item> A column that no statement sets is \<open>NULL\<close>, which \<open>database/sql\<close> does not scan into a string.
  \<^item> The repetitions are given the answers in order; the time slept is computed.
  \<^item> Not modelled: goroutines and tickers, TLS, the endpoints' URLs and headers.

  Proved: nothing is ever uploaded; a request is sent at most four times, and how long that takes.
\<close>

section \<open>Tables\<close>

record upload_item =
  uq_id :: int
  uq_data_type :: string
  uq_payload :: string
  uq_original :: string
  uq_status :: string
  uq_risk :: int
  uq_note :: "string option"
  uq_approved_by :: "string option"
  uq_created_at :: int
  uq_updated_at :: int

record upload_log_entry =
  ul_data_type :: string
  ul_items :: int
  ul_accepted :: int
  ul_rejected :: int
  ul_credits :: int
  ul_success :: bool
  ul_error :: string
  ul_uploaded_at :: int

record credits_entry =
  cr_amount :: int
  cr_type :: string
  cr_reference :: string
  cr_description :: string

record false_positive =
  fp_id :: int
  fp_event_id :: int
  fp_rule_id :: string
  fp_intel_rule_id :: string
  fp_reason :: string
  fp_status :: string

record exclusion_rule =
  xr_id :: int
  xr_match_type :: string
  xr_pattern :: string
  xr_enabled :: bool
  xr_description :: string

record upload_store =
  us_queue :: "upload_item list"
  us_nextItem :: int
  us_log :: "upload_log_entry list"
  us_credits :: "credits_entry list"
  us_falsePositives :: "false_positive list"
  us_nextFalsePositive :: int
  us_exclusions :: "exclusion_rule list"
  us_nextExclusion :: int

definition enqueue_upload :: "bool \<Rightarrow> int \<Rightarrow> upload_item \<Rightarrow> upload_store \<Rightarrow> bool \<times> upload_store" where
  "enqueue_upload ok stamp v s =
     (if \<not> ok then (False, s)
      else (True, s\<lparr>us_queue := us_queue s @
             [v\<lparr>uq_id := us_nextItem s, uq_note := None, uq_approved_by := None, uq_created_at := stamp, uq_updated_at := stamp\<rparr>],
           us_nextItem := us_nextItem s + 1\<rparr>))"

text \<open>The query, and the scan of its rows into strings; a negative limit is none.\<close>

definition pending_rows :: "string \<Rightarrow> int \<Rightarrow> upload_store \<Rightarrow> upload_item list" where
  "pending_rows dataType limit s =
     (let rows = sort_key uq_created_at
            (filter (\<lambda>v. uq_data_type v = dataType \<and> (uq_status v = ''pending'' \<or> uq_status v = ''approved'')) (us_queue s))
      in if limit < 0 then rows else take (nat limit) rows)"

definition scans :: "upload_item \<Rightarrow> bool" where
  "scans v \<longleftrightarrow> uq_note v \<noteq> None \<and> uq_approved_by v \<noteq> None"

definition get_pending_uploads :: "bool \<Rightarrow> string \<Rightarrow> int \<Rightarrow> upload_store \<Rightarrow> string + upload_item list" where
  "get_pending_uploads ok dataType limit s =
     (if \<not> ok then Inl ''query failed''
      else if list_all scans (pending_rows dataType limit s) then Inr (pending_rows dataType limit s)
      else Inl ''converting NULL to string is unsupported'')"

definition update_upload_status :: "bool \<Rightarrow> int \<Rightarrow> int \<Rightarrow> string \<Rightarrow> string \<Rightarrow> upload_store \<Rightarrow> bool \<times> upload_store" where
  "update_upload_status ok stamp i status note s =
     (ok, if ok then s\<lparr>us_queue := map (\<lambda>v. if uq_id v = i then v\<lparr>uq_status := status, uq_note := Some note, uq_updated_at := stamp\<rparr> else v) (us_queue s)\<rparr>
          else s)"

definition delete_processed_uploads :: "bool \<Rightarrow> int \<Rightarrow> upload_store \<Rightarrow> upload_store" where
  "delete_processed_uploads ok before s =
     (if ok then s\<lparr>us_queue := filter (\<lambda>v. \<not> ((uq_status v = ''sent'' \<or> uq_status v = ''rejected'') \<and> uq_updated_at v < before)) (us_queue s)\<rparr>
      else s)"

definition add_upload_log :: "bool \<Rightarrow> upload_log_entry \<Rightarrow> upload_store \<Rightarrow> upload_store" where
  "add_upload_log ok v s = (if ok then s\<lparr>us_log := us_log s @ [v]\<rparr> else s)"

definition query_upload_logs :: "string \<Rightarrow> nat \<Rightarrow> upload_store \<Rightarrow> upload_log_entry list" where
  "query_upload_logs dataType limit s =
     (let rows = sort_key (\<lambda>v. - ul_uploaded_at v) (filter (\<lambda>v. dataType = '''' \<or> ul_data_type v = dataType) (us_log s))
      in if limit > 0 then take limit rows else rows)"

definition add_credits :: "bool \<Rightarrow> credits_entry \<Rightarrow> upload_store \<Rightarrow> upload_store" where
  "add_credits ok v s = (if ok then s\<lparr>us_credits := us_credits s @ [v]\<rparr> else s)"

definition get_credit_balance :: "upload_store \<Rightarrow> int" where
  "get_credit_balance s = sum_list (map cr_amount (us_credits s))"

definition add_false_positive :: "bool \<Rightarrow> false_positive \<Rightarrow> upload_store \<Rightarrow> bool \<times> upload_store" where
  "add_false_positive ok v s =
     (if ok then (True, s\<lparr>us_falsePositives := us_falsePositives s @ [v\<lparr>fp_id := us_nextFalsePositive s\<rparr>],
                         us_nextFalsePositive := us_nextFalsePositive s + 1\<rparr>)
      else (False, s))"

definition update_false_positive_status :: "bool \<Rightarrow> int \<Rightarrow> string \<Rightarrow> upload_store \<Rightarrow> bool \<times> upload_store" where
  "update_false_positive_status ok i status s =
     (ok, if ok then s\<lparr>us_falsePositives := map (\<lambda>v. if fp_id v = i then v\<lparr>fp_status := status\<rparr> else v) (us_falsePositives s)\<rparr> else s)"

definition mark_false_positive :: "bool \<Rightarrow> int \<Rightarrow> string \<Rightarrow> string \<Rightarrow> string \<Rightarrow> upload_store \<Rightarrow> bool \<times> upload_store" where
  "mark_false_positive ok eventID ruleID intelRuleID reason =
     add_false_positive ok \<lparr>fp_id = 0, fp_event_id = eventID, fp_rule_id = ruleID, fp_intel_rule_id = intelRuleID,
       fp_reason = reason, fp_status = ''pending''\<rparr>"

definition submit_false_positive :: "bool \<Rightarrow> int \<Rightarrow> upload_store \<Rightarrow> bool \<times> upload_store" where
  "submit_false_positive ok i = update_false_positive_status ok i ''submitted''"

definition add_exclusion :: "bool \<Rightarrow> exclusion_rule \<Rightarrow> upload_store \<Rightarrow> bool \<times> upload_store" where
  "add_exclusion ok v s =
     (if ok then (True, s\<lparr>us_exclusions := us_exclusions s @ [v\<lparr>xr_id := us_nextExclusion s\<rparr>], us_nextExclusion := us_nextExclusion s + 1\<rparr>)
      else (False, s))"

definition delete_exclusion :: "bool \<Rightarrow> int \<Rightarrow> upload_store \<Rightarrow> bool \<times> upload_store" where
  "delete_exclusion ok i s = (ok, if ok then s\<lparr>us_exclusions := filter (\<lambda>v. xr_id v \<noteq> i) (us_exclusions s)\<rparr> else s)"

section \<open>Masking\<close>

record mask_pattern =
  mp_Name :: string
  mp_Regex :: regex
  mp_Replace :: string
  mp_Level :: string

text \<open>No pattern has the action \<open>reject\<close>: masking a field never fails.\<close>

definition default_mask_patterns :: "mask_pattern list" where
  "default_mask_patterns =
     [\<lparr>mp_Name = ''phone'', mp_Regex = must_compile ''1[3-9]~d{9}'', mp_Replace = ''***PHONE***'', mp_Level = ''loose''\<rparr>,
      \<lparr>mp_Name = ''idcard'',
       mp_Regex = must_compile ''[1-9]~d{5}(18|19|20)~d{2}(0[1-9]|1[0-2])(0[1-9]|[12]~d|3[01])~d{3}[~dXx]'',
       mp_Replace = ''***IDCARD***'', mp_Level = ''loose''\<rparr>,
      \<lparr>mp_Name = ''bankcard'', mp_Regex = must_compile ''~d{16,19}'', mp_Replace = ''***BANKCARD***'', mp_Level = ''loose''\<rparr>,
      \<lparr>mp_Name = ''email'', mp_Regex = must_compile ''[a-zA-Z0-9._%+~-]+@[a-zA-Z0-9.~-]+~.[a-zA-Z]{2,}'',
       mp_Replace = ''***EMAIL***'', mp_Level = ''loose''\<rparr>,
      \<lparr>mp_Name = ''password_field'',
       mp_Regex = must_compile ''(?i)(password|passwd|pwd|secret|token|apikey|api_key)~s*[:=]~s*~S+'',
       mp_Replace = ''***SECRET***'', mp_Level = ''loose''\<rparr>,
      \<lparr>mp_Name = ''jwt'', mp_Regex = must_compile ''eyJ[a-zA-Z0-9_~-]+~.eyJ[a-zA-Z0-9_~-]+~.[a-zA-Z0-9_~-]*'',
       mp_Replace = ''***JWT***'', mp_Level = ''standard''\<rparr>,
      \<lparr>mp_Name = ''private_key'', mp_Regex = must_compile ''-----BEGIN~s+(RSA~s+)?PRIVATE~s+KEY-----'',
       mp_Replace = ''***PRIVATE_KEY***'', mp_Level = ''strict''\<rparr>]"

record mask_engine =
  me_level :: string
  me_patterns :: "mask_pattern list"

definition new_mask_engine :: "string \<Rightarrow> string list \<Rightarrow> mask_engine" where
  "new_mask_engine level customPatterns =
     \<lparr>me_level = level,
      me_patterns = default_mask_patterns @
        List.map_filter (\<lambda>p. map_option (\<lambda>re. \<lparr>mp_Name = ''custom'', mp_Regex = re, mp_Replace = ''***MASKED***'',
            mp_Level = ''standard''\<rparr>) (parse_regex p)) customPatterns\<rparr>"

definition should_apply :: "string \<Rightarrow> string \<Rightarrow> bool" where
  "should_apply patternLevel engineLevel =
     (if engineLevel = ''strict'' then True
      else if engineLevel = ''standard'' then patternLevel = ''loose'' \<or> patternLevel = ''standard''
      else if engineLevel = ''loose'' then patternLevel = ''loose''
      else True)"

definition mask_field :: "mask_engine \<Rightarrow> string \<Rightarrow> string \<times> bool" where
  "mask_field m value =
     foldl (\<lambda>(result, risk) p.
         if should_apply (mp_Level p) (me_level m) \<and> match_string (mp_Regex p) result
         then (replace_matches (\<lambda>_. mp_Replace p) (mp_Regex p) result, True) else (result, risk))
       (value, False) (me_patterns m)"

text \<open>The masked event, and the number of fields that held something sensitive.\<close>

definition mask_event :: "mask_engine \<Rightarrow> (string \<times> json) list \<Rightarrow> (string \<times> json) list \<times> nat" where
  "mask_event m event =
     (map (\<lambda>(k, v). (k, case v of JString s \<Rightarrow> JString (fst (mask_field m s)) | _ \<Rightarrow> v)) event,
      length (filter (\<lambda>(k, v). case v of JString s \<Rightarrow> snd (mask_field m s) | _ \<Rightarrow> False) event))"

definition mask_json :: "(json \<Rightarrow> string) \<Rightarrow> unmarshal \<Rightarrow> mask_engine \<Rightarrow> string \<Rightarrow> string \<times> nat" where
  "mask_json marshal unmarshal m text =
     (case unmarshal text of
        None \<Rightarrow> (text, 0)
      | Some event \<Rightarrow> let (masked, risks) = mask_event m event in (marshal (JObject masked), risks))"

section \<open>Collecting\<close>

definition event_text :: "(string \<times> json) list \<Rightarrow> string \<Rightarrow> string option" where
  "event_text event k = (case map_of event k of Some (JString s) \<Rightarrow> Some s | _ \<Rightarrow> None)"

definition is_excluded :: "upload_config \<Rightarrow> (string \<times> json) list \<Rightarrow> bool" where
  "is_excluded c event =
     (if ex_Enabled (up_Exclusions c) then False
      else
        (case event_text event ''path'' of
           Some path \<Rightarrow> list_ex (str_contains path) (ex_Paths (up_Exclusions c)) | None \<Rightarrow> False) \<or>
        (case event_text event ''client_ip'' of
           Some ip \<Rightarrow> ip \<in> set (ex_IPs (up_Exclusions c)) | None \<Rightarrow> False) \<or>
        (case event_text event ''host'' of
           Some host \<Rightarrow> host \<in> set (ex_Hosts (up_Exclusions c)) | None \<Rightarrow> False))"

definition is_auto_approve :: "upload_config \<Rightarrow> (string \<times> json) list \<Rightarrow> bool" where
  "is_auto_approve c event =
     (case event_text event ''path'' of
        Some path \<Rightarrow> list_ex (str_contains path) (up_AutoApprovePaths c) | None \<Rightarrow> False)"

text \<open>\<open>collect\<close>: without settings, without a masker and without a store as the code has it.\<close>

definition collect_event ::
  "(json \<Rightarrow> string) \<Rightarrow> unmarshal \<Rightarrow> bool \<Rightarrow> int \<Rightarrow> upload_config option \<Rightarrow> mask_engine option \<Rightarrow> string
   \<Rightarrow> (string \<times> json) list \<Rightarrow> upload_store option \<Rightarrow> bool \<times> upload_store option" where
  "collect_event marshal unmarshal ok stamp cfg masker eventType event store =
     (case cfg of
        None \<Rightarrow> (True, store)
      | Some c \<Rightarrow>
          if \<not> up_Enabled c \<or> eventType \<notin> set (up_DataTypes c) \<or> is_excluded c event then (True, store)
          else
            let original = marshal (JObject event);
                (masked, risks) = (case masker of None \<Rightarrow> (original, 0) | Some m \<Rightarrow> mask_json marshal unmarshal m original);
                status = (if is_auto_approve c event \<and> \<not> up_AuditMode c then ''approved'' else ''pending'')
            in case store of
                 None \<Rightarrow> (True, None)
               | Some s \<Rightarrow> map_prod id Some
                   (enqueue_upload ok stamp \<lparr>uq_id = 0, uq_data_type = eventType, uq_payload = masked, uq_original = original,
                      uq_status = status, uq_risk = int risks, uq_note = None, uq_approved_by = None, uq_created_at = stamp,
                      uq_updated_at = stamp\<rparr> s))"

section \<open>Uploading\<close>

record upload_resp =
  ur_Accepted :: int
  ur_Rejected :: int
  ur_CreditsAwarded :: int

record upload_env =
  ue_send :: "string \<Rightarrow> json list \<Rightarrow> string + upload_resp"
  ue_unmarshal :: "string \<Rightarrow> json option"
  ue_query :: "string \<Rightarrow> bool"
  ue_update :: "int \<Rightarrow> bool"
  ue_log :: bool
  ue_stamp :: int

definition record_upload_log ::
  "upload_env \<Rightarrow> string \<Rightarrow> nat \<Rightarrow> int \<Rightarrow> int \<Rightarrow> int \<Rightarrow> bool \<Rightarrow> string \<Rightarrow> upload_store \<Rightarrow> upload_store" where
  "record_upload_log e dataType items accepted rejected credits success err =
     add_upload_log (ue_log e) \<lparr>ul_data_type = dataType, ul_items = int items, ul_accepted = accepted, ul_rejected = rejected,
       ul_credits = credits, ul_success = success, ul_error = err, ul_uploaded_at = ue_stamp e\<rparr>"

definition upload_batch :: "upload_env \<Rightarrow> int \<Rightarrow> string \<Rightarrow> upload_store \<Rightarrow> upload_store" where
  "upload_batch e batchSize dataType s =
     (case get_pending_uploads (ue_query e dataType) dataType batchSize s of
        Inl err \<Rightarrow> s
      | Inr items \<Rightarrow>
          if items = [] then s
          else case ue_send e dataType (List.map_filter (\<lambda>v. ue_unmarshal e (uq_payload v)) items) of
                 Inl err \<Rightarrow> record_upload_log e dataType (length items) 0 0 0 False err s
               | Inr resp \<Rightarrow>
                   let s = fold (\<lambda>v s. snd (update_upload_status (ue_update e (uq_id v)) (ue_stamp e) (uq_id v) ''sent'' '''' s)) items s;
                       s = record_upload_log e dataType (length items) (ur_Accepted resp) (ur_Rejected resp) (ur_CreditsAwarded resp) True '''' s
                   in if ur_CreditsAwarded resp > 0
                      then add_credits (ue_log e) \<lparr>cr_amount = ur_CreditsAwarded resp, cr_type = ''earned'', cr_reference = dataType,
                        cr_description = ((utf8 [228, 184, 138, 228, 188, 160]) @ '' '') @ format_int (int (length items)) @ ('' '' @ (utf8 [230, 157, 161]) @ '' '') @ dataType @ ('' '' @ (utf8 [228, 186, 139, 228, 187, 182]))\<rparr> s
                      else s)"

definition process_queue :: "upload_env \<Rightarrow> upload_config \<Rightarrow> license_state option \<Rightarrow> upload_store \<Rightarrow> upload_store" where
  "process_queue e c license s =
     (if \<not> up_Enabled c \<or> (case license of Some l \<Rightarrow> li_Status l \<noteq> ''active'' \<and> li_Status l \<noteq> ''grace'' | None \<Rightarrow> False) then s
      else fold (upload_batch e (up_BatchSize c)) (up_DataTypes c) s)"

definition approve_item :: "bool \<Rightarrow> int \<Rightarrow> string \<Rightarrow> int \<Rightarrow> upload_store \<Rightarrow> bool \<times> upload_store" where
  "approve_item ok stamp note i = update_upload_status ok stamp i ''approved'' note"

definition reject_item :: "bool \<Rightarrow> int \<Rightarrow> string \<Rightarrow> int \<Rightarrow> upload_store \<Rightarrow> bool \<times> upload_store" where
  "reject_item ok stamp note i = update_upload_status ok stamp i ''rejected'' note"

text \<open>The first failure ends a batch.\<close>

fun batch_update :: "(int \<Rightarrow> upload_store \<Rightarrow> bool \<times> upload_store) \<Rightarrow> int list \<Rightarrow> upload_store \<Rightarrow> bool \<times> upload_store" where
  "batch_update step [] s = (True, s)"
| "batch_update step (i # is) s = (case step i s of (True, s) \<Rightarrow> batch_update step is s | (False, s) \<Rightarrow> (False, s))"

section \<open>Requests\<close>

record rate_tracker =
  rt_maxCount :: int
  rt_window :: duration
  rt_count :: int
  rt_start :: instant

definition new_rate_tracker :: "int \<Rightarrow> duration \<Rightarrow> instant \<Rightarrow> rate_tracker" where
  "new_rate_tracker maxCount window now = \<lparr>rt_maxCount = maxCount, rt_window = window, rt_count = 0, rt_start = now\<rparr>"

definition tracker_allow :: "instant \<Rightarrow> rate_tracker \<Rightarrow> bool \<times> rate_tracker" where
  "tracker_allow now r =
     (let r = (if time_sub now (rt_start r) \<ge> rt_window r then r\<lparr>rt_count := 0, rt_start := now\<rparr> else r)
      in if rt_count r \<ge> rt_maxCount r then (False, r) else (True, r\<lparr>rt_count := rt_count r + 1\<rparr>))"

definition tracker_reset :: "instant \<Rightarrow> rate_tracker \<Rightarrow> rate_tracker" where
  "tracker_reset now r = r\<lparr>rt_count := 0, rt_start := now\<rparr>"

record retry_policy =
  ry_MaxRetries :: nat
  ry_BaseDelay :: duration
  ry_MaxDelay :: duration

definition default_retry_policy :: retry_policy where
  "default_retry_policy = \<lparr>ry_MaxRetries = 3, ry_BaseDelay = nano_second, ry_MaxDelay = 30 * nano_second\<rparr>"

definition backoff :: "retry_policy \<Rightarrow> nat \<Rightarrow> duration" where
  "backoff p attempt = min (3 ^ attempt * ry_BaseDelay p) (ry_MaxDelay p)"

text \<open>
  What the transport answers to one attempt: an error, or a status with the \<open>Retry-After\<close> header as
  \<open>time.ParseDuration\<close> reads it with \<open>s\<close> appended.
\<close>

datatype transport_answer = TransportError string | TransportStatus int "duration option"

datatype request_error = NotReached string | Overloaded | ServerError

text \<open>
  The attempts from number \<open>n\<close> on, \<open>left\<close> after it; \<open>slept\<close> is the time slept so far. The answer, the number of
  requests sent and the time slept.
\<close>

fun attempts ::
  "(nat \<Rightarrow> transport_answer) \<Rightarrow> retry_policy \<Rightarrow> nat \<Rightarrow> nat \<Rightarrow> duration \<Rightarrow> (request_error + int) \<times> nat \<times> duration" where
  "attempts answer p n left slept =
     (let slept = (if n > 0 then slept + backoff p (n - 1) else slept);
          again = (\<lambda>err slept. case left of 0 \<Rightarrow> (Inl err, n + 1, slept) | Suc k \<Rightarrow> attempts answer p (n + 1) k slept)
      in case answer n of
           TransportError err \<Rightarrow> again (NotReached err) slept
         | TransportStatus status retryAfter \<Rightarrow>
             if status = 429 then
               again Overloaded (case retryAfter of
                 Some d \<Rightarrow> if left > 0 then slept + max 0 (d + nano_second) else slept
               | None \<Rightarrow> slept)
             else if status \<ge> 500 then (if n \<ge> 2 then (Inl ServerError, n + 1, slept) else again ServerError slept)
             else (Inr status, n + 1, slept))"

definition execute_request :: "(nat \<Rightarrow> transport_answer) \<Rightarrow> retry_policy \<Rightarrow> (request_error + int) \<times> nat \<times> duration" where
  "execute_request answer p = attempts answer p 0 (ry_MaxRetries p) 0"

record intel_client =
  ic_rateLimiter :: rate_tracker
  ic_connected :: bool

definition new_intel_client :: "instant \<Rightarrow> intel_client" where
  "new_intel_client now = \<lparr>ic_rateLimiter = new_rate_tracker 60 (60 * nano_second) now, ic_connected = False\<rparr>"

datatype client_error = RateLimited | Unauthorized | RequestFailed request_error

definition do_request :: "(nat \<Rightarrow> transport_answer) \<Rightarrow> instant \<Rightarrow> intel_client \<Rightarrow> (client_error + int) \<times> intel_client" where
  "do_request answer now c =
     (let (ok, lim) = tracker_allow now (ic_rateLimiter c); c = c\<lparr>ic_rateLimiter := lim\<rparr>
      in if \<not> ok then (Inl RateLimited, c)
         else case fst (execute_request answer default_retry_policy) of
                Inl err \<Rightarrow> (Inl (RequestFailed err), c\<lparr>ic_connected := False\<rparr>)
              | Inr status \<Rightarrow> if status = 401 then (Inl Unauthorized, c) else (Inr status, c\<lparr>ic_connected := True\<rparr>))"

end
