(* ===== verification/IntelUploadProps.thy ===== *)
theory IntelUploadProps
  imports IntelUpload
begin

text \<open>
  Properties of the upload to the intelligence centre and of its requests (\<open>IntelUpload\<close>).
\<close>

lemma mask_patterns_compile:
  "list_all (\<lambda>p. parse_regex (rx p) \<noteq> None)
     [''1[3-9]~d{9}'', ''[1-9]~d{5}(18|19|20)~d{2}(0[1-9]|1[0-2])(0[1-9]|[12]~d|3[01])~d{3}[~dXx]'', ''~d{16,19}'',
      ''[a-zA-Z0-9._%+~-]+@[a-zA-Z0-9.~-]+~.[a-zA-Z]{2,}'',
      ''(?i)(password|passwd|pwd|secret|token|apikey|api_key)~s*[:=]~s*~S+'',
      ''eyJ[a-zA-Z0-9_~-]+~.eyJ[a-zA-Z0-9_~-]+~.[a-zA-Z0-9_~-]*'', ''-----BEGIN~s+(RSA~s+)?PRIVATE~s+KEY-----'']"
  by code_simp

section \<open>The queue\<close>

text \<open>The states the operations on the queue reach from an empty table.\<close>

inductive queue_reachable :: "upload_store \<Rightarrow> bool" where
  start: "us_queue s = [] \<Longrightarrow> queue_reachable s"
| collect: "queue_reachable s \<Longrightarrow> collect_event m u ok t cfg masker ty event (Some s) = (r, Some s') \<Longrightarrow> queue_reachable s'"
| update: "queue_reachable s \<Longrightarrow> queue_reachable (snd (update_upload_status ok t i status note s))"
| clean: "queue_reachable s \<Longrightarrow> queue_reachable (delete_processed_uploads ok before s)"
| other: "queue_reachable s \<Longrightarrow> us_queue s' = us_queue s \<Longrightarrow> queue_reachable s'"

lemma collect_queue:
  assumes "collect_event m u ok t cfg masker ty event (Some s) = (r, Some s')"
  shows "us_queue s' = us_queue s \<or> (\<exists>v. us_queue s' = us_queue s @ [v] \<and> uq_approved_by v = None)"
  using assms by (auto simp: collect_event_def enqueue_upload_def Let_def split: option.splits if_splits prod.splits)

lemma never_approved_by: "queue_reachable s \<Longrightarrow> \<forall>v \<in> set (us_queue s). uq_approved_by v = None"
proof (induction rule: queue_reachable.induct)
  case (collect s m u ok t cfg masker ty event r s')
  from collect_queue[OF collect(2)] collect(3) show ?case by auto
qed (auto simp: update_upload_status_def delete_processed_uploads_def)

lemma no_pending_scans:
  assumes "queue_reachable s"
  shows "get_pending_uploads ok dt n s \<in> {Inr [], Inl ''query failed'', Inl ''converting NULL to string is unsupported''}"
proof (cases "pending_rows dt n s")
  case (Cons v vs)
  then have "v \<in> set (pending_rows dt n s)" by simp
  then have "v \<in> set (us_queue s)" by (auto simp: pending_rows_def Let_def split: if_splits dest: in_set_takeD)
  then have "\<not> scans v" using never_approved_by[OF assms] by (auto simp: scans_def)
  then show ?thesis using Cons by (simp add: get_pending_uploads_def)
qed (simp add: get_pending_uploads_def)

text \<open>
  Nothing is ever uploaded. The column \<open>approved_by\<close> is set by no statement, and reading the pending items scans
  it into a string: whatever was collected, approved, rejected or cleaned, a run of the queue sends no request and
  changes nothing, for every type, licence and service.
\<close>

theorem nothing_uploaded:
  assumes "queue_reachable s"
  shows "process_queue e c license s = s"
proof -
  have "upload_batch e n dt s = s" for n dt
    using no_pending_scans[OF assms, of "ue_query e dt" dt n] by (auto simp: upload_batch_def)
  then have "fold (upload_batch e n) dts s = s" for n dts by (induction dts) simp_all
  then show ?thesis by (simp add: process_queue_def)
qed

definition sample_store0 :: upload_store where
  "sample_store0 = \<lparr>us_queue = [], us_nextItem = 1, us_log = [], us_credits = [], us_falsePositives = [],
     us_nextFalsePositive = 1, us_exclusions = [], us_nextExclusion = 1\<rparr>"

definition sample_store1 :: upload_store where
  "sample_store1 = the (snd (collect_event (\<lambda>_. ''x'') (\<lambda>_. None) True 0 (Some (in_Upload default_intel_config)) None
     ''intercept_events'' [] (Some sample_store0)))"

definition generous_env :: upload_env where
  "generous_env = \<lparr>ue_send = \<lambda>_ _. Inr \<lparr>ur_Accepted = 1, ur_Rejected = 0, ur_CreditsAwarded = 5\<rparr>, ue_unmarshal = \<lambda>_. Some JNull,
     ue_query = \<lambda>_. True, ue_update = \<lambda>_. True, ue_log = True, ue_stamp = 9\<rparr>"

theorem nothing_uploaded_witness:
  "length (us_queue sample_store1) = 1 \<and>
   process_queue generous_env (in_Upload default_intel_config) None (snd (approve_item True 5 ''fine'' 1 sample_store1)) =
     snd (approve_item True 5 ''fine'' 1 sample_store1)"
proof -
  have run: "collect_event (\<lambda>_. ''x'') (\<lambda>_. None) True 0 (Some (in_Upload default_intel_config)) None
      ''intercept_events'' [] (Some sample_store0) = (True, Some sample_store1)" "length (us_queue sample_store1) = 1"
    by (simp_all add: sample_store1_def collect_event_def default_intel_config_def is_excluded_def enqueue_upload_def
        event_text_def sample_store0_def Let_def)
  have "queue_reachable sample_store0" by (rule start) (simp add: sample_store0_def)
  from update[OF collect[OF this run(1)]] nothing_uploaded run(2) show ?thesis
    unfolding approve_item_def by blast
qed

section \<open>Requests\<close>

definition final_answer :: "transport_answer \<Rightarrow> bool" where
  "final_answer a \<longleftrightarrow> (case a of TransportError _ \<Rightarrow> False | TransportStatus status _ \<Rightarrow> status \<noteq> 429 \<and> status < 500)"

declare attempts.simps [simp del]

lemma attempts_final:
  assumes "final_answer (answer n)"
  shows "\<exists>status ra s. answer n = TransportStatus status ra \<and> attempts answer p n left slept = (Inr status, n + 1, s)"
  using assms by (cases "answer n") (auto simp: final_answer_def attempts.simps[of answer p n] Let_def)

lemma attempts_not_final:
  assumes "\<not> final_answer (answer n)"
  shows "(\<exists>err s. attempts answer p n left slept = (Inl err, n + 1, s)) \<or>
    (\<exists>j s. left = Suc j \<and> attempts answer p n left slept = attempts answer p (n + 1) j s)"
  using assms by (cases "answer n"; cases left)
    (auto simp: final_answer_def attempts.simps[of answer p n] Let_def)

lemma attempts_spec:
  "let (res, sent, s) = attempts answer p n left slept in
     n < sent \<and> sent \<le> n + left + 1 \<and> (\<forall>i. n \<le> i \<and> i < sent - 1 \<longrightarrow> \<not> final_answer (answer i)) \<and>
     (\<forall>status. res = Inr status \<longrightarrow> (\<exists>ra. answer (sent - 1) = TransportStatus status ra)) \<and>
     (final_answer (answer (sent - 1)) \<longleftrightarrow> (\<exists>status. res = Inr status))"
proof (induction left arbitrary: n slept)
  case 0
  show ?case
  proof (cases "final_answer (answer n)")
    case True
    with attempts_final[of answer n p 0 slept, OF this] show ?thesis by auto
  next
    case False
    with attempts_not_final[of answer n p 0 slept, OF this] show ?thesis by auto
  qed
next
  case (Suc left)
  show ?case
  proof (cases "final_answer (answer n)")
    case True
    with attempts_final[of answer n p "Suc left" slept, OF this] show ?thesis by auto
  next
    case False
    from attempts_not_final[of answer n p "Suc left" slept, OF this] show ?thesis
    proof
      assume "\<exists>err s. attempts answer p n (Suc left) slept = (Inl err, n + 1, s)"
      then show ?thesis using False by auto
    next
      assume "\<exists>j s. Suc left = Suc j \<and> attempts answer p n (Suc left) slept = attempts answer p (n + 1) j s"
      then obtain s where s: "attempts answer p n (Suc left) slept = attempts answer p (n + 1) left s" by blast
      have split: "\<not> final_answer (answer i)" if "\<forall>i. Suc n \<le> i \<and> i < k \<longrightarrow> \<not> final_answer (answer i)" "n \<le> i" "i < k" for i k
        using that False by (cases "i = n") auto
      obtain res sent s' where r: "attempts answer p (n + 1) left s = (res, sent, s')" by (metis prod_cases3)
      show ?thesis using Suc[of "n + 1" s] split[of "sent - 1"] unfolding s r by auto
    qed
  qed
qed

text \<open>
  A request is sent at least once and at most one time more than there are retries, whatever the transport
  answers. It is repeated only after a failure, an overload (429) or an error of the server; the first other answer
  ends the attempts and is the result, and without one the result is an error.
\<close>

theorem request_attempts:
  "let (res, sent, s) = execute_request answer p in
     1 \<le> sent \<and> sent \<le> ry_MaxRetries p + 1 \<and> (\<forall>i < sent - 1. \<not> final_answer (answer i)) \<and>
     (\<forall>status. res = Inr status \<longrightarrow> (\<exists>ra. answer (sent - 1) = TransportStatus status ra)) \<and>
     (final_answer (answer (sent - 1)) \<longleftrightarrow> (\<exists>status. res = Inr status))"
  using attempts_spec[of answer p 0 "ry_MaxRetries p" 0] by (auto simp: execute_request_def split_beta)

theorem request_attempts_witness:
  "fst (snd (execute_request (\<lambda>n. if n < 2 then TransportStatus 503 None else TransportStatus 200 None) default_retry_policy)) \<le> 4"
  using request_attempts[of "\<lambda>n. if n < 2 then TransportStatus 503 None else TransportStatus 200 None" default_retry_policy]
  by (auto simp: split_beta default_retry_policy_def)

end
