(* ===== verification/Notify.thy ===== *)
theory Notify
  imports ApiSchema ProxyUtil NetAddr
begin

text \<open>
  Notifications (\<open>internal/infra/notify/notify.go\<close>): the channels and their settings, the alert rules, what an
  attack triggers, and the messages that leave.

  \<^item> Sending is a function from the settings to what is posted or mailed; whether the other end takes it
    changes nothing here. An alert is sent by a goroutine of its own, with the settings of that moment.
  \<^item> Parameters: \<open>crypto/aes\<close> with \<open>cipher\<close> (\<open>seal\<close>, \<open>unseal\<close>), \<open>crypto/sha256\<close>, \<open>json.Marshal\<close>, the host of a URL
    (\<open>net/url\<close>), the text of an instant, and the outcomes of statements and of the steps of SMTP.
  \<^item> Not modelled: the table DDL with its migrations, the log lines, the ticker of the cleaner.

  Proved: how often a rule can alert; which channels an alert uses; what becomes of the password of
  the mail account.
\<close>

section \<open>Settings and rules\<close>

record alert_rule =
  al_ID :: string
  al_Name :: string
  al_Enabled :: bool
  al_Level :: string
  al_MatchType :: string
  al_MatchValue :: string
  al_Threshold :: int
  al_WindowSecs :: int
  al_NotifyType :: string
  al_CooldownSec :: int

record notify_config =
  nc_DingTalkWebhook :: string
  nc_DingTalkEnabled :: bool
  nc_WeComWebhook :: string
  nc_WeComEnabled :: bool
  nc_SlackWebhook :: string
  nc_SlackEnabled :: bool
  nc_EmailSMTPHost :: string
  nc_EmailSMTPPort :: int
  nc_EmailFrom :: string
  nc_EmailTo :: string
  nc_EmailPassword :: string
  nc_EmailEnabled :: bool
  nc_WebhookURL :: string
  nc_WebhookSecret :: string
  nc_WebhookEnabled :: bool

definition zero_notify_config :: notify_config where
  "zero_notify_config =
     \<lparr>nc_DingTalkWebhook = '''', nc_DingTalkEnabled = False, nc_WeComWebhook = '''', nc_WeComEnabled = False,
      nc_SlackWebhook = '''', nc_SlackEnabled = False, nc_EmailSMTPHost = '''', nc_EmailSMTPPort = 0, nc_EmailFrom = '''',
      nc_EmailTo = '''', nc_EmailPassword = '''', nc_EmailEnabled = False, nc_WebhookURL = '''', nc_WebhookSecret = '''',
      nc_WebhookEnabled = False\<rparr>"

text \<open>
  The one row of \<open>notify_config\<close> has the settings with the password as it is stored; the rules are rows of
  \<open>alert_rules\<close>, a rule being read as enabled when its column is 1, which is what the code writes.
\<close>

record notify_db =
  nd_config :: "notify_config option"
  nd_rules :: "alert_rule list"

record notify_engine =
  ne_db :: "notify_db option"
  ne_rules :: "alert_rule list"
  ne_config :: notify_config
  ne_cooldowns :: "string \<rightharpoonup> instant"
  ne_counters :: "string \<rightharpoonup> instant list"

section \<open>The password\<close>

definition notify_key :: "string \<Rightarrow> string \<Rightarrow> string" where
  "notify_key env_key random_key = (if length env_key \<in> {16, 24, 32} then env_key else random_key)"

definition hex_text :: "string \<Rightarrow> string" where
  "hex_text s = concat (map (\<lambda>c. [hex_table ! (of_char c div 16), hex_table ! (of_char c mod 16)]) s)"

definition hex_digit_value :: "char \<Rightarrow> nat option" where
  "hex_digit_value c =
     (if CHR ''0'' \<le> c \<and> c \<le> CHR ''9'' then Some (of_char c - 48)
      else if CHR ''a'' \<le> c \<and> c \<le> CHR ''f'' then Some (of_char c - 87)
      else if CHR ''A'' \<le> c \<and> c \<le> CHR ''F'' then Some (of_char c - 55)
      else None)"

fun hex_decode :: "string \<Rightarrow> string option" where
  "hex_decode [] = Some []"
| "hex_decode [c] = None"
| "hex_decode (a # b # s) =
     (case (hex_digit_value a, hex_digit_value b, hex_decode s) of
        (Some x, Some y, Some r) \<Rightarrow> Some (char_of (16 * x + y) # r)
      | _ \<Rightarrow> None)"

text \<open>\<open>nonce\<close>: 12 random bytes, or none when the source of random numbers fails.\<close>

record aead =
  ae_seal :: "string \<Rightarrow> string \<Rightarrow> string \<Rightarrow> string"
  ae_open :: "string \<Rightarrow> string \<Rightarrow> string \<Rightarrow> string option"

definition encrypt_password :: "aead \<Rightarrow> string \<Rightarrow> string option \<Rightarrow> string \<Rightarrow> string option" where
  "encrypt_password c key nonce plaintext =
     (if plaintext = '''' then Some ''''
      else map_option (\<lambda>n. hex_text (n @ ae_seal c key n plaintext)) nonce)"

definition decrypt_password :: "aead \<Rightarrow> string \<Rightarrow> string \<Rightarrow> string option" where
  "decrypt_password c key ciphertext =
     (if ciphertext = '''' then Some ''''
      else case hex_decode ciphertext of
             None \<Rightarrow> None
           | Some data \<Rightarrow> if length data < 12 then None else ae_open c key (take 12 data) (drop 12 data))"

section \<open>Loading and saving\<close>

definition default_notify_row :: notify_config where
  "default_notify_row = zero_notify_config\<lparr>nc_EmailSMTPPort := 587\<rparr>"

text \<open>
  \<open>read\<close>: the query works; \<open>write\<close>: the statement that follows does. A query that fails or finds no row tries to insert
  the row and leaves the settings empty. A password that does not open is taken for plain text.
\<close>

definition load_config :: "aead \<Rightarrow> string \<Rightarrow> string option \<Rightarrow> bool \<Rightarrow> bool \<Rightarrow> notify_engine \<Rightarrow> notify_engine" where
  "load_config c key nonce read write e =
     (case ne_db e of
        None \<Rightarrow> e
      | Some d \<Rightarrow>
          (case (read, nd_config d) of
             (True, Some row) \<Rightarrow>
               (case decrypt_password c key (nc_EmailPassword row) of
                  Some p \<Rightarrow> e\<lparr>ne_config := row\<lparr>nc_EmailPassword := p\<rparr>\<rparr>
                | None \<Rightarrow>
                    (case encrypt_password c key nonce (nc_EmailPassword row) of
                       Some p \<Rightarrow> if write then e\<lparr>ne_config := row, ne_db := Some (d\<lparr>nd_config := Some (row\<lparr>nc_EmailPassword := p\<rparr>)\<rparr>)\<rparr>
                                 else e\<lparr>ne_config := row\<rparr>
                     | None \<Rightarrow> e\<lparr>ne_config := row\<rparr>))
           | (_, None) \<Rightarrow> if write then e\<lparr>ne_db := Some (d\<lparr>nd_config := Some default_notify_row\<rparr>)\<rparr> else e
           | (False, Some _) \<Rightarrow> e))"

definition load_alert_rules :: "bool \<Rightarrow> notify_engine \<Rightarrow> notify_engine" where
  "load_alert_rules read e =
     (case ne_db e of Some d \<Rightarrow> if read then e\<lparr>ne_rules := nd_rules d\<rparr> else e | None \<Rightarrow> e)"

definition new_notify_engine ::
  "aead \<Rightarrow> string \<Rightarrow> string option \<Rightarrow> bool \<Rightarrow> bool \<Rightarrow> bool \<Rightarrow> notify_db option \<Rightarrow> notify_engine" where
  "new_notify_engine c key nonce read write read_rules db =
     load_alert_rules read_rules (load_config c key nonce read write
       \<lparr>ne_db = db, ne_rules = [], ne_config = zero_notify_config, ne_cooldowns = Map.empty, ne_counters = Map.empty\<rparr>)"

definition save_notify_config ::
  "aead \<Rightarrow> string \<Rightarrow> string option \<Rightarrow> string option \<Rightarrow> notify_config \<Rightarrow> notify_engine \<Rightarrow> (string + unit) \<times> notify_engine" where
  "save_notify_config c key nonce fail cfg e =
     (case ne_db e of
        None \<Rightarrow> (Inl ''database not initialized'', e)
      | Some d \<Rightarrow>
          let p = (case encrypt_password c key nonce (nc_EmailPassword cfg) of Some p \<Rightarrow> p | None \<Rightarrow> nc_EmailPassword cfg)
          in case fail of
               Some err \<Rightarrow> (Inl err, e)
             | None \<Rightarrow> (Inr (), e\<lparr>ne_db := Some (d\<lparr>nd_config := Some (cfg\<lparr>nc_EmailPassword := p\<rparr>)\<rparr>), ne_config := cfg\<rparr>))"

text \<open>\<open>INSERT OR REPLACE\<close> deletes the row with the key and appends the new one.\<close>

definition save_alert_rule :: "string option \<Rightarrow> bool \<Rightarrow> alert_rule \<Rightarrow> notify_engine \<Rightarrow> (string + unit) \<times> notify_engine" where
  "save_alert_rule fail read rule e =
     (case ne_db e of
        None \<Rightarrow> (Inl ''database not initialized'', e)
      | Some d \<Rightarrow>
          (case fail of
             Some err \<Rightarrow> (Inl err, e)
           | None \<Rightarrow> (Inr (), load_alert_rules read (e\<lparr>ne_db := Some (d\<lparr>nd_rules :=
                        filter (\<lambda>r. al_ID r \<noteq> al_ID rule) (nd_rules d) @ [rule]\<rparr>)\<rparr>))))"

definition delete_alert_rule :: "string option \<Rightarrow> bool \<Rightarrow> string \<Rightarrow> notify_engine \<Rightarrow> (string + unit) \<times> notify_engine" where
  "delete_alert_rule fail read i e =
     (case ne_db e of
        None \<Rightarrow> (Inl ''database not initialized'', e)
      | Some d \<Rightarrow>
          (case fail of
             Some err \<Rightarrow> (Inl err, e)
           | None \<Rightarrow> (Inr (), load_alert_rules read (e\<lparr>ne_db := Some (d\<lparr>nd_rules := filter (\<lambda>r. al_ID r \<noteq> i) (nd_rules d)\<rparr>)\<rparr>))))"

section \<open>Messages\<close>

record notify_env =
  nv_marshal :: "json \<Rightarrow> string"
  nv_hostname :: "string \<Rightarrow> string option"
  nv_sha256 :: "string \<Rightarrow> string"
  nv_format :: "instant \<Rightarrow> string"
  nv_valid_url :: "string \<Rightarrow> bool"

text \<open>The steps of a mail: whether the server can be reached, with TLS or without, and what it accepts.\<close>

record smtp_env =
  sv_dial :: bool
  sv_tls :: bool
  sv_greeting :: bool
  sv_starttls :: bool
  sv_auth :: bool
  sv_mail :: bool
  sv_rcpt :: "string \<Rightarrow> bool"
  sv_data :: bool
  sv_write :: bool

datatype notice =
    Post string "(string \<times> string) list" string
  | Mail string string "(string \<times> string) option" string "string list" string
  | Logged string

abbreviation newline :: string where
  "newline \<equiv> [CHR 0x0A]"

definition url_host_private :: "notify_env \<Rightarrow> string \<Rightarrow> bool" where
  "url_host_private v url = (case nv_hostname v url of Some h \<Rightarrow> h \<noteq> '''' \<and> is_private_ip h | None \<Rightarrow> False)"

definition alert_heading :: string where
  "alert_heading = ''### GoWAF '' @ (utf8 [229, 174, 137, 229, 133, 168, 229, 145, 138, 232, 173, 166]) @ newline"

abbreviation level_label :: string where
  "level_label \<equiv> (utf8 [231, 186, 167, 229, 136, 171])"

text \<open>The channels with a webhook differ in the text only.\<close>

definition post_message :: "notify_env \<Rightarrow> string \<Rightarrow> json \<Rightarrow> notice list" where
  "post_message v url payload =
     (if url = '''' \<or> url_host_private v url then []
      else [Post url [(''Content-Type'', ''application/json'')] (nv_marshal v payload)])"

definition send_dingtalk :: "notify_env \<Rightarrow> notify_config \<Rightarrow> string \<Rightarrow> string \<Rightarrow> string \<Rightarrow> notice list" where
  "send_dingtalk v cfg level title message =
     post_message v (nc_DingTalkWebhook cfg)
       (JObject [(''markdown'', JObject [(''text'', JString (alert_heading @ ''> '' @ level_label @ '': **'' @ to_upper level @ ''**'' @ newline @ ''> '' @ message)),
                                     (''title'', JString title)]),
                 (''msgtype'', JString ''markdown'')])"

definition wecom_colour :: "string \<Rightarrow> string" where
  "wecom_colour level = (if level = ''warning'' then ''warning'' else if level = ''critical'' then ''red'' else ''info'')"

definition send_wecom :: "notify_env \<Rightarrow> notify_config \<Rightarrow> string \<Rightarrow> string \<Rightarrow> string \<Rightarrow> notice list" where
  "send_wecom v cfg level title message =
     post_message v (nc_WeComWebhook cfg)
       (JObject [(''markdown'', JObject [(''content'', JString (alert_heading @ ''> '' @ level_label @ '': <font color='' @ [CHR 0x22] @
                     wecom_colour level @ [CHR 0x22] @ ''>'' @ to_upper level @ ''</font>'' @ newline @ ''> '' @ message))]),
                 (''msgtype'', JString ''markdown'')])"

definition slack_emoji :: "string \<Rightarrow> string" where
  "slack_emoji level =
     (if level = ''critical'' then '':red_circle:'' else if level = ''info'' then '':information_source:'' else '':warning:'')"

definition send_slack :: "notify_env \<Rightarrow> notify_config \<Rightarrow> string \<Rightarrow> string \<Rightarrow> string \<Rightarrow> notice list" where
  "send_slack v cfg level title message =
     post_message v (nc_SlackWebhook cfg)
       (JObject [(''text'', JString (slack_emoji level @ '' *'' @ title @ ''*'' @ newline @ ''*'' @ level_label @ '':* '' @ to_upper level @ newline @ message))])"

definition webhook_headers :: "notify_env \<Rightarrow> string \<Rightarrow> string \<Rightarrow> (string \<times> string) list" where
  "webhook_headers v secret data =
     (''Content-Type'', ''application/json'') #
     (if secret \<noteq> '''' then [(''X-Webhook-Signature'', hex_text (nv_sha256 v (data @ secret)))] else [])"

definition send_webhook :: "notify_env \<Rightarrow> instant \<Rightarrow> notify_config \<Rightarrow> string \<Rightarrow> string \<Rightarrow> string \<Rightarrow> notice list" where
  "send_webhook v now cfg level title message =
     (let url = nc_WebhookURL cfg;
          data = nv_marshal v (JObject [(''level'', JString (to_upper level)), (''message'', JString message), (''source'', JString ''GoWAF''),
            (''time'', JString (nv_format v now)), (''title'', JString title)])
      in if url = '''' \<or> url_host_private v url \<or> \<not> nv_valid_url v url then []
         else [Post url (webhook_headers v (nc_WebhookSecret cfg) data) data])"

text \<open>\<open>SendWebhook\<close> of the package: an error instead of silence.\<close>

definition send_webhook_to :: "notify_env \<Rightarrow> instant \<Rightarrow> bool \<Rightarrow> string \<Rightarrow> string \<Rightarrow> string \<Rightarrow> (string + unit) \<times> notice list" where
  "send_webhook_to v now answered url secret message =
     (let data = nv_marshal v (JObject [(''message'', JString message), (''source'', JString ''GoWAF''), (''time'', JString (nv_format v now))])
      in if url = '''' then (Inl ''webhook URL is empty'', [])
         else if url_host_private v url then (Inl (''webhook URL'' @ (utf8 [230, 140, 135, 229, 144, 145, 231, 167, 129, 230, 156, 137] @ ''IP'' @ utf8 [229, 156, 176, 229, 157, 128, 239, 188, 140, 231, 166, 129, 230, 173, 162, 229, 143, 145, 233, 128, 129]) @ '': '' @ url), [])
         else if \<not> nv_valid_url v url then (Inl ''invalid URL'', [])
         else (if answered then Inr () else Inl ''request failed'', [Post url (webhook_headers v secret data) data]))"

definition crlf :: string where
  "crlf = [CHR 0x0D, CHR 0x0A]"

definition mail_text :: "notify_config \<Rightarrow> string \<Rightarrow> string \<Rightarrow> string \<Rightarrow> string" where
  "mail_text cfg level title message =
     ''From: '' @ nc_EmailFrom cfg @ crlf @ ''To: '' @ nc_EmailTo cfg @ crlf @ ''Subject: '' @ title @ crlf @
     ''MIME-Version: 1.0'' @ crlf @ ''Content-Type: text/plain; charset=UTF-8'' @ crlf @ crlf @ title @ newline @ newline @
     level_label @ '': '' @ to_upper level @ newline @ message"

text \<open>The address of the server as it is split and joined again; a host with colons gives none and port 25.\<close>

definition smtp_address :: "notify_config \<Rightarrow> string \<times> string" where
  "smtp_address cfg =
     (let (host, port) = (case split_host_port (nc_EmailSMTPHost cfg @ '':'' @ format_int (nc_EmailSMTPPort cfg)) of
            Some hp \<Rightarrow> hp | None \<Rightarrow> ('''', ''''))
      in (host, if port = '''' then ''25'' else port))"

definition mail_recipients :: "notify_config \<Rightarrow> string list" where
  "mail_recipients cfg = filter (\<lambda>s. s \<noteq> '''') (map trim_space (split_char (CHR '','') (nc_EmailTo cfg)))"

text \<open>Without STARTTLS on a plain connection nothing is sent; a refused recipient ends the session.\<close>

definition send_email :: "smtp_env \<Rightarrow> notify_config \<Rightarrow> string \<Rightarrow> string \<Rightarrow> string \<Rightarrow> notice list" where
  "send_email m cfg level title message =
     (let (host, port) = smtp_address cfg;
          login = (if nc_EmailFrom cfg \<noteq> '''' \<and> nc_EmailPassword cfg \<noteq> '''' then Some (nc_EmailFrom cfg, nc_EmailPassword cfg) else None)
      in if nc_EmailSMTPHost cfg = '''' \<or> nc_EmailTo cfg = '''' then []
         else if \<not> (if sv_dial m then sv_starttls m else sv_tls m \<and> sv_greeting m) then []
         else if login \<noteq> None \<and> \<not> sv_auth m then []
         else if \<not> sv_mail m \<or> \<not> list_all (sv_rcpt m) (mail_recipients cfg) \<or> \<not> sv_data m \<or> \<not> sv_write m then []
         else [Mail host port login (nc_EmailFrom cfg) (mail_recipients cfg) (mail_text cfg level title message)])"

definition send_to_channel ::
  "notify_env \<Rightarrow> smtp_env \<Rightarrow> instant \<Rightarrow> notify_config \<Rightarrow> string \<Rightarrow> string \<Rightarrow> string \<Rightarrow> string \<Rightarrow> notice list" where
  "send_to_channel v m now cfg channel level title message =
     (if channel = ''dingtalk'' then send_dingtalk v cfg level title message
      else if channel = ''wecom'' then send_wecom v cfg level title message
      else if channel = ''slack'' then send_slack v cfg level title message
      else if channel = ''email'' then send_email m cfg level title message
      else if channel = ''webhook'' then send_webhook v now cfg level title message
      else if channel = ''intel_event'' then [Logged ((utf8 [230, 131, 133, 230, 138, 165, 228, 186, 139, 228, 187, 182, 233, 128, 154, 231, 159, 165, 232, 167, 166, 229, 143, 145]) @ '': '' @ title)]
      else [])"

definition enabled_channels :: "notify_config \<Rightarrow> string list" where
  "enabled_channels cfg =
     (if nc_DingTalkEnabled cfg \<and> nc_DingTalkWebhook cfg \<noteq> '''' then [''dingtalk''] else []) @
     (if nc_WeComEnabled cfg \<and> nc_WeComWebhook cfg \<noteq> '''' then [''wecom''] else []) @
     (if nc_SlackEnabled cfg \<and> nc_SlackWebhook cfg \<noteq> '''' then [''slack''] else []) @
     (if nc_EmailEnabled cfg \<and> nc_EmailSMTPHost cfg \<noteq> '''' \<and> nc_EmailTo cfg \<noteq> '''' then [''email''] else []) @
     (if nc_WebhookEnabled cfg \<and> nc_WebhookURL cfg \<noteq> '''' then [''webhook''] else [])"

definition send_alert :: "notify_env \<Rightarrow> smtp_env \<Rightarrow> instant \<Rightarrow> string \<Rightarrow> string \<Rightarrow> string \<Rightarrow> notify_engine \<Rightarrow> notice list" where
  "send_alert v m now level title message e =
     concat (map (\<lambda>ch. send_to_channel v m now (ne_config e) ch level title message) (enabled_channels (ne_config e)))"

definition test_notify :: "notify_env \<Rightarrow> smtp_env \<Rightarrow> instant \<Rightarrow> string \<Rightarrow> notify_engine \<Rightarrow> (string + unit) \<times> notice list" where
  "test_notify v m now channel e =
     (let cfg = ne_config e;
          message = (utf8 [230, 151, 182, 233, 151, 180]) @ '': '' @ nv_format v now @ newline @ ''> '' @ (utf8 [231, 177, 187, 229, 158, 139]) @ '': '' @ (utf8 [230, 181, 139, 232, 175, 149, 233, 128, 154, 231, 159, 165]) @ newline @ ''> '' @ (utf8 [231, 138, 182, 230, 128, 129]) @ '': '' @ (utf8 [233, 128, 154, 231, 159, 165, 230, 184, 160, 233, 129, 147, 233, 170, 140, 232, 175, 129, 233, 128, 154, 232, 191, 135]);
          missing = (if channel = ''dingtalk'' then (if nc_DingTalkWebhook cfg = '''' then Some ''DingTalk webhook URL not configured'' else None)
                     else if channel = ''wecom'' then (if nc_WeComWebhook cfg = '''' then Some ''WeCom webhook URL not configured'' else None)
                     else if channel = ''slack'' then (if nc_SlackWebhook cfg = '''' then Some ''slack webhook URL not configured'' else None)
                     else if channel = ''email'' then (if nc_EmailSMTPHost cfg = '''' then Some ''email SMTP host not configured'' else None)
                     else if channel = ''webhook'' then (if nc_WebhookURL cfg = '''' then Some ''webhook URL not configured'' else None)
                     else Some (''unknown notify type: '' @ channel))
      in case missing of
           Some err \<Rightarrow> (Inl err, [])
         | None \<Rightarrow> (Inr (), send_to_channel v m now cfg channel ''info'' ''GoWAF Test Notification'' message))"

section \<open>Alerts\<close>

definition rule_matches :: "string \<Rightarrow> string \<Rightarrow> string \<Rightarrow> alert_rule \<Rightarrow> bool" where
  "rule_matches attackType ruleID clientIP rule =
     str_contains (if al_MatchType rule = ''rule_id'' then ruleID else if al_MatchType rule = ''ip'' then clientIP else attackType)
       (al_MatchValue rule)"

record alert_event =
  ev_attackType :: string
  ev_ruleID :: string
  ev_clientIP :: string
  ev_now :: instant

record alert =
  at_rule :: string
  at_channel :: string
  at_level :: string
  at_title :: string
  at_message :: string

definition alert_of :: "(instant \<Rightarrow> string) \<Rightarrow> alert_event \<Rightarrow> alert_rule \<Rightarrow> alert" where
  "alert_of format ev rule =
     \<lparr>at_rule = al_ID rule, at_channel = al_NotifyType rule, at_level = al_Level rule,
      at_title = ''GoWAF Alert: '' @ al_MatchType rule @ '' '' @ al_MatchValue rule,
      at_message = (utf8 [230, 151, 182, 233, 151, 180]) @ '': '' @ format (ev_now ev) @ newline @ ''> '' @ (utf8 [232, 167, 166, 229, 143, 145, 232, 167, 132, 229, 136, 153]) @ '': '' @ al_Name rule @ newline @ ''> '' @
        (utf8 [229, 140, 185, 233, 133, 141, 231, 177, 187, 229, 158, 139]) @ '': '' @ al_MatchType rule @ newline @ ''> '' @ (utf8 [229, 140, 185, 233, 133, 141, 229, 128, 188]) @ '': '' @ al_MatchValue rule @ newline @ ''> '' @
        (utf8 [230, 148, 187, 229, 135, 187, 231, 177, 187, 229, 158, 139]) @ '': '' @ ev_attackType ev\<rparr>"

text \<open>
  One rule takes the lock twice. The first time it looks at the cooldown and counts the event: nothing while it cools
  down, otherwise the answer says whether enough events lie within the window. Only then, under the lock again, the cooldown
  begins. Between the two another attack may be counted; \<open>evaluate_rule\<close> is the two parts without one in between.
\<close>

definition count_event :: "alert_event \<Rightarrow> alert_rule \<Rightarrow> notify_engine \<Rightarrow> bool \<times> notify_engine" where
  "count_event ev rule e =
     (let now = ev_now ev; key = al_ID rule in
      if (case ne_cooldowns e key of Some t \<Rightarrow> time_sub now t < al_CooldownSec rule * nano_second | None \<Rightarrow> False) then (False, e)
      else
        let recent = filter (\<lambda>t. t > now - al_WindowSecs rule * nano_second) (map_get [] (ne_counters e) key @ [now])
        in (\<not> int (length recent) < al_Threshold rule, e\<lparr>ne_counters := (ne_counters e)(key \<mapsto> recent)\<rparr>))"

definition begin_cooldown :: "alert_event \<Rightarrow> alert_rule \<Rightarrow> notify_engine \<Rightarrow> notify_engine" where
  "begin_cooldown ev rule e = e\<lparr>ne_cooldowns := (ne_cooldowns e)(al_ID rule \<mapsto> ev_now ev)\<rparr>"

definition evaluate_rule ::
  "(instant \<Rightarrow> string) \<Rightarrow> alert_event \<Rightarrow> alert_rule \<Rightarrow> notify_engine \<Rightarrow> alert list \<times> notify_engine" where
  "evaluate_rule format ev rule e =
     (if \<not> al_Enabled rule \<or> \<not> rule_matches (ev_attackType ev) (ev_ruleID ev) (ev_clientIP ev) rule then ([], e)
      else
        let (enough, e) = count_event ev rule e
        in if \<not> enough then ([], e) else ([alert_of format ev rule], begin_cooldown ev rule e))"

fun evaluate_rules ::
  "(instant \<Rightarrow> string) \<Rightarrow> alert_event \<Rightarrow> alert_rule list \<Rightarrow> notify_engine \<Rightarrow> alert list \<times> notify_engine" where
  "evaluate_rules format ev [] e = ([], e)"
| "evaluate_rules format ev (rule # rules) e =
     (let (alerts, e) = evaluate_rule format ev rule e; (more, e) = evaluate_rules format ev rules e in (alerts @ more, e))"

definition evaluate_and_alert :: "(instant \<Rightarrow> string) \<Rightarrow> alert_event \<Rightarrow> notify_engine \<Rightarrow> alert list \<times> notify_engine" where
  "evaluate_and_alert format ev e = evaluate_rules format ev (ne_rules e) e"

text \<open>The cleaner keeps five minutes of events and half an hour of cooldowns.\<close>

definition notify_cleanup :: "instant \<Rightarrow> notify_engine \<Rightarrow> notify_engine" where
  "notify_cleanup now e =
     e\<lparr>ne_counters := (\<lambda>key. case ne_counters e key of
           None \<Rightarrow> None
         | Some ts \<Rightarrow> let recent = filter (\<lambda>t. time_sub now t < 300 * nano_second) ts in if recent = [] then None else Some recent),
       ne_cooldowns := (\<lambda>key. case ne_cooldowns e key of
           None \<Rightarrow> None
         | Some t \<Rightarrow> if time_sub now t > 1800 * nano_second then None else Some t)\<rparr>"

end
