(* ===== verification/NotifyProps.thy ===== *)
theory NotifyProps
  imports Notify
begin

text \<open>
  Properties of the notifications (\<open>Notify\<close>): the spacing of alerts, the cleaner against the cooldowns, the
  switches of the channels, and the password of the mail account.
\<close>

section \<open>The password\<close>

lemma hex_digits: "n < 16 \<Longrightarrow> hex_digit_value (hex_table ! n) = Some n"
proof -
  have "\<forall>n \<in> set [0..<16]. hex_digit_value (hex_table ! n) = Some n" by code_simp
  then show "n < 16 \<Longrightarrow> hex_digit_value (hex_table ! n) = Some n" by simp
qed

lemma hex_round: "hex_decode (hex_text s) = Some s"
proof (induction s)
  case (Cons c s)
  have "(of_char c :: nat) < 16 * 16" by simp
  then have d: "(of_char c :: nat) div 16 < 16" "(of_char c :: nat) mod 16 < 16"
    by (intro less_mult_imp_div_less) simp_all
  have "16 * ((of_char c :: nat) div 16) + of_char c mod 16 = of_char c" by simp
  then have "char_of (16 * ((of_char c :: nat) div 16) + of_char c mod 16) = c" by (simp only: char_of_char)
  then show ?case using Cons d by (simp add: hex_text_def hex_digits)
qed (simp add: hex_text_def)

lemma hex_text_empty: "hex_text s = '''' \<longleftrightarrow> s = ''''"
  by (cases s) (simp_all add: hex_text_def)

definition opens_own :: "aead \<Rightarrow> bool" where
  "opens_own c \<longleftrightarrow> (\<forall>key n p. ae_open c key n (ae_seal c key n p) = Some p)"

lemma decrypt_encrypted:
  assumes "opens_own c" "length n = 12" "encrypt_password c key (Some n) p = Some s"
  shows "decrypt_password c key s = Some p" "p \<noteq> '''' \<Longrightarrow> s \<noteq> ''''"
  using assms by (auto simp: encrypt_password_def decrypt_password_def hex_round hex_text_empty opens_own_def split: if_splits)

lemma encrypted_some: "\<exists>s. encrypt_password c key (Some n) p = Some s"
  by (simp add: encrypt_password_def)

text \<open>
  The password of the mail account lives as long as the key. Settings that are saved are read back by the next
  start with the same key, password included. A start with another key that does not open the text, which is what every
  start is when none is configured, takes the stored text for the password, encrypts it once more and stores that: later
  starts with the new key read the stored text of before as the password.
\<close>

theorem password_needs_key:
  fixes key other :: string
  assumes "opens_own c" and "length n = 12" "length n' = 12" and "ne_db e \<noteq> None"
    and "ne_db (snd (save_notify_config c key (Some n) None cfg e)) = Some d" and "nd_config d = Some row"
  shows "ne_config (new_notify_engine c key nonce True w r (Some d)) = cfg \<and>
    (decrypt_password c other (nc_EmailPassword row) = None \<longrightarrow>
      (let e2 = new_notify_engine c other (Some n') True True r (Some d)
       in ne_config e2 = cfg\<lparr>nc_EmailPassword := nc_EmailPassword row\<rparr> \<and>
          ne_config (new_notify_engine c other nonce True w r (ne_db e2)) = ne_config e2))"
proof -
  obtain s where s: "encrypt_password c key (Some n) (nc_EmailPassword cfg) = Some s"
    using encrypted_some by blast
  have row: "row = cfg\<lparr>nc_EmailPassword := s\<rparr>"
    using s assms(4-6) by (auto simp: save_notify_config_def)
  have "decrypt_password c key s = Some (nc_EmailPassword cfg)"
    using decrypt_encrypted(1)[OF assms(1,2) s] .
  then have "ne_config (new_notify_engine c key nonce True w r (Some d)) = cfg"
    using assms(6) row by (simp add: new_notify_engine_def load_alert_rules_def load_config_def)
  moreover obtain s' where s': "encrypt_password c other (Some n') s = Some s'" using encrypted_some by blast
  moreover have "decrypt_password c other s' = Some s"
    using decrypt_encrypted(1)[OF assms(1,3) s'] .
  ultimately show ?thesis
    using assms(6) row by (simp add: new_notify_engine_def load_alert_rules_def load_config_def Let_def)
qed

section \<open>Alerts\<close>

datatype notify_event =
    Attack alert_event
  | Clean instant
  | Save_rule instant "string option" bool alert_rule
  | Delete_rule instant "string option" bool string

fun event_time :: "notify_event \<Rightarrow> instant" where
  "event_time (Attack ev) = ev_now ev"
| "event_time (Clean now) = now"
| "event_time (Save_rule now _ _ _) = now"
| "event_time (Delete_rule now _ _ _) = now"

fun notify_do :: "(instant \<Rightarrow> string) \<Rightarrow> notify_event \<Rightarrow> notify_engine \<Rightarrow> alert list \<times> notify_engine" where
  "notify_do format (Attack ev) e = evaluate_and_alert format ev e"
| "notify_do format (Clean now) e = ([], notify_cleanup now e)"
| "notify_do format (Save_rule _ fail read rule) e = ([], snd (save_alert_rule fail read rule e))"
| "notify_do format (Delete_rule _ fail read i) e = ([], snd (delete_alert_rule fail read i e))"

text \<open>The alerts of the rule with the ID \<open>key\<close>: the instant of each, and the cooldown the rule had then.\<close>

definition cooldown_of :: "string \<Rightarrow> notify_engine \<Rightarrow> int" where
  "cooldown_of key e = (case find (\<lambda>r. al_ID r = key) (ne_rules e) of Some r \<Rightarrow> al_CooldownSec r | None \<Rightarrow> 0)"

fun alert_log :: "(instant \<Rightarrow> string) \<Rightarrow> string \<Rightarrow> notify_event list \<Rightarrow> notify_engine \<Rightarrow> (instant \<times> int) list" where
  "alert_log format key [] e = []"
| "alert_log format key (x # xs) e =
     (let (alerts, e') = notify_do format x e
      in map (\<lambda>_. (event_time x, cooldown_of key e)) (filter (\<lambda>a. at_rule a = key) alerts) @ alert_log format key xs e')"

text \<open>What the primary key of the table promises, and cooldowns that fit a \<open>Duration\<close> (292 years).\<close>

definition fits_duration :: "int \<Rightarrow> bool" where
  "fits_duration secs \<longleftrightarrow> - (2 ^ 63) < secs * nano_second \<and> secs * nano_second < 2 ^ 63"

definition sound_rules :: "alert_rule list \<Rightarrow> bool" where
  "sound_rules rules \<longleftrightarrow> distinct (map al_ID rules) \<and> (\<forall>r \<in> set rules. fits_duration (al_CooldownSec r))"

definition sound_engine :: "notify_engine \<Rightarrow> bool" where
  "sound_engine e \<longleftrightarrow> sound_rules (ne_rules e) \<and> (case ne_db e of Some d \<Rightarrow> sound_rules (nd_rules d) | None \<Rightarrow> True)"

fun sound_event :: "notify_event \<Rightarrow> bool" where
  "sound_event (Save_rule _ _ _ rule) = fits_duration (al_CooldownSec rule)"
| "sound_event _ = True"

lemma sound_filter: "sound_rules rules \<Longrightarrow> sound_rules (filter P rules)"
  by (simp add: sound_rules_def distinct_map_filter)

lemma sound_replace:
  "sound_rules rules \<Longrightarrow> fits_duration (al_CooldownSec rule) \<Longrightarrow>
   sound_rules (filter (\<lambda>r. al_ID r \<noteq> al_ID rule) rules @ [rule])"
  by (auto simp: sound_rules_def distinct_map_filter)

lemma cooldown_of_rule:
  assumes "sound_rules (ne_rules e)" "rule \<in> set (ne_rules e)"
  shows "cooldown_of (al_ID rule) e = al_CooldownSec rule"
proof -
  obtain r where r: "find (\<lambda>r. al_ID r = al_ID rule) (ne_rules e) = Some r"
    using assms(2) by (cases "find (\<lambda>r. al_ID r = al_ID rule) (ne_rules e)") (auto simp: find_None_iff)
  then have "r \<in> set (ne_rules e)" "al_ID r = al_ID rule"
    by (auto simp: find_Some_iff)
  then have "r = rule"
    using assms by (auto simp: sound_rules_def distinct_map dest: inj_onD)
  then show ?thesis using r by (simp add: cooldown_of_def)
qed

subsection \<open>One event\<close>

lemmas evaluate_rule_parts = evaluate_rule_def count_event_def begin_cooldown_def

lemma evaluate_rule_other:
  assumes "al_ID rule \<noteq> key"
  shows "ne_cooldowns (snd (evaluate_rule format ev rule e)) key = ne_cooldowns e key"
    "filter (\<lambda>a. at_rule a = key) (fst (evaluate_rule format ev rule e)) = []"
  using assms by (auto simp: evaluate_rule_parts alert_of_def Let_def split: option.split)

lemma evaluate_rules_other:
  assumes "key \<notin> al_ID ` set rules"
  shows "ne_cooldowns (snd (evaluate_rules format ev rules e)) key = ne_cooldowns e key"
    "filter (\<lambda>a. at_rule a = key) (fst (evaluate_rules format ev rules e)) = []"
  using assms
proof (induction rules arbitrary: e)
  case (Cons rule rules)
  {
    case 1
    then show ?case using Cons.IH(1)[of "snd (evaluate_rule format ev rule e)"] evaluate_rule_other(1)[of rule key format ev e]
      by (auto simp: Let_def split: prod.split)
  next
    case 2
    then show ?case using Cons.IH(2)[of "snd (evaluate_rule format ev rule e)"] evaluate_rule_other(2)[of rule key format ev e]
      by (auto simp: Let_def split: prod.split)
  }
qed simp_all

lemma evaluate_rules_keep:
  "ne_rules (snd (evaluate_rules format ev rules e)) = ne_rules e \<and> ne_db (snd (evaluate_rules format ev rules e)) = ne_db e"
proof (induction rules arbitrary: e)
  case (Cons rule rules)
  have "ne_rules (snd (evaluate_rule format ev rule e)) = ne_rules e \<and> ne_db (snd (evaluate_rule format ev rule e)) = ne_db e"
    by (auto simp: evaluate_rule_parts Let_def split: option.split)
  then show ?case using Cons[of "snd (evaluate_rule format ev rule e)"] by (auto simp: Let_def split: prod.split)
qed simp

lemma evaluate_rule_own:
  assumes "al_CooldownSec rule * nano_second < 2 ^ 63" "- (2 ^ 63) < al_CooldownSec rule * nano_second"
  shows "(filter (\<lambda>a. at_rule a = al_ID rule) (fst (evaluate_rule format ev rule e)) = [] \<and>
      ne_cooldowns (snd (evaluate_rule format ev rule e)) (al_ID rule) = ne_cooldowns e (al_ID rule)) \<or>
    (filter (\<lambda>a. at_rule a = al_ID rule) (fst (evaluate_rule format ev rule e)) = [alert_of format ev rule] \<and>
      ne_cooldowns (snd (evaluate_rule format ev rule e)) (al_ID rule) = Some (ev_now ev) \<and>
      (\<forall>t. ne_cooldowns e (al_ID rule) = Some t \<longrightarrow> al_CooldownSec rule * nano_second \<le> ev_now ev - t))"
  using assms by (auto simp: evaluate_rule_parts alert_of_def Let_def time_sub_less split: option.split)

lemma evaluate_rules_own:
  assumes "distinct (map al_ID rules)" "rule \<in> set rules" "al_CooldownSec rule * nano_second < 2 ^ 63" "- (2 ^ 63) < al_CooldownSec rule * nano_second"
  defines "key \<equiv> al_ID rule"
  shows "(filter (\<lambda>a. at_rule a = key) (fst (evaluate_rules format ev rules e)) = [] \<and>
      ne_cooldowns (snd (evaluate_rules format ev rules e)) key = ne_cooldowns e key) \<or>
    (length (filter (\<lambda>a. at_rule a = key) (fst (evaluate_rules format ev rules e))) = 1 \<and>
      ne_cooldowns (snd (evaluate_rules format ev rules e)) key = Some (ev_now ev) \<and>
      (\<forall>t. ne_cooldowns e key = Some t \<longrightarrow> al_CooldownSec rule * nano_second \<le> ev_now ev - t))"
  using assms(1,2)
proof (induction rules arbitrary: e)
  case (Cons r rules)
  let ?e = "snd (evaluate_rule format ev r e)"
  have step: "fst (evaluate_rules format ev (r # rules) e) = fst (evaluate_rule format ev r e) @ fst (evaluate_rules format ev rules ?e)"
    "snd (evaluate_rules format ev (r # rules) e) = snd (evaluate_rules format ev rules ?e)"
    by (simp_all add: Let_def split: prod.split)
  show ?case
  proof (cases "r = rule")
    case True
    then have "key \<notin> al_ID ` set rules" using Cons.prems(1) by (simp add: key_def)
    note rest = evaluate_rules_other[OF this, of format ev ?e]
    show ?thesis using evaluate_rule_own[OF assms(3,4), of format ev e] True rest unfolding step by (auto simp: key_def)
  next
    case False
    then have "rule \<in> set rules" "al_ID r \<noteq> key" using Cons.prems by (auto simp: key_def)
    then show ?thesis
      using Cons.IH[of ?e] Cons.prems(1) evaluate_rule_other[of r key format ev e]
      unfolding step by auto
  qed
qed simp

subsection \<open>A run\<close>

text \<open>
  what the engine knows of the last alert of a rule: it is its cooldown, unless a cleaning more than half an hour
  later has dropped it; \<open>now\<close> is not before either.
\<close>

definition remembers :: "string \<Rightarrow> instant option \<Rightarrow> instant \<Rightarrow> notify_engine \<Rightarrow> bool" where
  "remembers key prev now e \<longleftrightarrow>
     (case prev of
        None \<Rightarrow> True
      | Some t \<Rightarrow> t \<le> now \<and> (ne_cooldowns e key = Some t \<or> now - t > 1800 * nano_second))"

lemma cleanup_cooldown:
  "ne_cooldowns (notify_cleanup now e) key = None \<and> (\<forall>t. ne_cooldowns e key = Some t \<longrightarrow> now - t > 1800 * nano_second) \<or>
   ne_cooldowns (notify_cleanup now e) key = ne_cooldowns e key"
proof (cases "ne_cooldowns e key")
  case (Some t)
  have "time_sub now t > 1800 * nano_second \<Longrightarrow> now - t > 1800 * nano_second"
    by (simp add: time_sub_def split: if_splits)
  with Some show ?thesis by (auto simp: notify_cleanup_def)
qed (simp add: notify_cleanup_def)

lemma evaluate_and_alert_own:
  fixes key :: string and format :: "instant \<Rightarrow> string" and ev :: alert_event
  assumes "sound_engine e"
  defines "own \<equiv> filter (\<lambda>a. at_rule a = key) (fst (evaluate_and_alert format ev e))"
    and "e' \<equiv> snd (evaluate_and_alert format ev e)"
  shows "(own = [] \<and> ne_cooldowns e' key = ne_cooldowns e key) \<or>
    (length own = 1 \<and> ne_cooldowns e' key = Some (ev_now ev) \<and>
      (\<forall>t. ne_cooldowns e key = Some t \<longrightarrow> cooldown_of key e * nano_second \<le> ev_now ev - t))"
proof (cases "key \<in> al_ID ` set (ne_rules e)")
  case True
  then obtain rule where r: "rule \<in> set (ne_rules e)" "key = al_ID rule" by blast
  have s: "sound_rules (ne_rules e)" using assms(1) by (simp add: sound_engine_def)
  then have f: "distinct (map al_ID (ne_rules e))" "al_CooldownSec rule * nano_second < 2 ^ 63"
    "- (2 ^ 63) < al_CooldownSec rule * nano_second"
    using r(1) by (auto simp: sound_rules_def fits_duration_def)
  show ?thesis
    using evaluate_rules_own[OF f(1) r(1) f(2,3), of format ev e] cooldown_of_rule[OF s r(1)]
    by (simp add: own_def e'_def evaluate_and_alert_def r(2))
next
  case False
  then show ?thesis
    using evaluate_rules_other[of key "ne_rules e" format ev e] by (simp add: own_def e'_def evaluate_and_alert_def)
qed

lemma notify_do_sound: "sound_engine e \<Longrightarrow> sound_event x \<Longrightarrow> sound_engine (snd (notify_do format x e))"
  by (cases x) (auto simp: sound_engine_def evaluate_and_alert_def evaluate_rules_keep notify_cleanup_def save_alert_rule_def
      delete_alert_rule_def load_alert_rules_def sound_filter sound_replace split: option.splits)

text \<open>What an event does to the cooldown of a rule, and whether the rule alerts.\<close>

lemma notify_do_own:
  fixes format :: "instant \<Rightarrow> string"
  assumes "sound_engine e" "remembers key prev now e" "now \<le> event_time x"
  defines "own \<equiv> filter (\<lambda>a. at_rule a = key) (fst (notify_do format x e))" and "e' \<equiv> snd (notify_do format x e)"
  shows "(own = [] \<and> remembers key prev (event_time x) e') \<or>
    (length own = 1 \<and> remembers key (Some (event_time x)) (event_time x) e' \<and>
      (\<forall>t. prev = Some t \<longrightarrow> t \<le> event_time x \<and>
         min (cooldown_of key e * nano_second) (1800 * nano_second) \<le> event_time x - t))"
proof -
  have keep: "ne_cooldowns e' key = ne_cooldowns e key \<Longrightarrow> remembers key prev (event_time x) e'"
    using assms(2,3) by (auto simp: remembers_def split: option.splits)
  show ?thesis
  proof (cases x)
    case (Attack ev)
    show ?thesis
      using evaluate_and_alert_own[OF assms(1), of key format ev] assms(2,3) keep
      by (auto simp: Attack own_def e'_def remembers_def split: option.splits)
  next
    case (Clean t)
    then show ?thesis
      using assms(2,3) cleanup_cooldown[of t e key] by (auto simp: own_def e'_def remembers_def split: option.splits)
  qed (use keep in \<open>auto simp: own_def e'_def save_alert_rule_def delete_alert_rule_def load_alert_rules_def split: option.splits\<close>)
qed

definition apart :: "instant \<Rightarrow> instant \<times> int \<Rightarrow> bool" where
  "apart a b \<longleftrightarrow> a \<le> fst b \<and> min (snd b * nano_second) (1800 * nano_second) \<le> fst b - a"

lemma alert_log_spaced:
  assumes "sorted (map event_time xs)" "\<forall>x \<in> set xs. now \<le> event_time x \<and> sound_event x"
    "sound_engine e" "remembers key prev now e"
  shows "sorted_wrt (\<lambda>a b. apart (fst a) b) (alert_log format key xs e) \<and>
    (\<forall>t. prev = Some t \<longrightarrow> list_all (apart t) (alert_log format key xs e))"
  using assms
proof (induction xs arbitrary: e prev now)
  case (Cons x xs)
  let ?e = "snd (notify_do format x e)" and ?now = "event_time x"
    and ?own = "filter (\<lambda>a. at_rule a = key) (fst (notify_do format x e))"
  have sorted: "sorted (map event_time xs)" "\<forall>y \<in> set xs. ?now \<le> event_time y \<and> sound_event y" "now \<le> ?now"
    using Cons.prems(1,2) by auto
  note IH = Cons.IH[OF sorted(1,2) notify_do_sound[OF Cons.prems(3), of x format]]
  have log: "alert_log format key (x # xs) e = map (\<lambda>_. (?now, cooldown_of key e)) ?own @ alert_log format key xs ?e"
    by (simp add: Let_def split: prod.split)
  from notify_do_own[OF Cons.prems(3,4) sorted(3), of format] show ?case
  proof
    assume "?own = [] \<and> remembers key prev ?now ?e"
    then show ?thesis using IH[where prev = prev] Cons.prems(2) unfolding log by simp
  next
    assume alerts: "length ?own = 1 \<and> remembers key (Some ?now) ?now ?e \<and>
      (\<forall>t. prev = Some t \<longrightarrow> t \<le> ?now \<and> min (cooldown_of key e * nano_second) (1800 * nano_second) \<le> ?now - t)"
    then have one: "map (\<lambda>_. (?now, cooldown_of key e)) ?own = [(?now, cooldown_of key e)]"
      by (cases ?own) auto
    have later: "sorted_wrt (\<lambda>a b. apart (fst a) b) (alert_log format key xs ?e)"
      "list_all (apart ?now) (alert_log format key xs ?e)"
      using IH[where prev = "Some ?now"] alerts Cons.prems(2) by auto
    have "list_all (apart t) (alert_log format key xs ?e)" if "t \<le> ?now" for t
      using later(2) that unfolding list_all_iff by (fastforce simp: apart_def)
    then show ?thesis
      using alerts later unfolding log one by (auto simp: list_all_iff apart_def)
  qed
qed simp

text \<open>
  C40. Two alerts of one rule are at least the cooldown apart that the rule has at the second of them, or half an
  hour if the cooldown is longer (then the cleaner forgets it): over any sequence of attacks, cleanings, and
  edits and removals of rules, failed ones included, one event handled after another.
\<close>

theorem alerts_spaced:
  assumes "sorted (map event_time xs)" and "\<forall>x \<in> set xs. sound_event x" and "sound_engine e"
  shows "sorted_wrt (\<lambda>(a, _) (b, cooldown). min (cooldown * nano_second) (1800 * nano_second) \<le> b - a)
    (alert_log format key xs e)"
proof (cases xs)
  case (Cons x ys)
  then have "\<forall>y \<in> set xs. event_time x \<le> event_time y \<and> sound_event y" using assms(1,2) by auto
  from alert_log_spaced[OF assms(1) this assms(3), of key None format]
  have "sorted_wrt (\<lambda>a b. apart (fst a) b) (alert_log format key xs e)"
    by (simp add: remembers_def)
  then show ?thesis
    by (rule sorted_wrt_mono_rel[rotated]) (auto simp: apart_def)
qed simp

text \<open>
  Handled side by side, two attacks alert twice: the lock is given back between the look at the cooldown and its
  beginning, so both are counted before either begins the cooldown.
\<close>

theorem side_by_side_alerts:
  assumes "ne_cooldowns e (al_ID rule) = None" "al_Threshold rule \<le> 1" "0 < al_WindowSecs rule"
  shows "fst (count_event ev rule e) \<and> fst (count_event ev' rule (snd (count_event ev rule e))) \<and>
    (0 < al_CooldownSec rule \<and> ev_now ev' = ev_now ev \<longrightarrow>
      \<not> fst (count_event ev' rule (begin_cooldown ev rule (snd (count_event ev rule e)))))"
  using assms by (simp add: count_event_def begin_cooldown_def Let_def time_sub_def)

text \<open>
  A longer cooldown is not kept: the cleaner drops every cooldown after half an hour. A rule
  with threshold 1 that alerted alerts again on the first attack after a cleaning more than 30 minutes later, whatever its
  cooldown.
\<close>

theorem long_cooldown_forgotten:
  assumes "al_Enabled rule" "al_Threshold rule \<le> 1" "0 < al_WindowSecs rule"
    and "rule_matches (ev_attackType ev) (ev_ruleID ev) (ev_clientIP ev) rule"
    and "ne_cooldowns e (al_ID rule) = Some t" and "now - t > 1800 * nano_second" "ev_now ev \<ge> now"
  shows "fst (evaluate_rule format ev rule (notify_cleanup now e)) = [alert_of format ev rule]"
proof -
  have "time_sub now t > 1800 * nano_second" using assms(6) by (simp add: time_sub_def)
  then have "ne_cooldowns (notify_cleanup now e) (al_ID rule) = None" using assms(5) by (simp add: notify_cleanup_def)
  moreover have "ev_now ev > ev_now ev - al_WindowSecs rule * nano_second" using assms(3) by simp
  ultimately show ?thesis using assms(1,2,4) by (simp add: evaluate_rule_parts Let_def)
qed

section \<open>The switches\<close>

text \<open>
  The switch of a channel binds \<open>SendAlert\<close> only: an alert of a rule is sent over the channel of the rule whether it
  is enabled or not; what is sent depends on the addresses of the settings alone.
\<close>

theorem switches_ignored:
  "send_to_channel v m now
     (cfg\<lparr>nc_DingTalkEnabled := b1, nc_WeComEnabled := b2, nc_SlackEnabled := b3, nc_EmailEnabled := b4, nc_WebhookEnabled := b5\<rparr>)
     channel level title message =
   send_to_channel v m now cfg channel level title message \<and>
   enabled_channels (cfg\<lparr>nc_DingTalkEnabled := False, nc_WeComEnabled := False, nc_SlackEnabled := False,
     nc_EmailEnabled := False, nc_WebhookEnabled := False\<rparr>) = []"
  by (simp add: send_to_channel_def send_dingtalk_def send_wecom_def send_slack_def send_email_def send_webhook_def
      smtp_address_def mail_recipients_def mail_text_def enabled_channels_def Let_def cong del: if_weak_cong)

section \<open>Samples\<close>

definition sample_rule :: "int \<Rightarrow> alert_rule" where
  "sample_rule cooldown = \<lparr>al_ID = ''r1'', al_Name = ''sql'', al_Enabled = True, al_Level = ''critical'', al_MatchType = ''attack_type'',
     al_MatchValue = ''sql'', al_Threshold = 1, al_WindowSecs = 60, al_NotifyType = ''slack'', al_CooldownSec = cooldown\<rparr>"

definition sample_attack :: "instant \<Rightarrow> alert_event" where
  "sample_attack t = \<lparr>ev_attackType = ''sql_injection'', ev_ruleID = '''', ev_clientIP = ''203.0.113.7'', ev_now = t\<rparr>"

definition sample_notify :: "int \<Rightarrow> notify_engine" where
  "sample_notify cooldown = \<lparr>ne_db = Some \<lparr>nd_config = None, nd_rules = []\<rparr>, ne_rules = [sample_rule cooldown],
     ne_config = zero_notify_config, ne_cooldowns = [''r1'' \<mapsto> 0], ne_counters = Map.empty\<rparr>"

theorem alerts_spaced_witness:
  "sorted_wrt (\<lambda>(a, _) (b, cooldown). min (cooldown * nano_second) (1800 * nano_second) \<le> b - a)
     (alert_log (\<lambda>_. '''') ''r1'' [Attack (sample_attack 1), Save_rule 2 None True (sample_rule 86400), Clean 5,
        Attack (sample_attack (2000 * nano_second))] (sample_notify 300))"
  using alerts_spaced[of "[Attack (sample_attack 1), Save_rule 2 None True (sample_rule 86400), Clean 5,
      Attack (sample_attack (2000 * nano_second))]" "sample_notify 300"]
  by (simp add: sample_notify_def sample_rule_def sample_attack_def sound_engine_def sound_rules_def fits_duration_def)

theorem side_by_side_alerts_witness:
  "fst (count_event (sample_attack 1) (sample_rule 300) (snd (count_event (sample_attack 1) (sample_rule 300)
     ((sample_notify 300)\<lparr>ne_cooldowns := Map.empty\<rparr>))))"
  using side_by_side_alerts[of "(sample_notify 300)\<lparr>ne_cooldowns := Map.empty\<rparr>" "sample_rule 300" "sample_attack 1" "sample_attack 1"]
  by (simp add: sample_rule_def)

theorem long_cooldown_forgotten_witness:
  "length (fst (evaluate_rule (\<lambda>_. '''') (sample_attack (1802 * nano_second)) (sample_rule 86400)
     (notify_cleanup (1801 * nano_second) (sample_notify 86400)))) = 1"
proof -
  have "rule_matches ''sql_injection'' '''' ''203.0.113.7'' (sample_rule 86400)"
    unfolding sample_rule_def by code_simp
  then show ?thesis
    using long_cooldown_forgotten[of "sample_rule 86400" "sample_attack (1802 * nano_second)" "sample_notify 86400" 0 "1801 * nano_second"]
    by (simp add: sample_notify_def sample_rule_def sample_attack_def)
qed

definition toy_aead :: aead where
  "toy_aead = \<lparr>ae_seal = \<lambda>key n p. key @ p, ae_open = \<lambda>key n c. if take (length key) c = key then Some (drop (length key) c) else None\<rparr>"

theorem password_needs_key_witness:
  "\<exists>d row. nd_config d = Some row \<and>
     ne_config (new_notify_engine toy_aead ''k'' None True True True (Some d)) = zero_notify_config\<lparr>nc_EmailPassword := ''pw''\<rparr> \<and>
     ne_config (new_notify_engine toy_aead ''x'' (Some ''123456789012'') True True True (Some d)) =
       zero_notify_config\<lparr>nc_EmailPassword := nc_EmailPassword row\<rparr>"
proof -
  let ?cfg = "zero_notify_config\<lparr>nc_EmailPassword := ''pw''\<rparr>" and ?n = "''123456789012''"
  let ?row = "?cfg\<lparr>nc_EmailPassword := hex_text (?n @ ''kpw'')\<rparr>"
  have own: "opens_own toy_aead" by (simp add: opens_own_def toy_aead_def)
  have saved: "ne_db (snd (save_notify_config toy_aead ''k'' (Some ?n) None ?cfg (sample_notify 0))) =
      Some \<lparr>nd_config = Some ?row, nd_rules = []\<rparr>"
    by (simp add: save_notify_config_def encrypt_password_def sample_notify_def toy_aead_def)
  have "decrypt_password toy_aead ''x'' (nc_EmailPassword ?row) = None"
    by (simp add: decrypt_password_def hex_round hex_text_empty toy_aead_def)
  with password_needs_key[OF own _ _ _ saved, of ?n ?row None True True "''x''"] show ?thesis
    by (intro exI[of _ "\<lparr>nd_config = Some ?row, nd_rules = []\<rparr>"] exI[of _ ?row])
      (simp add: sample_notify_def Let_def)
qed

end
