(* ===== verification/ServerManager.thy ===== *)
theory ServerManager
  imports CertStore Forward
begin

text \<open>
  The listeners of the proxy (\<open>proxy/server_manager.go\<close>) and the certificates they answer with.

  \<^item> An \<open>http.Server\<close> is a number, its index in the list \<open>sm_heap\<close> of all the servers made so far: several proxies with
    one address share one server, and the code compares servers by identity. \<open>hs_State\<close> tells whether its goroutine is
    still to listen, listens, or was shut down or failed.
  \<^item> The goroutine that listens is the operation \<open>listen\<close>; whether the system lets it bind the address is its argument.
    \<open>Shutdown\<close> closes the listeners whether or not the wait of five seconds ends with an error.
  \<^item> Where the code ranges over a map, the enumeration is an argument. The tables are those of the proxy configuration and
    of the certificates; the X.509 parser is an argument, and so is the clock.
\<close>

section \<open>Certificates\<close>

record 'c cert_cache_entry =
  cc_cert :: 'c
  cc_cacheTime :: instant

type_synonym 'c cert_cache = "string \<rightharpoonup> 'c cert_cache_entry"

definition match_wildcard :: "string \<Rightarrow> string \<Rightarrow> bool" where
  "match_wildcard pattern host =
     (if \<not> has_prefix pattern ''*.'' then False
      else let suffix = drop 1 pattern in
        if \<not> has_suffix host suffix then False
        else let remaining = take (length host - length suffix) host
             in remaining \<noteq> '''' \<and> CHR ''.'' \<notin> set remaining)"

definition serves_name :: "string \<Rightarrow> domain_config \<Rightarrow> bool" where
  "serves_name domainName domain \<longleftrightarrow>
     dc_CertID domain \<noteq> '''' \<and> dc_Enabled domain \<and>
     (domainName = '''' \<or> dc_Domain domain = domainName \<or> match_wildcard (dc_Domain domain) domainName)"

text \<open>\<open>time.Now().Unix()\<close> drops the nanoseconds.\<close>

definition cert_alive :: "instant \<Rightarrow> ssl_cert \<Rightarrow> bool" where
  "cert_alive now cert \<longleftrightarrow> ce_NotAfter cert > now div nano_second"

fun first_certificate :: "instant \<Rightarrow> string \<Rightarrow> cert_row list \<Rightarrow> domain_config list \<Rightarrow> (string \<times> string) option" where
  "first_certificate now domainName certs [] = None"
| "first_certificate now domainName certs (domain # domains) =
     (if \<not> serves_name domainName domain then first_certificate now domainName certs domains
      else case get_cert now (dc_CertID domain) certs of
             None \<Rightarrow> first_certificate now domainName certs domains
           | Some cert \<Rightarrow>
               if cert_alive now cert then Some (ce_CertPEM cert, ce_KeyPEM cert)
               else first_certificate now domainName certs domains)"

text \<open>\<open>domains_ok\<close>: whether the query of the domains succeeds; its error is dropped.\<close>

definition get_certificate ::
  "bool \<Rightarrow> instant \<Rightarrow> string \<Rightarrow> cert_row list \<Rightarrow> pc_manager option \<Rightarrow> (string \<times> string) option" where
  "get_certificate domains_ok now domainName certs mgr =
     (case mgr of
        None \<Rightarrow> None
      | Some pm \<Rightarrow>
          (case first_certificate now domainName certs (if domains_ok then list_domains pm else []) of
             Some pair \<Rightarrow> Some pair
           | None \<Rightarrow>
               if domainName \<noteq> '''' then
                 (case get_cert_by_domain_and_source now domainName ''acme'' certs of
                    None \<Rightarrow> None
                  | Some cert \<Rightarrow> if cert_alive now cert then Some (ce_CertPEM cert, ce_KeyPEM cert) else None)
               else None))"

definition has_valid_certificate :: "bool \<Rightarrow> instant \<Rightarrow> cert_row list \<Rightarrow> pc_manager option \<Rightarrow> bool" where
  "has_valid_certificate domains_ok now certs mgr = (get_certificate domains_ok now '''' certs mgr \<noteq> None)"

definition cert_cache_max_size :: nat where
  "cert_cache_max_size = 256"

text \<open>The scan for the oldest entry: only an entry made before the current time is a candidate.\<close>

definition oldest_entry :: "'c cert_cache \<Rightarrow> string list \<Rightarrow> instant \<Rightarrow> string" where
  "oldest_entry cache order now =
     fst (foldl (\<lambda>(oldestKey, oldestTime) k.
            case cache k of
              None \<Rightarrow> (oldestKey, oldestTime)
            | Some v \<Rightarrow> if cc_cacheTime v < oldestTime then (k, cc_cacheTime v) else (oldestKey, oldestTime))
          ('''', now) order)"

definition evict_certificate :: "string list \<Rightarrow> instant \<Rightarrow> 'c cert_cache \<Rightarrow> 'c cert_cache" where
  "evict_certificate order now cache =
     (if card (dom cache) \<ge> cert_cache_max_size then
        let oldestKey = oldest_entry cache order now
        in if oldestKey \<noteq> '''' then cache(oldestKey := None) else cache
      else cache)"

text \<open>\<open>lookup\<close> is \<open>GetCertificate\<close> on the tables of the moment, \<open>parse\<close> is \<open>tls.X509KeyPair\<close>.\<close>

definition load_certificate ::
  "(string \<Rightarrow> string \<Rightarrow> string + 'c) \<Rightarrow> (string \<Rightarrow> (string \<times> string) option) \<Rightarrow> string list \<Rightarrow> instant \<Rightarrow> string \<Rightarrow>
   'c cert_cache \<Rightarrow> (string + 'c) \<times> 'c cert_cache" where
  "load_certificate parse lookup order now serverName cache =
     (case lookup serverName of
        None \<Rightarrow> (Inl (''no certificate found for domain: '' @ serverName), cache)
      | Some (certPEM, keyPEM) \<Rightarrow>
          (case parse certPEM keyPEM of
             Inl err \<Rightarrow> (Inl err, cache)
           | Inr cert \<Rightarrow>
               (Inr cert, (evict_certificate order now cache)(serverName \<mapsto> \<lparr>cc_cert = cert, cc_cacheTime = now\<rparr>))))"

definition get_tls_certificate ::
  "(string \<Rightarrow> string \<Rightarrow> string + 'c) \<Rightarrow> (string \<Rightarrow> (string \<times> string) option) \<Rightarrow> string list \<Rightarrow> instant \<Rightarrow> string option \<Rightarrow>
   'c cert_cache \<Rightarrow> (string + 'c) \<times> 'c cert_cache" where
  "get_tls_certificate parse lookup order now hello cache =
     (let serverName = (case hello of None \<Rightarrow> '''' | Some name \<Rightarrow> name) in
      case cache serverName of
        Some entry \<Rightarrow>
          (if time_sub now (cc_cacheTime entry) < 300 * nano_second then (Inr (cc_cert entry), cache)
           else load_certificate parse lookup order now serverName cache)
      | None \<Rightarrow> load_certificate parse lookup order now serverName cache)"

section \<open>Servers\<close>

datatype server_state = Starting | Listening | Ended

record http_server =
  hs_Addr :: string
  hs_Redirects :: bool
  hs_ReadTimeout :: duration
  hs_WriteTimeout :: duration
  hs_IdleTimeout :: duration
  hs_TLS :: bool
  hs_State :: server_state

record server_manager =
  sm_servers :: "string \<rightharpoonup> nat"
  sm_serverAddrs :: "string \<rightharpoonup> string"
  sm_heap :: "http_server list"
  sm_portCache :: string
  sm_portExpiry :: instant

definition new_server_manager :: server_manager where
  "new_server_manager =
     \<lparr>sm_servers = Map.empty, sm_serverAddrs = Map.empty, sm_heap = [], sm_portCache = '''', sm_portExpiry = zero_time\<rparr>"

text \<open>The port of a listening address, with the host in front of it; an address with several colons has none.\<close>

definition https_listener :: "proxy_config \<Rightarrow> bool" where
  "https_listener cfg \<longleftrightarrow> px_Enabled cfg \<and> listen_protocol (px_Protocol cfg) = ''https''"

definition port_of :: "string \<Rightarrow> (string \<times> string) option" where
  "port_of addr =
     (if has_prefix addr '':'' then Some (''default'', addr)
      else case last_index (CHR '':'') addr of
             None \<Rightarrow> None
           | Some idx \<Rightarrow> if CHR '':'' \<in> set (take idx addr) then None
                       else Some (take idx addr, CHR '':'' # drop (idx + 1) addr))"

definition build_https_ports :: "proxy_config list \<Rightarrow> string \<rightharpoonup> string" where
  "build_https_ports proxyConfigs =
     fold (\<lambda>cfg ports. if \<not> https_listener cfg then ports
                       else case port_of (px_ListenAddr cfg) of None \<Rightarrow> ports | Some (host, port) \<Rightarrow> ports(host \<mapsto> port))
       proxyConfigs Map.empty"

fun first_https_port :: "proxy_config list \<Rightarrow> string" where
  "first_https_port [] = ''''"
| "first_https_port (cfg # cfgs) =
     (if https_listener cfg
      then case port_of (px_ListenAddr cfg) of None \<Rightarrow> first_https_port cfgs | Some (host, port) \<Rightarrow> port
      else first_https_port cfgs)"

text \<open>\<open>listing\<close>: the rows of \<open>ListProxies\<close>, or \<open>None\<close> when the query fails.\<close>

definition get_https_port ::
  "proxy_config list option \<Rightarrow> instant \<Rightarrow> server_manager \<Rightarrow> string \<times> server_manager" where
  "get_https_port listing now m =
     (if sm_portCache m \<noteq> '''' \<and> now < sm_portExpiry m then (sm_portCache m, m)
      else case listing of
             None \<Rightarrow> ('':443'', m)
           | Some proxyConfigs \<Rightarrow>
               let port = first_https_port proxyConfigs; port = (if port = '''' then '':443'' else port)
               in (port, m\<lparr>sm_portCache := port, sm_portExpiry := now + 300 * nano_second\<rparr>))"

subsection \<open>The handler of a plain listener\<close>

datatype plain_answer = ToProxy | Invalid_Host | Redirect string

definition is_ws_request :: "http_request \<Rightarrow> bool" where
  "is_ws_request r \<longleftrightarrow>
     (let connHdr = to_lower (header_get (rq_Header r) ''Connection'')
      in (str_contains connHdr ''upgrade'' \<or> connHdr = ''upgrade'') \<and> to_lower (header_get (rq_Header r) ''Upgrade'') = ''websocket'')"

definition redirect_url :: "string \<Rightarrow> string \<Rightarrow> http_request \<Rightarrow> string" where
  "redirect_url host httpsPort r =
     ''https://'' @ host @ (if httpsPort \<noteq> '':443'' then httpsPort else '''') @ rq_Path r @
     (if rq_RawQuery r \<noteq> '''' then ''?'' @ rq_RawQuery r else '''')"

definition plain_handler ::
  "proxy_config list option \<Rightarrow> instant \<Rightarrow> http_request \<Rightarrow> pc_manager \<Rightarrow> server_manager \<Rightarrow>
   plain_answer \<times> pc_manager \<times> server_manager" where
  "plain_handler listing now r pm m =
     (let host = strip_port (rq_Host r); (domainCfg, pm) = get_domain_by_name host pm in
      case domainCfg of
        None \<Rightarrow> (ToProxy, pm, m)
      | Some cfg \<Rightarrow>
          if \<not> dc_ForceHTTPS cfg then (ToProxy, pm, m)
          else if is_ws_request r then (ToProxy, pm, m)
          else let (httpsPort, m) = get_https_port listing now m in
            if str_contains host ''/'' \<or> str_contains host [CHR 92] \<or> str_contains host ''..'' then (Invalid_Host, pm, m)
            else (Redirect (redirect_url host httpsPort r), pm, m))"

subsection \<open>Starting and stopping\<close>

definition set_state :: "nat \<Rightarrow> server_state \<Rightarrow> server_manager \<Rightarrow> server_manager" where
  "set_state srv st m = m\<lparr>sm_heap := (sm_heap m)[srv := (sm_heap m ! srv)\<lparr>hs_State := st\<rparr>]\<rparr>"

definition server_addr :: "server_manager \<Rightarrow> nat \<Rightarrow> string" where
  "server_addr m srv = hs_Addr (sm_heap m ! srv)"

definition server_state_of :: "server_manager \<Rightarrow> nat \<Rightarrow> server_state" where
  "server_state_of m srv = hs_State (sm_heap m ! srv)"

definition register :: "string \<Rightarrow> nat \<Rightarrow> string \<Rightarrow> server_manager \<Rightarrow> server_manager" where
  "register i srv proto m = m\<lparr>sm_servers := (sm_servers m)(i \<mapsto> srv), sm_serverAddrs := (sm_serverAddrs m)(i \<mapsto> proto)\<rparr>"

definition unregister :: "string \<Rightarrow> server_manager \<Rightarrow> server_manager" where
  "unregister i m = m\<lparr>sm_servers := (sm_servers m)(i := None), sm_serverAddrs := (sm_serverAddrs m)(i := None)\<rparr>"

definition new_http_server :: "string \<Rightarrow> string \<Rightarrow> http_server" where
  "new_http_server addr listenProto =
     \<lparr>hs_Addr = addr, hs_Redirects = (listenProto = ''http''), hs_ReadTimeout = 30 * nano_second,
      hs_WriteTimeout = 60 * nano_second, hs_IdleTimeout = 120 * nano_second, hs_TLS = (listenProto = ''https''),
      hs_State = Starting\<rparr>"

definition listens_at :: "server_manager \<Rightarrow> proxy_config \<Rightarrow> string \<Rightarrow> bool" where
  "listens_at m cfg i \<longleftrightarrow>
     i \<noteq> px_ID cfg \<and> (case sm_servers m i of None \<Rightarrow> False | Some srv \<Rightarrow> server_addr m srv = px_ListenAddr cfg)"

definition start_server :: "string list \<Rightarrow> proxy_config \<Rightarrow> server_manager \<Rightarrow> string option \<times> server_manager" where
  "start_server order cfg m =
     (if sm_servers m (px_ID cfg) \<noteq> None then (Some ((utf8 [228, 187, 163, 231, 144, 134, 230, 156, 141, 229, 138, 161, 229, 153, 168] @ '' '') @ px_ID cfg @ ('' '' @ utf8 [229, 183, 178, 229, 173, 152, 229, 156, 168])), m)
      else if px_ListenAddr cfg = '''' then (Some (utf8 [231, 155, 145, 229, 144, 172, 229, 156, 176, 229, 157, 128, 228, 184, 141, 232, 131, 189, 228, 184, 186, 231, 169, 186]), m)
      else case validate_protocol_list (px_Protocol cfg) of
        Some err \<Rightarrow> (Some err, m)
      | None \<Rightarrow>
          let listenProto = listen_protocol (px_Protocol cfg) in
          (case find (listens_at m cfg) order of
             Some i \<Rightarrow>
               let existing = map_get '''' (sm_serverAddrs m) i in
               if existing = listenProto then (None, register (px_ID cfg) (the (sm_servers m i)) listenProto m)
               else (Some ((utf8 [231, 155, 145, 229, 144, 172, 229, 156, 176, 229, 157, 128] @ '' '') @ px_ListenAddr cfg @ ('' '' @ utf8 [229, 183, 178, 232, 162, 171, 228, 187, 163, 231, 144, 134] @ '' '') @ i @ ('' '' @ utf8 [229, 141, 160, 231, 148, 168, 239, 188, 136, 229, 141, 143, 232, 174, 174, 228, 184, 141, 229, 133, 188, 229, 174, 185] @ '': '' @ utf8 [229, 183, 178, 230, 156, 137]) @ existing @ (utf8 [239, 188, 140, 230, 150, 176, 229, 162, 158]) @ listenProto @ (utf8 [239, 188, 137])), m)
           | None \<Rightarrow>
               (None, register (px_ID cfg) (length (sm_heap m)) listenProto
                        (m\<lparr>sm_heap := sm_heap m @ [new_http_server (px_ListenAddr cfg) listenProto]\<rparr>))))"

text \<open>The goroutine: it listens unless the server was shut down before; when listening or serving fails, every proxy of
  the server is taken out.\<close>

definition forget_server :: "nat \<Rightarrow> server_manager \<Rightarrow> server_manager" where
  "forget_server srv m =
     m\<lparr>sm_servers := (\<lambda>i. if sm_servers m i = Some srv then None else sm_servers m i),
       sm_serverAddrs := (\<lambda>i. if sm_servers m i = Some srv then None else sm_serverAddrs m i)\<rparr>"

definition listen :: "bool \<Rightarrow> nat \<Rightarrow> server_manager \<Rightarrow> server_manager" where
  "listen bound srv m =
     (case server_state_of m srv of
        Starting \<Rightarrow> if bound then set_state srv Listening m else forget_server srv (set_state srv Ended m)
      | Listening \<Rightarrow> m
      | Ended \<Rightarrow> m)"

definition serve_failed :: "nat \<Rightarrow> server_manager \<Rightarrow> server_manager" where
  "serve_failed srv m =
     (case server_state_of m srv of
        Starting \<Rightarrow> m
      | Listening \<Rightarrow> forget_server srv (set_state srv Ended m)
      | Ended \<Rightarrow> m)"

definition stop_all_locked :: "server_manager \<Rightarrow> server_manager" where
  "stop_all_locked m =
     m\<lparr>sm_heap := map (\<lambda>srv. if srv \<in> ran (sm_servers m) then (sm_heap m ! srv)\<lparr>hs_State := Ended\<rparr> else sm_heap m ! srv)
                   [0..<length (sm_heap m)],
       sm_servers := Map.empty, sm_serverAddrs := Map.empty\<rparr>"

text \<open>\<open>enum\<close> enumerates the keys of a map, in whatever order Go ranges over them.\<close>

fun start_each ::
  "(string set \<Rightarrow> string list) \<Rightarrow> proxy_config list \<Rightarrow> string option \<Rightarrow> server_manager \<Rightarrow> string option \<times> server_manager" where
  "start_each enum [] firstErr m = (firstErr, m)"
| "start_each enum (cfg # cfgs) firstErr m =
     (if \<not> px_Enabled cfg then start_each enum cfgs firstErr m
      else case start_server (enum (dom (sm_servers m))) cfg m of
             (None, m') \<Rightarrow> start_each enum cfgs firstErr m'
           | (Some err, m') \<Rightarrow> start_each enum cfgs (if firstErr = None then Some err else firstErr) m')"

definition start_all ::
  "(string set \<Rightarrow> string list) \<Rightarrow> string + proxy_config list \<Rightarrow> server_manager \<Rightarrow> string option \<times> server_manager" where
  "start_all enum listing m =
     (case listing of Inl err \<Rightarrow> (Some err, m) | Inr proxyConfigs \<Rightarrow> start_each enum proxyConfigs None m)"

definition reload_all ::
  "(string set \<Rightarrow> string list) \<Rightarrow> string + proxy_config list \<Rightarrow> server_manager \<Rightarrow> string option \<times> server_manager" where
  "reload_all enum listing m = start_all enum listing (stop_all_locked m)"

definition stop_all :: "server_manager \<Rightarrow> server_manager" where
  "stop_all m = stop_all_locked m"

definition add_proxy_server ::
  "(string set \<Rightarrow> string list) \<Rightarrow> proxy_config \<Rightarrow> server_manager \<Rightarrow> string option \<times> server_manager" where
  "add_proxy_server enum cfg m = (if px_Enabled cfg then start_server (enum (dom (sm_servers m))) cfg m else (None, m))"

definition update_proxy_server ::
  "(string set \<Rightarrow> string list) \<Rightarrow> proxy_config \<Rightarrow> server_manager \<Rightarrow> string option \<times> server_manager" where
  "update_proxy_server enum cfg m =
     (let old = sm_servers m (px_ID cfg); oldProto = map_get '''' (sm_serverAddrs m) (px_ID cfg);
          m = (if old \<noteq> None then unregister (px_ID cfg) m else m);
          (err, m) = (if px_Enabled cfg then start_server (enum (dom (sm_servers m))) cfg m else (None, m))
      in case err of
           Some e \<Rightarrow> (Some e, case old of None \<Rightarrow> m | Some srv \<Rightarrow> register (px_ID cfg) srv oldProto m)
         | None \<Rightarrow> (None, case old of None \<Rightarrow> m | Some srv \<Rightarrow> set_state srv Ended m))"

definition delete_proxy_server :: "string \<Rightarrow> server_manager \<Rightarrow> server_manager" where
  "delete_proxy_server i m =
     (case sm_servers m i of
        Some srv \<Rightarrow>
          let m = unregister i m in
          if srv \<in> ran (sm_servers m) then m else set_state srv Ended m
      | None \<Rightarrow> m\<lparr>sm_serverAddrs := (sm_serverAddrs m)(i := None)\<rparr>)"

definition get_server_count :: "server_manager \<Rightarrow> nat" where
  "get_server_count m = card (dom (sm_servers m))"

end
