(* ===== verification/ServerManagerProps.thy ===== *)
theory ServerManagerProps
  imports ServerManager
begin

text \<open>
  What holds of the listeners: proxies with one address share one server, in every reachable state; a deletion stops
  nothing that another proxy uses, an update does; a reload starts every enabled proxy. What holds of the certificates:
  only those of an enabled domain that matches, and in force; the cache stays within its bound.
\<close>

section \<open>Lemmas on the operations\<close>

lemma heap_set_state [simp]: "length (sm_heap (set_state s st m)) = length (sm_heap m)"
  by (simp add: set_state_def)

lemma servers_set_state [simp]:
  "sm_servers (set_state s st m) = sm_servers m" "sm_serverAddrs (set_state s st m) = sm_serverAddrs m"
  by (simp_all add: set_state_def)

lemma addr_set_state [simp]: "server_addr (set_state s st m) t = server_addr m t"
  by (cases "s < length (sm_heap m)") (auto simp: server_addr_def set_state_def nth_list_update list_update_beyond)

lemma tls_set_state [simp]: "hs_TLS (sm_heap (set_state s st m) ! t) = hs_TLS (sm_heap m ! t)"
  by (cases "s < length (sm_heap m)") (auto simp: set_state_def nth_list_update list_update_beyond)

lemma state_set_state:
  "s < length (sm_heap m) \<Longrightarrow> server_state_of (set_state s st m) t = (if t = s then st else server_state_of m t)"
  by (auto simp: server_state_of_def set_state_def nth_list_update list_update_beyond)

lemma register_simps [simp]:
  "sm_servers (register i s p m) = (sm_servers m)(i \<mapsto> s)" "sm_serverAddrs (register i s p m) = (sm_serverAddrs m)(i \<mapsto> p)"
  "sm_heap (register i s p m) = sm_heap m" "server_addr (register i s p m) = server_addr m"
  "server_state_of (register i s p m) = server_state_of m"
  by (simp_all add: register_def server_addr_def server_state_of_def fun_eq_iff)

lemma unregister_simps [simp]:
  "sm_servers (unregister i m) = (sm_servers m)(i := None)" "sm_serverAddrs (unregister i m) = (sm_serverAddrs m)(i := None)"
  "sm_heap (unregister i m) = sm_heap m" "server_addr (unregister i m) = server_addr m"
  "server_state_of (unregister i m) = server_state_of m"
  by (simp_all add: unregister_def server_addr_def server_state_of_def fun_eq_iff)

lemma listen_protocol_cases: "listen_protocol p = ''http'' \<or> listen_protocol p = ''https''"
  by (simp add: listen_protocol_def Let_def)

section \<open>The invariant\<close>

definition protocol_of :: "http_server \<Rightarrow> string" where
  "protocol_of h = (if hs_TLS h then ''https'' else ''http'')"

text \<open>Every registered number is a server, the recorded protocol is that of the server, and one address has one server.\<close>

definition servers_inv :: "server_manager \<Rightarrow> bool" where
  "servers_inv m \<longleftrightarrow>
     finite (dom (sm_servers m)) \<and> dom (sm_serverAddrs m) = dom (sm_servers m) \<and>
     (\<forall>i s. sm_servers m i = Some s \<longrightarrow>
        s < length (sm_heap m) \<and> sm_serverAddrs m i = Some (protocol_of (sm_heap m ! s))) \<and>
     (\<forall>i j s t. sm_servers m i = Some s \<longrightarrow> sm_servers m j = Some t \<longrightarrow> server_addr m s = server_addr m t \<longrightarrow> s = t)"

lemma servers_invD:
  assumes "servers_inv m"
  shows "finite (dom (sm_servers m))" "dom (sm_serverAddrs m) = dom (sm_servers m)"
    and "sm_servers m i = Some s \<Longrightarrow> s < length (sm_heap m)"
    and "sm_servers m i = Some s \<Longrightarrow> sm_serverAddrs m i = Some (protocol_of (sm_heap m ! s))"
    and "\<lbrakk>sm_servers m i = Some s; sm_servers m j = Some t; server_addr m s = server_addr m t\<rbrakk> \<Longrightarrow> s = t"
  using assms unfolding servers_inv_def by blast+

lemma inv_set_state: "servers_inv m \<Longrightarrow> servers_inv (set_state s st m)"
  by (simp add: servers_inv_def protocol_of_def)

lemma inv_fewer:
  assumes "servers_inv m" "sm_heap m' = sm_heap m" "dom (sm_serverAddrs m') = dom (sm_servers m')"
    and "sm_servers m' \<subseteq>\<^sub>m sm_servers m" "sm_serverAddrs m' \<subseteq>\<^sub>m sm_serverAddrs m"
  shows "servers_inv m'"
proof -
  have sub: "sm_servers m i = Some s" if "sm_servers m' i = Some s" for i s
    using assms(4) that by (force simp: map_le_def)
  have prot: "sm_serverAddrs m' i = sm_serverAddrs m i" if "sm_servers m' i = Some s" for i s
    using assms(3,5) that by (metis domI map_le_def)
  have "finite (dom (sm_servers m'))"
    using servers_invD(1)[OF assms(1)] map_le_implies_dom_le[OF assms(4)] by (rule rev_finite_subset)
  moreover have "server_addr m' = server_addr m" using assms(2) by (simp add: server_addr_def fun_eq_iff)
  ultimately show ?thesis
    unfolding servers_inv_def using assms(2,3) prot sub servers_invD(3-5)[OF assms(1)] by (metis (no_types, lifting))
qed

lemma inv_unregister: "servers_inv m \<Longrightarrow> servers_inv (unregister i m)"
  by (rule inv_fewer[of m]) (auto simp: map_le_def servers_inv_def)

lemma inv_forget_server: "servers_inv m \<Longrightarrow> servers_inv (forget_server s m)"
  by (rule inv_fewer[of m]) (auto simp: map_le_def servers_inv_def forget_server_def dom_def split: if_splits)

lemma inv_register:
  assumes "servers_inv m" "s < length (sm_heap m)" "p = protocol_of (sm_heap m ! s)"
    and "\<And>j t. \<lbrakk>sm_servers m j = Some t; j \<noteq> i; server_addr m t = server_addr m s\<rbrakk> \<Longrightarrow> t = s"
  shows "servers_inv (register i s p m)"
proof -
  have "t = s'" if "sm_servers (register i s p m) j = Some t" "sm_servers (register i s p m) k = Some s'"
    "server_addr m t = server_addr m s'" for j k t s'
    using that assms(4)[of j t] assms(4)[of k s'] servers_invD(5)[OF assms(1), of j t k s'] by (auto split: if_splits)
  then show ?thesis using assms(1-3) unfolding servers_inv_def by auto
qed

section \<open>Starting\<close>

text \<open>A start that succeeds registers the proxy with the server of its address, a new one unless the address has one.\<close>

lemma start_server_error: "start_server order cfg m = (Some e, m') \<Longrightarrow> m' = m"
  by (auto simp: start_server_def Let_def split: if_splits option.splits)

lemma found_listener:
  assumes "find (listens_at m cfg) order = Some i"
  obtains s where "i \<in> set order" "i \<noteq> px_ID cfg" "sm_servers m i = Some s" "server_addr m s = px_ListenAddr cfg"
  using find_Some_mem[OF assms] by (auto simp: listens_at_def split: option.splits)

lemma no_listener:
  assumes "find (listens_at m cfg) order = None" "set order = dom (sm_servers m)" "sm_servers m j = Some t" "j \<noteq> px_ID cfg"
  shows "server_addr m t \<noteq> px_ListenAddr cfg"
  using assms by (auto simp: find_None_iff listens_at_def dom_def split: option.splits)

lemma start_server_ok:
  assumes inv: "servers_inv m" and order: "set order = dom (sm_servers m)" and ok: "start_server order cfg m = (None, m')"
  obtains s extra where "sm_servers m' = (sm_servers m)(px_ID cfg \<mapsto> s)" "sm_heap m' = sm_heap m @ extra"
    "s < length (sm_heap m')" "server_addr m' s = px_ListenAddr cfg"
    "protocol_of (sm_heap m' ! s) = listen_protocol (px_Protocol cfg)"
    "(\<exists>j \<noteq> px_ID cfg. sm_servers m j = Some s) \<and> extra = [] \<or>
     s = length (sm_heap m) \<and> extra = [new_http_server (px_ListenAddr cfg) (listen_protocol (px_Protocol cfg))]"
    "servers_inv m'" "sm_servers m (px_ID cfg) = None"
proof -
  let ?p = "listen_protocol (px_Protocol cfg)"
  have new: "sm_servers m (px_ID cfg) = None" using ok by (auto simp: start_server_def split: if_splits)
  show thesis
  proof (cases "find (listens_at m cfg) order")
    case None
    let ?m = "m\<lparr>sm_heap := sm_heap m @ [new_http_server (px_ListenAddr cfg) ?p]\<rparr>" and ?s = "length (sm_heap m)"
    have m': "m' = register (px_ID cfg) ?s ?p ?m"
      using ok None by (auto simp: start_server_def Let_def split: if_splits option.splits)
    have old: "server_addr ?m t = server_addr m t" "sm_heap ?m ! t = sm_heap m ! t" if "sm_servers m j = Some t" for j t
      using servers_invD(3)[OF inv that] by (simp_all add: server_addr_def nth_append)
    have inv': "servers_inv ?m"
      unfolding servers_inv_def using inv old servers_invD(3-5)[OF inv] servers_invD(1,2)[OF inv]
      by (simp add: less_Suc_eq)
    have prot: "protocol_of (sm_heap ?m ! ?s) = ?p"
      using listen_protocol_cases[of "px_Protocol cfg"] by (auto simp: protocol_of_def new_http_server_def)
    have addr: "server_addr ?m ?s = px_ListenAddr cfg" by (simp add: server_addr_def new_http_server_def)
    have "servers_inv m'" unfolding m'
    proof (rule inv_register[OF inv'])
      fix j t assume t: "sm_servers ?m j = Some t" "j \<noteq> px_ID cfg" "server_addr ?m t = server_addr ?m ?s"
      then have "sm_servers m j = Some t" by simp
      with t(3) no_listener[OF None order this t(2)] old(1)[OF this] addr show "t = ?s" by simp
    qed (use prot in simp_all)
    then show thesis using that[of ?s] prot addr new unfolding m' by simp
  next
    case (Some i)
    then obtain s where s: "i \<noteq> px_ID cfg" "sm_servers m i = Some s" "server_addr m s = px_ListenAddr cfg"
      by (rule found_listener)
    have existing: "sm_serverAddrs m i = Some (protocol_of (sm_heap m ! s))" by (rule servers_invD(4)[OF inv s(2)])
    have m': "m' = register (px_ID cfg) s ?p m" and p: "protocol_of (sm_heap m ! s) = ?p"
      using ok Some s(2) existing by (auto simp: start_server_def Let_def map_get_def split: if_splits option.splits)
    have "servers_inv m'" unfolding m'
      using servers_invD(3)[OF inv s(2)] p servers_invD(5)[OF inv _ s(2)] by (intro inv_register[OF inv]) auto
    then show thesis
      using that[of s "[]"] servers_invD(3)[OF inv s(2)] p s new unfolding m' by auto
  qed
qed

lemma inv_start_server:
  assumes "servers_inv m" "set order = dom (sm_servers m)" "start_server order cfg m = (err, m')"
  shows "servers_inv m'"
proof (cases err)
  case None
  then show ?thesis using start_server_ok[OF assms(1,2)] assms(3) by metis
next
  case (Some e)
  then show ?thesis using start_server_error assms(1,3) by metis
qed

definition enumerates :: "(string set \<Rightarrow> string list) \<Rightarrow> bool" where
  "enumerates enum \<longleftrightarrow> (\<forall>S. finite S \<longrightarrow> set (enum S) = S)"

lemma enum_dom: "enumerates enum \<Longrightarrow> servers_inv m \<Longrightarrow> set (enum (dom (sm_servers m))) = dom (sm_servers m)"
  by (simp add: enumerates_def servers_inv_def)

lemma inv_start_each:
  "enumerates enum \<Longrightarrow> servers_inv m \<Longrightarrow> start_each enum cfgs err m = (err', m') \<Longrightarrow> servers_inv m'"
proof (induction cfgs arbitrary: err m)
  case (Cons cfg cfgs)
  obtain e n where st: "start_server (enum (dom (sm_servers m))) cfg m = (e, n)" by fastforce
  have "servers_inv n" using inv_start_server[OF Cons.prems(2) enum_dom[OF Cons.prems(1,2)] st] .
  then show ?case using Cons st by (auto split: if_splits option.splits)
qed simp

lemma inv_stop_all: "servers_inv (stop_all_locked m)"
  by (simp add: servers_inv_def stop_all_locked_def)

lemma update_new:
  assumes "sm_servers m (px_ID cfg) = None"
  shows "update_proxy_server enum cfg m =
    (if px_Enabled cfg then start_server (enum (dom (sm_servers m))) cfg m else (None, m))"
  by (simp add: update_proxy_server_def assms Let_def split: prod.split option.split)

lemma update_old:
  assumes "sm_servers m (px_ID cfg) = Some srv"
    and "(if px_Enabled cfg then start_server (enum (dom (sm_servers (unregister (px_ID cfg) m)))) cfg (unregister (px_ID cfg) m)
          else (None, unregister (px_ID cfg) m)) = (e, n)"
  shows "update_proxy_server enum cfg m =
    (case e of Some x \<Rightarrow> (Some x, register (px_ID cfg) srv (map_get '''' (sm_serverAddrs m) (px_ID cfg)) n)
     | None \<Rightarrow> (None, set_state srv Ended n))"
proof -
  have old: "(if Some srv \<noteq> None then unregister (px_ID cfg) m else m) = unregister (px_ID cfg) m" by simp
  show ?thesis unfolding update_proxy_server_def assms(1) Let_def old assms(2) by (simp split: option.split)
qed

lemma inv_update:
  assumes enum: "enumerates enum" and inv: "servers_inv m" and up: "update_proxy_server enum cfg m = (err, m')"
  shows "servers_inv m'"
proof (cases "sm_servers m (px_ID cfg)")
  case None
  then show ?thesis
    using up inv inv_start_server[OF inv enum_dom[OF enum inv]] by (auto simp: update_new split: if_splits)
next
  case (Some srv)
  let ?m = "unregister (px_ID cfg) m"
  obtain e n where st: "(if px_Enabled cfg then start_server (enum (dom (sm_servers ?m))) cfg ?m else (None, ?m)) = (e, n)"
    by fastforce
  note up = up[unfolded update_old[of m cfg srv enum, OF Some st]]
  have inv1: "servers_inv ?m" by (rule inv_unregister[OF inv])
  have n: "servers_inv n" using inv_start_server[OF inv1 enum_dom[OF enum inv1]] st inv1 by (auto split: if_splits)
  show ?thesis
  proof (cases e)
    case None
    then show ?thesis using up n by (auto simp: inv_set_state)
  next
    case (Some x)
    then have "n = ?m" using st start_server_error by (auto split: if_splits)
    then have "m' = register (px_ID cfg) srv (map_get '''' (sm_serverAddrs m) (px_ID cfg)) ?m"
      using up Some by simp
    moreover have "servers_inv \<dots>"
      using servers_invD(3-5)[OF inv] \<open>sm_servers m (px_ID cfg) = Some srv\<close>
      by (intro inv_register[OF inv1]) (auto simp: map_get_def)
    ultimately show ?thesis by simp
  qed
qed

lemma inv_delete: "servers_inv m \<Longrightarrow> servers_inv (delete_proxy_server i m)"
proof (cases "sm_servers m i")
  case None
  assume inv: "servers_inv m"
  then have "sm_serverAddrs m i = None" using None servers_invD(2)[OF inv] by (metis domIff)
  then show ?thesis using None inv by (simp add: delete_proxy_server_def servers_inv_def server_addr_def fun_upd_idem)
next
  case (Some s)
  assume "servers_inv m"
  then show ?thesis using Some by (simp add: delete_proxy_server_def Let_def inv_set_state inv_unregister)
qed

lemma inv_listen: "servers_inv m \<Longrightarrow> servers_inv (listen b s m)" "servers_inv m \<Longrightarrow> servers_inv (serve_failed s m)"
  by (auto simp: listen_def serve_failed_def inv_set_state inv_forget_server split: server_state.splits)

section \<open>Reachable states\<close>

inductive managed :: "server_manager \<Rightarrow> bool" where
  init: "managed new_server_manager"
| start: "managed m \<Longrightarrow> enumerates enum \<Longrightarrow> managed (snd (start_all enum listing m))"
| reload: "managed m \<Longrightarrow> enumerates enum \<Longrightarrow> managed (snd (reload_all enum listing m))"
| stop: "managed m \<Longrightarrow> managed (stop_all m)"
| add: "managed m \<Longrightarrow> enumerates enum \<Longrightarrow> managed (snd (add_proxy_server enum cfg m))"
| update: "managed m \<Longrightarrow> enumerates enum \<Longrightarrow> managed (snd (update_proxy_server enum cfg m))"
| delete: "managed m \<Longrightarrow> managed (delete_proxy_server i m)"
| listening: "managed m \<Longrightarrow> managed (listen bound srv m)"
| failing: "managed m \<Longrightarrow> managed (serve_failed srv m)"
| request: "managed m \<Longrightarrow> managed (snd (snd (plain_handler listing now r pm m)))"

lemma inv_start_all: "enumerates enum \<Longrightarrow> servers_inv m \<Longrightarrow> servers_inv (snd (start_all enum listing m))"
  by (cases listing) (auto simp: start_all_def inv_start_each[OF _ _ surjective_pairing])

lemma plain_handler_servers:
  "sm_servers (snd (snd (plain_handler listing now r pm m))) = sm_servers m"
  "sm_serverAddrs (snd (snd (plain_handler listing now r pm m))) = sm_serverAddrs m"
  "sm_heap (snd (snd (plain_handler listing now r pm m))) = sm_heap m"
  by (auto simp: plain_handler_def get_https_port_def Let_def split: prod.splits option.splits if_splits)

lemma managed_inv: "managed m \<Longrightarrow> servers_inv m"
proof (induction rule: managed.induct)
  case init
  show ?case by (simp add: servers_inv_def new_server_manager_def)
next
  case (add m enum cfg)
  then show ?case
    using inv_start_server[OF add.IH enum_dom[OF add.hyps(2) add.IH] surjective_pairing] by (simp add: add_proxy_server_def)
next
  case (request m listing now r pm)
  then show ?case by (simp add: servers_inv_def server_addr_def plain_handler_servers)
qed (simp_all add: inv_start_all reload_all_def inv_stop_all stop_all_def inv_update[OF _ _ surjective_pairing] inv_delete inv_listen)

text \<open>
  C38. In every reachable state the listeners are consistent: every registered proxy has a server, recorded with the protocol
  it speaks, and proxies with the same listening address share one server.
\<close>

theorem listeners_consistent:
  assumes "managed m"
  shows "dom (sm_serverAddrs m) = dom (sm_servers m) \<and>
    (\<forall>i s. sm_servers m i = Some s \<longrightarrow>
       sm_serverAddrs m i = Some (if hs_TLS (sm_heap m ! s) then ''https'' else ''http'')) \<and>
    (\<forall>i j s t. sm_servers m i = Some s \<longrightarrow> sm_servers m j = Some t \<longrightarrow>
       hs_Addr (sm_heap m ! s) = hs_Addr (sm_heap m ! t) \<longrightarrow> s = t)"
  using servers_invD(2,4,5)[OF managed_inv[OF assms]] unfolding protocol_of_def server_addr_def by metis

section \<open>Deletion and update\<close>

text \<open>
  C37. Deleting a proxy stops its server exactly when no other proxy uses it; every other proxy keeps its server, in the state
  it was in.
\<close>

theorem delete_spares_others:
  assumes "managed m" and "sm_servers m i = Some s"
  shows "sm_servers (delete_proxy_server i m) = (sm_servers m)(i := None) \<and>
    (\<forall>j t. j \<noteq> i \<longrightarrow> sm_servers m j = Some t \<longrightarrow>
       server_state_of (delete_proxy_server i m) t = server_state_of m t) \<and>
    server_state_of (delete_proxy_server i m) s =
      (if \<exists>j. j \<noteq> i \<and> sm_servers m j = Some s then server_state_of m s else Ended)"
proof -
  have s: "s < length (sm_heap m)" by (rule servers_invD(3)[OF managed_inv[OF assms(1)] assms(2)])
  have ran: "s \<in> ran ((sm_servers m)(i := None)) \<longleftrightarrow> (\<exists>j. j \<noteq> i \<and> sm_servers m j = Some s)"
    by (auto simp: ran_def)
  show ?thesis
    using assms(2) s ran by (auto simp: delete_proxy_server_def Let_def state_set_state)
qed

text \<open>
  An update shuts the old server down without looking who else uses it: a proxy that shared it stays registered with a
  server that has ended, and the updated proxy too when its address did not change.
\<close>

theorem update_ends_shared:
  assumes "managed m" and "sm_servers m (px_ID cfg) = Some s" and "sm_servers m j = Some s" "j \<noteq> px_ID cfg"
    and "enumerates enum" and "fst (update_proxy_server enum cfg m) = None"
  shows "sm_servers (snd (update_proxy_server enum cfg m)) j = Some s \<and>
    server_state_of (snd (update_proxy_server enum cfg m)) s = Ended \<and>
    (px_Enabled cfg \<longrightarrow> px_ListenAddr cfg = server_addr m s \<longrightarrow>
       sm_servers (snd (update_proxy_server enum cfg m)) (px_ID cfg) = Some s)"
proof -
  let ?m = "unregister (px_ID cfg) m"
  have inv: "servers_inv ?m" by (rule inv_unregister[OF managed_inv[OF assms(1)]])
  have s: "s < length (sm_heap m)" by (rule servers_invD(3)[OF managed_inv[OF assms(1)] assms(2)])
  obtain e n where st: "(if px_Enabled cfg then start_server (enum (dom (sm_servers ?m))) cfg ?m else (None, ?m)) = (e, n)"
    by fastforce
  note up = update_old[of m cfg s enum, OF assms(2) st]
  have e: "e = None" using assms(6) up by (cases e) auto
  have n: "servers_inv n \<and> s < length (sm_heap n) \<and> sm_servers n j = Some s \<and>
      (px_Enabled cfg \<longrightarrow> px_ListenAddr cfg = server_addr m s \<longrightarrow> sm_servers n (px_ID cfg) = Some s)"
  proof (cases "px_Enabled cfg")
    case False
    then show ?thesis using st inv s assms(3,4) by auto
  next
    case True
    then have "start_server (enum (dom (sm_servers ?m))) cfg ?m = (None, n)" using st e by simp
    then obtain t extra where t: "sm_servers n = (sm_servers ?m)(px_ID cfg \<mapsto> t)" "sm_heap n = sm_heap ?m @ extra"
      "server_addr n t = px_ListenAddr cfg" "servers_inv n"
      by (rule start_server_ok[OF inv enum_dom[OF assms(5) inv]])
    have j: "sm_servers n j = Some s" using t(1) assms(3,4) by simp
    have "t = s" if "px_ListenAddr cfg = server_addr m s"
      using servers_invD(5)[OF t(4), of "px_ID cfg" t j s] t(1-3) j that s by (simp add: server_addr_def nth_append)
    then show ?thesis using t j s by auto
  qed
  then show ?thesis unfolding up e by (simp add: state_set_state)
qed

text \<open>
  A server that ended never listens again: whatever the goroutines do, every proxy added at its address afterwards
  is registered with it, and answers nobody.
\<close>

theorem ended_address_stays_dead:
  assumes "managed m" and "sm_servers m j = Some s" and "server_state_of m s = Ended"
    and "enumerates enum" and "px_ListenAddr cfg = server_addr m s" "px_Enabled cfg"
    and "fst (add_proxy_server enum cfg m) = None"
  shows "sm_servers (snd (add_proxy_server enum cfg m)) (px_ID cfg) = Some s \<and>
    server_state_of (listen bound s (snd (add_proxy_server enum cfg m))) s = Ended"
proof -
  have inv: "servers_inv m" by (rule managed_inv[OF assms(1)])
  obtain n where n: "start_server (enum (dom (sm_servers m))) cfg m = (None, n)" "add_proxy_server enum cfg m = (None, n)"
    using assms(6,7) by (cases "start_server (enum (dom (sm_servers m))) cfg m") (auto simp: add_proxy_server_def)
  obtain t extra where t: "sm_servers n = (sm_servers m)(px_ID cfg \<mapsto> t)" "sm_heap n = sm_heap m @ extra"
    "server_addr n t = px_ListenAddr cfg" "servers_inv n" "sm_servers m (px_ID cfg) = None"
    by (rule start_server_ok[OF inv enum_dom[OF assms(4) inv] n(1)])
  have s: "s < length (sm_heap m)" by (rule servers_invD(3)[OF inv assms(2)])
  have j: "sm_servers n j = Some s" using t(1,5) assms(2) by auto
  have "t = s"
    using servers_invD(5)[OF t(4), of "px_ID cfg" t j s] t(1-3) j s assms(5) by (simp add: server_addr_def nth_append)
  moreover have "server_state_of n s = Ended" using t(2) s assms(3) by (simp add: server_state_of_def nth_append)
  ultimately show ?thesis using n(2) t(1) by (simp add: listen_def)
qed

section \<open>Reload\<close>

lemma start_server_succeeds:
  assumes "servers_inv m" "set order = dom (sm_servers m)" "sm_servers m (px_ID cfg) = None" "px_ListenAddr cfg \<noteq> ''''"
    and "validate_protocol_list (px_Protocol cfg) = None"
    and "\<And>j t. \<lbrakk>sm_servers m j = Some t; server_addr m t = px_ListenAddr cfg\<rbrakk> \<Longrightarrow>
      protocol_of (sm_heap m ! t) = listen_protocol (px_Protocol cfg)"
  shows "fst (start_server order cfg m) = None"
proof (cases "find (listens_at m cfg) order")
  case None
  then show ?thesis using assms by (simp add: start_server_def Let_def)
next
  case (Some i)
  then obtain s where "sm_servers m i = Some s" "server_addr m s = px_ListenAddr cfg" by (rule found_listener)
  then show ?thesis
    using assms Some servers_invD(4)[OF assms(1)] by (simp add: start_server_def Let_def map_get_def)
qed

text \<open>What a configuration the listeners can be started from looks like.\<close>

definition startable :: "proxy_config list \<Rightarrow> bool" where
  "startable cfgs \<longleftrightarrow>
     distinct (map px_ID cfgs) \<and>
     list_all (\<lambda>cfg. px_ListenAddr cfg \<noteq> '''' \<and> validate_protocol_list (px_Protocol cfg) = None) cfgs \<and>
     list_all (\<lambda>cfg. list_all (\<lambda>cfg'. px_ListenAddr cfg = px_ListenAddr cfg' \<longrightarrow>
       listen_protocol (px_Protocol cfg) = listen_protocol (px_Protocol cfg')) cfgs) cfgs"

definition runs :: "server_manager \<Rightarrow> proxy_config \<Rightarrow> bool" where
  "runs m cfg \<longleftrightarrow> (case sm_servers m (px_ID cfg) of
       None \<Rightarrow> False
     | Some s \<Rightarrow> server_addr m s = px_ListenAddr cfg \<and> server_state_of m s = Starting \<and>
                 hs_TLS (sm_heap m ! s) = (listen_protocol (px_Protocol cfg) = ''https''))"

lemma protocol_of_tls: "protocol_of h = listen_protocol p \<Longrightarrow> hs_TLS h \<longleftrightarrow> listen_protocol p = ''https''"
  by (auto simp: protocol_of_def split: if_splits)

lemma start_each_runs:
  assumes "startable (done @ cfgs)" "list_all px_Enabled (done @ cfgs)" "enumerates enum" "servers_inv m"
    and "dom (sm_servers m) = px_ID ` set done" "\<forall>cfg \<in> set done. runs m cfg"
  shows "\<exists>m'. start_each enum cfgs None m = (None, m') \<and> dom (sm_servers m') = px_ID ` set (done @ cfgs) \<and>
    (\<forall>cfg \<in> set (done @ cfgs). runs m' cfg) \<and> (\<forall>s < length (sm_heap m). sm_heap m' ! s = sm_heap m ! s)"
  using assms
proof (induction cfgs arbitrary: "done" m)
  case (Cons cfg cfgs)
  let ?order = "enum (dom (sm_servers m))"
  have new: "sm_servers m (px_ID cfg) = None"
    using Cons.prems(1,5) by (auto simp: startable_def domIff[symmetric])
  have prot: "protocol_of (sm_heap m ! t) = listen_protocol (px_Protocol cfg)"
    if t: "sm_servers m j = Some t" "server_addr m t = px_ListenAddr cfg" for j t
  proof -
    from t(1) obtain d where d: "d \<in> set done" "px_ID d = j" using Cons.prems(5) by (metis domI imageE)
    then have "runs m d" using Cons.prems(6) by blast
    then have "hs_TLS (sm_heap m ! t) = (listen_protocol (px_Protocol d) = ''https'')" "px_ListenAddr d = px_ListenAddr cfg"
      using t d(2) by (auto simp: runs_def)
    moreover have "listen_protocol (px_Protocol d) = listen_protocol (px_Protocol cfg)"
      using Cons.prems(1) d(1) calculation(2) by (auto simp: startable_def list_all_iff)
    ultimately show ?thesis using listen_protocol_cases[of "px_Protocol cfg"] by (auto simp: protocol_of_def)
  qed
  have "fst (start_server ?order cfg m) = None"
    using Cons.prems(1) by (intro start_server_succeeds[OF Cons.prems(4) enum_dom[OF Cons.prems(3,4)] new _ _ prot])
      (auto simp: startable_def)
  then obtain n where n: "start_server ?order cfg m = (None, n)" by (cases "start_server ?order cfg m") auto
  obtain s extra where s: "sm_servers n = (sm_servers m)(px_ID cfg \<mapsto> s)" "sm_heap n = sm_heap m @ extra"
    "s < length (sm_heap n)" "server_addr n s = px_ListenAddr cfg" "protocol_of (sm_heap n ! s) = listen_protocol (px_Protocol cfg)"
    "(\<exists>j \<noteq> px_ID cfg. sm_servers m j = Some s) \<and> extra = [] \<or>
     s = length (sm_heap m) \<and> extra = [new_http_server (px_ListenAddr cfg) (listen_protocol (px_Protocol cfg))]" "servers_inv n"
    by (rule start_server_ok[OF Cons.prems(4) enum_dom[OF Cons.prems(3,4)] n])
  have keep: "runs n d" if "d \<in> set done" for d
  proof -
    have "runs m d" using Cons.prems(6) that by blast
    moreover have "px_ID cfg \<notin> px_ID ` set done" using Cons.prems(1) by (simp add: startable_def)
    then have "px_ID d \<noteq> px_ID cfg" using that by (metis imageI)
    moreover have "t < length (sm_heap m)" if "sm_servers m (px_ID d) = Some t" for t
      by (rule servers_invD(3)[OF Cons.prems(4) that])
    ultimately show ?thesis
      using s(1,2) by (auto simp: runs_def server_addr_def server_state_of_def nth_append split: option.splits)
  qed
  have "server_state_of n s = Starting"
  proof (cases "s = length (sm_heap m) \<and> extra = [new_http_server (px_ListenAddr cfg) (listen_protocol (px_Protocol cfg))]")
    case True
    then show ?thesis using s(2) by (simp add: server_state_of_def new_http_server_def)
  next
    case False
    then obtain j where j: "sm_servers m j = Some s" "j \<noteq> px_ID cfg" "extra = []" using s(6) by blast
    obtain d where "d \<in> set done" "px_ID d = j" using j(1) Cons.prems(5) by (metis domI imageE)
    then show ?thesis using keep[of d] j s(1) by (simp add: runs_def)
  qed
  then have "runs n cfg" using s(1,4) protocol_of_tls[OF s(5)] by (simp add: runs_def)
  moreover have "dom (sm_servers n) = px_ID ` set (done @ [cfg])" using s(1) Cons.prems(5) by auto
  ultimately obtain m' where m': "start_each enum cfgs None n = (None, m')" "dom (sm_servers m') = px_ID ` set ((done @ [cfg]) @ cfgs)"
    "\<forall>cfg \<in> set ((done @ [cfg]) @ cfgs). runs m' cfg" "\<forall>s < length (sm_heap n). sm_heap m' ! s = sm_heap n ! s"
    using Cons.IH[of "done @ [cfg]" n] Cons.prems(1-3) s(7) keep by (auto simp: ball_Un)
  have "\<forall>s < length (sm_heap m). sm_heap m' ! s = sm_heap m ! s" using m'(4) s(2) by (simp add: nth_append)
  then show ?case using m'(1-3) n Cons.prems(2) by auto
qed simp

lemma start_each_disabled: "start_each enum cfgs err m = start_each enum (filter px_Enabled cfgs) err m"
proof (induction cfgs arbitrary: err m)
  case (Cons cfg cfgs)
  then show ?case by (auto split: prod.split option.split)
qed simp

text \<open>
  C39. When the proxies can be listed, and the enabled ones are startable (distinct ids, valid protocols, addresses that are not empty,
  none with two protocols), a reload ends every server in use and starts the enabled proxies, all of them, each with a server of its own
  address and protocol that is about to listen; nothing else stays registered.
\<close>

theorem reload_starts_all:
  assumes "managed m" and "enumerates enum" and "startable (filter px_Enabled cfgs)"
  shows "fst (reload_all enum (Inr cfgs) m) = None \<and>
    dom (sm_servers (snd (reload_all enum (Inr cfgs) m))) = px_ID ` set (filter px_Enabled cfgs) \<and>
    list_all (runs (snd (reload_all enum (Inr cfgs) m))) (filter px_Enabled cfgs) \<and>
    (\<forall>i s. sm_servers m i = Some s \<longrightarrow> server_state_of (snd (reload_all enum (Inr cfgs) m)) s = Ended)"
proof -
  let ?m = "stop_all_locked m"
  obtain m' where m': "start_each enum (filter px_Enabled cfgs) None ?m = (None, m')"
    "dom (sm_servers m') = px_ID ` set (filter px_Enabled cfgs)" "\<forall>cfg \<in> set (filter px_Enabled cfgs). runs m' cfg"
    "\<forall>s < length (sm_heap ?m). sm_heap m' ! s = sm_heap ?m ! s"
    using start_each_runs[of "[]" "filter px_Enabled cfgs" enum ?m] assms(2,3) inv_stop_all[of m]
    by (auto simp: list_all_iff stop_all_locked_def)
  have r: "reload_all enum (Inr cfgs) m = (None, m')"
    using m'(1) start_each_disabled[of enum cfgs None ?m] by (simp add: reload_all_def start_all_def)
  have "server_state_of m' s = Ended" if "sm_servers m i = Some s" for i s
    using servers_invD(3)[OF managed_inv[OF assms(1)] that] m'(4) that
    by (auto simp: server_state_of_def stop_all_locked_def ran_def)
  then show ?thesis unfolding r using m'(2,3) by (simp add: list_all_iff)
qed

section \<open>Certificates\<close>

lemma first_certificate_some:
  "first_certificate now name certs ds = Some pair \<Longrightarrow>
   \<exists>d \<in> set ds. serves_name name d \<and>
     (\<exists>c. get_cert now (dc_CertID d) certs = Some c \<and> cert_alive now c \<and> pair = (ce_CertPEM c, ce_KeyPEM c))"
  by (induction ds) (auto split: if_splits option.splits)

lemma first_certificate_none:
  "first_certificate now name certs ds = None \<longleftrightarrow>
   (\<forall>d \<in> set ds. serves_name name d \<longrightarrow> (\<forall>c. get_cert now (dc_CertID d) certs = Some c \<longrightarrow> \<not> cert_alive now c))"
  by (induction ds) (auto split: option.splits)

text \<open>
  A server name gets a certificate exactly when an enabled domain with that name, or a wild card for it, has one in
  force, or ACME made one that is in force; and the one it gets is one of these.
\<close>

theorem certificate_in_force:
  assumes "name \<noteq> ''''"
  shows "(get_certificate True now name certs (Some pm) \<noteq> None \<longleftrightarrow>
      (\<exists>d \<in> set (list_domains pm). serves_name name d \<and> (\<exists>c. get_cert now (dc_CertID d) certs = Some c \<and> cert_alive now c)) \<or>
      (\<exists>c. get_cert_by_domain_and_source now name ''acme'' certs = Some c \<and> cert_alive now c)) \<and>
    (\<forall>pair. get_certificate True now name certs (Some pm) = Some pair \<longrightarrow>
      (\<exists>c. cert_alive now c \<and> pair = (ce_CertPEM c, ce_KeyPEM c) \<and>
        ((\<exists>d \<in> set (list_domains pm). serves_name name d \<and> get_cert now (dc_CertID d) certs = Some c) \<or>
         get_cert_by_domain_and_source now name ''acme'' certs = Some c)))"
proof (cases "first_certificate now name certs (list_domains pm)")
  case None
  then show ?thesis
    using assms first_certificate_none[of now name certs "list_domains pm"]
    by (auto simp: get_certificate_def split: option.split)
next
  case (Some pair)
  then show ?thesis
    using first_certificate_some[OF Some] by (auto simp: get_certificate_def)
qed

text \<open>
  A wild card comes before the name itself: domains are looked at in the order of their names, and \<open>*\<close> sorts before every
  letter and digit. A domain with a certificate of its own is answered with the certificate of the wild card.
\<close>

theorem wildcard_before_name:
  assumes "pm_domains pm = [w, d] \<or> pm_domains pm = [d, w]"
    and "dw_domain w = ''*.'' @ zone" and "dw_domain d = c # label @ CHR ''.'' # zone" "of_char c > (42 :: nat)" "CHR ''.'' \<notin> set (c # label)"
    and "dw_cert_id w = Some i" "i \<noteq> ''''" "dw_enabled w = 1" "get_cert now i certs = Some cert" "cert_alive now cert"
  shows "get_certificate True now (dw_domain d) certs (Some pm) = Some (ce_CertPEM cert, ce_KeyPEM cert)"
proof -
  have less: "bytes_of (dw_domain w) < bytes_of (dw_domain d)" using assms(2-4) by (simp add: bytes_of_def)
  then have "sort_key (\<lambda>r. bytes_of (dw_domain r)) (pm_domains pm) = [w, d]" using assms(1) by auto
  then have "\<exists>cfg ds. list_domains pm = cfg # ds \<and> scan_domain w = Some cfg"
    using assms(6) by (simp add: list_domains_def scan_domain_def scan_domain_with_def List.map_filter_simps)
  then obtain cfg ds where l: "list_domains pm = cfg # ds" "scan_domain w = Some cfg" by blast
  have "match_wildcard (dw_domain w) (dw_domain d)"
    using assms(2,3,5) by (simp add: match_wildcard_def has_prefix_def has_suffix_def Let_def)
  then have "serves_name (dw_domain d) cfg" "dc_CertID cfg = i"
    using l(2) assms(6-8) by (auto simp: scan_domain_def scan_domain_with_def serves_name_def)
  then show ?thesis using l(1) assms(9,10) by (simp add: get_certificate_def)
qed

subsection \<open>The cache\<close>

definition scan_entry :: "'c cert_cache \<Rightarrow> string \<times> instant \<Rightarrow> string \<Rightarrow> string \<times> instant" where
  "scan_entry cache = (\<lambda>(oldestKey, oldestTime) k.
     case cache k of
       None \<Rightarrow> (oldestKey, oldestTime)
     | Some v \<Rightarrow> if cc_cacheTime v < oldestTime then (k, cc_cacheTime v) else (oldestKey, oldestTime))"

lemma oldest_entry_scan: "oldest_entry cache order now = fst (foldl (scan_entry cache) ('''', now) order)"
  by (simp add: oldest_entry_def scan_entry_def)

lemma scan_result:
  "foldl (scan_entry cache) acc order = (k, t) \<Longrightarrow>
   ((k, t) = acc \<or> (\<exists>v. cache k = Some v \<and> cc_cacheTime v = t \<and> t < snd acc)) \<and>
   t \<le> snd acc \<and> (\<forall>j \<in> set order. \<forall>v. cache j = Some v \<longrightarrow> t \<le> cc_cacheTime v)"
proof (induction order arbitrary: acc)
  case (Cons j order)
  from Cons.IH[of "scan_entry cache acc j"] Cons.prems show ?case
    by (cases acc) (auto simp: scan_entry_def split: option.splits if_splits)
qed simp

definition older_than :: "instant \<Rightarrow> 'c cert_cache \<Rightarrow> bool" where
  "older_than now cache \<longleftrightarrow> finite (dom cache) \<and> (\<forall>k v. cache k = Some v \<longrightarrow> cc_cacheTime v < now)"

lemma oldest_in_dom:
  assumes "older_than now cache" "set order = dom cache" "dom cache \<noteq> {}"
  shows "oldest_entry cache order now \<in> dom cache"
proof -
  obtain k t where kt: "foldl (scan_entry cache) ('''', now) order = (k, t)" by fastforce
  obtain j v where j: "cache j = Some v" using assms(3) by blast
  have "t \<le> cc_cacheTime v" using scan_result[OF kt] j assms(2) by auto
  moreover have "cc_cacheTime v < now" using assms(1) j by (auto simp: older_than_def)
  ultimately have "(k, t) \<noteq> ('''', now)" by auto
  then show ?thesis using scan_result[OF kt] kt by (auto simp: oldest_entry_scan)
qed

lemma tls_load_cache:
  "load_certificate parse lookup order now name cache = (r, cache') \<Longrightarrow>
   cache' = cache \<or> (\<exists>c. cache' = (evict_certificate order now cache)(name \<mapsto> \<lparr>cc_cert = c, cc_cacheTime = now\<rparr>) \<and> lookup name \<noteq> None)"
  by (auto simp: load_certificate_def split: option.splits sum.splits)

lemma tls_cache:
  "get_tls_certificate parse lookup order now hello cache = (r, cache') \<Longrightarrow>
   cache' = cache \<or>
   (\<exists>c name. cache' = (evict_certificate order now cache)(name \<mapsto> \<lparr>cc_cert = c, cc_cacheTime = now\<rparr>) \<and> lookup name \<noteq> None)"
  by (auto simp: get_tls_certificate_def Let_def dest!: tls_load_cache split: option.splits if_splits)

text \<open>
  The cache keeps at most 256 certificates as long as no client connected without a server name, whose entry is
  never evicted, and as long as the clock moves between two entries.
\<close>

theorem cert_cache_bounded:
  assumes "older_than now cache" "set order = dom cache" "'''' \<notin> dom cache" "card (dom cache) \<le> 256"
    and "lookup '''' = None"
    and "get_tls_certificate parse lookup order now hello cache = (r, cache')"
  shows "card (dom cache') \<le> 256 \<and> '''' \<notin> dom cache' \<and> (\<forall>later > now. older_than later cache')"
proof (cases "cache' = cache")
  case True
  then show ?thesis using assms(1,3,4) by (simp add: older_than_def) (metis order_less_trans)
next
  case False
  then obtain c name where c: "cache' = (evict_certificate order now cache)(name \<mapsto> \<lparr>cc_cert = c, cc_cacheTime = now\<rparr>)"
    "lookup name \<noteq> None" using tls_cache[OF assms(6)] by blast
  let ?e = "evict_certificate order now cache"
  have fin: "finite (dom cache)" using assms(1) by (simp add: older_than_def)
  have "card (dom ?e) < 256 \<and> ?e \<subseteq>\<^sub>m cache"
  proof (cases "card (dom cache) \<ge> 256")
    case True
    then have "dom cache \<noteq> {}" by auto
    from oldest_in_dom[OF assms(1,2) this] have in_dom: "oldest_entry cache order now \<in> dom cache" .
    then have "oldest_entry cache order now \<noteq> ''''" using assms(3) by metis
    then have e: "?e = cache(oldest_entry cache order now := None)"
      using True by (simp add: evict_certificate_def cert_cache_max_size_def Let_def)
    have "dom ?e = dom cache - {oldest_entry cache order now}" unfolding e by auto
    then have "card (dom ?e) = card (dom cache) - 1" using in_dom fin by simp
    moreover have "?e \<subseteq>\<^sub>m cache" unfolding e by (simp add: map_le_def)
    ultimately show ?thesis using assms(4) True by simp
  next
    case False
    then have "?e = cache" by (simp add: evict_certificate_def cert_cache_max_size_def)
    with False show ?thesis by simp
  qed
  then have e: "card (dom ?e) < 256" "?e \<subseteq>\<^sub>m cache" by blast+
  have "finite (dom ?e)" using fin map_le_implies_dom_le[OF e(2)] by (rule rev_finite_subset)
  moreover have "cc_cacheTime v < later" if "?e k = Some v" "later > now" for k v later
  proof -
    have "cache k = Some v" using e(2) that(1) by (metis domI map_le_def)
    then show ?thesis using assms(1) that(2) by (auto simp: older_than_def intro: order_less_trans)
  qed
  moreover have "card (dom cache') \<le> 256" unfolding c(1) using e(1) \<open>finite (dom ?e)\<close> by (auto simp: card_insert_if)
  moreover have "'''' \<notin> dom cache'" unfolding c(1) using c(2) assms(3,5) map_le_implies_dom_le[OF e(2)] by auto
  ultimately show ?thesis unfolding c(1) by (auto simp: older_than_def)
qed

text \<open>
  One connection without a server name stops the eviction: while its entry is the oldest, its empty key reads as "none
  found", nothing is evicted, and every further name adds an entry beyond the bound.
\<close>

theorem nameless_entry_stops_eviction:
  assumes "cache '''' = Some e" and "\<forall>k v. cache k = Some v \<longrightarrow> k \<noteq> '''' \<longrightarrow> cc_cacheTime e < cc_cacheTime v"
    and "'''' \<in> set order" "cc_cacheTime e < now"
  shows "evict_certificate order now cache = cache"
proof -
  obtain k t where kt: "foldl (scan_entry cache) ('''', now) order = (k, t)" by fastforce
  have "t \<le> cc_cacheTime e" using scan_result[OF kt] assms(1,3) by auto
  then have "k = ''''" using scan_result[OF kt] assms(2,4) by (metis order.strict_iff_not snd_conv fst_conv)
  then have "oldest_entry cache order now = ''''" using kt by (simp add: oldest_entry_scan)
  then show ?thesis by (simp add: evict_certificate_def)
qed

section \<open>The redirection\<close>

text \<open>
  On a plain listener a request for a domain that forces HTTPS reaches the proxy only when it asks for a web socket;
  two headers are enough for that.
\<close>

theorem force_https_redirects:
  assumes "fst (get_domain_by_name (strip_port (rq_Host r)) pm) = Some cfg" and "dc_ForceHTTPS cfg"
  shows "fst (plain_handler listing now r pm m) = ToProxy \<longleftrightarrow>
    (let c = to_lower (header_get (rq_Header r) ''Connection'')
     in str_contains c ''upgrade'' \<and> to_lower (header_get (rq_Header r) ''Upgrade'') = ''websocket'')"
proof -
  have "str_contains ''upgrade'' ''upgrade''" by code_simp
  then have ws: "is_ws_request r \<longleftrightarrow> (let c = to_lower (header_get (rq_Header r) ''Connection'')
     in str_contains c ''upgrade'' \<and> to_lower (header_get (rq_Header r) ''Upgrade'') = ''websocket'')"
    by (auto simp: is_ws_request_def Let_def)
  show ?thesis
    unfolding ws[symmetric] using assms
    by (cases "get_https_port listing now m") (auto simp: plain_handler_def Let_def split: prod.split if_splits)
qed

section \<open>Witnesses\<close>

definition enum_strings :: "string set \<Rightarrow> string list" where
  "enum_strings = sorted_list_of_set"

lemma enum_strings_ok: "enumerates enum_strings"
  by (simp add: enumerates_def enum_strings_def)

definition sample_proxy :: "string \<Rightarrow> proxy_config" where
  "sample_proxy i = \<lparr>px_ID = i, px_ListenAddr = '':80'', px_Protocol = ''http'', px_Enabled = True, px_CreatedAt = 0, px_UpdatedAt = 0\<rparr>"

lemma sample_protocol: "validate_protocol_list ''http'' = None" "listen_protocol ''http'' = ''http''"
  by code_simp+

definition sample_servers :: server_manager where
  "sample_servers = new_server_manager\<lparr>sm_servers := [''p1'' \<mapsto> 0, ''p2'' \<mapsto> 0],
     sm_serverAddrs := [''p1'' \<mapsto> ''http'', ''p2'' \<mapsto> ''http''], sm_heap := [new_http_server '':80'' ''http'']\<rparr>"

lemma sample_add_first:
  "add_proxy_server enum_strings (sample_proxy ''p1'') new_server_manager =
   (None, new_server_manager\<lparr>sm_servers := [''p1'' \<mapsto> 0], sm_serverAddrs := [''p1'' \<mapsto> ''http''],
      sm_heap := [new_http_server '':80'' ''http'']\<rparr>)"
  by (simp add: add_proxy_server_def start_server_def sample_proxy_def sample_protocol new_server_manager_def register_def Let_def
      enum_strings_def)

lemma sample_add_second:
  "add_proxy_server enum_strings (sample_proxy ''p2'') (snd (add_proxy_server enum_strings (sample_proxy ''p1'') new_server_manager)) =
   (None, sample_servers)"
  unfolding sample_add_first
  by (simp add: add_proxy_server_def start_server_def sample_proxy_def sample_protocol new_server_manager_def register_def Let_def
      enum_strings_def listens_at_def server_addr_def new_http_server_def map_get_def sample_servers_def fun_upd_twist)

lemma sample_managed: "managed sample_servers"
  using managed.add[OF managed.add[OF managed.init enum_strings_ok] enum_strings_ok, of "sample_proxy ''p2''" "sample_proxy ''p1''"]
  by (simp add: sample_add_second)

theorem listeners_consistent_witness: "dom (sm_serverAddrs sample_servers) = dom (sm_servers sample_servers)"
  using listeners_consistent[OF sample_managed] by blast

lemma sample_shared: "sm_servers sample_servers ''p1'' = Some 0" "sm_servers sample_servers ''p2'' = Some 0"
  by (simp_all add: sample_servers_def new_server_manager_def)

theorem delete_spares_others_witness:
  "server_state_of (delete_proxy_server ''p1'' sample_servers) 0 = Starting"
proof -
  have "server_state_of sample_servers 0 = Starting"
    by (simp add: server_state_of_def sample_servers_def new_server_manager_def new_http_server_def)
  moreover have "\<exists>j. j \<noteq> ''p1'' \<and> sm_servers sample_servers j = Some 0"
    using sample_shared(2) by (intro exI[of _ "''p2''"]) simp
  ultimately show ?thesis using delete_spares_others[OF sample_managed sample_shared(1)] by simp
qed

lemma sample_update: "fst (update_proxy_server enum_strings (sample_proxy ''p1'') sample_servers) = None"
proof -
  let ?m = "unregister ''p1'' sample_servers"
  have old: "sm_servers sample_servers (px_ID (sample_proxy ''p1'')) = Some 0"
    using sample_shared(1) by (simp add: sample_proxy_def)
  obtain e n where st: "start_server (enum_strings (dom (sm_servers ?m))) (sample_proxy ''p1'') ?m = (e, n)" by fastforce
  have inv: "servers_inv ?m" by (rule inv_unregister[OF managed_inv[OF sample_managed]])
  have "fst (start_server (enum_strings (dom (sm_servers ?m))) (sample_proxy ''p1'') ?m) = None"
  proof (rule start_server_succeeds[OF inv enum_dom[OF enum_strings_ok inv]])
    fix j t assume "sm_servers ?m j = Some t"
    then have "t = 0" by (auto simp: sample_servers_def split: if_splits)
    then show "protocol_of (sm_heap ?m ! t) = listen_protocol (px_Protocol (sample_proxy ''p1''))"
      by (simp add: sample_servers_def protocol_of_def new_http_server_def sample_proxy_def sample_protocol)
  qed (simp_all add: sample_proxy_def sample_protocol)
  then have "e = None" using st by simp
  then show ?thesis
    using update_old[of sample_servers "sample_proxy ''p1''" 0 enum_strings e n] old st by (simp add: sample_proxy_def)
qed

theorem update_ends_shared_witness:
  "sm_servers (snd (update_proxy_server enum_strings (sample_proxy ''p1'') sample_servers)) ''p2'' = Some 0 \<and>
   server_state_of (snd (update_proxy_server enum_strings (sample_proxy ''p1'') sample_servers)) 0 = Ended"
  using update_ends_shared[OF sample_managed _ _ _ enum_strings_ok sample_update, of 0 "''p2''"]
  by (simp add: sample_servers_def new_server_manager_def sample_proxy_def)

theorem reload_starts_all_witness:
  "dom (sm_servers (snd (reload_all enum_strings (Inr [sample_proxy ''p3'', sample_proxy ''p4'']) sample_servers))) = {''p3'', ''p4''} \<and>
   server_state_of (snd (reload_all enum_strings (Inr [sample_proxy ''p3'', sample_proxy ''p4'']) sample_servers)) 0 = Ended"
proof -
  have s: "startable (filter px_Enabled [sample_proxy ''p3'', sample_proxy ''p4''])"
    by (simp add: startable_def sample_proxy_def sample_protocol)
  have p: "sm_servers sample_servers ''p1'' = Some 0" by (simp add: sample_servers_def new_server_manager_def)
  from reload_starts_all[OF sample_managed enum_strings_ok s] p show ?thesis by (simp add: sample_proxy_def)
qed

theorem cert_cache_bounded_witness:
  "card (dom (snd (get_tls_certificate (\<lambda>c k. Inr c) [''a.org'' \<mapsto> (''pem'', ''key'')] [''b.org''] 5 (Some ''a.org'')
     [''b.org'' \<mapsto> \<lparr>cc_cert = ''other'', cc_cacheTime = 3\<rparr>]))) \<le> 256"
proof -
  let ?c = "[''b.org'' \<mapsto> \<lparr>cc_cert = ''other'', cc_cacheTime = 3\<rparr>]"
  have old: "older_than 5 ?c" by (simp add: older_than_def)
  show ?thesis
    by (rule cert_cache_bounded[OF old _ _ _ _ surjective_pairing, THEN conjunct1]) simp_all
qed

theorem nameless_entry_stops_eviction_witness:
  "evict_certificate [''a'', ''''] 9 ['''' \<mapsto> \<lparr>cc_cert = (), cc_cacheTime = 1\<rparr>, ''a'' \<mapsto> \<lparr>cc_cert = (), cc_cacheTime = 2\<rparr>] =
   ['''' \<mapsto> \<lparr>cc_cert = (), cc_cacheTime = 1\<rparr>, ''a'' \<mapsto> \<lparr>cc_cert = (), cc_cacheTime = 2\<rparr>]"
  by (rule nameless_entry_stops_eviction[of _ "\<lparr>cc_cert = (), cc_cacheTime = 1\<rparr>"]) simp_all

definition sample_domain :: domain_row where
  "sample_domain = \<lparr>dw_id = ''d'', dw_domain = ''a.org'', dw_proxy_ids = None, dw_backend_ids = None, dw_group_id = None,
     dw_cert_id = Some ''c1'', dw_enabled = 1, dw_force_https = 1, dw_proxy_id = None\<rparr>"

definition sample_config :: pc_manager where
  "sample_config = \<lparr>pm_proxies = [], pm_domains = [sample_domain], pm_config = Map.empty, pm_keys = [], pm_cache = Map.empty\<rparr>"

definition sample_cert :: cert_row where
  "sample_cert = \<lparr>cert_row.cr_id = ''c1'', cert_row.cr_name = None, cert_row.cr_domains = Some ''a.org'', cert_row.cr_cert_pem = ''pem'', cert_row.cr_key_pem = ''key'',
     cert_row.cr_not_before = 0, cert_row.cr_not_after = 100, cert_row.cr_issuer = None, cert_row.cr_subject = None, cert_row.cr_created_at = 0, cert_row.cr_source = None, cert_row.cr_auto_renew = None\<rparr>"

theorem certificate_in_force_witness:
  "get_certificate True 0 ''a.org'' [sample_cert] (Some sample_config) \<noteq> None"
proof -
  have "\<exists>d \<in> set (list_domains sample_config). serves_name ''a.org'' d \<and>
      (\<exists>c. get_cert 0 (dc_CertID d) [sample_cert] = Some c \<and> cert_alive 0 c)"
    by (simp add: list_domains_def List.map_filter_simps sample_config_def sample_domain_def scan_domain_def scan_domain_with_def
        serves_name_def get_cert_def sample_cert_def scan_cert_with_def cert_alive_def)
  with certificate_in_force[of "''a.org''" 0 "[sample_cert]" sample_config] show ?thesis by simp
qed

definition wildcard_domain :: domain_row where
  "wildcard_domain = sample_domain\<lparr>dw_id := ''w'', dw_domain := ''*.org''\<rparr>"

theorem wildcard_before_name_witness:
  "get_certificate True 0 ''a.org'' [sample_cert] (Some (sample_config\<lparr>pm_domains := [sample_domain, wildcard_domain]\<rparr>)) = Some (''pem'', ''key'')"
  using wildcard_before_name[of "sample_config\<lparr>pm_domains := [sample_domain, wildcard_domain]\<rparr>" wildcard_domain sample_domain "''org''"
      "CHR ''a''" "''''" "''c1''" 0 "[sample_cert]" "scan_cert_with True True ''manual'' True 0 sample_cert"]
  by (simp add: wildcard_domain_def sample_domain_def get_cert_def sample_cert_def cert_alive_def scan_cert_with_def)

theorem force_https_redirects_witness:
  "fst (plain_handler None 0 \<lparr>rq_Method = ''GET'', rq_Path = ''/'', rq_RawQuery = '''', rq_Proto = ''HTTP/1.1'', rq_Host = ''a.org'',
      rq_RemoteAddr = '''', rq_TLS = False, rq_ContentLength = 0, rq_Header = no_headers, rq_Body = None\<rparr>
      sample_config new_server_manager) \<noteq> ToProxy"
proof -
  let ?r = "\<lparr>rq_Method = ''GET'', rq_Path = ''/'', rq_RawQuery = '''', rq_Proto = ''HTTP/1.1'', rq_Host = ''a.org'',
      rq_RemoteAddr = '''', rq_TLS = False, rq_ContentLength = 0, rq_Header = no_headers, rq_Body = None\<rparr>"
  have host: "strip_port ''a.org'' = ''a.org''" by (simp add: strip_port_def last_index_def)
  have "fst (get_domain_by_name (strip_port (rq_Host ?r)) sample_config) = scan_domain sample_domain"
    using host by (simp add: get_domain_by_name_def lookup_domain_def sample_config_def scan_domain_def scan_domain_with_def sample_domain_def)
  then have "\<exists>cfg. fst (get_domain_by_name (strip_port (rq_Host ?r)) sample_config) = Some cfg \<and> dc_ForceHTTPS cfg"
    by (simp add: scan_domain_def scan_domain_with_def sample_domain_def)
  moreover have "\<not> (let c = to_lower (header_get (rq_Header ?r) ''Connection'')
     in str_contains c ''upgrade'' \<and> to_lower (header_get (rq_Header ?r) ''Upgrade'') = ''websocket'')"
    by (simp add: header_get_def header_values_def no_headers_def to_lower_def has_prefix_def)
  ultimately show ?thesis using force_https_redirects[of ?r sample_config _ None 0 new_server_manager] by blast
qed

end
