(* ===== verification/RingBuffers.thy ===== *)
theory RingBuffers
  imports GoText
begin

text \<open>
  The ring buffers that keep what happened last: the blocked requests for the dashboard (\<open>infra/event/ring.go\<close>) and the last
  lines of the log (\<open>infra/logger/ringbuf.go\<close>).

  \<^item> The ring of \<open>container/ring\<close> is the list of its values with the index of the current element; the slice of the log is a list
    with its capacity.
  \<^item> The locale \<open>newest\<close> states what a buffer of a given size promises: it shows what was added last, the newest first. Both buffers
    are interpretations.
\<close>

section \<open>The contract\<close>

locale newest =
  fixes ok :: "'s \<Rightarrow> bool" and add :: "'a \<Rightarrow> 's \<Rightarrow> 's" and newest_first :: "'s \<Rightarrow> 'a list" and size :: nat
  assumes ok_add: "ok s \<Longrightarrow> ok (add x s)"
    and newest_add: "ok s \<Longrightarrow> newest_first (add x s) = take size (x # newest_first s)"
begin

lemma ok_fold: "ok s \<Longrightarrow> ok (fold add xs s)"
  by (induction xs arbitrary: s) (auto simp: ok_add)

lemma newest_fold:
  "ok s \<Longrightarrow> length (newest_first s) \<le> size \<Longrightarrow> newest_first (fold add xs s) = take size (rev xs @ newest_first s)"
proof (induction xs arbitrary: s)
  case (Cons x xs)
  have "newest_first (fold add xs (add x s)) = take size (rev xs @ newest_first (add x s))"
    using Cons.prems by (intro Cons.IH) (auto simp: ok_add newest_add)
  also have "\<dots> = take size (rev xs @ x # newest_first s)"
    using Cons.prems by (simp add: newest_add)
  finally show ?case by simp
qed simp

end

section \<open>Indices\<close>

lemma mod_apart: "a < b \<Longrightarrow> b - a < c \<Longrightarrow> a mod c \<noteq> (b :: nat) mod c"
proof
  assume "a < b" "b - a < c" "a mod c = b mod c"
  then have "c dvd b - a" by (metis mod_eq_dvd_iff_nat nat_less_le)
  then show False using \<open>a < b\<close> \<open>b - a < c\<close> by (simp add: nat_dvd_not_less)
qed

text \<open>What an array of \<open>c\<close> elements holds after \<open>n\<close> writes at successive positions: the element \<open>i\<close> steps back.\<close>

definition holds :: "nat \<Rightarrow> nat \<Rightarrow> 'a list \<Rightarrow> 'a list \<Rightarrow> bool" where
  "holds c n arr view \<longleftrightarrow> length arr = c \<and> length view = min n c \<and> (\<forall>i < min n c. arr ! ((n - 1 - i) mod c) = view ! i)"

lemma holds_add:
  assumes "holds c n arr view" "0 < c"
  shows "holds c (Suc n) (arr[n mod c := x]) (take c (x # view))"
proof -
  have "arr[n mod c := x] ! ((Suc n - 1 - i) mod c) = take c (x # view) ! i" if i: "i < min (Suc n) c" for i
  proof (cases i)
    case 0
    then show ?thesis using assms by (simp add: holds_def)
  next
    case (Suc k)
    then have k: "k < min n c" "n - 1 - k < n" "n - (n - 1 - k) < c" using i by auto
    from mod_apart[OF k(2,3)] show ?thesis
      using assms k(1) Suc i by (simp add: holds_def)
  qed
  then show ?thesis using assms by (auto simp: holds_def)
qed

section \<open>Blocked requests\<close>

record intercept_event =
  iv_ID :: int
  iv_Time :: instant
  iv_ClientIP :: string
  iv_Host :: string
  iv_Path :: string
  iv_Query :: string
  iv_Method :: string
  iv_UserAgent :: string
  iv_Referer :: string
  iv_ContentType :: string
  iv_Rule :: string
  iv_Status :: int
  iv_RequestID :: string
  iv_LatencyMs :: real
  iv_GeoCountry :: string
  iv_GeoCity :: string
  iv_GeoFlag :: string
  iv_MatchDetail :: string
  iv_MatchLocation :: string
  iv_Action :: string
  iv_UpstreamAddr :: string
  iv_Protocol :: string
  iv_Scheme :: string
  iv_UpstreamLatencyMs :: real
  iv_RequestSize :: int
  iv_ErrorMessage :: string
  iv_RuleSource :: string
  iv_IntelRuleID :: string

record event_ring =
  er_slots :: "intercept_event option list"
  er_pos :: nat

definition event_ring_size :: nat where
  "event_ring_size = 200"

definition new_event_ring :: event_ring where
  "new_event_ring = \<lparr>er_slots = replicate event_ring_size None, er_pos = 0\<rparr>"

text \<open>What \<open>AddEvent\<close> stores: its arguments and the time; the other fields stay empty.\<close>

definition stored_event :: "instant \<Rightarrow> intercept_event \<Rightarrow> intercept_event" where
  "stored_event now e =
     e\<lparr>iv_ID := 0, iv_Time := now, iv_UpstreamLatencyMs := 0, iv_ErrorMessage := '''', iv_RuleSource := '''', iv_IntelRuleID := ''''\<rparr>"

definition push_event :: "intercept_event \<Rightarrow> event_ring \<Rightarrow> event_ring" where
  "push_event e r =
     r\<lparr>er_slots := (er_slots r)[er_pos r := Some e], er_pos := (er_pos r + 1) mod length (er_slots r)\<rparr>"

definition add_event :: "instant \<Rightarrow> intercept_event \<Rightarrow> event_ring \<Rightarrow> event_ring" where
  "add_event now e r = push_event (stored_event now e) r"

text \<open>\<open>Do\<close> visits the elements forward from the current one; the result is reversed in place.\<close>

definition ring_values :: "event_ring \<Rightarrow> intercept_event option list" where
  "ring_values r = map (\<lambda>k. er_slots r ! ((er_pos r + k) mod length (er_slots r))) [0..<length (er_slots r)]"

fun swap_ends :: "nat \<Rightarrow> nat \<Rightarrow> 'a list \<Rightarrow> 'a list" where
  "swap_ends i j xs = (if i < j then swap_ends (i + 1) (j - 1) (xs[i := xs ! j, j := xs ! i]) else xs)"

definition get_events :: "event_ring \<Rightarrow> intercept_event list" where
  "get_events r = (let events = List.map_filter id (ring_values r) in swap_ends 0 (length events - 1) events)"

declare swap_ends.simps [simp del]

lemma swap_ends_nth:
  "j < length xs \<Longrightarrow> length (swap_ends i j xs) = length xs \<and>
   (\<forall>k < length xs. swap_ends i j xs ! k = (if i \<le> k \<and> k \<le> j then xs ! (i + j - k) else xs ! k))"
proof (induction i j xs rule: swap_ends.induct)
  case (1 i j xs)
  show ?case
  proof (cases "i < j")
    case True
    let ?ys = "xs[i := xs ! j, j := xs ! i]"
    have IH: "length (swap_ends (i + 1) (j - 1) ?ys) = length xs"
      "\<And>k. k < length xs \<Longrightarrow> swap_ends (i + 1) (j - 1) ?ys ! k =
        (if i + 1 \<le> k \<and> k \<le> j - 1 then ?ys ! (i + 1 + (j - 1) - k) else ?ys ! k)"
      using 1 True by auto
    show ?thesis
      unfolding swap_ends.simps[of i j xs] using True 1(2) IH by (auto simp: nth_list_update)
  next
    case False
    then show ?thesis unfolding swap_ends.simps[of i j xs] by (auto intro!: arg_cong[of _ _ "(!) xs"])
  qed
qed

lemma swap_ends_rev: "swap_ends 0 (length xs - 1) xs = rev xs"
proof (cases "xs = []")
  case False
  then have j: "length xs - 1 < length xs" by simp
  show ?thesis
    using swap_ends_nth[OF j, of 0] by (intro nth_equalityI) (auto simp: rev_nth)
qed (simp add: swap_ends.simps)

text \<open>A ring in which \<open>view\<close> was stored last: the current element is the oldest or, in a ring not yet full, an empty one.\<close>

definition ring_shows :: "event_ring \<Rightarrow> intercept_event list \<Rightarrow> bool" where
  "ring_shows r view \<longleftrightarrow>
     (\<exists>n. er_pos r = n mod event_ring_size \<and> length (er_slots r) = event_ring_size \<and> length view = min n event_ring_size \<and>
       holds event_ring_size n (er_slots r) (map Some view) \<and> (\<forall>j < event_ring_size. n \<le> j \<longrightarrow> er_slots r ! j = None))"

lemma map_filter_rev: "List.map_filter f (rev xs) = rev (List.map_filter f xs)"
  by (simp add: List.map_filter_def rev_filter rev_map)

lemma map_filter_values: "List.map_filter id (map Some xs @ replicate k None) = xs"
  by (induction xs) (simp_all add: List.map_filter_def)

lemma get_events_shows:
  assumes "ring_shows r view"
  shows "get_events r = view"
proof -
  let ?c = event_ring_size
  obtain n where n: "er_pos r = n mod ?c" "length (er_slots r) = ?c" "length view = min n ?c"
    "holds ?c n (er_slots r) (map Some view)" "\<forall>j < ?c. n \<le> j \<longrightarrow> er_slots r ! j = None"
    using assms by (auto simp: ring_shows_def)
  have at: "er_slots r ! ((er_pos r + k) mod ?c) = (if ?c - 1 - k < n then Some (view ! (?c - 1 - k)) else None)"
    if k: "k < ?c" for k
  proof (cases "?c - 1 - k < n")
    case True
    have "n + k = n - 1 - (?c - 1 - k) + ?c" using True k by simp
    then have "(er_pos r + k) mod ?c = (n - 1 - (?c - 1 - k)) mod ?c" using n(1) by (simp add: mod_simps)
    moreover have "er_slots r ! ((n - 1 - (?c - 1 - k)) mod ?c) = map Some view ! (?c - 1 - k)"
      using n(4) True k unfolding holds_def by (elim conjE allE[of _ "?c - 1 - k"] impE) auto
    ultimately show ?thesis using True n(3) k by simp
  next
    case False
    then have "(er_pos r + k) mod ?c = n + k" using n(1) k by simp
    then show ?thesis using False n(5) k by simp
  qed
  have behind: "er_slots r ! ((er_pos r + ?c - Suc i) mod ?c) = (if i < n then Some (view ! i) else None)" if "i < ?c" for i
    using at[of "?c - Suc i"] that by auto
  have "rev (ring_values r) = map (\<lambda>i. if i < n then Some (view ! i) else None) [0..<?c]"
    by (rule nth_equalityI) (simp_all add: ring_values_def rev_nth n(2) behind)
  also have "\<dots> = map Some view @ replicate (?c - n) None"
    by (rule nth_equalityI) (auto simp: n(3) nth_append)
  finally have "rev (ring_values r) = map Some view @ replicate (?c - n) None" .
  then have "rev (List.map_filter id (ring_values r)) = view"
    by (simp add: map_filter_rev[symmetric] map_filter_values)
  then show ?thesis unfolding get_events_def Let_def swap_ends_rev .
qed


lemma holds_map: "holds c n arr view \<Longrightarrow> holds c n (map f arr) (map f view)"
  by (auto simp: holds_def nth_map min_def split: if_splits)

lemma ring_shows_new: "ring_shows new_event_ring []"
  by (auto simp: ring_shows_def new_event_ring_def holds_def intro!: exI[of _ 0])

lemma ring_shows_add:
  assumes "ring_shows r view"
  shows "ring_shows (push_event e r) (take event_ring_size (e # view))"
proof -
  let ?c = event_ring_size
  obtain n where n: "er_pos r = n mod ?c" "length (er_slots r) = ?c" "length view = min n ?c"
    "holds ?c n (er_slots r) (map Some view)" "\<forall>j < ?c. n \<le> j \<longrightarrow> er_slots r ! j = None"
    using assms by (auto simp: ring_shows_def)
  have c: "0 < ?c" by (simp add: event_ring_size_def)
  have "holds ?c (Suc n) (er_slots (push_event e r)) (map Some (take ?c (e # view)))"
    using holds_add[OF n(4) c, of "Some e"] n(1) by (simp add: push_event_def take_map[of _ Some "e # view", simplified, symmetric])
  moreover have "er_pos (push_event e r) = Suc n mod ?c" using n(1,2) by (simp add: push_event_def mod_simps)
  moreover have "\<forall>j < ?c. Suc n \<le> j \<longrightarrow> er_slots (push_event e r) ! j = None"
    using n(1,5) by (auto simp: push_event_def nth_list_update)
  ultimately show ?thesis
    unfolding ring_shows_def using n(2,3) by (intro exI[of _ "Suc n"]) (simp add: push_event_def)
qed

definition ring_ok :: "event_ring \<Rightarrow> bool" where
  "ring_ok r \<longleftrightarrow> (\<exists>view. ring_shows r view)"

interpretation events: newest ring_ok push_event get_events event_ring_size
proof
  fix r e assume "ring_ok r"
  then obtain view where "ring_shows r view" by (auto simp: ring_ok_def)
  from ring_shows_add[OF this, of e] get_events_shows[OF this]
  show "ring_ok (push_event e r)" "get_events (push_event e r) = take event_ring_size (e # get_events r)"
    by (auto simp: ring_ok_def get_events_shows)
qed

text \<open>
  The dashboard shows the requests blocked last, at most 200 of them, the newest first, each as it was reported.
\<close>

theorem latest_events_shown:
  "get_events (fold (\<lambda>(now, e). add_event now e) es new_event_ring) =
   take 200 (rev (map (\<lambda>(now, e). stored_event now e) es))"
proof -
  have fold: "fold (\<lambda>(now, e). add_event now e) es r = fold push_event (map (\<lambda>(now, e). stored_event now e) es) r" for r
    by (induction es arbitrary: r) (auto simp: add_event_def)
  have new: "ring_ok new_event_ring" using ring_shows_new by (auto simp: ring_ok_def)
  show ?thesis
    unfolding fold using events.newest_fold[OF new] get_events_shows[OF ring_shows_new] by (simp add: event_ring_size_def)
qed

section \<open>Lines of the log\<close>

record log_ring =
  lr_buf :: "string list"
  lr_cap :: nat
  lr_start :: nat
  lr_full :: bool

definition ring_buffer_size :: nat where
  "ring_buffer_size = 5000"

definition new_log_ring :: "nat \<Rightarrow> log_ring" where
  "new_log_ring c = \<lparr>lr_buf = [], lr_cap = c, lr_start = 0, lr_full = False\<rparr>"

definition add_ring_entry :: "string \<Rightarrow> log_ring \<Rightarrow> log_ring" where
  "add_ring_entry line b =
     (if lr_cap b = 0 then b
      else if lr_full b then b\<lparr>lr_buf := (lr_buf b)[lr_start b := line], lr_start := (lr_start b + 1) mod lr_cap b\<rparr>
      else let buf = lr_buf b @ [line]
           in if length buf = lr_cap b then b\<lparr>lr_buf := buf, lr_full := True, lr_start := 0\<rparr> else b\<lparr>lr_buf := buf\<rparr>)"

definition get_recent_log_lines :: "int \<Rightarrow> log_ring \<Rightarrow> string list" where
  "get_recent_log_lines n b =
     (let n = nat (if n \<le> 0 then 100 else n); size = length (lr_buf b) in
      if size = 0 then []
      else let n = min n size in
        if lr_full b then map (\<lambda>i. lr_buf b ! nat ((int (lr_start b) - int n + int i + int (lr_cap b)) mod int (lr_cap b))) [0..<n]
        else drop (size - n) (lr_buf b))"

text \<open>A buffer that shows \<open>view\<close>, the newest first.\<close>

definition log_shows :: "nat \<Rightarrow> log_ring \<Rightarrow> string list \<Rightarrow> bool" where
  "log_shows c b view \<longleftrightarrow> lr_cap b = c \<and> 0 < c \<and>
     (if lr_full b then \<exists>n \<ge> c. holds c n (lr_buf b) view \<and> lr_start b = n mod c
      else lr_buf b = rev view \<and> length view < c)"

lemma map_back_take: "k \<le> length xs \<Longrightarrow> map (\<lambda>i. xs ! (k - 1 - i)) [0..<k] = rev (take k xs)"
  by (rule nth_equalityI) (auto simp: rev_nth)

lemma recent_lines_shows:
  assumes "log_shows c b view"
  shows "get_recent_log_lines n b = rev (take (nat (if n \<le> 0 then 100 else n)) view)"
proof (cases "lr_full b")
  case False
  then have "lr_buf b = rev view" using assms by (simp add: log_shows_def)
  then show ?thesis using False by (auto simp: get_recent_log_lines_def Let_def rev_take min_def)
next
  case True
  then obtain w where w: "w \<ge> c" "holds c w (lr_buf b) view" "lr_start b = w mod c" "lr_cap b = c" "0 < c"
    using assms by (auto simp: log_shows_def)
  then have len: "length (lr_buf b) = c" "length view = c" by (auto simp: holds_def)
  let ?k = "min (nat (if n \<le> 0 then 100 else n)) c"
  have at: "lr_buf b ! nat ((int (lr_start b) - int ?k + int i + int c) mod int c) = view ! (?k - 1 - i)" if i: "i < ?k" for i
  proof -
    have "(int (w mod c) - int ?k + int i + int c) mod int c = (int w - int ?k + int i) mod int c"
      by (simp add: zmod_int mod_simps) (metis (no_types, lifting) add.commute mod_add_left_eq mod_add_self2 mod_diff_left_eq diff_add_eq)
    also have "\<dots> = int ((w - 1 - (?k - 1 - i)) mod c)" using i w(1) by (simp add: zmod_int of_nat_diff algebra_simps)
    finally have eq: "(int (w mod c) - int ?k + int i + int c) mod int c = int ((w - 1 - (?k - 1 - i)) mod c)" .
    have "lr_buf b ! ((w - 1 - (?k - 1 - i)) mod c) = view ! (?k - 1 - i)"
      using w(1,2) i unfolding holds_def by (elim conjE allE[of _ "?k - 1 - i"] impE) auto
    then show ?thesis unfolding w(3) eq nat_int .
  qed
  have "get_recent_log_lines n b = map (\<lambda>i. view ! (?k - 1 - i)) [0..<?k]"
    using True w(4,5) len at by (auto simp: get_recent_log_lines_def Let_def)
  also have "\<dots> = rev (take ?k view)" by (rule map_back_take) (simp add: len)
  finally show ?thesis using len by (simp add: min_def)
qed

lemma log_shows_add:
  assumes "log_shows c b view"
  shows "log_shows c (add_ring_entry x b) (take c (x # view))"
proof (cases "lr_full b")
  case True
  then obtain w where w: "w \<ge> c" "holds c w (lr_buf b) view" "lr_start b = w mod c" "lr_cap b = c" "0 < c"
    using assms by (auto simp: log_shows_def)
  have "holds c (Suc w) ((lr_buf b)[w mod c := x]) (take c (x # view))" by (rule holds_add[OF w(2,5)])
  moreover have "(w mod c + 1) mod c = Suc w mod c" by (simp add: mod_simps)
  ultimately show ?thesis
    unfolding log_shows_def add_ring_entry_def using True w by (auto intro!: exI[of _ "Suc w"] simp: Let_def)
next
  case False
  then have v: "lr_buf b = rev view" "length view < c" "lr_cap b = c" "0 < c" using assms by (auto simp: log_shows_def)
  have "holds c c (rev (x # view)) (x # view)" if "Suc (length view) = c"
    using that by (auto simp: holds_def rev_nth nth_append nth_Cons' simp del: rev.simps)
  then show ?thesis
    unfolding log_shows_def add_ring_entry_def using False v by (auto simp: Let_def intro!: exI[of _ c])
qed

definition log_ok :: "nat \<Rightarrow> log_ring \<Rightarrow> bool" where
  "log_ok c b \<longleftrightarrow> (\<exists>view. log_shows c b view)"

definition log_view :: "log_ring \<Rightarrow> string list" where
  "log_view b = rev (get_recent_log_lines (int (lr_cap b)) b)"

lemma log_view_shows: "log_shows c b view \<Longrightarrow> log_view b = view"
  unfolding log_view_def by (subst recent_lines_shows) (auto simp: log_shows_def holds_def split: if_splits)

interpretation lines: newest "log_ok c" add_ring_entry log_view c for c
proof
  fix b x assume "log_ok c b"
  then obtain view where "log_shows c b view" by (auto simp: log_ok_def)
  from log_shows_add[OF this, of x] log_view_shows[OF this]
  show "log_ok c (add_ring_entry x b)" "log_view (add_ring_entry x b) = take c (x # log_view b)"
    by (auto simp: log_ok_def log_view_shows)
qed

lemma log_shows_view: "log_ok c b \<Longrightarrow> log_shows c b (log_view b)"
  using log_view_shows by (auto simp: log_ok_def)

text \<open>
  C30. The page of the log shows the lines written last in the order they were written: as many as asked for, a hundred when no
  number is given, and no more than the 5000 that are kept.
\<close>

theorem latest_lines_shown:
  "get_recent_log_lines n (fold add_ring_entry ls (new_log_ring ring_buffer_size)) =
   rev (take (min (nat (if n \<le> 0 then 100 else n)) 5000) (rev ls))"
proof -
  have "log_shows ring_buffer_size (new_log_ring ring_buffer_size) []"
    by (simp add: log_shows_def new_log_ring_def ring_buffer_size_def)
  then have new: "log_ok ring_buffer_size (new_log_ring ring_buffer_size)" "log_view (new_log_ring ring_buffer_size) = []"
    using log_view_shows by (auto simp: log_ok_def)
  from log_shows_view[OF lines.ok_fold[OF new(1), of ls]] lines.newest_fold[OF new(1), of ls] new(2)
  have "log_shows ring_buffer_size (fold add_ring_entry ls (new_log_ring ring_buffer_size)) (take ring_buffer_size (rev ls))"
    by simp
  from recent_lines_shows[OF this, of n] show ?thesis by (simp add: ring_buffer_size_def)
qed

end
