(* ===== verification/Stats.thy ===== *)
theory Stats
  imports RingBuffers
begin

text \<open>
  The counters of the program (\<open>infra/storage/stats/stats.go\<close>): requests, connections, latencies, and what is blocked most.

  \<^item> The counters are \<open>uint64\<close> that many goroutines change with atomic operations and no lock. A goroutine is a program
    counter with the values it has loaded; one atomic operation of one goroutine is one step, in any order.
  \<^item> The operations on the tables of blocked addresses, paths and rules hold \<open>topMutex\<close>: each is one function. The order in which
    Go ranges over a map is an argument, and so is the clock, in seconds or nanoseconds as the code reads it.
\<close>

section \<open>Requests in the current second\<close>

record request_counters =
  rc_total :: "64 word"
  rc_lastRequests :: "64 word"
  rc_lastTimestamp :: int

text \<open>The points of \<open>IncTotal\<close>: before the count, before the load, before the comparison, before the store.\<close>

datatype inc_point = Count | Read_Clock | Load_Stamp int | Decide int int | Store_One | Inc_Done

text \<open>The step of the clock carries the second it reads.\<close>

fun inc_total_step :: "int \<Rightarrow> inc_point \<times> request_counters \<Rightarrow> inc_point \<times> request_counters" where
  "inc_total_step clock (Count, c) = (Read_Clock, c\<lparr>rc_total := rc_total c + 1\<rparr>)"
| "inc_total_step clock (Read_Clock, c) = (Load_Stamp clock, c)"
| "inc_total_step clock (Load_Stamp now, c) = (Decide now (rc_lastTimestamp c), c)"
| "inc_total_step clock (Decide now old, c) =
     (if old = now then (Inc_Done, c\<lparr>rc_lastRequests := rc_lastRequests c + 1\<rparr>)
      else if rc_lastTimestamp c = old then (Store_One, c\<lparr>rc_lastTimestamp := now\<rparr>)
      else (Load_Stamp now, c))"
| "inc_total_step clock (Store_One, c) = (Inc_Done, c\<lparr>rc_lastRequests := 1\<rparr>)"
| "inc_total_step clock (Inc_Done, c) = (Inc_Done, c)"

definition get_qps :: "int \<Rightarrow> request_counters \<Rightarrow> 64 word" where
  "get_qps now c = (if rc_lastTimestamp c = now then rc_lastRequests c else 0)"

text \<open>Goroutine \<open>i\<close> of \<open>pcs\<close> takes one step.\<close>

fun run_incs :: "(nat \<times> int) list \<Rightarrow> inc_point list \<times> request_counters \<Rightarrow> inc_point list \<times> request_counters" where
  "run_incs [] s = s"
| "run_incs ((i, clock) # sched) (pcs, c) =
     (if i < length pcs then
        let (p, c') = inc_total_step clock (pcs ! i, c) in run_incs sched (pcs[i := p], c')
      else run_incs sched (pcs, c))"

section \<open>Active connections\<close>

datatype conn_point = Before_Inc | Serving | Loaded "64 word" | Served

text \<open>A request: the increment, the service, then \<open>DecActiveConn\<close> with its load and its addition of \<open>2^64 - 1\<close>.\<close>

fun conn_step :: "conn_point \<times> 64 word \<Rightarrow> conn_point \<times> 64 word" where
  "conn_step (Before_Inc, n) = (Serving, n + 1)"
| "conn_step (Serving, n) = (Loaded n, n)"
| "conn_step (Loaded seen, n) = (Served, if seen > 0 then n + not 0 else n)"
| "conn_step (Served, n) = (Served, n)"

fun run_conns :: "nat list \<Rightarrow> conn_point list \<times> 64 word \<Rightarrow> conn_point list \<times> 64 word" where
  "run_conns [] s = s"
| "run_conns (i # sched) (pcs, n) =
     (if i < length pcs then let (p, n') = conn_step (pcs ! i, n) in run_conns sched (pcs[i := p], n')
      else run_conns sched (pcs, n))"

section \<open>Latencies and rates\<close>

record latency_window =
  lw_slots :: "64 word list"
  lw_idx :: "64 word"

definition new_latency_window :: latency_window where
  "new_latency_window = \<lparr>lw_slots = replicate 60 0, lw_idx = 0\<rparr>"

definition add_latency :: "64 word \<Rightarrow> latency_window \<Rightarrow> latency_window" where
  "add_latency ms w =
     w\<lparr>lw_slots := (lw_slots w)[unat (lw_idx w mod 60) := ms], lw_idx := lw_idx w + 1\<rparr>"

definition get_avg_latency :: "latency_window \<Rightarrow> real" where
  "get_avg_latency w =
     (let count = lw_idx w in
      if count = 0 then 0
      else let start = (if count > 60 then count - 60 else 0); samples = count - start;
               sum = (\<Sum>i \<leftarrow> [unat start ..< unat count]. lw_slots w ! (i mod 60))
           in if samples = 0 then 0 else real (unat sum) / real (unat samples))"

definition get_error_rate :: "64 word \<Rightarrow> 64 word \<Rightarrow> 64 word \<Rightarrow> real" where
  "get_error_rate requests blocked errors =
     (let every = requests + blocked in if every = 0 then 0 else real (unat errors) / real (unat every) * 100)"

definition get_block_rate :: "64 word \<Rightarrow> 64 word \<Rightarrow> real" where
  "get_block_rate requests blocked =
     (let every = requests + blocked in if every = 0 then 0 else real (unat blocked) / real (unat every) * 100)"

section \<open>What is blocked most\<close>

record top_table =
  tt_counts :: "string \<rightharpoonup> int"
  tt_times :: "string \<rightharpoonup> instant"
  tt_extra :: "(string \<rightharpoonup> (string \<rightharpoonup> int)) list"

definition bump :: "string \<Rightarrow> (string \<rightharpoonup> int) \<Rightarrow> (string \<rightharpoonup> int)" where
  "bump k m = m(k \<mapsto> map_get 0 m k + 1)"

definition bump_in :: "string \<Rightarrow> string \<Rightarrow> (string \<rightharpoonup> (string \<rightharpoonup> int)) \<Rightarrow> (string \<rightharpoonup> (string \<rightharpoonup> int))" where
  "bump_in k sub m = (if sub = '''' then m else m(k \<mapsto> bump sub (map_get Map.empty m k)))"

text \<open>\<open>IncBlockedIP\<close> with one detail, \<open>IncBlockedPath\<close> with two, \<open>IncRuleHit\<close> with none.\<close>

definition inc_top :: "instant \<Rightarrow> string \<Rightarrow> string list \<Rightarrow> top_table \<Rightarrow> top_table" where
  "inc_top now key details t =
     \<lparr>tt_counts = bump key (tt_counts t), tt_times = (tt_times t)(key \<mapsto> now),
      tt_extra = map2 (bump_in key) details (tt_extra t)\<rparr>"

definition inc_blocked_ip :: "instant \<Rightarrow> string \<Rightarrow> string \<Rightarrow> top_table \<Rightarrow> top_table" where
  "inc_blocked_ip now ip rule t = inc_top now ip [rule] t"

definition inc_blocked_path :: "instant \<Rightarrow> string \<Rightarrow> string \<Rightarrow> string \<Rightarrow> top_table \<Rightarrow> top_table" where
  "inc_blocked_path now path request_method clientIP t = inc_top now path [request_method, clientIP] t"

definition inc_rule_hit :: "instant \<Rightarrow> string \<Rightarrow> top_table \<Rightarrow> top_table" where
  "inc_rule_hit now rule t = inc_top now rule [] t"

definition max_top_entries :: nat where
  "max_top_entries = 10000"

definition time_of :: "top_table \<Rightarrow> string \<Rightarrow> instant" where
  "time_of t k = map_get zero_time (tt_times t) k"

definition drop_keys :: "string set \<Rightarrow> (string \<rightharpoonup> 'v) \<Rightarrow> (string \<rightharpoonup> 'v)" where
  "drop_keys ks m = (\<lambda>k. if k \<in> ks then None else m k)"

text \<open>\<open>order\<close> enumerates the keys; entries of one time stay in that order (\<open>sort.Slice\<close> may leave them in any).\<close>

definition cleanup_map :: "nat \<Rightarrow> string list \<Rightarrow> top_table \<Rightarrow> top_table" where
  "cleanup_map limit order t =
     (if length order \<le> limit then t
      else let sorted_keys = sort_key (\<lambda>k. - time_of t k) order; old = set (drop (limit div 2) sorted_keys)
           in \<lparr>tt_counts = drop_keys old (tt_counts t), tt_times = drop_keys old (tt_times t),
               tt_extra = map (drop_keys old) (tt_extra t)\<rparr>)"

definition cleanup_top_stats :: "string list \<Rightarrow> string list \<Rightarrow> string list \<Rightarrow> top_table \<times> top_table \<times> top_table \<Rightarrow> top_table \<times> top_table \<times> top_table" where
  "cleanup_top_stats ips paths rules = (\<lambda>(tip, tpath, trule).
     (cleanup_map max_top_entries ips tip, cleanup_map max_top_entries paths tpath, cleanup_map max_top_entries rules trule))"

record top_item =
  ti_Name :: string
  ti_Count :: int
  ti_LastSeen :: instant
  ti_RuleTypes :: "string \<rightharpoonup> int"
  ti_SourceIPCount :: nat
  ti_Methods :: "string \<rightharpoonup> int"
  ti_RuleType :: string

definition most_hit :: "string list \<Rightarrow> (string \<rightharpoonup> int) \<Rightarrow> string" where
  "most_hit order m =
     fst (foldl (\<lambda>(maxRule, maxCnt) r. let c = map_get 0 m r in if c > maxCnt then (r, c) else (maxRule, maxCnt)) ('''', 0) order)"

definition top_sorted :: "top_item list \<Rightarrow> top_item list" where
  "top_sorted items = sort_key (\<lambda>i. - ti_Count i) items"

definition extra_of :: "top_table \<Rightarrow> nat \<Rightarrow> string \<Rightarrow> (string \<rightharpoonup> int)" where
  "extra_of t n k = map_get Map.empty (tt_extra t ! n) k"

definition top_item_of :: "top_table \<Rightarrow> string \<Rightarrow> top_item" where
  "top_item_of t k =
     \<lparr>ti_Name = k, ti_Count = map_get 0 (tt_counts t) k, ti_LastSeen = time_of t k, ti_RuleTypes = Map.empty, ti_SourceIPCount = 0,
      ti_Methods = Map.empty, ti_RuleType = ''''\<rparr>"

definition get_top_blocked_ips :: "(string \<Rightarrow> string list) \<Rightarrow> string list \<Rightarrow> nat \<Rightarrow> top_table \<Rightarrow> top_item list" where
  "get_top_blocked_ips rule_order order n t =
     take n (top_sorted (map (\<lambda>ip. (top_item_of t ip)\<lparr>ti_RuleTypes := extra_of t 0 ip,
       ti_RuleType := most_hit (rule_order ip) (extra_of t 0 ip)\<rparr>) order))"

definition get_top_blocked_paths :: "string list \<Rightarrow> nat \<Rightarrow> top_table \<Rightarrow> top_item list" where
  "get_top_blocked_paths order n t =
     take n (top_sorted (map (\<lambda>p. (top_item_of t p)\<lparr>ti_Methods := extra_of t 0 p, ti_SourceIPCount := card (dom (extra_of t 1 p))\<rparr>) order))"

definition get_rule_hits :: "string list \<Rightarrow> top_table \<Rightarrow> top_item list" where
  "get_rule_hits order t = top_sorted (map (top_item_of t) order)"

end
