(* ===== verification/StatsProps.thy ===== *)
theory StatsProps
  imports Stats
begin

text \<open>
  What the counters are worth when goroutines interleave: connections are counted exactly, requests of one second are not; and
  what the tables of blocked addresses, paths and rules keep.
\<close>

section \<open>Connections\<close>

definition in_flight :: "conn_point \<Rightarrow> bool" where
  "in_flight p \<longleftrightarrow> (case p of Before_Inc \<Rightarrow> False | Serving \<Rightarrow> True | Loaded _ \<Rightarrow> True | Served \<Rightarrow> False)"

definition conns_ok :: "conn_point list \<times> 64 word \<Rightarrow> bool" where
  "conns_ok = (\<lambda>(pcs, n). length pcs < 2 ^ 64 \<and> unat n = length (filter in_flight pcs) \<and> (\<forall>seen. Loaded seen \<in> set pcs \<longrightarrow> seen > 0))"

lemma filter_update_length:
  "i < length xs \<Longrightarrow> length (filter P (xs[i := x])) + (if P (xs ! i) then 1 else 0) = length (filter P xs) + (if P x then 1 else 0)"
proof (induction xs arbitrary: i)
  case (Cons a xs)
  then show ?case using Cons.IH[of "i - 1"] by (cases i) auto
qed simp

lemma conn_step_ok:
  assumes "conns_ok (pcs, n)" "i < length pcs" "conn_step (pcs ! i, n) = (p, n')"
  shows "conns_ok (pcs[i := p], n')"
proof -
  let ?f = "length (filter in_flight pcs)"
  have ok: "length pcs < 2 ^ 64" "unat n = ?f" "\<And>seen. Loaded seen \<in> set pcs \<Longrightarrow> seen > 0"
    using assms(1) by (auto simp: conns_ok_def)
  have upd: "length (filter in_flight (pcs[i := p])) + (if in_flight (pcs ! i) then 1 else 0) = ?f + (if in_flight p then 1 else 0)"
    by (rule filter_update_length[OF assms(2)])
  have le: "?f \<le> length pcs" by simp
  have new: "seen > 0" if "Loaded seen \<in> set (pcs[i := p])" "p \<noteq> Loaded seen" for seen
    using ok(3) set_update_subset_insert[of pcs i p] that by auto
  show ?thesis
  proof (cases "pcs ! i")
    case Before_Inc
    then have p: "p = Serving" "n' = n + 1" using assms(3) by auto
    have "Before_Inc \<in> set pcs" using assms(2) Before_Inc by (metis nth_mem)
    from length_filter_less[OF this, of in_flight] have "?f < length pcs" by (simp add: in_flight_def)
    then have "Suc (unat n) < 2 ^ 64" using ok(1,2) by simp
    then have "unat n' = Suc (unat n)" using p(2) by (simp add: unat_word_ariths)
    then show ?thesis using ok upd new p Before_Inc by (auto simp: conns_ok_def in_flight_def)
  next
    case Serving
    then have p: "p = Loaded n" "n' = n" using assms(3) by auto
    have "Serving \<in> set pcs" using assms(2) Serving by (metis nth_mem)
    then have "Serving \<in> set (filter in_flight pcs)" by (simp add: in_flight_def)
    then have "?f > 0" by (rule length_pos_if_in_set)
    then have "n > 0" using ok(2) by (simp add: word_neq_0_conv[symmetric] unat_eq_zero[symmetric])
    then show ?thesis using ok upd new p Serving by (auto simp: conns_ok_def in_flight_def)
  next
    case (Loaded seen)
    then have "seen > 0" using ok(3)[of seen] assms(2) nth_mem by metis
    then have p: "p = Served" "n' = n - 1" using assms(3) Loaded by auto
    have "?f = Suc (length (filter in_flight (pcs[i := Served])))" using upd Loaded p by (simp add: in_flight_def)
    then have "unat n > 0" unfolding ok(2) by linarith
    then have "n \<noteq> 0" by auto
    then have "unat n' = unat n - 1" using p(2) by (simp add: unat_minus_one)
    then show ?thesis using ok upd new p Loaded \<open>unat n > 0\<close> by (auto simp: conns_ok_def in_flight_def)
  next
    case Served
    then show ?thesis using assms by (metis conn_step.simps(4) list_update_id prod.inject)
  qed
qed

lemma run_conns_ok: "conns_ok s \<Longrightarrow> conns_ok (run_conns sched s)"
proof (induction sched s rule: run_conns.induct)
  case (2 i sched pcs n)
  show ?case
  proof (cases "i < length pcs")
    case True
    obtain p n' where st: "conn_step (pcs ! i, n) = (p, n')" by fastforce
    have "conns_ok (pcs[i := p], n')" by (rule conn_step_ok[OF 2(3) True st])
    then show ?thesis using 2(1)[OF True st[symmetric] refl] True st by simp
  next
    case False
    then show ?thesis using 2 by simp
  qed
qed simp

text \<open>
  C28. The number of active connections is exact under every interleaving of the atomic steps: it is the number of requests
  that have been counted and not yet left, and it never wraps.
\<close>

theorem active_conns_exact:
  assumes "m < 2 ^ 64" and "run_conns sched (replicate m Before_Inc, 0) = (pcs, n)"
  shows "unat n = length (filter in_flight pcs)"
proof -
  have "conns_ok (replicate m Before_Inc, 0)" using assms(1) by (auto simp: conns_ok_def in_flight_def)
  from run_conns_ok[OF this, of sched] show ?thesis unfolding assms(2) by (simp add: conns_ok_def)
qed

theorem active_conns_exact_witness:
  "unat (snd (run_conns [0, 1, 0, 1, 1] (replicate 2 Before_Inc, 0))) = 1"
proof -
  have "run_conns [0, 1, 0, 1, 1] (replicate 2 Before_Inc, 0) = ([Loaded 2, Served], 1)"
    by (simp add: numeral_2_eq_2)
  from active_conns_exact[OF _ this] this show ?thesis by (simp add: in_flight_def)
qed

section \<open>Requests\<close>

definition counted :: "inc_point \<Rightarrow> bool" where
  "counted p \<longleftrightarrow> p \<noteq> Count"

lemma inc_step_total:
  "inc_total_step clock (p, c) = (p', c') \<Longrightarrow>
   rc_total c' = rc_total c + (if p = Count then 1 else 0) \<and> p' \<noteq> Count"
  by (cases "(clock, p, c)" rule: inc_total_step.cases) (auto split: if_splits)

lemma run_incs_total:
  "rc_total c = of_nat (length (filter counted pcs)) \<Longrightarrow> run_incs sched (pcs, c) = (pcs', c') \<Longrightarrow>
   rc_total c' = of_nat (length (filter counted pcs'))"
proof (induction sched arbitrary: pcs c)
  case (Cons s sched)
  obtain i clock where s: "s = (i, clock)" by fastforce
  show ?case
  proof (cases "i < length pcs")
    case True
    obtain p d where st: "inc_total_step clock (pcs ! i, c) = (p, d)" by fastforce
    have "length (filter counted (pcs[i := p])) = length (filter counted pcs) + (if pcs ! i = Count then 1 else 0)"
      using filter_update_length[OF True, of counted p] inc_step_total[OF st] by (auto simp: counted_def split: if_splits)
    then have "rc_total d = of_nat (length (filter counted (pcs[i := p])))"
      using inc_step_total[OF st] Cons.prems(1) by simp
    from Cons.IH[OF this] show ?thesis using Cons.prems(2) s True st by simp
  next
    case False
    then show ?thesis using Cons s by simp
  qed
qed simp

text \<open>
  The total of requests is exact under every interleaving, up to the wrap at \<open>2 ^ 64\<close>.
\<close>

theorem total_requests_exact:
  "rc_total (snd (run_incs sched (replicate m Count, \<lparr>rc_total = 0, rc_lastRequests = r, rc_lastTimestamp = t\<rparr>))) =
   of_nat (length (filter counted (fst (run_incs sched (replicate m Count, \<lparr>rc_total = 0, rc_lastRequests = r, rc_lastTimestamp = t\<rparr>)))))"
  by (rule run_incs_total[OF _ surjective_pairing]) (simp add: counted_def)

text \<open>
  The requests per second are not: two requests of one second, the first of it, can count as one. The second goroutine counts
  itself between the comparison and the store of the first.
\<close>

lemma qps_loses_requests:
  "run_incs [(0, 7), (0, 7), (0, 7), (0, 7), (1, 7), (1, 7), (1, 7), (1, 7), (0, 7)]
     ([Count, Count], \<lparr>rc_total = 0, rc_lastRequests = 0, rc_lastTimestamp = 6\<rparr>) =
   ([Inc_Done, Inc_Done], \<lparr>rc_total = 2, rc_lastRequests = 1, rc_lastTimestamp = 7\<rparr>)"
  by simp

text \<open>
  C29. The loop of the comparison ends when its goroutine is left alone: from any point, four steps of its own finish it.
\<close>

theorem inc_total_finishes:
  assumes "i < length pcs" "pcs ! i \<noteq> Count" "pcs ! i \<noteq> Read_Clock"
  shows "fst (run_incs (replicate 4 (i, clock)) (pcs, c)) ! i = Inc_Done"
proof (cases "pcs ! i")
  case (Decide now old)
  then show ?thesis using assms by (simp add: numeral_eq_Suc)
next
  case (Load_Stamp now)
  then show ?thesis using assms by (simp add: numeral_eq_Suc)
qed (use assms in \<open>simp_all add: numeral_eq_Suc\<close>)

section \<open>Latencies and rates\<close>

lemma half_at_most:
  assumes "a \<le> b" "0 < b + a"
  shows "real a / real (b + a) * 100 \<le> 50"
proof -
  have pos: "0 < real (b + a)" using assms(2) of_nat_0_less_iff by blast
  have "real a * 100 \<le> 50 * real (b + a)" using assms(1) by simp
  then show ?thesis by (simp only: times_divide_eq_left pos_divide_le_eq[OF pos])
qed

text \<open>
  The block rate never exceeds one half: a blocked request is also among the requests, and counted twice in the divisor.
\<close>

theorem block_rate_at_most_half:
  assumes "unat blocked \<le> unat requests" "unat requests < 2 ^ 63"
  shows "get_block_rate requests blocked \<le> 50"
proof -
  have s: "unat (requests + blocked) = unat requests + unat blocked"
    using assms by (simp add: unat_word_ariths)
  show ?thesis
  proof (cases "requests + blocked = 0")
    case False
    then have "0 < unat requests + unat blocked" using s by (metis gr0I unat_eq_zero)
    from half_at_most[OF assms(1) this] show ?thesis
      unfolding get_block_rate_def Let_def s using False by (simp only: if_False)
  qed (simp add: get_block_rate_def)
qed

theorem block_rate_at_most_half_witness: "get_block_rate 10 10 \<le> 50"
  by (rule block_rate_at_most_half) simp_all

lemma unat_small: "n < 2 ^ 64 \<Longrightarrow> unat (of_nat n :: 64 word) = n"
  by (simp add: unat_of_nat take_bit_nat_eq_self)

lemma add_latency_holds:
  assumes "holds 60 n (lw_slots w) view" "lw_idx w = of_nat n" "n < 2 ^ 64"
  shows "holds 60 (Suc n) (lw_slots (add_latency ms w)) (take 60 (ms # view)) \<and> lw_idx (add_latency ms w) = of_nat (Suc n)"
proof -
  have "unat (lw_idx w mod 60) = n mod 60" using assms(2,3) by (simp add: unat_mod unat_small)
  then show ?thesis using holds_add[OF assms(1)] assms(2) by (simp add: add_latency_def)
qed

lemma latencies_holds:
  "length ls < 2 ^ 64 \<Longrightarrow>
   holds 60 (length ls) (lw_slots (fold add_latency ls new_latency_window)) (take 60 (rev ls)) \<and>
   lw_idx (fold add_latency ls new_latency_window) = of_nat (length ls)"
proof (induction ls rule: rev_induct)
  case Nil
  then show ?case by (simp add: holds_def new_latency_window_def)
next
  case (snoc x ls)
  then have IH: "holds 60 (length ls) (lw_slots (fold add_latency ls new_latency_window)) (take 60 (rev ls))"
    "lw_idx (fold add_latency ls new_latency_window) = of_nat (length ls)" "length ls < 2 ^ 64" by auto
  have "take 60 (x # take 60 (rev ls)) = take 60 (x # rev ls)" by (simp add: take_Cons')
  then show ?case using add_latency_holds[OF IH, of x] by simp
qed

lemma holds_sum:
  fixes arr :: "'a :: comm_monoid_add list"
  assumes "holds c n arr view" "0 < c"
  shows "(\<Sum>i \<leftarrow> [n - min n c ..< n]. arr ! (i mod c)) = sum_list view"
proof -
  have "map (\<lambda>i. arr ! (i mod c)) [n - min n c ..< n] = rev view"
  proof (rule nth_equalityI)
    fix i assume "i < length (map (\<lambda>i. arr ! (i mod c)) [n - min n c ..< n])"
    then have i: "i < min n c" by simp
    have len: "length view = min n c" using assms(1) by (simp add: holds_def)
    have "map (\<lambda>i. arr ! (i mod c)) [n - min n c ..< n] ! i = arr ! ([n - min n c ..< n] ! i mod c)"
      using i by (intro nth_map) simp
    also have "[n - min n c ..< n] ! i = n - 1 - (min n c - 1 - i)" using i by (subst nth_upt) auto
    also have "arr ! ((n - 1 - (min n c - 1 - i)) mod c) = view ! (min n c - 1 - i)"
      using assms i unfolding holds_def by (elim conjE allE[of _ "min n c - 1 - i"] impE) auto
    also have "\<dots> = rev view ! i" using i len by (simp add: rev_nth)
    finally show "map (\<lambda>i. arr ! (i mod c)) [n - min n c ..< n] ! i = rev view ! i" .
  qed (use assms in \<open>simp add: holds_def\<close>)
  then show ?thesis by (simp add: sum_list_rev)
qed

text \<open>
  The average latency is the mean of the last sixty requests, as long as fewer than \<open>2 ^ 64\<close> requests have been
  timed and the sixty latencies do not overflow together.
\<close>

theorem avg_latency_exact:
  assumes "length ls < 2 ^ 64" "ls \<noteq> []" and "sum_list (map unat (take 60 (rev ls))) < 2 ^ 64"
  shows "get_avg_latency (fold add_latency ls new_latency_window) =
    real (sum_list (map unat (take 60 (rev ls)))) / real (min (length ls) 60)"
proof -
  let ?w = "fold add_latency ls new_latency_window" and ?n = "length ls"
  from latencies_holds[OF assms(1)] have w: "holds 60 ?n (lw_slots ?w) (take 60 (rev ls))" "lw_idx ?w = of_nat ?n" by auto
  have n: "unat (lw_idx ?w) = ?n" using w(2) assms(1) by (simp add: unat_small)
  have gt: "(lw_idx ?w > 60) = (?n > 60)" using n by (simp add: word_less_nat_alt)
  have start: "unat (if lw_idx ?w > 60 then lw_idx ?w - 60 else 0) = ?n - min ?n 60"
    using n gt by (auto simp: unat_sub word_le_nat_alt)
  have samples: "unat (lw_idx ?w - (if lw_idx ?w > 60 then lw_idx ?w - 60 else 0)) = min ?n 60"
    using n gt by auto
  have "unat (sum_list xs) = sum_list (map unat xs)" if "sum_list (map unat xs) < 2 ^ 64" for xs :: "64 word list"
    using that by (induction xs) (auto simp: unat_word_ariths)
  from this[OF assms(3)] have sum: "unat (\<Sum>i \<leftarrow> [?n - min ?n 60 ..< ?n]. lw_slots ?w ! (i mod 60)) = sum_list (map unat (take 60 (rev ls)))"
    unfolding holds_sum[OF w(1) zero_less_numeral] by simp
  have "lw_idx ?w \<noteq> 0" using n assms(2) by auto
  moreover have "min ?n 60 \<noteq> 0" using assms(2) by simp
  ultimately show ?thesis
    unfolding get_avg_latency_def Let_def start n sum samples using samples by auto
qed

theorem avg_latency_exact_witness: "get_avg_latency (fold add_latency [10, 20] new_latency_window) = 15"
  using avg_latency_exact[of "[10, 20]"] by simp

section \<open>What is blocked most\<close>

text \<open>A table whose times and details belong to counted keys.\<close>

definition table_ok :: "top_table \<Rightarrow> bool" where
  "table_ok t \<longleftrightarrow> finite (dom (tt_counts t)) \<and> dom (tt_times t) = dom (tt_counts t) \<and>
     (\<forall>m \<in> set (tt_extra t). dom m \<subseteq> dom (tt_counts t))"

lemma in_drop: "x \<in> set xs \<Longrightarrow> x \<notin> set (take n xs) \<Longrightarrow> x \<in> set (drop n xs)"
  by (metis Un_iff append_take_drop_id set_append)

lemma dom_bump: "dom (bump k m) = insert k (dom m)"
  by (simp add: bump_def)

lemma dom_bump_in: "dom (bump_in k sub m) \<subseteq> insert k (dom m)"
  by (auto simp: bump_in_def)

lemma inc_top_ok: "table_ok t \<Longrightarrow> table_ok (inc_top now key details t)"
proof -
  assume ok: "table_ok t"
  have "dom m \<subseteq> insert key (dom (tt_counts t))" if m: "m \<in> set (map2 (bump_in key) details (tt_extra t))" for m
  proof -
    obtain d e where "m = bump_in key d e" "(d, e) \<in> set (zip details (tt_extra t))" using m by auto
    then have "dom m \<subseteq> insert key (dom e)" "e \<in> set (tt_extra t)" using dom_bump_in set_zip_rightD by fast+
    then show ?thesis using ok unfolding table_ok_def by blast
  qed
  then show ?thesis using ok unfolding table_ok_def inc_top_def by (simp add: dom_bump)
qed

lemma dom_drop_keys: "dom (drop_keys ks m) = dom m - ks"
  by (auto simp: drop_keys_def split: if_splits)

lemma cleanup_map_ok: "table_ok t \<Longrightarrow> table_ok (cleanup_map limit order t)"
  unfolding table_ok_def cleanup_map_def Let_def by (simp add: dom_drop_keys) blast

text \<open>
  A clean-up that has something to do keeps exactly half of the bound, and the most recent: no key it drops was seen later
  than a key it keeps. The counts it keeps are untouched, and nothing of a dropped key remains.
\<close>

theorem cleanup_keeps_recent:
  assumes "table_ok t" and "distinct order" "set order = dom (tt_counts t)" and "max_top_entries < length order"
  shows "card (dom (tt_counts (cleanup_map max_top_entries order t))) = 5000 \<and>
    (\<forall>k d. k \<in> dom (tt_counts (cleanup_map max_top_entries order t)) \<longrightarrow>
       d \<in> dom (tt_counts t) - dom (tt_counts (cleanup_map max_top_entries order t)) \<longrightarrow> time_of t d \<le> time_of t k) \<and>
    tt_counts (cleanup_map max_top_entries order t) \<subseteq>\<^sub>m tt_counts t \<and> table_ok (cleanup_map max_top_entries order t)"
proof -
  let ?s = "sort_key (\<lambda>k. - time_of t k) order" and ?t = "cleanup_map max_top_entries order t"
  let ?old = "set (drop 5000 ?s)"
  have c: "tt_counts ?t = drop_keys ?old (tt_counts t)"
    using assms(4) by (simp add: cleanup_map_def Let_def max_top_entries_def)
  have s: "distinct ?s" "set ?s = dom (tt_counts t)" "sorted (map (\<lambda>k. - time_of t k) ?s)" "length ?s = length order"
    using assms(2,3) by simp_all
  have split: "set ?s = set (take 5000 ?s) \<union> ?old" by (metis append_take_drop_id set_append)
  have disj: "set (take 5000 ?s) \<inter> ?old = {}" by (rule set_take_disj_set_drop_if_distinct[OF s(1)]) simp
  have kept: "dom (tt_counts ?t) = set (take 5000 ?s)"
    unfolding c dom_drop_keys s(2)[symmetric] using split disj by blast
  have "card (set (take 5000 ?s)) = 5000"
    using s(1,4) assms(4) by (simp add: distinct_card max_top_entries_def)
  moreover have "time_of t d \<le> time_of t k" if k: "k \<in> set (take 5000 ?s)" and d: "d \<in> ?old" for k d
  proof -
    have "sorted (map (\<lambda>k. - time_of t k) (take 5000 ?s) @ map (\<lambda>k. - time_of t k) (drop 5000 ?s))"
      using s(3) by (metis append_take_drop_id map_append)
    then show ?thesis using k d by (auto simp: sorted_append)
  qed
  moreover have "dom (tt_counts t) - dom (tt_counts ?t) \<subseteq> ?old" unfolding kept s(2)[symmetric] using split by blast
  moreover have "tt_counts ?t \<subseteq>\<^sub>m tt_counts t" unfolding c by (auto simp: map_le_def drop_keys_def)
  ultimately show ?thesis using cleanup_map_ok[OF assms(1)] unfolding kept by blast
qed

definition sample_keys :: "string list" where
  "sample_keys = map (\<lambda>n. replicate n (CHR ''a'')) [0..<10001]"

definition sample_table :: top_table where
  "sample_table = \<lparr>tt_counts = (\<lambda>k. if k \<in> set sample_keys then Some 1 else None),
     tt_times = (\<lambda>k. if k \<in> set sample_keys then Some (int (length k)) else None), tt_extra = []\<rparr>"

theorem cleanup_keeps_recent_witness:
  "card (dom (tt_counts (cleanup_map max_top_entries sample_keys sample_table))) = 5000"
proof -
  have d: "dom (tt_counts sample_table) = set sample_keys" "dom (tt_times sample_table) = set sample_keys"
    by (auto simp: sample_table_def dom_def simp del: upt_rec_numeral)
  have ok: "table_ok sample_table" unfolding table_ok_def d by (simp add: sample_table_def)
  have "inj (\<lambda>n. replicate n (CHR ''a''))" by (rule injI) (metis length_replicate)
  then have "distinct sample_keys"
    unfolding sample_keys_def distinct_map by (metis distinct_upt inj_on_subset subset_UNIV)
  moreover have "max_top_entries < length sample_keys"
    unfolding sample_keys_def length_map length_upt max_top_entries_def by simp
  ultimately show ?thesis using cleanup_keeps_recent[OF ok _ d(1)[symmetric]] by blast
qed

text \<open>
  The list of the most blocked is sorted and complete: it holds as many as were asked for, the counts descend, and no
  address that is left out has a greater count than one that is shown.
\<close>

theorem top_ips_sorted:
  assumes "distinct order" "set order = dom (tt_counts t)"
  shows "sorted_wrt (\<lambda>a b. ti_Count b \<le> ti_Count a) (get_top_blocked_ips f order n t) \<and>
    length (get_top_blocked_ips f order n t) = min n (card (dom (tt_counts t))) \<and>
    (\<forall>i \<in> set (get_top_blocked_ips f order n t). tt_counts t (ti_Name i) = Some (ti_Count i)) \<and>
    (\<forall>k c i. tt_counts t k = Some c \<longrightarrow> k \<notin> ti_Name ` set (get_top_blocked_ips f order n t) \<longrightarrow>
       i \<in> set (get_top_blocked_ips f order n t) \<longrightarrow> c \<le> ti_Count i)"
proof -
  let ?item = "\<lambda>ip. (top_item_of t ip)\<lparr>ti_RuleTypes := extra_of t 0 ip, ti_RuleType := most_hit (f ip) (extra_of t 0 ip)\<rparr>"
  let ?s = "top_sorted (map ?item order)"
  have s: "sorted (map (\<lambda>i. - ti_Count i) ?s)" "set ?s = ?item ` dom (tt_counts t)" "length ?s = card (dom (tt_counts t))"
    using assms distinct_card[OF assms(1)] by (simp_all add: top_sorted_def)
  have item: "ti_Name (?item k) = k" "tt_counts t k = Some c \<Longrightarrow> ti_Count (?item k) = c" for k c
    by (simp_all add: top_item_of_def map_get_def)
  have r: "get_top_blocked_ips f order n t = take n ?s" by (simp add: get_top_blocked_ips_def)
  have "sorted_wrt (\<lambda>a b. ti_Count b \<le> ti_Count a) ?s" using s(1) by (simp add: sorted_wrt_map)
  then have sorted: "sorted_wrt (\<lambda>a b. ti_Count b \<le> ti_Count a) (take n ?s @ drop n ?s)" by simp
  have cross: "ti_Count b \<le> ti_Count a" if "a \<in> set (take n ?s)" "b \<in> set (drop n ?s)" for a b
    using sorted that unfolding sorted_wrt_append by blast
  have shown: "tt_counts t (ti_Name i) = Some (ti_Count i)" if "i \<in> set ?s" for i
    using that unfolding s(2) by (auto simp: top_item_of_def map_get_def)
  have "c \<le> ti_Count i" if "tt_counts t k = Some c" "k \<notin> ti_Name ` set (take n ?s)" "i \<in> set (take n ?s)" for k c i
  proof -
    have "?item k \<in> set ?s" unfolding s(2) using that(1) by blast
    moreover have "?item k \<notin> set (take n ?s)" 
    proof
      assume "?item k \<in> set (take n ?s)"
      then have "ti_Name (?item k) \<in> ti_Name ` set (take n ?s)" by (rule imageI)
      then show False using that(2) unfolding item(1) by blast
    qed
    ultimately have "?item k \<in> set (drop n ?s)" by (rule in_drop)
    from cross[OF that(3) this] show ?thesis unfolding item(2)[OF that(1)] .
  qed
  moreover have "sorted_wrt (\<lambda>a b. ti_Count b \<le> ti_Count a) (take n ?s)" using sorted unfolding sorted_wrt_append by blast
  moreover have "length (take n ?s) = min n (card (dom (tt_counts t)))" unfolding length_take s(3) by (rule min.commute)
  moreover have "\<forall>i \<in> set (take n ?s). tt_counts t (ti_Name i) = Some (ti_Count i)"
    using shown set_take_subset[of n ?s] by blast
  ultimately show ?thesis unfolding r by blast
qed

theorem top_ips_sorted_witness:
  "length (get_top_blocked_ips (\<lambda>_. []) [''a'', ''b''] 1 (inc_blocked_ip 3 ''b'' '''' (inc_blocked_ip 2 ''a'' ''''
     \<lparr>tt_counts = Map.empty, tt_times = Map.empty, tt_extra = [Map.empty]\<rparr>))) = 1"
proof -
  let ?t = "inc_blocked_ip 3 ''b'' '''' (inc_blocked_ip 2 ''a'' '''' \<lparr>tt_counts = Map.empty, tt_times = Map.empty, tt_extra = [Map.empty]\<rparr>)"
  have d: "set [''a'', ''b''] = dom (tt_counts ?t)" by (auto simp: inc_blocked_ip_def inc_top_def dom_bump)
  have "length (get_top_blocked_ips (\<lambda>_. []) [''a'', ''b''] 1 ?t) = min 1 (card (dom (tt_counts ?t)))"
    using top_ips_sorted[OF _ d] by simp
  then show ?thesis unfolding d[symmetric] by simp
qed

theorem inc_total_finishes_witness:
  "fst (run_incs (replicate 4 (0, 7)) ([Decide 7 5], \<lparr>rc_total = 3, rc_lastRequests = 2, rc_lastTimestamp = 6\<rparr>)) ! 0 = Inc_Done"
  using inc_total_finishes[of 0 "[Decide 7 5]" 7 "\<lparr>rc_total = 3, rc_lastRequests = 2, rc_lastTimestamp = 6\<rparr>"] by simp

end
