(* ===== verification/QueryCache.thy ===== *)
theory QueryCache
  imports Prelude
begin

text \<open>
  The cache of the queries on the log (\<open>infra/storage/logdb/cache.go\<close>): entries with an age, and one load at a time per key.

  \<^item> Each operation on the entries holds the lock of the cache and is one function; Go's order of iteration is an argument.
  \<^item> \<open>GetOrLoad\<close> holds no lock while it loads. A goroutine is its key with the point it has reached; \<open>load_step\<close> is one
    of its atomic steps, \<open>None\<close> while it waits. The calls in flight are objects of an explicit heap. What the query answers, or the panic it
    ends with, is an argument.
  \<^item> A value of type \<open>interface{}\<close> is an option, \<open>None\<close> for \<open>nil\<close>.

  Proved: one load at a time per key; what a goroutine that waits can be given, and that it can be given nothing at all;
  the bound of the cache and the age of what it answers.
\<close>

section \<open>Entries\<close>

record 'a cache_entry =
  qe_data :: "'a option"
  qe_createdAt :: instant
  qe_hits :: nat

record 'a query_cache =
  qc_entries :: "string \<rightharpoonup> 'a cache_entry"
  qc_maxSize :: nat
  qc_ttl :: duration

definition new_query_cache :: "nat \<Rightarrow> duration \<Rightarrow> 'a query_cache" where
  "new_query_cache maxSize ttl = \<lparr>qc_entries = Map.empty, qc_maxSize = maxSize, qc_ttl = ttl\<rparr>"

definition qc_get :: "instant \<Rightarrow> string \<Rightarrow> 'a query_cache \<Rightarrow> 'a option option \<times> 'a query_cache" where
  "qc_get now key c =
     (case qc_entries c key of
        None \<Rightarrow> (None, c)
      | Some entry \<Rightarrow>
          if time_sub now (qe_createdAt entry) > qc_ttl c then (None, c)
          else (Some (qe_data entry), c\<lparr>qc_entries := (qc_entries c)(key \<mapsto> entry\<lparr>qe_hits := qe_hits entry + 1\<rparr>)\<rparr>))"

definition older :: "'a query_cache \<Rightarrow> string \<times> instant \<Rightarrow> string \<Rightarrow> string \<times> instant" where
  "older c = (\<lambda>(oldestKey, oldestTime) key.
     case qc_entries c key of
       None \<Rightarrow> (oldestKey, oldestTime)
     | Some entry \<Rightarrow>
         if oldestKey = '''' \<or> qe_createdAt entry < oldestTime then (key, qe_createdAt entry) else (oldestKey, oldestTime))"

definition evict_oldest :: "string list \<Rightarrow> 'a query_cache \<Rightarrow> 'a query_cache" where
  "evict_oldest order c =
     (let oldestKey = fst (foldl (older c) ('''', zero_time) order)
      in if oldestKey \<noteq> '''' then c\<lparr>qc_entries := (qc_entries c)(oldestKey := None)\<rparr> else c)"

definition qc_set :: "instant \<Rightarrow> string list \<Rightarrow> string \<Rightarrow> 'a option \<Rightarrow> 'a query_cache \<Rightarrow> 'a query_cache" where
  "qc_set now order key data c =
     (let c = (if card (dom (qc_entries c)) \<ge> qc_maxSize c then evict_oldest order c else c)
      in c\<lparr>qc_entries := (qc_entries c)(key \<mapsto> \<lparr>qe_data = data, qe_createdAt = now, qe_hits = 0\<rparr>)\<rparr>)"

definition qc_delete :: "string \<Rightarrow> 'a query_cache \<Rightarrow> 'a query_cache" where
  "qc_delete key c = c\<lparr>qc_entries := (qc_entries c)(key := None)\<rparr>"

definition qc_clear :: "'a query_cache \<Rightarrow> 'a query_cache" where
  "qc_clear c = c\<lparr>qc_entries := Map.empty\<rparr>"

definition qc_stats :: "string list \<Rightarrow> 'a query_cache \<Rightarrow> nat \<times> nat \<times> nat \<times> duration" where
  "qc_stats order c =
     (card (dom (qc_entries c)), qc_maxSize c,
      sum_list (map (\<lambda>k. case qc_entries c k of None \<Rightarrow> 0 | Some e \<Rightarrow> qe_hits e) order), qc_ttl c)"

definition qc_cleanup :: "instant \<Rightarrow> 'a query_cache \<Rightarrow> 'a query_cache" where
  "qc_cleanup now c =
     c\<lparr>qc_entries := (\<lambda>k. case qc_entries c k of None \<Rightarrow> None
        | Some e \<Rightarrow> if time_sub now (qe_createdAt e) > qc_ttl c then None else Some e)\<rparr>"

section \<open>Loading\<close>

record 'a sf_call =
  sc_wg :: nat
  sc_val :: "'a option"
  sc_err :: "string option"

datatype 'a answer = Returns "'a option" "string option" | Panics string

datatype 'a point =
    At_Get
  | At_Do
  | At_Add nat
  | At_Fn nat
  | At_Done nat
  | At_Remove nat
  | At_Wait nat
  | At_Set "'a option"
  | Answered "'a option" "string option"

record 'a loading =
  ld_cache :: "'a query_cache"
  ld_calls :: "string \<rightharpoonup> nat"
  ld_heap :: "'a sf_call list"

definition upd_call :: "nat \<Rightarrow> ('a sf_call \<Rightarrow> 'a sf_call) \<Rightarrow> 'a loading \<Rightarrow> 'a loading" where
  "upd_call c f s = s\<lparr>ld_heap := (ld_heap s)[c := f (ld_heap s ! c)]\<rparr>"

text \<open>What \<open>GetOrLoad\<close> does with the result of \<open>Do\<close>.\<close>

definition after_do :: "'a sf_call \<Rightarrow> 'a point" where
  "after_do call = (if sc_err call \<noteq> None then Answered None (sc_err call) else At_Set (sc_val call))"

definition run_fn :: "'a answer \<Rightarrow> 'a sf_call \<Rightarrow> 'a sf_call" where
  "run_fn answer call =
     (case answer of
        Returns v e \<Rightarrow> call\<lparr>sc_val := v, sc_err := e\<rparr>
      | Panics msg \<Rightarrow> call\<lparr>sc_err := Some (''singleflight panic: '' @ msg)\<rparr>)"

fun load_step ::
  "instant \<Rightarrow> string list \<Rightarrow> 'a answer \<Rightarrow> string \<Rightarrow> 'a point \<Rightarrow> 'a loading \<Rightarrow> ('a point \<times> 'a loading) option" where
  "load_step now order answer key At_Get s =
     (case qc_get now key (ld_cache s) of
        (Some d, c) \<Rightarrow> Some (Answered d None, s\<lparr>ld_cache := c\<rparr>)
      | (None, c) \<Rightarrow> Some (At_Do, s\<lparr>ld_cache := c\<rparr>))"
| "load_step now order answer key At_Do s =
     (case ld_calls s key of
        Some c \<Rightarrow> Some (At_Wait c, s)
      | None \<Rightarrow>
          let c = length (ld_heap s)
          in Some (At_Add c, s\<lparr>ld_calls := (ld_calls s)(key \<mapsto> c),
                              ld_heap := ld_heap s @ [\<lparr>sc_wg = 0, sc_val = None, sc_err = None\<rparr>]\<rparr>))"
| "load_step now order answer key (At_Add c) s = Some (At_Fn c, upd_call c (\<lambda>k. k\<lparr>sc_wg := sc_wg k + 1\<rparr>) s)"
| "load_step now order answer key (At_Fn c) s = Some (At_Done c, upd_call c (run_fn answer) s)"
| "load_step now order answer key (At_Done c) s = Some (At_Remove c, upd_call c (\<lambda>k. k\<lparr>sc_wg := sc_wg k - 1\<rparr>) s)"
| "load_step now order answer key (At_Remove c) s =
     Some (after_do (ld_heap s ! c), s\<lparr>ld_calls := (ld_calls s)(key := None)\<rparr>)"
| "load_step now order answer key (At_Wait c) s =
     (if sc_wg (ld_heap s ! c) = 0 then Some (after_do (ld_heap s ! c), s) else None)"
| "load_step now order answer key (At_Set d) s =
     Some (Answered d None, s\<lparr>ld_cache := qc_set now order key d (ld_cache s)\<rparr>)"
| "load_step now order answer key (Answered d e) s = None"

text \<open>Goroutine \<open>i\<close> takes a step.\<close>

inductive loading_step :: "(string \<times> 'a point) list \<times> 'a loading \<Rightarrow> (string \<times> 'a point) list \<times> 'a loading \<Rightarrow> bool" where
  step: "i < length gs \<Longrightarrow> gs ! i = (key, p) \<Longrightarrow> load_step now order answer key p s = Some (p', s') \<Longrightarrow>
    loading_step (gs, s) (gs[i := (key, p')], s')"

inductive loads :: "(string \<times> 'a point) list \<times> 'a loading \<Rightarrow> bool" where
  init: "loads (map (\<lambda>key. (key, At_Get)) keys, \<lparr>ld_cache = c, ld_calls = Map.empty, ld_heap = []\<rparr>)"
| more: "loads st \<Longrightarrow> loading_step st st' \<Longrightarrow> loads st'"

inductive_cases loading_stepE: "loading_step (gs, s) st'"

section \<open>One load at a time\<close>

text \<open>The call a goroutine is in charge of.\<close>

definition leads :: "'a point \<Rightarrow> nat option" where
  "leads p = (case p of At_Add c \<Rightarrow> Some c | At_Fn c \<Rightarrow> Some c | At_Done c \<Rightarrow> Some c | At_Remove c \<Rightarrow> Some c | _ \<Rightarrow> None)"

lemma leads_simps [simp]:
  "leads At_Get = None" "leads At_Do = None" "leads (At_Add c) = Some c" "leads (At_Fn c) = Some c"
  "leads (At_Done c) = Some c" "leads (At_Remove c) = Some c" "leads (At_Wait c) = None" "leads (At_Set d) = None"
  "leads (Answered d e) = None"
  by (simp_all add: leads_def)

text \<open>The counter of a call is one while its leader has the function before it, and zero before and after.\<close>

definition call_ok :: "'a point \<Rightarrow> 'a sf_call \<Rightarrow> bool" where
  "call_ok p call \<longleftrightarrow>
     (case p of
        At_Add c \<Rightarrow> sc_wg call = 0 \<and> sc_val call = None \<and> sc_err call = None
      | At_Fn c \<Rightarrow> sc_wg call = 1
      | At_Done c \<Rightarrow> sc_wg call = 1
      | At_Remove c \<Rightarrow> sc_wg call = 0
      | _ \<Rightarrow> True)"

definition loading_inv :: "(string \<times> 'a point) list \<times> 'a loading \<Rightarrow> bool" where
  "loading_inv = (\<lambda>(gs, s).
     (\<forall>i < length gs. \<forall>c. leads (snd (gs ! i)) = Some c \<longrightarrow>
        ld_calls s (fst (gs ! i)) = Some c \<and> c < length (ld_heap s) \<and> call_ok (snd (gs ! i)) (ld_heap s ! c)) \<and>
     (\<forall>i < length gs. \<forall>j < length gs. \<forall>c. leads (snd (gs ! i)) = Some c \<longrightarrow> leads (snd (gs ! j)) = Some c \<longrightarrow> i = j) \<and>
     (\<forall>key c. ld_calls s key = Some c \<longrightarrow> (\<exists>i < length gs. fst (gs ! i) = key \<and> leads (snd (gs ! i)) = Some c)) \<and>
     (\<forall>c < length (ld_heap s). (\<forall>i < length gs. leads (snd (gs ! i)) \<noteq> Some c) \<longrightarrow> sc_wg (ld_heap s ! c) = 0))"

lemma loading_invD:
  assumes "loading_inv (gs, s)"
  shows "i < length gs \<Longrightarrow> leads (snd (gs ! i)) = Some c \<Longrightarrow>
      ld_calls s (fst (gs ! i)) = Some c \<and> c < length (ld_heap s) \<and> call_ok (snd (gs ! i)) (ld_heap s ! c)"
    and "\<lbrakk>i < length gs; j < length gs; leads (snd (gs ! i)) = Some c; leads (snd (gs ! j)) = Some c\<rbrakk> \<Longrightarrow> i = j"
    and "ld_calls s key = Some c \<Longrightarrow> \<exists>i < length gs. fst (gs ! i) = key \<and> leads (snd (gs ! i)) = Some c"
    and "\<lbrakk>c < length (ld_heap s); \<And>i. i < length gs \<Longrightarrow> leads (snd (gs ! i)) \<noteq> Some c\<rbrakk> \<Longrightarrow> sc_wg (ld_heap s ! c) = 0"
  using assms unfolding loading_inv_def by blast+

lemma loading_invI:
  assumes "length gs = n"
    and "\<And>i c. i < n \<Longrightarrow> leads (snd (gs ! i)) = Some c \<Longrightarrow>
      ld_calls s (fst (gs ! i)) = Some c \<and> c < length (ld_heap s) \<and> call_ok (snd (gs ! i)) (ld_heap s ! c)"
    and "\<And>i j c. \<lbrakk>i < n; j < n; leads (snd (gs ! i)) = Some c; leads (snd (gs ! j)) = Some c\<rbrakk> \<Longrightarrow> i = j"
    and "\<And>key c. ld_calls s key = Some c \<Longrightarrow> \<exists>i < n. fst (gs ! i) = key \<and> leads (snd (gs ! i)) = Some c"
    and "\<And>c. \<lbrakk>c < length (ld_heap s); \<And>i. i < n \<Longrightarrow> leads (snd (gs ! i)) \<noteq> Some c\<rbrakk> \<Longrightarrow> sc_wg (ld_heap s ! c) = 0"
  shows "loading_inv (gs, s)"
  unfolding loading_inv_def prod.case assms(1) using assms(2-5) by blast

text \<open>A step that keeps what the goroutine leads changes at most the call it leads.\<close>

lemma inv_keep:
  assumes inv: "loading_inv (gs, s)" and i: "i < length gs" "gs ! i = (key, p)"
    and same: "leads p' = leads p" "ld_calls s' = ld_calls s" "length (ld_heap s') = length (ld_heap s)"
    and frame: "\<And>d. leads p \<noteq> Some d \<Longrightarrow> ld_heap s' ! d = ld_heap s ! d"
    and ok: "\<And>c. leads p = Some c \<Longrightarrow> c < length (ld_heap s) \<Longrightarrow> call_ok p (ld_heap s ! c) \<Longrightarrow> call_ok p' (ld_heap s' ! c)"
  shows "loading_inv (gs[i := (key, p')], s')"
proof -
  let ?gs = "gs[i := (key, p')]"
  have lead: "leads (snd (?gs ! j)) = leads (snd (gs ! j))" "fst (?gs ! j) = fst (gs ! j)" if "j < length gs" for j
    using that i same(1) by (auto simp: nth_list_update)
  have c1: "ld_calls s' (fst (?gs ! j)) = Some c \<and> c < length (ld_heap s') \<and> call_ok (snd (?gs ! j)) (ld_heap s' ! c)"
    if j: "j < length gs" "leads (snd (?gs ! j)) = Some c" for j c
  proof (cases "j = i")
    case True
    then have "leads p = Some c" using j(2) i same(1) by simp
    then show ?thesis using loading_invD(1)[OF inv i(1), of c] i True same ok by simp
  next
    case False
    have lj: "leads (snd (gs ! j)) = Some c" using j lead by simp
    have "leads p \<noteq> Some c" using loading_invD(2)[OF inv j(1) i(1) lj] i(2) False by auto
    then show ?thesis using loading_invD(1)[OF inv j(1) lj] frame same False by simp
  qed
  have c4: "sc_wg (ld_heap s' ! c) = 0" if c: "c < length (ld_heap s')" "\<And>j. j < length gs \<Longrightarrow> leads (snd (?gs ! j)) \<noteq> Some c" for c
  proof -
    have "leads (snd (gs ! j)) \<noteq> Some c" if "j < length gs" for j using c(2)[OF that] lead(1)[OF that] by simp
    then show ?thesis using loading_invD(4)[OF inv, of c] c(1) frame[of c] same(3) i by (metis snd_conv)
  qed
  have c3: "\<exists>j < length gs. fst (?gs ! j) = k \<and> leads (snd (?gs ! j)) = Some c" if "ld_calls s' k = Some c" for k c
  proof -
    have "ld_calls s k = Some c" using that same(2) by simp
    from loading_invD(3)[OF inv this]
    obtain j where "j < length gs" "fst (gs ! j) = k" "leads (snd (gs ! j)) = Some c" by blast
    then show ?thesis using lead by (intro exI[of _ j]) simp
  qed
  have c2: "j = k" if "j < length gs" "k < length gs" "leads (snd (?gs ! j)) = Some c" "leads (snd (?gs ! k)) = Some c" for j k c
    using loading_invD(2)[OF inv that(1,2), of c] that lead by simp
  show ?thesis by (rule loading_invI[OF _ c1 c2 c3 c4]) auto
qed

lemma inv_new_call:
  assumes inv: "loading_inv (gs, s)" and i: "i < length gs" "gs ! i = (key, At_Do)" and none: "ld_calls s key = None"
    and s': "ld_calls s' = (ld_calls s)(key \<mapsto> length (ld_heap s))"
      "ld_heap s' = ld_heap s @ [\<lparr>sc_wg = 0, sc_val = None, sc_err = None\<rparr>]"
  shows "loading_inv (gs[i := (key, At_Add (length (ld_heap s)))], s')"
proof -
  let ?n = "length (ld_heap s)" and ?gs = "gs[i := (key, At_Add (length (ld_heap s)))]"
  have at: "?gs ! j = (if j = i then (key, At_Add ?n) else gs ! j)" if "j < length gs" for j
    using that by (simp add: nth_list_update)
  have old: "ld_calls s (fst (gs ! j)) = Some c \<and> c < ?n \<and> call_ok (snd (gs ! j)) (ld_heap s ! c) \<and> fst (gs ! j) \<noteq> key"
    if "j < length gs" "leads (snd (gs ! j)) = Some c" for j c
    using loading_invD(1)[OF inv that] none by auto
  have c1: "ld_calls s' (fst (?gs ! j)) = Some c \<and> c < length (ld_heap s') \<and> call_ok (snd (?gs ! j)) (ld_heap s' ! c)"
    if "j < length gs" "leads (snd (?gs ! j)) = Some c" for j c
    using that at[OF that(1)] old[of j c] s' by (auto simp: nth_append call_ok_def split: if_splits)
  have c2: "j = k" if "j < length gs" "k < length gs" "leads (snd (?gs ! j)) = Some c" "leads (snd (?gs ! k)) = Some c" for j k c
    using that at[OF that(1)] at[OF that(2)] old[of j c] old[of k c] loading_invD(2)[OF inv that(1,2)]
    by (auto split: if_splits)
  have c3: "\<exists>j < length gs. fst (?gs ! j) = k \<and> leads (snd (?gs ! j)) = Some c" if "ld_calls s' k = Some c" for k c
  proof (cases "k = key")
    case True
    then show ?thesis using that s'(1) at[OF i(1)] i(1) by (intro exI[of _ i]) simp
  next
    case False
    then have "ld_calls s k = Some c" using that s'(1) by simp
    from loading_invD(3)[OF inv this]
    obtain j where j: "j < length gs" "fst (gs ! j) = k" "leads (snd (gs ! j)) = Some c" by blast
    then have "j \<noteq> i" using i(2) by auto
    then show ?thesis using j at[OF j(1)] by auto
  qed
  have c4: "sc_wg (ld_heap s' ! c) = 0" if c: "c < length (ld_heap s')" "\<And>j. j < length gs \<Longrightarrow> leads (snd (?gs ! j)) \<noteq> Some c" for c
  proof (cases "c = ?n")
    case False
    have "leads (snd (gs ! j)) \<noteq> Some c" if "j < length gs" for j
      using c(2)[OF that] at[OF that] i(2) by (auto split: if_splits)
    then show ?thesis using loading_invD(4)[OF inv, of c] c(1) s'(2) False by (auto simp: nth_append)
  qed (simp add: s'(2))
  show ?thesis by (rule loading_invI[OF _ c1 c2 c3 c4]) auto
qed

lemma inv_remove:
  assumes inv: "loading_inv (gs, s)" and i: "i < length gs" "gs ! i = (key, At_Remove c)" and p': "leads p' = None"
    and s': "ld_calls s' = (ld_calls s)(key := None)" "ld_heap s' = ld_heap s"
  shows "loading_inv (gs[i := (key, p')], s')"
proof -
  let ?gs = "gs[i := (key, p')]"
  have at: "?gs ! j = (if j = i then (key, p') else gs ! j)" if "j < length gs" for j
    using that by (simp add: nth_list_update)
  have li: "leads (snd (gs ! i)) = Some c" using i(2) by (simp add: leads_def)
  have own: "ld_calls s key = Some c" "sc_wg (ld_heap s ! c) = 0"
    using loading_invD(1)[OF inv i(1) li] i(2) by (auto simp: call_ok_def)
  have other: "j \<noteq> i \<and> fst (gs ! j) \<noteq> key" if j: "j < length gs" "leads (snd (?gs ! j)) = Some d" for j d
  proof -
    have ji: "j \<noteq> i" using j at[OF j(1)] p' by auto
    then have lj: "leads (snd (gs ! j)) = Some d" using j at[OF j(1)] by simp
    then have "d \<noteq> c" using loading_invD(2)[OF inv j(1) i(1) lj] li ji by auto
    then show ?thesis using ji own(1) loading_invD(1)[OF inv j(1) lj] by auto
  qed
  have c1: "ld_calls s' (fst (?gs ! j)) = Some d \<and> d < length (ld_heap s') \<and> call_ok (snd (?gs ! j)) (ld_heap s' ! d)"
    if j: "j < length gs" "leads (snd (?gs ! j)) = Some d" for j d
    using other[OF j] at[OF j(1)] j(2) loading_invD(1)[OF inv j(1), of d] s' by auto
  have c2: "j = k" if "j < length gs" "k < length gs" "leads (snd (?gs ! j)) = Some d" "leads (snd (?gs ! k)) = Some d" for j k d
    using that at[OF that(1)] at[OF that(2)] loading_invD(2)[OF inv that(1,2)] p' by (auto split: if_splits)
  have c3: "\<exists>j < length gs. fst (?gs ! j) = k \<and> leads (snd (?gs ! j)) = Some d" if "ld_calls s' k = Some d" for k d
  proof -
    have k: "k \<noteq> key" "ld_calls s k = Some d" using that s'(1) by (auto split: if_splits)
    then obtain j where j: "j < length gs" "fst (gs ! j) = k" "leads (snd (gs ! j)) = Some d"
      using loading_invD(3)[OF inv] by blast
    then show ?thesis using k(1) i(2) at[OF j(1)] by (intro exI[of _ j]) auto
  qed
  have c4: "sc_wg (ld_heap s' ! d) = 0" if d: "d < length (ld_heap s')" "\<And>j. j < length gs \<Longrightarrow> leads (snd (?gs ! j)) \<noteq> Some d" for d
  proof (cases "d = c")
    case False
    have "leads (snd (gs ! j)) \<noteq> Some d" if "j < length gs" for j
      using d(2)[OF that] at[OF that] li False by (auto split: if_splits)
    then show ?thesis using loading_invD(4)[OF inv, of d] d(1) s'(2) by simp
  qed (simp add: s'(2) own)
  show ?thesis by (rule loading_invI[OF _ c1 c2 c3 c4]) auto
qed

lemma leads_after_do [simp]: "leads (after_do call) = None"
  by (simp add: after_do_def leads_def)

lemma upd_call_simps [simp]:
  "ld_calls (upd_call c f s) = ld_calls s" "length (ld_heap (upd_call c f s)) = length (ld_heap s)"
  "d \<noteq> c \<Longrightarrow> ld_heap (upd_call c f s) ! d = ld_heap s ! d"
  "c < length (ld_heap s) \<Longrightarrow> ld_heap (upd_call c f s) ! c = f (ld_heap s ! c)"
  by (simp_all add: upd_call_def)

lemma run_fn_wg [simp]: "sc_wg (run_fn answer call) = sc_wg call"
  by (simp add: run_fn_def split: answer.split)

lemma inv_step:
  assumes inv: "loading_inv (gs, s)" and i: "i < length gs" "gs ! i = (key, p)"
    and st: "load_step now order answer key p s = Some (p', s')"
  shows "loading_inv (gs[i := (key, p')], s')"
proof (cases p)
  case At_Get
  then show ?thesis using st by (auto intro!: inv_keep[OF inv i] simp: leads_def split: prod.splits option.splits)
next
  case At_Do
  show ?thesis
  proof (cases "ld_calls s key")
    case None
    then show ?thesis using st At_Do i by (auto intro!: inv_new_call[OF inv] simp: Let_def)
  next
    case (Some c)
    then show ?thesis using st At_Do by (auto intro!: inv_keep[OF inv i] simp: leads_def)
  qed
next
  case (At_Remove c)
  then show ?thesis using st i by (auto intro!: inv_remove[OF inv])
next
  case (At_Wait c)
  then show ?thesis using st by (auto intro!: inv_keep[OF inv i] simp: leads_def[of "At_Wait c"] split: if_splits)
qed (use st in \<open>auto intro!: inv_keep[OF inv i] simp: leads_def call_ok_def\<close>)

lemma loads_inv: "loads st \<Longrightarrow> loading_inv st"
proof (induction rule: loads.induct)
  case (init keys c)
  then show ?case by (auto simp: loading_inv_def leads_def)
next
  case (more st st')
  obtain gs s where "st = (gs, s)" by fastforce
  then show ?case using more inv_step by (auto elim!: loading_stepE)
qed

text \<open>
  C36. However goroutines interleave, at most one of them loads a key at any moment.
\<close>

theorem one_load_per_key:
  assumes "loads (gs, s)" and "i < length gs" "j < length gs" "i \<noteq> j"
    and "leads (snd (gs ! i)) \<noteq> None" "leads (snd (gs ! j)) \<noteq> None"
  shows "fst (gs ! i) \<noteq> fst (gs ! j)"
proof
  assume same: "fst (gs ! i) = fst (gs ! j)"
  have inv: "loading_inv (gs, s)" by (rule loads_inv[OF assms(1)])
  obtain c d where "leads (snd (gs ! i)) = Some c" "leads (snd (gs ! j)) = Some d" using assms(5,6) by auto
  moreover from this have "c = d"
    using loading_invD(1)[OF inv assms(2)] loading_invD(1)[OF inv assms(3)] same by fastforce
  ultimately show False using loading_invD(2)[OF inv assms(2,3)] assms(4) by auto
qed

text \<open>
  What a goroutine that waits goes on with: as long as the call is in charge of its leader, either the leader has run the function,
  and both get the same; or the leader has not yet announced that it will run it, and the other one gets nothing and no error.
\<close>

theorem waiter_gets:
  assumes "loads (gs, s)" and "i < length gs" "gs ! i = (key, At_Wait c)" and "j < length gs" "leads (snd (gs ! j)) = Some c"
    and "load_step now order answer key (At_Wait c) s = Some (p, s')"
  shows "snd (gs ! j) = At_Remove c \<and> (\<exists>s''. load_step now' order' answer' key' (At_Remove c) s = Some (p, s'')) \<or>
    snd (gs ! j) = At_Add c \<and> p = At_Set None"
proof -
  have ok: "call_ok (snd (gs ! j)) (ld_heap s ! c)"
    using loading_invD(1)[OF loads_inv[OF assms(1)] assms(4,5)] by simp
  have wg: "sc_wg (ld_heap s ! c) = 0" "p = after_do (ld_heap s ! c)" using assms(6) by (auto split: if_splits)
  show ?thesis
    using assms(5) ok wg by (cases "snd (gs ! j)") (auto simp: leads_def call_ok_def after_do_def)
qed

text \<open>A run in which that happens: the second goroutine waits before the first has announced its call, and the cache keeps
  the nothing it got until the first one stores its result.\<close>

lemma loads_step:
  "loads (gs, s) \<Longrightarrow> i < length gs \<Longrightarrow> gs ! i = (key, p) \<Longrightarrow> load_step now order answer key p s = Some (p', s') \<Longrightarrow>
   gs' = gs[i := (key, p')] \<Longrightarrow> loads (gs', s')"
  using loads.more loading_step.step by metis

definition no_call :: "'a sf_call" where
  "no_call = \<lparr>sc_wg = 0, sc_val = None, sc_err = None\<rparr>"

definition start_loading :: "nat loading" where
  "start_loading = \<lparr>ld_cache = new_query_cache 10 300, ld_calls = Map.empty, ld_heap = []\<rparr>"

lemma sample_loads:
  "loads ([(''q'', At_Add 0), (''q'', At_Wait 0)], start_loading\<lparr>ld_calls := [''q'' \<mapsto> 0], ld_heap := [no_call]\<rparr>)"
proof -
  have 0: "loads ([(''q'', At_Get), (''q'', At_Get)], start_loading)"
    using loads.init[of "[''q'', ''q'']" "new_query_cache 10 300"] by (simp add: start_loading_def)
  have 1: "loads ([(''q'', At_Do), (''q'', At_Get)], start_loading)"
    by (rule loads_step[OF 0, of 0 "''q''" At_Get 0 "[]" "Panics ''''"])
      (simp_all add: start_loading_def qc_get_def new_query_cache_def)
  have 2: "loads ([(''q'', At_Do), (''q'', At_Do)], start_loading)"
    by (rule loads_step[OF 1, of 1 "''q''" At_Get 0 "[]" "Panics ''''"])
      (simp_all add: start_loading_def qc_get_def new_query_cache_def)
  have 3: "loads ([(''q'', At_Add 0), (''q'', At_Do)], start_loading\<lparr>ld_calls := [''q'' \<mapsto> 0], ld_heap := [no_call]\<rparr>)"
    by (rule loads_step[OF 2, of 0 "''q''" At_Do 0 "[]" "Panics ''''"])
      (simp_all add: start_loading_def no_call_def Let_def)
  show ?thesis
    by (rule loads_step[OF 3, of 1 "''q''" At_Do 0 "[]" "Panics ''''"])
      (simp_all add: start_loading_def)
qed

theorem waiter_gets_witness:
  "\<exists>p s'. load_step 0 [] (Panics '''') ''q'' (At_Wait 0) (start_loading\<lparr>ld_calls := [''q'' \<mapsto> 0], ld_heap := [no_call]\<rparr>) = Some (p, s') \<and> p = At_Set None"
proof -
  let ?s = "start_loading\<lparr>ld_calls := [''q'' \<mapsto> 0], ld_heap := [no_call]\<rparr>"
  obtain p s' where st: "load_step 0 [] (Panics '''') ''q'' (At_Wait 0) ?s = Some (p, s')"
    by (simp add: no_call_def)
  have "leads (snd ([(''q'', At_Add 0), (''q'', At_Wait 0)] ! 0)) = Some 0" by simp
  from waiter_gets[OF sample_loads _ _ _ this st, of 1] st show ?thesis by simp
qed

definition two_loads :: "(string \<times> nat point) list" where
  "two_loads = [(''p'', At_Add 0), (''q'', At_Add 1)]"

theorem one_load_per_key_witness: "fst (two_loads ! 0) \<noteq> fst (two_loads ! 1)"
proof -
  let ?s = "start_loading\<lparr>ld_calls := [''p'' \<mapsto> 0], ld_heap := [no_call]\<rparr>"
  have 0: "loads ([(''p'', At_Get), (''q'', At_Get)], start_loading)"
    using loads.init[of "[''p'', ''q'']" "new_query_cache 10 300"] by (simp add: start_loading_def)
  have 1: "loads ([(''p'', At_Do), (''q'', At_Get)], start_loading)"
    by (rule loads_step[OF 0, of 0 "''p''" At_Get 0 "[]" "Panics ''''"])
      (simp_all add: start_loading_def qc_get_def new_query_cache_def)
  have 2: "loads ([(''p'', At_Do), (''q'', At_Do)], start_loading)"
    by (rule loads_step[OF 1, of 1 "''q''" At_Get 0 "[]" "Panics ''''"])
      (simp_all add: start_loading_def qc_get_def new_query_cache_def)
  have 3: "loads ([(''p'', At_Add 0), (''q'', At_Do)], ?s)"
    by (rule loads_step[OF 2, of 0 "''p''" At_Do 0 "[]" "Panics ''''"])
      (simp_all add: start_loading_def no_call_def Let_def)
  have 4: "loads (two_loads, ?s\<lparr>ld_calls := [''p'' \<mapsto> 0, ''q'' \<mapsto> 1], ld_heap := [no_call, no_call]\<rparr>)"
    by (rule loads_step[OF 3, of 1 "''q''" At_Do 0 "[]" "Panics ''''"])
      (simp_all add: start_loading_def no_call_def two_loads_def Let_def)
  show ?thesis by (rule one_load_per_key[OF 4, of 0 1]) (simp_all add: two_loads_def)
qed

section \<open>Size and age\<close>

lemma older_result:
  "foldl (older c) acc order = (k, t) \<Longrightarrow> fst acc \<in> insert '''' (dom (qc_entries c)) \<Longrightarrow>
   k \<in> insert '''' (dom (qc_entries c)) \<and> (fst acc \<noteq> '''' \<or> (\<exists>j \<in> set order. j \<in> dom (qc_entries c) \<and> j \<noteq> '''') \<longrightarrow> '''' \<notin> dom (qc_entries c) \<longrightarrow> k \<noteq> '''')"
proof (induction order arbitrary: acc)
  case (Cons j order)
  have "fst (older c acc j) \<in> insert '''' (dom (qc_entries c))"
    using Cons.prems(2) by (cases acc) (auto simp: older_def split: option.splits if_splits)
  from Cons.IH[OF _ this] Cons.prems show ?case
    by (cases acc) (auto simp: older_def split: option.splits if_splits)
qed auto

text \<open>
  The cache never holds more entries than it may, provided no key is empty; and it answers nothing that is older than it
  may be.
\<close>

theorem query_cache_bounded:
  assumes "finite (dom (qc_entries c))" "'''' \<notin> dom (qc_entries c)" "key \<noteq> ''''" "set order = dom (qc_entries c)"
    and "card (dom (qc_entries c)) \<le> qc_maxSize c" "0 < qc_maxSize c"
  shows "card (dom (qc_entries (qc_set now order key d c))) \<le> qc_maxSize c \<and> '''' \<notin> dom (qc_entries (qc_set now order key d c)) \<and>
    (fst (qc_get later k (qc_set now order key d c)) \<noteq> None \<longrightarrow>
       (\<exists>e. qc_entries (qc_set now order key d c) k = Some e \<and> time_sub later (qe_createdAt e) \<le> qc_ttl c))"
proof -
  let ?c = "if card (dom (qc_entries c)) \<ge> qc_maxSize c then evict_oldest order c else c"
  have set: "qc_set now order key d c = ?c\<lparr>qc_entries := (qc_entries ?c)(key \<mapsto> \<lparr>qe_data = d, qe_createdAt = now, qe_hits = 0\<rparr>)\<rparr>"
    by (simp add: qc_set_def Let_def)
  have c: "card (dom (qc_entries ?c)) < qc_maxSize c \<and> dom (qc_entries ?c) \<subseteq> dom (qc_entries c) \<and> qc_ttl ?c = qc_ttl c"
  proof (cases "card (dom (qc_entries c)) \<ge> qc_maxSize c")
    case True
    obtain k t where kt: "foldl (older c) ('''', zero_time) order = (k, t)" by fastforce
    have "dom (qc_entries c) \<noteq> {}" using True assms(6) by auto
    then obtain j where "j \<in> set order" "j \<in> dom (qc_entries c)" "j \<noteq> ''''" using assms(2,4) by blast
    then have k: "k \<noteq> ''''" "k \<in> dom (qc_entries c)" using older_result[OF kt] assms(2) by auto
    then have e: "evict_oldest order c = c\<lparr>qc_entries := (qc_entries c)(k := None)\<rparr>" by (simp add: evict_oldest_def kt Let_def)
    have "card (dom (qc_entries c) - {k}) < qc_maxSize c"
      using assms(1,5,6) k(2) card_Diff1_less[OF assms(1) k(2)] by linarith
    then show ?thesis using True e by simp
  qed auto
  have fin: "finite (dom (qc_entries ?c))" using c assms(1) finite_subset by blast
  have dom: "dom (qc_entries (qc_set now order key d c)) = insert key (dom (qc_entries ?c))" unfolding set by simp
  have "card (dom (qc_entries ?c)) \<le> qc_maxSize c - 1" using conjunct1[OF c] by linarith
  from card_insert_le_m1[OF assms(6) this] have "card (insert key (dom (qc_entries ?c))) \<le> qc_maxSize c" .
  moreover have "'''' \<notin> insert key (dom (qc_entries ?c))" using c assms(2,3) by blast
  moreover have "qc_ttl (qc_set now order key d c) = qc_ttl c" unfolding set using c by simp
  ultimately show ?thesis unfolding dom by (auto simp: qc_get_def split: option.splits if_splits)
qed

theorem query_cache_bounded_witness:
  "card (dom (qc_entries (qc_set 5 [''a''] ''b'' (Some True) \<lparr>qc_entries = [''a'' \<mapsto> \<lparr>qe_data = None, qe_createdAt = 1, qe_hits = 0\<rparr>],
     qc_maxSize = 1, qc_ttl = 9\<rparr>))) \<le> 1"
  using query_cache_bounded[of "\<lparr>qc_entries = [''a'' \<mapsto> \<lparr>qe_data = None, qe_createdAt = 1, qe_hits = 0\<rparr>], qc_maxSize = 1, qc_ttl = 9\<rparr>" "''b''" "[''a'']" 5 "Some True"]
  by simp

end
