(* ===== verification/Spec2Isabelle.thy ===== *)
theory Spec2Isabelle
  imports WeightedRR BackendSystem GroupRace RuleRace DomainRace RateLimiter SmartLimitProps DetectorProps DetectorLoad HeaderRules ForwardProps CertProps
    SessionProps AdminAuthProps LoginRace IntelSyncProps CidrTight ConfigVersionProps IntelUploadProps NotifyProps ServerManagerProps StatsProps QueryCache
begin

text \<open>
  GoWAF is a web application firewall: a reverse proxy that checks every request before it forwards it, with administration
  pages of its own. This development models its core in \<open>src/internal\<close>. It is read from the bottom up: the functions of Go the
  code relies on, the components, what holds of each, and what holds of their composition.

  \<^bold>\<open>How a request goes.\<close> A listener (\<open>ServerManager\<close>: \<open>proxy/server_manager.go\<close>) hands it to \<open>WAFProxy.ServeHTTP\<close>
  (\<open>Proxy\<close>: \<open>proxy/detect.go\<close>, \<open>ratelimit_check.go\<close>), which asks in turn the rules on addresses, countries, methods, paths and
  agents (\<open>RuleEngine\<close>), the bots (\<open>Bot\<close>), the limiters (\<open>RateLimiter\<close>, \<open>SmartLimit\<close>, \<open>AutoBlock\<close>), the body limits and the
  virtual patches (\<open>VPatch\<close>), the schemas (\<open>ApiSchema\<close>) and the attack detectors (\<open>DetectorManager\<close>). The answer is a refusal,
  a challenge, or the forwarding to a backend (\<open>Forward\<close>: \<open>proxy/forward.go\<close>) that the routes (\<open>ProxyConfig\<close>) and the balancing
  of \<open>BackendState\<close>, \<open>Balance\<close> and \<open>GroupRoute\<close> choose among those that \<open>Health\<close> found alive; the response is scanned on its way
  back (\<open>DlpRules\<close>, \<open>HeaderRules\<close>). Administrators come in through \<open>Session\<close>, \<open>AdminAuth\<close> and \<open>Login\<close>; the intelligence centre
  through \<open>IntelSync\<close> and \<open>IntelUpload\<close>; alerts leave through \<open>Notify\<close>.

  \<^bold>\<open>State and operations.\<close> A struct is a record with the fields of the code, a pointer that is shared is a number into an
  explicit heap (\<open>DetectCache\<close>, \<open>ServerManager\<close>), a map is a partial function or, where the order in which Go ranges over it matters,
  comes with its enumeration as an argument. An operation of the code is a function from the state to the state and its result;
  an error is a value (\<open>option\<close> or a sum), and a statement of the database that fails is an argument of the operation, so that each
  failure is a branch. Machine integers are words where they wrap (\<open>CidrMerge\<close>, \<open>Shards\<close>, \<open>Balance\<close>, \<open>Prescreen\<close>), strings are byte strings, \<open>float64\<close> is
  \<open>real\<close>, an instant is an integer number of nanoseconds.

  \<^bold>\<open>Locks and interleaving.\<close> An operation that holds the lock of its component for all it does is one step. Some do not, and
  are one function in the theory of the component and several steps elsewhere, with a lemma that the function is these steps
  in a row:
  \<^item> the group operations of the backend manager, which rebuild the route cache after giving the lock back
    (\<open>GroupRace\<close>, \<open>group_op_in_steps\<close>);
  \<^item> the operations on rules, which run a statement, six queries and a store (\<open>RuleRace\<close>, \<open>exec_then_load_in_steps\<close>);
  \<^item> the operations on domains and the look-ups, which change the table and the cache apart (\<open>DomainRace\<close>, \<open>operations_in_steps\<close>);
  \<^item> the login page, which locks only in its checks and records (\<open>LoginRace\<close>, \<open>login_page_in_steps\<close>);
  \<^item> \<open>Notify.evaluate_rule\<close>, which gives the lock back between \<open>count_event\<close> and \<open>begin_cooldown\<close>: what holds of events handled one
    after another is \<open>alerts_spaced\<close>, and \<open>side_by_side_alerts\<close> shows two at once;
  \<^item> the counters of \<open>Stats\<close> and the loads of \<open>QueryCache\<close>, modelled step by step in the first place.

  In each of the first four the theorem holds under every interleaving and names the exceptions, and a theorem shows that
  they occur (\<open>deleted_group_still_cached\<close>, \<open>added_rule_not_in_force\<close>, \<open>deleted_domain_still_served\<close>, \<open>late_guess\<close>). What is
  proved of these components elsewhere (\<open>BackendSystem\<close>, \<open>RuleProps\<close>, \<open>ProxyConfigProps\<close>, \<open>LoginProps\<close>) is about operations
  one after another. Other requests of the administration that combine several locked calls are one step as well.

  \<^bold>\<open>Go and the database.\<close>
  \<^item> \<open>Prelude\<close>, \<open>GoText\<close>, \<open>NetAddr\<close>, \<open>Http\<close>, \<open>Regexp\<close>: slices, maps and time; \<open>strings\<close>; \<open>net\<close>; headers, queries and cookies; the
    RE2 syntax with its matching, by fuel in the number of characters left.
  \<^item> \<open>SqlTable\<close>: a table and the memory built from it, with the locale \<open>cached_table\<close>: every operation keeps the memory equal to what
    the table gives. \<open>Shards\<close>: 64 locked maps as one map, with the locale \<open>keyed_store\<close>.

  \<^bold>\<open>Components and their theorems.\<close>
  \<^item> \<open>BackendState\<close>, \<open>BackendOps\<close>, \<open>Balance\<close>, \<open>GroupRoute\<close>, \<open>Health\<close> (\<open>backend/manager.go\<close>, \<open>group.go\<close>, \<open>health.go\<close>): \<open>BackendSystem\<close>
    makes every operation a step and proves the invariant of every reachable state, \<open>GroupRace\<close> what is left of it when the group
    operations interleave; the fast path of groups equals the locked scan, but for least connections; the weighted round robin is exactly fair (\<open>WeightedRR\<close>); the handlers of checks refine a state machine. The policies
    meet the locale \<open>backend_selector\<close>.
  \<^item> \<open>RuleEngine\<close>, \<open>PathDecode\<close>, \<open>CidrMerge\<close> (\<open>security/rules\<close>): the verdict as a function of the tables, what a merge keeps and
    drops, the normal form of paths, which operations take effect at once (\<open>RuleProps\<close>), also under concurrency (\<open>RuleRace\<close>); \<open>rangeToCIDRs\<close> ends within 64 rounds
    (\<open>CidrTight\<close>).
  \<^item> \<open>Window\<close>, \<open>Profile\<close>, \<open>ProfileStore\<close>, \<open>Intel\<close>, \<open>Config\<close>, \<open>SmartLimit\<close>, \<open>AutoBlock\<close> (\<open>security/ratelimit\<close>) and \<open>RateLimiter\<close>
    (\<open>security/limiter\<close>): contracts of the windows, the store as one map, the invariant and the decisions of the engine
    (\<open>SmartLimitProps\<close>), what an automatic block does under every failure.
  \<^item> \<open>DetectorRules\<close>, \<open>Detectors\<close>, \<open>Prescreen\<close>, \<open>DetectCache\<close>, \<open>DetectorManager\<close>, \<open>DetectorConfig\<close>, \<open>DetectorLoad\<close> (\<open>security/detector\<close>):
    the built-in tables row by row, the cache as a refinement of an LRU list, the sequential and the parallel run
    (\<open>DetectorProps\<close>).
  \<^item> \<open>Bot\<close>, \<open>DlpRules\<close>, \<open>VPatch\<close>, \<open>HeaderRules\<close>, \<open>ApiSchema\<close>, \<open>AsyncExtract\<close>, \<open>Masker\<close>: one table each; mostly instances of
    \<open>cached_table\<close>.
  \<^item> \<open>ProxyUtil\<close>, \<open>Proxy\<close>, \<open>Forward\<close>: \<open>ProxyProps\<close> proves once for a check (locales \<open>pipeline_check\<close>, \<open>commuting_check\<close>) and by
    composition for the pipeline what a forwarded request has passed; \<open>ForwardProps\<close> where it goes and what comes back.
  \<^item> \<open>ProxyConfig\<close>, \<open>CertStore\<close>, \<open>ServerManager\<close> with their \<open>Props\<close>: the cache of domains as a view of the table (\<open>DomainRace\<close>: under concurrency), look-ups of
    certificates, the servers shared by the proxies of one address.
  \<^item> \<open>Session\<close>, \<open>AdminAuth\<close>, \<open>Login\<close> with their \<open>Props\<close>: lifetimes, restarts, tokens, the number of wrong guesses (\<open>LoginRace\<close>: under concurrency).
  \<^item> \<open>RuntimeConfig\<close>, \<open>ConfigVersion\<close>, \<open>IntelConfig\<close>: settings, their merging and their snapshots.
  \<^item> \<open>IntelSync\<close>, \<open>IntelUpload\<close>, \<open>Notify\<close> with their \<open>Props\<close>: what a sync may touch, what is uploaded, how often a rule alerts.

  \<^bold>\<open>Parameters.\<close> Code that is not in the repository is an argument: \<open>bcrypt\<close>, \<open>x/time/rate\<close>, the parsers of X.509 and PEM, AES-GCM
  and SHA-256, the JSON and YAML codecs, the GeoIP database, the HTTP and SMTP peers, random bytes, clocks, the compiler
  of regular expressions where only its outcome counts, and the order of map iterations. What a theorem asks of them is
  among its hypotheses (an opening that inverts its sealing, an enumeration that lists the keys), and its witness has an instance.

  \<^bold>\<open>Fuel and bounds.\<close> Loops are recursions on the data where there is any, and total functions otherwise: \<open>rangeToCIDRs\<close> ends
  because the addresses grow. The star of \<open>Regexp\<close> recurses with what is left of the text, of which each of its rounds
  consumes something, and the parser of patterns with the length of the pattern, of which every call consumes something; so neither
  runs out. The rounds of \<open>PathDecode\<close> and the attempts of the retrying client are the bounds of the code.

  \<^bold>\<open>Not modelled.\<close> Statements that create or migrate tables; log lines and access logs; goroutines as such: a ticker, a worker and a
  listener are operations that may happen between any two others, and data races within a step are not seen. Reports,
  statistics and metrics, the storage of logs, the handlers of the administration that pass a decoded body to an operation modelled
  here, page rendering, the ACME and GeoIP clients, and the wiring in \<open>cmd/waf\<close>: they read or pass on what the components
  decide.
\<close>

end
